(* ===== verification/MclPrelude.thy ===== *)
theory MclPrelude
  imports Main "HOL-Library.Word" "HOL-Library.Monad_Syntax"
begin

text \<open>
  Shared vocabulary of the development: the return codes of the library, the result type of
  functions with an output parameter, C strings read with their terminator, the chains of
  \<open>if (MCL_OK == code) code = ...\<close> statements, and generic facts on lists and options.

  A \<open>NULL\<close>-able pointer to an object is an \<open>option\<close>. The outcome of an allocation is
  always an argument or part of a state (never assumed to succeed): \<open>False\<close>, or \<open>None\<close>
  where the address matters, is a \<open>NULL\<close> from \<open>mcl_memory_malloc\<close>.
\<close>

section \<open>Return codes\<close>

text \<open>
  \<open>E_MCL_CORE_RETURN_CODE\<close> followed by the codes of the connectivity, data lake and deployment
  libraries. Each of these enumerations starts where the core codes end, so their values overlap;
  no function returns codes of two of them.
\<close>

datatype mcl_error =
    MCL_OK | MCL_FAIL | MCL_TRIGGERED_WITH_NULL | MCL_OUT_OF_MEMORY | MCL_INVALID_PARAMETER
  | MCL_INVALID_LOG_LEVEL | MCL_NO_SERVER_TIME | MCL_NO_ACCESS_TOKEN_EXISTS
  | MCL_NO_ACCESS_TOKEN_PROVIDED | MCL_NO_FILE_SUPPORT | MCL_OPERATION_NOT_SUPPORTED
  | MCL_COULD_NOT_RESOLVE_PROXY | MCL_COULD_NOT_RESOLVE_HOST | MCL_COULD_NOT_CONNECT
  | MCL_SSL_HANDSHAKE_FAIL | MCL_NETWORK_SEND_FAIL | MCL_NETWORK_RECEIVE_FAIL
  | MCL_SERVER_CERTIFICATE_NOT_VERIFIED | MCL_IMPROPER_CERTIFICATE | MCL_REQUEST_TIMEOUT
  | MCL_SERVER_FAIL | MCL_CREATED | MCL_PARTIAL_CONTENT | MCL_BAD_REQUEST | MCL_UNAUTHORIZED
  | MCL_FORBIDDEN | MCL_NOT_FOUND | MCL_CONFLICT | MCL_PRECONDITION_FAIL
  | MCL_REQUEST_PAYLOAD_TOO_LARGE | MCL_TOO_MANY_REQUESTS | MCL_UNEXPECTED_RESULT_CODE
  | MCL_NOT_ONBOARDED | MCL_ALREADY_ONBOARDED | MCL_EXCHANGE_STREAMING_IS_ACTIVE
  | MCL_CREDENTIALS_UP_TO_DATE | MCL_CANNOT_ENTER_CRITICAL_SECTION | MCL_BAD_CONTENT_ENCODING
  | MCL_JSON_NON_EXISTING_CHILD | MCL_JSON_NAME_DUPLICATION | MCL_JSON_TYPE_MISMATCH
  | MCL_SHA256_CALCULATION_FAIL | MCL_CREDENTIALS_NOT_SAVED | MCL_CREDENTIALS_NOT_LOADED
  | MCL_LIST_IS_EMPTY | MCL_LIMIT_EXCEEDED
  | MCL_FILE_CANNOT_BE_OPENED | MCL_ITEM_EXCEEDS_MAX_HTTP_REQUEST_SIZE | MCL_STORE_IS_EMPTY
  | MCL_DATA_LAKE_SIGNED_URL_GENERATION_FAIL | MCL_DEPLOYMENT_FAIL

text \<open>
  A function that returns a code and, on \<open>MCL_OK\<close>, fills an output parameter: \<open>Inl\<close> holds
  the failure code, \<open>Inr\<close> the value.
\<close>

type_synonym 'a result = "mcl_error + 'a"

abbreviation Ok :: "'a \<Rightarrow> 'a result" where "Ok \<equiv> Inr"
abbreviation Err :: "mcl_error \<Rightarrow> 'a result" where "Err \<equiv> Inl"

definition code_of :: "'a result \<Rightarrow> mcl_error" where
  "code_of r = (case r of Inl e \<Rightarrow> e | Inr _ \<Rightarrow> MCL_OK)"

lemma code_of_simps [simp]: "code_of (Err e) = e" "code_of (Ok v) = MCL_OK"
  by (simp_all add: code_of_def)

text \<open>The maximum of \<open>mcl_size_t\<close> on a 64-bit target.\<close>

definition MCL_SIZE_MAX :: nat where "MCL_SIZE_MAX = 2 ^ 64 - 1"

section \<open>Guarded statement sequences\<close>

text \<open>
  The library writes a sequence of fallible statements as a chain of
  \<open>if (MCL_OK == code) { code = f(...); }\<close>: every statement runs on the state the previous
  ones left, and none runs after the first failure.
\<close>

fun ok_seq :: "('s \<Rightarrow> mcl_error \<times> 's) list \<Rightarrow> 's \<Rightarrow> mcl_error \<times> 's" where
  "ok_seq [] s = (MCL_OK, s)"
| "ok_seq (f # fs) s = (case f s of (c, s') \<Rightarrow> if c = MCL_OK then ok_seq fs s' else (c, s'))"

lemma ok_seq_append:
  "ok_seq (fs @ gs) s =
     (case ok_seq fs s of (c, s') \<Rightarrow> if c = MCL_OK then ok_seq gs s' else (c, s'))"
  by (induction fs arbitrary: s) (auto split: prod.splits)

text \<open>A property kept by every statement is kept by the sequence, on every exit.\<close>

lemma ok_seq_invariant:
  assumes "\<And>f s. f \<in> set fs \<Longrightarrow> P s \<Longrightarrow> P (snd (f s))" and "P s"
  shows "P (snd (ok_seq fs s))"
  using assms
proof (induction fs arbitrary: s)
  case Nil
  then show ?case by simp
next
  case (Cons f fs)
  have "P (snd (f s))" using Cons.prems by simp
  then have "P (snd (ok_seq fs (snd (f s))))" using Cons by simp
  with \<open>P (snd (f s))\<close> show ?case by (auto split: prod.splits)
qed

section \<open>C strings\<close>

text \<open>
  A C string is the list of its characters before the terminator; \<open>cstring\<close> says that it
  has no terminator inside. \<open>char_at\<close> reads a position: the terminator sits right after the
  last character, and a read past it is \<open>None\<close> (undefined behaviour).
\<close>

definition MCL_NULL_CHAR :: char where "MCL_NULL_CHAR = CHR 0x00"

definition cstring :: "string \<Rightarrow> bool" where
  "cstring s \<longleftrightarrow> MCL_NULL_CHAR \<notin> set s"

definition char_at :: "string \<Rightarrow> nat \<Rightarrow> char option" where
  "char_at s i = (if i < length s then Some (s ! i)
                  else if i = length s then Some MCL_NULL_CHAR else None)"

lemma char_at_in [simp]: "i < length s \<Longrightarrow> char_at s i = Some (s ! i)"
  by (simp add: char_at_def)

lemma char_at_end [simp]: "char_at s (length s) = Some MCL_NULL_CHAR"
  by (simp add: char_at_def)

section \<open>Memory blocks\<close>

text \<open>
  A block of memory is the list of its cells, \<open>None\<close> for a cell nobody has written yet; \<open>store\<close>
  writes one cell, and is \<open>None\<close> outside the block. \<open>cstr\<close> are the cells of a C string.
\<close>

type_synonym 'a block = "'a option list"

definition fresh_block :: "nat \<Rightarrow> 'a block" where
  "fresh_block n = replicate n None"

definition store :: "'a block \<Rightarrow> nat \<Rightarrow> 'a \<Rightarrow> 'a block option" where
  "store b i v = (if i < length b then Some (b[i := Some v]) else None)"

definition read :: "'a list \<Rightarrow> nat \<Rightarrow> 'a option" where
  "read xs i = (if i < length xs then Some (xs ! i) else None)"

definition cstr :: "string \<Rightarrow> char list" where
  "cstr s = s @ [MCL_NULL_CHAR]"

lemma length_cstr [simp]: "length (cstr s) = Suc (length s)"
  by (simp add: cstr_def)

lemma length_fresh_block [simp]: "length (fresh_block n) = n"
  by (simp add: fresh_block_def)

lemma store_length: "store b i v = Some b' \<Longrightarrow> length b' = length b"
  by (auto simp: store_def split: if_splits)

lemma store_in [simp]: "i < length b \<Longrightarrow> store b i v = Some (b[i := Some v])"
  by (simp add: store_def)

lemma read_in [simp]: "i < length xs \<Longrightarrow> read xs i = Some (xs ! i)"
  by (simp add: read_def)

section \<open>Generic facts\<close>

lemma bind_Some_iff: "Option.bind x f = Some y \<longleftrightarrow> (\<exists>z. x = Some z \<and> f z = Some y)"
  by (cases x) auto

lemma take_Suc_snoc: "n < length xs \<Longrightarrow> take (Suc n) xs = take n xs @ [xs ! n]"
  by (rule take_Suc_conv_app_nth)

lemma sum_list_filter_split:
  "sum_list (map f xs) = sum_list (map f (filter P xs)) + sum_list (map f (filter (\<lambda>x. \<not> P x) xs))"
  for f :: "'a \<Rightarrow> nat"
  by (induction xs) auto

lemma filter_length_less:
  "x \<in> set xs \<Longrightarrow> \<not> P x \<Longrightarrow> length (filter P xs) < length xs"
  by (rule length_filter_less) auto

end
