(* ===== verification/MclList.thy ===== *)
theory MclList
  imports MclPrelude
begin

text \<open>
  The doubly linked list of \<open>src/mcl_core/src/list.c\<close>, the container of every other component.

  The list object has a head, a last and a current pointer and a count; its nodes live on a
  heap, a partial map from addresses to nodes whose \<open>None\<close> is memory that is not allocated.
  Dereferencing such an address is undefined behaviour, which the operations return as
  \<open>None\<close>: that an operation returns \<open>Some\<close> on a well-formed list is its memory safety.
  A \<open>NULL\<close> pointer to a list, a node or data is \<open>None\<close> in argument position.

  \<open>list_rep h l xs c\<close> says that \<open>l\<close> is a well-formed list whose nodes are \<open>xs\<close> (addresses
  with their data) and whose current pointer is at position \<open>c\<close>, the position after the last
  node standing for \<open>NULL\<close>.
\<close>

section \<open>State\<close>

record 'd mcl_list_node_t =
  ndata :: 'd
  nprev :: "nat option"
  nnext :: "nat option"

record mcl_list_t =
  lhead :: "nat option"
  llast :: "nat option"
  lcurrent :: "nat option"
  lcount :: nat

type_synonym 'd node_heap = "nat \<rightharpoonup> 'd mcl_list_node_t"

definition set_next :: "'d node_heap \<Rightarrow> nat \<Rightarrow> nat option \<Rightarrow> 'd node_heap option" where
  "set_next h a v = do { nd \<leftarrow> h a; Some (h(a \<mapsto> nd\<lparr>nnext := v\<rparr>)) }"

definition set_prev :: "'d node_heap \<Rightarrow> nat \<Rightarrow> nat option \<Rightarrow> 'd node_heap option" where
  "set_prev h a v = do { nd \<leftarrow> h a; Some (h(a \<mapsto> nd\<lparr>nprev := v\<rparr>)) }"

section \<open>Operations\<close>

text \<open>\<open>alloc\<close> is the outcome of \<open>MCL_NEW(*list)\<close>.\<close>

definition mcl_list_initialize :: "bool \<Rightarrow> bool \<Rightarrow> mcl_list_t result" where
  "mcl_list_initialize list_not_null alloc =
     (if \<not> list_not_null then Err MCL_TRIGGERED_WITH_NULL
      else if \<not> alloc then Err MCL_OUT_OF_MEMORY
      else Ok \<lparr>lhead = None, llast = None, lcurrent = None, lcount = 0\<rparr>)"

text \<open>\<open>new_node\<close> is the address returned by \<open>MCL_NEW(new_node)\<close>.\<close>

definition mcl_list_add ::
  "nat option \<Rightarrow> 'd node_heap \<Rightarrow> mcl_list_t option \<Rightarrow> 'd option \<Rightarrow>
   (mcl_error \<times> 'd node_heap \<times> mcl_list_t option) option" where
  "mcl_list_add new_node h list data =
     (case list of None \<Rightarrow> Some (MCL_TRIGGERED_WITH_NULL, h, list)
      | Some l \<Rightarrow> (case data of None \<Rightarrow> Some (MCL_TRIGGERED_WITH_NULL, h, list)
      | Some d \<Rightarrow>
        if \<not> lcount l < MCL_SIZE_MAX then Some (MCL_LIMIT_EXCEEDED, h, list)
        else (case new_node of None \<Rightarrow> Some (MCL_OUT_OF_MEMORY, h, list)
        | Some a \<Rightarrow>
          let h1 = h(a \<mapsto> \<lparr>ndata = d, nprev = llast l, nnext = None\<rparr>) in
          if lcount l = 0 then
            Some (MCL_OK, h1, Some (l\<lparr>lhead := Some a, llast := Some a, lcurrent := Some a,
                                      lcount := lcount l + 1\<rparr>))
          else do {
            la \<leftarrow> llast l;
            h2 \<leftarrow> set_next h1 la (Some a);
            Some (MCL_OK, h2, Some (l\<lparr>llast := Some a, lcount := lcount l + 1\<rparr>))
          })))"

text \<open>The result holds the code, the returned node and the list.\<close>

definition mcl_list_next ::
  "'d node_heap \<Rightarrow> mcl_list_t option \<Rightarrow> bool \<Rightarrow>
   (mcl_error \<times> nat option \<times> mcl_list_t option) option" where
  "mcl_list_next h list node_not_null =
     (if \<not> node_not_null then Some (MCL_TRIGGERED_WITH_NULL, None, list)
      else case list of None \<Rightarrow> Some (MCL_TRIGGERED_WITH_NULL, None, list)
      | Some l \<Rightarrow>
        (case lcurrent l of
           None \<Rightarrow> Some (MCL_FAIL, None, Some (l\<lparr>lcurrent := lhead l\<rparr>))
         | Some a \<Rightarrow> do { nd \<leftarrow> h a; Some (MCL_OK, Some a, Some (l\<lparr>lcurrent := nnext nd\<rparr>)) }))"

definition mcl_list_remove ::
  "'d node_heap \<Rightarrow> mcl_list_t option \<Rightarrow> nat option \<Rightarrow>
   (mcl_error \<times> 'd node_heap \<times> mcl_list_t option) option" where
  "mcl_list_remove h list node =
     (case list of None \<Rightarrow> Some (MCL_TRIGGERED_WITH_NULL, h, list)
      | Some l \<Rightarrow> (case node of None \<Rightarrow> Some (MCL_TRIGGERED_WITH_NULL, h, list)
      | Some n \<Rightarrow>
        if \<not> lcount l > 0 then Some (MCL_LIST_IS_EMPTY, h, list)
        else do {
          nd \<leftarrow> h n;
          h1 \<leftarrow> (case (nprev nd, nnext nd) of
                   (None, None) \<Rightarrow> Some h
                 | (None, Some nx) \<Rightarrow> set_prev h nx None
                 | (Some p, None) \<Rightarrow> set_next h p None
                 | (Some p, Some nx) \<Rightarrow> do { h' \<leftarrow> set_next h p (Some nx); set_prev h' nx (Some p) });
          nd1 \<leftarrow> h1 n;
          let l1 = (if lhead l = Some n then l\<lparr>lhead := nnext nd1\<rparr> else l);
          let l2 = (if llast l1 = Some n then l1\<lparr>llast := nprev nd1\<rparr> else l1);
          let l3 = (if lcurrent l2 = Some n then l2\<lparr>lcurrent := nnext nd1\<rparr> else l2);
          Some (MCL_OK, h1(n := None), Some (l3\<lparr>lcount := lcount l3 - 1\<rparr>))
        }))"

text \<open>
  The callback gets the data of the removed node; the last component of the result lists what
  it was called with.
\<close>

definition mcl_list_remove_with_content ::
  "'d node_heap \<Rightarrow> mcl_list_t option \<Rightarrow> nat option \<Rightarrow> bool \<Rightarrow>
   (mcl_error \<times> 'd node_heap \<times> mcl_list_t option \<times> 'd list) option" where
  "mcl_list_remove_with_content h list node callback_not_null =
     (case (list, node) of
        (Some l, Some n) \<Rightarrow>
          if \<not> callback_not_null then Some (MCL_TRIGGERED_WITH_NULL, h, list, [])
          else do {
            nd \<leftarrow> h n;
            r \<leftarrow> mcl_list_remove h list node;
            (case r of (code, h1, list1) \<Rightarrow>
               Some (code, h1, list1, if code = MCL_OK then [ndata nd] else []))
          }
      | _ \<Rightarrow> Some (MCL_TRIGGERED_WITH_NULL, h, list, []))"

text \<open>
  The search loop of \<open>mcl_list_exist\<close> follows the \<open>next\<close> pointers from the head; a chain
  that is not well-formed may be cyclic, so the loop has fuel, and \<open>None\<close> is also running out
  of it.
\<close>

fun list_search :: "nat \<Rightarrow> 'd node_heap \<Rightarrow> ('d \<Rightarrow> mcl_error) \<Rightarrow> nat option \<Rightarrow> 'd option option" where
  "list_search 0 h cmp node = None"
| "list_search (Suc f) h cmp None = Some None"
| "list_search (Suc f) h cmp (Some a) = do {
     nd \<leftarrow> h a;
     if cmp (ndata nd) = MCL_OK then Some (Some (ndata nd)) else list_search f h cmp (nnext nd)
   }"

definition mcl_list_exist ::
  "nat \<Rightarrow> 'd node_heap \<Rightarrow> mcl_list_t option \<Rightarrow> 'k option \<Rightarrow> ('d \<Rightarrow> 'k \<Rightarrow> mcl_error) option \<Rightarrow> bool \<Rightarrow>
   (mcl_error \<times> 'd option) option" where
  "mcl_list_exist fuel h list item_to_find compare_function item_not_null =
     (case (list, item_to_find, compare_function) of
        (Some l, Some k, Some cmp) \<Rightarrow>
          if \<not> item_not_null then Some (MCL_TRIGGERED_WITH_NULL, None)
          else do {
            r \<leftarrow> list_search fuel h (\<lambda>d. cmp d k) (lhead l);
            (case r of Some d \<Rightarrow> Some (MCL_OK, Some d) | None \<Rightarrow> Some (MCL_FAIL, None))
          }
      | _ \<Rightarrow> Some (MCL_TRIGGERED_WITH_NULL, None))"

definition mcl_list_reset :: "mcl_list_t option \<Rightarrow> mcl_list_t option" where
  "mcl_list_reset list =
     (case list of None \<Rightarrow> None | Some l \<Rightarrow> Some (l\<lparr>lcurrent := lhead l\<rparr>))"

text \<open>
  The destroy loop frees every node from the head on; with a callback the data of each is
  passed to it first, in order. The freed list pointer is \<open>NULL\<close> afterwards.
\<close>

fun destroy_nodes :: "nat \<Rightarrow> 'd node_heap \<Rightarrow> nat option \<Rightarrow> ('d node_heap \<times> 'd list) option" where
  "destroy_nodes 0 h node = None"
| "destroy_nodes (Suc f) h None = Some (h, [])"
| "destroy_nodes (Suc f) h (Some a) = do {
     nd \<leftarrow> h a;
     (h', ds) \<leftarrow> destroy_nodes f (h(a := None)) (nnext nd);
     Some (h', ndata nd # ds)
   }"

definition mcl_list_destroy_with_content ::
  "nat \<Rightarrow> 'd node_heap \<Rightarrow> mcl_list_t option \<Rightarrow> bool \<Rightarrow>
   ('d node_heap \<times> mcl_list_t option \<times> 'd list) option" where
  "mcl_list_destroy_with_content fuel h list callback_not_null =
     (case list of None \<Rightarrow> Some (h, None, [])
      | Some l \<Rightarrow> do {
          (h', ds) \<leftarrow> destroy_nodes fuel h (lhead l);
          Some (h', None, if callback_not_null then ds else [])
        })"

definition mcl_list_destroy ::
  "nat \<Rightarrow> 'd node_heap \<Rightarrow> mcl_list_t option \<Rightarrow>
   ('d node_heap \<times> mcl_list_t option \<times> 'd list) option" where
  "mcl_list_destroy fuel h list = mcl_list_destroy_with_content fuel h list False"

section \<open>Chains of nodes\<close>

text \<open>
  \<open>chain h p s xs e\<close>: from \<open>s\<close> the heap holds exactly the nodes \<open>xs\<close> in order, linked both
  ways; the first one points back to \<open>p\<close> and the last one points on to \<open>e\<close>.
\<close>

fun chain :: "'d node_heap \<Rightarrow> nat option \<Rightarrow> nat option \<Rightarrow> (nat \<times> 'd) list \<Rightarrow> nat option \<Rightarrow> bool" where
  "chain h p s [] e \<longleftrightarrow> s = e"
| "chain h p s (x # xs) e \<longleftrightarrow>
     s = Some (fst x) \<and>
     (\<exists>nx. h (fst x) = Some \<lparr>ndata = snd x, nprev = p, nnext = nx\<rparr> \<and> chain h (Some (fst x)) nx xs e)"

text \<open>The address in front of the position after \<open>xs\<close>, and the one at its start.\<close>

definition last_addr :: "nat option \<Rightarrow> (nat \<times> 'd) list \<Rightarrow> nat option" where
  "last_addr p xs = (if xs = [] then p else Some (fst (last xs)))"

definition first_addr :: "(nat \<times> 'd) list \<Rightarrow> nat option \<Rightarrow> nat option" where
  "first_addr xs e = (if xs = [] then e else Some (fst (hd xs)))"

lemma last_addr_simps [simp]:
  "last_addr p [] = p" "last_addr p (xs @ [x]) = Some (fst x)"
  "last_addr p (x # xs) = last_addr (Some (fst x)) xs"
  by (simp_all add: last_addr_def)

lemma last_addr_append [simp]: "last_addr p (xs @ ys) = last_addr (last_addr p xs) ys"
  by (simp add: last_addr_def)

lemma first_addr_simps [simp]:
  "first_addr [] e = e" "first_addr (x # xs) e = Some (fst x)"
  by (simp_all add: first_addr_def)

lemma chain_start: "chain h p s xs e \<Longrightarrow> s = first_addr xs e"
  by (cases xs) auto

lemma chain_append:
  "chain h p s (xs @ ys) e \<longleftrightarrow>
     chain h p s xs (first_addr ys e) \<and> chain h (last_addr p xs) (first_addr ys e) ys e"
  by (induction xs arbitrary: p s) (auto dest: chain_start)

lemma chain_frame:
  "a \<notin> fst ` set xs \<Longrightarrow> chain (h(a := v)) p s xs e = chain h p s xs e"
  by (induction xs arbitrary: p s) auto

lemma chain_in_dom: "chain h p s xs e \<Longrightarrow> fst ` set xs \<subseteq> dom h"
  by (induction xs arbitrary: p s) (fastforce simp: dom_def)+

lemma chain_nth:
  "chain h p s (xs @ x # ys) e \<Longrightarrow>
   h (fst x) = Some \<lparr>ndata = snd x, nprev = last_addr p xs, nnext = first_addr ys e\<rparr>"
  by (auto simp: chain_append dest: chain_start)

text \<open>The two pointer updates, on the node at the end and at the start of a chain.\<close>

lemma set_next_chain:
  assumes "chain h p s (xs @ [x]) e" and "fst x \<notin> fst ` set xs"
  shows "\<exists>h'. set_next h (fst x) v = Some h' \<and> chain h' p s (xs @ [x]) v \<and>
           (\<forall>b. b \<noteq> fst x \<longrightarrow> h' b = h b) \<and> h' (fst x) \<noteq> None"
proof -
  have x: "h (fst x) = Some \<lparr>ndata = snd x, nprev = last_addr p xs, nnext = e\<rparr>"
    using chain_nth [of h p s xs x "[]" e] assms(1) by simp
  then show ?thesis using assms by (auto simp: set_next_def chain_append chain_frame)
qed

lemma set_prev_chain:
  assumes "chain h p s (x # xs) e" and "fst x \<notin> fst ` set xs"
  shows "\<exists>h'. set_prev h (fst x) v = Some h' \<and> chain h' v s (x # xs) e \<and>
           (\<forall>b. b \<noteq> fst x \<longrightarrow> h' b = h b) \<and> h' (fst x) \<noteq> None"
proof -
  have "h (fst x) = Some \<lparr>ndata = snd x, nprev = p, nnext = first_addr xs e\<rparr>"
    using chain_nth [of h p s "[]" x xs e] assms(1) by simp
  then show ?thesis using assms by (auto simp: set_prev_def chain_frame)
qed

lemma chain_agree:
  "(\<And>b. b \<in> fst ` set xs \<Longrightarrow> h' b = h b) \<Longrightarrow> chain h p s xs e \<Longrightarrow> chain h' p s xs e"
  by (induction xs arbitrary: p s) auto

section \<open>Well-formed lists\<close>

definition cursor_addr :: "(nat \<times> 'd) list \<Rightarrow> nat \<Rightarrow> nat option" where
  "cursor_addr xs c = (if c < length xs then Some (fst (xs ! c)) else None)"

definition list_rep :: "'d node_heap \<Rightarrow> mcl_list_t \<Rightarrow> (nat \<times> 'd) list \<Rightarrow> nat \<Rightarrow> bool" where
  "list_rep h l xs c \<longleftrightarrow>
     chain h None (lhead l) xs None \<and> llast l = last_addr None xs \<and> lcount l = length xs \<and>
     distinct (map fst xs) \<and> c \<le> length xs \<and> lcurrent l = cursor_addr xs c"

lemma list_rep_head: "list_rep h l xs c \<Longrightarrow> lhead l = first_addr xs None"
  by (auto simp: list_rep_def dest: chain_start)

lemma cursor_addr_0 [simp]: "cursor_addr xs 0 = first_addr xs None"
  by (cases xs) (auto simp: cursor_addr_def)

text \<open>A fresh list object represents the empty list.\<close>

lemma list_rep_empty:
  "mcl_list_initialize True True = Ok l \<Longrightarrow> list_rep h l [] 0"
  by (auto simp: mcl_list_initialize_def list_rep_def cursor_addr_def)

section \<open>What each operation does to a well-formed list\<close>

text \<open>Next: the node under the cursor, or a failure that rewinds.\<close>

lemma mcl_list_next_node:
  assumes "list_rep h l xs c" and "c < length xs"
  shows "\<exists>l'. mcl_list_next h (Some l) True = Some (MCL_OK, Some (fst (xs ! c)), Some l') \<and>
              list_rep h l' xs (Suc c)"
proof -
  have xs: "xs = take c xs @ xs ! c # drop (Suc c) xs"
    using assms(2) by (simp add: id_take_nth_drop)
  have "h (fst (xs ! c)) = Some \<lparr>ndata = snd (xs ! c), nprev = last_addr None (take c xs),
          nnext = first_addr (drop (Suc c) xs) None\<rparr>"
    using assms(1) chain_nth [of h None "lhead l" "take c xs" "xs ! c" "drop (Suc c) xs" None] xs
    by (simp add: list_rep_def)
  moreover have "first_addr (drop (Suc c) xs) None = cursor_addr xs (Suc c)"
    by (simp add: first_addr_def cursor_addr_def hd_drop_conv_nth)
  ultimately show ?thesis
    using assms by (auto simp: mcl_list_next_def list_rep_def cursor_addr_def)
qed

lemma mcl_list_next_end:
  assumes "list_rep h l xs (length xs)"
  shows "\<exists>l'. mcl_list_next h (Some l) True = Some (MCL_FAIL, None, Some l') \<and> list_rep h l' xs 0"
  using assms list_rep_head [OF assms]
  by (auto simp: mcl_list_next_def list_rep_def cursor_addr_def [of _ "length xs"])

lemma mcl_list_reset_rep:
  "list_rep h l xs c \<Longrightarrow> \<exists>l'. mcl_list_reset (Some l) = Some l' \<and> list_rep h l' xs 0"
  by (frule list_rep_head) (auto simp: mcl_list_reset_def list_rep_def)

text \<open>Add: the fresh node goes to the end; a cursor that had run off the end stays there.\<close>

lemma mcl_list_add_rep:
  assumes rep: "list_rep h l xs c" and fresh: "h a = None" and room: "length xs < MCL_SIZE_MAX"
  shows "\<exists>h' l'. mcl_list_add (Some a) h (Some l) (Some d) = Some (MCL_OK, h', Some l') \<and>
           list_rep h' l' (xs @ [(a, d)]) (if xs \<noteq> [] \<and> c = length xs then Suc c else c)"
proof (cases xs rule: rev_cases)
  case Nil
  then show ?thesis using rep room
    by (auto simp: mcl_list_add_def list_rep_def cursor_addr_def Let_def)
next
  case (snoc ys x)
  let ?h1 = "h(a \<mapsto> \<lparr>ndata = d, nprev = llast l, nnext = None\<rparr>)"
  have new: "a \<notin> fst ` set xs"
    using rep fresh chain_in_dom [of h None "lhead l" xs None] by (auto simp: list_rep_def)
  have la: "llast l = Some (fst x)" using rep snoc by (simp add: list_rep_def)
  have ch: "chain ?h1 None (lhead l) (ys @ [x]) None"
    using rep new snoc by (simp add: list_rep_def chain_frame)
  have dist: "fst x \<notin> fst ` set ys" using rep snoc by (auto simp: list_rep_def)
  obtain h' where h': "set_next ?h1 (fst x) (Some a) = Some h'"
      "chain h' None (lhead l) (ys @ [x]) (Some a)" "\<forall>b. b \<noteq> fst x \<longrightarrow> h' b = ?h1 b"
    using set_next_chain [OF ch dist, of "Some a"] by blast
  have "h' a = ?h1 a" using h'(3) new snoc by auto
  then have "chain h' None (lhead l) ((ys @ [x]) @ [(a, d)]) None"
    unfolding chain_append [of _ _ _ "ys @ [x]"] using h'(2) la by simp
  then show ?thesis using rep room h'(1) la new snoc
    by (auto simp: mcl_list_add_def list_rep_def cursor_addr_def nth_append Let_def)
qed

text \<open>The limit and the failed allocation leave heap and list alone.\<close>

lemma mcl_list_add_errors:
  "mcl_list_add nn h None dp = Some (MCL_TRIGGERED_WITH_NULL, h, None)"
  "mcl_list_add nn h (Some l) None = Some (MCL_TRIGGERED_WITH_NULL, h, Some l)"
  "\<not> lcount l < MCL_SIZE_MAX \<Longrightarrow>
     mcl_list_add nn h (Some l) (Some d) = Some (MCL_LIMIT_EXCEEDED, h, Some l)"
  "lcount l < MCL_SIZE_MAX \<Longrightarrow>
     mcl_list_add None h (Some l) (Some d) = Some (MCL_OUT_OF_MEMORY, h, Some l)"
  by (simp_all add: mcl_list_add_def)

text \<open>
  Remove: the four ways of linking the neighbours of a node around it, as \<open>mcl_list_remove\<close>
  distinguishes them.
\<close>

definition unlink :: "'d node_heap \<Rightarrow> nat option \<Rightarrow> nat option \<Rightarrow> 'd node_heap option" where
  "unlink h pv nx =
     (case (pv, nx) of
        (None, None) \<Rightarrow> Some h
      | (None, Some nx) \<Rightarrow> set_prev h nx None
      | (Some p, None) \<Rightarrow> set_next h p None
      | (Some p, Some nx) \<Rightarrow> do { h' \<leftarrow> set_next h p (Some nx); set_prev h' nx (Some p) })"

lemma first_addr_append [simp]: "first_addr (xs @ ys) e = first_addr xs (first_addr ys e)"
  by (simp add: first_addr_def)

lemma unlink_front:
  assumes ch: "chain h p s ys m" and dist: "distinct (map fst ys)"
  shows "\<exists>h1. (case last_addr None ys of None \<Rightarrow> Some h | Some q \<Rightarrow> set_next h q e) = Some h1 \<and>
           chain h1 p (first_addr ys e) ys e \<and> (\<forall>b. b \<notin> fst ` set ys \<longrightarrow> h1 b = h b)"
proof (cases ys rule: rev_cases)
  case Nil
  then show ?thesis by simp
next
  case (snoc ys' y)
  have s: "s = first_addr ys e" using ch snoc by (cases ys') (auto dest: chain_start)
  have "fst y \<notin> fst ` set ys'" using dist snoc by auto
  with set_next_chain [of h p s ys' y m e] ch snoc show ?thesis
    by (auto simp: s simp del: last_addr_append first_addr_append)
qed

lemma unlink_back:
  assumes ch: "chain h p s zs None" and dist: "distinct (map fst zs)"
  shows "\<exists>h1. (case first_addr zs None of None \<Rightarrow> Some h | Some q \<Rightarrow> set_prev h q v) = Some h1 \<and>
           chain h1 v (first_addr zs None) zs None \<and> (\<forall>b. b \<notin> fst ` set zs \<longrightarrow> h1 b = h b)"
proof (cases zs)
  case Nil
  then show ?thesis by simp
next
  case (Cons z zs')
  have "fst z \<notin> fst ` set zs'" "s = Some (fst z)" using dist ch Cons by auto
  with set_prev_chain [of h p s z zs' None v] ch Cons show ?thesis
    by (auto simp del: chain.simps)
qed

lemma unlink_chain:
  assumes ch: "chain h None s (ys @ x # zs) None" and dist: "distinct (map fst (ys @ x # zs))"
  shows "\<exists>h1. unlink h (last_addr None ys) (first_addr zs None) = Some h1 \<and>
           chain h1 None (first_addr (ys @ zs) None) (ys @ zs) None \<and>
           (\<forall>b. b \<notin> fst ` set ys \<union> fst ` set zs \<longrightarrow> h1 b = h b)"
proof -
  let ?e = "first_addr zs None" and ?v = "last_addr None ys"
  have front: "chain h None s ys (Some (fst x))" and rear: "chain h (Some (fst x)) ?e zs None"
    using ch by (auto simp: chain_append dest: chain_start)
  have dy: "distinct (map fst ys)" and dz: "distinct (map fst zs)"
    and disj: "fst ` set ys \<inter> fst ` set zs = {}"
    using dist by auto
  obtain h1 where h1: "(case ?v of None \<Rightarrow> Some h | Some q \<Rightarrow> set_next h q ?e) = Some h1"
      "chain h1 None (first_addr ys ?e) ys ?e" "\<forall>b. b \<notin> fst ` set ys \<longrightarrow> h1 b = h b"
    using unlink_front [OF front dy] by blast
  have "chain h1 (Some (fst x)) ?e zs None"
    by (rule chain_agree [OF _ rear]) (use h1(3) disj in auto)
  then obtain h2 where h2: "(case ?e of None \<Rightarrow> Some h1 | Some q \<Rightarrow> set_prev h1 q ?v) = Some h2"
      "chain h2 ?v ?e zs None" "\<forall>b. b \<notin> fst ` set zs \<longrightarrow> h2 b = h1 b"
    using unlink_back [OF _ dz] by blast
  have "chain h2 None (first_addr ys ?e) ys ?e"
    by (rule chain_agree [OF _ h1(2)]) (use h2(3) disj in auto)
  then have "chain h2 None (first_addr (ys @ zs) None) (ys @ zs) None"
    using h2(2) by (simp add: chain_append)
  moreover have "unlink h ?v ?e = Some h2"
    using h1(1) h2(1) by (auto simp: unlink_def split: option.splits)
  ultimately show ?thesis using h1(3) h2(3) by auto
qed

lemma mcl_list_remove_unlink:
  assumes "lcount l > 0" and "h n = Some nd"
    and "unlink h (nprev nd) (nnext nd) = Some h1" and "h1 n = Some nd"
  shows "mcl_list_remove h (Some l) (Some n) = Some (MCL_OK, h1(n := None),
    Some \<lparr>lhead = (if lhead l = Some n then nnext nd else lhead l),
          llast = (if llast l = Some n then nprev nd else llast l),
          lcurrent = (if lcurrent l = Some n then nnext nd else lcurrent l),
          lcount = lcount l - 1\<rparr>)"
  using assms by (simp add: mcl_list_remove_def unlink_def Let_def split: option.splits)

lemma cursor_addr_remove:
  assumes "fst x \<notin> fst ` set ys" and "fst x \<notin> fst ` set zs"
  shows "(if cursor_addr (ys @ x # zs) c = Some (fst x) then first_addr zs None
          else cursor_addr (ys @ x # zs) c)
         = cursor_addr (ys @ zs) (if length ys < c then c - 1 else c)"
proof -
  have "fst (ys ! i) \<noteq> fst x" if "i < length ys" for i
    using assms(1) that by (metis image_eqI nth_mem)
  moreover have "fst (zs ! i) \<noteq> fst x" if "i < length zs" for i
    using assms(2) that by (metis image_eqI nth_mem)
  ultimately show ?thesis
    by (cases "c < length ys"; cases "c = length ys")
       (auto simp: cursor_addr_def nth_append nth_Cons' first_addr_def hd_conv_nth)
qed

lemma mcl_list_remove_rep:
  assumes rep: "list_rep h l (ys @ x # zs) c"
  shows "\<exists>h' l'. mcl_list_remove h (Some l) (Some (fst x)) = Some (MCL_OK, h', Some l') \<and>
           list_rep h' l' (ys @ zs) (if length ys < c then c - 1 else c) \<and> h' (fst x) = None"
proof -
  let ?nd = "\<lparr>ndata = snd x, nprev = last_addr None ys, nnext = first_addr zs None\<rparr>"
  have ch: "chain h None (lhead l) (ys @ x # zs) None"
    and dist: "distinct (map fst (ys @ x # zs))"
    and ptrs: "llast l = last_addr None (ys @ x # zs)" "lcount l = length (ys @ x # zs)"
      "lhead l = first_addr (ys @ x # zs) None" "lcurrent l = cursor_addr (ys @ x # zs) c"
      "c \<le> length (ys @ x # zs)"
    using rep list_rep_head [OF rep] by (auto simp: list_rep_def)
  have x: "h (fst x) = Some ?nd" using chain_nth [OF ch] .
  obtain h1 where h1: "unlink h (last_addr None ys) (first_addr zs None) = Some h1"
      "chain h1 None (first_addr (ys @ zs) None) (ys @ zs) None"
      "\<forall>b. b \<notin> fst ` set ys \<union> fst ` set zs \<longrightarrow> h1 b = h b"
    using unlink_chain [OF ch dist] by blast
  have nx: "fst x \<notin> fst ` set ys" "fst x \<notin> fst ` set zs" using dist by auto
  then have "h1 (fst x) = Some ?nd" using h1(3) x by auto
  note step = mcl_list_remove_unlink [of l h "fst x" ?nd h1, simplified, OF _ x h1(1) this]
  let ?l' = "\<lparr>lhead = (if lhead l = Some (fst x) then first_addr zs None else lhead l),
    llast = (if llast l = Some (fst x) then last_addr None ys else llast l),
    lcurrent = (if lcurrent l = Some (fst x) then first_addr zs None else lcurrent l),
    lcount = lcount l - 1\<rparr>"
  have hd: "lhead ?l' = first_addr (ys @ zs) None"
    unfolding ptrs(3) using nx by (cases ys) auto
  have la: "llast ?l' = last_addr None (ys @ zs)"
    unfolding ptrs(1) using nx by (cases zs rule: rev_cases) auto
  have cu: "lcurrent ?l' = cursor_addr (ys @ zs) (if length ys < c then c - 1 else c)"
    unfolding ptrs(4) using cursor_addr_remove [OF nx, of c] by simp
  have "chain (h1(fst x := None)) None (first_addr (ys @ zs) None) (ys @ zs) None"
    using h1(2) nx by (subst chain_frame) auto
  then have "list_rep (h1(fst x := None)) ?l' (ys @ zs) (if length ys < c then c - 1 else c)"
    unfolding list_rep_def hd la cu using ptrs(2,5) dist by auto
  moreover have "mcl_list_remove h (Some l) (Some (fst x)) =
      Some (MCL_OK, h1(fst x := None), Some ?l')"
    using step ptrs(2) by simp
  ultimately show ?thesis
    by (intro exI [of _ "h1(fst x := None)"] exI [of _ ?l'] conjI) simp_all
qed

text \<open>Search and destruction walk the chain; fuel beyond the length suffices.\<close>

lemma list_search_chain:
  "chain h p s xs None \<Longrightarrow> length xs < f \<Longrightarrow>
     list_search f h cmp s = Some (find (\<lambda>d. cmp d = MCL_OK) (map snd xs))"
proof (induction xs arbitrary: p s f)
  case Nil
  then show ?case by (cases f) auto
next
  case (Cons x xs)
  then obtain f' where "f = Suc f'" by (cases f) auto
  with Cons show ?case by fastforce
qed

lemma mcl_list_exist_rep:
  assumes "list_rep h l xs c" and "length xs < f"
  shows "mcl_list_exist f h (Some l) (Some k) (Some cmp) True =
     Some (case find (\<lambda>d. cmp d k = MCL_OK) (map snd xs) of
             Some d \<Rightarrow> (MCL_OK, Some d) | None \<Rightarrow> (MCL_FAIL, None))"
  using assms list_search_chain [of h None "lhead l" xs f "\<lambda>d. cmp d k"]
  by (auto simp: mcl_list_exist_def list_rep_def split: option.splits)

lemma destroy_nodes_chain:
  assumes "chain h p s xs None" and "length xs < f" and "distinct (map fst xs)"
  shows "\<exists>h'. destroy_nodes f h s = Some (h', map snd xs) \<and>
           (\<forall>b. h' b = (if b \<in> fst ` set xs then None else h b))"
  using assms
proof (induction xs arbitrary: h p s f)
  case Nil
  then show ?case by (cases f) auto
next
  case (Cons x xs)
  then obtain f' where f: "f = Suc f'" "length xs < f'" by (cases f) auto
  from Cons.prems(1) obtain nx where
    x: "h (fst x) = Some \<lparr>ndata = snd x, nprev = p, nnext = nx\<rparr>" "s = Some (fst x)"
    and "chain h (Some (fst x)) nx xs None" by auto
  then have "chain (h(fst x := None)) (Some (fst x)) nx xs None"
    using Cons.prems(3) by (simp add: chain_frame)
  moreover have "distinct (map fst xs)" using Cons.prems(3) by simp
  ultimately obtain h' where
    "destroy_nodes f' (h(fst x := None)) nx = Some (h', map snd xs)"
    "\<forall>b. h' b = (if b \<in> fst ` set xs then None else (h(fst x := None)) b)"
    using Cons.IH [OF _ f(2)] by blast
  then show ?case using x f by auto
qed

lemma mcl_list_destroy_rep:
  assumes "list_rep h l xs c" and "length xs < f"
  shows "\<exists>h'. mcl_list_destroy_with_content f h (Some l) cb =
             Some (h', None, if cb then map snd xs else []) \<and>
           (\<forall>b. h' b = (if b \<in> fst ` set xs then None else h b))"
  using assms destroy_nodes_chain [of h None "lhead l" xs f]
  by (auto simp: mcl_list_destroy_with_content_def list_rep_def)

end
