(* ===== verification/MclCursor.thy ===== *)
theory MclCursor
  imports MclList
begin

text \<open>
  The list interface as its clients use it: rewind, fetch the next node, and, on the node just
  fetched, read or change its data or remove it. The contract is the locale \<open>cursor_list\<close>;
  the loops the clients run over a list are the two functions \<open>for_each\<close> (a counted loop over
  \<open>mcl_list_next\<close>) and \<open>while_next\<close> (a loop until \<open>mcl_list_next\<close> fails), and the contract
  gives each of them the meaning of the pure function \<open>sweep\<close>.

  Two providers are interpreted: the heap list of \<open>MclList\<close>, and the cursor list \<open>clist\<close>
  (items and a position), its abstraction, over which the client components are translated.
\<close>

section \<open>Loops over a list\<close>

text \<open>
  The body of a loop sees the data of the current node and an accumulator; it answers with the
  new data, or \<open>None\<close> to remove the node, and the new accumulator.
\<close>

type_synonym ('d, 'a) body = "'d \<Rightarrow> 'a \<Rightarrow> 'd option \<times> 'a"

fun sweep :: "('d, 'a) body \<Rightarrow> 'd list \<Rightarrow> 'a \<Rightarrow> 'd list \<times> 'a" where
  "sweep b [] acc = ([], acc)"
| "sweep b (d # ds) acc =
     (let (d', acc1) = b d acc; (ds', acc2) = sweep b ds acc1
      in (case d' of None \<Rightarrow> ds' | Some e \<Rightarrow> e # ds', acc2))"

record ('s, 'd) cursor_ops =
  c_reset :: "'s \<Rightarrow> 's"
  c_next :: "'s \<Rightarrow> (mcl_error \<times> 'd option \<times> 's) option"
  c_update :: "'s \<Rightarrow> 'd \<Rightarrow> 's option"
  c_remove :: "'s \<Rightarrow> (mcl_error \<times> 's) option"

definition apply_body ::
  "('s, 'd) cursor_ops \<Rightarrow> ('d, 'a) body \<Rightarrow> 'd \<Rightarrow> 's \<Rightarrow> 'a \<Rightarrow> ('s \<times> 'a) option" where
  "apply_body ops b d s acc =
     (case b d acc of
        (Some e, acc') \<Rightarrow> do { s' \<leftarrow> c_update ops s e; Some (s', acc') }
      | (None, acc') \<Rightarrow> do { (c, s') \<leftarrow> c_remove ops s; Some (s', acc') })"

text \<open>\<open>for (index = 0; index < count; ++index) { mcl_list_next(...); ... }\<close>\<close>

fun for_each ::
  "('s, 'd) cursor_ops \<Rightarrow> nat \<Rightarrow> ('d, 'a) body \<Rightarrow> 's \<Rightarrow> 'a \<Rightarrow> ('s \<times> 'a) option" where
  "for_each ops 0 b s acc = Some (s, acc)"
| "for_each ops (Suc k) b s acc = do {
     (c, node, s1) \<leftarrow> c_next ops s;
     d \<leftarrow> node;
     (s2, acc') \<leftarrow> apply_body ops b d s1 acc;
     for_each ops k b s2 acc'
   }"

text \<open>\<open>while (MCL_OK == mcl_list_next(...)) { ... }\<close>, with fuel.\<close>

fun while_next ::
  "('s, 'd) cursor_ops \<Rightarrow> nat \<Rightarrow> ('d, 'a) body \<Rightarrow> 's \<Rightarrow> 'a \<Rightarrow> ('s \<times> 'a) option" where
  "while_next ops 0 b s acc = None"
| "while_next ops (Suc f) b s acc = do {
     (c, node, s1) \<leftarrow> c_next ops s;
     if c \<noteq> MCL_OK then Some (s1, acc)
     else do {
       d \<leftarrow> node;
       (s2, acc') \<leftarrow> apply_body ops b d s1 acc;
       while_next ops f b s2 acc'
     }
   }"

section \<open>The contract\<close>

text \<open>
  \<open>rep s ds c\<close>: the list state \<open>s\<close> holds the data \<open>ds\<close>, and \<open>c\<close> of them are behind the
  cursor. \<open>fetched s xs d ys\<close>: the list holds \<open>xs @ d # ys\<close> and the client has just fetched
  the node of \<open>d\<close>, the only node it may update or remove.
\<close>

locale cursor_list =
  fixes ops :: "('s, 'd) cursor_ops"
    and rep :: "'s \<Rightarrow> 'd list \<Rightarrow> nat \<Rightarrow> bool"
    and fetched :: "'s \<Rightarrow> 'd list \<Rightarrow> 'd \<Rightarrow> 'd list \<Rightarrow> bool"
  assumes reset_rep: "rep s ds c \<Longrightarrow> rep (c_reset ops s) ds 0"
    and next_node: "rep s (xs @ d # ys) (length xs) \<Longrightarrow>
          \<exists>s'. c_next ops s = Some (MCL_OK, Some d, s') \<and> fetched s' xs d ys"
    and next_end: "rep s ds (length ds) \<Longrightarrow>
          \<exists>s'. c_next ops s = Some (MCL_FAIL, None, s') \<and> rep s' ds 0"
    and update_rep: "fetched s xs d ys \<Longrightarrow>
          \<exists>s'. c_update ops s e = Some s' \<and> fetched s' xs e ys"
    and remove_rep: "fetched s xs d ys \<Longrightarrow>
          \<exists>s'. c_remove ops s = Some (MCL_OK, s') \<and> rep s' (xs @ ys) (length xs)"
    and fetched_rep: "fetched s xs d ys \<Longrightarrow> rep s (xs @ d # ys) (Suc (length xs))"
begin

lemma apply_body_rep:
  assumes "fetched s xs d ys" and "b d acc = (d', acc')"
  shows "\<exists>s'. apply_body ops b d s acc = Some (s', acc') \<and>
           rep s' ((case d' of None \<Rightarrow> xs | Some e \<Rightarrow> xs @ [e]) @ ys)
                  (length (case d' of None \<Rightarrow> xs | Some e \<Rightarrow> xs @ [e]))"
proof (cases d')
  case None
  then show ?thesis using remove_rep [OF assms(1)] assms(2) by (auto simp: apply_body_def)
next
  case (Some e)
  obtain s' where "c_update ops s e = Some s'" "fetched s' xs e ys"
    using update_rep [OF assms(1)] by blast
  with fetched_rep [OF this(2)] Some assms(2) show ?thesis by (auto simp: apply_body_def)
qed

text \<open>One iteration at a position: fetch, run the body.\<close>

lemma step_rep:
  assumes "rep s (xs @ d # ys) (length xs)" and "b d acc = (d', acc')"
  shows "\<exists>s1 s2. c_next ops s = Some (MCL_OK, Some d, s1) \<and>
           apply_body ops b d s1 acc = Some (s2, acc') \<and>
           rep s2 ((case d' of None \<Rightarrow> xs | Some e \<Rightarrow> xs @ [e]) @ ys)
                  (length (case d' of None \<Rightarrow> xs | Some e \<Rightarrow> xs @ [e]))"
proof -
  obtain s1 where "c_next ops s = Some (MCL_OK, Some d, s1)" "fetched s1 xs d ys"
    using next_node [OF assms(1)] by auto
  then show ?thesis using apply_body_rep [of s1 xs d ys b acc d' acc'] assms(2) by blast
qed

lemma for_each_rep:
  assumes "rep s (xs @ ds) (length xs)"
  shows "\<exists>s'. for_each ops (length ds) b s acc = Some (s', snd (sweep b ds acc)) \<and>
           rep s' (xs @ fst (sweep b ds acc)) (length (xs @ fst (sweep b ds acc)))"
  using assms
proof (induction ds arbitrary: xs s acc)
  case Nil
  then show ?case by simp
next
  case (Cons d ds)
  obtain d' acc' where b: "b d acc = (d', acc')" by (cases "b d acc")
  let ?xs = "case d' of None \<Rightarrow> xs | Some e \<Rightarrow> xs @ [e]"
  obtain s1 s2 where s: "c_next ops s = Some (MCL_OK, Some d, s1)"
      "apply_body ops b d s1 acc = Some (s2, acc')" "rep s2 (?xs @ ds) (length ?xs)"
    using step_rep [of s xs d ds b acc d' acc'] Cons.prems b by blast
  obtain s' where "for_each ops (length ds) b s2 acc' = Some (s', snd (sweep b ds acc'))"
      "rep s' (?xs @ fst (sweep b ds acc')) (length (?xs @ fst (sweep b ds acc')))"
    using Cons.IH [OF s(3)] by blast
  then show ?case using b s(1,2) by (cases d') (auto split: prod.splits)
qed

lemma while_next_rep:
  assumes "rep s (xs @ ds) (length xs)" and "length ds < f"
  shows "\<exists>s'. while_next ops f b s acc = Some (s', snd (sweep b ds acc)) \<and>
           rep s' (xs @ fst (sweep b ds acc)) 0"
  using assms
proof (induction ds arbitrary: xs s acc f)
  case Nil
  then obtain f' where "f = Suc f'" by (cases f) auto
  with next_end [of s xs] Nil show ?case by auto
next
  case (Cons d ds)
  then obtain f' where f: "f = Suc f'" "length ds < f'" by (cases f) auto
  obtain d' acc' where b: "b d acc = (d', acc')" by (cases "b d acc")
  let ?xs = "case d' of None \<Rightarrow> xs | Some e \<Rightarrow> xs @ [e]"
  obtain s1 s2 where s: "c_next ops s = Some (MCL_OK, Some d, s1)"
      "apply_body ops b d s1 acc = Some (s2, acc')" "rep s2 (?xs @ ds) (length ?xs)"
    using step_rep [of s xs d ds b acc d' acc'] Cons.prems(1) b by blast
  obtain s' where "while_next ops f' b s2 acc' = Some (s', snd (sweep b ds acc'))"
      "rep s' (?xs @ fst (sweep b ds acc')) 0"
    using Cons.IH [OF s(3) f(2)] by blast
  then show ?case using b s(1,2) f(1) by (cases d') (auto split: prod.splits)
qed

text \<open>The loops as the clients start them, after a rewind.\<close>

lemma for_each_reset:
  assumes "rep s ds c"
  shows "\<exists>s'. for_each ops (length ds) b (c_reset ops s) acc = Some (s', snd (sweep b ds acc)) \<and>
           rep s' (fst (sweep b ds acc)) (length (fst (sweep b ds acc)))"
  using for_each_rep [of "c_reset ops s" "[]" ds b acc] reset_rep [OF assms] by simp

lemma while_next_reset:
  assumes "rep s ds c"
  shows "\<exists>s'. while_next ops (Suc (length ds)) b (c_reset ops s) acc =
                Some (s', snd (sweep b ds acc)) \<and>
           rep s' (fst (sweep b ds acc)) 0"
  using while_next_rep [of "c_reset ops s" "[]" ds "Suc (length ds)" b acc] reset_rep [OF assms]
  by simp

end

section \<open>The heap list as a provider\<close>

text \<open>The state is the heap, the list object and the client's node variable.\<close>

record 'd hlist =
  hl_heap :: "'d node_heap"
  hl_list :: mcl_list_t
  hl_node :: "nat option"

definition hl_reset :: "'d hlist \<Rightarrow> 'd hlist" where
  "hl_reset s = (case mcl_list_reset (Some (hl_list s)) of
     None \<Rightarrow> s | Some l \<Rightarrow> s\<lparr>hl_list := l\<rparr>)"

definition hl_next :: "'d hlist \<Rightarrow> (mcl_error \<times> 'd option \<times> 'd hlist) option" where
  "hl_next s = do {
     (c, node, l) \<leftarrow> mcl_list_next (hl_heap s) (Some (hl_list s)) True;
     l' \<leftarrow> l;
     (case node of
        None \<Rightarrow> Some (c, None, s\<lparr>hl_list := l', hl_node := None\<rparr>)
      | Some a \<Rightarrow> do {
          nd \<leftarrow> hl_heap s a;
          Some (c, Some (ndata nd), s\<lparr>hl_list := l', hl_node := Some a\<rparr>)
        })
   }"

definition hl_update :: "'d hlist \<Rightarrow> 'd \<Rightarrow> 'd hlist option" where
  "hl_update s d = do {
     a \<leftarrow> hl_node s;
     nd \<leftarrow> hl_heap s a;
     Some (s\<lparr>hl_heap := (hl_heap s)(a \<mapsto> nd\<lparr>ndata := d\<rparr>)\<rparr>)
   }"

definition hl_remove :: "'d hlist \<Rightarrow> (mcl_error \<times> 'd hlist) option" where
  "hl_remove s = do {
     (c, h, l) \<leftarrow> mcl_list_remove (hl_heap s) (Some (hl_list s)) (hl_node s);
     l' \<leftarrow> l;
     Some (c, \<lparr>hl_heap = h, hl_list = l', hl_node = None\<rparr>)
   }"

definition hlist_ops :: "('d hlist, 'd) cursor_ops" where
  "hlist_ops = \<lparr>c_reset = hl_reset, c_next = hl_next, c_update = hl_update, c_remove = hl_remove\<rparr>"

definition hl_rep :: "'d hlist \<Rightarrow> 'd list \<Rightarrow> nat \<Rightarrow> bool" where
  "hl_rep s ds c \<longleftrightarrow>
     (\<exists>xs. list_rep (hl_heap s) (hl_list s) xs c \<and> ds = map snd xs)"

definition hl_fetched :: "'d hlist \<Rightarrow> 'd list \<Rightarrow> 'd \<Rightarrow> 'd list \<Rightarrow> bool" where
  "hl_fetched s xs d ys \<longleftrightarrow>
     (\<exists>ns a ms. list_rep (hl_heap s) (hl_list s) (ns @ (a, d) # ms) (Suc (length ns)) \<and>
        hl_node s = Some a \<and> xs = map snd ns \<and> ys = map snd ms)"

text \<open>A change of the data a node points to changes that element of the list only.\<close>

lemma list_rep_data:
  assumes "list_rep h l (ns @ (a, d) # ms) c" and "h a = Some nd"
  shows "list_rep (h(a \<mapsto> nd\<lparr>ndata := e\<rparr>)) l (ns @ (a, e) # ms) c"
proof -
  let ?h = "h(a \<mapsto> nd\<lparr>ndata := e\<rparr>)"
  have ch: "chain h None (lhead l) (ns @ (a, d) # ms) None"
    and notin: "a \<notin> fst ` set ns" "a \<notin> fst ` set ms"
    using assms(1) by (auto simp: list_rep_def)
  have "nd = \<lparr>ndata = d, nprev = last_addr None ns, nnext = first_addr ms None\<rparr>"
    using chain_nth [OF ch] assms(2) by simp
  then have "chain ?h None (lhead l) (ns @ (a, e) # ms) None"
    using ch notin by (auto simp: chain_append chain_frame dest: chain_start)
  moreover have "cursor_addr (ns @ (a, e) # ms) c = cursor_addr (ns @ (a, d) # ms) c"
    by (auto simp: cursor_addr_def nth_append nth_Cons')
  ultimately show ?thesis using assms(1) by (simp add: list_rep_def)
qed

lemma hl_next_node:
  assumes "hl_rep s (xs @ d # ys) (length xs)"
  shows "\<exists>s'. hl_next s = Some (MCL_OK, Some d, s') \<and> hl_fetched s' xs d ys"
proof -
  from assms obtain zs where zs: "list_rep (hl_heap s) (hl_list s) zs (length xs)"
      "xs @ d # ys = map snd zs" by (auto simp: hl_rep_def)
  then obtain ns a ms where split: "zs = ns @ (a, d) # ms" "xs = map snd ns" "ys = map snd ms"
    by (auto simp: append_eq_map_conv Cons_eq_map_conv)
  with zs have rep: "list_rep (hl_heap s) (hl_list s) (ns @ (a, d) # ms) (length ns)" by simp
  then obtain l' where l': "mcl_list_next (hl_heap s) (Some (hl_list s)) True =
      Some (MCL_OK, Some a, Some l')" "list_rep (hl_heap s) l' (ns @ (a, d) # ms) (Suc (length ns))"
    using mcl_list_next_node [OF rep] by auto
  have "chain (hl_heap s) None (lhead (hl_list s)) (ns @ (a, d) # ms) None"
    using rep by (simp add: list_rep_def)
  from chain_nth [OF this] l' split show ?thesis
    by (auto simp: hl_next_def hl_fetched_def)
qed

lemma hl_next_end:
  assumes "hl_rep s ds (length ds)"
  shows "\<exists>s'. hl_next s = Some (MCL_FAIL, None, s') \<and> hl_rep s' ds 0"
proof -
  from assms obtain zs where zs: "list_rep (hl_heap s) (hl_list s) zs (length zs)"
      "ds = map snd zs" by (auto simp: hl_rep_def)
  from mcl_list_next_end [OF zs(1)] zs(2) show ?thesis by (auto simp: hl_next_def hl_rep_def)
qed

lemma hl_update_fetched:
  assumes "hl_fetched s xs d ys"
  shows "\<exists>s'. hl_update s e = Some s' \<and> hl_fetched s' xs e ys"
proof -
  from assms obtain ns a ms where rep: "list_rep (hl_heap s) (hl_list s) (ns @ (a, d) # ms) (Suc (length ns))"
      "hl_node s = Some a" "xs = map snd ns" "ys = map snd ms"
    by (auto simp: hl_fetched_def)
  have "chain (hl_heap s) None (lhead (hl_list s)) (ns @ (a, d) # ms) None"
    using rep(1) by (simp add: list_rep_def)
  then obtain nd where "hl_heap s a = Some nd" using chain_nth by fastforce
  with list_rep_data [OF rep(1) this, of e] rep show ?thesis
    by (auto simp: hl_update_def hl_fetched_def)
qed

lemma hl_remove_fetched:
  assumes "hl_fetched s xs d ys"
  shows "\<exists>s'. hl_remove s = Some (MCL_OK, s') \<and> hl_rep s' (xs @ ys) (length xs)"
proof -
  from assms obtain ns a ms where rep: "list_rep (hl_heap s) (hl_list s) (ns @ (a, d) # ms) (Suc (length ns))"
      "hl_node s = Some a" "xs = map snd ns" "ys = map snd ms"
    by (auto simp: hl_fetched_def)
  from mcl_list_remove_rep [OF rep(1)] rep(2-) show ?thesis
    by (fastforce simp: hl_remove_def hl_rep_def)
qed

lemma hl_reset_rep: "hl_rep s ds c \<Longrightarrow> hl_rep (hl_reset s) ds 0"
  unfolding hl_rep_def hl_reset_def using mcl_list_reset_rep by fastforce

lemma hl_fetched_rep:
  assumes "hl_fetched s xs d ys"
  shows "hl_rep s (xs @ d # ys) (Suc (length xs))"
proof -
  from assms obtain ns a ms where rep: "list_rep (hl_heap s) (hl_list s) (ns @ (a, d) # ms) (Suc (length ns))"
      "xs = map snd ns" "ys = map snd ms"
    by (auto simp: hl_fetched_def)
  show ?thesis unfolding hl_rep_def
    by (rule exI [of _ "ns @ (a, d) # ms"]) (use rep in simp)
qed

interpretation hl: cursor_list "hlist_ops :: ('d hlist, 'd) cursor_ops" hl_rep hl_fetched
  by unfold_locales
     (simp_all add: hlist_ops_def hl_next_node hl_next_end hl_update_fetched hl_remove_fetched
        hl_reset_rep hl_fetched_rep)

section \<open>The cursor list as a provider\<close>

text \<open>
  The abstraction of a heap list: its data and the position of the current pointer. The client
  components are translated over it, operation by operation.
\<close>

record 'd clist =
  cl_items :: "'d list"
  cl_cur :: nat

definition clist_empty :: "'d clist" where
  "clist_empty = \<lparr>cl_items = [], cl_cur = 0\<rparr>"

definition clist_count :: "'d clist \<Rightarrow> nat" where
  "clist_count l = length (cl_items l)"

definition clist_reset :: "'d clist \<Rightarrow> 'd clist" where
  "clist_reset l = l\<lparr>cl_cur := 0\<rparr>"

definition clist_next :: "'d clist \<Rightarrow> (mcl_error \<times> 'd option \<times> 'd clist) option" where
  "clist_next l =
     (if cl_cur l < length (cl_items l)
      then Some (MCL_OK, Some (cl_items l ! cl_cur l), l\<lparr>cl_cur := Suc (cl_cur l)\<rparr>)
      else Some (MCL_FAIL, None, l\<lparr>cl_cur := 0\<rparr>))"

definition clist_update :: "'d clist \<Rightarrow> 'd \<Rightarrow> 'd clist option" where
  "clist_update l d =
     (if 0 < cl_cur l then Some (l\<lparr>cl_items := (cl_items l)[cl_cur l - 1 := d]\<rparr>) else None)"

definition clist_remove :: "'d clist \<Rightarrow> (mcl_error \<times> 'd clist) option" where
  "clist_remove l =
     (if 0 < cl_cur l
      then Some (MCL_OK, l\<lparr>cl_items := take (cl_cur l - 1) (cl_items l) @ drop (cl_cur l) (cl_items l),
                           cl_cur := cl_cur l - 1\<rparr>)
      else None)"

definition clist_add :: "bool \<Rightarrow> 'd \<Rightarrow> 'd clist \<Rightarrow> mcl_error \<times> 'd clist" where
  "clist_add alloc d l =
     (if \<not> length (cl_items l) < MCL_SIZE_MAX then (MCL_LIMIT_EXCEEDED, l)
      else if \<not> alloc then (MCL_OUT_OF_MEMORY, l)
      else (MCL_OK, \<lparr>cl_items = cl_items l @ [d],
                     cl_cur = (if cl_items l \<noteq> [] \<and> cl_cur l = length (cl_items l)
                               then Suc (cl_cur l) else cl_cur l)\<rparr>))"

definition clist_ops :: "('d clist, 'd) cursor_ops" where
  "clist_ops = \<lparr>c_reset = clist_reset, c_next = clist_next, c_update = clist_update,
                c_remove = clist_remove\<rparr>"

definition cl_rep :: "'d clist \<Rightarrow> 'd list \<Rightarrow> nat \<Rightarrow> bool" where
  "cl_rep l ds c \<longleftrightarrow> cl_items l = ds \<and> cl_cur l = c \<and> c \<le> length ds"

definition cl_fetched :: "'d clist \<Rightarrow> 'd list \<Rightarrow> 'd \<Rightarrow> 'd list \<Rightarrow> bool" where
  "cl_fetched l xs d ys \<longleftrightarrow> cl_items l = xs @ d # ys \<and> cl_cur l = Suc (length xs)"

interpretation cl: cursor_list "clist_ops :: ('d clist, 'd) cursor_ops" cl_rep cl_fetched
  by unfold_locales
     (auto simp: clist_ops_def cl_rep_def cl_fetched_def clist_reset_def clist_next_def
        clist_update_def clist_remove_def)

lemma clist_sweep:
  "cl_cur l \<le> length (cl_items l) \<Longrightarrow>
   \<exists>s'. while_next clist_ops (Suc (clist_count l)) b (clist_reset l) acc =
          Some (s', snd (sweep b (cl_items l) acc)) \<and>
        cl_items s' = fst (sweep b (cl_items l) acc)"
  using cl.while_next_reset [of l "cl_items l" "cl_cur l" b acc]
  by (auto simp: cl_rep_def clist_ops_def clist_count_def)

end
