(* ===== verification/MclListRefine.thy ===== *)
theory MclListRefine
  imports MclCursor
begin

text \<open>
  The abstract specification of the list: a sequence of data, the position of the cursor, and
  the position of the node the client holds. \<open>aseq_step\<close> says what every operation does to it,
  \<open>hl_step\<close> runs the operation of \<open>list.c\<close> on the heap, and the two agree on every history.
\<close>

section \<open>Operation histories\<close>

text \<open>
  \<open>LAdd node d\<close> carries the address its allocation returned, \<open>None\<close> when it failed; \<open>LRemove\<close>
  removes the node the client fetched last.
\<close>

datatype 'd lop = LAdd "nat option" 'd | LNext | LReset | LRemove

fun hl_step :: "'d lop \<Rightarrow> 'd hlist \<Rightarrow> (mcl_error \<times> 'd option \<times> 'd hlist) option" where
  "hl_step (LAdd new_node d) s = do {
     (c, h, l) \<leftarrow> mcl_list_add new_node (hl_heap s) (Some (hl_list s)) (Some d);
     l' \<leftarrow> l;
     Some (c, None, s\<lparr>hl_heap := h, hl_list := l'\<rparr>)
   }"
| "hl_step LNext s = hl_next s"
| "hl_step LReset s = Some (MCL_OK, None, hl_reset s)"
| "hl_step LRemove s = do { (c, s') \<leftarrow> hl_remove s; Some (c, None, s') }"

fun hl_run :: "'d lop list \<Rightarrow> 'd hlist \<Rightarrow> ((mcl_error \<times> 'd option) list \<times> 'd hlist) option" where
  "hl_run [] s = Some ([], s)"
| "hl_run (p # ps) s = do {
     (c, d, s1) \<leftarrow> hl_step p s;
     (outs, s2) \<leftarrow> hl_run ps s1;
     Some ((c, d) # outs, s2)
   }"

text \<open>The contract of the allocator: an address it returns is not in use.\<close>

fun malloc_ok :: "'d lop list \<Rightarrow> 'd hlist \<Rightarrow> bool" where
  "malloc_ok [] s = True"
| "malloc_ok (p # ps) s =
     ((case p of LAdd (Some a) d \<Rightarrow> hl_heap s a = None | _ \<Rightarrow> True) \<and>
      (case hl_step p s of Some (c, d, s1) \<Rightarrow> malloc_ok ps s1 | None \<Rightarrow> True))"

text \<open>The state after \<open>mcl_list_initialize\<close>.\<close>

definition hl_init :: "'d hlist" where
  "hl_init = \<lparr>hl_heap = Map.empty,
              hl_list = \<lparr>lhead = None, llast = None, lcurrent = None, lcount = 0\<rparr>,
              hl_node = None\<rparr>"

section \<open>The specification\<close>

record 'd aseq =
  as_items :: "'d list"
  as_cur :: nat
  as_node :: "nat option"

fun aseq_step :: "'d lop \<Rightarrow> 'd aseq \<Rightarrow> mcl_error \<times> 'd option \<times> 'd aseq" where
  "aseq_step (LAdd new_node d) t =
     (if length (as_items t) = MCL_SIZE_MAX then (MCL_LIMIT_EXCEEDED, None, t)
      else if new_node = None then (MCL_OUT_OF_MEMORY, None, t)
      else (MCL_OK, None,
            t\<lparr>as_items := as_items t @ [d],
              as_cur := (if as_items t \<noteq> [] \<and> as_cur t = length (as_items t)
                         then Suc (as_cur t) else as_cur t)\<rparr>))"
| "aseq_step LNext t =
     (if as_cur t < length (as_items t)
      then (MCL_OK, Some (as_items t ! as_cur t),
            t\<lparr>as_cur := Suc (as_cur t), as_node := Some (as_cur t)\<rparr>)
      else (MCL_FAIL, None, t\<lparr>as_cur := 0, as_node := None\<rparr>))"
| "aseq_step LReset t = (MCL_OK, None, t\<lparr>as_cur := 0\<rparr>)"
| "aseq_step LRemove t =
     (case as_node t of
        None \<Rightarrow> (MCL_TRIGGERED_WITH_NULL, None, t)
      | Some i \<Rightarrow> (MCL_OK, None,
          \<lparr>as_items = take i (as_items t) @ drop (Suc i) (as_items t),
           as_cur = (if i < as_cur t then as_cur t - 1 else as_cur t), as_node = None\<rparr>))"

fun aseq_run :: "'d lop list \<Rightarrow> 'd aseq \<Rightarrow> (mcl_error \<times> 'd option) list \<times> 'd aseq" where
  "aseq_run [] t = ([], t)"
| "aseq_run (p # ps) t =
     (let (c, d, t1) = aseq_step p t; (outs, t2) = aseq_run ps t1 in ((c, d) # outs, t2))"

definition aseq_init :: "'d aseq" where
  "aseq_init = \<lparr>as_items = [], as_cur = 0, as_node = None\<rparr>"

section \<open>Simulation\<close>

text \<open>The abstraction relation, and the limit the count of a real list obeys.\<close>

definition sim :: "'d hlist \<Rightarrow> 'd aseq \<Rightarrow> bool" where
  "sim s t \<longleftrightarrow>
     (\<exists>xs. list_rep (hl_heap s) (hl_list s) xs (as_cur t) \<and> as_items t = map snd xs \<and>
        length xs \<le> MCL_SIZE_MAX \<and>
        (case as_node t of None \<Rightarrow> hl_node s = None
         | Some i \<Rightarrow> i < length xs \<and> hl_node s = Some (fst (xs ! i))))"

lemma sim_init: "sim hl_init aseq_init"
  by (simp add: sim_def hl_init_def aseq_init_def list_rep_def)

lemma sim_add:
  assumes "sim s t" and "case new_node of Some a \<Rightarrow> hl_heap s a = None | None \<Rightarrow> True"
  shows "\<exists>c d s'. hl_step (LAdd new_node e) s = Some (c, d, s') \<and>
           (\<exists>t'. aseq_step (LAdd new_node e) t = (c, d, t') \<and> sim s' t')"
proof -
  from assms(1) obtain xs where xs: "list_rep (hl_heap s) (hl_list s) xs (as_cur t)"
      "as_items t = map snd xs" "length xs \<le> MCL_SIZE_MAX"
      "case as_node t of None \<Rightarrow> hl_node s = None
       | Some i \<Rightarrow> i < length xs \<and> hl_node s = Some (fst (xs ! i))" by (auto simp: sim_def)
  have cnt: "lcount (hl_list s) = length xs" using xs(1) by (simp add: list_rep_def)
  consider (full) "length xs = MCL_SIZE_MAX" | (oom) "length xs < MCL_SIZE_MAX" "new_node = None"
    | (ok) a where "length xs < MCL_SIZE_MAX" "new_node = Some a"
    using xs(3) by fastforce
  then show ?thesis
  proof cases
    case full
    then show ?thesis using assms(1) xs(2) cnt by (simp add: mcl_list_add_errors)
  next
    case oom
    then show ?thesis using assms(1) xs(2) cnt by (simp add: mcl_list_add_errors)
  next
    case ok
    from mcl_list_add_rep [OF xs(1) _ ok(1), of a e] assms(2) ok(2) obtain h' l' where
      add: "mcl_list_add (Some a) (hl_heap s) (Some (hl_list s)) (Some e) = Some (MCL_OK, h', Some l')"
      "list_rep h' l' (xs @ [(a, e)])
         (if xs \<noteq> [] \<and> as_cur t = length xs then Suc (as_cur t) else as_cur t)" by auto
    show ?thesis using add ok xs(2,4)
      by (auto simp: sim_def nth_append split: option.splits
          intro!: exI [of _ "xs @ [(a, e)]"])
  qed
qed

lemma sim_next:
  assumes "sim s t"
  shows "\<exists>c d s'. hl_step LNext s = Some (c, d, s') \<and>
           (\<exists>t'. aseq_step LNext t = (c, d, t') \<and> sim s' t')"
proof -
  from assms obtain xs where xs: "list_rep (hl_heap s) (hl_list s) xs (as_cur t)"
      "as_items t = map snd xs" "length xs \<le> MCL_SIZE_MAX" by (auto simp: sim_def)
  show ?thesis
  proof (cases "as_cur t < length xs")
    case True
    obtain l' where l': "mcl_list_next (hl_heap s) (Some (hl_list s)) True =
        Some (MCL_OK, Some (fst (xs ! as_cur t)), Some l')" "list_rep (hl_heap s) l' xs (Suc (as_cur t))"
      using mcl_list_next_node [OF xs(1) True] by blast
    have "xs = take (as_cur t) xs @ xs ! as_cur t # drop (Suc (as_cur t)) xs"
      using True by (simp add: id_take_nth_drop)
    then have "chain (hl_heap s) None (lhead (hl_list s))
        (take (as_cur t) xs @ xs ! as_cur t # drop (Suc (as_cur t)) xs) None"
      using xs(1) by (simp add: list_rep_def)
    from chain_nth [OF this] show ?thesis using l' True xs(2,3)
      by (auto simp: hl_next_def sim_def)
  next
    case False
    then have "as_cur t = length xs" using xs(1) by (simp add: list_rep_def)
    with mcl_list_next_end [of "hl_heap s" "hl_list s" xs] xs show ?thesis
      by (auto simp: hl_next_def sim_def)
  qed
qed

lemma sim_reset:
  assumes "sim s t"
  shows "\<exists>c d s'. hl_step LReset s = Some (c, d, s') \<and>
           (\<exists>t'. aseq_step LReset t = (c, d, t') \<and> sim s' t')"
proof -
  from assms obtain xs where xs: "list_rep (hl_heap s) (hl_list s) xs (as_cur t)"
      "as_items t = map snd xs" "length xs \<le> MCL_SIZE_MAX"
      "case as_node t of None \<Rightarrow> hl_node s = None
       | Some i \<Rightarrow> i < length xs \<and> hl_node s = Some (fst (xs ! i))" by (auto simp: sim_def)
  obtain l' where "mcl_list_reset (Some (hl_list s)) = Some l'" "list_rep (hl_heap s) l' xs 0"
    using mcl_list_reset_rep [OF xs(1)] by blast
  with xs(2-) show ?thesis
    by (auto simp: hl_reset_def sim_def intro!: exI [of _ xs] split: option.splits)
qed

lemma sim_remove:
  assumes "sim s t"
  shows "\<exists>c d s'. hl_step LRemove s = Some (c, d, s') \<and>
           (\<exists>t'. aseq_step LRemove t = (c, d, t') \<and> sim s' t')"
proof (cases "as_node t")
  case None
  then show ?thesis using assms by (auto simp: sim_def hl_remove_def mcl_list_remove_def)
next
  case (Some i)
  with assms obtain xs where xs: "list_rep (hl_heap s) (hl_list s) xs (as_cur t)"
      "as_items t = map snd xs" "length xs \<le> MCL_SIZE_MAX" "i < length xs"
      "hl_node s = Some (fst (xs ! i))" by (auto simp: sim_def)
  have "xs = take i xs @ xs ! i # drop (Suc i) xs" using xs(4) by (simp add: id_take_nth_drop)
  with xs(1) have "list_rep (hl_heap s) (hl_list s) (take i xs @ xs ! i # drop (Suc i) xs) (as_cur t)"
    by simp
  from mcl_list_remove_rep [OF this] xs(4) obtain h' l' where
    "mcl_list_remove (hl_heap s) (Some (hl_list s)) (Some (fst (xs ! i))) = Some (MCL_OK, h', Some l')"
    "list_rep h' l' (take i xs @ drop (Suc i) xs) (if i < as_cur t then as_cur t - 1 else as_cur t)"
    by auto
  then show ?thesis using xs(2-) Some
    by (auto simp: hl_remove_def sim_def take_map drop_map
        intro!: exI [of _ "take i xs @ drop (Suc i) xs"])
qed

lemma sim_step:
  assumes "sim s t" and "malloc_ok (p # ps) s"
  shows "\<exists>c d s' t'. hl_step p s = Some (c, d, s') \<and> aseq_step p t = (c, d, t') \<and>
           sim s' t' \<and> malloc_ok ps s'"
proof -
  have "\<exists>c d s'. hl_step p s = Some (c, d, s') \<and> (\<exists>t'. aseq_step p t = (c, d, t') \<and> sim s' t')"
  proof (cases p)
    case (LAdd nn e)
    then have "case nn of Some a \<Rightarrow> hl_heap s a = None | None \<Rightarrow> True"
      using assms(2) by (auto split: option.splits)
    from sim_add [OF assms(1) this] LAdd show ?thesis by simp
  qed (use assms(1) in \<open>simp_all only: sim_next sim_reset sim_remove\<close>)
  then show ?thesis using assms(2) by fastforce
qed

lemma sim_run:
  "sim s t \<Longrightarrow> malloc_ok ps s \<Longrightarrow>
   \<exists>s'. hl_run ps s = Some (fst (aseq_run ps t), s') \<and> sim s' (snd (aseq_run ps t))"
proof (induction ps arbitrary: s t)
  case Nil
  then show ?case by simp
next
  case (Cons p ps)
  from sim_step [OF Cons.prems] obtain c d s' t' where
    step: "hl_step p s = Some (c, d, s')" "aseq_step p t = (c, d, t')" "sim s' t'" "malloc_ok ps s'"
    by blast
  from Cons.IH [OF step(3,4)] step(1,2) show ?case by (auto split: prod.splits)
qed

section \<open>Properties\<close>

text \<open>C4. On every history of additions, fetches, rewinds and removals that starts from a fresh
  list, with an allocator that returns unused addresses or fails, the linked list never touches
  unallocated memory, answers every operation with the code and the data of the sequence
  specification, and ends as a well-formed chain of exactly the specified data.\<close>

theorem list_history_refines:
  assumes "malloc_ok ps hl_init"
  shows "\<exists>s' xs. hl_run ps hl_init = Some (fst (aseq_run ps aseq_init), s') \<and>
           list_rep (hl_heap s') (hl_list s') xs (as_cur (snd (aseq_run ps aseq_init))) \<and>
           map snd xs = as_items (snd (aseq_run ps aseq_init))"
  using sim_run [OF sim_init assms] by (auto simp: sim_def)

theorem list_history_refines_witness:
  "\<exists>s' xs. hl_run [LAdd (Some 7) True, LAdd None False, LAdd (Some 3) False, LNext, LRemove, LNext] hl_init
     = Some ([(MCL_OK, None), (MCL_OUT_OF_MEMORY, None), (MCL_OK, None), (MCL_OK, Some True),
              (MCL_OK, None), (MCL_OK, Some False)], s') \<and>
     list_rep (hl_heap s') (hl_list s') xs 1 \<and> map snd xs = [False]"
  using list_history_refines [of "[LAdd (Some 7) True, LAdd None False, LAdd (Some 3) False, LNext, LRemove, LNext]"]
  by (simp add: hl_init_def aseq_init_def mcl_list_add_def MCL_SIZE_MAX_def set_next_def
        hl_next_def mcl_list_next_def hl_remove_def mcl_list_remove_def set_prev_def)

text \<open>\<open>mcl_list_exist\<close> on a well-formed list stops, answers \<open>MCL_OK\<close> exactly when some data
  satisfies the comparison, and then returns the first one that does.\<close>

theorem list_exist_first:
  assumes "list_rep h l xs c"
  shows "mcl_list_exist (Suc (length xs)) h (Some l) (Some k) (Some cmp) True =
     Some (case find (\<lambda>d. cmp d k = MCL_OK) (map snd xs) of
             Some d \<Rightarrow> (MCL_OK, Some d) | None \<Rightarrow> (MCL_FAIL, None))"
  by (rule mcl_list_exist_rep [OF assms]) simp

theorem list_exist_first_witness:
  "mcl_list_exist 2 [4 \<mapsto> \<lparr>ndata = (8::nat), nprev = None, nnext = None\<rparr>]
     (Some \<lparr>lhead = Some 4, llast = Some 4, lcurrent = None, lcount = 1\<rparr>) (Some (8::nat))
     (Some (\<lambda>d k. if d = k then MCL_OK else MCL_FAIL)) True = Some (MCL_OK, Some 8)"
  using list_exist_first [of "[4 \<mapsto> \<lparr>ndata = (8::nat), nprev = None, nnext = None\<rparr>]"
      "\<lparr>lhead = Some 4, llast = Some 4, lcurrent = None, lcount = 1\<rparr>" "[(4, 8)]" 1 "8::nat"
      "\<lambda>d k. if d = k then MCL_OK else MCL_FAIL"]
  by (simp add: list_rep_def cursor_addr_def numeral_2_eq_2)

text \<open>C23. Destroying a well-formed list terminates, frees exactly its nodes, sets the list
  pointer to NULL and passes the data of every node to the callback once, in order (none
  without a callback).\<close>

theorem list_destroy_frees_all:
  assumes "list_rep h l xs c"
  shows "\<exists>h'. mcl_list_destroy_with_content (Suc (length xs)) h (Some l) cb =
             Some (h', None, if cb then map snd xs else []) \<and>
           (\<forall>b. h' b = (if b \<in> fst ` set xs then None else h b))"
  by (rule mcl_list_destroy_rep [OF assms]) simp

theorem list_destroy_frees_all_witness:
  "\<exists>h'. mcl_list_destroy_with_content 2 [4 \<mapsto> \<lparr>ndata = (8::nat), nprev = None, nnext = None\<rparr>]
          (Some \<lparr>lhead = Some 4, llast = Some 4, lcurrent = None, lcount = 1\<rparr>) True = Some (h', None, [8])
        \<and> h' 4 = None"
  using list_destroy_frees_all [of "[4 \<mapsto> \<lparr>ndata = (8::nat), nprev = None, nnext = None\<rparr>]"
      "\<lparr>lhead = Some 4, llast = Some 4, lcurrent = None, lcount = 1\<rparr>" "[(4, 8)]" 1 True]
  by (auto simp: list_rep_def cursor_addr_def numeral_2_eq_2)

end
