(* ===== verification/MclString.thy ===== *)
theory MclString
  imports MclPrelude
begin

text \<open>
  The string utilities of \<open>src/mcl_core/src/string_util.c\<close>, over memory: a source region is the
  list of its characters, a block that is written is a list of cells, \<open>None\<close> for a cell nobody
  has written yet. An access outside a region is \<open>None\<close>, as everywhere.
\<close>

section \<open>Memory operations\<close>

definition string_util_memcpy :: "'a block \<Rightarrow> nat \<Rightarrow> 'a list \<Rightarrow> nat \<Rightarrow> 'a block option" where
  "string_util_memcpy destination offset source count =
     (if offset + count \<le> length destination \<and> count \<le> length source
      then Some (take offset destination @ map Some (take count source) @
                 drop (offset + count) destination)
      else None)"

definition string_util_memset :: "'a block \<Rightarrow> nat \<Rightarrow> 'a \<Rightarrow> nat \<Rightarrow> 'a block option" where
  "string_util_memset destination offset value count =
     (if offset + count \<le> length destination
      then Some (take offset destination @ replicate count (Some value) @
                 drop (offset + count) destination)
      else None)"

definition string_util_memcmp :: "'a list \<Rightarrow> 'a list \<Rightarrow> nat \<Rightarrow> bool option" where
  "string_util_memcmp block_1 block_2 count =
     (if count \<le> length block_1 \<and> count \<le> length block_2
      then Some (take count block_1 = take count block_2) else None)"

text \<open>Consecutive copies fill a block from the left.\<close>

lemma memcpy_step:
  assumes "count \<le> length src" and "count \<le> length rest"
  shows "string_util_memcpy (init @ rest) (length init) src count =
           Some (init @ map Some (take count src) @ drop count rest)"
  using assms by (simp add: string_util_memcpy_def)

lemma memcpy_length: "string_util_memcpy b off src n = Some b' \<Longrightarrow> length b' = length b"
  by (auto simp: string_util_memcpy_def split: if_splits)

section \<open>Lengths\<close>

text \<open>\<open>strlen\<close> reads until a terminator; a region without one is overrun.\<close>

fun string_util_strlen :: "char list \<Rightarrow> nat option" where
  "string_util_strlen [] = None"
| "string_util_strlen (c # cs) =
     (if c = MCL_NULL_CHAR then Some 0 else map_option Suc (string_util_strlen cs))"

fun strnlen_loop :: "char list \<Rightarrow> nat \<Rightarrow> nat \<Rightarrow> nat option" where
  "strnlen_loop buffer count 0 = Some count"
| "strnlen_loop buffer count (Suc k) =
     (if \<not> count < length buffer then None
      else if buffer ! count \<noteq> MCL_NULL_CHAR then strnlen_loop buffer (Suc count) k
      else Some count)"

definition string_util_strnlen :: "char list \<Rightarrow> nat \<Rightarrow> nat option" where
  "string_util_strnlen buffer maximum_length = strnlen_loop buffer 0 maximum_length"

lemma strlen_cstr: "cstring s \<Longrightarrow> string_util_strlen (s @ MCL_NULL_CHAR # rest) = Some (length s)"
  by (induction s) (auto simp: cstring_def)

lemma strnlen_loop_cstr:
  assumes "cstring s" and "i \<le> length s"
  shows "strnlen_loop (s @ MCL_NULL_CHAR # rest) i k = Some (min (length s) (i + k))"
  using assms
proof (induction k arbitrary: i)
  case 0
  then show ?case by simp
next
  case (Suc k)
  show ?case
  proof (cases "i < length s")
    case True
    then have "s ! i \<noteq> MCL_NULL_CHAR" using Suc.prems(1) by (metis cstring_def nth_mem)
    with True Suc show ?thesis by (simp add: nth_append)
  next
    case False
    then have "i = length s" using Suc.prems by simp
    then show ?thesis by simp
  qed
qed

section \<open>Comparison\<close>

fun strncmp_eq :: "char list \<Rightarrow> char list \<Rightarrow> nat \<Rightarrow> bool option" where
  "strncmp_eq s1 s2 0 = Some True"
| "strncmp_eq (a # s1) (b # s2) (Suc n) =
     (if a \<noteq> b then Some False else if a = MCL_NULL_CHAR then Some True else strncmp_eq s1 s2 n)"
| "strncmp_eq _ _ (Suc n) = None"

definition string_util_strncmp :: "char list \<Rightarrow> char list \<Rightarrow> nat \<Rightarrow> mcl_error option" where
  "string_util_strncmp string_1 string_2 count =
     map_option (\<lambda>eq. if eq then MCL_OK else MCL_FAIL) (strncmp_eq string_1 string_2 count)"

definition mcl_string_util_strncmp ::
  "char list option \<Rightarrow> char list option \<Rightarrow> nat \<Rightarrow> mcl_error option" where
  "mcl_string_util_strncmp string_1 string_2 count =
     (case string_1 of None \<Rightarrow> Some MCL_TRIGGERED_WITH_NULL
      | Some s1 \<Rightarrow> (case string_2 of None \<Rightarrow> Some MCL_TRIGGERED_WITH_NULL
      | Some s2 \<Rightarrow> string_util_strncmp s1 s2 count))"

lemma strncmp_eq_cstr:
  "cstring s1 \<Longrightarrow> cstring s2 \<Longrightarrow>
   strncmp_eq (s1 @ MCL_NULL_CHAR # r1) (s2 @ MCL_NULL_CHAR # r2) n =
     Some (take n s1 = take n s2)"
proof (induction s1 arbitrary: s2 n)
  case Nil
  then show ?case by (cases n; cases s2) (auto simp: cstring_def)
next
  case (Cons a s1)
  show ?case
  proof (cases n)
    case 0
    then show ?thesis by simp
  next
    case (Suc k)
    with Cons show ?thesis by (cases s2) (auto simp: cstring_def)
  qed
qed

section \<open>Copies\<close>

text \<open>\<open>strncpy\<close> writes exactly \<open>count\<close> cells: the string, then zeros; no terminator is added.\<close>

fun strncpy_cells :: "char list \<Rightarrow> nat \<Rightarrow> char list option" where
  "strncpy_cells source 0 = Some []"
| "strncpy_cells [] (Suc n) = None"
| "strncpy_cells (c # cs) (Suc n) =
     (if c = MCL_NULL_CHAR then Some (replicate (Suc n) MCL_NULL_CHAR)
      else map_option ((#) c) (strncpy_cells cs n))"

definition string_util_strncpy :: "char block \<Rightarrow> nat \<Rightarrow> char list \<Rightarrow> nat \<Rightarrow> char block option" where
  "string_util_strncpy destination offset source count = do {
     cells \<leftarrow> strncpy_cells source count;
     string_util_memcpy destination offset cells count
   }"

lemma strncpy_cells_exact:
  "cstring s \<Longrightarrow> n \<le> length s \<Longrightarrow> strncpy_cells (s @ rest) n = Some (take n s)"
proof (induction s arbitrary: n)
  case Nil
  then show ?case by simp
next
  case (Cons a s)
  then show ?case by (cases n) (auto simp: cstring_def)
qed

text \<open>
  The result of an allocating function: outer \<open>None\<close> is undefined behaviour, inner \<open>None\<close> the
  \<open>NULL\<close> of a failed allocation.
\<close>

definition string_util_strdup :: "bool \<Rightarrow> char list \<Rightarrow> char block option option" where
  "string_util_strdup alloc string = do {
     string_length \<leftarrow> string_util_strlen string;
     if alloc
     then map_option Some (string_util_memcpy (fresh_block (string_length + 1)) 0 string (string_length + 1))
     else Some None
   }"

definition mcl_string_util_strdup :: "bool \<Rightarrow> char list option \<Rightarrow> char block option option" where
  "mcl_string_util_strdup alloc string =
     (case string of None \<Rightarrow> Some None | Some s \<Rightarrow> string_util_strdup alloc s)"

text \<open>The previous target is freed first, so a failed allocation leaves the target \<open>NULL\<close>.\<close>

definition string_util_reset ::
  "bool \<Rightarrow> char list \<Rightarrow> char block option \<Rightarrow> (mcl_error \<times> char block option) option" where
  "string_util_reset alloc value target = do {
     target' \<leftarrow> string_util_strdup alloc value;
     Some (if target' \<noteq> None then MCL_OK else MCL_OUT_OF_MEMORY, target')
   }"

definition mcl_string_util_reset ::
  "bool \<Rightarrow> char list option \<Rightarrow> char block option option \<Rightarrow> (mcl_error \<times> char block option option) option" where
  "mcl_string_util_reset alloc value target =
     (case value of None \<Rightarrow> Some (MCL_TRIGGERED_WITH_NULL, target)
      | Some v \<Rightarrow> (case target of None \<Rightarrow> Some (MCL_TRIGGERED_WITH_NULL, target)
      | Some t \<Rightarrow> do { (c, t') \<leftarrow> string_util_reset alloc v t; Some (c, Some t') }))"

definition string_util_concatenate ::
  "bool \<Rightarrow> char list \<Rightarrow> char list \<Rightarrow> char block result option" where
  "string_util_concatenate alloc string_1 string_2 = do {
     string_1_length \<leftarrow> string_util_strlen string_1;
     string_2_length \<leftarrow> string_util_strlen string_2;
     if alloc then do {
       result1 \<leftarrow> string_util_memcpy (fresh_block (string_1_length + string_2_length + 1)) 0
                    string_1 string_1_length;
       result2 \<leftarrow> string_util_memcpy result1 string_1_length string_2 (string_2_length + 1);
       Some (Ok result2)
     } else Some (Err MCL_OUT_OF_MEMORY)
   }"

definition mcl_string_util_concatenate ::
  "bool \<Rightarrow> char list option \<Rightarrow> char list option \<Rightarrow> char block result option" where
  "mcl_string_util_concatenate alloc string_1 string_2 =
     (case (string_1, string_2) of
        (Some s1, Some s2) \<Rightarrow> string_util_concatenate alloc s1 s2
      | _ \<Rightarrow> Some (Err MCL_TRIGGERED_WITH_NULL))"

lemma strdup_cstr:
  "cstring s \<Longrightarrow> string_util_strdup alloc (cstr s) = Some (if alloc then Some (map Some (cstr s)) else None)"
  by (simp add: string_util_strdup_def cstr_def strlen_cstr string_util_memcpy_def fresh_block_def)

lemma concatenate_cstr:
  assumes "cstring s1" and "cstring s2"
  shows "string_util_concatenate alloc (cstr s1) (cstr s2) =
           Some (if alloc then Ok (map Some (cstr (s1 @ s2))) else Err MCL_OUT_OF_MEMORY)"
  using assms memcpy_step [of "Suc (length s2)" "cstr s2" "map Some s1" "replicate (Suc (length s2)) None"]
  by (simp add: string_util_concatenate_def cstr_def strlen_cstr string_util_memcpy_def
      fresh_block_def replicate_add [symmetric])

section \<open>Formatted output\<close>

text \<open>
  \<open>vsnprintf\<close> of C: \<open>formatted\<close> is the complete output of the conversion, \<open>None\<close> for an encoding
  error (a negative count). It stores at most \<open>length - 1\<close> characters of it and a terminator,
  and returns the length of the complete output.
\<close>

definition vsnprintf_stores :: "nat \<Rightarrow> string \<Rightarrow> char list" where
  "vsnprintf_stores len formatted = (if len = 0 then [] else cstr (take (len - 1) formatted))"

definition print_formatted_string ::
  "char block \<Rightarrow> nat \<Rightarrow> string option \<Rightarrow> (mcl_error \<times> char block) option" where
  "print_formatted_string string len formatted =
     (case formatted of
        None \<Rightarrow> Some (MCL_FAIL, string)
      | Some out \<Rightarrow> do {
          string' \<leftarrow> string_util_memcpy string 0 (vsnprintf_stores len out)
                      (length (vsnprintf_stores len out));
          Some (if length out > 0 \<and> length out \<le> len then MCL_OK else MCL_FAIL, string')
        })"

definition string_util_snprintf ::
  "char block \<Rightarrow> nat \<Rightarrow> string option \<Rightarrow> (mcl_error \<times> char block) option" where
  "string_util_snprintf string len formatted = print_formatted_string string len formatted"

text \<open>An output that fits is stored completely, and reported as a success unless it is empty.\<close>

lemma snprintf_fits:
  assumes "length s < len" and "len \<le> length b"
  shows "string_util_snprintf b len (Some s) =
           Some (if s = [] then MCL_FAIL else MCL_OK,
                 map Some (cstr s) @ drop (Suc (length s)) b)"
  using assms
  by (auto simp: string_util_snprintf_def print_formatted_string_def vsnprintf_stores_def
      string_util_memcpy_def)

text \<open>An output longer than the buffer size is a failure.\<close>

lemma snprintf_too_long:
  assumes "len < length s" and "len \<le> length b"
  shows "\<exists>b'. string_util_snprintf b len (Some s) = Some (MCL_FAIL, b')"
  using assms
  by (auto simp: string_util_snprintf_def print_formatted_string_def vsnprintf_stores_def
      string_util_memcpy_def)

text \<open>
  The same at the level of strings, for callers that print into a buffer of their own of \<open>len\<close>
  characters: the text they find in it afterwards.
\<close>

definition snprintf_text :: "nat \<Rightarrow> string \<Rightarrow> string result" where
  "snprintf_text len s =
     (if s = [] \<or> len < length s then Err MCL_FAIL else Ok (take (len - 1) s))"

lemma snprintf_text_refines:
  assumes "0 < len"
  shows "case snprintf_text len s of
       Ok t \<Rightarrow> string_util_snprintf (fresh_block len) len (Some s) =
                Some (MCL_OK, map Some (cstr t) @ drop (Suc (length t)) (fresh_block len))
     | Err e \<Rightarrow> \<exists>b. string_util_snprintf (fresh_block len) len (Some s) = Some (e, b)"
  using assms
  by (auto simp: snprintf_text_def string_util_snprintf_def print_formatted_string_def
      vsnprintf_stores_def string_util_memcpy_def)

lemma snprintf_text_fits: "s \<noteq> [] \<Longrightarrow> length s < len \<Longrightarrow> snprintf_text len s = Ok s"
  by (simp add: snprintf_text_def)

section \<open>Search\<close>

definition LOWERCASE :: "char \<Rightarrow> char" where
  "LOWERCASE c = (if 65 \<le> (of_char c :: nat) \<and> (of_char c :: nat) \<le> 90
                  then char_of (of_char c + (97 - 65) :: nat) else c)"

definition same_char :: "char \<Rightarrow> char \<Rightarrow> bool" where "same_char a b \<longleftrightarrow> a = b"

definition same_letter :: "char \<Rightarrow> char \<Rightarrow> bool" where
  "same_letter a b \<longleftrightarrow> a = b \<or> LOWERCASE a = LOWERCASE b"

text \<open>
  Both searches run one loop over the source with the number of target characters matched so
  far; \<open>eq\<close> is the comparison. \<open>Some None\<close> is not found.
\<close>

fun find_loop ::
  "(char \<Rightarrow> char \<Rightarrow> bool) \<Rightarrow> string \<Rightarrow> string \<Rightarrow> nat \<Rightarrow> nat \<Rightarrow> nat option option" where
  "find_loop eq target [] index state = Some None"
| "find_loop eq target (c # cs) index state = do {
     t \<leftarrow> char_at target state;
     let state' = (if eq c t then state + 1 else 0);
     if state' = length target then Some (Some (index - (length target - 1)))
     else find_loop eq target cs (index + 1) state'
   }"

definition find_with :: "(char \<Rightarrow> char \<Rightarrow> bool) \<Rightarrow> string \<Rightarrow> string \<Rightarrow> nat option option" where
  "find_with eq source target =
     (if length target \<noteq> 0 \<and> length target \<le> length source
      then find_loop eq target source 0 0 else Some None)"

definition string_util_find :: "string \<Rightarrow> string \<Rightarrow> nat option option" where
  "string_util_find source target = find_with same_char source target"

definition string_util_find_case_insensitive :: "string \<Rightarrow> string \<Rightarrow> nat option option" where
  "string_util_find_case_insensitive source target = find_with same_letter source target"

definition mcl_string_util_find :: "string option \<Rightarrow> string option \<Rightarrow> nat option option" where
  "mcl_string_util_find source target =
     (case (source, target) of (Some s, Some t) \<Rightarrow> string_util_find s t | _ \<Rightarrow> Some None)"

definition mcl_string_util_find_case_insensitive ::
  "string option \<Rightarrow> string option \<Rightarrow> nat option option" where
  "mcl_string_util_find_case_insensitive source target =
     (case (source, target) of
        (Some s, Some t) \<Rightarrow> string_util_find_case_insensitive s t | _ \<Rightarrow> Some None)"

text \<open>\<open>occurs eq source target i\<close>: the target stands at index \<open>i\<close> of the source.\<close>

definition occurs :: "(char \<Rightarrow> char \<Rightarrow> bool) \<Rightarrow> string \<Rightarrow> string \<Rightarrow> nat \<Rightarrow> bool" where
  "occurs eq source target i \<longleftrightarrow> list_all2 eq (take (length target) (drop i source)) target"

text \<open>
  The loop invariant: the last \<open>state\<close> characters read match the first \<open>state\<close> of the target.
\<close>

definition matched :: "(char \<Rightarrow> char \<Rightarrow> bool) \<Rightarrow> string \<Rightarrow> string \<Rightarrow> nat \<Rightarrow> bool" where
  "matched eq pre target state \<longleftrightarrow>
     state < length target \<and> state \<le> length pre \<and>
     list_all2 eq (drop (length pre - state) pre) (take state target)"

lemma matched_step:
  assumes "matched eq pre target state" and "eq c (target ! state)"
  shows "list_all2 eq (drop (length pre - state) (pre @ [c])) (take (Suc state) target)"
  using assms by (auto simp: matched_def take_Suc_snoc intro!: list_all2_appendI)

lemma find_loop_sound:
  assumes "matched eq pre target state"
  shows "\<exists>r. find_loop eq target cs (length pre) state = Some r \<and>
             (case r of Some i \<Rightarrow> occurs eq (pre @ cs) target i | None \<Rightarrow> True)"
  using assms
proof (induction cs arbitrary: pre state)
  case Nil
  then show ?case by simp
next
  case (Cons c cs)
  have st: "state < length target" "state \<le> length pre" using Cons.prems by (auto simp: matched_def)
  consider (found) "eq c (target ! state)" "Suc state = length target"
    | (more) "eq c (target ! state)" "Suc state < length target" | (mismatch) "\<not> eq c (target ! state)"
    using st by linarith
  then show ?case
  proof cases
    case found
    let ?i = "length pre - state"
    have "list_all2 eq (drop ?i pre @ [c]) target"
      using matched_step [OF Cons.prems found(1)] found(2) st by simp
    moreover have "take (length target) (drop ?i (pre @ c # cs)) = drop ?i pre @ [c]"
      using found(2) st by (simp add: Suc_diff_le flip: found(2))
    ultimately have "occurs eq (pre @ c # cs) target ?i" by (simp add: occurs_def)
    moreover have "?i = Suc (length pre) - length target" using found(2) by simp
    ultimately show ?thesis using found st by (auto simp: Let_def)
  next
    case more
    then have "matched eq (pre @ [c]) target (Suc state)"
      using matched_step [OF Cons.prems more(1)] st by (simp add: matched_def)
    from Cons.IH [OF this] more st show ?thesis by (auto simp: Let_def split: option.splits)
  next
    case mismatch
    have "matched eq (pre @ [c]) target 0" using st by (auto simp: matched_def)
    from Cons.IH [OF this] mismatch st show ?thesis by (auto simp: Let_def split: option.splits)
  qed
qed

text \<open>The search stops, reads no cell outside the two strings, and what it reports is there.\<close>

lemma find_with_sound:
  "\<exists>r. find_with eq source target = Some r \<and>
       (case r of Some i \<Rightarrow> occurs eq source target i | None \<Rightarrow> True)"
proof (cases "target = []")
  case False
  then show ?thesis using find_loop_sound [of eq "[]" target 0 source]
    by (auto simp: find_with_def matched_def split: option.splits)
qed (simp add: find_with_def)

text \<open>
  The state falls back to zero on a mismatch and the mismatching character is not tried again as
  a first one; an occurrence is found when no character before it starts a match.
\<close>

lemma find_loop_skip:
  assumes "target \<noteq> []" and "\<forall>c \<in> set pre. \<not> eq c (target ! 0)"
  shows "find_loop eq target (pre @ cs) i 0 = find_loop eq target cs (i + length pre) 0"
  using assms by (induction pre arbitrary: i) (auto simp: Let_def)

lemma find_loop_match:
  assumes "list_all2 eq m (drop state target)" and "m \<noteq> []" and "state \<le> i"
  shows "find_loop eq target (m @ cs) i state = Some (Some (i - state))"
  using assms
proof (induction m arbitrary: i state)
  case Nil
  then show ?case by simp
next
  case (Cons c m)
  then have len: "length (c # m) = length target - state" by (auto dest: list_all2_lengthD)
  then have st: "state < length target" by simp
  then have d: "drop state target = target ! state # drop (Suc state) target"
    by (simp add: Cons_nth_drop_Suc)
  with Cons.prems have e: "eq c (target ! state)" "list_all2 eq m (drop (Suc state) target)" by auto
  show ?case
  proof (cases m)
    case Nil
    with len st have "Suc state = length target" by simp
    with e Nil Cons.prems(3) st show ?thesis by (auto simp: Let_def)
  next
    case (Cons c' m')
    with len have "Suc state \<noteq> length target" by simp
    with e Cons.IH [OF e(2), of "Suc i"] Cons Cons.prems(3) st show ?thesis
      by (simp add: Let_def)
  qed
qed

lemma find_with_complete:
  assumes "occurs eq source target i" and "target \<noteq> []"
    and "\<forall>j < i. \<not> eq (source ! j) (target ! 0)"
  shows "find_with eq source target = Some (Some i)"
proof -
  let ?m = "take (length target) (drop i source)"
  have m: "list_all2 eq ?m target" using assms(1) by (simp add: occurs_def)
  then have "length ?m = length target" by (rule list_all2_lengthD)
  moreover have "0 < length target" using assms(2) by simp
  ultimately have "length target \<le> length source - i" "?m \<noteq> []" by auto
  with \<open>0 < length target\<close> have len: "i + length target \<le> length source" "?m \<noteq> []" by linarith+
  have src: "source = take i source @ ?m @ drop (length target) (drop i source)"
    by (simp only: append_take_drop_id)
  have skip: "\<forall>c \<in> set (take i source). \<not> eq c (target ! 0)"
    using assms(3) len(1) by (auto simp: in_set_conv_nth)
  have "find_loop eq target source 0 0 = Some (Some i)"
    by (subst src) (use find_loop_skip [of target "take i source" eq] assms(2) skip find_loop_match [of eq ?m 0 target i] m len
        in simp)
  then show ?thesis using assms(2) len(1) by (simp add: find_with_def)
qed

section \<open>Hexadecimal digits\<close>

text \<open>The conversions \<open>%02x\<close> and \<open>%04x\<close> of the formatted output the library uses.\<close>

definition hex_digit :: "nat \<Rightarrow> char" where
  "hex_digit n = ''0123456789abcdef'' ! n"

definition hex2 :: "nat \<Rightarrow> string" where
  "hex2 n = [hex_digit (n div 16 mod 16), hex_digit (n mod 16)]"

definition hex4 :: "nat \<Rightarrow> string" where
  "hex4 n = hex2 (n div 256) @ hex2 n"

lemma length_hex [simp]: "length (hex2 n) = 2" "length (hex4 n) = 4"
  by (simp_all add: hex2_def hex4_def)

section \<open>Properties\<close>

text \<open>C24. Both searches return on every pair of strings without reading outside them, and an
  index they report is the position of an occurrence of the target (up to letter case for the
  case-insensitive one).\<close>

theorem find_sound:
  "(\<exists>r. string_util_find source target = Some r \<and>
        (case r of Some i \<Rightarrow> occurs same_char source target i | None \<Rightarrow> True)) \<and>
   (\<exists>r. string_util_find_case_insensitive source target = Some r \<and>
        (case r of Some i \<Rightarrow> occurs same_letter source target i | None \<Rightarrow> True))"
  unfolding string_util_find_def string_util_find_case_insensitive_def
  using find_with_sound by blast

text \<open>\<open>string_util_find\<close> finds an occurrence at \<open>i\<close>, and reports \<open>i\<close>, when the first
  character of the target does not occur before \<open>i\<close>.\<close>

theorem find_complete_first_char:
  assumes "occurs same_char source target i" and "target \<noteq> []"
    and "\<forall>j < i. source ! j \<noteq> target ! 0"
  shows "string_util_find source target = Some (Some i)"
  unfolding string_util_find_def
  using find_with_complete [OF assms(1,2)] assms(3) by (simp add: same_char_def)

theorem find_complete_first_char_witness:
  "string_util_find ''xyabc'' ''ab'' = Some (Some 2)"
proof (rule find_complete_first_char)
  show "\<forall>j < 2. ''xyabc'' ! j \<noteq> ''ab'' ! 0" by (simp add: less_2_cases_iff)
qed (simp_all add: occurs_def same_char_def)

text \<open>The search is not complete: an occurrence that starts inside a failed partial match
  is missed, by both searches.\<close>

theorem find_incomplete:
  "occurs same_char ''aab'' ''ab'' 1 \<and> string_util_find ''aab'' ''ab'' = Some None \<and>
   string_util_find_case_insensitive ''aAb'' ''ab'' = Some None"
  by (simp add: occurs_def same_char_def string_util_find_def find_with_def Let_def
      string_util_find_case_insensitive_def same_letter_def LOWERCASE_def char_at_def of_char_def char_of_def
      bit_iff_odd)

text \<open>An output of \<open>snprintf\<close> that exactly fills the buffer size is reported as a success
  although its last character is not stored; only a shorter one is stored completely.\<close>

theorem snprintf_truncates_silently:
  assumes "length s = len" and "0 < len" and "len \<le> length b"
  shows "string_util_snprintf b len (Some s) =
           Some (MCL_OK, map Some (cstr (butlast s)) @ drop len b)"
  using assms
  by (auto simp: string_util_snprintf_def print_formatted_string_def vsnprintf_stores_def
      string_util_memcpy_def butlast_conv_take)

theorem snprintf_truncates_silently_witness:
  "string_util_snprintf (fresh_block 3) 3 (Some ''abc'') =
     Some (MCL_OK, [Some CHR ''a'', Some CHR ''b'', Some MCL_NULL_CHAR])"
  using snprintf_truncates_silently [of "''abc''" 3 "fresh_block 3"] by (simp add: cstr_def)

end
