(* ===== verification/MclBase64.thy ===== *)
theory MclBase64
  imports MclString
begin

unbundle bit_operations_syntax

text \<open>
  Base64 of \<open>src/mcl_core/src/base64.c\<close>, standard and url alphabet, with the tables of the source,
  32-bit group values and the writes into the allocated output block. The two alphabets share
  their proofs in the locale \<open>base64_alphabet\<close>, which is interpreted on both pairs of tables.
\<close>

section \<open>Tables\<close>

definition PADDING_CHAR :: char where "PADDING_CHAR = CHR ''=''"
definition QUANTUM_SIZE :: nat where "QUANTUM_SIZE = 4"
definition INPUT_GROUP_SIZE :: nat where "INPUT_GROUP_SIZE = 3"
definition MAX_PADDING_CHAR_COUNT :: nat where "MAX_PADDING_CHAR_COUNT = 2"

definition base64_encode_table :: "char list" where
  "base64_encode_table = ''ABCDEFGHIJKLMNOPQRSTUVWXYZabcdefghijklmnopqrstuvwxyz0123456789+/''"

definition base64_url_encode_table :: "char list" where
  "base64_url_encode_table = ''ABCDEFGHIJKLMNOPQRSTUVWXYZabcdefghijklmnopqrstuvwxyz0123456789-_''"

definition base64_decode_table :: "8 word list" where
  "base64_decode_table = [
    0xFF, 0xFF, 0xFF, 0xFF, 0xFF, 0xFF, 0xFF, 0xFF, 0xFF, 0xFF, 0xFF, 0xFF, 0xFF, 0xFF, 0xFF, 0xFF,
    0xFF, 0xFF, 0xFF, 0xFF, 0xFF, 0xFF, 0xFF, 0xFF, 0xFF, 0xFF, 0xFF, 0xFF, 0xFF, 0xFF, 0xFF, 0xFF,
    0xFF, 0xFF, 0xFF, 0xFF, 0xFF, 0xFF, 0xFF, 0xFF, 0xFF, 0xFF, 0xFF, 0x3E, 0xFF, 0xFF, 0xFF, 0x3F,
    0x34, 0x35, 0x36, 0x37, 0x38, 0x39, 0x3A, 0x3B, 0x3C, 0x3D, 0xFF, 0xFF, 0xFF, 0xFF, 0xFF, 0xFF,
    0xFF, 0x00, 0x01, 0x02, 0x03, 0x04, 0x05, 0x06, 0x07, 0x08, 0x09, 0x0A, 0x0B, 0x0C, 0x0D, 0x0E,
    0x0F, 0x10, 0x11, 0x12, 0x13, 0x14, 0x15, 0x16, 0x17, 0x18, 0x19, 0xFF, 0xFF, 0xFF, 0xFF, 0xFF,
    0xFF, 0x1A, 0x1B, 0x1C, 0x1D, 0x1E, 0x1F, 0x20, 0x21, 0x22, 0x23, 0x24, 0x25, 0x26, 0x27, 0x28,
    0x29, 0x2A, 0x2B, 0x2C, 0x2D, 0x2E, 0x2F, 0x30, 0x31, 0x32, 0x33, 0xFF, 0xFF, 0xFF, 0xFF, 0xFF,
    0xFF, 0xFF, 0xFF, 0xFF, 0xFF, 0xFF, 0xFF, 0xFF, 0xFF, 0xFF, 0xFF, 0xFF, 0xFF, 0xFF, 0xFF, 0xFF,
    0xFF, 0xFF, 0xFF, 0xFF, 0xFF, 0xFF, 0xFF, 0xFF, 0xFF, 0xFF, 0xFF, 0xFF, 0xFF, 0xFF, 0xFF, 0xFF,
    0xFF, 0xFF, 0xFF, 0xFF, 0xFF, 0xFF, 0xFF, 0xFF, 0xFF, 0xFF, 0xFF, 0xFF, 0xFF, 0xFF, 0xFF, 0xFF,
    0xFF, 0xFF, 0xFF, 0xFF, 0xFF, 0xFF, 0xFF, 0xFF, 0xFF, 0xFF, 0xFF, 0xFF, 0xFF, 0xFF, 0xFF, 0xFF,
    0xFF, 0xFF, 0xFF, 0xFF, 0xFF, 0xFF, 0xFF, 0xFF, 0xFF, 0xFF, 0xFF, 0xFF, 0xFF, 0xFF, 0xFF, 0xFF,
    0xFF, 0xFF, 0xFF, 0xFF, 0xFF, 0xFF, 0xFF, 0xFF, 0xFF, 0xFF, 0xFF, 0xFF, 0xFF, 0xFF, 0xFF, 0xFF,
    0xFF, 0xFF, 0xFF, 0xFF, 0xFF, 0xFF, 0xFF, 0xFF, 0xFF, 0xFF, 0xFF, 0xFF, 0xFF, 0xFF, 0xFF, 0xFF,
    0xFF, 0xFF, 0xFF, 0xFF, 0xFF, 0xFF, 0xFF, 0xFF, 0xFF, 0xFF, 0xFF, 0xFF, 0xFF, 0xFF, 0xFF, 0xFF]"

definition base64_url_decode_table :: "8 word list" where
  "base64_url_decode_table = [
    0xFF, 0xFF, 0xFF, 0xFF, 0xFF, 0xFF, 0xFF, 0xFF, 0xFF, 0xFF, 0xFF, 0xFF, 0xFF, 0xFF, 0xFF, 0xFF,
    0xFF, 0xFF, 0xFF, 0xFF, 0xFF, 0xFF, 0xFF, 0xFF, 0xFF, 0xFF, 0xFF, 0xFF, 0xFF, 0xFF, 0xFF, 0xFF,
    0xFF, 0xFF, 0xFF, 0xFF, 0xFF, 0xFF, 0xFF, 0xFF, 0xFF, 0xFF, 0xFF, 0xFF, 0xFF, 0x3E, 0xFF, 0xFF,
    0x34, 0x35, 0x36, 0x37, 0x38, 0x39, 0x3A, 0x3B, 0x3C, 0x3D, 0xFF, 0xFF, 0xFF, 0xFF, 0xFF, 0xFF,
    0xFF, 0x00, 0x01, 0x02, 0x03, 0x04, 0x05, 0x06, 0x07, 0x08, 0x09, 0x0A, 0x0B, 0x0C, 0x0D, 0x0E,
    0x0F, 0x10, 0x11, 0x12, 0x13, 0x14, 0x15, 0x16, 0x17, 0x18, 0x19, 0xFF, 0xFF, 0xFF, 0xFF, 0x3F,
    0xFF, 0x1A, 0x1B, 0x1C, 0x1D, 0x1E, 0x1F, 0x20, 0x21, 0x22, 0x23, 0x24, 0x25, 0x26, 0x27, 0x28,
    0x29, 0x2A, 0x2B, 0x2C, 0x2D, 0x2E, 0x2F, 0x30, 0x31, 0x32, 0x33, 0xFF, 0xFF, 0xFF, 0xFF, 0xFF,
    0xFF, 0xFF, 0xFF, 0xFF, 0xFF, 0xFF, 0xFF, 0xFF, 0xFF, 0xFF, 0xFF, 0xFF, 0xFF, 0xFF, 0xFF, 0xFF,
    0xFF, 0xFF, 0xFF, 0xFF, 0xFF, 0xFF, 0xFF, 0xFF, 0xFF, 0xFF, 0xFF, 0xFF, 0xFF, 0xFF, 0xFF, 0xFF,
    0xFF, 0xFF, 0xFF, 0xFF, 0xFF, 0xFF, 0xFF, 0xFF, 0xFF, 0xFF, 0xFF, 0xFF, 0xFF, 0xFF, 0xFF, 0xFF,
    0xFF, 0xFF, 0xFF, 0xFF, 0xFF, 0xFF, 0xFF, 0xFF, 0xFF, 0xFF, 0xFF, 0xFF, 0xFF, 0xFF, 0xFF, 0xFF,
    0xFF, 0xFF, 0xFF, 0xFF, 0xFF, 0xFF, 0xFF, 0xFF, 0xFF, 0xFF, 0xFF, 0xFF, 0xFF, 0xFF, 0xFF, 0xFF,
    0xFF, 0xFF, 0xFF, 0xFF, 0xFF, 0xFF, 0xFF, 0xFF, 0xFF, 0xFF, 0xFF, 0xFF, 0xFF, 0xFF, 0xFF, 0xFF,
    0xFF, 0xFF, 0xFF, 0xFF, 0xFF, 0xFF, 0xFF, 0xFF, 0xFF, 0xFF, 0xFF, 0xFF, 0xFF, 0xFF, 0xFF, 0xFF,
    0xFF, 0xFF, 0xFF, 0xFF, 0xFF, 0xFF, 0xFF, 0xFF, 0xFF, 0xFF, 0xFF, 0xFF, 0xFF, 0xFF, 0xFF, 0xFF]"

section \<open>Encoding\<close>

text \<open>
  The inner loop writes the characters of a group from the last one back; positions after
  \<open>last_index\<close> get the padding character (3 for a complete group, the remainder otherwise).
\<close>

fun encode_group ::
  "char list \<Rightarrow> char block \<Rightarrow> nat \<Rightarrow> nat \<Rightarrow> 32 word \<Rightarrow> nat \<Rightarrow> char block option" where
  "encode_group table b pos last_index input 0 = Some b"
| "encode_group table b pos last_index input (Suc index) = do {
     c \<leftarrow> (if index > last_index then Some PADDING_CHAR else read table (unat (input AND 0x3F)));
     b' \<leftarrow> store b (pos + index) c;
     encode_group table b' pos last_index (drop_bit 6 input) index
   }"

fun encode_loop ::
  "char list \<Rightarrow> 8 word list \<Rightarrow> char block \<Rightarrow> nat \<Rightarrow> nat \<Rightarrow> char block option" where
  "encode_loop table data b iteration 0 = Some b"
| "encode_loop table data b iteration (Suc k) = do {
     x0 \<leftarrow> read data (iteration * INPUT_GROUP_SIZE);
     x1 \<leftarrow> read data (iteration * INPUT_GROUP_SIZE + 1);
     x2 \<leftarrow> read data (iteration * INPUT_GROUP_SIZE + 2);
     let input = push_bit 16 (ucast x0 :: 32 word) OR push_bit 8 (ucast x1) OR ucast x2;
     b' \<leftarrow> encode_group table b (iteration * QUANTUM_SIZE) 3 input QUANTUM_SIZE;
     encode_loop table data b' (iteration + 1) k
   }"

definition encode_with_table ::
  "char list \<Rightarrow> bool \<Rightarrow> 8 word list \<Rightarrow> nat \<Rightarrow> char block result option" where
  "encode_with_table table alloc data data_size = (
     let iteration_count = data_size div INPUT_GROUP_SIZE;
         remainder = data_size mod INPUT_GROUP_SIZE;
         buffer_size = iteration_count * QUANTUM_SIZE + 1 +
                       (if 0 \<noteq> remainder then QUANTUM_SIZE else 0)
     in if \<not> alloc then Some (Err MCL_OUT_OF_MEMORY)
        else do {
          b1 \<leftarrow> encode_loop table data (fresh_block buffer_size) 0 iteration_count;
          b2 \<leftarrow> (if 0 \<noteq> remainder then do {
                   x0 \<leftarrow> read data (iteration_count * INPUT_GROUP_SIZE);
                   x1 \<leftarrow> (if 1 < remainder then read data (iteration_count * INPUT_GROUP_SIZE + 1)
                          else Some 0);
                   let input = push_bit 16 (ucast x0 :: 32 word) OR push_bit 8 (ucast x1);
                   encode_group table b1 (iteration_count * QUANTUM_SIZE) remainder input QUANTUM_SIZE
                 } else Some b1);
          b3 \<leftarrow> store b2 (buffer_size - 1) MCL_NULL_CHAR;
          Some (Ok b3)
        })"

definition base64_encode :: "bool \<Rightarrow> 8 word list \<Rightarrow> nat \<Rightarrow> char block result option" where
  "base64_encode alloc data data_size = encode_with_table base64_encode_table alloc data data_size"

definition base64_url_encode :: "bool \<Rightarrow> 8 word list \<Rightarrow> nat \<Rightarrow> char block result option" where
  "base64_url_encode alloc data data_size =
     encode_with_table base64_url_encode_table alloc data data_size"

section \<open>Decoding\<close>

text \<open>Composes the 24-bit value of a quantum and counts its padding characters.\<close>

fun compose_quantum :: "8 word list \<Rightarrow> char list \<Rightarrow> 32 word \<Rightarrow> nat \<Rightarrow> (32 word \<times> nat) result" where
  "compose_quantum table [] data padding_count = Ok (data, padding_count)"
| "compose_quantum table (c # cs) data padding_count =
     (if c = PADDING_CHAR
      then (if MAX_PADDING_CHAR_COUNT < padding_count + 1 then Err MCL_BAD_CONTENT_ENCODING
            else compose_quantum table cs (push_bit 6 data) (padding_count + 1))
      else let table_index = table ! of_char c in
           if table_index = 0xFF then Err MCL_BAD_CONTENT_ENCODING
           else compose_quantum table cs (push_bit 6 data + ucast table_index) padding_count)"

fun write_quantum :: "8 word block \<Rightarrow> nat \<Rightarrow> nat \<Rightarrow> 32 word \<Rightarrow> nat \<Rightarrow> 8 word block option" where
  "write_quantum b pos padding_count data 0 = Some b"
| "write_quantum b pos padding_count data (Suc index) = do {
     b' \<leftarrow> (if INPUT_GROUP_SIZE > padding_count + index
            then store b (pos + index) (ucast data AND 0xFF) else Some b);
     write_quantum b' pos padding_count (drop_bit 8 data) index
   }"

definition decode_quantum ::
  "8 word list \<Rightarrow> string \<Rightarrow> nat \<Rightarrow> 8 word block \<Rightarrow> nat \<Rightarrow> (mcl_error \<times> 8 word block) option" where
  "decode_quantum table source spos b dpos =
     (if spos + QUANTUM_SIZE \<le> length source
      then (case compose_quantum table (take QUANTUM_SIZE (drop spos source)) 0 0 of
              Inl e \<Rightarrow> Some (e, b)
            | Inr (data, padding_count) \<Rightarrow> do {
                b' \<leftarrow> write_quantum b dpos padding_count data INPUT_GROUP_SIZE;
                Some (MCL_OK, b')
              })
      else None)"

fun decode_loop ::
  "8 word list \<Rightarrow> string \<Rightarrow> nat \<Rightarrow> 8 word block \<Rightarrow> nat \<Rightarrow> nat \<Rightarrow> (mcl_error \<times> 8 word block) option" where
  "decode_loop table source spos b dpos 0 = Some (MCL_OK, b)"
| "decode_loop table source spos b dpos (Suc k) = do {
     (code, b') \<leftarrow> decode_quantum table source spos b dpos;
     if code = MCL_OK
     then decode_loop table source (spos + QUANTUM_SIZE) b' (dpos + INPUT_GROUP_SIZE) k
     else Some (code, b')
   }"

text \<open>Counts the padding characters at the end; the loop does not look at index 0.\<close>

fun count_padding :: "string \<Rightarrow> nat \<Rightarrow> nat \<Rightarrow> nat result" where
  "count_padding s 0 padding_count = Ok padding_count"
| "count_padding s (Suc i) padding_count =
     (if s ! Suc i = PADDING_CHAR
      then (if MAX_PADDING_CHAR_COUNT < padding_count + 1 then Err MCL_BAD_CONTENT_ENCODING
            else count_padding s i (padding_count + 1))
      else Ok padding_count)"

text \<open>On success the decoded block, which has one more cell for a terminator, and the size.\<close>

definition decode_with_table ::
  "8 word list \<Rightarrow> bool \<Rightarrow> string option \<Rightarrow> (8 word block \<times> nat) result option" where
  "decode_with_table table alloc encoded_data = (
     let s = (case encoded_data of None \<Rightarrow> [] | Some e \<Rightarrow> e);
         encoded_data_length = length s
     in if \<not> (0 < encoded_data_length \<and> encoded_data_length mod QUANTUM_SIZE = 0)
        then Some (Err MCL_BAD_CONTENT_ENCODING)
        else (case count_padding s (encoded_data_length - 1) 0 of
          Inl e \<Rightarrow> Some (Err e)
        | Inr padding_count \<Rightarrow>
            if PADDING_CHAR \<in> set (take (encoded_data_length - (1 + padding_count)) s)
            then Some (Err MCL_BAD_CONTENT_ENCODING)
            else let number_of_quantums = encoded_data_length div QUANTUM_SIZE;
                     decoded_data_size = number_of_quantums * INPUT_GROUP_SIZE - padding_count
                 in if \<not> alloc then Some (Err MCL_OUT_OF_MEMORY)
                    else do {
                      (code, b) \<leftarrow> decode_loop table s 0 (fresh_block (decoded_data_size + 1)) 0
                                    number_of_quantums;
                      b' \<leftarrow> store b decoded_data_size 0;
                      Some (if code = MCL_OK then Ok (b', decoded_data_size) else Err code)
                    }))"

definition base64_decode :: "bool \<Rightarrow> string option \<Rightarrow> (8 word block \<times> nat) result option" where
  "base64_decode alloc encoded_data = decode_with_table base64_decode_table alloc encoded_data"

definition base64_url_decode :: "bool \<Rightarrow> string option \<Rightarrow> (8 word block \<times> nat) result option" where
  "base64_url_decode alloc encoded_data =
     decode_with_table base64_url_decode_table alloc encoded_data"

section \<open>Group values\<close>

definition group_word :: "8 word \<Rightarrow> 8 word \<Rightarrow> 8 word \<Rightarrow> 32 word" where
  "group_word x0 x1 x2 = push_bit 16 (ucast x0) OR push_bit 8 (ucast x1) OR ucast x2"

lemma unat_byte: "unat (x :: 8 word) < 256"
  by (rule less_le_trans [OF unsigned_less]) simp

lemma and_zero_iff_bits: "(\<And>n. \<not> (bit v n \<and> bit w n)) \<Longrightarrow> v AND w = (0 :: 32 word)"
  by (rule bit_eqI) (auto simp: bit_simps)

lemma unat_group_word:
  "unat (group_word x0 x1 x2) = unat x0 * 65536 + unat x1 * 256 + unat x2"
proof -
  have "push_bit 16 (ucast x0) AND push_bit 8 (ucast x1) = (0 :: 32 word)"
    "(push_bit 16 (ucast x0) OR push_bit 8 (ucast x1)) AND ucast x2 = (0 :: 32 word)"
    by (rule and_zero_iff_bits; auto simp: bit_simps dest: bit_imp_le_length)+
  then have "group_word x0 x1 x2 = push_bit 16 (ucast x0) + push_bit 8 (ucast x1) + ucast x2"
    unfolding group_word_def by (simp add: disjunctive_add_eq_or or.assoc)
  also have "unat \<dots> = unat x0 * 65536 + unat x1 * 256 + unat x2"
    using unat_byte [of x0] unat_byte [of x1] unat_byte [of x2]
    by (simp add: push_bit_eq_mult unat_word_ariths unsigned_ucast_eq take_bit_nat_eq_self)
  finally show ?thesis .
qed

lemma unat_sextet: "unat ((x :: 32 word) AND 0x3F) = unat x mod 64"
proof -
  have "x AND 0x3F = take_bit 6 x" by (simp add: take_bit_eq_mask mask_eq_exp_minus_1)
  then have "unat (x AND 0x3F) = take_bit 6 (unat x)" by (simp only: unsigned_take_bit_eq)
  then show ?thesis by (simp add: take_bit_eq_mod)
qed

lemma unat_drop: "unat (drop_bit n (x :: 32 word)) = unat x div 2 ^ n"
  by (simp add: unat_drop_bit_eq flip: drop_bit_eq_div)

section \<open>What the writing loops produce\<close>

lemma store_append: "k < length ys \<Longrightarrow> store (xs @ ys) (length xs + k) v = Some (xs @ ys[k := Some v])"
  by (simp add: list_update_append)

lemma encode_group_step:
  assumes "length table = 64" and "k < length ys"
  shows "encode_group table (xs @ ys) (length xs) l w (Suc k) =
     encode_group table (xs @ ys[k := Some (if k > l then PADDING_CHAR else table ! (unat w mod 64))])
       (length xs) l (drop_bit 6 w) k"
  using assms by (simp add: store_append unat_sextet del: store_in)

lemma encode_group_eq:
  assumes "length table = 64"
  shows "encode_group table (xs @ r0 # r1 # r2 # r3 # ys) (length xs) l w 4 =
           Some (xs @ map Some
             [if 0 > l then PADDING_CHAR else table ! (unat w div 262144 mod 64),
              if 1 > l then PADDING_CHAR else table ! (unat w div 4096 mod 64),
              if 2 > l then PADDING_CHAR else table ! (unat w div 64 mod 64),
              if 3 > l then PADDING_CHAR else table ! (unat w mod 64)] @ ys)"
proof -
  have 4: "4 = Suc (Suc (Suc (Suc 0)))" by simp
  show ?thesis unfolding 4
    using assms by (simp add: encode_group_step unat_drop div_mult2_eq [symmetric]
        del: encode_group.simps(2))
qed

lemma write_quantum_step:
  "write_quantum (xs @ ys) (length xs) p data (Suc k) =
     (if p + k < 3 then (if k < length ys
        then write_quantum (xs @ ys[k := Some (ucast data AND 0xFF)]) (length xs) p (drop_bit 8 data) k
        else None)
      else write_quantum (xs @ ys) (length xs) p (drop_bit 8 data) k)"
  by (auto simp: store_append INPUT_GROUP_SIZE_def store_def list_update_append)

definition quantum_bytes :: "32 word \<Rightarrow> nat \<Rightarrow> 8 word list" where
  "quantum_bytes data p = take (3 - p)
     [ucast (drop_bit 16 data) AND 0xFF, ucast (drop_bit 8 data) AND 0xFF, ucast data AND 0xFF]"

lemma length_quantum_bytes [simp]: "length (quantum_bytes data p) = 3 - p"
  by (simp add: quantum_bytes_def)

lemma write_quantum_eq:
  assumes "p \<le> 2" and "3 - p \<le> length ys"
  shows "write_quantum (xs @ ys) (length xs) p data 3 =
           Some (xs @ map Some (quantum_bytes data p) @ drop (3 - p) ys)"
proof -
  have 3: "3 = Suc (Suc (Suc 0))" by simp
  consider (none) y0 y1 y2 zs where "p = 0" "ys = y0 # y1 # y2 # zs"
    | (one) y0 y1 zs where "p = 1" "ys = y0 # y1 # zs" | (two) y0 zs where "p = 2" "ys = y0 # zs"
    using assms by (cases ys; cases "tl ys"; cases "tl (tl ys)") fastforce+
  then show ?thesis
    by cases (simp_all add: 3 write_quantum_step quantum_bytes_def drop_bit_drop_bit
        del: write_quantum.simps(2))
qed

section \<open>Reference encoding\<close>

text \<open>
  RFC 4648, by arithmetic on the octets: three octets give four six-bit indexes, and a short
  last group is filled with zero bits and padding characters.
\<close>

fun base64_spec :: "char list \<Rightarrow> 8 word list \<Rightarrow> string" where
  "base64_spec t [] = []"
| "base64_spec t [a] =
     [t ! (unat a div 4), t ! (unat a mod 4 * 16), PADDING_CHAR, PADDING_CHAR]"
| "base64_spec t [a, b] =
     [t ! (unat a div 4), t ! (unat a mod 4 * 16 + unat b div 16), t ! (unat b mod 16 * 4),
      PADDING_CHAR]"
| "base64_spec t (a # b # c # xs) =
     t ! (unat a div 4) # t ! (unat a mod 4 * 16 + unat b div 16) #
     t ! (unat b mod 16 * 4 + unat c div 64) # t ! (unat c mod 64) # base64_spec t xs"

lemma length_base64_spec: "length (base64_spec t xs) = 4 * ((length xs + 2) div 3)"
proof (induction t xs rule: base64_spec.induct)
  case (4 t a b c xs)
  have "(length (a # b # c # xs) + 2) div 3 = Suc ((length xs + 2) div 3)" by simp
  with 4 show ?case by simp
qed simp_all

text \<open>The six-bit fields of a group value.\<close>

lemma mod_64_eq: "n = 64 * q + r \<Longrightarrow> r < 64 \<Longrightarrow> n mod 64 = (r :: nat)"
  by simp

lemma group_fields:
  fixes a b c :: nat
  assumes "a < 256" and "b < 256" and "c < 256"
  shows "(a * 65536 + b * 256 + c) div 262144 mod 64 = a div 4"
    and "(a * 65536 + b * 256 + c) div 4096 mod 64 = a mod 4 * 16 + b div 16"
    and "(a * 65536 + b * 256 + c) div 64 mod 64 = b mod 16 * 4 + c div 64"
    and "(a * 65536 + b * 256 + c) mod 64 = c mod 64"
proof -
  define p q r s u v where d: "p = a div 4" "q = a mod 4" "r = b div 16" "s = b mod 16"
    "u = c div 64" "v = c mod 64"
  have eqs: "a = 4 * p + q" "b = 16 * r + s" "c = 64 * u + v" by (simp_all add: d)
  have bounds: "p < 64" "q < 4" "r < 16" "s < 16" "u < 4" "v < 64"
    using assms by (auto simp: d)
  let ?n = "a * 65536 + b * 256 + c"
  have "?n div 262144 = p" "?n div 4096 = a * 16 + r" "?n div 64 = a * 1024 + b * 4 + u"
    by (rule div_nat_eqI; use bounds in \<open>simp add: eqs\<close>)+
  moreover have "(a * 16 + r) mod 64 = q * 16 + r" "(a * 1024 + b * 4 + u) mod 64 = s * 4 + u"
      "?n mod 64 = v"
    by (rule mod_64_eq [of _ p], use bounds in \<open>simp_all add: eqs\<close>)
       (rule mod_64_eq [of _ "a * 16 + r"], use bounds in \<open>simp_all add: eqs\<close>,
        rule mod_64_eq [of _ "a * 1024 + b * 4 + u"], use bounds in \<open>simp_all add: eqs\<close>)
  ultimately show "?n div 262144 mod 64 = a div 4" "?n div 4096 mod 64 = a mod 4 * 16 + b div 16"
      "?n div 64 mod 64 = b mod 16 * 4 + c div 64" "?n mod 64 = c mod 64"
    using bounds(1) by (simp_all flip: d)
qed

lemma group_join:
  fixes a b c :: nat
  shows "((a div 4 * 64 + (a mod 4 * 16 + b div 16)) * 64 + (b mod 16 * 4 + c div 64)) * 64 + c mod 64
         = a * 65536 + b * 256 + c"
  using div_mult_mod_eq [of a 4] div_mult_mod_eq [of b 16] div_mult_mod_eq [of c 64]
  unfolding add_mult_distrib by linarith

lemma encode_group_word:
  assumes "length table = 64"
  shows "encode_group table (xs @ r0 # r1 # r2 # r3 # ys) (length xs) l (group_word a b c) 4 =
           Some (xs @ map Some
             [if 0 > l then PADDING_CHAR else table ! (unat a div 4),
              if 1 > l then PADDING_CHAR else table ! (unat a mod 4 * 16 + unat b div 16),
              if 2 > l then PADDING_CHAR else table ! (unat b mod 16 * 4 + unat c div 64),
              if 3 > l then PADDING_CHAR else table ! (unat c mod 64)] @ ys)"
  unfolding encode_group_eq [OF assms] unat_group_word
    group_fields [OF unat_byte unat_byte unat_byte] ..

lemma fresh_block_4: "fresh_block (4 + n) = None # None # None # None # fresh_block n"
  by (simp add: fresh_block_def eval_nat_numeral)

lemma length_3_split:
  assumes "length xs = 3 * Suc k"
  obtains a b c ys where "xs = a # b # c # ys" and "length ys = 3 * k"
  using assms by (cases xs; cases "tl xs"; cases "tl (tl xs)") auto

lemma encode_loop_spec:
  assumes "length table = 64"
  shows "length pre = 3 * i \<Longrightarrow> length out = 4 * i \<Longrightarrow> length xs = 3 * k \<Longrightarrow>
    encode_loop table (pre @ xs @ zs) (out @ fresh_block (4 * k + m)) i k =
      Some (out @ map Some (base64_spec table xs) @ fresh_block m)"
proof (induction k arbitrary: pre out xs i)
  case 0
  then show ?case by simp
next
  case (Suc k)
  obtain a b c xs' where xs: "xs = a # b # c # xs'" "length xs' = 3 * k"
    using length_3_split [OF Suc.prems(3)] .
  let ?q = "base64_spec table [a, b, c]"
  have reads: "read (pre @ xs @ zs) (i * 3) = Some a" "read (pre @ xs @ zs) (i * 3 + 1) = Some b"
      "read (pre @ xs @ zs) (i * 3 + 2) = Some c"
    using Suc.prems(1) xs by (simp_all add: read_def nth_append nth_Cons')
  have "encode_group table (out @ fresh_block (4 * Suc k + m)) (i * 4) 3 (group_word a b c) 4 =
      Some ((out @ map Some ?q) @ fresh_block (4 * k + m))"
    using encode_group_word [OF assms, of out None None None None "fresh_block (4 * k + m)" 3 a b c]
      Suc.prems(2) fresh_block_4 [of "4 * k + m", where 'a = char] by (simp add: mult.commute [of i] flip: add.assoc)
  moreover have "encode_loop table ((pre @ [a, b, c]) @ xs' @ zs)
      ((out @ map Some ?q) @ fresh_block (4 * k + m)) (Suc i) k =
      Some ((out @ map Some ?q) @ map Some (base64_spec table xs') @ fresh_block m)"
    by (rule Suc.IH) (use Suc.prems xs in simp_all)
  ultimately show ?case using reads xs
    by (simp add: QUANTUM_SIZE_def INPUT_GROUP_SIZE_def Let_def group_word_def or.assoc)
qed

lemma base64_spec_append:
  "length xs = 3 * k \<Longrightarrow> base64_spec t (xs @ ys) = base64_spec t xs @ base64_spec t ys"
proof (induction k arbitrary: xs)
  case (Suc k)
  obtain a b c xs' where "xs = a # b # c # xs'" "length xs' = 3 * k"
    using length_3_split [OF Suc.prems] .
  with Suc.IH [of xs'] show ?case by simp
qed simp

lemma store_last: "store (b @ fresh_block 1) (length b) v = Some (b @ [Some v])"
  using store_append [of 0 "fresh_block 1" b v] by (simp add: fresh_block_def)

text \<open>The remainder group, written after the complete groups \<open>ys\<close>.\<close>

lemma encode_tail:
  assumes "length table = 64" and "length out = 4 * k"
  shows "encode_group table (map Some out @ fresh_block 5) (k * 4) l (group_word a b 0) 4 =
     Some (map Some (out @
        [if 0 > l then PADDING_CHAR else table ! (unat a div 4),
         if 1 > l then PADDING_CHAR else table ! (unat a mod 4 * 16 + unat b div 16),
         if 2 > l then PADDING_CHAR else table ! (unat b mod 16 * 4),
         if 3 > l then PADDING_CHAR else table ! 0]) @ fresh_block 1)"
  using encode_group_word [OF assms(1), of "map Some out" None None None None "fresh_block 1" l a b 0]
    fresh_block_4 [of 1, where 'a = char] assms(2) by (simp add: mult.commute [of k])

lemma encode_with_table_spec:
  assumes "length table = 64"
  shows "encode_with_table table alloc (xs @ zs) (length xs) =
    Some (if alloc then Ok (map Some (cstr (base64_spec table xs))) else Err MCL_OUT_OF_MEMORY)"
proof (cases alloc)
  case True
  define k where "k = length xs div 3"
  define ys where "ys = take (3 * k) xs"
  define ts where "ts = drop (3 * k) xs"
  have ys: "length ys = 3 * k" and ts: "length ts = length xs mod 3" and xs: "xs = ys @ ts"
    by (auto simp: ys_def ts_def k_def minus_mult_div_eq_mod)
  have loop: "encode_loop table (xs @ zs) (fresh_block (m + k * 4)) 0 k =
      Some (map Some (base64_spec table ys) @ fresh_block m)" for m
    using encode_loop_spec [OF assms, of "[]" 0 "[]" ys k "ts @ zs" m] ys xs
    by (simp add: mult.commute add.commute)
  have len: "length (base64_spec table ys) = 4 * k" using ys by (simp add: length_base64_spec)
  have last: "store (map Some (base64_spec table xs) @ fresh_block 1)
      (length (base64_spec table xs)) MCL_NULL_CHAR = Some (map Some (cstr (base64_spec table xs)))"
    using store_last [of "map Some (base64_spec table xs)"] by (simp add: cstr_def)
  note defs = encode_with_table_def Let_def INPUT_GROUP_SIZE_def QUANTUM_SIZE_def
  note spec = base64_spec_append [OF ys, of table ts]
  have "length ts = 0 \<or> length ts = 1 \<or> length ts = 2" using ts by linarith
  then consider (none) "ts = []" | (one) a where "ts = [a]" | (two) a b where "ts = [a, b]"
    by (auto simp: length_Suc_conv numeral_2_eq_2)
  then show ?thesis
  proof cases
    case none
    then have "length xs mod 3 = 0" "length xs div 3 = k" "length (base64_spec table xs) = k * 4"
      "ys = xs" using ts k_def xs len by simp_all
    then show ?thesis using loop [of 1] last True by (simp add: defs del: store_in)
  next
    case one
    have r: "length xs mod 3 = 1" "length xs div 3 = k" using ts [symmetric] k_def one by simp_all
    have lx: "length (base64_spec table xs) = k * 4 + 4"
      unfolding xs spec using len one by simp
    have x: "read (xs @ zs) (k * 3) = Some a"
      using ys xs one by (simp add: read_def nth_append mult.commute)
    have "encode_group table (map Some (base64_spec table ys) @ fresh_block 5) (k * 4) 1
        (push_bit 16 (ucast a)) 4 = Some (map Some (base64_spec table xs) @ fresh_block 1)"
      using encode_tail [OF assms len, of 1 a 0] spec one xs by (simp add: group_word_def)
    then show ?thesis using loop [of 5] last True r x lx by (simp add: defs del: store_in)
  next
    case two
    have r: "length xs mod 3 = 2" "length xs div 3 = k" using ts [symmetric] k_def two by simp_all
    have lx: "length (base64_spec table xs) = k * 4 + 4"
      unfolding xs spec using len two by simp
    have x: "read (xs @ zs) (k * 3) = Some a" "read (xs @ zs) (k * 3 + 1) = Some b"
      using ys xs two by (simp_all add: read_def nth_append mult.commute)
    have "encode_group table (map Some (base64_spec table ys) @ fresh_block 5) (k * 4) 2
        (push_bit 16 (ucast a) OR push_bit 8 (ucast b)) 4 =
        Some (map Some (base64_spec table xs) @ fresh_block 1)"
      using encode_tail [OF assms len, of 2 a b] spec two xs by (simp add: group_word_def)
    then show ?thesis using loop [of 5] last True r x lx by (simp add: defs del: store_in)
  qed
qed (simp add: encode_with_table_def Let_def)

section \<open>Decoding any input\<close>

text \<open>
  \<open>paddings\<close> counts padding characters. Composing a quantum adds its paddings to the count, and
  a quantum that composes has at most two.
\<close>

definition paddings :: "string \<Rightarrow> nat" where
  "paddings s = length (filter (\<lambda>c. c = PADDING_CHAR) s)"

lemma paddings_simps [simp]:
  "paddings [] = 0" "paddings (c # s) = (if c = PADDING_CHAR then Suc (paddings s) else paddings s)"
  "paddings (s @ t) = paddings s + paddings t"
  by (simp_all add: paddings_def)

lemma paddings_0_iff: "paddings s = 0 \<longleftrightarrow> PADDING_CHAR \<notin> set s"
  by (induction s) auto

lemma compose_quantum_paddings:
  "compose_quantum table s d p = Ok (data, p') \<Longrightarrow> p \<le> 2 \<Longrightarrow> p' = p + paddings s \<and> p' \<le> 2"
  by (induction table s d p rule: compose_quantum.induct)
     (auto simp: MAX_PADDING_CHAR_COUNT_def Let_def split: if_splits)

lemma compose_quantum_error:
  "compose_quantum table s d p = Err e \<Longrightarrow> e = MCL_BAD_CONTENT_ENCODING"
  by (induction table s d p rule: compose_quantum.induct) (auto simp: Let_def split: if_splits)

text \<open>The reference decoder: quantum by quantum, the first bad one decides.\<close>

fun decode_spec :: "8 word list \<Rightarrow> string \<Rightarrow> 8 word list result" where
  "decode_spec table (a # b # c # d # s) =
     (case compose_quantum table [a, b, c, d] 0 0 of
        Inl e \<Rightarrow> Inl e
      | Inr (data, p) \<Rightarrow> map_sum id ((@) (quantum_bytes data p)) (decode_spec table s))"
| "decode_spec table _ = Ok []"

lemma length_4_split:
  assumes "length xs = 4 * Suc k"
  obtains a b c d ys where "xs = a # b # c # d # ys" and "length ys = 4 * k"
  using assms by (cases xs; cases "tl xs"; cases "tl (tl xs)"; cases "tl (tl (tl xs))") auto

lemma decode_spec_error: "decode_spec table s = Err e \<Longrightarrow> e = MCL_BAD_CONTENT_ENCODING"
proof (induction table s rule: decode_spec.induct)
  case (1 table a b c d s)
  then show ?case
    by (cases "decode_spec table s")
       (auto dest: compose_quantum_error split: sum.splits simp del: compose_quantum.simps)
qed simp_all

lemma decode_quantum_ok:
  assumes "compose_quantum table [a, b, c, d] 0 0 = Ok (data, p)" and "3 - p \<le> length ys"
  shows "decode_quantum table (pre @ [a, b, c, d] @ rest) (length pre) (xs @ ys) (length xs) =
           Some (MCL_OK, xs @ map Some (quantum_bytes data p) @ drop (3 - p) ys)"
proof -
  have "p \<le> 2" using compose_quantum_paddings [OF assms(1)] by simp
  from write_quantum_eq [OF this assms(2)] assms(1) show ?thesis
    by (simp add: decode_quantum_def QUANTUM_SIZE_def INPUT_GROUP_SIZE_def
        del: compose_quantum.simps paddings_simps)
qed

lemma decode_quantum_error:
  assumes "compose_quantum table [a, b, c, d] 0 0 = Err e"
  shows "decode_quantum table (pre @ [a, b, c, d] @ rest) (length pre) blk pos = Some (e, blk)"
  using assms by (simp add: decode_quantum_def QUANTUM_SIZE_def del: compose_quantum.simps)

lemma fresh_block_split:
  "m \<le> n \<Longrightarrow> length (fresh_block n :: 'a block) = n \<and>
     drop m (fresh_block n) = (fresh_block (n - m) :: 'a block)"
  by (simp add: fresh_block_def)

text \<open>
  When the paddings are all in the last quantum, the loop stays inside a block with a cell for
  every decoded octet and one more.
\<close>

lemma decode_loop_spec:
  assumes "length s = 4 * k" and "PADDING_CHAR \<notin> set (take (4 * (k - 1)) s)" and "paddings s \<le> 2"
  shows "\<exists>b'. decode_loop table (pre @ s) (length pre)
               (map Some out @ fresh_block (3 * k - paddings s + 1)) (length out) k =
             Some (code_of (decode_spec table s), b') \<and>
           length b' = length out + (3 * k - paddings s) + 1 \<and>
           (case decode_spec table s of
              Inl e \<Rightarrow> True
            | Inr bs \<Rightarrow> length bs = 3 * k - paddings s \<and> b' = map Some (out @ bs) @ fresh_block 1)"
  using assms
proof (induction k arbitrary: s pre out)
  case 0
  then show ?case by (simp add: fresh_block_def)
next
  case (Suc k)
  obtain a b c d s' where s: "s = [a, b, c, d] @ s'" "length s' = 4 * k"
    using length_4_split [OF Suc.prems(1)] by (metis append_Cons append_Nil)
  let ?blk = "fresh_block (3 * Suc k - paddings s + 1) :: 8 word block"
  show ?case
  proof (cases "compose_quantum table [a, b, c, d] 0 0")
    case (Inl e)
    with decode_quantum_error [OF this, of pre s'] compose_quantum_error [OF Inl] s Suc.prems(3)
    show ?thesis by (simp del: compose_quantum.simps paddings_simps)
  next
    case (Inr r)
    then obtain data p where ok: "compose_quantum table [a, b, c, d] 0 0 = Ok (data, p)"
      by (cases r) auto
    have p: "p = paddings [a, b, c, d]" using compose_quantum_paddings [OF ok] by simp
    have P: "paddings s = p + paddings s'" using s p by simp
    have front: "take (4 * k) s = [a, b, c, d] @ take (4 * (k - 1)) s'" if "k \<noteq> 0"
      using s that by (cases k) (simp_all add: take_add)
    have last: "p = 0" if "k \<noteq> 0"
    proof -
      have "PADDING_CHAR \<notin> set [a, b, c, d]" using front [OF that] Suc.prems(2) by auto
      then show ?thesis using p paddings_0_iff by metis
    qed
    have enough: "3 - p \<le> 3 * Suc k - paddings s + 1"
      and rest: "3 * Suc k - paddings s + 1 - (3 - p) = 3 * k - paddings s' + 1"
      and size: "3 - p + (3 * k - paddings s') = 3 * Suc k - paddings s"
      using last P Suc.prems(3) s(2) by (cases k; simp)+
    have step: "decode_quantum table (pre @ s) (length pre) (map Some out @ ?blk) (length out) =
        Some (MCL_OK, map Some (out @ quantum_bytes data p) @ fresh_block (3 * k - paddings s' + 1))"
      using decode_quantum_ok [OF ok, of ?blk pre s' "map Some out"] enough s
        fresh_block_split [OF enough, where 'a = "8 word"] rest
      by (simp del: compose_quantum.simps paddings_simps)
    have "PADDING_CHAR \<notin> set (take (4 * (k - 1)) s')"
      using front Suc.prems(2) by (cases "k = 0") auto
    moreover have "paddings s' \<le> 2" using P Suc.prems(3) by simp
    ultimately obtain b' where IH: "decode_loop table ((pre @ [a, b, c, d]) @ s') (length (pre @ [a, b, c, d]))
        (map Some (out @ quantum_bytes data p) @ fresh_block (3 * k - paddings s' + 1))
        (length (out @ quantum_bytes data p)) k = Some (code_of (decode_spec table s'), b')"
      "length b' = length (out @ quantum_bytes data p) + (3 * k - paddings s') + 1"
      "case decode_spec table s' of Inl e \<Rightarrow> True
       | Inr bs \<Rightarrow> length bs = 3 * k - paddings s' \<and>
           b' = map Some ((out @ quantum_bytes data p) @ bs) @ fresh_block 1"
      using Suc.IH [OF s(2)] by blast
    have next_pos: "decode_loop table (pre @ s) (length pre + 4) blk (length out + 3) k =
        decode_loop table ((pre @ [a, b, c, d]) @ s') (length (pre @ [a, b, c, d])) blk
          (length (out @ quantum_bytes data p)) k" for blk
      using last s(1) by (cases "k = 0") (simp_all add: eval_nat_numeral)
    have loop: "decode_loop table (pre @ s) (length pre) (map Some out @ ?blk) (length out) (Suc k) =
        Some (code_of (decode_spec table s'), b')"
      using step IH(1) next_pos by (simp add: QUANTUM_SIZE_def INPUT_GROUP_SIZE_def)
    have "decode_spec table s = map_sum id ((@) (quantum_bytes data p)) (decode_spec table s')"
      using s ok by (simp del: compose_quantum.simps)
    then show ?thesis using loop IH(2,3) size
      by (cases "decode_spec table s'") (auto simp del: decode_loop.simps)
  qed
qed

lemma count_padding_ok:
  "count_padding s i p = Ok p' \<Longrightarrow> i < length s \<Longrightarrow> p \<le> 2 \<Longrightarrow>
   \<exists>n. p' = p + n \<and> p' \<le> 2 \<and> n \<le> i \<and>
       take (Suc i) s = take (Suc i - n) s @ replicate n PADDING_CHAR \<and>
       (n < i \<longrightarrow> s ! (i - n) \<noteq> PADDING_CHAR)"
proof (induction s i p rule: count_padding.induct)
  case (1 s p)
  then show ?case by simp
next
  case (2 s i p)
  show ?case
  proof (cases "s ! Suc i = PADDING_CHAR")
    case True
    with 2 obtain n where n: "p' = Suc p + n" "p' \<le> 2" "n \<le> i"
        "take (Suc i) s = take (Suc i - n) s @ replicate n PADDING_CHAR"
        "n < i \<longrightarrow> s ! (i - n) \<noteq> PADDING_CHAR"
      by (fastforce simp: MAX_PADDING_CHAR_COUNT_def split: if_splits)
    have "take (Suc (Suc i)) s = take (Suc i) s @ [PADDING_CHAR]"
      using 2(3) True by (simp add: take_Suc_snoc)
    then have "take (Suc (Suc i)) s = take (Suc i - n) s @ replicate (Suc n) PADDING_CHAR"
      using n(4) by (simp flip: replicate_append_same)
    then show ?thesis using n by (intro exI [of _ "Suc n"]) simp
  next
    case False
    then show ?thesis using 2 by (intro exI [of _ 0]) simp
  qed
qed

lemma count_padding_error: "count_padding s i p = Err e \<Longrightarrow> e = MCL_BAD_CONTENT_ENCODING"
  by (induction s i p rule: count_padding.induct) (auto split: if_splits)

lemma padding_checks:
  assumes "count_padding s (length s - 1) 0 = Ok p" and "4 \<le> length s"
    and "PADDING_CHAR \<notin> set (take (length s - (1 + p)) s)"
  shows "p \<le> 2" and "paddings s = p" and "PADDING_CHAR \<notin> set (take (length s - 2) s)"
proof -
  obtain n where n: "p = n" "p \<le> 2" "s = take (length s - n) s @ replicate n PADDING_CHAR"
      "s ! (length s - 1 - n) \<noteq> PADDING_CHAR"
    using count_padding_ok [OF assms(1)] assms(2) by fastforce
  have "take (length s - p) s = take (length s - (1 + p)) s @ [s ! (length s - 1 - p)]"
    using take_Suc_snoc [of "length s - (1 + p)" s] n(1,2) assms(2) by (simp add: Suc_diff_Suc)
  then have front: "PADDING_CHAR \<notin> set (take (length s - p) s)" using n(1,4) assms(3) by auto
  have "paddings s = paddings (take (length s - n) s) + paddings (replicate n PADDING_CHAR)"
    using arg_cong [OF n(3), of paddings] unfolding paddings_simps(3) .
  moreover have "paddings (replicate n PADDING_CHAR) = n" by (simp add: paddings_def)
  moreover have "paddings (take (length s - n) s) = 0" using front n(1) paddings_0_iff by metis
  ultimately show "p \<le> 2" "paddings s = p" using n(1,2) by simp_all
  show "PADDING_CHAR \<notin> set (take (length s - 2) s)"
    using front set_take_subset_set_take [of "length s - 2" "length s - p" s] n(1,2)
      diff_le_mono2 [of n 2 "length s"] by auto
qed

text \<open>
  On input that passes the checks the buffers are exactly large enough, and the result is the
  reference decoding with a zero octet behind it.
\<close>

lemma decode_with_table_run:
  assumes "0 < length s \<and> length s mod 4 = 0" and "count_padding s (length s - 1) 0 = Ok p"
    and "PADDING_CHAR \<notin> set (take (length s - (1 + p)) s)"
  shows "decode_with_table table True (Some s) =
    Some (map_sum id (\<lambda>bs. (map Some (bs @ [0]), length bs)) (decode_spec table s))"
proof -
  note defs = decode_with_table_def Let_def QUANTUM_SIZE_def INPUT_GROUP_SIZE_def
  define k where "k = length s div 4"
  have len: "length s = 4 * k" "4 \<le> length s" using assms(1) by (auto simp: k_def dvd_imp_le)
  note checks = padding_checks [OF assms(2) len(2) assms(3)]
  have "set (take (4 * (k - 1)) s) \<subseteq> set (take (length s - 2) s)"
    by (rule set_take_subset_set_take) (use len in simp)
  then have "PADDING_CHAR \<notin> set (take (4 * (k - 1)) s)" using checks(3) by auto
  then obtain b' where loop: "decode_loop table s 0 (fresh_block (3 * k - p + 1)) 0 k =
      Some (code_of (decode_spec table s), b')" "length b' = 3 * k - p + 1"
    "case decode_spec table s of Inl e \<Rightarrow> True
     | Inr bs \<Rightarrow> length bs = 3 * k - p \<and> b' = map Some bs @ fresh_block 1"
    using decode_loop_spec [OF len(1), of table "[]" "[]"] checks(1,2)
    by (cases "decode_spec table s") auto
  have "decode_with_table table True (Some s) = do {
      b'' \<leftarrow> store b' (k * 3 - p) 0;
      Some (if code_of (decode_spec table s) = MCL_OK then Ok (b'', k * 3 - p)
            else Err (code_of (decode_spec table s))) }"
    using assms loop(1) len(1) by (auto simp: defs mult.commute [of k 3] simp del: store_in)
  moreover obtain b'' where "store b' (k * 3 - p) 0 = Some b''"
    "\<And>bs. decode_spec table s = Ok bs \<Longrightarrow> b'' = map Some (bs @ [0]) \<and> length bs = k * 3 - p"
    using loop(2,3)
    by (cases "decode_spec table s") (auto simp: mult.commute [of k 3] list_update_append fresh_block_def)
  ultimately show ?thesis using decode_spec_error [of table s]
    by (cases "decode_spec table s") auto
qed

text \<open>Whatever the input, decoding stays in its buffers.\<close>

lemma decode_with_table_any:
  "\<exists>r. decode_with_table table alloc encoded = Some r \<and>
     (case r of
        Inl e \<Rightarrow> e = MCL_BAD_CONTENT_ENCODING \<or> (e = MCL_OUT_OF_MEMORY \<and> \<not> alloc)
      | Inr (b, n) \<Rightarrow> \<exists>s bs. encoded = Some s \<and> decode_spec table s = Ok bs \<and>
                        b = map Some (bs @ [0]) \<and> n = length bs)"
proof (cases encoded)
  case None
  then show ?thesis by (simp add: decode_with_table_def)
next
  case (Some s)
  note defs = decode_with_table_def Let_def QUANTUM_SIZE_def INPUT_GROUP_SIZE_def
  consider (len) "\<not> (0 < length s \<and> length s mod 4 = 0)"
    | (pad) e where "0 < length s \<and> length s mod 4 = 0" "count_padding s (length s - 1) 0 = Err e"
    | (inside) p where "0 < length s \<and> length s mod 4 = 0"
        "count_padding s (length s - 1) 0 = Ok p" "PADDING_CHAR \<in> set (take (length s - (1 + p)) s)"
    | (oom) p where "0 < length s \<and> length s mod 4 = 0" "\<not> alloc"
        "count_padding s (length s - 1) 0 = Ok p" "PADDING_CHAR \<notin> set (take (length s - (1 + p)) s)"
    | (run) p where "0 < length s \<and> length s mod 4 = 0" alloc
        "count_padding s (length s - 1) 0 = Ok p" "PADDING_CHAR \<notin> set (take (length s - (1 + p)) s)"
    by (metis sum.exhaust)
  then show ?thesis
  proof cases
    case run
    with decode_with_table_run [OF run(1,3,4), of table] Some decode_spec_error [of table s]
    show ?thesis by (cases "decode_spec table s") auto
  next
    case len
    then show ?thesis using Some by (auto simp: defs)
  next
    case pad
    then show ?thesis using Some count_padding_error [OF pad(2)] by (auto simp: defs)
  next
    case inside
    then show ?thesis using Some by (auto simp: defs)
  next
    case oom
    then show ?thesis using Some by (auto simp: defs)
  qed
qed

lemma decode_with_table_safe:
  "\<exists>r. decode_with_table table alloc encoded = Some r \<and>
     (case r of
        Inl e \<Rightarrow> e = MCL_BAD_CONTENT_ENCODING \<or> (e = MCL_OUT_OF_MEMORY \<and> \<not> alloc)
      | Inr (b, n) \<Rightarrow> \<exists>bs. b = map Some (bs @ [0]) \<and> n = length bs)"
proof -
  obtain r where "decode_with_table table alloc encoded = Some r"
    "case r of Inl e \<Rightarrow> e = MCL_BAD_CONTENT_ENCODING \<or> (e = MCL_OUT_OF_MEMORY \<and> \<not> alloc)
     | Inr (b, n) \<Rightarrow> \<exists>s bs. encoded = Some s \<and> decode_spec table s = Ok bs \<and>
                       b = map Some (bs @ [0]) \<and> n = length bs"
    using decode_with_table_any by blast
  then show ?thesis by (cases r) auto
qed

section \<open>Round trip\<close>

text \<open>
  What the two tables of an alphabet promise each other: the decoding table inverts the encoding
  table, and the padding character is not part of the alphabet.
\<close>

locale base64_alphabet =
  fixes enc :: "char list" and dec :: "8 word list"
  assumes enc_length: "length enc = 64"
    and dec_enc: "i < 64 \<Longrightarrow> dec ! of_char (enc ! i) = of_nat i"
    and no_padding: "i < 64 \<Longrightarrow> enc ! i \<noteq> PADDING_CHAR"
begin

lemma compose_char:
  assumes "i < 64"
  shows "compose_quantum dec (enc ! i # cs) (of_nat n) p = compose_quantum dec cs (of_nat (n * 64 + i)) p"
proof -
  have u: "unat (of_nat i :: 8 word) = i"
    using assms by (simp add: unsigned_of_nat take_bit_nat_eq_self)
  then have "(of_nat i :: 8 word) \<noteq> 0xFF" using assms by auto
  moreover have "(ucast (of_nat i :: 8 word) :: 32 word) = of_nat i"
    using u by (metis of_nat_unat unsigned_ucast_eq ucast_id) 
  ultimately show ?thesis using assms by (simp add: dec_enc no_padding push_bit_eq_mult mult.commute)
qed

lemma compose_padding:
  assumes "p < 2"
  shows "compose_quantum dec (PADDING_CHAR # cs) (of_nat n) p = compose_quantum dec cs (of_nat (n * 64)) (Suc p)"
  using assms by (simp add: MAX_PADDING_CHAR_COUNT_def push_bit_eq_mult mult.commute)

lemma quantum_bytes_group:
  assumes "n = unat a * 65536 + unat b * 256 + unat c"
  shows "quantum_bytes (of_nat n) p = take (3 - p) [a, b, c]"
proof -
  have "of_nat n = group_word a b c"
    using assms unat_group_word [of a b c] by (metis of_nat_unat ucast_id)
  moreover have "ucast (drop_bit 16 (group_word a b c)) = a"
    "ucast (drop_bit 8 (group_word a b c)) = b" "ucast (group_word a b c) = c"
    unfolding group_word_def
    by (rule bit_word_eqI; auto simp: bit_simps dest: bit_imp_le_length)+
  moreover have "x AND 0xFF = x" for x :: "8 word"
  proof -
    have "(0xFF :: 8 word) = - 1" by simp
    then show ?thesis by (simp only: and.right_neutral)
  qed
  ultimately show ?thesis by (simp add: quantum_bytes_def)
qed

text \<open>Decoding the groups of the reference encoding gives the octets back.\<close>

lemma compose_group:
  fixes a b c :: "8 word"
  defines "s \<equiv> [enc ! (unat a div 4), enc ! (unat a mod 4 * 16 + unat b div 16)]"
  shows "compose_quantum dec (s @ [enc ! (unat b mod 16 * 4 + unat c div 64), enc ! (unat c mod 64)]) 0 0
           = Ok (of_nat (unat a * 65536 + unat b * 256 + unat c), 0)"
    and "c = 0 \<Longrightarrow> compose_quantum dec (s @ [enc ! (unat b mod 16 * 4), PADDING_CHAR]) 0 0
           = Ok (of_nat (unat a * 65536 + unat b * 256 + unat c), 1)"
    and "b = 0 \<Longrightarrow> c = 0 \<Longrightarrow> compose_quantum dec (s @ [PADDING_CHAR, PADDING_CHAR]) 0 0
           = Ok (of_nat (unat a * 65536 + unat b * 256 + unat c), 2)"
proof -
  have i: "unat a div 4 < 64" "unat a mod 4 * 16 + unat b div 16 < 64"
    "unat b mod 16 * 4 + unat c div 64 < 64" "unat c mod 64 < 64" "unat b mod 16 * 4 < 64"
    using unat_byte [of a] unat_byte [of b] unat_byte [of c] by linarith+
  have z: "(0 :: 32 word) = of_nat 0" by simp
  have step: "compose_quantum dec (s @ cs) 0 0 =
      compose_quantum dec cs (of_nat (unat a div 4 * 64 + (unat a mod 4 * 16 + unat b div 16))) 0" for cs
    unfolding s_def
    by (subst z) (simp only: append.simps compose_char [OF i(1)] compose_char [OF i(2)] mult_0 add_0)
  note join = group_join [of "unat a" "unat b" "unat c"]
  show "compose_quantum dec (s @ [enc ! (unat b mod 16 * 4 + unat c div 64), enc ! (unat c mod 64)]) 0 0
      = Ok (of_nat (unat a * 65536 + unat b * 256 + unat c), 0)"
    by (simp only: step compose_char [OF i(3)] compose_char [OF i(4)] join compose_quantum.simps(1))
  show "compose_quantum dec (s @ [enc ! (unat b mod 16 * 4), PADDING_CHAR]) 0 0
      = Ok (of_nat (unat a * 65536 + unat b * 256 + unat c), 1)" if "c = 0"
  proof -
    have "((unat a div 4 * 64 + (unat a mod 4 * 16 + unat b div 16)) * 64 + unat b mod 16 * 4) * 64 =
        unat a * 65536 + unat b * 256 + unat c" using join that by simp
    then show ?thesis
      by (simp only: step compose_char [OF i(5)] compose_padding [of 0] compose_quantum.simps(1)
          zero_less_numeral One_nat_def)
  qed
  show "compose_quantum dec (s @ [PADDING_CHAR, PADDING_CHAR]) 0 0
      = Ok (of_nat (unat a * 65536 + unat b * 256 + unat c), 2)" if "b = 0" "c = 0"
  proof -
    have "(unat a div 4 * 64 + (unat a mod 4 * 16 + unat b div 16)) * 64 * 64 =
        unat a * 65536 + unat b * 256 + unat c" using join that by simp
    moreover have "(1 :: nat) < 2" by simp
    ultimately show ?thesis
      by (simp only: step compose_padding [of 0] compose_padding [of 1] compose_quantum.simps(1)
          zero_less_numeral flip: One_nat_def numeral_2_eq_2) (simp add: numeral_2_eq_2)
  qed
qed

lemma decode_spec_base64_spec: "t = enc \<Longrightarrow> decode_spec dec (base64_spec t xs) = Ok xs"
proof (induction t xs rule: base64_spec.induct)
  case (2 t a)
  then show ?case using compose_group(3) [of 0 0 a] quantum_bytes_group [of _ a 0 0 2]
    by (simp del: compose_quantum.simps)
next
  case (3 t a b)
  then show ?case using compose_group(2) [of 0 a b] quantum_bytes_group [of _ a b 0 1]
    by (simp del: compose_quantum.simps)
next
  case (4 t a b c xs)
  then show ?case using compose_group(1) [of a b c] quantum_bytes_group [of _ a b c 0]
    by (simp del: compose_quantum.simps)
qed simp

text \<open>The shape of an encoding: characters of the alphabet, then at most two paddings.\<close>

lemma group_no_padding:
  fixes a b c :: "8 word"
  shows "enc ! (unat a div 4) \<noteq> PADDING_CHAR" "enc ! (unat a mod 4 * 16 + unat b div 16) \<noteq> PADDING_CHAR"
    "enc ! (unat b mod 16 * 4 + unat c div 64) \<noteq> PADDING_CHAR" "enc ! (unat c mod 64) \<noteq> PADDING_CHAR"
  using unat_byte [of a] unat_byte [of b] unat_byte [of c] by (auto intro!: no_padding)

lemma base64_spec_shape:
  "t = enc \<Longrightarrow> xs \<noteq> [] \<Longrightarrow> \<exists>body p. base64_spec t xs = body @ replicate p PADDING_CHAR \<and>
     PADDING_CHAR \<notin> set body \<and> p \<le> 2 \<and> 2 \<le> length body"
proof (induction t xs rule: base64_spec.induct)
  case (2 t a)
  then show ?case using group_no_padding(1) [of a] group_no_padding(2) [of a 0]
    by (intro exI [of _ "take 2 (base64_spec enc [a])"] exI [of _ 2]) (auto simp: numeral_2_eq_2)
next
  case (3 t a b)
  then show ?case using group_no_padding(1) [of a] group_no_padding(2) [of a b] group_no_padding(3) [of b 0]
    by (intro exI [of _ "take 3 (base64_spec enc [a, b])"] exI [of _ 1]) (auto simp: numeral_3_eq_3)
next
  case (4 t a b c xs)
  let ?q = "base64_spec enc [a, b, c]"
  have q: "PADDING_CHAR \<notin> set ?q" "length ?q = 4" using group_no_padding(1) [of a] group_no_padding(2) [of a b] group_no_padding(3) [of b c]
      group_no_padding(4) [of c] by auto
  show ?case
  proof (cases "xs = []")
    case True
    then show ?thesis using q 4 by (intro exI [of _ ?q] exI [of _ 0]) simp
  next
    case False
    then obtain body p where "base64_spec t xs = body @ replicate p PADDING_CHAR"
      "PADDING_CHAR \<notin> set body" "p \<le> 2" "2 \<le> length body" using 4 by blast
    then show ?thesis using q 4 by (intro exI [of _ "?q @ body"] exI [of _ p]) simp
  qed
qed simp

text \<open>Such a string passes the checks of the decoder.\<close>

lemma count_padding_shape:
  assumes "s = body @ replicate p PADDING_CHAR" and "PADDING_CHAR \<notin> set body" and "p \<le> 2"
    and "2 \<le> length body"
  shows "count_padding s (length s - 1) 0 = Ok p"
proof -
  obtain b1 y where b1: "body = b1 @ [y]" using assms(4) by (cases body rule: rev_cases) auto
  then obtain b x where body: "body = b @ [x, y]" using assms(4) by (cases b1 rule: rev_cases) auto
  have "p = 0 \<or> p = 1 \<or> p = 2" using assms(3) by linarith
  then show ?thesis using assms(1,2) body
    by (auto simp: nth_append numeral_2_eq_2 MAX_PADDING_CHAR_COUNT_def)
qed

lemma round_trip:
  assumes "xs \<noteq> []"
  shows "decode_with_table dec True (Some (base64_spec enc xs)) = Some (Ok (map Some (xs @ [0]), length xs))"
proof -
  let ?s = "base64_spec enc xs"
  obtain body p where shape: "?s = body @ replicate p PADDING_CHAR" "PADDING_CHAR \<notin> set body"
      "p \<le> 2" "2 \<le> length body"
    using base64_spec_shape [OF refl assms] by blast
  have len: "0 < length ?s \<and> length ?s mod 4 = 0"
  proof -
    have "0 < length xs" using assms by simp
    then have "0 < (length xs + 2) div 3" by linarith
    then show ?thesis unfolding length_base64_spec by simp
  qed
  have "PADDING_CHAR \<notin> set (take (length ?s - (1 + p)) ?s)"
    using shape(2) by (auto simp: shape(1) dest: in_set_takeD)
  from decode_with_table_run [OF len count_padding_shape [OF shape] this, of dec]
  show ?thesis by (simp add: decode_spec_base64_spec)
qed

end

section \<open>The two alphabets\<close>

text \<open>The 64 inverse pairs, checked by computation.\<close>

lemma tables_inverse:
  "map (\<lambda>c. base64_decode_table ! of_char c) base64_encode_table = map of_nat [0..<64]"
  "map (\<lambda>c. base64_url_decode_table ! of_char c) base64_url_encode_table = map of_nat [0..<64]"
  by (simp_all add: base64_decode_table_def base64_encode_table_def base64_url_decode_table_def
      base64_url_encode_table_def upt_rec)

lemma tables_no_padding:
  "length base64_encode_table = 64" "PADDING_CHAR \<notin> set base64_encode_table"
  "length base64_url_encode_table = 64" "PADDING_CHAR \<notin> set base64_url_encode_table"
  by (simp_all add: base64_encode_table_def base64_url_encode_table_def PADDING_CHAR_def)

lemma tables_alphabet:
  assumes "map (\<lambda>c. dec ! of_char c) enc = map of_nat [0..<64]" and "length enc = 64"
    and "PADDING_CHAR \<notin> set enc"
  shows "base64_alphabet enc dec"
proof
  fix i :: nat
  assume i: "i < 64"
  have "map (\<lambda>c. dec ! of_char c) enc ! i = map of_nat [0..<64] ! i" using assms(1) by simp
  then show "dec ! of_char (enc ! i) = of_nat i" using i assms(2) by simp
  show "enc ! i \<noteq> PADDING_CHAR" using i assms(2,3) by (metis nth_mem)
qed (rule assms(2))

interpretation std: base64_alphabet base64_encode_table base64_decode_table
  by (rule tables_alphabet [OF tables_inverse(1) tables_no_padding(1,2)])

interpretation url: base64_alphabet base64_url_encode_table base64_url_decode_table
  by (rule tables_alphabet [OF tables_inverse(2) tables_no_padding(3,4)])

section \<open>Properties\<close>

text \<open>C25. Both encoders produce, in a block of exactly the right size and with a terminator, the
  RFC 4648 encoding of the first \<open>data_size\<close> octets; a failed allocation is
  \<open>MCL_OUT_OF_MEMORY\<close>. No access leaves the data or the block. This includes no octets at all: the
  result is then a block with the empty string, where \<open>base64.h\<close> announces \<open>NULL\<close>.\<close>

theorem base64_encode_rfc4648:
  "base64_encode alloc (xs @ zs) (length xs) =
     Some (if alloc then Ok (map Some (cstr (base64_spec base64_encode_table xs)))
           else Err MCL_OUT_OF_MEMORY) \<and>
   base64_url_encode alloc (xs @ zs) (length xs) =
     Some (if alloc then Ok (map Some (cstr (base64_spec base64_url_encode_table xs)))
           else Err MCL_OUT_OF_MEMORY)"
  unfolding base64_encode_def base64_url_encode_def
  using encode_with_table_spec [OF std.enc_length] encode_with_table_spec [OF url.enc_length] by blast

text \<open>C9. Decoding what an encoder wrote gives the octets back, with their number and a zero
  octet after them, for both alphabets and every non-empty input (the decoders reject the empty
  string, which is what the encoders make of empty input).\<close>

theorem base64_round_trip:
  assumes "xs \<noteq> []"
  shows "(\<exists>s. base64_encode True xs (length xs) = Some (Ok (map Some (cstr s))) \<and>
              base64_decode True (Some s) = Some (Ok (map Some (xs @ [0]), length xs))) \<and>
         (\<exists>s. base64_url_encode True xs (length xs) = Some (Ok (map Some (cstr s))) \<and>
              base64_url_decode True (Some s) = Some (Ok (map Some (xs @ [0]), length xs)))"
  using std.round_trip [OF assms] url.round_trip [OF assms]
    encode_with_table_spec [OF std.enc_length, of True xs "[]"]
    encode_with_table_spec [OF url.enc_length, of True xs "[]"]
  by (simp add: base64_encode_def base64_url_encode_def base64_decode_def base64_url_decode_def)
     blast

theorem base64_round_trip_witness:
  "\<exists>s. base64_encode True [0x4D, 0x61] 2 = Some (Ok (map Some (cstr s))) \<and>
       base64_decode True (Some s) = Some (Ok ([Some 0x4D, Some 0x61, Some 0], 2))"
  using base64_round_trip [of "[0x4D, 0x61]"] by (simp add: numeral_2_eq_2)

text \<open>C26. On every input, well-formed or not, both decoders return without reading or writing
  outside their buffers; they fail only with \<open>MCL_BAD_CONTENT_ENCODING\<close> or, when the allocation
  fails, \<open>MCL_OUT_OF_MEMORY\<close>, and a success fills the returned block completely.\<close>

theorem base64_decode_safe:
  "(\<exists>r. base64_decode alloc encoded = Some r \<and>
        (case r of
           Inl e \<Rightarrow> e = MCL_BAD_CONTENT_ENCODING \<or> (e = MCL_OUT_OF_MEMORY \<and> \<not> alloc)
         | Inr (b, n) \<Rightarrow> \<exists>bs. b = map Some (bs @ [0]) \<and> n = length bs)) \<and>
   (\<exists>r. base64_url_decode alloc encoded = Some r \<and>
        (case r of
           Inl e \<Rightarrow> e = MCL_BAD_CONTENT_ENCODING \<or> (e = MCL_OUT_OF_MEMORY \<and> \<not> alloc)
         | Inr (b, n) \<Rightarrow> \<exists>bs. b = map Some (bs @ [0]) \<and> n = length bs))"
  unfolding base64_decode_def base64_url_decode_def
  by (intro conjI decode_with_table_safe)

end
