(* ===== verification/MclTime.thy ===== *)
theory MclTime
  imports MclString
begin

text \<open>
  The timestamp check of \<open>src/mcl_core/src/time_util.c\<close>: the length, the seven separators at
  their positions, then the seven numbers read one after the other with \<open>strtol\<close>, each starting
  one character after the place where the previous one stopped.
\<close>

section \<open>strtol\<close>

definition is_space :: "char \<Rightarrow> bool" where
  "is_space c \<longleftrightarrow> c = CHR '' '' \<or> (9 \<le> (of_char c :: nat) \<and> (of_char c :: nat) \<le> 13)"

definition is_digit :: "char \<Rightarrow> bool" where
  "is_digit c \<longleftrightarrow> 48 \<le> (of_char c :: nat) \<and> (of_char c :: nat) \<le> 57"

definition digits_value :: "string \<Rightarrow> nat" where
  "digits_value ds = foldl (\<lambda>n c. n * 10 + (of_char c - 48)) 0 ds"

text \<open>
  \<open>strtol(s + p, &end, 10)\<close> on a C string: white space, a sign, digits. The value is clamped to
  the range of a 64-bit \<open>long\<close>; without digits it is 0 and the end is the start. \<open>None\<close> when the
  start is behind the terminator.
\<close>

definition strtol_sign :: "string \<Rightarrow> bool \<times> string" where
  "strtol_sign r =
     (case r of [] \<Rightarrow> (False, r)
      | c # cs \<Rightarrow> if c = CHR ''-'' then (True, cs) else if c = CHR ''+'' then (False, cs) else (False, r))"

definition clamp_long :: "bool \<Rightarrow> nat \<Rightarrow> int" where
  "clamp_long neg n = (if neg then max (- (2 ^ 63)) (- int n) else min (2 ^ 63 - 1) (int n))"

definition strtol10 :: "string \<Rightarrow> nat \<Rightarrow> (int \<times> nat) option" where
  "strtol10 s p =
     (if length s < p then None
      else let (neg, r) = strtol_sign (dropWhile is_space (drop p s));
               ds = takeWhile is_digit r
           in Some (if ds = [] then (0, p)
                    else (clamp_long neg (digits_value ds),
                          length s - length (dropWhile is_digit r))))"

section \<open>Timestamps\<close>

definition MCL_TIMESTAMP_LENGTH :: nat where "MCL_TIMESTAMP_LENGTH = 25"

definition characters_to_check :: "char list" where
  "characters_to_check = ''--T::.Z''"

definition maximum_values :: "int list" where
  "maximum_values = [2999, 12, 31, 23, 59, 59, 999]"

definition character_indexes_to_check :: "nat list" where
  "character_indexes_to_check = [4, 7, 10, 13, 16, 19, 23]"

definition TIMESTAMP_DATE_INDEX :: nat where "TIMESTAMP_DATE_INDEX = 2"

fun check_fields :: "string \<Rightarrow> (nat \<times> int) list \<Rightarrow> nat \<Rightarrow> bool option" where
  "check_fields timestamp [] position = Some True"
| "check_fields timestamp ((index, maximum) # fs) position = do {
     (v, end_pointer) \<leftarrow> strtol10 timestamp position;
     let int_value = sint (word_of_int v :: 32 word);
     if maximum \<ge> int_value \<and>
        (if TIMESTAMP_DATE_INDEX \<ge> index then int_value > 0 else int_value \<ge> 0)
     then check_fields timestamp fs (end_pointer + 1)
     else Some False
   }"

definition mcl_time_util_validate_timestamp :: "string \<Rightarrow> bool option" where
  "mcl_time_util_validate_timestamp timestamp =
     (if length timestamp \<noteq> MCL_TIMESTAMP_LENGTH - 1 then Some False
      else if \<not> list_all2 (\<lambda>c i. timestamp ! i = c) characters_to_check character_indexes_to_check
      then Some False
      else check_fields timestamp (enumerate 0 maximum_values) 0)"

section \<open>Where a number stops\<close>

lemma dropWhile_stop:
  "\<not> P x \<Longrightarrow> dropWhile P (A @ x # B) = dropWhile P A @ x # B"
  by (induction A) auto

lemma digits_value_less:
  "\<forall>c \<in> set ds. is_digit c \<Longrightarrow> digits_value ds < 10 ^ length ds"
proof -
  have "\<forall>c \<in> set ds. is_digit c \<Longrightarrow>
      foldl (\<lambda>n c. n * 10 + (of_char c - 48)) acc ds < (acc + 1) * 10 ^ length ds" for acc :: nat
  proof (induction ds arbitrary: acc)
    case (Cons c ds)
    have "foldl (\<lambda>n c. n * 10 + (of_char c - 48)) acc (c # ds)
        < (acc * 10 + (of_char c - 48) + 1) * 10 ^ length ds"
      using Cons.IH [of "acc * 10 + (of_char c - 48)"] Cons.prems by simp
    also have "\<dots> \<le> (acc * 10 + 10) * 10 ^ length ds"
      using Cons.prems by (intro mult_right_mono) (auto simp: is_digit_def)
    finally show ?case by (simp add: algebra_simps)
  qed simp
  from this [of 0] show "\<forall>c \<in> set ds. is_digit c \<Longrightarrow> ?thesis" by (simp add: digits_value_def)
qed

lemma takeWhile_digits_short:
  assumes "i < length B" and "\<not> is_digit (B ! i)"
  shows "digits_value (takeWhile is_digit B) < 10 ^ i"
proof -
  have "length (takeWhile is_digit B) \<le> i"
    using assms takeWhile_nth [of i is_digit B] set_takeWhileD [of "B ! i" is_digit B]
    by (metis not_less nth_mem)
  then have "10 ^ length (takeWhile is_digit B) \<le> (10 ^ i :: nat)" by (rule power_increasing) simp
  moreover have "digits_value (takeWhile is_digit B) < 10 ^ length (takeWhile is_digit B)"
    by (rule digits_value_less) (auto dest: set_takeWhileD)
  ultimately show ?thesis by (rule less_le_trans [rotated])
qed

text \<open>
  A number that is read before a character that is neither a space, a plus nor a digit stops at
  or before it. It may swallow a minus as its sign; when at most two digits follow, it is then not
  positive.
\<close>

lemma strtol10_end:
  assumes "p \<le> q" and "q < length s" and "strtol10 s p = Some (v, e)"
    and "\<not> is_digit (s ! q)" and "\<not> is_space (s ! q)" and "s ! q \<noteq> CHR ''+''"
    and "s ! q = CHR ''-'' \<Longrightarrow> q + 3 < length s \<and> \<not> is_digit (s ! (q + 3)) \<and>
           0 < sint (word_of_int v :: 32 word)"
  shows "e \<le> q"
proof -
  define x A B where "x = s ! q" and "A = take (q - p) (drop p s)" and "B = drop (Suc q) s"
  have t: "drop p s = A @ x # B" "length A = q - p" "length s = q + Suc (length B)"
    using assms(1,2) id_take_nth_drop [of "q - p" "drop p s"] by (simp_all add: x_def A_def B_def)
  define A1 where "A1 = dropWhile is_space A"
  have r: "dropWhile is_space (drop p s) = A1 @ x # B"
    using t(1) assms(5) by (simp add: dropWhile_stop x_def A1_def)
  show ?thesis
  proof (cases "A1 = [] \<and> x = CHR ''-''")
    case True
    then have "s ! q = CHR ''-''" by (simp add: x_def)
    from assms(7) [OF this] have minus: "q + 3 < length s" "\<not> is_digit (s ! (q + 3))" "0 < sint (word_of_int v :: 32 word)"
      by blast+
    have "2 < length B" using minus(1) t(3) by linarith
    moreover have "B ! 2 = s ! (q + 3)" using minus(1) by (simp add: B_def eval_nat_numeral)
    ultimately have bound: "digits_value (takeWhile is_digit B) < 10 ^ 2"
      using minus(2) takeWhile_digits_short [of 2 B] by metis
    show ?thesis
    proof (cases "takeWhile is_digit B = []")
      case True
      with \<open>A1 = [] \<and> _\<close> assms(1,3) r t(3) show ?thesis by (auto simp: strtol10_def strtol_sign_def Let_def)
    next
      case False
      with \<open>A1 = [] \<and> _\<close> assms(1,3) r t(3) bound have "v = - int (digits_value (takeWhile is_digit B))"
        by (auto simp: strtol10_def strtol_sign_def clamp_long_def Let_def)
      moreover have "int (digits_value (takeWhile is_digit B)) < 100" using bound by simp
      ultimately have range: "- 100 < v" "v \<le> 0" by linarith+
      then have "sint (word_of_int v :: 32 word) = v"
        by (simp only: signed_of_int) (simp add: signed_take_bit_int_eq_self)
      with minus(3) range show ?thesis by simp
    qed
  next
    case False
    define A2 where "A2 = (case A1 of c # cs \<Rightarrow> if c = CHR ''-'' \<or> c = CHR ''+'' then cs else A1 | [] \<Rightarrow> A1)"
    have "e = p \<or> e = length s - length (dropWhile is_digit (A2 @ x # B))"
      using False assms(3,6) r
      by (cases A1) (auto simp: strtol10_def strtol_sign_def Let_def A2_def x_def split: if_splits)
    moreover have "dropWhile is_digit (A2 @ x # B) = dropWhile is_digit A2 @ x # B"
      using assms(4) by (simp add: dropWhile_stop x_def)
    ultimately show ?thesis using t(3) assms(1) by auto
  qed
qed

text \<open>One field before its separator \<open>q\<close>: the next one starts at most one behind it.\<close>

lemma check_fields_step:
  assumes "p \<le> q" and "q < length s" and "\<not> is_digit (s ! q)" and "\<not> is_space (s ! q)"
    and "s ! q \<noteq> CHR ''+''"
    and "s ! q = CHR ''-'' \<Longrightarrow> q + 3 < length s \<and> \<not> is_digit (s ! (q + 3)) \<and> i \<le> TIMESTAMP_DATE_INDEX"
    and "\<And>p'. p' \<le> q + 1 \<Longrightarrow> check_fields s fs p' \<noteq> None"
  shows "check_fields s ((i, m) # fs) p \<noteq> None"
proof -
  obtain v e where st: "strtol10 s p = Some (v, e)"
    using assms(1,2) by (cases "strtol10 s p") (auto simp: strtol10_def Let_def split: prod.splits)
  show ?thesis
  proof (cases "m \<ge> sint (word_of_int v :: 32 word) \<and>
      (if TIMESTAMP_DATE_INDEX \<ge> i then sint (word_of_int v :: 32 word) > 0
       else sint (word_of_int v :: 32 word) \<ge> 0)")
    case True
    have "e \<le> q" by (rule strtol10_end [OF assms(1,2) st assms(3-5)]) (use True assms(6) in auto)
    then show ?thesis using True st assms(7) [of "e + 1"] by (auto simp: Let_def)
  next
    case False
    then show ?thesis using st by (auto simp: Let_def)
  qed
qed

lemma fields_to_check: "enumerate 0 maximum_values =
    [(0, 2999), (1, 12), (2, 31), (3, 23), (4, 59), (5, 59), (6, 999)]"
  by (simp add: maximum_values_def eval_nat_numeral)

lemma validate_safe:
  assumes "length s = 24" and "list_all2 (\<lambda>c i. s ! i = c) characters_to_check character_indexes_to_check"
  shows "check_fields s (enumerate 0 maximum_values) 0 \<noteq> None"
proof -
  have seps: "s ! 4 = CHR ''-''" "s ! 7 = CHR ''-''" "s ! 10 = CHR ''T''" "s ! 13 = CHR '':''"
    "s ! 16 = CHR '':''" "s ! 19 = CHR ''.''" "s ! 23 = CHR ''Z''"
    using assms(2) by (simp_all add: characters_to_check_def character_indexes_to_check_def)
  note chars = is_digit_def is_space_def seps assms(1) TIMESTAMP_DATE_INDEX_def
  have f7: "check_fields s [(6, 999)] p \<noteq> None" if "p \<le> 20" for p
    by (rule check_fields_step [where q = 23]) (use that in \<open>simp_all add: chars\<close>)
  have f6: "check_fields s [(5, 59), (6, 999)] p \<noteq> None" if "p \<le> 17" for p
    by (rule check_fields_step [where q = 19]) (use that f7 in \<open>simp_all add: chars\<close>)
  have f5: "check_fields s [(4, 59), (5, 59), (6, 999)] p \<noteq> None" if "p \<le> 14" for p
    by (rule check_fields_step [where q = 16]) (use that f6 in \<open>simp_all add: chars\<close>)
  have f4: "check_fields s [(3, 23), (4, 59), (5, 59), (6, 999)] p \<noteq> None" if "p \<le> 11" for p
    by (rule check_fields_step [where q = 13]) (use that f5 in \<open>simp_all add: chars\<close>)
  have f3: "check_fields s [(2, 31), (3, 23), (4, 59), (5, 59), (6, 999)] p \<noteq> None" if "p \<le> 8" for p
    by (rule check_fields_step [where q = 10]) (use that f4 in \<open>simp_all add: chars\<close>)
  have f2: "check_fields s [(1, 12), (2, 31), (3, 23), (4, 59), (5, 59), (6, 999)] p \<noteq> None"
    if "p \<le> 5" for p
    by (rule check_fields_step [where q = 7]) (use that f3 in \<open>simp_all add: chars\<close>)
  have "check_fields s [(0, 2999), (1, 12), (2, 31), (3, 23), (4, 59), (5, 59), (6, 999)] 0 \<noteq> None"
    by (rule check_fields_step [where q = 4]) (use f2 in \<open>simp_all add: chars\<close>)
  then show ?thesis by (simp only: fields_to_check not_False_eq_True)
qed

section \<open>Well-formed timestamps\<close>

text \<open>Two, three or four decimal digits of a number.\<close>

definition dec_digit :: "nat \<Rightarrow> char" where "dec_digit n = ''0123456789'' ! (n mod 10)"

definition dec2 :: "nat \<Rightarrow> string" where "dec2 n = [dec_digit (n div 10), dec_digit n]"
definition dec3 :: "nat \<Rightarrow> string" where "dec3 n = dec_digit (n div 100) # dec2 n"
definition dec4 :: "nat \<Rightarrow> string" where "dec4 n = dec_digit (n div 1000) # dec3 n"

definition iso8601 :: "nat \<Rightarrow> nat \<Rightarrow> nat \<Rightarrow> nat \<Rightarrow> nat \<Rightarrow> nat \<Rightarrow> nat \<Rightarrow> string" where
  "iso8601 y mo d h mi s ms = dec4 y @ ''-'' @ dec2 mo @ ''-'' @ dec2 d @ ''T'' @
     dec2 h @ '':'' @ dec2 mi @ '':'' @ dec2 s @ ''.'' @ dec3 ms @ ''Z''"

lemma dec_digit: "is_digit (dec_digit n)" "(of_char (dec_digit n) :: nat) - 48 = n mod 10"
proof -
  have "\<forall>k \<in> set [0..<10]. is_digit (''0123456789'' ! k) \<and> (of_char (''0123456789'' ! k) :: nat) - 48 = k"
    by (simp add: upt_conv_Cons is_digit_def)
  moreover have "n mod 10 \<in> set [0..<10]" by simp
  ultimately have "is_digit (dec_digit n) \<and> (of_char (dec_digit n) :: nat) - 48 = n mod 10"
    unfolding dec_digit_def by blast
  then show "is_digit (dec_digit n)" "(of_char (dec_digit n) :: nat) - 48 = n mod 10" by auto
qed

lemma dec_values:
  "n < 100 \<Longrightarrow> digits_value (dec2 n) = n" "n < 1000 \<Longrightarrow> digits_value (dec3 n) = n"
  "n < 10000 \<Longrightarrow> digits_value (dec4 n) = n"
proof -
  define a b c where "a = n div 10" and "b = n div 100" and "c = n div 1000"
  have e: "b = a div 10" "c = b div 10" by (simp_all add: a_def b_def c_def div_mult2_eq [symmetric])
  have d: "n = a * 10 + n mod 10" "a = b * 10 + a mod 10" "b = c * 10 + b mod 10"
    by (simp_all add: e) (simp add: a_def)
  note v = digits_value_def dec2_def dec3_def dec4_def dec_digit a_def [symmetric] b_def [symmetric]
    c_def [symmetric]
  show "digits_value (dec2 n) = n" if "n < 100"
  proof -
    have "a mod 10 = a" using that by (simp add: a_def)
    with d(1) show ?thesis by (simp add: v)
  qed
  show "digits_value (dec3 n) = n" if "n < 1000"
  proof -
    have "b mod 10 = b" using that by (simp add: b_def)
    with d(1,2) show ?thesis by (simp add: v)
  qed
  show "digits_value (dec4 n) = n" if "n < 10000"
  proof -
    have "c mod 10 = c" using that by (simp add: c_def)
    with d show ?thesis by (simp add: v)
  qed
qed

lemma dec_digits:
  "Ball (set (dec2 n)) is_digit" "Ball (set (dec3 n)) is_digit" "Ball (set (dec4 n)) is_digit"
  "dec2 n \<noteq> []" "dec3 n \<noteq> []" "dec4 n \<noteq> []" "length (dec2 n) = 2" "length (dec3 n) = 3" "length (dec4 n) = 4"
  by (simp_all add: dec2_def dec3_def dec4_def dec_digit)

lemma strtol10_digits:
  assumes "drop p s = ds @ c # rest" and "ds \<noteq> []" and "\<forall>d \<in> set ds. is_digit d" and "\<not> is_digit c"
    and "digits_value ds < 10000"
  shows "strtol10 s p = Some (int (digits_value ds), p + length ds)"
proof -
  obtain d ds' where d: "ds = d # ds'" "is_digit d" using assms(2,3) by (cases ds) auto
  have "\<not> is_space d" "d \<noteq> CHR ''-''" "d \<noteq> CHR ''+''" using d(2) by (auto simp: is_digit_def is_space_def)
  then have "strtol_sign (dropWhile is_space (drop p s)) = (False, ds @ c # rest)"
    using assms(1) d(1) by (simp add: strtol_sign_def)
  moreover have "takeWhile is_digit (ds @ c # rest) = ds" "dropWhile is_digit (ds @ c # rest) = c # rest"
    using assms(3,4) by (simp_all add: takeWhile_append2 dropWhile_append2)
  moreover have "length s = p + length (ds @ c # rest)"
    using assms(1,2) by (metis append_Nil append_take_drop_id length_append length_take drop_eq_Nil
        min_def nle_le list.distinct(1) append_is_Nil_conv)
  ultimately show ?thesis using assms(2,5) by (simp add: strtol10_def clamp_long_def)
qed

lemma sint_small: "n < 10000 \<Longrightarrow> sint (word_of_int (int n) :: 32 word) = int n"
  by (simp only: signed_of_int) (simp add: signed_take_bit_int_eq_self)

text \<open>One well-formed field.\<close>

lemma check_fields_digits:
  assumes "drop p s = ds @ c # rest" and "ds \<noteq> []" and "\<forall>d \<in> set ds. is_digit d" and "\<not> is_digit c"
    and "digits_value ds = n" and "n < 10000"
  shows "check_fields s ((i, m) # fs) p =
     (if int n \<le> m \<and> (i \<le> TIMESTAMP_DATE_INDEX \<longrightarrow> 0 < n)
      then check_fields s fs (p + length ds + 1) else Some False)"
proof -
  have "strtol10 s p = Some (int n, p + length ds)"
    using strtol10_digits [OF assms(1-4)] assms(5,6) by simp
  moreover have "sint (word_of_int (int n) :: 32 word) = int n" using assms(6) by (rule sint_small)
  ultimately show ?thesis by (auto simp: Let_def simp del: of_int_of_nat_eq)
qed

lemma validate_iso8601:
  assumes "y < 10000" and "mo < 100" and "d < 100" and "h < 100" and "mi < 100" and "sec < 100"
    and "ms < 1000"
  shows "mcl_time_util_validate_timestamp (iso8601 y mo d h mi sec ms) =
    Some (0 < y \<and> y \<le> 2999 \<and> 0 < mo \<and> mo \<le> 12 \<and> 0 < d \<and> d \<le> 31 \<and> h \<le> 23 \<and> mi \<le> 59 \<and> sec \<le> 59)"
proof -
  let ?s = "iso8601 y mo d h mi sec ms"
  have shape: "length ?s = 24"
    "list_all2 (\<lambda>c i. ?s ! i = c) characters_to_check character_indexes_to_check"
    by (simp_all add: iso8601_def dec2_def dec3_def dec4_def characters_to_check_def
        character_indexes_to_check_def)
  have separators: "\<not> is_digit (CHR ''-'')" "\<not> is_digit (CHR ''T'')" "\<not> is_digit (CHR '':'')"
    "\<not> is_digit (CHR ''.'')" "\<not> is_digit (CHR ''Z'')"
    by (simp_all add: is_digit_def)
  note d = iso8601_def dec_digits dec_values separators TIMESTAMP_DATE_INDEX_def
  have f0: "check_fields ?s ((0, 2999) # fs) 0 =
      (if 0 < y \<and> y \<le> 2999 then check_fields ?s fs 5 else Some False)" for fs
    by (subst check_fields_digits [where ds = "dec4 y" and c = "CHR ''-''" and n = y
          and rest = "drop 5 ?s"]) (use assms in \<open>simp_all add: d\<close>)
  have f1: "check_fields ?s ((1, 12) # fs) 5 =
      (if 0 < mo \<and> mo \<le> 12 then check_fields ?s fs 8 else Some False)" for fs
    by (subst check_fields_digits [where ds = "dec2 mo" and c = "CHR ''-''" and n = mo
          and rest = "drop 8 ?s"]) (use assms in \<open>simp_all add: d\<close>)
  have f2: "check_fields ?s ((2, 31) # fs) 8 =
      (if 0 < d \<and> d \<le> 31 then check_fields ?s fs 11 else Some False)" for fs
    by (subst check_fields_digits [where ds = "dec2 d" and c = "CHR ''T''" and n = d
          and rest = "drop 11 ?s"]) (use assms in \<open>simp_all add: d\<close>)
  have f3: "check_fields ?s ((3, 23) # fs) 11 =
      (if h \<le> 23 then check_fields ?s fs 14 else Some False)" for fs
    by (subst check_fields_digits [where ds = "dec2 h" and c = "CHR '':''" and n = h
          and rest = "drop 14 ?s"]) (use assms in \<open>simp_all add: d\<close>)
  have f4: "check_fields ?s ((4, 59) # fs) 14 =
      (if mi \<le> 59 then check_fields ?s fs 17 else Some False)" for fs
    by (subst check_fields_digits [where ds = "dec2 mi" and c = "CHR '':''" and n = mi
          and rest = "drop 17 ?s"]) (use assms in \<open>simp_all add: d\<close>)
  have f5: "check_fields ?s ((5, 59) # fs) 17 =
      (if sec \<le> 59 then check_fields ?s fs 20 else Some False)" for fs
    by (subst check_fields_digits [where ds = "dec2 sec" and c = "CHR ''.''" and n = sec
          and rest = "drop 20 ?s"]) (use assms in \<open>simp_all add: d\<close>)
  have f6: "check_fields ?s ((6, 999) # fs) 20 =
      (if ms \<le> 999 then check_fields ?s fs 24 else Some False)" for fs
    by (subst check_fields_digits [where ds = "dec3 ms" and c = "CHR ''Z''" and n = ms
          and rest = "drop 24 ?s"]) (use assms in \<open>simp_all add: d\<close>)
  have "check_fields ?s (enumerate 0 maximum_values) 0 =
     Some (0 < y \<and> y \<le> 2999 \<and> 0 < mo \<and> mo \<le> 12 \<and> 0 < d \<and> d \<le> 31 \<and> h \<le> 23 \<and> mi \<le> 59 \<and> sec \<le> 59)"
    using assms(7) by (simp only: fields_to_check f0 f1 f2 f3 f4 f5 f6) simp
  then show ?thesis using shape
    by (simp add: mcl_time_util_validate_timestamp_def MCL_TIMESTAMP_LENGTH_def)
qed

section \<open>Broken-down time\<close>

text \<open>
  What \<open>gmtime_r\<close> and \<open>strftime\<close> of the C library do with a \<open>time_t\<close>: the proleptic Gregorian
  date of the second, counted in 400, 100, 4 and 1 years from 1 March of the year 0.
\<close>

record tm =
  tm_year :: int
  tm_mon :: int
  tm_mday :: int
  tm_hour :: int
  tm_min :: int
  tm_sec :: int

definition year_and_day :: "int \<Rightarrow> int \<times> int" where
  "year_and_day z = (let
     r1 = z mod 146097; n100 = min 3 (r1 div 36524);
     r2 = r1 - 36524 * n100; n4 = r2 div 1461;
     r3 = r2 - 1461 * n4; n1 = min 3 (r3 div 365)
   in (400 * (z div 146097) + 100 * n100 + 4 * n4 + n1, r3 - 365 * n1))"

definition gmtime :: "int \<Rightarrow> tm" where
  "gmtime t = (let
     (y, doy) = year_and_day (t div 86400 + 719468);
     mp = (5 * doy + 2) div 153; s = t mod 86400
   in \<lparr>tm_year = (if mp < 10 then y else y + 1), tm_mon = (if mp < 10 then mp + 3 else mp - 9),
       tm_mday = doy - (153 * mp + 2) div 5 + 1,
       tm_hour = s div 3600, tm_min = s div 60 mod 60, tm_sec = s mod 60\<rparr>)"

definition print_year :: "int \<Rightarrow> string" where
  "print_year y =
     (let n = nat \<bar>y\<bar>; ds = dropWhile (\<lambda>c. c = CHR ''0'') (dec3 (n div 10)) @ [dec_digit n]
      in if y < 0 then CHR ''-'' # ds else ds)"

text \<open>
  \<open>mcl_time_util_convert_to_iso_8601_format\<close> on a buffer whose contents are \<open>None\<close> while they are
  indeterminate: \<open>gmtime_r\<close> fails when the year does not fit an \<open>int\<close>, \<open>strftime\<close> returns 0 and
  leaves the buffer indeterminate when the text is longer than the buffer.
\<close>

definition mcl_time_util_convert_to_iso_8601_format ::
  "int \<Rightarrow> string option \<Rightarrow> mcl_error \<times> string option" where
  "mcl_time_util_convert_to_iso_8601_format time_value iso8601_formatted_time =
     (let tm = gmtime time_value in
      if \<not> (- (2 ^ 31) \<le> tm_year tm - 1900 \<and> tm_year tm - 1900 < 2 ^ 31)
      then (MCL_FAIL, iso8601_formatted_time)
      else if \<not> (- 999 \<le> tm_year tm \<and> tm_year tm \<le> 9999) then (MCL_FAIL, None)
      else (MCL_OK, Some (print_year (tm_year tm) @ ''-'' @ dec2 (nat (tm_mon tm)) @ ''-'' @
              dec2 (nat (tm_mday tm)) @ ''T'' @ dec2 (nat (tm_hour tm)) @ '':'' @
              dec2 (nat (tm_min tm)) @ '':'' @ dec2 (nat (tm_sec tm)) @ ''.000Z'')))"

lemma print_year_dec4:
  assumes "1000 \<le> y" and "y \<le> 9999"
  shows "print_year y = dec4 (nat y)"
proof -
  have y: "nat \<bar>y\<bar> = nat y" "1000 \<le> nat y" "nat y < 10000" using assms by auto
  have "dec_digit (nat y div 1000) \<noteq> CHR ''0''"
  proof -
    have "nat y div 1000 \<in> set [1..<10]" using y(2,3) by (simp add: Suc_le_eq div_greater_zero_iff)
    moreover have "\<forall>k \<in> set [1..<10]. dec_digit k \<noteq> CHR ''0''"
      by (simp add: upt_conv_Cons dec_digit_def)
    ultimately show ?thesis by blast
  qed
  moreover have "nat y div 10 div 100 = nat y div 1000" "nat y div 10 div 10 = nat y div 100"
    by (simp_all add: div_mult2_eq [symmetric])
  ultimately show ?thesis
    using assms(1) by (simp add: print_year_def y(1) dec4_def dec3_def dec2_def Let_def)
qed

lemma length_print_year:
  assumes "- 999 \<le> y" and "y \<le> 9999"
  shows "length (print_year y) \<le> 4"
proof (cases "y < 0")
  case True
  then have "nat \<bar>y\<bar> div 10 div 100 = 0" using assms(1) by simp
  then have "dropWhile (\<lambda>c. c = CHR ''0'') (dec3 (nat \<bar>y\<bar> div 10)) =
      dropWhile (\<lambda>c. c = CHR ''0'') (dec2 (nat \<bar>y\<bar> div 10))"
    by (simp only: dec3_def dropWhile.simps) (simp add: dec_digit_def)
  then show ?thesis
    using True length_dropWhile_le [of "\<lambda>c. c = CHR ''0''" "dec2 (nat \<bar>y\<bar> div 10)"]
    by (simp add: print_year_def Let_def dec_digits)
next
  case False
  then show ?thesis
    using length_dropWhile_le [of "\<lambda>c. c = CHR ''0''" "dec3 (nat \<bar>y\<bar> div 10)"]
    by (simp add: print_year_def Let_def dec_digits)
qed

text \<open>A conversion never writes more than the buffer holds.\<close>

lemma convert_length:
  assumes "mcl_time_util_convert_to_iso_8601_format t buffer = (code, Some s)"
  shows "buffer = Some s \<or> length s < MCL_TIMESTAMP_LENGTH"
  using assms length_print_year [of "tm_year (gmtime t)"]
  by (auto simp: mcl_time_util_convert_to_iso_8601_format_def Let_def dec_digits MCL_TIMESTAMP_LENGTH_def
      split: if_splits)

text \<open>The date of a few seconds.\<close>

lemma gmtime_examples:
  "gmtime 0 = \<lparr>tm_year = 1970, tm_mon = 1, tm_mday = 1, tm_hour = 0, tm_min = 0, tm_sec = 0\<rparr>"
  "gmtime 951827696 = \<lparr>tm_year = 2000, tm_mon = 2, tm_mday = 29, tm_hour = 12, tm_min = 34, tm_sec = 56\<rparr>"
  "gmtime (- 1) = \<lparr>tm_year = 1969, tm_mon = 12, tm_mday = 31, tm_hour = 23, tm_min = 59, tm_sec = 59\<rparr>"
  by (simp_all add: gmtime_def year_and_day_def Let_def)

lemma div_bounds:
  fixes x k :: int
  assumes "0 < k"
  shows "k * (x div k) \<le> x" and "x < k * (x div k) + k"
  using assms mult_div_mod_eq [of k x] pos_mod_sign [of k x] pos_mod_bound [of k x] by linarith+

lemma year_and_day_range:
  assumes "year_and_day z = (y, d)"
  shows "0 \<le> d" and "d \<le> 365"
proof -
  define r1 where "r1 = z mod 146097"
  define n100 where "n100 = min 3 (r1 div 36524)"
  define r2 where "r2 = r1 - 36524 * n100"
  define r3 where "r3 = r2 - 1461 * (r2 div 1461)"
  define n1 where "n1 = min 3 (r3 div 365)"
  have r3: "0 \<le> r3" "r3 < 1461" by (simp_all add: r3_def minus_mult_div_eq_mod)
  have "d = r3 - 365 * n1"
    using assms by (simp add: year_and_day_def Let_def r1_def n100_def r2_def r3_def n1_def)
  moreover have "365 * n1 \<le> r3" "r3 < 365 * n1 + 366"
    using r3 div_bounds [of 365 r3] by (auto simp: n1_def min_def)
  ultimately show "0 \<le> d" "d \<le> 365" by linarith+
qed

lemma gmtime_range:
  "1 \<le> tm_mon (gmtime t)" "tm_mon (gmtime t) \<le> 12" "1 \<le> tm_mday (gmtime t)" "tm_mday (gmtime t) \<le> 31"
  "0 \<le> tm_hour (gmtime t)" "tm_hour (gmtime t) \<le> 23" "0 \<le> tm_min (gmtime t)" "tm_min (gmtime t) \<le> 59"
  "0 \<le> tm_sec (gmtime t)" "tm_sec (gmtime t) \<le> 59"
proof -
  obtain y d where yd: "year_and_day (t div 86400 + 719468) = (y, d)" by fastforce
  define mp where "mp = (5 * d + 2) div 153"
  note range = year_and_day_range [OF yd]
  have mp: "0 \<le> mp" "mp \<le> 11" "153 * mp \<le> 5 * d + 2" "5 * d + 2 < 153 * mp + 153"
    using range div_bounds [of 153 "5 * d + 2"] unfolding mp_def by linarith+
  show "1 \<le> tm_mon (gmtime t)" "tm_mon (gmtime t) \<le> 12"
    using mp by (simp_all add: gmtime_def yd mp_def [symmetric] Let_def)
  have "1 \<le> d - (153 * mp + 2) div 5 + 1" "d - (153 * mp + 2) div 5 + 1 \<le> 31"
    using mp(3,4) div_bounds [of 5 "153 * mp + 2"] by linarith+
  then show "1 \<le> tm_mday (gmtime t)" "tm_mday (gmtime t) \<le> 31"
    by (simp_all add: gmtime_def yd mp_def [symmetric] Let_def)
  define s where "s = t mod 86400"
  have "0 \<le> s" "s < 86400" by (simp_all add: s_def)
  then have "0 \<le> s div 3600" "s div 3600 \<le> 23" using div_bounds [of 3600 s] by linarith+
  then show "0 \<le> tm_hour (gmtime t)" "tm_hour (gmtime t) \<le> 23"
    by (simp_all add: gmtime_def yd s_def Let_def)
  show "0 \<le> tm_min (gmtime t)" "tm_min (gmtime t) \<le> 59" "0 \<le> tm_sec (gmtime t)" "tm_sec (gmtime t) \<le> 59"
    by (simp_all add: gmtime_def yd Let_def)
qed

text \<open>From the epoch to the last second of the year 2999.\<close>

lemma gmtime_year:
  assumes "0 \<le> t" and "t < 32503680000"
  shows "1969 \<le> tm_year (gmtime t)" and "tm_year (gmtime t) \<le> 2999"
proof -
  define z where "z = t div 86400 + 719468"
  define r1 where "r1 = z mod 146097"
  define n100 where "n100 = min 3 (r1 div 36524)"
  define r2 where "r2 = r1 - 36524 * n100"
  define n4 where "n4 = r2 div 1461"
  define r3 where "r3 = r2 - 1461 * n4"
  define n1 where "n1 = min 3 (r3 div 365)"
  define d where "d = r3 - 365 * n1"
  define y where "y = 400 * (z div 146097) + 100 * n100 + 4 * n4 + n1"
  have yd: "year_and_day z = (y, d)"
    by (simp add: year_and_day_def Let_def r1_def n100_def r2_def n4_def r3_def n1_def d_def y_def)
  have z: "719468 \<le> z" "z \<le> 1095667" using assms by (simp_all add: z_def)
  have r1: "0 \<le> r1" "r1 < 146097" by (simp_all add: r1_def)
  have zr: "z = 146097 * (z div 146097) + r1" by (simp add: r1_def)
  have n100: "0 \<le> n100" "n100 \<le> 3" "36524 * n100 \<le> r1"
    "r1 < 36524 * n100 + 36524 \<or> n100 = 3"
    using r1 div_bounds [of 36524 r1] by (auto simp: n100_def min_def)
  have r2: "0 \<le> r2" "r2 \<le> 36524" using r1 n100 by (auto simp: r2_def)
  have n4: "0 \<le> n4" "n4 \<le> 24" "1461 * n4 \<le> r2" "r2 < 1461 * n4 + 1461"
    using r2 div_bounds [of 1461 r2] unfolding n4_def by linarith+
  have r3: "0 \<le> r3" "r3 \<le> 1460" using n4 by (simp_all add: r3_def)
  have n1: "0 \<le> n1" "n1 \<le> 3" "365 * n1 \<le> r3" "r3 < 365 * n1 + 365 \<or> n1 = 3"
    using r3 div_bounds [of 365 r3] by (auto simp: n1_def min_def)
  have era: "4 \<le> z div 146097" "z div 146097 \<le> 7" using z zr r1 by linarith+
  have year: "tm_year (gmtime t) = (if (5 * d + 2) div 153 < 10 then y else y + 1)"
    by (simp add: gmtime_def yd z_def [symmetric] Let_def)
  have "1969 \<le> y"
  proof (cases "z div 146097 = 4")
    case True
    then have "135080 \<le> r1" using z zr by linarith
    then have "n100 = 3" using n100 r1 by linarith
    then have "25508 \<le> r2" using \<open>135080 \<le> r1\<close> by (simp add: r2_def)
    then have "17 \<le> n4" using n4 by linarith
    moreover have "n4 = 17 \<Longrightarrow> 1 \<le> n1"
      using \<open>25508 \<le> r2\<close> n1 by (simp add: r3_def) linarith
    ultimately show ?thesis using True \<open>n100 = 3\<close> n1(1) by (cases "n4 = 17") (simp_all add: y_def)
  next
    case False
    then have "5 \<le> z div 146097" using era by linarith
    then show ?thesis using n100(1) n4(1) n1(1) unfolding y_def by linarith
  qed
  then show "1969 \<le> tm_year (gmtime t)" by (simp add: year)
  have "y \<le> 2998 \<or> y \<le> 2999 \<and> d \<le> 305"
  proof (cases "z div 146097 = 7")
    case True
    then have "r1 \<le> 72988" using z zr by linarith
    then have "n100 \<le> 1" using n100 by linarith
    then consider "n100 = 0" | "n100 = 1" using n100(1) by linarith
    then show ?thesis
    proof cases
      case 1
      then show ?thesis using True n4(2) n1(2) by (simp add: y_def)
    next
      case 2
      then have "r2 \<le> 36464" using \<open>r1 \<le> 72988\<close> by (simp add: r2_def)
      then show ?thesis using True 2 n4 n1 by (simp add: y_def d_def r3_def) linarith
    qed
  next
    case False
    then have "z div 146097 \<le> 6" using era by linarith
    then show ?thesis using n100(2) n4(2) n1(2) unfolding y_def by linarith
  qed
  then show "tm_year (gmtime t) \<le> 2999" using div_bounds [of 153 "5 * d + 2"] by (auto simp: year)
qed

section \<open>Properties\<close>

text \<open>The timestamp check returns on every C string: whatever the number fields contain, no
  read goes behind the terminator.\<close>

theorem validate_timestamp_safe:
  "mcl_time_util_validate_timestamp s \<noteq> None"
  using validate_safe [of s]
  by (auto simp: mcl_time_util_validate_timestamp_def MCL_TIMESTAMP_LENGTH_def)

text \<open>C27. On a timestamp of the documented form the check decides exactly whether every field is
  in its range: year 1 to 2999, month 1 to 12, day 1 to 31, hour to 23, minute and second to 59.\<close>

theorem validate_timestamp_iso8601:
  assumes "y < 10000" and "mo < 100" and "d < 100" and "h < 100" and "mi < 100" and "sec < 100"
    and "ms < 1000"
  shows "mcl_time_util_validate_timestamp (iso8601 y mo d h mi sec ms) =
    Some (0 < y \<and> y \<le> 2999 \<and> 0 < mo \<and> mo \<le> 12 \<and> 0 < d \<and> d \<le> 31 \<and> h \<le> 23 \<and> mi \<le> 59 \<and> sec \<le> 59)"
  using assms by (rule validate_iso8601)

theorem validate_timestamp_iso8601_witness:
  "mcl_time_util_validate_timestamp ''2019-12-31T10:10:10.999Z'' = Some True \<and>
   mcl_time_util_validate_timestamp ''2019-13-31T10:10:10.999Z'' = Some False"
  using validate_timestamp_iso8601 [of 2019 12 31 10 10 10 999]
    validate_timestamp_iso8601 [of 2019 13 31 10 10 10 999]
  by (simp add: iso8601_def dec2_def dec3_def dec4_def dec_digit_def)

text \<open>The check also accepts text that is not a timestamp: a field may start with white space
  or a sign, and a field may be read from the middle of the next one.\<close>

theorem validate_timestamp_accepts_malformed:
  "mcl_time_util_validate_timestamp ''20 9-12-11T10:10:10.999Z'' = Some True \<and>
   mcl_time_util_validate_timestamp ''2019-+2- 1T 1:+1: 1.+99Z'' = Some True"
proof -
  note scan = fields_to_check TIMESTAMP_DATE_INDEX_def strtol10_def strtol_sign_def is_space_def
    is_digit_def digits_value_def clamp_long_def
  have "check_fields ''20 9-12-11T10:10:10.999Z'' (enumerate 0 maximum_values) 0 = Some True"
    by (simp add: scan)
  moreover have "check_fields ''2019-+2- 1T 1:+1: 1.+99Z'' (enumerate 0 maximum_values) 0 = Some True"
    by (simp add: scan)
  ultimately show ?thesis
    by (simp add: mcl_time_util_validate_timestamp_def MCL_TIMESTAMP_LENGTH_def
        characters_to_check_def character_indexes_to_check_def)
qed

text \<open>C29. Every time from the epoch to the end of the year 2999 converts to a timestamp that the
  check accepts.\<close>

theorem convert_then_validate:
  assumes "0 \<le> t" and "t < 32503680000"
  shows "\<exists>s. mcl_time_util_convert_to_iso_8601_format t buffer = (MCL_OK, Some s) \<and>
             mcl_time_util_validate_timestamp s = Some True"
proof -
  let ?y = "nat (tm_year (gmtime t))" and ?mo = "nat (tm_mon (gmtime t))" and ?d = "nat (tm_mday (gmtime t))"
    and ?h = "nat (tm_hour (gmtime t))" and ?mi = "nat (tm_min (gmtime t))" and ?s = "nat (tm_sec (gmtime t))"
  note range = gmtime_range [of t] gmtime_year [OF assms]
  have "print_year (tm_year (gmtime t)) = dec4 ?y"
    using range by (simp add: print_year_dec4)
  moreover have "dec3 0 = ''000''" by (simp add: dec3_def dec2_def dec_digit_def)
  ultimately have "mcl_time_util_convert_to_iso_8601_format t buffer =
      (MCL_OK, Some (iso8601 ?y ?mo ?d ?h ?mi ?s 0))"
    using range by (simp add: mcl_time_util_convert_to_iso_8601_format_def Let_def iso8601_def)
  moreover have "mcl_time_util_validate_timestamp (iso8601 ?y ?mo ?d ?h ?mi ?s 0) = Some True"
    using range by (subst validate_iso8601) auto
  ultimately show ?thesis by blast
qed

theorem convert_then_validate_witness:
  "\<exists>s. mcl_time_util_convert_to_iso_8601_format 951827696 None = (MCL_OK, Some s) \<and>
       mcl_time_util_validate_timestamp s = Some True"
  by (rule convert_then_validate) simp_all

end
