(* ===== verification/MclWorld.thy ===== *)
theory MclWorld
  imports MclPrelude "HOL-Library.State_Monad"
begin

text \<open>
  Effects of the library code: functions that allocate, draw random bytes or talk to the network
  run in the state monad over a world. The world scripts what the environment does: the outcome
  of every coming allocation and of every request for random bytes, in order; an exhausted script
  succeeds. Components extend the record with what else they touch.
\<close>

section \<open>The world\<close>

record mem_world =
  w_alloc :: "bool list"
  w_random :: "(nat \<Rightarrow> 8 word) result list"

type_synonym ('z, 'a) io = "('z mem_world_scheme, 'a) state"

text \<open>\<open>MCL_MALLOC\<close>: whether the allocation succeeds.\<close>

definition mcl_malloc :: "('z, bool) io" where
  "mcl_malloc = State (\<lambda>w. case w_alloc w of
      [] \<Rightarrow> (True, w)
    | b # bs \<Rightarrow> (b, w\<lparr>w_alloc := bs\<rparr>))"

text \<open>
  \<open>mcl_random_generate_bytes\<close> on a buffer of \<open>count\<close> bytes: the bytes written, or the error of
  the security library.
\<close>

definition mcl_random_generate_bytes :: "nat \<Rightarrow> ('z, 8 word list result) io" where
  "mcl_random_generate_bytes count = State (\<lambda>w. case w_random w of
      [] \<Rightarrow> (Ok (replicate count 0), w)
    | r # rs \<Rightarrow> (map_sum id (\<lambda>f. map f [0..<count]) r, w\<lparr>w_random := rs\<rparr>))"

text \<open>\<open>if (MCL_OK == code) { ... }\<close>: the statement, or the code and the value unchanged.\<close>

definition when_ok :: "mcl_error \<Rightarrow> 'a \<Rightarrow> ('w, mcl_error \<times> 'a) state \<Rightarrow> ('w, mcl_error \<times> 'a) state" where
  "when_ok code x m = (if code = MCL_OK then m else State_Monad.return (code, x))"

lemma when_ok_simps [simp]:
  "when_ok MCL_OK x m = m"
  "code \<noteq> MCL_OK \<Longrightarrow> when_ok code x m = State_Monad.return (code, x)"
  by (simp_all add: when_ok_def)

text \<open>
  A function that updates the object behind a pointer: \<open>MCL_TRIGGERED_WITH_NULL\<close> without one.
\<close>

definition on_pointer ::
  "'a option \<Rightarrow> ('a \<Rightarrow> ('z, mcl_error \<times> 'a) io) \<Rightarrow> ('z, mcl_error \<times> 'a option) io" where
  "on_pointer p f =
     (case p of None \<Rightarrow> State_Monad.return (MCL_TRIGGERED_WITH_NULL, None)
      | Some x \<Rightarrow> do { (code, x') \<leftarrow> f x; State_Monad.return (code, Some x') })"

text \<open>\<open>mcl_string_util_reset\<close> on a field: the old string is released before the copy is made.\<close>

definition reset_field :: "string \<Rightarrow> ('z, mcl_error \<times> string option) io" where
  "reset_field value = do {
     a \<leftarrow> mcl_malloc;
     State_Monad.return (if a then (MCL_OK, Some value) else (MCL_OUT_OF_MEMORY, None))
   }"

section \<open>Running\<close>

lemma run_return [simp]: "run_state (State_Monad.return x) w = (x, w)"
  by (simp add: State_Monad.return_def)

lemma run_bind: "run_state (State_Monad.bind m f) w = (case run_state m w of (x, w') \<Rightarrow> run_state (f x) w')"
  by (cases m) (simp add: State_Monad.bind_def)

lemma run_bind_eq [simp]:
  "run_state m w = (x, w') \<Longrightarrow> run_state (State_Monad.bind m f) w = run_state (f x) w'"
  by (simp add: run_bind)

lemma run_malloc_ok [simp]: "w_alloc w = [] \<Longrightarrow> run_state mcl_malloc w = (True, w)"
  by (simp add: mcl_malloc_def)

lemma run_malloc: "run_state mcl_malloc w =
    (case w_alloc w of [] \<Rightarrow> (True, w) | b # bs \<Rightarrow> (b, w\<lparr>w_alloc := bs\<rparr>))"
  by (simp add: mcl_malloc_def)

lemma run_random_ok [simp]:
  "w_random w = [] \<Longrightarrow> run_state (mcl_random_generate_bytes n) w = (Ok (replicate n 0), w)"
  by (simp add: mcl_random_generate_bytes_def)

lemma random_length:
  "run_state (mcl_random_generate_bytes n) w = (Ok bs, w') \<Longrightarrow> length bs = n"
  by (auto simp: mcl_random_generate_bytes_def map_sum_def split: list.splits sum.splits)

lemma run_on_pointer [simp]:
  "run_state (on_pointer None f) w = ((MCL_TRIGGERED_WITH_NULL, None), w)"
  "run_state (on_pointer (Some x) f) w =
     (case run_state (f x) w of ((code, x'), w') \<Rightarrow> ((code, Some x'), w'))"
  by (simp_all add: on_pointer_def run_bind split: prod.splits)

end
