(* ===== verification/MclJson.thy ===== *)
theory MclJson
  imports MclWorld MclString
begin

text \<open>
  The JSON utilities of \<open>src/mcl_core/src/json_util.c\<close> and what they use of the cJSON tree: a node
  has a type with a value and a list of children, each with an optional name, whatever the type.
  Allocation outcomes come from the world, one for every call of cJSON that allocates.

  A pointer to a child just linked into its parent is the child itself, to be linked with
  \<open>link_child\<close> once the statements that change it are done. Nothing else touches the parent in
  between, so the order does not matter.
\<close>

section \<open>Trees\<close>

text \<open>
  A double is a whole number with at most 15 digits, or any other: its value cut to an integer and the
  text \<open>print_number\<close> of cJSON gives it. Nothing here calculates with the others.
\<close>

datatype double = Whole int | Other int string

primrec integer_part :: "double \<Rightarrow> int" where
  "integer_part (Whole i) = i"
| "integer_part (Other i text) = i"

datatype cjson_value = CNull | CBool bool | CNumber double | CString string | CArray | CObject

datatype json = Json cjson_value "(string option \<times> json) list"

primrec json_value :: "json \<Rightarrow> cjson_value" where "json_value (Json v cs) = v"
primrec json_children :: "json \<Rightarrow> (string option \<times> json) list" where "json_children (Json v cs) = cs"

definition add_child :: "json \<Rightarrow> string option \<Rightarrow> json \<Rightarrow> json" where
  "add_child root name item = Json (json_value root) (json_children root @ [(name, item)])"

lemma add_child_simps [simp]:
  "add_child (Json v cs) name item = Json v (cs @ [(name, item)])"
  by (simp add: add_child_def)

text \<open>The names of cJSON objects are compared without regard to letter case.\<close>

definition same_name :: "string \<Rightarrow> string option \<Rightarrow> bool" where
  "same_name a b = (case b of None \<Rightarrow> False | Some b \<Rightarrow> map LOWERCASE a = map LOWERCASE b)"

definition cJSON_GetObjectItem :: "json \<Rightarrow> string \<Rightarrow> json option" where
  "cJSON_GetObjectItem root name =
     map_option snd (find (\<lambda>(k, j). same_name name k) (json_children root))"

datatype E_MCL_JSON_TYPE = MCL_JSON_ARRAY | MCL_JSON_OBJECT

section \<open>Building\<close>

definition json_util_get_object_item :: "json \<Rightarrow> string \<Rightarrow> json result" where
  "json_util_get_object_item json_parent child_name =
     (case cJSON_GetObjectItem json_parent child_name of
        None \<Rightarrow> Err MCL_JSON_NON_EXISTING_CHILD | Some child \<Rightarrow> Ok child)"

definition json_util_initialize :: "E_MCL_JSON_TYPE \<Rightarrow> ('z, mcl_error \<times> json option) io" where
  "json_util_initialize mcl_json_type = do {
     a \<leftarrow> mcl_malloc;
     State_Monad.return
       (if a then (MCL_OK, Some (Json (case mcl_json_type of MCL_JSON_ARRAY \<Rightarrow> CArray
                                       | MCL_JSON_OBJECT \<Rightarrow> CObject) []))
        else (MCL_OUT_OF_MEMORY, None))
   }"

definition mcl_json_util_initialize :: "E_MCL_JSON_TYPE \<Rightarrow> ('z, mcl_error \<times> json option) io" where
  "mcl_json_util_initialize mcl_json_type = json_util_initialize mcl_json_type"

text \<open>
  Starting an array or an object returns the new child and whether cJSON could link it: linking
  copies the name, and a failure to do so is not reported.
\<close>

definition json_util_start ::
  "E_MCL_JSON_TYPE \<Rightarrow> json \<Rightarrow> string \<Rightarrow> ('z, mcl_error \<times> json option \<times> bool) io" where
  "json_util_start type root name =
     (case json_util_get_object_item root name of
        Inr _ \<Rightarrow> State_Monad.return (MCL_JSON_NAME_DUPLICATION, None, False)
      | Inl _ \<Rightarrow> do {
          (code, child) \<leftarrow> json_util_initialize type;
          if code = MCL_OK then do {
            linked \<leftarrow> mcl_malloc;
            State_Monad.return (MCL_OK, child, linked)
          } else State_Monad.return (code, None, False)
        })"

definition json_util_start_array ::
  "json \<Rightarrow> string \<Rightarrow> ('z, mcl_error \<times> json option \<times> bool) io" where
  "json_util_start_array root array_name = json_util_start MCL_JSON_ARRAY root array_name"

definition json_util_start_object ::
  "json \<Rightarrow> string \<Rightarrow> ('z, mcl_error \<times> json option \<times> bool) io" where
  "json_util_start_object root object_name = json_util_start MCL_JSON_OBJECT root object_name"

definition mcl_json_util_start_array ::
  "json option \<Rightarrow> string \<Rightarrow> ('z, mcl_error \<times> json option \<times> bool) io" where
  "mcl_json_util_start_array root array_name =
     (case root of None \<Rightarrow> State_Monad.return (MCL_TRIGGERED_WITH_NULL, None, False)
      | Some r \<Rightarrow> json_util_start_array r array_name)"

definition mcl_json_util_start_object ::
  "json option \<Rightarrow> string \<Rightarrow> ('z, mcl_error \<times> json option \<times> bool) io" where
  "mcl_json_util_start_object root object_name =
     (case root of None \<Rightarrow> State_Monad.return (MCL_TRIGGERED_WITH_NULL, None, False)
      | Some r \<Rightarrow> json_util_start_object r object_name)"

definition link_child :: "json option \<Rightarrow> string \<Rightarrow> json option \<Rightarrow> bool \<Rightarrow> json option" where
  "link_child root name child linked =
     (case (root, child) of
        (Some r, Some c) \<Rightarrow> Some (if linked then add_child r (Some name) c else r)
      | _ \<Rightarrow> root)"

text \<open>
  Adding a leaf. For an array the failed creation of the leaf is reported; for an object the
  result of cJSON is not looked at.
\<close>

definition json_util_add_leaf ::
  "bool \<Rightarrow> json \<Rightarrow> string option \<Rightarrow> cjson_value \<Rightarrow> ('z, mcl_error \<times> json) io" where
  "json_util_add_leaf array_failure_reported root object_name v =
     (case (json_value root, object_name) of
        (CArray, None) \<Rightarrow> do {
          a \<leftarrow> mcl_malloc;
          State_Monad.return
            (if a then (MCL_OK, add_child root None (Json v []))
             else (if array_failure_reported then MCL_OUT_OF_MEMORY else MCL_OK, root))
        }
      | (CObject, Some name) \<Rightarrow>
          (case json_util_get_object_item root name of
             Inr _ \<Rightarrow> State_Monad.return (MCL_JSON_NAME_DUPLICATION, root)
           | Inl _ \<Rightarrow> do {
               a \<leftarrow> mcl_malloc;
               State_Monad.return (MCL_OK, if a then add_child root (Some name) (Json v []) else root)
             })
      | _ \<Rightarrow> State_Monad.return (MCL_INVALID_PARAMETER, root))"

definition json_util_add_string :: "json \<Rightarrow> string option \<Rightarrow> string \<Rightarrow> ('z, mcl_error \<times> json) io" where
  "json_util_add_string root object_name object_value =
     json_util_add_leaf True root object_name (CString object_value)"

definition add_number :: "json \<Rightarrow> string option \<Rightarrow> double \<Rightarrow> ('z, mcl_error \<times> json) io" where
  "add_number root object_name number = json_util_add_leaf True root object_name (CNumber number)"

text \<open>The number is handed to cJSON as a double, which is exact below \<open>2 ^ 53\<close>.\<close>

definition json_util_add_uint :: "json \<Rightarrow> string option \<Rightarrow> nat \<Rightarrow> ('z, mcl_error \<times> json) io" where
  "json_util_add_uint root object_name number = add_number root object_name (Whole (int number))"

definition json_util_add_double :: "json \<Rightarrow> string option \<Rightarrow> double \<Rightarrow> ('z, mcl_error \<times> json) io" where
  "json_util_add_double root object_name number = add_number root object_name number"

definition json_util_add_bool :: "json \<Rightarrow> string option \<Rightarrow> bool \<Rightarrow> ('z, mcl_error \<times> json) io" where
  "json_util_add_bool root object_name bool_value =
     json_util_add_leaf True root object_name (CBool bool_value)"

definition json_util_add_null :: "json \<Rightarrow> string option \<Rightarrow> ('z, mcl_error \<times> json) io" where
  "json_util_add_null root object_name = json_util_add_leaf False root object_name CNull"

definition json_util_add_object :: "json \<Rightarrow> string \<Rightarrow> json \<Rightarrow> ('z, mcl_error \<times> json) io" where
  "json_util_add_object root object_name object =
     (case json_util_get_object_item root object_name of
        Inr _ \<Rightarrow> State_Monad.return (MCL_JSON_NAME_DUPLICATION, root)
      | Inl _ \<Rightarrow> do {
          a \<leftarrow> mcl_malloc;
          State_Monad.return (MCL_OK, if a then add_child root (Some object_name) object else root)
        })"

definition json_util_add_item_to_array :: "json \<Rightarrow> json \<Rightarrow> json" where
  "json_util_add_item_to_array root object = add_child root None object"

text \<open>The public functions check their pointers first.\<close>

definition mcl_json_util_add_string ::
  "json option \<Rightarrow> string option \<Rightarrow> string option \<Rightarrow> ('z, mcl_error \<times> json option) io" where
  "mcl_json_util_add_string root object_name object_value =
     on_pointer root (\<lambda>r. case object_value of
       None \<Rightarrow> State_Monad.return (MCL_TRIGGERED_WITH_NULL, r)
     | Some v \<Rightarrow> json_util_add_string r object_name v)"

definition mcl_json_util_add_uint ::
  "json option \<Rightarrow> string option \<Rightarrow> nat \<Rightarrow> ('z, mcl_error \<times> json option) io" where
  "mcl_json_util_add_uint root object_name number =
     on_pointer root (\<lambda>r. json_util_add_uint r object_name number)"

definition mcl_json_util_add_double ::
  "json option \<Rightarrow> string option \<Rightarrow> double \<Rightarrow> ('z, mcl_error \<times> json option) io" where
  "mcl_json_util_add_double root object_name number =
     on_pointer root (\<lambda>r. json_util_add_double r object_name number)"

definition mcl_json_util_add_bool ::
  "json option \<Rightarrow> string option \<Rightarrow> bool \<Rightarrow> ('z, mcl_error \<times> json option) io" where
  "mcl_json_util_add_bool root object_name bool_value =
     on_pointer root (\<lambda>r. json_util_add_bool r object_name bool_value)"

definition mcl_json_util_add_object ::
  "json option \<Rightarrow> string \<Rightarrow> json option \<Rightarrow> ('z, mcl_error \<times> json option) io" where
  "mcl_json_util_add_object root object_name object =
     on_pointer root (\<lambda>r. case object of
       None \<Rightarrow> State_Monad.return (MCL_TRIGGERED_WITH_NULL, r)
     | Some obj \<Rightarrow> json_util_add_object r object_name obj)"

definition mcl_json_util_add_item_to_array ::
  "json option \<Rightarrow> json option \<Rightarrow> mcl_error \<times> json option" where
  "mcl_json_util_add_item_to_array root object =
     (case (root, object) of
        (Some r, Some obj) \<Rightarrow> (MCL_OK, Some (json_util_add_item_to_array r obj))
      | _ \<Rightarrow> (MCL_TRIGGERED_WITH_NULL, root))"

definition json_util_duplicate :: "json \<Rightarrow> ('z, mcl_error \<times> json option) io" where
  "json_util_duplicate source_json = do {
     a \<leftarrow> mcl_malloc;
     State_Monad.return (if a then (MCL_OK, Some source_json) else (MCL_OUT_OF_MEMORY, None))
   }"

definition mcl_json_util_duplicate :: "json option \<Rightarrow> ('z, mcl_error \<times> json option) io" where
  "mcl_json_util_duplicate source_json =
     (case source_json of None \<Rightarrow> State_Monad.return (MCL_TRIGGERED_WITH_NULL, None)
      | Some j \<Rightarrow> json_util_duplicate j)"

section \<open>Reading\<close>

definition mcl_json_util_get_object_item :: "json option \<Rightarrow> string option \<Rightarrow> json result" where
  "mcl_json_util_get_object_item json_parent child_name =
     (case (json_parent, child_name) of
        (Some p, Some n) \<Rightarrow> json_util_get_object_item p n
      | _ \<Rightarrow> Err MCL_TRIGGERED_WITH_NULL)"

definition json_util_get_array_size :: "json \<Rightarrow> nat result" where
  "json_util_get_array_size array =
     (if json_value array = CArray then Ok (length (json_children array))
      else Err MCL_JSON_TYPE_MISMATCH)"

definition json_util_get_array_item :: "json \<Rightarrow> nat \<Rightarrow> json result" where
  "json_util_get_array_item array index =
     (if json_value array = CArray
      then (if index < length (json_children array) then Ok (snd (json_children array ! index))
            else Err MCL_INVALID_PARAMETER)
      else Err MCL_JSON_TYPE_MISMATCH)"

definition json_util_has_child :: "json \<Rightarrow> bool" where
  "json_util_has_child root \<longleftrightarrow> json_children root \<noteq> []"

text \<open>The integer of a number is cut to the range of a C int.\<close>

definition json_util_get_number_value :: "json \<Rightarrow> int result" where
  "json_util_get_number_value json =
     (case json_value json of
        CNumber d \<Rightarrow> Ok (max (- (2 ^ 31)) (min (2 ^ 31 - 1) (integer_part d)))
      | _ \<Rightarrow> Err MCL_JSON_TYPE_MISMATCH)"

definition json_util_get_double_value :: "json \<Rightarrow> double result" where
  "json_util_get_double_value json =
     (case json_value json of CNumber d \<Rightarrow> Ok d | _ \<Rightarrow> Err MCL_JSON_TYPE_MISMATCH)"

definition json_util_get_bool_value :: "json \<Rightarrow> bool result" where
  "json_util_get_bool_value json =
     (case json_value json of CBool b \<Rightarrow> Ok b | _ \<Rightarrow> Err MCL_JSON_TYPE_MISMATCH)"

text \<open>A JSON null reads as a \<open>NULL\<close> string.\<close>

definition json_util_get_string :: "json \<Rightarrow> ('z, mcl_error \<times> string option) io" where
  "json_util_get_string json =
     (case json_value json of
        CString s \<Rightarrow> do {
          a \<leftarrow> mcl_malloc;
          State_Monad.return (if a then (MCL_OK, Some s) else (MCL_OUT_OF_MEMORY, None))
        }
      | CNull \<Rightarrow> State_Monad.return (MCL_OK, None)
      | _ \<Rightarrow> State_Monad.return (MCL_JSON_TYPE_MISMATCH, None))"

section \<open>Printing\<close>

text \<open>
  \<open>cJSON_PrintUnformatted\<close>: strings with the escapes of \<open>print_string_ptr\<close>, whole numbers in
  decimal, other numbers as the text they carry. cJSON prints a number with 15 significant digits when
  they give it back, so the decimal form of a whole number is what it prints as long as the number has
  at most 15 digits, as the sizes, times and indices of this library have; a larger one would come out
  with an exponent.
\<close>

definition escape_char :: "char \<Rightarrow> string" where
  "escape_char c = (let n = of_char c :: nat in
     if n = 34 \<or> n = 92 then [CHR 0x5C, c]
     else if 31 < n then [c]
     else if n = 8 then [CHR 0x5C, CHR ''b''] else if n = 12 then [CHR 0x5C, CHR ''f'']
     else if n = 10 then [CHR 0x5C, CHR ''n''] else if n = 13 then [CHR 0x5C, CHR ''r'']
     else if n = 9 then [CHR 0x5C, CHR ''t'']
     else CHR 0x5C # CHR ''u'' # hex4 n)"

definition quote :: char where "quote = CHR 0x22"

definition print_string :: "string \<Rightarrow> string" where
  "print_string s = quote # concat (map escape_char s) @ [quote]"

fun print_nat :: "nat \<Rightarrow> string" where
  "print_nat n = (if n < 10 then [hex_digit n] else print_nat (n div 10) @ [hex_digit (n mod 10)])"

declare print_nat.simps [simp del]

definition print_number :: "double \<Rightarrow> string" where
  "print_number d = (case d of
      Whole i \<Rightarrow> if i < 0 then CHR ''-'' # print_nat (nat (- i)) else print_nat (nat i)
    | Other _ text \<Rightarrow> text)"

fun join_comma :: "string list \<Rightarrow> string" where
  "join_comma [] = []"
| "join_comma [s] = s"
| "join_comma (s # ss) = s @ CHR '','' # join_comma ss"

fun json_print :: "json \<Rightarrow> string" where
  "json_print (Json v cs) =
     (case v of
        CNull \<Rightarrow> ''null''
      | CBool b \<Rightarrow> (if b then ''true'' else ''false'')
      | CNumber d \<Rightarrow> print_number d
      | CString s \<Rightarrow> print_string s
      | CArray \<Rightarrow> CHR ''['' # join_comma (map (\<lambda>(k, j). json_print j) cs) @ '']''
      | CObject \<Rightarrow> CHR ''{'' # join_comma (map (\<lambda>(k, j).
            print_string (case k of None \<Rightarrow> [] | Some n \<Rightarrow> n) @ CHR '':'' # json_print j) cs) @ ''}'')"

definition json_util_to_string :: "json \<Rightarrow> ('z, mcl_error \<times> string option) io" where
  "json_util_to_string root = do {
     a \<leftarrow> mcl_malloc;
     State_Monad.return (if a then (MCL_OK, Some (json_print root)) else (MCL_FAIL, None))
   }"

definition mcl_json_util_to_string :: "json option \<Rightarrow> ('z, mcl_error \<times> string option) io" where
  "mcl_json_util_to_string root =
     (case root of None \<Rightarrow> State_Monad.return (MCL_TRIGGERED_WITH_NULL, None)
      | Some r \<Rightarrow> json_util_to_string r)"

text \<open>The parser of cJSON is an argument; \<open>None\<close> is a parse error or a failed allocation.\<close>

definition json_util_parse :: "(string \<Rightarrow> json option) \<Rightarrow> string \<Rightarrow> nat \<Rightarrow> json result" where
  "json_util_parse cJSON_parse json_string len =
     (case cJSON_parse (if len = 0 then json_string else take len json_string) of
        None \<Rightarrow> Err MCL_FAIL | Some j \<Rightarrow> Ok j)"

section \<open>Lengths of printed text\<close>

text \<open>No character of the string needs an escape.\<close>

definition plain :: "string \<Rightarrow> bool" where
  "plain s \<longleftrightarrow> (\<forall>c \<in> set s. 31 < (of_char c :: nat) \<and> (of_char c :: nat) \<noteq> 34 \<and> (of_char c :: nat) \<noteq> 92)"

lemma print_string_plain: "plain s \<Longrightarrow> print_string s = quote # s @ [quote]"
proof -
  assume "plain s"
  then have "concat (map escape_char s) = s"
    by (induction s) (auto simp: plain_def escape_char_def Let_def)
  then show ?thesis by (simp add: print_string_def)
qed

lemma length_escape_char: "1 \<le> length (escape_char c)"
  by (simp add: escape_char_def Let_def)

lemma length_print_string_ge: "length s + 2 \<le> length (print_string s)"
proof -
  have "length s \<le> length (concat (map escape_char s))"
  proof (induction s)
    case (Cons c s)
    then show ?case using length_escape_char [of c] by simp
  qed simp
  then show ?thesis by (simp add: print_string_def)
qed

section \<open>Names in an object\<close>

definition fold_case :: "string \<Rightarrow> string" where "fold_case n = map LOWERCASE n"

definition names :: "json \<Rightarrow> string list" where
  "names root = map (\<lambda>(k, j). case k of None \<Rightarrow> [] | Some n \<Rightarrow> fold_case n) (json_children root)"

text \<open>The children of an object are named, and no two names differ in letter case only.\<close>

definition well_named :: "json \<Rightarrow> bool" where
  "well_named root \<longleftrightarrow> json_value root = CObject \<longrightarrow>
     (\<forall>(k, j) \<in> set (json_children root). k \<noteq> None) \<and> distinct (names root)"

lemma json_value_add_child [simp]: "json_value (add_child root name item) = json_value root"
  by (simp add: add_child_def)

lemma json_children_add_child [simp]:
  "json_children (add_child root name item) = json_children root @ [(name, item)]"
  by (simp add: add_child_def)

lemma find_snoc: "find P (xs @ [x]) = (case find P xs of None \<Rightarrow> if P x then Some x else None | r \<Rightarrow> r)"
  by (induction xs) auto

lemma get_object_item_fold:
  "fold_case n = fold_case m \<Longrightarrow> json_util_get_object_item root n = json_util_get_object_item root m"
proof -
  assume "fold_case n = fold_case m"
  then have "same_name n = same_name m" by (auto simp: same_name_def fold_case_def split: option.splits)
  then show ?thesis by (simp add: json_util_get_object_item_def cJSON_GetObjectItem_def)
qed

lemma get_object_item_add:
  "json_util_get_object_item (add_child root (Some n) item) name =
     (case json_util_get_object_item root name of
        Ok j \<Rightarrow> Ok j
      | Err e \<Rightarrow> if fold_case name = fold_case n then Ok item else Err MCL_JSON_NON_EXISTING_CHILD)"
  by (auto simp: json_util_get_object_item_def cJSON_GetObjectItem_def same_name_def fold_case_def
      find_snoc split: option.splits)

lemma get_object_item_absent:
  "json_util_get_object_item root name = Err e \<Longrightarrow>
     e = MCL_JSON_NON_EXISTING_CHILD \<and>
     (\<forall>(k, j) \<in> set (json_children root). \<forall>n. k = Some n \<longrightarrow> fold_case n \<noteq> fold_case name)"
  by (auto simp: json_util_get_object_item_def cJSON_GetObjectItem_def same_name_def fold_case_def
      find_None_iff split: option.splits)

lemma well_named_add:
  assumes "well_named root" and "json_util_get_object_item root name = Err e"
  shows "well_named (add_child root (Some name) item)"
  using assms get_object_item_absent [OF assms(2)]
  by (fastforce simp: well_named_def names_def split: option.splits)

lemma leaf_well_named:
  "well_named root \<Longrightarrow> well_named (snd (fst (run_state (json_util_add_leaf reported root name v) w)))"
  by (auto simp: json_util_add_leaf_def run_bind well_named_add
      split: cjson_value.splits option.splits sum.splits prod.splits)
    (auto simp: well_named_def)

lemma object_well_named:
  "well_named root \<Longrightarrow> well_named (snd (fst (run_state (json_util_add_object root name object) w)))"
  by (auto simp: json_util_add_object_def run_bind well_named_add split: sum.splits prod.splits)

lemma start_well_named:
  assumes "well_named root"
  shows "case fst (run_state (json_util_start type root name) w) of (code, c, linked) \<Rightarrow>
    \<forall>child. well_named (the (link_child (Some root) name child linked))"
  using assms
  by (auto simp: json_util_start_def link_child_def run_bind well_named_add split: sum.splits prod.splits option.splits)

text \<open>The children that have a name.\<close>

definition named_children :: "json \<Rightarrow> (string option \<times> json) list" where
  "named_children root = filter (\<lambda>(k, j). k \<noteq> None) (json_children root)"

section \<open>Properties\<close>

text \<open>C28. Whatever the allocator does, no operation that adds to a document makes an object hold two
  names that a lookup could confuse: names stay distinct without regard to letter case. This covers
  every operation that adds: the strings, the numbers of both kinds, booleans, nulls and objects, the
  arrays and objects that are started (linked under their name, whatever they are filled with); an
  item that is appended to an array, or to an object by mistake, has no name and adds none.\<close>

theorem json_names_stay_distinct:
  assumes "well_named root"
  shows "well_named (snd (fst (run_state (json_util_add_string root name s) w))) \<and>
    well_named (snd (fst (run_state (json_util_add_uint root name n) w))) \<and>
    well_named (snd (fst (run_state (json_util_add_double root name d) w))) \<and>
    well_named (snd (fst (run_state (json_util_add_bool root name b) w))) \<and>
    well_named (snd (fst (run_state (json_util_add_null root name) w))) \<and>
    well_named (snd (fst (run_state (json_util_add_object root key object) w))) \<and>
    (case fst (run_state (json_util_start_array root key) w) of (code, c, linked) \<Rightarrow>
       \<forall>child. well_named (the (link_child (Some root) key child linked))) \<and>
    (case fst (run_state (json_util_start_object root key) w) of (code, c, linked) \<Rightarrow>
       \<forall>child. well_named (the (link_child (Some root) key child linked))) \<and>
    named_children (json_util_add_item_to_array root object) = named_children root"
  using assms start_well_named [OF assms, where type = MCL_JSON_ARRAY and name = key and w = w]
    start_well_named [OF assms, where type = MCL_JSON_OBJECT and name = key and w = w]
  by (simp_all add: json_util_add_string_def json_util_add_uint_def add_number_def json_util_add_double_def
      json_util_add_bool_def json_util_add_null_def json_util_start_array_def json_util_start_object_def
      leaf_well_named object_well_named
      json_util_add_item_to_array_def named_children_def)

theorem json_names_stay_distinct_witness:
  "well_named (snd (fst (run_state
     (json_util_add_string (Json CObject [(Some ''a'', Json CNull [])]) (Some ''A'') ''x'')
     \<lparr>w_alloc = [], w_random = []\<rparr>)))"
  by (rule json_names_stay_distinct [THEN conjunct1]) (simp add: well_named_def names_def)

text \<open>When memory suffices, a string added to an object under a new name is found under every
  spelling of that name, and lookups of other names are unchanged; a name in use is refused and
  the object is unchanged.\<close>

theorem json_add_string_get:
  assumes "json_value root = CObject" and "w_alloc w = []"
  shows "case run_state (json_util_add_string root (Some name) v) w of ((code, root'), w') \<Rightarrow>
      (case json_util_get_object_item root name of
         Ok j \<Rightarrow> code = MCL_JSON_NAME_DUPLICATION \<and> root' = root
       | Err e \<Rightarrow> code = MCL_OK \<and>
           (\<forall>n. json_util_get_object_item root' n =
              (if fold_case n = fold_case name then Ok (Json (CString v) [])
               else json_util_get_object_item root n)))"
proof (cases "json_util_get_object_item root name")
  case (Inl e)
  have "json_util_get_object_item root n = Err e" if "fold_case n = fold_case name" for n
    using get_object_item_fold [OF that] Inl by simp
  with Inl assms show ?thesis
    by (auto simp: json_util_add_string_def json_util_add_leaf_def get_object_item_add
        split: sum.splits dest: get_object_item_absent)
next
  case (Inr j)
  with assms show ?thesis by (simp add: json_util_add_string_def json_util_add_leaf_def)
qed

theorem json_add_string_get_witness:
  "case run_state (json_util_add_string (Json CObject []) (Some ''Id'') ''7'')
       \<lparr>w_alloc = [], w_random = []\<rparr> of ((code, root'), w') \<Rightarrow>
     code = MCL_OK \<and> json_util_get_object_item root' ''iD'' = Ok (Json (CString ''7'') [])"
  using json_add_string_get [of "Json CObject []" "\<lparr>w_alloc = [], w_random = []\<rparr>" "''Id''" "''7''"]
proof -
  have "fold_case ''iD'' = fold_case ''Id''" by code_simp
  moreover have "json_util_get_object_item (Json CObject []) ''Id'' = Err MCL_JSON_NON_EXISTING_CHILD"
    by (simp add: json_util_get_object_item_def cJSON_GetObjectItem_def)
  ultimately show ?thesis
    using json_add_string_get [of "Json CObject []" "\<lparr>w_alloc = [], w_random = []\<rparr>" "''Id''" "''7''"]
    by (auto split: prod.splits)
qed

text \<open>When cJSON cannot allocate the new member, adding to an object still answers
  \<open>MCL_OK\<close> although the object is unchanged: the field is missing from the document.\<close>

theorem json_add_loses_member:
  assumes "json_value root = CObject" and "w_alloc w = False # bs"
    and "json_util_get_object_item root name = Err e"
  shows "fst (run_state (json_util_add_string root (Some name) v) w) = (MCL_OK, root) \<and>
    fst (run_state (json_util_add_uint root (Some name) n) w) = (MCL_OK, root) \<and>
    fst (run_state (json_util_add_bool root (Some name) b) w) = (MCL_OK, root) \<and>
    fst (run_state (json_util_add_object root name object) w) = (MCL_OK, root)"
  using assms
  by (simp_all add: json_util_add_string_def json_util_add_uint_def add_number_def
      json_util_add_bool_def json_util_add_leaf_def json_util_add_object_def run_bind run_malloc)

theorem json_add_loses_member_witness:
  "fst (run_state (json_util_add_string (Json CObject []) (Some ''id'') ''7'')
     \<lparr>w_alloc = [False], w_random = []\<rparr>) = (MCL_OK, Json CObject [])"
  by (rule json_add_loses_member [of _ _ "[]" _ MCL_JSON_NON_EXISTING_CHILD, THEN conjunct1])
    (simp_all add: json_util_get_object_item_def cJSON_GetObjectItem_def)

end
