(* ===== verification/MclRandom.thy ===== *)
theory MclRandom
  imports MclWorld MclString "HOL-Library.Word"
begin

unbundle bit_operations_syntax

text \<open>
  Identifiers from random bytes, after \<open>src/mcl_core/src/random.c\<close>: the 16 bytes are read as the
  fields of a version 4 UUID on a little-endian target and printed in the usual form.
\<close>

section \<open>Identifiers\<close>

definition GUID_LENGTH :: nat where "GUID_LENGTH = 36"

record guid_t =
  time_low :: "32 word"
  time_mid :: "16 word"
  time_hi_and_version :: "16 word"
  clk_seq_hi_res :: "8 word"
  clk_seq_low :: "8 word"
  node :: "8 word list"

text \<open>The fields of a union with 16 bytes; multi-byte fields have their lowest byte first.\<close>

definition little_endian16 :: "8 word \<Rightarrow> 8 word \<Rightarrow> 16 word" where
  "little_endian16 b0 b1 = ucast b0 OR push_bit 8 (ucast b1)"

definition little_endian32 :: "8 word \<Rightarrow> 8 word \<Rightarrow> 8 word \<Rightarrow> 8 word \<Rightarrow> 32 word" where
  "little_endian32 b0 b1 b2 b3 =
     ucast (little_endian16 b0 b1) OR push_bit 16 (ucast (little_endian16 b2 b3))"

definition guid_of_bytes :: "8 word list \<Rightarrow> guid_t" where
  "guid_of_bytes rnd =
     \<lparr>time_low = little_endian32 (rnd ! 0) (rnd ! 1) (rnd ! 2) (rnd ! 3),
      time_mid = little_endian16 (rnd ! 4) (rnd ! 5),
      time_hi_and_version = little_endian16 (rnd ! 6) (rnd ! 7),
      clk_seq_hi_res = rnd ! 8, clk_seq_low = rnd ! 9, node = take 6 (drop 10 rnd)\<rparr>"

definition set_version :: "guid_t \<Rightarrow> guid_t" where
  "set_version g =
     g\<lparr>clk_seq_hi_res := (clk_seq_hi_res g AND 0x3F) OR 0x80,
       time_hi_and_version := (time_hi_and_version g AND 0x0FFF) OR 0x4000\<rparr>"

definition hex8 :: "nat \<Rightarrow> string" where
  "hex8 n = hex4 (n div 65536) @ hex4 n"

definition format_guid :: "guid_t \<Rightarrow> string" where
  "format_guid g = hex8 (unat (time_low g)) @ ''-'' @ hex4 (unat (time_mid g)) @ ''-'' @
     hex4 (unat (time_hi_and_version g)) @ ''-'' @ hex2 (unat (clk_seq_hi_res g)) @
     hex2 (unat (clk_seq_low g)) @ ''-'' @ concat (map (\<lambda>b. hex2 (unat b)) (node g))"

definition random_generate_guid :: "('z, mcl_error \<times> string option) io" where
  "random_generate_guid = do {
     a \<leftarrow> mcl_malloc;
     if \<not> a then State_Monad.return (MCL_OUT_OF_MEMORY, None)
     else do {
       r \<leftarrow> mcl_random_generate_bytes 16;
       State_Monad.return
         (case r of
            Err e \<Rightarrow> (e, None)
          | Ok rnd \<Rightarrow>
              (case snprintf_text (GUID_LENGTH + 1) (format_guid (set_version (guid_of_bytes rnd))) of
                 Err e \<Rightarrow> (e, None) | Ok s \<Rightarrow> (MCL_OK, Some s)))
     }
   }"

definition mcl_random_generate_guid :: "('z, mcl_error \<times> string option) io" where
  "mcl_random_generate_guid = random_generate_guid"

definition random_generate_number :: "('z, 32 word result) io" where
  "random_generate_number = do {
     r \<leftarrow> mcl_random_generate_bytes 4;
     State_Monad.return (map_sum id (\<lambda>b. little_endian32 (b ! 0) (b ! 1) (b ! 2) (b ! 3)) r)
   }"

section \<open>The printed form\<close>

definition is_hex :: "char \<Rightarrow> bool" where "is_hex c \<longleftrightarrow> c \<in> set ''0123456789abcdef''"

lemma hex_digit_is_hex: "n < 16 \<Longrightarrow> is_hex (hex_digit n)"
proof -
  assume "n < 16"
  then have "n < length ''0123456789abcdef''" by simp
  then show ?thesis unfolding is_hex_def hex_digit_def by (rule nth_mem)
qed

lemma hex_is_hex: "\<forall>c \<in> set (hex2 n). is_hex c" "\<forall>c \<in> set (hex4 n). is_hex c" "\<forall>c \<in> set (hex8 n). is_hex c"
  by (auto simp: hex2_def hex4_def hex8_def hex_digit_is_hex)

lemma length_hex8 [simp]: "length (hex8 n) = 8"
  by (simp add: hex8_def)

lemma length_concat_hex2: "length (concat (map (\<lambda>b. hex2 (f b)) bs)) = 2 * length bs"
  by (induction bs) auto

lemma length_format_guid: "length (node g) = 6 \<Longrightarrow> length (format_guid g) = 36"
  by (simp add: format_guid_def length_concat_hex2)

lemma low_or_high:
  fixes x :: "'a::len word"
  assumes "n \<le> k"
  shows "(x AND mask n) OR 2 ^ k = take_bit n x + 2 ^ k"
  by (subst disjunctive_add) (use assms in \<open>auto simp: take_bit_eq_mask bit_simps\<close>)

lemma version_nibble: "unat ((x AND 0x0FFF) OR 0x4000 :: 16 word) div 4096 = 4"
proof -
  have "(x AND 0x0FFF) OR 0x4000 = take_bit 12 x + (2 ^ 14 :: 16 word)"
    using low_or_high [of 12 14 x] by (simp add: mask_eq_exp_minus_1)
  moreover have "unat (take_bit 12 x) < 2 ^ 12"
    by (simp only: unsigned_take_bit_eq) (rule take_bit_nat_less_exp)
  ultimately show ?thesis by (simp add: unat_word_ariths)
qed

lemma variant_nibble: "unat ((x AND 0x3F) OR 0x80 :: 8 word) div 16 \<in> {8, 9, 10, 11}"
proof -
  have "(x AND 0x3F) OR 0x80 = take_bit 6 x + (2 ^ 7 :: 8 word)"
    using low_or_high [of 6 7 x] by (simp add: mask_eq_exp_minus_1)
  moreover have "unat (take_bit 6 x) < 2 ^ 6"
    by (simp only: unsigned_take_bit_eq) (rule take_bit_nat_less_exp)
  ultimately show ?thesis by (simp add: unat_word_ariths) arith
qed

lemma hex_list_is_hex: "\<forall>c \<in> set (concat (map (\<lambda>b. hex2 (f b)) bs)). is_hex c"
  using hex_is_hex(1) by (induction bs) auto

lemma hex4_cons:
  "\<exists>c. hex4 n = hex_digit (n div 4096 mod 16) # c \<and> length c = 3 \<and> (\<forall>x \<in> set c. is_hex x)"
  by (auto simp: hex4_def hex2_def div_mult2_eq [symmetric] hex_digit_is_hex)

lemma hex2_cons: "\<exists>c. hex2 n = hex_digit (n div 16 mod 16) # [c] \<and> is_hex c"
  by (auto simp: hex2_def hex_digit_is_hex)

lemma print_guid:
  assumes "length bytes = 16"
  shows "snprintf_text (GUID_LENGTH + 1) (format_guid (set_version (guid_of_bytes bytes))) =
    Ok (format_guid (set_version (guid_of_bytes bytes)))"
proof -
  have "length (format_guid (set_version (guid_of_bytes bytes))) = 36"
    by (rule length_format_guid) (use assms in \<open>simp add: set_version_def guid_of_bytes_def\<close>)
  then show ?thesis
    by (simp add: snprintf_text_fits GUID_LENGTH_def length_greater_0_conv [symmetric] del: length_greater_0_conv)
qed

lemma random_generate_guid_ok:
  assumes "w_alloc w = []" and "w_random w = Ok f # rs"
  shows "run_state random_generate_guid w =
     ((MCL_OK, Some (format_guid (set_version (guid_of_bytes (map f [0..<16]))))), w\<lparr>w_random := rs\<rparr>)"
  using assms print_guid [of "map f [0..<16]"]
  by (simp add: random_generate_guid_def run_bind mcl_random_generate_bytes_def)

section \<open>Properties\<close>

text \<open>With memory and random bytes at hand the generator returns the text of a random UUID:
  groups of 8, 4, 4, 4 and 12 hexadecimal digits, version 4 and the variant of RFC 4122, whatever
  the bytes are.\<close>

theorem guid_is_version_4:
  assumes "w_alloc w = []" and "w_random w = Ok f # rs"
  shows "\<exists>a b c v d e. fst (run_state random_generate_guid w) =
        (MCL_OK, Some (a @ ''-'' @ b @ ''-4'' @ c @ ''-'' @ v # d @ ''-'' @ e)) \<and>
      map length [a, b, c, d, e] = [8, 4, 3, 3, 12] \<and> v \<in> set ''89ab'' \<and>
      (\<forall>x \<in> set (a @ b @ c @ d @ e). is_hex x)"
proof -
  define g where "g = set_version (guid_of_bytes (map f [0..<16]))"
  have six: "length (node g) = 6" by (simp add: g_def set_version_def guid_of_bytes_def)
  have "fst (run_state random_generate_guid w) = (MCL_OK, Some (format_guid g))"
    by (simp add: random_generate_guid_ok [OF assms] g_def)
  moreover obtain c where "hex4 (unat (time_hi_and_version g)) = CHR ''4'' # c" "length c = 3"
      "\<forall>x \<in> set c. is_hex x"
    using hex4_cons [of "unat (time_hi_and_version g)"]
    by (auto simp: g_def set_version_def version_nibble hex_digit_def)
  moreover obtain v d where "hex2 (unat (clk_seq_hi_res g)) = v # [d]" "is_hex d" "v \<in> set ''89ab''"
    using hex2_cons [of "unat (clk_seq_hi_res g)"]
      variant_nibble [of "clk_seq_hi_res (guid_of_bytes (map f [0..<16]))"]
    by (auto simp: g_def set_version_def hex_digit_def)
  ultimately have "fst (run_state random_generate_guid w) = (MCL_OK, Some (
      hex8 (unat (time_low g)) @ ''-'' @ hex4 (unat (time_mid g)) @ ''-4'' @ c @ ''-'' @
      v # (d # hex2 (unat (clk_seq_low g))) @ ''-'' @ concat (map (\<lambda>b. hex2 (unat b)) (node g)))) \<and>
      map length [hex8 (unat (time_low g)), hex4 (unat (time_mid g)), c, d # hex2 (unat (clk_seq_low g)),
        concat (map (\<lambda>b. hex2 (unat b)) (node g))] = [8, 4, 3, 3, 12] \<and> v \<in> set ''89ab'' \<and>
      (\<forall>x \<in> set (hex8 (unat (time_low g)) @ hex4 (unat (time_mid g)) @ c @
        (d # hex2 (unat (clk_seq_low g))) @ concat (map (\<lambda>b. hex2 (unat b)) (node g))). is_hex x)"
    using six hex_is_hex hex_list_is_hex [of unat "node g"]
    by (simp add: format_guid_def length_concat_hex2 ball_Un)
  then show ?thesis by (intro exI) assumption
qed

theorem guid_is_version_4_witness:
  "\<exists>a b c v d e. fst (run_state random_generate_guid \<lparr>w_alloc = [], w_random = [Ok (\<lambda>i. 0xF0)]\<rparr>) =
        (MCL_OK, Some (a @ ''-'' @ b @ ''-4'' @ c @ ''-'' @ v # d @ ''-'' @ e)) \<and>
      map length [a, b, c, d, e] = [8, 4, 3, 3, 12] \<and> v \<in> set ''89ab'' \<and>
      (\<forall>x \<in> set (a @ b @ c @ d @ e). is_hex x)"
  by (rule guid_is_version_4) simp_all

end
