(* ===== verification/MclItems.thy ===== *)
theory MclItems
  imports MclRandom MclTime MclJson
begin

text \<open>
  The items of the connectivity library: timeseries with their value lists and values, events,
  files, custom data, data source configurations with their data sources and data points, and
  mappings, after the files of the same names in \<open>src/mcl_connectivity/src\<close>.

  An item is the record of its base followed by the fields of its payload. A string field is
  \<open>None\<close> while its pointer is \<open>NULL\<close>; a timestamp buffer is \<open>None\<close> while nobody has written it.
  The lists of an item are only appended to and traversed from their head to their end, so they are
  HOL lists. The parameter and the value of a \<open>set_parameter\<close> call are one constructor; \<open>None\<close> is
  a \<open>NULL\<close> value, the last constructor an enumerator outside the range. The functions return the
  item they update, which is unchanged where the code leaves it alone.
\<close>

section \<open>Base\<close>

datatype E_MCL_ITEM_TYPE =
    MCL_ITEM_TYPE_TIMESERIES | MCL_ITEM_TYPE_EVENT | MCL_ITEM_TYPE_FILE | MCL_ITEM_TYPE_CUSTOM_DATA
  | MCL_ITEM_TYPE_DATA_SOURCE_CONFIGURATION | MCL_ITEM_TYPE_STORE

definition MCL_ITEM_PREAMBLE :: "32 word" where "MCL_ITEM_PREAMBLE = 0x4D434C00"

record mcl_item =
  preamble :: "32 word"
  item_type :: E_MCL_ITEM_TYPE
  item_version :: nat

text \<open>The destroy and duplicate of a JSON field.\<close>

definition replace_json :: "json \<Rightarrow> ('z, mcl_error \<times> json option) io" where
  "replace_json value = mcl_json_util_duplicate (Some value)"

text \<open>
  Copying a timestamp into its buffer, validated when given as text and converted when given as a
  time. \<open>None\<close> is the read of an indeterminate buffer.
\<close>

definition set_timestamp_text :: "string \<Rightarrow> string option \<Rightarrow> mcl_error \<times> string option" where
  "set_timestamp_text value timestamp =
     (if mcl_time_util_validate_timestamp value = Some True then (MCL_OK, Some value)
      else (MCL_INVALID_PARAMETER, timestamp))"

definition timestamp_valid :: "string option \<Rightarrow> bool option" where
  "timestamp_valid timestamp = Option.bind timestamp mcl_time_util_validate_timestamp"

section \<open>Timeseries\<close>

record timeseries_value_t =
  tv_data_point_id :: "string option"
  tv_quality_code :: "string option"
  tv_value :: "string option"

record timeseries_value_list_t =
  tvl_values :: "timeseries_value_t list"
  tvl_timestamp :: "string option"

record timeseries_t = mcl_item +
  ts_configuration_id :: "string option"
  ts_value_lists :: "timeseries_value_list_t list"

datatype timeseries_value_parameter =
    TV_DATA_POINT_ID string | TV_VALUE string | TV_QUALITY_CODE string | TV_END

datatype timeseries_value_list_parameter =
    TVL_TIMESTAMP_ISO8601 string | TVL_TIMESTAMP_EPOCH int | TVL_END

datatype timeseries_parameter = TS_CONFIGURATION_ID string | TS_END

definition mcl_timeseries_versions :: "string list" where "mcl_timeseries_versions = [''1.0'']"

definition mcl_timeseries_value_initialize :: "('z, mcl_error \<times> timeseries_value_t option) io" where
  "mcl_timeseries_value_initialize = do {
     a \<leftarrow> mcl_malloc;
     State_Monad.return
       (if a then (MCL_OK, Some \<lparr>tv_data_point_id = None, tv_quality_code = None, tv_value = None\<rparr>)
        else (MCL_OUT_OF_MEMORY, None))
   }"

definition mcl_timeseries_value_set_parameter ::
  "timeseries_value_t option \<Rightarrow> timeseries_value_parameter option \<Rightarrow> ('z, mcl_error \<times> timeseries_value_t option) io" where
  "mcl_timeseries_value_set_parameter timeseries_value parameter = on_pointer timeseries_value (\<lambda>v.
     (case parameter of
        None \<Rightarrow> State_Monad.return (MCL_TRIGGERED_WITH_NULL, v)
      | Some (TV_DATA_POINT_ID s) \<Rightarrow> do {
          (code, f) \<leftarrow> reset_field s; State_Monad.return (code, v\<lparr>tv_data_point_id := f\<rparr>) }
      | Some (TV_VALUE s) \<Rightarrow> do {
          (code, f) \<leftarrow> reset_field s; State_Monad.return (code, v\<lparr>tv_value := f\<rparr>) }
      | Some (TV_QUALITY_CODE s) \<Rightarrow> do {
          (code, f) \<leftarrow> reset_field s; State_Monad.return (code, v\<lparr>tv_quality_code := f\<rparr>) }
      | Some TV_END \<Rightarrow> State_Monad.return (MCL_INVALID_PARAMETER, v)))"

definition timeseries_value_validate :: "timeseries_value_t \<Rightarrow> mcl_error" where
  "timeseries_value_validate v =
     (if tv_data_point_id v = None then MCL_INVALID_PARAMETER
      else if tv_quality_code v = None then MCL_INVALID_PARAMETER
      else if tv_value v = None then MCL_INVALID_PARAMETER
      else MCL_OK)"

text \<open>The second allocation is the list's.\<close>

definition mcl_timeseries_value_list_initialize :: "('z, mcl_error \<times> timeseries_value_list_t option) io" where
  "mcl_timeseries_value_list_initialize = do {
     a \<leftarrow> mcl_malloc;
     if \<not> a then State_Monad.return (MCL_OUT_OF_MEMORY, None)
     else do {
       l \<leftarrow> mcl_malloc;
       State_Monad.return
         (if l then (MCL_OK, Some \<lparr>tvl_values = [], tvl_timestamp = Some []\<rparr>)
          else (MCL_OUT_OF_MEMORY, None))
     }
   }"

definition mcl_timeseries_value_list_set_parameter ::
  "timeseries_value_list_t option \<Rightarrow> timeseries_value_list_parameter option \<Rightarrow>
   ('z, mcl_error \<times> timeseries_value_list_t option) io" where
  "mcl_timeseries_value_list_set_parameter timeseries_value_list parameter =
     on_pointer timeseries_value_list (\<lambda>l. State_Monad.return
     (case parameter of
        None \<Rightarrow> (MCL_TRIGGERED_WITH_NULL, l)
      | Some (TVL_TIMESTAMP_ISO8601 s) \<Rightarrow>
          (let (code, t) = set_timestamp_text s (tvl_timestamp l) in (code, l\<lparr>tvl_timestamp := t\<rparr>))
      | Some (TVL_TIMESTAMP_EPOCH e) \<Rightarrow>
          (let (code, t) = mcl_time_util_convert_to_iso_8601_format e (tvl_timestamp l)
           in (code, l\<lparr>tvl_timestamp := t\<rparr>))
      | Some TVL_END \<Rightarrow> (MCL_INVALID_PARAMETER, l)))"

definition mcl_timeseries_value_list_add_value ::
  "timeseries_value_list_t option \<Rightarrow> timeseries_value_t option \<Rightarrow>
   ('z, mcl_error \<times> timeseries_value_list_t option) io" where
  "mcl_timeseries_value_list_add_value timeseries_value_list timeseries_value = on_pointer timeseries_value_list (\<lambda>l.
     (case timeseries_value of
        None \<Rightarrow> State_Monad.return (MCL_TRIGGERED_WITH_NULL, l)
      | Some v \<Rightarrow> do {
          a \<leftarrow> mcl_malloc;
          State_Monad.return
            (if a then (MCL_OK, l\<lparr>tvl_values := tvl_values l @ [v]\<rparr>) else (MCL_OUT_OF_MEMORY, l))
        }))"

text \<open>Every element is validated, up to the first invalid one.\<close>

fun validate_each :: "('a \<Rightarrow> mcl_error) \<Rightarrow> 'a list \<Rightarrow> mcl_error" where
  "validate_each f [] = MCL_OK"
| "validate_each f (x # xs) = (if f x \<noteq> MCL_OK then MCL_INVALID_PARAMETER else validate_each f xs)"

definition timeseries_value_list_validate :: "timeseries_value_list_t \<Rightarrow> mcl_error option" where
  "timeseries_value_list_validate l =
     (case timestamp_valid (tvl_timestamp l) of
        None \<Rightarrow> None
      | Some ok \<Rightarrow> Some
          (if \<not> ok then MCL_INVALID_PARAMETER
           else if length (tvl_values l) = 0 then MCL_INVALID_PARAMETER
           else validate_each timeseries_value_validate (tvl_values l)))"

definition mcl_timeseries_initialize :: "nat \<Rightarrow> ('z, mcl_error \<times> timeseries_t option) io" where
  "mcl_timeseries_initialize version =
     (if \<not> version < length mcl_timeseries_versions then State_Monad.return (MCL_INVALID_PARAMETER, None)
      else do {
        a \<leftarrow> mcl_malloc;
        p \<leftarrow> (if a then mcl_malloc else State_Monad.return False);
        l \<leftarrow> (if p then mcl_malloc else State_Monad.return False);
        State_Monad.return
          (if l then (MCL_OK, Some \<lparr>preamble = MCL_ITEM_PREAMBLE, item_type = MCL_ITEM_TYPE_TIMESERIES,
             item_version = version, ts_configuration_id = None, ts_value_lists = []\<rparr>)
           else (MCL_OUT_OF_MEMORY, None))
      })"

definition mcl_timeseries_set_parameter ::
  "timeseries_t option \<Rightarrow> timeseries_parameter option \<Rightarrow> ('z, mcl_error \<times> timeseries_t option) io" where
  "mcl_timeseries_set_parameter timeseries parameter = on_pointer timeseries (\<lambda>t.
     (case parameter of
        None \<Rightarrow> State_Monad.return (MCL_TRIGGERED_WITH_NULL, t)
      | Some (TS_CONFIGURATION_ID s) \<Rightarrow> do {
          (code, f) \<leftarrow> reset_field s; State_Monad.return (code, t\<lparr>ts_configuration_id := f\<rparr>) }
      | Some TS_END \<Rightarrow> State_Monad.return (MCL_INVALID_PARAMETER, t)))"

definition mcl_timeseries_add_value_list ::
  "timeseries_t option \<Rightarrow> timeseries_value_list_t option \<Rightarrow> ('z, mcl_error \<times> timeseries_t option) io" where
  "mcl_timeseries_add_value_list timeseries value_list = on_pointer timeseries (\<lambda>t.
     (case value_list of
        None \<Rightarrow> State_Monad.return (MCL_TRIGGERED_WITH_NULL, t)
      | Some l \<Rightarrow> do {
          a \<leftarrow> mcl_malloc;
          State_Monad.return
            (if a then (MCL_OK, t\<lparr>ts_value_lists := ts_value_lists t @ [l]\<rparr>) else (MCL_OUT_OF_MEMORY, t))
        }))"

fun validate_value_lists :: "timeseries_value_list_t list \<Rightarrow> mcl_error option" where
  "validate_value_lists [] = Some MCL_OK"
| "validate_value_lists (l # ls) =
     (case timeseries_value_list_validate l of
        None \<Rightarrow> None
      | Some code \<Rightarrow> if code \<noteq> MCL_OK then Some MCL_INVALID_PARAMETER else validate_value_lists ls)"

definition timeseries_validate :: "timeseries_t \<Rightarrow> mcl_error option" where
  "timeseries_validate t =
     (if ts_configuration_id t = None then Some MCL_INVALID_PARAMETER
      else if length (ts_value_lists t) = 0 then Some MCL_INVALID_PARAMETER
      else validate_value_lists (ts_value_lists t))"

section \<open>Events\<close>

record event_t = mcl_item +
  ev_id :: "string option"
  ev_correlation_id :: "string option"
  ev_timestamp :: "string option"
  ev_severity :: int
  ev_description :: "string option"
  ev_type :: "string option"
  ev_version :: "string option"
  ev_details :: "json option"

datatype event_parameter =
    EVENT_TYPE string | EVENT_VERSION string | EVENT_SEVERITY int | EVENT_TIMESTAMP_ISO8601 string
  | EVENT_TIMESTAMP_EPOCH int | EVENT_DESCRIPTION string | EVENT_CORRELATION_ID string
  | EVENT_DETAILS json | EVENT_END

definition MCL_EVENT_PARAMETER_DESCRIPTION_MAXIMUM_LENGTH :: nat where
  "MCL_EVENT_PARAMETER_DESCRIPTION_MAXIMUM_LENGTH = 256"

definition mcl_event_versions :: "string list" where "mcl_event_versions = [''1.0'', ''2.0'']"

text \<open>Indexed by the version and the severity, in the order error, warning, information.\<close>

definition event_severity_values :: "int list list" where
  "event_severity_values = [[1, 2, 3], [20, 30, 40]]"

definition MCL_EVENT_SEVERITY_INFORMATION :: nat where "MCL_EVENT_SEVERITY_INFORMATION = 2"
definition MCL_EVENT_SEVERITY_END :: int where "MCL_EVENT_SEVERITY_END = 3"

definition mcl_event_initialize :: "nat \<Rightarrow> ('z, mcl_error \<times> event_t option) io" where
  "mcl_event_initialize version =
     (if \<not> version < length mcl_event_versions then State_Monad.return (MCL_INVALID_PARAMETER, None)
      else do {
        a \<leftarrow> mcl_malloc;
        p \<leftarrow> (if a then mcl_malloc else State_Monad.return False);
        if p then do {
          (code, guid) \<leftarrow> mcl_random_generate_guid;
          State_Monad.return
            (code,
             if code = MCL_OK
             then Some \<lparr>preamble = MCL_ITEM_PREAMBLE, item_type = MCL_ITEM_TYPE_EVENT,
               item_version = version, ev_id = guid, ev_correlation_id = None, ev_timestamp = None,
               ev_severity = event_severity_values ! version ! MCL_EVENT_SEVERITY_INFORMATION,
               ev_description = None, ev_type = None, ev_version = None, ev_details = None\<rparr>
             else None)
        } else State_Monad.return (MCL_OUT_OF_MEMORY, None)
      })"

definition mcl_event_set_parameter ::
  "event_t option \<Rightarrow> event_parameter option \<Rightarrow> ('z, mcl_error \<times> event_t option) io" where
  "mcl_event_set_parameter event parameter = on_pointer event (\<lambda>e.
     (case parameter of
        None \<Rightarrow> State_Monad.return (MCL_TRIGGERED_WITH_NULL, e)
      | Some (EVENT_TYPE s) \<Rightarrow> do {
          (code, f) \<leftarrow> reset_field s; State_Monad.return (code, e\<lparr>ev_type := f\<rparr>) }
      | Some (EVENT_VERSION s) \<Rightarrow> do {
          (code, f) \<leftarrow> reset_field s; State_Monad.return (code, e\<lparr>ev_version := f\<rparr>) }
      | Some (EVENT_SEVERITY n) \<Rightarrow> State_Monad.return
          (if 0 \<le> n \<and> n < MCL_EVENT_SEVERITY_END
           then (MCL_OK, e\<lparr>ev_severity := event_severity_values ! item_version e ! nat n\<rparr>)
           else (MCL_INVALID_PARAMETER, e))
      | Some (EVENT_TIMESTAMP_ISO8601 s) \<Rightarrow> State_Monad.return
          (let (code, t) = set_timestamp_text s (ev_timestamp e) in (code, e\<lparr>ev_timestamp := t\<rparr>))
      | Some (EVENT_TIMESTAMP_EPOCH t) \<Rightarrow> State_Monad.return
          (let (code, t) = mcl_time_util_convert_to_iso_8601_format t (ev_timestamp e)
           in (code, e\<lparr>ev_timestamp := t\<rparr>))
      | Some (EVENT_DESCRIPTION s) \<Rightarrow>
          if \<not> length s < MCL_EVENT_PARAMETER_DESCRIPTION_MAXIMUM_LENGTH
          then State_Monad.return (MCL_INVALID_PARAMETER, e)
          else do {
            (code, f) \<leftarrow> reset_field s; State_Monad.return (code, e\<lparr>ev_description := f\<rparr>) }
      | Some (EVENT_CORRELATION_ID s) \<Rightarrow> do {
          (code, f) \<leftarrow> reset_field s; State_Monad.return (code, e\<lparr>ev_correlation_id := f\<rparr>) }
      | Some (EVENT_DETAILS j) \<Rightarrow> do {
          (code, f) \<leftarrow> replace_json j; State_Monad.return (code, e\<lparr>ev_details := f\<rparr>) }
      | Some EVENT_END \<Rightarrow> State_Monad.return (MCL_INVALID_PARAMETER, e)))"

definition event_validate :: "event_t \<Rightarrow> mcl_error option" where
  "event_validate e =
     (case timestamp_valid (ev_timestamp e) of
        None \<Rightarrow> None
      | Some ok \<Rightarrow> Some
          (if \<not> ok then MCL_INVALID_PARAMETER
           else if ev_type e = None then MCL_INVALID_PARAMETER
           else if ev_version e = None then MCL_INVALID_PARAMETER
           else MCL_OK))"

section \<open>Files\<close>

text \<open>
  An open file and what the file utilities read from it. A stream that has been handed to
  \<open>fclose\<close> may not be used again, whatever \<open>fclose\<close> answered: doing so is \<open>None\<close>. Opening is a
  function from paths, the outcome of the close an argument.
\<close>

record file_stream =
  fs_open :: bool
  fs_regular :: bool
  fs_size :: nat
  fs_changed :: int

record file_t = mcl_item +
  fl_creation_date :: "string option"
  fl_local_path :: "string option"
  fl_remote_name :: "string option"
  fl_type :: "string option"
  fl_size :: nat
  fl_file_descriptor :: "file_stream option"

datatype file_parameter = FILE_LOCAL_PATH string | FILE_REMOTE_NAME string | FILE_TYPE string | FILE_END

definition mcl_file_versions :: "string list" where "mcl_file_versions = [''1.0'']"

definition mcl_file_util_fclose ::
  "bool \<Rightarrow> file_stream option \<Rightarrow> (mcl_error \<times> file_stream option) option" where
  "mcl_file_util_fclose close_ok file_descriptor =
     (case file_descriptor of
        None \<Rightarrow> Some (MCL_OK, None)
      | Some f \<Rightarrow>
          if \<not> fs_open f then None
          else Some (if close_ok then MCL_OK else MCL_FAIL, Some (f\<lparr>fs_open := False\<rparr>)))"

definition mcl_file_initialize :: "nat \<Rightarrow> ('z, mcl_error \<times> file_t option) io" where
  "mcl_file_initialize version =
     (if \<not> version < length mcl_file_versions then State_Monad.return (MCL_INVALID_PARAMETER, None)
      else do {
        a \<leftarrow> mcl_malloc;
        p \<leftarrow> (if a then mcl_malloc else State_Monad.return False);
        State_Monad.return
          (if p then (MCL_OK, Some \<lparr>preamble = MCL_ITEM_PREAMBLE, item_type = MCL_ITEM_TYPE_FILE,
             item_version = version, fl_creation_date = None, fl_local_path = None,
             fl_remote_name = None, fl_type = None, fl_size = 0, fl_file_descriptor = None\<rparr>)
           else (MCL_OUT_OF_MEMORY, None))
      })"

definition set_file_local_path ::
  "(string \<Rightarrow> file_stream option) \<Rightarrow> bool \<Rightarrow> file_t \<Rightarrow> string \<Rightarrow>
   ('z, (mcl_error \<times> file_t) option) io" where
  "set_file_local_path fopen close_ok file path =
     (case mcl_file_util_fclose close_ok (fl_file_descriptor file) of
        None \<Rightarrow> State_Monad.return None
      | Some (code, closed) \<Rightarrow>
          if code \<noteq> MCL_OK then State_Monad.return (Some (code, file\<lparr>fl_file_descriptor := closed\<rparr>))
          else do {
            (code, local_path) \<leftarrow> reset_field path;
            let file_descriptor = (if code = MCL_OK then fopen path else None);
            let code = (if code = MCL_OK \<and> file_descriptor = None then MCL_FILE_CANNOT_BE_OPENED
                        else code);
            let code = (case file_descriptor of
                          Some f \<Rightarrow> if fs_regular f then code else MCL_FILE_CANNOT_BE_OPENED
                        | None \<Rightarrow> code);
            a \<leftarrow> (if code = MCL_OK \<and> fl_creation_date file = None then mcl_malloc
                  else State_Monad.return True);
            let (code, creation_date) =
              (if code \<noteq> MCL_OK then (code, None) else if \<not> a then (MCL_OUT_OF_MEMORY, None)
               else mcl_time_util_convert_to_iso_8601_format (fs_changed (the file_descriptor))
                      (fl_creation_date file));
            State_Monad.return (Some
              (if code = MCL_OK
               then (MCL_OK, file\<lparr>fl_local_path := local_path, fl_creation_date := creation_date,
                  fl_size := fs_size (the file_descriptor), fl_file_descriptor := file_descriptor\<rparr>)
               else (code, file\<lparr>fl_local_path := None, fl_creation_date := None,
                  fl_size := 0, fl_file_descriptor := None\<rparr>)))
          })"

definition mcl_file_set_parameter ::
  "(string \<Rightarrow> file_stream option) \<Rightarrow> bool \<Rightarrow> file_t option \<Rightarrow> file_parameter option \<Rightarrow>
   ('z, (mcl_error \<times> file_t option) option) io" where
  "mcl_file_set_parameter fopen close_ok file parameter =
     (case (file, parameter) of
        (Some f, Some (FILE_LOCAL_PATH path)) \<Rightarrow> do {
          r \<leftarrow> set_file_local_path fopen close_ok f path;
          State_Monad.return (map_option (\<lambda>(code, f). (code, Some f)) r) }
      | (Some f, Some (FILE_REMOTE_NAME s)) \<Rightarrow> do {
          (code, r) \<leftarrow> reset_field s; State_Monad.return (Some (code, Some (f\<lparr>fl_remote_name := r\<rparr>))) }
      | (Some f, Some (FILE_TYPE s)) \<Rightarrow> do {
          (code, r) \<leftarrow> reset_field s; State_Monad.return (Some (code, Some (f\<lparr>fl_type := r\<rparr>))) }
      | (Some f, Some FILE_END) \<Rightarrow> State_Monad.return (Some (MCL_INVALID_PARAMETER, file))
      | _ \<Rightarrow> State_Monad.return (Some (MCL_TRIGGERED_WITH_NULL, file)))"

definition file_validate :: "file_t \<Rightarrow> mcl_error" where
  "file_validate file =
     (if fl_local_path file = None then MCL_INVALID_PARAMETER
      else if fl_remote_name file = None then MCL_INVALID_PARAMETER
      else MCL_OK)"

text \<open>Destroying a file closes its descriptor; \<open>None\<close> when that is a second close.\<close>

definition mcl_file_destroy :: "file_t option \<Rightarrow> file_t option option" where
  "mcl_file_destroy file =
     (case file of None \<Rightarrow> Some None
      | Some f \<Rightarrow> map_option (\<lambda>_. None) (mcl_file_util_fclose True (fl_file_descriptor f)))"

section \<open>Custom data\<close>

record custom_data_t = mcl_item +
  cd_content_type :: "string option"
  cd_type :: "string option"
  cd_version :: "string option"
  cd_details :: "json option"
  cd_buffer :: "8 word list option"
  cd_size :: nat

datatype custom_data_parameter =
    CUSTOM_DATA_CONTENT_TYPE string | CUSTOM_DATA_TYPE string | CUSTOM_DATA_BUFFER "8 word list"
  | CUSTOM_DATA_BUFFER_SIZE nat | CUSTOM_DATA_DETAILS json | CUSTOM_DATA_END

definition mcl_custom_data_initialize :: "string option \<Rightarrow> ('z, mcl_error \<times> custom_data_t option) io" where
  "mcl_custom_data_initialize version =
     (case version of
        None \<Rightarrow> State_Monad.return (MCL_TRIGGERED_WITH_NULL, None)
      | Some v \<Rightarrow> do {
          a \<leftarrow> mcl_malloc;
          p \<leftarrow> (if a then mcl_malloc else State_Monad.return False);
          if p then do {
            (code, version) \<leftarrow> reset_field v;
            State_Monad.return
              (code,
               if code = MCL_OK
               then Some \<lparr>preamble = MCL_ITEM_PREAMBLE, item_type = MCL_ITEM_TYPE_CUSTOM_DATA,
                 item_version = 0, cd_content_type = None, cd_type = None, cd_version = version,
                 cd_details = None, cd_buffer = None, cd_size = 0\<rparr>
               else None)
          } else State_Monad.return (MCL_OUT_OF_MEMORY, None)
        })"

definition mcl_custom_data_set_parameter ::
  "custom_data_t option \<Rightarrow> custom_data_parameter option \<Rightarrow>
   ('z, mcl_error \<times> custom_data_t option) io" where
  "mcl_custom_data_set_parameter custom_data parameter = on_pointer custom_data (\<lambda>c.
     (case parameter of
        None \<Rightarrow> State_Monad.return (MCL_TRIGGERED_WITH_NULL, c)
      | Some (CUSTOM_DATA_CONTENT_TYPE s) \<Rightarrow> do {
          (code, f) \<leftarrow> reset_field s; State_Monad.return (code, c\<lparr>cd_content_type := f\<rparr>) }
      | Some (CUSTOM_DATA_TYPE s) \<Rightarrow> do {
          (code, f) \<leftarrow> reset_field s; State_Monad.return (code, c\<lparr>cd_type := f\<rparr>) }
      | Some (CUSTOM_DATA_BUFFER b) \<Rightarrow> State_Monad.return (MCL_OK, c\<lparr>cd_buffer := Some b\<rparr>)
      | Some (CUSTOM_DATA_BUFFER_SIZE n) \<Rightarrow> State_Monad.return (MCL_OK, c\<lparr>cd_size := n\<rparr>)
      | Some (CUSTOM_DATA_DETAILS j) \<Rightarrow> do {
          (code, f) \<leftarrow> replace_json j; State_Monad.return (code, c\<lparr>cd_details := f\<rparr>) }
      | Some CUSTOM_DATA_END \<Rightarrow> State_Monad.return (MCL_INVALID_PARAMETER, c)))"

definition custom_data_validate :: "custom_data_t \<Rightarrow> mcl_error" where
  "custom_data_validate c =
     (if cd_buffer c = None \<or> cd_content_type c = None \<or> cd_type c = None \<or> cd_version c = None \<or>
         cd_size c = 0
      then MCL_INVALID_PARAMETER else MCL_OK)"

section \<open>Data source configurations\<close>

record data_point_t =
  dp_id :: "string option"
  dp_name :: "string option"
  dp_description :: "string option"
  dp_type :: "string option"
  dp_unit :: "string option"
  dp_custom_data :: "json option"

record data_source_t =
  ds_name :: "string option"
  ds_description :: "string option"
  ds_data_points :: "data_point_t list"
  ds_custom_data :: "json option"

record data_source_configuration_t = mcl_item +
  dsc_configuration_id :: "string option"
  dsc_data_sources :: "data_source_t list"

datatype data_point_parameter =
    DATA_POINT_ID string | DATA_POINT_NAME string | DATA_POINT_DESCRIPTION string
  | DATA_POINT_TYPE string | DATA_POINT_UNIT string | DATA_POINT_CUSTOM_DATA json | DATA_POINT_END

datatype data_source_parameter =
    DATA_SOURCE_NAME string | DATA_SOURCE_DESCRIPTION string | DATA_SOURCE_CUSTOM_DATA json
  | DATA_SOURCE_END

datatype data_source_configuration_parameter =
    DATA_SOURCE_CONFIGURATION_ID string | DATA_SOURCE_CONFIGURATION_END

definition mcl_data_source_configuration_versions :: "string list" where
  "mcl_data_source_configuration_versions = [''1.0'']"

definition mcl_data_point_initialize :: "('z, mcl_error \<times> data_point_t option) io" where
  "mcl_data_point_initialize = do {
     a \<leftarrow> mcl_malloc;
     State_Monad.return
       (if a then (MCL_OK, Some \<lparr>dp_id = None, dp_name = None, dp_description = None,
          dp_type = None, dp_unit = None, dp_custom_data = None\<rparr>)
        else (MCL_OUT_OF_MEMORY, None))
   }"

definition mcl_data_point_set_parameter ::
  "data_point_t option \<Rightarrow> data_point_parameter option \<Rightarrow> ('z, mcl_error \<times> data_point_t option) io" where
  "mcl_data_point_set_parameter data_point parameter = on_pointer data_point (\<lambda>p.
     (case parameter of
        None \<Rightarrow> State_Monad.return (MCL_TRIGGERED_WITH_NULL, p)
      | Some (DATA_POINT_ID s) \<Rightarrow> do {
          (code, f) \<leftarrow> reset_field s; State_Monad.return (code, p\<lparr>dp_id := f\<rparr>) }
      | Some (DATA_POINT_NAME s) \<Rightarrow> do {
          (code, f) \<leftarrow> reset_field s; State_Monad.return (code, p\<lparr>dp_name := f\<rparr>) }
      | Some (DATA_POINT_DESCRIPTION s) \<Rightarrow> do {
          (code, f) \<leftarrow> reset_field s; State_Monad.return (code, p\<lparr>dp_description := f\<rparr>) }
      | Some (DATA_POINT_TYPE s) \<Rightarrow> do {
          (code, f) \<leftarrow> reset_field s; State_Monad.return (code, p\<lparr>dp_type := f\<rparr>) }
      | Some (DATA_POINT_UNIT s) \<Rightarrow> do {
          (code, f) \<leftarrow> reset_field s; State_Monad.return (code, p\<lparr>dp_unit := f\<rparr>) }
      | Some (DATA_POINT_CUSTOM_DATA j) \<Rightarrow> do {
          (code, f) \<leftarrow> replace_json j; State_Monad.return (code, p\<lparr>dp_custom_data := f\<rparr>) }
      | Some DATA_POINT_END \<Rightarrow> State_Monad.return (MCL_INVALID_PARAMETER, p)))"

definition data_point_validate :: "data_point_t \<Rightarrow> mcl_error" where
  "data_point_validate p =
     (if dp_id p = None \<or> dp_name p = None \<or> dp_type p = None \<or> dp_unit p = None
      then MCL_INVALID_PARAMETER else MCL_OK)"

definition mcl_data_source_initialize :: "('z, mcl_error \<times> data_source_t option) io" where
  "mcl_data_source_initialize = do {
     a \<leftarrow> mcl_malloc;
     l \<leftarrow> (if a then mcl_malloc else State_Monad.return False);
     State_Monad.return
       (if l then (MCL_OK, Some \<lparr>ds_name = None, ds_description = None, ds_data_points = [],
          ds_custom_data = None\<rparr>)
        else (MCL_OUT_OF_MEMORY, None))
   }"

definition mcl_data_source_set_parameter ::
  "data_source_t option \<Rightarrow> data_source_parameter option \<Rightarrow> ('z, mcl_error \<times> data_source_t option) io" where
  "mcl_data_source_set_parameter data_source parameter = on_pointer data_source (\<lambda>d.
     (case parameter of
        None \<Rightarrow> State_Monad.return (MCL_TRIGGERED_WITH_NULL, d)
      | Some (DATA_SOURCE_NAME s) \<Rightarrow> do {
          (code, f) \<leftarrow> reset_field s; State_Monad.return (code, d\<lparr>ds_name := f\<rparr>) }
      | Some (DATA_SOURCE_DESCRIPTION s) \<Rightarrow> do {
          (code, f) \<leftarrow> reset_field s; State_Monad.return (code, d\<lparr>ds_description := f\<rparr>) }
      | Some (DATA_SOURCE_CUSTOM_DATA j) \<Rightarrow> do {
          (code, f) \<leftarrow> replace_json j; State_Monad.return (code, d\<lparr>ds_custom_data := f\<rparr>) }
      | Some DATA_SOURCE_END \<Rightarrow> State_Monad.return (MCL_INVALID_PARAMETER, d)))"

definition mcl_data_source_add_data_point ::
  "data_source_t option \<Rightarrow> data_point_t option \<Rightarrow> ('z, mcl_error \<times> data_source_t option) io" where
  "mcl_data_source_add_data_point data_source data_point = on_pointer data_source (\<lambda>d.
     (case data_point of
        None \<Rightarrow> State_Monad.return (MCL_TRIGGERED_WITH_NULL, d)
      | Some x \<Rightarrow> do {
          a \<leftarrow> mcl_malloc;
          State_Monad.return
            (if a then (MCL_OK, d\<lparr>ds_data_points := ds_data_points d @ [x]\<rparr>) else (MCL_OUT_OF_MEMORY, d))
        }))"

definition data_source_validate :: "data_source_t \<Rightarrow> mcl_error" where
  "data_source_validate d =
     (if ds_name d = None then MCL_INVALID_PARAMETER
      else if length (ds_data_points d) = 0 then MCL_INVALID_PARAMETER
      else validate_each data_point_validate (ds_data_points d))"

definition mcl_data_source_configuration_initialize ::
  "nat \<Rightarrow> ('z, mcl_error \<times> data_source_configuration_t option) io" where
  "mcl_data_source_configuration_initialize version =
     (if \<not> version < length mcl_data_source_configuration_versions
      then State_Monad.return (MCL_INVALID_PARAMETER, None)
      else do {
        a \<leftarrow> mcl_malloc;
        p \<leftarrow> (if a then mcl_malloc else State_Monad.return False);
        l \<leftarrow> (if p then mcl_malloc else State_Monad.return False);
        State_Monad.return
          (if l then (MCL_OK, Some \<lparr>preamble = MCL_ITEM_PREAMBLE,
             item_type = MCL_ITEM_TYPE_DATA_SOURCE_CONFIGURATION, item_version = version,
             dsc_configuration_id = None, dsc_data_sources = []\<rparr>)
           else (MCL_OUT_OF_MEMORY, None))
      })"

definition mcl_data_source_configuration_set_parameter ::
  "data_source_configuration_t option \<Rightarrow> data_source_configuration_parameter option \<Rightarrow> ('z, mcl_error \<times> data_source_configuration_t option) io" where
  "mcl_data_source_configuration_set_parameter data_source_configuration parameter = on_pointer data_source_configuration (\<lambda>c.
     (case parameter of
        None \<Rightarrow> State_Monad.return (MCL_TRIGGERED_WITH_NULL, c)
      | Some (DATA_SOURCE_CONFIGURATION_ID s) \<Rightarrow> do {
          (code, f) \<leftarrow> reset_field s; State_Monad.return (code, c\<lparr>dsc_configuration_id := f\<rparr>) }
      | Some DATA_SOURCE_CONFIGURATION_END \<Rightarrow> State_Monad.return (MCL_INVALID_PARAMETER, c)))"

definition mcl_data_source_configuration_add_data_source ::
  "data_source_configuration_t option \<Rightarrow> data_source_t option \<Rightarrow> ('z, mcl_error \<times> data_source_configuration_t option) io" where
  "mcl_data_source_configuration_add_data_source data_source_configuration data_source = on_pointer data_source_configuration (\<lambda>c.
     (case data_source of
        None \<Rightarrow> State_Monad.return (MCL_TRIGGERED_WITH_NULL, c)
      | Some x \<Rightarrow> do {
          a \<leftarrow> mcl_malloc;
          State_Monad.return
            (if a then (MCL_OK, c\<lparr>dsc_data_sources := dsc_data_sources c @ [x]\<rparr>) else (MCL_OUT_OF_MEMORY, c))
        }))"

definition data_source_configuration_validate :: "data_source_configuration_t \<Rightarrow> mcl_error" where
  "data_source_configuration_validate c =
     (if dsc_configuration_id c = None then MCL_INVALID_PARAMETER
      else if length (dsc_data_sources c) = 0 then MCL_INVALID_PARAMETER
      else validate_each data_source_validate (dsc_data_sources c))"

section \<open>Mappings\<close>

record mapping_t =
  mp_data_point_id :: "string option"
  mp_entity_id :: "string option"
  mp_property_set_name :: "string option"
  mp_property_name :: "string option"
  mp_keep_mapping :: bool

datatype mapping_parameter =
    MAPPING_DATA_POINT_ID string | MAPPING_ENTITY_ID string | MAPPING_PROPERTY_SET_NAME string
  | MAPPING_PROPERTY_NAME string | MAPPING_KEEP_MAPPING bool | MAPPING_END

definition mcl_mapping_initialize :: "('z, mcl_error \<times> mapping_t option) io" where
  "mcl_mapping_initialize = do {
     a \<leftarrow> mcl_malloc;
     State_Monad.return
       (if a then (MCL_OK, Some \<lparr>mp_data_point_id = None, mp_entity_id = None,
          mp_property_set_name = None, mp_property_name = None, mp_keep_mapping = True\<rparr>)
        else (MCL_OUT_OF_MEMORY, None))
   }"

definition mcl_mapping_set_parameter ::
  "mapping_t option \<Rightarrow> mapping_parameter option \<Rightarrow> ('z, mcl_error \<times> mapping_t option) io" where
  "mcl_mapping_set_parameter mapping parameter = on_pointer mapping (\<lambda>m.
     (case parameter of
        None \<Rightarrow> State_Monad.return (MCL_TRIGGERED_WITH_NULL, m)
      | Some (MAPPING_DATA_POINT_ID s) \<Rightarrow> do {
          (code, f) \<leftarrow> reset_field s; State_Monad.return (code, m\<lparr>mp_data_point_id := f\<rparr>) }
      | Some (MAPPING_ENTITY_ID s) \<Rightarrow> do {
          (code, f) \<leftarrow> reset_field s; State_Monad.return (code, m\<lparr>mp_entity_id := f\<rparr>) }
      | Some (MAPPING_PROPERTY_SET_NAME s) \<Rightarrow> do {
          (code, f) \<leftarrow> reset_field s; State_Monad.return (code, m\<lparr>mp_property_set_name := f\<rparr>) }
      | Some (MAPPING_PROPERTY_NAME s) \<Rightarrow> do {
          (code, f) \<leftarrow> reset_field s; State_Monad.return (code, m\<lparr>mp_property_name := f\<rparr>) }
      | Some (MAPPING_KEEP_MAPPING b) \<Rightarrow> State_Monad.return (MCL_OK, m\<lparr>mp_keep_mapping := b\<rparr>)
      | Some MAPPING_END \<Rightarrow> State_Monad.return (MCL_INVALID_PARAMETER, m)))"

definition mapping_validate :: "mapping_t \<Rightarrow> mcl_error" where
  "mapping_validate m =
     (if mp_data_point_id m = None \<or> mp_property_name m = None \<or> mp_property_set_name m = None
      then MCL_INVALID_PARAMETER else MCL_OK)"

section \<open>Histories of an event\<close>

text \<open>
  The events a program can hold: one that \<open>mcl_event_initialize\<close> returned, changed by any calls of
  \<open>mcl_event_set_parameter\<close>, succeeding or not, with any outcome of the allocations. The list
  records the parameters of the calls.
\<close>

inductive event_history :: "nat \<Rightarrow> event_parameter option list \<Rightarrow> event_t \<Rightarrow> bool" where
  initialized: "fst (run_state (mcl_event_initialize version) (w :: mem_world)) = (code, Some e) \<Longrightarrow>
    event_history version [] e"
| parameter: "event_history version ps e \<Longrightarrow>
    fst (run_state (mcl_event_set_parameter (Some e) p) (w :: mem_world)) = (code, Some e') \<Longrightarrow>
    event_history version (ps @ [p]) e'"

lemma reset_field_cases:
  "fst (run_state (reset_field s) w) = (MCL_OK, Some s) \<or>
   fst (run_state (reset_field s) w) = (MCL_OUT_OF_MEMORY, None)"
  by (auto simp: reset_field_def run_bind run_malloc split: list.splits)

lemma replace_json_cases:
  "fst (run_state (replace_json j) w) = (MCL_OK, Some j) \<or>
   fst (run_state (replace_json j) w) = (MCL_OUT_OF_MEMORY, None)"
  by (auto simp: replace_json_def mcl_json_util_duplicate_def json_util_duplicate_def run_bind
      run_malloc split: list.splits)

text \<open>What one call can do to an event: nothing, or replace one field.\<close>

lemma event_set_parameter_cases:
  assumes "fst (run_state (mcl_event_set_parameter (Some e) p) w) = (code, Some e')"
  shows "e' = e \<or>
    (\<exists>f. e' = e\<lparr>ev_type := f\<rparr>) \<or> (\<exists>f. e' = e\<lparr>ev_version := f\<rparr>) \<or>
    (\<exists>n < 3. e' = e\<lparr>ev_severity := event_severity_values ! item_version e ! n\<rparr>) \<or>
    (\<exists>s. p = Some (EVENT_TIMESTAMP_ISO8601 s) \<and> mcl_time_util_validate_timestamp s = Some True \<and>
         e' = e\<lparr>ev_timestamp := Some s\<rparr>) \<or>
    (\<exists>t. p = Some (EVENT_TIMESTAMP_EPOCH t) \<and>
         e' = e\<lparr>ev_timestamp := snd (mcl_time_util_convert_to_iso_8601_format t (ev_timestamp e))\<rparr>) \<or>
    (\<exists>s. length s < 256 \<and> e' = e\<lparr>ev_description := Some s\<rparr>) \<or> e' = e\<lparr>ev_description := None\<rparr> \<or>
    (\<exists>f. e' = e\<lparr>ev_correlation_id := f\<rparr>) \<or> (\<exists>f. e' = e\<lparr>ev_details := f\<rparr>)"
proof (cases p)
  case None
  then show ?thesis using assms by (simp add: mcl_event_set_parameter_def)
next
  case (Some q)
  note run = mcl_event_set_parameter_def run_bind Some
  show ?thesis
  proof (cases q)
    case (EVENT_SEVERITY n)
    with assms show ?thesis
      by (auto simp: run MCL_EVENT_SEVERITY_END_def intro!: exI [of _ "nat n"] split: if_splits)
  next
    case (EVENT_DESCRIPTION s)
    with assms show ?thesis
      using reset_field_cases [of s w]
      by (auto simp: run MCL_EVENT_PARAMETER_DESCRIPTION_MAXIMUM_LENGTH_def split: if_splits prod.splits)
  qed (use assms in \<open>auto simp: run set_timestamp_text_def Let_def split: prod.splits if_splits\<close>)
qed

definition event_ok :: "nat \<Rightarrow> event_t \<Rightarrow> bool" where
  "event_ok version e \<longleftrightarrow>
     preamble e = MCL_ITEM_PREAMBLE \<and> item_type e = MCL_ITEM_TYPE_EVENT \<and> item_version e = version \<and>
     version < 2 \<and> ev_severity e \<in> set (event_severity_values ! version) \<and>
     (\<forall>d. ev_description e = Some d \<longrightarrow> length d < 256) \<and>
     (\<forall>t. ev_timestamp e = Some t \<longrightarrow> length t < MCL_TIMESTAMP_LENGTH)"

lemma validate_length:
  "mcl_time_util_validate_timestamp s = Some True \<Longrightarrow> length s < MCL_TIMESTAMP_LENGTH"
  by (simp add: mcl_time_util_validate_timestamp_def MCL_TIMESTAMP_LENGTH_def split: if_splits)

lemma convert_buffer_length:
  assumes "\<forall>t. buffer = Some t \<longrightarrow> length t < MCL_TIMESTAMP_LENGTH"
    and "snd (mcl_time_util_convert_to_iso_8601_format t buffer) = Some s"
  shows "length s < MCL_TIMESTAMP_LENGTH"
proof -
  have "mcl_time_util_convert_to_iso_8601_format t buffer =
      (fst (mcl_time_util_convert_to_iso_8601_format t buffer), Some s)"
    using assms(2) by (simp add: prod_eq_iff)
  from convert_length [OF this] assms(1) show ?thesis by auto
qed

lemma severity_in_table:
  "v < 2 \<Longrightarrow> n < 3 \<Longrightarrow> event_severity_values ! v ! n \<in> set (event_severity_values ! v)"
  by (rule nth_mem) (auto simp: event_severity_values_def less_Suc_eq numeral_2_eq_2 numeral_3_eq_3)

lemma event_set_parameter_ok:
  assumes "event_ok version e" and "fst (run_state (mcl_event_set_parameter (Some e) p) w) = (code, Some e')"
  shows "event_ok version e'"
  using event_set_parameter_cases [OF assms(2)] assms(1) severity_in_table
  by (elim disjE exE conjE) (auto simp: event_ok_def validate_length convert_buffer_length)

lemma event_initialize_cases:
  assumes "fst (run_state (mcl_event_initialize version) w) = (code, Some e)"
  shows "version < 2 \<and> (\<exists>guid. e = \<lparr>preamble = MCL_ITEM_PREAMBLE, item_type = MCL_ITEM_TYPE_EVENT,
     item_version = version, ev_id = guid, ev_correlation_id = None, ev_timestamp = None,
     ev_severity = event_severity_values ! version ! MCL_EVENT_SEVERITY_INFORMATION,
     ev_description = None, ev_type = None, ev_version = None, ev_details = None\<rparr>)"
  using assms
  by (auto simp: mcl_event_initialize_def mcl_event_versions_def run_bind split: prod.splits if_splits)

lemma event_initialize_succeeds:
  assumes "version < 2"
  shows "\<exists>e. event_history version [] e"
proof -
  have "\<exists>e. fst (run_state (mcl_event_initialize version) \<lparr>w_alloc = [], w_random = [Ok (\<lambda>i. 0)]\<rparr>) = (MCL_OK, Some e)"
    using assms random_generate_guid_ok [of "\<lparr>w_alloc = [], w_random = [Ok (\<lambda>i. 0)]\<rparr>" "\<lambda>i. 0" "[]"]
    by (simp add: mcl_event_initialize_def mcl_event_versions_def run_bind mcl_random_generate_guid_def)
  then show ?thesis by (blast intro: initialized)
qed

section \<open>Properties\<close>

text \<open>C30. Every event a program can hold has the item preamble and type, the version it was
  initialised with, a severity of the table of this version, a description shorter than 256
  characters and a timestamp that fits its buffer, whatever calls were made and failed.\<close>

theorem event_invariant:
  assumes "event_history version ps e"
  shows "event_ok version e"
  using assms
proof induction
  case (initialized version w code e)
  then show ?case
    using event_initialize_cases [OF initialized(1)]
      severity_in_table [of version MCL_EVENT_SEVERITY_INFORMATION]
    by (auto simp: event_ok_def MCL_EVENT_SEVERITY_INFORMATION_def)
next
  case (parameter version ps e p w code e')
  then show ?case by (blast intro: event_set_parameter_ok)
qed

theorem event_invariant_witness: "\<exists>e. event_history 1 [] e \<and> event_ok 1 e"
proof -
  obtain e where "event_history 1 [] e" using event_initialize_succeeds [of 1] by auto
  with event_invariant [OF this] show ?thesis by blast
qed

text \<open>An event whose timestamp has not been set is not recognised as invalid: the check reads
  the timestamp buffer, which \<open>mcl_event_initialize\<close> does not initialise. No other parameter
  changes this.\<close>

theorem event_validate_reads_uninitialised:
  assumes "event_history version ps e"
    and "\<forall>p \<in> set ps. \<forall>s t. p \<noteq> Some (EVENT_TIMESTAMP_ISO8601 s) \<and> p \<noteq> Some (EVENT_TIMESTAMP_EPOCH t)"
  shows "event_validate e = None"
proof -
  have "ev_timestamp e = None"
    using assms
  proof induction
    case (initialized version w code e)
    then show ?case using event_initialize_cases [OF initialized(1)] by auto
  next
    case (parameter version ps e p w code e')
    then show ?case using event_set_parameter_cases [OF parameter.hyps(2)] by auto
  qed
  then show ?thesis by (simp add: event_validate_def timestamp_valid_def)
qed

theorem event_validate_reads_uninitialised_witness:
  "\<exists>e. event_history 0 [] e \<and> event_validate e = None"
proof -
  obtain e where "event_history 0 [] e" using event_initialize_succeeds [of 0] by auto
  with event_validate_reads_uninitialised [OF this] show ?thesis by auto
qed

text \<open>Setting the path of a file whose descriptor closes leaves one of two states: the path, an
  open descriptor of a regular file, its size and its date are all set, or all of them are cleared
  and the code says why.\<close>

theorem file_set_path_all_or_nothing:
  assumes "fl_file_descriptor file = None \<or> (\<exists>d. fl_file_descriptor file = Some d \<and> fs_open d)"
    and "\<forall>f. fopen path = Some f \<longrightarrow> fs_open f"
  shows "case fst (run_state (set_file_local_path fopen True file path) w) of
      None \<Rightarrow> False
    | Some (code, file') \<Rightarrow>
        if code = MCL_OK then \<exists>f. fopen path = Some f \<and> fs_open f \<and> fs_regular f \<and>
            fl_local_path file' = Some path \<and> fl_file_descriptor file' = Some f \<and>
            fl_size file' = fs_size f \<and> fl_creation_date file' \<noteq> None
        else code \<in> {MCL_OUT_OF_MEMORY, MCL_FILE_CANNOT_BE_OPENED, MCL_FAIL} \<and>
            fl_local_path file' = None \<and> fl_file_descriptor file' = None \<and> fl_size file' = 0 \<and>
            fl_creation_date file' = None"
proof -
  obtain closed where close: "mcl_file_util_fclose True (fl_file_descriptor file) = Some (MCL_OK, closed)"
    using assms(1) by (auto simp: mcl_file_util_fclose_def)
  have convert: "mcl_time_util_convert_to_iso_8601_format t b = (code, s) \<Longrightarrow>
      code = MCL_OK \<and> s \<noteq> None \<or> code = MCL_FAIL" for t b code s
    by (auto simp: mcl_time_util_convert_to_iso_8601_format_def Let_def split: if_splits)
  show ?thesis
    using assms(2)
    by (auto simp: set_file_local_path_def close run_bind reset_field_def run_malloc Let_def
        split: list.splits option.splits prod.splits if_splits dest!: convert)
qed

theorem file_set_path_all_or_nothing_witness:
  "case fst (run_state (set_file_local_path
      (\<lambda>path. Some \<lparr>fs_open = True, fs_regular = False, fs_size = 3, fs_changed = 0\<rparr>) True
      \<lparr>preamble = MCL_ITEM_PREAMBLE, item_type = MCL_ITEM_TYPE_FILE, item_version = 0,
       fl_creation_date = None, fl_local_path = None, fl_remote_name = None, fl_type = None,
       fl_size = 0, fl_file_descriptor = None\<rparr> ''a'') \<lparr>w_alloc = [], w_random = []\<rparr>) of
      None \<Rightarrow> False
    | Some (code, file') \<Rightarrow> code \<noteq> MCL_OK \<and> fl_local_path file' = None"
  using file_set_path_all_or_nothing
    [of "\<lparr>preamble = MCL_ITEM_PREAMBLE, item_type = MCL_ITEM_TYPE_FILE, item_version = 0,
       fl_creation_date = None, fl_local_path = None, fl_remote_name = None, fl_type = None,
       fl_size = 0, fl_file_descriptor = None\<rparr>"
      "\<lambda>path. Some \<lparr>fs_open = True, fs_regular = False, fs_size = 3, fs_changed = 0\<rparr>"
      "''a''" "\<lparr>w_alloc = [], w_random = []\<rparr>"]
  by (auto split: option.splits if_splits)

text \<open>When closing the previous file fails, the descriptor is kept although the stream is gone:
  the next call that sets the path, and the destruction of the file, close it a second time.\<close>

theorem file_closed_twice:
  assumes "fl_file_descriptor file = Some d" and "fs_open d"
  shows "\<exists>file'. fst (run_state (set_file_local_path fopen False file path) w) = Some (MCL_FAIL, file') \<and>
      fst (run_state (set_file_local_path fopen' ok file' path') w') = None \<and>
      mcl_file_destroy (Some file') = None"
  using assms by (simp add: set_file_local_path_def mcl_file_util_fclose_def mcl_file_destroy_def)

theorem file_closed_twice_witness:
  "\<exists>file'. mcl_file_destroy (Some file') = None \<and>
     fst (run_state (set_file_local_path (\<lambda>p. None) False
      \<lparr>preamble = MCL_ITEM_PREAMBLE, item_type = MCL_ITEM_TYPE_FILE, item_version = 0,
       fl_creation_date = None, fl_local_path = None, fl_remote_name = None, fl_type = None, fl_size = 0,
       fl_file_descriptor = Some \<lparr>fs_open = True, fs_regular = True, fs_size = 3, fs_changed = 0\<rparr>\<rparr>
      ''a'') \<lparr>w_alloc = [], w_random = []\<rparr>) = Some (MCL_FAIL, file')"
  using file_closed_twice by force

text \<open>The validation of a timeseries accepts exactly a timeseries with a configuration id and at
  least one value list, where every list has an accepted timestamp and at least one value, and
  every value its three strings.\<close>

theorem timeseries_validate_complete:
  "timeseries_validate t = Some MCL_OK \<longleftrightarrow>
     ts_configuration_id t \<noteq> None \<and> ts_value_lists t \<noteq> [] \<and>
     (\<forall>l \<in> set (ts_value_lists t).
        timestamp_valid (tvl_timestamp l) = Some True \<and> tvl_values l \<noteq> [] \<and>
        (\<forall>v \<in> set (tvl_values l). tv_data_point_id v \<noteq> None \<and> tv_quality_code v \<noteq> None \<and> tv_value v \<noteq> None))"
proof -
  have each: "validate_each timeseries_value_validate vs = MCL_OK \<longleftrightarrow>
      (\<forall>v \<in> set vs. tv_data_point_id v \<noteq> None \<and> tv_quality_code v \<noteq> None \<and> tv_value v \<noteq> None)" for vs
    by (induction vs) (auto simp: timeseries_value_validate_def)
  have one: "timeseries_value_list_validate l = Some MCL_OK \<longleftrightarrow>
      timestamp_valid (tvl_timestamp l) = Some True \<and> tvl_values l \<noteq> [] \<and>
        (\<forall>v \<in> set (tvl_values l). tv_data_point_id v \<noteq> None \<and> tv_quality_code v \<noteq> None \<and> tv_value v \<noteq> None)" for l
    unfolding each [symmetric] by (auto simp: timeseries_value_list_validate_def split: option.splits)
  have "validate_value_lists ls = Some MCL_OK \<longleftrightarrow>
      (\<forall>l \<in> set ls. timeseries_value_list_validate l = Some MCL_OK)" for ls
    by (induction ls) (auto split: option.splits)
  then show ?thesis unfolding timeseries_validate_def one [symmetric] by auto
qed

theorem timeseries_validate_complete_witness:
  "timeseries_validate \<lparr>preamble = MCL_ITEM_PREAMBLE, item_type = MCL_ITEM_TYPE_TIMESERIES,
     item_version = 0, ts_configuration_id = Some ''c'',
     ts_value_lists = [\<lparr>tvl_values = [\<lparr>tv_data_point_id = Some ''d'', tv_quality_code = Some ''0'',
       tv_value = Some ''7''\<rparr>], tvl_timestamp = Some ''2019-12-31T10:10:10.999Z''\<rparr>]\<rparr> = Some MCL_OK"
proof -
  have "mcl_time_util_validate_timestamp ''2019-12-31T10:10:10.999Z'' = Some True"
    using validate_iso8601 [of 2019 12 31 10 10 10 999]
    by (simp add: iso8601_def dec2_def dec3_def dec4_def dec_digit_def)
  then show ?thesis unfolding timeseries_validate_complete by (simp add: timestamp_valid_def)
qed

end
