(* ===== verification/MclItemJson.thy ===== *)
theory MclItemJson
  imports MclItems
begin

text \<open>
  The JSON of an item, after \<open>src/mcl_connectivity/src/json.c\<close>: the meta and the payload document of
  an upload, the size that is estimated for them before they are built, and the parser of a
  downloaded data source configuration. The trees are built with the functions of \<open>MclJson\<close> in the
  order of the code, every allocation with the outcome the world has for it.

  The documents of an item are built after its validation, so its timestamp buffers are written.
\<close>

section \<open>Items\<close>

text \<open>What a \<open>void *\<close> to an item points to; the constructor is the type in its base.\<close>

datatype item =
    Timeseries timeseries_t
  | Event event_t
  | File file_t
  | CustomData custom_data_t
  | DataSourceConfiguration data_source_configuration_t

text \<open>A member is added; a pointer that is \<open>NULL\<close> is an argument error.\<close>

abbreviation add_member ::
  "json option \<Rightarrow> string \<Rightarrow> string option \<Rightarrow> ('z, mcl_error \<times> json option) io" where
  "add_member j name v \<equiv> mcl_json_util_add_string j (Some name) v"

text \<open>A NULL string or an empty one.\<close>

definition blank :: "string option \<Rightarrow> bool" where
  "blank s \<longleftrightarrow> (case s of None \<Rightarrow> True | Some t \<Rightarrow> t = [])"

section \<open>Arrays\<close>

fun fill_array_using_list ::
  "('a \<Rightarrow> ('z, mcl_error \<times> json option) io) \<Rightarrow> 'a list \<Rightarrow> json option \<Rightarrow>
   ('z, mcl_error \<times> json option) io" where
  "fill_array_using_list callback [] json_array = State_Monad.return (MCL_OK, json_array)"
| "fill_array_using_list callback (x # xs) json_array = do {
     (code, json_object) \<leftarrow> callback x;
     let (code, json_array) =
       (if code = MCL_OK then mcl_json_util_add_item_to_array json_array json_object
        else (code, json_array));
     if code = MCL_OK then fill_array_using_list callback xs json_array
     else State_Monad.return (code, json_array)
   }"

text \<open>An array member that is started, filled from a list and linked.\<close>

definition fill_member ::
  "json option \<Rightarrow> string \<Rightarrow> ('a \<Rightarrow> ('z, mcl_error \<times> json option) io) \<Rightarrow> 'a list \<Rightarrow>
   ('z, mcl_error \<times> json option) io" where
  "fill_member json name callback xs = do {
     (code, arr, linked) \<leftarrow> mcl_json_util_start_array json name;
     (code, arr) \<leftarrow> when_ok code arr (fill_array_using_list callback xs arr);
     State_Monad.return (code, link_child json name arr linked)
   }"

text \<open>A copy of a JSON tree as a member, when there is one.\<close>

definition add_duplicate ::
  "json option \<Rightarrow> string \<Rightarrow> json option \<Rightarrow> ('z, mcl_error \<times> json option) io" where
  "add_duplicate json name custom_data =
     (if custom_data = None then State_Monad.return (MCL_OK, json)
      else do {
        (code, copy) \<leftarrow> mcl_json_util_duplicate custom_data;
        when_ok code json (mcl_json_util_add_object json name copy)
      })"

text \<open>A builder hands out its tree only when it succeeded.\<close>

definition deliver :: "mcl_error \<Rightarrow> json option \<Rightarrow> ('z, mcl_error \<times> json option) io" where
  "deliver code json = State_Monad.return (code, if code = MCL_OK then json else None)"

section \<open>Timeseries\<close>

definition json_from_timeseries_value :: "timeseries_value_t \<Rightarrow> ('z, mcl_error \<times> json option) io" where
  "json_from_timeseries_value v = do {
     (code, json) \<leftarrow> mcl_json_util_initialize MCL_JSON_OBJECT;
     (code, json) \<leftarrow> when_ok code json (add_member json ''dataPointId'' (tv_data_point_id v));
     (code, json) \<leftarrow> when_ok code json (add_member json ''value'' (tv_value v));
     (code, json) \<leftarrow> when_ok code json (add_member json ''qualityCode'' (tv_quality_code v));
     deliver code json
   }"

definition json_from_timeseries_value_list ::
  "timeseries_value_list_t \<Rightarrow> ('z, mcl_error \<times> json option) io" where
  "json_from_timeseries_value_list l = do {
     (code, json) \<leftarrow> mcl_json_util_initialize MCL_JSON_OBJECT;
     (code, json) \<leftarrow> when_ok code json (add_member json ''timestamp'' (tvl_timestamp l));
     (code, json) \<leftarrow> when_ok code json
       (fill_member json ''values'' json_from_timeseries_value (tvl_values l));
     deliver code json
   }"

definition to_string_if_ok :: "mcl_error \<Rightarrow> json option \<Rightarrow> ('z, mcl_error \<times> string option) io" where
  "to_string_if_ok code json = when_ok code None (mcl_json_util_to_string json)"

definition json_from_timeseries_payload :: "timeseries_t \<Rightarrow> ('z, mcl_error \<times> string option) io" where
  "json_from_timeseries_payload t = do {
     (code, arr) \<leftarrow> mcl_json_util_initialize MCL_JSON_ARRAY;
     (code, arr) \<leftarrow> when_ok code arr
       (fill_array_using_list json_from_timeseries_value_list (ts_value_lists t) arr);
     to_string_if_ok code arr
   }"

section \<open>Events\<close>

text \<open>
  The details are created in the branch that is also taken after an earlier failure: the code of
  that failure is then replaced.
\<close>

definition add_event_to_payload_array ::
  "event_t \<Rightarrow> json option \<Rightarrow> ('z, mcl_error \<times> json option) io" where
  "add_event_to_payload_array e event_payload_array = do {
     (code, json) \<leftarrow> mcl_json_util_initialize MCL_JSON_OBJECT;
     (code, json) \<leftarrow> when_ok code json (add_member json ''id'' (ev_id e));
     (code, json) \<leftarrow> (if code = MCL_OK \<and> \<not> blank (ev_correlation_id e)
        then add_member json ''correlationId'' (ev_correlation_id e)
        else State_Monad.return (code, json));
     (code, json) \<leftarrow> when_ok code json (add_member json ''timestamp'' (ev_timestamp e));
     (code, json) \<leftarrow> when_ok code json
       (mcl_json_util_add_uint json (Some ''severity'') (nat (ev_severity e)));
     (code, json) \<leftarrow> (if code = MCL_OK \<and> \<not> blank (ev_description e)
        then add_member json ''description'' (ev_description e)
        else State_Monad.return (code, json));
     (code, json) \<leftarrow> when_ok code json (add_member json ''type'' (ev_type e));
     (code, json) \<leftarrow> when_ok code json (add_member json ''version'' (ev_version e));
     (code, details) \<leftarrow> (if code = MCL_OK \<and> ev_details e \<noteq> None
        then mcl_json_util_duplicate (ev_details e)
        else mcl_json_util_initialize MCL_JSON_OBJECT);
     (code, json) \<leftarrow> when_ok code json (mcl_json_util_add_object json ''details'' details);
     State_Monad.return
       (if code = MCL_OK then mcl_json_util_add_item_to_array event_payload_array json
        else (code, event_payload_array))
   }"

definition json_from_event_payload :: "event_t \<Rightarrow> ('z, mcl_error \<times> string option) io" where
  "json_from_event_payload e = do {
     (code, arr) \<leftarrow> mcl_json_util_initialize MCL_JSON_ARRAY;
     (code, arr) \<leftarrow> when_ok code arr (add_event_to_payload_array e arr);
     to_string_if_ok code arr
   }"

section \<open>Data source configurations\<close>

definition json_from_data_point :: "data_point_t \<Rightarrow> ('z, mcl_error \<times> json option) io" where
  "json_from_data_point p = do {
     (code, json) \<leftarrow> mcl_json_util_initialize MCL_JSON_OBJECT;
     (code, json) \<leftarrow> when_ok code json (add_member json ''id'' (dp_id p));
     (code, json) \<leftarrow> when_ok code json (add_member json ''name'' (dp_name p));
     (code, json) \<leftarrow> (if code = MCL_OK \<and> dp_description p \<noteq> None
        then add_member json ''description'' (dp_description p) else State_Monad.return (code, json));
     (code, json) \<leftarrow> when_ok code json (add_member json ''type'' (dp_type p));
     (code, json) \<leftarrow> when_ok code json (add_member json ''unit'' (dp_unit p));
     (code, json) \<leftarrow> when_ok code json (add_duplicate json ''customData'' (dp_custom_data p));
     deliver code json
   }"

definition json_from_data_source :: "data_source_t \<Rightarrow> ('z, mcl_error \<times> json option) io" where
  "json_from_data_source d = do {
     (code, json) \<leftarrow> mcl_json_util_initialize MCL_JSON_OBJECT;
     (code, json) \<leftarrow> when_ok code json (add_member json ''name'' (ds_name d));
     (code, json) \<leftarrow> (if code = MCL_OK \<and> ds_description d \<noteq> None
        then add_member json ''description'' (ds_description d) else State_Monad.return (code, json));
     (code, json) \<leftarrow> when_ok code json
       (fill_member json ''dataPoints'' json_from_data_point (ds_data_points d));
     (code, json) \<leftarrow> when_ok code json (add_duplicate json ''customData'' (ds_custom_data d));
     deliver code json
   }"

definition json_from_data_source_configuration_payload ::
  "data_source_configuration_t \<Rightarrow> ('z, mcl_error \<times> string option) io" where
  "json_from_data_source_configuration_payload c = do {
     (code, json) \<leftarrow> mcl_json_util_initialize MCL_JSON_OBJECT;
     (code, json) \<leftarrow> when_ok code json (add_member json ''configurationId'' (dsc_configuration_id c));
     (code, json) \<leftarrow> when_ok code json
       (fill_member json ''dataSources'' json_from_data_source (dsc_data_sources c));
     to_string_if_ok code json
   }"

section \<open>Documents of an item\<close>

definition json_from_item_payload :: "item \<Rightarrow> ('z, mcl_error \<times> string option) io" where
  "json_from_item_payload item =
     (case item of
        Event e \<Rightarrow> json_from_event_payload e
      | DataSourceConfiguration c \<Rightarrow> json_from_data_source_configuration_payload c
      | Timeseries t \<Rightarrow> json_from_timeseries_payload t
      | _ \<Rightarrow> State_Monad.return (MCL_FAIL, None))"

definition add_item_meta_payload_timeseries_details ::
  "timeseries_t \<Rightarrow> json option \<Rightarrow> ('z, mcl_error \<times> json option) io" where
  "add_item_meta_payload_timeseries_details t payload = do {
     (code, details, linked) \<leftarrow> mcl_json_util_start_object payload ''details'';
     (code, details) \<leftarrow> when_ok code details
       (add_member details ''configurationId'' (ts_configuration_id t));
     State_Monad.return (code, link_child payload ''details'' details linked)
   }"

definition add_item_meta_payload_file_details ::
  "file_t \<Rightarrow> json option \<Rightarrow> ('z, mcl_error \<times> json option) io" where
  "add_item_meta_payload_file_details f payload = do {
     (code, details, linked) \<leftarrow> mcl_json_util_start_object payload ''details'';
     (code, details) \<leftarrow> when_ok code details (add_member details ''fileName'' (fl_remote_name f));
     (code, details) \<leftarrow> when_ok code details (add_member details ''creationDate'' (fl_creation_date f));
     (code, details) \<leftarrow> (if code = MCL_OK \<and> fl_type f \<noteq> None
        then add_member details ''fileType'' (fl_type f) else State_Monad.return (code, details));
     State_Monad.return (code, link_child payload ''details'' details linked)
   }"

definition add_item_meta_payload_details ::
  "item \<Rightarrow> json option \<Rightarrow> ('z, mcl_error \<times> json option) io" where
  "add_item_meta_payload_details item payload =
     (case item of
        Event e \<Rightarrow> State_Monad.return (MCL_OK, payload)
      | DataSourceConfiguration c \<Rightarrow> State_Monad.return (MCL_OK, payload)
      | Timeseries t \<Rightarrow> add_item_meta_payload_timeseries_details t payload
      | File f \<Rightarrow> add_item_meta_payload_file_details f payload
      | CustomData c \<Rightarrow> add_duplicate payload ''details'' (cd_details c))"

definition payload_type_and_version :: "item \<Rightarrow> string option \<times> string option" where
  "payload_type_and_version item =
     (case item of
        Event e \<Rightarrow> (Some ''businessEvent'', Some (mcl_event_versions ! item_version e))
      | DataSourceConfiguration c \<Rightarrow> (Some ''dataSourceConfiguration'',
          Some (mcl_data_source_configuration_versions ! item_version c))
      | Timeseries t \<Rightarrow> (Some ''standardTimeSeries'', Some (mcl_timeseries_versions ! item_version t))
      | File f \<Rightarrow> (Some ''file'', Some (mcl_file_versions ! item_version f))
      | CustomData c \<Rightarrow> (cd_type c, cd_version c))"

definition add_item_meta_payload :: "item \<Rightarrow> json option \<Rightarrow> ('z, mcl_error \<times> json option) io" where
  "add_item_meta_payload item root = do {
     let (payload_type, payload_version) = payload_type_and_version item;
     (code, payload, linked) \<leftarrow> mcl_json_util_start_object root ''payload'';
     (code, payload) \<leftarrow> when_ok code payload (add_member payload ''type'' payload_type);
     (code, payload) \<leftarrow> when_ok code payload (add_member payload ''version'' payload_version);
     (code, payload) \<leftarrow> when_ok code payload (add_item_meta_payload_details item payload);
     State_Monad.return (code, link_child root ''payload'' payload linked)
   }"

text \<open>No item has meta details of its own.\<close>

definition json_from_item_meta :: "item \<Rightarrow> ('z, mcl_error \<times> string option) io" where
  "json_from_item_meta item = do {
     (code, root) \<leftarrow> mcl_json_util_initialize MCL_JSON_OBJECT;
     (code, root) \<leftarrow> when_ok code root (add_member root ''type'' (Some ''item''));
     (code, root) \<leftarrow> when_ok code root (add_member root ''version'' (Some ''1.0''));
     (code, root) \<leftarrow> when_ok code root (add_item_meta_payload item root);
     to_string_if_ok code root
   }"

section \<open>Size estimates\<close>

text \<open>
  The sizes are of the 64-bit \<open>mcl_size_t\<close>: sums and the \<open>count - 1\<close> delimiters of a list wrap.
  The base sizes are the lengths of the literals of the code.
\<close>

type_synonym mcl_size_t = "64 word"

definition mcl_string_util_strlen :: "string option \<Rightarrow> nat" where
  "mcl_string_util_strlen s = (case s of None \<Rightarrow> 0 | Some t \<Rightarrow> length t)"

definition DOUBLE_BRACE_SIZE :: nat where "DOUBLE_BRACE_SIZE = 2"
definition DELIMITER_SIZE :: nat where "DELIMITER_SIZE = 1"

definition ITEM_META_BASE_SIZE :: nat where
  \<open>ITEM_META_BASE_SIZE = length ''{"type":"item","version":"1.0","payload":}''\<close>

definition ITEM_TIMESERIES_META_PAYLOAD_BASE_SIZE :: nat where
  \<open>ITEM_TIMESERIES_META_PAYLOAD_BASE_SIZE =
     length ''{"type":"standardTimeSeries","version":"","details":{"configurationId":""}}''\<close>

definition ITEM_TIMESERIES_VALUE_BASE_SIZE :: nat where
  \<open>ITEM_TIMESERIES_VALUE_BASE_SIZE = length ''{"dataPointId":"","value":"","qualityCode":""}''\<close>

definition ITEM_TIMESERIES_VALUE_LIST_BASE_SIZE :: nat where
  \<open>ITEM_TIMESERIES_VALUE_LIST_BASE_SIZE =
     length ''{"timestamp":"","values":[]}'' + 1 + MCL_TIMESTAMP_LENGTH - 2\<close>

definition ITEM_EVENT_META_PAYLOAD_BASE_SIZE :: nat where
  \<open>ITEM_EVENT_META_PAYLOAD_BASE_SIZE = length ''{"type":"businessEvent","version":""}''\<close>

definition ITEM_EVENT_PAYLOAD_BASE_SIZE :: nat where
  \<open>ITEM_EVENT_PAYLOAD_BASE_SIZE =
     length ''{"id":"","timestamp":"","severity":,"type":"","version":"","details":}'' + 1 +
       MCL_TIMESTAMP_LENGTH - 2\<close>

definition ITEM_EVENT_PAYLOAD_CORRELATION_ID_SIZE :: nat where
  \<open>ITEM_EVENT_PAYLOAD_CORRELATION_ID_SIZE = length '',"correlationId":""''\<close>

definition ITEM_EVENT_PAYLOAD_DESCRIPTION_SIZE :: nat where
  \<open>ITEM_EVENT_PAYLOAD_DESCRIPTION_SIZE = length '',"description":""''\<close>

definition ITEM_FILE_META_PAYLOAD_BASE_SIZE :: nat where
  \<open>ITEM_FILE_META_PAYLOAD_BASE_SIZE =
     length ''{"type":"file","version":"","details":{"fileName":"","creationDate":""}}'' + 1 +
       MCL_TIMESTAMP_LENGTH - 2\<close>

definition ITEM_FILE_META_PAYLOAD_FILE_TYPE_SIZE :: nat where
  \<open>ITEM_FILE_META_PAYLOAD_FILE_TYPE_SIZE = length '',"fileType":""''\<close>

definition ITEM_CUSTOM_DATA_META_PAYLOAD_BASE_SIZE :: nat where
  \<open>ITEM_CUSTOM_DATA_META_PAYLOAD_BASE_SIZE = length ''{"type":"","version":""}''\<close>

definition ITEM_CUSTOM_DATA_META_PAYLOAD_DETAILS_SIZE :: nat where
  \<open>ITEM_CUSTOM_DATA_META_PAYLOAD_DETAILS_SIZE = length '',"details":''\<close>

definition ITEM_DATA_SOURCE_CONFIGURATION_META_PAYLOAD_BASE_SIZE :: nat where
  \<open>ITEM_DATA_SOURCE_CONFIGURATION_META_PAYLOAD_BASE_SIZE =
     length ''{"type":"dataSourceConfiguration","version":""}''\<close>

definition ITEM_DATA_SOURCE_CONFIGURATION_PAYLOAD_BASE_SIZE :: nat where
  \<open>ITEM_DATA_SOURCE_CONFIGURATION_PAYLOAD_BASE_SIZE = length ''{"configurationId":"","dataSources":[]}''\<close>

definition ITEM_DATA_SOURCE_BASE_SIZE :: nat where
  \<open>ITEM_DATA_SOURCE_BASE_SIZE = length ''{"name":"","description":"","dataPoints":[]}''\<close>

definition ITEM_DATA_POINT_BASE_SIZE :: nat where
  \<open>ITEM_DATA_POINT_BASE_SIZE = length ''{"id":"","name":"","description":"","type":"","unit":""}''\<close>

definition ITEM_DATA_SOURCE_CONFIGURATION_PAYLOAD_CUSTOM_DATA_SIZE :: nat where
  \<open>ITEM_DATA_SOURCE_CONFIGURATION_PAYLOAD_CUSTOM_DATA_SIZE = length '',"customData":''\<close>

definition item_payload_size_for_timeseries_value :: "timeseries_value_t \<Rightarrow> mcl_size_t" where
  "item_payload_size_for_timeseries_value v =
     of_nat ITEM_TIMESERIES_VALUE_BASE_SIZE + of_nat (mcl_string_util_strlen (tv_data_point_id v)) +
     of_nat (mcl_string_util_strlen (tv_quality_code v)) + of_nat (mcl_string_util_strlen (tv_value v))"

text \<open>The delimiters between the elements of a list.\<close>

definition delimiters :: "'a list \<Rightarrow> mcl_size_t" where
  "delimiters xs = (of_nat (length xs) - 1) * of_nat DELIMITER_SIZE"

definition item_payload_size_for_timeseries_value_list :: "timeseries_value_list_t \<Rightarrow> mcl_size_t" where
  "item_payload_size_for_timeseries_value_list l =
     foldl (\<lambda>size v. size + item_payload_size_for_timeseries_value v)
       (of_nat ITEM_TIMESERIES_VALUE_LIST_BASE_SIZE) (tvl_values l) + delimiters (tvl_values l)"

definition item_payload_size_for_timeseries :: "timeseries_t \<Rightarrow> mcl_size_t" where
  "item_payload_size_for_timeseries t =
     foldl (\<lambda>size l. size + item_payload_size_for_timeseries_value_list l)
       (of_nat DOUBLE_BRACE_SIZE) (ts_value_lists t) + delimiters (ts_value_lists t)"

text \<open>The printed size of a JSON tree; two braces are counted when it is missing or cannot be printed.\<close>

definition printed_size :: "json option \<Rightarrow> ('z, mcl_size_t) io" where
  "printed_size json =
     (if json = None then State_Monad.return (of_nat DOUBLE_BRACE_SIZE)
      else do {
        (code, temp_json) \<leftarrow> mcl_json_util_to_string json;
        State_Monad.return (case temp_json of Some t \<Rightarrow> of_nat (length t) | None \<Rightarrow> of_nat DOUBLE_BRACE_SIZE)
      })"

definition item_payload_size_for_event :: "event_t \<Rightarrow> ('z, mcl_size_t) io" where
  "item_payload_size_for_event e = do {
     let size = of_nat (ITEM_EVENT_PAYLOAD_BASE_SIZE + DOUBLE_BRACE_SIZE) +
       of_nat (mcl_string_util_strlen (ev_id e)) + of_nat (mcl_string_util_strlen (ev_type e)) +
       of_nat (mcl_string_util_strlen (ev_version e)) +
       (if item_version e = 0 then 1 else if item_version e = 1 then 2 else 0) +
       (if ev_correlation_id e \<noteq> None
        then of_nat ITEM_EVENT_PAYLOAD_CORRELATION_ID_SIZE + of_nat (mcl_string_util_strlen (ev_correlation_id e))
        else 0) +
       (if ev_description e \<noteq> None
        then of_nat ITEM_EVENT_PAYLOAD_DESCRIPTION_SIZE + of_nat (mcl_string_util_strlen (ev_description e))
        else 0);
     details \<leftarrow> printed_size (ev_details e);
     State_Monad.return (size + details)
   }"

text \<open>The custom data of a data source or a data point.\<close>

definition custom_data_size :: "json option \<Rightarrow> ('z, mcl_size_t) io" where
  "custom_data_size custom_data =
     (if custom_data = None then State_Monad.return 0
      else do {
        size \<leftarrow> printed_size custom_data;
        State_Monad.return (of_nat ITEM_DATA_SOURCE_CONFIGURATION_PAYLOAD_CUSTOM_DATA_SIZE + size)
      })"

definition item_payload_size_for_data_point :: "data_point_t \<Rightarrow> ('z, mcl_size_t) io" where
  "item_payload_size_for_data_point p = do {
     custom_data \<leftarrow> custom_data_size (dp_custom_data p);
     State_Monad.return (of_nat ITEM_DATA_POINT_BASE_SIZE + of_nat (mcl_string_util_strlen (dp_id p)) +
       of_nat (mcl_string_util_strlen (dp_name p)) + of_nat (mcl_string_util_strlen (dp_description p)) +
       of_nat (mcl_string_util_strlen (dp_type p)) + of_nat (mcl_string_util_strlen (dp_unit p)) + custom_data)
   }"

fun add_sizes :: "('a \<Rightarrow> ('z, mcl_size_t) io) \<Rightarrow> 'a list \<Rightarrow> mcl_size_t \<Rightarrow> ('z, mcl_size_t) io" where
  "add_sizes f [] acc = State_Monad.return acc"
| "add_sizes f (x # xs) acc = do { n \<leftarrow> f x; add_sizes f xs (acc + n) }"

definition item_payload_size_for_data_source :: "data_source_t \<Rightarrow> ('z, mcl_size_t) io" where
  "item_payload_size_for_data_source d = do {
     size \<leftarrow> add_sizes item_payload_size_for_data_point (ds_data_points d)
       (of_nat ITEM_DATA_SOURCE_BASE_SIZE + of_nat (mcl_string_util_strlen (ds_name d)) +
        of_nat (mcl_string_util_strlen (ds_description d)));
     custom_data \<leftarrow> custom_data_size (ds_custom_data d);
     State_Monad.return (size + delimiters (ds_data_points d) + custom_data)
   }"

definition item_payload_size_for_data_source_configuration ::
  "data_source_configuration_t \<Rightarrow> ('z, mcl_size_t) io" where
  "item_payload_size_for_data_source_configuration c = do {
     size \<leftarrow> add_sizes item_payload_size_for_data_source (dsc_data_sources c)
       (of_nat ITEM_DATA_SOURCE_CONFIGURATION_PAYLOAD_BASE_SIZE +
        of_nat (mcl_string_util_strlen (dsc_configuration_id c)));
     State_Monad.return (size + delimiters (dsc_data_sources c))
   }"

definition custom_data_meta_size :: "custom_data_t \<Rightarrow> ('z, mcl_size_t) io" where
  "custom_data_meta_size c = do {
     details \<leftarrow> (if cd_details c = None then State_Monad.return 0
       else do {
         size \<leftarrow> printed_size (cd_details c);
         State_Monad.return (of_nat ITEM_CUSTOM_DATA_META_PAYLOAD_DETAILS_SIZE + size)
       });
     State_Monad.return (of_nat ITEM_CUSTOM_DATA_META_PAYLOAD_BASE_SIZE +
       of_nat (mcl_string_util_strlen (cd_type c)) + of_nat (mcl_string_util_strlen (cd_version c)) + details)
   }"

definition item_meta_size :: "item \<Rightarrow> ('z, mcl_size_t) io" where
  "item_meta_size item = do {
     size \<leftarrow> (case item of
         Timeseries t \<Rightarrow> State_Monad.return (of_nat ITEM_TIMESERIES_META_PAYLOAD_BASE_SIZE +
           of_nat (mcl_string_util_strlen (ts_configuration_id t)) +
           of_nat (length (mcl_timeseries_versions ! item_version t)))
       | Event e \<Rightarrow> State_Monad.return (of_nat ITEM_EVENT_META_PAYLOAD_BASE_SIZE +
           of_nat (length (mcl_event_versions ! item_version e)))
       | File f \<Rightarrow> State_Monad.return (of_nat ITEM_FILE_META_PAYLOAD_BASE_SIZE +
           of_nat (mcl_string_util_strlen (fl_remote_name f)) +
           (if fl_type f \<noteq> None
            then of_nat ITEM_FILE_META_PAYLOAD_FILE_TYPE_SIZE + of_nat (mcl_string_util_strlen (fl_type f))
            else 0) +
           of_nat (length (mcl_file_versions ! item_version f)))
       | CustomData c \<Rightarrow> custom_data_meta_size c
       | DataSourceConfiguration c \<Rightarrow> State_Monad.return (
           of_nat ITEM_DATA_SOURCE_CONFIGURATION_META_PAYLOAD_BASE_SIZE +
           of_nat (length (mcl_data_source_configuration_versions ! item_version c))));
     State_Monad.return (of_nat ITEM_META_BASE_SIZE + size)
   }"

definition json_get_item_size :: "item \<Rightarrow> ('z, mcl_size_t) io" where
  "json_get_item_size item = do {
     meta \<leftarrow> item_meta_size item;
     payload \<leftarrow> (case item of
         Timeseries t \<Rightarrow> State_Monad.return (item_payload_size_for_timeseries t)
       | Event e \<Rightarrow> item_payload_size_for_event e
       | File f \<Rightarrow> State_Monad.return (of_nat (fl_size f))
       | CustomData c \<Rightarrow> State_Monad.return (of_nat (cd_size c))
       | DataSourceConfiguration c \<Rightarrow> item_payload_size_for_data_source_configuration c);
     State_Monad.return (meta + payload)
   }"

section \<open>Parsing a data source configuration\<close>

text \<open>
  A parser returns the structure it filled, or \<open>None\<close> where it has destroyed it. The whole result
  is \<open>None\<close> where the behaviour is undefined: when the list cannot take a parsed element, the
  element is handed to its destructor as if it were a pointer to it.
\<close>

definition parse_and_get_string_value :: "json \<Rightarrow> string \<Rightarrow> ('z, mcl_error \<times> string option) io" where
  "parse_and_get_string_value json field_name =
     (case json_util_get_object_item json field_name of
        Err e \<Rightarrow> State_Monad.return (e, None)
      | Ok object \<Rightarrow> json_util_get_string object)"

definition tolerate_missing :: "mcl_error \<Rightarrow> mcl_error" where
  "tolerate_missing code = (if code = MCL_JSON_NON_EXISTING_CHILD then MCL_OK else code)"

definition parse_custom_data :: "json \<Rightarrow> ('z, mcl_error \<times> json option) io" where
  "parse_custom_data json =
     (case json_util_get_object_item json ''customData'' of
        Err _ \<Rightarrow> State_Monad.return (MCL_OK, None)
      | Ok j \<Rightarrow> mcl_json_util_duplicate (Some j))"

definition parse_data_point :: "json \<Rightarrow> ('z, (mcl_error \<times> data_point_t option) option) io" where
  "parse_data_point json = do {
     (code, p) \<leftarrow> mcl_data_point_initialize;
     if code \<noteq> MCL_OK then State_Monad.return (Some (code, None))
     else do {
       (code, i) \<leftarrow> parse_and_get_string_value json ''id'';
       (code, name) \<leftarrow> when_ok code None (parse_and_get_string_value json ''name'');
       (code, type) \<leftarrow> when_ok code None (parse_and_get_string_value json ''type'');
       (code, unit) \<leftarrow> when_ok code None (parse_and_get_string_value json ''unit'');
       (code, description) \<leftarrow> when_ok code None (do {
          (code, description) \<leftarrow> parse_and_get_string_value json ''description'';
          State_Monad.return (tolerate_missing code, description) });
       (code, custom_data) \<leftarrow> when_ok code None (parse_custom_data json);
       State_Monad.return (Some
         (code, if code = MCL_OK
                then Some \<lparr>dp_id = i, dp_name = name, dp_description = description, dp_type = type,
                  dp_unit = unit, dp_custom_data = custom_data\<rparr>
                else None))
     }
   }"

fun parse_elements ::
  "(json \<Rightarrow> ('z, (mcl_error \<times> 'a option) option) io) \<Rightarrow> json list \<Rightarrow> 'a list \<Rightarrow>
   ('z, (mcl_error \<times> 'a list) option) io" where
  "parse_elements parser [] xs = State_Monad.return (Some (MCL_OK, xs))"
| "parse_elements parser (j # js) xs = do {
     r \<leftarrow> parser j;
     case r of
       Some (code, Some x) \<Rightarrow> do {
         a \<leftarrow> mcl_malloc;
         if a then parse_elements parser js (xs @ [x]) else State_Monad.return None
       }
     | Some (code, None) \<Rightarrow> State_Monad.return (Some (code, xs))
     | None \<Rightarrow> State_Monad.return None
   }"

definition fill_list_using_json_array ::
  "json \<Rightarrow> (json \<Rightarrow> ('z, (mcl_error \<times> 'a option) option) io) \<Rightarrow>
   ('z, (mcl_error \<times> 'a list) option) io" where
  "fill_list_using_json_array json_array parser_callback =
     (case json_util_get_array_size json_array of
        Err e \<Rightarrow> State_Monad.return (Some (e, []))
      | Ok n \<Rightarrow> parse_elements parser_callback (map snd (json_children json_array)) [])"

definition parse_list_member ::
  "json \<Rightarrow> string \<Rightarrow> (json \<Rightarrow> ('z, (mcl_error \<times> 'a option) option) io) \<Rightarrow>
   ('z, (mcl_error \<times> 'a list) option) io" where
  "parse_list_member json field_name parser =
     (case json_util_get_object_item json field_name of
        Err e \<Rightarrow> State_Monad.return (Some (e, []))
      | Ok arr \<Rightarrow> fill_list_using_json_array arr parser)"

definition parse_data_source :: "json \<Rightarrow> ('z, (mcl_error \<times> data_source_t option) option) io" where
  "parse_data_source json = do {
     (code, d) \<leftarrow> mcl_data_source_initialize;
     if code \<noteq> MCL_OK then State_Monad.return (Some (code, None))
     else do {
       (code, name) \<leftarrow> parse_and_get_string_value json ''name'';
       (code, description) \<leftarrow> when_ok code None (do {
          (code, description) \<leftarrow> parse_and_get_string_value json ''description'';
          State_Monad.return (tolerate_missing code, description) });
       (code, custom_data) \<leftarrow> when_ok code None (parse_custom_data json);
       r \<leftarrow> (if code = MCL_OK then parse_list_member json ''dataPoints'' parse_data_point
             else State_Monad.return (Some (code, [])));
       State_Monad.return (map_option (\<lambda>(code, data_points).
         (code, if code = MCL_OK
                then Some \<lparr>ds_name = name, ds_description = description, ds_data_points = data_points,
                  ds_custom_data = custom_data\<rparr>
                else None)) r)
     }
   }"

definition parse_data_source_configuration ::
  "json \<Rightarrow> ('z, (mcl_error \<times> data_source_configuration_t option) option) io" where
  "parse_data_source_configuration json = do {
     (code, c) \<leftarrow> mcl_data_source_configuration_initialize 0;
     case c of
       None \<Rightarrow> State_Monad.return (Some (code, None))
     | Some c \<Rightarrow> do {
         (code, i) \<leftarrow> parse_and_get_string_value json ''configurationId'';
         r \<leftarrow> (if code = MCL_OK then parse_list_member json ''dataSources'' parse_data_source
               else State_Monad.return (Some (code, [])));
         State_Monad.return (map_option (\<lambda>(code, data_sources).
           (code, if code = MCL_OK
                  then Some (c\<lparr>dsc_configuration_id := i, dsc_data_sources := data_sources\<rparr>)
                  else None)) r)
       }
   }"

text \<open>The text is parsed by cJSON, which is an argument.\<close>

definition json_parse_item ::
  "(string \<Rightarrow> json option) \<Rightarrow> string \<Rightarrow> nat \<Rightarrow>
   ('z, (mcl_error \<times> data_source_configuration_t option) option) io" where
  "json_parse_item cJSON_parse json_string string_length =
     (case json_util_parse cJSON_parse json_string string_length of
        Err e \<Rightarrow> State_Monad.return (Some (e, None))
      | Ok json \<Rightarrow> parse_data_source_configuration json)"

end
