(* ===== verification/MclItemSpec.thy ===== *)
theory MclItemSpec
  imports MclItemJson
begin

text \<open>
  What the JSON builders of \<open>MclItemJson\<close> compute while no allocation fails: every builder is equal
  to a pure function from the item to its tree. The facts that run one builder statement are in
  the collection \<open>build\<close>.
\<close>

named_theorems build

section \<open>Names\<close>

definition lower_code :: "char \<Rightarrow> nat" where
  "lower_code c = (if 65 \<le> (of_char c :: nat) \<and> (of_char c :: nat) \<le> 90 then of_char c + 32 else of_char c)"

lemma of_char_LOWERCASE: "of_char (LOWERCASE c) = lower_code c"
  by (simp add: LOWERCASE_def lower_code_def)

lemma LOWERCASE_eq: "LOWERCASE a = LOWERCASE b \<longleftrightarrow> lower_code a = lower_code b"
  by (metis of_char_LOWERCASE of_char_eq_iff)

lemma map_LOWERCASE_eq: "map LOWERCASE a = map LOWERCASE b \<longleftrightarrow> map lower_code a = map lower_code b"
  by (induction a b rule: list_induct2') (simp_all add: LOWERCASE_eq)

text \<open>No child of an object answers to the name.\<close>

definition fresh_name :: "string \<Rightarrow> (string option \<times> json) list \<Rightarrow> bool" where
  "fresh_name n cs \<longleftrightarrow> list_all (\<lambda>(k, j). case k of None \<Rightarrow> True
      | Some m \<Rightarrow> map lower_code n \<noteq> map lower_code m) cs"

lemma fresh_name_get:
  "fresh_name n cs \<Longrightarrow> json_util_get_object_item (Json v cs) n = Err MCL_JSON_NON_EXISTING_CHILD"
  by (induction cs) (auto simp: fresh_name_def json_util_get_object_item_def cJSON_GetObjectItem_def
      same_name_def map_LOWERCASE_eq split: option.splits)

section \<open>Statements\<close>

definition str :: "string \<Rightarrow> json" where "str s = Json (CString s) []"

lemma run_initialize [build]:
  "w_alloc w = [] \<Longrightarrow> run_state (mcl_json_util_initialize t) w =
     ((MCL_OK, Some (Json (case t of MCL_JSON_ARRAY \<Rightarrow> CArray | MCL_JSON_OBJECT \<Rightarrow> CObject) [])), w)"
  by (simp add: mcl_json_util_initialize_def json_util_initialize_def)

lemma run_add_member [build]:
  "w_alloc w = [] \<Longrightarrow> fresh_name n cs \<Longrightarrow>
   run_state (add_member (Some (Json CObject cs)) n (Some v)) w =
     ((MCL_OK, Some (Json CObject (cs @ [(Some n, str v)]))), w)"
  by (simp add: mcl_json_util_add_string_def json_util_add_string_def json_util_add_leaf_def
      fresh_name_get str_def)

lemma run_add_uint [build]:
  "w_alloc w = [] \<Longrightarrow> fresh_name n cs \<Longrightarrow>
   run_state (mcl_json_util_add_uint (Some (Json CObject cs)) (Some n) k) w =
     ((MCL_OK, Some (Json CObject (cs @ [(Some n, Json (CNumber (Whole (int k))) [])]))), w)"
  by (simp add: mcl_json_util_add_uint_def json_util_add_uint_def add_number_def json_util_add_leaf_def
      fresh_name_get)

lemma run_add_bool [build]:
  "w_alloc w = [] \<Longrightarrow> fresh_name n cs \<Longrightarrow>
   run_state (mcl_json_util_add_bool (Some (Json CObject cs)) (Some n) b) w =
     ((MCL_OK, Some (Json CObject (cs @ [(Some n, Json (CBool b) [])]))), w)"
  by (simp add: mcl_json_util_add_bool_def json_util_add_bool_def json_util_add_leaf_def
      fresh_name_get)

lemma run_add_object [build]:
  "w_alloc w = [] \<Longrightarrow> fresh_name n cs \<Longrightarrow>
   run_state (mcl_json_util_add_object (Some (Json CObject cs)) n (Some j)) w =
     ((MCL_OK, Some (Json CObject (cs @ [(Some n, j)]))), w)"
  by (simp add: mcl_json_util_add_object_def json_util_add_object_def fresh_name_get)

lemma run_duplicate [build]:
  "w_alloc w = [] \<Longrightarrow> run_state (mcl_json_util_duplicate (Some j)) w = ((MCL_OK, Some j), w)"
  by (simp add: mcl_json_util_duplicate_def json_util_duplicate_def)

lemma run_start_array [build]:
  "w_alloc w = [] \<Longrightarrow> fresh_name n cs \<Longrightarrow>
   run_state (mcl_json_util_start_array (Some (Json CObject cs)) n) w =
     ((MCL_OK, Some (Json CArray []), True), w)"
  by (simp add: mcl_json_util_start_array_def json_util_start_array_def json_util_start_def
      json_util_initialize_def fresh_name_get)

lemma run_start_object [build]:
  "w_alloc w = [] \<Longrightarrow> fresh_name n cs \<Longrightarrow>
   run_state (mcl_json_util_start_object (Some (Json CObject cs)) n) w =
     ((MCL_OK, Some (Json CObject []), True), w)"
  by (simp add: mcl_json_util_start_object_def json_util_start_object_def json_util_start_def
      json_util_initialize_def fresh_name_get)

lemma run_to_string [build]:
  "w_alloc w = [] \<Longrightarrow> run_state (mcl_json_util_to_string (Some j)) w = ((MCL_OK, Some (json_print j)), w)"
  by (simp add: mcl_json_util_to_string_def json_util_to_string_def)

lemma link_child_simps [build]:
  "link_child (Some r) n (Some c) True = Some (add_child r (Some n) c)"
  by (simp add: link_child_def)

lemma run_deliver [build]: "run_state (deliver code j) w = ((code, if code = MCL_OK then j else None), w)"
  by (simp add: deliver_def)

lemma run_fill_array [build]:
  assumes "\<And>x. x \<in> set xs \<Longrightarrow> run_state (callback x) w = ((MCL_OK, Some (f x)), w)"
  shows "run_state (fill_array_using_list callback xs (Some (Json CArray cs))) w =
     ((MCL_OK, Some (Json CArray (cs @ map (\<lambda>x. (None, f x)) xs))), w)"
  using assms
  by (induction xs arbitrary: cs)
    (simp_all add: mcl_json_util_add_item_to_array_def json_util_add_item_to_array_def)

lemma run_fill_member:
  assumes "w_alloc w = []" and "fresh_name n cs"
    and "\<And>x. x \<in> set xs \<Longrightarrow> run_state (callback x) w = ((MCL_OK, Some (f x)), w)"
  shows "run_state (fill_member (Some (Json CObject cs)) n callback xs) w =
     ((MCL_OK, Some (Json CObject (cs @ [(Some n, Json CArray (map (\<lambda>x. (None, f x)) xs))]))), w)"
  using assms by (simp add: fill_member_def build)

definition optional_member :: "string \<Rightarrow> 'a option \<Rightarrow> ('a \<Rightarrow> json) \<Rightarrow> (string option \<times> json) list" where
  "optional_member n v f = (case v of None \<Rightarrow> [] | Some x \<Rightarrow> [(Some n, f x)])"

lemma optional_member_simps [simp]:
  "optional_member n None f = []" "optional_member n (Some x) f = [(Some n, f x)]"
  by (simp_all add: optional_member_def)

lemma run_add_duplicate [build]:
  "w_alloc w = [] \<Longrightarrow> fresh_name n cs \<Longrightarrow>
   run_state (add_duplicate (Some (Json CObject cs)) n d) w =
     ((MCL_OK, Some (Json CObject (cs @ optional_member n d (\<lambda>j. j)))), w)"
  by (cases d) (simp_all add: add_duplicate_def build)

section \<open>Trees\<close>

definition value_json :: "timeseries_value_t \<Rightarrow> json" where
  "value_json v = Json CObject [(Some ''dataPointId'', str (the (tv_data_point_id v))),
     (Some ''value'', str (the (tv_value v))), (Some ''qualityCode'', str (the (tv_quality_code v)))]"

definition value_list_json :: "timeseries_value_list_t \<Rightarrow> json" where
  "value_list_json l = Json CObject [(Some ''timestamp'', str (the (tvl_timestamp l))),
     (Some ''values'', Json CArray (map (\<lambda>v. (None, value_json v)) (tvl_values l)))]"

definition timeseries_json :: "timeseries_t \<Rightarrow> json" where
  "timeseries_json t = Json CArray (map (\<lambda>l. (None, value_list_json l)) (ts_value_lists t))"

lemma fresh_name_snoc [simp]:
  "fresh_name n [] = True"
  "fresh_name n ((Some m, j) # cs) \<longleftrightarrow> map lower_code n \<noteq> map lower_code m \<and> fresh_name n cs"
  "fresh_name n (xs @ ys) \<longleftrightarrow> fresh_name n xs \<and> fresh_name n ys"
  by (auto simp: fresh_name_def)

definition complete_value :: "timeseries_value_t \<Rightarrow> bool" where
  "complete_value v \<longleftrightarrow> tv_data_point_id v \<noteq> None \<and> tv_value v \<noteq> None \<and> tv_quality_code v \<noteq> None"

lemma run_value:
  assumes "w_alloc w = []" and "complete_value v"
  shows "run_state (json_from_timeseries_value v) w = ((MCL_OK, Some (value_json v)), w)"
  using assms
  by (auto simp: complete_value_def json_from_timeseries_value_def value_json_def build lower_code_def)

definition complete_value_list :: "timeseries_value_list_t \<Rightarrow> bool" where
  "complete_value_list l \<longleftrightarrow> tvl_timestamp l \<noteq> None \<and> tvl_values l \<noteq> [] \<and>
     list_all complete_value (tvl_values l)"

definition complete_timeseries :: "timeseries_t \<Rightarrow> bool" where
  "complete_timeseries t \<longleftrightarrow> ts_configuration_id t \<noteq> None \<and> ts_value_lists t \<noteq> [] \<and>
     list_all complete_value_list (ts_value_lists t)"

lemma run_value_list:
  assumes "w_alloc w = []" and "complete_value_list l"
  shows "run_state (json_from_timeseries_value_list l) w = ((MCL_OK, Some (value_list_json l)), w)"
proof -
  obtain s where "tvl_timestamp l = Some s" using assms(2) by (auto simp: complete_value_list_def)
  moreover have "run_state (json_from_timeseries_value v) w = ((MCL_OK, Some (value_json v)), w)"
    if "v \<in> set (tvl_values l)" for v
    using assms that by (simp add: run_value complete_value_list_def list_all_iff)
  ultimately show ?thesis
    using assms(1)
    by (simp add: json_from_timeseries_value_list_def value_list_json_def build lower_code_def
        run_fill_member [where f = value_json])
qed

lemma run_timeseries:
  assumes "w_alloc w = []" and "complete_timeseries t"
  shows "run_state (json_from_timeseries_payload t) w =
     ((MCL_OK, Some (json_print (timeseries_json t))), w)"
  using assms
  by (simp add: json_from_timeseries_payload_def timeseries_json_def build to_string_if_ok_def
      run_fill_array [where f = value_list_json] run_value_list complete_timeseries_def list_all_iff)

definition event_json :: "event_t \<Rightarrow> json" where
  "event_json e = Json CObject
     ([(Some ''id'', str (the (ev_id e)))] @
      (if blank (ev_correlation_id e) then [] else [(Some ''correlationId'', str (the (ev_correlation_id e)))]) @
      [(Some ''timestamp'', str (the (ev_timestamp e))),
       (Some ''severity'', Json (CNumber (Whole (int (nat (ev_severity e))))) [])] @
      (if blank (ev_description e) then [] else [(Some ''description'', str (the (ev_description e)))]) @
      [(Some ''type'', str (the (ev_type e))), (Some ''version'', str (the (ev_version e))),
       (Some ''details'', case ev_details e of Some j \<Rightarrow> j | None \<Rightarrow> Json CObject [])])"

definition complete_event :: "event_t \<Rightarrow> bool" where
  "complete_event e \<longleftrightarrow> ev_id e \<noteq> None \<and> ev_timestamp e \<noteq> None \<and> ev_type e \<noteq> None \<and> ev_version e \<noteq> None"

lemma blank_simps [simp]: "blank None" "blank (Some s) \<longleftrightarrow> s = []"
  by (simp_all add: blank_def)

lemma run_event:
  assumes "w_alloc w = []" and "complete_event e"
  shows "run_state (json_from_event_payload e) w =
     ((MCL_OK, Some (json_print (Json CArray [(None, event_json e)]))), w)"
proof -
  obtain i t y v where e: "ev_id e = Some i" "ev_timestamp e = Some t" "ev_type e = Some y" "ev_version e = Some v"
    using assms(2) by (auto simp: complete_event_def)
  note run = json_from_event_payload_def add_event_to_payload_array_def event_json_def to_string_if_ok_def
    mcl_json_util_add_item_to_array_def json_util_add_item_to_array_def build lower_code_def
  show ?thesis
    using assms(1) e
    by (cases "ev_correlation_id e"; cases "ev_description e"; cases "ev_details e")
      (simp_all add: run split: list.split)
qed

definition point_json :: "data_point_t \<Rightarrow> json" where
  "point_json p = Json CObject
     ([(Some ''id'', str (the (dp_id p))), (Some ''name'', str (the (dp_name p)))] @
      optional_member ''description'' (dp_description p) str @
      [(Some ''type'', str (the (dp_type p))), (Some ''unit'', str (the (dp_unit p)))] @
      optional_member ''customData'' (dp_custom_data p) (\<lambda>j. j))"

definition source_json :: "data_source_t \<Rightarrow> json" where
  "source_json d = Json CObject
     ([(Some ''name'', str (the (ds_name d)))] @
      optional_member ''description'' (ds_description d) str @
      [(Some ''dataPoints'', Json CArray (map (\<lambda>p. (None, point_json p)) (ds_data_points d)))] @
      optional_member ''customData'' (ds_custom_data d) (\<lambda>j. j))"

definition configuration_json :: "data_source_configuration_t \<Rightarrow> json" where
  "configuration_json c = Json CObject
     [(Some ''configurationId'', str (the (dsc_configuration_id c))),
      (Some ''dataSources'', Json CArray (map (\<lambda>d. (None, source_json d)) (dsc_data_sources c)))]"

definition complete_point :: "data_point_t \<Rightarrow> bool" where
  "complete_point p \<longleftrightarrow> dp_id p \<noteq> None \<and> dp_name p \<noteq> None \<and> dp_type p \<noteq> None \<and> dp_unit p \<noteq> None"

definition complete_source :: "data_source_t \<Rightarrow> bool" where
  "complete_source d \<longleftrightarrow> ds_name d \<noteq> None \<and> ds_data_points d \<noteq> [] \<and> list_all complete_point (ds_data_points d)"

definition complete_configuration :: "data_source_configuration_t \<Rightarrow> bool" where
  "complete_configuration c \<longleftrightarrow> dsc_configuration_id c \<noteq> None \<and> dsc_data_sources c \<noteq> [] \<and>
     list_all complete_source (dsc_data_sources c)"

lemma fresh_optional [simp]:
  "fresh_name n (optional_member m v f) \<longleftrightarrow> v = None \<or> map lower_code n \<noteq> map lower_code m"
  by (cases v) auto

lemma run_point:
  assumes "w_alloc w = []" and "complete_point p"
  shows "run_state (json_from_data_point p) w = ((MCL_OK, Some (point_json p)), w)"
  using assms
  by (cases "dp_description p")
    (auto simp: complete_point_def json_from_data_point_def point_json_def build lower_code_def)

lemma run_source:
  assumes "w_alloc w = []" and "complete_source d"
  shows "run_state (json_from_data_source d) w = ((MCL_OK, Some (source_json d)), w)"
proof -
  obtain n where "ds_name d = Some n" using assms(2) by (auto simp: complete_source_def)
  moreover have "run_state (json_from_data_point p) w = ((MCL_OK, Some (point_json p)), w)"
    if "p \<in> set (ds_data_points d)" for p
    using assms that by (simp add: run_point complete_source_def list_all_iff)
  ultimately show ?thesis
    using assms(1)
    by (cases "ds_description d")
      (simp_all add: json_from_data_source_def source_json_def build lower_code_def
        run_fill_member [where f = point_json])
qed

lemma run_configuration:
  assumes "w_alloc w = []" and "complete_configuration c"
  shows "run_state (json_from_data_source_configuration_payload c) w =
     ((MCL_OK, Some (json_print (configuration_json c))), w)"
proof -
  obtain n where "dsc_configuration_id c = Some n" using assms(2) by (auto simp: complete_configuration_def)
  moreover have "run_state (json_from_data_source d) w = ((MCL_OK, Some (source_json d)), w)"
    if "d \<in> set (dsc_data_sources c)" for d
    using assms that by (simp add: run_source complete_configuration_def list_all_iff)
  ultimately show ?thesis
    using assms(1)
    by (simp add: json_from_data_source_configuration_payload_def configuration_json_def build
        lower_code_def to_string_if_ok_def run_fill_member [where f = source_json])
qed

section \<open>Meta documents\<close>

definition details_members :: "item \<Rightarrow> (string option \<times> json) list" where
  "details_members item =
     (case item of
        Timeseries t \<Rightarrow> [(Some ''details'', Json CObject
          [(Some ''configurationId'', str (the (ts_configuration_id t)))])]
      | File f \<Rightarrow> [(Some ''details'', Json CObject
          ([(Some ''fileName'', str (the (fl_remote_name f))),
            (Some ''creationDate'', str (the (fl_creation_date f)))] @
           optional_member ''fileType'' (fl_type f) str))]
      | CustomData c \<Rightarrow> optional_member ''details'' (cd_details c) (\<lambda>j. j)
      | _ \<Rightarrow> [])"

definition meta_json :: "item \<Rightarrow> json" where
  "meta_json item = Json CObject
     [(Some ''type'', str ''item''), (Some ''version'', str ''1.0''),
      (Some ''payload'', Json CObject
        ([(Some ''type'', str (the (fst (payload_type_and_version item)))),
          (Some ''version'', str (the (snd (payload_type_and_version item))))] @ details_members item))]"

definition complete_item :: "item \<Rightarrow> bool" where
  "complete_item item \<longleftrightarrow>
     (case item of
        Timeseries t \<Rightarrow> complete_timeseries t \<and> item_version t < 1
      | Event e \<Rightarrow> complete_event e \<and> item_version e < 2
      | File f \<Rightarrow> fl_remote_name f \<noteq> None \<and> fl_creation_date f \<noteq> None \<and> item_version f < 1
      | CustomData c \<Rightarrow> cd_type c \<noteq> None \<and> cd_version c \<noteq> None \<and> cd_content_type c \<noteq> None
      | DataSourceConfiguration c \<Rightarrow> complete_configuration c \<and> item_version c < 1)"

lemma run_meta:
  assumes "w_alloc w = []" and "complete_item item"
  shows "run_state (json_from_item_meta item) w = ((MCL_OK, Some (json_print (meta_json item))), w)"
proof -
  note run = json_from_item_meta_def add_item_meta_payload_def add_item_meta_payload_details_def
    payload_type_and_version_def meta_json_def details_members_def to_string_if_ok_def build lower_code_def
  show ?thesis
  proof (cases item)
    case (Timeseries t)
    then obtain c where "ts_configuration_id t = Some c"
      using assms(2) by (auto simp: complete_item_def complete_timeseries_def)
    with Timeseries assms(1) show ?thesis
      by (simp add: run add_item_meta_payload_timeseries_details_def)
  next
    case (File f)
    then obtain n d where "fl_remote_name f = Some n" "fl_creation_date f = Some d"
      using assms(2) by (auto simp: complete_item_def)
    with File assms(1) show ?thesis
      by (cases "fl_type f") (simp_all add: run add_item_meta_payload_file_details_def)
  next
    case (CustomData c)
    then obtain n d where "cd_type c = Some n" "cd_version c = Some d"
      using assms(2) by (auto simp: complete_item_def)
    with CustomData assms(1) show ?thesis by (simp add: run)
  next
    case (Event e)
    with assms(1) show ?thesis by (simp add: run)
  next
    case (DataSourceConfiguration c)
    with assms(1) show ?thesis by (simp add: run)
  qed
qed

end
