(* ===== verification/MclItemSize.thy ===== *)
theory MclItemSize
  imports MclItemSpec
begin

text \<open>
  How the size that \<open>json_get_item_size\<close> estimates before the documents of an item are built relates
  to their length: the estimate counts every string as if it needed no escapes, and counts optional
  members that are then left out. The facts on the estimates are in the collection \<open>sizes\<close>.
\<close>

named_theorems sizes

section \<open>Printed lengths\<close>

text \<open>The characters that escapes add to a string.\<close>

definition extra :: "string \<Rightarrow> nat" where
  "extra s = length (print_string s) - (length s + 2)"

lemma length_print_string: "length (print_string s) = length s + 2 + extra s"
  using length_print_string_ge [of s] by (simp add: extra_def)

lemma extra_plain: "plain s \<Longrightarrow> extra s = 0"
  by (simp add: extra_def print_string_plain)

definition printed :: "json \<Rightarrow> nat" where "printed j = length (json_print j)"

definition member_len :: "string option \<times> json \<Rightarrow> nat" where
  "member_len m = length (print_string (case fst m of None \<Rightarrow> [] | Some n \<Rightarrow> n)) + 2 + printed (snd m)"

lemma printed_str [sizes]: "printed (str s) = length s + 2 + extra s"
  by (simp add: printed_def str_def length_print_string)

lemma length_join_comma: "xs \<noteq> [] \<Longrightarrow> length (join_comma xs) + 1 = sum_list (map (\<lambda>x. length x + 1) xs)"
  by (induction xs rule: join_comma.induct) auto

lemma printed_object [sizes]:
  "printed (Json CObject []) = 2"
  "cs \<noteq> [] \<Longrightarrow> printed (Json CObject cs) = 1 + sum_list (map member_len cs)"
proof -
  show "printed (Json CObject []) = 2" by (simp add: printed_def)
  assume "cs \<noteq> []"
  then have "printed (Json CObject cs) = 1 + (length (join_comma (map (\<lambda>(k, j).
      print_string (case k of None \<Rightarrow> [] | Some n \<Rightarrow> n) @ CHR '':'' # json_print j) cs)) + 1)"
    by (simp add: printed_def)
  also have "\<dots> = 1 + sum_list (map member_len cs)"
    using \<open>cs \<noteq> []\<close> by (subst length_join_comma)
      (auto simp: member_len_def printed_def comp_def split_def intro!: arg_cong [where f = sum_list])
  finally show "printed (Json CObject cs) = 1 + sum_list (map member_len cs)" .
qed

lemma printed_array [sizes]:
  "xs \<noteq> [] \<Longrightarrow> printed (Json CArray (map (\<lambda>x. (None, f x)) xs)) = 1 + sum_list (map (\<lambda>x. printed (f x) + 1) xs)"
proof -
  assume "xs \<noteq> []"
  then have "printed (Json CArray (map (\<lambda>x. (None, f x)) xs)) =
      1 + (length (join_comma (map (\<lambda>x. json_print (f x)) xs)) + 1)"
    by (simp add: printed_def comp_def)
  also have "\<dots> = 1 + sum_list (map (\<lambda>x. printed (f x) + 1) xs)"
    using \<open>xs \<noteq> []\<close> by (subst length_join_comma) (simp_all add: printed_def comp_def)
  finally show ?thesis .
qed

text \<open>The members with the names of the code.\<close>

lemma member_len_plain: "plain n \<Longrightarrow> member_len (Some n, j) = length n + 4 + printed j"
  by (simp add: member_len_def length_print_string extra_plain)

lemma member_len_names [sizes]:
  "member_len (Some ''type'', j) = printed j + 8"
  "member_len (Some ''version'', j) = printed j + 11"
  "member_len (Some ''payload'', j) = printed j + 11"
  "member_len (Some ''details'', j) = printed j + 11"
  "member_len (Some ''configurationId'', j) = printed j + 19"
  "member_len (Some ''fileName'', j) = printed j + 12"
  "member_len (Some ''fileType'', j) = printed j + 12"
  "member_len (Some ''creationDate'', j) = printed j + 16"
  "member_len (Some ''timestamp'', j) = printed j + 13"
  "member_len (Some ''values'', j) = printed j + 10"
  "member_len (Some ''dataPointId'', j) = printed j + 15"
  "member_len (Some ''value'', j) = printed j + 9"
  "member_len (Some ''qualityCode'', j) = printed j + 15"
  "member_len (Some ''id'', j) = printed j + 6"
  "member_len (Some ''correlationId'', j) = printed j + 17"
  "member_len (Some ''severity'', j) = printed j + 12"
  "member_len (Some ''description'', j) = printed j + 15"
  "member_len (Some ''customData'', j) = printed j + 14"
  "member_len (Some ''dataSources'', j) = printed j + 15"
  "member_len (Some ''name'', j) = printed j + 8"
  "member_len (Some ''dataPoints'', j) = printed j + 14"
  "member_len (Some ''unit'', j) = printed j + 8"
  by (simp_all add: member_len_plain plain_def)

section \<open>Sums of sizes\<close>

lemma foldl_sizes:
  "(\<And>x. x \<in> set xs \<Longrightarrow> f x = of_nat (g x)) \<Longrightarrow>
   foldl (\<lambda>size x. size + f x) (of_nat n) xs = (of_nat (n + sum_list (map g xs)) :: mcl_size_t)"
  by (induction xs arbitrary: n) (simp_all add: add.assoc flip: of_nat_add)

lemma run_add_sizes:
  "(\<And>x. x \<in> set xs \<Longrightarrow> run_state (f x) w = (of_nat (g x), w)) \<Longrightarrow>
   run_state (add_sizes f xs (of_nat n)) w = (of_nat (n + sum_list (map g xs)), w)"
  by (induction xs arbitrary: n) (simp_all add: add.assoc flip: of_nat_add)

lemma delimiters_of_nat [sizes]: "xs \<noteq> [] \<Longrightarrow> delimiters xs = of_nat (length xs - 1)"
  by (cases xs) (simp_all add: delimiters_def DELIMITER_SIZE_def)

lemma run_printed_size [sizes]:
  "w_alloc w = [] \<Longrightarrow> run_state (printed_size j) w =
     (of_nat (case j of None \<Rightarrow> 2 | Some t \<Rightarrow> printed t), w)"
  by (cases j) (simp_all add: printed_size_def DOUBLE_BRACE_SIZE_def build printed_def)

section \<open>Timeseries\<close>

definition est_value :: "timeseries_value_t \<Rightarrow> nat" where
  "est_value v = ITEM_TIMESERIES_VALUE_BASE_SIZE + mcl_string_util_strlen (tv_data_point_id v) +
     mcl_string_util_strlen (tv_quality_code v) + mcl_string_util_strlen (tv_value v)"

definition est_value_list :: "timeseries_value_list_t \<Rightarrow> nat" where
  "est_value_list l = ITEM_TIMESERIES_VALUE_LIST_BASE_SIZE + sum_list (map est_value (tvl_values l)) +
     (length (tvl_values l) - 1)"

definition est_timeseries :: "timeseries_t \<Rightarrow> nat" where
  "est_timeseries t = DOUBLE_BRACE_SIZE + sum_list (map est_value_list (ts_value_lists t)) +
     (length (ts_value_lists t) - 1)"

lemma size_value: "item_payload_size_for_timeseries_value v = of_nat (est_value v)"
  by (simp add: item_payload_size_for_timeseries_value_def est_value_def)

lemma size_value_list:
  "complete_value_list l \<Longrightarrow> item_payload_size_for_timeseries_value_list l = of_nat (est_value_list l)"
  by (simp add: item_payload_size_for_timeseries_value_list_def est_value_list_def size_value sizes
      foldl_sizes [where g = est_value] complete_value_list_def)

lemma size_timeseries:
  "complete_timeseries t \<Longrightarrow> item_payload_size_for_timeseries t = of_nat (est_timeseries t)"
  by (simp add: item_payload_size_for_timeseries_def est_timeseries_def size_value_list sizes
      foldl_sizes [where g = est_value_list] complete_timeseries_def list_all_iff)

definition text_extra :: "string option \<Rightarrow> nat" where
  "text_extra s = (case s of None \<Rightarrow> 0 | Some t \<Rightarrow> extra t)"

definition value_escapes :: "timeseries_value_t \<Rightarrow> nat" where
  "value_escapes v = text_extra (tv_data_point_id v) + text_extra (tv_quality_code v) + text_extra (tv_value v)"

definition value_list_escapes :: "timeseries_value_list_t \<Rightarrow> nat" where
  "value_list_escapes l = text_extra (tvl_timestamp l) + sum_list (map value_escapes (tvl_values l))"

definition timed :: "string option \<Rightarrow> bool" where
  "timed t \<longleftrightarrow> (\<exists>s. t = Some s \<and> length s = 24)"

lemma printed_value:
  "complete_value v \<Longrightarrow> printed (value_json v) = est_value v + value_escapes v"
  by (auto simp: value_json_def sizes complete_value_def est_value_def value_escapes_def text_extra_def
      ITEM_TIMESERIES_VALUE_BASE_SIZE_def mcl_string_util_strlen_def)

text \<open>The delimiters of a nonempty list, and the sum over its elements.\<close>

lemma sum_with_delimiters:
  fixes f g h :: "'a \<Rightarrow> nat"
  assumes "xs \<noteq> []" and "\<And>x. x \<in> set xs \<Longrightarrow> f x = g x + h x"
  shows "sum_list (map (\<lambda>x. f x + 1) xs) =
     sum_list (map g xs) + (length xs - 1) + sum_list (map h xs) + 1"
proof -
  have "sum_list (map (\<lambda>x. f x + 1) xs) = sum_list (map g xs) + sum_list (map h xs) + length xs"
    using assms(2) by (induction xs) auto
  then show ?thesis using assms(1) by (cases xs) auto
qed

lemma printed_value_list:
  assumes "complete_value_list l" and "timed (tvl_timestamp l)"
  shows "printed (value_list_json l) = est_value_list l + value_list_escapes l"
proof -
  have "sum_list (map (\<lambda>v. printed (value_json v) + 1) (tvl_values l)) =
      sum_list (map est_value (tvl_values l)) + (length (tvl_values l) - 1) +
      sum_list (map value_escapes (tvl_values l)) + 1"
    using assms(1) by (intro sum_with_delimiters) (auto simp: complete_value_list_def list_all_iff printed_value)
  then show ?thesis
    using assms
    by (auto simp: value_list_json_def sizes complete_value_list_def timed_def est_value_list_def
        value_list_escapes_def text_extra_def ITEM_TIMESERIES_VALUE_LIST_BASE_SIZE_def MCL_TIMESTAMP_LENGTH_def)
qed

lemma printed_timeseries:
  assumes "complete_timeseries t" and "\<forall>l \<in> set (ts_value_lists t). timed (tvl_timestamp l)"
  shows "printed (timeseries_json t) =
     est_timeseries t + sum_list (map value_list_escapes (ts_value_lists t))"
proof -
  have "sum_list (map (\<lambda>l. printed (value_list_json l) + 1) (ts_value_lists t)) =
      sum_list (map est_value_list (ts_value_lists t)) + (length (ts_value_lists t) - 1) +
      sum_list (map value_list_escapes (ts_value_lists t)) + 1"
    using assms by (intro sum_with_delimiters) (auto simp: complete_timeseries_def list_all_iff printed_value_list)
  then show ?thesis
    using assms
    by (simp add: timeseries_json_def sizes complete_timeseries_def est_timeseries_def DOUBLE_BRACE_SIZE_def)
qed

section \<open>Events\<close>

text \<open>An optional member that is counted although it is empty and left out.\<close>

definition blank_member :: "nat \<Rightarrow> string option \<Rightarrow> nat" where
  "blank_member n s = (if s = Some [] then n else 0)"

definition event_unused :: "event_t \<Rightarrow> nat" where
  "event_unused e = blank_member ITEM_EVENT_PAYLOAD_CORRELATION_ID_SIZE (ev_correlation_id e) +
     blank_member ITEM_EVENT_PAYLOAD_DESCRIPTION_SIZE (ev_description e)"

definition event_escapes :: "event_t \<Rightarrow> nat" where
  "event_escapes e = text_extra (ev_id e) + text_extra (ev_correlation_id e) + text_extra (ev_timestamp e) +
     text_extra (ev_description e) + text_extra (ev_type e) + text_extra (ev_version e)"

definition est_event :: "event_t \<Rightarrow> nat" where
  "est_event e = ITEM_EVENT_PAYLOAD_BASE_SIZE + DOUBLE_BRACE_SIZE + mcl_string_util_strlen (ev_id e) +
     mcl_string_util_strlen (ev_type e) + mcl_string_util_strlen (ev_version e) +
     (if item_version e = 0 then 1 else if item_version e = 1 then 2 else 0) +
     (if ev_correlation_id e \<noteq> None
      then ITEM_EVENT_PAYLOAD_CORRELATION_ID_SIZE + mcl_string_util_strlen (ev_correlation_id e) else 0) +
     (if ev_description e \<noteq> None
      then ITEM_EVENT_PAYLOAD_DESCRIPTION_SIZE + mcl_string_util_strlen (ev_description e) else 0) +
     (case ev_details e of None \<Rightarrow> 2 | Some j \<Rightarrow> printed j)"

definition severity_ok :: "event_t \<Rightarrow> bool" where
  "severity_ok e \<longleftrightarrow> item_version e < 2 \<and> ev_severity e \<in> set (event_severity_values ! item_version e)"

lemma size_event:
  "w_alloc w = [] \<Longrightarrow> run_state (item_payload_size_for_event e) w = (of_nat (est_event e), w)"
  by (simp add: item_payload_size_for_event_def run_bind sizes est_event_def)

lemma printed_number [sizes]: "printed (Json (CNumber i) []) = length (print_number i)"
  by (simp add: printed_def)

lemma length_print_nat:
  "n < 10 \<Longrightarrow> length (print_nat n) = 1" "10 \<le> n \<Longrightarrow> n < 100 \<Longrightarrow> length (print_nat n) = 2"
proof -
  show one: "length (print_nat n) = 1" if "n < 10" for n
    using that by (subst print_nat.simps) simp
  assume "10 \<le> n" "n < 100"
  then have "length (print_nat (n div 10)) = 1" by (intro one) simp
  with \<open>10 \<le> n\<close> show "length (print_nat n) = 2" by (subst print_nat.simps) simp
qed

lemma printed_severity:
  assumes "severity_ok e"
  shows "length (print_number (Whole (int (nat (ev_severity e))))) = item_version e + 1"
proof -
  have "length (print_number (Whole i)) = 1" if "0 \<le> i" "i < 10" for i
    using that by (simp add: print_number_def length_print_nat(1))
  moreover have "length (print_number (Whole i)) = 2" if "10 \<le> i" "i < 100" for i
    using that by (simp add: print_number_def length_print_nat(2))
  moreover have "item_version e = 0 \<and> 0 \<le> ev_severity e \<and> ev_severity e < 10 \<or>
      item_version e = 1 \<and> 10 \<le> ev_severity e \<and> ev_severity e < 100"
    using assms unfolding severity_ok_def event_severity_values_def
    by (cases "item_version e = 0") (auto simp: less_2_cases_iff)
  ultimately show ?thesis by auto
qed

lemma extra_empty [simp]: "extra [] = 0"
  by (simp add: extra_def print_string_def)

lemma printed_event:
  assumes "complete_event e" and "timed (ev_timestamp e)" and "severity_ok e"
  shows "printed (Json CArray [(None, event_json e)]) + event_unused e = est_event e + event_escapes e"
proof -
  have "printed (Json CArray [(None, event_json e)]) = printed (event_json e) + 2"
    using printed_array [of "[e]" event_json] by simp
  moreover have "(if item_version e = 0 then 1 else if item_version e = 1 then 2 else 0) = item_version e + 1"
    using assms(3) by (auto simp: severity_ok_def)
  moreover obtain i t y v where "ev_id e = Some i" "ev_timestamp e = Some t" "length t = 24"
      "ev_type e = Some y" "ev_version e = Some v"
    using assms(1,2) by (auto simp: complete_event_def timed_def)
  ultimately show ?thesis
    using printed_severity [OF assms(3)]
    by (cases "ev_correlation_id e"; cases "ev_description e"; cases "ev_details e")
      (simp_all add: event_json_def sizes est_event_def event_escapes_def
        event_unused_def blank_member_def text_extra_def mcl_string_util_strlen_def DOUBLE_BRACE_SIZE_def
        ITEM_EVENT_PAYLOAD_BASE_SIZE_def ITEM_EVENT_PAYLOAD_CORRELATION_ID_SIZE_def
        ITEM_EVENT_PAYLOAD_DESCRIPTION_SIZE_def MCL_TIMESTAMP_LENGTH_def)
qed

section \<open>Data source configurations\<close>

definition custom_size :: "json option \<Rightarrow> nat" where
  "custom_size j = (case j of None \<Rightarrow> 0
     | Some t \<Rightarrow> ITEM_DATA_SOURCE_CONFIGURATION_PAYLOAD_CUSTOM_DATA_SIZE + printed t)"

lemma run_custom_data_size [sizes]:
  "w_alloc w = [] \<Longrightarrow> run_state (custom_data_size j) w = (of_nat (custom_size j), w)"
  by (cases j) (simp_all add: custom_data_size_def custom_size_def run_bind sizes)

text \<open>A description is counted with its name even when there is none.\<close>

definition missing_description :: "string option \<Rightarrow> nat" where
  "missing_description s = (if s = None then ITEM_EVENT_PAYLOAD_DESCRIPTION_SIZE else 0)"

definition est_point :: "data_point_t \<Rightarrow> nat" where
  "est_point p = ITEM_DATA_POINT_BASE_SIZE + mcl_string_util_strlen (dp_id p) +
     mcl_string_util_strlen (dp_name p) + mcl_string_util_strlen (dp_description p) +
     mcl_string_util_strlen (dp_type p) + mcl_string_util_strlen (dp_unit p) + custom_size (dp_custom_data p)"

definition point_escapes :: "data_point_t \<Rightarrow> nat" where
  "point_escapes p = text_extra (dp_id p) + text_extra (dp_name p) + text_extra (dp_description p) +
     text_extra (dp_type p) + text_extra (dp_unit p)"

lemma size_point:
  "w_alloc w = [] \<Longrightarrow> run_state (item_payload_size_for_data_point p) w = (of_nat (est_point p), w)"
  by (simp add: item_payload_size_for_data_point_def run_bind sizes est_point_def)

lemma printed_point:
  "complete_point p \<Longrightarrow>
   printed (point_json p) + missing_description (dp_description p) = est_point p + point_escapes p"
  by (cases "dp_description p"; cases "dp_custom_data p")
    (auto simp: point_json_def sizes complete_point_def est_point_def point_escapes_def text_extra_def
      missing_description_def custom_size_def mcl_string_util_strlen_def ITEM_DATA_POINT_BASE_SIZE_def
      ITEM_EVENT_PAYLOAD_DESCRIPTION_SIZE_def ITEM_DATA_SOURCE_CONFIGURATION_PAYLOAD_CUSTOM_DATA_SIZE_def)

definition est_source :: "data_source_t \<Rightarrow> nat" where
  "est_source d = ITEM_DATA_SOURCE_BASE_SIZE + mcl_string_util_strlen (ds_name d) +
     mcl_string_util_strlen (ds_description d) + sum_list (map est_point (ds_data_points d)) +
     (length (ds_data_points d) - 1) + custom_size (ds_custom_data d)"

definition source_escapes :: "data_source_t \<Rightarrow> nat" where
  "source_escapes d = text_extra (ds_name d) + text_extra (ds_description d) +
     sum_list (map point_escapes (ds_data_points d))"

definition source_unused :: "data_source_t \<Rightarrow> nat" where
  "source_unused d = missing_description (ds_description d) +
     sum_list (map (\<lambda>p. missing_description (dp_description p)) (ds_data_points d))"

lemma size_source:
  assumes "w_alloc w = []" and "complete_source d"
  shows "run_state (item_payload_size_for_data_source d) w = (of_nat (est_source d), w)"
proof -
  have "run_state (add_sizes item_payload_size_for_data_point (ds_data_points d) (of_nat n)) w =
      (of_nat (n + sum_list (map est_point (ds_data_points d))), w)" for n
    by (rule run_add_sizes) (simp add: size_point assms(1))
  then show ?thesis
    using assms
    by (simp add: item_payload_size_for_data_source_def run_bind sizes est_source_def complete_source_def
        flip: of_nat_add)
qed

text \<open>As \<open>sum_with_delimiters\<close>, with members that are counted and left out.\<close>

lemma sum_with_unused:
  fixes f g h u :: "'a \<Rightarrow> nat"
  assumes "xs \<noteq> []" and "\<And>x. x \<in> set xs \<Longrightarrow> f x + u x = g x + h x"
  shows "sum_list (map (\<lambda>x. f x + 1) xs) + sum_list (map u xs) =
     sum_list (map g xs) + (length xs - 1) + sum_list (map h xs) + 1"
proof -
  have "sum_list (map (\<lambda>x. f x + 1) xs) + sum_list (map u xs) =
      sum_list (map g xs) + sum_list (map h xs) + length xs"
    using assms(2) by (induction xs) (simp_all, fastforce)
  then show ?thesis using assms(1) by (cases xs) auto
qed

lemma printed_source:
  assumes "complete_source d"
  shows "printed (source_json d) + source_unused d = est_source d + source_escapes d"
proof -
  have "sum_list (map (\<lambda>p. printed (point_json p) + 1) (ds_data_points d)) +
      sum_list (map (\<lambda>p. missing_description (dp_description p)) (ds_data_points d)) =
      sum_list (map est_point (ds_data_points d)) + (length (ds_data_points d) - 1) +
      sum_list (map point_escapes (ds_data_points d)) + 1"
    using assms by (intro sum_with_unused) (auto simp: complete_source_def list_all_iff printed_point)
  then show ?thesis
    using assms
    by (cases "ds_description d"; cases "ds_custom_data d")
      (auto simp: source_json_def sizes complete_source_def est_source_def source_escapes_def
        source_unused_def missing_description_def text_extra_def custom_size_def
        mcl_string_util_strlen_def ITEM_DATA_SOURCE_BASE_SIZE_def ITEM_EVENT_PAYLOAD_DESCRIPTION_SIZE_def
        ITEM_DATA_SOURCE_CONFIGURATION_PAYLOAD_CUSTOM_DATA_SIZE_def)
qed

definition est_configuration :: "data_source_configuration_t \<Rightarrow> nat" where
  "est_configuration c = ITEM_DATA_SOURCE_CONFIGURATION_PAYLOAD_BASE_SIZE +
     mcl_string_util_strlen (dsc_configuration_id c) + sum_list (map est_source (dsc_data_sources c)) +
     (length (dsc_data_sources c) - 1)"

definition configuration_escapes :: "data_source_configuration_t \<Rightarrow> nat" where
  "configuration_escapes c = text_extra (dsc_configuration_id c) +
     sum_list (map source_escapes (dsc_data_sources c))"

lemma size_configuration:
  assumes "w_alloc w = []" and "complete_configuration c"
  shows "run_state (item_payload_size_for_data_source_configuration c) w = (of_nat (est_configuration c), w)"
proof -
  have "run_state (add_sizes item_payload_size_for_data_source (dsc_data_sources c) (of_nat n)) w =
      (of_nat (n + sum_list (map est_source (dsc_data_sources c))), w)" for n
    using assms(2)
    by (intro run_add_sizes) (simp add: size_source assms(1) complete_configuration_def list_all_iff)
  then show ?thesis
    using assms
    by (simp add: item_payload_size_for_data_source_configuration_def run_bind sizes est_configuration_def
        complete_configuration_def flip: of_nat_add)
qed

lemma printed_configuration:
  assumes "complete_configuration c"
  shows "printed (configuration_json c) + sum_list (map source_unused (dsc_data_sources c)) =
     est_configuration c + configuration_escapes c"
proof -
  have "sum_list (map (\<lambda>d. printed (source_json d) + 1) (dsc_data_sources c)) +
      sum_list (map source_unused (dsc_data_sources c)) =
      sum_list (map est_source (dsc_data_sources c)) + (length (dsc_data_sources c) - 1) +
      sum_list (map source_escapes (dsc_data_sources c)) + 1"
    using assms by (intro sum_with_unused) (auto simp: complete_configuration_def list_all_iff printed_source)
  then show ?thesis
    using assms
    by (auto simp: configuration_json_def sizes complete_configuration_def est_configuration_def
        configuration_escapes_def text_extra_def mcl_string_util_strlen_def
        ITEM_DATA_SOURCE_CONFIGURATION_PAYLOAD_BASE_SIZE_def)
qed

section \<open>Items\<close>

definition est_custom_meta :: "custom_data_t \<Rightarrow> nat" where
  "est_custom_meta c = ITEM_CUSTOM_DATA_META_PAYLOAD_BASE_SIZE + mcl_string_util_strlen (cd_type c) +
     mcl_string_util_strlen (cd_version c) +
     (case cd_details c of None \<Rightarrow> 0 | Some j \<Rightarrow> ITEM_CUSTOM_DATA_META_PAYLOAD_DETAILS_SIZE + printed j)"

definition est_meta :: "item \<Rightarrow> nat" where
  "est_meta item = ITEM_META_BASE_SIZE +
     (case item of
        Timeseries t \<Rightarrow> ITEM_TIMESERIES_META_PAYLOAD_BASE_SIZE +
          mcl_string_util_strlen (ts_configuration_id t) + length (mcl_timeseries_versions ! item_version t)
      | Event e \<Rightarrow> ITEM_EVENT_META_PAYLOAD_BASE_SIZE + length (mcl_event_versions ! item_version e)
      | File f \<Rightarrow> ITEM_FILE_META_PAYLOAD_BASE_SIZE + mcl_string_util_strlen (fl_remote_name f) +
          (if fl_type f \<noteq> None then ITEM_FILE_META_PAYLOAD_FILE_TYPE_SIZE + mcl_string_util_strlen (fl_type f) else 0) +
          length (mcl_file_versions ! item_version f)
      | CustomData c \<Rightarrow> est_custom_meta c
      | DataSourceConfiguration c \<Rightarrow> ITEM_DATA_SOURCE_CONFIGURATION_META_PAYLOAD_BASE_SIZE +
          length (mcl_data_source_configuration_versions ! item_version c))"

definition est_payload :: "item \<Rightarrow> nat" where
  "est_payload item =
     (case item of Timeseries t \<Rightarrow> est_timeseries t | Event e \<Rightarrow> est_event e | File f \<Rightarrow> fl_size f
      | CustomData c \<Rightarrow> cd_size c | DataSourceConfiguration c \<Rightarrow> est_configuration c)"

definition meta_escapes :: "item \<Rightarrow> nat" where
  "meta_escapes item =
     (case item of Timeseries t \<Rightarrow> text_extra (ts_configuration_id t)
      | File f \<Rightarrow> text_extra (fl_remote_name f) + text_extra (fl_creation_date f) + text_extra (fl_type f)
      | CustomData c \<Rightarrow> text_extra (cd_type c) + text_extra (cd_version c)
      | _ \<Rightarrow> 0)"

definition item_escapes :: "item \<Rightarrow> nat" where
  "item_escapes item = meta_escapes item +
     (case item of Timeseries t \<Rightarrow> sum_list (map value_list_escapes (ts_value_lists t))
      | Event e \<Rightarrow> event_escapes e
      | DataSourceConfiguration c \<Rightarrow> configuration_escapes c
      | _ \<Rightarrow> 0)"

definition item_unused :: "item \<Rightarrow> nat" where
  "item_unused item =
     (case item of Event e \<Rightarrow> event_unused e
      | DataSourceConfiguration c \<Rightarrow> sum_list (map source_unused (dsc_data_sources c))
      | _ \<Rightarrow> 0)"

text \<open>Timestamps of full length, and a severity of the table.\<close>

definition item_timed :: "item \<Rightarrow> bool" where
  "item_timed item =
     (case item of Timeseries t \<Rightarrow> \<forall>l \<in> set (ts_value_lists t). timed (tvl_timestamp l)
      | Event e \<Rightarrow> timed (ev_timestamp e) \<and> severity_ok e
      | File f \<Rightarrow> timed (fl_creation_date f)
      | _ \<Rightarrow> True)"

lemma run_meta_size:
  "w_alloc w = [] \<Longrightarrow> run_state (item_meta_size item) w = (of_nat (est_meta item), w)"
  by (cases item)
    (auto simp: item_meta_size_def est_meta_def run_bind custom_data_meta_size_def est_custom_meta_def
      sizes split: option.split)

lemma run_item_size:
  assumes "w_alloc w = []" and "complete_item item"
  shows "run_state (json_get_item_size item) w = (of_nat (est_meta item + est_payload item), w)"
  using assms
  by (cases item)
    (simp_all add: json_get_item_size_def run_bind run_meta_size est_payload_def complete_item_def
      size_timeseries size_event size_configuration)

lemma version_extra:
  "v < 1 \<Longrightarrow> extra (mcl_timeseries_versions ! v) = 0" "v < 2 \<Longrightarrow> extra (mcl_event_versions ! v) = 0"
  "v < 1 \<Longrightarrow> extra (mcl_file_versions ! v) = 0"
  "v < 1 \<Longrightarrow> extra (mcl_data_source_configuration_versions ! v) = 0"
  by (auto intro!: extra_plain simp: plain_def mcl_timeseries_versions_def mcl_event_versions_def
      mcl_file_versions_def mcl_data_source_configuration_versions_def less_2_cases_iff)

lemma extra_types [simp]:
  "extra ''item'' = 0" "extra ''1.0'' = 0" "extra ''standardTimeSeries'' = 0" "extra ''businessEvent'' = 0"
  "extra ''file'' = 0" "extra ''dataSourceConfiguration'' = 0"
  by (simp_all add: extra_plain plain_def)

lemma printed_meta:
  assumes "complete_item item" and "item_timed item"
  shows "printed (meta_json item) = est_meta item + meta_escapes item"
proof (cases item)
  case (File f)
  then obtain n d where "fl_remote_name f = Some n" "fl_creation_date f = Some d" "length d = 24"
    using assms by (auto simp: complete_item_def item_timed_def timed_def)
  with File assms(1) show ?thesis
    by (cases "fl_type f")
      (simp_all add: meta_json_def details_members_def payload_type_and_version_def sizes est_meta_def
        meta_escapes_def text_extra_def ITEM_META_BASE_SIZE_def ITEM_FILE_META_PAYLOAD_BASE_SIZE_def
        ITEM_FILE_META_PAYLOAD_FILE_TYPE_SIZE_def mcl_string_util_strlen_def MCL_TIMESTAMP_LENGTH_def
        complete_item_def version_extra del: One_nat_def)
next
  case (CustomData c)
  then obtain n d where "cd_type c = Some n" "cd_version c = Some d"
    using assms by (auto simp: complete_item_def)
  with CustomData show ?thesis
    by (cases "cd_details c")
      (simp_all add: meta_json_def details_members_def payload_type_and_version_def sizes est_meta_def
        meta_escapes_def text_extra_def ITEM_META_BASE_SIZE_def ITEM_CUSTOM_DATA_META_PAYLOAD_BASE_SIZE_def
        ITEM_CUSTOM_DATA_META_PAYLOAD_DETAILS_SIZE_def mcl_string_util_strlen_def est_custom_meta_def)
qed (use assms in \<open>auto simp: meta_json_def details_members_def payload_type_and_version_def sizes est_meta_def
        meta_escapes_def text_extra_def ITEM_META_BASE_SIZE_def ITEM_TIMESERIES_META_PAYLOAD_BASE_SIZE_def
        ITEM_EVENT_META_PAYLOAD_BASE_SIZE_def ITEM_DATA_SOURCE_CONFIGURATION_META_PAYLOAD_BASE_SIZE_def
        mcl_string_util_strlen_def complete_item_def complete_timeseries_def version_extra
        simp del: One_nat_def\<close>)

text \<open>The text of the payload document, where there is one.\<close>

definition payload_text :: "item \<Rightarrow> string" where
  "payload_text item =
     (case item of
        Timeseries t \<Rightarrow> json_print (timeseries_json t)
      | Event e \<Rightarrow> json_print (Json CArray [(None, event_json e)])
      | DataSourceConfiguration c \<Rightarrow> json_print (configuration_json c)
      | _ \<Rightarrow> [])"

definition has_payload_document :: "item \<Rightarrow> bool" where
  "has_payload_document item \<longleftrightarrow> (case item of File _ \<Rightarrow> False | CustomData _ \<Rightarrow> False | _ \<Rightarrow> True)"

lemma run_payload:
  assumes "w_alloc w = []" and "complete_item item" and "has_payload_document item"
  shows "run_state (json_from_item_payload item) w = ((MCL_OK, Some (payload_text item)), w)"
  using assms
  by (cases item) (simp_all add: json_from_item_payload_def payload_text_def complete_item_def
      has_payload_document_def run_timeseries run_event run_configuration)

lemma payload_length:
  assumes "complete_item item" and "item_timed item" and "has_payload_document item"
  shows "length (payload_text item) + item_unused item + meta_escapes item = est_payload item + item_escapes item"
  using assms printed_timeseries printed_event printed_configuration unfolding printed_def
  by (cases item) (auto simp: payload_text_def est_payload_def item_unused_def item_escapes_def
      complete_item_def item_timed_def has_payload_document_def meta_escapes_def)

section \<open>Properties\<close>

text \<open>C18. While memory suffices, the size estimated for a complete item and the length of the
  documents that are then built differ by exactly two amounts: the characters that the escapes of
  its strings add are missing from the estimate, and the optional members that are left out are
  counted. An item without either is estimated exactly.\<close>

theorem item_size_estimate:
  assumes "w_alloc w = []" and "complete_item item" and "item_timed item" and "has_payload_document item"
  shows "\<exists>n meta payload.
     run_state (json_get_item_size item) w = (of_nat n, w) \<and>
     run_state (json_from_item_meta item) w = ((MCL_OK, Some meta), w) \<and>
     run_state (json_from_item_payload item) w = ((MCL_OK, Some payload), w) \<and>
     length meta + length payload + item_unused item = n + item_escapes item"
proof (intro exI conjI)
  show "run_state (json_get_item_size item) w = (of_nat (est_meta item + est_payload item), w)"
    using assms(1,2) by (rule run_item_size)
  show "run_state (json_from_item_meta item) w = ((MCL_OK, Some (json_print (meta_json item))), w)"
    using assms(1,2) by (rule run_meta)
  show "run_state (json_from_item_payload item) w = ((MCL_OK, Some (payload_text item)), w)"
    using assms(1,2,4) by (rule run_payload)
  show "length (json_print (meta_json item)) + length (payload_text item) + item_unused item =
      est_meta item + est_payload item + item_escapes item"
    using printed_meta [OF assms(2,3)] payload_length [OF assms(2-4)] by (simp add: printed_def)
qed

text \<open>A timeseries with one value of three strings.\<close>

definition one_value :: "string \<Rightarrow> item" where
  "one_value v = Timeseries \<lparr>preamble = MCL_ITEM_PREAMBLE, item_type = MCL_ITEM_TYPE_TIMESERIES,
     item_version = 0, ts_configuration_id = Some ''c'',
     ts_value_lists = [\<lparr>tvl_values = [\<lparr>tv_data_point_id = Some ''d'', tv_quality_code = Some ''0'',
       tv_value = Some v\<rparr>], tvl_timestamp = Some ''2019-12-31T10:10:10.999Z''\<rparr>]\<rparr>"

lemma one_value_facts:
  "complete_item (one_value v)" "item_timed (one_value v)" "has_payload_document (one_value v)"
  "item_unused (one_value v) = 0" "item_escapes (one_value v) = extra v"
proof -
  have "extra ''c'' = 0" "extra ''d'' = 0" "extra ''0'' = 0" "extra ''2019-12-31T10:10:10.999Z'' = 0"
    by (simp_all add: extra_plain plain_def)
  then show "item_escapes (one_value v) = extra v"
    by (simp add: one_value_def item_escapes_def meta_escapes_def text_extra_def value_list_escapes_def
        value_escapes_def)
qed (simp_all add: one_value_def complete_item_def complete_timeseries_def complete_value_list_def
      complete_value_def item_timed_def timed_def has_payload_document_def item_unused_def)

theorem item_size_estimate_witness:
  \<open>\<exists>n meta payload.
     run_state (json_get_item_size (one_value ''2"'')) \<lparr>w_alloc = [], w_random = []\<rparr> =
       (of_nat n, \<lparr>w_alloc = [], w_random = []\<rparr>) \<and>
     run_state (json_from_item_meta (one_value ''2"'')) \<lparr>w_alloc = [], w_random = []\<rparr> =
       ((MCL_OK, Some meta), \<lparr>w_alloc = [], w_random = []\<rparr>) \<and>
     run_state (json_from_item_payload (one_value ''2"'')) \<lparr>w_alloc = [], w_random = []\<rparr> =
       ((MCL_OK, Some payload), \<lparr>w_alloc = [], w_random = []\<rparr>) \<and>
     length meta + length payload = n + 1\<close>
proof -
  have \<open>extra ''2"'' = 1\<close> by (simp add: extra_def print_string_def escape_char_def)
  then show ?thesis
    using item_size_estimate [of "\<lparr>w_alloc = [], w_random = []\<rparr>" \<open>one_value ''2"''\<close>]
    by (simp add: one_value_facts)
qed

end
