(* ===== verification/MclItemParse.thy ===== *)
theory MclItemParse
  imports MclItemSpec
begin

text \<open>
  The parser of data source configurations reads back what the builder wrote. The facts that run
  one statement of the parser are in the collection \<open>parse\<close>.
\<close>

named_theorems parse

section \<open>Statements\<close>

lemma get_object_item_simps [parse]:
  "json_util_get_object_item (Json v []) n = Err MCL_JSON_NON_EXISTING_CHILD"
  "json_util_get_object_item (Json v ((Some m, j) # cs)) n =
     (if map lower_code n = map lower_code m then Ok j else json_util_get_object_item (Json v cs) n)"
  by (simp_all add: json_util_get_object_item_def cJSON_GetObjectItem_def same_name_def map_LOWERCASE_eq)

lemma get_object_item_optional [parse]:
  "json_util_get_object_item (Json v (optional_member m x f @ cs)) n =
     (case x of None \<Rightarrow> json_util_get_object_item (Json v cs) n
      | Some y \<Rightarrow> if map lower_code n = map lower_code m then Ok (f y)
                  else json_util_get_object_item (Json v cs) n)"
  "json_util_get_object_item (Json v (optional_member m x f)) n =
     (case x of None \<Rightarrow> Err MCL_JSON_NON_EXISTING_CHILD
      | Some y \<Rightarrow> if map lower_code n = map lower_code m then Ok (f y)
                  else Err MCL_JSON_NON_EXISTING_CHILD)"
  by (cases x; simp add: get_object_item_simps)+

lemma run_get_string [parse]:
  "w_alloc w = [] \<Longrightarrow> run_state (json_util_get_string (str s)) w = ((MCL_OK, Some s), w)"
  by (simp add: json_util_get_string_def str_def)

lemma run_parse_elements:
  assumes "w_alloc w = []"
    and "\<And>x. x \<in> set xs \<Longrightarrow> run_state (parser (f x)) w = (Some (MCL_OK, Some x), w)"
  shows "run_state (parse_elements parser (map f xs) ys) w = (Some (MCL_OK, ys @ xs), w)"
  using assms by (induction xs arbitrary: ys) simp_all

lemma run_fill_list:
  assumes "w_alloc w = []"
    and "\<And>x. x \<in> set xs \<Longrightarrow> run_state (parser (f x)) w = (Some (MCL_OK, Some x), w)"
  shows "run_state (fill_list_using_json_array (Json CArray (map (\<lambda>x. (None, f x)) xs)) parser) w =
     (Some (MCL_OK, xs), w)"
  using run_parse_elements [of w xs parser f "[]"] assms
  by (simp add: fill_list_using_json_array_def json_util_get_array_size_def comp_def)

lemma run_parse_data_point:
  assumes "w_alloc w = []" and "complete_point p"
  shows "run_state (parse_data_point (point_json p)) w = (Some (MCL_OK, Some p), w)"
proof -
  obtain i n t u where "dp_id p = Some i" "dp_name p = Some n" "dp_type p = Some t" "dp_unit p = Some u"
    using assms(2) by (auto simp: complete_point_def)
  then show ?thesis
    using assms(1)
    by (cases "dp_description p"; cases "dp_custom_data p")
      (simp_all add: parse_data_point_def mcl_data_point_initialize_def point_json_def
        parse_and_get_string_value_def parse lower_code_def tolerate_missing_def parse_custom_data_def
        run_duplicate)
qed

lemma run_parse_data_source:
  assumes "w_alloc w = []" and "complete_source d"
  shows "run_state (parse_data_source (source_json d)) w = (Some (MCL_OK, Some d), w)"
proof -
  obtain n where "ds_name d = Some n" using assms(2) by (auto simp: complete_source_def)
  moreover have "run_state (fill_list_using_json_array
      (Json CArray (map (\<lambda>p. (None, point_json p)) (ds_data_points d))) parse_data_point) w =
      (Some (MCL_OK, ds_data_points d), w)"
    using assms by (intro run_fill_list) (auto simp: complete_source_def list_all_iff run_parse_data_point)
  ultimately show ?thesis
    using assms(1)
    by (cases "ds_description d"; cases "ds_custom_data d")
      (simp_all add: parse_data_source_def mcl_data_source_initialize_def source_json_def
        parse_and_get_string_value_def parse lower_code_def tolerate_missing_def parse_custom_data_def
        run_duplicate parse_list_member_def)
qed

text \<open>The base of a configuration as it is initialised.\<close>

definition configuration_base :: "data_source_configuration_t \<Rightarrow> bool" where
  "configuration_base c \<longleftrightarrow> preamble c = MCL_ITEM_PREAMBLE \<and>
     item_type c = MCL_ITEM_TYPE_DATA_SOURCE_CONFIGURATION \<and> item_version c = 0"

lemma run_parse_configuration:
  assumes "w_alloc w = []" and "complete_configuration c" and "configuration_base c"
  shows "run_state (parse_data_source_configuration (configuration_json c)) w = (Some (MCL_OK, Some c), w)"
proof -
  obtain n where "dsc_configuration_id c = Some n" using assms(2) by (auto simp: complete_configuration_def)
  moreover have "run_state (fill_list_using_json_array
      (Json CArray (map (\<lambda>d. (None, source_json d)) (dsc_data_sources c))) parse_data_source) w =
      (Some (MCL_OK, dsc_data_sources c), w)"
    using assms by (intro run_fill_list) (auto simp: complete_configuration_def list_all_iff run_parse_data_source)
  ultimately show ?thesis
    using assms(1,3)
    by (simp add: parse_data_source_configuration_def mcl_data_source_configuration_initialize_def
        mcl_data_source_configuration_versions_def configuration_json_def configuration_base_def
        parse_and_get_string_value_def parse lower_code_def parse_list_member_def)
qed

text \<open>
  When the list cannot take a parsed element, its destructor is called with the element in the
  place of a pointer to it.
\<close>

lemma parse_elements_undefined:
  assumes "run_state (parser j) w = (Some (MCL_OK, Some x), w')" and "w_alloc w' = False # bs"
  shows "fst (run_state (parse_elements parser (j # js) xs) w) = None"
  using assms by (simp add: run_malloc run_bind)

lemma parse_all_text:
  "json_util_parse cJSON_parse s (length s) =
     (case cJSON_parse s of None \<Rightarrow> Err MCL_FAIL | Some j \<Rightarrow> Ok j)"
  by (cases "s = []") (simp_all add: json_util_parse_def)

section \<open>Properties\<close>

text \<open>C22. A complete data source configuration survives the round trip: the document built from it,
  parsed by cJSON into the tree it was printed from, is read back as the same configuration.\<close>

theorem configuration_round_trip:
  assumes "w_alloc w = []" and "complete_configuration c" and "configuration_base c"
    and "cJSON_parse (json_print (configuration_json c)) = Some (configuration_json c)"
  shows "\<exists>text. run_state (json_from_item_payload (DataSourceConfiguration c)) w = ((MCL_OK, Some text), w) \<and>
     run_state (json_parse_item cJSON_parse text (length text)) w = (Some (MCL_OK, Some c), w)"
proof (intro exI conjI)
  show "run_state (json_from_item_payload (DataSourceConfiguration c)) w =
      ((MCL_OK, Some (json_print (configuration_json c))), w)"
    using assms(1,2) by (simp add: json_from_item_payload_def run_configuration)
  show "run_state (json_parse_item cJSON_parse (json_print (configuration_json c))
      (length (json_print (configuration_json c)))) w = (Some (MCL_OK, Some c), w)"
    using assms by (simp add: json_parse_item_def parse_all_text run_parse_configuration)
qed

definition sample_configuration :: data_source_configuration_t where
  "sample_configuration = \<lparr>preamble = MCL_ITEM_PREAMBLE,
     item_type = MCL_ITEM_TYPE_DATA_SOURCE_CONFIGURATION,
     item_version = 0, dsc_configuration_id = Some ''c'',
     dsc_data_sources = [\<lparr>ds_name = Some ''s'', ds_description = None,
       ds_data_points = [\<lparr>dp_id = Some ''i'', dp_name = Some ''n'', dp_description = Some ''d'',
         dp_type = Some ''INT'', dp_unit = Some ''C'', dp_custom_data = Some (Json CObject [])\<rparr>],
       ds_custom_data = None\<rparr>]\<rparr>"

theorem configuration_round_trip_witness:
  "\<exists>text. run_state (json_from_item_payload (DataSourceConfiguration sample_configuration))
         \<lparr>w_alloc = [], w_random = []\<rparr> = ((MCL_OK, Some text), \<lparr>w_alloc = [], w_random = []\<rparr>) \<and>
     run_state (json_parse_item
         (\<lambda>s. if s = json_print (configuration_json sample_configuration)
              then Some (configuration_json sample_configuration) else None)
         text (length text)) \<lparr>w_alloc = [], w_random = []\<rparr> =
       (Some (MCL_OK, Some sample_configuration), \<lparr>w_alloc = [], w_random = []\<rparr>)"
  by (rule configuration_round_trip)
    (simp_all add: sample_configuration_def complete_configuration_def complete_source_def
      complete_point_def configuration_base_def)

end
