(* ===== verification/MclMultipart.thy ===== *)
theory MclMultipart
  imports MclItemSize
begin

text \<open>
  The multipart message of an upload, after \<open>src/mcl_connectivity/src/multipart.c\<close>: the state machine
  that writes the tuple of one item (two boundaries, the meta document, the payload document) into
  the request buffer, the closing boundary, and the sizes of both.

  A pointer into the buffer is the block with an offset, the buffer size that is left an argument
  and a result. A write outside the block is \<open>None\<close>. The callback that delivers the payload of
  files and custom data maps its context and the number of characters it may write to what it
  writes and its next context.
\<close>

section \<open>Constants\<close>

definition boundary_sign :: string where "boundary_sign = ''--''"
definition content_type :: string where "content_type = ''Content-Type: ''"
definition boundary_key :: string where "boundary_key = '';boundary=''"
definition endline :: string where "endline = [CHR 0x0D, CHR 0x0A, CHR 0x0D, CHR 0x0A]"
definition boundary_characters :: string where
  "boundary_characters = ''1234567890abcdefghijklmnopqrstuvwxyzABCDEFGHIJKLMNOPQRSTUVWXYZ''"
definition content_type_multipart_related :: string where
  "content_type_multipart_related = ''multipart/related''"
definition content_type_meta_json :: string where
  "content_type_meta_json = ''application/vnd.siemens.mindsphere.meta+json''"
definition content_type_application_json :: string where
  "content_type_application_json = ''application/json''"

definition BOUNDARY_SIGN_LENGTH :: nat where "BOUNDARY_SIGN_LENGTH = length boundary_sign"
definition CONTENT_TYPE_LENGTH :: nat where "CONTENT_TYPE_LENGTH = length content_type"
definition BOUNDARY_KEY_LENGTH :: nat where "BOUNDARY_KEY_LENGTH = length boundary_key"
definition DOUBLE_ENDLINE_LENGTH :: nat where "DOUBLE_ENDLINE_LENGTH = length endline"
definition ENDLINE_LENGTH :: nat where "ENDLINE_LENGTH = DOUBLE_ENDLINE_LENGTH div 2"
definition BOUNDARY_LENGTH :: nat where "BOUNDARY_LENGTH = 20"
definition CONTENT_TYPE_MULTIPART_RELATED_LENGTH :: nat where
  "CONTENT_TYPE_MULTIPART_RELATED_LENGTH = length content_type_multipart_related"
definition CONTENT_TYPE_META_JSON_LENGTH :: nat where
  "CONTENT_TYPE_META_JSON_LENGTH = length content_type_meta_json"

definition MULTIPART_BASE_SIZE :: nat where
  "MULTIPART_BASE_SIZE = 5 * BOUNDARY_SIGN_LENGTH + 5 * BOUNDARY_LENGTH + 3 * CONTENT_TYPE_LENGTH +
     CONTENT_TYPE_MULTIPART_RELATED_LENGTH + BOUNDARY_KEY_LENGTH + CONTENT_TYPE_META_JSON_LENGTH +
     12 * ENDLINE_LENGTH"

definition MULTIPART_CLOSE_LENGTH :: nat where
  "MULTIPART_CLOSE_LENGTH = BOUNDARY_LENGTH + 2 * BOUNDARY_SIGN_LENGTH"

lemmas multipart_lengths = BOUNDARY_SIGN_LENGTH_def CONTENT_TYPE_LENGTH_def BOUNDARY_KEY_LENGTH_def
  DOUBLE_ENDLINE_LENGTH_def ENDLINE_LENGTH_def BOUNDARY_LENGTH_def
  CONTENT_TYPE_MULTIPART_RELATED_LENGTH_def CONTENT_TYPE_META_JSON_LENGTH_def

lemmas multipart_strings = boundary_sign_def content_type_def boundary_key_def endline_def
  content_type_multipart_related_def content_type_meta_json_def

datatype E_MULTIPART_STATE =
    MULTIPART_STATE_OPEN_MAIN_BOUNDARY
  | MULTIPART_STATE_CONTENT_TYPE_KEY_FOR_MULTIPART_RELATED
  | MULTIPART_STATE_CONTENT_TYPE_VALUE_MULTIPART_RELATED
  | MULTIPART_STATE_BOUNDARY_KEY
  | MULTIPART_STATE_BOUNDARY_VALUE_SUB_BOUNDARY
  | MULTIPART_STATE_DOUBLE_ENDLINE_FIRST
  | MULTIPART_STATE_OPEN_SUB_BOUNDARY_FIRST
  | MULTIPART_STATE_CONTENT_TYPE_KEY_FOR_META_JSON
  | MULTIPART_STATE_CONTENT_TYPE_VALUE_META_JSON
  | MULTIPART_STATE_DOUBLE_ENDLINE_SECOND
  | MULTIPART_STATE_ITEM_META_JSON
  | MULTIPART_STATE_ENDLINE_FIRST
  | MULTIPART_STATE_OPEN_SUB_BOUNDARY_SECOND
  | MULTIPART_STATE_CONTENT_TYPE_KEY_FOR_PAYLOAD
  | MULTIPART_STATE_CONTENT_TYPE_VALUE_PAYLOAD
  | MULTIPART_STATE_DOUBLE_ENDLINE_THIRD
  | MULTIPART_STATE_ITEM_PAYLOAD
  | MULTIPART_STATE_ENDLINE_SECOND
  | MULTIPART_STATE_CLOSE_SUB_BOUNDARY

text \<open>The states in the order of the enumeration, up to \<open>MULTIPART_STATE_END\<close>.\<close>

definition multipart_states :: "E_MULTIPART_STATE list" where
  "multipart_states =
    [MULTIPART_STATE_OPEN_MAIN_BOUNDARY, MULTIPART_STATE_CONTENT_TYPE_KEY_FOR_MULTIPART_RELATED,
     MULTIPART_STATE_CONTENT_TYPE_VALUE_MULTIPART_RELATED, MULTIPART_STATE_BOUNDARY_KEY,
     MULTIPART_STATE_BOUNDARY_VALUE_SUB_BOUNDARY, MULTIPART_STATE_DOUBLE_ENDLINE_FIRST,
     MULTIPART_STATE_OPEN_SUB_BOUNDARY_FIRST, MULTIPART_STATE_CONTENT_TYPE_KEY_FOR_META_JSON,
     MULTIPART_STATE_CONTENT_TYPE_VALUE_META_JSON, MULTIPART_STATE_DOUBLE_ENDLINE_SECOND,
     MULTIPART_STATE_ITEM_META_JSON, MULTIPART_STATE_ENDLINE_FIRST,
     MULTIPART_STATE_OPEN_SUB_BOUNDARY_SECOND, MULTIPART_STATE_CONTENT_TYPE_KEY_FOR_PAYLOAD,
     MULTIPART_STATE_CONTENT_TYPE_VALUE_PAYLOAD, MULTIPART_STATE_DOUBLE_ENDLINE_THIRD,
     MULTIPART_STATE_ITEM_PAYLOAD, MULTIPART_STATE_ENDLINE_SECOND, MULTIPART_STATE_CLOSE_SUB_BOUNDARY]"

definition space_needed_for_state :: "E_MULTIPART_STATE \<Rightarrow> nat" where
  "space_needed_for_state st =
     (case st of
        MULTIPART_STATE_OPEN_MAIN_BOUNDARY \<Rightarrow> BOUNDARY_SIGN_LENGTH + BOUNDARY_LENGTH + ENDLINE_LENGTH
      | MULTIPART_STATE_CONTENT_TYPE_KEY_FOR_MULTIPART_RELATED \<Rightarrow> CONTENT_TYPE_LENGTH
      | MULTIPART_STATE_CONTENT_TYPE_VALUE_MULTIPART_RELATED \<Rightarrow> CONTENT_TYPE_MULTIPART_RELATED_LENGTH
      | MULTIPART_STATE_BOUNDARY_KEY \<Rightarrow> BOUNDARY_KEY_LENGTH
      | MULTIPART_STATE_BOUNDARY_VALUE_SUB_BOUNDARY \<Rightarrow> BOUNDARY_LENGTH
      | MULTIPART_STATE_DOUBLE_ENDLINE_FIRST \<Rightarrow> DOUBLE_ENDLINE_LENGTH
      | MULTIPART_STATE_OPEN_SUB_BOUNDARY_FIRST \<Rightarrow> BOUNDARY_SIGN_LENGTH + BOUNDARY_LENGTH + ENDLINE_LENGTH
      | MULTIPART_STATE_CONTENT_TYPE_KEY_FOR_META_JSON \<Rightarrow> CONTENT_TYPE_LENGTH
      | MULTIPART_STATE_CONTENT_TYPE_VALUE_META_JSON \<Rightarrow> CONTENT_TYPE_META_JSON_LENGTH
      | MULTIPART_STATE_DOUBLE_ENDLINE_SECOND \<Rightarrow> DOUBLE_ENDLINE_LENGTH
      | MULTIPART_STATE_ITEM_META_JSON \<Rightarrow> 0
      | MULTIPART_STATE_ENDLINE_FIRST \<Rightarrow> ENDLINE_LENGTH
      | MULTIPART_STATE_OPEN_SUB_BOUNDARY_SECOND \<Rightarrow> BOUNDARY_SIGN_LENGTH + BOUNDARY_LENGTH + ENDLINE_LENGTH
      | MULTIPART_STATE_CONTENT_TYPE_KEY_FOR_PAYLOAD \<Rightarrow> CONTENT_TYPE_LENGTH
      | MULTIPART_STATE_CONTENT_TYPE_VALUE_PAYLOAD \<Rightarrow> 0
      | MULTIPART_STATE_DOUBLE_ENDLINE_THIRD \<Rightarrow> DOUBLE_ENDLINE_LENGTH
      | MULTIPART_STATE_ITEM_PAYLOAD \<Rightarrow> 0
      | MULTIPART_STATE_ENDLINE_SECOND \<Rightarrow> ENDLINE_LENGTH
      | MULTIPART_STATE_CLOSE_SUB_BOUNDARY \<Rightarrow> 2 * BOUNDARY_SIGN_LENGTH + BOUNDARY_LENGTH + ENDLINE_LENGTH)"

section \<open>Operations\<close>

text \<open>The boundary that separates the parts: random characters of an alphabet of 62.\<close>

definition pick_boundary_character :: "8 word \<Rightarrow> char" where
  "pick_boundary_character b = boundary_characters ! (unat b mod length boundary_characters)"

definition multipart_generate_boundary :: "('z, mcl_error \<times> string option) io" where
  "multipart_generate_boundary = do {
     a \<leftarrow> mcl_malloc;
     if \<not> a then State_Monad.return (MCL_OUT_OF_MEMORY, None)
     else do {
       r \<leftarrow> mcl_random_generate_bytes BOUNDARY_LENGTH;
       State_Monad.return
         (case r of Err e \<Rightarrow> (e, None) | Ok bytes \<Rightarrow> (MCL_OK, Some (map pick_boundary_character bytes)))
     }
   }"

definition add_boundary :: "char block \<Rightarrow> nat \<Rightarrow> string \<Rightarrow> bool \<Rightarrow> char block option" where
  "add_boundary buffer position boundary add_and_close = do {
     buffer \<leftarrow> string_util_memcpy buffer position boundary_sign BOUNDARY_SIGN_LENGTH;
     let position = position + BOUNDARY_SIGN_LENGTH;
     buffer \<leftarrow> string_util_memcpy buffer position (cstr boundary) BOUNDARY_LENGTH;
     let position = position + BOUNDARY_LENGTH;
     buffer \<leftarrow> (if add_and_close
                then string_util_memcpy buffer position boundary_sign BOUNDARY_SIGN_LENGTH
                else Some buffer);
     let position = (if add_and_close then position + BOUNDARY_SIGN_LENGTH else position);
     string_util_memcpy buffer position endline ENDLINE_LENGTH
   }"

text \<open>
  The result of a state: a code, the buffer, the position and the size that is left.
  \<open>add_text\<close> is the check and copy of a text of variable length.
\<close>

type_synonym cursor = "mcl_error \<times> char block \<times> nat \<times> nat"

definition add_text :: "char block \<Rightarrow> nat \<Rightarrow> nat \<Rightarrow> string \<Rightarrow> cursor option" where
  "add_text buffer position remaining_size s =
     (if length s \<le> remaining_size
      then map_option (\<lambda>b. (MCL_OK, b, position + length s, remaining_size - length s))
             (string_util_memcpy buffer position s (length s))
      else Some (MCL_FAIL, buffer, position, remaining_size))"

definition add_item_meta_json ::
  "char block \<Rightarrow> nat \<Rightarrow> nat \<Rightarrow> item \<Rightarrow> ('z, cursor option) io" where
  "add_item_meta_json buffer position remaining_size item = do {
     (code, item_meta_json) \<leftarrow> json_from_item_meta item;
     State_Monad.return
       (case item_meta_json of
          Some s \<Rightarrow> if code = MCL_OK then add_text buffer position remaining_size s
                    else Some (code, buffer, position, remaining_size)
        | None \<Rightarrow> Some (code, buffer, position, remaining_size))
   }"

definition add_item_payload_content_type ::
  "char block \<Rightarrow> nat \<Rightarrow> nat \<Rightarrow> string option \<Rightarrow> cursor option" where
  "add_item_payload_content_type buffer position remaining_size payload_content_type =
     add_text buffer position remaining_size
       (case payload_content_type of None \<Rightarrow> content_type_application_json | Some s \<Rightarrow> s)"

type_synonym 'ctx payload_callback = "'ctx \<Rightarrow> nat \<Rightarrow> string \<times> 'ctx"

function callback_loop ::
  "'ctx payload_callback \<Rightarrow> 'ctx \<Rightarrow> char block \<Rightarrow> nat \<Rightarrow> nat \<Rightarrow> cursor option" where
  "callback_loop callback user_context buffer position remaining_size =
     (let (s, user_context') = callback user_context remaining_size in
      if remaining_size < length s then None
      else case string_util_memcpy buffer position s (length s) of
        None \<Rightarrow> None
      | Some buffer' \<Rightarrow>
          if length s \<noteq> 0 \<and> remaining_size - length s \<noteq> 0
          then callback_loop callback user_context' buffer' (position + length s) (remaining_size - length s)
          else Some (if remaining_size - length s = 0 \<and> length s \<noteq> 0 then MCL_FAIL else MCL_OK,
                 buffer', position + length s, remaining_size - length s))"
  by pat_completeness auto
termination by (relation "measure (\<lambda>(_, _, _, _, remaining_size). remaining_size)") auto

declare callback_loop.simps [simp del]

definition add_item_payload ::
  "char block \<Rightarrow> nat \<Rightarrow> nat \<Rightarrow> item \<Rightarrow> 'ctx payload_callback option \<Rightarrow> 'ctx \<Rightarrow>
   ('z, cursor option) io" where
  "add_item_payload buffer position remaining_size item callback user_context =
     (case callback of
        None \<Rightarrow> do {
          (code, payload) \<leftarrow> json_from_item_payload item;
          State_Monad.return
            (case payload of
               Some s \<Rightarrow> if code = MCL_OK then add_text buffer position remaining_size s
                         else Some (code, buffer, position, remaining_size)
             | None \<Rightarrow> Some (code, buffer, position, remaining_size))
        }
      | Some f \<Rightarrow> State_Monad.return (callback_loop f user_context buffer position remaining_size))"

text \<open>The copy of a state of fixed length.\<close>

definition write_fixed ::
  "E_MULTIPART_STATE \<Rightarrow> string \<Rightarrow> string \<Rightarrow> char block \<Rightarrow> nat \<Rightarrow> char block option" where
  "write_fixed st boundary sub_boundary buffer position =
     (case st of
        MULTIPART_STATE_OPEN_MAIN_BOUNDARY \<Rightarrow> add_boundary buffer position boundary False
      | MULTIPART_STATE_CONTENT_TYPE_VALUE_MULTIPART_RELATED \<Rightarrow>
          string_util_memcpy buffer position content_type_multipart_related CONTENT_TYPE_MULTIPART_RELATED_LENGTH
      | MULTIPART_STATE_BOUNDARY_KEY \<Rightarrow>
          string_util_memcpy buffer position boundary_key BOUNDARY_KEY_LENGTH
      | MULTIPART_STATE_BOUNDARY_VALUE_SUB_BOUNDARY \<Rightarrow>
          string_util_memcpy buffer position (cstr sub_boundary) BOUNDARY_LENGTH
      | MULTIPART_STATE_OPEN_SUB_BOUNDARY_FIRST \<Rightarrow> add_boundary buffer position sub_boundary False
      | MULTIPART_STATE_OPEN_SUB_BOUNDARY_SECOND \<Rightarrow> add_boundary buffer position sub_boundary False
      | MULTIPART_STATE_CLOSE_SUB_BOUNDARY \<Rightarrow> add_boundary buffer position sub_boundary True
      | MULTIPART_STATE_CONTENT_TYPE_VALUE_META_JSON \<Rightarrow>
          string_util_memcpy buffer position content_type_meta_json CONTENT_TYPE_META_JSON_LENGTH
      | MULTIPART_STATE_ENDLINE_FIRST \<Rightarrow> string_util_memcpy buffer position endline ENDLINE_LENGTH
      | MULTIPART_STATE_ENDLINE_SECOND \<Rightarrow> string_util_memcpy buffer position endline ENDLINE_LENGTH
      | MULTIPART_STATE_DOUBLE_ENDLINE_FIRST \<Rightarrow>
          string_util_memcpy buffer position endline DOUBLE_ENDLINE_LENGTH
      | MULTIPART_STATE_DOUBLE_ENDLINE_SECOND \<Rightarrow>
          string_util_memcpy buffer position endline DOUBLE_ENDLINE_LENGTH
      | MULTIPART_STATE_DOUBLE_ENDLINE_THIRD \<Rightarrow>
          string_util_memcpy buffer position endline DOUBLE_ENDLINE_LENGTH
      | MULTIPART_STATE_ITEM_META_JSON \<Rightarrow> Some buffer
      | MULTIPART_STATE_CONTENT_TYPE_VALUE_PAYLOAD \<Rightarrow> Some buffer
      | MULTIPART_STATE_ITEM_PAYLOAD \<Rightarrow> Some buffer
      | _ \<Rightarrow> string_util_memcpy buffer position content_type CONTENT_TYPE_LENGTH)"

text \<open>
  One turn of the loop's switch. Before the second state the code may still be that of a failed
  generation of the sub boundary: the first state writes, then the loop ends.
\<close>

definition multipart_switch ::
  "E_MULTIPART_STATE \<Rightarrow> mcl_error \<Rightarrow> string \<Rightarrow> string \<Rightarrow> item \<Rightarrow> string option \<Rightarrow>
   'ctx payload_callback option \<Rightarrow> 'ctx \<Rightarrow> char block \<Rightarrow> nat \<Rightarrow> nat \<Rightarrow> ('z, cursor option) io" where
  "multipart_switch st code boundary sub_boundary item payload_content_type callback user_context
     buffer position remaining_size =
     (case st of
        MULTIPART_STATE_ITEM_META_JSON \<Rightarrow> add_item_meta_json buffer position remaining_size item
      | MULTIPART_STATE_CONTENT_TYPE_VALUE_PAYLOAD \<Rightarrow> State_Monad.return
          (add_item_payload_content_type buffer position remaining_size payload_content_type)
      | MULTIPART_STATE_ITEM_PAYLOAD \<Rightarrow>
          add_item_payload buffer position remaining_size item callback user_context
      | _ \<Rightarrow> State_Monad.return
          (map_option (\<lambda>b. (code, b, position, remaining_size))
             (write_fixed st boundary sub_boundary buffer position)))"

fun multipart_loop ::
  "E_MULTIPART_STATE list \<Rightarrow> mcl_error \<Rightarrow> string \<Rightarrow> string \<Rightarrow> item \<Rightarrow> string option \<Rightarrow>
   'ctx payload_callback option \<Rightarrow> 'ctx \<Rightarrow> char block \<Rightarrow> nat \<Rightarrow> nat \<Rightarrow> ('z, cursor option) io" where
  "multipart_loop [] code boundary sub_boundary item ct cb ctx buffer position remaining_size =
     State_Monad.return (Some (code, buffer, position, remaining_size))"
| "multipart_loop (st # sts) code boundary sub_boundary item ct cb ctx buffer position remaining_size =
     (if remaining_size = 0 \<or> remaining_size < space_needed_for_state st
      then State_Monad.return (Some (MCL_FAIL, buffer, position, remaining_size))
      else do {
        r \<leftarrow> multipart_switch st code boundary sub_boundary item ct cb ctx buffer position remaining_size;
        case r of
          None \<Rightarrow> State_Monad.return None
        | Some (code, buffer, position, remaining_size) \<Rightarrow>
            if code \<noteq> MCL_OK then State_Monad.return (Some (code, buffer, position, remaining_size))
            else multipart_loop sts code boundary sub_boundary item ct cb ctx buffer
              (position + space_needed_for_state st) (remaining_size - space_needed_for_state st)
      })"

definition multipart_add_tuple_with_callback ::
  "char block \<Rightarrow> nat \<Rightarrow> nat \<Rightarrow> item \<Rightarrow> string \<Rightarrow> string option \<Rightarrow> 'ctx payload_callback option \<Rightarrow> 'ctx \<Rightarrow>
   ('z, (mcl_error \<times> char block \<times> nat) option) io" where
  "multipart_add_tuple_with_callback buffer offset buffer_size item boundary payload_content_type
     callback user_context = do {
     (code, sub_boundary) \<leftarrow> multipart_generate_boundary;
     r \<leftarrow> multipart_loop multipart_states code boundary
           (case sub_boundary of None \<Rightarrow> [] | Some s \<Rightarrow> s) item payload_content_type callback
           user_context buffer offset buffer_size;
     State_Monad.return (map_option (\<lambda>(code, b, position, remaining_size).
       (code, b, if code = MCL_OK then remaining_size else buffer_size)) r)
   }"

definition multipart_add_tuple ::
  "char block \<Rightarrow> nat \<Rightarrow> nat \<Rightarrow> item \<Rightarrow> string \<Rightarrow> ('z, (mcl_error \<times> char block \<times> nat) option) io" where
  "multipart_add_tuple buffer offset buffer_size item boundary =
     multipart_add_tuple_with_callback buffer offset buffer_size item boundary None
       (None :: unit payload_callback option) ()"

definition multipart_get_tuple_size :: "item \<Rightarrow> string option \<Rightarrow> ('z, mcl_size_t) io" where
  "multipart_get_tuple_size item payload_content_type = do {
     size \<leftarrow> json_get_item_size item;
     State_Monad.return (of_nat MULTIPART_BASE_SIZE + size +
       of_nat (mcl_string_util_strlen payload_content_type))
   }"

definition multipart_close ::
  "char block \<Rightarrow> nat \<Rightarrow> nat \<Rightarrow> string \<Rightarrow> (mcl_error \<times> char block \<times> nat) option" where
  "multipart_close buffer offset buffer_size boundary =
     (if MULTIPART_CLOSE_LENGTH \<le> buffer_size then do {
        buffer \<leftarrow> string_util_memcpy buffer offset boundary_sign BOUNDARY_SIGN_LENGTH;
        buffer \<leftarrow> string_util_memcpy buffer (offset + BOUNDARY_SIGN_LENGTH) (cstr boundary) BOUNDARY_LENGTH;
        buffer \<leftarrow> string_util_memcpy buffer (offset + BOUNDARY_SIGN_LENGTH + BOUNDARY_LENGTH)
                   boundary_sign BOUNDARY_SIGN_LENGTH;
        Some (MCL_OK, buffer, buffer_size - MULTIPART_CLOSE_LENGTH)
      } else Some (MCL_FAIL, buffer, buffer_size))"

definition multipart_get_overhead_size :: mcl_size_t where
  "multipart_get_overhead_size = of_nat MULTIPART_CLOSE_LENGTH"

end
