(* ===== verification/MclMultipartProps.thy ===== *)
theory MclMultipartProps
  imports MclMultipart
begin

text \<open>
  Properties of the multipart message: no write outside the buffer it is given in any world, and
  the exact message while nothing fails.
\<close>

section \<open>Writing\<close>

definition overwrite :: "char block \<Rightarrow> nat \<Rightarrow> string \<Rightarrow> char block" where
  "overwrite b p s = take p b @ map Some s @ drop (p + length s) b"

lemma memcpy_overwrite:
  "p + n \<le> length b \<Longrightarrow> n \<le> length s \<Longrightarrow> string_util_memcpy b p s n = Some (overwrite b p (take n s))"
  by (simp add: string_util_memcpy_def overwrite_def)

lemma length_overwrite [simp]: "p + length s \<le> length b \<Longrightarrow> length (overwrite b p s) = length b"
  by (simp add: overwrite_def)

lemma overwrite_append:
  "q = p + length s \<Longrightarrow> p + length s \<le> length b \<Longrightarrow>
   overwrite (overwrite b p s) q t = overwrite b p (s @ t)"
  by (simp add: overwrite_def add.assoc add.commute add.left_commute)

lemma overwrite_nil [simp]: "overwrite b p [] = b"
  by (simp add: overwrite_def)

text \<open>The window of a buffer in which an operation may write, and where it stands in it.\<close>

definition within :: "char block \<Rightarrow> nat \<Rightarrow> nat \<Rightarrow> char block \<Rightarrow> nat \<Rightarrow> nat \<Rightarrow> bool" where
  "within b0 offset buffer_size b p r \<longleftrightarrow>
     length b = length b0 \<and> offset \<le> p \<and> p + r = offset + buffer_size \<and>
     offset + buffer_size \<le> length b0 \<and>
     take offset b = take offset b0 \<and> drop (offset + buffer_size) b = drop (offset + buffer_size) b0"

lemma within_overwrite:
  assumes "within b0 offset buffer_size b p r" and "length s \<le> r"
  shows "within b0 offset buffer_size (overwrite b p s) p r"
proof -
  have "length s \<le> offset + buffer_size - p" "p \<le> length b" using assms by (auto simp: within_def)
  then have "take offset (overwrite b p s) = take offset b"
    using assms by (simp add: overwrite_def within_def)
  moreover have "drop (offset + buffer_size) (overwrite b p s) = drop (offset + buffer_size) b"
    using assms \<open>length s \<le> offset + buffer_size - p\<close> by (simp add: overwrite_def within_def)
  ultimately show ?thesis using assms by (simp add: within_def)
qed

lemma within_move: "within b0 offset buffer_size b p r \<Longrightarrow> n \<le> r \<Longrightarrow>
    within b0 offset buffer_size b (p + n) (r - n)"
  by (auto simp: within_def)

lemma within_memcpy:
  assumes "within b0 offset buffer_size b p r" and "n \<le> r" and "n \<le> length s"
  shows "\<exists>b'. string_util_memcpy b p s n = Some b' \<and> within b0 offset buffer_size b' p r"
proof -
  have "string_util_memcpy b p s n = Some (overwrite b p (take n s))"
    using assms by (intro memcpy_overwrite) (auto simp: within_def)
  moreover have "within b0 offset buffer_size (overwrite b p (take n s)) p r"
    using assms by (intro within_overwrite) auto
  ultimately show ?thesis by blast
qed

section \<open>Fixed states\<close>

definition boundary_text :: "string \<Rightarrow> bool \<Rightarrow> string" where
  "boundary_text boundary close = boundary_sign @ boundary @ (if close then boundary_sign else []) @ take 2 endline"

definition fixed_text :: "E_MULTIPART_STATE \<Rightarrow> string \<Rightarrow> string \<Rightarrow> string" where
  "fixed_text st boundary sub_boundary =
     (case st of
        MULTIPART_STATE_OPEN_MAIN_BOUNDARY \<Rightarrow> boundary_text boundary False
      | MULTIPART_STATE_CONTENT_TYPE_VALUE_MULTIPART_RELATED \<Rightarrow> content_type_multipart_related
      | MULTIPART_STATE_BOUNDARY_KEY \<Rightarrow> boundary_key
      | MULTIPART_STATE_BOUNDARY_VALUE_SUB_BOUNDARY \<Rightarrow> sub_boundary
      | MULTIPART_STATE_OPEN_SUB_BOUNDARY_FIRST \<Rightarrow> boundary_text sub_boundary False
      | MULTIPART_STATE_OPEN_SUB_BOUNDARY_SECOND \<Rightarrow> boundary_text sub_boundary False
      | MULTIPART_STATE_CLOSE_SUB_BOUNDARY \<Rightarrow> boundary_text sub_boundary True
      | MULTIPART_STATE_CONTENT_TYPE_VALUE_META_JSON \<Rightarrow> content_type_meta_json
      | MULTIPART_STATE_ENDLINE_FIRST \<Rightarrow> take 2 endline
      | MULTIPART_STATE_ENDLINE_SECOND \<Rightarrow> take 2 endline
      | MULTIPART_STATE_DOUBLE_ENDLINE_FIRST \<Rightarrow> endline
      | MULTIPART_STATE_DOUBLE_ENDLINE_SECOND \<Rightarrow> endline
      | MULTIPART_STATE_DOUBLE_ENDLINE_THIRD \<Rightarrow> endline
      | MULTIPART_STATE_ITEM_META_JSON \<Rightarrow> []
      | MULTIPART_STATE_CONTENT_TYPE_VALUE_PAYLOAD \<Rightarrow> []
      | MULTIPART_STATE_ITEM_PAYLOAD \<Rightarrow> []
      | _ \<Rightarrow> content_type)"

definition fixed_state :: "E_MULTIPART_STATE \<Rightarrow> bool" where
  "fixed_state st \<longleftrightarrow> st \<notin> {MULTIPART_STATE_ITEM_META_JSON, MULTIPART_STATE_CONTENT_TYPE_VALUE_PAYLOAD,
     MULTIPART_STATE_ITEM_PAYLOAD}"

lemma fixed_lengths [simp]:
  "BOUNDARY_SIGN_LENGTH = 2" "ENDLINE_LENGTH = 2" "DOUBLE_ENDLINE_LENGTH = 4" "BOUNDARY_LENGTH = 20"
  "length boundary_sign = 2" "length endline = 4"
  by (simp_all add: multipart_lengths multipart_strings)

lemma length_boundary_text:
  "length boundary = 20 \<Longrightarrow> length (boundary_text boundary close) = (if close then 26 else 24)"
  by (simp add: boundary_text_def multipart_strings)

lemma length_fixed_text:
  "length boundary = 20 \<Longrightarrow> length sub_boundary = 20 \<Longrightarrow>
   length (fixed_text st boundary sub_boundary) = space_needed_for_state st"
  by (cases st) (simp_all add: fixed_text_def space_needed_for_state_def length_boundary_text
      multipart_lengths multipart_strings)

lemma add_boundary_text:
  assumes "length boundary = 20" and "p + length (boundary_text boundary close) \<le> length b"
  shows "add_boundary b p boundary close = Some (overwrite b p (boundary_text boundary close))"
  using assms
  by (cases close) (simp_all add: add_boundary_def boundary_text_def cstr_def memcpy_overwrite overwrite_append Let_def)

lemma write_fixed_text:
  assumes "length boundary = 20" and "length sub_boundary = 20" and "p + space_needed_for_state st \<le> length b"
  shows "write_fixed st boundary sub_boundary b p = Some (overwrite b p (fixed_text st boundary sub_boundary))"
proof -
  have cstr: "take 20 (cstr sub_boundary) = sub_boundary" using assms(2) by (simp add: cstr_def)
  show ?thesis
    using assms(3) length_fixed_text [OF assms(1,2), of st]
    by (cases st) (simp_all add: write_fixed_def fixed_text_def space_needed_for_state_def
        add_boundary_text assms(1,2) memcpy_overwrite cstr CONTENT_TYPE_LENGTH_def BOUNDARY_KEY_LENGTH_def
        CONTENT_TYPE_MULTIPART_RELATED_LENGTH_def CONTENT_TYPE_META_JSON_LENGTH_def)
qed

section \<open>Staying in the buffer\<close>

text \<open>A callback that writes no more than it may.\<close>

definition good_callback :: "'ctx payload_callback \<Rightarrow> bool" where
  "good_callback callback \<longleftrightarrow> (\<forall>ctx n. length (fst (callback ctx n)) \<le> n)"

definition safe_cursor :: "char block \<Rightarrow> nat \<Rightarrow> nat \<Rightarrow> cursor option \<Rightarrow> bool" where
  "safe_cursor b0 offset buffer_size r \<longleftrightarrow>
     (\<exists>code b p rem. r = Some (code, b, p, rem) \<and> within b0 offset buffer_size b p rem)"

lemma safe_cursorI: "within b0 offset buffer_size b p r \<Longrightarrow> safe_cursor b0 offset buffer_size (Some (code, b, p, r))"
  by (auto simp: safe_cursor_def)

lemma safe_add_text:
  assumes "within b0 offset buffer_size b p r"
  shows "safe_cursor b0 offset buffer_size (add_text b p r s)"
proof (cases "length s \<le> r")
  case True
  with within_memcpy [OF assms True, of s] obtain b' where
    "string_util_memcpy b p s (length s) = Some b'" "within b0 offset buffer_size b' p r" by auto
  then show ?thesis using True by (auto simp: add_text_def safe_cursor_def intro: within_move)
next
  case False
  then show ?thesis using assms by (simp add: add_text_def safe_cursorI)
qed

lemma safe_callback_loop:
  assumes "good_callback callback" and "within b0 offset buffer_size b p r"
  shows "safe_cursor b0 offset buffer_size (callback_loop callback ctx b p r)"
  using assms(2)
proof (induction r arbitrary: ctx b p rule: less_induct)
  case (less r)
  obtain s ctx' where c: "callback ctx r = (s, ctx')" by fastforce
  have short: "length s \<le> r"
    using assms(1) c unfolding good_callback_def by (metis fst_conv)
  obtain b' where b': "string_util_memcpy b p s (length s) = Some b'" "within b0 offset buffer_size b' p r"
    using within_memcpy [OF less.prems short, of s] by auto
  have moved: "within b0 offset buffer_size b' (p + length s) (r - length s)"
    using b'(2) short by (rule within_move)
  show ?case
  proof (cases "length s \<noteq> 0 \<and> r - length s \<noteq> 0")
    case True
    then have "safe_cursor b0 offset buffer_size (callback_loop callback ctx' b' (p + length s) (r - length s))"
      using less.IH [of "r - length s"] moved by auto
    then show ?thesis using True short b'(1) c by (subst callback_loop.simps) simp
  next
    case False
    then show ?thesis
      using short b'(1) c moved by (subst callback_loop.simps) (auto simp: safe_cursorI)
  qed
qed

definition callback_ok :: "'ctx payload_callback option \<Rightarrow> bool" where
  "callback_ok cb \<longleftrightarrow> (case cb of None \<Rightarrow> True | Some f \<Rightarrow> good_callback f)"

lemma safe_write_fixed:
  assumes "within b0 offset buffer_size b p r" and "space_needed_for_state st \<le> r"
    and "length boundary = 20" and "length sub_boundary = 20 \<or> st = MULTIPART_STATE_OPEN_MAIN_BOUNDARY"
  shows "\<exists>b'. write_fixed st boundary sub_boundary b p = Some b' \<and> within b0 offset buffer_size b' p r"
proof -
  define sub where "sub = (if length sub_boundary = 20 then sub_boundary else replicate 20 CHR ''x'')"
  have "write_fixed st boundary sub_boundary b p = write_fixed st boundary sub b p"
    using assms(4) by (auto simp: sub_def write_fixed_def)
  moreover have "length sub = 20" by (simp add: sub_def)
  moreover have "p + space_needed_for_state st \<le> length b" using assms(1,2) by (auto simp: within_def)
  ultimately have "write_fixed st boundary sub_boundary b p = Some (overwrite b p (fixed_text st boundary sub))"
    using assms(3) by (simp add: write_fixed_text)
  moreover have "within b0 offset buffer_size (overwrite b p (fixed_text st boundary sub)) p r"
    using assms by (intro within_overwrite) (simp_all add: length_fixed_text sub_def)
  ultimately show ?thesis by blast
qed

text \<open>One turn: the cursor is safe, and the space the loop then takes is left.\<close>

lemma safe_switch:
  assumes "within b0 offset buffer_size b p r" and "space_needed_for_state st \<le> r" and "callback_ok cb"
    and "length boundary = 20" and "length sub_boundary = 20 \<or> st = MULTIPART_STATE_OPEN_MAIN_BOUNDARY"
  shows "\<exists>code' b' p' r'. fst (run_state (multipart_switch st code boundary sub_boundary item ct cb ctx b p r) w) =
       Some (code', b', p', r') \<and> within b0 offset buffer_size b' p' r' \<and> space_needed_for_state st \<le> r' \<and>
       (fixed_state st \<longrightarrow> code' = code)"
proof (cases "fixed_state st")
  case True
  have "fst (run_state (multipart_switch st code boundary sub_boundary item ct cb ctx b p r) w) =
      map_option (\<lambda>b. (code, b, p, r)) (write_fixed st boundary sub_boundary b p)"
    using True by (cases st) (simp_all add: multipart_switch_def fixed_state_def)
  moreover obtain b' where "write_fixed st boundary sub_boundary b p = Some b'" "within b0 offset buffer_size b' p r"
    using safe_write_fixed [OF assms(1,2,4,5)] by blast
  ultimately have "fst (run_state (multipart_switch st code boundary sub_boundary item ct cb ctx b p r) w) =
      Some (code, b', p, r)" by simp
  with \<open>within b0 offset buffer_size b' p r\<close> assms(2) show ?thesis by blast
next
  case False
  have "safe_cursor b0 offset buffer_size
      (fst (run_state (multipart_switch st code boundary sub_boundary item ct cb ctx b p r) w))"
    using False assms(1,3)
    by (cases st; cases cb)
      (auto simp: multipart_switch_def fixed_state_def add_item_meta_json_def add_item_payload_def
        add_item_payload_content_type_def run_bind callback_ok_def safe_add_text safe_cursorI
        safe_callback_loop split: prod.split option.split)
  moreover have "space_needed_for_state st = 0"
    using False by (auto simp: fixed_state_def space_needed_for_state_def)
  ultimately show ?thesis using False by (auto simp: safe_cursor_def)
qed

lemma safe_loop:
  assumes "within b0 offset buffer_size b p r" and "callback_ok cb" and "length boundary = 20"
    and "length sub_boundary = 20"
  shows "safe_cursor b0 offset buffer_size
     (fst (run_state (multipart_loop sts code boundary sub_boundary item ct cb ctx b p r) w))"
  using assms(1)
proof (induction sts arbitrary: code b p r w)
  case Nil
  then show ?case by (simp add: safe_cursorI)
next
  case (Cons st sts)
  show ?case
  proof (cases "r = 0 \<or> r < space_needed_for_state st")
    case True
    then show ?thesis using Cons.prems by (simp add: safe_cursorI)
  next
    case False
    then obtain code' b' p' r' where s:
      "fst (run_state (multipart_switch st code boundary sub_boundary item ct cb ctx b p r) w) = Some (code', b', p', r')"
      "within b0 offset buffer_size b' p' r'" "space_needed_for_state st \<le> r'"
      using safe_switch [OF Cons.prems _ assms(2,3), of st sub_boundary code item ct ctx w] assms(4) by auto
    from within_move [OF s(2,3)] Cons.IH s False show ?thesis
      by (auto simp: run_bind safe_cursorI split: prod.split)
  qed
qed

lemma boundary_length:
  "fst (run_state multipart_generate_boundary w) = (code, s) \<Longrightarrow>
   case s of None \<Rightarrow> True | Some t \<Rightarrow> code = MCL_OK \<and> length t = 20"
  by (auto simp: multipart_generate_boundary_def run_bind dest: random_length
      split: prod.splits if_splits sum.splits)

text \<open>A random generator that reports its failures.\<close>

definition random_fails :: "'z mem_world_scheme \<Rightarrow> bool" where
  "random_fails w \<longleftrightarrow> Err MCL_OK \<notin> set (w_random w)"

lemma boundary_missing:
  assumes "run_state multipart_generate_boundary w = ((code, None), w')" and "random_fails w"
  shows "code \<noteq> MCL_OK"
proof
  assume "code = MCL_OK"
  then have "Err MCL_OK \<in> set (w_random w)"
    using assms(1)
    by (auto simp: multipart_generate_boundary_def run_bind run_malloc mcl_random_generate_bytes_def
        map_sum_def split: prod.splits if_splits sum.splits list.splits)
  then show False using assms(2) by (simp add: random_fails_def)
qed

text \<open>Without a sub boundary only the first state is executed.\<close>

lemma safe_loop_failed:
  assumes "within b0 offset buffer_size b p r" and "callback_ok cb" and "length boundary = 20"
    and "code \<noteq> MCL_OK"
  shows "\<exists>code' b' p' r'. fst (run_state
       (multipart_loop multipart_states code boundary sub_boundary item ct cb ctx b p r) w) =
     Some (code', b', p', r') \<and> code' \<noteq> MCL_OK \<and> within b0 offset buffer_size b' p' r'"
proof (cases "r = 0 \<or> r < space_needed_for_state MULTIPART_STATE_OPEN_MAIN_BOUNDARY")
  case True
  then show ?thesis using assms(1) by (simp add: multipart_states_def)
next
  case False
  let ?s = "MULTIPART_STATE_OPEN_MAIN_BOUNDARY"
  obtain b' p' r' where "fst (run_state (multipart_switch ?s code boundary sub_boundary item ct cb ctx b p r) w) =
      Some (code, b', p', r')" "within b0 offset buffer_size b' p' r'"
    using safe_switch [OF assms(1) _ assms(2,3), of ?s sub_boundary code item ct ctx w] False
    by (auto simp: fixed_state_def)
  then show ?thesis using False assms(4)
    by (auto simp: multipart_states_def run_bind split: prod.split)
qed

lemma within_start: "offset + buffer_size \<le> length b \<Longrightarrow> within b offset buffer_size b offset buffer_size"
  by (simp add: within_def)

lemma tuple_within:
  assumes "offset + buffer_size \<le> length buffer" and "length boundary = 20" and "callback_ok cb"
    and "random_fails w"
  shows "\<exists>code b p r. fst (run_state (multipart_add_tuple_with_callback buffer offset buffer_size item
            boundary ct cb ctx) w) = Some (code, b, if code = MCL_OK then r else buffer_size) \<and>
     within buffer offset buffer_size b p r"
proof -
  note start = within_start [OF assms(1)]
  obtain code sub w' where g: "run_state multipart_generate_boundary w = ((code, sub), w')"
    by (metis prod.exhaust)
  let ?sub = "case sub of None \<Rightarrow> [] | Some s \<Rightarrow> s"
  have "safe_cursor buffer offset buffer_size (fst (run_state (multipart_loop multipart_states code boundary
      ?sub item ct cb ctx buffer offset buffer_size) w'))"
  proof (cases sub)
    case None
    then have "code \<noteq> MCL_OK" using boundary_missing g assms(4) by blast
    from safe_loop_failed [OF start assms(3,2) this] show ?thesis
      unfolding safe_cursor_def by blast
  next
    case (Some s)
    then have "length s = 20" using boundary_length [of w code sub] g by simp
    with Some safe_loop [OF start assms(3,2)] show ?thesis by simp
  qed
  then obtain code' b p r where l: "fst (run_state (multipart_loop multipart_states code boundary
      ?sub item ct cb ctx buffer offset buffer_size) w') = Some (code', b, p, r)"
      "within buffer offset buffer_size b p r"
    by (auto simp: safe_cursor_def)
  have "fst (run_state (multipart_add_tuple_with_callback buffer offset buffer_size item boundary ct cb ctx) w) =
      Some (code', b, if code' = MCL_OK then r else buffer_size)"
    using g l(1) by (auto simp: multipart_add_tuple_with_callback_def run_bind split: prod.split)
  with l(2) show ?thesis by blast
qed

text \<open>C10. Whatever fails (an allocation, the random generator, a document that cannot be built),
  adding a tuple writes only into the buffer it is given and nothing beyond its end; on success the
  remaining size has not grown, on failure it is unchanged, so that the next tuple starts where
  this one did.\<close>

theorem multipart_stays_in_buffer:
  assumes "offset + buffer_size \<le> length buffer" and "length boundary = 20" and "callback_ok cb"
    and "random_fails w"
  shows "\<exists>code b n. fst (run_state (multipart_add_tuple_with_callback buffer offset buffer_size item
            boundary ct cb ctx) w) = Some (code, b, n) \<and>
     length b = length buffer \<and> take offset b = take offset buffer \<and>
     drop (offset + buffer_size) b = drop (offset + buffer_size) buffer \<and>
     n \<le> buffer_size \<and> (code \<noteq> MCL_OK \<longrightarrow> n = buffer_size)"
proof -
  obtain code b p r where t: "fst (run_state (multipart_add_tuple_with_callback buffer offset buffer_size item
      boundary ct cb ctx) w) = Some (code, b, if code = MCL_OK then r else buffer_size)"
      "within buffer offset buffer_size b p r"
    using tuple_within [OF assms, of item ct ctx] by blast
  then show ?thesis
    by (intro exI [of _ code] exI [of _ b] exI [of _ "if code = MCL_OK then r else buffer_size"])
      (auto simp: within_def)
qed

theorem multipart_stays_in_buffer_witness:
  "\<exists>code b n. fst (run_state (multipart_add_tuple_with_callback (replicate 60 None) 20 30 (one_value ''1'')
      (replicate 20 CHR ''b'') None (Some (\<lambda>ctx n. (replicate n CHR ''x'', ctx))) ())
      \<lparr>w_alloc = [True], w_random = [Err MCL_FAIL]\<rparr>) = Some (code, b, n) \<and>
     length b = 60 \<and> take 20 b = replicate 20 None \<and> drop 50 b = replicate 10 None \<and>
     n \<le> 30 \<and> (code \<noteq> MCL_OK \<longrightarrow> n = 30)"
  using multipart_stays_in_buffer [of 20 30 "replicate 60 None" "replicate 20 CHR ''b''"
    "Some (\<lambda>ctx n. (replicate n CHR ''x'', ctx))" "\<lparr>w_alloc = [True], w_random = [Err MCL_FAIL]\<rparr>"
    "one_value ''1''" None "()"]
  by (simp add: callback_ok_def good_callback_def random_fails_def)

section \<open>The message\<close>

text \<open>What a state contributes to the message of an item.\<close>

definition piece :: "string \<Rightarrow> string \<Rightarrow> string \<Rightarrow> string \<Rightarrow> string \<Rightarrow> E_MULTIPART_STATE \<Rightarrow> string" where
  "piece boundary sub_boundary meta ct payload st =
     (case st of
        MULTIPART_STATE_ITEM_META_JSON \<Rightarrow> meta
      | MULTIPART_STATE_CONTENT_TYPE_VALUE_PAYLOAD \<Rightarrow> ct
      | MULTIPART_STATE_ITEM_PAYLOAD \<Rightarrow> payload
      | _ \<Rightarrow> fixed_text st boundary sub_boundary)"

definition tuple_text :: "string \<Rightarrow> string \<Rightarrow> string \<Rightarrow> string \<Rightarrow> string \<Rightarrow> string" where
  "tuple_text boundary sub_boundary meta ct payload =
     boundary_text boundary False @
     content_type @ content_type_multipart_related @ boundary_key @ sub_boundary @ endline @
     boundary_text sub_boundary False @ content_type @ content_type_meta_json @ endline @ meta @ take 2 endline @
     boundary_text sub_boundary False @ content_type @ ct @ endline @ payload @ take 2 endline @
     boundary_text sub_boundary True"

lemma tuple_text_pieces:
  "concat (map (piece boundary sub_boundary meta ct payload) multipart_states) =
   tuple_text boundary sub_boundary meta ct payload"
  by (simp add: multipart_states_def piece_def fixed_text_def tuple_text_def)

lemma length_tuple_text:
  "length boundary = 20 \<Longrightarrow> length sub_boundary = 20 \<Longrightarrow>
   length (tuple_text boundary sub_boundary meta ct payload) =
     MULTIPART_BASE_SIZE + length meta + length ct + length payload"
  by (simp add: tuple_text_def length_boundary_text MULTIPART_BASE_SIZE_def multipart_lengths multipart_strings)

text \<open>
  The payload of the tuple: a document the library builds, or what a callback delivers. A callback
  that fills all that is left is an error, as more may have come.
\<close>

definition delivers :: "item \<Rightarrow> 'ctx payload_callback option \<Rightarrow> 'ctx \<Rightarrow> string \<Rightarrow> 'z mem_world_scheme \<Rightarrow> bool" where
  "delivers item cb ctx payload w \<longleftrightarrow>
     (\<forall>b p r. p + r \<le> length b \<longrightarrow> 0 < r \<longrightarrow>
        (length payload < r \<longrightarrow> run_state (add_item_payload b p r item cb ctx) w =
           (Some (MCL_OK, overwrite b p payload, p + length payload, r - length payload), w)) \<and>
        (r < length payload \<longrightarrow> (\<exists>b' p' r'. run_state (add_item_payload b p r item cb ctx) w =
           (Some (MCL_FAIL, b', p', r'), w))) \<and>
        (r = length payload \<longrightarrow> (\<exists>code b' p'. run_state (add_item_payload b p r item cb ctx) w =
           (Some (code, b', p', 0), w) \<and> code \<in> {MCL_OK, MCL_FAIL})))"

lemma add_text_fits:
  "length s \<le> r \<Longrightarrow> p + r \<le> length b \<Longrightarrow>
   add_text b p r s = Some (MCL_OK, overwrite b p s, p + length s, r - length s)"
  by (simp add: add_text_def memcpy_overwrite)

lemma add_text_long: "r < length s \<Longrightarrow> add_text b p r s = Some (MCL_FAIL, b, p, r)"
  by (simp add: add_text_def)

lemma document_delivers:
  assumes "run_state (json_from_item_payload item) w = ((MCL_OK, Some payload), w)"
  shows "delivers item None ctx payload w"
  using assms by (auto simp: delivers_def add_item_payload_def add_text_fits add_text_long)

text \<open>The text of the content type of the payload.\<close>

definition content_type_text :: "string option \<Rightarrow> string" where
  "content_type_text ct = (case ct of None \<Rightarrow> content_type_application_json | Some s \<Rightarrow> s)"

text \<open>
  The loop over the states that are left: it succeeds exactly when their pieces fit into what is
  left of the buffer. The last piece is not empty, so that a buffer that is full before the last
  state is too small.
\<close>

lemma run_switch_fixed:
  assumes "fixed_state st" and "length boundary = 20" and "length sub_boundary = 20"
    and "p + r \<le> length b" and "space_needed_for_state st \<le> r"
  shows "run_state (multipart_switch st code boundary sub_boundary item ct cb ctx b p r) w =
    (Some (code, overwrite b p (fixed_text st boundary sub_boundary), p, r), w)"
proof -
  have "write_fixed st boundary sub_boundary b p = Some (overwrite b p (fixed_text st boundary sub_boundary))"
    using assms by (intro write_fixed_text) auto
  then show ?thesis
    using assms(1) by (cases st) (simp_all add: multipart_switch_def fixed_state_def)
qed

definition loop_outcome :: "char block \<Rightarrow> nat \<Rightarrow> nat \<Rightarrow> string \<Rightarrow> 'w \<Rightarrow> cursor option \<times> 'w \<Rightarrow> bool" where
  "loop_outcome b p r s w out \<longleftrightarrow>
     (if length s \<le> r then out = (Some (MCL_OK, overwrite b p s, p + length s, r - length s), w)
      else \<exists>b' p' r'. out = (Some (MCL_FAIL, b', p', r'), w))"

lemma loop_outcome_step:
  assumes "loop_outcome (overwrite b p s) (p + length s) (r - length s) t w out"
    and "length s \<le> r" and "p + r \<le> length b"
  shows "loop_outcome b p r (s @ t) w out"
  using assms by (auto simp: loop_outcome_def overwrite_append add.assoc split: if_splits)

lemma run_loop:
  assumes "length boundary = 20" and "length sub_boundary = 20"
    and "run_state (json_from_item_meta item) w = ((MCL_OK, Some meta), w)"
    and "delivers item cb ctx payload w"
    and "p + r \<le> length b" and "sts \<noteq> [] \<longrightarrow> fixed_state (last sts) \<and> 0 < space_needed_for_state (last sts)"
  shows "loop_outcome b p r
     (concat (map (piece boundary sub_boundary meta (content_type_text ct) payload) sts)) w
     (run_state (multipart_loop sts MCL_OK boundary sub_boundary item ct cb ctx b p r) w)"
  using assms(5,6)
proof (induction sts arbitrary: b p r)
  case Nil
  then show ?case by (simp add: loop_outcome_def)
next
  case (Cons st sts)
  let ?piece = "piece boundary sub_boundary meta (content_type_text ct) payload"
  let ?rest = "concat (map ?piece sts)"
  have last: "sts \<noteq> [] \<longrightarrow> fixed_state (last sts) \<and> 0 < space_needed_for_state (last sts)"
    using Cons.prems(2) by (cases sts) auto
  have fixed: "?piece s = fixed_text s boundary sub_boundary" if "fixed_state s" for s
    using that by (cases s) (simp_all add: fixed_state_def piece_def)
  note lengths = length_fixed_text [OF assms(1,2), of st]
  have rest: "?rest \<noteq> []" if "sts \<noteq> []"
  proof -
    have "length (?piece (last sts)) = space_needed_for_state (last sts)"
      using fixed last that length_fixed_text [OF assms(1,2), of "last sts"] by metis
    with last that have "?piece (last sts) \<noteq> []" by auto
    then show ?thesis using last_in_set [OF that] by auto
  qed
  have switch: ?case
    if "length s \<le> r" and "s = ?piece st" and "0 < r" and "space_needed_for_state st \<le> r"
      and "run_state (multipart_switch st MCL_OK boundary sub_boundary item ct cb ctx b p r) w =
        (Some (MCL_OK, overwrite b p s, p', r'), w)"
      and "p' + space_needed_for_state st = p + length s" and "r' - space_needed_for_state st = r - length s"
    for s p' r'
  proof -
    have "loop_outcome (overwrite b p s) (p + length s) (r - length s) ?rest w
        (run_state (multipart_loop sts MCL_OK boundary sub_boundary item ct cb ctx (overwrite b p s)
          (p + length s) (r - length s)) w)"
      using Cons.prems(1) that(1) last by (intro Cons.IH) auto
    from loop_outcome_step [OF this that(1) Cons.prems(1)] show ?thesis
      using that by (simp add: run_bind)
  qed
  have failed: ?case
    if "0 < r" and "space_needed_for_state st \<le> r" and "r < length (?piece st) + length ?rest"
      and "run_state (multipart_switch st MCL_OK boundary sub_boundary item ct cb ctx b p r) w =
        (Some (MCL_FAIL, b', p', r'), w)" for b' p' r'
    using that by (simp add: run_bind loop_outcome_def)
  show ?case
  proof (cases "r = 0 \<or> r < space_needed_for_state st")
    case True
    have "r < length (?piece st) + length ?rest"
    proof (cases "fixed_state st")
      case True
      with fixed lengths have "length (?piece st) = space_needed_for_state st" by simp
      with \<open>r = 0 \<or> _\<close> rest Cons.prems(2) show ?thesis by (cases "sts = []") auto
    next
      case False
      then have "space_needed_for_state st = 0" "sts \<noteq> []"
        using Cons.prems(2) by (auto simp: fixed_state_def space_needed_for_state_def)
      with \<open>r = 0 \<or> _\<close> rest show ?thesis by auto
    qed
    with True show ?thesis by (simp add: loop_outcome_def)
  next
    case False
    then have r: "0 < r" "space_needed_for_state st \<le> r" by auto
    show ?thesis
    proof (cases "fixed_state st")
      case True
      from run_switch_fixed [OF True assms(1,2) Cons.prems(1) r(2), of MCL_OK item ct cb ctx w]
      show ?thesis using True fixed lengths r by (intro switch [of "?piece st" p r]) auto
    next
      case False
      then have variable: "space_needed_for_state st = 0" "sts \<noteq> []"
        using Cons.prems(2) by (auto simp: fixed_state_def space_needed_for_state_def)
      show ?thesis
      proof (cases "st = MULTIPART_STATE_ITEM_PAYLOAD")
        case True
        have sw: "run_state (multipart_switch st MCL_OK boundary sub_boundary item ct cb ctx b p r) w =
            run_state (add_item_payload b p r item cb ctx) w"
          and pc: "?piece st = payload"
          using True by (simp_all add: multipart_switch_def piece_def)
        have d: "length payload < r \<longrightarrow> run_state (add_item_payload b p r item cb ctx) w =
             (Some (MCL_OK, overwrite b p payload, p + length payload, r - length payload), w)"
          "r < length payload \<longrightarrow> (\<exists>b' p' r'. run_state (add_item_payload b p r item cb ctx) w =
             (Some (MCL_FAIL, b', p', r'), w))"
          "r = length payload \<longrightarrow> (\<exists>code b' p'. run_state (add_item_payload b p r item cb ctx) w =
             (Some (code, b', p', 0), w) \<and> code \<in> {MCL_OK, MCL_FAIL})"
          using assms(4) Cons.prems(1) r(1) unfolding delivers_def by blast+
        consider "length payload < r" | "r < length payload" | "r = length payload" by linarith
        then show ?thesis
        proof cases
          case 1
          with d(1) sw variable r show ?thesis by (intro switch [OF _ pc [symmetric]]) simp_all
        next
          case 2
          with d(2) obtain b' p' r' where "run_state (add_item_payload b p r item cb ctx) w =
            (Some (MCL_FAIL, b', p', r'), w)" by blast
          with 2 pc sw show ?thesis by (intro failed [OF r]) simp_all
        next
          case 3
          then obtain code b' p' where c: "run_state (add_item_payload b p r item cb ctx) w = (Some (code, b', p', 0), w)"
            "code \<in> {MCL_OK, MCL_FAIL}" using d(3) by blast
          from rest [OF variable(2)] obtain st' sts' where "sts = st' # sts'" "?rest \<noteq> []"
            using variable(2) by (cases sts) auto
          with 3 c sw pc r show ?thesis by (auto simp: run_bind loop_outcome_def)
        qed
      next
        case False
        then have run: "run_state (multipart_switch st MCL_OK boundary sub_boundary item ct cb ctx b p r) w =
            (add_text b p r (?piece st), w)"
          using \<open>\<not> fixed_state st\<close> assms(3)
          by (auto simp: fixed_state_def multipart_switch_def add_item_meta_json_def
              add_item_payload_content_type_def content_type_text_def piece_def)
        show ?thesis
        proof (cases "length (?piece st) \<le> r")
          case True
          then show ?thesis using run r variable Cons.prems(1)
            by (intro switch [OF _ refl]) (simp_all add: add_text_fits)
        next
          case False
          then show ?thesis using run r by (intro failed [OF r]) (simp_all add: add_text_long)
        qed
      qed
    qed
  qed
qed


lemma run_tuple:
  assumes "length boundary = 20" and "offset + buffer_size \<le> length buffer"
    and "run_state multipart_generate_boundary w = ((MCL_OK, Some sub_boundary), w')"
    and "run_state (json_from_item_meta item) w' = ((MCL_OK, Some meta), w')"
    and "delivers item cb ctx payload w'"
    and "needed = MULTIPART_BASE_SIZE + length meta + length (content_type_text ct) + length payload"
  shows "needed \<le> buffer_size \<Longrightarrow>
      run_state (multipart_add_tuple_with_callback buffer offset buffer_size item boundary ct cb ctx) w =
        (Some (MCL_OK, overwrite buffer offset (tuple_text boundary sub_boundary meta (content_type_text ct) payload),
          buffer_size - needed), w')"
    and "buffer_size < needed \<Longrightarrow>
      \<exists>b. run_state (multipart_add_tuple_with_callback buffer offset buffer_size item boundary ct cb ctx) w =
        (Some (MCL_FAIL, b, buffer_size), w')"
proof -
  have sub: "length sub_boundary = 20" using boundary_length [of w MCL_OK "Some sub_boundary"] assms(3) by simp
  have loop: "loop_outcome buffer offset buffer_size
      (tuple_text boundary sub_boundary meta (content_type_text ct) payload) w'
      (run_state (multipart_loop multipart_states MCL_OK boundary sub_boundary item ct cb ctx
        buffer offset buffer_size) w')"
    unfolding tuple_text_pieces [symmetric] using assms(1) sub assms(4,5,2)
    by (rule run_loop) (simp add: multipart_states_def fixed_state_def space_needed_for_state_def)
  note run = assms(3,6) length_tuple_text [OF assms(1) sub] loop
  show "needed \<le> buffer_size \<Longrightarrow>
      run_state (multipart_add_tuple_with_callback buffer offset buffer_size item boundary ct cb ctx) w =
        (Some (MCL_OK, overwrite buffer offset (tuple_text boundary sub_boundary meta (content_type_text ct) payload),
          buffer_size - needed), w')"
    using run by (auto simp: multipart_add_tuple_with_callback_def loop_outcome_def split: if_splits)
  show "buffer_size < needed \<Longrightarrow>
      \<exists>b. run_state (multipart_add_tuple_with_callback buffer offset buffer_size item boundary ct cb ctx) w =
        (Some (MCL_FAIL, b, buffer_size), w')"
    using run by (auto simp: multipart_add_tuple_with_callback_def loop_outcome_def split: if_splits)
qed

text \<open>C7. While nothing fails, the tuple of an item is written exactly when it fits: its text, from
  the outer boundary through the meta document, the content type and the payload to the closing
  inner boundary, is copied to the start of the free part of the buffer and the remaining size
  shrinks by \<open>MULTIPART_BASE_SIZE\<close> and the lengths of the three variable parts; otherwise the
  answer is \<open>MCL_FAIL\<close> and the remaining size is unchanged.\<close>

theorem multipart_tuple_exact:
  assumes "length boundary = 20" and "offset + buffer_size \<le> length buffer"
    and "run_state multipart_generate_boundary w = ((MCL_OK, Some sub_boundary), w')"
    and "run_state (json_from_item_meta item) w' = ((MCL_OK, Some meta), w')"
    and "delivers item cb ctx payload w'"
    and "needed = MULTIPART_BASE_SIZE + length meta + length (content_type_text ct) + length payload"
  shows "\<exists>b. run_state (multipart_add_tuple_with_callback buffer offset buffer_size item boundary ct cb ctx) w =
     (Some (if needed \<le> buffer_size
        then (MCL_OK, overwrite buffer offset (tuple_text boundary sub_boundary meta (content_type_text ct) payload),
              buffer_size - needed)
        else (MCL_FAIL, b, buffer_size)), w')"
  using run_tuple [OF assms] by (cases "needed \<le> buffer_size") auto

lemma run_boundary_zero:
  "w_alloc w = [] \<Longrightarrow> w_random w = [] \<Longrightarrow>
   run_state multipart_generate_boundary w = ((MCL_OK, Some (replicate 20 CHR ''1'')), w)"
  by (simp add: multipart_generate_boundary_def pick_boundary_character_def boundary_characters_def)

theorem multipart_tuple_exact_witness:
  "\<exists>n b b'. 0 < n \<and>
     run_state (multipart_add_tuple_with_callback (replicate n None) 0 n (one_value ''1'')
       (replicate 20 CHR ''b'') None None ()) \<lparr>w_alloc = [], w_random = []\<rparr> =
       (Some (MCL_OK, b, 0), \<lparr>w_alloc = [], w_random = []\<rparr>) \<and>
     run_state (multipart_add_tuple_with_callback (replicate n None) 0 (n - 1) (one_value ''1'')
       (replicate 20 CHR ''b'') None None ()) \<lparr>w_alloc = [], w_random = []\<rparr> =
       (Some (MCL_FAIL, b', n - 1), \<lparr>w_alloc = [], w_random = []\<rparr>)"
proof -
  let ?w = "\<lparr>w_alloc = [], w_random = []\<rparr>" and ?item = "one_value ''1''"
  note facts = one_value_facts [of "''1''"]
  define n where "n = MULTIPART_BASE_SIZE + length (json_print (meta_json ?item)) +
    length (content_type_text None) + length (payload_text ?item)"
  have run: "run_state multipart_generate_boundary ?w = ((MCL_OK, Some (replicate 20 CHR ''1'')), ?w)"
      "run_state (json_from_item_meta ?item) ?w = ((MCL_OK, Some (json_print (meta_json ?item))), ?w)"
      "delivers ?item None () (payload_text ?item) ?w"
    using facts by (auto intro!: run_boundary_zero run_meta document_delivers run_payload)
  have "0 < n" by (simp add: n_def MULTIPART_BASE_SIZE_def)
  then have "\<not> n \<le> n - Suc 0" by simp
  with \<open>0 < n\<close> show ?thesis
    using multipart_tuple_exact [of "replicate 20 CHR ''b''" 0 n "replicate n None", OF _ _ run n_def]
      multipart_tuple_exact [of "replicate 20 CHR ''b''" 0 "n - 1" "replicate n None", OF _ _ run n_def]
    by (intro exI [of _ n]) simp
qed

end
