(* ===== verification/MclStore.thy ===== *)
theory MclStore
  imports MclCursor MclMultipart
begin

text \<open>
  The store of items that wait for an upload: \<open>src/mcl_connectivity/src/store.c\<close>, and the functions
  of \<open>connectivity_processor.c\<close> that traverse it: the size check before an exchange, the selection
  of the items of a request, the search for the next selected item, and the two passes after the
  exchange. The list of the st is the cursor list of \<open>MclCursor\<close>, each loop over it a
  \<open>while_next\<close> or \<open>for_each\<close>; its \<open>None\<close> is a \<open>NULL\<close> node.

  The base of a st is its constructor, as for the items; a preamble that is wrong is only checked
  for items.
\<close>

section \<open>The store\<close>

datatype E_MCL_STORE_ITEM_STATUS =
    STORE_ITEM_STATUS_READY | STORE_ITEM_STATUS_SELECTED | STORE_ITEM_STATUS_PROCESSED
  | STORE_ITEM_STATUS_IGNORED

record store_item_t =
  si_item :: item
  si_status :: E_MCL_STORE_ITEM_STATUS
  si_id :: mcl_size_t
  si_item_size :: mcl_size_t

record store_t =
  st_item_list :: "store_item_t clist"
  st_last_item_id :: mcl_size_t

text \<open>The second allocation is the list's.\<close>

definition mcl_store_initialize :: "('z, mcl_error \<times> store_t option) io" where
  "mcl_store_initialize = do {
     a \<leftarrow> mcl_malloc;
     if \<not> a then State_Monad.return (MCL_OUT_OF_MEMORY, None)
     else do {
       l \<leftarrow> mcl_malloc;
       State_Monad.return
         (if l then (MCL_OK, Some \<lparr>st_item_list = clist_empty, st_last_item_id = 0\<rparr>)
          else (MCL_OUT_OF_MEMORY, None))
     }
   }"

definition item_preamble :: "item \<Rightarrow> 32 word" where
  "item_preamble item =
     (case item of Timeseries t \<Rightarrow> preamble t | Event e \<Rightarrow> preamble e | File f \<Rightarrow> preamble f
      | CustomData c \<Rightarrow> preamble c | DataSourceConfiguration c \<Rightarrow> preamble c)"

definition item_validate :: "item \<Rightarrow> mcl_error option" where
  "item_validate item =
     (case item of
        Timeseries t \<Rightarrow> timeseries_validate t
      | Event e \<Rightarrow> event_validate e
      | File f \<Rightarrow> Some (file_validate f)
      | CustomData c \<Rightarrow> Some (custom_data_validate c)
      | DataSourceConfiguration c \<Rightarrow> Some (data_source_configuration_validate c))"

text \<open>
  The size of a new store item is not initialised: \<open>left_over\<close> is what the allocated memory held.
  The second allocation is the list node's.
\<close>

definition store_add_data :: "mcl_size_t \<Rightarrow> store_t \<Rightarrow> item \<Rightarrow> ('z, (mcl_error \<times> store_t) option) io" where
  "store_add_data left_over st item =
     (case item_validate item of
        None \<Rightarrow> State_Monad.return None
      | Some code \<Rightarrow>
          if code \<noteq> MCL_OK then State_Monad.return (Some (MCL_INVALID_PARAMETER, st))
          else do {
            a \<leftarrow> mcl_malloc;
            if \<not> a then State_Monad.return (Some (MCL_OUT_OF_MEMORY, st))
            else do {
              let store_item = \<lparr>si_item = item, si_status = STORE_ITEM_STATUS_READY,
                                si_id = st_last_item_id st + 1, si_item_size = left_over\<rparr>;
              n \<leftarrow> mcl_malloc;
              let (code, l) = clist_add n store_item (st_item_list st);
              State_Monad.return (Some
                (if code \<noteq> MCL_OK then (code, st)
                 else (MCL_OK, st\<lparr>st_item_list := l, st_last_item_id := si_id store_item\<rparr>)))
            }
          })"

definition mcl_store_add ::
  "mcl_size_t \<Rightarrow> store_t option \<Rightarrow> item option \<Rightarrow> ('z, (mcl_error \<times> store_t option) option) io" where
  "mcl_store_add left_over st item =
     (case (st, item) of
        (Some s, Some i) \<Rightarrow>
          if item_preamble i \<noteq> MCL_ITEM_PREAMBLE
          then State_Monad.return (Some (MCL_INVALID_PARAMETER, st))
          else do {
            r \<leftarrow> store_add_data left_over s i;
            State_Monad.return (map_option (\<lambda>(code, s). (code, Some s)) r)
          }
      | _ \<Rightarrow> State_Monad.return (Some (MCL_TRIGGERED_WITH_NULL, st)))"

section \<open>Before an exchange\<close>

definition content_type_octet_stream :: string where
  "content_type_octet_stream = ''application/octet-stream''"

definition get_item_size :: "item \<Rightarrow> ('z, mcl_size_t) io" where
  "get_item_size item =
     multipart_get_tuple_size item
       (case item of
          File f \<Rightarrow> Some content_type_octet_stream
        | CustomData c \<Rightarrow> cd_content_type c
        | _ \<Rightarrow> Some content_type_application_json)"

text \<open>
  A loop over the items whose body runs in the world: the world is part of what the loop carries
  along.
\<close>

type_synonym ('z, 'a) item_body = "store_item_t \<Rightarrow> 'a \<Rightarrow> ('z, store_item_t option \<times> 'a) io"

definition in_world :: "('z, 'a) item_body \<Rightarrow> (store_item_t, 'z mem_world_scheme \<times> 'a) body" where
  "in_world b d acc = (case acc of (w, x) \<Rightarrow>
     (case run_state (b d x) w of ((d', x'), w') \<Rightarrow> (d', (w', x'))))"

definition check_item_size :: "mcl_size_t \<Rightarrow> ('z, bool) item_body" where
  "check_item_size max_http_payload_size store_item all_ignored = do {
     n \<leftarrow> get_item_size (si_item store_item);
     let store_item = store_item\<lparr>si_item_size := n\<rparr>;
     State_Monad.return
       (if max_http_payload_size < multipart_get_overhead_size + si_item_size store_item
        then (Some (store_item\<lparr>si_status := STORE_ITEM_STATUS_IGNORED\<rparr>), all_ignored)
        else (Some store_item, False))
   }"

definition check_store_size :: "store_t \<Rightarrow> mcl_size_t \<Rightarrow> ('z, (mcl_error \<times> store_t) option) io" where
  "check_store_size st max_http_payload_size =
     (let l = st_item_list st in
      if clist_count l = 0 then State_Monad.return (Some (MCL_STORE_IS_EMPTY, st))
      else State (\<lambda>w.
        case while_next clist_ops (Suc (clist_count l)) (in_world (check_item_size max_http_payload_size))
               (clist_reset l) (w, True) of
          None \<Rightarrow> (None, w)
        | Some (l', (w', all_ignored)) \<Rightarrow>
            (Some (if all_ignored then MCL_ITEM_EXCEEDS_MAX_HTTP_REQUEST_SIZE else MCL_OK,
                   st\<lparr>st_item_list := l'\<rparr>), w')))"

section \<open>Selecting\<close>

definition select_item :: "(store_item_t, mcl_size_t) body" where
  "select_item store_item remaining_size =
     (if si_item_size store_item \<le> remaining_size
      then (Some (store_item\<lparr>si_status := STORE_ITEM_STATUS_SELECTED\<rparr>),
            remaining_size - si_item_size store_item)
      else (Some store_item, remaining_size))"

definition select_store_items_to_exchange :: "store_t \<Rightarrow> mcl_size_t \<Rightarrow> (store_t \<times> mcl_size_t) option" where
  "select_store_items_to_exchange st max_http_payload_size =
     (let l = st_item_list st;
          remaining_size = max_http_payload_size - multipart_get_overhead_size
      in do {
        (l', remaining_size) \<leftarrow>
          while_next clist_ops (Suc (clist_count l)) select_item (clist_reset l) remaining_size;
        Some (st\<lparr>st_item_list := clist_reset l'\<rparr>, max_http_payload_size - remaining_size)
      })"

text \<open>
  The search goes on from the cursor and leaves it behind the item it found, the only one that may
  be updated. The fuel counts the calls of \<open>mcl_list_next\<close>.
\<close>

fun next_selected :: "nat \<Rightarrow> store_item_t clist \<Rightarrow> (store_item_t option \<times> store_item_t clist) option" where
  "next_selected 0 l = None"
| "next_selected (Suc f) l = do {
     (code, item_node, l) \<leftarrow> clist_next l;
     if code \<noteq> MCL_OK then Some (None, l)
     else do {
       d \<leftarrow> item_node;
       if si_status d = STORE_ITEM_STATUS_SELECTED then Some (Some d, l) else next_selected f l
     }
   }"

definition get_next_selected_store_item :: "store_t \<Rightarrow> (store_item_t option \<times> store_t) option" where
  "get_next_selected_store_item st = do {
     (d, l) \<leftarrow> next_selected (Suc (clist_count (st_item_list st))) (st_item_list st);
     Some (d, st\<lparr>st_item_list := l\<rparr>)
   }"

section \<open>After an exchange\<close>

definition revert_store_item_status :: "store_t \<Rightarrow> store_t option" where
  "revert_store_item_status st = do {
     let l = st_item_list st;
     (l', _) \<leftarrow> for_each clist_ops (clist_count l)
       (\<lambda>d u. (Some (d\<lparr>si_status := STORE_ITEM_STATUS_READY\<rparr>), u)) (clist_reset l) ();
     Some (st\<lparr>st_item_list := l'\<rparr>)
   }"

text \<open>An item that is removed is destroyed with its node.\<close>

definition remove_if_uploaded :: "(store_item_t, bool) body" where
  "remove_if_uploaded d fully_processed =
     (case si_status d of
        STORE_ITEM_STATUS_PROCESSED \<Rightarrow> (None, fully_processed)
      | STORE_ITEM_STATUS_SELECTED \<Rightarrow> (Some (d\<lparr>si_status := STORE_ITEM_STATUS_READY\<rparr>), False)
      | STORE_ITEM_STATUS_READY \<Rightarrow> (Some d, False)
      | STORE_ITEM_STATUS_IGNORED \<Rightarrow> (Some d, fully_processed))"

definition remove_uploaded_store_items :: "store_t \<Rightarrow> (store_t \<times> bool) option" where
  "remove_uploaded_store_items st = do {
     let l = st_item_list st;
     (l', fully_processed) \<leftarrow>
       for_each clist_ops (clist_count l) remove_if_uploaded (clist_reset l) True;
     Some (st\<lparr>st_item_list := l'\<rparr>, fully_processed)
   }"

text \<open>The code, the store, and whether the store is fully processed.\<close>

definition scan_store_after_exchange ::
  "store_t \<Rightarrow> bool \<Rightarrow> mcl_error \<Rightarrow> (mcl_error \<times> store_t \<times> bool) option" where
  "scan_store_after_exchange st store_fully_processed exchange_response = do {
     (st, store_fully_processed) \<leftarrow>
       (if exchange_response = MCL_OK then remove_uploaded_store_items st
        else Some (st, store_fully_processed));
     if store_fully_processed \<and> clist_count (st_item_list st) \<noteq> 0 \<or> exchange_response \<noteq> MCL_OK
     then do {
       st \<leftarrow> revert_store_item_status st;
       Some (if exchange_response = MCL_OK then MCL_ITEM_EXCEEDS_MAX_HTTP_REQUEST_SIZE else exchange_response,
             st, store_fully_processed)
     }
     else Some (exchange_response, st, store_fully_processed)
   }"

end
