(* ===== verification/MclHttp.thy ===== *)
theory MclHttp
  imports MclWorld MclString
begin

text \<open>
  HTTP requests and responses: \<open>src/mcl_core/src/http_request.c\<close>, \<open>http_response.c\<close> and the
  header names of \<open>http_definitions.c\<close>. Header lists are only appended to and traversed from their
  head, so they are HOL lists. The body of a request is not copied: it is the block of the caller.
  A stream callback and its data are addresses. The parameter and the value of a
  \<open>mcl_http_request_set_parameter\<close> call are one constructor, \<open>None\<close> a \<open>NULL\<close> value.
\<close>

section \<open>Requests\<close>

datatype E_MCL_HTTP_METHOD =
    MCL_HTTP_GET | MCL_HTTP_HEAD | MCL_HTTP_POST | MCL_HTTP_PUT | MCL_HTTP_DELETE | MCL_HTTP_PATCH
  | MCL_HTTP_CONNECT | MCL_HTTP_OPTIONS | MCL_HTTP_TRACE | MCL_HTTP_END

record mcl_http_request_t =
  rq_header :: "string list"
  rq_payload :: "char block option"
  rq_payload_size :: nat
  rq_method :: E_MCL_HTTP_METHOD
  rq_uri :: "string option"
  rq_stream_callback :: "nat option"
  rq_stream_data :: "nat option"

datatype http_request_parameter =
    MCL_HTTP_REQUEST_PARAMETER_METHOD E_MCL_HTTP_METHOD
  | MCL_HTTP_REQUEST_PARAMETER_URL string
  | MCL_HTTP_REQUEST_PARAMETER_BODY "char block"
  | MCL_HTTP_REQUEST_PARAMETER_BODY_SIZE nat
  | MCL_HTTP_REQUEST_PARAMETER_STREAM_CALLBACK nat
  | MCL_HTTP_REQUEST_PARAMETER_STREAM_DATA nat
  | MCL_HTTP_REQUEST_PARAMETER_END

text \<open>The second allocation is the list's.\<close>

definition mcl_http_request_initialize :: "('z, mcl_error \<times> mcl_http_request_t option) io" where
  "mcl_http_request_initialize = do {
     a \<leftarrow> mcl_malloc;
     if \<not> a then State_Monad.return (MCL_OUT_OF_MEMORY, None)
     else do {
       l \<leftarrow> mcl_malloc;
       State_Monad.return
         (if l then (MCL_OK, Some \<lparr>rq_header = [], rq_payload = None, rq_payload_size = 0,
            rq_method = MCL_HTTP_GET, rq_uri = None, rq_stream_callback = None, rq_stream_data = None\<rparr>)
          else (MCL_OUT_OF_MEMORY, None))
     }
   }"

definition mcl_http_request_add_header ::
  "mcl_http_request_t option \<Rightarrow> string option \<Rightarrow> string option \<Rightarrow>
   ('z, mcl_error \<times> mcl_http_request_t option) io" where
  "mcl_http_request_add_header http_request header_name header_value = on_pointer http_request (\<lambda>request.
     (case header_name of
        None \<Rightarrow> State_Monad.return (MCL_TRIGGERED_WITH_NULL, request)
      | Some name \<Rightarrow> (case header_value of
          None \<Rightarrow> State_Monad.return (MCL_TRIGGERED_WITH_NULL, request)
        | Some value \<Rightarrow> do {
            let header_line_length = length name + length value + 2;
            a \<leftarrow> mcl_malloc;
            if \<not> a then State_Monad.return (MCL_OUT_OF_MEMORY, request)
            else (case snprintf_text (header_line_length + 1) (name @ '': '' @ value) of
                Err code \<Rightarrow> State_Monad.return (code, request)
              | Ok header_line \<Rightarrow> do {
                  n \<leftarrow> mcl_malloc;
                  State_Monad.return
                    (if n then (MCL_OK, request\<lparr>rq_header := rq_header request @ [header_line]\<rparr>)
                     else (MCL_OUT_OF_MEMORY, request))
                })
          })))"

text \<open>\<open>string_util_reset\<close> on the address: the old one is released before the copy is made.\<close>

definition mcl_http_request_set_parameter ::
  "mcl_http_request_t option \<Rightarrow> http_request_parameter option \<Rightarrow>
   ('z, mcl_error \<times> mcl_http_request_t option) io" where
  "mcl_http_request_set_parameter http_request parameter = on_pointer http_request (\<lambda>request.
     (case parameter of
        None \<Rightarrow> State_Monad.return (MCL_TRIGGERED_WITH_NULL, request)
      | Some (MCL_HTTP_REQUEST_PARAMETER_METHOD m) \<Rightarrow> State_Monad.return
          (if m \<noteq> MCL_HTTP_END then (MCL_OK, request\<lparr>rq_method := m\<rparr>) else (MCL_INVALID_PARAMETER, request))
      | Some (MCL_HTTP_REQUEST_PARAMETER_URL s) \<Rightarrow> do {
          a \<leftarrow> mcl_malloc;
          State_Monad.return
            (if a then (MCL_OK, request\<lparr>rq_uri := Some s\<rparr>) else (MCL_OUT_OF_MEMORY, request\<lparr>rq_uri := None\<rparr>))
        }
      | Some (MCL_HTTP_REQUEST_PARAMETER_BODY b) \<Rightarrow> State_Monad.return
          (MCL_OK, request\<lparr>rq_payload := Some b, rq_stream_callback := None\<rparr>)
      | Some (MCL_HTTP_REQUEST_PARAMETER_BODY_SIZE n) \<Rightarrow> State_Monad.return
          (MCL_OK, request\<lparr>rq_payload_size := n\<rparr>)
      | Some (MCL_HTTP_REQUEST_PARAMETER_STREAM_CALLBACK c) \<Rightarrow> State_Monad.return
          (MCL_OK, request\<lparr>rq_stream_callback := Some c, rq_payload := None\<rparr>)
      | Some (MCL_HTTP_REQUEST_PARAMETER_STREAM_DATA d) \<Rightarrow> State_Monad.return
          (MCL_OK, request\<lparr>rq_stream_data := Some d\<rparr>)
      | Some MCL_HTTP_REQUEST_PARAMETER_END \<Rightarrow> State_Monad.return (MCL_INVALID_PARAMETER, request)))"

section \<open>Responses\<close>

text \<open>The status code is the number the server sent.\<close>

record mcl_http_response_t =
  rs_header :: "string list"
  rs_payload :: "string option"
  rs_payload_size :: nat
  rs_status_code :: nat

definition MCL_HTTP_STATUS_CODE_SUCCESS :: nat where "MCL_HTTP_STATUS_CODE_SUCCESS = 200"
definition MCL_HTTP_STATUS_CODE_CREATED :: nat where "MCL_HTTP_STATUS_CODE_CREATED = 201"
definition MCL_HTTP_STATUS_CODE_PARTIAL_CONTENT :: nat where "MCL_HTTP_STATUS_CODE_PARTIAL_CONTENT = 206"
definition MCL_HTTP_STATUS_CODE_BAD_REQUEST :: nat where "MCL_HTTP_STATUS_CODE_BAD_REQUEST = 400"
definition MCL_HTTP_STATUS_CODE_UNAUTHORIZED :: nat where "MCL_HTTP_STATUS_CODE_UNAUTHORIZED = 401"
definition MCL_HTTP_STATUS_CODE_FORBIDDEN :: nat where "MCL_HTTP_STATUS_CODE_FORBIDDEN = 403"
definition MCL_HTTP_STATUS_CODE_NOT_FOUND :: nat where "MCL_HTTP_STATUS_CODE_NOT_FOUND = 404"
definition MCL_HTTP_STATUS_CODE_CONFLICT :: nat where "MCL_HTTP_STATUS_CODE_CONFLICT = 409"
definition MCL_HTTP_STATUS_CODE_PRECONDITION_FAILED :: nat where "MCL_HTTP_STATUS_CODE_PRECONDITION_FAILED = 412"
definition MCL_HTTP_STATUS_CODE_PAYLOAD_TOO_LARGE :: nat where "MCL_HTTP_STATUS_CODE_PAYLOAD_TOO_LARGE = 413"
definition MCL_HTTP_RESULT_CODE_TOO_MANY_REQUESTS :: nat where "MCL_HTTP_RESULT_CODE_TOO_MANY_REQUESTS = 429"
definition MCL_HTTP_STATUS_CODE_INTERNAL_SERVER_ERR :: nat where "MCL_HTTP_STATUS_CODE_INTERNAL_SERVER_ERR = 500"

lemmas http_status_codes = MCL_HTTP_STATUS_CODE_SUCCESS_def MCL_HTTP_STATUS_CODE_CREATED_def
  MCL_HTTP_STATUS_CODE_PARTIAL_CONTENT_def MCL_HTTP_STATUS_CODE_BAD_REQUEST_def
  MCL_HTTP_STATUS_CODE_UNAUTHORIZED_def MCL_HTTP_STATUS_CODE_FORBIDDEN_def
  MCL_HTTP_STATUS_CODE_NOT_FOUND_def MCL_HTTP_STATUS_CODE_CONFLICT_def
  MCL_HTTP_STATUS_CODE_PRECONDITION_FAILED_def MCL_HTTP_STATUS_CODE_PAYLOAD_TOO_LARGE_def
  MCL_HTTP_RESULT_CODE_TOO_MANY_REQUESTS_def MCL_HTTP_STATUS_CODE_INTERNAL_SERVER_ERR_def

definition mcl_http_response_initialize ::
  "string list option \<Rightarrow> string option \<Rightarrow> nat \<Rightarrow> nat \<Rightarrow> ('z, mcl_error \<times> mcl_http_response_t option) io" where
  "mcl_http_response_initialize header payload payload_size status_code =
     (case header of
        None \<Rightarrow> State_Monad.return (MCL_TRIGGERED_WITH_NULL, None)
      | Some h \<Rightarrow> do {
          a \<leftarrow> mcl_malloc;
          State_Monad.return
            (if a then (MCL_OK, Some \<lparr>rs_header = h, rs_payload = payload, rs_payload_size = payload_size,
               rs_status_code = status_code\<rparr>)
             else (MCL_OUT_OF_MEMORY, None))
        })"

text \<open>The string in a block: its cells up to the terminator, all of which must be written.\<close>

fun block_string :: "char block \<Rightarrow> string option" where
  "block_string [] = None"
| "block_string (None # b) = None"
| "block_string (Some c # b) = (if c = MCL_NULL_CHAR then Some [] else map_option ((#) c) (block_string b))"

lemma block_string_cstr: "cstring s \<Longrightarrow> block_string (map Some s @ Some MCL_NULL_CHAR # b) = Some s"
  by (induction s) (auto simp: cstring_def)

text \<open>The value is copied into a block of zeros, and a terminator is written behind it.\<close>

definition copy_value :: "nat \<Rightarrow> char list \<Rightarrow> nat \<Rightarrow> string option" where
  "copy_value block_size source value_length = do {
     header_value \<leftarrow> string_util_strncpy (replicate block_size (Some MCL_NULL_CHAR)) 0 source value_length;
     header_value \<leftarrow> store header_value value_length MCL_NULL_CHAR;
     block_string header_value
   }"

text \<open>
  The value of a header line in which the name was found at \<open>index\<close>. A failed search for the colon
  leaves the index where it was. \<open>None\<close> is an access outside the line or the block.
\<close>

definition header_value_of :: "string \<Rightarrow> nat \<Rightarrow> bool \<Rightarrow> string result option" where
  "header_value_of header index alloc = do {
     colon \<leftarrow> string_util_find header '':'';
     let index = (case colon of None \<Rightarrow> index | Some i \<Rightarrow> i);
     c \<leftarrow> char_at header (index + 1);
     let index = (if c = CHR '' '' then index + 1 else index);
     if \<not> index < length header then None
     else if \<not> alloc then Some (Err MCL_OUT_OF_MEMORY)
     else do {
       value \<leftarrow> copy_value (length header - index) (drop (index + 1) (cstr header)) (length header - index - 1);
       Some (Ok value)
     }
   }"

fun header_lookup :: "string list \<Rightarrow> string \<Rightarrow> ('z, string result option) io" where
  "header_lookup [] header_name = State_Monad.return (Some (Err MCL_FAIL))"
| "header_lookup (header # headers) header_name =
     (case string_util_find_case_insensitive header header_name of
        None \<Rightarrow> State_Monad.return None
      | Some None \<Rightarrow> header_lookup headers header_name
      | Some (Some index) \<Rightarrow> do {
          a \<leftarrow> mcl_malloc;
          State_Monad.return (header_value_of header index a)
        })"

definition mcl_http_response_get_header ::
  "mcl_http_response_t option \<Rightarrow> string option \<Rightarrow> ('z, string result option) io" where
  "mcl_http_response_get_header http_response header_name =
     (case (http_response, header_name) of
        (Some response, Some name) \<Rightarrow> header_lookup (rs_header response) name
      | _ \<Rightarrow> State_Monad.return (Some (Err MCL_TRIGGERED_WITH_NULL)))"

definition mcl_http_response_get_status :: "mcl_http_response_t option \<Rightarrow> mcl_error" where
  "mcl_http_response_get_status http_response =
     (case http_response of
        None \<Rightarrow> MCL_TRIGGERED_WITH_NULL
      | Some r \<Rightarrow>
          if rs_status_code r = MCL_HTTP_STATUS_CODE_SUCCESS then MCL_OK
          else if rs_status_code r = MCL_HTTP_STATUS_CODE_CREATED then MCL_CREATED
          else if rs_status_code r = MCL_HTTP_STATUS_CODE_PARTIAL_CONTENT then MCL_PARTIAL_CONTENT
          else if rs_status_code r = MCL_HTTP_STATUS_CODE_BAD_REQUEST then MCL_BAD_REQUEST
          else if rs_status_code r = MCL_HTTP_STATUS_CODE_UNAUTHORIZED then MCL_UNAUTHORIZED
          else if rs_status_code r = MCL_HTTP_STATUS_CODE_FORBIDDEN then MCL_FORBIDDEN
          else if rs_status_code r = MCL_HTTP_STATUS_CODE_NOT_FOUND then MCL_NOT_FOUND
          else if rs_status_code r = MCL_HTTP_STATUS_CODE_CONFLICT then MCL_CONFLICT
          else if rs_status_code r = MCL_HTTP_STATUS_CODE_PRECONDITION_FAILED then MCL_PRECONDITION_FAIL
          else if rs_status_code r = MCL_HTTP_STATUS_CODE_PAYLOAD_TOO_LARGE then MCL_REQUEST_PAYLOAD_TOO_LARGE
          else if rs_status_code r = MCL_HTTP_RESULT_CODE_TOO_MANY_REQUESTS then MCL_TOO_MANY_REQUESTS
          else if rs_status_code r = MCL_HTTP_STATUS_CODE_INTERNAL_SERVER_ERR then MCL_SERVER_FAIL
          else MCL_UNEXPECTED_RESULT_CODE)"

section \<open>Header names\<close>

datatype E_HTTP_HEADER_NAMES =
    HTTP_HEADER_AUTHORIZATION | HTTP_HEADER_CONTENT_TYPE | HTTP_HEADER_CONTENT_ID
  | HTTP_HEADER_CONTENT_LENGTH | HTTP_HEADER_TRANSFER_ENCODING | HTTP_HEADER_TRANSFER_ENCODING_CHUNKED
  | HTTP_HEADER_USER_AGENT | HTTP_HEADER_ACCEPT | HTTP_HEADER_HOST | HTTP_HEADER_RANGE
  | HTTP_HEADER_CONTENT_RANGE | HTTP_HEADER_CONTENT_DISPOSITION | HTTP_HEADER_SERVER_TIME
  | HTTP_HEADER_IF_MATCH | HTTP_HEADER_ETAG | HTTP_HEADER_CORRELATION_ID

text \<open>The value of an enumerator, its position in the declaration.\<close>

definition header_index :: "E_HTTP_HEADER_NAMES \<Rightarrow> nat" where
  "header_index n =
     (case n of
        HTTP_HEADER_AUTHORIZATION \<Rightarrow> 0 | HTTP_HEADER_CONTENT_TYPE \<Rightarrow> 1 | HTTP_HEADER_CONTENT_ID \<Rightarrow> 2
      | HTTP_HEADER_CONTENT_LENGTH \<Rightarrow> 3 | HTTP_HEADER_TRANSFER_ENCODING \<Rightarrow> 4
      | HTTP_HEADER_TRANSFER_ENCODING_CHUNKED \<Rightarrow> 5 | HTTP_HEADER_USER_AGENT \<Rightarrow> 6
      | HTTP_HEADER_ACCEPT \<Rightarrow> 7 | HTTP_HEADER_HOST \<Rightarrow> 8 | HTTP_HEADER_RANGE \<Rightarrow> 9
      | HTTP_HEADER_CONTENT_RANGE \<Rightarrow> 10 | HTTP_HEADER_CONTENT_DISPOSITION \<Rightarrow> 11
      | HTTP_HEADER_SERVER_TIME \<Rightarrow> 12 | HTTP_HEADER_IF_MATCH \<Rightarrow> 13 | HTTP_HEADER_ETAG \<Rightarrow> 14
      | HTTP_HEADER_CORRELATION_ID \<Rightarrow> 15)"

definition http_header_table :: "string list" where
  "http_header_table =
     [''Authorization'', ''Content-Type'', ''Content-ID'', ''Content-Length'', ''Transfer-Encoding'',
      ''Transfer-Encoding: chunked'', ''User-Agent'', ''Accept'', ''Host'', ''Content-Disposition'',
      ''Range'', ''Content-Range'', ''Server-Time'', ''If-Match'', ''ETag'', ''Correlation-ID'']"

definition http_header_names :: "E_HTTP_HEADER_NAMES \<Rightarrow> string" where
  "http_header_names n = http_header_table ! header_index n"

section \<open>Facts\<close>

text \<open>Two rows of the table are not where the enumeration expects them.\<close>

lemma header_names_shifted:
  "http_header_names HTTP_HEADER_RANGE = ''Content-Disposition''"
  "http_header_names HTTP_HEADER_CONTENT_RANGE = ''Range''"
  "http_header_names HTTP_HEADER_CONTENT_DISPOSITION = ''Content-Range''"
  by (simp_all add: http_header_names_def http_header_table_def header_index_def)

lemma occurs_bound: "occurs eq source target i \<Longrightarrow> target \<noteq> [] \<Longrightarrow> i + length target \<le> length source"
  by (cases "i \<le> length source") (auto simp: occurs_def dest: list_all2_lengthD)

lemma occurs_start: "(\<And>c. eq c c) \<Longrightarrow> occurs eq (target @ rest) target 0"
  by (simp add: occurs_def list_all2_refl)

lemma find_result_bound:
  assumes "find_with eq source target = Some (Some i)"
  shows "i < length source"
proof -
  have "target \<noteq> []" using assms by (auto simp: find_with_def)
  moreover have "occurs eq source target i" using find_with_sound [of eq source target] assms by auto
  ultimately show ?thesis using occurs_bound [of eq source target i] by (cases target) auto
qed

lemma strncpy_cells_total: "\<exists>v. strncpy_cells (s @ [MCL_NULL_CHAR]) n = Some v"
  by (induction s arbitrary: n) (case_tac n; auto)+

lemma strncpy_cells_value:
  "cstring s \<Longrightarrow> strncpy_cells (s @ rest) (length s) = Some s"
  using strncpy_cells_exact [of s "length s" rest] by simp

text \<open>The value in its block.\<close>

lemma strncpy_cells_length: "strncpy_cells source n = Some v \<Longrightarrow> length v = n"
  by (induction source n arbitrary: v rule: strncpy_cells.induct) (auto split: if_splits)

lemma block_string_cells: "block_string (map Some v @ [Some MCL_NULL_CHAR]) = Some (takeWhile (\<lambda>c. c \<noteq> MCL_NULL_CHAR) v)"
  by (induction v) auto

lemma value_block:
  assumes "strncpy_cells source n = Some v"
  shows "copy_value (Suc n) source n = Some (takeWhile (\<lambda>c. c \<noteq> MCL_NULL_CHAR) v)"
proof -
  have v: "length v = n" using assms by (rule strncpy_cells_length)
  have "drop n (replicate (Suc n) (Some MCL_NULL_CHAR)) = [Some MCL_NULL_CHAR]"
    by (simp only: drop_replicate) simp
  then have "string_util_strncpy (replicate (Suc n) (Some MCL_NULL_CHAR)) 0 source n =
      Some (map Some v @ [Some MCL_NULL_CHAR])"
    using assms v by (simp add: string_util_strncpy_def string_util_memcpy_def)
  moreover have "store (map Some v @ [Some MCL_NULL_CHAR]) n MCL_NULL_CHAR = Some (map Some v @ [Some MCL_NULL_CHAR])"
    using v by (simp add: store_def list_update_append)
  ultimately show ?thesis by (simp add: copy_value_def block_string_cells)
qed

lemma header_value_total:
  assumes "index < length header"
  shows "\<exists>r. header_value_of header index alloc = Some r"
proof -
  obtain r where find: "string_util_find header '':'' = Some r" and "r \<noteq> None \<longrightarrow> the r < length header"
    using find_with_sound [of same_char header "'':''"] find_result_bound [of same_char header "'':''"]
    by (auto simp: string_util_find_def)
  define i where "i = (case r of None \<Rightarrow> index | Some i \<Rightarrow> i)"
  have i: "i < length header" using \<open>r \<noteq> None \<longrightarrow> _\<close> assms by (auto simp: i_def split: option.splits)
  then obtain c where c: "char_at header (i + 1) = Some c" "c = CHR '' '' \<longrightarrow> i + 1 < length header"
    by (cases "Suc i = length header") (auto simp: char_at_def MCL_NULL_CHAR_def)
  define j where "j = (if c = CHR '' '' then i + 1 else i)"
  have j: "j < length header" using i c(2) by (simp add: j_def)
  then have "drop (j + 1) (cstr header) = drop (j + 1) header @ [MCL_NULL_CHAR]" by (simp add: cstr_def)
  with strncpy_cells_total obtain v where "strncpy_cells (drop (j + 1) (cstr header)) (length header - j - 1) = Some v"
    by metis
  then have "copy_value (length header - j) (drop (j + 1) (cstr header)) (length header - j - 1) =
      Some (takeWhile (\<lambda>c. c \<noteq> MCL_NULL_CHAR) v)" using value_block j by (metis Suc_diff_Suc diff_Suc_eq_diff_pred One_nat_def Suc_pred' zero_less_diff)
  then show ?thesis using find c(1) j by (auto simp: header_value_of_def i_def [symmetric] j_def [symmetric])
qed

text \<open>The value of a line of the form that \<open>mcl_http_request_add_header\<close> writes.\<close>

lemma header_value_line:
  assumes "CHR '':'' \<notin> set name" and "cstring value" and "name \<noteq> []"
  shows "header_value_of (name @ '': '' @ value) index alloc =
    Some (if alloc then Ok value else Err MCL_OUT_OF_MEMORY)"
proof -
  let ?line = "name @ '': '' @ value"
  have "string_util_find ?line '':'' = Some (Some (length name))"
    unfolding string_util_find_def
  proof (rule find_with_complete)
    show "occurs same_char ?line '':'' (length name)" by (simp add: occurs_def same_char_def)
    show "\<forall>j < length name. \<not> same_char (?line ! j) ('':'' ! 0)"
      using assms(1) by (auto simp: same_char_def nth_append) (metis nth_mem)
  qed simp
  moreover have "takeWhile (\<lambda>c. c \<noteq> MCL_NULL_CHAR) value = value"
    using assms(2) by (auto simp: cstring_def takeWhile_eq_all_conv)
  ultimately show ?thesis
    using value_block [OF strncpy_cells_value [OF assms(2), of "[MCL_NULL_CHAR]"]]
    by (simp add: header_value_of_def char_at_def nth_append cstr_def)
qed

lemma lookup_line:
  assumes "name \<noteq> []" and "CHR '':'' \<notin> set name" and "cstring value" and "w_alloc w = []"
    and "\<forall>h \<in> set before. \<forall>i. \<not> occurs same_letter h name i"
  shows "run_state (header_lookup (before @ (name @ '': '' @ value) # after) name) w = (Some (Ok value), w)"
  using assms(5)
proof (induction before)
  case Nil
  have "string_util_find_case_insensitive (name @ '': '' @ value) name = Some (Some 0)"
    unfolding string_util_find_case_insensitive_def
    using assms(1) by (intro find_with_complete occurs_start) (simp_all add: same_letter_def)
  then show ?case using header_value_line [OF assms(2,3,1)] assms(4) by simp
next
  case (Cons h hs)
  have "string_util_find_case_insensitive h name = Some None"
    using find_with_sound [of same_letter h name] Cons.prems
    by (auto simp: string_util_find_case_insensitive_def split: option.splits)
  then show ?case using Cons by simp
qed

section \<open>Properties\<close>

text \<open>A header that a request was given is found again with its value in a response that
  carries the same header lines: the line is the name, a colon, a space and the value, and the
  search returns the value of the first line in which the name occurs. So the header is found
  unless its name occurs in an earlier line.\<close>

theorem header_round_trip:
  assumes "w_alloc w = []" and "name \<noteq> []" and "CHR '':'' \<notin> set name" and "cstring value"
    and "\<forall>h \<in> set (rq_header request). \<forall>i. \<not> occurs same_letter h name i"
    and "rs_header response = rq_header request @ (name @ '': '' @ value) # later"
  shows "run_state (mcl_http_request_add_header (Some request) (Some name) (Some value)) w =
           ((MCL_OK, Some (request\<lparr>rq_header := rq_header request @ [name @ '': '' @ value]\<rparr>)), w) \<and>
         run_state (mcl_http_response_get_header (Some response) (Some name)) w = (Some (Ok value), w)"
  using assms lookup_line [of name "value" w "rq_header request" later]
  by (simp add: mcl_http_request_add_header_def mcl_http_response_get_header_def run_bind Let_def
      snprintf_text_fits)

theorem header_round_trip_witness:
  "run_state (mcl_http_request_add_header (Some \<lparr>rq_header = [''Accept: b''], rq_payload = None,
       rq_payload_size = 0, rq_method = MCL_HTTP_GET, rq_uri = None, rq_stream_callback = None,
       rq_stream_data = None\<rparr>) (Some ''ETag'') (Some ''7'')) \<lparr>w_alloc = [], w_random = []\<rparr> =
     ((MCL_OK, Some \<lparr>rq_header = [''Accept: b'', ''ETag: 7''], rq_payload = None,
       rq_payload_size = 0, rq_method = MCL_HTTP_GET, rq_uri = None, rq_stream_callback = None,
       rq_stream_data = None\<rparr>), \<lparr>w_alloc = [], w_random = []\<rparr>) \<and>
   run_state (mcl_http_response_get_header (Some \<lparr>rs_header = [''Accept: b'', ''ETag: 7''],
       rs_payload = None, rs_payload_size = 0, rs_status_code = 200\<rparr>) (Some ''ETag''))
       \<lparr>w_alloc = [], w_random = []\<rparr> = (Some (Ok ''7''), \<lparr>w_alloc = [], w_random = []\<rparr>)"
proof -
  have "\<not> occurs same_letter ''Accept: b'' ''ETag'' i" for i
  proof
    assume o: "occurs same_letter ''Accept: b'' ''ETag'' i"
    then have "i \<le> 5" using occurs_bound [OF o] by simp
    then have "i \<in> {0, 1, 2, 3, 4, 5}" by auto
    with o show False
      by (auto simp: occurs_def same_letter_def LOWERCASE_def of_char_def char_of_def)
  qed
  then show ?thesis
    using header_round_trip [of "\<lparr>w_alloc = [], w_random = []\<rparr>" "''ETag''" "''7''"
      "\<lparr>rq_header = [''Accept: b''], rq_payload = None, rq_payload_size = 0, rq_method = MCL_HTTP_GET,
        rq_uri = None, rq_stream_callback = None, rq_stream_data = None\<rparr>"
      "\<lparr>rs_header = [''Accept: b'', ''ETag: 7''], rs_payload = None, rs_payload_size = 0, rs_status_code = 200\<rparr>"
      "[]"]
    by (simp add: cstring_def MCL_NULL_CHAR_def)
qed

lemma header_lookup_total: "\<exists>r. fst (run_state (header_lookup headers name) w) = Some r"
proof (induction headers)
  case (Cons h hs)
  obtain r where r: "string_util_find_case_insensitive h name = Some r"
    "r \<noteq> None \<longrightarrow> the r < length h"
    using find_with_sound [of same_letter h name] find_result_bound [of same_letter h name]
    by (auto simp: string_util_find_case_insensitive_def)
  then show ?case using Cons header_value_total
    by (cases r) (auto simp: run_bind split: prod.split)
qed simp

text \<open>C31. The search for a header returns on every response and reads only inside its header
  lines; but it looks for the name anywhere in a line, so the answer can come from another header
  whose value mentions the name.\<close>

theorem get_header_total_but_matches_values:
  "(\<forall>response name (w :: mem_world). \<exists>r. fst (run_state (mcl_http_response_get_header response name) w) = Some r) \<and>
   fst (run_state (mcl_http_response_get_header (Some \<lparr>rs_header =
       [''Access-Control-Expose-Headers: ETag'', ''ETag: 7''], rs_payload = None, rs_payload_size = 0,
       rs_status_code = 200\<rparr>) (Some ''ETag'')) \<lparr>w_alloc = [], w_random = []\<rparr>) = Some (Ok ''ETag'')"
proof
  show "\<forall>response name (w :: mem_world). \<exists>r.
      fst (run_state (mcl_http_response_get_header response name) w) = Some r"
    using header_lookup_total by (auto simp: mcl_http_response_get_header_def split: option.split)
  have "string_util_find_case_insensitive ''Access-Control-Expose-Headers: ETag'' ''ETag'' = Some (Some 31)"
    by code_simp
  moreover have "header_value_of ''Access-Control-Expose-Headers: ETag'' 31 True = Some (Ok ''ETag'')"
    by code_simp
  ultimately show "fst (run_state (mcl_http_response_get_header (Some \<lparr>rs_header =
       [''Access-Control-Expose-Headers: ETag'', ''ETag: 7''], rs_payload = None, rs_payload_size = 0,
       rs_status_code = 200\<rparr>) (Some ''ETag'')) \<lparr>w_alloc = [], w_random = []\<rparr>) = Some (Ok ''ETag'')"
    by (simp add: mcl_http_response_get_header_def)
qed

end
