(* ===== verification/MclNetwork.thy ===== *)
theory MclNetwork
  imports MclHttp
begin

text \<open>
  The HTTP client as the interface to the network (\<open>mcl_http_client_send\<close> of
  \<open>src/mcl_core/include/mcl_core/mcl_http_client.h\<close>, implemented over sockets or libcurl): the world
  holds the answers that are to come (an exhausted script answers 200) and records the requests that
  were sent. With it the facts that run the statements which build a request.
\<close>

section \<open>The network\<close>

record net_world = mem_world +
  w_answers :: "mcl_http_response_t result list"
  w_sent :: "mcl_http_request_t list"

definition http_success :: mcl_http_response_t where
  "http_success = \<lparr>rs_header = [], rs_payload = None, rs_payload_size = 0,
     rs_status_code = MCL_HTTP_STATUS_CODE_SUCCESS\<rparr>"

definition mcl_http_client_send ::
  "mcl_http_request_t \<Rightarrow> ('z net_world_ext, mcl_http_response_t result) io" where
  "mcl_http_client_send request = State (\<lambda>w.
     let w' = w\<lparr>w_sent := w_sent w @ [request]\<rparr> in
     case w_answers w of
       [] \<Rightarrow> (Ok http_success, w')
     | r # rs \<Rightarrow> (r, w'\<lparr>w_answers := rs\<rparr>))"

text \<open>A request with the code of the steps before it: sent when it is complete.\<close>

definition send_if_ok ::
  "mcl_error \<Rightarrow> mcl_http_request_t option \<Rightarrow> ('z net_world_ext, mcl_http_response_t result option) io" where
  "send_if_ok code request =
     (if code \<noteq> MCL_OK then State_Monad.return (Some (Err code))
      else (case request of
          None \<Rightarrow> State_Monad.return None
        | Some rq \<Rightarrow> do { r \<leftarrow> mcl_http_client_send rq; State_Monad.return (Some r) }))"

text \<open>Consecutive copies fill a fresh block.\<close>

lemma memcpy_fresh:
  assumes "n = length init" and "count = length src"
  shows "string_util_memcpy (map Some init @ fresh_block (count + k)) n (src @ rest) count =
    Some (map Some (init @ src) @ fresh_block k)"
  using assms by (simp add: string_util_memcpy_def fresh_block_def)

text \<open>A copy to the position, which it advances; a copy from \<open>NULL\<close> is undefined.\<close>

definition copy_text :: "string option \<Rightarrow> char block \<times> nat \<Rightarrow> (char block \<times> nat) option" where
  "copy_text text at = do {
     t \<leftarrow> text;
     b \<leftarrow> string_util_memcpy (fst at) (snd at) t (length t);
     Some (b, snd at + length t)
   }"

text \<open>A block with the text written so far and \<open>n\<close> free cells behind it.\<close>

definition filled :: "string \<Rightarrow> nat \<Rightarrow> char block \<times> nat" where
  "filled written n = (map Some written @ fresh_block n, length written)"

lemma copy_text_filled:
  assumes "length t \<le> n"
  shows "copy_text (Some t) (filled written n) = Some (filled (written @ t) (n - length t))"
proof -
  obtain k where "n = length t + k" using assms le_Suc_ex by blast
  then show ?thesis
    using memcpy_fresh [of "length written" written "length t" t k "[]"]
    by (simp add: copy_text_def filled_def)
qed

lemma block_string_exact: "cstring s \<Longrightarrow> block_string (map Some (cstr s)) = Some s"
  using block_string_cstr [of s "[]"] by (simp add: cstr_def)

section \<open>Running\<close>

text \<open>Allocations and random bytes do not fail.\<close>

definition good_world :: "'z mem_world_scheme \<Rightarrow> bool" where
  "good_world w \<longleftrightarrow> w_alloc w = [] \<and> w_random w = []"

definition sent :: "mcl_http_request_t \<Rightarrow> 'z net_world_scheme \<Rightarrow> 'z net_world_scheme" where
  "sent rq w = w\<lparr>w_sent := w_sent w @ [rq], w_answers := tl (w_answers w)\<rparr>"

definition next_answer :: "'z net_world_scheme \<Rightarrow> mcl_http_response_t result" where
  "next_answer w = (case w_answers w of [] \<Rightarrow> Ok http_success | r # _ \<Rightarrow> r)"

lemma run_http_client_send: "run_state (mcl_http_client_send rq) w = (next_answer w, sent rq w)"
  by (simp add: mcl_http_client_send_def next_answer_def sent_def Let_def split: list.splits)

lemma good_sent [simp]: "good_world (sent rq w) = good_world w"
  by (simp add: good_world_def sent_def)

lemma w_sent_sent [simp]: "w_sent (sent rq w) = w_sent w @ [rq]"
  by (simp add: sent_def)

lemma run_add_header:
  assumes "w_alloc w = []"
  shows "run_state (mcl_http_request_add_header (Some rq) (Some name) (Some v)) w =
    ((MCL_OK, Some (rq\<lparr>rq_header := rq_header rq @ [name @ '': '' @ v]\<rparr>)), w)"
  using assms by (simp add: mcl_http_request_add_header_def snprintf_text_fits run_bind)

lemma run_set_parameter:
  assumes "w_alloc w = []"
  shows "run_state (mcl_http_request_set_parameter (Some rq) (Some (MCL_HTTP_REQUEST_PARAMETER_URL u))) w =
      ((MCL_OK, Some (rq\<lparr>rq_uri := Some u\<rparr>)), w)"
    and "run_state (mcl_http_request_set_parameter (Some rq) (Some (MCL_HTTP_REQUEST_PARAMETER_BODY b))) w =
      ((MCL_OK, Some (rq\<lparr>rq_payload := Some b, rq_stream_callback := None\<rparr>)), w)"
    and "run_state (mcl_http_request_set_parameter (Some rq) (Some (MCL_HTTP_REQUEST_PARAMETER_BODY_SIZE n))) w =
      ((MCL_OK, Some (rq\<lparr>rq_payload_size := n\<rparr>)), w)"
    and "m \<noteq> MCL_HTTP_END \<Longrightarrow>
      run_state (mcl_http_request_set_parameter (Some rq) (Some (MCL_HTTP_REQUEST_PARAMETER_METHOD m))) w =
      ((MCL_OK, Some (rq\<lparr>rq_method := m\<rparr>)), w)"
  using assms by (simp_all add: mcl_http_request_set_parameter_def run_bind)

end
