(* ===== verification/MclExchange.thy ===== *)
theory MclExchange
  imports MclStore MclNetwork
begin

text \<open>
  The uploads of the connectivity library: \<open>src/mcl_connectivity/src/connectivity_processor.c\<close>. The
  body of a request is prepared in a block of the size computed before, the request is built and
  sent, the answer evaluated; for a store the items of a request are selected first and removed or
  put back afterwards, and the whole is repeated until the store is done.
  What a file holds is an argument.
\<close>

section \<open>The processor\<close>

record connectivity_processor_t =
  cp_agent_id :: "string option"
  cp_hostname :: "string option"
  cp_access_token :: string
  cp_exchange_url :: "string option"
  cp_mapping_url :: "string option"
  cp_max_http_payload_size :: mcl_size_t

definition content_type_multipart_mixed :: string where "content_type_multipart_mixed = ''multipart/mixed''"

section \<open>Headers\<close>

definition add_multipart_mixed_content_type_header ::
  "mcl_http_request_t option \<Rightarrow> string \<Rightarrow> ('z, mcl_error \<times> mcl_http_request_t option) io" where
  "add_multipart_mixed_content_type_header request boundary =
     (let constant_part_length = 24;
          header_value_length = length content_type_multipart_mixed + length boundary + constant_part_length
      in do {
        a \<leftarrow> mcl_malloc;
        if \<not> a then State_Monad.return (MCL_OUT_OF_MEMORY, request)
        else (case snprintf_text (header_value_length + 1)
            (content_type_multipart_mixed @ '';boundary='' @ boundary @ '';charset=utf-8'') of
          Err code \<Rightarrow> State_Monad.return (code, request)
        | Ok header_value \<Rightarrow> mcl_http_request_add_header request (Some ''Content-Type'') (Some header_value))
      })"

definition add_authorization_header ::
  "mcl_http_request_t option \<Rightarrow> string \<Rightarrow> ('z, mcl_error \<times> mcl_http_request_t option) io" where
  "add_authorization_header request access_token = do {
     a \<leftarrow> mcl_malloc;
     if \<not> a then State_Monad.return (MCL_OUT_OF_MEMORY, request)
     else mcl_http_request_add_header request (Some ''Authorization'') (Some (''Bearer '' @ access_token))
   }"

definition add_http_headers_for_exchange ::
  "connectivity_processor_t \<Rightarrow> mcl_http_request_t option \<Rightarrow> string \<Rightarrow>
   ('z, mcl_error \<times> mcl_http_request_t option) io" where
  "add_http_headers_for_exchange processor request boundary = do {
     (code, request) \<leftarrow> add_multipart_mixed_content_type_header request boundary;
     (code, request) \<leftarrow> when_ok code request
       (mcl_http_request_add_header request (Some ''Accept'') (Some content_type_application_json));
     when_ok code request (add_authorization_header request (cp_access_token processor))
   }"

text \<open>
  The correlation id is printed into the block that holds its random bytes in its second half. The
  loop reads byte \<open>index + 16\<close> and writes two digits and a terminator from \<open>2 * index\<close> on.
\<close>

definition CORRELATION_ID_BYTE_LENGTH :: nat where "CORRELATION_ID_BYTE_LENGTH = 16"
definition CORRELATION_ID_BUFFER_LENGTH :: nat where
  "CORRELATION_ID_BUFFER_LENGTH = CORRELATION_ID_BYTE_LENGTH * 2 + 1"

fun correlation_loop :: "nat list \<Rightarrow> char block \<Rightarrow> (mcl_error \<times> char block) option" where
  "correlation_loop [] cid = Some (MCL_OK, cid)"
| "correlation_loop (index # indexes) cid = do {
     c \<leftarrow> (if index + CORRELATION_ID_BYTE_LENGTH < length cid then cid ! (index + CORRELATION_ID_BYTE_LENGTH) else None);
     (code, printed) \<leftarrow> string_util_snprintf (drop (index * 2) cid) 3 (Some (hex2 (of_char c)));
     let cid = take (index * 2) cid @ printed;
     if code = MCL_OK then correlation_loop indexes cid else Some (code, cid)
   }"

definition generate_correlation_id_string :: "('z, (mcl_error \<times> char block) option) io" where
  "generate_correlation_id_string = do {
     let cid = fresh_block CORRELATION_ID_BUFFER_LENGTH;
     r \<leftarrow> mcl_random_generate_bytes CORRELATION_ID_BYTE_LENGTH;
     State_Monad.return
       (case r of
          Err code \<Rightarrow> Some (code, cid)
        | Ok bytes \<Rightarrow> do {
            cid \<leftarrow> string_util_memcpy cid CORRELATION_ID_BYTE_LENGTH
              (map (\<lambda>b. char_of (unat b)) bytes) CORRELATION_ID_BYTE_LENGTH;
            correlation_loop [0..<CORRELATION_ID_BYTE_LENGTH] cid
          })
   }"

section \<open>The body of a request\<close>

text \<open>
  \<open>fread\<close> hands out what is left of the file, the custom data callback what is left of the buffer
  up to the declared size; a buffer shorter than that is undefined.
\<close>

definition file_payload_callback :: "string \<Rightarrow> nat payload_callback" where
  "file_payload_callback content position n =
     (let s = take n (drop position content) in (s, position + length s))"

definition custom_data_payload_callback :: "8 word list \<Rightarrow> nat \<Rightarrow> nat payload_callback" where
  "custom_data_payload_callback payload payload_size offset n =
     (let remaining_size = payload_size - offset;
          write_size = (if remaining_size < n then remaining_size else n)
      in (map (\<lambda>b. char_of (unat b)) (take write_size (drop offset payload)), offset + write_size))"

definition add_custom_data_to_buffer ::
  "char block \<Rightarrow> nat \<Rightarrow> nat \<Rightarrow> custom_data_t \<Rightarrow> string \<Rightarrow> ('z, (mcl_error \<times> char block \<times> nat) option) io" where
  "add_custom_data_to_buffer buffer position buffer_size custom_data boundary =
     (case cd_buffer custom_data of
        None \<Rightarrow> State_Monad.return None
      | Some payload \<Rightarrow>
          if length payload < cd_size custom_data then State_Monad.return None
          else multipart_add_tuple_with_callback buffer position buffer_size (CustomData custom_data) boundary
            (cd_content_type custom_data)
            (Some (custom_data_payload_callback payload (cd_size custom_data))) 0)"

definition add_item_to_buffer ::
  "(file_t \<Rightarrow> string) \<Rightarrow> char block \<Rightarrow> nat \<Rightarrow> nat \<Rightarrow> item \<Rightarrow> string \<Rightarrow>
   ('z, (mcl_error \<times> char block \<times> nat) option) io" where
  "add_item_to_buffer contents buffer position buffer_size item boundary =
     (case item of
        File f \<Rightarrow> multipart_add_tuple_with_callback buffer position buffer_size item boundary
          (Some content_type_octet_stream) (Some (file_payload_callback (contents f))) 0
      | CustomData c \<Rightarrow> add_custom_data_to_buffer buffer position buffer_size c boundary
      | _ \<Rightarrow> multipart_add_tuple buffer position buffer_size item boundary)"

text \<open>The loop over the selected items; an item that does not fit stays selected.\<close>

fun fill_body ::
  "nat \<Rightarrow> (file_t \<Rightarrow> string) \<Rightarrow> string \<Rightarrow> nat \<Rightarrow> store_t \<Rightarrow> char block \<Rightarrow> nat \<Rightarrow>
   ('z, (store_t \<times> char block \<times> nat) option) io" where
  "fill_body 0 contents boundary buffer_size st buffer remaining_size = State_Monad.return None"
| "fill_body (Suc f) contents boundary buffer_size st buffer remaining_size =
     (case get_next_selected_store_item st of
        None \<Rightarrow> State_Monad.return None
      | Some (None, st) \<Rightarrow> State_Monad.return (Some (st, buffer, remaining_size))
      | Some (Some store_item, st) \<Rightarrow> do {
          r \<leftarrow> add_item_to_buffer contents buffer (buffer_size - remaining_size) remaining_size
                 (si_item store_item) boundary;
          case r of
            None \<Rightarrow> State_Monad.return None
          | Some (code, buffer, remaining_size) \<Rightarrow>
              if code = MCL_OK
              then (case clist_update (st_item_list st) (store_item\<lparr>si_status := STORE_ITEM_STATUS_PROCESSED\<rparr>) of
                  None \<Rightarrow> State_Monad.return None
                | Some l \<Rightarrow> fill_body f contents boundary buffer_size (st\<lparr>st_item_list := l\<rparr>) buffer remaining_size)
              else fill_body f contents boundary buffer_size st buffer remaining_size
        })"

text \<open>A prepared body is its block and its size.\<close>

type_synonym 'i prepared = "mcl_error \<times> 'i \<times> (char block \<times> nat) option"

definition prepare_body_for_store ::
  "(file_t \<Rightarrow> string) \<Rightarrow> store_t \<Rightarrow> mcl_size_t \<Rightarrow> string \<Rightarrow> ('z, store_t prepared option) io" where
  "prepare_body_for_store contents st max_http_payload_size boundary =
     (case select_store_items_to_exchange st max_http_payload_size of
        None \<Rightarrow> State_Monad.return None
      | Some (st, needed) \<Rightarrow> do {
          let buffer_size = unat needed;
          a \<leftarrow> mcl_malloc;
          if \<not> a then State_Monad.return (Some (MCL_OUT_OF_MEMORY, st, None))
          else do {
            r \<leftarrow> fill_body (Suc (clist_count (st_item_list st))) contents boundary buffer_size st
                   (fresh_block buffer_size) buffer_size;
            State_Monad.return (case r of
                None \<Rightarrow> None
              | Some (st, buffer, remaining_size) \<Rightarrow>
                  if buffer_size = remaining_size then Some (MCL_FAIL, st, None)
                  else (case multipart_close buffer (buffer_size - remaining_size) remaining_size boundary of
                      None \<Rightarrow> None
                    | Some (code, buffer, remaining_size) \<Rightarrow>
                        Some (if code = MCL_OK then (MCL_OK, st, Some (buffer, buffer_size - remaining_size))
                              else (MCL_FAIL, st, None))))
          }
        })"

definition prepare_body_for_item ::
  "(file_t \<Rightarrow> string) \<Rightarrow> item \<Rightarrow> mcl_size_t \<Rightarrow> string \<Rightarrow> ('z, item prepared option) io" where
  "prepare_body_for_item contents item max_http_payload_size boundary = do {
     item_size \<leftarrow> get_item_size item;
     let size = item_size + multipart_get_overhead_size;
     if max_http_payload_size < size
     then State_Monad.return (Some (MCL_ITEM_EXCEEDS_MAX_HTTP_REQUEST_SIZE, item, None))
     else do {
       let body_size = unat size;
       a \<leftarrow> mcl_malloc;
       if \<not> a then State_Monad.return (Some (MCL_OUT_OF_MEMORY, item, None))
       else do {
         r \<leftarrow> add_item_to_buffer contents (fresh_block body_size) 0 body_size item boundary;
         State_Monad.return (case r of
             None \<Rightarrow> None
           | Some (code, buffer, remaining_size) \<Rightarrow>
               if code \<noteq> MCL_OK then Some (code, item, None)
               else (case multipart_close buffer (body_size - remaining_size) remaining_size boundary of
                   None \<Rightarrow> None
                 | Some (code, buffer, remaining_size) \<Rightarrow>
                     Some (code, item, if code = MCL_OK then Some (buffer, body_size - remaining_size) else None)))
       }
     }
   }"

text \<open>
  What is uploaded: one item or a store. The code tells them apart by the type behind the pointer and
  tests the preamble of both first; a store has had its preamble since \<open>mcl_store_initialize\<close> and
  nothing changes it, so for a store the test passes and is not repeated here.
\<close>

datatype upload = ItemUpload item | StoreUpload store_t

definition prepare_body ::
  "(file_t \<Rightarrow> string) \<Rightarrow> upload \<Rightarrow> mcl_size_t \<Rightarrow> string \<Rightarrow> ('z, upload prepared option) io" where
  "prepare_body contents item max_http_payload_size boundary =
     (case item of
        StoreUpload st \<Rightarrow> do {
          r \<leftarrow> prepare_body_for_store contents st max_http_payload_size boundary;
          State_Monad.return (map_option (\<lambda>(code, st, b). (code, StoreUpload st, b)) r)
        }
      | ItemUpload i \<Rightarrow> do {
          r \<leftarrow> prepare_body_for_item contents i max_http_payload_size boundary;
          State_Monad.return (map_option (\<lambda>(code, i, b). (code, ItemUpload i, b)) r)
        })"

section \<open>Exchange\<close>

definition evaluate_response_for_exchange :: "mcl_http_response_t \<Rightarrow> mcl_error" where
  "evaluate_response_for_exchange response =
     (if rs_status_code response = MCL_HTTP_STATUS_CODE_SUCCESS then MCL_OK
      else mcl_http_response_get_status (Some response))"

text \<open>From the initialisation of the request to its headers.\<close>

definition exchange_request ::
  "connectivity_processor_t \<Rightarrow> char block \<Rightarrow> nat \<Rightarrow> string \<Rightarrow>
   ('z, mcl_error \<times> mcl_http_request_t option) io" where
  "exchange_request processor buffer body_size boundary = do {
     (code, request) \<leftarrow> mcl_http_request_initialize;
     (code, request) \<leftarrow> when_ok code request
       (mcl_http_request_set_parameter request (Some (MCL_HTTP_REQUEST_PARAMETER_BODY buffer)));
     (code, request) \<leftarrow> when_ok code request
       (mcl_http_request_set_parameter request (Some (MCL_HTTP_REQUEST_PARAMETER_METHOD MCL_HTTP_POST)));
     (code, request) \<leftarrow> when_ok code request
       (mcl_http_request_set_parameter request (Some (MCL_HTTP_REQUEST_PARAMETER_BODY_SIZE body_size)));
     (code, request) \<leftarrow> when_ok code request
       (mcl_http_request_set_parameter request (map_option MCL_HTTP_REQUEST_PARAMETER_URL (cp_exchange_url processor)));
     when_ok code request (add_http_headers_for_exchange processor request boundary)
   }"

text \<open>The correlation id, its header, the sending, the evaluation of the answer.\<close>

definition add_correlation_id ::
  "mcl_http_request_t option \<Rightarrow> ('z, (mcl_error \<times> mcl_http_request_t option) option) io" where
  "add_correlation_id request = do {
     r \<leftarrow> generate_correlation_id_string;
     case r of
       None \<Rightarrow> State_Monad.return None
     | Some (code, cid) \<Rightarrow>
         if code \<noteq> MCL_OK then State_Monad.return (Some (code, request))
         else (case block_string cid of
             None \<Rightarrow> State_Monad.return None
           | Some s \<Rightarrow> do {
               (code, request) \<leftarrow> mcl_http_request_add_header request (Some ''Correlation-ID'') (Some s);
               State_Monad.return (Some (code, request))
             })
   }"

definition send_request ::
  "(mcl_http_response_t \<Rightarrow> mcl_error) \<Rightarrow> mcl_http_request_t option \<Rightarrow>
   ('z net_world_ext, mcl_error option) io" where
  "send_request evaluate request =
     (case request of
        None \<Rightarrow> State_Monad.return None
      | Some rq \<Rightarrow> do {
          r \<leftarrow> mcl_http_client_send rq;
          State_Monad.return (Some (case r of Err code \<Rightarrow> code | Ok response \<Rightarrow> evaluate response))
        })"

definition exchange_send ::
  "connectivity_processor_t \<Rightarrow> char block \<Rightarrow> nat \<Rightarrow> string \<Rightarrow> ('z net_world_ext, mcl_error option) io" where
  "exchange_send processor buffer body_size boundary = do {
     (code, request) \<leftarrow> exchange_request processor buffer body_size boundary;
     if code \<noteq> MCL_OK then State_Monad.return (Some code)
     else do {
       r \<leftarrow> add_correlation_id request;
       case r of
         None \<Rightarrow> State_Monad.return None
       | Some (code, request) \<Rightarrow>
           if code \<noteq> MCL_OK then State_Monad.return (Some code)
           else send_request evaluate_response_for_exchange request
     }
   }"

text \<open>One turn of the loop, up to the scan of the store.\<close>

definition exchange_once ::
  "(file_t \<Rightarrow> string) \<Rightarrow> connectivity_processor_t \<Rightarrow> upload \<Rightarrow>
   ('z net_world_ext, (mcl_error \<times> upload) option) io" where
  "exchange_once contents processor item = do {
     (code, generated) \<leftarrow> multipart_generate_boundary;
     case generated of
       None \<Rightarrow> State_Monad.return (Some (code, item))
     | Some boundary \<Rightarrow> do {
         r \<leftarrow> prepare_body contents item (cp_max_http_payload_size processor) boundary;
         case r of
           None \<Rightarrow> State_Monad.return None
         | Some (code, item, None) \<Rightarrow> State_Monad.return (Some (code, item))
         | Some (code, item, Some (buffer, body_size)) \<Rightarrow> do {
             c \<leftarrow> exchange_send processor buffer body_size boundary;
             State_Monad.return (map_option (\<lambda>code. (code, item)) c)
           }
       }
   }"

fun exchange_loop ::
  "nat \<Rightarrow> (file_t \<Rightarrow> string) \<Rightarrow> connectivity_processor_t \<Rightarrow> mcl_error \<Rightarrow> upload \<Rightarrow> bool \<Rightarrow>
   ('z net_world_ext, (mcl_error \<times> upload) option) io" where
  "exchange_loop 0 contents processor code item store_fully_processed = State_Monad.return None"
| "exchange_loop (Suc f) contents processor code item store_fully_processed = do {
     r \<leftarrow> (if code = MCL_OK then exchange_once contents processor item
           else State_Monad.return (Some (code, item)));
     case r of
       None \<Rightarrow> State_Monad.return None
     | Some (code, ItemUpload i) \<Rightarrow> State_Monad.return (Some (code, ItemUpload i))
     | Some (code, StoreUpload st) \<Rightarrow>
         (case scan_store_after_exchange st store_fully_processed code of
            None \<Rightarrow> State_Monad.return None
          | Some (code, st, store_fully_processed) \<Rightarrow>
              if \<not> store_fully_processed \<and> code = MCL_OK
              then exchange_loop f contents processor code (StoreUpload st) store_fully_processed
              else State_Monad.return (Some (code, StoreUpload st)))
   }"

definition connectivity_processor_exchange ::
  "nat \<Rightarrow> (file_t \<Rightarrow> string) \<Rightarrow> connectivity_processor_t \<Rightarrow> upload \<Rightarrow>
   ('z net_world_ext, (mcl_error \<times> upload) option) io" where
  "connectivity_processor_exchange fuel contents processor item =
     (case item of
        ItemUpload i \<Rightarrow>
          if item_preamble i \<noteq> MCL_ITEM_PREAMBLE
          then State_Monad.return (Some (MCL_INVALID_PARAMETER, item))
          else (case item_validate i of
              None \<Rightarrow> State_Monad.return None
            | Some code \<Rightarrow> exchange_loop fuel contents processor code item False)
      | StoreUpload st \<Rightarrow> do {
          r \<leftarrow> check_store_size st (cp_max_http_payload_size processor);
          case r of
            None \<Rightarrow> State_Monad.return None
          | Some (code, st) \<Rightarrow> exchange_loop fuel contents processor code (StoreUpload st) False
        })"

end
