(* ===== verification/MclFrame.thy ===== *)
theory MclFrame
  imports MclMultipart
begin

text \<open>
  What the builders leave alone: they allocate and draw random bytes, and touch nothing else of the
  world. The collection \<open>frame\<close> holds the rule of every operation; a builder's own rule is its
  definition and one application of the collection.
\<close>

named_theorems frame

definition mem_only :: "('z, 'a) io \<Rightarrow> bool" where
  "mem_only m \<longleftrightarrow> (\<forall>w. \<exists>as rs. snd (run_state m w) = w\<lparr>w_alloc := as, w_random := rs\<rparr> \<and>
     set rs \<subseteq> set (w_random w) \<and> set as \<subseteq> set (w_alloc w))"

lemma mem_onlyD:
  assumes "mem_only m" and "run_state m w = (x, w')"
  shows "\<exists>as rs. w' = w\<lparr>w_alloc := as, w_random := rs\<rparr> \<and> set rs \<subseteq> set (w_random w) \<and> set as \<subseteq> set (w_alloc w)"
  using assms unfolding mem_only_def by (metis snd_conv)

lemma mem_only_return [frame]: "mem_only (State_Monad.return x)"
  unfolding mem_only_def
proof
  fix w
  show "\<exists>as rs. snd (run_state (State_Monad.return x) w) = w\<lparr>w_alloc := as, w_random := rs\<rparr> \<and>
      set rs \<subseteq> set (w_random w) \<and> set as \<subseteq> set (w_alloc w)"
    by (rule exI [of _ "w_alloc w"], rule exI [of _ "w_random w"]) simp
qed

lemma mem_only_bind [frame]:
  assumes "mem_only m" and "\<And>x. mem_only (f x)"
  shows "mem_only (State_Monad.bind m f)"
  unfolding mem_only_def
proof
  fix w
  obtain x w1 where 1: "run_state m w = (x, w1)" by fastforce
  obtain y w2 where 2: "run_state (f x) w1 = (y, w2)" by fastforce
  from mem_onlyD [OF assms(1) 1] obtain as rs where w1: "w1 = w\<lparr>w_alloc := as, w_random := rs\<rparr>"
    "set rs \<subseteq> set (w_random w)" "set as \<subseteq> set (w_alloc w)" by blast
  from mem_onlyD [OF assms(2) 2] obtain as' rs' where w2: "w2 = w1\<lparr>w_alloc := as', w_random := rs'\<rparr>"
    "set rs' \<subseteq> set (w_random w1)" "set as' \<subseteq> set (w_alloc w1)" by blast
  have "w2 = w\<lparr>w_alloc := as', w_random := rs'\<rparr>" "set rs' \<subseteq> set (w_random w)" "set as' \<subseteq> set (w_alloc w)"
    using w1 w2 by auto
  then show "\<exists>as rs. snd (run_state (State_Monad.bind m f) w) = w\<lparr>w_alloc := as, w_random := rs\<rparr> \<and>
      set rs \<subseteq> set (w_random w) \<and> set as \<subseteq> set (w_alloc w)"
    using 1 2 by auto
qed

lemma mem_only_malloc [frame]: "mem_only mcl_malloc"
  unfolding mem_only_def
proof
  fix w
  show "\<exists>as rs. snd (run_state mcl_malloc w) = w\<lparr>w_alloc := as, w_random := rs\<rparr> \<and>
      set rs \<subseteq> set (w_random w) \<and> set as \<subseteq> set (w_alloc w)"
    by (rule exI [of _ "tl (w_alloc w)"], rule exI [of _ "w_random w"])
      (cases "w_alloc w"; auto simp: run_malloc)
qed

lemma mem_only_random [frame]: "mem_only (mcl_random_generate_bytes n)"
  unfolding mem_only_def
proof
  fix w
  show "\<exists>as rs. snd (run_state (mcl_random_generate_bytes n) w) = w\<lparr>w_alloc := as, w_random := rs\<rparr> \<and>
      set rs \<subseteq> set (w_random w) \<and> set as \<subseteq> set (w_alloc w)"
    by (rule exI [of _ "w_alloc w"], rule exI [of _ "tl (w_random w)"])
      (cases "w_random w"; auto simp: mcl_random_generate_bytes_def)
qed

lemma mem_only_if [frame]:
  "(b \<Longrightarrow> mem_only m) \<Longrightarrow> (\<not> b \<Longrightarrow> mem_only n) \<Longrightarrow> mem_only (if b then m else n)"
  by simp

lemma mem_only_case_prod [frame]: "(\<And>a b. p = (a, b) \<Longrightarrow> mem_only (f a b)) \<Longrightarrow> mem_only (case p of (a, b) \<Rightarrow> f a b)"
  by (cases p) simp

lemma mem_only_case_option [frame]:
  "(p = None \<Longrightarrow> mem_only m) \<Longrightarrow> (\<And>x. p = Some x \<Longrightarrow> mem_only (f x)) \<Longrightarrow>
   mem_only (case p of None \<Rightarrow> m | Some x \<Rightarrow> f x)"
  by (cases p) simp_all

lemma mem_only_case_sum [frame]:
  "(\<And>x. mem_only (f x)) \<Longrightarrow> (\<And>x. mem_only (g x)) \<Longrightarrow> mem_only (case p of Inl x \<Rightarrow> f x | Inr x \<Rightarrow> g x)"
  by (cases p) simp_all

lemma mem_only_let [frame]: "mem_only (f x) \<Longrightarrow> mem_only (let y = x in f y)"
  by simp

lemma mem_only_when_ok [frame]: "mem_only m \<Longrightarrow> mem_only (when_ok code x m)"
  by (simp add: when_ok_def mem_only_return)

lemma mem_only_on_pointer [frame]: "(\<And>x. mem_only (f x)) \<Longrightarrow> mem_only (on_pointer p f)"
  unfolding on_pointer_def by (intro frame)

section \<open>JSON\<close>

lemma frame_initialize [frame]: "mem_only (mcl_json_util_initialize t)"
  unfolding mcl_json_util_initialize_def json_util_initialize_def by (intro frame)

lemma frame_start [frame]: "mem_only (mcl_json_util_start_array r n)" "mem_only (mcl_json_util_start_object r n)"
  unfolding mcl_json_util_start_array_def mcl_json_util_start_object_def json_util_start_array_def
    json_util_start_object_def json_util_start_def json_util_initialize_def
  by (intro frame)+

lemma frame_add_leaf [frame]: "mem_only (json_util_add_leaf b r n v)"
  unfolding json_util_add_leaf_def
  by (cases "json_value r"; cases n) (auto intro!: frame)

lemma frame_add [frame]:
  "mem_only (mcl_json_util_add_string r n s)" "mem_only (mcl_json_util_add_uint r n i)"
  "mem_only (mcl_json_util_add_bool r n t)" "mem_only (mcl_json_util_add_object r m j)"
  "mem_only (mcl_json_util_duplicate j)" "mem_only (mcl_json_util_to_string j)"
  unfolding mcl_json_util_add_string_def mcl_json_util_add_uint_def mcl_json_util_add_bool_def
    mcl_json_util_add_object_def mcl_json_util_duplicate_def mcl_json_util_to_string_def
    json_util_add_string_def json_util_add_uint_def add_number_def json_util_add_bool_def
    json_util_add_object_def json_util_duplicate_def json_util_to_string_def
  by (intro frame)+

lemma frame_fill_array [frame]:
  "(\<And>x. mem_only (f x)) \<Longrightarrow> mem_only (fill_array_using_list f xs j)"
proof (induction xs arbitrary: j)
  case (Cons x xs)
  then show ?case by (simp, intro frame Cons.prems Cons.IH)
qed (simp add: frame)

lemma frame_fill_member [frame]: "(\<And>x. mem_only (f x)) \<Longrightarrow> mem_only (fill_member j n f xs)"
  unfolding fill_member_def by (intro frame)

lemma frame_add_duplicate [frame]: "mem_only (add_duplicate j n d)"
  unfolding add_duplicate_def by (intro frame)

lemma frame_deliver [frame]: "mem_only (deliver c j)" "mem_only (to_string_if_ok c j)"
  unfolding deliver_def to_string_if_ok_def by (intro frame)+

section \<open>Items\<close>

lemma frame_values [frame]:
  "mem_only (json_from_timeseries_value v)" "mem_only (json_from_data_point p)"
  unfolding json_from_timeseries_value_def json_from_data_point_def by (intro frame)+

lemma frame_lists [frame]:
  "mem_only (json_from_timeseries_value_list l)" "mem_only (json_from_data_source d)"
  unfolding json_from_timeseries_value_list_def json_from_data_source_def by (intro frame)+

lemma frame_event [frame]: "mem_only (add_event_to_payload_array e j)"
  unfolding add_event_to_payload_array_def by (intro frame)

lemma frame_payload [frame]: "mem_only (json_from_item_payload item)"
  unfolding json_from_item_payload_def json_from_event_payload_def json_from_timeseries_payload_def
    json_from_data_source_configuration_payload_def
  by (cases item) (auto intro!: frame)

lemma frame_meta [frame]: "mem_only (json_from_item_meta item)"
proof -
  have "mem_only (add_item_meta_payload_details item p)" for p
    unfolding add_item_meta_payload_details_def add_item_meta_payload_timeseries_details_def
      add_item_meta_payload_file_details_def
    by (cases item) (auto intro!: frame)
  then show ?thesis
    unfolding json_from_item_meta_def add_item_meta_payload_def by (intro frame) simp
qed

lemma frame_sizes [frame]: "(\<And>x. mem_only (f x)) \<Longrightarrow> mem_only (add_sizes f xs n)"
proof (induction xs arbitrary: n)
  case (Cons x xs)
  then show ?case by (simp, intro frame Cons.prems Cons.IH)
qed (simp add: frame)

lemma frame_printed [frame]: "mem_only (printed_size j)" "mem_only (custom_data_size j)"
  unfolding custom_data_size_def printed_size_def by (intro frame)+

lemma frame_item_size [frame]: "mem_only (json_get_item_size item)"
  unfolding json_get_item_size_def item_meta_size_def custom_data_meta_size_def
    item_payload_size_for_event_def item_payload_size_for_data_source_configuration_def
    item_payload_size_for_data_source_def item_payload_size_for_data_point_def
  by (cases item) (auto intro!: frame)

section \<open>Multipart\<close>

lemma frame_add_payload [frame]: "mem_only (add_item_payload b p r item cb ctx)"
  "mem_only (add_item_meta_json b p r item)"
  unfolding add_item_payload_def add_item_meta_json_def by (intro frame)+

lemma frame_boundary [frame]: "mem_only multipart_generate_boundary"
  unfolding multipart_generate_boundary_def by (intro frame)

lemma frame_switch [frame]:
  "mem_only (multipart_switch st code boundary sub_boundary item ct cb ctx b p r)"
  unfolding multipart_switch_def
  by (cases st) (auto intro!: frame)

lemma frame_loop [frame]:
  "mem_only (multipart_loop sts code boundary sub_boundary item ct cb ctx b p r)"
proof (induction sts arbitrary: code b p r)
  case (Cons st sts)
  show ?case unfolding multipart_loop.simps by (intro frame Cons.IH)
qed (simp add: frame)

lemma frame_tuple [frame]:
  "mem_only (multipart_add_tuple_with_callback b p r item boundary ct cb ctx)"
  "mem_only (multipart_add_tuple b p r item boundary)"
  "mem_only (multipart_get_tuple_size item ct)"
  unfolding multipart_add_tuple_with_callback_def multipart_add_tuple_def multipart_get_tuple_size_def
  by (intro frame)+

end
