(* ===== verification/MclExchangeProps.thy ===== *)
theory MclExchangeProps
  imports MclExchange MclFrame MclMultipartProps "HOL-Library.Sublist"
begin

text \<open>
  Properties of the uploads. The first part follows the statuses of a store through one turn of the
  loop in any world: nothing of an item but its status changes, a turn that is answered with success
  has processed an item, and the scan takes exactly the processed items out.
\<close>

section \<open>Frames\<close>

lemma random_fails_frame:
  assumes "mem_only m" and "run_state m w = (x, w')" and "random_fails w"
  shows "random_fails w'"
  using mem_onlyD [OF assms(1,2)] assms(3) by (auto simp: random_fails_def)

lemma frame_request [frame]:
  "mem_only mcl_http_request_initialize" "mem_only (mcl_http_request_set_parameter r p)"
  "mem_only (mcl_http_request_add_header r n v)"
proof -
  show "mem_only mcl_http_request_initialize" "mem_only (mcl_http_request_add_header r n v)"
    unfolding mcl_http_request_initialize_def mcl_http_request_add_header_def by (intro frame)+
  show "mem_only (mcl_http_request_set_parameter r p)"
  proof (cases p)
    case (Some q)
    then show ?thesis unfolding mcl_http_request_set_parameter_def
      by (cases q) (auto intro!: frame)
  qed (auto simp: mcl_http_request_set_parameter_def intro!: frame)
qed

lemma frame_headers [frame]:
  "mem_only (add_authorization_header r t)" "mem_only (add_multipart_mixed_content_type_header r b)"
  "mem_only (add_correlation_id r)"
  unfolding add_authorization_header_def add_multipart_mixed_content_type_header_def
    add_correlation_id_def generate_correlation_id_string_def
  by (intro frame)+

lemma frame_exchange_request [frame]: "mem_only (exchange_request processor buffer n boundary)"
  unfolding exchange_request_def add_http_headers_for_exchange_def by (intro frame)

lemma frame_add_item [frame]: "mem_only (add_item_to_buffer contents b p r item boundary)"
  unfolding add_item_to_buffer_def add_custom_data_to_buffer_def
  by (cases item) (auto intro!: frame)

lemma frame_get_item_size [frame]: "mem_only (get_item_size item)"
  unfolding get_item_size_def by (intro frame)

lemma frame_fill_body [frame]: "mem_only (fill_body f contents boundary n st b r)"
proof (induction f arbitrary: st b r)
  case (Suc f)
  show ?case unfolding fill_body.simps by (intro frame Suc.IH)
qed (simp add: frame)

lemma frame_prepare [frame]: "mem_only (prepare_body contents item n boundary)"
  unfolding prepare_body_def prepare_body_for_store_def prepare_body_for_item_def
  by (cases item) (auto intro!: frame)

text \<open>The network is as it was: nothing was sent and no answer taken.\<close>

definition same_network :: "'z net_world_scheme \<Rightarrow> 'z net_world_scheme \<Rightarrow> bool" where
  "same_network w w' \<longleftrightarrow> w_sent w' = w_sent w \<and> w_answers w' = w_answers w"

lemma same_network_refl [simp]: "same_network w w"
  by (simp add: same_network_def)

lemma same_network_trans: "same_network u v \<Longrightarrow> same_network v w \<Longrightarrow> same_network u w"
  by (simp add: same_network_def)

lemma same_network_frame: "mem_only m \<Longrightarrow> run_state m w = (x, w') \<Longrightarrow> same_network w w'"
  by (auto simp: same_network_def dest!: mem_onlyD)

section \<open>What is built when nothing failed\<close>

text \<open>With \<open>MCL_OK\<close> an operation on a request gives a request of which \<open>Q\<close> holds.\<close>

definition gives :: "('r \<Rightarrow> bool) \<Rightarrow> ('w, mcl_error \<times> 'r option) state \<Rightarrow> bool" where
  "gives Q m \<longleftrightarrow> (\<forall>w r w'. run_state m w = ((MCL_OK, r), w') \<longrightarrow> (\<exists>x. r = Some x \<and> Q x))"

lemma givesD: "gives Q m \<Longrightarrow> run_state m w = ((MCL_OK, r), w') \<Longrightarrow> \<exists>x. r = Some x \<and> Q x"
  by (auto simp: gives_def)

definition so_far :: "('r \<Rightarrow> bool) \<Rightarrow> mcl_error \<times> 'r option \<Rightarrow> bool" where
  "so_far Q r \<longleftrightarrow> (fst r = MCL_OK \<longrightarrow> (\<exists>x. snd r = Some x \<and> Q x))"

lemma gives_so_far: "gives Q m \<longleftrightarrow> (\<forall>w. so_far Q (fst (run_state m w)))"
proof -
  have "(\<forall>r w'. p = ((MCL_OK, r), w') \<longrightarrow> (\<exists>x. r = Some x \<and> Q x)) \<longleftrightarrow> so_far Q (fst p)"
    for p :: "(mcl_error \<times> 'a option) \<times> 'b" by (cases p) (auto simp: so_far_def)
  then show ?thesis unfolding gives_def by blast
qed

lemma gives_bind: "gives Q m \<Longrightarrow> (\<And>r. so_far Q r \<Longrightarrow> gives R (f r)) \<Longrightarrow> gives R (State_Monad.bind m f)"
  by (simp add: gives_so_far run_bind split_def)

lemma gives_when_ok:
  "so_far Q (code, r) \<Longrightarrow> (\<And>x. Q x \<Longrightarrow> gives R (m (Some x))) \<Longrightarrow> gives R (when_ok code r (m r))"
  by (cases "code = MCL_OK") (auto simp: so_far_def gives_def [of R "State_Monad.return _"])

lemma gives_after: "(\<And>x. gives Q (f x)) \<Longrightarrow> gives Q (State_Monad.bind m f)"
  by (auto simp: gives_def run_bind split: prod.splits)

lemma gives_return: "code \<noteq> MCL_OK \<Longrightarrow> gives Q (State_Monad.return (code, r))"
  by (simp add: gives_def)

text \<open>Headers leave the rest of a request alone.\<close>

definition header_free :: "(mcl_http_request_t \<Rightarrow> bool) \<Rightarrow> bool" where
  "header_free Q \<longleftrightarrow> (\<forall>rq h. Q (rq\<lparr>rq_header := h\<rparr>) = Q rq)"

lemma gives_header:
  assumes "header_free Q" and "Q x"
  shows "gives Q (mcl_http_request_add_header (Some x) n v)"
    and "gives Q (add_authorization_header (Some x) t)"
    and "gives Q (add_multipart_mixed_content_type_header (Some x) b)"
proof -
  show h: "gives Q (mcl_http_request_add_header (Some x) n v)" for n v
    using assms unfolding gives_def mcl_http_request_add_header_def header_free_def
    by (auto simp: run_bind Let_def split: prod.splits option.splits sum.splits if_splits)
  show "gives Q (add_authorization_header (Some x) t)"
    unfolding add_authorization_header_def
    by (rule gives_after) (simp add: h gives_return)
  show "gives Q (add_multipart_mixed_content_type_header (Some x) b)"
    unfolding add_multipart_mixed_content_type_header_def Let_def
    by (rule gives_after) (auto simp: h gives_return snprintf_text_def split: sum.split)
qed

lemma gives_parameter:
  assumes "run_state (mcl_http_request_set_parameter (Some x) p) w = ((MCL_OK, r), w')"
  shows "r = (case p of Some (MCL_HTTP_REQUEST_PARAMETER_METHOD m) \<Rightarrow> Some (x\<lparr>rq_method := m\<rparr>)
      | Some (MCL_HTTP_REQUEST_PARAMETER_URL s) \<Rightarrow> Some (x\<lparr>rq_uri := Some s\<rparr>)
      | Some (MCL_HTTP_REQUEST_PARAMETER_BODY b) \<Rightarrow> Some (x\<lparr>rq_payload := Some b, rq_stream_callback := None\<rparr>)
      | Some (MCL_HTTP_REQUEST_PARAMETER_BODY_SIZE n) \<Rightarrow> Some (x\<lparr>rq_payload_size := n\<rparr>)
      | Some (MCL_HTTP_REQUEST_PARAMETER_STREAM_CALLBACK c) \<Rightarrow> Some (x\<lparr>rq_stream_callback := Some c, rq_payload := None\<rparr>)
      | Some (MCL_HTTP_REQUEST_PARAMETER_STREAM_DATA d) \<Rightarrow> Some (x\<lparr>rq_stream_data := Some d\<rparr>)
      | _ \<Rightarrow> r) \<and> r \<noteq> None \<and> p \<noteq> None"
  using assms unfolding mcl_http_request_set_parameter_def
  by (auto simp: run_bind split: option.splits http_request_parameter.splits prod.splits if_splits)

text \<open>The request of an exchange: posted to the exchange address with the prepared body.\<close>

definition exchange_post :: "connectivity_processor_t \<Rightarrow> char block \<Rightarrow> nat \<Rightarrow> mcl_http_request_t \<Rightarrow> bool" where
  "exchange_post processor buffer n rq \<longleftrightarrow> rq_method rq = MCL_HTTP_POST \<and> rq_uri rq = cp_exchange_url processor \<and>
     rq_payload rq = Some buffer \<and> rq_payload_size rq = n"

lemma exchange_post_header: "header_free (exchange_post processor buffer n)"
  by (simp add: header_free_def exchange_post_def)

lemma exchange_request_given: "gives (exchange_post processor buffer n) (exchange_request processor buffer n boundary)"
proof -
  let ?body = "\<lambda>rq. rq_payload rq = Some buffer"
  let ?post = "\<lambda>rq. ?body rq \<and> rq_method rq = MCL_HTTP_POST"
  let ?sized = "\<lambda>rq. ?body rq \<and> rq_method rq = MCL_HTTP_POST \<and> rq_payload_size rq = n"
  let ?set = mcl_http_request_set_parameter and ?add = mcl_http_request_add_header
  have start: "gives (\<lambda>_. True) mcl_http_request_initialize"
    by (auto simp: mcl_http_request_initialize_def gives_def run_bind split: prod.splits if_splits)
  have set: "gives ?body (?set (Some x) (Some (MCL_HTTP_REQUEST_PARAMETER_BODY buffer)))"
    "?body x \<Longrightarrow> gives ?post (?set (Some x) (Some (MCL_HTTP_REQUEST_PARAMETER_METHOD MCL_HTTP_POST)))"
    "?post x \<Longrightarrow> gives ?sized (?set (Some x) (Some (MCL_HTTP_REQUEST_PARAMETER_BODY_SIZE n)))"
    "?sized x \<Longrightarrow> gives (exchange_post processor buffer n)
       (?set (Some x) (map_option MCL_HTTP_REQUEST_PARAMETER_URL (cp_exchange_url processor)))" for x
    by (auto simp: gives_def exchange_post_def dest!: gives_parameter split: option.splits)
  note header = gives_header [OF exchange_post_header]
  show ?thesis
    unfolding exchange_request_def add_http_headers_for_exchange_def
    apply (rule gives_bind [OF start], clarsimp)
    apply (rule gives_bind, rule gives_when_ok, assumption, rule set(1), clarsimp)
    apply (rule gives_bind, rule gives_when_ok, assumption, rule set(2), assumption, clarsimp)
    apply (rule gives_bind, rule gives_when_ok, assumption, rule set(3), assumption, clarsimp)
    apply (rule gives_bind, rule gives_when_ok, assumption, rule set(4), assumption, clarsimp)
    apply (rule gives_when_ok, assumption)
    apply (rule gives_bind, erule header(3), clarsimp)
    apply (rule gives_bind, rule gives_when_ok, assumption, erule header(1), clarsimp)
    apply (rule gives_when_ok, assumption, erule header(2))
    done
qed

section \<open>The correlation id\<close>

text \<open>
  Before turn \<open>i\<close> the first \<open>2 * i\<close> cells hold the digits of the first \<open>i\<close> bytes, and the bytes that
  are still to be printed are where they were.
\<close>

definition correlation_state :: "char list \<Rightarrow> nat \<Rightarrow> char block \<Rightarrow> bool" where
  "correlation_state cs i b \<longleftrightarrow>
     length b = 33 \<and> take (2 * i) b = map Some (concat (map (\<lambda>c. hex2 (of_char c)) (take i cs))) \<and>
     (\<forall>j. i \<le> j \<longrightarrow> j < 16 \<longrightarrow> b ! (j + 16) = Some (cs ! j)) \<and>
     (0 < i \<longrightarrow> b ! (2 * i) = Some MCL_NULL_CHAR)"

lemma correlation_step:
  assumes "correlation_state cs i b" and "i < 16" and "length cs = 16"
  shows "\<exists>b'. correlation_loop (i # is) b = correlation_loop is b' \<and> correlation_state cs (Suc i) b'"
proof -
  let ?h = "hex2 (of_char (cs ! i))"
  obtain x y where h: "?h = [x, y]" by (simp add: hex2_def)
  let ?b' = "take (2 * i) b @ map Some (cstr ?h) @ drop (2 * i + 3) b"
  have len: "length b = 33" and byte: "b ! (i + 16) = Some (cs ! i)"
    using assms by (auto simp: correlation_state_def)
  have "string_util_snprintf (drop (i * 2) b) 3 (Some ?h) = Some (MCL_OK, map Some (cstr ?h) @ drop 3 (drop (i * 2) b))"
    using snprintf_fits [of ?h 3 "drop (i * 2) b"] len assms(2) h by (simp add: numeral_3_eq_3)
  then have "correlation_loop (i # is) b = correlation_loop is ?b'"
    using len byte assms(2) by (simp add: CORRELATION_ID_BYTE_LENGTH_def mult.commute add.commute)
  moreover have "correlation_state cs (Suc i) ?b'"
    unfolding correlation_state_def
  proof (intro conjI allI impI)
    show "length ?b' = 33" using len assms(2) h by (simp add: cstr_def)
    show "take (2 * Suc i) ?b' = map Some (concat (map (\<lambda>c. hex2 (of_char c)) (take (Suc i) cs)))"
    proof -
      have printed: "take (2 * i) b = map Some (concat (map (\<lambda>c. hex2 (of_char c)) (take i cs)))"
        using assms(1) by (simp add: correlation_state_def)
      have "length (take (2 * i) b) = 2 * i" using len assms(2) by simp
      then have "length (concat (map (\<lambda>c. hex2 (of_char c)) (take i cs))) = 2 * i" unfolding printed by simp
      then show ?thesis using assms(2,3) h printed by (simp add: cstr_def take_Suc_conv_app_nth)
    qed
    show "?b' ! (2 * Suc i) = Some MCL_NULL_CHAR"
      using h len assms(2) by (simp add: cstr_def nth_append)
    fix j
    assume j: "Suc i \<le> j" "j < 16"
    then have "?b' ! (j + 16) = b ! (j + 16)"
      using h len assms(2) by (simp add: cstr_def nth_append nth_Cons' add.commute)
    also have "\<dots> = Some (cs ! j)" using assms(1) j by (simp add: correlation_state_def)
    finally show "?b' ! (j + 16) = Some (cs ! j)" .
  qed
  ultimately show ?thesis by blast
qed


lemma correlation_loop_state:
  assumes "correlation_state cs i b" and "length cs = 16" and "i \<le> 16"
  shows "\<exists>b'. correlation_loop [i..<16] b = Some (MCL_OK, b') \<and> correlation_state cs 16 b'"
  using assms
proof (induction "16 - i" arbitrary: i b)
  case (Suc n)
  then have "[i..<16] = i # [Suc i..<16]" by (simp add: upt_conv_Cons)
  moreover obtain b' where "correlation_loop (i # [Suc i..<16]) b = correlation_loop [Suc i..<16] b'"
      "correlation_state cs (Suc i) b'"
    using correlation_step [OF Suc.prems(1) _ Suc.prems(2)] Suc.hyps(2) by (metis zero_less_Suc zero_less_diff)
  ultimately show ?case using Suc.hyps(1) [of "Suc i" b'] Suc.hyps(2) Suc.prems by simp
qed simp

lemma byte_mod: "unat (b :: 8 word) mod 256 = unat b"
proof -
  have "unat b < 2 ^ LENGTH(8)" by (rule unsigned_less)
  then show ?thesis by simp
qed

definition correlation_text :: "8 word list \<Rightarrow> string" where
  "correlation_text bytes = concat (map (\<lambda>b. hex2 (unat b)) bytes)"

lemma hex2_cstring: "cstring (hex2 n)"
proof -
  have "MCL_NULL_CHAR \<noteq> hex_digit m" if "m < 16" for m
  proof -
    have "hex_digit m \<in> set ''0123456789abcdef''"
      unfolding hex_digit_def by (rule nth_mem) (use that in simp)
    then show ?thesis by (auto simp: MCL_NULL_CHAR_def)
  qed
  then show ?thesis by (simp add: hex2_def cstring_def)
qed

text \<open>The id is the text of its bytes: printing in place overwrites no byte that is still needed.\<close>

lemma run_correlation_id:
  "\<exists>r w'. run_state generate_correlation_id_string w = (r, w') \<and>
     ((\<exists>code b. r = Some (code, b) \<and> run_state (mcl_random_generate_bytes 16) w = (Err code, w')) \<or>
      (\<exists>bytes b. r = Some (MCL_OK, b) \<and> run_state (mcl_random_generate_bytes 16) w = (Ok bytes, w') \<and>
         block_string b = Some (correlation_text bytes)))"
proof -
  obtain rb w' where run: "run_state (mcl_random_generate_bytes 16) w = (rb, w')" by fastforce
  show ?thesis
  proof (cases rb)
    case (Inl e)
    then show ?thesis using run
      by (simp add: generate_correlation_id_string_def CORRELATION_ID_BYTE_LENGTH_def Let_def)
  next
    case (Inr bytes)
    then have len: "length bytes = 16" using random_length run by blast
    let ?cs = "map (\<lambda>b. char_of (unat b) :: char) bytes"
    have "string_util_memcpy (fresh_block 33) 16 ?cs 16 = Some (overwrite (fresh_block 33) 16 ?cs)"
      using memcpy_overwrite [of 16 16 "fresh_block 33" ?cs] len by (simp add: fresh_block_def)
    moreover have "correlation_state ?cs 0 (overwrite (fresh_block 33) 16 ?cs)"
      using len by (auto simp: correlation_state_def overwrite_def fresh_block_def nth_append)
    from correlation_loop_state [OF this] len obtain b where
      b: "correlation_loop [0..<16] (overwrite (fresh_block 33) 16 ?cs) = Some (MCL_OK, b)"
        "correlation_state ?cs 16 b" by auto
    ultimately have "run_state generate_correlation_id_string w = (Some (MCL_OK, b), w')"
      using run Inr by (simp add: generate_correlation_id_string_def CORRELATION_ID_BYTE_LENGTH_def
          CORRELATION_ID_BUFFER_LENGTH_def Let_def)
    moreover have "block_string b = Some (correlation_text bytes)"
    proof -
      have digits: "concat (map (\<lambda>c. hex2 (of_char c)) (take 16 ?cs)) = correlation_text bytes"
        using len byte_mod by (simp add: correlation_text_def o_def)
      have "b = take 32 b @ b ! 32 # drop 33 b"
        using b(2) by (intro id_take_nth_drop [of 32 b, simplified]) (simp add: correlation_state_def)
      then have "b = map Some (correlation_text bytes) @ Some MCL_NULL_CHAR # drop 33 b"
        using b(2) digits by (simp add: correlation_state_def)
      moreover have "cstring (correlation_text bytes)"
        using hex2_cstring by (auto simp: correlation_text_def cstring_def)
      ultimately show ?thesis using block_string_cstr by metis
    qed
    ultimately show ?thesis using run Inr by blast
  qed
qed


section \<open>Statuses of a store\<close>

text \<open>Two store items that differ in their status and computed size only.\<close>

definition same :: "store_item_t \<Rightarrow> store_item_t \<Rightarrow> bool" where
  "same d d' \<longleftrightarrow> si_item d' = si_item d \<and> si_id d' = si_id d"

lemma same_refl [simp, intro]: "same d d" and same_status [simp, intro]: "same d (d\<lparr>si_status := s\<rparr>)"
  by (simp_all add: same_def)

lemma same_trans: "same a b \<Longrightarrow> same b c \<Longrightarrow> same a c"
  by (auto simp: same_def)

lemma same_all_trans: "list_all2 same as bs \<Longrightarrow> list_all2 same bs cs \<Longrightarrow> list_all2 same as cs"
  by (rule list_all2_trans [OF same_trans])

lemma same_all_refl [simp]: "list_all2 same ds ds"
  by (simp add: list_all2_refl)

lemma same_item: "same d d' \<Longrightarrow> si_item d' = si_item d \<and> si_id d' = si_id d"
  by (auto simp: same_def)

definition entry :: "store_item_t \<Rightarrow> item \<times> mcl_size_t" where
  "entry d = (si_item d, si_id d)"

lemma same_entries: "list_all2 same ds ds' \<Longrightarrow> map entry ds' = map entry ds"
  by (induction rule: list_all2_induct) (auto simp: entry_def same_item)

definition processed :: "store_item_t \<Rightarrow> bool" where
  "processed d \<longleftrightarrow> si_status d = STORE_ITEM_STATUS_PROCESSED"

text \<open>Whatever happened to the items, no item became a processed one.\<close>

definition none_processed :: "store_item_t list \<Rightarrow> bool" where
  "none_processed ds \<longleftrightarrow> (\<forall>d \<in> set ds. \<not> processed d)"

definition same_unprocessed :: "store_item_t \<Rightarrow> store_item_t \<Rightarrow> bool" where
  "same_unprocessed d d' \<longleftrightarrow> same d d' \<and> (processed d' \<longrightarrow> processed d)"

lemma unprocessed_same: "list_all2 same_unprocessed ds ds' \<Longrightarrow> list_all2 same ds ds'"
  by (erule list_all2_mono) (simp add: same_unprocessed_def)

lemma unprocessed_none: "list_all2 same_unprocessed ds ds' \<Longrightarrow> none_processed ds \<Longrightarrow> none_processed ds'"
  by (induction rule: list_all2_induct) (auto simp: none_processed_def same_unprocessed_def)

abbreviation items :: "store_t \<Rightarrow> store_item_t list" where
  "items st \<equiv> cl_items (st_item_list st)"

text \<open>The cursor of the store's list is inside the list.\<close>

definition store_ok :: "store_t \<Rightarrow> bool" where
  "store_ok st \<longleftrightarrow> cl_cur (st_item_list st) \<le> length (items st)"

lemma sweep_same:
  assumes "\<And>d acc. \<exists>d' acc'. b d acc = (Some d', acc') \<and> q d d'"
  shows "list_all2 q ds (fst (sweep b ds acc))"
proof (induction ds arbitrary: acc)
  case (Cons d ds)
  obtain d' acc' where "b d acc = (Some d', acc')" "q d d'" using assms by blast
  with Cons show ?case by (auto split: prod.split) (metis fst_conv)
qed simp

lemma while_clist:
  assumes "cl_cur l \<le> length (cl_items l)"
  shows "\<exists>l'. while_next clist_ops (Suc (clist_count l)) b (clist_reset l) acc = Some (l', snd (sweep b (cl_items l) acc)) \<and>
     cl_items l' = fst (sweep b (cl_items l) acc) \<and> cl_cur l' = 0"
  using cl.while_next_reset [of l "cl_items l" "cl_cur l" b acc] assms
  by (auto simp: cl_rep_def clist_ops_def clist_count_def simp del: while_next.simps)

lemma select_same:
  assumes "store_ok st"
  shows "\<exists>st' needed. select_store_items_to_exchange st n = Some (st', needed) \<and>
     list_all2 same_unprocessed (items st) (items st') \<and> cl_cur (st_item_list st') = 0"
proof -
  let ?acc = "n - multipart_get_overhead_size"
  have "list_all2 same_unprocessed (items st) (fst (sweep select_item (items st) ?acc))"
    by (rule sweep_same) (simp add: select_item_def same_unprocessed_def processed_def)
  with while_clist [of "st_item_list st" select_item ?acc] assms show ?thesis
    by (auto simp: select_store_items_to_exchange_def store_ok_def clist_reset_def Let_def
        simp del: while_next.simps)
qed

definition selected :: "store_item_t \<Rightarrow> bool" where
  "selected d \<longleftrightarrow> si_status d = STORE_ITEM_STATUS_SELECTED"

lemma next_selected_run:
  assumes "cl_items l = xs @ ys" and "cl_cur l = length xs" and "length ys < f"
  shows "next_selected f l =
     (case dropWhile (\<lambda>d. \<not> selected d) ys of
        [] \<Rightarrow> Some (None, l\<lparr>cl_cur := 0\<rparr>)
      | d # us \<Rightarrow> Some (Some d, l\<lparr>cl_cur := Suc (length (xs @ takeWhile (\<lambda>d. \<not> selected d) ys))\<rparr>))"
  using assms
proof (induction ys arbitrary: xs f l)
  case Nil
  then obtain f' where "f = Suc f'" by (cases f) auto
  with Nil show ?case by (simp add: clist_next_def)
next
  case (Cons y ys)
  then obtain f' where f: "f = Suc f'" by (cases f) auto
  have next1: "clist_next l = Some (MCL_OK, Some y, l\<lparr>cl_cur := Suc (length xs)\<rparr>)"
    using Cons.prems by (simp add: clist_next_def)
  show ?case
  proof (cases "selected y")
    case True
    then show ?thesis using f next1 by (simp add: selected_def)
  next
    case False
    have "next_selected f' (l\<lparr>cl_cur := Suc (length xs)\<rparr>) =
       (case dropWhile (\<lambda>d. \<not> selected d) ys of
        [] \<Rightarrow> Some (None, l\<lparr>cl_cur := 0\<rparr>)
      | d # us \<Rightarrow> Some (Some d, l\<lparr>cl_cur := Suc (length ((xs @ [y]) @ takeWhile (\<lambda>d. \<not> selected d) ys))\<rparr>))"
      using Cons.IH [of "l\<lparr>cl_cur := Suc (length xs)\<rparr>" "xs @ [y]" f'] Cons.prems f
      by (cases "dropWhile (\<lambda>d. \<not> selected d) ys") (simp_all del: dropWhile_eq_Nil_conv)
    then show ?thesis using f next1 False
      by (cases "dropWhile (\<lambda>d. \<not> selected d) ys") (simp_all add: selected_def del: dropWhile_eq_Nil_conv)
  qed
qed

lemma get_next_selected:
  assumes "items st = xs @ ys" and "cl_cur (st_item_list st) = length xs"
  obtains (none) "get_next_selected_store_item st = Some (None, st\<lparr>st_item_list := (st_item_list st)\<lparr>cl_cur := 0\<rparr>\<rparr>)"
      "\<forall>d \<in> set ys. \<not> selected d"
    | (found) ts d us where "ys = ts @ d # us" "selected d" "\<forall>d \<in> set ts. \<not> selected d"
      "get_next_selected_store_item st =
        Some (Some d, st\<lparr>st_item_list := (st_item_list st)\<lparr>cl_cur := Suc (length (xs @ ts))\<rparr>\<rparr>)"
proof (cases "dropWhile (\<lambda>d. \<not> selected d) ys")
  case Nil
  then have "next_selected (Suc (clist_count (st_item_list st))) (st_item_list st) =
      Some (None, (st_item_list st)\<lparr>cl_cur := 0\<rparr>)"
    using next_selected_run [OF assms, of "Suc (clist_count (st_item_list st))"] assms(1)
    by (simp add: clist_count_def del: next_selected.simps dropWhile_eq_Nil_conv)
  then show ?thesis using none Nil
    by (simp add: get_next_selected_store_item_def del: next_selected.simps)
next
  case (Cons d us)
  let ?ts = "takeWhile (\<lambda>d. \<not> selected d) ys"
  have "ys = ?ts @ d # us" using Cons takeWhile_dropWhile_id [of "\<lambda>d. \<not> selected d" ys] by simp
  moreover have "selected d" using Cons by (simp add: dropWhile_eq_Cons_conv)
  moreover have "\<forall>d \<in> set ?ts. \<not> selected d" by (auto dest: set_takeWhileD)
  moreover have "next_selected (Suc (clist_count (st_item_list st))) (st_item_list st) =
      Some (Some d, (st_item_list st)\<lparr>cl_cur := Suc (length (xs @ ?ts))\<rparr>)"
    using next_selected_run [OF assms, of "Suc (clist_count (st_item_list st))"] assms(1)
    by (simp add: clist_count_def Cons del: next_selected.simps)
  then have "get_next_selected_store_item st =
      Some (Some d, st\<lparr>st_item_list := (st_item_list st)\<lparr>cl_cur := Suc (length (xs @ ?ts))\<rparr>\<rparr>)"
    by (simp add: get_next_selected_store_item_def del: next_selected.simps)
  ultimately show ?thesis by (rule found)
qed

text \<open>An item can be added: a buffer of custom data holds what its size says.\<close>

definition item_ready :: "item \<Rightarrow> bool" where
  "item_ready item \<longleftrightarrow>
     (case item of CustomData c \<Rightarrow> (\<exists>b. cd_buffer c = Some b \<and> cd_size c \<le> length b) | _ \<Rightarrow> True)"

lemma callbacks_good [simp]:
  "callback_ok (Some (file_payload_callback content))"
  "callback_ok (Some (custom_data_payload_callback b n))"
  by (auto simp: callback_ok_def good_callback_def file_payload_callback_def
      custom_data_payload_callback_def Let_def)

definition added :: "char block \<Rightarrow> nat \<Rightarrow> (mcl_error \<times> char block \<times> nat) option \<Rightarrow> bool" where
  "added b n r \<longleftrightarrow> (\<exists>code b' n'. r = Some (code, b', n') \<and>
     length b' = length b \<and> n' \<le> n \<and> (code \<noteq> MCL_OK \<longrightarrow> n' = n))"

lemma tuple_added:
  assumes "position + n \<le> length b" and "length boundary = 20" and "random_fails w" and "callback_ok cb"
  shows "added b n (fst (run_state (multipart_add_tuple_with_callback b position n item boundary ct cb ctx) w))"
proof -
  obtain code b' p r where t: "fst (run_state (multipart_add_tuple_with_callback b position n item boundary ct cb ctx) w) =
      Some (code, b', if code = MCL_OK then r else n)" "within b position n b' p r"
    using tuple_within [OF assms(1,2,4,3)] by blast
  moreover have "r \<le> n" "length b' = length b" using t(2) by (auto simp: within_def)
  ultimately show ?thesis by (auto simp: added_def)
qed

lemma add_item_safe:
  assumes "position + n \<le> length b" and "length boundary = 20" and "item_ready item" and "random_fails w"
  shows "\<exists>code b' n' w'. run_state (add_item_to_buffer contents b position n item boundary) w =
       (Some (code, b', n'), w') \<and>
     length b' = length b \<and> n' \<le> n \<and> (code \<noteq> MCL_OK \<longrightarrow> n' = n) \<and> random_fails w'"
proof -
  note safe = tuple_added [OF assms(1,2,4)]
  have "added b n (fst (run_state (add_item_to_buffer contents b position n item boundary) w))"
  proof (cases item)
    case (CustomData c)
    then obtain payload where "cd_buffer c = Some payload" "cd_size c \<le> length payload"
      using assms(3) by (auto simp: item_ready_def)
    with CustomData show ?thesis
      by (simp add: add_item_to_buffer_def add_custom_data_to_buffer_def safe)
  qed (simp_all add: add_item_to_buffer_def multipart_add_tuple_def safe callback_ok_def [of None])
  then show ?thesis
    using random_fails_frame [OF frame_add_item _ assms(4)] unfolding added_def by (metis prod.collapse)
qed

text \<open>
  What a body is made of: the items that were added with success, one after the other. An item that
  could not be added is left out, whatever its attempt left behind the written part.
\<close>

inductive body_holds ::
  "(file_t \<Rightarrow> string) \<Rightarrow> string \<Rightarrow> nat \<Rightarrow> 'z mem_world_scheme \<Rightarrow> item list \<Rightarrow> char block \<Rightarrow> nat \<Rightarrow>
   'z mem_world_scheme \<Rightarrow> bool"
  for contents boundary n w where
  empty_body: "body_holds contents boundary n w [] (fresh_block n) n w"
| item_added: "body_holds contents boundary n w is b r v \<Longrightarrow>
    run_state (add_item_to_buffer contents b (n - r) r i boundary) v = (Some (MCL_OK, b', r'), v') \<Longrightarrow>
    body_holds contents boundary n w (is @ [i]) b' r' v'"
| item_left_out: "body_holds contents boundary n w is b r v \<Longrightarrow>
    run_state (add_item_to_buffer contents b (n - r) r i boundary) v = (Some (code, b', r'), v') \<Longrightarrow>
    code \<noteq> MCL_OK \<Longrightarrow> body_holds contents boundary n w is b' r' v'"

text \<open>
  Filling the body: the items keep everything but their status, the remaining size does not grow,
  and when it has changed an item is processed.
\<close>

lemma fill_body_run:
  assumes "items st = xs @ ys" and "cl_cur (st_item_list st) = length xs" and "length ys < f"
    and "length b = n" and "r \<le> n" and "length boundary = 20" and "random_fails w"
    and "\<forall>d \<in> set ys. item_ready (si_item d)"
  shows "\<exists>ys' b' r' w'. run_state (fill_body f contents boundary n st b r) w =
       (Some (st\<lparr>st_item_list := \<lparr>cl_items = xs @ ys', cl_cur = 0\<rparr>\<rparr>, b', r'), w') \<and>
     list_all2 same ys ys' \<and> length b' = n \<and> r' \<le> r \<and>
     (r' \<noteq> r \<longrightarrow> (\<exists>d \<in> set ys'. si_status d = STORE_ITEM_STATUS_PROCESSED)) \<and> random_fails w' \<and>
     (\<forall>u is. none_processed ys \<longrightarrow> body_holds contents boundary n u is b r w \<longrightarrow>
        body_holds contents boundary n u (is @ map si_item (filter processed ys')) b' r' w')"
  using assms
proof (induction f arbitrary: st xs ys b r w)
  case (Suc f)
  from Suc.prems(1,2) show ?case
  proof (cases rule: get_next_selected)
    case none
    have "st_item_list st\<lparr>cl_cur := 0\<rparr> = \<lparr>cl_items = xs @ ys, cl_cur = 0\<rparr>" using Suc.prems(1) by simp
    with none Suc.prems show ?thesis by (intro exI [of _ ys]) (simp add: none_processed_def)
  next
    case (found ts d us)
    let ?st = "st\<lparr>st_item_list := (st_item_list st)\<lparr>cl_cur := Suc (length (xs @ ts))\<rparr>\<rparr>"
    obtain code b1 r1 w1 where add: "run_state (add_item_to_buffer contents b (n - r) r (si_item d) boundary) w =
        (Some (code, b1, r1), w1)" "length b1 = length b" "r1 \<le> r" "code \<noteq> MCL_OK \<longrightarrow> r1 = r" "random_fails w1"
      using add_item_safe [of "n - r" r b boundary "si_item d" w contents] Suc.prems found(1) by auto
    define d' where "d' = (if code = MCL_OK then d\<lparr>si_status := STORE_ITEM_STATUS_PROCESSED\<rparr> else d)"
    define l where "l = \<lparr>cl_items = (xs @ ts @ [d']) @ us, cl_cur = Suc (length (xs @ ts))\<rparr>"
    have "run_state (fill_body (Suc f) contents boundary n st b r) w =
        run_state (fill_body f contents boundary n (st\<lparr>st_item_list := l\<rparr>) b1 r1) w1"
    proof (cases "code = MCL_OK")
      case True
      have "clist_update (st_item_list ?st) (d\<lparr>si_status := STORE_ITEM_STATUS_PROCESSED\<rparr>) = Some l"
        using Suc.prems(1) found(1) True by (simp add: clist_update_def l_def d'_def list_update_append)
      with True add found(4) show ?thesis by simp
    next
      case False
      have "st_item_list ?st = l" using Suc.prems(1) found(1) False by (simp add: l_def d'_def)
      with False add found(4) show ?thesis by simp
    qed
    moreover have "items (st\<lparr>st_item_list := l\<rparr>) = (xs @ ts @ [d']) @ us"
        "cl_cur (st_item_list (st\<lparr>st_item_list := l\<rparr>)) = length (xs @ ts @ [d'])"
      by (simp_all add: l_def)
    moreover have "length us < f" "length b1 = n" "r1 \<le> n" "\<forall>d \<in> set us. item_ready (si_item d)"
      using Suc.prems add found(1) by auto
    ultimately obtain us' b' r' w' where ih: "run_state (fill_body (Suc f) contents boundary n st b r) w =
        (Some (st\<lparr>st_item_list := l\<rparr>\<lparr>st_item_list := \<lparr>cl_items = (xs @ ts @ [d']) @ us', cl_cur = 0\<rparr>\<rparr>, b', r'), w')"
        "list_all2 same us us'" "length b' = n" "r' \<le> r1"
        "r' \<noteq> r1 \<longrightarrow> (\<exists>d \<in> set us'. si_status d = STORE_ITEM_STATUS_PROCESSED)" "random_fails w'"
        "\<And>u is. none_processed us \<Longrightarrow> body_holds contents boundary n u is b1 r1 w1 \<Longrightarrow>
           body_holds contents boundary n u (is @ map si_item (filter processed us')) b' r' w'"
      using Suc.IH [of "st\<lparr>st_item_list := l\<rparr>" "xs @ ts @ [d']" us b1 r1 w1] Suc.prems(6) add(5) by metis
    have "run_state (fill_body (Suc f) contents boundary n st b r) w =
        (Some (st\<lparr>st_item_list := \<lparr>cl_items = xs @ ts @ d' # us', cl_cur = 0\<rparr>\<rparr>, b', r'), w')"
      using ih(1) by (simp del: fill_body.simps)
    moreover have "list_all2 same ys (ts @ d' # us')"
      using found(1) ih(2) by (simp add: list_all2_append d'_def)
    moreover have "r' \<noteq> r \<longrightarrow> (\<exists>d \<in> set (ts @ d' # us'). si_status d = STORE_ITEM_STATUS_PROCESSED)"
      using ih(5) add(4) by (auto simp: d'_def)
    moreover have "body_holds contents boundary n u (is @ map si_item (filter processed (ts @ d' # us'))) b' r' w'"
      if none: "none_processed ys" and before: "body_holds contents boundary n u is b r w" for u "is"
    proof -
      have "none_processed us" "filter processed ts = []" "\<not> processed d"
        using none found(1) by (auto simp: none_processed_def)
      moreover have "body_holds contents boundary n u (is @ map si_item (filter processed [d'])) b1 r1 w1"
        using item_added [OF before] item_left_out [OF before] add(1) \<open>\<not> processed d\<close>
        by (cases "code = MCL_OK") (auto simp: d'_def processed_def)
      ultimately show ?thesis using ih(7) [of u "is @ map si_item (filter processed [d'])"] by auto
    qed
    ultimately show ?thesis using ih(3,4,6) add(3)
      by (intro exI [of _ "ts @ d' # us'"] exI [of _ b'] exI [of _ r'] exI [of _ w']) (simp del: fill_body.simps)
  qed
qed simp


lemma close_safe:
  assumes "length boundary = 20" and "offset + n \<le> length b"
  shows "\<exists>code b' n'. multipart_close b offset n boundary = Some (code, b', n')"
proof (cases "MULTIPART_CLOSE_LENGTH \<le> n")
  case True
  then have "offset + 24 \<le> length b" using assms(2) by (simp add: MULTIPART_CLOSE_LENGTH_def)
  then show ?thesis using True assms(1)
    by (simp add: multipart_close_def memcpy_overwrite cstr_def)
qed (simp add: multipart_close_def)

definition store_ready :: "store_t \<Rightarrow> bool" where
  "store_ready st \<longleftrightarrow> (\<forall>d \<in> set (items st). item_ready (si_item d))"

lemma same_ready: "list_all2 same ds ds' \<Longrightarrow> (\<forall>d \<in> set ds'. item_ready (si_item d)) = (\<forall>d \<in> set ds. item_ready (si_item d))"
  by (induction rule: list_all2_induct) (auto simp: same_item)

text \<open>A finished message: a body that was begun in the world \<open>w\<close>, holds the items, and was closed.\<close>

definition message_of ::
  "(file_t \<Rightarrow> string) \<Rightarrow> string \<Rightarrow> 'z mem_world_scheme \<Rightarrow> item list \<Rightarrow> char block \<Rightarrow> nat \<Rightarrow> bool" where
  "message_of contents boundary w is buffer body_size \<longleftrightarrow>
     (\<exists>n b r r' v. body_holds contents boundary n w is b r v \<and>
        multipart_close b (n - r) r boundary = Some (MCL_OK, buffer, r') \<and> body_size = n - r')"

lemma prepare_store_run:
  fixes w :: "'z mem_world_scheme"
  assumes "store_ok st" and "store_ready st" and "length boundary = 20" and "random_fails w"
  shows "\<exists>code st' body w'. run_state (prepare_body_for_store contents st n boundary) w =
       (Some (code, st', body), w') \<and> list_all2 same (items st) (items st') \<and> store_ok st' \<and>
     (code = MCL_OK \<longleftrightarrow> body \<noteq> None) \<and>
     (code = MCL_OK \<longrightarrow> (\<exists>d \<in> set (items st'). si_status d = STORE_ITEM_STATUS_PROCESSED)) \<and>
     (\<forall>buffer body_size. none_processed (items st) \<longrightarrow> body = Some (buffer, body_size) \<longrightarrow>
        (\<exists>v :: 'z mem_world_scheme. message_of contents boundary v (map si_item (filter processed (items st'))) buffer body_size))"
proof -
  obtain st1 needed where sel: "select_store_items_to_exchange st n = Some (st1, needed)"
      "list_all2 same_unprocessed (items st) (items st1)" "cl_cur (st_item_list st1) = 0"
    using select_same [OF assms(1)] by blast
  note sel2 = unprocessed_same [OF sel(2)]
  obtain a w1 where malloc: "run_state mcl_malloc w = (a, w1)" by fastforce
  then have fails: "random_fails w1" using random_fails_frame [OF mem_only_malloc _ assms(4)] by blast
  let ?n = "unat needed"
  show ?thesis
  proof (cases a)
    case False
    then have "run_state (prepare_body_for_store contents st n boundary) w =
        (Some (MCL_OUT_OF_MEMORY, st1, None), w1)"
      using sel(1) malloc by (simp add: prepare_body_for_store_def Let_def del: fill_body.simps)
    with sel sel2 show ?thesis by (auto simp: store_ok_def)
  next
    case True
    have "items st1 = [] @ items st1" "cl_cur (st_item_list st1) = length []" using sel(3) by simp_all
    moreover have "\<forall>d \<in> set (items st1). item_ready (si_item d)"
      using same_ready [OF sel2] assms(2) by (simp add: store_ready_def)
    moreover have "length (items st1) < Suc (clist_count (st_item_list st1))" "length (fresh_block ?n) = ?n" "?n \<le> ?n"
      by (simp_all add: clist_count_def fresh_block_def)
    ultimately obtain ys b r w2 where fill: "run_state (fill_body (Suc (clist_count (st_item_list st1)))
          contents boundary ?n st1 (fresh_block ?n) ?n) w1 =
          (Some (st1\<lparr>st_item_list := \<lparr>cl_items = [] @ ys, cl_cur = 0\<rparr>\<rparr>, b, r), w2)"
        "list_all2 same (items st1) ys" "length b = ?n" "r \<le> ?n"
        "r \<noteq> ?n \<longrightarrow> (\<exists>d \<in> set ys. si_status d = STORE_ITEM_STATUS_PROCESSED)"
        "\<forall>u is. none_processed (items st1) \<longrightarrow> body_holds contents boundary ?n u is (fresh_block ?n) ?n w1 \<longrightarrow>
           body_holds contents boundary ?n u (is @ map si_item (filter processed ys)) b r w2"
      using fill_body_run [of st1 "[]" "items st1" "Suc (clist_count (st_item_list st1))" "fresh_block ?n" ?n ?n
          boundary w1 contents] assms(3) fails by blast
    obtain code b' r' where close: "multipart_close b (?n - r) r boundary = Some (code, b', r')"
      using close_safe [OF assms(3), of "?n - r" r b] fill(3,4) by auto
    let ?st = "st1\<lparr>st_item_list := \<lparr>cl_items = ys, cl_cur = 0\<rparr>\<rparr>"
    have same: "list_all2 same (items st) ys" by (rule same_all_trans [OF sel2 fill(2)])
    have holds: "body_holds contents boundary ?n w1 (map si_item (filter processed ys)) b r w2" if "none_processed (items st)"
      using fill(6) empty_body [of contents boundary ?n w1] unprocessed_none [OF sel(2) that] by force
    have "run_state (prepare_body_for_store contents st n boundary) w =
        (if ?n = r then Some (MCL_FAIL, ?st, None)
         else Some (if code = MCL_OK then (MCL_OK, ?st, Some (b', ?n - r'))
                    else (MCL_FAIL, ?st, None)), w2)"
      using sel(1) malloc True fill(1) close
      by (simp add: prepare_body_for_store_def run_bind Let_def del: fill_body.simps)
    moreover have "\<exists>v :: 'z mem_world_scheme. message_of contents boundary v (map si_item (filter processed ys)) b' (?n - r')"
      if "code = MCL_OK" "none_processed (items st)"
      using holds [OF that(2)] close that(1) unfolding message_of_def by blast
    ultimately show ?thesis using same fill(5) by (auto simp: store_ok_def)
  qed
qed

section \<open>The scan\<close>

text \<open>Selected items become ready again.\<close>

definition put_back :: "store_item_t \<Rightarrow> store_item_t" where
  "put_back d = (if selected d then d\<lparr>si_status := STORE_ITEM_STATUS_READY\<rparr> else d)"

definition pending :: "store_item_t \<Rightarrow> bool" where
  "pending d \<longleftrightarrow> si_status d \<in> {STORE_ITEM_STATUS_SELECTED, STORE_ITEM_STATUS_READY}"

lemma remove_sweep:
  "sweep remove_if_uploaded ds t =
     (map put_back (filter (\<lambda>d. \<not> processed d) ds), t \<and> (\<forall>d \<in> set ds. \<not> pending d))"
proof (induction ds arbitrary: t)
  case (Cons d ds)
  then show ?case
    by (cases "si_status d")
      (auto simp: remove_if_uploaded_def put_back_def processed_def selected_def pending_def)
qed simp

lemma revert_sweep:
  "sweep (\<lambda>d u. (Some (d\<lparr>si_status := STORE_ITEM_STATUS_READY\<rparr>), u)) ds u =
     (map (\<lambda>d. d\<lparr>si_status := STORE_ITEM_STATUS_READY\<rparr>) ds, u)"
  by (induction ds) simp_all

lemma for_each_clist:
  assumes "cl_cur l \<le> length (cl_items l)"
  shows "\<exists>l'. for_each clist_ops (clist_count l) b (clist_reset l) acc = Some (l', snd (sweep b (cl_items l) acc)) \<and>
     cl_items l' = fst (sweep b (cl_items l) acc) \<and> cl_cur l' = length (cl_items l')"
  using cl.for_each_reset [of l "cl_items l" "cl_cur l" b acc] assms
  by (auto simp: cl_rep_def clist_ops_def clist_count_def)

lemma revert_run:
  assumes "store_ok st"
  shows "\<exists>st'. revert_store_item_status st = Some st' \<and> store_ok st' \<and>
     items st' = map (\<lambda>d. d\<lparr>si_status := STORE_ITEM_STATUS_READY\<rparr>) (items st)"
  using for_each_clist [of "st_item_list st" "\<lambda>d u. (Some (d\<lparr>si_status := STORE_ITEM_STATUS_READY\<rparr>), u)" "()"]
    assms
  by (auto simp: revert_store_item_status_def store_ok_def revert_sweep)

lemma remove_run:
  assumes "store_ok st"
  shows "\<exists>st'. remove_uploaded_store_items st = Some (st', \<forall>d \<in> set (items st). \<not> pending d) \<and> store_ok st' \<and>
     items st' = map put_back (filter (\<lambda>d. \<not> processed d) (items st))"
  using for_each_clist [of "st_item_list st" remove_if_uploaded True] assms
  by (auto simp: remove_uploaded_store_items_def store_ok_def remove_sweep)

text \<open>
  What the scan makes of a turn: after a failure everything is ready again; after a success the
  processed items are gone, and the loop ends when no item is pending.
\<close>

definition all_ready :: "store_item_t list \<Rightarrow> bool" where
  "all_ready ds \<longleftrightarrow> (\<forall>d \<in> set ds. si_status d = STORE_ITEM_STATUS_READY)"

lemma scan_run:
  assumes "store_ok st"
  shows "\<exists>code' st' full'. scan_store_after_exchange st full code = Some (code', st', full') \<and> store_ok st' \<and>
     map entry (items st') = map entry (if code = MCL_OK then filter (\<lambda>d. \<not> processed d) (items st) else items st) \<and>
     (code \<noteq> MCL_OK \<longrightarrow> code' = code) \<and>
     (code' \<noteq> MCL_OK \<longrightarrow> all_ready (items st')) \<and>
     (code' = MCL_OK \<longrightarrow> code = MCL_OK \<and> (full' \<longrightarrow> items st' = [])) \<and>
     (code' = MCL_OK \<and> \<not> full' \<longrightarrow> items st' = map put_back (filter (\<lambda>d. \<not> processed d) (items st)))"
proof (cases "code = MCL_OK")
  case False
  obtain st' where "revert_store_item_status st = Some st'" "store_ok st'"
      "items st' = map (\<lambda>d. d\<lparr>si_status := STORE_ITEM_STATUS_READY\<rparr>) (items st)"
    using revert_run [OF assms] by blast
  with False show ?thesis
    by (auto simp: scan_store_after_exchange_def entry_def all_ready_def)
next
  case True
  obtain st1 where remove: "remove_uploaded_store_items st = Some (st1, \<forall>d \<in> set (items st). \<not> pending d)"
      "store_ok st1" "items st1 = map put_back (filter (\<lambda>d. \<not> processed d) (items st))"
    using remove_run [OF assms] by blast
  obtain st2 where revert: "revert_store_item_status st1 = Some st2" "store_ok st2"
      "items st2 = map (\<lambda>d. d\<lparr>si_status := STORE_ITEM_STATUS_READY\<rparr>) (items st1)"
    using revert_run [OF remove(2)] by blast
  have entries: "map entry (items st1) = map entry (filter (\<lambda>d. \<not> processed d) (items st))"
    "map entry (items st2) = map entry (items st1)"
    using remove(3) revert(3) by (simp_all add: entry_def put_back_def)
  show ?thesis
  proof (cases "(\<forall>d \<in> set (items st). \<not> pending d) \<and> items st1 \<noteq> []")
    case leftover: True
    then have "scan_store_after_exchange st full code =
        Some (MCL_ITEM_EXCEEDS_MAX_HTTP_REQUEST_SIZE, st2, True)"
      using True remove(1) revert(1) by (simp add: scan_store_after_exchange_def clist_count_def)
    then show ?thesis using entries revert(2,3) True by (auto simp: all_ready_def)
  next
    case False
    then have "scan_store_after_exchange st full code =
        Some (MCL_OK, st1, \<forall>d \<in> set (items st). \<not> pending d)"
      using True remove(1) by (auto simp: scan_store_after_exchange_def clist_count_def)
    then show ?thesis using entries(1) remove(2,3) True False by auto
  qed
qed


section \<open>One turn of the loop\<close>

lemma send_keeps_random:
  assumes "run_state (mcl_http_client_send rq) w = (r, w')" and "random_fails w"
  shows "random_fails w'"
  using assms
  by (cases "w_answers w") (auto simp: mcl_http_client_send_def Let_def random_fails_def)

lemma random_error:
  assumes "run_state (mcl_random_generate_bytes n) w = (Err code, w')" and "random_fails w"
  shows "code \<noteq> MCL_OK"
  using assms
  by (auto simp: mcl_random_generate_bytes_def random_fails_def map_sum_def split: list.splits sum.splits)

lemma add_correlation_id_some:
  assumes "random_fails w" and "header_free Q" and "Q rq"
  shows "\<exists>code r w'. run_state (add_correlation_id (Some rq)) w = (Some (code, r), w') \<and>
     so_far Q (code, r) \<and> random_fails w'"
proof -
  obtain r w1 where run: "run_state generate_correlation_id_string w = (r, w1)"
    "(\<exists>code b. r = Some (code, b) \<and> run_state (mcl_random_generate_bytes 16) w = (Err code, w1)) \<or>
     (\<exists>bytes b. r = Some (MCL_OK, b) \<and> run_state (mcl_random_generate_bytes 16) w = (Ok bytes, w1) \<and>
         block_string b = Some (correlation_text bytes))"
    using run_correlation_id [of w] by blast
  then obtain code b where r: "r = Some (code, b)" "code = MCL_OK \<longrightarrow> (\<exists>s. block_string b = Some s)"
    using random_error [OF _ assms(1)] by blast
  have "\<exists>code' r' w'. run_state (add_correlation_id (Some rq)) w = (Some (code', r'), w') \<and> so_far Q (code', r')"
  proof (cases "code = MCL_OK")
    case True
    then obtain s where s: "block_string b = Some s" using r(2) by blast
    obtain c q w2 where h: "run_state (mcl_http_request_add_header (Some rq) (Some ''Correlation-ID'') (Some s)) w1 =
        ((c, q), w2)" by (metis prod.exhaust)
    then have "so_far Q (c, q)" using gives_header(1) [OF assms(2,3)] by (metis fst_conv gives_so_far)
    with run(1) r(1) True s h show ?thesis by (simp add: add_correlation_id_def)
  qed (use run(1) r(1) in \<open>simp add: add_correlation_id_def so_far_def\<close>)
  then show ?thesis using random_fails_frame [OF frame_headers(3) _ assms(1)] by blast
qed

text \<open>What a turn does to the network: it sends nothing, or one request which takes the next answer.\<close>

definition sends :: "mcl_http_request_t \<Rightarrow> 'z net_world_scheme \<Rightarrow> 'z net_world_scheme \<Rightarrow> bool" where
  "sends rq w w' \<longleftrightarrow> w_sent w' = w_sent w @ [rq] \<and> w_answers w' = tl (w_answers w)"

lemma sends_between:
  "same_network u v \<Longrightarrow> sends rq v w \<Longrightarrow> sends rq u w" "sends rq u v \<Longrightarrow> same_network v w \<Longrightarrow> sends rq u w"
  "same_network u v \<Longrightarrow> next_answer v = next_answer u"
  by (simp_all add: sends_def same_network_def next_answer_def)

definition verdict :: "mcl_http_response_t result \<Rightarrow> mcl_error" where
  "verdict answer = (case answer of Err code \<Rightarrow> code | Ok response \<Rightarrow> evaluate_response_for_exchange response)"

definition sent_turn :: "(mcl_http_request_t \<Rightarrow> bool) \<Rightarrow> mcl_error \<Rightarrow> 'z net_world_scheme \<Rightarrow> 'z net_world_scheme \<Rightarrow> bool" where
  "sent_turn Q code w w' \<longleftrightarrow>
     (\<exists>rq. sends rq w w' \<and> code = verdict (next_answer w) \<and> Q rq) \<or> code \<noteq> MCL_OK \<and> same_network w w'"

lemma sent_turn_after: "same_network u v \<Longrightarrow> sent_turn Q code v w \<Longrightarrow> sent_turn Q code u w"
  unfolding sent_turn_def using sends_between(1,3) same_network_trans by metis

lemma exchange_send_total:
  assumes "random_fails w"
  shows "\<exists>code w'. run_state (exchange_send processor buffer n boundary) w = (Some code, w') \<and> random_fails w' \<and>
     sent_turn (exchange_post processor buffer n) code w w'"
proof -
  let ?Q = "exchange_post processor buffer n"
  obtain c rq w1 where request: "run_state (exchange_request processor buffer n boundary) w = ((c, rq), w1)"
    by (metis prod.exhaust)
  then have f1: "random_fails w1" "same_network w w1"
    using random_fails_frame [OF frame_exchange_request _ assms] same_network_frame [OF frame_exchange_request] by blast+
  show ?thesis
  proof (cases "c = MCL_OK")
    case True
    then obtain q where q: "rq = Some q" "?Q q" using givesD [OF exchange_request_given] request by blast
    obtain c2 r2 w2 where id: "run_state (add_correlation_id (Some q)) w1 = (Some (c2, r2), w2)"
        "so_far ?Q (c2, r2)" "random_fails w2"
      using add_correlation_id_some [OF f1(1) exchange_post_header q(2)] by blast
    have s2: "same_network w w2"
      using same_network_trans [OF f1(2) same_network_frame [OF frame_headers(3) id(1)]] .
    show ?thesis
    proof (cases "c2 = MCL_OK")
      case ok: True
      then obtain q2 where q2: "r2 = Some q2" "?Q q2" using id(2) by (auto simp: so_far_def)
      have "random_fails (sent q2 w2)" using id(3) by (simp add: random_fails_def sent_def)
      moreover have "sent_turn ?Q (verdict (next_answer w2)) w2 (sent q2 w2)"
        using q2(2) by (auto simp: sent_turn_def sends_def sent_def)
      ultimately show ?thesis using True request q id(1) ok q2 sent_turn_after [OF s2]
        by (auto simp: exchange_send_def send_request_def run_http_client_send verdict_def split: sum.splits)
    qed (use True request q id s2 in \<open>simp add: exchange_send_def sent_turn_def\<close>)
  qed (use request f1 in \<open>simp add: exchange_send_def sent_turn_def\<close>)
qed

text \<open>
  A turn for a store: it never gets stuck, and a success has processed an item. What it sends is a
  message that holds the processed items.
\<close>

definition request_with ::
  "(file_t \<Rightarrow> string) \<Rightarrow> connectivity_processor_t \<Rightarrow> 'z mem_world_scheme \<Rightarrow> item list \<Rightarrow> mcl_http_request_t \<Rightarrow> bool" where
  "request_with contents processor w is rq \<longleftrightarrow> (\<exists>boundary buffer body_size.
     exchange_post processor buffer body_size rq \<and> message_of contents boundary w is buffer body_size)"

lemma exchange_once_store:
  fixes w :: "'z net_world_scheme"
  assumes "store_ok st" and "store_ready st" and "random_fails w"
  shows "\<exists>code st' w'. run_state (exchange_once contents processor (StoreUpload st)) w =
       (Some (code, StoreUpload st'), w') \<and> list_all2 same (items st) (items st') \<and> store_ok st' \<and>
     random_fails w' \<and> (code = MCL_OK \<longrightarrow> (\<exists>d \<in> set (items st'). processed d)) \<and>
     (none_processed (items st) \<longrightarrow> (\<exists>v :: 'z net_world_scheme. sent_turn
        (request_with contents processor v (map si_item (filter processed (items st')))) code w w'))"
proof -
  obtain c g w1 where b: "run_state multipart_generate_boundary w = ((c, g), w1)" by (metis prod.exhaust)
  then have f1: "random_fails w1" "same_network w w1"
    using random_fails_frame [OF frame_boundary _ assms(3)] same_network_frame [OF frame_boundary] by blast+
  show ?thesis
  proof (cases g)
    case None
    then have "c \<noteq> MCL_OK" using boundary_missing b assms(3) by blast
    with None b f1 assms show ?thesis by (simp add: exchange_once_def sent_turn_def)
  next
    case (Some boundary)
    then have len: "length boundary = 20" using boundary_length [of w c g] b by simp
    let ?max = "cp_max_http_payload_size processor"
    obtain code st' body w2 where prep: "run_state (prepare_body_for_store contents st ?max boundary) w1 =
         (Some (code, st', body), w2)" "list_all2 same (items st) (items st')" "store_ok st'"
       "code = MCL_OK \<longleftrightarrow> body \<noteq> None"
       "code = MCL_OK \<longrightarrow> (\<exists>d \<in> set (items st'). si_status d = STORE_ITEM_STATUS_PROCESSED)"
       "\<forall>buffer body_size. none_processed (items st) \<longrightarrow> body = Some (buffer, body_size) \<longrightarrow>
          (\<exists>v :: 'z net_world_scheme. message_of contents boundary v (map si_item (filter processed (items st'))) buffer body_size)"
      using prepare_store_run [OF assms(1,2) len f1(1), of contents ?max] by blast
    have body: "run_state (prepare_body contents (StoreUpload st) ?max boundary) w1 =
        (Some (code, StoreUpload st', body), w2)"
      using prep(1) by (simp add: prepare_body_def)
    then have f2: "random_fails w2" "same_network w w2"
      using random_fails_frame [OF frame_prepare _ f1(1)] same_network_trans [OF f1(2) same_network_frame [OF frame_prepare]]
      by blast+
    show ?thesis
    proof (cases body)
      case None
      with b Some body prep f2 show ?thesis by (simp add: exchange_once_def sent_turn_def)
    next
      case (Some bs)
      obtain buffer n where bs: "bs = (buffer, n)" by fastforce
      obtain c' w3 where send: "run_state (exchange_send processor buffer n boundary) w2 = (Some c', w3)"
          "random_fails w3" "sent_turn (exchange_post processor buffer n) c' w2 w3"
        using exchange_send_total [OF f2(1)] by blast
      have "sent_turn (request_with contents processor v (map si_item (filter processed (items st')))) c' w w3"
        if "message_of contents boundary v (map si_item (filter processed (items st'))) buffer n" for v :: "'z net_world_scheme"
        using sent_turn_after [OF f2(2) send(3)] that by (auto simp: sent_turn_def request_with_def)
      moreover have "code = MCL_OK" using prep(4) Some by simp
      ultimately show ?thesis using b \<open>g = Some boundary\<close> body Some bs prep send(1,2)
        by (auto simp: exchange_once_def processed_def)
    qed
  qed
qed

text \<open>
  The loop: with one more turn than the store has items it returns. The items that are left are an
  untouched part of the store; all of them are ready unless the store was emptied with success.
\<close>

lemma filter_entries: "subseq (map entry (filter P ds)) (map entry ds)"
  by (intro subseq_map subseq_filter_left)

lemma processed_shrinks:
  "d \<in> set ds \<Longrightarrow> processed d \<Longrightarrow> length (filter (\<lambda>d. \<not> processed d) ds) < length ds"
  by (rule length_filter_less) auto

lemma subseq_members: "subseq xs ys \<Longrightarrow> set xs \<subseteq> set ys"
  by (induction rule: list_emb.induct) auto

lemma entries_ready:
  assumes "subseq (map entry ds') (map entry ds)" and "\<forall>d \<in> set ds. item_ready (si_item d)"
  shows "\<forall>d \<in> set ds'. item_ready (si_item d)"
proof
  fix d assume "d \<in> set ds'"
  then have "entry d \<in> set (map entry ds)" using assms(1) by (force dest: subseq_members)
  then show "item_ready (si_item d)" using assms(2) by (auto simp: entry_def)
qed

text \<open>
  How items leave a store. Each turn sends at most one request and takes one answer. When the answer
  was accepted the batch of items that the message of this request holds is gone, and the upload may
  go on; with any other answer, or without a request, everything stays.
\<close>

inductive uploaded ::
  "(file_t \<Rightarrow> string) \<Rightarrow> connectivity_processor_t \<Rightarrow> 'z net_world_scheme \<Rightarrow> (item \<times> mcl_size_t) list \<Rightarrow>
   'z net_world_scheme \<Rightarrow> (item \<times> mcl_size_t) list \<Rightarrow> bool"
  for contents processor where
  nothing_sent: "same_network w w' \<Longrightarrow> uploaded contents processor w es w' es"
| refused: "sends rq w w' \<Longrightarrow> verdict (next_answer w) \<noteq> MCL_OK \<Longrightarrow> uploaded contents processor w es w' es"
| accepted: "sends rq w w1 \<Longrightarrow> verdict (next_answer w) = MCL_OK \<Longrightarrow>
    request_with contents processor (v :: 'z net_world_scheme) (map fst batch) rq \<Longrightarrow> batch \<noteq> [] \<Longrightarrow>
    es \<in> shuffles batch rest \<Longrightarrow> uploaded contents processor w1 rest w' es' \<Longrightarrow>
    uploaded contents processor w es w' es'"

lemma uploaded_after:
  assumes "same_network u w" and "uploaded contents processor w es w' es'"
  shows "uploaded contents processor u es w' es'"
  using assms(2,1)
proof cases
  case nothing_sent
  then show ?thesis using assms(1) uploaded.nothing_sent same_network_trans by blast
next
  case (refused rq)
  then show ?thesis using assms(1) uploaded.refused [of rq u w'] sends_between by metis
next
  case (accepted rq w1 v batch rest)
  from sends_between(1) [OF assms(1) accepted(1)] have "sends rq u w1" .
  moreover have "verdict (next_answer u) = MCL_OK"
    using accepted(2) sends_between(3) [OF assms(1)] by simp
  ultimately show ?thesis using accepted(3-6) by (rule uploaded.accepted)
qed

lemma filter_shuffle: "map f xs \<in> shuffles (map f (filter P xs)) (map f (filter (\<lambda>x. \<not> P x) xs))"
  by (induction xs) (auto simp: Cons_in_shuffles_leftI Cons_in_shuffles_rightI)

text \<open>The turn that was answered with success and took the processed items out.\<close>

lemma turn_uploaded:
  fixes v w :: "'z net_world_scheme"
  assumes "sent_turn (request_with contents processor v (map si_item (filter processed ds)))
      MCL_OK w w1" and "\<exists>d \<in> set ds. processed d"
    and "uploaded contents processor w1 (map entry (filter (\<lambda>d. \<not> processed d) ds)) w' es'"
  shows "uploaded contents processor w (map entry ds) w' es'"
proof -
  obtain rq where rq: "sends rq w w1" "verdict (next_answer w) = MCL_OK"
      "request_with contents processor v (map si_item (filter processed ds)) rq"
    using assms(1) by (auto simp: sent_turn_def)
  have batch: "request_with contents processor v (map fst (map entry (filter processed ds))) rq"
    using rq(3) by (simp add: entry_def o_def)
  have "map entry (filter processed ds) \<noteq> []" using assms(2) by (auto simp: filter_empty_conv)
  from uploaded.accepted [OF rq(1,2) batch this filter_shuffle assms(3)] show ?thesis .
qed

lemma turn_refused: "sent_turn Q code w w1 \<Longrightarrow> code \<noteq> MCL_OK \<Longrightarrow> uploaded contents processor w es w1 es"
  by (auto simp: sent_turn_def intro: nothing_sent refused)

lemma exchange_loop_store:
  fixes w :: "'z net_world_scheme"
  assumes "store_ok st" and "store_ready st" and "random_fails w" and "length (items st) < f"
  shows "\<exists>code st' w'. run_state (exchange_loop f contents processor c (StoreUpload st) full) w =
       (Some (code, StoreUpload st'), w') \<and> subseq (map entry (items st')) (map entry (items st)) \<and>
     (code = MCL_OK \<longrightarrow> items st' = []) \<and> (code \<noteq> MCL_OK \<longrightarrow> all_ready (items st')) \<and>
     (c \<noteq> MCL_OK \<longrightarrow> code = c \<and> map entry (items st') = map entry (items st)) \<and>
     (none_processed (items st) \<longrightarrow> uploaded contents processor w (map entry (items st)) w' (map entry (items st')))"
  using assms
proof (induction f arbitrary: st w c full)
  case (Suc f)
  obtain code st1 w1 where once: "run_state (if c = MCL_OK then exchange_once contents processor (StoreUpload st)
        else State_Monad.return (Some (c, StoreUpload st))) w = (Some (code, StoreUpload st1), w1)"
      "list_all2 same (items st) (items st1)" "store_ok st1" "random_fails w1"
      "code = MCL_OK \<longrightarrow> (\<exists>d \<in> set (items st1). processed d)" "c \<noteq> MCL_OK \<longrightarrow> code = c"
      "none_processed (items st) \<longrightarrow> (\<exists>v :: 'z net_world_scheme. sent_turn
        (request_with contents processor v (map si_item (filter processed (items st1)))) code w w1)"
  proof (cases "c = MCL_OK")
    case True
    then show ?thesis using exchange_once_store [OF Suc.prems(1-3), of contents processor] that by auto
  qed (use Suc.prems that in \<open>auto simp: sent_turn_def\<close>)
  obtain code' st2 full' where scan: "scan_store_after_exchange st1 full code = Some (code', st2, full')"
      "store_ok st2"
      "map entry (items st2) = map entry (if code = MCL_OK then filter (\<lambda>d. \<not> processed d) (items st1) else items st1)"
      "code \<noteq> MCL_OK \<longrightarrow> code' = code" "code' \<noteq> MCL_OK \<longrightarrow> all_ready (items st2)"
      "code' = MCL_OK \<longrightarrow> code = MCL_OK \<and> (full' \<longrightarrow> items st2 = [])"
      "code' = MCL_OK \<and> \<not> full' \<longrightarrow> items st2 = map put_back (filter (\<lambda>d. \<not> processed d) (items st1))"
    using scan_run [OF once(3), of full code] by blast
  have entries: "map entry (items st1) = map entry (items st)" using once(2) by (rule same_entries)
  have turn: "uploaded contents processor w (map entry (items st)) w' es'"
    if none: "none_processed (items st)" and rest: "uploaded contents processor w1 (map entry (items st2)) w' es'"
      and "code = MCL_OK \<or> w' = w1 \<and> es' = map entry (items st2)" for w' es'
  proof -
    obtain v :: "'z net_world_scheme" where v: "sent_turn
        (request_with contents processor v (map si_item (filter processed (items st1)))) code w w1"
      using once(7) none by blast
    show ?thesis
    proof (cases "code = MCL_OK")
      case True
      then show ?thesis
        using turn_uploaded [of contents processor v "items st1" w w1 w' es'] v once(5) rest scan(3) entries by simp
    next
      case False
      then show ?thesis using turn_refused [OF v False] that(3) scan(3) entries by simp
    qed
  qed
  have sub: "subseq (map entry (items st2)) (map entry (items st))"
    unfolding scan(3) entries [symmetric] by (auto intro: filter_entries)
  show ?case
  proof (cases "\<not> full' \<and> code' = MCL_OK")
    case True
    then have ok: "code = MCL_OK" using scan(6) by blast
    have "length (map entry (items st2)) < length (map entry (items st1))"
      unfolding scan(3) using ok once(5) processed_shrinks by auto
    then have "length (items st2) < f" using entries Suc.prems(4) by (metis length_map less_Suc_eq less_trans not_less_eq)
    moreover have "store_ready st2"
      using entries_ready [OF sub] Suc.prems(2) by (simp add: store_ready_def)
    ultimately obtain code3 st3 w3 where rest: "run_state (exchange_loop f contents processor MCL_OK (StoreUpload st2) full') w1 =
        (Some (code3, StoreUpload st3), w3)" "subseq (map entry (items st3)) (map entry (items st2))"
        "code3 = MCL_OK \<longrightarrow> items st3 = []" "code3 \<noteq> MCL_OK \<longrightarrow> all_ready (items st3)"
        "none_processed (items st2) \<longrightarrow> uploaded contents processor w1 (map entry (items st2)) w3 (map entry (items st3))"
      using Suc.IH [of st2 w1 MCL_OK full'] scan(2) once(4) by blast
    have "none_processed (items st2)"
      using scan(7) True by (auto simp: none_processed_def put_back_def processed_def)
    then have "none_processed (items st) \<longrightarrow>
        uploaded contents processor w (map entry (items st)) w3 (map entry (items st3))"
      using turn [of w3] rest(5) ok by blast
    moreover have "run_state (exchange_loop (Suc f) contents processor c (StoreUpload st) full) w =
        (Some (code3, StoreUpload st3), w3)"
      using once(1) scan(1) True rest(1) by (simp add: run_bind)
    moreover have "c = MCL_OK" using once(6) ok by blast
    ultimately show ?thesis
      using rest(3,4) subseq_order.trans [OF rest(2) sub] by blast
  next
    case False
    then have "run_state (exchange_loop (Suc f) contents processor c (StoreUpload st) full) w =
        (Some (code', StoreUpload st2), w1)"
      using once(1) scan(1) by (auto simp: run_bind)
    moreover have "c \<noteq> MCL_OK \<longrightarrow> code' = c \<and> map entry (items st2) = map entry (items st)"
      using once(6) scan(3,4) entries by auto
    moreover have "none_processed (items st) \<longrightarrow>
        uploaded contents processor w (map entry (items st)) w1 (map entry (items st2))"
      using turn [of w1] nothing_sent [of w1 w1] by auto
    ultimately show ?thesis using sub scan(5,6) False by blast
  qed
qed simp


section \<open>The size check\<close>

lemma sweep_in_world:
  assumes "\<And>d x. mem_only (b d x)"
    and "\<And>d x w e y w'. run_state (b d x) w = ((e, y), w') \<Longrightarrow> \<exists>d'. e = Some d' \<and> same_unprocessed d d'"
    and "random_fails w"
  shows "list_all2 same_unprocessed ds (fst (sweep (in_world b) ds (w, x))) \<and>
     random_fails (fst (snd (sweep (in_world b) ds (w, x)))) \<and>
     same_network w (fst (snd (sweep (in_world b) ds (w, x))))"
  using assms(3)
proof (induction ds arbitrary: w x)
  case (Cons d ds)
  obtain e y w' where run: "run_state (b d x) w = ((e, y), w')" by (metis prod.exhaust)
  then obtain d' where d': "e = Some d'" "same_unprocessed d d'" using assms(2) by blast
  have "random_fails w'" using random_fails_frame [OF assms(1) run Cons.prems] .
  from Cons.IH [OF this, of y] run d' same_network_trans [OF same_network_frame [OF assms(1) run]] show ?case
    by (auto simp: in_world_def split: prod.split)
qed simp

lemma check_run:
  assumes "store_ok st" and "random_fails w"
  shows "\<exists>code st' w'. run_state (check_store_size st n) w = (Some (code, st'), w') \<and>
     list_all2 same_unprocessed (items st) (items st') \<and> store_ok st' \<and> random_fails w' \<and> same_network w w'"
proof (cases "clist_count (st_item_list st) = 0")
  case True
  moreover have "list_all2 same_unprocessed ds ds" for ds
    by (simp add: list_all2_refl same_unprocessed_def)
  ultimately show ?thesis using assms by (simp add: check_store_size_def)
next
  case False
  let ?b = "in_world (check_item_size n)" and ?l = "st_item_list st"
  have one: "\<exists>d'. e = Some d' \<and> same_unprocessed d d'"
    if run: "run_state (check_item_size n d x) w = ((e, y), w')" for d x w e y w'
  proof -
    obtain m w1 where "run_state (get_item_size (si_item d)) w = (m, w1)" by fastforce
    then have "e = Some (d\<lparr>si_item_size := m\<rparr>) \<or>
        e = Some (d\<lparr>si_item_size := m, si_status := STORE_ITEM_STATUS_IGNORED\<rparr>)"
      using run by (auto simp: check_item_size_def Let_def split: if_splits)
    moreover have "same_unprocessed d (d\<lparr>si_item_size := m\<rparr>)"
        "same_unprocessed d (d\<lparr>si_item_size := m, si_status := STORE_ITEM_STATUS_IGNORED\<rparr>)"
      by (simp_all add: same_unprocessed_def same_def processed_def)
    ultimately show ?thesis by blast
  qed
  have "mem_only (check_item_size n d x)" for d x
    unfolding check_item_size_def by (intro frame)
  then have sweep: "list_all2 same_unprocessed (items st) (fst (sweep ?b (items st) (w, True)))"
      "random_fails (fst (snd (sweep ?b (items st) (w, True))))"
      "same_network w (fst (snd (sweep ?b (items st) (w, True))))"
    using sweep_in_world [of "check_item_size n" w "items st" True] one assms(2) by blast+
  obtain l' where loop: "while_next clist_ops (Suc (clist_count ?l)) ?b (clist_reset ?l) (w, True) =
      Some (l', snd (sweep ?b (items st) (w, True)))" "cl_items l' = fst (sweep ?b (items st) (w, True))"
      "cl_cur l' = 0"
    using while_clist [of ?l ?b "(w, True)"] assms(1) by (auto simp: store_ok_def)
  obtain w' flag where out: "snd (sweep ?b (items st) (w, True)) = (w', flag)" by fastforce
  have "run_state (check_store_size st n) w =
      (Some (if flag then MCL_ITEM_EXCEEDS_MAX_HTTP_REQUEST_SIZE else MCL_OK, st\<lparr>st_item_list := l'\<rparr>), w')"
    using False loop(1) out by (simp add: check_store_size_def Let_def del: while_next.simps)
  with sweep loop out show ?thesis by (simp add: store_ok_def)
qed

section \<open>Properties\<close>

lemma exchange_store_run:
  assumes "store_ok st" and "store_ready st" and "random_fails w" and "length (items st) < fuel"
  shows "\<exists>code st' w'. run_state (connectivity_processor_exchange fuel contents processor (StoreUpload st)) w =
       (Some (code, StoreUpload st'), w') \<and> subseq (map entry (items st')) (map entry (items st)) \<and>
     (code = MCL_OK \<longrightarrow> items st' = []) \<and> (code \<noteq> MCL_OK \<longrightarrow> all_ready (items st')) \<and>
     (none_processed (items st) \<longrightarrow> uploaded contents processor w (map entry (items st)) w' (map entry (items st')))"
proof -
  let ?max = "cp_max_http_payload_size processor"
  obtain c st1 w1 where check: "run_state (check_store_size st ?max) w = (Some (c, st1), w1)"
      "list_all2 same_unprocessed (items st) (items st1)" "store_ok st1" "random_fails w1" "same_network w w1"
    using check_run [OF assms(1,3)] by blast
  note check2 = unprocessed_same [OF check(2)]
  have "store_ready st1" using same_ready [OF check2] assms(2) by (simp add: store_ready_def)
  moreover have "length (items st1) < fuel" using check2 assms(4) by (simp add: list_all2_lengthD)
  ultimately obtain code st' w' where "run_state (exchange_loop fuel contents processor c (StoreUpload st1) False) w1 =
       (Some (code, StoreUpload st'), w')" "subseq (map entry (items st')) (map entry (items st1))"
       "code = MCL_OK \<longrightarrow> items st' = []" "code \<noteq> MCL_OK \<longrightarrow> all_ready (items st')"
       "none_processed (items st1) \<longrightarrow> uploaded contents processor w1 (map entry (items st1)) w' (map entry (items st'))"
    using exchange_loop_store [OF check(3) _ check(4), of fuel contents processor c False] by blast
  with check(1) same_entries [OF check2] unprocessed_none [OF check(2)] uploaded_after [OF check(5)] show ?thesis
    by (simp add: connectivity_processor_exchange_def)
qed

text \<open>C19. The upload of a store returns, whatever the environment does: as every turn that goes on
  has removed an item, one turn more than the store has items is enough. Each turn stays inside
  the buffers it allocates. (The custom data of the store must bring the buffers their sizes
  promise, and the random generator must report its failures.)\<close>

theorem store_exchange_returns:
  assumes "store_ok st" and "store_ready st" and "random_fails w"
  shows "\<exists>code st' w'. run_state (connectivity_processor_exchange (Suc (clist_count (st_item_list st)))
       contents processor (StoreUpload st)) w = (Some (code, StoreUpload st'), w')"
  using exchange_store_run [OF assms, of "Suc (clist_count (st_item_list st))" contents processor]
  by (auto simp: clist_count_def)

text \<open>A store with one item of each kind of trouble: a timeseries, and custom data without a type.\<close>

definition small_store :: store_t where
  "small_store = \<lparr>st_item_list = \<lparr>cl_items =
     [\<lparr>si_item = one_value ''1'', si_status = STORE_ITEM_STATUS_READY, si_id = 1, si_item_size = 0\<rparr>,
      \<lparr>si_item = CustomData \<lparr>preamble = MCL_ITEM_PREAMBLE, item_type = MCL_ITEM_TYPE_CUSTOM_DATA,
         item_version = 0, cd_content_type = None, cd_type = None, cd_version = None, cd_details = None,
         cd_buffer = Some [1, 2], cd_size = 2\<rparr>,
       si_status = STORE_ITEM_STATUS_READY, si_id = 2, si_item_size = 0\<rparr>], cl_cur = 1\<rparr>, st_last_item_id = 2\<rparr>"

definition failing_world :: net_world where
  "failing_world = \<lparr>w_alloc = [True, True, False], w_random = [Err MCL_FAIL],
     w_answers = [Err MCL_COULD_NOT_CONNECT], w_sent = []\<rparr>"

definition any_processor :: connectivity_processor_t where
  "any_processor = \<lparr>cp_agent_id = Some ''a'', cp_hostname = Some ''h'', cp_access_token = ''t'', cp_exchange_url = Some ''u'',
     cp_mapping_url = Some ''m'', cp_max_http_payload_size = 100000\<rparr>"

lemma small_store_facts:
  "store_ok small_store" "store_ready small_store" "random_fails failing_world"
  "clist_count (st_item_list small_store) = 2" "items small_store \<noteq> []"
  by (simp_all add: small_store_def store_ok_def store_ready_def item_ready_def one_value_def
      random_fails_def failing_world_def clist_count_def)

theorem store_exchange_returns_witness:
  "\<exists>code st' w'. run_state (connectivity_processor_exchange 3 (\<lambda>_. []) any_processor (StoreUpload small_store))
     failing_world = (Some (code, StoreUpload st'), w')"
  using store_exchange_returns [OF small_store_facts(1-3), of "\<lambda>_. []" any_processor]
  by (simp add: small_store_facts(4) numeral_3_eq_3)

text \<open>C3. The upload of a store loses no item and changes no item. Turn by turn (\<open>uploaded\<close>): a turn
  sends at most one request, posted to the exchange address; only when its answer was accepted, items
  are gone, and they are the items whose tuples the message of that request holds; after a refused or
  missing answer, and when nothing was sent, all items stay. So what is left is an ordered part of
  what was there, with the same items under the same identifiers. The answer \<open>MCL_OK\<close> means that
  nothing is left; with any other answer every item that is left is ready for the next attempt. (No
  item of the store is marked as processed when the upload begins, the custom data bring the buffers
  their sizes promise, and the random generator reports its failures; allocations, random bytes and
  answers are arbitrary.)\<close>

theorem store_exchange_keeps_items:
  assumes "store_ok st" and "store_ready st" and "none_processed (cl_items (st_item_list st))"
    and "random_fails w" and "clist_count (st_item_list st) < fuel"
    and "run_state (connectivity_processor_exchange fuel contents processor (StoreUpload st)) w =
           (Some (code, StoreUpload st'), w')"
  shows "uploaded contents processor w (map (\<lambda>d. (si_item d, si_id d)) (cl_items (st_item_list st)))
           w' (map (\<lambda>d. (si_item d, si_id d)) (cl_items (st_item_list st'))) \<and>
         subseq (map (\<lambda>d. (si_item d, si_id d)) (cl_items (st_item_list st')))
           (map (\<lambda>d. (si_item d, si_id d)) (cl_items (st_item_list st))) \<and>
         (if code = MCL_OK then cl_items (st_item_list st') = []
          else \<forall>d \<in> set (cl_items (st_item_list st')). si_status d = STORE_ITEM_STATUS_READY)"
  using exchange_store_run [OF assms(1,2,4), of fuel contents processor] assms(3,5,6)
  by (auto simp: clist_count_def entry_def [abs_def] all_ready_def)

text \<open>The server refuses: the request was sent and both items are still there.\<close>

definition refusing_world :: net_world where
  "refusing_world = \<lparr>w_alloc = [True, True, False], w_random = [],
     w_answers = [Err MCL_COULD_NOT_CONNECT], w_sent = []\<rparr>"

lemma refused_keeps:
  assumes "uploaded contents processor w es w' es'" and "verdict (next_answer w) \<noteq> MCL_OK"
  shows "es' = es"
  using assms by (cases rule: uploaded.cases) auto

theorem store_exchange_keeps_items_witness:
  "\<exists>code st' w'. run_state (connectivity_processor_exchange 3 (\<lambda>_. []) any_processor (StoreUpload small_store))
       refusing_world = (Some (code, StoreUpload st'), w') \<and>
     map (\<lambda>d. (si_item d, si_id d)) (cl_items (st_item_list st')) =
       map (\<lambda>d. (si_item d, si_id d)) (cl_items (st_item_list small_store)) \<and>
     (\<forall>d \<in> set (cl_items (st_item_list st')). si_status d = STORE_ITEM_STATUS_READY)"
proof -
  have fuel: "clist_count (st_item_list small_store) < 3" by (simp add: small_store_facts(4))
  have fails: "random_fails refusing_world" by (simp add: random_fails_def refusing_world_def)
  have none: "none_processed (items small_store)"
    by (simp add: none_processed_def processed_def small_store_def)
  obtain code st' w' where run: "run_state (connectivity_processor_exchange 3 (\<lambda>_. []) any_processor
      (StoreUpload small_store)) refusing_world = (Some (code, StoreUpload st'), w')"
    using exchange_store_run [OF small_store_facts(1,2) fails, of 3 "\<lambda>_. []" any_processor] fuel
    by (auto simp: clist_count_def)
  note left = store_exchange_keeps_items [OF small_store_facts(1,2) none fails fuel run]
  have "verdict (next_answer refusing_world) \<noteq> MCL_OK"
    by (simp add: verdict_def next_answer_def refusing_world_def)
  with left have "map (\<lambda>d. (si_item d, si_id d)) (items st') = map (\<lambda>d. (si_item d, si_id d)) (items small_store)"
    using refused_keeps by blast
  moreover from this have "items st' \<noteq> []" using small_store_facts(5) by auto
  ultimately show ?thesis using left run by (auto split: if_splits)
qed

end
