(* ===== verification/MclUpload.thy ===== *)
theory MclUpload
  imports MclExchangeProps
begin

text \<open>
  Uploads while nothing fails: the exact size and text of the tuple of an item, the request of a
  single item, and the complete exchange of a store.
\<close>

section \<open>Tuples\<close>

definition item_content_type :: "item \<Rightarrow> string" where
  "item_content_type item =
     (case item of File f \<Rightarrow> content_type_octet_stream
      | CustomData c \<Rightarrow> (case cd_content_type c of None \<Rightarrow> content_type_application_json | Some t \<Rightarrow> t)
      | _ \<Rightarrow> content_type_application_json)"

definition item_text :: "(file_t \<Rightarrow> string) \<Rightarrow> item \<Rightarrow> string" where
  "item_text contents item =
     (case item of File f \<Rightarrow> contents f
      | CustomData c \<Rightarrow> map (\<lambda>b. char_of (unat b)) (take (cd_size c) (the (cd_buffer c)))
      | _ \<Rightarrow> payload_text item)"

text \<open>The tuple that is uploaded for an item and the size that is reserved for it.\<close>

definition item_tuple :: "(file_t \<Rightarrow> string) \<Rightarrow> string \<Rightarrow> item \<Rightarrow> string" where
  "item_tuple contents boundary item =
     tuple_text boundary (replicate 20 CHR ''1'') (json_print (meta_json item)) (item_content_type item)
       (item_text contents item)"

definition item_reserved :: "item \<Rightarrow> nat" where
  "item_reserved item = MULTIPART_BASE_SIZE + est_meta item + est_payload item + length (item_content_type item)"

text \<open>
  An item as the library expects it: complete, timestamps of full length, a file as long as its
  recorded size, a buffer of custom data as long as its size says.
\<close>

definition regular_item :: "(file_t \<Rightarrow> string) \<Rightarrow> item \<Rightarrow> bool" where
  "regular_item contents item \<longleftrightarrow> complete_item item \<and> item_timed item \<and> item_ready item \<and>
     (case item of File f \<Rightarrow> length (contents f) = fl_size f | _ \<Rightarrow> True)"

text \<open>The escapes that are printed are made up for by members that are left out.\<close>

definition escapes_fit :: "item \<Rightarrow> bool" where
  "escapes_fit item \<longleftrightarrow> item_escapes item \<le> item_unused item"

lemma good_random: "good_world w \<Longrightarrow> random_fails w"
  by (simp add: good_world_def random_fails_def)

lemma run_get_item_size:
  assumes "regular_item contents item" and "w_alloc w = []"
  shows "run_state (get_item_size item) w = (of_nat (item_reserved item), w)"
proof -
  have "complete_item item" using assms(1) by (simp add: regular_item_def)
  from run_item_size [OF assms(2) this] this show ?thesis
    by (cases item) (auto simp: get_item_size_def multipart_get_tuple_size_def item_reserved_def
        item_content_type_def mcl_string_util_strlen_def complete_item_def add.commute add.left_commute)
qed

lemma item_tuple_length:
  assumes "regular_item contents item" and "length boundary = 20"
  shows "length (item_tuple contents boundary item) + item_unused item = item_reserved item + item_escapes item"
proof -
  have meta: "length (json_print (meta_json item)) = est_meta item + meta_escapes item"
    using printed_meta [of item] assms(1) by (simp add: regular_item_def printed_def)
  have "length (item_text contents item) + item_unused item + meta_escapes item = est_payload item + item_escapes item"
  proof (cases "has_payload_document item")
    case True
    then have "item_text contents item = payload_text item"
      by (cases item) (simp_all add: item_text_def has_payload_document_def)
    then show ?thesis using payload_length [of item] assms(1) True by (simp add: regular_item_def)
  next
    case False
    with assms(1) show ?thesis
      by (cases item) (auto simp: item_text_def has_payload_document_def regular_item_def item_ready_def
          item_unused_def est_payload_def item_escapes_def)
  qed
  with meta show ?thesis
    using length_tuple_text [OF assms(2), of "replicate 20 CHR ''1''"]
    by (simp add: item_tuple_def item_reserved_def)
qed

text \<open>What a callback hands out in one piece is delivered.\<close>

lemma callback_delivers:
  assumes "\<And>n. fst (callback ctx n) = take n payload"
    and "\<And>n m. length payload \<le> n \<Longrightarrow> fst (callback (snd (callback ctx n)) m) = []"
  shows "delivers item (Some callback) ctx payload w"
  unfolding delivers_def
proof (intro allI impI conjI)
  fix b :: "char block" and p r :: nat
  assume room: "p + r \<le> length b" and "0 < r"
  obtain s ctx' where c: "callback ctx r = (s, ctx')" by fastforce
  then have s: "s = take r payload" using assms(1) [of r] by simp
  have copied: "string_util_memcpy b p s (length s) = Some (overwrite b p s)"
  proof -
    have "p + length s \<le> length b" using room s by simp
    from memcpy_overwrite [OF this order_refl] show ?thesis by simp
  qed
  { assume "length payload < r"
    with s have all: "s = payload" by simp
    obtain ctx'' where "callback ctx' (r - length s) = ([], ctx'')"
      using assms(2) [of r "r - length s"] c \<open>length payload < r\<close> by (metis less_imp_le prod.collapse snd_conv)
    moreover have "length (overwrite b p s) = length b" using room s by (simp add: overwrite_def)
    ultimately show "run_state (add_item_payload b p r item (Some callback) ctx) w =
        (Some (MCL_OK, overwrite b p payload, p + length payload, r - length payload), w)"
      using c copied all room \<open>length payload < r\<close>
      by (simp add: add_item_payload_def callback_loop.simps [of callback ctx] callback_loop.simps [of callback ctx']
          memcpy_overwrite) }
  { assume "r < length payload"
    then show "\<exists>b' p' r'. run_state (add_item_payload b p r item (Some callback) ctx) w = (Some (MCL_FAIL, b', p', r'), w)"
      using c s copied \<open>0 < r\<close> by (simp add: add_item_payload_def callback_loop.simps [of callback ctx]) }
  { assume "r = length payload"
    then show "\<exists>code b' p'. run_state (add_item_payload b p r item (Some callback) ctx) w =
        (Some (code, b', p', 0), w) \<and> code \<in> {MCL_OK, MCL_FAIL}"
      using c s copied \<open>0 < r\<close> by (simp add: add_item_payload_def callback_loop.simps [of callback ctx]) }
qed

text \<open>An item is added exactly when its tuple fits.\<close>

lemma add_tuple_run:
  assumes "regular_item contents item" and "good_world w" and "length boundary = 20" and "p + n \<le> length b"
    and "delivers item cb ctx (item_text contents item) w" and "content_type_text ct = item_content_type item"
  shows "length (item_tuple contents boundary item) \<le> n \<Longrightarrow>
      run_state (multipart_add_tuple_with_callback b p n item boundary ct cb ctx) w =
        (Some (MCL_OK, overwrite b p (item_tuple contents boundary item),
           n - length (item_tuple contents boundary item)), w)"
    and "n < length (item_tuple contents boundary item) \<Longrightarrow>
      \<exists>b'. run_state (multipart_add_tuple_with_callback b p n item boundary ct cb ctx) w =
        (Some (MCL_FAIL, b', n), w)"
proof -
  have w: "w_alloc w = []" "w_random w = []" using assms(2) by (simp_all add: good_world_def)
  have meta: "run_state (json_from_item_meta item) w = ((MCL_OK, Some (json_print (meta_json item))), w)"
    using assms(1) w by (intro run_meta) (simp_all add: regular_item_def)
  note run = run_tuple [OF assms(3,4) run_boundary_zero [OF w] meta assms(5) refl, of ct, unfolded assms(6)]
  have len: "length (item_tuple contents boundary item) = MULTIPART_BASE_SIZE +
      length (json_print (meta_json item)) + length (item_content_type item) + length (item_text contents item)"
    by (simp add: item_tuple_def length_tuple_text assms(3))
  show "length (item_tuple contents boundary item) \<le> n \<Longrightarrow>
      run_state (multipart_add_tuple_with_callback b p n item boundary ct cb ctx) w =
        (Some (MCL_OK, overwrite b p (item_tuple contents boundary item),
           n - length (item_tuple contents boundary item)), w)"
    using run(1) unfolding len by (simp add: item_tuple_def)
  show "n < length (item_tuple contents boundary item) \<Longrightarrow>
      \<exists>b'. run_state (multipart_add_tuple_with_callback b p n item boundary ct cb ctx) w =
        (Some (MCL_FAIL, b', n), w)"
    using run(2) unfolding len by blast
qed

lemma document_item_delivers:
  "regular_item contents item \<Longrightarrow> has_payload_document item \<Longrightarrow> good_world w \<Longrightarrow>
   delivers item None ctx (item_text contents item) w"
  by (cases item) (auto intro!: document_delivers run_payload
      simp: regular_item_def good_world_def item_text_def has_payload_document_def)

lemma run_add_item:
  assumes "regular_item contents item" and "good_world w" and "length boundary = 20" and "p + n \<le> length b"
  shows "length (item_tuple contents boundary item) \<le> n \<Longrightarrow>
      run_state (add_item_to_buffer contents b p n item boundary) w =
        (Some (MCL_OK, overwrite b p (item_tuple contents boundary item),
           n - length (item_tuple contents boundary item)), w)"
    and "n < length (item_tuple contents boundary item) \<Longrightarrow>
      \<exists>b'. run_state (add_item_to_buffer contents b p n item boundary) w = (Some (MCL_FAIL, b', n), w)"
proof -
  have "(length (item_tuple contents boundary item) \<le> n \<longrightarrow>
      run_state (add_item_to_buffer contents b p n item boundary) w =
        (Some (MCL_OK, overwrite b p (item_tuple contents boundary item),
           n - length (item_tuple contents boundary item)), w)) \<and>
      (n < length (item_tuple contents boundary item) \<longrightarrow>
      (\<exists>b'. run_state (add_item_to_buffer contents b p n item boundary) w = (Some (MCL_FAIL, b', n), w)))"
  proof (cases item)
    case (File f)
    have "delivers item (Some (file_payload_callback (contents f))) 0 (item_text contents item) w"
      using File by (intro callback_delivers) (simp_all add: file_payload_callback_def item_text_def Let_def)
    from add_tuple_run [OF assms this, of "Some content_type_octet_stream"] File show ?thesis
      by (simp add: add_item_to_buffer_def content_type_text_def item_content_type_def)
  next
    case (CustomData c)
    then obtain payload where payload: "cd_buffer c = Some payload" "cd_size c \<le> length payload"
      using assms(1) by (auto simp: regular_item_def item_ready_def)
    have "delivers item (Some (custom_data_payload_callback payload (cd_size c))) 0 (item_text contents item) w"
      using CustomData payload
      by (intro callback_delivers) (auto simp: custom_data_payload_callback_def item_text_def Let_def take_map min_def
        split: if_splits)
    from add_tuple_run [OF assms this, of "cd_content_type c"] CustomData payload show ?thesis
      by (simp add: add_item_to_buffer_def add_custom_data_to_buffer_def content_type_text_def item_content_type_def)
  qed (use add_tuple_run [OF assms document_item_delivers [OF assms(1) _ assms(2)], of None "()"] in
        \<open>simp_all add: add_item_to_buffer_def multipart_add_tuple_def content_type_text_def
          item_content_type_def has_payload_document_def\<close>)
  then show "length (item_tuple contents boundary item) \<le> n \<Longrightarrow>
      run_state (add_item_to_buffer contents b p n item boundary) w =
        (Some (MCL_OK, overwrite b p (item_tuple contents boundary item),
           n - length (item_tuple contents boundary item)), w)"
    and "n < length (item_tuple contents boundary item) \<Longrightarrow>
      \<exists>b'. run_state (add_item_to_buffer contents b p n item boundary) w = (Some (MCL_FAIL, b', n), w)"
    by blast+
qed

section \<open>The request\<close>

definition upload_request ::
  "connectivity_processor_t \<Rightarrow> char block \<Rightarrow> nat \<Rightarrow> string \<Rightarrow> mcl_http_request_t" where
  "upload_request processor buffer n boundary =
     \<lparr>rq_header = [''Content-Type: multipart/mixed;boundary='' @ boundary @ '';charset=utf-8'',
        ''Accept: application/json'', ''Authorization: Bearer '' @ cp_access_token processor,
        ''Correlation-ID: '' @ replicate 32 CHR ''0''],
      rq_payload = Some buffer, rq_payload_size = n, rq_method = MCL_HTTP_POST,
      rq_uri = cp_exchange_url processor, rq_stream_callback = None, rq_stream_data = None\<rparr>"

text \<open>The server answers every request with 200.\<close>

definition accepting :: "'z net_world_scheme \<Rightarrow> bool" where
  "accepting w \<longleftrightarrow> (\<forall>r \<in> set (w_answers w). \<exists>a. r = Ok a \<and> rs_status_code a = MCL_HTTP_STATUS_CODE_SUCCESS)"

lemma accepting_sent: "accepting w \<Longrightarrow> accepting (sent rq w)"
  by (cases "w_answers w") (auto simp: accepting_def sent_def)

lemma run_content_type_header:
  assumes "w_alloc w = []"
  shows "run_state (add_multipart_mixed_content_type_header (Some rq) boundary) w =
    ((MCL_OK, Some (rq\<lparr>rq_header := rq_header rq @ [''Content-Type: multipart/mixed;boundary='' @ boundary @ '';charset=utf-8'']\<rparr>)), w)"
  using assms
  by (simp add: add_multipart_mixed_content_type_header_def content_type_multipart_mixed_def snprintf_text_fits
      run_add_header)

lemma concat_pairs: "concat (replicate n [c, c]) = replicate (2 * n) c"
  by (induction n) simp_all

lemma run_correlation_header:
  assumes "good_world w"
  shows "run_state (add_correlation_id (Some rq)) w =
    (Some (MCL_OK, Some (rq\<lparr>rq_header := rq_header rq @ [''Correlation-ID: '' @ replicate 32 CHR ''0'']\<rparr>)), w)"
proof -
  have w: "w_alloc w = []" "w_random w = []" using assms by (simp_all add: good_world_def)
  have bytes: "run_state (mcl_random_generate_bytes 16) w = (Ok (replicate 16 0), w)" using w by simp
  then obtain b where b: "run_state generate_correlation_id_string w = (Some (MCL_OK, b), w)"
      "block_string b = Some (correlation_text (replicate 16 0))"
    using run_correlation_id [of w] by auto
  moreover have "correlation_text (replicate 16 0) = replicate 32 CHR ''0''"
    using concat_pairs [of 16 "CHR ''0''"] by (simp add: correlation_text_def hex2_def hex_digit_def)
  ultimately show ?thesis using w by (simp add: add_correlation_id_def run_add_header)
qed

lemma run_exchange_send:
  assumes "good_world w" and "accepting w" and "cp_exchange_url processor \<noteq> None"
  shows "run_state (exchange_send processor buffer n boundary) w =
    (Some MCL_OK, sent (upload_request processor buffer n boundary) w)"
proof -
  have w: "w_alloc w = []" using assms(1) by (simp add: good_world_def)
  obtain url where url: "cp_exchange_url processor = Some url" using assms(3) by blast
  define rq0 where "rq0 = (upload_request processor buffer n boundary)
    \<lparr>rq_header := butlast (rq_header (upload_request processor buffer n boundary))\<rparr>"
  have request: "run_state (exchange_request processor buffer n boundary) w = ((MCL_OK, Some rq0), w)"
    using w url by (simp add: exchange_request_def mcl_http_request_initialize_def run_set_parameter
        add_http_headers_for_exchange_def run_content_type_header run_add_header add_authorization_header_def
        rq0_def upload_request_def content_type_application_json_def)
  have complete: "rq0\<lparr>rq_header := rq_header rq0 @ [''Correlation-ID: '' @ replicate 32 CHR ''0'']\<rparr> =
      upload_request processor buffer n boundary"
    by (simp add: rq0_def upload_request_def)
  note correlated = run_correlation_header [OF assms(1), of rq0, unfolded complete]
  have "\<exists>a. run_state (mcl_http_client_send rq) w = (Ok a, sent rq w) \<and> rs_status_code a = MCL_HTTP_STATUS_CODE_SUCCESS"
    for rq
  proof (cases "w_answers w")
    case Nil
    then show ?thesis
      by (intro exI [of _ http_success]) (simp add: mcl_http_client_send_def Let_def sent_def http_success_def)
  next
    case (Cons r rs)
    then obtain a where "r = Ok a" "rs_status_code a = MCL_HTTP_STATUS_CODE_SUCCESS"
      using assms(2) by (auto simp: accepting_def)
    with Cons show ?thesis by (simp add: mcl_http_client_send_def Let_def sent_def)
  qed
  then obtain a where "run_state (mcl_http_client_send (upload_request processor buffer n boundary)) w =
      (Ok a, sent (upload_request processor buffer n boundary) w)" "rs_status_code a = MCL_HTTP_STATUS_CODE_SUCCESS"
    by blast
  with request correlated show ?thesis
    by (simp add: exchange_send_def send_request_def evaluate_response_for_exchange_def)
qed

section \<open>One item\<close>

definition close_text :: "string \<Rightarrow> string" where
  "close_text boundary = ''--'' @ boundary @ ''--''"

lemma run_close:
  assumes "length boundary = 20" and "offset + n \<le> length b"
  shows "24 \<le> n \<Longrightarrow> multipart_close b offset n boundary = Some (MCL_OK, overwrite b offset (close_text boundary), n - 24)"
    and "n < 24 \<Longrightarrow> multipart_close b offset n boundary = Some (MCL_FAIL, b, n)"
  using assms
  by (simp_all add: multipart_close_def MULTIPART_CLOSE_LENGTH_def memcpy_overwrite cstr_def close_text_def
      overwrite_append boundary_sign_def)

text \<open>The boundary of a world whose random bytes are zero.\<close>

abbreviation zero_boundary :: string where "zero_boundary \<equiv> replicate 20 CHR ''1''"

lemma unat_word: "n < 2 ^ 64 \<Longrightarrow> unat (of_nat n :: mcl_size_t) = n"
  by (simp add: unsigned_of_nat take_bit_nat_eq_self)

lemma overhead_size: "multipart_get_overhead_size = 24"
  by (simp add: multipart_get_overhead_size_def MULTIPART_CLOSE_LENGTH_def)

text \<open>The message of one item, in the block that was allocated for it.\<close>

definition item_message :: "(file_t \<Rightarrow> string) \<Rightarrow> item \<Rightarrow> string" where
  "item_message contents item = item_tuple contents zero_boundary item @ close_text zero_boundary"

definition message_block :: "string \<Rightarrow> nat \<Rightarrow> char block" where
  "message_block s n = map Some s @ replicate (n - length s) None"

lemma length_fresh [simp]: "length (fresh_block n) = n"
  by (simp add: fresh_block_def)

lemma overwrite_fresh: "length s \<le> n \<Longrightarrow> overwrite (fresh_block n) 0 s = message_block s n"
  by (simp add: overwrite_def fresh_block_def message_block_def)

lemma length_close_text [simp]: "length (close_text boundary) = length boundary + 4"
  by (simp add: close_text_def)

lemma run_item_body:
  assumes "regular_item contents item" and "good_world w" and "item_reserved item + 24 < 2 ^ 64"
  defines "full \<equiv> item_reserved item + 24"
  shows "run_state (prepare_body_for_item contents item max_size zero_boundary) w =
    (Some (if unat max_size < full then (MCL_ITEM_EXCEEDS_MAX_HTTP_REQUEST_SIZE, item, None)
           else if escapes_fit item
           then (MCL_OK, item, Some (message_block (item_message contents item) full, length (item_message contents item)))
           else (MCL_FAIL, item, None)), w)"
proof -
  have w: "w_alloc w = []" using assms(2) by (simp add: good_world_def)
  let ?tuple = "item_tuple contents zero_boundary item"
  have len: "length ?tuple + item_unused item = item_reserved item + item_escapes item"
    using item_tuple_length [OF assms(1), of zero_boundary] by simp
  have word: "of_nat (item_reserved item) + multipart_get_overhead_size = (of_nat full :: mcl_size_t)"
    by (simp add: overhead_size full_def)
  have unat: "unat (of_nat full :: mcl_size_t) = full"
    unfolding full_def by (rule unat_word) (use assms(3) in simp)
  have exceeds: "max_size < of_nat full \<longleftrightarrow> unat max_size < full"
    by (simp add: word_less_nat_alt unat)
  show ?thesis
  proof (cases "unat max_size < full")
    case True
    then show ?thesis
      using run_get_item_size [OF assms(1) w] word exceeds by (simp add: prepare_body_for_item_def)
  next
    case False
    have prepare: "run_state (prepare_body_for_item contents item max_size zero_boundary) w =
        run_state (do { r \<leftarrow> add_item_to_buffer contents (fresh_block full) 0 full item zero_boundary;
          State_Monad.return (case r of None \<Rightarrow> None
           | Some (code, buffer, remaining_size) \<Rightarrow>
               if code \<noteq> MCL_OK then Some (code, item, None)
               else (case multipart_close buffer (full - remaining_size) remaining_size zero_boundary of
                   None \<Rightarrow> None
                 | Some (code, buffer, remaining_size) \<Rightarrow>
                     Some (code, item, if code = MCL_OK then Some (buffer, full - remaining_size) else None))) }) w"
      using run_get_item_size [OF assms(1) w] w word exceeds False unat
      by (simp add: prepare_body_for_item_def Let_def)
    note add = run_add_item [OF assms(1,2), of zero_boundary 0 full "fresh_block full", simplified]
    show ?thesis
    proof (cases "length ?tuple \<le> full")
      case fits: True
      note close = run_close [of zero_boundary "length ?tuple" "full - length ?tuple" "overwrite (fresh_block full) 0 ?tuple"]
      have block: "length (overwrite (fresh_block full) 0 ?tuple) = full"
        using fits by (simp add: fresh_block_def)
      show ?thesis
      proof (cases "escapes_fit item")
        case True
        then have room: "24 \<le> full - length ?tuple" using len by (simp add: escapes_fit_def full_def)
        have "overwrite (overwrite (fresh_block full) 0 ?tuple) (length ?tuple) (close_text zero_boundary) =
            message_block (item_message contents item) full"
          using room fits overwrite_fresh [of "?tuple @ close_text zero_boundary" full]
          by (subst overwrite_append) (simp_all add: item_message_def)
        moreover have "length (item_message contents item) = length ?tuple + 24"
          by (simp add: item_message_def)
        ultimately show ?thesis
          using prepare add fits close block room True False by (simp add: run_bind)
      next
        case no: False
        then have "full - length ?tuple < 24" using len by (simp add: escapes_fit_def full_def)
        with no show ?thesis
          using prepare add fits close block False by (simp add: run_bind)
      qed
    next
      case long: False
      then have "\<not> escapes_fit item" using len by (simp add: escapes_fit_def full_def)
      moreover obtain b where "run_state (add_item_to_buffer contents (fresh_block full) 0 full item zero_boundary) w =
          (Some (MCL_FAIL, b, full), w)" using add long by (auto simp: fresh_block_def)
      ultimately show ?thesis using prepare False by (simp add: run_bind)
    qed
  qed
qed

lemma item_exchange_run:
  assumes "regular_item contents item" and "item_preamble item = MCL_ITEM_PREAMBLE"
    and "item_validate item = Some MCL_OK" and "good_world w" and "accepting w"
    and "reserved = item_reserved item + 24" and "reserved < 2 ^ 64" and "message = item_message contents item"
    and "cp_exchange_url processor \<noteq> None"
  shows "run_state (connectivity_processor_exchange (Suc fuel) contents processor (ItemUpload item)) w =
    (if unat (cp_max_http_payload_size processor) < reserved
     then (Some (MCL_ITEM_EXCEEDS_MAX_HTTP_REQUEST_SIZE, ItemUpload item), w)
     else if item_escapes item \<le> item_unused item
     then (Some (MCL_OK, ItemUpload item),
           sent (upload_request processor (message_block message reserved) (length message) zero_boundary) w)
     else (Some (MCL_FAIL, ItemUpload item), w))"
proof -
  have boundary: "run_state multipart_generate_boundary w = ((MCL_OK, Some zero_boundary), w)"
    using assms(4) by (simp add: good_world_def run_boundary_zero)
  have body: "run_state (prepare_body contents (ItemUpload item) (cp_max_http_payload_size processor) zero_boundary) w =
    (Some (if unat (cp_max_http_payload_size processor) < reserved
           then (MCL_ITEM_EXCEEDS_MAX_HTTP_REQUEST_SIZE, ItemUpload item, None)
           else if item_escapes item \<le> item_unused item
           then (MCL_OK, ItemUpload item, Some (message_block message reserved, length message))
           else (MCL_FAIL, ItemUpload item, None)), w)"
    using run_item_body [OF assms(1,4), of "cp_max_http_payload_size processor"] assms(6-8)
    by (simp add: prepare_body_def escapes_fit_def)
  show ?thesis
    using assms(2,3) boundary body run_exchange_send [OF assms(4,5,9)]
    by (simp add: connectivity_processor_exchange_def exchange_once_def)
qed

text \<open>C20. The upload of one item to the exchange address while nothing fails and the server accepts: the item is rejected
  before anything is sent exactly when its reserved size and the closing boundary exceed the
  limit. Otherwise one request is sent, with the multipart message of the item as its body, the
  boundary and the access token in its headers. But an item with strings that need more escapes
  than its omitted members leave room for does not fit into the buffer reserved for it: it can
  never be uploaded, the answer is \<open>MCL_FAIL\<close> and nothing is sent.\<close>

theorem item_exchange_exact:
  assumes "regular_item contents item" and "item_preamble item = MCL_ITEM_PREAMBLE"
    and "item_validate item = Some MCL_OK" and "good_world w" and "accepting w"
    and "reserved = item_reserved item + 24" and "reserved < 2 ^ 64" and "message = item_message contents item"
    and "cp_exchange_url processor \<noteq> None"
  shows "run_state (connectivity_processor_exchange (Suc fuel) contents processor (ItemUpload item)) w =
    (if unat (cp_max_http_payload_size processor) < reserved
     then (Some (MCL_ITEM_EXCEEDS_MAX_HTTP_REQUEST_SIZE, ItemUpload item), w)
     else if item_escapes item \<le> item_unused item
     then (Some (MCL_OK, ItemUpload item),
           sent (upload_request processor (message_block message reserved) (length message) zero_boundary) w)
     else (Some (MCL_FAIL, ItemUpload item), w))"
  using assms by (rule item_exchange_run)

definition plain_processor :: connectivity_processor_t where
  "plain_processor = \<lparr>cp_agent_id = Some ''a'', cp_hostname = Some ''h'', cp_access_token = ''t'', cp_exchange_url = Some ''u'',
     cp_mapping_url = Some ''m'', cp_max_http_payload_size = 100000\<rparr>"

definition quiet_world :: net_world where
  "quiet_world = \<lparr>w_alloc = [], w_random = [], w_answers = [], w_sent = []\<rparr>"

lemma quiet_world_facts [simp]: "good_world quiet_world" "accepting quiet_world"
  by (simp_all add: quiet_world_def good_world_def accepting_def)

lemma one_value_regular:
  "regular_item contents (one_value v)" "item_preamble (one_value v) = MCL_ITEM_PREAMBLE"
  using one_value_facts [of v]
  by (simp_all add: regular_item_def item_ready_def item_preamble_def) (simp_all add: one_value_def)

lemma one_value_valid: "item_validate (one_value v) = Some MCL_OK"
proof -
  have "mcl_time_util_validate_timestamp ''2019-12-31T10:10:10.999Z'' = Some True" by code_simp
  then show ?thesis
    by (simp add: item_validate_def one_value_def timeseries_validate_def timeseries_value_list_validate_def
        timeseries_value_validate_def timestamp_valid_def)
qed

lemma one_value_reserved:
  \<open>item_reserved (one_value ''1'') < 1000\<close> \<open>item_reserved (one_value ''2"'') < 1000\<close>
  by code_simp+

theorem item_exchange_exact_witness:
  \<open>\<exists>rq. run_state (connectivity_processor_exchange (Suc 0) (\<lambda>_. []) plain_processor
         (ItemUpload (one_value ''1''))) quiet_world =
       (Some (MCL_OK, ItemUpload (one_value ''1'')), sent rq quiet_world) \<and>
     run_state (connectivity_processor_exchange (Suc 0) (\<lambda>_. []) plain_processor
         (ItemUpload (one_value ''2"''))) quiet_world =
       (Some (MCL_FAIL, ItemUpload (one_value ''2"'')), quiet_world)\<close>
proof -
  have plain_url: "cp_exchange_url plain_processor \<noteq> None" by (simp add: plain_processor_def)
  have limit: "unat (cp_max_http_payload_size plain_processor) = 100000" by (simp add: plain_processor_def)
  have escapes: \<open>item_escapes (one_value ''1'') = 0\<close> \<open>item_escapes (one_value ''2"'') = 1\<close>
    "item_unused (one_value v) = 0" for v
    using one_value_facts [of "''1''"] one_value_facts [of \<open>''2"''\<close>] one_value_facts [of v]
    by (simp_all add: extra_def print_string_def escape_char_def)
  note exact = item_exchange_exact [OF one_value_regular(1) one_value_regular(2) one_value_valid
      quiet_world_facts refl _ refl plain_url, of _ 0 "\<lambda>_. []", unfolded limit]
  show ?thesis
    using exact [of "''1''"] exact [of \<open>''2"''\<close>] one_value_reserved escapes by auto
qed

end
