(* ===== verification/MclStoreUpload.thy ===== *)
theory MclStoreUpload
  imports MclUpload
begin

text \<open>
  The exchange of a whole store while nothing fails: every item that fits into a request is
  uploaded, in as many requests as it takes, and exactly the items that do not are left.
\<close>

section \<open>Sizes\<close>

definition reserved :: "store_item_t \<Rightarrow> nat" where "reserved d = item_reserved (si_item d)"

definition fits_request :: "mcl_size_t \<Rightarrow> store_item_t \<Rightarrow> bool" where
  "fits_request m d \<longleftrightarrow> reserved d + 24 \<le> unat m"

definition uploadable :: "(file_t \<Rightarrow> string) \<Rightarrow> store_item_t \<Rightarrow> bool" where
  "uploadable contents d \<longleftrightarrow> regular_item contents (si_item d) \<and> escapes_fit (si_item d) \<and> reserved d + 24 < 2 ^ 64"

text \<open>The store after the size check, and between two requests.\<close>

definition sized :: "(file_t \<Rightarrow> string) \<Rightarrow> mcl_size_t \<Rightarrow> store_item_t list \<Rightarrow> bool" where
  "sized contents m ds \<longleftrightarrow> (\<forall>d \<in> set ds. uploadable contents d \<and> si_item_size d = of_nat (reserved d) \<and>
     si_status d = (if fits_request m d then STORE_ITEM_STATUS_READY else STORE_ITEM_STATUS_IGNORED))"

definition mark :: "mcl_size_t \<Rightarrow> store_item_t \<Rightarrow> store_item_t" where
  "mark m d = d\<lparr>si_item_size := of_nat (reserved d),
     si_status := if fits_request m d then STORE_ITEM_STATUS_READY else STORE_ITEM_STATUS_IGNORED\<rparr>"

lemma mark_keeps [simp]: "si_item (mark m d) = si_item d" "entry (mark m d) = entry d"
  "fits_request k (mark m d) = fits_request k d" "reserved (mark m d) = reserved d"
  "uploadable contents (mark m d) = uploadable contents d"
  by (simp_all add: mark_def entry_def fits_request_def reserved_def uploadable_def)

lemma check_sweep:
  assumes "\<forall>d \<in> set ds. uploadable contents d \<and> si_status d = STORE_ITEM_STATUS_READY" and "good_world w"
  shows "sweep (in_world (check_item_size m)) ds (w, t) =
     (map (mark m) ds, (w, t \<and> (\<forall>d \<in> set ds. \<not> fits_request m d)))"
  using assms(1)
proof (induction ds arbitrary: t)
  case (Cons d ds)
  let ?n = "of_nat (reserved d) :: mcl_size_t"
  have d: "regular_item contents (si_item d)" "reserved d + 24 < 2 ^ 64" "si_status d = STORE_ITEM_STATUS_READY"
    using Cons.prems by (simp_all add: uploadable_def)
  have "unat (24 + ?n) = 24 + reserved d"
    using unat_word [of "24 + reserved d"] d(2) by simp
  then have big: "m < multipart_get_overhead_size + ?n \<longleftrightarrow> \<not> fits_request m d"
    by (simp add: overhead_size word_less_nat_alt fits_request_def not_le add.commute)
  have "run_state (check_item_size m d x) w = ((Some (mark m d), x \<and> \<not> fits_request m d), w)" for x
    using run_get_item_size [OF d(1), of w] assms(2) big d(3)
    by (auto simp: check_item_size_def Let_def good_world_def mark_def reserved_def)
  with Cons show ?case by (auto simp: in_world_def)
qed simp

section \<open>Selection\<close>

definition chosen :: "mcl_size_t \<Rightarrow> store_item_t \<Rightarrow> store_item_t \<Rightarrow> bool" where
  "chosen m d d' \<longleftrightarrow> (d' = d \<and> \<not> selected d) \<or> (fits_request m d \<and> d' = d\<lparr>si_status := STORE_ITEM_STATUS_SELECTED\<rparr>)"

definition selected_size :: "store_item_t list \<Rightarrow> nat" where
  "selected_size ds = sum_list (map reserved (filter selected ds))"

lemma selected_update [simp]:
  "selected (d\<lparr>si_status := STORE_ITEM_STATUS_SELECTED\<rparr>)" "reserved (d\<lparr>si_status := s\<rparr>) = reserved d"
  by (simp_all add: selected_def reserved_def)

lemma select_sweep:
  assumes "sized contents m ds" and "unat r + 24 \<le> unat m"
  shows "\<exists>ds' r'. sweep select_item ds r = (ds', r') \<and> list_all2 (chosen m) ds ds' \<and>
     unat r = unat r' + selected_size ds' \<and>
     (unat r + 24 = unat m \<and> (\<exists>d \<in> set ds. fits_request m d) \<longrightarrow> (\<exists>d \<in> set ds'. selected d))"
  using assms
proof (induction ds arbitrary: r)
  case Nil
  then show ?case by (simp add: selected_size_def)
next
  case (Cons d ds)
  let ?n = "of_nat (reserved d) :: mcl_size_t"
  have d: "reserved d < 2 ^ 64" "si_item_size d = ?n" "\<not> selected d"
    using Cons.prems(1) by (auto simp: sized_def uploadable_def selected_def split: if_splits)
  have sized: "sized contents m ds" using Cons.prems(1) by (simp add: sized_def)
  have le: "?n \<le> r \<longleftrightarrow> reserved d \<le> unat r" using d(1) by (simp add: word_le_nat_alt unat_word)
  show ?case
  proof (cases "reserved d \<le> unat r")
    case True
    then have minus: "unat (r - ?n) = unat r - reserved d"
      using le d(1) by (simp add: unat_sub unat_word)
    have smaller: "unat (r - ?n) + 24 \<le> unat m" using minus Cons.prems(2) by linarith
    obtain ds' r' where ih: "sweep select_item ds (r - ?n) = (ds', r')" "list_all2 (chosen m) ds ds'"
        "unat (r - ?n) = unat r' + selected_size ds'"
      using Cons.IH [OF sized smaller] by blast
    let ?d = "d\<lparr>si_status := STORE_ITEM_STATUS_SELECTED\<rparr>"
    have "chosen m d ?d" using True Cons.prems(2) by (simp add: fits_request_def chosen_def)
    moreover have "sweep select_item (d # ds) r = (?d # ds', r')"
      using True le d(2) ih(1) by (simp add: select_item_def)
    moreover have "unat r = unat r' + selected_size (?d # ds')"
      using ih(3) minus True by (simp add: selected_size_def)
    ultimately show ?thesis using ih(2)
      by (intro exI [of _ "?d # ds'"] exI [of _ r']) (simp del: sweep.simps)
  next
    case False
    obtain ds' r' where ih: "sweep select_item ds r = (ds', r')" "list_all2 (chosen m) ds ds'"
        "unat r = unat r' + selected_size ds'"
        "unat r + 24 = unat m \<and> (\<exists>d \<in> set ds. fits_request m d) \<longrightarrow> (\<exists>d \<in> set ds'. selected d)"
      using Cons.IH [OF sized Cons.prems(2)] by blast
    have "sweep select_item (d # ds) r = (d # ds', r')"
      using False le d(2) ih(1) by (simp add: select_item_def)
    moreover have "unat r + 24 = unat m \<Longrightarrow> \<not> fits_request m d" using False by (simp add: fits_request_def)
    moreover have "unat r = unat r' + selected_size (d # ds')" using ih(3) d(3) by (simp add: selected_size_def)
    moreover have "chosen m d d" using d(3) by (simp add: chosen_def)
    ultimately show ?thesis using ih(2,4)
      by (intro exI [of _ "d # ds'"] exI [of _ r']) (auto simp del: sweep.simps)
  qed
qed

text \<open>What is not selected is as it was; what does not fit is never selected.\<close>

lemma chosen_rest:
  assumes "list_all2 (chosen m) ds ds'"
  shows "set (filter (\<lambda>d. \<not> selected d) ds') \<subseteq> set ds \<and>
     filter (\<lambda>d. \<not> fits_request m d) (filter (\<lambda>d. \<not> selected d) ds') = filter (\<lambda>d. \<not> fits_request m d) ds \<and>
     length (filter (\<lambda>d. \<not> selected d) ds') + length (filter selected ds') = length ds"
  using assms
proof (induction rule: list_all2_induct)
  case (Cons d ds d' ds')
  then show ?case by (auto simp: chosen_def)
qed simp

section \<open>The body\<close>

definition process :: "store_item_t \<Rightarrow> store_item_t" where
  "process d = (if selected d then d\<lparr>si_status := STORE_ITEM_STATUS_PROCESSED\<rparr> else d)"

lemma process_unselected: "\<forall>d \<in> set ts. \<not> selected d \<Longrightarrow> map process ts = ts \<and> selected_size ts = 0 \<and> filter selected ts = []"
  by (induction ts) (auto simp: process_def selected_size_def)

lemma selected_size_simps [simp]:
  "selected_size (xs @ ys) = selected_size xs + selected_size ys"
  "selected d \<Longrightarrow> selected_size (d # ys) = reserved d + selected_size ys"
  by (simp_all add: selected_size_def)

lemma tuple_in_reserved:
  assumes "uploadable contents d" and "length boundary = 20"
  shows "length (item_tuple contents boundary (si_item d)) \<le> reserved d \<and>
     0 < length (item_tuple contents boundary (si_item d))"
proof -
  have "0 < MULTIPART_BASE_SIZE" by (simp add: MULTIPART_BASE_SIZE_def)
  then show ?thesis
    using item_tuple_length [of contents "si_item d" boundary] assms
      length_tuple_text [OF assms(2), of "replicate 20 CHR ''1''"]
    by (auto simp: uploadable_def escapes_fit_def reserved_def item_tuple_def)
qed

lemma fill_all:
  assumes "items st = xs @ ys" and "cl_cur (st_item_list st) = length xs" and "length ys < f"
    and "length b = n" and "r \<le> n" and "length boundary = 20" and "good_world w"
    and "\<forall>d \<in> set ys. uploadable contents d" and "selected_size ys + 24 \<le> r"
  shows "\<exists>b' r'. run_state (fill_body f contents boundary n st b r) w =
       (Some (st\<lparr>st_item_list := \<lparr>cl_items = xs @ map process ys, cl_cur = 0\<rparr>\<rparr>, b', r'), w) \<and>
     length b' = n \<and> 24 \<le> r' \<and> r' \<le> r \<and> ((\<exists>d \<in> set ys. selected d) \<longrightarrow> r' < r)"
  using assms
proof (induction f arbitrary: st xs ys b r)
  case (Suc f)
  from Suc.prems(1,2) show ?case
  proof (cases rule: get_next_selected)
    case none
    have "st_item_list st\<lparr>cl_cur := 0\<rparr> = \<lparr>cl_items = xs @ map process ys, cl_cur = 0\<rparr>"
      using Suc.prems(1) process_unselected [OF none(2)] by simp
    with none Suc.prems show ?thesis by auto
  next
    case (found ts d us)
    let ?st = "st\<lparr>st_item_list := (st_item_list st)\<lparr>cl_cur := Suc (length (xs @ ts))\<rparr>\<rparr>"
    note ts = process_unselected [OF found(3)]
    have up: "uploadable contents d" using Suc.prems(8) found(1) by simp
    let ?len = "length (item_tuple contents boundary (si_item d))"
    have len: "?len \<le> reserved d" "0 < ?len" using tuple_in_reserved [OF up Suc.prems(6)] by auto
    have room: "reserved d + selected_size us + 24 \<le> r"
      using Suc.prems(9) found(1,2) ts by simp
    define b1 where "b1 = overwrite b (n - r) (item_tuple contents boundary (si_item d))"
    have b1: "length b1 = n" using Suc.prems(4,5) len room by (simp add: b1_def)
    have add: "run_state (add_item_to_buffer contents b (n - r) r (si_item d) boundary) w =
        (Some (MCL_OK, b1, r - ?len), w)"
      unfolding b1_def
    proof (rule run_add_item(1))
      show "regular_item contents (si_item d)" using up by (simp add: uploadable_def)
    qed (use Suc.prems(4-7) len room in auto)
    define l where "l = \<lparr>cl_items = (xs @ ts @ [process d]) @ us, cl_cur = Suc (length (xs @ ts))\<rparr>"
    have "clist_update (st_item_list ?st) (d\<lparr>si_status := STORE_ITEM_STATUS_PROCESSED\<rparr>) = Some l"
      using Suc.prems(1) found(1,2) by (simp add: clist_update_def l_def process_def list_update_append)
    then have step: "run_state (fill_body (Suc f) contents boundary n st b r) w =
        run_state (fill_body f contents boundary n (st\<lparr>st_item_list := l\<rparr>) b1 (r - ?len)) w"
      using found(4) add by simp
    have "items (st\<lparr>st_item_list := l\<rparr>) = (xs @ ts @ [process d]) @ us"
        "cl_cur (st_item_list (st\<lparr>st_item_list := l\<rparr>)) = length (xs @ ts @ [process d])"
      by (simp_all add: l_def)
    moreover have "length us < f" "r - ?len \<le> n" "\<forall>d \<in> set us. uploadable contents d"
        "selected_size us + 24 \<le> r - ?len"
      using Suc.prems found(1) len room by auto
    ultimately obtain b' r' where ih: "run_state (fill_body f contents boundary n (st\<lparr>st_item_list := l\<rparr>) b1 (r - ?len)) w =
        (Some (st\<lparr>st_item_list := l\<rparr>\<lparr>st_item_list := \<lparr>cl_items = (xs @ ts @ [process d]) @ map process us, cl_cur = 0\<rparr>\<rparr>, b', r'), w)"
        "length b' = n" "24 \<le> r'" "r' \<le> r - ?len"
      using Suc.IH [of "st\<lparr>st_item_list := l\<rparr>" "xs @ ts @ [process d]" us b1 "r - ?len"] b1 Suc.prems(6,7) by metis
    have "map process ys = ts @ process d # map process us" using ts found(1) by simp
    moreover have "r' < r" using ih(4) len room by linarith
    ultimately show ?thesis using step ih by (intro exI [of _ b'] exI [of _ r']) (simp del: fill_body.simps)
  qed
qed simp

section \<open>One request\<close>

lemma chosen_uploadable:
  assumes "list_all2 (chosen m) ds ds'" and "sized contents m ds"
  shows "\<forall>d \<in> set ds'. uploadable contents d \<and> \<not> processed d \<and> (\<not> selected d \<longrightarrow> pending d = fits_request m d)"
  using assms
proof (induction rule: list_all2_induct)
  case (Cons d ds d' ds')
  have d: "uploadable contents d" "si_status d = (if fits_request m d then STORE_ITEM_STATUS_READY else STORE_ITEM_STATUS_IGNORED)"
    and ds: "sized contents m ds"
    using Cons.prems by (auto simp: sized_def)
  have "uploadable contents d' \<and> \<not> processed d' \<and> (\<not> selected d' \<longrightarrow> pending d' = fits_request m d')"
    using Cons.hyps(1) d
    by (auto simp: chosen_def uploadable_def reserved_def processed_def pending_def selected_def split: if_splits)
  with Cons.IH [OF ds] show ?case by simp
qed simp

lemma turn:
  assumes "store_ok st" and "sized contents m (items st)" and "\<exists>d \<in> set (items st). fits_request m d"
    and "good_world w" and "accepting w" and "m = cp_max_http_payload_size processor"
    and "cp_exchange_url processor \<noteq> None"
  shows "\<exists>st' ds' rq. run_state (exchange_once contents processor (StoreUpload st)) w =
       (Some (MCL_OK, StoreUpload st'), sent rq w) \<and> rq_payload_size rq \<le> unat m \<and> store_ok st' \<and>
     items st' = map process ds' \<and> list_all2 (chosen m) (items st) ds' \<and> (\<exists>d \<in> set ds'. selected d)"
proof -
  let ?r = "m - multipart_get_overhead_size"
  have w: "w_alloc w = []" "w_random w = []" using assms(4) by (simp_all add: good_world_def)
  have "24 \<le> unat m" using assms(3) by (auto simp: fits_request_def)
  then have "(24 :: mcl_size_t) \<le> m" by (simp add: word_le_nat_alt)
  then have r: "unat ?r + 24 = unat m" using \<open>24 \<le> unat m\<close> by (simp add: overhead_size unat_sub)
  obtain ds' r' where sel: "sweep select_item (items st) ?r = (ds', r')" "list_all2 (chosen m) (items st) ds'"
      "unat ?r = unat r' + selected_size ds'" "\<exists>d \<in> set ds'. selected d"
    using select_sweep [OF assms(2), of ?r] r assms(3) by auto
  define needed where "needed = m - r'"
  have "unat r' \<le> unat m" using sel(3) r by linarith
  then have needed: "unat needed = 24 + selected_size ds'"
    using sel(3) r by (simp add: needed_def unat_sub word_le_nat_alt)
  obtain l where "while_next clist_ops (Suc (clist_count (st_item_list st))) select_item (clist_reset (st_item_list st)) ?r =
      Some (l, r')" "cl_items l = ds'"
    using while_clist [of "st_item_list st" select_item ?r] assms(1) sel(1) by (auto simp: store_ok_def)
  moreover define st1 where "st1 = st\<lparr>st_item_list := clist_reset l\<rparr>"
  ultimately have select: "select_store_items_to_exchange st m = Some (st1, needed)"
      "items st1 = [] @ ds'" "cl_cur (st_item_list st1) = length []"
    by (simp_all add: select_store_items_to_exchange_def Let_def needed_def clist_reset_def del: while_next.simps)
  have up: "\<forall>d \<in> set ds'. uploadable contents d" using chosen_uploadable [OF sel(2) assms(2)] by blast
  let ?n = "unat needed"
  obtain b s where fill: "run_state (fill_body (Suc (clist_count (st_item_list st1))) contents zero_boundary ?n st1
        (fresh_block ?n) ?n) w =
       (Some (st1\<lparr>st_item_list := \<lparr>cl_items = [] @ map process ds', cl_cur = 0\<rparr>\<rparr>, b, s), w)"
      "length b = ?n" "24 \<le> s" "s < ?n"
    using fill_all [OF select(2,3), of "Suc (clist_count (st_item_list st1))" "fresh_block ?n" ?n ?n zero_boundary w contents]
      select(2) up assms(4) needed sel(4) by (auto simp: clist_count_def simp del: fill_body.simps)
  define st' where "st' = st1\<lparr>st_item_list := \<lparr>cl_items = map process ds', cl_cur = 0\<rparr>\<rparr>"
  obtain b' where close: "multipart_close b (?n - s) s zero_boundary = Some (MCL_OK, b', s - 24)"
    using run_close(1) [of zero_boundary "?n - s" s b] fill(2-4) by auto
  have "run_state (prepare_body contents (StoreUpload st) m zero_boundary) w =
      (Some (MCL_OK, StoreUpload st', Some (b', ?n - (s - 24))), w)"
    using select(1) w fill close
    by (simp add: prepare_body_def prepare_body_for_store_def Let_def run_bind st'_def del: fill_body.simps)
  then have "run_state (exchange_once contents processor (StoreUpload st)) w =
      (Some (MCL_OK, StoreUpload st'), sent (upload_request processor b' (?n - (s - 24)) zero_boundary) w)"
    using run_boundary_zero [OF w] run_exchange_send [OF assms(4,5,7)] assms(6) by (simp add: exchange_once_def)
  moreover have "rq_payload_size (upload_request processor b' (?n - (s - 24)) zero_boundary) \<le> unat m"
    using needed sel(3) r by (simp add: upload_request_def)
  ultimately show ?thesis using sel(2,4)
    by (intro exI [of _ st'] exI [of _ ds'] exI conjI) (assumption | simp add: st'_def store_ok_def)+
qed

section \<open>All requests\<close>

text \<open>The requests of an exchange, in order, none over the limit.\<close>

definition sent_within :: "mcl_size_t \<Rightarrow> 'z net_world_scheme \<Rightarrow> 'z net_world_scheme \<Rightarrow> bool" where
  "sent_within m w w' \<longleftrightarrow> (\<exists>rqs. w_sent w' = w_sent w @ rqs \<and> (\<forall>rq \<in> set rqs. rq_payload_size rq \<le> unat m))"

lemma sent_within_step:
  assumes "rq_payload_size rq \<le> unat m" and "sent_within m (sent rq w) w'"
  shows "sent_within m w w'"
proof -
  obtain rqs where "w_sent w' = w_sent w @ rq # rqs" "\<forall>q \<in> set rqs. rq_payload_size q \<le> unat m"
    using assms(2) by (auto simp: sent_within_def)
  with assms(1) show ?thesis unfolding sent_within_def by (intro exI [of _ "rq # rqs"]) simp
qed

lemma entry_revert: "map entry (map (\<lambda>d. d\<lparr>si_status := s\<rparr>) ds) = map entry ds"
  by (simp add: entry_def)

lemma process_rest:
  "\<forall>d \<in> set ds. \<not> processed d \<Longrightarrow>
   map put_back (filter (\<lambda>d. \<not> processed d) (map process ds)) = filter (\<lambda>d. \<not> selected d) ds"
  by (induction ds) (auto simp: process_def processed_def put_back_def)

lemma process_pending:
  "(\<forall>d \<in> set (map process ds). \<not> pending d) = (\<forall>d \<in> set (filter (\<lambda>d. \<not> selected d) ds). \<not> pending d)"
  by (auto simp: process_def pending_def)

lemma loop_complete:
  assumes "store_ok st" and "sized contents m (items st)" and "\<exists>d \<in> set (items st). fits_request m d"
    and "good_world w" and "accepting w" and "m = cp_max_http_payload_size processor" and "length (items st) \<le> f"
    and "cp_exchange_url processor \<noteq> None"
  shows "\<exists>st' w'. run_state (exchange_loop f contents processor MCL_OK (StoreUpload st) full) w =
       (Some (if \<exists>d \<in> set (items st). \<not> fits_request m d then MCL_ITEM_EXCEEDS_MAX_HTTP_REQUEST_SIZE else MCL_OK,
              StoreUpload st'), w') \<and>
     map entry (items st') = map entry (filter (\<lambda>d. \<not> fits_request m d) (items st)) \<and> sent_within m w w'"
  using assms
proof (induction f arbitrary: st w full)
  case 0
  then show ?case by simp
next
  case (Suc f)
  let ?big = "filter (\<lambda>d. \<not> fits_request m d)"
  obtain st1 ds' rq where once: "run_state (exchange_once contents processor (StoreUpload st)) w =
       (Some (MCL_OK, StoreUpload st1), sent rq w)" "rq_payload_size rq \<le> unat m" "store_ok st1"
     "items st1 = map process ds'" "list_all2 (chosen m) (items st) ds'" "\<exists>d \<in> set ds'. selected d"
    using turn [OF Suc.prems(1-6,8)] by blast
  let ?rest = "filter (\<lambda>d. \<not> selected d) ds'"
  have rest: "set ?rest \<subseteq> set (items st)" "?big ?rest = ?big (items st)" "length ?rest < length (items st)"
  proof -
    note parts = chosen_rest [OF once(5)]
    show "set ?rest \<subseteq> set (items st)" "?big ?rest = ?big (items st)" using parts by blast+
    have "filter selected ds' \<noteq> []" using once(6) by (simp add: filter_empty_conv)
    then have "0 < length (filter selected ds')" by simp
    then show "length ?rest < length (items st)" using parts by linarith
  qed
  have new: "\<forall>d \<in> set ds'. \<not> processed d" "\<forall>d \<in> set ?rest. pending d = fits_request m d"
    using chosen_uploadable [OF once(5) Suc.prems(2)] by auto
  obtain st2 where remove: "remove_uploaded_store_items st1 = Some (st2, \<forall>d \<in> set ?rest. \<not> fits_request m d)"
      "store_ok st2" "items st2 = ?rest"
    using remove_run [OF once(3)] once(4) process_rest [OF new(1)] process_pending [of ds'] new(2) by auto
  have sized: "sized contents m (items st2)" using Suc.prems(2) rest(1) remove(3) by (auto simp: sized_def)
  show ?case
  proof (cases "\<exists>d \<in> set ?rest. fits_request m d")
    case True
    then have flag: "(\<forall>d \<in> set ?rest. \<not> fits_request m d) = False" by blast
    have "scan_store_after_exchange st1 full MCL_OK = Some (MCL_OK, st2, False)"
      using remove(1) unfolding flag by (simp add: scan_store_after_exchange_def)
    then have "run_state (exchange_loop (Suc f) contents processor MCL_OK (StoreUpload st) full) w =
        run_state (exchange_loop f contents processor MCL_OK (StoreUpload st2) False) (sent rq w)"
      using once(1) by simp
    moreover obtain st' w' where "run_state (exchange_loop f contents processor MCL_OK (StoreUpload st2) False) (sent rq w) =
       (Some (if \<exists>d \<in> set (items st2). \<not> fits_request m d then MCL_ITEM_EXCEEDS_MAX_HTTP_REQUEST_SIZE else MCL_OK,
              StoreUpload st'), w')"
       "map entry (items st') = map entry (?big (items st2))" "sent_within m (sent rq w) w'"
      using Suc.IH [OF remove(2) sized _ _ accepting_sent [OF Suc.prems(5)] Suc.prems(6), of rq False] True remove(3)
        rest(3) Suc.prems(4,7,8) by auto
    moreover have "(\<exists>d \<in> set ?rest. \<not> fits_request m d) = (\<exists>d \<in> set (items st). \<not> fits_request m d)"
      using rest(2) by (metis filter_empty_conv)
    ultimately show ?thesis using remove(3) rest(2) sent_within_step [OF once(2)] by (auto simp del: exchange_loop.simps)
  next
    case False
    then have big: "?rest = ?big (items st)" using rest(2) by (metis filter_True)
    have sent: "sent_within m w (sent rq w)" using once(2) by (simp add: sent_within_def)
    show ?thesis
    proof (cases "?rest = []")
      case True
      then have "scan_store_after_exchange st1 full MCL_OK = Some (MCL_OK, st2, True)"
        using remove by (simp add: scan_store_after_exchange_def clist_count_def)
      with once(1) True big remove(3) sent show ?thesis by (auto simp: filter_empty_conv)
    next
      case leftover: False
      obtain st3 where "revert_store_item_status st2 = Some st3" "store_ok st3"
          "items st3 = map (\<lambda>d. d\<lparr>si_status := STORE_ITEM_STATUS_READY\<rparr>) (items st2)"
        using revert_run [OF remove(2)] by blast
      moreover from this have "scan_store_after_exchange st1 full MCL_OK =
          Some (MCL_ITEM_EXCEEDS_MAX_HTTP_REQUEST_SIZE, st3, True)"
        using remove leftover False by (simp add: scan_store_after_exchange_def clist_count_def)
      ultimately show ?thesis using once(1) leftover big remove(3) sent
        by (auto simp: filter_empty_conv entry_def o_def)
    qed
  qed
qed

section \<open>Properties\<close>

text \<open>C2. Take a store of ready items that are all uploadable: complete, with full timestamps and with the
  file or buffer their size says, and with documents that need no more than the size estimated for them
  (their escapes are made up for by members that are left out; without that an item is never uploaded,
  see \<open>item_exchange_exact\<close>). While the server accepts, the exchange address is set and neither
  memory nor the random generator fails, the exchange of the store returns, after requests of which
  none exceeds the configured limit, with exactly those items left in the store that exceed the limit
  on their own, in their order. The answer says whether there are any.\<close>

theorem store_exchange_complete:
  assumes "store_ok st" and "cl_items (st_item_list st) \<noteq> []" and "good_world w" and "accepting w"
    and "\<forall>d \<in> set (cl_items (st_item_list st)). uploadable contents d \<and> si_status d = STORE_ITEM_STATUS_READY"
    and "m = cp_max_http_payload_size processor"
    and "big = filter (\<lambda>d. unat m < item_reserved (si_item d) + 24) (cl_items (st_item_list st))"
    and "cp_exchange_url processor \<noteq> None"
  shows "\<exists>st' w'. run_state (connectivity_processor_exchange (Suc (clist_count (st_item_list st))) contents
         processor (StoreUpload st)) w =
       (Some (if big = [] then MCL_OK else MCL_ITEM_EXCEEDS_MAX_HTTP_REQUEST_SIZE, StoreUpload st'), w') \<and>
     map (\<lambda>d. (si_item d, si_id d)) (cl_items (st_item_list st')) = map (\<lambda>d. (si_item d, si_id d)) big \<and>
     (\<exists>rqs. w_sent w' = w_sent w @ rqs \<and> (\<forall>rq \<in> set rqs. rq_payload_size rq \<le> unat m))"
proof -
  let ?ds = "items st" and ?l = "st_item_list st"
  have big: "big = filter (\<lambda>d. \<not> fits_request m d) ?ds"
    unfolding assms(7) by (rule filter_cong) (auto simp: fits_request_def reserved_def)
  have entry: "map (\<lambda>d. (si_item d, si_id d)) ds = map entry ds" for ds by (simp add: entry_def)
  obtain l' where loop: "while_next clist_ops (Suc (clist_count ?l)) (in_world (check_item_size m)) (clist_reset ?l) (w, True) =
      Some (l', (w, \<forall>d \<in> set ?ds. \<not> fits_request m d))" "cl_items l' = map (mark m) ?ds" "cl_cur l' = 0"
    using while_clist [of ?l "in_world (check_item_size m)" "(w, True)"] assms(1)
      check_sweep [OF assms(5,3), of m True] by (auto simp: store_ok_def)
  define st1 where "st1 = st\<lparr>st_item_list := l'\<rparr>"
  have check: "run_state (check_store_size st m) w =
      (Some (if \<forall>d \<in> set ?ds. \<not> fits_request m d then MCL_ITEM_EXCEEDS_MAX_HTTP_REQUEST_SIZE else MCL_OK, st1), w)"
    using assms(2) loop(1) by (simp add: check_store_size_def Let_def clist_count_def st1_def del: while_next.simps)
  have st1: "store_ok st1" "items st1 = map (mark m) ?ds" "sized contents m (items st1)"
    using loop(2,3) assms(5) by (auto simp: st1_def store_ok_def sized_def) (simp_all add: mark_def reserved_def)
  have marked: "map entry (items st1) = map entry ?ds"
    "map entry (filter (\<lambda>d. \<not> fits_request m d) (items st1)) = map entry big"
    unfolding st1(2) big by (simp_all add: filter_map o_def)
  show ?thesis
  proof (cases "\<exists>d \<in> set ?ds. fits_request m d")
    case True
    then have "\<exists>d \<in> set (items st1). fits_request m d" unfolding st1(2) by simp
    from loop_complete [OF st1(1,3) this assms(3,4,6) _ assms(8), of "Suc (clist_count ?l)" False] obtain st' w' where
      "run_state (exchange_loop (Suc (clist_count ?l)) contents processor MCL_OK (StoreUpload st1) False) w =
       (Some (if \<exists>d \<in> set (items st1). \<not> fits_request m d then MCL_ITEM_EXCEEDS_MAX_HTTP_REQUEST_SIZE else MCL_OK,
              StoreUpload st'), w')" "map entry (items st') = map entry big" "sent_within m w w'"
      unfolding marked(2) by (auto simp: st1(2) clist_count_def)
    moreover have "(\<exists>d \<in> set (items st1). \<not> fits_request m d) \<longleftrightarrow> big \<noteq> []"
      unfolding st1(2) big by (auto simp: filter_empty_conv)
    ultimately show ?thesis
      using check True assms(6)
      by (auto simp: connectivity_processor_exchange_def entry sent_within_def simp del: exchange_loop.simps)
  next
    case False
    then have all: "big = ?ds" unfolding big by (simp add: filter_id_conv)
    obtain st2 where "revert_store_item_status st1 = Some st2"
        "items st2 = map (\<lambda>d. d\<lparr>si_status := STORE_ITEM_STATUS_READY\<rparr>) (items st1)"
      using revert_run [OF st1(1)] by blast
    moreover from this(2) have "map entry (items st2) = map entry big"
      using marked(1) all by (simp only: entry_revert)
    ultimately show ?thesis
      using check False assms(2,6) all
      by (simp add: connectivity_processor_exchange_def scan_store_after_exchange_def entry)
  qed
qed

text \<open>A store with two timeseries.\<close>

definition two_items :: store_t where
  "two_items = \<lparr>st_item_list = \<lparr>cl_items =
     [\<lparr>si_item = one_value ''1'', si_status = STORE_ITEM_STATUS_READY, si_id = 1, si_item_size = 0\<rparr>,
      \<lparr>si_item = one_value ''1'', si_status = STORE_ITEM_STATUS_READY, si_id = 2, si_item_size = 0\<rparr>], cl_cur = 0\<rparr>,
     st_last_item_id = 2\<rparr>"

lemma one_value_reserved_bounds: "450 < item_reserved (one_value ''1'')" "item_reserved (one_value ''1'') < 1000"
  by code_simp+

lemma one_value_escapes_fit: "escapes_fit (one_value ''1'')"
  using one_value_facts [of "''1''"] by (simp add: escapes_fit_def extra_def print_string_def escape_char_def)

lemma two_items_uploadable:
  "store_ok two_items" "\<forall>d \<in> set (items two_items). uploadable contents d \<and> si_status d = STORE_ITEM_STATUS_READY"
  using one_value_reserved_bounds(2) one_value_regular(1) [of contents "''1''"] one_value_escapes_fit
  by (simp_all add: two_items_def store_ok_def uploadable_def reserved_def)

theorem store_exchange_complete_witness:
  "(\<exists>st' w'. run_state (connectivity_processor_exchange 3 (\<lambda>_. []) plain_processor (StoreUpload two_items)) quiet_world =
       (Some (MCL_OK, StoreUpload st'), w') \<and> cl_items (st_item_list st') = []) \<and>
   (\<exists>st' w'. run_state (connectivity_processor_exchange 3 (\<lambda>_. [])
         (plain_processor\<lparr>cp_max_http_payload_size := 400\<rparr>) (StoreUpload two_items)) quiet_world =
       (Some (MCL_ITEM_EXCEEDS_MAX_HTTP_REQUEST_SIZE, StoreUpload st'), w') \<and>
     map (\<lambda>d. si_id d) (cl_items (st_item_list st')) = [1, 2])"
proof -
  let ?ds = "cl_items (st_item_list two_items)"
  have nonempty: "?ds \<noteq> []" and count: "Suc (clist_count (st_item_list two_items)) = 3"
    by (simp_all add: two_items_def clist_count_def)
  note run = store_exchange_complete [OF two_items_uploadable(1) nonempty quiet_world_facts two_items_uploadable(2),
      OF refl refl, unfolded count]
  have small: "filter (\<lambda>d. unat (100000 :: mcl_size_t) < item_reserved (si_item d) + 24) ?ds = []"
    using one_value_reserved_bounds by (simp add: two_items_def)
  have large: "filter (\<lambda>d. unat (400 :: mcl_size_t) < item_reserved (si_item d) + 24) ?ds = ?ds"
    using one_value_reserved_bounds by (simp add: two_items_def)
  have ids: "map (\<lambda>d. (si_item d, si_id d)) ?ds = [(one_value ''1'', 1), (one_value ''1'', 2)]"
    by (simp add: two_items_def)
  have plain_url: "cp_exchange_url plain_processor = Some ''u''" by (simp add: plain_processor_def)
  have limit: "cp_max_http_payload_size plain_processor = 100000" by (simp add: plain_processor_def)
  show ?thesis
  proof
    show "\<exists>st' w'. run_state (connectivity_processor_exchange 3 (\<lambda>_. []) plain_processor (StoreUpload two_items)) quiet_world =
       (Some (MCL_OK, StoreUpload st'), w') \<and> cl_items (st_item_list st') = []"
      using run [of plain_processor "\<lambda>_. []"] small by (auto simp: limit plain_url)
    show "\<exists>st' w'. run_state (connectivity_processor_exchange 3 (\<lambda>_. [])
         (plain_processor\<lparr>cp_max_http_payload_size := 400\<rparr>) (StoreUpload two_items)) quiet_world =
       (Some (MCL_ITEM_EXCEEDS_MAX_HTTP_REQUEST_SIZE, StoreUpload st'), w') \<and>
     map (\<lambda>d. si_id d) (cl_items (st_item_list st')) = [1, 2]"
      using run [of "plain_processor\<lparr>cp_max_http_payload_size := 400\<rparr>" "\<lambda>_. []"] large nonempty
      by (auto simp: ids plain_url)
  qed
qed

end
