(* ===== verification/MclMapping.thy ===== *)
theory MclMapping
  imports MclUpload MclItemParse
begin

text \<open>
  The two other requests of \<open>src/mcl_connectivity/src/connectivity_processor.c\<close>: the mapping of a
  data point is posted as a JSON document, and the data source configuration of the agent is read
  from the server. The answers come from the script of \<open>MclExchange\<close>; the parser of cJSON is an
  argument.
\<close>

section \<open>Creating a mapping\<close>

definition prepare_mapping_json :: "mapping_t \<Rightarrow> string option \<Rightarrow> ('z, mcl_error \<times> string option) io" where
  "prepare_mapping_json mapping agent_id = do {
     (code, json_object) \<leftarrow> mcl_json_util_initialize MCL_JSON_OBJECT;
     (code, json_object) \<leftarrow> when_ok code json_object
       (mcl_json_util_add_string json_object (Some ''agentId'') agent_id);
     (code, json_object) \<leftarrow> when_ok code json_object
       (mcl_json_util_add_string json_object (Some ''dataPointId'') (mp_data_point_id mapping));
     (code, json_object) \<leftarrow> when_ok code json_object
       (let entity_id = (case mp_entity_id mapping of None \<Rightarrow> agent_id | Some e \<Rightarrow> Some e)
        in mcl_json_util_add_string json_object (Some ''entityId'') entity_id);
     (code, json_object) \<leftarrow> when_ok code json_object
       (mcl_json_util_add_string json_object (Some ''propertySetName'') (mp_property_set_name mapping));
     (code, json_object) \<leftarrow> when_ok code json_object
       (mcl_json_util_add_string json_object (Some ''propertyName'') (mp_property_name mapping));
     (code, json_object) \<leftarrow> when_ok code json_object
       (mcl_json_util_add_bool json_object (Some ''keepMapping'') (mp_keep_mapping mapping));
     when_ok code None (mcl_json_util_to_string json_object)
   }"

definition evaluate_response_for_mapping :: "mcl_http_response_t \<Rightarrow> mcl_error" where
  "evaluate_response_for_mapping http_response =
     (if rs_status_code http_response = MCL_HTTP_STATUS_CODE_CREATED then MCL_OK
      else (let code = mcl_http_response_get_status (Some http_response)
            in if code = MCL_OK then MCL_UNEXPECTED_RESULT_CODE else code))"

text \<open>The body of the request is the printed document, terminated in its block.\<close>

definition mapping_request ::
  "connectivity_processor_t \<Rightarrow> string \<Rightarrow> ('z, mcl_error \<times> mcl_http_request_t option) io" where
  "mapping_request connectivity_processor json_string = do {
     (code, http_request) \<leftarrow> mcl_http_request_initialize;
     (code, http_request) \<leftarrow> when_ok code http_request
       (mcl_http_request_set_parameter http_request
          (Some (MCL_HTTP_REQUEST_PARAMETER_BODY (map Some (cstr json_string)))));
     (code, http_request) \<leftarrow> when_ok code http_request
       (let body_size = length json_string
        in mcl_http_request_set_parameter http_request (Some (MCL_HTTP_REQUEST_PARAMETER_BODY_SIZE body_size)));
     (code, http_request) \<leftarrow> when_ok code http_request
       (mcl_http_request_set_parameter http_request (Some (MCL_HTTP_REQUEST_PARAMETER_METHOD MCL_HTTP_POST)));
     when_ok code http_request
       (mcl_http_request_set_parameter http_request
          (map_option MCL_HTTP_REQUEST_PARAMETER_URL (cp_mapping_url connectivity_processor)))
   }"

text \<open>The correlation id comes before the other headers.\<close>

definition mapping_headers ::
  "connectivity_processor_t \<Rightarrow> mcl_http_request_t option \<Rightarrow> ('z, mcl_error \<times> mcl_http_request_t option) io" where
  "mapping_headers connectivity_processor http_request = do {
     (code, http_request) \<leftarrow> mcl_http_request_add_header http_request (Some ''Content-Type'')
       (Some content_type_application_json);
     (code, http_request) \<leftarrow> when_ok code http_request
       (mcl_http_request_add_header http_request (Some ''Accept'') (Some content_type_application_json));
     when_ok code http_request
       (add_authorization_header http_request (cp_access_token connectivity_processor))
   }"

definition send_mapping ::
  "connectivity_processor_t \<Rightarrow> string \<Rightarrow> ('z net_world_ext, mcl_error option) io" where
  "send_mapping connectivity_processor json_string = do {
     (code, http_request) \<leftarrow> mapping_request connectivity_processor json_string;
     r \<leftarrow> (if code = MCL_OK then add_correlation_id http_request
           else State_Monad.return (Some (code, http_request)));
     case r of
       None \<Rightarrow> State_Monad.return None
     | Some (code, http_request) \<Rightarrow> do {
         (code, http_request) \<leftarrow> when_ok code http_request
           (mapping_headers connectivity_processor http_request);
         if code \<noteq> MCL_OK then State_Monad.return (Some code)
         else send_request evaluate_response_for_mapping http_request
       }
   }"

definition connectivity_processor_create_mapping ::
  "connectivity_processor_t \<Rightarrow> mapping_t \<Rightarrow> ('z net_world_ext, mcl_error option) io" where
  "connectivity_processor_create_mapping connectivity_processor mapping = do {
     let code = mapping_validate mapping;
     (code, json_string) \<leftarrow> when_ok code None
       (prepare_mapping_json mapping (cp_agent_id connectivity_processor));
     case json_string of
       None \<Rightarrow> State_Monad.return (Some code)
     | Some s \<Rightarrow> send_mapping connectivity_processor s
   }"

section \<open>Reading the data source configuration\<close>

text \<open>
  The address is copied together in a block of the computed length. The length of a \<open>NULL\<close> string is 0,
  but a copy from \<open>NULL\<close> is undefined.
\<close>

definition data_source_configuration_url :: "string \<Rightarrow> string \<Rightarrow> char block option" where
  "data_source_configuration_url hostname agent_id = do {
     let prefix = ''/api/agentmanagement/v3/agents/'';
     let hostname_length = length hostname;
     let agent_id_length = length agent_id;
     let url_length = hostname_length + agent_id_length +
       length (cstr ''/api/agentmanagement/v3/agents//dataSourceConfiguration'');
     let url = fresh_block url_length;
     url \<leftarrow> string_util_memcpy url 0 (cstr hostname) hostname_length;
     let position = hostname_length;
     url \<leftarrow> string_util_memcpy url position (cstr prefix) (length (cstr prefix) - 1);
     let position = position + (length (cstr prefix) - 1);
     url \<leftarrow> string_util_memcpy url position (cstr agent_id) agent_id_length;
     let position = position + agent_id_length;
     string_util_memcpy url position (cstr ''/dataSourceConfiguration'') (length (cstr ''/dataSourceConfiguration''))
   }"

definition configuration_request ::
  "connectivity_processor_t \<Rightarrow> string \<Rightarrow> ('z, mcl_error \<times> mcl_http_request_t option) io" where
  "configuration_request connectivity_processor url = do {
     (code, http_request) \<leftarrow> mcl_http_request_initialize;
     (code, http_request) \<leftarrow> when_ok code http_request
       (mcl_http_request_set_parameter http_request (Some (MCL_HTTP_REQUEST_PARAMETER_URL url)));
     (code, http_request) \<leftarrow> when_ok code http_request
       (mcl_http_request_set_parameter http_request (Some (MCL_HTTP_REQUEST_PARAMETER_METHOD MCL_HTTP_GET)));
     (code, http_request) \<leftarrow> when_ok code http_request
       (add_authorization_header http_request (cp_access_token connectivity_processor));
     when_ok code http_request
       (mcl_http_request_add_header http_request (Some ''Accept'') (Some content_type_application_json))
   }"

text \<open>The parser refuses an answer without payload with \<open>MCL_TRIGGERED_WITH_NULL\<close>.\<close>

definition read_configuration ::
  "(string \<Rightarrow> json option) \<Rightarrow> mcl_http_response_t \<Rightarrow> ('z, (mcl_error \<times> data_source_configuration_t option) option) io" where
  "read_configuration cJSON_parse http_response =
     (if rs_status_code http_response = MCL_HTTP_STATUS_CODE_SUCCESS
      then (case rs_payload http_response of
          None \<Rightarrow> State_Monad.return (Some (MCL_TRIGGERED_WITH_NULL, None))
        | Some payload \<Rightarrow> json_parse_item cJSON_parse payload (rs_payload_size http_response))
      else State_Monad.return (Some (mcl_http_response_get_status (Some http_response), None)))"

definition connectivity_processor_get_data_source_configuration ::
  "(string \<Rightarrow> json option) \<Rightarrow> connectivity_processor_t \<Rightarrow>
   ('z net_world_ext, (mcl_error \<times> data_source_configuration_t option) option) io" where
  "connectivity_processor_get_data_source_configuration cJSON_parse connectivity_processor = do {
     a \<leftarrow> mcl_malloc;
     if \<not> a then State_Monad.return (Some (MCL_OUT_OF_MEMORY, None))
     else (case do {
         hostname \<leftarrow> cp_hostname connectivity_processor;
         agent_id \<leftarrow> cp_agent_id connectivity_processor;
         url \<leftarrow> data_source_configuration_url hostname agent_id;
         block_string url
       } of
         None \<Rightarrow> State_Monad.return None
       | Some url \<Rightarrow> do {
           (code, http_request) \<leftarrow> configuration_request connectivity_processor url;
           if code \<noteq> MCL_OK then State_Monad.return (Some (code, None))
           else (case http_request of
               None \<Rightarrow> State_Monad.return None
             | Some request \<Rightarrow> do {
                 r \<leftarrow> mcl_http_client_send request;
                 case r of
                   Err code \<Rightarrow> State_Monad.return (Some (code, None))
                 | Ok http_response \<Rightarrow> read_configuration cJSON_parse http_response
               })
         })
   }"

section \<open>What is sent and returned\<close>

definition mapping_json :: "mapping_t \<Rightarrow> string \<Rightarrow> json" where
  "mapping_json mapping agent_id = Json CObject
     [(Some ''agentId'', str agent_id), (Some ''dataPointId'', str (the (mp_data_point_id mapping))),
      (Some ''entityId'', str (case mp_entity_id mapping of None \<Rightarrow> agent_id | Some e \<Rightarrow> e)),
      (Some ''propertySetName'', str (the (mp_property_set_name mapping))),
      (Some ''propertyName'', str (the (mp_property_name mapping))),
      (Some ''keepMapping'', Json (CBool (mp_keep_mapping mapping)) [])]"

lemma run_prepare_mapping_json:
  assumes "w_alloc w = []" and "mapping_validate mapping = MCL_OK"
  shows "run_state (prepare_mapping_json mapping (Some agent_id)) w =
    ((MCL_OK, Some (json_print (mapping_json mapping agent_id))), w)"
  using assms
  by (cases "mp_entity_id mapping")
    (auto simp: prepare_mapping_json_def mapping_json_def mapping_validate_def build lower_code_def Let_def
      split: if_splits)

definition mapping_message :: "connectivity_processor_t \<Rightarrow> mapping_t \<Rightarrow> mcl_http_request_t" where
  "mapping_message processor mapping = (let document = json_print (mapping_json mapping (the (cp_agent_id processor))) in
     \<lparr>rq_header = [''Correlation-ID: '' @ replicate 32 CHR ''0'', ''Content-Type: application/json'',
        ''Accept: application/json'', ''Authorization: Bearer '' @ cp_access_token processor],
      rq_payload = Some (map Some document @ [Some MCL_NULL_CHAR]), rq_payload_size = length document,
      rq_method = MCL_HTTP_POST, rq_uri = cp_mapping_url processor,
      rq_stream_callback = None, rq_stream_data = None\<rparr>)"

lemma run_send_mapping:
  assumes "good_world w" and "cp_mapping_url processor \<noteq> None"
  shows "run_state (send_mapping processor (json_print (mapping_json mapping (the (cp_agent_id processor))))) w =
    (Some (case next_answer w of Err code \<Rightarrow> code | Ok a \<Rightarrow> evaluate_response_for_mapping a),
     sent (mapping_message processor mapping) w)"
proof -
  have w: "w_alloc w = []" using assms by (simp add: good_world_def)
  let ?document = "json_print (mapping_json mapping (the (cp_agent_id processor)))"
  obtain url where url: "cp_mapping_url processor = Some url" using assms(2) by blast
  define rq where "rq = (mapping_message processor mapping)\<lparr>rq_header := []\<rparr>"
  have request: "run_state (mapping_request processor ?document) w = ((MCL_OK, Some rq), w)"
    using w url by (simp add: mapping_request_def mcl_http_request_initialize_def run_set_parameter rq_def
        mapping_message_def cstr_def Let_def)
  have headers: "run_state (mapping_headers processor
      (Some (rq\<lparr>rq_header := [''Correlation-ID: '' @ replicate 32 CHR ''0'']\<rparr>))) w =
      ((MCL_OK, Some (mapping_message processor mapping)), w)"
    using w by (simp add: mapping_headers_def add_authorization_header_def run_add_header rq_def
        mapping_message_def content_type_application_json_def Let_def)
  have empty: "rq_header rq = []" by (simp add: rq_def)
  show ?thesis
    using request headers run_correlation_header [OF assms(1), of rq]
    by (simp add: send_mapping_def send_request_def run_http_client_send empty)
qed

definition configuration_url :: "connectivity_processor_t \<Rightarrow> string" where
  "configuration_url processor = the (cp_hostname processor) @ ''/api/agentmanagement/v3/agents/'' @
     the (cp_agent_id processor) @ ''/dataSourceConfiguration''"

definition configuration_message :: "connectivity_processor_t \<Rightarrow> mcl_http_request_t" where
  "configuration_message processor =
     \<lparr>rq_header = [''Authorization: Bearer '' @ cp_access_token processor, ''Accept: application/json''],
      rq_payload = None, rq_payload_size = 0, rq_method = MCL_HTTP_GET,
      rq_uri = Some (configuration_url processor), rq_stream_callback = None, rq_stream_data = None\<rparr>"

lemma url_block:
  "data_source_configuration_url hostname agent_id =
     Some (map Some (hostname @ ''/api/agentmanagement/v3/agents/'' @ agent_id @ cstr ''/dataSourceConfiguration''))"
proof -
  let ?p = "''/api/agentmanagement/v3/agents/''" and ?q = "''/dataSourceConfiguration''"
  have size: "length hostname + length agent_id + length (cstr ''/api/agentmanagement/v3/agents//dataSourceConfiguration'') =
      length hostname + (length ?p + (length agent_id + (length (cstr ?q) + 0)))"
    by (simp add: cstr_def)
  have "string_util_memcpy (fresh_block (length hostname + k)) 0 (cstr hostname) (length hostname) =
      Some (map Some hostname @ fresh_block k)" for k
    using memcpy_fresh [of 0 "[]" "length hostname" hostname k "[MCL_NULL_CHAR]"] by (simp add: cstr_def)
  moreover have "string_util_memcpy (map Some hostname @ fresh_block (length ?p + k)) (length hostname)
      (cstr ?p) (length (cstr ?p) - 1) = Some (map Some (hostname @ ?p) @ fresh_block k)" for k
    using memcpy_fresh [of "length hostname" hostname "length ?p" ?p k "[MCL_NULL_CHAR]"] by (simp add: cstr_def)
  moreover have "string_util_memcpy (map Some (hostname @ ?p) @ fresh_block (length agent_id + k))
      (length hostname + (length (cstr ?p) - 1)) (cstr agent_id) (length agent_id) =
      Some (map Some ((hostname @ ?p) @ agent_id) @ fresh_block k)" for k
    using memcpy_fresh [of "length (hostname @ ?p)" "hostname @ ?p" "length agent_id" agent_id k "[MCL_NULL_CHAR]"]
    by (simp add: cstr_def)
  moreover have "string_util_memcpy (map Some ((hostname @ ?p) @ agent_id) @ fresh_block (length (cstr ?q) + 0))
      (length hostname + (length (cstr ?p) - 1) + length agent_id) (cstr ?q) (length (cstr ?q)) =
      Some (map Some (((hostname @ ?p) @ agent_id) @ cstr ?q) @ fresh_block 0)"
    using memcpy_fresh [of "length ((hostname @ ?p) @ agent_id)" "(hostname @ ?p) @ agent_id" "length (cstr ?q)" "cstr ?q" 0 "[]"]
    by (simp add: cstr_def)
  ultimately have "data_source_configuration_url hostname agent_id =
      Some (map Some (((hostname @ ?p) @ agent_id) @ cstr ?q) @ fresh_block 0)"
    unfolding data_source_configuration_url_def Let_def size by (simp only: Option.bind.simps)
  then show ?thesis by (simp add: fresh_block_def)
qed

lemma url_string:
  assumes "cp_hostname processor = Some hostname" and "cstring hostname"
    and "cp_agent_id processor = Some agent_id" and "cstring agent_id"
  shows "Option.bind (data_source_configuration_url hostname agent_id) block_string =
    Some (configuration_url processor)"
proof -
  have "cstring (configuration_url processor)"
    using assms by (simp add: configuration_url_def cstring_def MCL_NULL_CHAR_def)
  from block_string_cstr [OF this, of "[]"] assms(1,3) show ?thesis
    by (simp add: url_block configuration_url_def cstr_def)
qed

lemma run_configuration_request:
  assumes "w_alloc w = []"
  shows "run_state (configuration_request processor (configuration_url processor)) w =
    ((MCL_OK, Some (configuration_message processor)), w)"
  using assms by (simp add: configuration_request_def mcl_http_request_initialize_def run_set_parameter
      add_authorization_header_def run_add_header configuration_message_def content_type_application_json_def)

section \<open>Properties\<close>

text \<open>C32. A complete mapping of a known agent is posted once to the mapping address, as the JSON document of its
  members (the agent in the
  place of a missing entity), terminated and with the size that the body has; an incomplete mapping
  is refused and nothing is sent. Only the answer 201 is a success: 200 and every other status is an
  error.\<close>

theorem create_mapping_exact:
  assumes "good_world w" and "cp_agent_id processor = Some agent_id" and "cp_mapping_url processor \<noteq> None"
  shows "run_state (connectivity_processor_create_mapping processor mapping) w =
      (if mapping_validate mapping = MCL_OK
       then (Some (case next_answer w of Err code \<Rightarrow> code | Ok a \<Rightarrow> evaluate_response_for_mapping a),
             sent (mapping_message processor mapping) w)
       else (Some MCL_INVALID_PARAMETER, w)) \<and>
    (evaluate_response_for_mapping a = MCL_OK \<longleftrightarrow> rs_status_code a = 201)"
proof
  have w: "w_alloc w = []" using assms(1) by (simp add: good_world_def)
  have invalid: "mapping_validate mapping \<noteq> MCL_OK \<Longrightarrow> mapping_validate mapping = MCL_INVALID_PARAMETER"
    by (auto simp: mapping_validate_def split: if_splits)
  show "run_state (connectivity_processor_create_mapping processor mapping) w =
      (if mapping_validate mapping = MCL_OK
       then (Some (case next_answer w of Err code \<Rightarrow> code | Ok a \<Rightarrow> evaluate_response_for_mapping a),
             sent (mapping_message processor mapping) w)
       else (Some MCL_INVALID_PARAMETER, w))"
    using run_send_mapping [OF assms(1,3), of mapping] assms(2) invalid
    by (simp add: connectivity_processor_create_mapping_def run_prepare_mapping_json [OF w])
  show "evaluate_response_for_mapping a = MCL_OK \<longleftrightarrow> rs_status_code a = 201"
    by (simp add: evaluate_response_for_mapping_def http_status_codes Let_def)
qed

theorem create_mapping_exact_witness:
  "let m = \<lparr>mp_data_point_id = Some ''p'', mp_entity_id = None, mp_property_set_name = Some ''s'',
        mp_property_name = Some ''n'', mp_keep_mapping = True\<rparr> in
     run_state (connectivity_processor_create_mapping plain_processor m) quiet_world =
       (Some MCL_UNEXPECTED_RESULT_CODE, sent (mapping_message plain_processor m) quiet_world) \<and>
     run_state (connectivity_processor_create_mapping plain_processor (m\<lparr>mp_property_name := None\<rparr>)) quiet_world =
       (Some MCL_INVALID_PARAMETER, quiet_world)"
  using create_mapping_exact [OF quiet_world_facts(1), of plain_processor "''a''"]
  by (simp add: plain_processor_def mapping_validate_def next_answer_def quiet_world_def http_success_def Let_def
      evaluate_response_for_mapping_def mcl_http_response_get_status_def http_status_codes)

text \<open>When the server answers with the document that the library builds of a complete data source
  configuration, the configuration that is returned is that one; what was sent is one GET request to
  the address of the agent on its host, with its token.\<close>

theorem get_configuration_reads_back:
  assumes "good_world w" and "cp_hostname processor = Some hostname" and "cstring hostname"
    and "cp_agent_id processor = Some agent_id" and "cstring agent_id"
    and "complete_configuration c" and "configuration_base c"
    and "run_state (json_from_item_payload (DataSourceConfiguration c)) w = ((MCL_OK, Some document), w)"
    and "cJSON_parse document = Some (configuration_json c)"
    and "next_answer w = Ok a" and "rs_status_code a = 200"
    and "rs_payload a = Some document" and "rs_payload_size a = length document"
  shows "run_state (connectivity_processor_get_data_source_configuration cJSON_parse processor) w =
    (Some (MCL_OK, Some c), sent (configuration_message processor) w)"
proof -
  have w: "w_alloc w = []" using assms(1) by (simp add: good_world_def)
  have w': "w_alloc (sent (configuration_message processor) w) = []" using w by (simp add: sent_def)
  have "run_state (read_configuration cJSON_parse a) (sent (configuration_message processor) w) =
      (Some (MCL_OK, Some c), sent (configuration_message processor) w)"
    using assms w' by (simp add: read_configuration_def http_status_codes json_parse_item_def parse_all_text
        run_parse_configuration)
  then show ?thesis
    using w assms(2,4,10) by (simp add: connectivity_processor_get_data_source_configuration_def
        url_string [OF assms(2-5)] run_configuration_request run_http_client_send)
qed

theorem get_configuration_reads_back_witness:
  "\<exists>a w. w_sent w = [configuration_message plain_processor] \<and>
     run_state (connectivity_processor_get_data_source_configuration
        (\<lambda>s. Some (configuration_json sample_configuration)) plain_processor)
       (quiet_world\<lparr>w_answers := [Ok a]\<rparr>) = (Some (MCL_OK, Some sample_configuration), w)"
proof -
  let ?text = "json_print (configuration_json sample_configuration)"
  let ?a = "\<lparr>rs_header = [], rs_payload = Some ?text, rs_payload_size = length ?text, rs_status_code = 200\<rparr>"
  let ?w = "quiet_world\<lparr>w_answers := [Ok ?a]\<rparr>"
  have c: "complete_configuration sample_configuration" "configuration_base sample_configuration"
    by (simp_all add: sample_configuration_def complete_configuration_def complete_source_def
        complete_point_def configuration_base_def)
  have "run_state (json_from_item_payload (DataSourceConfiguration sample_configuration)) ?w =
      ((MCL_OK, Some ?text), ?w)"
    using c by (simp add: json_from_item_payload_def run_configuration quiet_world_def)
  then have "run_state (connectivity_processor_get_data_source_configuration
        (\<lambda>s. Some (configuration_json sample_configuration)) plain_processor) ?w =
      (Some (MCL_OK, Some sample_configuration), sent (configuration_message plain_processor) ?w)"
    by (intro get_configuration_reads_back [where a = ?a and agent_id = "''a''" and hostname = "''h''", OF _ _ _ _ _ c])
      (simp_all add: good_world_def quiet_world_def plain_processor_def cstring_def MCL_NULL_CHAR_def
        next_answer_def)
  then show ?thesis
    by (intro exI [of _ ?a] exI [of _ "sent (configuration_message plain_processor) ?w"])
      (simp add: quiet_world_def)
qed

end
