(* ===== verification/MclHmac.thy ===== *)
theory MclHmac
  imports MclWorld MclString
begin

text \<open>
  The keyed hash of the library: \<open>src/mcl_core/src/hmac.c\<close> and the SHA-256 wrapper of the security
  backends (\<open>src/mcl_core/src/crypto\<close>). The hash function itself belongs to OpenSSL or mbedTLS and is
  an argument; what is relied on is that it always returns 32 bytes.
\<close>

unbundle bit_operations_syntax

section \<open>The code\<close>

definition SHA256_DIGEST_LENGTH :: nat where "SHA256_DIGEST_LENGTH = 32"
definition HMAC_MAXIMUM_KEY_SIZE :: nat where "HMAC_MAXIMUM_KEY_SIZE = 64"
definition HMAC_SHA256_SIZE :: nat where "HMAC_SHA256_SIZE = 32"
definition hmac_ipad :: "8 word" where "hmac_ipad = 0x36"
definition hmac_opad :: "8 word" where "hmac_opad = 0x5C"

lemmas hmac_constants = SHA256_DIGEST_LENGTH_def HMAC_MAXIMUM_KEY_SIZE_def HMAC_SHA256_SIZE_def

text \<open>The hash and its size, in a block the backend allocates.\<close>

definition security_hash_sha256 ::
  "(8 word list \<Rightarrow> 8 word list) \<Rightarrow> 8 word list \<Rightarrow> ('z, (8 word list \<times> nat) result) io" where
  "security_hash_sha256 sha256 data = do {
     a \<leftarrow> mcl_malloc;
     State_Monad.return (if a then Ok (sha256 data, SHA256_DIGEST_LENGTH) else Err MCL_OUT_OF_MEMORY)
   }"

text \<open>The two loops that fill the buffers, over the indexes they run through.\<close>

fun xor_loop ::
  "8 word list \<Rightarrow> nat list \<Rightarrow> 8 word block \<Rightarrow> 8 word block \<Rightarrow> (8 word block \<times> 8 word block) option" where
  "xor_loop key [] key_ipad key_opad = Some (key_ipad, key_opad)"
| "xor_loop key (index # indexes) key_ipad key_opad = do {
     k \<leftarrow> read key index;
     key_ipad \<leftarrow> store key_ipad index (k XOR hmac_ipad);
     key_opad \<leftarrow> store key_opad index (k XOR hmac_opad);
     xor_loop key indexes key_ipad key_opad
   }"

fun pad_loop :: "nat list \<Rightarrow> 8 word block \<Rightarrow> 8 word block \<Rightarrow> (8 word block \<times> 8 word block) option" where
  "pad_loop [] key_ipad key_opad = Some (key_ipad, key_opad)"
| "pad_loop (index # indexes) key_ipad key_opad = do {
     key_ipad \<leftarrow> store key_ipad index hmac_ipad;
     key_opad \<leftarrow> store key_opad index hmac_opad;
     pad_loop indexes key_ipad key_opad
   }"

text \<open>The key that is padded: the given one, or its hash when it is too long.\<close>

definition local_key ::
  "(8 word list \<Rightarrow> 8 word list) \<Rightarrow> 8 word list \<Rightarrow> nat \<Rightarrow> ('z, (8 word list \<times> nat) result) io" where
  "local_key sha256 key key_size =
     (if HMAC_MAXIMUM_KEY_SIZE < key_size
      then do {
        r \<leftarrow> security_hash_sha256 sha256 (take key_size key);
        State_Monad.return (case r of
            Err code \<Rightarrow> Err code
          | Ok (key_resized, key_local_size) \<Rightarrow>
              if key_local_size = HMAC_SHA256_SIZE then Ok (key_resized, key_local_size)
              else Err MCL_SHA256_CALCULATION_FAIL)
      }
      else State_Monad.return (Ok (key, key_size)))"

definition prepared_keys ::
  "8 word list \<Rightarrow> nat \<Rightarrow> 8 word list \<Rightarrow> nat \<Rightarrow> (8 word block \<times> 8 word block) option" where
  "prepared_keys key_local key_local_size data data_size = do {
     let key_ipad = fresh_block (HMAC_MAXIMUM_KEY_SIZE + data_size);
     let key_opad = fresh_block (HMAC_MAXIMUM_KEY_SIZE + HMAC_SHA256_SIZE);
     (key_ipad, key_opad) \<leftarrow> xor_loop key_local [0..<key_local_size] key_ipad key_opad;
     (key_ipad, key_opad) \<leftarrow> pad_loop [key_local_size..<HMAC_MAXIMUM_KEY_SIZE] key_ipad key_opad;
     key_ipad \<leftarrow> string_util_memcpy key_ipad HMAC_MAXIMUM_KEY_SIZE data data_size;
     Some (key_ipad, key_opad)
   }"

text \<open>The inner hash is copied behind the outer key and hashed with it.\<close>

definition outer_hash ::
  "(8 word list \<Rightarrow> 8 word list) \<Rightarrow> 8 word block \<Rightarrow> 8 word list \<Rightarrow> nat \<Rightarrow>
   ('z, (8 word list \<times> nat) result option) io" where
  "outer_hash sha256 key_opad sha_output sha_output_size =
     (if sha_output_size \<noteq> HMAC_SHA256_SIZE then State_Monad.return (Some (Err MCL_SHA256_CALCULATION_FAIL))
      else (case Option.bind (string_util_memcpy key_opad HMAC_MAXIMUM_KEY_SIZE sha_output sha_output_size) those of
          None \<Rightarrow> State_Monad.return None
        | Some bytes \<Rightarrow> do {
            r \<leftarrow> security_hash_sha256 sha256 bytes;
            State_Monad.return (Some (case r of
                Err code \<Rightarrow> Err code
              | Ok (hash, hash_size) \<Rightarrow>
                  if hash_size = HMAC_SHA256_SIZE then Ok (hash, hash_size)
                  else Err MCL_SHA256_CALCULATION_FAIL))
          }))"

text \<open>The two hashes of the data with the settled key; an undefined access of the loops is \<open>None\<close>.\<close>

definition keyed_hash ::
  "(8 word list \<Rightarrow> 8 word list) \<Rightarrow> 8 word list \<Rightarrow> nat \<Rightarrow> 8 word list \<Rightarrow> nat \<Rightarrow>
   ('z, (8 word list \<times> nat) result option) io" where
  "keyed_hash sha256 data data_size key_local key_local_size = do {
     a \<leftarrow> mcl_malloc;
     if \<not> a then State_Monad.return (Some (Err MCL_OUT_OF_MEMORY))
     else do {
       b \<leftarrow> mcl_malloc;
       if \<not> b then State_Monad.return (Some (Err MCL_OUT_OF_MEMORY))
       else (case prepared_keys key_local key_local_size data data_size of
           None \<Rightarrow> State_Monad.return None
         | Some (key_ipad, key_opad) \<Rightarrow>
             (case those key_ipad of
                None \<Rightarrow> State_Monad.return None
              | Some bytes \<Rightarrow> do {
                  r \<leftarrow> security_hash_sha256 sha256 bytes;
                  case r of
                    Err code \<Rightarrow> State_Monad.return (Some (Err code))
                  | Ok (sha_output, sha_output_size) \<Rightarrow>
                      outer_hash sha256 key_opad sha_output sha_output_size
                }))
     }
   }"

definition hmac_sha256 ::
  "(8 word list \<Rightarrow> 8 word list) \<Rightarrow> 8 word list \<Rightarrow> nat \<Rightarrow> 8 word list \<Rightarrow> nat \<Rightarrow>
   ('z, (8 word list \<times> nat) result option) io" where
  "hmac_sha256 sha256 data data_size key key_size =
     (if key_size = 0 then State_Monad.return (Some (Err MCL_INVALID_PARAMETER))
      else do {
        k \<leftarrow> local_key sha256 key key_size;
        case k of
          Err code \<Rightarrow> State_Monad.return (Some (Err code))
        | Ok (key_local, key_local_size) \<Rightarrow> keyed_hash sha256 data data_size key_local key_local_size
      })"

section \<open>The standard\<close>

text \<open>HMAC of RFC 2104 with the block size 64.\<close>

definition hmac_block_key :: "(8 word list \<Rightarrow> 8 word list) \<Rightarrow> 8 word list \<Rightarrow> 8 word list" where
  "hmac_block_key H key =
     (let k = (if 64 < length key then H key else key) in k @ replicate (64 - length k) 0)"

definition hmac_spec :: "(8 word list \<Rightarrow> 8 word list) \<Rightarrow> 8 word list \<Rightarrow> 8 word list \<Rightarrow> 8 word list" where
  "hmac_spec H key message =
     (let k = hmac_block_key H key in
      H (map (\<lambda>b. b XOR 0x5C) k @ H (map (\<lambda>b. b XOR 0x36) k @ message)))"

section \<open>The loops\<close>

lemma store_at:
  "length p = n \<Longrightarrow> store (p @ x # q) n v = Some (p @ Some v # q)"
  by (auto simp: store_def list_update_append)

lemma xor_loop_run:
  "xor_loop (before @ rest) [length before..<length before + length rest]
      (pi @ map (\<lambda>_. None) rest @ qi) (po @ map (\<lambda>_. None) rest @ qo) =
    Some (pi @ map (\<lambda>b. Some (b XOR hmac_ipad)) rest @ qi, po @ map (\<lambda>b. Some (b XOR hmac_opad)) rest @ qo)"
  if "length pi = length before" and "length po = length before"
  using that
proof (induction rest arbitrary: before pi po)
  case Nil
  then show ?case by simp
next
  case (Cons b rest)
  have upt: "[length before..<length before + length (b # rest)] =
      length before # [length (before @ [b])..<length (before @ [b]) + length rest]"
    by (simp add: upt_conv_Cons del: upt_Suc)
  have step: "xor_loop (before @ b # rest) [length (before @ [b])..<length (before @ [b]) + length rest]
      ((pi @ [Some (b XOR hmac_ipad)]) @ map (\<lambda>_. None) rest @ qi) ((po @ [Some (b XOR hmac_opad)]) @ map (\<lambda>_. None) rest @ qo) =
    Some ((pi @ [Some (b XOR hmac_ipad)]) @ map (\<lambda>b. Some (b XOR hmac_ipad)) rest @ qi,
      (po @ [Some (b XOR hmac_opad)]) @ map (\<lambda>b. Some (b XOR hmac_opad)) rest @ qo)"
    using Cons.IH [of "pi @ [Some (b XOR hmac_ipad)]" "before @ [b]" "po @ [Some (b XOR hmac_opad)]"] Cons.prems
    by simp
  show ?case
    unfolding upt using step Cons.prems by (simp add: read_def store_at del: store_in upt_Suc)
qed

lemma pad_loop_run:
  "pad_loop [n..<n + k] (pi @ replicate k None @ qi) (po @ replicate k None @ qo) =
    Some (pi @ replicate k (Some hmac_ipad) @ qi, po @ replicate k (Some hmac_opad) @ qo)"
  if "length pi = n" and "length po = n"
  using that
proof (induction k arbitrary: n pi po)
  case 0
  then show ?case by simp
next
  case (Suc k)
  have upt: "[n..<n + Suc k] = n # [Suc n..<Suc n + k]" by (simp add: upt_conv_Cons del: upt_Suc)
  show ?case
    unfolding upt
    using Suc.IH [of "pi @ [Some hmac_ipad]" "Suc n" "po @ [Some hmac_opad]"] Suc.prems
    by (simp add: store_at del: store_in upt_Suc)
qed

definition padded :: "8 word \<Rightarrow> 8 word list \<Rightarrow> 8 word list" where
  "padded p key = map (\<lambda>b. b XOR p) (key @ replicate (64 - length key) 0)"

lemma length_padded [simp]: "length key \<le> 64 \<Longrightarrow> length (padded p key) = 64"
  by (simp add: padded_def)

lemma prepared_keys_run:
  assumes "length key \<le> 64"
  shows "prepared_keys key (length key) data (length data) =
    Some (map Some (padded hmac_ipad key @ data), map Some (padded hmac_opad key) @ fresh_block 32)"
proof -
  let ?n = "length key"
  have blocks: "fresh_block (64 + m) = map (\<lambda>_. None) key @ replicate (64 - ?n) None @ fresh_block m" for m
    using assms by (simp add: fresh_block_def map_replicate_const flip: replicate_add)
  have xored: "xor_loop key [0..<?n] (fresh_block (64 + length data)) (fresh_block (64 + 32)) =
      Some (map (\<lambda>b. Some (b XOR hmac_ipad)) key @ replicate (64 - ?n) None @ fresh_block (length data),
        map (\<lambda>b. Some (b XOR hmac_opad)) key @ replicate (64 - ?n) None @ fresh_block 32)"
    using xor_loop_run [of "[]" "[]" "[]" key "replicate (64 - ?n) None @ fresh_block (length data)"
        "replicate (64 - ?n) None @ fresh_block 32"]
    unfolding blocks by simp
  have rest: "[?n..<64] = [?n..<?n + (64 - ?n)]" using assms by simp
  have filled: "pad_loop [?n..<64]
      (map (\<lambda>b. Some (b XOR hmac_ipad)) key @ replicate (64 - ?n) None @ fresh_block (length data))
      (map (\<lambda>b. Some (b XOR hmac_opad)) key @ replicate (64 - ?n) None @ fresh_block 32) =
    Some (map Some (padded hmac_ipad key) @ fresh_block (length data), map Some (padded hmac_opad key) @ fresh_block 32)"
    unfolding rest by (simp add: pad_loop_run padded_def)
  have copied: "string_util_memcpy (map Some (padded hmac_ipad key) @ fresh_block (length data)) 64 data (length data) =
      Some (map Some (padded hmac_ipad key @ data))"
    using assms by (simp add: string_util_memcpy_def)
  show ?thesis
    unfolding prepared_keys_def Let_def hmac_constants xored
    by (simp only: Option.bind.simps prod.case filled copied)
qed

lemma those_map_Some [simp]: "those (map Some xs) = Some xs"
  by (induction xs) simp_all

lemma those_append_Some [simp]: "those (map Some xs @ map Some ys) = Some (xs @ ys)"
  using those_map_Some [of "xs @ ys"] by simp

lemma outer_hash_run:
  assumes "length inner = 32" and "length key \<le> 64"
  shows "run_state (outer_hash sha256 (map Some (padded hmac_opad key) @ fresh_block 32) inner 32) w =
    (case run_state mcl_malloc w of (a, w') \<Rightarrow>
      (Some (if a then Ok (sha256 (padded hmac_opad key @ inner), 32) else Err MCL_OUT_OF_MEMORY), w'))"
proof -
  have "string_util_memcpy (map Some (padded hmac_opad key) @ fresh_block 32) 64 inner 32 =
      Some (map Some (padded hmac_opad key @ inner))"
    using assms by (simp add: string_util_memcpy_def)
  then show ?thesis
    by (simp add: outer_hash_def hmac_constants security_hash_sha256_def run_bind split: prod.splits)
qed

lemma hmac_spec_padded:
  assumes "length k \<le> 64" and "k = (if 64 < length key then H key else key)"
  shows "hmac_spec H key message = H (padded hmac_opad k @ H (padded hmac_ipad k @ message))"
  using assms by (simp add: hmac_spec_def hmac_block_key_def padded_def hmac_ipad_def hmac_opad_def Let_def)

lemma keyed_hash_run:
  assumes "\<And>x. length (sha256 x) = 32" and "length k \<le> 64"
  shows "\<exists>r w'. run_state (keyed_hash sha256 data (length data) k (length k)) w = (Some r, w') \<and>
    (r = Ok (sha256 (padded hmac_opad k @ sha256 (padded hmac_ipad k @ data)), 32) \<or>
     r = Err MCL_OUT_OF_MEMORY \<and> w_alloc w \<noteq> [])"
  using assms unfolding keyed_hash_def
  by (cases "w_alloc w"; auto simp add: run_bind prepared_keys_run outer_hash_run security_hash_sha256_def
      SHA256_DIGEST_LENGTH_def run_malloc split: list.splits)

lemma local_key_run:
  assumes "\<And>x. length (sha256 x) = 32"
  shows "\<exists>r w'. run_state (local_key sha256 key (length key)) w = (r, w') \<and>
    (let k = (if 64 < length key then sha256 key else key) in
     r = Ok (k, length k) \<and> (w_alloc w = [] \<longrightarrow> w_alloc w' = []) \<or> r = Err MCL_OUT_OF_MEMORY \<and> w_alloc w \<noteq> [])"
  using assms
  by (cases "w_alloc w"; auto simp: local_key_def security_hash_sha256_def run_bind run_malloc hmac_constants
      split: list.splits)

text \<open>Without failing allocations.\<close>

lemma hmac_run:
  assumes "\<And>x. length (sha256 x) = 32" and "w_alloc w = []" and "key \<noteq> []"
  shows "run_state (hmac_sha256 sha256 data (length data) key (length key)) w =
    (Some (Ok (hmac_spec sha256 key data, 32)), w)"
proof -
  define k where "k = (if 64 < length key then sha256 key else key)"
  have k: "length k \<le> 64" using assms(1) by (simp add: k_def)
  have "run_state (local_key sha256 key (length key)) w = (Ok (k, length k), w)"
    using assms by (simp add: local_key_def security_hash_sha256_def hmac_constants k_def)
  moreover have "run_state (keyed_hash sha256 data (length data) k (length k)) w =
      (Some (Ok (hmac_spec sha256 key data, 32)), w)"
    using assms k unfolding hmac_spec_padded [where k = k and key = key and H = sha256 and message = data, OF k k_def]
    by (simp add: keyed_hash_def run_bind prepared_keys_run outer_hash_run security_hash_sha256_def SHA256_DIGEST_LENGTH_def)
  ultimately show ?thesis using assms(3) by (simp add: hmac_sha256_def)
qed

text \<open>In general.\<close>

lemma hmac_outcome:
  assumes "\<And>x. length (sha256 x) = 32"
  shows "\<exists>r w'. run_state (hmac_sha256 sha256 data (length data) key (length key)) w = (Some r, w') \<and>
    (if key = [] then r = Err MCL_INVALID_PARAMETER
     else r = Ok (hmac_spec sha256 key data, 32) \<or> r = Err MCL_OUT_OF_MEMORY \<and> w_alloc w \<noteq> [])"
proof (cases "key = []")
  case True
  then show ?thesis by (simp add: hmac_sha256_def)
next
  case False
  define k where "k = (if 64 < length key then sha256 key else key)"
  have k: "length k \<le> 64" using assms by (simp add: k_def)
  note spec = hmac_spec_padded [where k = k and key = key and H = sha256 and message = data, OF k k_def]
  obtain r w1 where r: "run_state (local_key sha256 key (length key)) w = (r, w1)"
      "r = Ok (k, length k) \<and> (w_alloc w = [] \<longrightarrow> w_alloc w1 = []) \<or> r = Err MCL_OUT_OF_MEMORY \<and> w_alloc w \<noteq> []"
    using local_key_run [where ?sha256.0 = sha256 and key = key and w = w, OF assms] unfolding k_def Let_def by blast
  from r(2) show ?thesis
  proof
    assume ok: "r = Ok (k, length k) \<and> (w_alloc w = [] \<longrightarrow> w_alloc w1 = [])"
    obtain r' w' where "run_state (keyed_hash sha256 data (length data) k (length k)) w1 = (Some r', w')"
        "r' = Ok (hmac_spec sha256 key data, 32) \<or> r' = Err MCL_OUT_OF_MEMORY \<and> w_alloc w1 \<noteq> []"
      using keyed_hash_run [where ?sha256.0 = sha256 and k = k and data = data and w = w1, OF assms k] unfolding spec by blast
    with r(1) ok False show ?thesis by (auto simp: hmac_sha256_def)
  next
    assume "r = Err MCL_OUT_OF_MEMORY \<and> w_alloc w \<noteq> []"
    with r(1) False show ?thesis by (auto simp: hmac_sha256_def)
  qed
qed

section \<open>Properties\<close>

text \<open>C6. For a hash of 32 bytes the keyed hash of the library is HMAC as RFC 2104 defines it, for keys
  of every length but zero (which are refused); the only failure is a failed allocation, and no byte
  outside the buffers is touched.\<close>

theorem hmac_rfc2104:
  assumes "\<And>x. length (sha256 x) = 32"
  shows "\<exists>r w'. run_state (hmac_sha256 sha256 data (length data) key (length key)) w = (Some r, w') \<and>
    (if key = [] then r = Err MCL_INVALID_PARAMETER
     else r = Ok (hmac_spec sha256 key data, 32) \<or> r = Err MCL_OUT_OF_MEMORY \<and> w_alloc w \<noteq> [])"
  by (rule hmac_outcome [OF assms])

theorem hmac_rfc2104_witness:
  "(\<exists>w'. run_state (hmac_sha256 (\<lambda>x. take 32 (x @ replicate 32 7)) [1, 2] (Suc (Suc 0)) (replicate 70 3) 70)
       \<lparr>w_alloc = [], w_random = []\<rparr> =
     (Some (Ok (hmac_spec (\<lambda>x. take 32 (x @ replicate 32 7)) (replicate 70 3) [1, 2], 32)), w'))"
proof -
  let ?H = "\<lambda>x. take 32 (x @ replicate 32 7) :: 8 word list" and ?w = "\<lparr>w_alloc = [], w_random = []\<rparr> :: mem_world"
  have "length (?H x) = 32" for x by simp
  from hmac_rfc2104 [where ?sha256.0 = ?H and data = "[1, 2]" and key = "replicate 70 3" and w = ?w, OF this] show ?thesis
    by (simp add: numeral_2_eq_2)
qed

end
