(* ===== verification/MclSecurity.thy ===== *)
theory MclSecurity
  imports MclHmac MclBase64 MclRandom MclNetwork
begin

text \<open>
  The security handler (\<open>src/mcl_core/src/security_handler.c\<close>) and the OpenSSL backend
  (\<open>src/mcl_core/src/crypto/openssl/security_libcrypto.c\<close>). What OpenSSL computes is a record of
  functions: the hash, the reading of the two PEM formats, the signature of a hash. The key pairs it
  will generate are a script of the world, like the time of the system clock. Allocations inside
  OpenSSL are not scripted.
\<close>

section \<open>World of the core library\<close>

text \<open>
  The core also calls the user: \<open>w_loads\<close> is what the callback that loads credentials will return,
  \<open>w_saves\<close> what the one that saves them will, \<open>w_enters\<close> the entering of the critical section.
  \<open>w_saved\<close> and \<open>w_section\<close> record what was saved and how the section was entered (\<open>True\<close>) and left.
  Addresses of strings that others point to are counted by \<open>w_next\<close>.
\<close>

record credentials_t =
  cr_client_id :: "string option"
  cr_client_secret :: "string option"
  cr_public_key :: "string option"
  cr_private_key :: "string option"
  cr_registration_access_token :: "string option"
  cr_registration_uri :: "string option"

definition no_credentials :: credentials_t where
  "no_credentials = \<lparr>cr_client_id = None, cr_client_secret = None, cr_public_key = None,
     cr_private_key = None, cr_registration_access_token = None, cr_registration_uri = None\<rparr>"

record core_world = net_world +
  w_time :: int
  w_key_pairs :: "(string \<times> string) option list"
  w_loads :: "(mcl_error \<times> credentials_t) list"
  w_saves :: "mcl_error list"
  w_saved :: "credentials_t list"
  w_enters :: "mcl_error list"
  w_section :: "bool list"
  w_next :: nat

type_synonym ('z, 'a) core_io = "('z core_world_ext net_world_ext, 'a) io"

section \<open>OpenSSL\<close>

record openssl_t =
  ssl_sha256 :: "8 word list \<Rightarrow> 8 word list"
  ssl_read_private_key :: "string \<Rightarrow> nat option"
  ssl_sign :: "nat \<Rightarrow> 8 word list \<Rightarrow> 8 word list option"
  ssl_read_public_key :: "string \<Rightarrow> (8 word list \<times> 8 word list) option"

text \<open>A string as the bytes it is read as.\<close>

definition string_bytes :: "string \<Rightarrow> 8 word list" where
  "string_bytes s = map (\<lambda>c. word_of_nat (of_char c)) s"

definition security_rsa_sign ::
  "openssl_t \<Rightarrow> string \<Rightarrow> string \<Rightarrow> ('z, (8 word list \<times> nat) result) io" where
  "security_rsa_sign openssl rsa_key data =
     (case ssl_read_private_key openssl rsa_key of
        None \<Rightarrow> State_Monad.return (Err MCL_FAIL)
      | Some rsa \<Rightarrow> do {
          a \<leftarrow> mcl_malloc;
          if \<not> a then State_Monad.return (Err MCL_FAIL)
          else do {
            r \<leftarrow> security_hash_sha256 (ssl_sha256 openssl) (string_bytes data);
            State_Monad.return (case r of
                Err _ \<Rightarrow> Err MCL_FAIL
              | Ok (hash, hash_size) \<Rightarrow> (case ssl_sign openssl rsa (take hash_size hash) of
                    None \<Rightarrow> Err MCL_FAIL
                  | Some signature \<Rightarrow> Ok (signature, length signature)))
          }
        })"

text \<open>The private key is copied into memory first, then the public key.\<close>

definition generate_key_pair :: "('z, (string \<times> string) option) core_io" where
  "generate_key_pair = State (\<lambda>w. case w_key_pairs w of
      [] \<Rightarrow> (None, w) | k # ks \<Rightarrow> (k, w\<lparr>w_key_pairs := ks\<rparr>))"

definition security_generate_rsa_key :: "('z, (string \<times> string) result) core_io" where
  "security_generate_rsa_key = do {
     k \<leftarrow> generate_key_pair;
     case k of
       None \<Rightarrow> State_Monad.return (Err MCL_FAIL)
     | Some (public_key, private_key) \<Rightarrow> do {
         a \<leftarrow> mcl_malloc;
         if \<not> a then State_Monad.return (Err MCL_OUT_OF_MEMORY)
         else do {
           b \<leftarrow> mcl_malloc;
           State_Monad.return (if b then Ok (public_key, private_key) else Err MCL_OUT_OF_MEMORY)
         }
       }
   }"

text \<open>The block of an encoder as the string it holds.\<close>

definition base64_url_string :: "8 word list \<Rightarrow> nat \<Rightarrow> ('z, string result option) io" where
  "base64_url_string data data_size = do {
     a \<leftarrow> mcl_malloc;
     State_Monad.return (case base64_url_encode a data data_size of
         None \<Rightarrow> None
       | Some (Err code) \<Rightarrow> Some (Err code)
       | Some (Ok b) \<Rightarrow> map_option Ok (block_string b))
   }"

definition base64_encode_big_number :: "8 word list \<Rightarrow> ('z, string result option) io" where
  "base64_encode_big_number big_number = do {
     a \<leftarrow> mcl_malloc;
     if \<not> a then State_Monad.return (Some (Err MCL_OUT_OF_MEMORY))
     else base64_url_string big_number (length big_number)
   }"

definition security_rsa_get_modulus_and_exponent ::
  "openssl_t \<Rightarrow> string \<Rightarrow> ('z, (string \<times> string) result option) io" where
  "security_rsa_get_modulus_and_exponent openssl public_key =
     (case ssl_read_public_key openssl public_key of
        None \<Rightarrow> State_Monad.return (Some (Err MCL_FAIL))
      | Some (n, e) \<Rightarrow> do {
          r \<leftarrow> base64_encode_big_number n;
          case r of
            None \<Rightarrow> State_Monad.return None
          | Some (Err code) \<Rightarrow> State_Monad.return (Some (Err code))
          | Some (Ok modulus) \<Rightarrow> do {
              r \<leftarrow> base64_encode_big_number e;
              State_Monad.return (map_option (\<lambda>x. map_sum id (\<lambda>exponent. (modulus, exponent)) x) r)
            }
        })"

section \<open>The handler\<close>

text \<open>
  The client id is also handed out as a pointer (\<open>mcl_core_get_client_id\<close>), so it is kept with its
  address.
\<close>

record rsa_t =
  rsa_public_key :: "string option"
  rsa_private_key :: "string option"

record security_handler_t =
  sh_rsa :: rsa_t
  sh_registration_access_token :: "string option"
  sh_registration_uri :: "string option"
  sh_client_secret :: "string option"
  sh_access_token :: "string option"
  sh_last_token_time :: "string option"
  sh_client_id :: "(nat \<times> string) option"

definition security_handler_initialize :: "('z, mcl_error \<times> security_handler_t option) io" where
  "security_handler_initialize = do {
     a \<leftarrow> mcl_malloc;
     State_Monad.return
       (if a then (MCL_OK, Some \<lparr>sh_rsa = \<lparr>rsa_public_key = None, rsa_private_key = None\<rparr>,
          sh_registration_access_token = None, sh_registration_uri = None, sh_client_secret = None,
          sh_access_token = None, sh_last_token_time = None, sh_client_id = None\<rparr>)
        else (MCL_OUT_OF_MEMORY, None))
   }"

definition security_handler_generate_jti :: "('z, mcl_error \<times> string option) io" where
  "security_handler_generate_jti = random_generate_guid"

definition security_handler_hash_sha256 ::
  "(8 word list \<Rightarrow> 8 word list) \<Rightarrow> 8 word list \<Rightarrow> ('z, (8 word list \<times> nat) result) io" where
  "security_handler_hash_sha256 sha256 data = security_hash_sha256 sha256 data"

text \<open>A handler without a secret is undefined: the length of a \<open>NULL\<close> string is taken.\<close>

definition security_handler_hmac_sha256 ::
  "openssl_t \<Rightarrow> security_handler_t \<Rightarrow> string \<Rightarrow> ('z, (8 word list \<times> nat) result option) io" where
  "security_handler_hmac_sha256 openssl security_handler data =
     (case sh_client_secret security_handler of
        None \<Rightarrow> State_Monad.return None
      | Some secret \<Rightarrow> hmac_sha256 (ssl_sha256 openssl) (string_bytes data) (length data)
          (string_bytes secret) (length secret))"

definition security_handler_base64_encode :: "bool \<Rightarrow> 8 word list \<Rightarrow> nat \<Rightarrow> char block result option" where
  "security_handler_base64_encode alloc data data_size = base64_encode alloc data data_size"

definition security_handler_base64_decode ::
  "bool \<Rightarrow> string option \<Rightarrow> (8 word block \<times> nat) result option" where
  "security_handler_base64_decode alloc encoded_data = base64_decode alloc encoded_data"

definition security_handler_base64_url_encode :: "8 word list \<Rightarrow> nat \<Rightarrow> ('z, string result option) io" where
  "security_handler_base64_url_encode data data_size = base64_url_string data data_size"

definition security_handler_generate_rsa_key ::
  "security_handler_t \<Rightarrow> ('z, mcl_error \<times> security_handler_t) core_io" where
  "security_handler_generate_rsa_key security_handler = do {
     r \<leftarrow> security_generate_rsa_key;
     State_Monad.return (case r of
         Err code \<Rightarrow> (code, security_handler\<lparr>sh_rsa := \<lparr>rsa_public_key = None, rsa_private_key = None\<rparr>\<rparr>)
       | Ok (public_key, private_key) \<Rightarrow>
           (MCL_OK, security_handler\<lparr>sh_rsa := \<lparr>rsa_public_key = Some public_key, rsa_private_key = Some private_key\<rparr>\<rparr>))
   }"

definition security_handler_rsa_sign ::
  "openssl_t \<Rightarrow> string option \<Rightarrow> string \<Rightarrow> ('z, (8 word list \<times> nat) result option) io" where
  "security_handler_rsa_sign openssl rsa_key data =
     (case rsa_key of
        None \<Rightarrow> State_Monad.return None
      | Some key \<Rightarrow> do { r \<leftarrow> security_rsa_sign openssl key data; State_Monad.return (Some r) })"

end
