(* ===== verification/MclJwt.thy ===== *)
theory MclJwt
  imports MclSecurity MclJson
begin

text \<open>
  The self-issued token with which the agent asks for an access token: \<open>src/mcl_core/src/jwt.c\<close>. The
  handler a token is created from outlives it and does not change meanwhile, so the token holds a copy.
\<close>

section \<open>Creation\<close>

datatype E_MCL_SECURITY_PROFILE = MCL_SECURITY_SHARED_SECRET | MCL_SECURITY_RSA_3072 | MCL_SECURITY_PROFILE_END

record jwt_t =
  jwt_header :: "json option"
  jwt_payload :: "json option"
  jwt_security_handler :: security_handler_t
  jwt_security_profile :: E_MCL_SECURITY_PROFILE
  jwt_issued_at :: int

definition JWT_EXPIRATION_TIME :: int where "JWT_EXPIRATION_TIME = 86400"

text \<open>
  The private functions of the JSON utilities do not check their pointers: a \<open>NULL\<close> value makes cJSON
  create nothing, which is not reported.
\<close>

definition add_string_pointer :: "json \<Rightarrow> string \<Rightarrow> string option \<Rightarrow> ('z, mcl_error \<times> json) io" where
  "add_string_pointer root object_name object_value =
     (case object_value of
        Some s \<Rightarrow> json_util_add_string root (Some object_name) s
      | None \<Rightarrow>
          (case json_util_get_object_item root object_name of
             Inr _ \<Rightarrow> State_Monad.return (MCL_JSON_NAME_DUPLICATION, root)
           | Inl _ \<Rightarrow> do { _ \<leftarrow> mcl_malloc; State_Monad.return (MCL_OK, root) }))"

definition create_self_issued_jwt_header :: "E_MCL_SECURITY_PROFILE \<Rightarrow> ('z, mcl_error \<times> json option) io" where
  "create_self_issued_jwt_header security_profile = do {
     (code, header) \<leftarrow> json_util_initialize MCL_JSON_OBJECT;
     (code, header) \<leftarrow> when_ok code header
       (on_pointer header (\<lambda>h. json_util_add_string h (Some ''typ'') ''JWT''));
     (code, header) \<leftarrow> when_ok code header
       (on_pointer header (\<lambda>h. json_util_add_string h (Some ''alg'')
          (if security_profile = MCL_SECURITY_SHARED_SECRET then ''HS256'' else ''RS256'')));
     State_Monad.return (code, if code = MCL_OK then header else None)
   }"

definition add_schema_to_jwt :: "json \<Rightarrow> ('z, mcl_error \<times> json) io" where
  "add_schema_to_jwt payload = do {
     (code, schemas_array, linked) \<leftarrow> json_util_start_array payload ''schemas'';
     (code, schemas_array) \<leftarrow> when_ok code schemas_array
       (on_pointer schemas_array (\<lambda>s. json_util_add_string s None ''urn:siemens:mindsphere:v1''));
     State_Monad.return (code, case link_child (Some payload) ''schemas'' schemas_array linked of
       Some p \<Rightarrow> p | None \<Rightarrow> payload)
   }"

definition get_time :: "('z, int) core_io" where
  "get_time = State (\<lambda>w. (w_time w, w))"

text \<open>The statements that fill the payload.\<close>

definition fill_jwt_payload ::
  "json \<Rightarrow> string option \<Rightarrow> string \<Rightarrow> string \<Rightarrow> int \<Rightarrow> ('z, mcl_error \<times> json) io" where
  "fill_jwt_payload payload client_id tenant jti current_time = do {
     (code, payload) \<leftarrow> add_string_pointer payload ''iss'' client_id;
     (code, payload) \<leftarrow> when_ok code payload (add_string_pointer payload ''sub'' client_id);
     (code, payload) \<leftarrow> when_ok code payload (json_util_add_string payload (Some ''aud'') ''southgate'');
     (code, payload) \<leftarrow> when_ok code payload (json_util_add_double payload (Some ''iat'') (Whole current_time));
     (code, payload) \<leftarrow> when_ok code payload (json_util_add_double payload (Some ''nbf'') (Whole current_time));
     (code, payload) \<leftarrow> when_ok code payload
       (let expiration = current_time + JWT_EXPIRATION_TIME in json_util_add_double payload (Some ''exp'') (Whole expiration));
     (code, payload) \<leftarrow> when_ok code payload (add_schema_to_jwt payload);
     (code, payload) \<leftarrow> when_ok code payload (json_util_add_string payload (Some ''ten'') tenant);
     when_ok code payload (json_util_add_string payload (Some ''jti'') jti)
   }"

definition create_self_issued_jwt_payload ::
  "security_handler_t \<Rightarrow> string \<Rightarrow> jwt_t \<Rightarrow> ('z, mcl_error \<times> jwt_t) core_io" where
  "create_self_issued_jwt_payload security_handler tenant jwt = do {
     (code, jti) \<leftarrow> security_handler_generate_jti;
     case jti of
       None \<Rightarrow> State_Monad.return (code, jwt)
     | Some jti \<Rightarrow> do {
         (code, payload) \<leftarrow> json_util_initialize MCL_JSON_OBJECT;
         case payload of
           None \<Rightarrow> State_Monad.return (code, jwt)
         | Some payload \<Rightarrow> do {
             current_time \<leftarrow> get_time;
             (code, payload) \<leftarrow> fill_jwt_payload payload (map_option snd (sh_client_id security_handler))
               tenant jti current_time;
             State_Monad.return (code, if code = MCL_OK
               then jwt\<lparr>jwt_payload := Some payload, jwt_issued_at := current_time\<rparr> else jwt)
           }
       }
   }"

definition jwt_initialize ::
  "security_handler_t \<Rightarrow> E_MCL_SECURITY_PROFILE \<Rightarrow> string \<Rightarrow> ('z, mcl_error \<times> jwt_t option) core_io" where
  "jwt_initialize security_handler security_profile tenant = do {
     a \<leftarrow> mcl_malloc;
     if \<not> a then State_Monad.return (MCL_OUT_OF_MEMORY, None)
     else do {
       (code, header) \<leftarrow> create_self_issued_jwt_header security_profile;
       if code \<noteq> MCL_OK then State_Monad.return (code, None)
       else do {
         (code, jwt) \<leftarrow> create_self_issued_jwt_payload security_handler tenant
           \<lparr>jwt_header = header, jwt_payload = None, jwt_security_handler = security_handler,
            jwt_security_profile = security_profile, jwt_issued_at = 0\<rparr>;
         State_Monad.return (if code = MCL_OK then (MCL_OK, Some jwt) else (code, None))
       }
     }
   }"

section \<open>The token\<close>

text \<open>Three copies into the block of the joined string.\<close>

definition join_with_dot :: "string \<Rightarrow> string \<Rightarrow> ('z, (mcl_error \<times> string option) option) io" where
  "join_with_dot string_a string_b = do {
     let joined_string_length = length string_a + 1 + length string_b;
     a \<leftarrow> mcl_malloc;
     State_Monad.return
       (if \<not> a then Some (MCL_OUT_OF_MEMORY, None)
        else do {
          joined \<leftarrow> string_util_memcpy (fresh_block (joined_string_length + 1)) 0 (cstr string_a) (length string_a);
          joined \<leftarrow> string_util_memcpy joined (length string_a) (cstr ''.'') 1;
          joined \<leftarrow> string_util_memcpy joined (length string_a + 1) (cstr string_b) (length string_b + 1);
          s \<leftarrow> block_string joined;
          Some (MCL_OK, Some s)
        })
   }"

definition get_header_and_payload_encoded_base64_url ::
  "string \<Rightarrow> string \<Rightarrow> ('z, (string \<times> string) result option) io" where
  "get_header_and_payload_encoded_base64_url header payload = do {
     h \<leftarrow> security_handler_base64_url_encode (string_bytes header) (length header);
     case h of
       None \<Rightarrow> State_Monad.return None
     | Some (Err _) \<Rightarrow> State_Monad.return (Some (Err MCL_FAIL))
     | Some (Ok header_encoded) \<Rightarrow> do {
         p \<leftarrow> security_handler_base64_url_encode (string_bytes payload) (length payload);
         State_Monad.return (case p of
             None \<Rightarrow> None
           | Some (Err _) \<Rightarrow> Some (Err MCL_FAIL)
           | Some (Ok payload_encoded) \<Rightarrow> Some (Ok (header_encoded, payload_encoded)))
       }
   }"

definition calculate_signature :: "openssl_t \<Rightarrow> jwt_t \<Rightarrow> string \<Rightarrow> ('z, string result option) io" where
  "calculate_signature openssl jwt header_and_payload = do {
     r \<leftarrow> (if jwt_security_profile jwt = MCL_SECURITY_SHARED_SECRET
           then security_handler_hmac_sha256 openssl (jwt_security_handler jwt) header_and_payload
           else security_handler_rsa_sign openssl (rsa_private_key (sh_rsa (jwt_security_handler jwt))) header_and_payload);
     case r of
       None \<Rightarrow> State_Monad.return None
     | Some (Err _) \<Rightarrow> State_Monad.return (Some (Err MCL_FAIL))
     | Some (Ok (hash, hash_size)) \<Rightarrow> do {
         s \<leftarrow> security_handler_base64_url_encode hash hash_size;
         State_Monad.return (map_option (map_sum (\<lambda>_. MCL_FAIL) id) s)
       }
   }"

definition generate_token ::
  "openssl_t \<Rightarrow> jwt_t \<Rightarrow> string \<Rightarrow> string \<Rightarrow> ('z, string result option) io" where
  "generate_token openssl jwt header payload = do {
     e \<leftarrow> get_header_and_payload_encoded_base64_url header payload;
     case e of
       None \<Rightarrow> State_Monad.return None
     | Some (Err code) \<Rightarrow> State_Monad.return (Some (Err code))
     | Some (Ok (header_encoded, payload_encoded)) \<Rightarrow> do {
         j \<leftarrow> join_with_dot header_encoded payload_encoded;
         case j of
           None \<Rightarrow> State_Monad.return None
         | Some (code, None) \<Rightarrow> State_Monad.return (Some (Err MCL_FAIL))
         | Some (code, Some header_and_payload) \<Rightarrow> do {
             s \<leftarrow> calculate_signature openssl jwt header_and_payload;
             case s of
               None \<Rightarrow> State_Monad.return None
             | Some (Err _) \<Rightarrow> State_Monad.return (Some (Err MCL_FAIL))
             | Some (Ok signature) \<Rightarrow> do {
                 t \<leftarrow> join_with_dot header_and_payload signature;
                 State_Monad.return (case t of
                     None \<Rightarrow> None
                   | Some (code, None) \<Rightarrow> Some (Err MCL_FAIL)
                   | Some (code, Some token) \<Rightarrow> Some (Ok token))
               }
           }
       }
   }"

text \<open>A token or \<open>NULL\<close>.\<close>

definition jwt_get_token :: "openssl_t \<Rightarrow> jwt_t \<Rightarrow> ('z, string option option) io" where
  "jwt_get_token openssl jwt = do {
     (code, header_json) \<leftarrow> mcl_json_util_to_string (jwt_header jwt);
     case header_json of
       None \<Rightarrow> State_Monad.return (Some None)
     | Some header_json \<Rightarrow> do {
         (code, payload_json) \<leftarrow> mcl_json_util_to_string (jwt_payload jwt);
         case payload_json of
           None \<Rightarrow> State_Monad.return (Some None)
         | Some payload_json \<Rightarrow> do {
             t \<leftarrow> generate_token openssl jwt header_json payload_json;
             State_Monad.return (map_option (case_sum (\<lambda>_. None) Some) t)
           }
       }
   }"

end
