(* ===== verification/MclCoreConfiguration.thy ===== *)
theory MclCoreConfiguration
  imports MclJwt
begin

text \<open>
  The configuration of the core: \<open>src/mcl_core/src/core_configuration.c\<close>. A callback is only present
  or not; what it returns is scripted in the world. A flag that was never written is \<open>None\<close>. The
  library is built with file support.
\<close>

section \<open>The configuration\<close>

record core_configuration_t =
  cc_mindsphere_hostname :: "string option"
  cc_mindsphere_port :: "16 word"
  cc_mindsphere_certificate :: "string option"
  cc_certificate_is_file :: "bool option"
  cc_proxy_hostname :: "string option"
  cc_proxy_port :: "16 word"
  cc_proxy_type :: int
  cc_proxy_username :: "string option"
  cc_proxy_password :: "string option"
  cc_proxy_domain :: "string option"
  cc_security_profile :: E_MCL_SECURITY_PROFILE
  cc_http_request_timeout :: "32 word"
  cc_user_agent :: "string option"
  cc_initial_access_token :: "string option"
  cc_register_endpoint :: "string option"
  cc_token_endpoint :: "string option"
  cc_tenant :: "string option"
  cc_credentials_load_callback :: bool
  cc_credentials_save_callback :: bool
  cc_critical_section_enter_callback :: bool
  cc_critical_section_leave_callback :: bool

definition DEFAULT_HTTP_REQUEST_TIMEOUT :: "32 word" where "DEFAULT_HTTP_REQUEST_TIMEOUT = 300"
definition MAXIMUM_HOST_NAME_LENGTH :: nat where "MAXIMUM_HOST_NAME_LENGTH = 256"
definition MAXIMUM_PROXY_USER_NAME_LENGTH :: nat where "MAXIMUM_PROXY_USER_NAME_LENGTH = 32"
definition MAXIMUM_PROXY_PASSWORD_LENGTH :: nat where "MAXIMUM_PROXY_PASSWORD_LENGTH = 32"
definition MAXIMUM_PROXY_DOMAIN_LENGTH :: nat where "MAXIMUM_PROXY_DOMAIN_LENGTH = 256"
definition MAXIMUM_USER_AGENT_LENGTH :: nat where "MAXIMUM_USER_AGENT_LENGTH = 512"
definition MCL_VERSION_STRING :: string where "MCL_VERSION_STRING = ''4.4.0''"

definition MCL_PROXY_UNKNOWN :: int where "MCL_PROXY_UNKNOWN = -1"
definition MCL_PROXY_HTTP :: int where "MCL_PROXY_HTTP = 0"
definition MCL_PROXY_END :: int where "MCL_PROXY_END = 8"

definition mcl_core_configuration_initialize :: "('z, mcl_error \<times> core_configuration_t option) io" where
  "mcl_core_configuration_initialize = do {
     a \<leftarrow> mcl_malloc;
     State_Monad.return
       (if a then (MCL_OK, Some \<lparr>cc_mindsphere_hostname = None, cc_mindsphere_port = 0,
          cc_mindsphere_certificate = None, cc_certificate_is_file = None, cc_proxy_hostname = None,
          cc_proxy_port = 0, cc_proxy_type = MCL_PROXY_UNKNOWN, cc_proxy_username = None,
          cc_proxy_password = None, cc_proxy_domain = None, cc_security_profile = MCL_SECURITY_SHARED_SECRET,
          cc_http_request_timeout = DEFAULT_HTTP_REQUEST_TIMEOUT, cc_user_agent = None,
          cc_initial_access_token = None, cc_register_endpoint = None, cc_token_endpoint = None,
          cc_tenant = None, cc_credentials_load_callback = False, cc_credentials_save_callback = False,
          cc_critical_section_enter_callback = False, cc_critical_section_leave_callback = False\<rparr>)
        else (MCL_OUT_OF_MEMORY, None))
   }"

text \<open>A parameter with the value its pointer leads to.\<close>

datatype core_configuration_parameter =
    CORE_MDSP_HOST string | CORE_MDSP_PORT "16 word" | CORE_CERTIFICATE string | CORE_CERTIFICATE_FILE string
  | CORE_PROXY_TYPE int | CORE_PROXY_HOST string | CORE_PROXY_PORT "16 word" | CORE_PROXY_USER string
  | CORE_PROXY_PASS string | CORE_PROXY_DOMAIN string | CORE_SECURITY_PROFILE E_MCL_SECURITY_PROFILE
  | CORE_MAX_HTTP_PAYLOAD_SIZE | CORE_HTTP_REQUEST_TIMEOUT "32 word" | CORE_USER_AGENT string
  | CORE_TENANT string | CORE_IAT string | CORE_CREDENTIALS_LOAD_CALLBACK | CORE_CREDENTIALS_SAVE_CALLBACK
  | CORE_CRITICAL_SECTION_ENTER_CALLBACK | CORE_CRITICAL_SECTION_LEAVE_CALLBACK | CORE_PARAMETER_END

text \<open>\<open>MCL/4.4.0 (value)\<close>, printed into a block of the computed length.\<close>

definition user_agent_header :: "string \<Rightarrow> ('z, mcl_error \<times> string option) io" where
  "user_agent_header value = do {
     let user_agent_length = 4 + length MCL_VERSION_STRING + 3 + length value;
     a \<leftarrow> mcl_malloc;
     State_Monad.return
       (if \<not> a then (MCL_OUT_OF_MEMORY, None)
        else (case snprintf_text (user_agent_length + 1) (''MCL/'' @ MCL_VERSION_STRING @ '' ('' @ value @ '')'') of
            Err code \<Rightarrow> (code, None) | Ok s \<Rightarrow> (MCL_OK, Some s)))
   }"

definition set_string ::
  "string \<Rightarrow> (string option \<Rightarrow> core_configuration_t) \<Rightarrow> ('z, mcl_error \<times> core_configuration_t) io" where
  "set_string value update = do { (code, f) \<leftarrow> reset_field value; State_Monad.return (code, update f) }"

definition mcl_core_configuration_set_parameter ::
  "core_configuration_t option \<Rightarrow> core_configuration_parameter option \<Rightarrow>
   ('z, mcl_error \<times> core_configuration_t option) io" where
  "mcl_core_configuration_set_parameter configuration parameter = on_pointer configuration (\<lambda>c.
     (case parameter of
        None \<Rightarrow> State_Monad.return (MCL_TRIGGERED_WITH_NULL, c)
      | Some p \<Rightarrow> (case p of
          CORE_MDSP_HOST s \<Rightarrow> set_string s (\<lambda>f. c\<lparr>cc_mindsphere_hostname := f\<rparr>)
        | CORE_MDSP_PORT n \<Rightarrow> State_Monad.return (MCL_OK, c\<lparr>cc_mindsphere_port := n\<rparr>)
        | CORE_CERTIFICATE s \<Rightarrow> set_string s
            (\<lambda>f. c\<lparr>cc_mindsphere_certificate := f, cc_certificate_is_file := Some False\<rparr>)
        | CORE_CERTIFICATE_FILE s \<Rightarrow> set_string s
            (\<lambda>f. c\<lparr>cc_mindsphere_certificate := f, cc_certificate_is_file := Some True\<rparr>)
        | CORE_PROXY_TYPE t \<Rightarrow> State_Monad.return
            (if MCL_PROXY_HTTP \<le> t \<and> t < MCL_PROXY_END then (MCL_OK, c\<lparr>cc_proxy_type := t\<rparr>)
             else (MCL_INVALID_PARAMETER, c))
        | CORE_PROXY_HOST s \<Rightarrow> set_string s (\<lambda>f. c\<lparr>cc_proxy_hostname := f\<rparr>)
        | CORE_PROXY_PORT n \<Rightarrow> State_Monad.return (MCL_OK, c\<lparr>cc_proxy_port := n\<rparr>)
        | CORE_PROXY_USER s \<Rightarrow> set_string s (\<lambda>f. c\<lparr>cc_proxy_username := f\<rparr>)
        | CORE_PROXY_PASS s \<Rightarrow> set_string s (\<lambda>f. c\<lparr>cc_proxy_password := f\<rparr>)
        | CORE_PROXY_DOMAIN s \<Rightarrow> set_string s (\<lambda>f. c\<lparr>cc_proxy_domain := f\<rparr>)
        | CORE_SECURITY_PROFILE profile \<Rightarrow> State_Monad.return
            (if profile \<noteq> MCL_SECURITY_PROFILE_END then (MCL_OK, c\<lparr>cc_security_profile := profile\<rparr>)
             else (MCL_INVALID_PARAMETER, c))
        | CORE_MAX_HTTP_PAYLOAD_SIZE \<Rightarrow> State_Monad.return (MCL_OK, c)
        | CORE_HTTP_REQUEST_TIMEOUT n \<Rightarrow> State_Monad.return (MCL_OK, c\<lparr>cc_http_request_timeout := n\<rparr>)
        | CORE_USER_AGENT s \<Rightarrow> do {
            (code, f) \<leftarrow> user_agent_header s;
            State_Monad.return (code, c\<lparr>cc_user_agent := f\<rparr>)
          }
        | CORE_TENANT s \<Rightarrow> set_string s (\<lambda>f. c\<lparr>cc_tenant := f\<rparr>)
        | CORE_IAT s \<Rightarrow> set_string s (\<lambda>f. c\<lparr>cc_initial_access_token := f\<rparr>)
        | CORE_CREDENTIALS_LOAD_CALLBACK \<Rightarrow> State_Monad.return (MCL_OK, c\<lparr>cc_credentials_load_callback := True\<rparr>)
        | CORE_CREDENTIALS_SAVE_CALLBACK \<Rightarrow> State_Monad.return (MCL_OK, c\<lparr>cc_credentials_save_callback := True\<rparr>)
        | CORE_CRITICAL_SECTION_ENTER_CALLBACK \<Rightarrow>
            State_Monad.return (MCL_OK, c\<lparr>cc_critical_section_enter_callback := True\<rparr>)
        | CORE_CRITICAL_SECTION_LEAVE_CALLBACK \<Rightarrow>
            State_Monad.return (MCL_OK, c\<lparr>cc_critical_section_leave_callback := True\<rparr>)
        | CORE_PARAMETER_END \<Rightarrow> State_Monad.return (MCL_INVALID_PARAMETER, c))))"

section \<open>Validation\<close>

text \<open>A string with at least one and at most \<open>maximum\<close> characters.\<close>

definition valid_length :: "string \<Rightarrow> nat \<Rightarrow> bool option" where
  "valid_length s maximum = do {
     n \<leftarrow> string_util_strnlen (cstr s) (maximum + 1);
     Some (0 < n \<and> n \<le> maximum)
   }"

definition validate_proxy_user :: "core_configuration_t \<Rightarrow> string \<Rightarrow> bool option" where
  "validate_proxy_user c username = do {
     u \<leftarrow> valid_length username MAXIMUM_PROXY_USER_NAME_LENGTH;
     if \<not> u then Some False
     else (case cc_proxy_password c of
         None \<Rightarrow> Some False
       | Some password \<Rightarrow> do {
           p \<leftarrow> valid_length password MAXIMUM_PROXY_PASSWORD_LENGTH;
           if \<not> p then Some False
           else (case cc_proxy_domain c of
               None \<Rightarrow> Some True
             | Some domain \<Rightarrow> valid_length domain MAXIMUM_PROXY_DOMAIN_LENGTH)
         })
   }"

definition validate_proxy :: "core_configuration_t \<Rightarrow> bool option" where
  "validate_proxy c =
     (case cc_proxy_hostname c of
        None \<Rightarrow> Some True
      | Some hostname \<Rightarrow> do {
          h \<leftarrow> valid_length hostname MAXIMUM_HOST_NAME_LENGTH;
          if \<not> h then Some False
          else (case cc_proxy_username c of
              None \<Rightarrow> Some True
            | Some username \<Rightarrow> validate_proxy_user c username)
        })"

definition core_configuration_validate :: "core_configuration_t \<Rightarrow> mcl_error option" where
  "core_configuration_validate configuration =
     (case cc_mindsphere_hostname configuration of
        None \<Rightarrow> Some MCL_INVALID_PARAMETER
      | Some hostname \<Rightarrow> do {
          h \<leftarrow> valid_length hostname MAXIMUM_HOST_NAME_LENGTH;
          if \<not> h then Some MCL_INVALID_PARAMETER
          else do {
            p \<leftarrow> validate_proxy configuration;
            if \<not> p then Some MCL_INVALID_PARAMETER
            else (case cc_user_agent configuration of
                None \<Rightarrow> Some MCL_INVALID_PARAMETER
              | Some user_agent \<Rightarrow> do {
                  u \<leftarrow> valid_length user_agent MAXIMUM_USER_AGENT_LENGTH;
                  if \<not> u then Some MCL_INVALID_PARAMETER
                  else Some (if cc_tenant configuration = None then MCL_INVALID_PARAMETER else MCL_OK)
                })
          }
        })"

end
