(* ===== verification/MclCoreProcessor.thy ===== *)
theory MclCoreProcessor
  imports MclCoreConfiguration
begin

text \<open>
  The core processor: \<open>src/mcl_core/src/core_processor.c\<close>. It onboards the agent and rotates its key
  at the register endpoint, updates credentials another process has changed, and asks for access
  tokens. The processor holds the configuration and the security handler; a step returns it changed.
  An undefined access is \<open>None\<close>; the cJSON parser is an argument.
\<close>

record core_processor_t =
  cpr_configuration :: core_configuration_t
  cpr_security_handler :: security_handler_t

text \<open>Both callbacks must be given for either to be used.\<close>

definition credentials_callbacks :: "core_configuration_t \<Rightarrow> bool" where
  "credentials_callbacks c \<longleftrightarrow> cc_credentials_load_callback c \<and> cc_credentials_save_callback c"

section \<open>Callbacks\<close>

definition load_credentials :: "('z, mcl_error \<times> credentials_t) core_io" where
  "load_credentials = State (\<lambda>w. case w_loads w of
      [] \<Rightarrow> ((MCL_CREDENTIALS_NOT_LOADED, no_credentials), w)
    | r # rs \<Rightarrow> (r, w\<lparr>w_loads := rs\<rparr>))"

definition call_save_callback :: "credentials_t \<Rightarrow> ('z, mcl_error) core_io" where
  "call_save_callback c = State (\<lambda>w. let w = w\<lparr>w_saved := w_saved w @ [c]\<rparr> in
      case w_saves w of [] \<Rightarrow> (MCL_OK, w) | r # rs \<Rightarrow> (r, w\<lparr>w_saves := rs\<rparr>))"

text \<open>A string that others point to gets an address.\<close>

definition new_address :: "string option \<Rightarrow> ('z, (nat \<times> string) option) core_io" where
  "new_address s = State (\<lambda>w. (map_option (\<lambda>t. (w_next w, t)) s, w\<lparr>w_next := Suc (w_next w)\<rparr>))"

definition custom_load_register_info ::
  "core_configuration_t \<Rightarrow> security_handler_t \<Rightarrow> ('z, mcl_error \<times> security_handler_t) core_io" where
  "custom_load_register_info configuration sh = do {
     (code, c) \<leftarrow> load_credentials;
     client_id \<leftarrow> new_address (cr_client_id c);
     let sh = sh\<lparr>sh_client_id := client_id,
       sh_registration_access_token := cr_registration_access_token c,
       sh_registration_uri := cr_registration_uri c\<rparr>;
     State_Monad.return (code,
       if cc_security_profile configuration = MCL_SECURITY_SHARED_SECRET
       then sh\<lparr>sh_client_secret := cr_client_secret c\<rparr>
       else sh\<lparr>sh_rsa := \<lparr>rsa_public_key = cr_public_key c, rsa_private_key = cr_private_key c\<rparr>\<rparr>)
   }"

definition save_credentials :: "core_configuration_t \<Rightarrow> security_handler_t \<Rightarrow> ('z, mcl_error) core_io" where
  "save_credentials configuration sh =
     (if \<not> credentials_callbacks configuration then State_Monad.return MCL_OK
      else (let c = \<lparr>cr_client_id = map_option snd (sh_client_id sh), cr_client_secret = None,
              cr_public_key = None, cr_private_key = None,
              cr_registration_access_token = sh_registration_access_token sh,
              cr_registration_uri = sh_registration_uri sh\<rparr>
            in call_save_callback
              (if cc_security_profile configuration = MCL_SECURITY_SHARED_SECRET
               then c\<lparr>cr_client_secret := sh_client_secret sh\<rparr>
               else c\<lparr>cr_public_key := rsa_public_key (sh_rsa sh), cr_private_key := rsa_private_key (sh_rsa sh)\<rparr>)))"

section \<open>Initialisation\<close>

definition load_initial_credentials ::
  "core_configuration_t \<Rightarrow> security_handler_t \<Rightarrow> ('z, mcl_error \<times> security_handler_t) core_io" where
  "load_initial_credentials configuration sh =
     (case cc_initial_access_token configuration of
        None \<Rightarrow> State_Monad.return (MCL_NO_ACCESS_TOKEN_PROVIDED, sh)
      | Some _ \<Rightarrow>
          if cc_security_profile configuration = MCL_SECURITY_RSA_3072
          then security_handler_generate_rsa_key sh
          else State_Monad.return (MCL_OK, sh))"

definition load_or_start ::
  "core_configuration_t \<Rightarrow> security_handler_t \<Rightarrow> ('z, mcl_error \<times> security_handler_t) core_io" where
  "load_or_start configuration sh =
     (if credentials_callbacks configuration
      then do {
        (code, sh) \<leftarrow> custom_load_register_info configuration sh;
        if code = MCL_CREDENTIALS_NOT_LOADED then load_initial_credentials configuration sh
        else State_Monad.return (code, sh)
      }
      else load_initial_credentials configuration sh)"

definition endpoint_uri_token :: string where "endpoint_uri_token = ''/api/agentmanagement/v3/oauth/token''"
definition endpoint_uri_register :: string where "endpoint_uri_register = ''/api/agentmanagement/v3/register''"

text \<open>The address of an endpoint, in a block of its own; a missing host name is undefined.\<close>

definition concatenate_endpoint :: "string option \<Rightarrow> string \<Rightarrow> ('z, (mcl_error \<times> string option) option) io" where
  "concatenate_endpoint hostname path =
     (case hostname of
        None \<Rightarrow> State_Monad.return None
      | Some h \<Rightarrow> do { (code, s) \<leftarrow> reset_field (h @ path); State_Monad.return (Some (code, s)) })"

definition destroyed_configuration :: "core_configuration_t \<Rightarrow> core_configuration_t" where
  "destroyed_configuration c = c\<lparr>cc_register_endpoint := None, cc_token_endpoint := None\<rparr>"

definition populate_endpoints ::
  "core_configuration_t \<Rightarrow> ('z, (mcl_error \<times> core_configuration_t) option) io" where
  "populate_endpoints c = do {
     r \<leftarrow> concatenate_endpoint (cc_mindsphere_hostname c) endpoint_uri_register;
     case r of
       None \<Rightarrow> State_Monad.return None
     | Some (code, e) \<Rightarrow>
         let c = c\<lparr>cc_register_endpoint := e\<rparr> in
         if code \<noteq> MCL_OK then State_Monad.return (Some (code, c))
         else do {
           r \<leftarrow> concatenate_endpoint (cc_mindsphere_hostname c) endpoint_uri_token;
           State_Monad.return (map_option (\<lambda>(code, e). (code, c\<lparr>cc_token_endpoint := e\<rparr>)) r)
         }
   }"

text \<open>
  The first two arguments are the results of the initialisations of the security module and of the
  HTTP client. The pointer to the processor is only written once the security module is there: before
  that it is \<open>None\<close>, afterwards \<open>Some\<close> of \<open>NULL\<close> or of the processor.
\<close>

definition core_processor_initialize ::
  "mcl_error \<Rightarrow> mcl_error \<Rightarrow> core_configuration_t \<Rightarrow>
   ('z, (mcl_error \<times> core_configuration_t \<times> core_processor_t option option) option) core_io" where
  "core_processor_initialize security_initialize http_client_initialize configuration =
     (if security_initialize \<noteq> MCL_OK
      then State_Monad.return (Some (security_initialize, configuration, None))
      else do {
        a \<leftarrow> mcl_malloc;
        if \<not> a then State_Monad.return (Some (MCL_OUT_OF_MEMORY, configuration, Some None))
        else if http_client_initialize \<noteq> MCL_OK
        then State_Monad.return (Some (http_client_initialize, destroyed_configuration configuration, Some None))
        else do {
          (code, handler) \<leftarrow> security_handler_initialize;
          case handler of
            None \<Rightarrow> State_Monad.return (Some (code, destroyed_configuration configuration, Some None))
          | Some sh \<Rightarrow> do {
              (code, sh) \<leftarrow> load_or_start configuration sh;
              if code \<noteq> MCL_OK
              then State_Monad.return (Some (code, destroyed_configuration configuration, Some None))
              else do {
                r \<leftarrow> populate_endpoints configuration;
                State_Monad.return (case r of
                    None \<Rightarrow> None
                  | Some (code, c) \<Rightarrow>
                      Some (if code = MCL_OK
                        then (MCL_OK, c, Some (Some \<lparr>cpr_configuration = c, cpr_security_handler = sh\<rparr>))
                        else (code, destroyed_configuration c, Some None)))
              }
            }
        }
      })"

section \<open>Payloads of the register endpoint\<close>

text \<open>
  The key is linked to its array before it is filled; the tree is only looked at when everything
  worked, so it is linked afterwards here.
\<close>

definition fill_key :: "json option \<Rightarrow> string \<Rightarrow> string \<Rightarrow> ('z, mcl_error \<times> json option) io" where
  "fill_key key public_exponent modulus = do {
     (code, key) \<leftarrow> on_pointer key (\<lambda>k. json_util_add_string k (Some ''e'') public_exponent);
     (code, key) \<leftarrow> when_ok code key (on_pointer key (\<lambda>k. json_util_add_string k (Some ''n'') modulus));
     (code, key) \<leftarrow> when_ok code key (on_pointer key (\<lambda>k. json_util_add_string k (Some ''kty'') ''RSA''));
     (code, kid) \<leftarrow> (if code = MCL_OK then random_generate_guid else State_Monad.return (code, None));
     when_ok code key (on_pointer key (\<lambda>k. add_string_pointer k ''kid'' kid))
   }"

definition add_jwks ::
  "openssl_t \<Rightarrow> json \<Rightarrow> security_handler_t \<Rightarrow> ('z, (mcl_error \<times> json) option) io" where
  "add_jwks openssl root sh =
     (case rsa_public_key (sh_rsa sh) of
        None \<Rightarrow> State_Monad.return None
      | Some public_key \<Rightarrow> do {
          r \<leftarrow> security_rsa_get_modulus_and_exponent openssl public_key;
          case r of
            None \<Rightarrow> State_Monad.return None
          | Some (Err code) \<Rightarrow> State_Monad.return (Some (code, root))
          | Some (Ok (modulus, public_exponent)) \<Rightarrow> do {
              (code, jwks, jwks_linked) \<leftarrow> json_util_start_object root ''jwks'';
              case jwks of
                None \<Rightarrow> State_Monad.return (Some (code, root))
              | Some jwks \<Rightarrow> do {
                  (code, keys, keys_linked) \<leftarrow> json_util_start_array jwks ''keys'';
                  case keys of
                    None \<Rightarrow> State_Monad.return (Some (code, root))
                  | Some keys \<Rightarrow> do {
                      (code, key) \<leftarrow> json_util_initialize MCL_JSON_OBJECT;
                      (code, key) \<leftarrow> when_ok code key (fill_key key public_exponent modulus);
                      let keys = (case key of None \<Rightarrow> keys | Some k \<Rightarrow> json_util_add_item_to_array keys k);
                      let jwks = link_child (Some jwks) ''keys'' (Some keys) keys_linked;
                      State_Monad.return (map_option (\<lambda>r. (code, r)) (link_child (Some root) ''jwks'' jwks jwks_linked))
                    }
                }
            }
        })"

definition compose_rsa_onboarding_json ::
  "openssl_t \<Rightarrow> security_handler_t \<Rightarrow> ('z, (mcl_error \<times> string option) option) io" where
  "compose_rsa_onboarding_json openssl sh = do {
     (code, root) \<leftarrow> json_util_initialize MCL_JSON_OBJECT;
     case root of
       None \<Rightarrow> State_Monad.return (Some (code, None))
     | Some root \<Rightarrow> do {
         r \<leftarrow> add_jwks openssl root sh;
         case r of
           None \<Rightarrow> State_Monad.return None
         | Some (code, root) \<Rightarrow> do {
             (code, payload) \<leftarrow> when_ok code None (json_util_to_string root);
             State_Monad.return (Some (code, if code = MCL_OK then payload else None))
           }
       }
   }"

text \<open>The key pair in use is released before the new one is generated.\<close>

definition compose_rsa_key_rotation_json ::
  "openssl_t \<Rightarrow> security_handler_t \<Rightarrow>
   ('z, (mcl_error \<times> security_handler_t \<times> string option) option) core_io" where
  "compose_rsa_key_rotation_json openssl sh = do {
     (code, sh) \<leftarrow> security_handler_generate_rsa_key
       (sh\<lparr>sh_rsa := \<lparr>rsa_public_key = None, rsa_private_key = None\<rparr>\<rparr>);
     (code, root) \<leftarrow> when_ok code None (json_util_initialize MCL_JSON_OBJECT);
     case root of
       None \<Rightarrow> State_Monad.return (Some (code, sh, None))
     | Some root \<Rightarrow> do {
         (code, root) \<leftarrow> add_string_pointer root ''client_id'' (map_option snd (sh_client_id sh));
         r \<leftarrow> (if code = MCL_OK then add_jwks openssl root sh else State_Monad.return (Some (code, root)));
         case r of
           None \<Rightarrow> State_Monad.return None
         | Some (code, root) \<Rightarrow> do {
             (code, payload) \<leftarrow> when_ok code None (json_util_to_string root);
             State_Monad.return (Some (code, sh, if code = MCL_OK then payload else None))
           }
       }
   }"

section \<open>The register endpoint\<close>

text \<open>What a registration sends (lengths are cut to 32 bits): token, method and address depend on whether the agent is onboarded.\<close>

record registration_t =
  rg_payload :: string
  rg_token :: "string option"
  rg_method :: E_MCL_HTTP_METHOD
  rg_uri :: "string option"

definition onboarding_payload ::
  "openssl_t \<Rightarrow> core_processor_t \<Rightarrow> ('z, (mcl_error \<times> core_processor_t \<times> string option) option) core_io" where
  "onboarding_payload openssl p =
     (case cc_security_profile (cpr_configuration p) of
        MCL_SECURITY_SHARED_SECRET \<Rightarrow> do {
          a \<leftarrow> mcl_malloc;
          State_Monad.return (Some
            (if \<not> a then (MCL_OUT_OF_MEMORY, p, None)
             else (case snprintf_text (2 + 1) ''{}'' of Err code \<Rightarrow> (code, p, None) | Ok s \<Rightarrow> (MCL_OK, p, Some s))))
        }
      | MCL_SECURITY_RSA_3072 \<Rightarrow> do {
          r \<leftarrow> compose_rsa_onboarding_json openssl (cpr_security_handler p);
          State_Monad.return (map_option (\<lambda>(code, payload). (code, p, payload)) r)
        }
      | MCL_SECURITY_PROFILE_END \<Rightarrow> State_Monad.return (Some (MCL_FAIL, p, None)))"

definition key_rotation_payload ::
  "openssl_t \<Rightarrow> core_processor_t \<Rightarrow> ('z, (mcl_error \<times> core_processor_t \<times> string option) option) core_io" where
  "key_rotation_payload openssl p =
     (case cc_security_profile (cpr_configuration p) of
        MCL_SECURITY_SHARED_SECRET \<Rightarrow>
          (case sh_client_id (cpr_security_handler p) of
             None \<Rightarrow> State_Monad.return None
           | Some (_, client_id) \<Rightarrow> do {
               let payload_length = ((length ''{\"client_id\":\"%s\"}'' + 1 - 3) + length client_id + 1) mod 2 ^ 32;
               a \<leftarrow> mcl_malloc;
               State_Monad.return (Some
                 (if \<not> a then (MCL_OUT_OF_MEMORY, p, None)
                  else (case snprintf_text payload_length (''{\"client_id\":\"'' @ client_id @ ''\"}'') of
                      Err code \<Rightarrow> (code, p, None) | Ok s \<Rightarrow> (MCL_OK, p, Some s))))
             })
      | MCL_SECURITY_RSA_3072 \<Rightarrow> do {
          r \<leftarrow> compose_rsa_key_rotation_json openssl (cpr_security_handler p);
          State_Monad.return (map_option (\<lambda>(code, sh, payload). (code, p\<lparr>cpr_security_handler := sh\<rparr>, payload)) r)
        }
      | MCL_SECURITY_PROFILE_END \<Rightarrow> State_Monad.return (Some (MCL_FAIL, p, None)))"

definition compose_registration ::
  "openssl_t \<Rightarrow> core_processor_t \<Rightarrow> ('z, (mcl_error \<times> core_processor_t \<times> registration_t option) option) core_io" where
  "compose_registration openssl p =
     (case sh_registration_access_token (cpr_security_handler p) of
        None \<Rightarrow> do {
          r \<leftarrow> onboarding_payload openssl p;
          State_Monad.return (map_option (\<lambda>(code, p, payload). (code, p, map_option (\<lambda>s.
            \<lparr>rg_payload = s, rg_token = cc_initial_access_token (cpr_configuration p),
             rg_method = MCL_HTTP_POST, rg_uri = cc_register_endpoint (cpr_configuration p)\<rparr>) payload)) r)
        }
      | Some token \<Rightarrow> do {
          r \<leftarrow> key_rotation_payload openssl p;
          State_Monad.return (map_option (\<lambda>(code, p, payload). (code, p, map_option (\<lambda>s.
            \<lparr>rg_payload = s, rg_token = Some token,
             rg_method = MCL_HTTP_PUT, rg_uri = sh_registration_uri (cpr_security_handler p)\<rparr>) payload)) r)
        })"

text \<open>The digits of every byte are printed with their terminator, each over the last terminator.\<close>

fun print_bytes :: "8 word list \<Rightarrow> nat \<Rightarrow> char block \<Rightarrow> (mcl_error \<times> char block) option" where
  "print_bytes [] index cid = Some (MCL_OK, cid)"
| "print_bytes (b # bs) index cid = do {
     (code, printed) \<leftarrow> string_util_snprintf (drop (index * 2) cid) 3 (Some (hex2 (unat b)));
     let cid = take (index * 2) cid @ printed;
     if code = MCL_OK then print_bytes bs (Suc index) cid else Some (code, cid)
   }"

definition core_correlation_id :: "('z, (mcl_error \<times> string option) option) io" where
  "core_correlation_id = do {
     r \<leftarrow> mcl_random_generate_bytes 16;
     case r of
       Err code \<Rightarrow> State_Monad.return (Some (code, None))
     | Ok random_bytes \<Rightarrow> do {
         a \<leftarrow> mcl_malloc;
         State_Monad.return
           (if \<not> a then Some (MCL_OUT_OF_MEMORY, None)
            else do {
              (code, b) \<leftarrow> print_bytes random_bytes 0 (fresh_block (16 * 2 + 1));
              if code \<noteq> MCL_OK then Some (code, None)
              else do { s \<leftarrow> block_string b; Some (MCL_OK, Some s) }
            })
       }
   }"

text \<open>The body is the payload with its terminator.\<close>

definition registration_request ::
  "registration_t \<Rightarrow> string \<Rightarrow> ('z, mcl_error \<times> mcl_http_request_t option) io" where
  "registration_request rg auth_header_value = do {
     (code, rq) \<leftarrow> mcl_http_request_initialize;
     (code, rq) \<leftarrow> when_ok code rq
       (mcl_http_request_set_parameter rq (Some (MCL_HTTP_REQUEST_PARAMETER_METHOD (rg_method rg))));
     (code, rq) \<leftarrow> when_ok code rq
       (mcl_http_request_set_parameter rq (map_option MCL_HTTP_REQUEST_PARAMETER_URL (rg_uri rg)));
     (code, rq) \<leftarrow> when_ok code rq
       (mcl_http_request_set_parameter rq (Some (MCL_HTTP_REQUEST_PARAMETER_BODY (map Some (cstr (rg_payload rg))))));
     (code, rq) \<leftarrow> when_ok code rq
       (mcl_http_request_set_parameter rq (Some (MCL_HTTP_REQUEST_PARAMETER_BODY_SIZE (length (rg_payload rg)))));
     (code, rq) \<leftarrow> when_ok code rq
       (mcl_http_request_add_header rq (Some (http_header_names HTTP_HEADER_CONTENT_TYPE)) (Some ''application/json''));
     (code, rq) \<leftarrow> when_ok code rq
       (mcl_http_request_add_header rq (Some (http_header_names HTTP_HEADER_ACCEPT)) (Some ''application/json''));
     when_ok code rq
       (mcl_http_request_add_header rq (Some (http_header_names HTTP_HEADER_AUTHORIZATION)) (Some auth_header_value))
   }"

definition add_core_correlation_id ::
  "mcl_error \<Rightarrow> mcl_http_request_t option \<Rightarrow> ('z, (mcl_error \<times> mcl_http_request_t option) option) io" where
  "add_core_correlation_id code rq =
     (if code \<noteq> MCL_OK then State_Monad.return (Some (code, rq))
      else do {
        r \<leftarrow> core_correlation_id;
        case r of
          None \<Rightarrow> State_Monad.return None
        | Some (code, None) \<Rightarrow> State_Monad.return (Some (code, rq))
        | Some (code, Some cid) \<Rightarrow> do {
            (code, rq) \<leftarrow> mcl_http_request_add_header rq
              (Some (http_header_names HTTP_HEADER_CORRELATION_ID)) (Some cid);
            State_Monad.return (Some (code, rq))
          }
      })"

section \<open>The answer of the register endpoint\<close>

text \<open>A named member of the answer, and its string.\<close>

definition parse_payload :: "(string \<Rightarrow> json option) \<Rightarrow> mcl_http_response_t \<Rightarrow> json result" where
  "parse_payload cJSON_parse response =
     (case rs_payload response of
        None \<Rightarrow> Err MCL_FAIL
      | Some payload \<Rightarrow> json_util_parse cJSON_parse payload (rs_payload_size response))"

fun get_members :: "json \<Rightarrow> string list \<Rightarrow> json list result" where
  "get_members root [] = Ok []"
| "get_members root (key # keys) =
     (case json_util_get_object_item root key of
        Err code \<Rightarrow> Err code
      | Ok j \<Rightarrow> (case get_members root keys of Err code \<Rightarrow> Err code | Ok js \<Rightarrow> Ok (j # js)))"

fun get_strings :: "json list \<Rightarrow> ('z, string option list result) io" where
  "get_strings [] = State_Monad.return (Ok [])"
| "get_strings (j # js) = do {
     (code, s) \<leftarrow> json_util_get_string j;
     if code \<noteq> MCL_OK then State_Monad.return (Err code)
     else do {
       r \<leftarrow> get_strings js;
       State_Monad.return (case r of Err code \<Rightarrow> Err code | Ok ss \<Rightarrow> Ok (s # ss))
     }
   }"

text \<open>The members are all looked up before the strings are copied.\<close>

definition parse_members ::
  "(string \<Rightarrow> json option) \<Rightarrow> mcl_http_response_t \<Rightarrow> string list \<Rightarrow> ('z, string option list result) io" where
  "parse_members cJSON_parse response keys =
     (case parse_payload cJSON_parse response of
        Err code \<Rightarrow> State_Monad.return (Err code)
      | Ok root \<Rightarrow> (case get_members root keys of
            Err code \<Rightarrow> State_Monad.return (Err code)
          | Ok js \<Rightarrow> get_strings js))"

definition process_registration_response_shared_secret ::
  "(string \<Rightarrow> json option) \<Rightarrow> core_processor_t \<Rightarrow> mcl_http_response_t \<Rightarrow>
   ('z, mcl_error \<times> core_processor_t) core_io" where
  "process_registration_response_shared_secret cJSON_parse p response = do {
     r \<leftarrow> parse_members cJSON_parse response
       [''client_id'', ''client_secret'', ''registration_access_token'', ''registration_client_uri''];
     case r of
       Ok [client_id, client_secret, registration_access_token, registration_uri] \<Rightarrow> do {
         client_id \<leftarrow> new_address client_id;
         State_Monad.return (MCL_OK, p\<lparr>cpr_security_handler := (cpr_security_handler p)
           \<lparr>sh_client_id := client_id, sh_client_secret := client_secret,
            sh_registration_access_token := registration_access_token, sh_registration_uri := registration_uri\<rparr>\<rparr>)
       }
     | Ok _ \<Rightarrow> State_Monad.return (MCL_FAIL, p)
     | Err code \<Rightarrow> State_Monad.return (code, p)
   }"

definition process_registration_response_rsa_3072 ::
  "(string \<Rightarrow> json option) \<Rightarrow> core_processor_t \<Rightarrow> mcl_http_response_t \<Rightarrow>
   ('z, mcl_error \<times> core_processor_t) core_io" where
  "process_registration_response_rsa_3072 cJSON_parse p response = do {
     r \<leftarrow> parse_members cJSON_parse response
       [''client_id'', ''registration_access_token'', ''registration_client_uri''];
     case r of
       Ok [client_id, registration_access_token, registration_uri] \<Rightarrow> do {
         client_id \<leftarrow> new_address client_id;
         State_Monad.return (MCL_OK, p\<lparr>cpr_security_handler := (cpr_security_handler p)
           \<lparr>sh_client_id := client_id, sh_registration_access_token := registration_access_token,
            sh_registration_uri := registration_uri\<rparr>\<rparr>)
       }
     | Ok _ \<Rightarrow> State_Monad.return (MCL_FAIL, p)
     | Err code \<Rightarrow> State_Monad.return (code, p)
   }"

definition registration_code :: "core_processor_t \<Rightarrow> mcl_http_response_t \<Rightarrow> mcl_error" where
  "registration_code p response =
     (let server_response = mcl_http_response_get_status (Some response) in
      if sh_registration_access_token (cpr_security_handler p) = None
      then (if server_response = MCL_OK then MCL_UNEXPECTED_RESULT_CODE
            else if server_response = MCL_CREATED then MCL_OK else server_response)
      else server_response)"

definition process_registration_response ::
  "(string \<Rightarrow> json option) \<Rightarrow> core_processor_t \<Rightarrow> mcl_http_response_t \<Rightarrow>
   ('z, mcl_error \<times> core_processor_t) core_io" where
  "process_registration_response cJSON_parse p response =
     (let code = registration_code p response in
      if code \<noteq> MCL_OK then State_Monad.return (code, p)
      else do {
        (code, p) \<leftarrow> (if cc_security_profile (cpr_configuration p) = MCL_SECURITY_SHARED_SECRET
          then process_registration_response_shared_secret cJSON_parse p response
          else process_registration_response_rsa_3072 cJSON_parse p response);
        if code \<noteq> MCL_OK then State_Monad.return (code, p)
        else do {
          code \<leftarrow> save_credentials (cpr_configuration p) (cpr_security_handler p);
          State_Monad.return (code, p)
        }
      })"

definition auth_header :: "string \<Rightarrow> ('z, string result) io" where
  "auth_header token_for_auth = do {
     let auth_header_value_length = ((length ''Bearer %s'' + 1 - 3) + length token_for_auth + 1) mod 2 ^ 32;
     a \<leftarrow> mcl_malloc;
     State_Monad.return
       (if a then snprintf_text auth_header_value_length (''Bearer '' @ token_for_auth) else Err MCL_OUT_OF_MEMORY)
   }"

definition send_registration ::
  "(string \<Rightarrow> json option) \<Rightarrow> core_processor_t \<Rightarrow> registration_t \<Rightarrow> string \<Rightarrow>
   ('z, (mcl_error \<times> core_processor_t) option) core_io" where
  "send_registration cJSON_parse p rg auth_header_value = do {
     (code, rq) \<leftarrow> registration_request rg auth_header_value;
     r \<leftarrow> add_core_correlation_id code rq;
     case r of
       Some (code, Some request) \<Rightarrow>
         if code \<noteq> MCL_OK then State_Monad.return (Some (code, p))
         else do {
           answer \<leftarrow> mcl_http_client_send request;
           case answer of
             Err code \<Rightarrow> State_Monad.return (Some (code, p))
           | Ok response \<Rightarrow> do {
               r \<leftarrow> process_registration_response cJSON_parse p response;
               State_Monad.return (Some r)
             }
         }
     | Some (code, None) \<Rightarrow> State_Monad.return (Some (code, p))
     | None \<Rightarrow> State_Monad.return None
   }"

definition core_processor_register ::
  "openssl_t \<Rightarrow> (string \<Rightarrow> json option) \<Rightarrow> core_processor_t \<Rightarrow>
   ('z, (mcl_error \<times> core_processor_t) option) core_io" where
  "core_processor_register openssl cJSON_parse p = do {
     r \<leftarrow> compose_registration openssl p;
     case r of
       None \<Rightarrow> State_Monad.return None
     | Some (code, p, None) \<Rightarrow> State_Monad.return (Some (code, p))
     | Some (code, p, Some rg) \<Rightarrow>
         (case rg_token rg of
            None \<Rightarrow> State_Monad.return None
          | Some token_for_auth \<Rightarrow> do {
              h \<leftarrow> auth_header token_for_auth;
              case h of
                Err code \<Rightarrow> State_Monad.return (Some (code, p))
              | Ok auth_header_value \<Rightarrow> send_registration cJSON_parse p rg auth_header_value
            })
   }"

section \<open>Updating the credentials\<close>

text \<open>Lengths are compared first; the length of a \<open>NULL\<close> string is undefined.\<close>

definition same_string :: "string option \<Rightarrow> string option \<Rightarrow> mcl_error option" where
  "same_string a b =
     (case (a, b) of
        (Some s, Some t) \<Rightarrow>
          if length s = length t then string_util_strncmp (cstr s) (cstr t) (length t)
          else Some MCL_FAIL
      | _ \<Rightarrow> None)"

definition check_client_secret :: "security_handler_t \<Rightarrow> string option \<Rightarrow> string option \<Rightarrow> mcl_error option" where
  "check_client_secret sh registration_access_token client_secret = do {
     code \<leftarrow> same_string client_secret (sh_client_secret sh);
     if code = MCL_OK then same_string registration_access_token (sh_registration_access_token sh)
     else Some code
   }"

definition check_rsa_private_key :: "security_handler_t \<Rightarrow> string option \<Rightarrow> mcl_error option" where
  "check_rsa_private_key sh private_key = same_string private_key (rsa_private_key (sh_rsa sh))"

text \<open>Whether the loaded credentials are those of the same client, and not the ones in use.\<close>

definition compare_credentials :: "core_processor_t \<Rightarrow> credentials_t \<Rightarrow> mcl_error option" where
  "compare_credentials p c = do {
     let sh = cpr_security_handler p;
     code \<leftarrow> same_string (cr_client_id c) (map_option snd (sh_client_id sh));
     if code \<noteq> MCL_OK then Some code
     else do {
       code \<leftarrow> (if cc_security_profile (cpr_configuration p) = MCL_SECURITY_SHARED_SECRET
         then check_client_secret sh (cr_registration_access_token c) (cr_client_secret c)
         else check_rsa_private_key sh (cr_private_key c));
       Some (if code = MCL_OK then MCL_CREDENTIALS_UP_TO_DATE else MCL_OK)
     }
   }"

definition core_processor_update_credentials ::
  "core_processor_t \<Rightarrow> ('z, (mcl_error \<times> core_processor_t) option) core_io" where
  "core_processor_update_credentials p =
     (if \<not> credentials_callbacks (cpr_configuration p) then State_Monad.return (Some (MCL_FAIL, p))
      else do {
        (code, c) \<leftarrow> load_credentials;
        if code \<noteq> MCL_OK then State_Monad.return (Some (code, p))
        else (let shared = cc_security_profile (cpr_configuration p) = MCL_SECURITY_SHARED_SECRET in
          State_Monad.return (map_option (\<lambda>code.
            (code, if code \<noteq> MCL_OK then p
             else p\<lparr>cpr_security_handler := (cpr_security_handler p)
               \<lparr>sh_registration_access_token := cr_registration_access_token c,
                sh_client_secret := (if shared then cr_client_secret c else None),
                sh_rsa := (if shared then \<lparr>rsa_public_key = None, rsa_private_key = None\<rparr>
                  else \<lparr>rsa_public_key = cr_public_key c, rsa_private_key = cr_private_key c\<rparr>)\<rparr>\<rparr>))
            (compare_credentials p c)))
      })"

section \<open>Access tokens\<close>

definition access_token_request_head :: string where
  "access_token_request_head = ''grant_type=client_credentials&client_assertion_type=urn:ietf:params:oauth:client-assertion-type:jwt-bearer&client_assertion=''"

definition compose_access_token_request_payload ::
  "openssl_t \<Rightarrow> core_processor_t \<Rightarrow> ('z, string result option) core_io" where
  "compose_access_token_request_payload openssl p =
     (case cc_tenant (cpr_configuration p) of
        None \<Rightarrow> State_Monad.return None
      | Some tenant \<Rightarrow> do {
          (code, jwt) \<leftarrow> jwt_initialize (cpr_security_handler p) (cc_security_profile (cpr_configuration p)) tenant;
          case jwt of
            None \<Rightarrow> State_Monad.return (Some (Err code))
          | Some jwt \<Rightarrow> do {
              t \<leftarrow> jwt_get_token openssl jwt;
              case t of
                None \<Rightarrow> State_Monad.return None
              | Some None \<Rightarrow> State_Monad.return (Some (Err MCL_FAIL))
              | Some (Some jwt_string) \<Rightarrow> do {
                  (code, payload) \<leftarrow> reset_field (access_token_request_head @ jwt_string);
                  State_Monad.return (Some (case payload of None \<Rightarrow> Err code | Some s \<Rightarrow> Ok s))
                }
            }
        })"

text \<open>The correlation id is added before the body.\<close>

definition access_token_request_start ::
  "core_processor_t \<Rightarrow> ('z, mcl_error \<times> mcl_http_request_t option) io" where
  "access_token_request_start p = do {
     (code, rq) \<leftarrow> mcl_http_request_initialize;
     (code, rq) \<leftarrow> when_ok code rq
       (mcl_http_request_set_parameter rq (Some (MCL_HTTP_REQUEST_PARAMETER_METHOD MCL_HTTP_POST)));
     (code, rq) \<leftarrow> when_ok code rq
       (mcl_http_request_set_parameter rq
          (map_option MCL_HTTP_REQUEST_PARAMETER_URL (cc_token_endpoint (cpr_configuration p))));
     when_ok code rq
       (mcl_http_request_add_header rq (Some (http_header_names HTTP_HEADER_CONTENT_TYPE))
          (Some ''application/x-www-form-urlencoded''))
   }"

definition access_token_request ::
  "core_processor_t \<Rightarrow> string \<Rightarrow> ('z, (mcl_error \<times> mcl_http_request_t option) option) io" where
  "access_token_request p request_payload = do {
     (code, rq) \<leftarrow> access_token_request_start p;
     r \<leftarrow> add_core_correlation_id code rq;
     case r of
       None \<Rightarrow> State_Monad.return None
     | Some (code, rq) \<Rightarrow> do {
         (code, rq) \<leftarrow> when_ok code rq
           (mcl_http_request_set_parameter rq (Some (MCL_HTTP_REQUEST_PARAMETER_BODY (map Some (cstr request_payload)))));
         (code, rq) \<leftarrow> when_ok code rq
           (mcl_http_request_set_parameter rq (Some (MCL_HTTP_REQUEST_PARAMETER_BODY_SIZE (length request_payload))));
         State_Monad.return (Some (code, rq))
       }
   }"

definition set_access_token :: "core_processor_t \<Rightarrow> string option \<Rightarrow> core_processor_t" where
  "set_access_token p token = p\<lparr>cpr_security_handler := (cpr_security_handler p)\<lparr>sh_access_token := token\<rparr>\<rparr>"

text \<open>The server time is optional; the status decides over the token.\<close>

definition take_server_time ::
  "core_processor_t \<Rightarrow> mcl_http_response_t \<Rightarrow> ('z, core_processor_t option) io" where
  "take_server_time p response = do {
     r \<leftarrow> mcl_http_response_get_header (Some response) (Some (http_header_names HTTP_HEADER_SERVER_TIME));
     State_Monad.return (case r of
         None \<Rightarrow> None
       | Some (Err _) \<Rightarrow> Some p
       | Some (Ok t) \<Rightarrow> Some (p\<lparr>cpr_security_handler := (cpr_security_handler p)\<lparr>sh_last_token_time := Some t\<rparr>\<rparr>))
   }"

definition take_access_token ::
  "(string \<Rightarrow> json option) \<Rightarrow> core_processor_t \<Rightarrow> mcl_http_response_t \<Rightarrow> ('z, mcl_error \<times> core_processor_t) io" where
  "take_access_token cJSON_parse p response =
     (let code = mcl_http_response_get_status (Some response) in
      if code \<noteq> MCL_OK then State_Monad.return (code, set_access_token p None)
      else do {
        r \<leftarrow> (case parse_payload cJSON_parse response of
            Err code \<Rightarrow> State_Monad.return (code, None)
          | Ok root \<Rightarrow> (case json_util_get_object_item root ''access_token'' of
                Err code \<Rightarrow> State_Monad.return (code, None)
              | Ok j \<Rightarrow> json_util_get_string j));
        State_Monad.return (fst r, set_access_token p (snd r))
      })"

definition core_processor_get_access_token ::
  "openssl_t \<Rightarrow> (string \<Rightarrow> json option) \<Rightarrow> core_processor_t \<Rightarrow>
   ('z, (mcl_error \<times> core_processor_t) option) core_io" where
  "core_processor_get_access_token openssl cJSON_parse p = do {
     c \<leftarrow> compose_access_token_request_payload openssl p;
     case c of
       None \<Rightarrow> State_Monad.return None
     | Some (Err code) \<Rightarrow> State_Monad.return (Some (code, set_access_token p None))
     | Some (Ok request_payload) \<Rightarrow> do {
         r \<leftarrow> access_token_request p request_payload;
         case r of
           None \<Rightarrow> State_Monad.return None
         | Some (code, None) \<Rightarrow> State_Monad.return (Some (code, set_access_token p None))
         | Some (code, Some request) \<Rightarrow>
             if code \<noteq> MCL_OK then State_Monad.return (Some (code, set_access_token p None))
             else do {
               answer \<leftarrow> mcl_http_client_send request;
               case answer of
                 Err code \<Rightarrow> State_Monad.return (Some (code, set_access_token p None))
               | Ok response \<Rightarrow> do {
                   t \<leftarrow> take_server_time p response;
                   case t of
                     None \<Rightarrow> State_Monad.return None
                   | Some p \<Rightarrow> do {
                       r \<leftarrow> take_access_token cJSON_parse p response;
                       State_Monad.return (Some r)
                     }
                 }
             }
       }
   }"

end
