(* ===== verification/MclCore.thy ===== *)
theory MclCore
  imports MclCoreProcessor
begin

text \<open>
  The interface of the core library: \<open>src/mcl_core/src/core.c\<close>. A handle is a pointer, so it may be
  \<open>NULL\<close>. Onboarding, key rotation and the update of credentials run inside the critical section of
  the user when both callbacks are given.
\<close>

record core_t =
  core_configuration :: core_configuration_t
  core_processor :: core_processor_t

text \<open>
  A failed initialisation of the security module leaves the pointer to the processor unwritten; the
  destruction of the core that follows would read it.
\<close>

definition mcl_core_initialize ::
  "mcl_error \<Rightarrow> mcl_error \<Rightarrow> core_configuration_t option \<Rightarrow>
   ('z, (mcl_error \<times> core_configuration_t option \<times> core_t option) option) core_io" where
  "mcl_core_initialize security_initialize http_client_initialize configuration =
     (case configuration of
        None \<Rightarrow> State_Monad.return (Some (MCL_TRIGGERED_WITH_NULL, None, None))
      | Some c \<Rightarrow>
          (case core_configuration_validate c of
             None \<Rightarrow> State_Monad.return None
           | Some code \<Rightarrow>
               if code \<noteq> MCL_OK then State_Monad.return (Some (code, Some c, None))
               else do {
                 a \<leftarrow> mcl_malloc;
                 if \<not> a then State_Monad.return (Some (MCL_OUT_OF_MEMORY, Some c, None))
                 else do {
                   r \<leftarrow> core_processor_initialize security_initialize http_client_initialize c;
                   State_Monad.return (case r of
                       None \<Rightarrow> None
                     | Some (code, c, None) \<Rightarrow> None
                     | Some (code, c, Some None) \<Rightarrow> Some (code, Some c, None)
                     | Some (code, c, Some (Some p)) \<Rightarrow>
                         Some (code, Some c, Some \<lparr>core_configuration = c, core_processor = p\<rparr>))
                 }
               }))"

definition mcl_core_is_onboarded :: "core_t option \<Rightarrow> bool" where
  "mcl_core_is_onboarded core =
     (case core of
        None \<Rightarrow> False
      | Some c \<Rightarrow> sh_registration_access_token (cpr_security_handler (core_processor c)) \<noteq> None)"

section \<open>The critical section\<close>

definition section_callbacks :: "core_configuration_t \<Rightarrow> bool" where
  "section_callbacks c \<longleftrightarrow> cc_critical_section_enter_callback c \<and> cc_critical_section_leave_callback c"

definition critical_section_enter :: "('z, mcl_error) core_io" where
  "critical_section_enter = State (\<lambda>w. case w_enters w of
      [] \<Rightarrow> (MCL_OK, w\<lparr>w_section := w_section w @ [True]\<rparr>)
    | r # rs \<Rightarrow> (r, w\<lparr>w_enters := rs,
        w_section := (if r = MCL_OK then w_section w @ [True] else w_section w)\<rparr>))"

definition critical_section_leave :: "('z, unit) core_io" where
  "critical_section_leave = State (\<lambda>w. ((), w\<lparr>w_section := w_section w @ [False]\<rparr>))"

text \<open>An operation inside the critical section; where it cannot be entered its code is returned.\<close>

definition in_critical_section ::
  "core_t \<Rightarrow> ('z, (mcl_error \<times> core_t) option) core_io \<Rightarrow> ('z, (mcl_error \<times> core_t) option) core_io" where
  "in_critical_section c operation =
     (if \<not> section_callbacks (core_configuration c) then operation
      else do {
        code \<leftarrow> critical_section_enter;
        if code \<noteq> MCL_OK then State_Monad.return (Some (code, c))
        else do {
          r \<leftarrow> operation;
          case r of
            None \<Rightarrow> State_Monad.return None
          | Some x \<Rightarrow> do { critical_section_leave; State_Monad.return (Some x) }
        }
      })"

definition on_processor ::
  "core_t \<Rightarrow> ('z, (mcl_error \<times> core_processor_t) option) core_io \<Rightarrow> ('z, (mcl_error \<times> core_t) option) core_io" where
  "on_processor c operation = do {
     r \<leftarrow> operation;
     State_Monad.return (map_option (\<lambda>(code, p). (code, c\<lparr>core_processor := p\<rparr>)) r)
   }"

definition on_core ::
  "core_t option \<Rightarrow> (core_t \<Rightarrow> ('z, (mcl_error \<times> core_t) option) core_io) \<Rightarrow>
   ('z, (mcl_error \<times> core_t option) option) core_io" where
  "on_core core f =
     (case core of
        None \<Rightarrow> State_Monad.return (Some (MCL_TRIGGERED_WITH_NULL, None))
      | Some c \<Rightarrow> do {
          r \<leftarrow> f c;
          State_Monad.return (map_option (\<lambda>(code, c). (code, Some c)) r)
        })"

section \<open>Operations\<close>

definition mcl_core_onboard ::
  "openssl_t \<Rightarrow> (string \<Rightarrow> json option) \<Rightarrow> core_t option \<Rightarrow> ('z, (mcl_error \<times> core_t option) option) core_io" where
  "mcl_core_onboard openssl cJSON_parse core = on_core core (\<lambda>c. in_critical_section c
     (if mcl_core_is_onboarded (Some c) then State_Monad.return (Some (MCL_ALREADY_ONBOARDED, c))
      else on_processor c (core_processor_register openssl cJSON_parse (core_processor c))))"

definition mcl_core_rotate_key ::
  "openssl_t \<Rightarrow> (string \<Rightarrow> json option) \<Rightarrow> core_t option \<Rightarrow> ('z, (mcl_error \<times> core_t option) option) core_io" where
  "mcl_core_rotate_key openssl cJSON_parse core = on_core core (\<lambda>c. in_critical_section c
     (if mcl_core_is_onboarded (Some c)
      then on_processor c (core_processor_register openssl cJSON_parse (core_processor c))
      else State_Monad.return (Some (MCL_NOT_ONBOARDED, c))))"

definition mcl_core_update_credentials ::
  "core_t option \<Rightarrow> ('z, (mcl_error \<times> core_t option) option) core_io" where
  "mcl_core_update_credentials core = on_core core (\<lambda>c. in_critical_section c
     (if mcl_core_is_onboarded (Some c)
      then on_processor c (core_processor_update_credentials (core_processor c))
      else State_Monad.return (Some (MCL_NOT_ONBOARDED, c))))"

text \<open>The request for an access token does not enter the critical section.\<close>

definition mcl_core_get_access_token ::
  "openssl_t \<Rightarrow> (string \<Rightarrow> json option) \<Rightarrow> core_t option \<Rightarrow> ('z, (mcl_error \<times> core_t option) option) core_io" where
  "mcl_core_get_access_token openssl cJSON_parse core = on_core core (\<lambda>c.
     (if mcl_core_is_onboarded (Some c)
      then on_processor c (core_processor_get_access_token openssl cJSON_parse (core_processor c))
      else State_Monad.return (Some (MCL_NOT_ONBOARDED, c))))"

section \<open>What others read\<close>

text \<open>Copies for the caller; the \<open>NULL\<close> check of the pointer to the copy is the caller's.\<close>

definition mcl_core_get_last_access_token :: "core_t option \<Rightarrow> ('z, mcl_error \<times> string option) io" where
  "mcl_core_get_last_access_token core =
     (case core of
        None \<Rightarrow> State_Monad.return (MCL_TRIGGERED_WITH_NULL, None)
      | Some c \<Rightarrow>
          if \<not> mcl_core_is_onboarded core then State_Monad.return (MCL_NOT_ONBOARDED, None)
          else (case sh_access_token (cpr_security_handler (core_processor c)) of
              None \<Rightarrow> State_Monad.return (MCL_NO_ACCESS_TOKEN_EXISTS, None)
            | Some token \<Rightarrow> reset_field token))"

definition mcl_core_get_last_token_time :: "core_t option \<Rightarrow> ('z, mcl_error \<times> string option) io" where
  "mcl_core_get_last_token_time core =
     (case core of
        None \<Rightarrow> State_Monad.return (MCL_TRIGGERED_WITH_NULL, None)
      | Some c \<Rightarrow> (case sh_last_token_time (cpr_security_handler (core_processor c)) of
            None \<Rightarrow> State_Monad.return (MCL_NO_SERVER_TIME, None)
          | Some t \<Rightarrow> reset_field t))"

definition mcl_core_get_host_name :: "core_t option \<Rightarrow> string option" where
  "mcl_core_get_host_name core =
     (case core of None \<Rightarrow> None | Some c \<Rightarrow> cc_mindsphere_hostname (core_configuration c))"

text \<open>The address of the client id itself, not of a copy.\<close>

definition mcl_core_get_client_id :: "core_t option \<Rightarrow> nat option" where
  "mcl_core_get_client_id core =
     (case core of
        None \<Rightarrow> None
      | Some c \<Rightarrow> if mcl_core_is_onboarded core
          then map_option fst (sh_client_id (cpr_security_handler (core_processor c))) else None)"

end
