(* ===== verification/MclJwtProps.thy ===== *)
theory MclJwtProps
  imports MclJwt MclItemSpec
begin

text \<open>
  The self-issued token: its documents, and that a server which holds the secret accepts it.
\<close>

section \<open>Encoded segments\<close>

definition encoded :: "8 word list \<Rightarrow> string" where
  "encoded xs = base64_spec base64_url_encode_table xs"

lemma base64_spec_chars:
  "length t = 64 \<Longrightarrow> set (base64_spec t xs) \<subseteq> insert PADDING_CHAR (set t)"
proof (induction t xs rule: base64_spec.induct)
  case (2 t a)
  then show ?case using unat_byte [of a] by auto
next
  case (3 t a b)
  then show ?case using unat_byte [of a] unat_byte [of b] by auto
next
  case (4 t a b c xs)
  then show ?case using unat_byte [of a] unat_byte [of b] unat_byte [of c] by auto
qed simp

lemma encoded_plain: "MCL_NULL_CHAR \<notin> set (encoded xs)" "CHR ''.'' \<notin> set (encoded xs)"
proof -
  have "set (encoded xs) \<subseteq> insert PADDING_CHAR (set base64_url_encode_table)"
    unfolding encoded_def by (rule base64_spec_chars [OF url.enc_length])
  moreover have "MCL_NULL_CHAR \<notin> insert PADDING_CHAR (set base64_url_encode_table)"
    "CHR ''.'' \<notin> insert PADDING_CHAR (set base64_url_encode_table)"
    by (simp_all add: base64_url_encode_table_def PADDING_CHAR_def MCL_NULL_CHAR_def)
  ultimately show "MCL_NULL_CHAR \<notin> set (encoded xs)" "CHR ''.'' \<notin> set (encoded xs)" by blast+
qed

lemma run_base64_url_string:
  assumes "w_alloc w = []"
  shows "run_state (base64_url_string data (length data)) w = (Some (Ok (encoded data)), w)"
proof -
  have "base64_url_encode True data (length data) = Some (Ok (map Some (cstr (encoded data))))"
    using encode_with_table_spec [OF url.enc_length, of True data "[]"]
    by (simp add: base64_url_encode_def encoded_def)
  then show ?thesis
    using assms block_string_exact [of "encoded data"] encoded_plain(1)
    by (simp add: base64_url_string_def cstring_def)
qed

lemma decode_encoded:
  assumes "xs \<noteq> []"
  shows "base64_url_decode True (Some (encoded xs)) = Some (Ok (map Some (xs @ [0]), length xs))"
  using url.round_trip [OF assms] by (simp add: base64_url_decode_def encoded_def)

lemma length_string_bytes [simp]: "length (string_bytes s) = length s"
  by (simp add: string_bytes_def)

lemma string_bytes_empty [simp]: "string_bytes s = [] \<longleftrightarrow> s = []"
  by (simp add: string_bytes_def)

lemma join_block:
  assumes "cstring a" and "cstring b"
  shows "do {
      joined \<leftarrow> string_util_memcpy (fresh_block (length a + 1 + length b + 1)) 0 (cstr a) (length a);
      joined \<leftarrow> string_util_memcpy joined (length a) (cstr ''.'') 1;
      joined \<leftarrow> string_util_memcpy joined (length a + 1) (cstr b) (length b + 1);
      s \<leftarrow> block_string joined;
      Some (MCL_OK, Some s)
    } = Some (MCL_OK, Some (a @ ''.'' @ b))"
proof -
  have size: "length a + 1 + length b + 1 = length a + (1 + (length (cstr b) + 0))" by simp
  have "string_util_memcpy (fresh_block (length a + k)) 0 (cstr a) (length a) = Some (map Some a @ fresh_block k)" for k
    using memcpy_fresh [of 0 "[]" "length a" a k "[MCL_NULL_CHAR]"] by (simp add: cstr_def)
  moreover have "string_util_memcpy (map Some a @ fresh_block (1 + k)) (length a) (cstr ''.'') 1 =
      Some (map Some (a @ ''.'') @ fresh_block k)" for k
    using memcpy_fresh [of "length a" a 1 "''.''" k "[MCL_NULL_CHAR]"] by (simp add: cstr_def)
  moreover have "string_util_memcpy (map Some (a @ ''.'') @ fresh_block (length (cstr b) + 0)) (length a + 1)
      (cstr b) (length b + 1) = Some (map Some ((a @ ''.'') @ cstr b) @ fresh_block 0)"
    using memcpy_fresh [of "length a + 1" "a @ ''.''" "length (cstr b)" "cstr b" 0 "[]"] by simp
  moreover have "block_string (map Some ((a @ ''.'') @ cstr b) @ fresh_block 0) = Some (a @ ''.'' @ b)"
    using block_string_exact [of "a @ ''.'' @ b"] assms
    by (simp add: cstring_def cstr_def fresh_block_def MCL_NULL_CHAR_def)
  ultimately show ?thesis unfolding size by (simp only: Option.bind.simps)
qed

lemma run_join:
  assumes "w_alloc w = []" and "cstring a" and "cstring b"
  shows "run_state (join_with_dot a b) w = (Some (MCL_OK, Some (a @ ''.'' @ b)), w)"
  using join_block [OF assms(2,3)] assms(1) by (simp add: join_with_dot_def)

section \<open>The documents\<close>

definition jwt_header_json :: "E_MCL_SECURITY_PROFILE \<Rightarrow> json" where
  "jwt_header_json profile = Json CObject [(Some ''typ'', str ''JWT''),
     (Some ''alg'', str (if profile = MCL_SECURITY_SHARED_SECRET then ''HS256'' else ''RS256''))]"

definition jwt_payload_json :: "string \<Rightarrow> string \<Rightarrow> string \<Rightarrow> int \<Rightarrow> json" where
  "jwt_payload_json client_id tenant jti t = Json CObject
     [(Some ''iss'', str client_id), (Some ''sub'', str client_id), (Some ''aud'', str ''southgate''),
      (Some ''iat'', Json (CNumber (Whole t)) []), (Some ''nbf'', Json (CNumber (Whole t)) []),
      (Some ''exp'', Json (CNumber (Whole (t + 86400))) []),
      (Some ''schemas'', Json CArray [(None, str ''urn:siemens:mindsphere:v1'')]),
      (Some ''ten'', str tenant), (Some ''jti'', str jti)]"

lemma run_json_add [build]:
  assumes "w_alloc w = []" and "fresh_name n cs"
  shows "run_state (json_util_add_string (Json CObject cs) (Some n) v) w =
      ((MCL_OK, Json CObject (cs @ [(Some n, str v)])), w)"
    and "run_state (json_util_add_double (Json CObject cs) (Some n) i) w =
      ((MCL_OK, Json CObject (cs @ [(Some n, Json (CNumber i) [])])), w)"
    and "run_state (add_string_pointer (Json CObject cs) n (Some v)) w =
      ((MCL_OK, Json CObject (cs @ [(Some n, str v)])), w)"
  using assms by (simp_all add: json_util_add_string_def json_util_add_double_def add_number_def
      add_string_pointer_def json_util_add_leaf_def fresh_name_get str_def)

lemma run_add_schema [build]:
  assumes "w_alloc w = []" and "fresh_name ''schemas'' cs"
  shows "run_state (add_schema_to_jwt (Json CObject cs)) w =
    ((MCL_OK, Json CObject (cs @ [(Some ''schemas'', Json CArray [(None, str ''urn:siemens:mindsphere:v1'')])])), w)"
  using assms
  by (simp add: add_schema_to_jwt_def json_util_start_array_def json_util_start_def json_util_initialize_def
      fresh_name_get json_util_add_string_def json_util_add_leaf_def str_def link_child_def)

lemma run_jwt_header:
  assumes "w_alloc w = []"
  shows "run_state (create_self_issued_jwt_header profile) w = ((MCL_OK, Some (jwt_header_json profile)), w)"
  using assms by (simp add: create_self_issued_jwt_header_def json_util_initialize_def build jwt_header_json_def
      lower_code_def)

lemma run_fill_payload:
  assumes "w_alloc w = []"
  shows "run_state (fill_jwt_payload (Json CObject []) (Some client_id) tenant jti t) w =
    ((MCL_OK, jwt_payload_json client_id tenant jti t), w)"
  using assms by (simp add: fill_jwt_payload_def build lower_code_def jwt_payload_json_def
      JWT_EXPIRATION_TIME_def Let_def)

lemma run_jwt_initialize:
  assumes "w_alloc w = []" and "run_state random_generate_guid w = ((MCL_OK, Some jti), w1)" and "w_alloc w1 = []"
    and "sh_client_id sh = Some (a, client_id)"
  shows "\<exists>jwt. run_state (jwt_initialize sh profile tenant) w = ((MCL_OK, Some jwt), w1) \<and>
    jwt_header jwt = Some (jwt_header_json profile) \<and>
    jwt_payload jwt = Some (jwt_payload_json client_id tenant jti (w_time w1)) \<and>
    jwt_security_handler jwt = sh \<and> jwt_security_profile jwt = profile"
  using assms
  by (simp add: jwt_initialize_def run_jwt_header create_self_issued_jwt_payload_def
      security_handler_generate_jti_def json_util_initialize_def get_time_def run_bind run_fill_payload)

section \<open>The token\<close>

lemma run_encoded_pair:
  assumes "w_alloc w = []"
  shows "run_state (get_header_and_payload_encoded_base64_url h p) w =
    (Some (Ok (encoded (string_bytes h), encoded (string_bytes p))), w)"
  using assms run_base64_url_string [of w "string_bytes h"] run_base64_url_string [of w "string_bytes p"]
  by (simp add: get_header_and_payload_encoded_base64_url_def security_handler_base64_url_encode_def)

text \<open>A token over the signature that the profile gives.\<close>

lemma run_generate_token:
  assumes "w_alloc w = []"
    and "run_state (calculate_signature openssl jwt (encoded (string_bytes h) @ ''.'' @ encoded (string_bytes p))) w =
      (Some (Ok signature), w)"
    and "cstring signature"
  shows "run_state (generate_token openssl jwt h p) w =
    (Some (Ok (encoded (string_bytes h) @ ''.'' @ encoded (string_bytes p) @ ''.'' @ signature)), w)"
proof -
  let ?h = "encoded (string_bytes h)" and ?p = "encoded (string_bytes p)"
  have plain: "cstring ?h" "cstring ?p" "cstring (?h @ ''.'' @ ?p)"
    using encoded_plain(1) by (auto simp: cstring_def MCL_NULL_CHAR_def)
  show ?thesis
    using assms run_join [OF assms(1) plain(1,2)] run_join [OF assms(1) plain(3) assms(3)]
    by (simp add: generate_token_def run_encoded_pair)
qed

lemma run_shared_secret_signature:
  assumes "\<And>x. length (ssl_sha256 openssl x) = 32" and "w_alloc w = []"
    and "jwt_security_profile jwt = MCL_SECURITY_SHARED_SECRET"
    and "sh_client_secret (jwt_security_handler jwt) = Some secret" and "secret \<noteq> []"
  shows "run_state (calculate_signature openssl jwt s) w =
    (Some (Ok (encoded (hmac_spec (ssl_sha256 openssl) (string_bytes secret) (string_bytes s)))), w)"
proof -
  let ?d = "hmac_spec (ssl_sha256 openssl) (string_bytes secret) (string_bytes s)"
  have len: "length ?d = 32" using assms(1) by (simp add: hmac_spec_def Let_def)
  have "run_state (hmac_sha256 (ssl_sha256 openssl) (string_bytes s) (length (string_bytes s))
      (string_bytes secret) (length (string_bytes secret))) w = (Some (Ok (?d, 32)), w)"
    using assms(1,2,5) by (intro hmac_run) simp_all
  then show ?thesis
    using assms(2-4) run_base64_url_string [OF assms(2), of ?d] len
    by (simp add: calculate_signature_def security_handler_hmac_sha256_def security_handler_base64_url_encode_def)
qed

text \<open>
  What the agent signs with: its secret, or its private key. OpenSSL reads the key and signs a hash
  (\<open>RSA_sign\<close> gives a signature as long as the modulus).
\<close>

definition can_sign :: "openssl_t \<Rightarrow> E_MCL_SECURITY_PROFILE \<Rightarrow> security_handler_t \<Rightarrow> bool" where
  "can_sign openssl profile sh \<longleftrightarrow>
     (if profile = MCL_SECURITY_SHARED_SECRET then sh_client_secret sh \<noteq> None \<and> sh_client_secret sh \<noteq> Some []
      else (\<exists>key rsa. rsa_private_key (sh_rsa sh) = Some key \<and> ssl_read_private_key openssl key = Some rsa \<and>
        (\<forall>d. length d = 32 \<longrightarrow> (\<exists>s. ssl_sign openssl rsa d = Some s \<and> s \<noteq> []))))"

definition signs ::
  "openssl_t \<Rightarrow> E_MCL_SECURITY_PROFILE \<Rightarrow> security_handler_t \<Rightarrow> 8 word list \<Rightarrow> 8 word list \<Rightarrow> bool" where
  "signs openssl profile sh data signature \<longleftrightarrow>
     (if profile = MCL_SECURITY_SHARED_SECRET
      then (\<exists>secret. sh_client_secret sh = Some secret \<and>
        signature = hmac_spec (ssl_sha256 openssl) (string_bytes secret) data)
      else (\<exists>key rsa. rsa_private_key (sh_rsa sh) = Some key \<and> ssl_read_private_key openssl key = Some rsa \<and>
        ssl_sign openssl rsa (ssl_sha256 openssl data) = Some signature))"

lemma run_rsa_signature:
  assumes "\<And>x. length (ssl_sha256 openssl x) = 32" and "w_alloc w = []"
    and "jwt_security_profile jwt \<noteq> MCL_SECURITY_SHARED_SECRET"
    and "rsa_private_key (sh_rsa (jwt_security_handler jwt)) = Some key" and "ssl_read_private_key openssl key = Some rsa"
    and "ssl_sign openssl rsa (ssl_sha256 openssl (string_bytes s)) = Some d"
  shows "run_state (calculate_signature openssl jwt s) w = (Some (Ok (encoded d)), w)"
  using assms run_base64_url_string [OF assms(2), of d]
  by (simp add: calculate_signature_def security_handler_rsa_sign_def security_rsa_sign_def security_hash_sha256_def
      SHA256_DIGEST_LENGTH_def security_handler_base64_url_encode_def run_bind)

lemma run_signature:
  assumes "\<And>x. length (ssl_sha256 openssl x) = 32" and "w_alloc w = []"
    and "can_sign openssl (jwt_security_profile jwt) (jwt_security_handler jwt)"
  obtains d where "run_state (calculate_signature openssl jwt s) w = (Some (Ok (encoded d)), w)"
    "signs openssl (jwt_security_profile jwt) (jwt_security_handler jwt) (string_bytes s) d" "d \<noteq> []"
proof (cases "jwt_security_profile jwt = MCL_SECURITY_SHARED_SECRET")
  case True
  then obtain secret where secret: "sh_client_secret (jwt_security_handler jwt) = Some secret" "secret \<noteq> []"
    using assms(3) by (auto simp: can_sign_def)
  have "length (hmac_spec (ssl_sha256 openssl) (string_bytes secret) (string_bytes s)) = 32"
    using assms(1) by (simp add: hmac_spec_def Let_def)
  then have "hmac_spec (ssl_sha256 openssl) (string_bytes secret) (string_bytes s) \<noteq> []" by auto
  then show ?thesis
    using that [OF run_shared_secret_signature [OF assms(1,2) True secret]] True secret by (simp add: signs_def)
next
  case False
  then obtain key rsa d where "rsa_private_key (sh_rsa (jwt_security_handler jwt)) = Some key"
      "ssl_read_private_key openssl key = Some rsa"
      "ssl_sign openssl rsa (ssl_sha256 openssl (string_bytes s)) = Some d" "d \<noteq> []"
    using assms(1,3) by (fastforce simp: can_sign_def)
  then show ?thesis
    using that [OF run_rsa_signature [OF assms(1,2) False]] False by (auto simp: signs_def)
qed

lemma run_get_token:
  assumes "w_alloc w = []" and "jwt_header jwt = Some h" and "jwt_payload jwt = Some p"
    and "run_state (generate_token openssl jwt (json_print h) (json_print p)) w = (Some (Ok t), w)"
  shows "run_state (jwt_get_token openssl jwt) w = (Some (Some t), w)"
  using assms by (simp add: jwt_get_token_def build)

section \<open>Properties\<close>

text \<open>C5. A token of an agent that has a client id and can sign, with its shared secret or with its RSA
  key, consists of three segments between dots. Who receives it reads the header and the payload back
  from the first two (the header names the algorithm of the profile; the payload names the client, the
  tenant, the moment of issue and an expiry a day later) and finds the signature of them both in the
  third: the HMAC under the secret, or what OpenSSL's signature with the private key makes of their
  SHA-256. (No allocation fails.)\<close>

theorem jwt_token_verifies:
  assumes "\<And>x. length (ssl_sha256 openssl x) = 32"
    and "w_alloc w = []" and "run_state random_generate_guid w = ((MCL_OK, Some jti), w1)" and "w_alloc w1 = []"
    and "sh_client_id sh = Some (a, client_id)" and "can_sign openssl profile sh"
  shows "\<exists>jwt h p s d. run_state (jwt_initialize sh profile tenant) w = ((MCL_OK, Some jwt), w1) \<and>
    run_state (jwt_get_token openssl jwt) w1 = (Some (Some (h @ ''.'' @ p @ ''.'' @ s)), w1) \<and>
    CHR ''.'' \<notin> set h \<and> CHR ''.'' \<notin> set p \<and> CHR ''.'' \<notin> set s \<and>
    (\<exists>n. base64_url_decode True (Some h) = Some (Ok
      (map Some (string_bytes (json_print (jwt_header_json profile)) @ [0]), n))) \<and>
    (\<exists>n. base64_url_decode True (Some p) = Some (Ok
      (map Some (string_bytes (json_print (jwt_payload_json client_id tenant jti (w_time w1))) @ [0]), n))) \<and>
    base64_url_decode True (Some s) = Some (Ok (map Some (d @ [0]), length d)) \<and>
    signs openssl profile sh (string_bytes (h @ ''.'' @ p)) d"
proof -
  let ?hj = "json_print (jwt_header_json profile)"
  let ?pj = "json_print (jwt_payload_json client_id tenant jti (w_time w1))"
  let ?h = "encoded (string_bytes ?hj)" and ?p = "encoded (string_bytes ?pj)"
  obtain jwt where jwt: "run_state (jwt_initialize sh profile tenant) w = ((MCL_OK, Some jwt), w1)"
      "jwt_header jwt = Some (jwt_header_json profile)"
      "jwt_payload jwt = Some (jwt_payload_json client_id tenant jti (w_time w1))"
      "jwt_security_handler jwt = sh" "jwt_security_profile jwt = profile"
    using run_jwt_initialize [OF assms(2-5)] by blast
  obtain d where sign: "run_state (calculate_signature openssl jwt (?h @ ''.'' @ ?p)) w1 = (Some (Ok (encoded d)), w1)"
      "signs openssl profile sh (string_bytes (?h @ ''.'' @ ?p)) d" "d \<noteq> []"
    using run_signature [OF assms(1,4), of jwt "?h @ ''.'' @ ?p"] assms(6) jwt(4,5) by metis
  have "cstring (encoded d)" using encoded_plain(1) by (simp add: cstring_def)
  note token = run_get_token [OF assms(4) jwt(2,3) run_generate_token [OF assms(4) sign(1) this]]
  have "json_print (jwt_header_json profile) \<noteq> []" "json_print (jwt_payload_json c ten j t) \<noteq> []" for c ten j t
    by (simp_all add: jwt_header_json_def jwt_payload_json_def)
  then have decoded: "base64_url_decode True (Some ?h) = Some (Ok (map Some (string_bytes ?hj @ [0]), length (string_bytes ?hj)))"
      "base64_url_decode True (Some ?p) = Some (Ok (map Some (string_bytes ?pj @ [0]), length (string_bytes ?pj)))"
    by (intro decode_encoded; simp)+
  show ?thesis
    using jwt(1) token encoded_plain(2) decoded decode_encoded [OF sign(3)] sign(2)
    by (intro exI [of _ jwt] exI [of _ ?h] exI [of _ ?p] exI [of _ "encoded d"] exI [of _ d]) blast
qed

definition sample_openssl :: openssl_t where
  "sample_openssl = \<lparr>ssl_sha256 = \<lambda>x. take 32 (x @ replicate 32 7), ssl_read_private_key = \<lambda>_. Some 1,
     ssl_sign = \<lambda>_ x. Some x, ssl_read_public_key = \<lambda>_. Some ([1], [1, 0, 1])\<rparr>"

definition sample_handler :: security_handler_t where
  "sample_handler = \<lparr>sh_rsa = \<lparr>rsa_public_key = None, rsa_private_key = None\<rparr>,
     sh_registration_access_token = Some ''r'', sh_registration_uri = Some ''u'', sh_client_secret = Some ''s'',
     sh_access_token = None, sh_last_token_time = None, sh_client_id = Some (0, ''agent'')\<rparr>"

definition core_start :: core_world where
  "core_start = \<lparr>w_alloc = [], w_random = [], w_answers = [], w_sent = [], w_time = 1000, w_key_pairs = [],
     w_loads = [], w_saves = [], w_saved = [], w_enters = [], w_section = [], w_next = 0\<rparr>"

definition keyed_handler :: security_handler_t where
  "keyed_handler = sample_handler\<lparr>sh_rsa := \<lparr>rsa_public_key = Some ''pub'', rsa_private_key = Some ''key''\<rparr>\<rparr>"

theorem jwt_token_verifies_witness:
  "\<forall>profile. \<exists>jti jwt h p s d.
    run_state (jwt_initialize keyed_handler profile ''t'') (core_start\<lparr>w_random := [Ok (\<lambda>_. 5)]\<rparr>) =
      ((MCL_OK, Some jwt), core_start) \<and>
    run_state (jwt_get_token sample_openssl jwt) core_start = (Some (Some (h @ ''.'' @ p @ ''.'' @ s)), core_start) \<and>
    (\<exists>n. base64_url_decode True (Some p) = Some (Ok
      (map Some (string_bytes (json_print (jwt_payload_json ''agent'' ''t'' jti 1000)) @ [0]), n))) \<and>
    base64_url_decode True (Some s) = Some (Ok (map Some (d @ [0]), length d)) \<and>
    d = (if profile = MCL_SECURITY_SHARED_SECRET
         then hmac_spec (ssl_sha256 sample_openssl) (string_bytes ''s'') (string_bytes (h @ ''.'' @ p))
         else ssl_sha256 sample_openssl (string_bytes (h @ ''.'' @ p)))"
proof
  fix profile
  let ?w = "core_start\<lparr>w_random := [Ok (\<lambda>_. 5)]\<rparr>"
  let ?jti = "format_guid (set_version (guid_of_bytes (map (\<lambda>_. 5) [0..<16])))"
  have "run_state random_generate_guid ?w = ((MCL_OK, Some ?jti), ?w\<lparr>w_random := []\<rparr>)"
    by (rule random_generate_guid_ok) (simp_all add: core_start_def)
  then have guid: "run_state random_generate_guid ?w = ((MCL_OK, Some ?jti), core_start)"
    by (simp add: core_start_def)
  have hash: "\<And>x. length (ssl_sha256 sample_openssl x) = 32"
    by (simp add: sample_openssl_def)
  have can: "can_sign sample_openssl profile keyed_handler"
    by (auto simp: can_sign_def keyed_handler_def sample_handler_def sample_openssl_def)
  have start: "w_alloc ?w = []" "w_alloc core_start = []" "w_time core_start = 1000"
      "sh_client_id keyed_handler = Some (0, ''agent'')"
    by (simp_all add: core_start_def keyed_handler_def sample_handler_def)
  have signed: "d = (if profile = MCL_SECURITY_SHARED_SECRET
      then hmac_spec (ssl_sha256 sample_openssl) (string_bytes ''s'') x else ssl_sha256 sample_openssl x)"
    if "signs sample_openssl profile keyed_handler x d" for x d
    using that by (auto simp: signs_def keyed_handler_def sample_handler_def sample_openssl_def split: if_splits)
  from jwt_token_verifies [OF hash start(1) guid start(2,4) can, of "''t''", unfolded start(3)] signed
  show "\<exists>jti jwt h p s d.
    run_state (jwt_initialize keyed_handler profile ''t'') ?w = ((MCL_OK, Some jwt), core_start) \<and>
    run_state (jwt_get_token sample_openssl jwt) core_start = (Some (Some (h @ ''.'' @ p @ ''.'' @ s)), core_start) \<and>
    (\<exists>n. base64_url_decode True (Some p) = Some (Ok
      (map Some (string_bytes (json_print (jwt_payload_json ''agent'' ''t'' jti 1000)) @ [0]), n))) \<and>
    base64_url_decode True (Some s) = Some (Ok (map Some (d @ [0]), length d)) \<and>
    d = (if profile = MCL_SECURITY_SHARED_SECRET
         then hmac_spec (ssl_sha256 sample_openssl) (string_bytes ''s'') (string_bytes (h @ ''.'' @ p))
         else ssl_sha256 sample_openssl (string_bytes (h @ ''.'' @ p)))" by blast
qed

end
