(* ===== verification/MclCoreProps.thy ===== *)
theory MclCoreProps
  imports MclCore MclJwtProps MclMapping
begin

text \<open>
  What the core promises about credentials: the onboarding with a shared secret takes over exactly
  what the server answered, all of it or nothing; the rotation of an RSA key does not.
\<close>

section \<open>The correlation id of the core\<close>

lemma print_bytes_text:
  assumes "length pre = i * 2" and "2 * length bs < length rest"
  shows "print_bytes bs i (map Some pre @ rest) = Some (MCL_OK, map Some (pre @ correlation_text bs) @
    (if bs = [] then rest else Some MCL_NULL_CHAR # drop (2 * length bs + 1) rest))"
  using assms
proof (induction bs arbitrary: i pre rest)
  case (Cons b bs)
  let ?h = "hex2 (unat b)" and ?rest = "Some MCL_NULL_CHAR # drop 3 rest"
  have h: "length ?h = 2" "?h \<noteq> []" by (simp_all add: hex2_def)
  have "string_util_snprintf rest 3 (Some ?h) = Some (MCL_OK, map Some ?h @ ?rest)"
    using snprintf_fits [of ?h 3 rest] Cons.prems(2) h by (simp add: cstr_def)
  then have "print_bytes (b # bs) i (map Some pre @ rest) = print_bytes bs (Suc i) (map Some (pre @ ?h) @ ?rest)"
    using Cons.prems(1) by simp
  also have "\<dots> = Some (MCL_OK, map Some ((pre @ ?h) @ correlation_text bs) @
      (if bs = [] then ?rest else Some MCL_NULL_CHAR # drop (2 * length bs + 1) ?rest))"
    using Cons.prems h by (intro Cons.IH) simp_all
  finally show ?case
    by (simp add: correlation_text_def numeral_3_eq_3 add.commute del: print_bytes.simps)
qed (simp add: correlation_text_def)

text \<open>The id is defined in every world, and the text of the bytes where nothing fails.\<close>

lemma core_id_of_bytes:
  assumes "length bs = 16"
  shows "\<exists>b. print_bytes bs 0 (fresh_block (16 * 2 + 1)) = Some (MCL_OK, b) \<and>
    block_string b = Some (correlation_text bs)"
proof -
  have "cstring (correlation_text bs)"
    using hex2_cstring by (auto simp: correlation_text_def cstring_def)
  moreover have "print_bytes bs 0 (fresh_block (16 * 2 + 1)) =
      Some (MCL_OK, map Some (correlation_text bs) @ Some MCL_NULL_CHAR # [])"
    using print_bytes_text [of "[]" 0 bs "fresh_block (16 * 2 + 1)"] assms by (auto simp: fresh_block_def)
  ultimately show ?thesis using block_string_cstr by blast
qed

lemma core_correlation_id_defined: "fst (run_state core_correlation_id w) \<noteq> None"
proof -
  obtain r w' where run: "run_state (mcl_random_generate_bytes 16) w = (r, w')" by fastforce
  show ?thesis
  proof (cases r)
    case (Inr bs)
    from core_id_of_bytes [of bs] random_length [of 16 w bs w'] run Inr obtain b where
      "print_bytes bs 0 (fresh_block (16 * 2 + 1)) = Some (MCL_OK, b)" "block_string b = Some (correlation_text bs)"
      by blast
    then show ?thesis using run Inr by (simp add: core_correlation_id_def run_bind split: prod.split)
  qed (use run in \<open>simp add: core_correlation_id_def\<close>)
qed

lemma run_core_correlation_id:
  assumes "good_world w"
  shows "run_state core_correlation_id w = (Some (MCL_OK, Some (replicate 32 CHR ''0'')), w)"
proof -
  have "correlation_text (replicate 16 0) = replicate 32 CHR ''0''"
    using concat_pairs [of 16 "CHR ''0''"] by (simp add: correlation_text_def hex2_def hex_digit_def)
  with core_id_of_bytes [of "replicate 16 0"] obtain b where
    "print_bytes (replicate 16 0) 0 (fresh_block (16 * 2 + 1)) = Some (MCL_OK, b)"
    "block_string b = Some (replicate 32 CHR ''0'')" by auto
  then show ?thesis using assms by (simp add: core_correlation_id_def good_world_def)
qed

section \<open>The register endpoint\<close>

definition registration_message :: "registration_t \<Rightarrow> string \<Rightarrow> mcl_http_request_t" where
  "registration_message rg auth =
     \<lparr>rq_header = [''Content-Type: application/json'', ''Accept: application/json'',
        ''Authorization: '' @ auth, ''Correlation-ID: '' @ replicate 32 CHR ''0''],
      rq_payload = Some (map Some (cstr (rg_payload rg))), rq_payload_size = length (rg_payload rg),
      rq_method = rg_method rg, rq_uri = rg_uri rg, rq_stream_callback = None, rq_stream_data = None\<rparr>"

lemma header_name_values:
  "http_header_names HTTP_HEADER_CONTENT_TYPE = ''Content-Type''"
  "http_header_names HTTP_HEADER_ACCEPT = ''Accept''"
  "http_header_names HTTP_HEADER_AUTHORIZATION = ''Authorization''"
  "http_header_names HTTP_HEADER_CORRELATION_ID = ''Correlation-ID''"
  by (simp_all add: http_header_names_def http_header_table_def header_index_def)

lemma run_registration_request:
  assumes "w_alloc w = []" and "rg_method rg \<noteq> MCL_HTTP_END" and "rg_uri rg = Some uri"
  shows "run_state (registration_request rg auth) w =
    ((MCL_OK, Some ((registration_message rg auth)\<lparr>rq_header := butlast (rq_header (registration_message rg auth))\<rparr>)), w)"
  using assms
  by (simp add: registration_request_def mcl_http_request_initialize_def run_set_parameter run_add_header
      registration_message_def header_name_values)

lemma run_auth_header:
  assumes "w_alloc w = []" and "length token + 8 < 2 ^ 32"
  shows "run_state (auth_header token) w = (Ok (''Bearer '' @ token), w)"
  using assms by (simp add: auth_header_def snprintf_text_fits Let_def)

lemma run_send_registration:
  assumes "good_world w" and "rg_method rg \<noteq> MCL_HTTP_END" and "rg_uri rg = Some uri"
  shows "run_state (send_registration cJSON_parse p rg auth) w =
    (case next_answer w of
       Err code \<Rightarrow> (Some (code, p), sent (registration_message rg auth) w)
     | Ok a \<Rightarrow> (case run_state (process_registration_response cJSON_parse p a) (sent (registration_message rg auth) w) of
         (r, w') \<Rightarrow> (Some r, w')))"
  using assms run_core_correlation_id [OF assms(1)]
  by (simp add: send_registration_def run_registration_request add_core_correlation_id_def run_add_header
      header_name_values good_world_def run_http_client_send run_bind registration_message_def split: sum.split)

section \<open>What the server answered\<close>

text \<open>The text of a member: a JSON \<open>null\<close> is a \<open>NULL\<close> pointer, anything else but a string is refused.\<close>

definition member_text :: "json \<Rightarrow> string option option" where
  "member_text j = (case json_value j of CString s \<Rightarrow> Some (Some s) | CNull \<Rightarrow> Some None | _ \<Rightarrow> None)"

definition answered ::
  "(string \<Rightarrow> json option) \<Rightarrow> mcl_http_response_t \<Rightarrow> string list \<Rightarrow> string option list option" where
  "answered cJSON_parse a keys =
     (case parse_payload cJSON_parse a of
        Err _ \<Rightarrow> None
      | Ok root \<Rightarrow> those (map (\<lambda>key. Option.bind (cJSON_GetObjectItem root key) member_text) keys))"

lemma run_get_string_text:
  assumes "w_alloc w = []"
  shows "\<exists>code s. run_state (json_util_get_string j) w = ((code, s), w) \<and>
    (code = MCL_OK \<longleftrightarrow> member_text j = Some s)"
  using assms by (cases "json_value j") (auto simp: json_util_get_string_def member_text_def)

lemma run_get_strings:
  assumes "w_alloc w = []"
  shows "\<exists>r. run_state (get_strings js) w = (r, w) \<and>
    (case those (map member_text js) of None \<Rightarrow> \<exists>code. r = Err code \<and> code \<noteq> MCL_OK | Some ss \<Rightarrow> r = Ok ss)"
proof (induction js)
  case (Cons j js)
  obtain code s where j: "run_state (json_util_get_string j) w = ((code, s), w)"
    "code = MCL_OK \<longleftrightarrow> member_text j = Some s" using run_get_string_text [OF assms] by blast
  obtain r where r: "run_state (get_strings js) w = (r, w)"
    "case those (map member_text js) of None \<Rightarrow> \<exists>code. r = Err code \<and> code \<noteq> MCL_OK | Some ss \<Rightarrow> r = Ok ss"
    using Cons by blast
  have undefined_text: "member_text j = None" if "code \<noteq> MCL_OK"
    using that j assms by (cases "json_value j") (auto simp: json_util_get_string_def member_text_def)
  show ?case
  proof (cases "code = MCL_OK")
    case True
    then show ?thesis using j r by (auto split: option.splits)
  next
    case False
    then show ?thesis using j undefined_text by auto
  qed
qed simp

lemma get_members_spec:
  "case get_members root keys of
     Err code \<Rightarrow> code \<noteq> MCL_OK \<and> those (map (cJSON_GetObjectItem root) keys) = None
   | Ok js \<Rightarrow> those (map (cJSON_GetObjectItem root) keys) = Some js"
  by (induction keys) (auto simp: json_util_get_object_item_def split: option.splits sum.splits)

lemma those_bind: "those (map (\<lambda>k. Option.bind (f k) g) ks) =
    Option.bind (those (map f ks)) (\<lambda>xs. those (map g xs))"
proof (induction ks)
  case (Cons k ks)
  show ?case
  proof (cases "f k")
    case (Some x)
    then show ?thesis using Cons by (cases "those (map f ks)"; cases "g x") auto
  qed simp
qed simp

lemma parse_payload_error: "parse_payload cJSON_parse a = Err code \<Longrightarrow> code \<noteq> MCL_OK"
  by (auto simp: parse_payload_def json_util_parse_def split: option.splits)

lemma run_parse_members:
  assumes "w_alloc w = []"
  shows "\<exists>r. run_state (parse_members cJSON_parse a keys) w = (r, w) \<and>
    (case answered cJSON_parse a keys of None \<Rightarrow> \<exists>code. r = Err code \<and> code \<noteq> MCL_OK | Some ss \<Rightarrow> r = Ok ss)"
proof (cases "parse_payload cJSON_parse a")
  case (Inl code)
  then show ?thesis using parse_payload_error [OF Inl] by (simp add: parse_members_def answered_def)
next
  case (Inr root)
  show ?thesis
  proof (cases "get_members root keys")
    case (Inl code)
    then show ?thesis using Inr get_members_spec [of root keys]
      by (simp add: parse_members_def answered_def those_bind)
  next
    case members: (Inr js)
    then show ?thesis using Inr get_members_spec [of root keys] run_get_strings [OF assms, of js]
      by (simp add: parse_members_def answered_def those_bind)
  qed
qed

section \<open>Onboarding with a shared secret\<close>

definition shared_secret_members :: "string list" where
  "shared_secret_members =
     [''client_id'', ''client_secret'', ''registration_access_token'', ''registration_client_uri'']"

text \<open>A 201 with the four members is taken over; nothing else is.\<close>

definition accepted :: "(string \<Rightarrow> json option) \<Rightarrow> mcl_http_response_t result \<Rightarrow> string option list option" where
  "accepted cJSON_parse answer =
     (case answer of
        Err _ \<Rightarrow> None
      | Ok a \<Rightarrow> if rs_status_code a = 201 then answered cJSON_parse a shared_secret_members else None)"

definition take_over :: "core_processor_t \<Rightarrow> nat \<Rightarrow> string option list \<Rightarrow> core_processor_t" where
  "take_over p address ss = p\<lparr>cpr_security_handler := (cpr_security_handler p)
     \<lparr>sh_client_id := map_option (Pair address) (ss ! 0), sh_client_secret := ss ! 1,
      sh_registration_access_token := ss ! 2, sh_registration_uri := ss ! 3\<rparr>\<rparr>"

definition credentials_of :: "string option list \<Rightarrow> credentials_t" where
  "credentials_of ss = \<lparr>cr_client_id = ss ! 0, cr_client_secret = ss ! 1, cr_public_key = None,
     cr_private_key = None, cr_registration_access_token = ss ! 2, cr_registration_uri = ss ! 3\<rparr>"

definition first_save :: "'z core_world_scheme \<Rightarrow> mcl_error" where
  "first_save w = (case w_saves w of [] \<Rightarrow> MCL_OK | r # _ \<Rightarrow> r)"

lemma status_of_registration:
  assumes "sh_registration_access_token (cpr_security_handler p) = None"
  shows "registration_code p a = MCL_OK \<longleftrightarrow> rs_status_code a = 201"
  using assms by (simp add: registration_code_def mcl_http_response_get_status_def http_status_codes Let_def)

lemma answered_length: "answered cJSON_parse a keys = Some ss \<Longrightarrow> length ss = length keys"
proof -
  have "those (xs :: 'a option list) = Some ys \<Longrightarrow> length ys = length xs" for xs ys
    by (induction xs arbitrary: ys) (auto split: option.splits)
  then show "answered cJSON_parse a keys = Some ss \<Longrightarrow> length ss = length keys"
    by (fastforce simp: answered_def split: sum.splits)
qed

lemma run_process_shared_secret:
  assumes "w_alloc w = []"
  shows "case answered cJSON_parse a shared_secret_members of
    None \<Rightarrow> \<exists>code. run_state (process_registration_response_shared_secret cJSON_parse p a) w = ((code, p), w) \<and> code \<noteq> MCL_OK
  | Some ss \<Rightarrow> run_state (process_registration_response_shared_secret cJSON_parse p a) w =
      ((MCL_OK, take_over p (w_next w) ss), w\<lparr>w_next := Suc (w_next w)\<rparr>)"
proof -
  from run_parse_members [OF assms] obtain r where
    r: "run_state (parse_members cJSON_parse a shared_secret_members) w = (r, w)"
    "case answered cJSON_parse a shared_secret_members of
       None \<Rightarrow> \<exists>code. r = Err code \<and> code \<noteq> MCL_OK | Some ss \<Rightarrow> r = Ok ss" by blast
  show ?thesis
  proof (cases "answered cJSON_parse a shared_secret_members")
    case None
    then show ?thesis using r
      by (auto simp: process_registration_response_shared_secret_def shared_secret_members_def [symmetric])
  next
    case (Some ss)
    then have "length ss = 4" using answered_length by (fastforce simp: shared_secret_members_def)
    then obtain ci cs rt ru where "ss = [ci, cs, rt, ru]"
      by (auto simp: numeral_eq_Suc length_Suc_conv)
    then show ?thesis using r Some
      by (simp add: process_registration_response_shared_secret_def shared_secret_members_def [symmetric]
          new_address_def run_bind take_over_def)
  qed
qed

text \<open>The world after a registration that the server granted.\<close>

definition granted :: "bool \<Rightarrow> string option list \<Rightarrow> 'z core_world_scheme \<Rightarrow> 'z core_world_scheme" where
  "granted saving ss w = w\<lparr>w_next := Suc (w_next w),
     w_saved := (if saving then w_saved w @ [credentials_of ss] else w_saved w),
     w_saves := (if saving then tl (w_saves w) else w_saves w)\<rparr>"

lemma run_save_credentials:
  assumes "cc_security_profile configuration = MCL_SECURITY_SHARED_SECRET"
  shows "run_state (save_credentials configuration (cpr_security_handler (take_over p address ss)))
      (w\<lparr>w_next := Suc (w_next w)\<rparr>) =
    (if credentials_callbacks configuration then first_save w else MCL_OK,
     granted (credentials_callbacks configuration) ss w)"
  using assms
  by (cases "ss ! 0"; cases "w_saves w")
    (simp_all add: save_credentials_def take_over_def call_save_callback_def credentials_of_def first_save_def
      granted_def Let_def)

lemma run_process_response:
  assumes "w_alloc w = []" and "sh_registration_access_token (cpr_security_handler p) = None"
    and "cc_security_profile (cpr_configuration p) = MCL_SECURITY_SHARED_SECRET"
  shows "case accepted cJSON_parse (Ok a) of
    None \<Rightarrow> \<exists>code. run_state (process_registration_response cJSON_parse p a) w = ((code, p), w) \<and> code \<noteq> MCL_OK
  | Some ss \<Rightarrow> run_state (process_registration_response cJSON_parse p a) w =
      ((if credentials_callbacks (cpr_configuration p) then first_save w else MCL_OK,
        take_over p (w_next w) ss), granted (credentials_callbacks (cpr_configuration p)) ss w)"
proof (cases "rs_status_code a = 201")
  case False
  then show ?thesis using status_of_registration [OF assms(2)]
    by (auto simp: accepted_def process_registration_response_def Let_def)
next
  case True
  have configuration: "cpr_configuration (take_over p b ss) = cpr_configuration p" for b ss
    by (simp add: take_over_def)
  show ?thesis
  proof (cases "answered cJSON_parse a shared_secret_members")
    case None
    then show ?thesis using True run_process_shared_secret [OF assms(1), where a = a and p = p and cJSON_parse = cJSON_parse] assms(3)
        status_of_registration [OF assms(2), where a = a]
      by (auto simp: accepted_def process_registration_response_def Let_def)
  next
    case (Some ss)
    then have "run_state (process_registration_response_shared_secret cJSON_parse p a) w =
        ((MCL_OK, take_over p (w_next w) ss), w\<lparr>w_next := Suc (w_next w)\<rparr>)"
      using run_process_shared_secret [OF assms(1), where a = a and p = p and cJSON_parse = cJSON_parse] by simp
    then show ?thesis using True Some assms(3) status_of_registration [OF assms(2), where a = a] configuration
        run_save_credentials [OF assms(3), where w = w and p = p and address = "w_next w" and ss = ss]
      by (simp add: accepted_def process_registration_response_def Let_def)
  qed
qed

section \<open>Properties\<close>

definition onboarding_request :: "core_configuration_t \<Rightarrow> registration_t" where
  "onboarding_request c = \<lparr>rg_payload = ''{}'', rg_token = cc_initial_access_token c,
     rg_method = MCL_HTTP_POST, rg_uri = cc_register_endpoint c\<rparr>"

text \<open>An agent that waits to be onboarded; its token fits a header line with a 32-bit length.\<close>

definition waiting_agent :: "core_t \<Rightarrow> bool" where
  "waiting_agent c \<longleftrightarrow> (let p = core_processor c; k = cpr_configuration p in
     core_configuration c = k \<and> cc_security_profile k = MCL_SECURITY_SHARED_SECRET \<and>
     cc_register_endpoint k \<noteq> None \<and> sh_registration_access_token (cpr_security_handler p) = None \<and>
     (\<exists>t. cc_initial_access_token k = Some t \<and> length t + 8 < 2 ^ 32))"

definition section_log :: "core_configuration_t \<Rightarrow> bool list" where
  "section_log c = (if section_callbacks c then [True, False] else [])"

definition entered :: "core_configuration_t \<Rightarrow> 'z core_world_scheme \<Rightarrow> 'z core_world_scheme" where
  "entered c w = w\<lparr>w_section := w_section w @ (if section_callbacks c then [True] else [])\<rparr>"

lemma run_compose_onboarding:
  assumes "w_alloc w = []" and "sh_registration_access_token (cpr_security_handler p) = None"
    and "cc_security_profile (cpr_configuration p) = MCL_SECURITY_SHARED_SECRET"
  shows "run_state (compose_registration openssl p) w =
    (Some (MCL_OK, p, Some (onboarding_request (cpr_configuration p))), w)"
  using assms by (simp add: compose_registration_def onboarding_payload_def snprintf_text_fits
      onboarding_request_def)

lemma run_register_onboarding:
  assumes "good_world w" and "sh_registration_access_token (cpr_security_handler p) = None"
    and "cc_security_profile (cpr_configuration p) = MCL_SECURITY_SHARED_SECRET"
    and "cc_register_endpoint (cpr_configuration p) = Some uri"
    and "cc_initial_access_token (cpr_configuration p) = Some token" and "length token + 8 < 2 ^ 32"
  shows "run_state (core_processor_register openssl cJSON_parse p) w =
    run_state (send_registration cJSON_parse p (onboarding_request (cpr_configuration p)) (''Bearer '' @ token)) w"
  using assms run_compose_onboarding [of w p openssl] run_auth_header [of w token]
  by (simp add: core_processor_register_def good_world_def onboarding_request_def)

lemma good_entered [simp]: "good_world (entered c w) = good_world w"
  by (simp add: entered_def good_world_def)

lemma w_alloc_sent [simp]: "w_alloc (sent rq w) = w_alloc w"
  by (simp add: sent_def)

lemma run_in_critical_section:
  assumes "w_enters w = []"
    and "run_state operation (entered (core_configuration c) w) = (Some x, w1)"
  shows "run_state (in_critical_section c operation) w =
    (Some x, if section_callbacks (core_configuration c) then w1\<lparr>w_section := w_section w1 @ [False]\<rparr> else w1)"
  using assms
  by (cases "section_callbacks (core_configuration c)")
    (simp_all add: in_critical_section_def critical_section_enter_def critical_section_leave_def entered_def)

text \<open>One request, and then what the answer says.\<close>

lemma run_register_answer:
  fixes p :: core_processor_t and w :: "'z core_world_scheme"
  defines "k \<equiv> cpr_configuration p"
  assumes "good_world w" and "sh_registration_access_token (cpr_security_handler p) = None"
    and "cc_security_profile k = MCL_SECURITY_SHARED_SECRET"
    and "cc_register_endpoint k = Some uri" and "cc_initial_access_token k = Some token"
    and "length token + 8 < 2 ^ 32" and "next_answer w \<noteq> Err MCL_OK"
  shows "let w1 = sent (registration_message (onboarding_request k) (''Bearer '' @ token)) w in
    case accepted cJSON_parse (next_answer w) of
      None \<Rightarrow> \<exists>code. run_state (core_processor_register openssl cJSON_parse p) w = (Some (code, p), w1) \<and> code \<noteq> MCL_OK
    | Some ss \<Rightarrow> run_state (core_processor_register openssl cJSON_parse p) w =
        (Some (if credentials_callbacks k then first_save w else MCL_OK, take_over p (w_next w) ss),
         granted (credentials_callbacks k) ss w1)"
proof -
  let ?rg = "onboarding_request k"
  let ?w = "sent (registration_message ?rg (''Bearer '' @ token)) w"
  have rg: "rg_method ?rg \<noteq> MCL_HTTP_END" "rg_uri ?rg = Some uri"
    using assms(5) by (simp_all add: onboarding_request_def)
  have unchanged: "first_save ?w = first_save w" "w_next ?w = w_next w"
    by (simp_all add: first_save_def sent_def)
  have run: "run_state (core_processor_register openssl cJSON_parse p) w =
      (case next_answer w of Err code \<Rightarrow> (Some (code, p), ?w)
       | Ok a \<Rightarrow> (case run_state (process_registration_response cJSON_parse p a) ?w of (r, w') \<Rightarrow> (Some r, w')))"
    unfolding run_register_onboarding [OF assms(2,3) assms(4-6) [unfolded k_def] assms(7)] k_def
    by (rule run_send_registration [OF assms(2) rg [unfolded k_def]])
  show ?thesis
  proof (cases "next_answer w")
    case (Inl code)
    then show ?thesis using run assms(8) by (simp add: accepted_def Let_def)
  next
    case (Inr a)
    have w: "w_alloc ?w = []" using assms(2) by (simp add: good_world_def)
    show ?thesis
      using run_process_response [OF w assms(3) assms(4) [unfolded k_def], where a = a and cJSON_parse = cJSON_parse] run Inr unchanged
      by (auto simp: Let_def k_def [symmetric] split: option.splits)
  qed
qed

definition onboarding_message :: "core_configuration_t \<Rightarrow> mcl_http_request_t" where
  "onboarding_message k = registration_message (onboarding_request k) (''Bearer '' @ the (cc_initial_access_token k))"

text \<open>What an answer leads to.\<close>

definition onboarding_outcome ::
  "(string \<Rightarrow> json option) \<Rightarrow> core_t \<Rightarrow> 'z core_world_scheme \<Rightarrow> mcl_error \<Rightarrow> core_processor_t \<Rightarrow>
   credentials_t list \<Rightarrow> bool" where
  "onboarding_outcome cJSON_parse c w code p saved \<longleftrightarrow>
     (case accepted cJSON_parse (next_answer w) of
        None \<Rightarrow> code \<noteq> MCL_OK \<and> p = core_processor c \<and> saved = w_saved w
      | Some ss \<Rightarrow>
          code = (if credentials_callbacks (core_configuration c) then first_save w else MCL_OK) \<and>
          p = take_over (core_processor c) (w_next w) ss \<and>
          saved = w_saved w @ (if credentials_callbacks (core_configuration c) then [credentials_of ss] else []))"

lemma register_outcome:
  assumes "good_world w" and "waiting_agent c" and "next_answer w \<noteq> Err MCL_OK"
  shows "\<exists>code p w'. run_state (core_processor_register openssl cJSON_parse (core_processor c)) w =
      (Some (code, p), w') \<and>
    w_sent w' = w_sent w @ [onboarding_message (core_configuration c)] \<and> w_section w' = w_section w \<and>
    onboarding_outcome cJSON_parse c w code p (w_saved w')"
proof -
  let ?p = "core_processor c" and ?k = "core_configuration c"
  obtain uri token where agent: "cpr_configuration ?p = ?k" "cc_security_profile ?k = MCL_SECURITY_SHARED_SECRET"
      "cc_register_endpoint ?k = Some uri" "sh_registration_access_token (cpr_security_handler ?p) = None"
      "cc_initial_access_token ?k = Some token" "length token + 8 < 2 ^ 32"
    using assms(2) by (auto simp: waiting_agent_def Let_def)
  let ?w = "sent (onboarding_message ?k) w"
  have answer: "case accepted cJSON_parse (next_answer w) of
      None \<Rightarrow> \<exists>code. run_state (core_processor_register openssl cJSON_parse ?p) w = (Some (code, ?p), ?w) \<and> code \<noteq> MCL_OK
    | Some ss \<Rightarrow> run_state (core_processor_register openssl cJSON_parse ?p) w =
        (Some (if credentials_callbacks ?k then first_save w else MCL_OK, take_over ?p (w_next w) ss),
         granted (credentials_callbacks ?k) ss ?w)"
    using run_register_answer [where p = ?p and w = w and uri = uri and token = token and openssl = openssl
        and cJSON_parse = cJSON_parse] agent assms(1,3)
    by (simp add: Let_def onboarding_message_def del: append.simps split: option.splits)
  show ?thesis
  proof (cases "accepted cJSON_parse (next_answer w)")
    case None
    then show ?thesis using answer by (auto simp: sent_def onboarding_outcome_def)
  next
    case (Some ss)
    then show ?thesis using answer by (simp add: sent_def granted_def onboarding_outcome_def)
  qed
qed

lemma entered_fields [simp]:
  "next_answer (entered k w) = next_answer w" "first_save (entered k w) = first_save w"
  "w_next (entered k w) = w_next w" "w_sent (entered k w) = w_sent w" "w_saved (entered k w) = w_saved w"
  by (simp_all add: next_answer_def first_save_def entered_def)

lemma outcome_entered: "onboarding_outcome cJSON_parse c (entered k w) = onboarding_outcome cJSON_parse c w"
  by (intro ext) (simp only: onboarding_outcome_def entered_fields)

text \<open>C8. The onboarding with a shared secret sends one POST request with the initial token to the
  register endpoint, inside the critical section. When the server answers 201 with the four members,
  all of them are taken over and handed to the callback that saves them, whose code is returned; on
  every other answer an error is returned, the agent keeps what it had and nothing is saved.\<close>

theorem onboarding_all_or_nothing:
  assumes "good_world w" and "w_enters w = []" and "waiting_agent c" and "next_answer w \<noteq> Err MCL_OK"
  shows "\<exists>code p w'.
    run_state (mcl_core_onboard openssl cJSON_parse (Some c)) w = (Some (code, Some (c\<lparr>core_processor := p\<rparr>)), w') \<and>
    w_sent w' = w_sent w @ [onboarding_message (core_configuration c)] \<and>
    w_section w' = w_section w @ section_log (core_configuration c) \<and>
    onboarding_outcome cJSON_parse c w code p (w_saved w')"
proof -
  let ?k = "core_configuration c"
  have "next_answer (entered ?k w) \<noteq> Err MCL_OK" using assms(4) by simp
  with register_outcome [of "entered ?k w" c openssl cJSON_parse] assms(1,3) obtain code p w1 where
    run: "run_state (core_processor_register openssl cJSON_parse (core_processor c)) (entered ?k w) = (Some (code, p), w1)"
    and rest: "w_sent w1 = w_sent w @ [onboarding_message ?k]" "w_section w1 = w_section (entered ?k w)"
      "onboarding_outcome cJSON_parse c w code p (w_saved w1)"
    by (auto simp: outcome_entered)
  define w2 where "w2 = (if section_callbacks ?k then w1\<lparr>w_section := w_section w1 @ [False]\<rparr> else w1)"
  have "run_state (on_processor c (core_processor_register openssl cJSON_parse (core_processor c))) (entered ?k w) =
      (Some (code, c\<lparr>core_processor := p\<rparr>), w1)" using run by (simp add: on_processor_def)
  from run_in_critical_section [OF assms(2) this]
  have "run_state (mcl_core_onboard openssl cJSON_parse (Some c)) w = (Some (code, Some (c\<lparr>core_processor := p\<rparr>)), w2)"
    using assms(3)
    by (simp add: mcl_core_onboard_def on_core_def mcl_core_is_onboarded_def w2_def waiting_agent_def Let_def)
  moreover have "w_section w2 = w_section w @ section_log ?k" "w_sent w2 = w_sent w1" "w_saved w2 = w_saved w1"
    using rest(2) by (simp_all add: w2_def entered_def section_log_def)
  ultimately show ?thesis using rest(1,3) by (metis (no_types, lifting))
qed

definition sample_configuration_core :: core_configuration_t where
  "sample_configuration_core = \<lparr>cc_mindsphere_hostname = Some ''h'', cc_mindsphere_port = 443,
     cc_mindsphere_certificate = None, cc_certificate_is_file = None, cc_proxy_hostname = None,
     cc_proxy_port = 0, cc_proxy_type = -1, cc_proxy_username = None, cc_proxy_password = None,
     cc_proxy_domain = None, cc_security_profile = MCL_SECURITY_SHARED_SECRET, cc_http_request_timeout = 300,
     cc_user_agent = Some ''a'', cc_initial_access_token = Some ''iat'', cc_register_endpoint = Some ''h/register'',
     cc_token_endpoint = Some ''h/token'', cc_tenant = Some ''t'', cc_credentials_load_callback = True,
     cc_credentials_save_callback = True, cc_critical_section_enter_callback = True,
     cc_critical_section_leave_callback = True\<rparr>"

definition sample_core :: "security_handler_t \<Rightarrow> core_t" where
  "sample_core sh = \<lparr>core_configuration = sample_configuration_core,
     core_processor = \<lparr>cpr_configuration = sample_configuration_core, cpr_security_handler = sh\<rparr>\<rparr>"

definition sample_answer :: "nat \<Rightarrow> mcl_http_response_t" where
  "sample_answer status = \<lparr>rs_header = [], rs_payload = Some ''{...}'', rs_payload_size = 5, rs_status_code = status\<rparr>"

definition sample_credentials_json :: json where
  "sample_credentials_json = Json CObject [(Some ''client_id'', str ''c''), (Some ''client_secret'', str ''s''),
     (Some ''registration_access_token'', str ''r''), (Some ''registration_client_uri'', str ''u'')]"

theorem onboarding_all_or_nothing_witness:
  "let c = sample_core (sample_handler\<lparr>sh_registration_access_token := None\<rparr>);
       w = core_start\<lparr>w_answers := [Ok (sample_answer 201)], w_saves := [MCL_FAIL]\<rparr> in
   \<exists>p w'. run_state (mcl_core_onboard sample_openssl (\<lambda>_. Some sample_credentials_json) (Some c)) w =
       (Some (MCL_FAIL, Some (c\<lparr>core_processor := p\<rparr>)), w') \<and>
     w_section w' = [True, False] \<and> length (w_sent w') = 1 \<and>
     w_saved w' = [credentials_of [Some ''c'', Some ''s'', Some ''r'', Some ''u'']]"
proof -
  let ?c = "sample_core (sample_handler\<lparr>sh_registration_access_token := None\<rparr>)"
  let ?w = "core_start\<lparr>w_answers := [Ok (sample_answer 201)], w_saves := [MCL_FAIL]\<rparr>"
  have members: "accepted (\<lambda>_. Some sample_credentials_json) (next_answer ?w) =
      Some [Some ''c'', Some ''s'', Some ''r'', Some ''u'']"
    by (simp add: accepted_def next_answer_def core_start_def sample_answer_def answered_def parse_payload_def
        json_util_parse_def sample_credentials_json_def shared_secret_members_def cJSON_GetObjectItem_def
        same_name_def map_LOWERCASE_eq lower_code_def member_text_def str_def)
  have "good_world ?w" "w_enters ?w = []" "next_answer ?w \<noteq> Err MCL_OK" "waiting_agent ?c"
    by (simp_all add: good_world_def core_start_def next_answer_def waiting_agent_def sample_core_def
        sample_configuration_core_def sample_handler_def)
  from onboarding_all_or_nothing [OF this(1,2,4,3), of sample_openssl "\<lambda>_. Some sample_credentials_json"]
  show ?thesis unfolding onboarding_outcome_def members
    by (auto simp: Let_def section_log_def first_save_def core_start_def sample_core_def
        sample_configuration_core_def credentials_callbacks_def section_callbacks_def)
qed

section \<open>The rotation of an RSA key\<close>

lemma run_big_number:
  assumes "w_alloc w = []"
  shows "run_state (base64_encode_big_number bs) w = (Some (Ok (encoded bs)), w)"
  using assms run_base64_url_string [OF assms, of bs] by (simp add: base64_encode_big_number_def)

lemma run_guid:
  assumes "good_world w"
  shows "\<exists>guid. run_state random_generate_guid w = ((MCL_OK, Some guid), w)"
  using assms print_guid [of "replicate 16 0"] by (simp add: random_generate_guid_def good_world_def)

lemma run_fill_key:
  assumes "good_world w"
  shows "\<exists>key. run_state (fill_key (Some (Json CObject [])) e n) w = ((MCL_OK, Some key), w)"
proof -
  obtain guid where "run_state random_generate_guid w = ((MCL_OK, Some guid), w)" using run_guid [OF assms] by blast
  then show ?thesis using assms by (simp add: fill_key_def build lower_code_def good_world_def)
qed

lemma run_add_jwks:
  assumes "good_world w" and "rsa_public_key (sh_rsa sh) = Some public_key"
    and "ssl_read_public_key openssl public_key = Some (n, e)" and "fresh_name ''jwks'' cs"
  shows "\<exists>root. run_state (add_jwks openssl (Json CObject cs) sh) w = (Some (MCL_OK, root), w)"
proof -
  have w: "w_alloc w = []" using assms(1) by (simp add: good_world_def)
  obtain key where "run_state (fill_key (Some (Json CObject [])) (encoded e) (encoded n)) w = ((MCL_OK, Some key), w)"
    using run_fill_key [OF assms(1)] by blast
  moreover have "run_state (json_util_start_object (Json CObject cs) ''jwks'') w = ((MCL_OK, Some (Json CObject []), True), w)"
    using assms(4) w by (simp add: json_util_start_object_def json_util_start_def json_util_initialize_def fresh_name_get)
  moreover have "run_state (json_util_start_array (Json CObject []) ''keys'') w = ((MCL_OK, Some (Json CArray []), True), w)"
    using w by (simp add: json_util_start_array_def json_util_start_def json_util_initialize_def
        json_util_get_object_item_def cJSON_GetObjectItem_def)
  ultimately show ?thesis using assms(2,3) w
    by (simp add: add_jwks_def security_rsa_get_modulus_and_exponent_def run_big_number json_util_initialize_def
        link_child_def)
qed

text \<open>The world after one key pair was drawn.\<close>

definition drawn :: "'z core_world_scheme \<Rightarrow> 'z core_world_scheme" where
  "drawn w = w\<lparr>w_key_pairs := tl (w_key_pairs w)\<rparr>"

definition with_key :: "string \<times> string \<Rightarrow> security_handler_t \<Rightarrow> security_handler_t" where
  "with_key k sh = sh\<lparr>sh_rsa := \<lparr>rsa_public_key = Some (fst k), rsa_private_key = Some (snd k)\<rparr>\<rparr>"

lemma run_generate_rsa_key:
  assumes "w_alloc w = []" and "w_key_pairs w = Some k # ks"
  shows "run_state (security_handler_generate_rsa_key sh) w = ((MCL_OK, with_key k sh), drawn w)"
  using assms
  by (cases k) (simp add: security_handler_generate_rsa_key_def security_generate_rsa_key_def generate_key_pair_def
      run_bind run_malloc with_key_def drawn_def)

lemma run_rotation_json:
  assumes "good_world w" and "w_key_pairs w = Some k # ks" and "sh_client_id sh = Some (a, client_id)"
    and "ssl_read_public_key openssl (fst k) = Some (n, e)"
  shows "\<exists>payload. run_state (compose_rsa_key_rotation_json openssl sh) w =
    (Some (MCL_OK, with_key k sh, Some payload), drawn w)"
proof -
  have w: "w_alloc w = []" "w_alloc (drawn w) = []" "good_world (drawn w)"
    using assms(1) by (simp_all add: good_world_def drawn_def)
  let ?sh = "sh\<lparr>sh_rsa := \<lparr>rsa_public_key = None, rsa_private_key = None\<rparr>\<rparr>"
  have key: "with_key k ?sh = with_key k sh" "sh_client_id (with_key k sh) = sh_client_id sh"
    "rsa_public_key (sh_rsa (with_key k sh)) = Some (fst k)" by (simp_all add: with_key_def)
  have "fresh_name ''jwks'' [(Some ''client_id'', str client_id)]" by (simp add: lower_code_def)
  from run_add_jwks [OF w(3) key(3) assms(4) this] obtain root where
    "run_state (add_jwks openssl (Json CObject [(Some ''client_id'', str client_id)]) (with_key k sh)) (drawn w) =
      (Some (MCL_OK, root), drawn w)" by blast
  then show ?thesis
    using w assms(3) run_generate_rsa_key [OF w(1) assms(2), of ?sh] key
    by (simp add: compose_rsa_key_rotation_json_def json_util_initialize_def build json_util_to_string_def)
qed

definition refused :: "mcl_http_response_t result \<Rightarrow> bool" where
  "refused answer = (case answer of Err code \<Rightarrow> code \<noteq> MCL_OK | Ok a \<Rightarrow> rs_status_code a \<noteq> 200)"

text \<open>An onboarded agent of the RSA profile.\<close>

definition rsa_agent :: "core_t \<Rightarrow> bool" where
  "rsa_agent c \<longleftrightarrow> (let sh = cpr_security_handler (core_processor c) in
     cc_security_profile (cpr_configuration (core_processor c)) = MCL_SECURITY_RSA_3072 \<and>
     sh_client_id sh \<noteq> None \<and> sh_registration_uri sh \<noteq> None \<and>
     (\<exists>t. sh_registration_access_token sh = Some t \<and> length t + 8 < 2 ^ 32))"

lemma run_compose_rotation:
  assumes "good_world w" and "w_key_pairs w = Some k # ks" and "sh_client_id (cpr_security_handler p) = Some (a, client_id)"
    and "ssl_read_public_key openssl (fst k) = Some (n, e)"
    and "cc_security_profile (cpr_configuration p) = MCL_SECURITY_RSA_3072"
    and "sh_registration_access_token (cpr_security_handler p) = Some token"
  shows "\<exists>payload. run_state (compose_registration openssl p) w =
    (Some (MCL_OK, p\<lparr>cpr_security_handler := with_key k (cpr_security_handler p)\<rparr>,
      Some \<lparr>rg_payload = payload, rg_token = Some token, rg_method = MCL_HTTP_PUT,
        rg_uri = sh_registration_uri (cpr_security_handler p)\<rparr>), drawn w)"
proof -
  obtain payload where "run_state (compose_rsa_key_rotation_json openssl (cpr_security_handler p)) w =
      (Some (MCL_OK, with_key k (cpr_security_handler p), Some payload), drawn w)"
    using run_rotation_json [OF assms(1-4)] by blast
  then show ?thesis using assms(5,6)
    by (simp add: compose_registration_def key_rotation_payload_def with_key_def)
qed

text \<open>C33. The rotation of an RSA key is not all or nothing: when the server refuses the new key, or is
  not reached, the error is returned but the agent has already replaced the key pair the server knows
  by the new one.\<close>

theorem rsa_rotation_replaces_key:
  assumes "good_world w" and "w_enters w = []" and "rsa_agent c" and "refused (next_answer w)"
    and "w_key_pairs w = Some k # ks" and "ssl_read_public_key openssl (fst k) = Some (n, e)"
  shows "\<exists>code w'. run_state (mcl_core_rotate_key openssl cJSON_parse (Some c)) w =
      (Some (code, Some (c\<lparr>core_processor := (core_processor c)
         \<lparr>cpr_security_handler := with_key k (cpr_security_handler (core_processor c))\<rparr>\<rparr>)), w') \<and>
    code \<noteq> MCL_OK"
proof -
  let ?p = "core_processor c" and ?w = "entered (core_configuration c) w"
  let ?p' = "?p\<lparr>cpr_security_handler := with_key k (cpr_security_handler ?p)\<rparr>"
  obtain a client_id uri token where agent: "sh_client_id (cpr_security_handler ?p) = Some (a, client_id)"
      "sh_registration_uri (cpr_security_handler ?p) = Some uri"
      "sh_registration_access_token (cpr_security_handler ?p) = Some token" "length token + 8 < 2 ^ 32"
      "cc_security_profile (cpr_configuration ?p) = MCL_SECURITY_RSA_3072"
    using assms(3) by (auto simp: rsa_agent_def Let_def)
  have w: "good_world ?w" "w_key_pairs ?w = Some k # ks" "good_world (drawn ?w)" "w_alloc (drawn ?w) = []"
      "next_answer (drawn ?w) = next_answer w"
    using assms(1,5) by (simp_all add: entered_def drawn_def good_world_def next_answer_def)
  obtain payload where composed: "run_state (compose_registration openssl ?p) ?w = (Some (MCL_OK, ?p',
      Some \<lparr>rg_payload = payload, rg_token = Some token, rg_method = MCL_HTTP_PUT, rg_uri = Some uri\<rparr>), drawn ?w)"
    using run_compose_rotation [OF w(1,2) agent(1) assms(6) agent(5,3)] agent(2) by auto
  let ?rg = "\<lparr>rg_payload = payload, rg_token = Some token, rg_method = MCL_HTTP_PUT, rg_uri = Some uri\<rparr>"
  have "registration_code ?p' r \<noteq> MCL_OK" if "rs_status_code r \<noteq> 200" for r
    using that agent(3) by (simp add: registration_code_def with_key_def mcl_http_response_get_status_def http_status_codes Let_def)
  then have "\<exists>code w'. run_state (send_registration cJSON_parse ?p' ?rg (''Bearer '' @ token)) (drawn ?w) =
      (Some (code, ?p'), w') \<and> code \<noteq> MCL_OK"
    using run_send_registration [OF w(3), of ?rg uri] assms(4)
    by (auto simp: w(5) refused_def process_registration_response_def Let_def simp del: append.simps split: sum.splits)
  then obtain code w1 where sent: "run_state (send_registration cJSON_parse ?p' ?rg (''Bearer '' @ token)) (drawn ?w) =
      (Some (code, ?p'), w1)" "code \<noteq> MCL_OK" by blast
  have "run_state (on_processor c (core_processor_register openssl cJSON_parse ?p)) ?w =
      (Some (code, c\<lparr>core_processor := ?p'\<rparr>), w1)"
    using composed sent(1) run_auth_header [OF w(4) agent(4)]
    by (simp add: on_processor_def core_processor_register_def del: append.simps)
  from run_in_critical_section [OF assms(2) this] show ?thesis using sent(2) agent(3)
    by (simp add: mcl_core_rotate_key_def on_core_def mcl_core_is_onboarded_def)
qed

theorem rsa_rotation_replaces_key_witness:
  "let c = sample_core (with_key (''old'', ''old'') sample_handler);
       c = c\<lparr>core_processor := (core_processor c)
         \<lparr>cpr_configuration := sample_configuration_core\<lparr>cc_security_profile := MCL_SECURITY_RSA_3072\<rparr>\<rparr>\<rparr> in
   \<exists>code c' w'. run_state (mcl_core_rotate_key sample_openssl (\<lambda>_. None) (Some c))
       (core_start\<lparr>w_answers := [Err MCL_FAIL], w_key_pairs := [Some (''new'', ''new'')]\<rparr>) =
       (Some (code, Some c'), w') \<and> code \<noteq> MCL_OK \<and>
     rsa_private_key (sh_rsa (cpr_security_handler (core_processor c'))) = Some ''new''"
proof -
  define c where "c = (sample_core (with_key (''old'', ''old'') sample_handler))\<lparr>core_processor :=
     (core_processor (sample_core (with_key (''old'', ''old'') sample_handler)))
         \<lparr>cpr_configuration := sample_configuration_core\<lparr>cc_security_profile := MCL_SECURITY_RSA_3072\<rparr>\<rparr>\<rparr>"
  let ?w = "core_start\<lparr>w_answers := [Err MCL_FAIL], w_key_pairs := [Some (''new'', ''new'')]\<rparr>"
  have "good_world ?w" "w_enters ?w = []" "rsa_agent c" "refused (next_answer ?w)"
      "w_key_pairs ?w = Some (''new'', ''new'') # []"
      "ssl_read_public_key sample_openssl (fst (''new'', ''new'')) = Some ([1], [1, 0, 1])"
    by (simp_all add: good_world_def core_start_def refused_def next_answer_def c_def rsa_agent_def sample_core_def
        with_key_def sample_handler_def sample_openssl_def)
  from rsa_rotation_replaces_key [OF this, of "\<lambda>_. None"] show ?thesis
    unfolding Let_def c_def [symmetric] by (auto simp: with_key_def)
qed

end
