(* ===== verification/MclCoreSafe.thy ===== *)
theory MclCoreSafe
  imports MclCoreProps
begin

text \<open>
  Histories of calls on a core of the shared-secret profile. The collection \<open>safe\<close> holds
  the rules of a small Hoare logic for the core: what a statement returns in every world in which the
  callbacks hand out complete credentials and no answer of the server gives a \<open>null\<close> for one, and
  that it leaves the critical section alone.
\<close>

named_theorems safe

section \<open>Safe statements\<close>

definition complete_credentials :: "credentials_t \<Rightarrow> bool" where
  "complete_credentials c \<longleftrightarrow>
     cr_client_id c \<noteq> None \<and> cr_client_secret c \<noteq> None \<and> cr_registration_access_token c \<noteq> None"

text \<open>
  An answer whose document, read by the parser \<open>J\<close>, has no \<open>null\<close> for a member of the credentials.
  Only the answers that come are asked; about any other text nothing is said of the parser.
\<close>

definition no_null_credentials :: "(string \<Rightarrow> json option) \<Rightarrow> mcl_http_response_t \<Rightarrow> bool" where
  "no_null_credentials J a \<longleftrightarrow> (\<forall>root key j. parse_payload J a = Ok root \<longrightarrow> key \<in> set shared_secret_members \<longrightarrow>
     cJSON_GetObjectItem root key = Some j \<longrightarrow> json_value j \<noteq> CNull)"

definition proper_world :: "(string \<Rightarrow> json option) \<Rightarrow> 'z core_world_scheme \<Rightarrow> bool" where
  "proper_world J w \<longleftrightarrow> (\<forall>(code, c) \<in> set (w_loads w). code = MCL_OK \<longrightarrow> complete_credentials c) \<and>
     (\<forall>a. Ok a \<in> set (w_answers w) \<longrightarrow> no_null_credentials J a)"

definition keeps :: "(string \<Rightarrow> json option) \<Rightarrow> ('a \<Rightarrow> bool) \<Rightarrow> ('z, 'a) core_io \<Rightarrow> bool" where
  "keeps J P m \<longleftrightarrow> (\<forall>w. proper_world J w \<longrightarrow> (case run_state m w of (x, w') \<Rightarrow>
     P x \<and> proper_world J w' \<and> w_section w' = w_section w))"

lemma keepsD:
  assumes "keeps J P m" and "run_state m w = (x, w')" and "proper_world J w"
  shows "P x" and "proper_world J w'" and "w_section w' = w_section w"
  using assms by (auto simp: keeps_def)

lemma keepsI:
  assumes "\<And>w x w'. run_state m w = (x, w') \<Longrightarrow> proper_world J w \<Longrightarrow>
    P x \<and> proper_world J w' \<and> w_section w' = w_section w"
  shows "keeps J P m"
  using assms by (auto simp: keeps_def split: prod.split)

lemma keeps_return [safe]: "P x \<Longrightarrow> keeps J P (State_Monad.return x)"
  by (rule keepsI) auto

lemma keeps_bind:
  assumes "keeps J Q m" and "\<And>x. Q x \<Longrightarrow> keeps J P (f x)"
  shows "keeps J P (State_Monad.bind m f)"
proof (rule keepsI)
  fix w y w'
  assume run: "run_state (State_Monad.bind m f) w = (y, w')" and w: "proper_world J w"
  obtain x w1 where x: "run_state m w = (x, w1)" by fastforce
  note m = keepsD [OF assms(1) x w]
  from run x have "run_state (f x) w1 = (y, w')" by simp
  from keepsD [OF assms(2) [OF m(1)] this m(2)] m(3)
  show "P y \<and> proper_world J w' \<and> w_section w' = w_section w" by simp
qed

lemma keeps_weaken: "keeps J Q m \<Longrightarrow> (\<And>x. Q x \<Longrightarrow> P x) \<Longrightarrow> keeps J P m"
  by (fastforce simp: keeps_def)

text \<open>A builder keeps the rest of the world; what it returns is asked separately.\<close>

lemma keeps_mem:
  assumes "mem_only m" and "\<And>w. P (fst (run_state m w))"
  shows "keeps J P m"
proof (rule keepsI)
  fix w x w'
  assume run: "run_state m w = (x, w')" and w: "proper_world J w"
  from mem_onlyD [OF assms(1) run] have "w_loads w' = w_loads w" "w_answers w' = w_answers w" "w_section w' = w_section w" by auto
  then show "P x \<and> proper_world J w' \<and> w_section w' = w_section w"
    using w run assms(2) [of w] by (simp add: proper_world_def)
qed

lemma keeps_builder: "mem_only m \<Longrightarrow> keeps J (\<lambda>_. True) m"
  by (rule keeps_mem) simp_all

text \<open>A builder followed by something that does not depend on what it returned.\<close>

lemma keeps_after: "mem_only m \<Longrightarrow> (\<And>x. keeps J P (f x)) \<Longrightarrow> keeps J P (State_Monad.bind m f)"
  by (rule keeps_bind [OF keeps_builder])

lemma keeps_if [safe]:
  "(b \<Longrightarrow> keeps J P m) \<Longrightarrow> (\<not> b \<Longrightarrow> keeps J P n) \<Longrightarrow> keeps J P (if b then m else n)"
  by simp

lemma keeps_case_prod [safe]: "(\<And>a b. p = (a, b) \<Longrightarrow> keeps J P (f a b)) \<Longrightarrow> keeps J P (case p of (a, b) \<Rightarrow> f a b)"
  by (cases p) simp

lemma keeps_case_option [safe]:
  "(p = None \<Longrightarrow> keeps J P m) \<Longrightarrow> (\<And>x. p = Some x \<Longrightarrow> keeps J P (f x)) \<Longrightarrow>
   keeps J P (case p of None \<Rightarrow> m | Some x \<Rightarrow> f x)"
  by (cases p) simp_all

lemma keeps_case_sum [safe]:
  "(\<And>x. p = Err x \<Longrightarrow> keeps J P (f x)) \<Longrightarrow> (\<And>x. p = Ok x \<Longrightarrow> keeps J P (g x)) \<Longrightarrow>
   keeps J P (case p of Err x \<Rightarrow> f x | Ok x \<Rightarrow> g x)"
  by (cases p) simp_all

lemma keeps_let [safe]: "keeps J P (f x) \<Longrightarrow> keeps J P (let y = x in f y)"
  by simp

section \<open>Builders of the core\<close>

lemma frame_json_util [frame]:
  "mem_only (json_util_initialize t)" "mem_only (json_util_add_string j n s)" "mem_only (json_util_to_string j)"
  "mem_only (json_util_start_array j k)" "mem_only (json_util_add_double j n i)" "mem_only (reset_field s)"
  unfolding json_util_initialize_def json_util_add_string_def json_util_to_string_def json_util_start_array_def
    json_util_start_def json_util_add_double_def add_number_def reset_field_def
  by (intro frame)+

lemma frame_strings [frame]: "mem_only (add_string_pointer j k p)" "mem_only (json_util_get_string j)"
proof -
  show "mem_only (add_string_pointer j k p)" unfolding add_string_pointer_def by (intro frame)
  show "mem_only (json_util_get_string j)"
    unfolding json_util_get_string_def by (cases "json_value j") (auto intro!: frame)
qed

lemma frame_guid [frame]: "mem_only random_generate_guid"
  unfolding random_generate_guid_def by (intro frame)

lemma frame_correlation [frame]: "mem_only core_correlation_id" "mem_only (add_core_correlation_id code rq)"
proof -
  show "mem_only core_correlation_id" unfolding core_correlation_id_def by (intro frame)
  then show "mem_only (add_core_correlation_id code rq)" unfolding add_core_correlation_id_def by (intro frame)
qed

lemma frame_registration [frame]:
  "mem_only (registration_request rg auth)" "mem_only (auth_header token)"
  "mem_only (access_token_request_start p)"
  unfolding registration_request_def auth_header_def access_token_request_start_def by (intro frame)+

lemma add_correlation_defined: "fst (run_state (add_core_correlation_id code rq) w) \<noteq> None"
proof -
  obtain r w1 where run: "run_state core_correlation_id w = (r, w1)" by fastforce
  then show ?thesis using core_correlation_id_defined [of w]
    by (cases r) (auto simp: add_core_correlation_id_def run_bind split: option.splits prod.splits)
qed

lemma keeps_correlation [safe]: "keeps J (\<lambda>r. r \<noteq> None) (add_core_correlation_id code rq)"
  by (rule keeps_mem, rule frame) (rule add_correlation_defined)

section \<open>The token is defined\<close>

lemma frame_token [frame]:
  "mem_only (base64_url_string data n)" "mem_only (join_with_dot a b)" "mem_only (security_hash_sha256 H data)"
  "mem_only (create_self_issued_jwt_header profile)" "mem_only (fill_jwt_payload j ci t u i)"
proof -
  have "mem_only (add_schema_to_jwt k)" for k unfolding add_schema_to_jwt_def by (intro frame)
  note this [frame]
  show "mem_only (base64_url_string data n)" "mem_only (join_with_dot a b)" "mem_only (security_hash_sha256 H data)"
    "mem_only (create_self_issued_jwt_header profile)" "mem_only (fill_jwt_payload j ci t u i)"
    unfolding base64_url_string_def join_with_dot_def security_hash_sha256_def
      create_self_issued_jwt_header_def fill_jwt_payload_def
    by (intro frame)+
qed

lemma frame_hmac [frame]: "mem_only (hmac_sha256 H data n key m)"
  unfolding hmac_sha256_def local_key_def keyed_hash_def outer_hash_def by (intro frame)

text \<open>An optional code and value that is there, and whose string is one.\<close>

definition string_if_ok :: "string result option \<Rightarrow> bool" where
  "string_if_ok r \<longleftrightarrow> (\<exists>x. r = Some x \<and> (\<forall>s. x = Ok s \<longrightarrow> cstring s))"

lemma keeps_base64:
  assumes "n = length data"
  shows "keeps J string_if_ok (base64_url_string data n)"
proof (rule keeps_mem, rule frame)
  fix w
  have "base64_url_encode a data n = Some (if a then Ok (map Some (cstr (encoded data))) else Err MCL_OUT_OF_MEMORY)" for a
    using encode_with_table_spec [OF url.enc_length, of a data "[]"] assms
    by (simp add: base64_url_encode_def encoded_def)
  then show "string_if_ok (fst (run_state (base64_url_string data n) w))"
    using block_string_exact [of "encoded data"] encoded_plain(1)
    by (cases "w_alloc w") (auto simp: base64_url_string_def run_bind run_malloc string_if_ok_def cstring_def)
qed

lemma keeps_join:
  assumes "cstring a" and "cstring b"
  shows "keeps J (\<lambda>r. \<exists>code s. r = Some (code, s) \<and> (\<forall>t. s = Some t \<longrightarrow> cstring t)) (join_with_dot a b)"
proof (rule keeps_mem, rule frame)
  fix w
  have "cstring (a @ ''.'' @ b)" using assms by (simp add: cstring_def MCL_NULL_CHAR_def)
  then show "\<exists>code s. fst (run_state (join_with_dot a b) w) = Some (code, s) \<and> (\<forall>t. s = Some t \<longrightarrow> cstring t)"
    using join_block [OF assms]
    by (cases "w_alloc w") (auto simp: join_with_dot_def run_bind run_malloc)
qed

lemma keeps_hmac:
  assumes "\<And>x. length (H x) = 32"
  shows "keeps J (\<lambda>r. \<exists>x. r = Some x \<and> (\<forall>d n. x = Ok (d, n) \<longrightarrow> n = length d)) (hmac_sha256 H data (length data) key (length key))"
proof (rule keeps_mem, rule frame)
  fix w
  have len: "length (hmac_spec H key data) = 32" using assms by (simp add: hmac_spec_def Let_def)
  show "\<exists>x. fst (run_state (hmac_sha256 H data (length data) key (length key)) w) = Some x \<and>
      (\<forall>d n. x = Ok (d, n) \<longrightarrow> n = length d)"
    using hmac_outcome [where ?sha256.0 = H and data = data and key = key and w = w, OF assms] len
    by (auto split: if_splits)
qed

section \<open>The token of an agent\<close>

lemma string_if_ok_map: "string_if_ok r \<Longrightarrow> string_if_ok (map_option (map_sum f id) r)"
  by (cases r; cases "the r") (auto simp: string_if_ok_def)

lemma keeps_signature:
  assumes "\<And>x. length (ssl_sha256 openssl x) = 32"
    and "jwt_security_profile jwt = MCL_SECURITY_SHARED_SECRET"
    and "sh_client_secret (jwt_security_handler jwt) = Some secret"
  shows "keeps J string_if_ok (calculate_signature openssl jwt s)"
proof -
  have encode: "keeps J string_if_ok (do { s \<leftarrow> base64_url_string hash hash_size;
      State_Monad.return (map_option (map_sum (\<lambda>_. MCL_FAIL) id) s) })" if "hash_size = length hash" for hash hash_size
    by (rule keeps_bind [OF keeps_base64 [OF that]], rule keeps_return) (rule string_if_ok_map)
  have error: "keeps J string_if_ok (State_Monad.return (Some (Err code)))" for code
    by (rule keeps_return) (simp add: string_if_ok_def)
  have "keeps J (\<lambda>r. \<exists>x. r = Some x \<and> (\<forall>d n. x = Ok (d, n) \<longrightarrow> n = length d))
      (hmac_sha256 (ssl_sha256 openssl) (string_bytes s) (length s) (string_bytes secret) (length secret))"
    using keeps_hmac [where H = "ssl_sha256 openssl" and data = "string_bytes s" and key = "string_bytes secret"] assms(1)
    by simp
  note mac = this
  show ?thesis
    using assms(2,3) unfolding calculate_signature_def security_handler_hmac_sha256_def
      security_handler_base64_url_encode_def
    by (simp, intro keeps_bind [OF mac]) (auto intro!: keeps_case_sum keeps_case_prod encode error)
qed

lemma keeps_generate_token:
  assumes "\<And>s. keeps J string_if_ok (calculate_signature openssl jwt s :: ('z, string result option) core_io)"
  shows "keeps J (\<lambda>r. r \<noteq> None) (generate_token openssl jwt header payload :: ('z, string result option) core_io)"
proof -
  have join: "keeps J P (join_with_dot a b \<bind> f)"
    if "cstring a" "cstring b" "\<And>code s. (\<forall>t. s = Some t \<longrightarrow> cstring t) \<Longrightarrow> keeps J P (f (Some (code, s)))" for P a b f
    by (rule keeps_bind [OF keeps_join [OF that(1,2)]]) (auto intro: that(3))
  have encode: "keeps J P (base64_url_string data n \<bind> f)"
    if "n = length data" "\<And>x. (\<forall>s. x = Ok s \<longrightarrow> cstring s) \<Longrightarrow> keeps J P (f (Some x))" for P data n f
    by (rule keeps_bind [OF keeps_base64 [OF that(1)]]) (auto simp: string_if_ok_def intro: that(2))
  have pair: "keeps J (\<lambda>r. \<exists>x. r = Some x \<and> (\<forall>h p. x = Ok (h, p) \<longrightarrow> cstring h \<and> cstring p))
      (get_header_and_payload_encoded_base64_url header payload)"
    unfolding get_header_and_payload_encoded_base64_url_def security_handler_base64_url_encode_def
    by (auto intro!: encode safe split: sum.splits)
  show ?thesis unfolding generate_token_def
    by (rule keeps_bind [OF pair]) (auto intro!: join keeps_bind [OF assms] safe simp: string_if_ok_def split: option.split)
qed

lemma keeps_time: "keeps J (\<lambda>_. True) get_time"
  by (rule keepsI) (simp add: get_time_def)

lemma keeps_jwt_payload: "keeps J (\<lambda>(code, jwt'). jwt_security_handler jwt' = jwt_security_handler jwt \<and>
    jwt_security_profile jwt' = jwt_security_profile jwt) (create_self_issued_jwt_payload sh tenant jwt)"
  unfolding create_self_issued_jwt_payload_def security_handler_generate_jti_def
  by (auto intro!: safe keeps_after keeps_bind [OF keeps_time] frame)

lemma keeps_jwt_initialize: "keeps J (\<lambda>(code, jwt). \<forall>j. jwt = Some j \<longrightarrow> jwt_security_handler j = sh \<and>
    jwt_security_profile j = profile) (jwt_initialize sh profile tenant)"
  unfolding jwt_initialize_def
  by (auto intro!: safe keeps_after keeps_bind [OF keeps_jwt_payload] frame split: if_splits)

lemma keeps_get_token:
  assumes "\<And>x. length (ssl_sha256 openssl x) = 32"
    and "jwt_security_profile jwt = MCL_SECURITY_SHARED_SECRET"
    and "sh_client_secret (jwt_security_handler jwt) = Some secret"
  shows "keeps J (\<lambda>r. r \<noteq> None) (jwt_get_token openssl jwt)"
  unfolding jwt_get_token_def
  by (auto intro!: safe keeps_after frame keeps_bind [OF keeps_generate_token [OF keeps_signature [OF assms]]])

section \<open>Agents\<close>

text \<open>An agent of the shared-secret profile that can go on: with an initial token as long as it is not
  onboarded, with its client id and secret afterwards.\<close>

definition good_agent :: "core_processor_t \<Rightarrow> bool" where
  "good_agent p \<longleftrightarrow> (let k = cpr_configuration p; sh = cpr_security_handler p in
     cc_security_profile k = MCL_SECURITY_SHARED_SECRET \<and> cc_tenant k \<noteq> None \<and>
     (case sh_registration_access_token sh of
        None \<Rightarrow> cc_initial_access_token k \<noteq> None
      | Some _ \<Rightarrow> sh_client_id sh \<noteq> None \<and> sh_client_secret sh \<noteq> None))"

definition same_agent :: "core_processor_t \<Rightarrow> core_processor_t \<Rightarrow> bool" where
  "same_agent p p' \<longleftrightarrow> good_agent p' \<and> cpr_configuration p' = cpr_configuration p"

definition goes_on :: "core_processor_t \<Rightarrow> (mcl_error \<times> core_processor_t) option \<Rightarrow> bool" where
  "goes_on p r \<longleftrightarrow> (\<exists>code p'. r = Some (code, p') \<and> same_agent p p')"

lemma goes_on_simps [simp]:
  "goes_on p (Some (code, p')) = same_agent p p'" "\<not> goes_on p None"
  by (simp_all add: goes_on_def)

lemma same_agent_refl: "good_agent p \<Longrightarrow> same_agent p p"
  by (simp add: same_agent_def)

section \<open>Registration\<close>

lemma keeps_new_address: "keeps J (\<lambda>a. a = None \<longleftrightarrow> s = None) (new_address s)"
  by (rule keepsI) (auto simp: new_address_def proper_world_def)

lemma no_null_success: "no_null_credentials J http_success"
  by (simp add: no_null_credentials_def http_success_def parse_payload_def)

lemma keeps_send: "keeps J (\<lambda>r. \<forall>a. r = Ok a \<longrightarrow> no_null_credentials J a) (mcl_http_client_send rq)"
proof (rule keepsI)
  fix w x w'
  assume "run_state (mcl_http_client_send rq) w = (x, w')" and w: "proper_world J w"
  then have "x = next_answer w" "w' = sent rq w" by (simp_all add: run_http_client_send)
  then show "(\<forall>a. x = Ok a \<longrightarrow> no_null_credentials J a) \<and> proper_world J w' \<and> w_section w' = w_section w"
    using w no_null_success by (cases "w_answers w") (auto simp: next_answer_def sent_def proper_world_def)
qed

lemma keeps_save: "keeps J (\<lambda>_. True) (save_credentials k sh)"
proof -
  have "keeps J (\<lambda>_. True) (call_save_callback c)" for c
    by (rule keepsI) (auto simp: call_save_callback_def proper_world_def Let_def split: list.splits)
  then show ?thesis unfolding save_credentials_def by (auto intro!: safe)
qed

lemma keeps_get_string: "keeps J (\<lambda>(code, s). code = MCL_OK \<longrightarrow> json_value j \<noteq> CNull \<longrightarrow> s \<noteq> None) (json_util_get_string j)"
proof (rule keeps_mem, rule frame)
  show "case fst (run_state (json_util_get_string j) w) of
      (code, s) \<Rightarrow> code = MCL_OK \<longrightarrow> json_value j \<noteq> CNull \<longrightarrow> s \<noteq> None" for w
    by (cases "json_value j"; cases "w_alloc w") (auto simp: json_util_get_string_def run_bind run_malloc)
qed

lemma keeps_get_strings:
  assumes "\<And>j. j \<in> set js \<Longrightarrow> json_value j \<noteq> CNull"
  shows "keeps J (\<lambda>r. \<forall>ss. r = Ok ss \<longrightarrow> length ss = length js \<and> None \<notin> set ss) (get_strings js)"
  using assms
proof (induction js)
  case (Cons j js)
  have "json_value i \<noteq> CNull" if "i \<in> set js" for i using Cons.prems that by simp
  note rest = Cons.IH [OF this]
  show ?case unfolding get_strings.simps
    by (rule keeps_bind [OF keeps_get_string]) (use Cons.prems in \<open>auto intro!: safe keeps_bind [OF rest] split: sum.splits\<close>)
qed (auto intro: safe)

lemma get_members_found:
  "get_members root keys = Ok js \<Longrightarrow> length js = length keys \<and>
   (\<forall>j \<in> set js. \<exists>key \<in> set keys. cJSON_GetObjectItem root key = Some j)"
  by (induction keys arbitrary: js) (auto simp: json_util_get_object_item_def split: option.splits sum.splits)

lemma keeps_parse_members:
  assumes "no_null_credentials J a" and "set keys \<subseteq> set shared_secret_members"
  shows "keeps J (\<lambda>r. \<forall>ss. r = Ok ss \<longrightarrow> length ss = length keys \<and> None \<notin> set ss) (parse_members J a keys)"
proof -
  have "json_value j \<noteq> CNull"
    if "parse_payload J a = Ok root" "get_members root keys = Ok js" "j \<in> set js" for root js j
    using that assms get_members_found [OF that(2)]
    by (fastforce simp: no_null_credentials_def)
  then have "keeps J (\<lambda>r. \<forall>ss. r = Ok ss \<longrightarrow> length ss = length keys \<and> None \<notin> set ss) (get_strings js)"
    if "parse_payload J a = Ok root" "get_members root keys = Ok js" for root js
    using keeps_get_strings [of js] get_members_found [OF that(2)] that by simp
  then show ?thesis unfolding parse_members_def by (auto intro!: safe)
qed

lemma keeps_shared_secret_response:
  assumes "no_null_credentials J a" and "good_agent p"
  shows "keeps J (\<lambda>(code, p'). same_agent p p') (process_registration_response_shared_secret J p a)"
proof -
  have taken: "keeps J (\<lambda>(code, p'). same_agent p p') (do {
      client_id \<leftarrow> new_address ci;
      State_Monad.return (MCL_OK, p\<lparr>cpr_security_handler := (cpr_security_handler p)
        \<lparr>sh_client_id := client_id, sh_client_secret := cs,
         sh_registration_access_token := rt, sh_registration_uri := ru\<rparr>\<rparr>)
    })" if "ci \<noteq> None" "cs \<noteq> None" "rt \<noteq> None" for ci cs rt ru
    using that assms(2) by (intro keeps_bind [OF keeps_new_address] keeps_return)
      (auto simp: same_agent_def good_agent_def Let_def)
  have other: "keeps J (\<lambda>(code, p'). same_agent p p') (State_Monad.return (code, p))" for code
    using assms(2) by (auto intro: keeps_return same_agent_refl)
  show ?thesis unfolding process_registration_response_shared_secret_def
    by (rule keeps_bind [OF keeps_parse_members [OF assms(1)]])
      (auto simp: shared_secret_members_def eq_commute [of None] simp del: not_None_eq split: list.splits
        intro!: keeps_case_sum taken other)
qed

lemma keeps_process_response:
  assumes "no_null_credentials J a" and "good_agent p"
  shows "keeps J (\<lambda>(code, p'). same_agent p p') (process_registration_response J p a)"
proof -
  have profile: "cc_security_profile (cpr_configuration p) = MCL_SECURITY_SHARED_SECRET"
    using assms(2) by (simp add: good_agent_def Let_def)
  show ?thesis unfolding process_registration_response_def
    using same_agent_refl [OF assms(2)]
    by (auto simp: profile intro!: safe keeps_bind [OF keeps_shared_secret_response [OF assms]] keeps_bind [OF keeps_save])
qed

lemma keeps_send_registration:
  assumes "good_agent p"
  shows "keeps J (goes_on p) (send_registration J p rg auth)"
  unfolding send_registration_def
  using same_agent_refl [OF assms]
  by (auto intro!: safe keeps_after [OF frame_registration(1)] keeps_bind [OF keeps_correlation]
      keeps_bind [OF keeps_send] keeps_bind [OF keeps_process_response [OF _ assms]])

text \<open>What is sent to register depends on whether there is a token; with one, the client id is there.\<close>

lemma keeps_compose:
  assumes "good_agent p"
  shows "keeps J (\<lambda>r. \<exists>code rg. r = Some (code, p, rg) \<and> (\<forall>g. rg = Some g \<longrightarrow> rg_token g \<noteq> None))
    (compose_registration openssl p)"
proof -
  have agent: "cc_security_profile (cpr_configuration p) = MCL_SECURITY_SHARED_SECRET"
    using assms by (simp add: good_agent_def Let_def)
  show ?thesis
  proof (cases "sh_registration_access_token (cpr_security_handler p)")
    case None
    then have "cc_initial_access_token (cpr_configuration p) \<noteq> None"
      using assms by (simp add: good_agent_def Let_def)
    then show ?thesis using None agent unfolding compose_registration_def onboarding_payload_def
      by (auto intro!: keeps_mem frame simp: run_bind run_malloc split: list.splits sum.splits)
  next
    case (Some token)
    then obtain a ci where "sh_client_id (cpr_security_handler p) = Some (a, ci)"
      using assms by (auto simp: good_agent_def Let_def)
    then show ?thesis using Some agent unfolding compose_registration_def key_rotation_payload_def
      by (auto intro!: keeps_mem frame simp: run_bind run_malloc Let_def split: list.splits sum.splits)
  qed
qed

lemma keeps_register:
  assumes "good_agent p"
  shows "keeps J (goes_on p) (core_processor_register openssl J p)"
  unfolding core_processor_register_def
  using same_agent_refl [OF assms]
  by (intro keeps_bind [OF keeps_compose [OF assms]])
    (auto intro!: safe keeps_after frame keeps_send_registration [OF assms])

section \<open>Update of the credentials\<close>

lemma keeps_load: "keeps J (\<lambda>(code, c). code = MCL_OK \<longrightarrow> complete_credentials c) load_credentials"
  by (rule keepsI) (auto simp: load_credentials_def proper_world_def split: list.splits)

lemma strncmp_defined: "length s = length t \<Longrightarrow> strncmp_eq (s @ u) (t @ v) (length t) \<noteq> None"
  by (induction s t rule: list_induct2) auto

lemma same_string_defined: "s \<noteq> None \<Longrightarrow> t \<noteq> None \<Longrightarrow> same_string s t \<noteq> None"
  using strncmp_defined by (fastforce simp: same_string_def string_util_strncmp_def cstr_def)

lemma compare_defined:
  assumes "good_agent p" and "sh_registration_access_token (cpr_security_handler p) \<noteq> None"
    and "complete_credentials c"
  shows "compare_credentials p c \<noteq> None"
proof -
  have "cc_security_profile (cpr_configuration p) = MCL_SECURITY_SHARED_SECRET"
    "sh_client_id (cpr_security_handler p) \<noteq> None" "sh_client_secret (cpr_security_handler p) \<noteq> None"
    using assms(1,2) by (auto simp: good_agent_def Let_def)
  then show ?thesis
    using assms same_string_defined [of "cr_client_id c" "map_option snd (sh_client_id (cpr_security_handler p))"]
      same_string_defined [of "cr_client_secret c" "sh_client_secret (cpr_security_handler p)"]
      same_string_defined [of "cr_registration_access_token c" "sh_registration_access_token (cpr_security_handler p)"]
    by (auto simp: compare_credentials_def check_client_secret_def complete_credentials_def Let_def)
qed

lemma keeps_update:
  assumes "good_agent p" and "sh_registration_access_token (cpr_security_handler p) \<noteq> None"
  shows "keeps J (goes_on p) (core_processor_update_credentials p)"
proof -
  have profile: "cc_security_profile (cpr_configuration p) = MCL_SECURITY_SHARED_SECRET"
    using assms(1) by (simp add: good_agent_def Let_def)
  have "goes_on p (map_option (\<lambda>code. (code, if code \<noteq> MCL_OK then p else p\<lparr>cpr_security_handler := sh\<rparr>))
      (compare_credentials p c))"
    if "complete_credentials c" "sh_registration_access_token sh = cr_registration_access_token c"
      "sh_client_secret sh = cr_client_secret c" "sh_client_id sh = sh_client_id (cpr_security_handler p)" for c sh
    using compare_defined [OF assms that(1)] assms that
    by (auto simp: same_agent_def good_agent_def complete_credentials_def Let_def)
  then show ?thesis unfolding core_processor_update_credentials_def Let_def
    using same_agent_refl [OF assms(1)]
    by (auto intro!: safe keeps_bind [OF keeps_load] simp: profile)
qed

section \<open>Access tokens\<close>

lemma keeps_token_payload:
  assumes "\<And>x. length (ssl_sha256 openssl x) = 32" and "good_agent p"
    and "sh_registration_access_token (cpr_security_handler p) \<noteq> None"
  shows "keeps J (\<lambda>r. r \<noteq> None) (compose_access_token_request_payload openssl p)"
proof -
  obtain tenant secret where agent: "cc_tenant (cpr_configuration p) = Some tenant"
      "sh_client_secret (cpr_security_handler p) = Some secret"
      "cc_security_profile (cpr_configuration p) = MCL_SECURITY_SHARED_SECRET"
    using assms(2,3) by (auto simp: good_agent_def Let_def)
  show ?thesis unfolding compose_access_token_request_payload_def agent option.case
    by (rule keeps_bind [OF keeps_jwt_initialize])
      (auto intro!: safe keeps_after [OF frame_json_util(6)]
        keeps_bind [OF keeps_get_token [OF assms(1), where secret = secret]] simp: agent)
qed

lemma same_agent_token [simp]: "same_agent p (set_access_token q t) = same_agent p q"
  by (auto simp: same_agent_def good_agent_def set_access_token_def Let_def split: option.splits)

lemma keeps_server_time:
  assumes "good_agent p"
  shows "keeps J (\<lambda>r. \<exists>q. r = Some q \<and> same_agent p q) (take_server_time p a)"
proof -
  have found: "keeps J (\<lambda>r. r \<noteq> None) (mcl_http_response_get_header (Some a) (Some name))" for name
  proof (rule keeps_mem)
    have "mem_only (header_lookup hs name)" for hs
      by (induction hs) (auto intro!: frame)
    then show "mem_only (mcl_http_response_get_header (Some a) (Some name))"
      by (simp add: mcl_http_response_get_header_def)
    show "fst (run_state (mcl_http_response_get_header (Some a) (Some name)) w) \<noteq> None" for w
      using header_lookup_total [of "rs_header a" name w] by (auto simp: mcl_http_response_get_header_def)
  qed
  show ?thesis unfolding take_server_time_def
    using assms by (intro keeps_bind [OF found] keeps_return)
      (auto simp: same_agent_def good_agent_def Let_def split: sum.split option.splits)
qed

lemma keeps_access_token: "same_agent p q \<Longrightarrow> keeps J (\<lambda>(code, q'). same_agent p q') (take_access_token cJSON_parse q a)"
  unfolding take_access_token_def Let_def
  by (auto intro!: keeps_if keeps_after keeps_return frame split: sum.split)

lemma keeps_get_access_token:
  assumes "\<And>x. length (ssl_sha256 openssl x) = 32" and "good_agent p"
    and "sh_registration_access_token (cpr_security_handler p) \<noteq> None"
  shows "keeps J (goes_on p) (core_processor_get_access_token openssl cJSON_parse p)"
proof -
  have request: "keeps J (\<lambda>r. r \<noteq> None) (access_token_request p payload)" for payload
    unfolding access_token_request_def
    by (auto intro!: safe keeps_after frame keeps_bind [OF keeps_correlation])
  show ?thesis unfolding core_processor_get_access_token_def
    using same_agent_refl [OF assms(2)]
    by (intro keeps_bind [OF keeps_token_payload [OF assms]])
      (auto intro!: safe keeps_bind [OF request] keeps_bind [OF keeps_send] keeps_bind [OF keeps_server_time [OF assms(2)]]
        keeps_bind [OF keeps_access_token])
qed

section \<open>Histories\<close>

datatype core_call = Onboard | RotateKey | UpdateCredentials | GetAccessToken

definition run_core_call ::
  "openssl_t \<Rightarrow> (string \<Rightarrow> json option) \<Rightarrow> core_call \<Rightarrow> core_t \<Rightarrow> ('z, (mcl_error \<times> core_t option) option) core_io" where
  "run_core_call openssl cJSON_parse call c =
     (case call of
        Onboard \<Rightarrow> mcl_core_onboard openssl cJSON_parse (Some c)
      | RotateKey \<Rightarrow> mcl_core_rotate_key openssl cJSON_parse (Some c)
      | UpdateCredentials \<Rightarrow> mcl_core_update_credentials (Some c)
      | GetAccessToken \<Rightarrow> mcl_core_get_access_token openssl cJSON_parse (Some c))"

text \<open>The codes of a sequence of calls and the core after them.\<close>

inductive core_history ::
  "openssl_t \<Rightarrow> (string \<Rightarrow> json option) \<Rightarrow> core_t \<Rightarrow> 'z core_world_scheme \<Rightarrow>
   core_t \<Rightarrow> 'z core_world_scheme \<Rightarrow> bool" for openssl cJSON_parse c w where
  start: "core_history openssl cJSON_parse c w c w"
| call: "core_history openssl cJSON_parse c w c' w' \<Longrightarrow>
    run_state (run_core_call openssl cJSON_parse call c') w' = (Some (code, Some c''), w'') \<Longrightarrow>
    core_history openssl cJSON_parse c w c'' w''"

definition good_core :: "core_t \<Rightarrow> bool" where
  "good_core c \<longleftrightarrow> good_agent (core_processor c) \<and> core_configuration c = cpr_configuration (core_processor c)"

text \<open>The critical section is left as often as it was entered.\<close>

fun balanced :: "bool list \<Rightarrow> bool" where
  "balanced [] = True"
| "balanced (True # False # s) = balanced s"
| "balanced _ = False"

lemma balanced_step: "balanced s \<Longrightarrow> balanced (s @ [True, False])"
  by (induction s rule: balanced.induct) auto

definition fine :: "(mcl_error \<times> core_t) option \<Rightarrow> bool" where
  "fine r \<longleftrightarrow> (\<exists>code c'. r = Some (code, c') \<and> good_core c')"

lemma section_call:
  assumes "keeps J fine operation" and "good_core c"
    and "proper_world J w" and "balanced (w_section w)"
    and "run_state (in_critical_section c operation) w = (r, w')"
  shows "fine r \<and> proper_world J w' \<and> balanced (w_section w')"
proof (cases "section_callbacks (core_configuration c)")
  case False
  then show ?thesis using keepsD [OF assms(1) _ assms(3)] assms(4,5) by (auto simp: in_critical_section_def)
next
  case True
  obtain code w1 where enter: "run_state critical_section_enter w = (code, w1)" by fastforce
  then have w1: "w_loads w1 = w_loads w" "w_answers w1 = w_answers w"
      "w_section w1 = w_section w @ (if code = MCL_OK then [True] else [])"
    by (auto simp: critical_section_enter_def split: list.splits if_splits)
  obtain x w2 where op: "run_state operation w1 = (x, w2)" by fastforce
  have "proper_world J w1" using assms(3) w1 by (simp add: proper_world_def)
  note kept = keepsD [OF assms(1) op this]
  show ?thesis
  proof (cases "code = MCL_OK")
    case True
    from kept(1) obtain c1 where "x = Some c1" by (auto simp: fine_def)
    then have "r = x" "w_section w' = w_section w @ [True, False]" "w_loads w' = w_loads w2" "w_answers w' = w_answers w2"
      using assms(5) True enter op kept(3) w1 \<open>section_callbacks (core_configuration c)\<close>
      by (auto simp: in_critical_section_def critical_section_leave_def)
    then show ?thesis using kept assms(4) balanced_step by (simp add: proper_world_def)
  next
    case False
    then show ?thesis using assms(2-5) enter w1 \<open>section_callbacks (core_configuration c)\<close>
      by (auto simp: in_critical_section_def proper_world_def fine_def)
  qed
qed

lemma keeps_on_processor:
  assumes "keeps J (goes_on (core_processor c)) operation" and "good_core c"
  shows "keeps J fine (on_processor c operation)"
  unfolding on_processor_def
  by (rule keeps_bind [OF assms(1)], rule keeps_return)
    (use assms(2) in \<open>auto simp: goes_on_def fine_def good_core_def same_agent_def\<close>)

lemma keeps_stay: "good_core c \<Longrightarrow> keeps J fine (State_Monad.return (Some (code, c)))"
  by (rule keeps_return) (simp add: fine_def)

lemma run_on_core:
  "run_state (f c) w = (Some (code, c'), w') \<Longrightarrow> run_state (on_core (Some c) f) w = (Some (code, Some c'), w')"
  by (simp add: on_core_def)

text \<open>A call on a good core returns, and leaves a good core.\<close>

lemma call_returns:
  assumes "\<And>x. length (ssl_sha256 openssl x) = 32" and "good_core c" and "proper_world cJSON_parse w" and "balanced (w_section w)"
  shows "\<exists>code c' w'. run_state (run_core_call openssl cJSON_parse call c) w = (Some (code, Some c'), w') \<and>
    good_core c' \<and> proper_world cJSON_parse w' \<and> balanced (w_section w')"
proof -
  let ?p = "core_processor c"
  have agent: "good_agent ?p" using assms(2) by (simp add: good_core_def)
  have inside: "\<exists>code c' w'. run_state (on_core (Some c) (\<lambda>c. in_critical_section c (f c))) w = (Some (code, Some c'), w') \<and>
      good_core c' \<and> proper_world cJSON_parse w' \<and> balanced (w_section w')" if "keeps cJSON_parse fine (f c)" for f
  proof -
    obtain r w' where run: "run_state (in_critical_section c (f c)) w = (r, w')" by fastforce
    from section_call [OF that assms(2-4) run] obtain code c' where
      "r = Some (code, c')" "good_core c'" "proper_world cJSON_parse w'" "balanced (w_section w')" by (auto simp: fine_def)
    then show ?thesis using run run_on_core [of "\<lambda>c. in_critical_section c (f c)"] by blast
  qed
  have onboarded: "mcl_core_is_onboarded (Some c) \<longleftrightarrow> sh_registration_access_token (cpr_security_handler ?p) \<noteq> None"
    by (simp add: mcl_core_is_onboarded_def)
  have register: "keeps cJSON_parse fine (on_processor c (core_processor_register openssl cJSON_parse ?p))"
    by (rule keeps_on_processor [OF keeps_register [OF agent] assms(2)])
  note kept = register keeps_stay [OF assms(2)]
  show ?thesis
  proof (cases call)
    case Onboard
    then show ?thesis
      by (auto simp: run_core_call_def mcl_core_onboard_def intro!: inside kept)
  next
    case RotateKey
    then show ?thesis
      by (auto simp: run_core_call_def mcl_core_rotate_key_def intro!: inside kept)
  next
    case UpdateCredentials
    then show ?thesis
      by (auto simp: run_core_call_def mcl_core_update_credentials_def onboarded
          intro!: inside kept keeps_if keeps_on_processor [OF keeps_update [OF agent] assms(2)])
  next
    case GetAccessToken
    let ?m = "if mcl_core_is_onboarded (Some c)
      then on_processor c (core_processor_get_access_token openssl cJSON_parse ?p)
      else State_Monad.return (Some (MCL_NOT_ONBOARDED, c))"
    have kept_m: "keeps cJSON_parse fine ?m"
      by (auto simp: onboarded intro!: keeps_if kept keeps_on_processor [OF keeps_get_access_token [OF assms(1) agent] assms(2)])
    obtain r w' where run: "run_state ?m w = (r, w')" by fastforce
    note after = keepsD [OF kept_m run assms(3)]
    from after(1) obtain code c' where r: "r = Some (code, c')" "good_core c'" by (auto simp: fine_def)
    from run r(1) have "run_state (mcl_core_get_access_token openssl cJSON_parse (Some c)) w = (Some (code, Some c'), w')"
      unfolding mcl_core_get_access_token_def by (intro run_on_core) simp
    then show ?thesis using GetAccessToken assms(4) after(2,3) r(2) by (auto simp: run_core_call_def)
  qed
qed

section \<open>Property\<close>

text \<open>C1. Well-formed cores do not go wrong. Take any history of calls (onboarding, key rotation, update of
  the credentials, access token) on a core of the shared-secret profile, in which no answer of the
  server gives a \<open>null\<close> for one of the credentials and the callbacks that load credentials hand out
  complete ones when they report success. Whatever else allocations, the random generator, the server
  and the callbacks did, the core is well-formed after it, the critical section has been left as often
  as entered, and every further call is defined and returns with a code and a well-formed core.
  (A \<open>null\<close> is the case that is excluded: the code takes it over, see \<open>null_client_id_goes_wrong\<close>.)\<close>

theorem core_does_not_go_wrong:
  assumes "\<And>x. length (ssl_sha256 openssl x) = 32" and "good_core c"
    and "proper_world cJSON_parse w" and "w_section w = []"
    and "core_history openssl cJSON_parse c w c' w'"
  shows "good_core c' \<and> balanced (w_section w') \<and>
    (\<exists>code c'' w''. run_state (run_core_call openssl cJSON_parse call c') w' = (Some (code, Some c''), w'') \<and> good_core c'')"
proof -
  from assms(5) have "good_core c' \<and> proper_world cJSON_parse w' \<and> balanced (w_section w')"
  proof induction
    case start
    then show ?case using assms(2-4) by simp
  next
    case (call c' w' call code c'' w'')
    then show ?case using call_returns [OF assms(1), of c' cJSON_parse w' call] by auto
  qed
  then show ?thesis using call_returns [OF assms(1)] by blast
qed

text \<open>
  A parser that reads nulls, as cJSON does, and a server that sends complete credentials. The text the
  server does not send is the excluded case: a null client id is taken over like a string, and the next
  rotation of a core without client id is undefined.
\<close>

definition null_credentials_json :: json where
  "null_credentials_json = Json CObject [(Some ''client_id'', Json CNull []), (Some ''client_secret'', str ''s''),
     (Some ''registration_access_token'', str ''r''), (Some ''registration_client_uri'', str ''u'')]"

definition some_parser :: "string \<Rightarrow> json option" where
  "some_parser s = Some (if s = ''{...}'' then sample_credentials_json else null_credentials_json)"

definition waiting_core :: core_t where
  "waiting_core = sample_core (sample_handler\<lparr>sh_registration_access_token := None\<rparr>)"

lemma null_is_taken_over:
  assumes "w_alloc w = []"
  shows "fst (run_state (parse_members some_parser (sample_answer 201\<lparr>rs_payload := Some ''?????''\<rparr>) shared_secret_members) w) =
    Ok [None, Some ''s'', Some ''r'', Some ''u'']"
  using assms
  by (simp add: parse_members_def parse_payload_def json_util_parse_def some_parser_def sample_answer_def
      null_credentials_json_def shared_secret_members_def json_util_get_object_item_def cJSON_GetObjectItem_def
      same_name_def map_LOWERCASE_eq lower_code_def str_def json_util_get_string_def run_bind)

lemma null_client_id_goes_wrong:
  assumes "cc_security_profile (cpr_configuration p) = MCL_SECURITY_SHARED_SECRET"
    and "sh_registration_access_token (cpr_security_handler p) = Some token" and "sh_client_id (cpr_security_handler p) = None"
  shows "fst (run_state (core_processor_register openssl cJSON_parse p) w) = None"
  using assms by (simp add: core_processor_register_def compose_registration_def key_rotation_payload_def run_bind)

theorem core_does_not_go_wrong_witness:
  "\<exists>code c' w' code' c'' w''.
     run_state (run_core_call sample_openssl some_parser Onboard waiting_core)
       (core_start\<lparr>w_answers := [Ok (sample_answer 201), Ok (sample_answer 200)]\<rparr>) = (Some (code, Some c'), w') \<and>
     balanced (w_section w') \<and>
     run_state (run_core_call sample_openssl some_parser RotateKey c') w' =
       (Some (code', Some c''), w'') \<and> good_core c''"
proof -
  let ?w = "core_start\<lparr>w_answers := [Ok (sample_answer 201), Ok (sample_answer 200)]\<rparr>"
  have hash: "\<And>x. length (ssl_sha256 sample_openssl x) = 32" by (simp add: sample_openssl_def)
  have no_null: "no_null_credentials some_parser (sample_answer n)" for n
    by (auto simp: no_null_credentials_def parse_payload_def json_util_parse_def some_parser_def sample_answer_def
        sample_credentials_json_def shared_secret_members_def cJSON_GetObjectItem_def same_name_def
        map_LOWERCASE_eq lower_code_def str_def split: if_splits)
  have good: "good_core waiting_core" "proper_world some_parser ?w" "w_section ?w = []"
    using no_null by (simp_all add: waiting_core_def good_core_def good_agent_def sample_core_def
        sample_configuration_core_def sample_handler_def proper_world_def core_start_def)
  note history = core_does_not_go_wrong [OF hash good]
  from history [OF core_history.start, of Onboard] obtain code c' w' where
    first: "run_state (run_core_call sample_openssl some_parser Onboard waiting_core) ?w = (Some (code, Some c'), w')"
    by blast
  from history [OF core_history.call [OF core_history.start first], of RotateKey] first
  show ?thesis by blast
qed

end
