(* ===== verification/MclConnectivity.thy ===== *)
theory MclConnectivity
  imports MclMapping MclCoreProps
begin

text \<open>
  The handle of the connectivity library and its configuration:
  \<open>src/mcl_connectivity/src/connectivity.c\<close> and \<open>connectivity_configuration.c\<close>. The configuration
  points to a core, the handle to the client id of that core, so the cores live at addresses; an
  address without a core is one whose core was destroyed. The addresses of exchange and mapping belong
  to the configuration, which is not changed while a handle uses it. \<open>NULL\<close> checks of pointers to
  results are the caller's.
\<close>

type_synonym cores = "nat \<Rightarrow> core_t option"

section \<open>Configuration\<close>

record connectivity_configuration_t =
  cf_core :: "nat option"
  cf_exchange_url :: "string option"
  cf_mapping_url :: "string option"
  cf_max_http_payload_size :: mcl_size_t

datatype connectivity_configuration_parameter =
    MCL_CONNECTIVITY_CONFIGURATION_PARAMETER_CORE nat
  | MCL_CONNECTIVITY_CONFIGURATION_PARAMETER_MAX_HTTP_PAYLOAD_SIZE mcl_size_t
  | MCL_CONNECTIVITY_CONFIGURATION_PARAMETER_END

definition MCL_CONNECTIVITY_MAX_HTTP_PAYLOAD_SIZE :: mcl_size_t where
  "MCL_CONNECTIVITY_MAX_HTTP_PAYLOAD_SIZE = 10485760"
definition MCL_CONNECTIVITY_DEFAULT_MAX_HTTP_PAYLOAD_SIZE :: mcl_size_t where
  "MCL_CONNECTIVITY_DEFAULT_MAX_HTTP_PAYLOAD_SIZE = 16384"
definition MCL_CONNECTIVITY_MIN_HTTP_PAYLOAD_SIZE :: mcl_size_t where
  "MCL_CONNECTIVITY_MIN_HTTP_PAYLOAD_SIZE = 400"

definition connectivity_exchange_uri :: string where
  "connectivity_exchange_uri = ''/api/mindconnect/v3/exchange''"
definition connectivity_mapping_url :: string where
  "connectivity_mapping_url = ''/api/mindconnect/v3/dataPointMappings''"

definition mcl_connectivity_configuration_initialize ::
  "('z, mcl_error \<times> connectivity_configuration_t option) io" where
  "mcl_connectivity_configuration_initialize = do {
     a \<leftarrow> mcl_malloc;
     State_Monad.return
       (if a then (MCL_OK, Some \<lparr>cf_core = None, cf_exchange_url = None, cf_mapping_url = None,
          cf_max_http_payload_size = MCL_CONNECTIVITY_DEFAULT_MAX_HTTP_PAYLOAD_SIZE\<rparr>)
        else (MCL_OUT_OF_MEMORY, None))
   }"

text \<open>
  Both addresses are released first, and the core is set last: after a failure the configuration may
  hold the core it had before, without addresses.
\<close>

definition set_connectivity_configuration_core_parameter ::
  "cores \<Rightarrow> connectivity_configuration_t \<Rightarrow> nat \<Rightarrow>
   ('z, (mcl_error \<times> connectivity_configuration_t) option) io" where
  "set_connectivity_configuration_core_parameter cores configuration core =
     (case cores core of
        None \<Rightarrow> State_Monad.return None
      | Some c \<Rightarrow>
          let configuration = configuration\<lparr>cf_exchange_url := None, cf_mapping_url := None\<rparr> in
          (case mcl_core_get_host_name (Some c) of
             None \<Rightarrow> State_Monad.return (Some (MCL_INVALID_PARAMETER, configuration))
           | Some hostname \<Rightarrow> do {
               (code, url) \<leftarrow> reset_field (hostname @ connectivity_exchange_uri);
               let configuration = configuration\<lparr>cf_exchange_url := url\<rparr>;
               if code \<noteq> MCL_OK then State_Monad.return (Some (code, configuration))
               else do {
                 (code, url) \<leftarrow> reset_field (hostname @ connectivity_mapping_url);
                 let configuration = configuration\<lparr>cf_mapping_url := url\<rparr>;
                 State_Monad.return (Some
                   (if code \<noteq> MCL_OK then (code, configuration\<lparr>cf_exchange_url := None\<rparr>)
                    else (code, configuration\<lparr>cf_core := Some core\<rparr>)))
               }
             }))"

definition mcl_connectivity_configuration_set_parameter ::
  "cores \<Rightarrow> connectivity_configuration_t option \<Rightarrow> connectivity_configuration_parameter option \<Rightarrow>
   ('z, (mcl_error \<times> connectivity_configuration_t option) option) io" where
  "mcl_connectivity_configuration_set_parameter cores configuration parameter =
     (case (configuration, parameter) of
        (Some c, Some (MCL_CONNECTIVITY_CONFIGURATION_PARAMETER_CORE core)) \<Rightarrow> do {
          r \<leftarrow> set_connectivity_configuration_core_parameter cores c core;
          State_Monad.return (map_option (\<lambda>(code, c). (code, Some c)) r)
        }
      | (Some c, Some (MCL_CONNECTIVITY_CONFIGURATION_PARAMETER_MAX_HTTP_PAYLOAD_SIZE n)) \<Rightarrow>
          State_Monad.return (Some
            (if MCL_CONNECTIVITY_MIN_HTTP_PAYLOAD_SIZE \<le> n \<and> n \<le> MCL_CONNECTIVITY_MAX_HTTP_PAYLOAD_SIZE
             then (MCL_OK, Some (c\<lparr>cf_max_http_payload_size := n\<rparr>))
             else (MCL_INVALID_PARAMETER, configuration)))
      | (Some c, Some MCL_CONNECTIVITY_CONFIGURATION_PARAMETER_END) \<Rightarrow>
          State_Monad.return (Some (MCL_INVALID_PARAMETER, configuration))
      | _ \<Rightarrow> State_Monad.return (Some (MCL_TRIGGERED_WITH_NULL, configuration)))"

definition connectivity_configuration_validate :: "connectivity_configuration_t \<Rightarrow> mcl_error" where
  "connectivity_configuration_validate configuration =
     (if cf_core configuration = None then MCL_INVALID_PARAMETER else MCL_OK)"

section \<open>The handle\<close>

text \<open>The agent id is the address of the client id of the core, \<open>NULL\<close> when it is not onboarded.\<close>

record connectivity_t =
  cy_configuration :: connectivity_configuration_t
  cy_agent_id :: "nat option"
  cy_hostname :: "string option"
  cy_access_token :: "string option"
  cy_max_http_payload_size :: mcl_size_t
  cy_exchange_url :: "string option"
  cy_mapping_url :: "string option"

text \<open>
  The last argument is what the pointer to the handle holds at the call. On an error it is destroyed
  and set to \<open>NULL\<close>, so the caller has to initialise it.
\<close>

definition mcl_connectivity_initialize ::
  "cores \<Rightarrow> connectivity_configuration_t option \<Rightarrow> connectivity_t option \<Rightarrow>
   ('z, (mcl_error \<times> connectivity_t option) option) io" where
  "mcl_connectivity_initialize cores configuration connectivity =
     (case configuration of
        None \<Rightarrow> State_Monad.return (Some (MCL_TRIGGERED_WITH_NULL, connectivity))
      | Some c \<Rightarrow>
          if connectivity_configuration_validate c \<noteq> MCL_OK
          then State_Monad.return (Some (connectivity_configuration_validate c, None))
          else do {
            a \<leftarrow> mcl_malloc;
            State_Monad.return
              (if \<not> a then Some (MCL_OUT_OF_MEMORY, None)
               else do {
                 core \<leftarrow> cf_core c;
                 core \<leftarrow> cores core;
                 Some (MCL_OK, Some \<lparr>cy_configuration = c, cy_agent_id = mcl_core_get_client_id (Some core),
                   cy_hostname = mcl_core_get_host_name (Some core), cy_access_token = None,
                   cy_max_http_payload_size = cf_max_http_payload_size c,
                   cy_exchange_url = cf_exchange_url c, cy_mapping_url = cf_mapping_url c\<rparr>)
               })
          })"

text \<open>The string at the address of the agent id, \<open>None\<close> when the core has released it.\<close>

definition agent_id_of :: "cores \<Rightarrow> connectivity_t \<Rightarrow> string option option" where
  "agent_id_of cores connectivity =
     (case cy_agent_id connectivity of
        None \<Rightarrow> Some None
      | Some address \<Rightarrow> do {
          core \<leftarrow> cf_core (cy_configuration connectivity);
          c \<leftarrow> cores core;
          (a, client_id) \<leftarrow> sh_client_id (cpr_security_handler (core_processor c));
          if a = address then Some (Some client_id) else None
        })"

definition processor_of :: "connectivity_t \<Rightarrow> string option \<Rightarrow> string \<Rightarrow> connectivity_processor_t" where
  "processor_of connectivity agent_id access_token =
     \<lparr>cp_agent_id = agent_id, cp_hostname = cy_hostname connectivity, cp_access_token = access_token,
      cp_exchange_url = cy_exchange_url connectivity, cp_mapping_url = cy_mapping_url connectivity,
      cp_max_http_payload_size = cy_max_http_payload_size connectivity\<rparr>"

text \<open>The previous token is released; a copy of the last token of the core takes its place.\<close>

definition take_access_token ::
  "cores \<Rightarrow> connectivity_t \<Rightarrow> ('z, (mcl_error \<times> connectivity_t) option) io" where
  "take_access_token cores connectivity =
     (let connectivity = connectivity\<lparr>cy_access_token := None\<rparr> in
      case cf_core (cy_configuration connectivity) of
        None \<Rightarrow> State_Monad.return (Some (MCL_TRIGGERED_WITH_NULL, connectivity))
      | Some core \<Rightarrow>
          (case cores core of
             None \<Rightarrow> State_Monad.return None
           | Some c \<Rightarrow> do {
               (code, token) \<leftarrow> mcl_core_get_last_access_token (Some c);
               State_Monad.return (Some (code, connectivity\<lparr>cy_access_token := token\<rparr>))
             }))"

text \<open>An operation with a fresh token; an error of the core is returned instead.\<close>

definition with_access_token ::
  "cores \<Rightarrow> connectivity_t \<Rightarrow> (string \<Rightarrow> ('z, (mcl_error \<times> 'a) option) io) \<Rightarrow> 'a \<Rightarrow>
   ('z, (mcl_error \<times> connectivity_t \<times> 'a) option) io" where
  "with_access_token cores connectivity operation otherwise = do {
     r \<leftarrow> take_access_token cores connectivity;
     case r of
       None \<Rightarrow> State_Monad.return None
     | Some (code, connectivity) \<Rightarrow>
         (case (if code = MCL_OK then cy_access_token connectivity else None) of
            None \<Rightarrow> State_Monad.return (Some (code, connectivity, otherwise))
          | Some token \<Rightarrow> do {
              r \<leftarrow> operation token;
              State_Monad.return (map_option (\<lambda>(code, x). (code, connectivity, x)) r)
            })
   }"

text \<open>The exchange does not read the agent id.\<close>

definition mcl_connectivity_exchange ::
  "nat \<Rightarrow> (file_t \<Rightarrow> string) \<Rightarrow> cores \<Rightarrow> connectivity_t option \<Rightarrow> upload option \<Rightarrow>
   ('z net_world_ext, (mcl_error \<times> connectivity_t option \<times> upload option) option) io" where
  "mcl_connectivity_exchange fuel contents cores connectivity item =
     (case (connectivity, item) of
        (Some h, Some i) \<Rightarrow> do {
          r \<leftarrow> with_access_token cores h
            (\<lambda>token. connectivity_processor_exchange fuel contents (processor_of h None token) i) i;
          State_Monad.return (map_option (\<lambda>(code, h, i). (code, Some h, Some i)) r)
        }
      | _ \<Rightarrow> State_Monad.return (Some (MCL_TRIGGERED_WITH_NULL, connectivity, item)))"

text \<open>An incomplete mapping is refused before the agent id is read.\<close>

definition mcl_connectivity_create_mapping ::
  "cores \<Rightarrow> connectivity_t option \<Rightarrow> mapping_t option \<Rightarrow>
   ('z net_world_ext, (mcl_error \<times> connectivity_t option) option) io" where
  "mcl_connectivity_create_mapping cores connectivity mapping =
     (case (connectivity, mapping) of
        (Some h, Some m) \<Rightarrow> do {
          r \<leftarrow> with_access_token cores h (\<lambda>token.
            (case (if mapping_validate m = MCL_OK then agent_id_of cores h else Some None) of
               None \<Rightarrow> State_Monad.return None
             | Some agent_id \<Rightarrow> do {
                 code \<leftarrow> connectivity_processor_create_mapping (processor_of h agent_id token) m;
                 State_Monad.return (map_option (\<lambda>code. (code, ())) code)
               })) ();
          State_Monad.return (map_option (\<lambda>(code, h, _). (code, Some h)) r)
        }
      | _ \<Rightarrow> State_Monad.return (Some (MCL_TRIGGERED_WITH_NULL, connectivity)))"

definition mcl_connectivity_get_data_source_configuration ::
  "(string \<Rightarrow> json option) \<Rightarrow> cores \<Rightarrow> connectivity_t option \<Rightarrow>
   ('z net_world_ext, (mcl_error \<times> connectivity_t option \<times> data_source_configuration_t option) option) io" where
  "mcl_connectivity_get_data_source_configuration cJSON_parse cores connectivity =
     (case connectivity of
        None \<Rightarrow> State_Monad.return (Some (MCL_TRIGGERED_WITH_NULL, connectivity, None))
      | Some h \<Rightarrow> do {
          r \<leftarrow> with_access_token cores h (\<lambda>token.
            (case agent_id_of cores h of
               None \<Rightarrow> State_Monad.return None
             | Some agent_id \<Rightarrow>
                 connectivity_processor_get_data_source_configuration cJSON_parse (processor_of h agent_id token))) None;
          State_Monad.return (map_option (\<lambda>(code, h, c). (code, Some h, c)) r)
        })"

section \<open>Running\<close>

text \<open>A core that is onboarded and holds an access token.\<close>

definition has_token :: "core_t \<Rightarrow> string \<Rightarrow> bool" where
  "has_token c token \<longleftrightarrow> (let sh = cpr_security_handler (core_processor c) in
     sh_registration_access_token sh \<noteq> None \<and> sh_access_token sh = Some token)"

text \<open>The configuration and the handle that a program gets for a core while memory lasts.\<close>

definition configured :: "nat \<Rightarrow> string \<Rightarrow> connectivity_configuration_t" where
  "configured core hostname = \<lparr>cf_core = Some core, cf_exchange_url = Some (hostname @ connectivity_exchange_uri),
     cf_mapping_url = Some (hostname @ connectivity_mapping_url),
     cf_max_http_payload_size = MCL_CONNECTIVITY_DEFAULT_MAX_HTTP_PAYLOAD_SIZE\<rparr>"

definition handle_of :: "nat \<Rightarrow> core_t \<Rightarrow> string \<Rightarrow> connectivity_t" where
  "handle_of core c hostname = \<lparr>cy_configuration = configured core hostname,
     cy_agent_id = mcl_core_get_client_id (Some c), cy_hostname = Some hostname, cy_access_token = None,
     cy_max_http_payload_size = MCL_CONNECTIVITY_DEFAULT_MAX_HTTP_PAYLOAD_SIZE,
     cy_exchange_url = Some (hostname @ connectivity_exchange_uri),
     cy_mapping_url = Some (hostname @ connectivity_mapping_url)\<rparr>"

definition connect :: "cores \<Rightarrow> nat \<Rightarrow> ('z, (mcl_error \<times> connectivity_t option) option) io" where
  "connect cores core = do {
     (code, configuration) \<leftarrow> mcl_connectivity_configuration_initialize;
     r \<leftarrow> mcl_connectivity_configuration_set_parameter cores configuration
       (Some (MCL_CONNECTIVITY_CONFIGURATION_PARAMETER_CORE core));
     case r of
       None \<Rightarrow> State_Monad.return None
     | Some (code, configuration) \<Rightarrow> mcl_connectivity_initialize cores configuration None
   }"

lemma run_connect:
  assumes "w_alloc w = []" and "cores core = Some c" and "cc_mindsphere_hostname (core_configuration c) = Some hostname"
  shows "run_state (connect cores core) w = (Some (MCL_OK, Some (handle_of core c hostname)), w)"
  using assms
  by (simp add: connect_def mcl_connectivity_configuration_initialize_def
      mcl_connectivity_configuration_set_parameter_def set_connectivity_configuration_core_parameter_def
      mcl_core_get_host_name_def reset_field_def mcl_connectivity_initialize_def
      connectivity_configuration_validate_def handle_of_def configured_def)

lemma run_with_access_token:
  assumes "w_alloc w = []" and "cf_core (cy_configuration h) = Some core" and "cores core = Some c"
    and "has_token c token"
  shows "run_state (with_access_token cores h operation otherwise) w =
    (case run_state (operation token) w of
       (r, w') \<Rightarrow> (map_option (\<lambda>(code, x). (code, h\<lparr>cy_access_token := Some token\<rparr>, x)) r, w'))"
  using assms
  by (auto simp: with_access_token_def take_access_token_def mcl_core_get_last_access_token_def
      mcl_core_is_onboarded_def has_token_def reset_field_def run_bind Let_def split: prod.splits)

lemma handle_of_fields [simp]:
  "cf_core (cy_configuration (handle_of core c hostname)) = Some core"
  "processor_of (handle_of core c hostname) agent_id token =
     \<lparr>cp_agent_id = agent_id, cp_hostname = Some hostname, cp_access_token = token,
      cp_exchange_url = Some (hostname @ connectivity_exchange_uri),
      cp_mapping_url = Some (hostname @ connectivity_mapping_url),
      cp_max_http_payload_size = MCL_CONNECTIVITY_DEFAULT_MAX_HTTP_PAYLOAD_SIZE\<rparr>"
  by (simp_all add: handle_of_def configured_def processor_of_def)

section \<open>A rotation that the server grants\<close>

text \<open>
  An onboarded agent with a shared secret. Its client id has an address that was handed out before;
  token and client id fit their 32-bit lengths.
\<close>

definition secret_agent :: "core_t \<Rightarrow> nat \<Rightarrow> bool" where
  "secret_agent c bound \<longleftrightarrow> (let p = core_processor c; sh = cpr_security_handler p in
     cc_security_profile (cpr_configuration p) = MCL_SECURITY_SHARED_SECRET \<and>
     (\<exists>a s. sh_client_id sh = Some (a, s) \<and> a < bound \<and> length s + 24 < 2 ^ 32) \<and>
     (\<exists>t. sh_registration_access_token sh = Some t \<and> length t + 8 < 2 ^ 32) \<and>
     sh_registration_uri sh \<noteq> None)"

lemma run_compose_secret_rotation:
  assumes "w_alloc w = []" and "cc_security_profile (cpr_configuration p) = MCL_SECURITY_SHARED_SECRET"
    and "sh_client_id (cpr_security_handler p) = Some (a, client_id)" and "length client_id + 24 < 2 ^ 32"
    and "sh_registration_access_token (cpr_security_handler p) = Some token"
  shows "run_state (compose_registration openssl p) w =
    (Some (MCL_OK, p, Some \<lparr>rg_payload = ''{\"client_id\":\"'' @ client_id @ ''\"}'', rg_token = Some token,
       rg_method = MCL_HTTP_PUT, rg_uri = sh_registration_uri (cpr_security_handler p)\<rparr>), w)"
  using assms by (simp add: compose_registration_def key_rotation_payload_def snprintf_text_fits Let_def)

lemma run_granted_response:
  assumes "w_alloc w = []" and "sh_registration_access_token (cpr_security_handler p) \<noteq> None"
    and "cc_security_profile (cpr_configuration p) = MCL_SECURITY_SHARED_SECRET"
    and "rs_status_code a = 200" and "answered cJSON_parse a shared_secret_members = Some ss"
  shows "\<exists>code w'. run_state (process_registration_response cJSON_parse p a) w =
      ((code, take_over p (w_next w) ss), w') \<and> w_alloc w' = []"
proof -
  have code: "registration_code p a = MCL_OK"
    using assms(2,4) by (auto simp: registration_code_def mcl_http_response_get_status_def http_status_codes Let_def)
  have configuration: "cpr_configuration (take_over p b ss) = cpr_configuration p" for b
    by (simp add: take_over_def)
  have "run_state (process_registration_response_shared_secret cJSON_parse p a) w =
      ((MCL_OK, take_over p (w_next w) ss), w\<lparr>w_next := Suc (w_next w)\<rparr>)"
    using run_process_shared_secret [OF assms(1), where a = a and p = p and cJSON_parse = cJSON_parse] assms(5) by simp
  then show ?thesis using code configuration assms(1,3)
      run_save_credentials [OF assms(3), where w = w and p = p and address = "w_next w" and ss = ss]
    by (simp add: process_registration_response_def Let_def granted_def)
qed

lemma run_granted_rotation:
  assumes "good_world w" and "w_enters w = []" and "secret_agent c bound"
    and "next_answer w = Ok a" and "rs_status_code a = 200" and "answered cJSON_parse a shared_secret_members = Some ss"
  shows "\<exists>code w'. run_state (mcl_core_rotate_key openssl cJSON_parse (Some c)) w =
      (Some (code, Some (c\<lparr>core_processor := take_over (core_processor c) (w_next w) ss\<rparr>)), w') \<and> w_alloc w' = []"
proof -
  let ?p = "core_processor c" and ?w = "entered (core_configuration c) w"
  obtain ad client_id token uri where agent:
      "cc_security_profile (cpr_configuration ?p) = MCL_SECURITY_SHARED_SECRET"
      "sh_client_id (cpr_security_handler ?p) = Some (ad, client_id)" "length client_id + 24 < 2 ^ 32"
      "sh_registration_access_token (cpr_security_handler ?p) = Some token" "length token + 8 < 2 ^ 32"
      "sh_registration_uri (cpr_security_handler ?p) = Some uri"
    using assms(3) by (auto simp: secret_agent_def Let_def)
  let ?rg = "\<lparr>rg_payload = ''{\"client_id\":\"'' @ client_id @ ''\"}'', rg_token = Some token,
      rg_method = MCL_HTTP_PUT, rg_uri = Some uri\<rparr>"
  have w: "good_world ?w" "w_alloc ?w = []" using assms(1) by (simp_all add: good_world_def entered_def)
  let ?s = "sent (registration_message ?rg (''Bearer '' @ token)) ?w"
  have s: "w_alloc ?s = []" "w_next ?s = w_next w" using w by (simp_all add: sent_def entered_def)
  obtain code w1 where "run_state (process_registration_response cJSON_parse ?p a) ?s =
      ((code, take_over ?p (w_next w) ss), w1)" "w_alloc w1 = []"
    using run_granted_response [OF s(1), where p = ?p and a = a and cJSON_parse = cJSON_parse and ss = ss]
      agent(1,4) assms(5,6) s(2) by auto
  moreover from this have "run_state (send_registration cJSON_parse ?p ?rg (''Bearer '' @ token)) ?w =
      (Some (code, take_over ?p (w_next w) ss), w1)"
    using run_send_registration [OF w(1), of ?rg uri cJSON_parse ?p "''Bearer '' @ token"] assms(4)
    by (simp del: append.simps)
  then have "run_state (on_processor c (core_processor_register openssl cJSON_parse ?p)) ?w =
      (Some (code, c\<lparr>core_processor := take_over ?p (w_next w) ss\<rparr>), w1)"
    using run_compose_secret_rotation [OF w(2) agent(1-4), of openssl] run_auth_header [OF w(2) agent(5)] agent(6)
    by (simp add: on_processor_def core_processor_register_def del: append.simps)
  from run_in_critical_section [OF assms(2) this] calculation(2) show ?thesis using agent(4)
    by (simp add: mcl_core_rotate_key_def on_core_def mcl_core_is_onboarded_def)
qed

section \<open>Properties\<close>

text \<open>C21. From the configuration to the request: a program that configures the connectivity library with a
  core, initialises a handle and exchanges an item uploads the item in one request to the exchange
  endpoint of the core's host. The request carries the access token the core holds at that moment, not
  the one at the initialisation, and its size is limited by the default of 16384 bytes.\<close>

theorem exchange_through_handle:
  assumes "good_world w" and "accepting w" and "cores core = Some c0"
    and "cc_mindsphere_hostname (core_configuration c0) = Some hostname"
    and "cores' core = Some c" and "has_token c token"
    and "regular_item contents item" and "item_preamble item = MCL_ITEM_PREAMBLE"
    and "item_validate item = Some MCL_OK" and "item_escapes item \<le> item_unused item"
    and "reserved = item_reserved item + 24" and "message = item_message contents item"
    and "p = \<lparr>cp_agent_id = None, cp_hostname = Some hostname, cp_access_token = token,
      cp_exchange_url = Some (hostname @ ''/api/mindconnect/v3/exchange''),
      cp_mapping_url = Some (hostname @ ''/api/mindconnect/v3/dataPointMappings''), cp_max_http_payload_size = 16384\<rparr>" and "reserved < 2 ^ 64"
  shows "\<exists>h. run_state (connect cores core) w = (Some (MCL_OK, Some h), w) \<and>
    run_state (mcl_connectivity_exchange (Suc fuel) contents cores' (Some h) (Some (ItemUpload item))) w =
      (let h' = h\<lparr>cy_access_token := Some token\<rparr> in
       if reserved \<le> 16384
       then (Some (MCL_OK, Some h', Some (ItemUpload item)),
             sent (upload_request p (message_block message reserved) (length message) zero_boundary) w)
       else (Some (MCL_ITEM_EXCEEDS_MAX_HTTP_REQUEST_SIZE, Some h', Some (ItemUpload item)), w))"
proof (intro exI conjI)
  let ?h = "handle_of core c0 hostname"
  have w: "w_alloc w = []" using assms(1) by (simp add: good_world_def)
  show "run_state (connect cores core) w = (Some (MCL_OK, Some ?h), w)"
    by (rule run_connect [where cores = cores and core = core, OF w assms(3,4)])
  have p: "processor_of ?h None token = p"
    using assms(13) by (simp add: connectivity_exchange_uri_def connectivity_mapping_url_def
        MCL_CONNECTIVITY_DEFAULT_MAX_HTTP_PAYLOAD_SIZE_def)
  have url: "cp_exchange_url p \<noteq> None" and limit: "unat (cp_max_http_payload_size p) = 16384"
    using assms(13) by simp_all
  note through = run_with_access_token [where h = ?h and core = core and cores = cores' and c = c, OF w _ assms(5,6)]
  show "run_state (mcl_connectivity_exchange (Suc fuel) contents cores' (Some ?h) (Some (ItemUpload item))) w =
      (let h' = ?h\<lparr>cy_access_token := Some token\<rparr> in
       if reserved \<le> 16384
       then (Some (MCL_OK, Some h', Some (ItemUpload item)),
             sent (upload_request p (message_block message reserved) (length message) zero_boundary) w)
       else (Some (MCL_ITEM_EXCEEDS_MAX_HTTP_REQUEST_SIZE, Some h', Some (ItemUpload item)), w))"
    using item_exchange_run [OF assms(7-9,1,2,11,14,12) url, of fuel] limit assms(10)
    by (simp add: mcl_connectivity_exchange_def run_bind through p Let_def not_le del: handle_of_fields(2))
qed

definition token_core :: "string \<Rightarrow> core_t" where
  "token_core token = sample_core (sample_handler\<lparr>sh_access_token := Some token\<rparr>)"

lemma token_core_facts [simp]:
  "cc_mindsphere_hostname (core_configuration (token_core token)) = Some ''h''" "has_token (token_core token) token"
  by (simp_all add: token_core_def sample_core_def sample_configuration_core_def has_token_def sample_handler_def)

theorem exchange_through_handle_witness:
  "\<exists>h rq w. run_state (connect [0 \<mapsto> token_core ''old''] 0) quiet_world = (Some (MCL_OK, Some h), quiet_world) \<and>
     run_state (mcl_connectivity_exchange 1 (\<lambda>_. []) [0 \<mapsto> token_core ''new''] (Some h)
       (Some (ItemUpload (one_value ''1'')))) quiet_world =
       (Some (MCL_OK, Some (h\<lparr>cy_access_token := Some ''new''\<rparr>), Some (ItemUpload (one_value ''1''))), sent rq quiet_world) \<and>
     rq_uri rq = Some ''h/api/mindconnect/v3/exchange'' \<and> ''Authorization: Bearer new'' \<in> set (rq_header rq)"
proof -
  have c: "[0 \<mapsto> token_core t] 0 = Some (token_core t)" for t by simp
  have small: "item_reserved (one_value ''1'') < 1000" by code_simp
  have fit: "item_escapes (one_value ''1'') \<le> item_unused (one_value ''1'')"
    using one_value_facts [of "''1''"] by (simp add: extra_def print_string_def escape_char_def)
  note exact = exchange_through_handle [where core = 0 and cores = "[0 \<mapsto> token_core ''old'']" and
      cores' = "[0 \<mapsto> token_core ''new'']" and contents = "\<lambda>_. []" and fuel = 0,
      OF quiet_world_facts c token_core_facts(1) c token_core_facts(2) one_value_regular(1,2) one_value_valid fit refl refl refl]
  from exact small show ?thesis unfolding Let_def by (fastforce simp: upload_request_def)
qed

text \<open>C34. The handle keeps the address of the client id that the core had at its initialisation, and the core
  releases that string when the server grants a rotation. From then on reading the data source
  configuration and creating a mapping through the handle are undefined, while a handle that is
  initialised anew knows the client id of the answer.\<close>

theorem agent_id_dangles_after_rotation:
  assumes "good_world w" and "w_enters w = []" and "secret_agent c (w_next w)" and "has_token c token"
    and "cc_mindsphere_hostname (core_configuration c) = Some hostname"
    and "next_answer w = Ok a" and "rs_status_code a = 200"
    and "answered cJSON_parse a shared_secret_members = Some [Some client_id, secret, Some registration_token, uri]"
    and "mapping_validate m = MCL_OK"
  shows "\<exists>code c' w' h h'. run_state (mcl_core_rotate_key openssl cJSON_parse (Some c)) w = (Some (code, Some c'), w') \<and>
    run_state (connect [core \<mapsto> c] core) w = (Some (MCL_OK, Some h), w) \<and>
    fst (run_state (mcl_connectivity_get_data_source_configuration cJSON_parse [core \<mapsto> c'] (Some h)) w') = None \<and>
    fst (run_state (mcl_connectivity_create_mapping [core \<mapsto> c'] (Some h) (Some m)) w') = None \<and>
    run_state (connect [core \<mapsto> c'] core) w' = (Some (MCL_OK, Some h'), w') \<and>
    agent_id_of [core \<mapsto> c'] h' = Some (Some client_id)"
proof -
  let ?c = "c\<lparr>core_processor := take_over (core_processor c) (w_next w) [Some client_id, secret, Some registration_token, uri]\<rparr>"
  let ?h = "handle_of core c hostname"
  have w: "w_alloc w = []" using assms(1) by (simp add: good_world_def)
  obtain code w' where run: "run_state (mcl_core_rotate_key openssl cJSON_parse (Some c)) w = (Some (code, Some ?c), w')"
      "w_alloc w' = []"
    using run_granted_rotation [OF assms(1-3,6-8), of openssl] by blast
  obtain ad s where "sh_client_id (cpr_security_handler (core_processor c)) = Some (ad, s)" "ad < w_next w"
    using assms(3) by (auto simp: secret_agent_def Let_def)
  then have stale: "agent_id_of [core \<mapsto> ?c] ?h = None"
    using assms(4) by (simp add: agent_id_of_def handle_of_def configured_def mcl_core_get_client_id_def
        mcl_core_is_onboarded_def take_over_def has_token_def Let_def)
  have token: "has_token ?c token" using assms(4) by (simp add: has_token_def take_over_def Let_def)
  have host: "cc_mindsphere_hostname (core_configuration ?c) = Some hostname" using assms(5) by simp
  note through = run_with_access_token [where h = ?h and core = core and cores = "[core \<mapsto> ?c]" and c = ?c, OF run(2) _ _ token]
  have "fst (run_state (mcl_connectivity_get_data_source_configuration cJSON_parse [core \<mapsto> ?c] (Some ?h)) w') = None"
    by (simp add: mcl_connectivity_get_data_source_configuration_def run_bind through stale)
  moreover have "fst (run_state (mcl_connectivity_create_mapping [core \<mapsto> ?c] (Some ?h) (Some m)) w') = None"
    using assms(9) by (simp add: mcl_connectivity_create_mapping_def run_bind through stale)
  moreover have "run_state (connect [core \<mapsto> c] core) w = (Some (MCL_OK, Some ?h), w)"
    by (rule run_connect [OF w _ assms(5)]) simp
  moreover have "run_state (connect [core \<mapsto> ?c] core) w' = (Some (MCL_OK, Some (handle_of core ?c hostname)), w')"
    by (rule run_connect [OF run(2) _ host]) simp
  moreover have "agent_id_of [core \<mapsto> ?c] (handle_of core ?c hostname) = Some (Some client_id)"
    by (simp add: agent_id_of_def handle_of_def configured_def mcl_core_get_client_id_def
        mcl_core_is_onboarded_def take_over_def)
  ultimately show ?thesis using run(1) by blast
qed

theorem agent_id_dangles_after_rotation_witness:
  "let m = \<lparr>mp_data_point_id = Some ''p'', mp_entity_id = None, mp_property_set_name = Some ''s'',
         mp_property_name = Some ''n'', mp_keep_mapping = True\<rparr>;
       w = core_start\<lparr>w_next := 1, w_answers := [Ok (sample_answer 200)]\<rparr> in
   \<exists>code c' w' h. run_state (mcl_core_rotate_key sample_openssl (\<lambda>_. Some sample_credentials_json)
        (Some (token_core ''t''))) w = (Some (code, Some c'), w') \<and>
     run_state (connect [0 \<mapsto> token_core ''t''] 0) w = (Some (MCL_OK, Some h), w) \<and>
     fst (run_state (mcl_connectivity_create_mapping [0 \<mapsto> c'] (Some h) (Some m)) w') = None"
proof -
  let ?w = "core_start\<lparr>w_next := 1, w_answers := [Ok (sample_answer 200)]\<rparr>"
  let ?m = "\<lparr>mp_data_point_id = Some ''p'', mp_entity_id = None, mp_property_set_name = Some ''s'',
         mp_property_name = Some ''n'', mp_keep_mapping = True\<rparr>"
  have members: "answered (\<lambda>_. Some sample_credentials_json) (sample_answer 200) shared_secret_members =
      Some [Some ''c'', Some ''s'', Some ''r'', Some ''u'']"
    by (simp add: sample_answer_def answered_def parse_payload_def
        json_util_parse_def sample_credentials_json_def shared_secret_members_def cJSON_GetObjectItem_def
        same_name_def map_LOWERCASE_eq lower_code_def member_text_def str_def)
  have w: "good_world ?w" "w_enters ?w = []" "next_answer ?w = Ok (sample_answer 200)"
      "secret_agent (token_core ''t'') (w_next ?w)"
    by (simp_all add: good_world_def core_start_def next_answer_def secret_agent_def token_core_def sample_core_def
        sample_configuration_core_def sample_handler_def Let_def)
  have status: "rs_status_code (sample_answer 200) = 200" by (simp add: sample_answer_def)
  have m: "mapping_validate ?m = MCL_OK" by (simp add: mapping_validate_def)
  show ?thesis unfolding Let_def
    using agent_id_dangles_after_rotation [OF w(1,2,4) token_core_facts(2,1) w(3) status members m, of sample_openssl 0]
    by blast
qed

end
