(* ===== verification/MclMemory.thy ===== *)
theory MclMemory
  imports MclWorld
begin

text \<open>
  The memory functions of the library, \<open>src/mcl_core/src/memory/standard/memory.c\<close>: allocations of no
  bytes fail without asking the system. Where a size cannot be zero, the components use \<open>mcl_malloc\<close>
  alone; where it can, they give the size.
\<close>

definition mcl_memory_malloc :: "nat \<Rightarrow> ('z, bool) io" where
  "mcl_memory_malloc bytes = (if bytes = 0 then State_Monad.return False else mcl_malloc)"

definition mcl_memory_calloc :: "nat \<Rightarrow> nat \<Rightarrow> ('z, bool) io" where
  "mcl_memory_calloc count bytes = (if count = 0 \<or> bytes = 0 then State_Monad.return False else mcl_malloc)"

text \<open>A new size for a block: whether there is memory for it, and what it then holds.\<close>

definition mcl_memory_realloc :: "nat \<Rightarrow> ('z, bool) io" where
  "mcl_memory_realloc bytes = (if bytes = 0 then State_Monad.return False else mcl_malloc)"

definition resized :: "'a block \<Rightarrow> nat \<Rightarrow> 'a block" where
  "resized b n = take n b @ fresh_block (n - length b)"

lemma memory_of_some_size [simp]:
  "bytes \<noteq> 0 \<Longrightarrow> mcl_memory_malloc bytes = mcl_malloc"
  "bytes \<noteq> 0 \<Longrightarrow> mcl_memory_realloc bytes = mcl_malloc"
  by (simp_all add: mcl_memory_malloc_def mcl_memory_realloc_def)

lemma memory_of_no_size [simp]:
  "mcl_memory_malloc 0 = State_Monad.return False" "mcl_memory_realloc 0 = State_Monad.return False"
  by (simp_all add: mcl_memory_malloc_def mcl_memory_realloc_def)

end
