(* ===== verification/MclDataLake.thy ===== *)
theory MclDataLake
  imports MclConnectivity MclMemory
begin

text \<open>
  The data lake library, \<open>src/mcl_data_lake/src\<close>: objects (\<open>data_lake_object.c\<close>), the documents it
  exchanges (\<open>data_lake_json.c\<close>), its requests (\<open>data_lake_processor.c\<close>), the configuration and the
  handle (\<open>data_lake_configuration.c\<close>, \<open>data_lake.c\<close>). An array of pointers to objects is the list of
  the objects, no object twice; lengths of strings that are in memory together do not overflow, so
  sizes are numbers. Cores, answers and allocations are as in \<open>MclConnectivity\<close>; \<open>NULL\<close> checks of
  pointers to results are the caller's.
\<close>

section \<open>Objects\<close>

text \<open>A callback and its context are addresses.\<close>

record data_lake_object_t =
  do_upload_callback :: "nat option"
  do_user_context :: "nat option"
  do_path :: "string option"
  do_signed_url :: "string option"
  do_size :: nat

datatype data_lake_object_parameter =
    MCL_DATA_LAKE_OBJECT_PARAMETER_PATH string
  | MCL_DATA_LAKE_OBJECT_PARAMETER_SIZE nat
  | MCL_DATA_LAKE_OBJECT_PARAMETER_UPLOAD_CALLBACK nat
  | MCL_DATA_LAKE_OBJECT_PARAMETER_USER_CONTEXT nat
  | MCL_DATA_LAKE_OBJECT_PARAMETER_END

datatype data_lake_object_internal_parameter =
    DATA_LAKE_OBJECT_INTERNAL_PARAMETER_SIGNED_URL string
  | DATA_LAKE_OBJECT_INTERNAL_PARAMETER_END

definition mcl_data_lake_object_initialize :: "('z, mcl_error \<times> data_lake_object_t option) io" where
  "mcl_data_lake_object_initialize = do {
     a \<leftarrow> mcl_malloc;
     State_Monad.return
       (if a then (MCL_OK, Some \<lparr>do_upload_callback = None, do_user_context = None, do_path = None,
          do_signed_url = None, do_size = 0\<rparr>)
        else (MCL_OUT_OF_MEMORY, None))
   }"

definition mcl_data_lake_object_set_parameter ::
  "data_lake_object_t option \<Rightarrow> data_lake_object_parameter option \<Rightarrow>
   ('z, mcl_error \<times> data_lake_object_t option) io" where
  "mcl_data_lake_object_set_parameter object parameter = on_pointer object (\<lambda>object.
     (case parameter of
        None \<Rightarrow> State_Monad.return (MCL_TRIGGERED_WITH_NULL, object)
      | Some (MCL_DATA_LAKE_OBJECT_PARAMETER_PATH s) \<Rightarrow> do {
          (code, path) \<leftarrow> reset_field s;
          State_Monad.return (code, object\<lparr>do_path := path\<rparr>)
        }
      | Some (MCL_DATA_LAKE_OBJECT_PARAMETER_UPLOAD_CALLBACK c) \<Rightarrow>
          State_Monad.return (MCL_OK, object\<lparr>do_upload_callback := Some c\<rparr>)
      | Some (MCL_DATA_LAKE_OBJECT_PARAMETER_USER_CONTEXT c) \<Rightarrow>
          State_Monad.return (MCL_OK, object\<lparr>do_user_context := Some c\<rparr>)
      | Some (MCL_DATA_LAKE_OBJECT_PARAMETER_SIZE n) \<Rightarrow> State_Monad.return (MCL_OK, object\<lparr>do_size := n\<rparr>)
      | Some MCL_DATA_LAKE_OBJECT_PARAMETER_END \<Rightarrow> State_Monad.return (MCL_INVALID_PARAMETER, object)))"

definition data_lake_object_set_internal_parameter ::
  "data_lake_object_t \<Rightarrow> data_lake_object_internal_parameter \<Rightarrow> ('z, mcl_error \<times> data_lake_object_t) io" where
  "data_lake_object_set_internal_parameter object parameter =
     (case parameter of
        DATA_LAKE_OBJECT_INTERNAL_PARAMETER_SIGNED_URL s \<Rightarrow> do {
          (code, url) \<leftarrow> reset_field s;
          State_Monad.return (code, object\<lparr>do_signed_url := url\<rparr>)
        }
      | DATA_LAKE_OBJECT_INTERNAL_PARAMETER_END \<Rightarrow> State_Monad.return (MCL_INVALID_PARAMETER, object))"

definition data_lake_object_validate :: "data_lake_object_t \<Rightarrow> mcl_error" where
  "data_lake_object_validate object =
     (if do_path object = None then MCL_INVALID_PARAMETER
      else if do_signed_url object = None then MCL_INVALID_PARAMETER
      else if do_upload_callback object = None then MCL_INVALID_PARAMETER
      else if do_size object = 0 then MCL_INVALID_PARAMETER
      else MCL_OK)"

section \<open>The request for addresses\<close>

definition generate_url_body_pre_path_list :: string where "generate_url_body_pre_path_list = ''{\"paths\":[''"
definition generate_url_body_pre_path_object :: string where "generate_url_body_pre_path_object = ''{\"path\":\"''"
definition generate_url_body_post_path_object :: string where "generate_url_body_post_path_object = ''\"}''"
definition subtenant_id_key :: string where "subtenant_id_key = '',\"subtenantId\":\"''"

text \<open>The total length of the paths and how many there are.\<close>

fun calculate_total_path_size :: "data_lake_object_t list \<Rightarrow> nat \<Rightarrow> nat \<Rightarrow> nat \<times> nat" where
  "calculate_total_path_size [] total_path_size valid_path_count = (total_path_size, valid_path_count)"
| "calculate_total_path_size (object # objects) total_path_size valid_path_count =
     (case do_path object of
        None \<Rightarrow> calculate_total_path_size objects total_path_size valid_path_count
      | Some path \<Rightarrow> calculate_total_path_size objects (total_path_size + length path) (valid_path_count + 1))"

definition data_lake_json_get_body_size_generate_upload_urls ::
  "data_lake_object_t list \<Rightarrow> nat \<Rightarrow> nat \<Rightarrow> nat" where
  "data_lake_json_get_body_size_generate_upload_urls objects client_id_length subtenant_id_length =
     (let (total_path_length, valid_path_count) = calculate_total_path_size objects 0 0 in
      if valid_path_count = 0 then 0
      else (let path_overhead_length = client_id_length + 1;
                body_size = length generate_url_body_pre_path_list + length '']}'';
                body_size = body_size + (length generate_url_body_pre_path_object +
                  length generate_url_body_post_path_object + path_overhead_length) * valid_path_count;
                body_size = body_size + (total_path_length + (valid_path_count - 1) * 1)
            in if subtenant_id_length \<noteq> 0
               then body_size + (length subtenant_id_key + (length (cstr [quote]) - 1)) + subtenant_id_length
               else body_size))"

fun copy_paths ::
  "string option \<Rightarrow> data_lake_object_t list \<Rightarrow> bool \<Rightarrow> char block \<times> nat \<Rightarrow> (char block \<times> nat) option" where
  "copy_paths client_id [] is_first_object at = Some at"
| "copy_paths client_id (object # objects) is_first_object at =
     (case do_path object of
        None \<Rightarrow> copy_paths client_id objects is_first_object at
      | Some path \<Rightarrow> do {
          at \<leftarrow> (if is_first_object then Some at else copy_text (Some '','') at);
          at \<leftarrow> copy_text (Some generate_url_body_pre_path_object) at;
          at \<leftarrow> copy_text client_id at;
          at \<leftarrow> copy_text (Some ''/'') at;
          at \<leftarrow> copy_text (Some path) at;
          at \<leftarrow> copy_text (Some generate_url_body_post_path_object) at;
          copy_paths client_id objects False at
        })"

text \<open>The payload from its first character to the closing brace.\<close>

definition copy_payload ::
  "data_lake_object_t list \<Rightarrow> string option \<Rightarrow> string option \<Rightarrow> char block \<times> nat \<Rightarrow> (char block \<times> nat) option" where
  "copy_payload objects client_id subtenant_id at = do {
     at \<leftarrow> copy_text (Some generate_url_body_pre_path_list) at;
     at \<leftarrow> copy_paths client_id objects True at;
     at \<leftarrow> copy_text (Some '']'') at;
     at \<leftarrow> (if mcl_string_util_strlen subtenant_id \<noteq> 0 then do {
           at \<leftarrow> copy_text (Some subtenant_id_key) at;
           at \<leftarrow> copy_text subtenant_id at;
           copy_text (Some [quote]) at
         } else Some at);
     copy_text (Some ''}'') at
   }"

definition data_lake_json_from_objects ::
  "data_lake_object_t list \<Rightarrow> string option \<Rightarrow> string option \<Rightarrow> ('z, char block result option) io" where
  "data_lake_json_from_objects objects client_id subtenant_id = do {
     let client_id_length = mcl_string_util_strlen client_id;
     let subtenant_id_length = mcl_string_util_strlen subtenant_id;
     let body_size = data_lake_json_get_body_size_generate_upload_urls objects client_id_length subtenant_id_length;
     if body_size = 0 then State_Monad.return (Some (Err MCL_INVALID_PARAMETER))
     else do {
       a \<leftarrow> mcl_malloc;
       State_Monad.return (if \<not> a then Some (Err MCL_OUT_OF_MEMORY)
         else do {
           (json, position) \<leftarrow> copy_payload objects client_id subtenant_id (fresh_block (body_size + 1), 0);
           json \<leftarrow> store json body_size MCL_NULL_CHAR;
           Some (Ok json)
         })
     }
   }"

section \<open>The answer with addresses\<close>

text \<open>The object whose path is asked for and which has no address yet takes the address.\<close>

fun find_matching_object ::
  "json \<Rightarrow> data_lake_object_t list \<Rightarrow> string \<Rightarrow> nat \<Rightarrow> ('z, (mcl_error \<times> data_lake_object_t list) option) io" where
  "find_matching_object object_url_item [] object_path compare_size = State_Monad.return (Some (MCL_OK, []))"
| "find_matching_object object_url_item (object # objects) object_path compare_size =
     (case (if do_signed_url object \<noteq> None then Some MCL_FAIL
            else mcl_string_util_strncmp (Some (cstr object_path)) (map_option cstr (do_path object)) compare_size) of
        None \<Rightarrow> State_Monad.return None
      | Some compared \<Rightarrow>
          if compared \<noteq> MCL_OK then do {
            r \<leftarrow> find_matching_object object_url_item objects object_path compare_size;
            State_Monad.return (map_option (\<lambda>(code, objects). (code, object # objects)) r)
          }
          else (case json_util_get_object_item object_url_item ''signedUrl'' of
              Err code \<Rightarrow> State_Monad.return (Some (code, object # objects))
            | Ok signed_url_json \<Rightarrow> do {
                (code, signed_url) \<leftarrow> json_util_get_string signed_url_json;
                State_Monad.return (Some (code,
                  (if code = MCL_OK then object\<lparr>do_signed_url := signed_url\<rparr> else object) # objects))
              }))"

text \<open>The path begins with the client id and a slash, which are not compared. The code of the search is ignored.\<close>

definition match_signed_url ::
  "json \<Rightarrow> data_lake_object_t list \<Rightarrow> nat \<Rightarrow> ('z, (mcl_error \<times> data_lake_object_t list) option) io" where
  "match_signed_url object_url_item objects path_overhead_length =
     (case json_util_get_object_item object_url_item ''path'' of
        Err code \<Rightarrow> State_Monad.return (Some (code, objects))
      | Ok object_path_json \<Rightarrow> do {
          (code, object_path) \<leftarrow> json_util_get_string object_path_json;
          if code \<noteq> MCL_OK then State_Monad.return (Some (code, objects))
          else (let object_path_length = mcl_string_util_strlen object_path in
            if path_overhead_length < object_path_length then do {
              r \<leftarrow> find_matching_object object_url_item objects (drop path_overhead_length (the object_path))
                ((object_path_length - path_overhead_length) + 1);
              State_Monad.return (map_option (\<lambda>(_, objects). (MCL_OK, objects)) r)
            }
            else State_Monad.return (Some (MCL_OK, objects)))
        })"

fun match_signed_urls ::
  "json \<Rightarrow> nat list \<Rightarrow> data_lake_object_t list \<Rightarrow> nat \<Rightarrow> ('z, (mcl_error \<times> data_lake_object_t list) option) io" where
  "match_signed_urls object_urls_array [] objects path_overhead_length = State_Monad.return (Some (MCL_OK, objects))"
| "match_signed_urls object_urls_array (index # indexes) objects path_overhead_length =
     (case json_util_get_array_item object_urls_array index of
        Err code \<Rightarrow> State_Monad.return (Some (code, objects))
      | Ok object_url_item \<Rightarrow> do {
          r \<leftarrow> match_signed_url object_url_item objects path_overhead_length;
          case r of
            None \<Rightarrow> State_Monad.return None
          | Some (code, objects) \<Rightarrow>
              if code \<noteq> MCL_OK then State_Monad.return (Some (code, objects))
              else match_signed_urls object_urls_array indexes objects path_overhead_length
        })"

definition check_signed_urls :: "data_lake_object_t list \<Rightarrow> mcl_error" where
  "check_signed_urls objects =
     (if \<exists>object \<in> set objects. do_path object \<noteq> None \<and> do_signed_url object = None
      then MCL_DATA_LAKE_SIGNED_URL_GENERATION_FAIL else MCL_OK)"

definition get_object_urls :: "(string \<Rightarrow> json option) \<Rightarrow> string \<Rightarrow> nat \<Rightarrow> (json \<times> nat) result" where
  "get_object_urls cJSON_parse json json_size =
     (case json_util_parse cJSON_parse json json_size of
        Err code \<Rightarrow> Err code
      | Ok response_json \<Rightarrow>
          (case json_util_get_object_item response_json ''objectUrls'' of
             Err code \<Rightarrow> Err code
           | Ok object_urls_array \<Rightarrow>
               map_sum id (Pair object_urls_array) (json_util_get_array_size object_urls_array)))"

definition data_lake_json_match_signed_urls_with_objects ::
  "(string \<Rightarrow> json option) \<Rightarrow> data_lake_object_t list \<Rightarrow> string option \<Rightarrow> nat \<Rightarrow> nat \<Rightarrow>
   ('z, (mcl_error \<times> data_lake_object_t list) option) io" where
  "data_lake_json_match_signed_urls_with_objects cJSON_parse objects json json_size client_id_length =
     (if json_size = 0 then State_Monad.return (Some (MCL_INVALID_PARAMETER, objects))
      else (case json of
          None \<Rightarrow> State_Monad.return (Some (MCL_TRIGGERED_WITH_NULL, objects))
        | Some text \<Rightarrow>
            (case get_object_urls cJSON_parse text json_size of
               Err code \<Rightarrow> State_Monad.return (Some (code, objects))
             | Ok (object_urls_array, object_urls_array_size) \<Rightarrow> do {
                 r \<leftarrow> match_signed_urls object_urls_array [0..<object_urls_array_size] objects (client_id_length + 1);
                 State_Monad.return (map_option (\<lambda>(code, objects).
                   (if code = MCL_OK then check_signed_urls objects else code, objects)) r)
               })))"

section \<open>Requests\<close>

definition clear_signed_urls :: "data_lake_object_t list \<Rightarrow> data_lake_object_t list" where
  "clear_signed_urls objects = map (\<lambda>object. object\<lparr>do_signed_url := None\<rparr>) objects"

record data_lake_processor_t =
  dp_access_token :: string
  dp_client_id :: "string option"
  dp_upload_url_generation_url :: "string option"

definition data_lake_add_authorization_header ::
  "mcl_http_request_t option \<Rightarrow> string \<Rightarrow> ('z, mcl_error \<times> mcl_http_request_t option) io" where
  "data_lake_add_authorization_header request access_token = do {
     let jwt_length = (length (cstr ''Bearer %s'') - length (cstr ''%s'')) + length access_token + 1;
     a \<leftarrow> mcl_malloc;
     if \<not> a then State_Monad.return (MCL_OUT_OF_MEMORY, request)
     else (case snprintf_text jwt_length (''Bearer '' @ access_token) of
         Err code \<Rightarrow> State_Monad.return (code, request)
       | Ok jwt \<Rightarrow> mcl_http_request_add_header request (Some ''Authorization'') (Some jwt))
   }"

text \<open>The request for the addresses: the body is the document in its block.\<close>

definition upload_urls_request ::
  "data_lake_processor_t \<Rightarrow> char block \<Rightarrow> nat \<Rightarrow> ('z, mcl_error \<times> mcl_http_request_t option) io" where
  "upload_urls_request processor body body_size = do {
     (code, request) \<leftarrow> mcl_http_request_initialize;
     (code, request) \<leftarrow> when_ok code request
       (mcl_http_request_set_parameter request (Some (MCL_HTTP_REQUEST_PARAMETER_METHOD MCL_HTTP_POST)));
     (code, request) \<leftarrow> when_ok code request
       (mcl_http_request_set_parameter request
          (map_option MCL_HTTP_REQUEST_PARAMETER_URL (dp_upload_url_generation_url processor)));
     (code, request) \<leftarrow> when_ok code request
       (mcl_http_request_set_parameter request (Some (MCL_HTTP_REQUEST_PARAMETER_BODY body)));
     (code, request) \<leftarrow> when_ok code request
       (mcl_http_request_set_parameter request (Some (MCL_HTTP_REQUEST_PARAMETER_BODY_SIZE body_size)));
     (code, request) \<leftarrow> when_ok code request
       (mcl_http_request_add_header request (Some ''Content-Type'') (Some ''application/json''));
     when_ok code request (data_lake_add_authorization_header request (dp_access_token processor))
   }"

definition upload_urls_answer ::
  "(string \<Rightarrow> json option) \<Rightarrow> data_lake_object_t list \<Rightarrow> nat \<Rightarrow> mcl_http_response_t result \<Rightarrow>
   ('z, (mcl_error \<times> data_lake_object_t list) option) io" where
  "upload_urls_answer cJSON_parse objects client_id_length answer =
     (case answer of
        Err code \<Rightarrow> State_Monad.return (Some (code, objects))
      | Ok response \<Rightarrow>
          if rs_status_code response = MCL_HTTP_STATUS_CODE_CREATED
          then data_lake_json_match_signed_urls_with_objects cJSON_parse objects (rs_payload response)
            (rs_payload_size response) client_id_length
          else State_Monad.return (Some (mcl_http_response_get_status (Some response), objects)))"

definition generate_upload_urls ::
  "(string \<Rightarrow> json option) \<Rightarrow> data_lake_processor_t \<Rightarrow> data_lake_object_t list \<Rightarrow> string option \<Rightarrow>
   ('z net_world_ext, (mcl_error \<times> data_lake_object_t list) option) io" where
  "generate_upload_urls cJSON_parse processor objects subtenant_id = do {
     let objects = clear_signed_urls objects;
     let client_id_length = mcl_string_util_strlen (dp_client_id processor);
     r \<leftarrow> data_lake_json_from_objects objects (dp_client_id processor) subtenant_id;
     case r of
       None \<Rightarrow> State_Monad.return None
     | Some (Err code) \<Rightarrow> State_Monad.return (Some (code, objects))
     | Some (Ok body) \<Rightarrow>
         (case block_string body of
            None \<Rightarrow> State_Monad.return None
          | Some text \<Rightarrow> do {
              (code, request) \<leftarrow> upload_urls_request processor body (length text);
              r \<leftarrow> send_if_ok code request;
              case r of
                None \<Rightarrow> State_Monad.return None
              | Some answer \<Rightarrow> upload_urls_answer cJSON_parse objects client_id_length answer
            })
   }"

definition data_lake_processor_generate_upload_url ::
  "(string \<Rightarrow> json option) \<Rightarrow> data_lake_processor_t \<Rightarrow> data_lake_object_t \<Rightarrow> string option \<Rightarrow>
   ('z net_world_ext, (mcl_error \<times> data_lake_object_t) option) io" where
  "data_lake_processor_generate_upload_url cJSON_parse processor object subtenant_id = do {
     r \<leftarrow> generate_upload_urls cJSON_parse processor [object] subtenant_id;
     State_Monad.return (map_option (\<lambda>(code, objects). (code, hd objects)) r)
   }"

text \<open>
  The array is filled by \<open>mcl_list_next\<close> from wherever the list stands; a fetched \<open>NULL\<close> is read.
  The list holds pointers, so its objects are the ones the array names.
\<close>

fun fetch_objects :: "nat \<Rightarrow> data_lake_object_t clist \<Rightarrow> (data_lake_object_t list \<times> data_lake_object_t clist) option" where
  "fetch_objects 0 object_list = Some ([], object_list)"
| "fetch_objects (Suc count) object_list = do {
     (_, node, object_list) \<leftarrow> clist_next object_list;
     object \<leftarrow> node;
     (objects, object_list) \<leftarrow> fetch_objects count object_list;
     Some (object # objects, object_list)
   }"

definition POINTER_SIZE :: nat where "POINTER_SIZE = 8"

definition data_lake_object_list_to_array ::
  "bool \<Rightarrow> data_lake_object_t clist \<Rightarrow> (data_lake_object_t list option \<times> data_lake_object_t clist) option" where
  "data_lake_object_list_to_array alloc object_list =
     (if alloc then map_option (\<lambda>(objects, l). (Some objects, l)) (fetch_objects (clist_count object_list) object_list)
      else Some (None, object_list))"

definition data_lake_processor_generate_upload_urls ::
  "(string \<Rightarrow> json option) \<Rightarrow> data_lake_processor_t \<Rightarrow> data_lake_object_t clist \<Rightarrow> string option \<Rightarrow>
   ('z net_world_ext, (mcl_error \<times> data_lake_object_t clist) option) io" where
  "data_lake_processor_generate_upload_urls cJSON_parse processor object_list subtenant_id = do {
     a \<leftarrow> mcl_memory_malloc (clist_count object_list * POINTER_SIZE);
     case data_lake_object_list_to_array a object_list of
       None \<Rightarrow> State_Monad.return None
     | Some (None, object_list) \<Rightarrow> State_Monad.return (Some (MCL_OUT_OF_MEMORY, object_list))
     | Some (Some objects, object_list) \<Rightarrow> do {
         r \<leftarrow> generate_upload_urls cJSON_parse processor objects subtenant_id;
         State_Monad.return (map_option (\<lambda>(code, objects). (code, object_list\<lparr>cl_items := objects\<rparr>)) r)
       }
   }"

section \<open>The upload\<close>

definition azure_storage_url :: string where "azure_storage_url = ''blob.core.windows.net''"

text \<open>
  The index after the first dot, or after the last character. It is an \<open>mcl_int32_t\<close> in the code:
  addresses are taken to be shorter than \<open>2 ^ 31\<close> characters.
\<close>

function azure_index :: "string \<Rightarrow> nat \<Rightarrow> nat option" where
  "azure_index signed_url index =
     (case char_at signed_url index of
        None \<Rightarrow> None
      | Some c \<Rightarrow> if c \<noteq> CHR ''.'' \<and> index + 1 < length signed_url then azure_index signed_url (index + 1)
          else Some (index + 1))"
  by pat_completeness auto
termination by (relation "measure (\<lambda>(signed_url, index). length signed_url - index)") auto

declare azure_index.simps [simp del]

text \<open>The bound is computed with unsigned numbers.\<close>

definition check_url_if_it_is_for_azure_storage :: "string \<Rightarrow> bool option" where
  "check_url_if_it_is_for_azure_storage signed_url = do {
     let url_length = (of_nat (length signed_url) :: mcl_size_t);
     index \<leftarrow> azure_index signed_url 0;
     if of_nat index < url_length - of_nat (length (cstr azure_storage_url))
     then string_util_memcmp (drop index (cstr signed_url)) (cstr azure_storage_url)
       (length (cstr azure_storage_url) - 1)
     else Some False
   }"

text \<open>From the initialisation of the request to the size of its body.\<close>

definition object_upload_request ::
  "data_lake_object_t \<Rightarrow> ('z, mcl_error \<times> mcl_http_request_t option) io" where
  "object_upload_request object = do {
     (code, request) \<leftarrow> mcl_http_request_initialize;
     (code, request) \<leftarrow> when_ok code request
       (mcl_http_request_set_parameter request (Some (MCL_HTTP_REQUEST_PARAMETER_METHOD MCL_HTTP_PUT)));
     (code, request) \<leftarrow> when_ok code request
       (mcl_http_request_set_parameter request (map_option MCL_HTTP_REQUEST_PARAMETER_URL (do_signed_url object)));
     (code, request) \<leftarrow> when_ok code request
       (mcl_http_request_set_parameter request
          (map_option MCL_HTTP_REQUEST_PARAMETER_STREAM_CALLBACK (do_upload_callback object)));
     (code, request) \<leftarrow> when_ok code request
       (mcl_http_request_set_parameter request
          (map_option MCL_HTTP_REQUEST_PARAMETER_STREAM_DATA (do_user_context object)));
     when_ok code request
       (mcl_http_request_set_parameter request (Some (MCL_HTTP_REQUEST_PARAMETER_BODY_SIZE (do_size object))))
   }"

definition add_azure_header ::
  "data_lake_object_t \<Rightarrow> mcl_http_request_t option \<Rightarrow> ('z, (mcl_error \<times> mcl_http_request_t option) option) io" where
  "add_azure_header object request =
     (case Option.bind (do_signed_url object) check_url_if_it_is_for_azure_storage of
        None \<Rightarrow> State_Monad.return None
      | Some False \<Rightarrow> State_Monad.return (Some (MCL_OK, request))
      | Some True \<Rightarrow> do {
          (code, request) \<leftarrow> mcl_http_request_add_header request (Some ''x-ms-blob-type'') (Some ''BlockBlob'');
          State_Monad.return (Some (code, request))
        })"

definition upload_answer :: "mcl_http_response_t result \<Rightarrow> mcl_error" where
  "upload_answer answer =
     (case answer of
        Err code \<Rightarrow> code
      | Ok response \<Rightarrow>
          if rs_status_code response = MCL_HTTP_STATUS_CODE_SUCCESS \<or>
             rs_status_code response = MCL_HTTP_STATUS_CODE_CREATED
          then MCL_OK else mcl_http_response_get_status (Some response))"

definition data_lake_processor_upload ::
  "data_lake_object_t \<Rightarrow> ('z net_world_ext, mcl_error option) io" where
  "data_lake_processor_upload object = do {
     let code = data_lake_object_validate object;
     (code, request) \<leftarrow> when_ok code None (object_upload_request object);
     r \<leftarrow> (if code = MCL_OK then add_azure_header object request
           else State_Monad.return (Some (code, request)));
     case r of
       None \<Rightarrow> State_Monad.return None
     | Some (code, request) \<Rightarrow> do {
         answer \<leftarrow> send_if_ok code request;
         State_Monad.return (map_option upload_answer answer)
       }
   }"

section \<open>Configuration\<close>

record data_lake_configuration_t =
  lc_core :: "nat option"
  lc_upload_url_generation_url :: "string option"
  lc_certificate :: "string option"
  lc_certificate_is_file :: bool

datatype data_lake_configuration_parameter =
    MCL_DATA_LAKE_CONFIGURATION_PARAMETER_CORE nat
  | MCL_DATA_LAKE_CONFIGURATION_PARAMETER_CERTIFICATE string
  | MCL_DATA_LAKE_CONFIGURATION_PARAMETER_CERTIFICATE_FILE string
  | MCL_DATA_LAKE_CONFIGURATION_PARAMETER_END

definition upload_url_generation_endpoint :: string where
  "upload_url_generation_endpoint = ''/api/datalake/v3/generateUploadObjectUrls''"

definition mcl_data_lake_configuration_initialize ::
  "('z, mcl_error \<times> data_lake_configuration_t option) io" where
  "mcl_data_lake_configuration_initialize = do {
     a \<leftarrow> mcl_malloc;
     State_Monad.return
       (if a then (MCL_OK, Some \<lparr>lc_core = None, lc_upload_url_generation_url = None, lc_certificate = None,
          lc_certificate_is_file = False\<rparr>)
        else (MCL_OUT_OF_MEMORY, None))
   }"

text \<open>The core is set before its host name is looked at, whatever comes of the address.\<close>

definition set_data_lake_configuration_core_parameter ::
  "cores \<Rightarrow> data_lake_configuration_t \<Rightarrow> nat \<Rightarrow>
   ('z, (mcl_error \<times> data_lake_configuration_t) option) io" where
  "set_data_lake_configuration_core_parameter cores configuration core =
     (let configuration = configuration\<lparr>lc_core := Some core\<rparr> in
      case cores core of
        None \<Rightarrow> State_Monad.return None
      | Some c \<Rightarrow>
          (case mcl_core_get_host_name (Some c) of
             None \<Rightarrow> State_Monad.return (Some (MCL_INVALID_PARAMETER, configuration))
           | Some hostname \<Rightarrow> do {
               (code, url) \<leftarrow> reset_field (hostname @ upload_url_generation_endpoint);
               State_Monad.return (Some (code, configuration\<lparr>lc_upload_url_generation_url := url\<rparr>))
             }))"

definition mcl_data_lake_configuration_set_parameter ::
  "cores \<Rightarrow> bool \<Rightarrow> data_lake_configuration_t option \<Rightarrow> data_lake_configuration_parameter option \<Rightarrow>
   ('z, (mcl_error \<times> data_lake_configuration_t option) option) io" where
  "mcl_data_lake_configuration_set_parameter cores have_file_system configuration parameter =
     (case (configuration, parameter) of
        (Some c, Some (MCL_DATA_LAKE_CONFIGURATION_PARAMETER_CORE core)) \<Rightarrow> do {
          r \<leftarrow> set_data_lake_configuration_core_parameter cores c core;
          State_Monad.return (map_option (\<lambda>(code, c). (code, Some c)) r)
        }
      | (Some c, Some (MCL_DATA_LAKE_CONFIGURATION_PARAMETER_CERTIFICATE s)) \<Rightarrow> do {
          (code, certificate) \<leftarrow> reset_field s;
          State_Monad.return (Some (code, Some (c\<lparr>lc_certificate := certificate, lc_certificate_is_file := False\<rparr>)))
        }
      | (Some c, Some (MCL_DATA_LAKE_CONFIGURATION_PARAMETER_CERTIFICATE_FILE s)) \<Rightarrow>
          if have_file_system then do {
            (code, certificate) \<leftarrow> reset_field s;
            State_Monad.return (Some (code, Some (c\<lparr>lc_certificate := certificate, lc_certificate_is_file := True\<rparr>)))
          }
          else State_Monad.return (Some (MCL_NO_FILE_SUPPORT, configuration))
      | (Some c, Some MCL_DATA_LAKE_CONFIGURATION_PARAMETER_END) \<Rightarrow>
          State_Monad.return (Some (MCL_INVALID_PARAMETER, configuration))
      | _ \<Rightarrow> State_Monad.return (Some (MCL_TRIGGERED_WITH_NULL, configuration)))"

definition data_lake_configuration_validate :: "data_lake_configuration_t \<Rightarrow> mcl_error" where
  "data_lake_configuration_validate configuration =
     (if lc_core configuration = None then MCL_INVALID_PARAMETER else MCL_OK)"

section \<open>The handle\<close>

record data_lake_t =
  dl_configuration :: data_lake_configuration_t
  dl_access_token :: "string option"
  dl_client_id :: "nat option"
  dl_upload_url_generation_url :: "string option"

text \<open>The last argument is the result of giving the certificate to the HTTP client.\<close>

definition mcl_data_lake_initialize ::
  "cores \<Rightarrow> data_lake_configuration_t option \<Rightarrow> mcl_error \<Rightarrow>
   ('z, (mcl_error \<times> data_lake_t option) option) io" where
  "mcl_data_lake_initialize cores configuration mcl_http_client_add_certificate =
     (case configuration of
        None \<Rightarrow> State_Monad.return (Some (MCL_TRIGGERED_WITH_NULL, None))
      | Some c \<Rightarrow>
          if data_lake_configuration_validate c \<noteq> MCL_OK
          then State_Monad.return (Some (data_lake_configuration_validate c, None))
          else do {
            a \<leftarrow> mcl_malloc;
            State_Monad.return
              (if \<not> a then Some (MCL_OUT_OF_MEMORY, None)
               else do {
                 core \<leftarrow> lc_core c;
                 core \<leftarrow> cores core;
                 let data_lake = \<lparr>dl_configuration = c, dl_access_token = None,
                   dl_client_id = mcl_core_get_client_id (Some core),
                   dl_upload_url_generation_url = lc_upload_url_generation_url c\<rparr>;
                 let code = (if lc_certificate c \<noteq> None then mcl_http_client_add_certificate else MCL_OK);
                 Some (code, if code \<noteq> MCL_OK then None else Some data_lake)
               })
          })"

text \<open>The string at the address of the client id, \<open>None\<close> when the core has released it.\<close>

definition data_lake_client_id :: "cores \<Rightarrow> data_lake_t \<Rightarrow> string option option" where
  "data_lake_client_id cores data_lake =
     (case dl_client_id data_lake of
        None \<Rightarrow> Some None
      | Some address \<Rightarrow> do {
          core \<leftarrow> lc_core (dl_configuration data_lake);
          c \<leftarrow> cores core;
          (a, client_id) \<leftarrow> sh_client_id (cpr_security_handler (core_processor c));
          if a = address then Some (Some client_id) else None
        })"

text \<open>The token of the core, then an operation of the processor.\<close>

definition with_data_lake_processor ::
  "cores \<Rightarrow> data_lake_t \<Rightarrow> (data_lake_processor_t \<Rightarrow> ('z, (mcl_error \<times> 'a) option) io) \<Rightarrow> 'a \<Rightarrow>
   ('z, (mcl_error \<times> data_lake_t option \<times> 'a option) option) io" where
  "with_data_lake_processor cores data_lake operation otherwise =
     (let data_lake = data_lake\<lparr>dl_access_token := None\<rparr> in
      case Option.bind (lc_core (dl_configuration data_lake)) cores of
        None \<Rightarrow> State_Monad.return None
      | Some c \<Rightarrow> do {
          (code, token) \<leftarrow> mcl_core_get_last_access_token (Some c);
          let data_lake = data_lake\<lparr>dl_access_token := token\<rparr>;
          (case (code, token) of
             (MCL_OK, Some access_token) \<Rightarrow>
               (case data_lake_client_id cores data_lake of
                  None \<Rightarrow> State_Monad.return None
                | Some client_id \<Rightarrow> do {
                    r \<leftarrow> operation \<lparr>dp_access_token = access_token, dp_client_id = client_id,
                      dp_upload_url_generation_url = dl_upload_url_generation_url data_lake\<rparr>;
                    State_Monad.return (map_option (\<lambda>(code, x). (code, Some data_lake, Some x)) r)
                  })
           | _ \<Rightarrow> State_Monad.return (Some (code, Some data_lake, Some otherwise)))
        })"

definition mcl_data_lake_generate_upload_url_for_subtenant ::
  "(string \<Rightarrow> json option) \<Rightarrow> cores \<Rightarrow> data_lake_t option \<Rightarrow> data_lake_object_t option \<Rightarrow> string option \<Rightarrow>
   ('z net_world_ext, (mcl_error \<times> data_lake_t option \<times> data_lake_object_t option) option) io" where
  "mcl_data_lake_generate_upload_url_for_subtenant cJSON_parse cores data_lake object subtenant_id =
     (case (data_lake, object) of
        (Some d, Some x) \<Rightarrow> with_data_lake_processor cores d
          (\<lambda>p. data_lake_processor_generate_upload_url cJSON_parse p x subtenant_id) x
      | _ \<Rightarrow> State_Monad.return (Some (MCL_TRIGGERED_WITH_NULL, data_lake, object)))"

definition mcl_data_lake_generate_upload_urls_for_subtenant ::
  "(string \<Rightarrow> json option) \<Rightarrow> cores \<Rightarrow> data_lake_t option \<Rightarrow> data_lake_object_t clist option \<Rightarrow> string option \<Rightarrow>
   ('z net_world_ext, (mcl_error \<times> data_lake_t option \<times> data_lake_object_t clist option) option) io" where
  "mcl_data_lake_generate_upload_urls_for_subtenant cJSON_parse cores data_lake object_list subtenant_id =
     (case (data_lake, object_list) of
        (Some d, Some l) \<Rightarrow> with_data_lake_processor cores d
          (\<lambda>p. data_lake_processor_generate_upload_urls cJSON_parse p l subtenant_id) l
      | _ \<Rightarrow> State_Monad.return (Some (MCL_TRIGGERED_WITH_NULL, data_lake, object_list)))"

text \<open>Without a subtenant.\<close>

definition mcl_data_lake_generate_upload_url ::
  "(string \<Rightarrow> json option) \<Rightarrow> cores \<Rightarrow> data_lake_t option \<Rightarrow> data_lake_object_t option \<Rightarrow>
   ('z net_world_ext, (mcl_error \<times> data_lake_t option \<times> data_lake_object_t option) option) io" where
  "mcl_data_lake_generate_upload_url cJSON_parse cores data_lake object =
     mcl_data_lake_generate_upload_url_for_subtenant cJSON_parse cores data_lake object None"

definition mcl_data_lake_generate_upload_urls ::
  "(string \<Rightarrow> json option) \<Rightarrow> cores \<Rightarrow> data_lake_t option \<Rightarrow> data_lake_object_t clist option \<Rightarrow>
   ('z net_world_ext, (mcl_error \<times> data_lake_t option \<times> data_lake_object_t clist option) option) io" where
  "mcl_data_lake_generate_upload_urls cJSON_parse cores data_lake object_list =
     mcl_data_lake_generate_upload_urls_for_subtenant cJSON_parse cores data_lake object_list None"

definition mcl_data_lake_upload ::
  "data_lake_t option \<Rightarrow> data_lake_object_t option \<Rightarrow> ('z net_world_ext, mcl_error option) io" where
  "mcl_data_lake_upload data_lake object =
     (case (data_lake, object) of
        (Some d, Some x) \<Rightarrow> data_lake_processor_upload x
      | _ \<Rightarrow> State_Monad.return (Some MCL_TRIGGERED_WITH_NULL))"

end
