(* ===== verification/MclDataLakeProps.thy ===== *)
theory MclDataLakeProps
  imports MclDataLake
begin

text \<open>
  What the data lake library promises: the document that asks for addresses, the assignment of the
  addresses in the answer to the objects, and the upload to an address.
\<close>

section \<open>The document\<close>

definition paths_of :: "data_lake_object_t list \<Rightarrow> string list" where
  "paths_of objects = List.map_filter do_path objects"

definition path_text :: "string \<Rightarrow> string \<Rightarrow> string" where
  "path_text client_id path = ''{\"path\":\"'' @ client_id @ ''/'' @ path @ ''\"}''"

definition subtenant_text :: "string option \<Rightarrow> string" where
  "subtenant_text subtenant_id = (case subtenant_id of
     None \<Rightarrow> [] | Some s \<Rightarrow> if s = [] then [] else '',\"subtenantId\":\"'' @ s @ [quote])"

definition body_text :: "string list \<Rightarrow> string \<Rightarrow> string option \<Rightarrow> string" where
  "body_text paths client_id subtenant_id =
     ''{\"paths\":['' @ join_comma (map (path_text client_id) paths) @ '']'' @ subtenant_text subtenant_id @ ''}''"

definition body_json :: "string list \<Rightarrow> string \<Rightarrow> string option \<Rightarrow> json" where
  "body_json paths client_id subtenant_id = Json CObject
     ((Some ''paths'', Json CArray (map (\<lambda>path. (None, Json CObject [(Some ''path'', str (client_id @ ''/'' @ path))])) paths)) #
      (case subtenant_id of None \<Rightarrow> [] | Some s \<Rightarrow> if s = [] then [] else [(Some ''subtenantId'', str s)]))"

lemma paths_of_simps [simp]:
  "paths_of [] = []"
  "paths_of (object # objects) = (case do_path object of None \<Rightarrow> paths_of objects | Some p \<Rightarrow> p # paths_of objects)"
  by (simp_all add: paths_of_def map_filter_simps split: option.split)

definition paths_text :: "string \<Rightarrow> string list \<Rightarrow> bool \<Rightarrow> string" where
  "paths_text client_id paths is_first =
     (if paths = [] then [] else (if is_first then [] else '','') @ join_comma (map (path_text client_id) paths))"

lemma paths_text_Cons:
  "paths_text client_id (p # ps) is_first =
     (if is_first then [] else '','') @ path_text client_id p @ paths_text client_id ps False"
  by (cases ps) (simp_all add: paths_text_def)

lemma copy_paths_filled:
  "length (paths_text client_id (paths_of objects) is_first) \<le> n \<Longrightarrow>
   copy_paths (Some client_id) objects is_first (filled written n) =
     Some (filled (written @ paths_text client_id (paths_of objects) is_first)
       (n - length (paths_text client_id (paths_of objects) is_first)))"
proof (induction objects arbitrary: is_first written n)
  case (Cons object objects)
  show ?case
  proof (cases "do_path object")
    case None
    then show ?thesis using Cons by simp
  next
    case (Some path)
    then show ?thesis
      using Cons.prems Cons.IH [where is_first = False]
      by (cases is_first) (simp_all add: paths_text_Cons copy_text_filled path_text_def
          generate_url_body_pre_path_object_def generate_url_body_post_path_object_def ac_simps)
  qed
qed (simp add: paths_text_def)

lemma total_path_size:
  "calculate_total_path_size objects a b =
     (a + sum_list (map length (paths_of objects)), b + length (paths_of objects))"
  by (induction objects arbitrary: a b) (auto split: option.splits)

lemma length_paths_text:
  "length (paths_text client_id paths False) = sum_list (map length paths) + (length client_id + 13) * length paths"
proof (induction paths)
  case (Cons p ps)
  then show ?case by (simp add: paths_text_Cons path_text_def)
qed (simp add: paths_text_def)

lemma body_size:
  assumes "paths_of objects \<noteq> []"
  shows "data_lake_json_get_body_size_generate_upload_urls objects (length client_id) (mcl_string_util_strlen subtenant_id) =
    length (body_text (paths_of objects) client_id subtenant_id)"
proof -
  obtain p ps where ps: "paths_of objects = p # ps" using assms by (cases "paths_of objects") auto
  have "join_comma (map (path_text client_id) (p # ps)) = path_text client_id p @ paths_text client_id ps False"
    by (cases ps) (simp_all add: paths_text_def)
  then show ?thesis
    using ps length_paths_text [of client_id ps]
    by (cases subtenant_id)
      (auto simp: data_lake_json_get_body_size_generate_upload_urls_def total_path_size body_text_def
        subtenant_text_def path_text_def mcl_string_util_strlen_def cstr_def Let_def algebra_simps
        generate_url_body_pre_path_list_def generate_url_body_pre_path_object_def
        generate_url_body_post_path_object_def subtenant_id_key_def)
qed

lemma copy_body:
  assumes "paths_of objects \<noteq> []" and "text = body_text (paths_of objects) client_id subtenant_id"
  shows "copy_payload objects (Some client_id) subtenant_id (filled [] (length text + 1)) = Some (filled text 1)"
proof -
  have body: "text = ''{\"paths\":['' @ paths_text client_id (paths_of objects) True @ '']'' @
      subtenant_text subtenant_id @ ''}''"
    using assms by (simp add: body_text_def paths_text_def)
  show ?thesis
    unfolding body
    by (cases subtenant_id)
      (auto simp: copy_payload_def copy_text_filled copy_paths_filled subtenant_text_def mcl_string_util_strlen_def
        generate_url_body_pre_path_list_def subtenant_id_key_def)
qed

lemma run_json_from_objects:
  assumes "w_alloc w = []"
  shows "run_state (data_lake_json_from_objects objects (Some client_id) subtenant_id) w =
    (Some (if paths_of objects = [] then Err MCL_INVALID_PARAMETER
           else Ok (map Some (cstr (body_text (paths_of objects) client_id subtenant_id)))), w)"
proof (cases "paths_of objects = []")
  case True
  then have "data_lake_json_get_body_size_generate_upload_urls objects n m = 0" for n m
    by (simp add: data_lake_json_get_body_size_generate_upload_urls_def total_path_size)
  then show ?thesis using True by (simp add: data_lake_json_from_objects_def)
next
  case False
  let ?text = "body_text (paths_of objects) client_id subtenant_id"
  have size: "data_lake_json_get_body_size_generate_upload_urls objects (mcl_string_util_strlen (Some client_id))
      (mcl_string_util_strlen subtenant_id) = length ?text"
    using body_size [OF False] by (simp add: mcl_string_util_strlen_def)
  have nonempty: "length ?text \<noteq> 0" by (simp add: body_text_def)
  have start: "(fresh_block (length ?text + 1), 0) = filled [] (length ?text + 1)" by (simp add: filled_def)
  have "store (map Some ?text @ fresh_block 1) (length ?text) MCL_NULL_CHAR = Some (map Some (cstr ?text))"
    using list_update_length [of "map Some ?text" None "[]"] by (simp add: store_def fresh_block_def cstr_def)
  then have terminated: "(do {
      (json, position) \<leftarrow> copy_payload objects (Some client_id) subtenant_id (fresh_block (length ?text + 1), 0);
      json \<leftarrow> store json (length ?text) MCL_NULL_CHAR;
      Some (Ok json)
    }) = Some (Ok (map Some (cstr ?text)) :: char block result)"
    unfolding start copy_body [OF False refl] by (simp add: filled_def)
  show ?thesis
    unfolding data_lake_json_from_objects_def size Let_def run_bind run_malloc_ok [OF assms] using nonempty False
    by (simp add: run_malloc_ok [OF assms] terminated [simplified])
qed

text \<open>Without characters that need an escape the text is the printed document.\<close>

definition plain_request :: "string list \<Rightarrow> string \<Rightarrow> string option \<Rightarrow> bool" where
  "plain_request paths client_id subtenant_id \<longleftrightarrow>
     (\<forall>path \<in> set paths. plain path) \<and> plain client_id \<and> (\<forall>s. subtenant_id = Some s \<longrightarrow> plain s)"

lemma plain_keys: "plain ''path''" "plain ''paths''" "plain ''subtenantId''"
  by (simp_all add: plain_def)

lemma plain_joined: "plain client_id \<Longrightarrow> plain path \<Longrightarrow> plain (client_id @ ''/'' @ path)"
  by (auto simp: plain_def)

lemma print_paths:
  assumes "\<forall>path \<in> set paths. plain path" and "plain client_id"
  shows "map (\<lambda>path. json_print (Json CObject [(Some ''path'', str (client_id @ ''/'' @ path))])) paths =
    map (path_text client_id) paths"
proof (rule map_cong [OF refl])
  fix path assume "path \<in> set paths"
  with assms plain_joined have "plain (client_id @ ''/'' @ path)" by blast
  then show "json_print (Json CObject [(Some ''path'', str (client_id @ ''/'' @ path))]) = path_text client_id path"
    using plain_keys(1) by (simp add: str_def print_string_plain path_text_def quote_def del: append.simps)
qed

lemma body_text_printed:
  assumes "plain_request paths client_id subtenant_id"
  shows "body_text paths client_id subtenant_id = json_print (body_json paths client_id subtenant_id)"
proof -
  define array where
    "array = Json CArray (map (\<lambda>path. (None, Json CObject [(Some ''path'', str (client_id @ ''/'' @ path))])) paths)"
  have "map (\<lambda>path. json_print (Json CObject [(Some ''path'', str (client_id @ ''/'' @ path))])) paths =
      map (path_text client_id) paths"
    by (rule print_paths) (use assms in \<open>simp_all add: plain_request_def\<close>)
  then have array: "json_print array = ''['' @ join_comma (map (path_text client_id) paths) @ '']''"
    unfolding array_def by (simp add: o_def del: json_print.simps map_eq_conv add: json_print.simps [of CArray])
  have "plain s" if "subtenant_id = Some s" for s using that assms by (simp add: plain_request_def)
  then show ?thesis
    using plain_keys(2,3) array
    unfolding body_json_def array_def [symmetric]
    by (cases subtenant_id) (auto simp: body_text_def subtenant_text_def print_string_plain str_def quote_def)
qed

section \<open>The addresses\<close>

text \<open>What an entry of the answer says: a path and the address for it.\<close>

definition says :: "string option \<times> json \<Rightarrow> string \<times> string \<Rightarrow> bool" where
  "says = (\<lambda>(k, url_item) (path, url). cstring path \<and>
     (\<exists>cs. json_util_get_object_item url_item ''path'' = Ok (Json (CString path) cs)) \<and>
     (\<exists>cs. json_util_get_object_item url_item ''signedUrl'' = Ok (Json (CString url) cs)))"

definition path_ok :: "data_lake_object_t \<Rightarrow> bool" where
  "path_ok object \<longleftrightarrow> (\<forall>path. do_path object = Some path \<longrightarrow> cstring path)"

definition place :: "string \<Rightarrow> string \<Rightarrow> data_lake_object_t \<Rightarrow> data_lake_object_t" where
  "place path url object =
     (if do_signed_url object = None \<and> do_path object = Some path then object\<lparr>do_signed_url := Some url\<rparr> else object)"

lemma place_fields [simp]: "do_path (place path url object) = do_path object"
  by (simp add: place_def)

lemma place_others:
  assumes "path \<notin> set (paths_of objects)"
  shows "map (place path url) objects = objects"
  using assms by (induction objects) (auto simp: place_def split: option.splits)

lemma compare_paths:
  assumes "cstring path" and "cstring p"
  shows "mcl_string_util_strncmp (Some (cstr path)) (Some (cstr p)) (Suc (length path)) =
    Some (if p = path then MCL_OK else MCL_FAIL)"
proof -
  have "take (Suc (length path)) path = take (Suc (length path)) p \<longleftrightarrow> p = path"
  proof
    assume t: "take (Suc (length path)) path = take (Suc (length path)) p"
    then have "length p = length path" by (metis length_take lessI min.absorb2 min.strict_order_iff nat_less_le
          take_all_iff min_def not_less_eq_eq)
    with t show "p = path" by simp
  qed simp
  then show ?thesis
    using strncmp_eq_cstr [OF assms, of "[]" "[]" "length path + 1"]
    by (simp add: mcl_string_util_strncmp_def string_util_strncmp_def cstr_def)
qed

lemma run_find_matching:
  assumes "w_alloc w = []" and "cstring path"
    and "json_util_get_object_item url_item ''signedUrl'' = Ok (Json (CString url) cs)"
  shows "\<forall>object \<in> set objects. path_ok object \<Longrightarrow> distinct (paths_of objects) \<Longrightarrow>
    run_state (find_matching_object url_item objects path (length path + 1)) w =
      (Some (MCL_OK, map (place path url) objects), w)"
proof (induction objects)
  case (Cons object objects)
  have rest: "distinct (paths_of objects)" using Cons.prems(2) by (simp split: option.splits)
  show ?case
  proof (cases "do_signed_url object = None \<and> do_path object = Some path")
    case True
    then have "map (place path url) objects = objects"
      using Cons.prems(2) by (intro place_others) simp
    moreover have "place path url object = object\<lparr>do_signed_url := Some url\<rparr>" using True by (simp add: place_def)
    ultimately show ?thesis
      using True assms compare_paths [OF assms(2,2)] by (simp add: json_util_get_string_def)
  next
    case False
    have skipped: "place path url object = object" using False by (simp add: place_def)
    show ?thesis
    proof (cases "do_signed_url object = None")
      case True
      then show ?thesis
        using False Cons.IH rest Cons.prems(1) skipped compare_paths [OF assms(2)]
        by (cases "do_path object") (auto simp: mcl_string_util_strncmp_def path_ok_def)
    next
      case False
      then show ?thesis using Cons.IH rest Cons.prems(1) skipped by auto
    qed
  qed
qed simp

text \<open>One entry: a path that is not longer than the client id and its slash is skipped.\<close>

definition place_entry :: "nat \<Rightarrow> string \<times> string \<Rightarrow> data_lake_object_t \<Rightarrow> data_lake_object_t" where
  "place_entry n = (\<lambda>(path, url) object. if n < length path then place (drop n path) url object else object)"

lemma run_match_signed_url:
  assumes "w_alloc w = []" and "says (k, url_item) e"
    and "\<forall>object \<in> set objects. path_ok object" and "distinct (paths_of objects)"
  shows "run_state (match_signed_url url_item objects n) w = (Some (MCL_OK, map (place_entry n e) objects), w)"
proof -
  obtain path url cs cs' where e: "e = (path, url)" "cstring path"
      "json_util_get_object_item url_item ''path'' = Ok (Json (CString path) cs)"
      "json_util_get_object_item url_item ''signedUrl'' = Ok (Json (CString url) cs')"
    using assms(2) by (cases e) (auto simp: says_def)
  have "cstring (drop n path)" using e(2) by (auto simp: cstring_def dest: in_set_dropD)
  from run_find_matching [OF assms(1) this e(4) assms(3,4)] show ?thesis
    using e assms(1)
    by (simp add: match_signed_url_def json_util_get_string_def mcl_string_util_strlen_def place_entry_def Let_def)
qed

lemma place_entry_fields [simp]: "do_path (place_entry n e object) = do_path object"
  by (simp add: place_entry_def split: prod.split)

lemma paths_of_map: "(\<And>object. do_path (f object) = do_path object) \<Longrightarrow> paths_of (map f objects) = paths_of objects"
  by (induction objects) (simp_all split: option.split)

lemma run_match_signed_urls:
  assumes "w_alloc w = []" and "list_all2 says (json_children array) entries" and "json_value array = CArray"
  shows "i \<le> length entries \<Longrightarrow> \<forall>object \<in> set objects. path_ok object \<Longrightarrow> distinct (paths_of objects) \<Longrightarrow>
    run_state (match_signed_urls array [i..<length entries] objects n) w =
      (Some (MCL_OK, map (\<lambda>object. fold (place_entry n) (drop i entries) object) objects), w)"
proof (induction "length entries - i" arbitrary: i objects)
  case 0
  then show ?case by simp
next
  case (Suc d)
  then have i: "i < length entries" by simp
  have length: "length (json_children array) = length entries" using assms(2) by (rule list_all2_lengthD)
  let ?objects = "map (place_entry n (entries ! i)) objects"
  have "says (json_children array ! i) (entries ! i)" using list_all2_nthD2 [OF assms(2) i] .
  then have says_item: "says (fst (json_children array ! i), snd (json_children array ! i)) (entries ! i)" by simp
  have "run_state (match_signed_urls array [Suc i..<length entries] ?objects n) w =
      (Some (MCL_OK, map (\<lambda>object. fold (place_entry n) (drop (Suc i) entries) object) ?objects), w)"
    using Suc.hyps(2) i Suc.prems(2,3) by (intro Suc.hyps(1)) (simp_all add: path_ok_def paths_of_map)
  moreover have "[i..<length entries] = i # [Suc i..<length entries]" using i by (rule upt_conv_Cons)
  moreover have "drop i entries = entries ! i # drop (Suc i) entries" using i by (simp add: Cons_nth_drop_Suc)
  ultimately show ?case
    using run_match_signed_url [OF assms(1) says_item Suc.prems(2,3)] length i assms(3)
    by (simp add: json_util_get_array_item_def o_def)
qed

text \<open>The address an answer has for a path: the one of its first entry that names the path.\<close>

definition address_for :: "nat \<Rightarrow> (string \<times> string) list \<Rightarrow> string \<Rightarrow> string option" where
  "address_for n entries path = map_option snd (find (\<lambda>(p, url). n < length p \<and> drop n p = path) entries)"

definition addressed :: "nat \<Rightarrow> (string \<times> string) list \<Rightarrow> data_lake_object_t \<Rightarrow> data_lake_object_t" where
  "addressed n entries object = object\<lparr>do_signed_url := Option.bind (do_path object) (address_for n entries)\<rparr>"

lemma fold_place_done:
  "do_signed_url object \<noteq> None \<or> do_path object = None \<Longrightarrow> fold (place_entry n) entries object = object"
proof (induction entries arbitrary: object)
  case (Cons e entries)
  then have "place_entry n e object = object" by (auto simp: place_entry_def place_def split: prod.split)
  then show ?case using Cons by simp
qed simp

lemma fold_place:
  "do_signed_url object = None \<Longrightarrow> fold (place_entry n) entries object = addressed n entries object"
proof (induction entries)
  case Nil
  then show ?case by (cases object; cases "do_path object") (simp_all add: addressed_def address_for_def)
next
  case (Cons e entries)
  obtain p url where e: "e = (p, url)" by fastforce
  show ?case
  proof (cases "n < length p \<and> do_path object = Some (drop n p)")
    case True
    then have "place_entry n e object = object\<lparr>do_signed_url := Some url\<rparr>"
      using e Cons.prems by (simp add: place_entry_def place_def)
    then show ?thesis using True e by (simp add: fold_place_done addressed_def address_for_def)
  next
    case False
    then have "place_entry n e object = object" using e by (auto simp: place_entry_def place_def)
    moreover have "addressed n (e # entries) object = addressed n entries object"
      using False e by (cases "do_path object") (auto simp: addressed_def address_for_def)
    ultimately show ?thesis using Cons by simp
  qed
qed

definition all_addressed :: "nat \<Rightarrow> (string \<times> string) list \<Rightarrow> data_lake_object_t list \<Rightarrow> bool" where
  "all_addressed n entries objects \<longleftrightarrow> (\<forall>path \<in> set (paths_of objects). address_for n entries path \<noteq> None)"

lemma in_paths_of: "path \<in> set (paths_of objects) \<longleftrightarrow> (\<exists>object \<in> set objects. do_path object = Some path)"
  by (induction objects) (auto split: option.splits)

lemma check_addressed:
  "check_signed_urls (map (addressed n entries) objects) =
    (if all_addressed n entries objects then MCL_OK else MCL_DATA_LAKE_SIGNED_URL_GENERATION_FAIL)"
  by (fastforce simp: check_signed_urls_def addressed_def all_addressed_def in_paths_of)

lemma run_match_with_objects:
  assumes "w_alloc w = []" and "get_object_urls cJSON_parse answer len = Ok (array, length entries)"
    and "json_value array = CArray" and "list_all2 says (json_children array) entries" and "0 < len"
    and "\<forall>object \<in> set objects. path_ok object" and "distinct (paths_of objects)"
    and "\<forall>object \<in> set objects. do_signed_url object = None"
  shows "run_state (data_lake_json_match_signed_urls_with_objects cJSON_parse objects (Some answer) len n) w =
    (Some (if all_addressed (n + 1) entries objects then MCL_OK else MCL_DATA_LAKE_SIGNED_URL_GENERATION_FAIL,
       map (addressed (n + 1) entries) objects), w)"
proof -
  have "map (\<lambda>object. fold (place_entry (n + 1)) (drop 0 entries) object) objects = map (addressed (n + 1) entries) objects"
    using assms(8) by (simp add: fold_place)
  with run_match_signed_urls [OF assms(1,4,3) _ assms(6,7), of 0 "n + 1"]
  have "run_state (match_signed_urls array [0..<length entries] objects (n + 1)) w =
      (Some (MCL_OK, map (addressed (n + 1) entries) objects), w)" by (simp only: le0)
  then show ?thesis
    using assms(2,5) by (simp add: data_lake_json_match_signed_urls_with_objects_def check_addressed)
qed

section \<open>The request for addresses\<close>

definition upload_urls_message :: "data_lake_processor_t \<Rightarrow> string \<Rightarrow> mcl_http_request_t" where
  "upload_urls_message p body =
     \<lparr>rq_header = [''Content-Type: application/json'', ''Authorization: Bearer '' @ dp_access_token p],
      rq_payload = Some (map Some (cstr body)), rq_payload_size = length body, rq_method = MCL_HTTP_POST,
      rq_uri = dp_upload_url_generation_url p, rq_stream_callback = None, rq_stream_data = None\<rparr>"

lemma run_upload_urls_request:
  assumes "w_alloc w = []" and "dp_upload_url_generation_url p = Some url"
  shows "run_state (upload_urls_request p (map Some (cstr body)) (length body)) w =
    ((MCL_OK, Some (upload_urls_message p body)), w)"
  using assms
  by (simp add: upload_urls_request_def mcl_http_request_initialize_def run_set_parameter run_add_header
      data_lake_add_authorization_header_def snprintf_text_fits cstr_def upload_urls_message_def)

text \<open>An answer 201 whose document lists the entries.\<close>

definition lists_addresses ::
  "(string \<Rightarrow> json option) \<Rightarrow> mcl_http_response_t \<Rightarrow> (string \<times> string) list \<Rightarrow> bool" where
  "lists_addresses cJSON_parse a entries \<longleftrightarrow> rs_status_code a = 201 \<and> 0 < rs_payload_size a \<and>
     (\<exists>answer array. rs_payload a = Some answer \<and>
        get_object_urls cJSON_parse answer (rs_payload_size a) = Ok (array, length entries) \<and>
        json_value array = CArray \<and> list_all2 says (json_children array) entries)"

text \<open>Objects with different paths that are C strings.\<close>

definition proper_objects :: "data_lake_object_t list \<Rightarrow> bool" where
  "proper_objects objects \<longleftrightarrow> paths_of objects \<noteq> [] \<and> distinct (paths_of objects) \<and>
     (\<forall>object \<in> set objects. path_ok object)"

lemma paths_of_cleared: "paths_of (clear_signed_urls objects) = paths_of objects"
  unfolding clear_signed_urls_def by (rule paths_of_map) simp

lemma addressed_cleared: "map (addressed n entries) (clear_signed_urls objects) = map (addressed n entries) objects"
  by (simp add: clear_signed_urls_def addressed_def)

lemma cstring_join: "\<forall>s \<in> set ss. cstring s \<Longrightarrow> cstring (join_comma ss)"
  by (induction ss rule: join_comma.induct) (auto simp: cstring_def MCL_NULL_CHAR_def)

lemma cstring_body:
  assumes "\<forall>path \<in> set paths. cstring path" and "cstring client_id" and "\<forall>s. subtenant_id = Some s \<longrightarrow> cstring s"
  shows "cstring (body_text paths client_id subtenant_id)"
proof -
  have "cstring (path_text client_id path)" if "path \<in> set paths" for path
    using that assms(1,2) by (auto simp: path_text_def cstring_def MCL_NULL_CHAR_def)
  then have "cstring (join_comma (map (path_text client_id) paths))" by (intro cstring_join) simp
  then show ?thesis using assms(3)
    by (auto simp: body_text_def subtenant_text_def cstring_def MCL_NULL_CHAR_def quote_def split: option.splits)
qed

lemma run_generate_upload_urls:
  assumes "w_alloc w = []" and "proper_objects objects" and "dp_client_id p = Some client_id" and "cstring client_id"
    and "\<forall>s. subtenant_id = Some s \<longrightarrow> cstring s" and "dp_upload_url_generation_url p = Some url"
    and "next_answer w = Ok a" and "lists_addresses cJSON_parse a entries" and "n = length client_id + 1"
  shows "run_state (generate_upload_urls cJSON_parse p objects subtenant_id) w =
    (Some (if all_addressed n entries objects then MCL_OK else MCL_DATA_LAKE_SIGNED_URL_GENERATION_FAIL,
       map (addressed n entries) objects),
     sent (upload_urls_message p (body_text (paths_of objects) client_id subtenant_id)) w)"
proof -
  let ?objects = "clear_signed_urls objects"
  let ?body = "body_text (paths_of objects) client_id subtenant_id"
  let ?w = "sent (upload_urls_message p ?body) w"
  obtain answer array where a: "rs_status_code a = 201" "0 < rs_payload_size a" "rs_payload a = Some answer"
      "get_object_urls cJSON_parse answer (rs_payload_size a) = Ok (array, length entries)"
      "json_value array = CArray" "list_all2 says (json_children array) entries"
    using assms(8) by (auto simp: lists_addresses_def)
  have w: "w_alloc ?w = []" using assms(1) by simp
  have ok: "\<forall>object \<in> set ?objects. path_ok object" "distinct (paths_of ?objects)"
      "\<forall>object \<in> set ?objects. do_signed_url object = None" "paths_of ?objects \<noteq> []"
    using assms(2) by (simp_all add: proper_objects_def paths_of_cleared)
      (auto simp: clear_signed_urls_def path_ok_def)
  have matched: "run_state (data_lake_json_match_signed_urls_with_objects cJSON_parse ?objects (Some answer)
      (rs_payload_size a) (length client_id)) ?w =
      (Some (if all_addressed n entries objects then MCL_OK else MCL_DATA_LAKE_SIGNED_URL_GENERATION_FAIL,
         map (addressed n entries) objects), ?w)"
    using run_match_with_objects [OF w a(4-6,2) ok(1-3), of "length client_id"]
    by (simp add: all_addressed_def paths_of_cleared addressed_cleared assms(9))
  have "\<forall>path \<in> set (paths_of objects). cstring path"
    using assms(2) by (auto simp: proper_objects_def in_paths_of path_ok_def)
  then have "block_string (map Some (cstr ?body)) = Some ?body"
    by (intro block_string_exact cstring_body assms(4,5))
  then show ?thesis
    using matched run_json_from_objects [OF assms(1), of ?objects client_id subtenant_id] ok(4) assms(3,7) a(1,3)
      run_upload_urls_request [OF assms(1,6), of ?body]
    by (simp add: generate_upload_urls_def Let_def paths_of_cleared send_if_ok_def run_http_client_send
        upload_urls_answer_def http_status_codes mcl_string_util_strlen_def)
qed

lemma fetch_all:
  "cl_cur l + k \<le> length (cl_items l) \<Longrightarrow>
   fetch_objects k l = Some (take k (drop (cl_cur l) (cl_items l)), l\<lparr>cl_cur := cl_cur l + k\<rparr>)"
proof (induction k arbitrary: l)
  case (Suc k)
  then have "drop (cl_cur l) (cl_items l) = cl_items l ! cl_cur l # drop (Suc (cl_cur l)) (cl_items l)"
    by (simp add: Cons_nth_drop_Suc)
  with Suc show ?case by (simp add: clist_next_def)
qed simp

lemma fetch_moves:
  "fetch_objects k l = Some (objects, l') \<Longrightarrow> 0 < k \<Longrightarrow>
   cl_cur l + k \<le> length (cl_items l) \<and> l' = l\<lparr>cl_cur := cl_cur l + k\<rparr> \<and> length objects = k"
proof (induction k arbitrary: l objects l')
  case (Suc k)
  obtain os where cur: "cl_cur l < length (cl_items l)"
    and rest: "fetch_objects k (l\<lparr>cl_cur := Suc (cl_cur l)\<rparr>) = Some (os, l')" "objects = cl_items l ! cl_cur l # os"
    using Suc.prems(1) by (auto simp: clist_next_def split: if_splits Option.bind_splits)
  show ?case
  proof (cases k)
    case 0
    then show ?thesis using cur rest by simp
  next
    case (Suc j)
    then show ?thesis using Suc.IH [OF rest(1)] rest(2) by simp
  qed
qed simp

text \<open>No step changes how many objects there are.\<close>

lemma find_length:
  "run_state (find_matching_object j objects path n) w = (Some (code, objects'), w') \<Longrightarrow> length objects' = length objects"
  by (induction objects arbitrary: objects' code w w')
    (auto simp: run_bind split: option.splits if_splits sum.splits prod.splits)

lemma match_url_length:
  "run_state (match_signed_url j objects n) w = (Some (code, objects'), w') \<Longrightarrow> length objects' = length objects"
  by (auto simp: match_signed_url_def run_bind Let_def dest: find_length split: sum.splits prod.splits if_splits)

lemma match_urls_length:
  "run_state (match_signed_urls j indexes objects n) w = (Some (code, objects'), w') \<Longrightarrow> length objects' = length objects"
proof (induction indexes arbitrary: objects objects' code w w')
  case (Cons i indexes)
  then show ?case
    by (fastforce simp: run_bind dest: match_url_length split: sum.splits prod.splits option.splits if_splits)
qed simp

lemma generate_length:
  assumes "run_state (generate_upload_urls cJSON_parse p objects subtenant_id) w = (Some (code, objects'), w')"
  shows "length objects' = length objects"
proof -
  have "length os = length (clear_signed_urls objects)"
    if "run_state (upload_urls_answer cJSON_parse (clear_signed_urls objects) n answer) w1 = (Some (c, os), w2)"
    for n answer w1 c os w2
    using that
    by (auto simp: upload_urls_answer_def data_lake_json_match_signed_urls_with_objects_def run_bind
        dest: match_urls_length split: sum.splits prod.splits option.splits if_splits)
  then show ?thesis using assms
    by (fastforce simp: generate_upload_urls_def run_bind Let_def clear_signed_urls_def
        split: sum.splits prod.splits option.splits)
qed

section \<open>The upload\<close>

lemma azure_index_scan:
  "CHR ''.'' \<notin> set host \<Longrightarrow> azure_index (pre @ host @ CHR ''.'' # rest) (length pre) = Some (length pre + length host + 1)"
proof (induction host arbitrary: pre)
  case Nil
  then show ?case by (simp add: azure_index.simps [of "pre @ _"])
next
  case (Cons c host)
  have "azure_index ((pre @ [c]) @ host @ CHR ''.'' # rest) (length (pre @ [c])) =
      Some (length (pre @ [c]) + length host + 1)" using Cons by (intro Cons.IH) simp
  moreover have "c \<noteq> CHR ''.''" using Cons.prems by auto
  ultimately show ?case by (simp add: azure_index.simps [of "pre @ _" "length pre"])
qed

lemma azure_index_total: "i \<le> length url \<Longrightarrow> \<exists>j. azure_index url i = Some j \<and> i < j \<and> j \<le> max (length url) (i + 1)"
proof (induction url i rule: azure_index.induct)
  case (1 url i)
  obtain c where c: "char_at url i = Some c" using 1(2) by (cases "i = length url") auto
  show ?case
  proof (cases "c \<noteq> CHR ''.'' \<and> i + 1 < length url")
    case True
    then show ?thesis using 1(1) [OF c True] c by (auto simp: azure_index.simps [of url i])
  next
    case False
    then show ?thesis using c by (auto simp: azure_index.simps [of url i])
  qed
qed

text \<open>For an address as long as the name of the storage the check compares what follows the first dot.\<close>

lemma check_long_address:
  assumes "CHR ''.'' \<notin> set host" and "url = host @ ''.'' @ rest" and "22 \<le> length url" and "length url < 2 ^ 64"
  shows "check_url_if_it_is_for_azure_storage url = Some (22 < length rest \<and> take 21 rest = azure_storage_url)"
proof -
  have index: "azure_index url 0 = Some (length host + 1)"
    using azure_index_scan [OF assms(1), of "[]" rest] assms(2) by simp
  have bound: "(of_nat (length host + 1) :: mcl_size_t) < of_nat (length url) - of_nat (length (cstr azure_storage_url)) \<longleftrightarrow>
      22 < length rest"
  proof -
    define n m :: mcl_size_t where "n = of_nat (length url)" and "m = of_nat (length host + 1)"
    have nm: "unat n = length url" "unat m = length host + 1"
      unfolding n_def m_def by (rule unat_word, use assms(2,4) in simp)+
    then have "22 \<le> n" using assms(3) by (simp add: word_le_nat_alt)
    then have "m < n - 22 \<longleftrightarrow> unat m < unat n - 22" by (simp add: word_less_nat_alt unat_sub)
    moreover have "of_nat (length (cstr azure_storage_url)) = (22 :: mcl_size_t)"
      by (simp add: azure_storage_url_def cstr_def)
    ultimately show ?thesis using nm assms(2) unfolding n_def [symmetric] m_def [symmetric] by auto
  qed
  have rest: "drop (Suc (length host)) (cstr url) = cstr rest" using assms(2) by (simp add: cstr_def)
  have name: "length (cstr azure_storage_url) - 1 = 21" "take 21 (cstr azure_storage_url) = azure_storage_url"
      "length (cstr azure_storage_url) = 22"
    by (simp_all add: azure_storage_url_def cstr_def)
  have "22 < length rest \<Longrightarrow> string_util_memcmp (cstr rest) (cstr azure_storage_url) 21 =
      Some (take 21 rest = azure_storage_url)"
    using name by (simp add: string_util_memcmp_def) (simp add: cstr_def)
  then show ?thesis using index bound
    unfolding check_url_if_it_is_for_azure_storage_def Let_def name(1) by (auto simp: rest)
qed

text \<open>For a shorter one the bound wraps and the comparison reads behind the terminator.\<close>

lemma check_short_address:
  assumes "length url < 21"
  shows "check_url_if_it_is_for_azure_storage url = None"
proof -
  obtain j where j: "azure_index url 0 = Some j" "0 < j" "j \<le> max (length url) 1"
    using azure_index_total [of 0 url] by auto
  have "unat (of_nat j :: mcl_size_t) = j" by (rule unat_word) (use j(3) assms in simp)
  moreover have "unat (of_nat (length url) - 22 :: mcl_size_t) = 2 ^ 64 + length url - 22"
  proof -
    have "(of_nat (length url) - 22 :: mcl_size_t) = of_nat (2 ^ 64 + length url - 22)"
      using assms by (simp add: of_nat_diff)
    moreover have "unat (of_nat (2 ^ 64 + length url - 22) :: mcl_size_t) = 2 ^ 64 + length url - 22"
      by (rule unat_word) (use assms in simp)
    ultimately show ?thesis by (simp only:)
  qed
  ultimately have "(of_nat j :: mcl_size_t) < of_nat (length url) - 22"
    using j(3) assms by (simp add: word_less_nat_alt)
  then show ?thesis using j assms
    by (auto simp: check_url_if_it_is_for_azure_storage_def Let_def string_util_memcmp_def azure_storage_url_def cstr_def)
qed

definition upload_message :: "bool \<Rightarrow> data_lake_object_t \<Rightarrow> mcl_http_request_t" where
  "upload_message azure object =
     \<lparr>rq_header = (if azure then [''x-ms-blob-type: BlockBlob''] else []), rq_payload = None,
      rq_payload_size = do_size object, rq_method = MCL_HTTP_PUT, rq_uri = do_signed_url object,
      rq_stream_callback = do_upload_callback object, rq_stream_data = do_user_context object\<rparr>"

lemma run_upload:
  assumes "w_alloc w = []" and "data_lake_object_validate object = MCL_OK"
    and "do_signed_url object = Some url"
  shows "run_state (data_lake_processor_upload object) w =
    (if do_user_context object = None then (Some MCL_TRIGGERED_WITH_NULL, w)
     else (case check_url_if_it_is_for_azure_storage url of
         None \<Rightarrow> (None, w)
       | Some azure \<Rightarrow> (Some (upload_answer (next_answer w)), sent (upload_message azure object) w)))"
proof -
  obtain c where c: "do_upload_callback object = Some c"
    using assms(2) by (auto simp: data_lake_object_validate_def split: if_splits)
  have null: "run_state (mcl_http_request_set_parameter (Some rq) None) w = ((MCL_TRIGGERED_WITH_NULL, Some rq), w)" for rq
    by (simp add: mcl_http_request_set_parameter_def)
  have stream: "run_state (mcl_http_request_set_parameter (Some rq) (Some (MCL_HTTP_REQUEST_PARAMETER_STREAM_CALLBACK a))) w =
      ((MCL_OK, Some (rq\<lparr>rq_stream_callback := Some a, rq_payload := None\<rparr>)), w)"
    "run_state (mcl_http_request_set_parameter (Some rq) (Some (MCL_HTTP_REQUEST_PARAMETER_STREAM_DATA a))) w =
      ((MCL_OK, Some (rq\<lparr>rq_stream_data := Some a\<rparr>)), w)" for rq a
    by (simp_all add: mcl_http_request_set_parameter_def)
  show ?thesis
  proof (cases "do_user_context object")
    case None
    then show ?thesis using assms c
      by (simp add: data_lake_processor_upload_def object_upload_request_def mcl_http_request_initialize_def
          run_set_parameter null stream send_if_ok_def upload_answer_def)
  next
    case (Some data)
    then have request: "run_state (object_upload_request object) w = ((MCL_OK, Some (upload_message False object)), w)"
      using assms c by (simp add: object_upload_request_def mcl_http_request_initialize_def run_set_parameter
          stream upload_message_def)
    have "run_state (mcl_http_request_add_header (Some (upload_message False object)) (Some ''x-ms-blob-type'')
        (Some ''BlockBlob'')) w = ((MCL_OK, Some (upload_message True object)), w)"
      using assms(1) by (simp add: run_add_header upload_message_def)
    then show ?thesis using Some assms(2,3) request
      by (cases "check_url_if_it_is_for_azure_storage url")
        (auto simp: data_lake_processor_upload_def add_azure_header_def send_if_ok_def run_http_client_send split: bool.splits)
  qed
qed

section \<open>Properties\<close>

text \<open>While memory lasts, the document that asks for addresses lists the paths of the objects in their
  order, each behind the client id and a slash, and the subtenant if there is one; it fills its block
  to the last cell, with its terminator. It is the printed JSON document when no part of it has a
  character that needs an escape: the text is not escaped. Objects without a path are left out, and
  without any path the request is refused.\<close>

theorem upload_urls_document:
  assumes "w_alloc w = []" and "paths = List.map_filter do_path objects"
  shows "run_state (data_lake_json_from_objects objects (Some client_id) subtenant_id) w =
      (Some (if paths = [] then Err MCL_INVALID_PARAMETER
             else Ok (map Some (cstr (body_text paths client_id subtenant_id)))), w) \<and>
    (plain_request paths client_id subtenant_id \<longrightarrow>
       body_text paths client_id subtenant_id = json_print (body_json paths client_id subtenant_id))"
  using run_json_from_objects [OF assms(1), of objects client_id subtenant_id] body_text_printed assms(2)
  by (auto simp: paths_of_def)

definition sample_object :: "string \<Rightarrow> data_lake_object_t" where
  "sample_object path = \<lparr>do_upload_callback = Some 7, do_user_context = Some 8, do_path = Some path,
     do_signed_url = None, do_size = 5\<rparr>"

theorem upload_urls_document_witness:
  "run_state (data_lake_json_from_objects [sample_object ''x'', sample_object ''y''] (Some ''me'') (Some ''s'')) quiet_world =
     (Some (Ok (map Some (cstr (json_print (body_json [''x'', ''y''] ''me'' (Some ''s'')))))), quiet_world)"
proof -
  have w: "w_alloc quiet_world = []" by (simp add: quiet_world_def)
  have paths: "[''x'', ''y''] = List.map_filter do_path [sample_object ''x'', sample_object ''y'']"
    by (simp add: sample_object_def map_filter_simps)
  have plain: "plain_request [''x'', ''y''] ''me'' (Some ''s'')" by (simp add: plain_request_def plain_def)
  from upload_urls_document [OF w paths, of "''me''" "Some ''s''"] plain show ?thesis by simp
qed

text \<open>The token of the core reaches the processor.\<close>

lemma run_with_processor:
  assumes "w_alloc w = []" and "lc_core (dl_configuration d) = Some core" and "cores core = Some c"
    and "has_token c token" and "data_lake_client_id cores d = Some client_id"
  shows "run_state (with_data_lake_processor cores d operation otherwise) w =
    (case run_state (operation \<lparr>dp_access_token = token, dp_client_id = client_id,
        dp_upload_url_generation_url = dl_upload_url_generation_url d\<rparr>) w of
       (r, w') \<Rightarrow> (map_option (\<lambda>(code, x). (code, Some (d\<lparr>dl_access_token := Some token\<rparr>), Some x)) r, w'))"
proof -
  have "data_lake_client_id cores (d\<lparr>dl_access_token := t\<rparr>) = data_lake_client_id cores d" for t
    by (simp add: data_lake_client_id_def split: option.split)
  then show ?thesis using assms
    by (auto simp: with_data_lake_processor_def mcl_core_get_last_access_token_def mcl_core_is_onboarded_def
        has_token_def reset_field_def run_bind Let_def split: prod.splits)
qed

text \<open>
  The array of the objects of a list. For an empty list it has no bytes: its allocation fails, and the
  call reports that memory ran out.
\<close>

lemma array_malloc: "cl_items l \<noteq> [] \<Longrightarrow> mcl_memory_malloc (clist_count l * POINTER_SIZE) = mcl_malloc"
  by (simp add: clist_count_def POINTER_SIZE_def)

theorem empty_list_out_of_memory:
  assumes "cl_items l = []"
  shows "run_state (data_lake_processor_generate_upload_urls cJSON_parse p l subtenant_id) w =
    (Some (MCL_OUT_OF_MEMORY, l), w)"
  using assms by (simp add: data_lake_processor_generate_upload_urls_def data_lake_object_list_to_array_def clist_count_def)

text \<open>C11. The generation of addresses for a list that is not empty sends, through a handle, one POST
  request with the access token of the core and the document of the objects' paths. When the answer
  201 lists addresses, every object gets the address of the first entry whose path is its own behind
  the client id, in whatever order the entries come, and no object keeps an address it had before;
  the call succeeds exactly when every object with a path has one.\<close>

theorem generate_upload_urls_exact:
  assumes "w_alloc w = []" and "lc_core (dl_configuration d) = Some core" and "cores core = Some c"
    and "has_token c token" and "data_lake_client_id cores d = Some (Some client_id)"
    and "dl_upload_url_generation_url d = Some url" and "cl_cur l = 0" and "proper_objects (cl_items l)"
    and "cstring client_id" and "\<forall>s. subtenant_id = Some s \<longrightarrow> cstring s"
    and "next_answer w = Ok a" and "lists_addresses cJSON_parse a entries" and "n = length client_id + 1"
    and "p = \<lparr>dp_access_token = token, dp_client_id = Some client_id, dp_upload_url_generation_url = Some url\<rparr>"
    and "cl_items l \<noteq> []"
  shows "run_state (mcl_data_lake_generate_upload_urls_for_subtenant cJSON_parse cores (Some d) (Some l) subtenant_id) w =
    (Some (if all_addressed n entries (cl_items l) then MCL_OK else MCL_DATA_LAKE_SIGNED_URL_GENERATION_FAIL,
       Some (d\<lparr>dl_access_token := Some token\<rparr>),
       Some \<lparr>cl_items = map (addressed n entries) (cl_items l), cl_cur = length (cl_items l)\<rparr>),
     sent (upload_urls_message p (body_text (paths_of (cl_items l)) client_id subtenant_id)) w)"
proof -
  have fetched: "fetch_objects (clist_count l) l = Some (cl_items l, l\<lparr>cl_cur := length (cl_items l)\<rparr>)"
    using fetch_all [of l "clist_count l"] assms(7) by (simp add: clist_count_def)
  have generated: "run_state (generate_upload_urls cJSON_parse p (cl_items l) subtenant_id) w =
      (Some (if all_addressed n entries (cl_items l) then MCL_OK else MCL_DATA_LAKE_SIGNED_URL_GENERATION_FAIL,
         map (addressed n entries) (cl_items l)),
       sent (upload_urls_message p (body_text (paths_of (cl_items l)) client_id subtenant_id)) w)"
    using run_generate_upload_urls [OF assms(1,8) _ assms(9,10) _ assms(11-13), of p url] assms(14) by simp
  have "run_state (data_lake_processor_generate_upload_urls cJSON_parse p l subtenant_id) w =
      (Some (if all_addressed n entries (cl_items l) then MCL_OK else MCL_DATA_LAKE_SIGNED_URL_GENERATION_FAIL,
         \<lparr>cl_items = map (addressed n entries) (cl_items l), cl_cur = length (cl_items l)\<rparr>),
       sent (upload_urls_message p (body_text (paths_of (cl_items l)) client_id subtenant_id)) w)"
    using fetched generated assms(1,15)
    by (cases l) (simp add: data_lake_processor_generate_upload_urls_def data_lake_object_list_to_array_def array_malloc)
  then show ?thesis
    using run_with_processor [where operation = "\<lambda>p. data_lake_processor_generate_upload_urls cJSON_parse p l subtenant_id"
        and otherwise = l, OF assms(1-5)] assms(6,14)
    by (simp add: mcl_data_lake_generate_upload_urls_for_subtenant_def)
qed

text \<open>A core with the client id \<open>''me''\<close>, its handle, and an answer that lists two addresses in the other order.\<close>

definition lake_core :: core_t where
  "lake_core = sample_core (sample_handler\<lparr>sh_access_token := Some ''t'', sh_client_id := Some (3, ''me'')\<rparr>)"

definition sample_lake :: data_lake_t where
  "sample_lake = \<lparr>dl_configuration = \<lparr>lc_core = Some 0, lc_upload_url_generation_url = Some ''h/urls'',
     lc_certificate = None, lc_certificate_is_file = False\<rparr>, dl_access_token = None, dl_client_id = Some 3,
     dl_upload_url_generation_url = Some ''h/urls''\<rparr>"

definition url_entry :: "string \<Rightarrow> string \<Rightarrow> string option \<times> json" where
  "url_entry path url = (None, Json CObject [(Some ''path'', str path), (Some ''signedUrl'', str url)])"

definition lake_answer :: json where
  "lake_answer = Json CObject [(Some ''objectUrls'',
     Json CArray [url_entry ''me/y'' ''http://s/2'', url_entry ''me/x'' ''http://s/1''])]"

theorem generate_upload_urls_exact_witness:
  "\<exists>d l rq. run_state (mcl_data_lake_generate_upload_urls_for_subtenant (\<lambda>_. Some lake_answer) [0 \<mapsto> lake_core]
       (Some sample_lake) (Some \<lparr>cl_items = [sample_object ''x'', sample_object ''y''], cl_cur = 0\<rparr>) None)
       (quiet_world\<lparr>w_answers := [Ok (sample_answer 201)]\<rparr>) =
     (Some (MCL_OK, Some d, Some l), sent rq (quiet_world\<lparr>w_answers := [Ok (sample_answer 201)]\<rparr>)) \<and>
     map do_signed_url (cl_items l) = [Some ''http://s/1'', Some ''http://s/2'']"
proof -
  let ?w = "quiet_world\<lparr>w_answers := [Ok (sample_answer 201)]\<rparr>"
  let ?l = "\<lparr>cl_items = [sample_object ''x'', sample_object ''y''], cl_cur = 0\<rparr>"
  let ?entries = "[(''me/y'', ''http://s/2''), (''me/x'', ''http://s/1'')]"
  have w: "w_alloc ?w = []" "next_answer ?w = Ok (sample_answer 201)"
    by (simp_all add: quiet_world_def next_answer_def)
  have d: "lc_core (dl_configuration sample_lake) = Some 0" "[0 \<mapsto> lake_core] 0 = Some lake_core"
      "has_token lake_core ''t''" "data_lake_client_id [0 \<mapsto> lake_core] sample_lake = Some (Some ''me'')"
      "dl_upload_url_generation_url sample_lake = Some ''h/urls''"
    by (simp_all add: sample_lake_def lake_core_def sample_core_def has_token_def sample_handler_def
        data_lake_client_id_def)
  have l: "cl_cur ?l = 0" "proper_objects (cl_items ?l)"
    by (simp_all add: proper_objects_def sample_object_def path_ok_def cstring_def MCL_NULL_CHAR_def)
  have c: "cstring ''me''" "\<forall>s. None = Some s \<longrightarrow> cstring s" by (simp_all add: cstring_def MCL_NULL_CHAR_def)
  have answer: "lists_addresses (\<lambda>_. Some lake_answer) (sample_answer 201) ?entries"
    by (simp add: lists_addresses_def sample_answer_def get_object_urls_def json_util_parse_def lake_answer_def
        json_util_get_object_item_def cJSON_GetObjectItem_def same_name_def lower_code_def json_util_get_array_size_def
        says_def url_entry_def str_def cstring_def MCL_NULL_CHAR_def map_LOWERCASE_eq)
  from generate_upload_urls_exact [OF w(1) d l c w(2) answer refl refl]
  show ?thesis
    by (auto simp: all_addressed_def address_for_def addressed_def sample_object_def)
qed

text \<open>The addresses of the objects of a list can be asked for only once: the loop that collects the objects
  leaves the list behind its last element, so at the next call the first element fetched is \<open>NULL\<close> and
  is read all the same.\<close>

theorem upload_urls_only_once:
  assumes "run_state (data_lake_processor_generate_upload_urls cJSON_parse p l subtenant_id) w = (Some (code, l'), w')"
    and "cl_items l \<noteq> []" and "fst (run_state mcl_malloc w)" and "fst (run_state mcl_malloc w')"
  shows "fst (run_state (data_lake_processor_generate_upload_urls cJSON_parse p' l' subtenant_id') w') = None"
proof -
  obtain w1 where malloc: "run_state mcl_malloc w = (True, w1)" using assms(3) by (cases "run_state mcl_malloc w") auto
  obtain objects l1 where fetched: "fetch_objects (clist_count l) l = Some (objects, l1)"
    using assms(1,2) malloc
    by (auto simp: array_malloc data_lake_processor_generate_upload_urls_def data_lake_object_list_to_array_def split: option.splits)
  then have l1: "l1 = l\<lparr>cl_cur := length (cl_items l)\<rparr>" "length objects = length (cl_items l)"
    using fetch_moves [OF fetched] assms(2) by (auto simp: clist_count_def)
  obtain objects' where "run_state (generate_upload_urls cJSON_parse p objects subtenant_id) w1 = (Some (code, objects'), w')"
      "l' = l1\<lparr>cl_items := objects'\<rparr>"
    using assms(1,2) malloc fetched
    by (auto simp: array_malloc data_lake_processor_generate_upload_urls_def data_lake_object_list_to_array_def run_bind
        split: option.splits prod.splits)
  then have l': "cl_cur l' = length (cl_items l')" "cl_items l' \<noteq> []"
    using l1 generate_length assms(2) by fastforce+
  then obtain k where "clist_count l' = Suc k" by (cases "clist_count l'") (auto simp: clist_count_def)
  then have "fetch_objects (clist_count l') l' = None" using l'(1) by (simp add: clist_next_def)
  moreover obtain w2 where "run_state mcl_malloc w' = (True, w2)" using assms(4) by (cases "run_state mcl_malloc w'") auto
  ultimately show ?thesis using l'(2)
    by (simp add: array_malloc data_lake_processor_generate_upload_urls_def data_lake_object_list_to_array_def)
qed

theorem upload_urls_only_once_witness:
  "\<exists>code l' w'. run_state (data_lake_processor_generate_upload_urls (\<lambda>_. None)
       \<lparr>dp_access_token = ''t'', dp_client_id = Some ''me'', dp_upload_url_generation_url = Some ''u''\<rparr>
       \<lparr>cl_items = [sample_object ''x''], cl_cur = 0\<rparr> None) quiet_world = (Some (code, l'), w') \<and>
     fst (run_state (data_lake_processor_generate_upload_urls (\<lambda>_. None)
       \<lparr>dp_access_token = ''t'', dp_client_id = Some ''me'', dp_upload_url_generation_url = Some ''u''\<rparr> l' None) w') = None"
proof -
  let ?p = "\<lparr>dp_access_token = ''t'', dp_client_id = Some ''me'', dp_upload_url_generation_url = Some ''u''\<rparr>"
  let ?l = "\<lparr>cl_items = [sample_object ''x''], cl_cur = 0\<rparr>"
  have w: "w_alloc quiet_world = []" "next_answer quiet_world = Ok http_success"
    by (simp_all add: quiet_world_def next_answer_def)
  let ?body = "body_text [''x''] ''me'' None"
  let ?w = "sent (upload_urls_message ?p ?body) quiet_world"
  have paths: "paths_of (clear_signed_urls [sample_object ''x'']) = [''x'']"
    by (simp add: clear_signed_urls_def sample_object_def)
  have "block_string (map Some (cstr ?body)) = Some ?body"
    by (intro block_string_exact cstring_body) (simp_all add: cstring_def MCL_NULL_CHAR_def)
  then have "run_state (generate_upload_urls (\<lambda>_. None) ?p [sample_object ''x''] None) quiet_world =
      (Some (MCL_OK, clear_signed_urls [sample_object ''x'']), ?w)"
    using run_json_from_objects [OF w(1), of "clear_signed_urls [sample_object ''x'']" "''me''" None]
      run_upload_urls_request [OF w(1), of ?p "''u''" ?body]
    by (simp add: generate_upload_urls_def Let_def paths send_if_ok_def run_http_client_send w(2)
        upload_urls_answer_def http_success_def http_status_codes mcl_http_response_get_status_def)
  then have first: "run_state (data_lake_processor_generate_upload_urls (\<lambda>_. None) ?p ?l None) quiet_world =
      (Some (MCL_OK, \<lparr>cl_items = clear_signed_urls [sample_object ''x''], cl_cur = 1\<rparr>), ?w)"
    using w(1) by (simp add: data_lake_processor_generate_upload_urls_def data_lake_object_list_to_array_def
        clist_count_def clist_next_def numeral_eq_Suc POINTER_SIZE_def)
  show ?thesis
    using first upload_urls_only_once [where cJSON_parse = "\<lambda>_. None" and p' = ?p and subtenant_id' = None, OF first] w(1)
    by simp
qed

text \<open>C35. A complete object is uploaded in one PUT request to its address, with its size, callback and
  context, and with the header of the Azure storage exactly when the part of the address behind its
  first dot begins with the name of that storage and is at least two characters longer. The answers
  200 and 201 are successes. But an object without a user context, which is optional for a complete
  object, is never uploaded: the answer is \<open>MCL_TRIGGERED_WITH_NULL\<close> and nothing is sent.\<close>

theorem upload_exact:
  assumes "w_alloc w = []" and "data_lake_object_validate object = MCL_OK"
    and "do_signed_url object = Some (host @ ''.'' @ rest)" and "CHR ''.'' \<notin> set host"
    and "21 \<le> length host + length rest" and "length host + length rest < 2 ^ 64 - 1"
    and "azure \<longleftrightarrow> 22 < length rest \<and> take 21 rest = ''blob.core.windows.net''"
  shows "run_state (data_lake_processor_upload object) w =
      (if do_user_context object = None then (Some MCL_TRIGGERED_WITH_NULL, w)
       else (Some (upload_answer (next_answer w)), sent (upload_message azure object) w)) \<and>
    (upload_answer (Ok a) = MCL_OK \<longleftrightarrow> rs_status_code a \<in> {200, 201})"
proof
  have "check_url_if_it_is_for_azure_storage (host @ ''.'' @ rest) = Some azure"
    using check_long_address [OF assms(4) refl, of rest] assms(5-7) by (simp add: azure_storage_url_def)
  then show "run_state (data_lake_processor_upload object) w =
      (if do_user_context object = None then (Some MCL_TRIGGERED_WITH_NULL, w)
       else (Some (upload_answer (next_answer w)), sent (upload_message azure object) w))"
    using run_upload [OF assms(1-3)] by simp
  show "upload_answer (Ok a) = MCL_OK \<longleftrightarrow> rs_status_code a \<in> {200, 201}"
    by (auto simp: upload_answer_def http_status_codes mcl_http_response_get_status_def)
qed

definition azure_object :: data_lake_object_t where
  "azure_object = (sample_object ''x'')\<lparr>do_signed_url := Some (''https://x'' @ ''.'' @ ''blob.core.windows.net/c'')\<rparr>"

theorem upload_exact_witness:
  "run_state (data_lake_processor_upload azure_object) quiet_world =
     (Some MCL_OK, sent (upload_message True azure_object) quiet_world) \<and>
   run_state (data_lake_processor_upload (azure_object\<lparr>do_user_context := None\<rparr>)) quiet_world =
     (Some MCL_TRIGGERED_WITH_NULL, quiet_world)"
proof -
  have w: "w_alloc quiet_world = []" "next_answer quiet_world = Ok http_success"
    by (simp_all add: quiet_world_def next_answer_def)
  have host: "CHR ''.'' \<notin> set ''https://x''" "21 \<le> length ''https://x'' + length ''blob.core.windows.net/c''"
      "length ''https://x'' + length ''blob.core.windows.net/c'' < 2 ^ 64 - 1"
      "True \<longleftrightarrow> 22 < length ''blob.core.windows.net/c'' \<and> take 21 ''blob.core.windows.net/c'' = ''blob.core.windows.net''"
    by simp_all
  have object: "data_lake_object_validate azure_object = MCL_OK"
      "do_signed_url azure_object = Some (''https://x'' @ ''.'' @ ''blob.core.windows.net/c'')"
      "data_lake_object_validate (azure_object\<lparr>do_user_context := None\<rparr>) = MCL_OK"
      "do_signed_url (azure_object\<lparr>do_user_context := None\<rparr>) = Some (''https://x'' @ ''.'' @ ''blob.core.windows.net/c'')"
      "do_user_context azure_object = Some 8"
    by (simp_all add: azure_object_def sample_object_def data_lake_object_validate_def)
  show ?thesis
    using upload_exact [where a = http_success, OF w(1) object(1,2) host] upload_exact [where a = http_success, OF w(1) object(3,4) host] object(5) w(2)
    by (simp add: upload_answer_def http_success_def del: append.simps)
qed

text \<open>An address with fewer than 21 characters makes the upload undefined: the length of the storage's name
  is subtracted from the shorter length of the address as an unsigned number, so the guard holds and
  the comparison reads behind the terminator of the address.\<close>

theorem short_address_overread:
  assumes "w_alloc w = []" and "data_lake_object_validate object = MCL_OK"
    and "do_signed_url object = Some url" and "length url < 21" and "do_user_context object \<noteq> None"
  shows "run_state (data_lake_processor_upload object) w = (None, w)"
  using run_upload [OF assms(1-3)] check_short_address [OF assms(4)] assms(5) by simp

theorem short_address_overread_witness:
  "run_state (data_lake_processor_upload (azure_object\<lparr>do_signed_url := Some ''http://a.b/c''\<rparr>)) quiet_world =
     (None, quiet_world)"
  by (rule short_address_overread [where url = "''http://a.b/c''"])
    (simp_all add: quiet_world_def azure_object_def sample_object_def data_lake_object_validate_def)

end
