(* ===== verification/MclDeployment.thy ===== *)
theory MclDeployment
  imports MclConnectivity
begin

text \<open>
  The data of the deployment library, \<open>src/mcl_deployment/src\<close>: workflows
  (\<open>deployment_workflow.c\<close>), their states (\<open>deployment_workflow_state.c\<close>), their model
  (\<open>deployment_workflow_model.c\<close> and the files of its parts), the filter
  (\<open>deployment_workflow_filter.c\<close>) and the configuration (\<open>deployment_configuration.c\<close>). Lists are
  filled here and traversed by the program from their head: they are HOL lists. A pointer to a result
  is not \<open>NULL\<close>; a parameter that the enumeration does not have is \<open>None\<close>.
\<close>

section \<open>States\<close>

record deployment_workflow_state_t =
  ws_state :: "string option"
  ws_progress :: double
  ws_entered :: "string option"
  ws_updated :: "string option"
  ws_message :: "string option"
  ws_details :: "json option"

text \<open>Values that getters hand out: pointers into the object, or \<open>NULL\<close>.\<close>

datatype deployment_workflow_state_value =
    StateText "string option" | StateProgress double | StateDetails "json option" | StateNone

datatype E_MCL_DEPLOYMENT_WORKFLOW_STATE_PARAMETER =
    MCL_DEPLOYMENT_WORKFLOW_STATE_PARAMETER_STATE | MCL_DEPLOYMENT_WORKFLOW_STATE_PARAMETER_PROGRESS
  | MCL_DEPLOYMENT_WORKFLOW_STATE_PARAMETER_ENTERED | MCL_DEPLOYMENT_WORKFLOW_STATE_PARAMETER_UPDATED
  | MCL_DEPLOYMENT_WORKFLOW_STATE_PARAMETER_MESSAGE | MCL_DEPLOYMENT_WORKFLOW_STATE_PARAMETER_DETAILS

text \<open>A parameter to set with its value.\<close>

datatype deployment_workflow_state_setting =
    SetState string | SetProgress double | SetMessage string | SetDetails json | SetOther

definition deployment_workflow_state_initialize ::
  "('z, mcl_error \<times> deployment_workflow_state_t option) io" where
  "deployment_workflow_state_initialize = do {
     a \<leftarrow> mcl_malloc;
     State_Monad.return
       (if a then (MCL_OK, Some \<lparr>ws_state = None, ws_progress = Whole 0, ws_entered = None, ws_updated = None,
          ws_message = None, ws_details = None\<rparr>)
        else (MCL_OUT_OF_MEMORY, None))
   }"

definition mcl_deployment_workflow_state_initialize ::
  "('z, mcl_error \<times> deployment_workflow_state_t option) io" where
  "mcl_deployment_workflow_state_initialize = deployment_workflow_state_initialize"

definition mcl_deployment_workflow_state_set_parameter ::
  "deployment_workflow_state_t option \<Rightarrow> deployment_workflow_state_setting option \<Rightarrow>
   ('z, mcl_error \<times> deployment_workflow_state_t option) io" where
  "mcl_deployment_workflow_state_set_parameter workflow_state parameter = on_pointer workflow_state (\<lambda>s.
     (case parameter of
        None \<Rightarrow> State_Monad.return (MCL_TRIGGERED_WITH_NULL, s)
      | Some (SetState v) \<Rightarrow> do { (code, x) \<leftarrow> reset_field v; State_Monad.return (code, s\<lparr>ws_state := x\<rparr>) }
      | Some (SetProgress d) \<Rightarrow> State_Monad.return (MCL_OK, s\<lparr>ws_progress := d\<rparr>)
      | Some (SetMessage v) \<Rightarrow> do { (code, x) \<leftarrow> reset_field v; State_Monad.return (code, s\<lparr>ws_message := x\<rparr>) }
      | Some (SetDetails v) \<Rightarrow> do {
          (code, x) \<leftarrow> mcl_json_util_duplicate (Some v);
          State_Monad.return (code, s\<lparr>ws_details := x\<rparr>)
        }
      | Some SetOther \<Rightarrow> State_Monad.return (MCL_INVALID_PARAMETER, s)))"

definition mcl_deployment_workflow_state_get_parameter ::
  "deployment_workflow_state_t option \<Rightarrow> E_MCL_DEPLOYMENT_WORKFLOW_STATE_PARAMETER option \<Rightarrow>
   deployment_workflow_state_value result" where
  "mcl_deployment_workflow_state_get_parameter workflow_state parameter =
     (case workflow_state of
        None \<Rightarrow> Err MCL_TRIGGERED_WITH_NULL
      | Some s \<Rightarrow> (case parameter of
          Some MCL_DEPLOYMENT_WORKFLOW_STATE_PARAMETER_STATE \<Rightarrow> Ok (StateText (ws_state s))
        | Some MCL_DEPLOYMENT_WORKFLOW_STATE_PARAMETER_PROGRESS \<Rightarrow> Ok (StateProgress (ws_progress s))
        | Some MCL_DEPLOYMENT_WORKFLOW_STATE_PARAMETER_ENTERED \<Rightarrow> Ok (StateText (ws_entered s))
        | Some MCL_DEPLOYMENT_WORKFLOW_STATE_PARAMETER_UPDATED \<Rightarrow> Ok (StateText (ws_updated s))
        | Some MCL_DEPLOYMENT_WORKFLOW_STATE_PARAMETER_MESSAGE \<Rightarrow> Ok (StateText (ws_message s))
        | Some MCL_DEPLOYMENT_WORKFLOW_STATE_PARAMETER_DETAILS \<Rightarrow> Ok (StateDetails (ws_details s))
        | None \<Rightarrow> Err MCL_INVALID_PARAMETER))"

definition deployment_workflow_state_validate :: "deployment_workflow_state_t \<Rightarrow> mcl_error" where
  "deployment_workflow_state_validate workflow_state =
     (if ws_state workflow_state = None then MCL_INVALID_PARAMETER
      else if ws_message workflow_state = None then MCL_INVALID_PARAMETER
      else MCL_OK)"

section \<open>The model of a workflow\<close>

record deployment_workflow_model_state_t =
  ms_name :: "string option"
  ms_description :: "string option"
  ms_initial :: bool
  ms_final :: bool
  ms_cancel :: bool

record deployment_workflow_model_transition_t =
  mt_from :: "string option"
  mt_to :: "string option"
  mt_type :: "string option"
  mt_details :: "json option"

record deployment_workflow_model_state_group_t =
  mg_name :: "string option"
  mg_states :: "string list option"

record deployment_workflow_model_t =
  wm_key :: "string option"
  wm_states :: "deployment_workflow_model_state_t list option"
  wm_transitions :: "deployment_workflow_model_transition_t list option"
  wm_state_groups :: "deployment_workflow_model_state_group_t list option"

definition deployment_workflow_model_state_initialize ::
  "('z, mcl_error \<times> deployment_workflow_model_state_t option) io" where
  "deployment_workflow_model_state_initialize = do {
     a \<leftarrow> mcl_malloc;
     State_Monad.return
       (if a then (MCL_OK, Some \<lparr>ms_name = None, ms_description = None, ms_initial = False, ms_final = False,
          ms_cancel = False\<rparr>)
        else (MCL_OUT_OF_MEMORY, None))
   }"

definition deployment_workflow_model_transition_initialize ::
  "('z, mcl_error \<times> deployment_workflow_model_transition_t option) io" where
  "deployment_workflow_model_transition_initialize = do {
     a \<leftarrow> mcl_malloc;
     State_Monad.return
       (if a then (MCL_OK, Some \<lparr>mt_from = None, mt_to = None, mt_type = None, mt_details = None\<rparr>)
        else (MCL_OUT_OF_MEMORY, None))
   }"

definition deployment_workflow_model_state_group_initialize ::
  "('z, mcl_error \<times> deployment_workflow_model_state_group_t option) io" where
  "deployment_workflow_model_state_group_initialize = do {
     a \<leftarrow> mcl_malloc;
     State_Monad.return
       (if a then (MCL_OK, Some \<lparr>mg_name = None, mg_states = None\<rparr>) else (MCL_OUT_OF_MEMORY, None))
   }"

definition deployment_workflow_model_initialize ::
  "('z, mcl_error \<times> deployment_workflow_model_t option) io" where
  "deployment_workflow_model_initialize = do {
     a \<leftarrow> mcl_malloc;
     State_Monad.return
       (if a then (MCL_OK, Some \<lparr>wm_key = None, wm_states = None, wm_transitions = None, wm_state_groups = None\<rparr>)
        else (MCL_OUT_OF_MEMORY, None))
   }"

datatype deployment_workflow_model_value =
    ModelText "string option" | ModelFlag bool | ModelDetails "json option" | ModelNames "string list option"
  | ModelStates "deployment_workflow_model_state_t list option"
  | ModelTransitions "deployment_workflow_model_transition_t list option"
  | ModelStateGroups "deployment_workflow_model_state_group_t list option"

datatype E_MCL_DEPLOYMENT_WORKFLOW_MODEL_STATE_PARAMETER =
    MCL_DEPLOYMENT_WORKFLOW_MODEL_STATE_PARAMETER_NAME | MCL_DEPLOYMENT_WORKFLOW_MODEL_STATE_PARAMETER_DESCRIPTION
  | MCL_DEPLOYMENT_WORKFLOW_MODEL_STATE_PARAMETER_INITIAL | MCL_DEPLOYMENT_WORKFLOW_MODEL_STATE_PARAMETER_FINAL
  | MCL_DEPLOYMENT_WORKFLOW_MODEL_STATE_PARAMETER_CANCEL

datatype E_MCL_DEPLOYMENT_WORKFLOW_MODEL_TRANSITION_PARAMETER =
    MCL_DEPLOYMENT_WORKFLOW_MODEL_TRANSITION_PARAMETER_FROM | MCL_DEPLOYMENT_WORKFLOW_MODEL_TRANSITION_PARAMETER_TO
  | MCL_DEPLOYMENT_WORKFLOW_MODEL_TRANSITION_PARAMETER_TYPE | MCL_DEPLOYMENT_WORKFLOW_MODEL_TRANSITION_PARAMETER_DETAILS

datatype E_MCL_DEPLOYMENT_WORKFLOW_MODEL_STATE_GROUP_PARAMETER =
    MCL_DEPLOYMENT_WORKFLOW_MODEL_STATE_GROUP_PARAMETER_NAME | MCL_DEPLOYMENT_WORKFLOW_MODEL_STATE_GROUP_PARAMETER_STATES

datatype E_MCL_DEPLOYMENT_WORKFLOW_MODEL_PARAMETER =
    MCL_DEPLOYMENT_WORKFLOW_MODEL_PARAMETER_KEY | MCL_DEPLOYMENT_WORKFLOW_MODEL_PARAMETER_STATES
  | MCL_DEPLOYMENT_WORKFLOW_MODEL_PARAMETER_TRANSITIONS | MCL_DEPLOYMENT_WORKFLOW_MODEL_PARAMETER_STATE_GROUPS

definition mcl_deployment_workflow_model_state_get_parameter ::
  "deployment_workflow_model_state_t option \<Rightarrow> E_MCL_DEPLOYMENT_WORKFLOW_MODEL_STATE_PARAMETER option \<Rightarrow>
   deployment_workflow_model_value result" where
  "mcl_deployment_workflow_model_state_get_parameter state parameter =
     (case state of
        None \<Rightarrow> Err MCL_TRIGGERED_WITH_NULL
      | Some s \<Rightarrow> (case parameter of
          Some MCL_DEPLOYMENT_WORKFLOW_MODEL_STATE_PARAMETER_NAME \<Rightarrow> Ok (ModelText (ms_name s))
        | Some MCL_DEPLOYMENT_WORKFLOW_MODEL_STATE_PARAMETER_DESCRIPTION \<Rightarrow> Ok (ModelText (ms_description s))
        | Some MCL_DEPLOYMENT_WORKFLOW_MODEL_STATE_PARAMETER_INITIAL \<Rightarrow> Ok (ModelFlag (ms_initial s))
        | Some MCL_DEPLOYMENT_WORKFLOW_MODEL_STATE_PARAMETER_FINAL \<Rightarrow> Ok (ModelFlag (ms_final s))
        | Some MCL_DEPLOYMENT_WORKFLOW_MODEL_STATE_PARAMETER_CANCEL \<Rightarrow> Ok (ModelFlag (ms_cancel s))
        | None \<Rightarrow> Err MCL_INVALID_PARAMETER))"

definition mcl_deployment_workflow_model_transition_get_parameter ::
  "deployment_workflow_model_transition_t option \<Rightarrow> E_MCL_DEPLOYMENT_WORKFLOW_MODEL_TRANSITION_PARAMETER option \<Rightarrow>
   deployment_workflow_model_value result" where
  "mcl_deployment_workflow_model_transition_get_parameter transition parameter =
     (case transition of
        None \<Rightarrow> Err MCL_TRIGGERED_WITH_NULL
      | Some t \<Rightarrow> (case parameter of
          Some MCL_DEPLOYMENT_WORKFLOW_MODEL_TRANSITION_PARAMETER_FROM \<Rightarrow> Ok (ModelText (mt_from t))
        | Some MCL_DEPLOYMENT_WORKFLOW_MODEL_TRANSITION_PARAMETER_TO \<Rightarrow> Ok (ModelText (mt_to t))
        | Some MCL_DEPLOYMENT_WORKFLOW_MODEL_TRANSITION_PARAMETER_TYPE \<Rightarrow> Ok (ModelText (mt_type t))
        | Some MCL_DEPLOYMENT_WORKFLOW_MODEL_TRANSITION_PARAMETER_DETAILS \<Rightarrow> Ok (ModelDetails (mt_details t))
        | None \<Rightarrow> Err MCL_INVALID_PARAMETER))"

definition mcl_deployment_workflow_model_state_group_get_parameter ::
  "deployment_workflow_model_state_group_t option \<Rightarrow> E_MCL_DEPLOYMENT_WORKFLOW_MODEL_STATE_GROUP_PARAMETER option \<Rightarrow>
   deployment_workflow_model_value result" where
  "mcl_deployment_workflow_model_state_group_get_parameter state_group parameter =
     (case state_group of
        None \<Rightarrow> Err MCL_TRIGGERED_WITH_NULL
      | Some g \<Rightarrow> (case parameter of
          Some MCL_DEPLOYMENT_WORKFLOW_MODEL_STATE_GROUP_PARAMETER_NAME \<Rightarrow> Ok (ModelText (mg_name g))
        | Some MCL_DEPLOYMENT_WORKFLOW_MODEL_STATE_GROUP_PARAMETER_STATES \<Rightarrow> Ok (ModelNames (mg_states g))
        | None \<Rightarrow> Err MCL_INVALID_PARAMETER))"

definition mcl_deployment_workflow_model_get_parameter ::
  "deployment_workflow_model_t option \<Rightarrow> E_MCL_DEPLOYMENT_WORKFLOW_MODEL_PARAMETER option \<Rightarrow>
   deployment_workflow_model_value result" where
  "mcl_deployment_workflow_model_get_parameter model parameter =
     (case model of
        None \<Rightarrow> Err MCL_TRIGGERED_WITH_NULL
      | Some m \<Rightarrow> (case parameter of
          Some MCL_DEPLOYMENT_WORKFLOW_MODEL_PARAMETER_KEY \<Rightarrow> Ok (ModelText (wm_key m))
        | Some MCL_DEPLOYMENT_WORKFLOW_MODEL_PARAMETER_STATES \<Rightarrow> Ok (ModelStates (wm_states m))
        | Some MCL_DEPLOYMENT_WORKFLOW_MODEL_PARAMETER_TRANSITIONS \<Rightarrow> Ok (ModelTransitions (wm_transitions m))
        | Some MCL_DEPLOYMENT_WORKFLOW_MODEL_PARAMETER_STATE_GROUPS \<Rightarrow> Ok (ModelStateGroups (wm_state_groups m))
        | None \<Rightarrow> Err MCL_INVALID_PARAMETER))"

section \<open>Workflows\<close>

record deployment_workflow_t =
  wf_id :: "string option"
  wf_device_id :: "string option"
  wf_created_at :: "string option"
  wf_current_state :: "deployment_workflow_state_t option"
  wf_history :: "deployment_workflow_state_t list option"
  wf_model :: "deployment_workflow_model_t option"
  wf_data :: "json option"

datatype deployment_workflow_value =
    WorkflowText "string option" | WorkflowState "deployment_workflow_state_t option"
  | WorkflowHistory "deployment_workflow_state_t list option" | WorkflowModel "deployment_workflow_model_t option"
  | WorkflowData "json option"

datatype E_MCL_DEPLOYMENT_WORKFLOW_PARAMETER =
    MCL_DEPLOYMENT_WORKFLOW_PARAMETER_ID | MCL_DEPLOYMENT_WORKFLOW_PARAMETER_DEVICE_ID
  | MCL_DEPLOYMENT_WORKFLOW_PARAMETER_CREATED_AT | MCL_DEPLOYMENT_WORKFLOW_PARAMETER_CURRENT_STATE
  | MCL_DEPLOYMENT_WORKFLOW_PARAMETER_HISTORY | MCL_DEPLOYMENT_WORKFLOW_PARAMETER_MODEL
  | MCL_DEPLOYMENT_WORKFLOW_PARAMETER_DATA

definition deployment_workflow_initialize :: "('z, mcl_error \<times> deployment_workflow_t option) io" where
  "deployment_workflow_initialize = do {
     a \<leftarrow> mcl_malloc;
     State_Monad.return
       (if a then (MCL_OK, Some \<lparr>wf_id = None, wf_device_id = None, wf_created_at = None, wf_current_state = None,
          wf_history = None, wf_model = None, wf_data = None\<rparr>)
        else (MCL_OUT_OF_MEMORY, None))
   }"

definition mcl_deployment_workflow_get_parameter ::
  "deployment_workflow_t option \<Rightarrow> E_MCL_DEPLOYMENT_WORKFLOW_PARAMETER option \<Rightarrow>
   deployment_workflow_value result" where
  "mcl_deployment_workflow_get_parameter workflow parameter =
     (case workflow of
        None \<Rightarrow> Err MCL_TRIGGERED_WITH_NULL
      | Some x \<Rightarrow> (case parameter of
          Some MCL_DEPLOYMENT_WORKFLOW_PARAMETER_ID \<Rightarrow> Ok (WorkflowText (wf_id x))
        | Some MCL_DEPLOYMENT_WORKFLOW_PARAMETER_DEVICE_ID \<Rightarrow> Ok (WorkflowText (wf_device_id x))
        | Some MCL_DEPLOYMENT_WORKFLOW_PARAMETER_CREATED_AT \<Rightarrow> Ok (WorkflowText (wf_created_at x))
        | Some MCL_DEPLOYMENT_WORKFLOW_PARAMETER_CURRENT_STATE \<Rightarrow> Ok (WorkflowState (wf_current_state x))
        | Some MCL_DEPLOYMENT_WORKFLOW_PARAMETER_HISTORY \<Rightarrow> Ok (WorkflowHistory (wf_history x))
        | Some MCL_DEPLOYMENT_WORKFLOW_PARAMETER_MODEL \<Rightarrow> Ok (WorkflowModel (wf_model x))
        | Some MCL_DEPLOYMENT_WORKFLOW_PARAMETER_DATA \<Rightarrow> Ok (WorkflowData (wf_data x))
        | None \<Rightarrow> Err MCL_INVALID_PARAMETER))"

section \<open>The filter\<close>

record deployment_workflow_filter_t =
  fi_model :: bool
  fi_history :: bool
  fi_current_state :: "string option"
  fi_group :: "string option"
  fi_device_id :: "string option"
  fi_model_key :: "string option"

datatype deployment_workflow_filter_parameter =
    MCL_DEPLOYMENT_WORKFLOW_FILTER_PARAMETER_MODEL bool
  | MCL_DEPLOYMENT_WORKFLOW_FILTER_PARAMETER_HISTORY bool
  | MCL_DEPLOYMENT_WORKFLOW_FILTER_PARAMETER_CURRENT_STATE string
  | MCL_DEPLOYMENT_WORKFLOW_FILTER_PARAMETER_GROUP string
  | MCL_DEPLOYMENT_WORKFLOW_FILTER_PARAMETER_DEVICE_ID string
  | MCL_DEPLOYMENT_WORKFLOW_FILTER_PARAMETER_MODEL_KEY string
  | MCL_DEPLOYMENT_WORKFLOW_FILTER_PARAMETER_OTHER

definition mcl_deployment_workflow_filter_initialize ::
  "('z, mcl_error \<times> deployment_workflow_filter_t option) io" where
  "mcl_deployment_workflow_filter_initialize = do {
     a \<leftarrow> mcl_malloc;
     State_Monad.return
       (if a then (MCL_OK, Some \<lparr>fi_model = False, fi_history = False, fi_current_state = None, fi_group = None,
          fi_device_id = None, fi_model_key = None\<rparr>)
        else (MCL_OUT_OF_MEMORY, None))
   }"

definition mcl_deployment_workflow_filter_set_parameter ::
  "deployment_workflow_filter_t option \<Rightarrow> deployment_workflow_filter_parameter option \<Rightarrow>
   ('z, mcl_error \<times> deployment_workflow_filter_t option) io" where
  "mcl_deployment_workflow_filter_set_parameter workflow_filter parameter = on_pointer workflow_filter (\<lambda>f.
     (case parameter of
        None \<Rightarrow> State_Monad.return (MCL_TRIGGERED_WITH_NULL, f)
      | Some (MCL_DEPLOYMENT_WORKFLOW_FILTER_PARAMETER_MODEL b) \<Rightarrow> State_Monad.return (MCL_OK, f\<lparr>fi_model := b\<rparr>)
      | Some (MCL_DEPLOYMENT_WORKFLOW_FILTER_PARAMETER_HISTORY b) \<Rightarrow> State_Monad.return (MCL_OK, f\<lparr>fi_history := b\<rparr>)
      | Some (MCL_DEPLOYMENT_WORKFLOW_FILTER_PARAMETER_CURRENT_STATE s) \<Rightarrow>
          do { (code, x) \<leftarrow> reset_field s; State_Monad.return (code, f\<lparr>fi_current_state := x\<rparr>) }
      | Some (MCL_DEPLOYMENT_WORKFLOW_FILTER_PARAMETER_GROUP s) \<Rightarrow>
          do { (code, x) \<leftarrow> reset_field s; State_Monad.return (code, f\<lparr>fi_group := x\<rparr>) }
      | Some (MCL_DEPLOYMENT_WORKFLOW_FILTER_PARAMETER_DEVICE_ID s) \<Rightarrow>
          do { (code, x) \<leftarrow> reset_field s; State_Monad.return (code, f\<lparr>fi_device_id := x\<rparr>) }
      | Some (MCL_DEPLOYMENT_WORKFLOW_FILTER_PARAMETER_MODEL_KEY s) \<Rightarrow>
          do { (code, x) \<leftarrow> reset_field s; State_Monad.return (code, f\<lparr>fi_model_key := x\<rparr>) }
      | Some MCL_DEPLOYMENT_WORKFLOW_FILTER_PARAMETER_OTHER \<Rightarrow> State_Monad.return (MCL_INVALID_PARAMETER, f)))"

section \<open>Configuration\<close>

record deployment_configuration_t =
  dc_core :: "nat option"
  dc_workflow_instances_url :: "string option"

datatype deployment_configuration_parameter =
    MCL_DEPLOYMENT_CONFIGURATION_PARAMETER_CORE nat | MCL_DEPLOYMENT_CONFIGURATION_PARAMETER_END

definition workflow_instances_endpoint :: string where
  "workflow_instances_endpoint = ''/api/deploymentworkflow/v3/instances''"

definition mcl_deployment_configuration_initialize ::
  "('z, mcl_error \<times> deployment_configuration_t option) io" where
  "mcl_deployment_configuration_initialize = do {
     a \<leftarrow> mcl_malloc;
     State_Monad.return
       (if a then (MCL_OK, Some \<lparr>dc_core = None, dc_workflow_instances_url = None\<rparr>) else (MCL_OUT_OF_MEMORY, None))
   }"

text \<open>
  The core is set before its host name is looked at. Without a host name the address stays as it was,
  for lack of memory it is \<open>NULL\<close>.
\<close>

definition set_deployment_configuration_core_parameter ::
  "cores \<Rightarrow> deployment_configuration_t \<Rightarrow> nat \<Rightarrow> ('z, (mcl_error \<times> deployment_configuration_t) option) io" where
  "set_deployment_configuration_core_parameter cores configuration core =
     (let configuration = configuration\<lparr>dc_core := Some core\<rparr> in
      case cores core of
        None \<Rightarrow> State_Monad.return None
      | Some c \<Rightarrow>
          (case mcl_core_get_host_name (Some c) of
             None \<Rightarrow> State_Monad.return (Some (MCL_INVALID_PARAMETER, configuration))
           | Some hostname \<Rightarrow> do {
               (code, url) \<leftarrow> reset_field (hostname @ workflow_instances_endpoint);
               State_Monad.return (Some (code, configuration\<lparr>dc_workflow_instances_url := url\<rparr>))
             }))"

definition mcl_deployment_configuration_set_parameter ::
  "cores \<Rightarrow> deployment_configuration_t option \<Rightarrow> deployment_configuration_parameter option \<Rightarrow>
   ('z, (mcl_error \<times> deployment_configuration_t option) option) io" where
  "mcl_deployment_configuration_set_parameter cores configuration parameter =
     (case (configuration, parameter) of
        (Some c, Some (MCL_DEPLOYMENT_CONFIGURATION_PARAMETER_CORE core)) \<Rightarrow> do {
          r \<leftarrow> set_deployment_configuration_core_parameter cores c core;
          State_Monad.return (map_option (\<lambda>(code, c). (code, Some c)) r)
        }
      | (Some c, Some MCL_DEPLOYMENT_CONFIGURATION_PARAMETER_END) \<Rightarrow>
          State_Monad.return (Some (MCL_INVALID_PARAMETER, configuration))
      | _ \<Rightarrow> State_Monad.return (Some (MCL_TRIGGERED_WITH_NULL, configuration)))"

definition deployment_configuration_validate :: "deployment_configuration_t \<Rightarrow> mcl_error" where
  "deployment_configuration_validate configuration =
     (if dc_core configuration = None then MCL_INVALID_PARAMETER else MCL_OK)"

end
