(* ===== verification/MclDeploymentJson.thy ===== *)
theory MclDeploymentJson
  imports MclDeployment
begin

text \<open>
  The documents of the deployment library, \<open>src/mcl_deployment/src/deployment_json.c\<close>: the state that
  a device reports and the workflows that the server describes. An object is initialised and its
  fields are read one after the other until one cannot be read; a field that was not read keeps its
  initial value. What is destroyed on an error is \<open>None\<close>.
\<close>

section \<open>Statements\<close>

text \<open>\<open>if (MCL_OK == code) { code = reader(..., &(object->field)); }\<close>\<close>

definition read_field ::
  "mcl_error \<Rightarrow> 's \<Rightarrow> ('z, mcl_error \<times> 'a option) io \<Rightarrow> ('a \<Rightarrow> 's \<Rightarrow> 's) \<Rightarrow> ('z, mcl_error \<times> 's) io" where
  "read_field code s reader update = when_ok code s (do {
     (code, x) \<leftarrow> reader;
     State_Monad.return (code, case x of None \<Rightarrow> s | Some x \<Rightarrow> update x s)
   })"

text \<open>The object is destroyed unless its fields were read; the last argument judges the code before.\<close>

definition parse_object ::
  "('z, mcl_error \<times> 's option) io \<Rightarrow> ('s \<Rightarrow> ('z, mcl_error \<times> 's) io) \<Rightarrow> (mcl_error \<Rightarrow> mcl_error) \<Rightarrow>
   ('z, mcl_error \<times> 's option) io" where
  "parse_object initialize read_fields judge = do {
     (code, object) \<leftarrow> initialize;
     (case object of
        None \<Rightarrow> State_Monad.return (code, None)
      | Some s \<Rightarrow> do {
          (code, s) \<leftarrow> read_fields s;
          State_Monad.return (judge code, if judge code = MCL_OK then Some s else None)
        })
   }"

definition parse_string_value :: "json \<Rightarrow> string \<Rightarrow> ('z, mcl_error \<times> string option) io" where
  "parse_string_value json field =
     (case json_util_get_object_item json field of
        Err code \<Rightarrow> State_Monad.return (code, None)
      | Ok object \<Rightarrow> json_util_get_string object)"

definition value_and_code :: "'a result \<Rightarrow> mcl_error \<times> 'a option" where
  "value_and_code r = (case r of Err code \<Rightarrow> (code, None) | Ok x \<Rightarrow> (MCL_OK, Some x))"

definition parse_float_value :: "json \<Rightarrow> string \<Rightarrow> ('z, mcl_error \<times> double option) io" where
  "parse_float_value json field = State_Monad.return
     (case json_util_get_object_item json field of
        Err code \<Rightarrow> (code, None)
      | Ok object \<Rightarrow> value_and_code (json_util_get_double_value object))"

definition parse_bool_value :: "json \<Rightarrow> string \<Rightarrow> ('z, mcl_error \<times> bool option) io" where
  "parse_bool_value json field = State_Monad.return
     (case json_util_get_object_item json field of
        Err code \<Rightarrow> (code, None)
      | Ok object \<Rightarrow> value_and_code (json_util_get_bool_value object))"

text \<open>A copy of a member, which is kept as JSON.\<close>

definition duplicate_member :: "json \<Rightarrow> string \<Rightarrow> ('z, mcl_error \<times> json option) io" where
  "duplicate_member json field =
     (case json_util_get_object_item json field of
        Err code \<Rightarrow> State_Monad.return (code, None)
      | Ok object \<Rightarrow> json_util_duplicate object)"

definition get_workflow_data :: "json \<Rightarrow> ('z, mcl_error \<times> json option) io" where
  "get_workflow_data json = duplicate_member json ''data''"

text \<open>
  The loop over an array. A parser that succeeds with \<open>NULL\<close> (the string of a JSON null) has its result
  refused by \<open>mcl_list_add\<close>.
\<close>

fun parse_entries ::
  "(json \<Rightarrow> ('z, mcl_error \<times> 'a option) io) \<Rightarrow> json \<Rightarrow> nat list \<Rightarrow> 'a list \<Rightarrow> ('z, mcl_error \<times> 'a list) io" where
  "parse_entries parser json_array [] entries = State_Monad.return (MCL_OK, entries)"
| "parse_entries parser json_array (index # indexes) entries =
     (case json_util_get_array_item json_array index of
        Err code \<Rightarrow> State_Monad.return (code, entries)
      | Ok item \<Rightarrow> do {
          (code, parsed) \<leftarrow> parser item;
          if code \<noteq> MCL_OK then State_Monad.return (code, entries)
          else (case parsed of
              None \<Rightarrow> State_Monad.return (MCL_TRIGGERED_WITH_NULL, entries)
            | Some x \<Rightarrow> do {
                a \<leftarrow> mcl_malloc;
                if a then parse_entries parser json_array indexes (entries @ [x])
                else State_Monad.return (MCL_OUT_OF_MEMORY, entries)
              })
        })"

text \<open>A list made of an array; the code stands before the size of the array is asked for.\<close>

definition parse_array ::
  "(json \<Rightarrow> ('z, mcl_error \<times> 'a option) io) \<Rightarrow> json \<Rightarrow> ('z, mcl_error \<times> 'a list option) io" where
  "parse_array parser json_array = do {
     a \<leftarrow> mcl_malloc;
     if \<not> a then State_Monad.return (MCL_OUT_OF_MEMORY, None)
     else (case json_util_get_array_size json_array of
         Err code \<Rightarrow> State_Monad.return (code, None)
       | Ok array_size \<Rightarrow> do {
           (code, entries) \<leftarrow> parse_entries parser json_array [0..<array_size] [];
           State_Monad.return (code, if code = MCL_OK then Some entries else None)
         })
   }"

definition parse_array_member ::
  "(json \<Rightarrow> ('z, mcl_error \<times> 'a option) io) \<Rightarrow> json \<Rightarrow> string \<Rightarrow> ('z, mcl_error \<times> 'a list option) io" where
  "parse_array_member parser json field =
     (case json_util_get_object_item json field of
        Err code \<Rightarrow> State_Monad.return (code, None)
      | Ok json_array \<Rightarrow> parse_array parser json_array)"

section \<open>States\<close>

definition parse_workflow_state :: "json \<Rightarrow> ('z, mcl_error \<times> deployment_workflow_state_t option) io" where
  "parse_workflow_state json = parse_object deployment_workflow_state_initialize (\<lambda>s. do {
     (code, s) \<leftarrow> read_field MCL_OK s (parse_string_value json ''state'') (\<lambda>x s. s\<lparr>ws_state := Some x\<rparr>);
     (code, s) \<leftarrow> read_field code s (parse_float_value json ''progress'') (\<lambda>x s. s\<lparr>ws_progress := x\<rparr>);
     (code, s) \<leftarrow> read_field code s (parse_string_value json ''entered'') (\<lambda>x s. s\<lparr>ws_entered := Some x\<rparr>);
     (code, s) \<leftarrow> read_field code s (parse_string_value json ''updated'') (\<lambda>x s. s\<lparr>ws_updated := Some x\<rparr>);
     (code, s) \<leftarrow> read_field code s (parse_string_value json ''message'') (\<lambda>x s. s\<lparr>ws_message := Some x\<rparr>);
     read_field code s (duplicate_member json ''details'') (\<lambda>x s. s\<lparr>ws_details := Some x\<rparr>)
   }) id"

definition get_current_state :: "json \<Rightarrow> ('z, mcl_error \<times> deployment_workflow_state_t option) io" where
  "get_current_state json =
     (case json_util_get_object_item json ''currentState'' of
        Err code \<Rightarrow> State_Monad.return (code, None)
      | Ok object \<Rightarrow> parse_workflow_state object)"

definition parse_workflow_history :: "json \<Rightarrow> ('z, mcl_error \<times> deployment_workflow_state_t list option) io" where
  "parse_workflow_history json = parse_array_member parse_workflow_state json ''history''"

section \<open>The model\<close>

definition parse_workflow_model_state :: "json \<Rightarrow> ('z, mcl_error \<times> deployment_workflow_model_state_t option) io" where
  "parse_workflow_model_state json = parse_object deployment_workflow_model_state_initialize (\<lambda>s. do {
     (code, s) \<leftarrow> read_field MCL_OK s (parse_string_value json ''name'') (\<lambda>x s. s\<lparr>ms_name := Some x\<rparr>);
     (code, s) \<leftarrow> read_field code s (parse_string_value json ''description'') (\<lambda>x s. s\<lparr>ms_description := Some x\<rparr>);
     (code, s) \<leftarrow> read_field code s (parse_bool_value json ''initial'') (\<lambda>x s. s\<lparr>ms_initial := x\<rparr>);
     (code, s) \<leftarrow> read_field code s (parse_bool_value json ''final'') (\<lambda>x s. s\<lparr>ms_final := x\<rparr>);
     read_field code s (parse_bool_value json ''cancel'') (\<lambda>x s. s\<lparr>ms_cancel := x\<rparr>)
   }) tolerate_missing"

definition parse_workflow_model_transition ::
  "json \<Rightarrow> ('z, mcl_error \<times> deployment_workflow_model_transition_t option) io" where
  "parse_workflow_model_transition json = parse_object deployment_workflow_model_transition_initialize (\<lambda>s. do {
     (code, s) \<leftarrow> read_field MCL_OK s (parse_string_value json ''from'') (\<lambda>x s. s\<lparr>mt_from := Some x\<rparr>);
     (code, s) \<leftarrow> read_field code s (parse_string_value json ''to'') (\<lambda>x s. s\<lparr>mt_to := Some x\<rparr>);
     (code, s) \<leftarrow> read_field code s (parse_string_value json ''type'') (\<lambda>x s. s\<lparr>mt_type := Some x\<rparr>);
     read_field code s (duplicate_member json ''details'') (\<lambda>x s. s\<lparr>mt_details := Some x\<rparr>)
   }) tolerate_missing"

definition parse_workflow_model_state_group ::
  "json \<Rightarrow> ('z, mcl_error \<times> deployment_workflow_model_state_group_t option) io" where
  "parse_workflow_model_state_group json = parse_object deployment_workflow_model_state_group_initialize (\<lambda>s. do {
     (code, s) \<leftarrow> read_field MCL_OK s (parse_string_value json ''name'') (\<lambda>x s. s\<lparr>mg_name := Some x\<rparr>);
     read_field code s (parse_array_member json_util_get_string json ''states'') (\<lambda>x s. s\<lparr>mg_states := Some x\<rparr>)
   }) tolerate_missing"

definition parse_workflow_model_states ::
  "json \<Rightarrow> ('z, mcl_error \<times> deployment_workflow_model_state_t list option) io" where
  "parse_workflow_model_states json = parse_array_member parse_workflow_model_state json ''states''"

definition parse_workflow_model_transitions ::
  "json \<Rightarrow> ('z, mcl_error \<times> deployment_workflow_model_transition_t list option) io" where
  "parse_workflow_model_transitions json = parse_array_member parse_workflow_model_transition json ''transitions''"

definition parse_workflow_model_state_groups ::
  "json \<Rightarrow> ('z, mcl_error \<times> deployment_workflow_model_state_group_t list option) io" where
  "parse_workflow_model_state_groups json = parse_array_member parse_workflow_model_state_group json ''stateGroups''"

definition parse_model_object :: "json \<Rightarrow> ('z, mcl_error \<times> deployment_workflow_model_t option) io" where
  "parse_model_object object = parse_object deployment_workflow_model_initialize (\<lambda>m. do {
     (code, m) \<leftarrow> read_field MCL_OK m (parse_string_value object ''key'') (\<lambda>x m. m\<lparr>wm_key := Some x\<rparr>);
     (code, m) \<leftarrow> read_field code m (parse_workflow_model_states object) (\<lambda>x m. m\<lparr>wm_states := Some x\<rparr>);
     (code, m) \<leftarrow> read_field code m (parse_workflow_model_transitions object)
       (\<lambda>x m. m\<lparr>wm_transitions := Some x\<rparr>);
     read_field code m (parse_workflow_model_state_groups object) (\<lambda>x m. m\<lparr>wm_state_groups := Some x\<rparr>)
   }) tolerate_missing"

definition parse_workflow_model :: "json \<Rightarrow> ('z, mcl_error \<times> deployment_workflow_model_t option) io" where
  "parse_workflow_model json =
     (case json_util_get_object_item json ''model'' of
        Err code \<Rightarrow> State_Monad.return (tolerate_missing code, None)
      | Ok object \<Rightarrow> parse_model_object object)"

section \<open>Workflows\<close>

text \<open>A reader of an optional field.\<close>

definition optional_field :: "('z, mcl_error \<times> 'a option) io \<Rightarrow> ('z, mcl_error \<times> 'a option) io" where
  "optional_field reader = do {
     (code, x) \<leftarrow> reader;
     State_Monad.return (tolerate_missing code, x)
   }"

definition parse_workflow :: "json \<Rightarrow> ('z, mcl_error \<times> deployment_workflow_t option) io" where
  "parse_workflow json = parse_object deployment_workflow_initialize (\<lambda>s. do {
     (code, s) \<leftarrow> read_field MCL_OK s (parse_string_value json ''id'') (\<lambda>x s. s\<lparr>wf_id := Some x\<rparr>);
     (code, s) \<leftarrow> read_field code s (parse_string_value json ''deviceId'') (\<lambda>x s. s\<lparr>wf_device_id := Some x\<rparr>);
     (code, s) \<leftarrow> read_field code s (parse_string_value json ''createdAt'') (\<lambda>x s. s\<lparr>wf_created_at := Some x\<rparr>);
     (code, s) \<leftarrow> read_field code s (get_current_state json) (\<lambda>x s. s\<lparr>wf_current_state := Some x\<rparr>);
     (code, s) \<leftarrow> read_field code s (optional_field (parse_workflow_history json)) (\<lambda>x s. s\<lparr>wf_history := Some x\<rparr>);
     (code, s) \<leftarrow> read_field code s (optional_field (parse_workflow_model json)) (\<lambda>x s. s\<lparr>wf_model := Some x\<rparr>);
     read_field code s (get_workflow_data json) (\<lambda>x s. s\<lparr>wf_data := Some x\<rparr>)
   }) id"

text \<open>The list of the members of \<open>content\<close>: here the size is asked for before the list is made.\<close>

definition parse_content :: "json \<Rightarrow> ('z, mcl_error \<times> deployment_workflow_t list option) io" where
  "parse_content json =
     (case json_util_get_object_item json ''content'' of
        Err code \<Rightarrow> State_Monad.return (code, None)
      | Ok workflows_json_array \<Rightarrow>
          (case json_util_get_array_size workflows_json_array of
             Err code \<Rightarrow> State_Monad.return (code, None)
           | Ok _ \<Rightarrow> parse_array parse_workflow workflows_json_array))"

text \<open>The texts come from an answer of the server and may be \<open>NULL\<close>.\<close>

definition deployment_json_parse ::
  "(string \<Rightarrow> json option) \<Rightarrow> (json \<Rightarrow> ('z, mcl_error \<times> 'a option) io) \<Rightarrow> string option \<Rightarrow> nat \<Rightarrow>
   ('z, mcl_error \<times> 'a option) io" where
  "deployment_json_parse cJSON_parse parser json_string string_length =
     (case json_string of
        None \<Rightarrow> State_Monad.return (MCL_TRIGGERED_WITH_NULL, None)
      | Some text \<Rightarrow>
          (case json_util_parse cJSON_parse text string_length of
             Err code \<Rightarrow> State_Monad.return (code, None)
           | Ok json \<Rightarrow> parser json))"

definition deployment_json_parse_workflows ::
  "(string \<Rightarrow> json option) \<Rightarrow> string option \<Rightarrow> nat \<Rightarrow> ('z, mcl_error \<times> deployment_workflow_t list option) io" where
  "deployment_json_parse_workflows cJSON_parse json_string string_length =
     deployment_json_parse cJSON_parse parse_content json_string string_length"

definition deployment_json_parse_workflow ::
  "(string \<Rightarrow> json option) \<Rightarrow> string option \<Rightarrow> nat \<Rightarrow> ('z, mcl_error \<times> deployment_workflow_t option) io" where
  "deployment_json_parse_workflow cJSON_parse json_string string_length =
     deployment_json_parse cJSON_parse parse_workflow json_string string_length"

section \<open>The state of a device\<close>

text \<open>Without details an empty object takes their place.\<close>

definition add_details :: "json option \<Rightarrow> json option \<Rightarrow> ('z, mcl_error \<times> json option) io" where
  "add_details json_object details = do {
     (code, details_json) \<leftarrow> (case details of
         None \<Rightarrow> mcl_json_util_initialize MCL_JSON_OBJECT
       | Some d \<Rightarrow> mcl_json_util_duplicate (Some d));
     when_ok code json_object (mcl_json_util_add_object json_object ''details'' details_json)
   }"

definition deployment_json_from_workflow_state ::
  "deployment_workflow_state_t \<Rightarrow> ('z, mcl_error \<times> string option) io" where
  "deployment_json_from_workflow_state workflow_state = do {
     (code, json_object) \<leftarrow> mcl_json_util_initialize MCL_JSON_OBJECT;
     (code, json_object) \<leftarrow> when_ok code json_object
       (mcl_json_util_add_string json_object (Some ''state'') (ws_state workflow_state));
     (code, json_object) \<leftarrow> when_ok code json_object
       (mcl_json_util_add_double json_object (Some ''progress'') (ws_progress workflow_state));
     (code, json_object) \<leftarrow> when_ok code json_object
       (mcl_json_util_add_string json_object (Some ''message'') (ws_message workflow_state));
     (code, json_object) \<leftarrow> when_ok code json_object (add_details json_object (ws_details workflow_state));
     when_ok code None (mcl_json_util_to_string json_object)
   }"

end
