(* ===== verification/MclDeploymentProcessor.thy ===== *)
theory MclDeploymentProcessor
  imports MclDeploymentJson
begin

text \<open>
  The requests of the deployment library, \<open>src/mcl_deployment/src/deployment_processor.c\<close>, and its
  handle, \<open>deployment.c\<close>. Addresses and query strings are written into blocks of memory.
\<close>

section \<open>Query strings\<close>

text \<open>A copy of a string with its terminator, on which the position then stands.\<close>

definition copy_string :: "string option \<Rightarrow> char block \<times> nat \<Rightarrow> (char block \<times> nat) option" where
  "copy_string text at = do {
     t \<leftarrow> text;
     b \<leftarrow> string_util_memcpy (fst at) (snd at) (cstr t) (length t + 1);
     Some (b, snd at + length t)
   }"

definition add_query_parameter ::
  "char block \<times> nat \<Rightarrow> string \<Rightarrow> string option \<Rightarrow> (char block \<times> nat) option" where
  "add_query_parameter to key value =
     (if mcl_string_util_strlen value \<noteq> 0 then do {
        position \<leftarrow> copy_text (Some key) to;
        position \<leftarrow> copy_text (Some ''='') position;
        position \<leftarrow> copy_text value position;
        copy_text (Some ''&'') position
      } else Some to)"

definition add_flag :: "bool \<Rightarrow> char block \<times> nat \<Rightarrow> string \<Rightarrow> (char block \<times> nat) option" where
  "add_flag flag to key = (if flag then add_query_parameter to key (Some ''true'') else Some to)"

text \<open>The start of a query string in a block of its length and a terminator.\<close>

definition start_query :: "nat \<Rightarrow> (char block \<times> nat) option" where
  "start_query query_string_length = copy_text (Some ''?'') (fresh_block (query_string_length + 1), 0)"

definition single_query_length :: "deployment_workflow_filter_t \<Rightarrow> nat" where
  "single_query_length workflow_filter =
     (let query_string_length = 0;
          query_string_length = (if fi_model workflow_filter then query_string_length + 11 else query_string_length)
      in if fi_history workflow_filter then query_string_length + 13 else query_string_length)"

text \<open>
  The result is undefined, or a code and the query string, \<open>NULL\<close> without parameters or memory. The last
  argument writes the parameters.
\<close>

definition get_query_string ::
  "nat \<Rightarrow> (char block \<times> nat \<Rightarrow> (char block \<times> nat) option) \<Rightarrow> ('z, (mcl_error \<times> char block option) option) io" where
  "get_query_string query_string_length write =
     (if query_string_length = 0 then State_Monad.return (Some (MCL_OK, None))
      else do {
        a \<leftarrow> mcl_malloc;
        State_Monad.return (if \<not> a then Some (MCL_OUT_OF_MEMORY, None)
          else do {
            position \<leftarrow> start_query query_string_length;
            position \<leftarrow> write position;
            query_string \<leftarrow> store (fst position) query_string_length MCL_NULL_CHAR;
            Some (MCL_OK, Some query_string)
          })
      })"

definition write_flags :: "deployment_workflow_filter_t \<Rightarrow> char block \<times> nat \<Rightarrow> (char block \<times> nat) option" where
  "write_flags workflow_filter position = do {
     position \<leftarrow> add_flag (fi_model workflow_filter) position ''model'';
     add_flag (fi_history workflow_filter) position ''history''
   }"

definition get_query_string_for_single_workflow ::
  "deployment_workflow_filter_t \<Rightarrow> ('z, (mcl_error \<times> char block option) option) io" where
  "get_query_string_for_single_workflow workflow_filter =
     get_query_string (single_query_length workflow_filter) (write_flags workflow_filter)"

definition calculate_query_string_length :: "deployment_workflow_filter_t \<Rightarrow> nat" where
  "calculate_query_string_length workflow_filter =
     (let model_length = (if fi_model workflow_filter then 11 else 0);
          history_length = (if fi_history workflow_filter then 13 else 0);
          current_state_length = mcl_string_util_strlen (fi_current_state workflow_filter);
          device_id_length = mcl_string_util_strlen (fi_device_id workflow_filter);
          group_length = mcl_string_util_strlen (fi_group workflow_filter);
          model_key_length = mcl_string_util_strlen (fi_model_key workflow_filter);
          current_state_length = (if current_state_length \<noteq> 0 then current_state_length + 14 else current_state_length);
          device_id_length = (if device_id_length \<noteq> 0 then device_id_length + 10 else device_id_length);
          group_length = (if group_length \<noteq> 0 then group_length + 7 else group_length);
          model_key_length = (if model_key_length \<noteq> 0 then model_key_length + 10 else model_key_length)
      in model_length + history_length + current_state_length + device_id_length + group_length + model_key_length)"

definition get_query_string_for_list_of_workflows ::
  "deployment_workflow_filter_t \<Rightarrow> ('z, (mcl_error \<times> char block option) option) io" where
  "get_query_string_for_list_of_workflows workflow_filter =
     get_query_string (calculate_query_string_length workflow_filter) (\<lambda>position. do {
       position \<leftarrow> write_flags workflow_filter position;
       position \<leftarrow> add_query_parameter position ''currentState'' (fi_current_state workflow_filter);
       position \<leftarrow> add_query_parameter position ''deviceId'' (fi_device_id workflow_filter);
       position \<leftarrow> add_query_parameter position ''group'' (fi_group workflow_filter);
       add_query_parameter position ''modelKey'' (fi_model_key workflow_filter)
     })"

section \<open>Addresses\<close>

text \<open>The text of the query string, empty when there is none or it failed: its length is 0 then.\<close>

definition query_text :: "mcl_error \<Rightarrow> char block option \<Rightarrow> string option" where
  "query_text code query_string =
     (if code \<noteq> MCL_OK then Some []
      else (case query_string of None \<Rightarrow> Some [] | Some q \<Rightarrow> block_string q))"

definition append_query :: "string \<Rightarrow> char block \<times> nat \<Rightarrow> (char block \<times> nat) option" where
  "append_query query position = (if length query \<noteq> 0 then copy_string (Some query) position else Some position)"

text \<open>
  A query string that failed is left out of the address, its code is returned. The writer gets the text of
  the query string, and its block has room for the address.
\<close>

definition get_url ::
  "('z, (mcl_error \<times> char block option) option) io \<Rightarrow> nat \<Rightarrow>
   (string \<Rightarrow> char block \<times> nat \<Rightarrow> (char block \<times> nat) option) \<Rightarrow>
   ('z, (mcl_error \<times> char block option) option) io" where
  "get_url query_getter address_length write = do {
     r \<leftarrow> query_getter;
     (case r of
        None \<Rightarrow> State_Monad.return None
      | Some (code, query_string) \<Rightarrow>
          (case query_text code query_string of
             None \<Rightarrow> State_Monad.return None
           | Some query \<Rightarrow> do {
               let url_length = address_length + length query;
               a \<leftarrow> mcl_malloc;
               State_Monad.return (if \<not> a then Some (MCL_OUT_OF_MEMORY, None)
                 else do {
                   (url, position) \<leftarrow> write query (fresh_block (url_length + 1), 0);
                   Some (code, Some url)
                 })
             }))
   }"

definition get_url_to_get_patch_workflow ::
  "string option \<Rightarrow> string \<Rightarrow> deployment_workflow_filter_t option \<Rightarrow>
   ('z, (mcl_error \<times> char block option) option) io" where
  "get_url_to_get_patch_workflow path workflow_id workflow_filter =
     get_url
       (case workflow_filter of None \<Rightarrow> State_Monad.return (Some (MCL_OK, None))
        | Some f \<Rightarrow> get_query_string_for_single_workflow f)
       (mcl_string_util_strlen path + length ''/'' + length workflow_id)
       (\<lambda>query position. do {
          position \<leftarrow> copy_text path position;
          position \<leftarrow> copy_text (Some ''/'') position;
          position \<leftarrow> copy_string (Some workflow_id) position;
          append_query query position
        })"

definition get_url_to_list_workflows ::
  "string option \<Rightarrow> deployment_workflow_filter_t option \<Rightarrow> ('z, (mcl_error \<times> char block option) option) io" where
  "get_url_to_list_workflows path workflow_filter =
     get_url
       (case workflow_filter of None \<Rightarrow> State_Monad.return (Some (MCL_OK, None))
        | Some f \<Rightarrow> get_query_string_for_list_of_workflows f)
       (mcl_string_util_strlen path)
       (\<lambda>query position. do {
          position \<leftarrow> copy_string path position;
          append_query query position
        })"

section \<open>Requests\<close>

record deployment_processor_t =
  pr_access_token :: "string option"
  pr_workflow_instances_url :: "string option"

definition deployment_add_authorization_header ::
  "mcl_http_request_t option \<Rightarrow> string option \<Rightarrow> ('z, mcl_error \<times> mcl_http_request_t option) io" where
  "deployment_add_authorization_header request access_token =
     (case access_token of
        None \<Rightarrow> State_Monad.return (MCL_TRIGGERED_WITH_NULL, request)
      | Some token \<Rightarrow> do {
          a \<leftarrow> mcl_malloc;
          if a then mcl_http_request_add_header request (Some ''Authorization'') (Some (''Bearer '' @ token))
          else State_Monad.return (MCL_OUT_OF_MEMORY, request)
        })"

text \<open>From the initialisation of the request to its address, which \<open>mcl_string_util_reset\<close> reads as a string.\<close>

definition start_request ::
  "E_MCL_HTTP_METHOD \<Rightarrow> ('z, (mcl_error \<times> char block option) option) io \<Rightarrow>
   ('z, (mcl_error \<times> mcl_http_request_t option) option) io" where
  "start_request method url_getter = do {
     (code, http_request) \<leftarrow> mcl_http_request_initialize;
     (code, http_request) \<leftarrow> when_ok code http_request
       (mcl_http_request_set_parameter http_request (Some (MCL_HTTP_REQUEST_PARAMETER_METHOD method)));
     r \<leftarrow> (if code = MCL_OK then url_getter else State_Monad.return (Some (code, None)));
     (case r of
        None \<Rightarrow> State_Monad.return None
      | Some (code, url) \<Rightarrow>
          if code \<noteq> MCL_OK then State_Monad.return (Some (code, http_request))
          else (case Option.bind url block_string of
              None \<Rightarrow> State_Monad.return None
            | Some text \<Rightarrow> do {
                r \<leftarrow> mcl_http_request_set_parameter http_request (Some (MCL_HTTP_REQUEST_PARAMETER_URL text));
                State_Monad.return (Some r)
              }))
   }"

text \<open>The last headers, and the request is sent.\<close>

definition finish_request ::
  "deployment_processor_t \<Rightarrow> mcl_error \<Rightarrow> mcl_http_request_t option \<Rightarrow>
   ('z net_world_ext, mcl_http_response_t result option) io" where
  "finish_request deployment_processor code http_request = do {
     (code, http_request) \<leftarrow> when_ok code http_request
       (deployment_add_authorization_header http_request (pr_access_token deployment_processor));
     (code, http_request) \<leftarrow> when_ok code http_request
       (mcl_http_request_add_header http_request (Some ''Accept'') (Some ''application/json''));
     send_if_ok code http_request
   }"

text \<open>Only the answer 200 is parsed.\<close>

definition evaluate_answer ::
  "(string option \<Rightarrow> nat \<Rightarrow> ('z, mcl_error \<times> 'a option) io) \<Rightarrow> mcl_http_response_t result option \<Rightarrow>
   ('z, (mcl_error \<times> 'a option) option) io" where
  "evaluate_answer parser answer =
     (case answer of
        None \<Rightarrow> State_Monad.return None
      | Some (Err code) \<Rightarrow> State_Monad.return (Some (code, None))
      | Some (Ok http_response) \<Rightarrow>
          if rs_status_code http_response = MCL_HTTP_STATUS_CODE_SUCCESS
          then do {
            r \<leftarrow> parser (rs_payload http_response) (rs_payload_size http_response);
            State_Monad.return (Some r)
          }
          else State_Monad.return (Some (mcl_http_response_get_status (Some http_response), None)))"

definition deployment_processor_list_workflows ::
  "(string \<Rightarrow> json option) \<Rightarrow> deployment_processor_t \<Rightarrow> deployment_workflow_filter_t option \<Rightarrow>
   ('z net_world_ext, (mcl_error \<times> deployment_workflow_t list option) option) io" where
  "deployment_processor_list_workflows cJSON_parse deployment_processor workflow_filter = do {
     r \<leftarrow> start_request MCL_HTTP_GET
       (get_url_to_list_workflows (pr_workflow_instances_url deployment_processor) workflow_filter);
     (case r of
        None \<Rightarrow> State_Monad.return None
      | Some (code, http_request) \<Rightarrow> do {
          answer \<leftarrow> finish_request deployment_processor code http_request;
          evaluate_answer (deployment_json_parse_workflows cJSON_parse) answer
        })
   }"

definition deployment_processor_get_workflow ::
  "(string \<Rightarrow> json option) \<Rightarrow> deployment_processor_t \<Rightarrow> string \<Rightarrow> deployment_workflow_filter_t option \<Rightarrow>
   ('z net_world_ext, (mcl_error \<times> deployment_workflow_t option) option) io" where
  "deployment_processor_get_workflow cJSON_parse deployment_processor workflow_id workflow_filter = do {
     r \<leftarrow> start_request MCL_HTTP_GET
       (get_url_to_get_patch_workflow (pr_workflow_instances_url deployment_processor) workflow_id workflow_filter);
     (case r of
        None \<Rightarrow> State_Monad.return None
      | Some (code, http_request) \<Rightarrow> do {
          answer \<leftarrow> finish_request deployment_processor code http_request;
          evaluate_answer (deployment_json_parse_workflow cJSON_parse) answer
        })
   }"

text \<open>From the check of the state to the content type; the body is the block of the document.\<close>

definition state_body ::
  "deployment_workflow_state_t \<Rightarrow> mcl_error \<Rightarrow> mcl_http_request_t option \<Rightarrow>
   ('z, mcl_error \<times> mcl_http_request_t option) io" where
  "state_body state code http_request = do {
     let code = (if code = MCL_OK then deployment_workflow_state_validate state else code);
     (code, body) \<leftarrow> when_ok code None (deployment_json_from_workflow_state state);
     (code, http_request) \<leftarrow> when_ok code http_request
       (mcl_http_request_set_parameter http_request
          (map_option (\<lambda>text. MCL_HTTP_REQUEST_PARAMETER_BODY (map Some (cstr text))) body));
     (code, http_request) \<leftarrow> when_ok code http_request
       (let body_size = mcl_string_util_strlen body in
        mcl_http_request_set_parameter http_request (Some (MCL_HTTP_REQUEST_PARAMETER_BODY_SIZE body_size)));
     when_ok code http_request
       (mcl_http_request_add_header http_request (Some ''Content-Type'') (Some ''application/json''))
   }"

definition deployment_processor_update_workflow ::
  "(string \<Rightarrow> json option) \<Rightarrow> deployment_processor_t \<Rightarrow> string \<Rightarrow> deployment_workflow_state_t \<Rightarrow>
   deployment_workflow_filter_t option \<Rightarrow>
   ('z net_world_ext, (mcl_error \<times> deployment_workflow_t option) option) io" where
  "deployment_processor_update_workflow cJSON_parse deployment_processor workflow_id state workflow_filter = do {
     r \<leftarrow> start_request MCL_HTTP_PATCH
       (get_url_to_get_patch_workflow (pr_workflow_instances_url deployment_processor) workflow_id workflow_filter);
     (case r of
        None \<Rightarrow> State_Monad.return None
      | Some (code, http_request) \<Rightarrow> do {
          (code, http_request) \<leftarrow> state_body state code http_request;
          answer \<leftarrow> finish_request deployment_processor code http_request;
          evaluate_answer (deployment_json_parse_workflow cJSON_parse) answer
        })
   }"

section \<open>The handle\<close>

record deployment_t =
  dh_configuration :: deployment_configuration_t
  dh_access_token :: "string option"
  dh_workflow_instances_url :: "string option"

text \<open>
  The last argument is what the pointer to the handle holds at the call: on an error it is destroyed
  and set to \<open>NULL\<close>.
\<close>

definition mcl_deployment_initialize ::
  "cores \<Rightarrow> deployment_configuration_t option \<Rightarrow> deployment_t option \<Rightarrow>
   ('z, (mcl_error \<times> deployment_t option) option) io" where
  "mcl_deployment_initialize cores configuration deployment =
     (case configuration of
        None \<Rightarrow> State_Monad.return (Some (MCL_TRIGGERED_WITH_NULL, deployment))
      | Some c \<Rightarrow>
          if deployment_configuration_validate c \<noteq> MCL_OK
          then State_Monad.return (Some (deployment_configuration_validate c, None))
          else do {
            a \<leftarrow> mcl_malloc;
            State_Monad.return
              (if \<not> a then Some (MCL_OUT_OF_MEMORY, None)
               else do {
                 core \<leftarrow> dc_core c;
                 _ \<leftarrow> cores core;
                 Some (MCL_OK, Some \<lparr>dh_configuration = c, dh_access_token = None,
                   dh_workflow_instances_url = dc_workflow_instances_url c\<rparr>)
               })
          })"

text \<open>The previous token is released; an operation of the processor follows when the core has a token.\<close>

definition with_deployment_processor ::
  "cores \<Rightarrow> deployment_t \<Rightarrow> (deployment_processor_t \<Rightarrow> ('z, (mcl_error \<times> 'a option) option) io) \<Rightarrow>
   ('z, (mcl_error \<times> deployment_t option \<times> 'a option) option) io" where
  "with_deployment_processor cores deployment operation =
     (let deployment = deployment\<lparr>dh_access_token := None\<rparr> in
      case Option.bind (dc_core (dh_configuration deployment)) cores of
        None \<Rightarrow> State_Monad.return None
      | Some c \<Rightarrow> do {
          (code, token) \<leftarrow> mcl_core_get_last_access_token (Some c);
          let deployment = deployment\<lparr>dh_access_token := token\<rparr>;
          if code \<noteq> MCL_OK then State_Monad.return (Some (code, Some deployment, None))
          else do {
            r \<leftarrow> operation \<lparr>pr_access_token = token,
              pr_workflow_instances_url = dh_workflow_instances_url deployment\<rparr>;
            State_Monad.return (map_option (\<lambda>(code, x). (code, Some deployment, x)) r)
          }
        })"

definition mcl_deployment_list_workflows ::
  "(string \<Rightarrow> json option) \<Rightarrow> cores \<Rightarrow> deployment_t option \<Rightarrow> deployment_workflow_filter_t option \<Rightarrow>
   ('z net_world_ext, (mcl_error \<times> deployment_t option \<times> deployment_workflow_t list option) option) io" where
  "mcl_deployment_list_workflows cJSON_parse cores deployment workflow_filter =
     (case deployment of
        None \<Rightarrow> State_Monad.return (Some (MCL_TRIGGERED_WITH_NULL, deployment, None))
      | Some d \<Rightarrow> with_deployment_processor cores d
          (\<lambda>p. deployment_processor_list_workflows cJSON_parse p workflow_filter))"

definition mcl_deployment_get_workflow ::
  "(string \<Rightarrow> json option) \<Rightarrow> cores \<Rightarrow> deployment_t option \<Rightarrow> string option \<Rightarrow> deployment_workflow_filter_t option \<Rightarrow>
   ('z net_world_ext, (mcl_error \<times> deployment_t option \<times> deployment_workflow_t option) option) io" where
  "mcl_deployment_get_workflow cJSON_parse cores deployment workflow_id workflow_filter =
     (case (deployment, workflow_id) of
        (Some d, Some i) \<Rightarrow> with_deployment_processor cores d
          (\<lambda>p. deployment_processor_get_workflow cJSON_parse p i workflow_filter)
      | _ \<Rightarrow> State_Monad.return (Some (MCL_TRIGGERED_WITH_NULL, deployment, None)))"

definition mcl_deployment_update_workflow ::
  "(string \<Rightarrow> json option) \<Rightarrow> cores \<Rightarrow> deployment_t option \<Rightarrow> string option \<Rightarrow>
   deployment_workflow_state_t option \<Rightarrow> deployment_workflow_filter_t option \<Rightarrow>
   ('z net_world_ext, (mcl_error \<times> deployment_t option \<times> deployment_workflow_t option) option) io" where
  "mcl_deployment_update_workflow cJSON_parse cores deployment workflow_id state workflow_filter =
     (case (deployment, workflow_id, state) of
        (Some d, Some i, Some s) \<Rightarrow> with_deployment_processor cores d
          (\<lambda>p. deployment_processor_update_workflow cJSON_parse p i s workflow_filter)
      | _ \<Rightarrow> State_Monad.return (Some (MCL_TRIGGERED_WITH_NULL, deployment, None)))"

end
