(* ===== verification/MclDeploymentDocs.thy ===== *)
theory MclDeploymentDocs
  imports MclDeploymentJson
begin

text \<open>
  What the documents of the server say, member by member, and that the parser of
  \<open>MclDeploymentJson\<close> reads it. The relations look members up as cJSON does: their order, members that
  are not asked for and the letter case of names do not matter. The facts that run a reader are in
  the collection \<open>reads\<close>.
\<close>

named_theorems reads

section \<open>What a document says\<close>

text \<open>A text is a JSON string, or null for \<open>NULL\<close>.\<close>

definition says_text :: "json \<Rightarrow> string \<Rightarrow> string option \<Rightarrow> bool" where
  "says_text json field x \<longleftrightarrow> (\<exists>j. json_util_get_object_item json field = Ok j \<and>
     json_value j = (case x of None \<Rightarrow> CNull | Some s \<Rightarrow> CString s))"

definition says_flag :: "json \<Rightarrow> string \<Rightarrow> bool \<Rightarrow> bool" where
  "says_flag json field b \<longleftrightarrow> (\<exists>j. json_util_get_object_item json field = Ok j \<and> json_value j = CBool b)"

definition says_number :: "json \<Rightarrow> string \<Rightarrow> double \<Rightarrow> bool" where
  "says_number json field d \<longleftrightarrow> (\<exists>j. json_util_get_object_item json field = Ok j \<and> json_value j = CNumber d)"

definition lacks :: "json \<Rightarrow> string \<Rightarrow> bool" where
  "lacks json field \<longleftrightarrow> json_util_get_object_item json field = Err MCL_JSON_NON_EXISTING_CHILD"

definition is_array :: "(json \<Rightarrow> 'a \<Rightarrow> bool) \<Rightarrow> json \<Rightarrow> 'a list \<Rightarrow> bool" where
  "is_array says json xs \<longleftrightarrow> json_value json = CArray \<and> list_all2 (\<lambda>(k, j) x. says j x) (json_children json) xs"

definition says_list :: "(json \<Rightarrow> 'a \<Rightarrow> bool) \<Rightarrow> json \<Rightarrow> string \<Rightarrow> 'a list \<Rightarrow> bool" where
  "says_list says json field xs \<longleftrightarrow>
     (\<exists>j. json_util_get_object_item json field = Ok j \<and> is_array says j xs)"

text \<open>An optional member: \<open>NULL\<close> when the document lacks it.\<close>

definition says_optional :: "(json \<Rightarrow> string \<Rightarrow> 'a \<Rightarrow> bool) \<Rightarrow> json \<Rightarrow> string \<Rightarrow> 'a option \<Rightarrow> bool" where
  "says_optional says json field x \<longleftrightarrow>
     (case x of None \<Rightarrow> lacks json field | Some y \<Rightarrow> says json field y)"

definition says_json :: "json \<Rightarrow> string \<Rightarrow> json \<Rightarrow> bool" where
  "says_json json field d \<longleftrightarrow> json_util_get_object_item json field = Ok d"

definition says_state :: "json \<Rightarrow> deployment_workflow_state_t \<Rightarrow> bool" where
  "says_state json s \<longleftrightarrow> says_text json ''state'' (ws_state s) \<and> says_number json ''progress'' (ws_progress s) \<and>
     says_text json ''entered'' (ws_entered s) \<and> says_text json ''updated'' (ws_updated s) \<and>
     says_text json ''message'' (ws_message s) \<and> (\<exists>d. ws_details s = Some d \<and> says_json json ''details'' d)"

definition says_model_state :: "json \<Rightarrow> deployment_workflow_model_state_t \<Rightarrow> bool" where
  "says_model_state json s \<longleftrightarrow> says_text json ''name'' (ms_name s) \<and>
     says_text json ''description'' (ms_description s) \<and> says_flag json ''initial'' (ms_initial s) \<and>
     says_flag json ''final'' (ms_final s) \<and> says_flag json ''cancel'' (ms_cancel s)"

definition says_transition :: "json \<Rightarrow> deployment_workflow_model_transition_t \<Rightarrow> bool" where
  "says_transition json t \<longleftrightarrow> says_text json ''from'' (mt_from t) \<and> says_text json ''to'' (mt_to t) \<and>
     says_text json ''type'' (mt_type t) \<and> says_optional says_json json ''details'' (mt_details t)"

definition says_name :: "json \<Rightarrow> string \<Rightarrow> bool" where
  "says_name json s \<longleftrightarrow> json_value json = CString s"

definition says_state_group :: "json \<Rightarrow> deployment_workflow_model_state_group_t \<Rightarrow> bool" where
  "says_state_group json g \<longleftrightarrow> says_text json ''name'' (mg_name g) \<and>
     says_optional (says_list says_name) json ''states'' (mg_states g)"

text \<open>A model may end early: without states it has no transitions, without transitions no groups.\<close>

definition says_model :: "json \<Rightarrow> deployment_workflow_model_t \<Rightarrow> bool" where
  "says_model json m \<longleftrightarrow> says_text json ''key'' (wm_key m) \<and>
     says_optional (says_list says_model_state) json ''states'' (wm_states m) \<and>
     says_optional (says_list says_transition) json ''transitions'' (wm_transitions m) \<and>
     says_optional (says_list says_state_group) json ''stateGroups'' (wm_state_groups m) \<and>
     (wm_states m = None \<longrightarrow> wm_transitions m = None) \<and> (wm_transitions m = None \<longrightarrow> wm_state_groups m = None)"

definition says_object :: "(json \<Rightarrow> 'a \<Rightarrow> bool) \<Rightarrow> json \<Rightarrow> string \<Rightarrow> 'a \<Rightarrow> bool" where
  "says_object says json field x \<longleftrightarrow> (\<exists>j. json_util_get_object_item json field = Ok j \<and> says j x)"

text \<open>Everything but the history.\<close>

definition says_rest :: "json \<Rightarrow> deployment_workflow_t \<Rightarrow> bool" where
  "says_rest json f \<longleftrightarrow> says_text json ''id'' (wf_id f) \<and> says_text json ''deviceId'' (wf_device_id f) \<and>
     says_text json ''createdAt'' (wf_created_at f) \<and>
     (\<exists>s. wf_current_state f = Some s \<and> says_object says_state json ''currentState'' s) \<and>
     says_optional (says_object says_model) json ''model'' (wf_model f) \<and>
     (\<exists>d. wf_data f = Some d \<and> says_json json ''data'' d)"

definition says_workflow :: "json \<Rightarrow> deployment_workflow_t \<Rightarrow> bool" where
  "says_workflow json f \<longleftrightarrow> says_rest json f \<and> says_optional (says_list says_state) json ''history'' (wf_history f)"

definition says_workflows :: "json \<Rightarrow> deployment_workflow_t list \<Rightarrow> bool" where
  "says_workflows json ws \<longleftrightarrow> says_list says_workflow json ''content'' ws"

section \<open>Readers\<close>

lemma run_read_field:
  "run_state reader w = ((c, x), w') \<Longrightarrow>
   run_state (read_field code s reader update) w =
     (if code = MCL_OK then ((c, case x of None \<Rightarrow> s | Some x \<Rightarrow> update x s), w') else ((code, s), w))"
  by (simp add: read_field_def)

lemma run_read_field_skip [reads]:
  "code \<noteq> MCL_OK \<Longrightarrow> run_state (read_field code s reader update) w = ((code, s), w)"
  by (simp add: read_field_def)

lemma run_read_field_ok [reads]:
  "run_state reader w = ((c, x), w') \<Longrightarrow>
   run_state (read_field MCL_OK s reader update) w = ((c, case x of None \<Rightarrow> s | Some x \<Rightarrow> update x s), w')"
  by (simp add: read_field_def)

lemma run_text [reads]:
  assumes "w_alloc w = []" and "says_text json field x"
  shows "run_state (parse_string_value json field) w = ((MCL_OK, x), w)"
  using assms by (auto simp: says_text_def parse_string_value_def json_util_get_string_def split: option.splits)

lemma run_flag [reads]:
  "says_flag json field b \<Longrightarrow> run_state (parse_bool_value json field) w = ((MCL_OK, Some b), w)"
  by (auto simp: says_flag_def parse_bool_value_def value_and_code_def json_util_get_bool_value_def)

lemma run_number [reads]:
  "says_number json field d \<Longrightarrow> run_state (parse_float_value json field) w = ((MCL_OK, Some d), w)"
  by (auto simp: says_number_def parse_float_value_def value_and_code_def json_util_get_double_value_def)

lemma run_details [reads]:
  assumes "w_alloc w = []" and "says_json json field d"
  shows "run_state (duplicate_member json field) w = ((MCL_OK, Some d), w)"
  using assms by (simp add: says_json_def duplicate_member_def json_util_duplicate_def)

lemma run_lacking [reads]:
  assumes "lacks json field"
  shows "run_state (parse_string_value json field) w = ((MCL_JSON_NON_EXISTING_CHILD, None), w)"
    and "run_state (parse_bool_value json field) w = ((MCL_JSON_NON_EXISTING_CHILD, None), w)"
    and "run_state (parse_float_value json field) w = ((MCL_JSON_NON_EXISTING_CHILD, None), w)"
    and "run_state (duplicate_member json field) w = ((MCL_JSON_NON_EXISTING_CHILD, None), w)"
    and "run_state (parse_array_member parser json field) w = ((MCL_JSON_NON_EXISTING_CHILD, None), w)"
  using assms by (simp_all add: lacks_def parse_string_value_def parse_bool_value_def parse_float_value_def
      duplicate_member_def parse_array_member_def)

lemma tolerate_missing_simps [reads]:
  "tolerate_missing MCL_OK = MCL_OK" "tolerate_missing MCL_JSON_NON_EXISTING_CHILD = MCL_OK"
  by (simp_all add: tolerate_missing_def)

lemma run_parse_object [reads]:
  assumes "run_state initialize w = ((MCL_OK, Some s), w)" and "run_state (read_fields s) w = ((code, t), w')"
  shows "run_state (parse_object initialize read_fields judge) w =
    ((judge code, if judge code = MCL_OK then Some t else None), w')"
  using assms by (simp add: parse_object_def)

lemma run_state_initialize [reads]:
  assumes "w_alloc w = []"
  shows "run_state deployment_workflow_state_initialize w = ((MCL_OK, Some \<lparr>ws_state = None, ws_progress = Whole 0,
      ws_entered = None, ws_updated = None, ws_message = None, ws_details = None\<rparr>), w)"
    and "run_state deployment_workflow_model_state_initialize w = ((MCL_OK, Some \<lparr>ms_name = None,
      ms_description = None, ms_initial = False, ms_final = False, ms_cancel = False\<rparr>), w)"
    and "run_state deployment_workflow_model_transition_initialize w =
      ((MCL_OK, Some \<lparr>mt_from = None, mt_to = None, mt_type = None, mt_details = None\<rparr>), w)"
    and "run_state deployment_workflow_model_state_group_initialize w =
      ((MCL_OK, Some \<lparr>mg_name = None, mg_states = None\<rparr>), w)"
    and "run_state deployment_workflow_model_initialize w =
      ((MCL_OK, Some \<lparr>wm_key = None, wm_states = None, wm_transitions = None, wm_state_groups = None\<rparr>), w)"
    and "run_state deployment_workflow_initialize w = ((MCL_OK, Some \<lparr>wf_id = None, wf_device_id = None,
      wf_created_at = None, wf_current_state = None, wf_history = None, wf_model = None, wf_data = None\<rparr>), w)"
  using assms by (simp_all add: deployment_workflow_state_initialize_def
      deployment_workflow_model_state_initialize_def deployment_workflow_model_transition_initialize_def
      deployment_workflow_model_state_group_initialize_def deployment_workflow_model_initialize_def
      deployment_workflow_initialize_def)

section \<open>Arrays\<close>

text \<open>A parser that reads what an element says.\<close>

definition reads_to :: "(json \<Rightarrow> 'a \<Rightarrow> bool) \<Rightarrow> (json \<Rightarrow> ('z, mcl_error \<times> 'a option) io) \<Rightarrow> bool" where
  "reads_to says parser \<longleftrightarrow>
     (\<forall>j x w. says j x \<longrightarrow> w_alloc w = [] \<longrightarrow> run_state (parser j) w = ((MCL_OK, Some x), w))"

lemma reads_toI:
  "(\<And>j x w. says j x \<Longrightarrow> w_alloc w = [] \<Longrightarrow> run_state (parser j) w = ((MCL_OK, Some x), w)) \<Longrightarrow>
   reads_to says parser"
  by (simp add: reads_to_def)

lemma reads_toD: "reads_to says parser \<Longrightarrow> says j x \<Longrightarrow> w_alloc w = [] \<Longrightarrow>
    run_state (parser j) w = ((MCL_OK, Some x), w)"
  by (simp add: reads_to_def)

lemma run_parse_entries:
  assumes "reads_to says parser" and "w_alloc w = []" and "json_value array = CArray"
    and "list_all2 (\<lambda>i x. i < length (json_children array) \<and> says (snd (json_children array ! i)) x) indexes xs"
  shows "run_state (parse_entries parser array indexes ys) w = ((MCL_OK, ys @ xs), w)"
  using assms(4)
proof (induction indexes xs arbitrary: ys rule: list_all2_induct)
  case (Cons i indexes x xs)
  have "run_state (parser (snd (json_children array ! i))) w = ((MCL_OK, Some x), w)"
    using Cons.hyps(1) assms(1,2) by (auto dest: reads_toD)
  then show ?case using Cons assms(2,3) by (simp add: json_util_get_array_item_def)
qed simp

lemma run_parse_array:
  assumes "reads_to says parser" and "w_alloc w = []" and "is_array says array xs"
  shows "run_state (parse_array parser array) w = ((MCL_OK, Some xs), w)"
proof -
  have all: "list_all2 (\<lambda>(k, j) x. says j x) (json_children array) xs" "json_value array = CArray"
    using assms(3) by (simp_all add: is_array_def)
  then have "list_all2 (\<lambda>i x. i < length (json_children array) \<and> says (snd (json_children array ! i)) x)
      [0..<length (json_children array)] xs"
    by (auto simp: list_all2_conv_all_nth case_prod_beta)
  from run_parse_entries [OF assms(1,2) all(2) this, of "[]"] show ?thesis
    using all(2) assms(2) by (simp add: parse_array_def json_util_get_array_size_def)
qed

lemma run_array_member:
  assumes "reads_to says parser" and "w_alloc w = []" and "says_list says json field xs"
  shows "run_state (parse_array_member parser json field) w = ((MCL_OK, Some xs), w)"
  using assms run_parse_array [OF assms(1,2)] by (auto simp: says_list_def parse_array_member_def)

section \<open>Documents\<close>

lemma reads_state: "reads_to says_state parse_workflow_state"
  by (auto simp: reads_to_def says_state_def parse_workflow_state_def reads split: option.split)

lemma reads_model_state: "reads_to says_model_state parse_workflow_model_state"
  by (auto simp: reads_to_def says_model_state_def parse_workflow_model_state_def reads split: option.split)

text \<open>An optional member that is missing is reported, and nothing is read.\<close>

definition optional_code :: "'a option \<Rightarrow> mcl_error" where
  "optional_code x = (if x = None then MCL_JSON_NON_EXISTING_CHILD else MCL_OK)"

lemma optional_code_simps [reads]:
  "optional_code (Some x) = MCL_OK" "optional_code None = MCL_JSON_NON_EXISTING_CHILD"
  "tolerate_missing (optional_code y) = MCL_OK"
  by (simp_all add: optional_code_def tolerate_missing_def)

lemma run_optional_json [reads]:
  assumes "w_alloc w = []" and "says_optional says_json json field x"
  shows "run_state (duplicate_member json field) w = ((optional_code x, x), w)"
  using assms by (cases x) (simp_all add: says_optional_def reads)

lemma run_optional_array:
  assumes "reads_to says parser" and "w_alloc w = []" and "says_optional (says_list says) json field x"
  shows "run_state (parse_array_member parser json field) w = ((optional_code x, x), w)"
  using assms run_array_member [OF assms(1,2)] by (cases x) (simp_all add: says_optional_def reads)

lemma reads_transition: "reads_to says_transition parse_workflow_model_transition"
proof (rule reads_toI)
  fix j x and w :: "'a mem_world_scheme"
  assume "says_transition j x" and "w_alloc w = []"
  then show "run_state (parse_workflow_model_transition j) w = ((MCL_OK, Some x), w)"
    by (cases "mt_details x")
      (auto simp: says_transition_def parse_workflow_model_transition_def reads split: option.split)
qed

lemma reads_name: "reads_to says_name json_util_get_string"
  by (simp add: reads_to_def says_name_def json_util_get_string_def)

lemma reads_state_group: "reads_to says_state_group parse_workflow_model_state_group"
proof (rule reads_toI)
  fix j x and w :: "'a mem_world_scheme"
  assume x: "says_state_group j x" "w_alloc w = []"
  then have "run_state (parse_array_member json_util_get_string j ''states'') w =
      ((optional_code (mg_states x), mg_states x), w)"
    by (intro run_optional_array [OF reads_name]) (simp_all add: says_state_group_def)
  with x show "run_state (parse_workflow_model_state_group j) w = ((MCL_OK, Some x), w)"
    by (cases "mg_states x")
      (auto simp: says_state_group_def parse_workflow_model_state_group_def reads split: option.split)
qed

lemma reads_model: "reads_to says_model parse_model_object"
proof (rule reads_toI)
  fix j x and w :: "'a mem_world_scheme"
  assume x: "says_model j x" "w_alloc w = []"
  have "run_state (parse_workflow_model_states j) w = ((optional_code (wm_states x), wm_states x), w)"
      "run_state (parse_workflow_model_transitions j) w = ((optional_code (wm_transitions x), wm_transitions x), w)"
      "run_state (parse_workflow_model_state_groups j) w = ((optional_code (wm_state_groups x), wm_state_groups x), w)"
      using x unfolding parse_workflow_model_states_def parse_workflow_model_transitions_def
        parse_workflow_model_state_groups_def says_model_def
      by (blast intro: run_optional_array [OF reads_model_state] run_optional_array [OF reads_transition]
          run_optional_array [OF reads_state_group])+
  with x show "run_state (parse_model_object j) w = ((MCL_OK, Some x), w)"
    by (cases "wm_states x"; cases "wm_transitions x"; cases "wm_state_groups x")
        (auto simp: says_model_def parse_model_object_def reads split: option.split)
qed

lemma run_optional_model:
  assumes "w_alloc w = []" and "says_optional (says_object says_model) json ''model'' x"
  shows "run_state (optional_field (parse_workflow_model json)) w = ((MCL_OK, x), w)"
proof (cases x)
  case (Some m)
  then obtain j where j: "json_util_get_object_item json ''model'' = Ok j" "says_model j m"
    using assms(2) by (auto simp: says_optional_def says_object_def)
  from reads_toD [OF reads_model j(2) assms(1)] j(1) Some show ?thesis
    by (simp add: optional_field_def parse_workflow_model_def reads)
qed (use assms in \<open>simp add: says_optional_def lacks_def optional_field_def parse_workflow_model_def reads\<close>)

lemma run_optional_history:
  assumes "w_alloc w = []" and "says_optional (says_list says_state) json ''history'' x"
  shows "run_state (optional_field (parse_workflow_history json)) w = ((MCL_OK, x), w)"
  using run_optional_array [OF reads_state assms]
  by (simp add: optional_field_def parse_workflow_history_def reads)

lemma run_parse_workflow:
  assumes "w_alloc w = []" and "says_rest j f"
    and "run_state (optional_field (parse_workflow_history j)) w = ((MCL_OK, wf_history f), w)"
  shows "run_state (parse_workflow j) w = ((MCL_OK, Some f), w)"
proof -
  obtain s d where s: "wf_current_state f = Some s" "says_object says_state j ''currentState'' s"
      "wf_data f = Some d" "says_json j ''data'' d"
    using assms(2) by (auto simp: says_rest_def)
  have "run_state (get_current_state j) w = ((MCL_OK, Some s), w)"
    using s(2) reads_toD [OF reads_state _ assms(1)] by (auto simp: says_object_def get_current_state_def)
  moreover have "run_state (get_workflow_data j) w = ((MCL_OK, Some d), w)"
    using assms(1) s(4) by (simp add: get_workflow_data_def reads)
  ultimately show ?thesis
    using assms s run_optional_model [OF assms(1), of j "wf_model f"]
    by (auto simp: says_rest_def parse_workflow_def reads split: option.split)
qed

lemma reads_workflow: "reads_to says_workflow parse_workflow"
  by (intro reads_toI run_parse_workflow run_optional_history) (simp_all add: says_workflow_def)

lemma reads_content: "reads_to says_workflows parse_content"
proof (rule reads_toI)
  fix j x and w :: "'a mem_world_scheme"
  assume x: "says_workflows j x" "w_alloc w = []"
  then show "run_state (parse_content j) w = ((MCL_OK, Some x), w)"
    using run_parse_array [OF reads_workflow x(2)]
    by (auto simp: says_workflows_def says_list_def parse_content_def json_util_get_array_size_def is_array_def)
qed

section \<open>Documents with gaps\<close>

lemma parse_entries_append:
  "run_state (parse_entries parser array (is @ js) xs) w =
     (case run_state (parse_entries parser array is xs) w of
        ((code, ys), w') \<Rightarrow> if code = MCL_OK then run_state (parse_entries parser array js ys) w' else ((code, ys), w'))"
proof (induction "is" arbitrary: xs w)
  case (Cons i "is")
  have "json_util_get_array_item array i \<noteq> Err MCL_OK" by (simp add: json_util_get_array_item_def)
  then show ?case
    by (auto simp: run_bind Cons split: sum.split prod.split option.split)
qed simp

text \<open>An array that is read up to an element whose parser fails.\<close>

lemma run_parse_array_fails:
  assumes "reads_to says parser" and "w_alloc w = []" and "json_value array = CArray"
    and "json_children array = good @ (k, bad) # rest" and "list_all2 (\<lambda>(k, j) x. says j x) good xs"
    and "run_state (parser bad) w = ((code, None), w)" and "code \<noteq> MCL_OK"
  shows "run_state (parse_array parser array) w = ((code, None), w)"
proof -
  have "list_all2 (\<lambda>i x. i < length (json_children array) \<and> says (snd (json_children array ! i)) x) [0..<length good] xs"
    using assms(4,5) by (auto simp: list_all2_conv_all_nth case_prod_beta nth_append)
  then have "run_state (parse_entries parser array [0..<length good] []) w = ((MCL_OK, xs), w)"
    using run_parse_entries [OF assms(1-3)] by fastforce
  moreover have "[0..<length (json_children array)] = [0..<length good] @ length good # [Suc (length good)..<length (json_children array)]"
    using assms(4) upt_add_eq_append [of 0 "length good" "Suc (length rest)"]
      upt_conv_Cons [of "length good" "length good + Suc (length rest)"] by simp
  ultimately show ?thesis
    using assms(2-4,6,7)
    by (simp add: parse_array_def json_util_get_array_size_def parse_entries_append json_util_get_array_item_def)
qed

text \<open>An entry of the history without a message.\<close>

definition silent_state :: "json \<Rightarrow> bool" where
  "silent_state json \<longleftrightarrow> (\<exists>state progress entered updated. says_text json ''state'' state \<and>
     says_number json ''progress'' progress \<and> says_text json ''entered'' entered \<and>
     says_text json ''updated'' updated) \<and> lacks json ''message''"

lemma run_silent_state:
  assumes "w_alloc w = []" and "silent_state json"
  shows "run_state (parse_workflow_state json) w = ((MCL_JSON_NON_EXISTING_CHILD, None), w)"
  using assms by (auto simp: silent_state_def parse_workflow_state_def reads)

definition broken_history :: "json \<Rightarrow> bool" where
  "broken_history json \<longleftrightarrow> (\<exists>array good xs k bad rest. json_util_get_object_item json ''history'' = Ok array \<and>
     json_value array = CArray \<and> json_children array = good @ (k, bad) # rest \<and>
     list_all2 (\<lambda>(k, j) x. says_state j x) good xs \<and> silent_state bad)"

lemma run_broken_history:
  assumes "w_alloc w = []" and "broken_history json"
  shows "run_state (optional_field (parse_workflow_history json)) w = ((MCL_OK, None), w)"
proof -
  obtain array good xs k bad rest where array: "json_util_get_object_item json ''history'' = Ok array"
      "json_value array = CArray" "json_children array = good @ (k, bad) # rest"
      "list_all2 (\<lambda>(k, j) x. says_state j x) good xs" "silent_state bad"
    using assms(2) by (auto simp: broken_history_def)
  from run_parse_array_fails [OF reads_state assms(1) array(2-4) run_silent_state [OF assms(1) array(5)]] array(1)
  show ?thesis by (simp add: optional_field_def parse_workflow_history_def parse_array_member_def reads)
qed

section \<open>Properties\<close>

text \<open>A missing field is reported only where no optional field encloses it; elsewhere it hides others and
  the parser succeeds. An entry of the history without a message, a mandatory field, takes the whole
  history away; a model without states loses its transitions and state groups; a state of the model
  without a description is neither initial nor final nor cancelling, whatever the document says.\<close>

theorem missing_fields_hide_others:
  assumes "w_alloc w = []"
  shows "(says_rest json f \<and> wf_history f = None \<and> broken_history json \<longrightarrow>
       run_state (parse_workflow json) w = ((MCL_OK, Some f), w)) \<and>
     (says_text model ''key'' key \<and> lacks model ''states'' \<longrightarrow>
       run_state (parse_model_object model) w =
         ((MCL_OK, Some \<lparr>wm_key = key, wm_states = None, wm_transitions = None, wm_state_groups = None\<rparr>), w)) \<and>
     (says_text state ''name'' name \<and> lacks state ''description'' \<longrightarrow>
       run_state (parse_workflow_model_state state) w =
         ((MCL_OK, Some \<lparr>ms_name = name, ms_description = None, ms_initial = False, ms_final = False,
            ms_cancel = False\<rparr>), w))"
proof (intro conjI impI)
  assume "says_rest json f \<and> wf_history f = None \<and> broken_history json"
  then show "run_state (parse_workflow json) w = ((MCL_OK, Some f), w)"
    using run_broken_history [OF assms] run_parse_workflow [OF assms] by simp
next
  assume model: "says_text model ''key'' key \<and> lacks model ''states''"
  then have "run_state (parse_workflow_model_states model) w = ((MCL_JSON_NON_EXISTING_CHILD, None), w)"
    by (simp add: parse_workflow_model_states_def reads)
  with assms model show "run_state (parse_model_object model) w =
      ((MCL_OK, Some \<lparr>wm_key = key, wm_states = None, wm_transitions = None, wm_state_groups = None\<rparr>), w)"
    by (auto simp: parse_model_object_def reads split: option.split)
next
  assume "says_text state ''name'' name \<and> lacks state ''description''"
  with assms show "run_state (parse_workflow_model_state state) w =
      ((MCL_OK, Some \<lparr>ms_name = name, ms_description = None, ms_initial = False, ms_final = False,
         ms_cancel = False\<rparr>), w)"
    by (auto simp: parse_workflow_model_state_def reads split: option.split)
qed

definition sample_state_json :: json where
  "sample_state_json = Json CObject [(Some ''state'', str ''RUN''), (Some ''progress'', Json (CNumber (Whole 1)) []),
     (Some ''entered'', str ''e''), (Some ''updated'', str ''u''), (Some ''message'', str ''m''),
     (Some ''details'', Json CObject [])]"

definition sample_state :: deployment_workflow_state_t where
  "sample_state = \<lparr>ws_state = Some ''RUN'', ws_progress = Whole 1, ws_entered = Some ''e'', ws_updated = Some ''u'',
     ws_message = Some ''m'', ws_details = Some (Json CObject [])\<rparr>"

text \<open>A workflow with a history of two entries, the second without a message.\<close>

definition sample_workflow_json :: json where
  "sample_workflow_json = Json CObject [(Some ''id'', str ''1''), (Some ''deviceId'', str ''d''),
     (Some ''createdAt'', str ''t''), (Some ''currentState'', sample_state_json),
     (Some ''history'', Json CArray [(None, sample_state_json),
        (None, Json CObject [(Some ''state'', str ''RUN''), (Some ''progress'', Json (CNumber (Whole 1)) []),
           (Some ''entered'', str ''e''), (Some ''updated'', str ''u'')])]),
     (Some ''data'', Json CObject [])]"

definition sample_workflow :: deployment_workflow_t where
  "sample_workflow = \<lparr>wf_id = Some ''1'', wf_device_id = Some ''d'', wf_created_at = Some ''t'',
     wf_current_state = Some sample_state, wf_history = None, wf_model = None, wf_data = Some (Json CObject [])\<rparr>"

lemma get_item_simps:
  "json_util_get_object_item (Json v []) n = Err MCL_JSON_NON_EXISTING_CHILD"
  "json_util_get_object_item (Json v ((Some m, j) # cs)) n =
     (if map lower_code n = map lower_code m then Ok j else json_util_get_object_item (Json v cs) n)"
  by (simp_all add: json_util_get_object_item_def cJSON_GetObjectItem_def same_name_def map_LOWERCASE_eq)

lemma sample_says: "says_state sample_state_json sample_state"
  by (simp add: says_state_def says_text_def says_number_def says_json_def sample_state_json_def sample_state_def
      get_item_simps lower_code_def str_def)

lemma sample_broken: "says_rest sample_workflow_json sample_workflow" "broken_history sample_workflow_json"
proof -
  show "says_rest sample_workflow_json sample_workflow"
    using sample_says by (simp add: says_rest_def says_text_def says_json_def says_object_def says_optional_def
        lacks_def sample_workflow_json_def sample_workflow_def get_item_simps lower_code_def str_def)
  let ?bad = "Json CObject [(Some ''state'', str ''RUN''), (Some ''progress'', Json (CNumber (Whole 1)) []),
    (Some ''entered'', str ''e''), (Some ''updated'', str ''u'')]"
  let ?array = "Json CArray [(None, sample_state_json), (None, ?bad)]"
  have "says_text ?bad ''state'' (Some ''RUN'')" "says_number ?bad ''progress'' (Whole 1)"
    "says_text ?bad ''entered'' (Some ''e'')" "says_text ?bad ''updated'' (Some ''u'')" "lacks ?bad ''message''"
    by (simp_all add: says_text_def says_number_def lacks_def get_item_simps lower_code_def str_def)
  then have "silent_state ?bad" unfolding silent_state_def by blast
  moreover have "json_util_get_object_item sample_workflow_json ''history'' = Ok ?array"
    by (simp add: sample_workflow_json_def get_item_simps lower_code_def)
  moreover have "json_children ?array = [(None, sample_state_json)] @ (None, ?bad) # []" by simp
  moreover have "list_all2 (\<lambda>(k, j) x. says_state j x) [(None :: string option, sample_state_json)] [sample_state]"
    using sample_says by simp
  ultimately show "broken_history sample_workflow_json" unfolding broken_history_def by (metis json_value.simps)
qed

theorem missing_fields_hide_others_witness:
  "run_state (parse_workflow sample_workflow_json) \<lparr>w_alloc = [], w_random = []\<rparr> =
     ((MCL_OK, Some sample_workflow), \<lparr>w_alloc = [], w_random = []\<rparr>) \<and>
   run_state (parse_workflow_model_state (Json CObject [(Some ''name'', str ''s''), (Some ''final'', Json (CBool True) [])]))
     \<lparr>w_alloc = [], w_random = []\<rparr> =
     ((MCL_OK, Some \<lparr>ms_name = Some ''s'', ms_description = None, ms_initial = False, ms_final = False,
        ms_cancel = False\<rparr>), \<lparr>w_alloc = [], w_random = []\<rparr>)"
proof -
  let ?s = "Json CObject [(Some ''name'', str ''s''), (Some ''final'', Json (CBool True) [])]"
  have "says_text ?s ''name'' (Some ''s'')" "lacks ?s ''description''" "wf_history sample_workflow = None"
    by (simp_all add: says_text_def lacks_def get_item_simps lower_code_def str_def sample_workflow_def)
  then show ?thesis
    using missing_fields_hide_others [of "\<lparr>w_alloc = [], w_random = []\<rparr>" sample_workflow_json sample_workflow]
      missing_fields_hide_others [of "\<lparr>w_alloc = [], w_random = []\<rparr>" _ _ _ _ ?s "Some ''s''"] sample_broken
    by simp
qed

end
