(* ===== verification/MclDeploymentProps.thy ===== *)
theory MclDeploymentProps
  imports MclDeploymentProcessor MclDeploymentDocs
begin

text \<open>
  What the deployment library promises: the addresses with their query strings, the documents in both
  directions and the requests.
\<close>

section \<open>Addresses\<close>

text \<open>The parameters of a query string and their text, separated by ampersands.\<close>

definition parameter :: "string \<Rightarrow> string option \<Rightarrow> (string \<times> string) list" where
  "parameter key value = (case value of None \<Rightarrow> [] | Some v \<Rightarrow> if v = [] then [] else [(key, v)])"

definition flag_parameters :: "deployment_workflow_filter_t \<Rightarrow> (string \<times> string) list" where
  "flag_parameters f = (if fi_model f then [(''model'', ''true'')] else []) @
     (if fi_history f then [(''history'', ''true'')] else [])"

definition list_parameters :: "deployment_workflow_filter_t \<Rightarrow> (string \<times> string) list" where
  "list_parameters f = flag_parameters f @ parameter ''currentState'' (fi_current_state f) @
     parameter ''deviceId'' (fi_device_id f) @ parameter ''group'' (fi_group f) @
     parameter ''modelKey'' (fi_model_key f)"

fun separated :: "char \<Rightarrow> (string \<times> string) list \<Rightarrow> string" where
  "separated c [] = []"
| "separated c ((key, value) # ps) = c # key @ ''='' @ value @ separated CHR ''&'' ps"

definition query_of :: "(string \<times> string) list \<Rightarrow> string" where
  "query_of ps = separated CHR ''?'' ps"

text \<open>The code writes an ampersand behind every parameter and cuts the last one off.\<close>

definition written :: "(string \<times> string) list \<Rightarrow> string" where
  "written ps = concat (map (\<lambda>(key, value). key @ ''='' @ value @ ''&'') ps)"

lemma written_simps [simp]:
  "written [] = []"
  "written ((key, value) # ps) = key @ ''='' @ value @ ''&'' @ written ps"
  "written (ps @ qs) = written ps @ written qs"
  by (simp_all add: written_def)

lemma separated_written: "ps \<noteq> [] \<Longrightarrow> separated c ps = butlast (c # written ps)"
proof (induction ps arbitrary: c)
  case (Cons p ps)
  then show ?case by (cases p; cases ps) (simp_all add: butlast_append)
qed simp

lemma run_add_query_parameter:
  assumes "length (written (parameter key v)) \<le> n"
  shows "add_query_parameter (filled w n) key v =
    Some (filled (w @ written (parameter key v)) (n - length (written (parameter key v))))"
  using assms
  by (cases v)
    (auto simp: add_query_parameter_def mcl_string_util_strlen_def parameter_def copy_text_filled)

lemma run_add_flag:
  assumes "length (written (if flag then [(key, ''true'')] else [])) \<le> n"
  shows "add_flag flag (filled w n) key =
    Some (filled (w @ written (if flag then [(key, ''true'')] else []))
      (n - length (written (if flag then [(key, ''true'')] else []))))"
  using assms run_add_query_parameter [of key "Some ''true''" n w] by (auto simp: add_flag_def parameter_def)

definition query_block :: "(string \<times> string) list \<Rightarrow> char block option" where
  "query_block ps = (if ps = [] then None else Some (map Some (cstr (query_of ps))))"

lemma written_empty [simp]: "written ps = [] \<longleftrightarrow> ps = []"
  by (cases ps) auto

lemma single_length: "single_query_length f = length (written (flag_parameters f))"
  by (simp add: single_query_length_def flag_parameters_def)

lemma list_length: "calculate_query_string_length f = length (written (list_parameters f))"
  by (auto simp: calculate_query_string_length_def list_parameters_def flag_parameters_def parameter_def
      mcl_string_util_strlen_def Let_def split: option.split)

lemma run_start_query: "start_query n = Some (filled ''?'' n)"
  using copy_text_filled [of "''?''" "n + 1" "[]"] by (simp add: start_query_def filled_def)

text \<open>A writer that fills the space for the parameters it is given, in order.\<close>

definition writes :: "(char block \<times> nat \<Rightarrow> (char block \<times> nat) option) \<Rightarrow> (string \<times> string) list \<Rightarrow> bool" where
  "writes write ps \<longleftrightarrow> (\<forall>w n. length (written ps) \<le> n \<longrightarrow>
     write (filled w n) = Some (filled (w @ written ps) (n - length (written ps))))"

lemma writes_bind: "writes f ps \<Longrightarrow> writes g qs \<Longrightarrow> writes (\<lambda>p. Option.bind (f p) g) (ps @ qs)"
  by (auto simp: writes_def)

lemma writes_parameter: "writes (\<lambda>p. add_query_parameter p key v) (parameter key v)"
  by (simp add: writes_def run_add_query_parameter)

lemma writes_flags: "writes (write_flags f) (flag_parameters f)"
  unfolding write_flags_def flag_parameters_def
  by (rule writes_bind) (simp_all add: writes_def run_add_flag)

lemma run_get_query_string:
  assumes "w_alloc w = []" and "writes write ps"
  shows "run_state (get_query_string (length (written ps)) write) w = (Some (MCL_OK, query_block ps), w)"
proof (cases "ps = []")
  case False
  define q where "q = CHR ''?'' # written ps"
  have "q \<noteq> []" "length q - 1 = length (written ps)" by (simp_all add: q_def)
  then have "(map Some q)[length (written ps) := Some MCL_NULL_CHAR] = map Some (butlast q @ [MCL_NULL_CHAR])"
    by (cases q rule: rev_cases) (auto simp: list_update_append)
  then have "store (map Some q) (length (written ps)) MCL_NULL_CHAR = Some (map Some (cstr (query_of ps)))"
    using separated_written [OF False, of "CHR ''?''"] by (simp add: store_def query_of_def cstr_def q_def)
  moreover have "write (filled ''?'' (length (written ps))) = Some (filled q 0)"
    using assms(2) by (simp add: writes_def q_def)
  moreover have "fst (filled q 0) = map Some q" by (simp add: filled_def fresh_block_def)
  ultimately show ?thesis
    using False assms(1) by (simp add: get_query_string_def run_start_query query_block_def)
qed (use assms(1) in \<open>simp add: get_query_string_def query_block_def\<close>)

lemma run_single_query:
  assumes "w_alloc w = []"
  shows "run_state (get_query_string_for_single_workflow f) w = (Some (MCL_OK, query_block (flag_parameters f)), w)"
  using run_get_query_string [OF assms writes_flags]
  by (simp add: get_query_string_for_single_workflow_def single_length)

lemma run_list_query:
  assumes "w_alloc w = []"
  shows "run_state (get_query_string_for_list_of_workflows f) w = (Some (MCL_OK, query_block (list_parameters f)), w)"
  unfolding get_query_string_for_list_of_workflows_def list_length
  by (rule run_get_query_string [OF assms])
    (unfold list_parameters_def, intro writes_bind writes_flags writes_parameter)

text \<open>Copies into a block of which the first cells hold the text \<open>w\<close>.\<close>

lemma copy_string_rest:
  assumes "length t < length rest"
  shows "copy_string (Some t) (map Some w @ rest, length w) =
    Some (map Some (w @ t) @ Some MCL_NULL_CHAR # drop (Suc (length t)) rest, length (w @ t))"
  using assms memcpy_step [of "Suc (length t)" "cstr t" rest "map Some w"] by (simp add: copy_string_def cstr_def)

lemma run_append_query:
  assumes "length q \<le> length rest"
  shows "append_query q (map Some w @ Some MCL_NULL_CHAR # rest, length w) =
    Some (map Some (w @ q) @ Some MCL_NULL_CHAR # drop (length q) rest, length (w @ q))"
  using assms copy_string_rest [of q "Some MCL_NULL_CHAR # rest" w] by (simp add: append_query_def)

definition filter_ok :: "deployment_workflow_filter_t option \<Rightarrow> bool" where
  "filter_ok flt = (case flt of None \<Rightarrow> True | Some f \<Rightarrow>
     \<forall>p \<in> {fi_current_state f, fi_group f, fi_device_id f, fi_model_key f}. \<forall>s. p = Some s \<longrightarrow> cstring s)"

text \<open>The query strings of an optional filter.\<close>

definition single_query :: "deployment_workflow_filter_t option \<Rightarrow> string" where
  "single_query flt = (case flt of None \<Rightarrow> [] | Some f \<Rightarrow> query_of (flag_parameters f))"

definition list_query :: "deployment_workflow_filter_t option \<Rightarrow> string" where
  "list_query flt = (case flt of None \<Rightarrow> [] | Some f \<Rightarrow> query_of (list_parameters f))"

lemma cstring_simps:
  "cstring []" "cstring (c # s) \<longleftrightarrow> c \<noteq> MCL_NULL_CHAR \<and> cstring s" "cstring (s @ t) \<longleftrightarrow> cstring s \<and> cstring t"
  by (auto simp: cstring_def)

lemma cstring_separated:
  "c \<noteq> MCL_NULL_CHAR \<Longrightarrow> \<forall>(key, v) \<in> set ps. cstring key \<and> cstring v \<Longrightarrow> cstring (separated c ps)"
  by (induction c ps rule: separated.induct) (auto simp: cstring_simps MCL_NULL_CHAR_def)

lemma cstring_flag_query: "cstring (query_of (flag_parameters f))"
  unfolding query_of_def
  by (rule cstring_separated) (auto simp: flag_parameters_def cstring_simps MCL_NULL_CHAR_def)

lemma cstring_list_query: "filter_ok (Some f) \<Longrightarrow> cstring (query_of (list_parameters f))"
  unfolding query_of_def
  by (rule cstring_separated)
    (auto simp: list_parameters_def flag_parameters_def parameter_def cstring_simps MCL_NULL_CHAR_def filter_ok_def
      split: option.splits if_splits)

lemma cstring_queries:
  "cstring (single_query flt)" "filter_ok flt \<Longrightarrow> cstring (list_query flt)"
  by (auto simp: single_query_def list_query_def cstring_flag_query cstring_list_query cstring_simps split: option.split)

lemma query_text_block: "cstring (query_of ps) \<Longrightarrow> query_text MCL_OK (query_block ps) = Some (query_of ps)"
  by (auto simp: query_text_def query_block_def block_string_exact) (simp_all add: query_of_def)

lemma run_get_url:
  assumes "w_alloc w = []" and "run_state getter w = (Some (MCL_OK, query), w)" and "query_text MCL_OK query = Some q"
    and "write q (fresh_block (n + length q + 1), 0) = Some (map Some (cstr u), p)"
  shows "run_state (get_url getter n write) w = (Some (MCL_OK, Some (map Some (cstr u))), w)"
  using assms by (simp add: get_url_def Let_def)

lemma run_list_url:
  assumes "w_alloc w = []" and "filter_ok flt"
  shows "run_state (get_url_to_list_workflows (Some path) flt) w =
    (Some (MCL_OK, Some (map Some (cstr (path @ list_query flt)))), w)"
proof -
  let ?getter = "case flt of None \<Rightarrow> State_Monad.return (Some (MCL_OK, None)) | Some f \<Rightarrow> get_query_string_for_list_of_workflows f"
  obtain query where query: "run_state ?getter w = (Some (MCL_OK, query), w)" "query_text MCL_OK query = Some (list_query flt)"
    using assms query_text_block [OF cstring_list_query]
    by (cases flt) (auto simp: run_list_query list_query_def query_text_def)
  have "append_query (list_query flt) (map Some path @ Some MCL_NULL_CHAR # fresh_block (length (list_query flt)), length path) =
      Some (map Some (cstr (path @ list_query flt)), length (path @ list_query flt))"
    by (subst run_append_query) (simp_all add: fresh_block_def cstr_def)
  moreover have "copy_string (Some path) (fresh_block (length path + length (list_query flt) + 1), 0) =
      Some (map Some path @ Some MCL_NULL_CHAR # fresh_block (length (list_query flt)), length path)"
    using copy_string_rest [of path "fresh_block (length path + length (list_query flt) + 1)" "[]"]
    by (simp add: fresh_block_def)
  ultimately show ?thesis
    unfolding get_url_to_list_workflows_def
    by (intro run_get_url [OF assms(1) query]) (simp add: mcl_string_util_strlen_def)
qed

lemma run_single_url:
  assumes "w_alloc w = []"
  shows "run_state (get_url_to_get_patch_workflow (Some path) i flt) w =
    (Some (MCL_OK, Some (map Some (cstr (path @ ''/'' @ i @ single_query flt)))), w)"
proof -
  let ?getter = "case flt of None \<Rightarrow> State_Monad.return (Some (MCL_OK, None)) | Some f \<Rightarrow> get_query_string_for_single_workflow f"
  let ?q = "single_query flt"
  obtain query where query: "run_state ?getter w = (Some (MCL_OK, query), w)" "query_text MCL_OK query = Some ?q"
    using assms query_text_block [OF cstring_flag_query]
    by (cases flt) (auto simp: run_single_query single_query_def query_text_def)
  define base where "base = path @ ''/''"
  let ?n = "length base + length i + length ?q"
  have "copy_text (Some path) (fresh_block (?n + 1), 0) =
      Some (map Some path @ fresh_block (1 + length i + length ?q + 1), length path)"
    using copy_text_filled [of path "?n + 1" "[]"] by (simp add: filled_def base_def)
  moreover have "copy_text (Some ''/'') (map Some path @ fresh_block (1 + length i + length ?q + 1), length path) =
      Some (map Some base @ fresh_block (length i + length ?q + 1), length base)"
    using copy_text_filled [of "''/''" "1 + length i + length ?q + 1" path] by (simp add: filled_def base_def)
  moreover have "copy_string (Some i) (map Some base @ fresh_block (length i + length ?q + 1), length base) =
      Some (map Some (base @ i) @ Some MCL_NULL_CHAR # fresh_block (length ?q), length (base @ i))"
    by (subst copy_string_rest) (simp_all add: fresh_block_def)
  moreover have "append_query ?q (map Some (base @ i) @ Some MCL_NULL_CHAR # fresh_block (length ?q), length (base @ i)) =
      Some (map Some (cstr (path @ ''/'' @ i @ ?q)), length (base @ i @ ?q))"
    by (subst run_append_query) (simp_all add: fresh_block_def cstr_def base_def)
  ultimately show ?thesis
    unfolding get_url_to_get_patch_workflow_def
    by (intro run_get_url [OF assms(1) query]) (simp add: mcl_string_util_strlen_def base_def)
qed

section \<open>Requests\<close>

definition plain_message :: "E_MCL_HTTP_METHOD \<Rightarrow> string \<Rightarrow> mcl_http_request_t" where
  "plain_message method url = \<lparr>rq_header = [], rq_payload = None, rq_payload_size = 0, rq_method = method,
     rq_uri = Some url, rq_stream_callback = None, rq_stream_data = None\<rparr>"

text \<open>The headers of every request.\<close>

definition authorized :: "string \<Rightarrow> mcl_http_request_t \<Rightarrow> mcl_http_request_t" where
  "authorized token rq = rq\<lparr>rq_header := rq_header rq @ [''Authorization: Bearer '' @ token, ''Accept: application/json'']\<rparr>"

lemma run_start_request:
  assumes "w_alloc w = []" and "method \<noteq> MCL_HTTP_END" and "cstring url"
    and "run_state getter w = (Some (MCL_OK, Some (map Some (cstr url))), w)"
  shows "run_state (start_request method getter) w = (Some (MCL_OK, Some (plain_message method url)), w)"
  using assms
  by (simp add: start_request_def mcl_http_request_initialize_def run_set_parameter block_string_exact plain_message_def)

lemma run_finish_request:
  assumes "w_alloc w = []" and "pr_access_token p = Some token"
  shows "run_state (finish_request p MCL_OK (Some rq)) w = (Some (next_answer w), sent (authorized token rq) w)"
  using assms
  by (simp add: finish_request_def deployment_add_authorization_header_def run_add_header send_if_ok_def
      run_http_client_send authorized_def)

lemma run_finish_failed:
  assumes "code \<noteq> MCL_OK"
  shows "run_state (finish_request p code rq) w = (Some (Err code), w)"
  using assms by (simp add: finish_request_def send_if_ok_def)

text \<open>
  What the caller gets for an answer: what the document of an answer 200 says, otherwise an error and
  nothing.
\<close>

definition outcome ::
  "(string \<Rightarrow> json option) \<Rightarrow> (json \<Rightarrow> 'a \<Rightarrow> bool) \<Rightarrow> mcl_http_response_t result \<Rightarrow> mcl_error \<Rightarrow> 'a option \<Rightarrow> bool" where
  "outcome cJSON_parse says answer code x \<longleftrightarrow>
     (case answer of
        Err e \<Rightarrow> code = e \<and> x = None
      | Ok response \<Rightarrow>
          if rs_status_code response \<noteq> 200 then code = mcl_http_response_get_status (Some response) \<and> x = None
          else (case rs_payload response of
              None \<Rightarrow> code = MCL_TRIGGERED_WITH_NULL \<and> x = None
            | Some document \<Rightarrow>
                (case json_util_parse cJSON_parse document (rs_payload_size response) of
                   Err e \<Rightarrow> code = e \<and> x = None
                 | Ok json \<Rightarrow> code = MCL_OK \<and> (\<exists>y. x = Some y \<and> says json y))))"

lemma run_evaluate_answer:
  assumes "w_alloc w = []" and "reads_to says parser" and "outcome cJSON_parse says answer code x"
  shows "run_state (evaluate_answer (deployment_json_parse cJSON_parse parser) (Some answer)) w = (Some (code, x), w)"
proof (cases answer)
  case (Inr response)
  then show ?thesis
    using assms reads_toD [OF assms(2) _ assms(1)]
    by (auto simp: evaluate_answer_def outcome_def deployment_json_parse_def http_status_codes
        split: option.splits sum.splits)
qed (use assms(3) in \<open>simp add: evaluate_answer_def outcome_def\<close>)

lemma alloc_sent [simp]: "w_alloc (sent rq w) = w_alloc w"
  by (simp add: sent_def)

lemma run_list_workflows:
  assumes "w_alloc w = []" and "pr_access_token p = Some token" and "pr_workflow_instances_url p = Some url"
    and "cstring url" and "filter_ok flt" and "outcome cJSON_parse says_workflows (next_answer w) code x"
  shows "run_state (deployment_processor_list_workflows cJSON_parse p flt) w =
    (Some (code, x), sent (authorized token (plain_message MCL_HTTP_GET (url @ list_query flt))) w)"
proof -
  have "cstring (url @ list_query flt)" using assms(4) cstring_queries(2) [OF assms(5)] by (simp add: cstring_simps)
  note start = run_start_request [OF assms(1) _ this run_list_url [OF assms(1,5)], of MCL_HTTP_GET]
  let ?w = "sent (authorized token (plain_message MCL_HTTP_GET (url @ list_query flt))) w"
  have "run_state (evaluate_answer (deployment_json_parse cJSON_parse parse_content) (Some (next_answer w))) ?w =
      (Some (code, x), ?w)"
    by (rule run_evaluate_answer [OF _ reads_content assms(6)]) (simp add: assms(1))
  with start run_finish_request [OF assms(1,2)] assms(3)
  show ?thesis
    by (simp add: deployment_processor_list_workflows_def deployment_json_parse_workflows_def [abs_def])
qed

lemma run_get_workflow:
  assumes "w_alloc w = []" and "pr_access_token p = Some token" and "pr_workflow_instances_url p = Some url"
    and "cstring url" and "cstring i" and "outcome cJSON_parse says_workflow (next_answer w) code x"
  shows "run_state (deployment_processor_get_workflow cJSON_parse p i flt) w =
    (Some (code, x), sent (authorized token (plain_message MCL_HTTP_GET (url @ ''/'' @ i @ single_query flt))) w)"
proof -
  have "cstring (url @ ''/'' @ i @ single_query flt)"
    using assms(4,5) cstring_queries(1) [of flt] by (simp add: cstring_simps MCL_NULL_CHAR_def)
  note start = run_start_request [OF assms(1) _ this run_single_url [OF assms(1)], of MCL_HTTP_GET]
  let ?w = "sent (authorized token (plain_message MCL_HTTP_GET (url @ ''/'' @ i @ single_query flt))) w"
  have "run_state (evaluate_answer (deployment_json_parse cJSON_parse parse_workflow) (Some (next_answer w))) ?w =
      (Some (code, x), ?w)"
    by (rule run_evaluate_answer [OF _ reads_workflow assms(6)]) (simp add: assms(1))
  with start run_finish_request [OF assms(1,2)] assms(3)
  show ?thesis
    by (simp add: deployment_processor_get_workflow_def deployment_json_parse_workflow_def [abs_def])
qed

section \<open>The report of a state\<close>

definition state_json :: "deployment_workflow_state_t \<Rightarrow> string \<Rightarrow> string \<Rightarrow> json" where
  "state_json s state message = Json CObject [(Some ''state'', str state),
     (Some ''progress'', Json (CNumber (ws_progress s)) []), (Some ''message'', str message),
     (Some ''details'', case ws_details s of None \<Rightarrow> Json CObject [] | Some d \<Rightarrow> d)]"

lemma run_state_document:
  assumes "w_alloc w = []" and "ws_state s = Some state" and "ws_message s = Some message"
  shows "run_state (deployment_json_from_workflow_state s) w =
    ((MCL_OK, Some (json_print (state_json s state message))), w)"
  using assms
  by (cases "ws_details s")
    (simp_all add: deployment_json_from_workflow_state_def add_details_def state_json_def build fresh_name_def
      lower_code_def mcl_json_util_add_double_def json_util_add_double_def add_number_def json_util_add_leaf_def
      fresh_name_get)

definition state_message :: "string \<Rightarrow> deployment_workflow_state_t \<Rightarrow> string \<Rightarrow> string \<Rightarrow> mcl_http_request_t" where
  "state_message url s state message = (let body = json_print (state_json s state message) in
     (plain_message MCL_HTTP_PATCH url)\<lparr>rq_header := [''Content-Type: application/json''],
       rq_payload := Some (map Some (cstr body)), rq_payload_size := length body\<rparr>)"

lemma run_state_body:
  assumes "w_alloc w = []" and "ws_state s = Some state" and "ws_message s = Some message"
  shows "run_state (state_body s MCL_OK (Some (plain_message MCL_HTTP_PATCH url))) w =
    ((MCL_OK, Some (state_message url s state message)), w)"
  using assms run_state_document [OF assms]
  by (simp add: state_body_def deployment_workflow_state_validate_def run_set_parameter run_add_header
      mcl_string_util_strlen_def state_message_def plain_message_def Let_def)

lemma run_state_body_refused:
  assumes "deployment_workflow_state_validate s = MCL_INVALID_PARAMETER"
  shows "run_state (state_body s MCL_OK rq) w = ((MCL_INVALID_PARAMETER, rq), w)"
  using assms by (simp add: state_body_def)

lemma run_update_workflow:
  assumes "w_alloc w = []" and "pr_access_token p = Some token" and "pr_workflow_instances_url p = Some url"
    and "cstring url" and "cstring i" and "ws_state s = Some state" and "ws_message s = Some message"
    and "outcome cJSON_parse says_workflow (next_answer w) code x"
  shows "run_state (deployment_processor_update_workflow cJSON_parse p i s flt) w =
    (Some (code, x), sent (authorized token (state_message (url @ ''/'' @ i @ single_query flt) s state message)) w)"
proof -
  have "cstring (url @ ''/'' @ i @ single_query flt)"
    using assms(4,5) cstring_queries(1) [of flt] by (simp add: cstring_simps MCL_NULL_CHAR_def)
  note start = run_start_request [OF assms(1) _ this run_single_url [OF assms(1)], of MCL_HTTP_PATCH]
  let ?w = "sent (authorized token (state_message (url @ ''/'' @ i @ single_query flt) s state message)) w"
  have "run_state (evaluate_answer (deployment_json_parse cJSON_parse parse_workflow) (Some (next_answer w))) ?w =
      (Some (code, x), ?w)"
    by (rule run_evaluate_answer [OF _ reads_workflow assms(8)]) (simp add: assms(1))
  with start run_finish_request [OF assms(1,2)] assms(3) run_state_body [OF assms(1,6,7)]
  show ?thesis
    by (simp add: deployment_processor_update_workflow_def deployment_json_parse_workflow_def [abs_def])
qed

lemma run_update_refused:
  assumes "w_alloc w = []" and "pr_workflow_instances_url p = Some url" and "cstring url" and "cstring i"
    and "deployment_workflow_state_validate s = MCL_INVALID_PARAMETER"
  shows "run_state (deployment_processor_update_workflow cJSON_parse p i s flt) w = (Some (MCL_INVALID_PARAMETER, None), w)"
proof -
  have "cstring (url @ ''/'' @ i @ single_query flt)"
    using assms(3,4) cstring_queries(1) [of flt] by (simp add: cstring_simps MCL_NULL_CHAR_def)
  from run_start_request [OF assms(1) _ this run_single_url [OF assms(1)], of MCL_HTTP_PATCH]
    assms(2)
  show ?thesis
    by (simp add: deployment_processor_update_workflow_def evaluate_answer_def
        run_state_body_refused [OF assms(5)] run_finish_failed)
qed

section \<open>The handle\<close>

text \<open>What a program does to get a handle, and the handle it gets.\<close>

definition deploy :: "cores \<Rightarrow> nat \<Rightarrow> ('z, (mcl_error \<times> deployment_t option) option) io" where
  "deploy cores core = do {
     (code, configuration) \<leftarrow> mcl_deployment_configuration_initialize;
     r \<leftarrow> mcl_deployment_configuration_set_parameter cores configuration
       (Some (MCL_DEPLOYMENT_CONFIGURATION_PARAMETER_CORE core));
     case r of
       None \<Rightarrow> State_Monad.return None
     | Some (code, configuration) \<Rightarrow> mcl_deployment_initialize cores configuration None
   }"

definition instances_url :: "string \<Rightarrow> string" where
  "instances_url hostname = hostname @ ''/api/deploymentworkflow/v3/instances''"

definition deployment_of :: "nat \<Rightarrow> string \<Rightarrow> string option \<Rightarrow> deployment_t" where
  "deployment_of core hostname token =
     \<lparr>dh_configuration = \<lparr>dc_core = Some core, dc_workflow_instances_url = Some (instances_url hostname)\<rparr>,
      dh_access_token = token, dh_workflow_instances_url = Some (instances_url hostname)\<rparr>"

lemma run_deploy:
  assumes "w_alloc w = []" and "cores core = Some c" and "cc_mindsphere_hostname (core_configuration c) = Some hostname"
  shows "run_state (deploy cores core) w = (Some (MCL_OK, Some (deployment_of core hostname None)), w)"
  using assms
  by (simp add: deploy_def mcl_deployment_configuration_initialize_def mcl_deployment_configuration_set_parameter_def
      set_deployment_configuration_core_parameter_def mcl_core_get_host_name_def reset_field_def
      mcl_deployment_initialize_def deployment_configuration_validate_def deployment_of_def instances_url_def
      workflow_instances_endpoint_def)

lemma run_with_deployment:
  assumes "w_alloc w = []" and "cores core = Some c" and "has_token c token"
  shows "run_state (with_deployment_processor cores (deployment_of core hostname old) operation) w =
    (case run_state (operation \<lparr>pr_access_token = Some token,
         pr_workflow_instances_url = Some (instances_url hostname)\<rparr>) w of
       (r, w') \<Rightarrow> (map_option (\<lambda>(code, x). (code, Some (deployment_of core hostname (Some token)), x)) r, w'))"
  using assms
  by (auto simp: with_deployment_processor_def mcl_core_get_last_access_token_def mcl_core_is_onboarded_def
      has_token_def reset_field_def run_bind Let_def deployment_of_def split: prod.splits)

lemma cstring_instances_url: "cstring hostname \<Longrightarrow> cstring (instances_url hostname)"
  by (simp add: instances_url_def cstring_simps MCL_NULL_CHAR_def)

section \<open>Properties\<close>

text \<open>C37. The addresses of the deployment service: the address of the instances, for one workflow a slash and its
  id, and the parameters of the filter that are set, of which only the flags go to a single workflow:
  a question mark, then names and values, separated by ampersands. Query string and address fill
  the blocks that were allocated for them exactly.\<close>

theorem workflow_addresses_exact:
  assumes "w_alloc w = []" and "filter_ok (Some f)"
  shows "run_state (get_url_to_list_workflows (Some path) (Some f)) w =
      (Some (MCL_OK, Some (map Some (cstr (path @ separated CHR ''?'' (list_parameters f))))), w) \<and>
    run_state (get_url_to_get_patch_workflow (Some path) workflow_id (Some f)) w =
      (Some (MCL_OK, Some (map Some (cstr (path @ ''/'' @ workflow_id @ separated CHR ''?'' (flag_parameters f))))), w) \<and>
    run_state (get_query_string_for_list_of_workflows f) w =
      (Some (MCL_OK, if list_parameters f = [] then None
         else Some (map Some (cstr (separated CHR ''?'' (list_parameters f))))), w)"
  using run_list_url [OF assms, of path] run_single_url [OF assms(1), of path workflow_id "Some f"] run_list_query [OF assms(1), of f]
  by (simp add: list_query_def single_query_def query_of_def query_block_def)

definition sample_filter :: deployment_workflow_filter_t where
  "sample_filter = \<lparr>fi_model = False, fi_history = True, fi_current_state = Some ''RUN'', fi_group = Some [],
     fi_device_id = None, fi_model_key = Some ''k''\<rparr>"

theorem workflow_addresses_exact_witness:
  "run_state (get_url_to_list_workflows (Some ''h'') (Some sample_filter)) \<lparr>w_alloc = [], w_random = []\<rparr> =
     (Some (MCL_OK, Some (map Some (cstr ''h?history=true&currentState=RUN&modelKey=k''))),
      \<lparr>w_alloc = [], w_random = []\<rparr>)"
  using workflow_addresses_exact [of "\<lparr>w_alloc = [], w_random = []\<rparr>" sample_filter "''h''"]
  by (simp add: filter_ok_def sample_filter_def cstring_simps MCL_NULL_CHAR_def list_parameters_def
      flag_parameters_def parameter_def)

text \<open>Values are not escaped: an ampersand in one of them makes parameters of its own.\<close>

theorem unescaped_filters_collide:
  assumes "w_alloc w = []"
  shows "run_state (get_url_to_list_workflows (Some path) (Some (sample_filter\<lparr>fi_group := Some ''a&modelKey=k'', fi_model_key := None\<rparr>))) w =
    run_state (get_url_to_list_workflows (Some path) (Some (sample_filter\<lparr>fi_group := Some ''a'', fi_model_key := Some ''k''\<rparr>))) w"
proof -
  have ok: "filter_ok (Some (sample_filter\<lparr>fi_group := Some ''a&modelKey=k'', fi_model_key := None\<rparr>))"
    "filter_ok (Some (sample_filter\<lparr>fi_group := Some ''a'', fi_model_key := Some ''k''\<rparr>))"
    by (simp_all add: filter_ok_def sample_filter_def cstring_simps MCL_NULL_CHAR_def)
  show ?thesis
    unfolding run_list_url [OF assms ok(1)] run_list_url [OF assms ok(2)]
    by (simp add: list_query_def query_of_def list_parameters_def flag_parameters_def parameter_def sample_filter_def)
qed

text \<open>C12. From the configuration to the answers: with the handle for a core, the workflows are asked for
  at the host of that core in one GET request with the access token that the core holds at the moment,
  and so is, afterwards, one workflow under its id, with the token the core holds then. Each time the
  caller gets the code of the answer and exactly what its document says, when it is an answer 200: the
  listed workflows in order, or the workflow; otherwise nothing. (No allocation fails; the document of
  an answer 200 is a list of workflows, or a workflow, or is none; a document that lacks members is
  read as \<open>missing_fields_hide_others\<close> says.)\<close>

theorem workflow_requests_exact:
  assumes "w_alloc w = []" and "cores core = Some c" and "cc_mindsphere_hostname (core_configuration c) = Some hostname"
    and "cstring hostname" and "filter_ok flt" and "cstring workflow_id"
    and "cores' core = Some c'" and "has_token c' token" and "cores'' core = Some c''" and "has_token c'' token'"
    and "outcome cJSON_parse says_workflows (next_answer w) code workflows"
    and "outcome cJSON_parse says_workflow (next_answer (w\<lparr>w_answers := tl (w_answers w)\<rparr>)) code' workflow"
  shows "\<exists>d d1 d2 w1. run_state (deploy cores core) w = (Some (MCL_OK, Some d), w) \<and>
    run_state (mcl_deployment_list_workflows cJSON_parse cores' (Some d) flt) w =
      (Some (code, Some d1, workflows), w1) \<and>
    w1 = sent (authorized token (plain_message MCL_HTTP_GET (instances_url hostname @ list_query flt))) w \<and>
    run_state (mcl_deployment_get_workflow cJSON_parse cores'' (Some d1) (Some workflow_id) flt') w1 =
      (Some (code', Some d2, workflow),
       sent (authorized token' (plain_message MCL_HTTP_GET
         (instances_url hostname @ ''/'' @ workflow_id @ single_query flt'))) w1)"
proof (intro exI conjI)
  let ?d = "deployment_of core hostname"
  show "run_state (deploy cores core) w = (Some (MCL_OK, Some (?d None)), w)"
    using assms(1-3) by (rule run_deploy)
  let ?p = "\<lambda>t. \<lparr>pr_access_token = Some t, pr_workflow_instances_url = Some (instances_url hostname)\<rparr>"
  have p: "pr_access_token (?p t) = Some t" "pr_workflow_instances_url (?p t) = Some (instances_url hostname)" for t
    by simp_all
  note url = cstring_instances_url [OF assms(4)]
  let ?w1 = "sent (authorized token (plain_message MCL_HTTP_GET (instances_url hostname @ list_query flt))) w"
  show "run_state (mcl_deployment_list_workflows cJSON_parse cores' (Some (?d None)) flt) w =
      (Some (code, Some (?d (Some token)), workflows), ?w1)"
    using run_list_workflows [OF assms(1) p url assms(5,11)]
    by (simp add: mcl_deployment_list_workflows_def run_with_deployment [where cores = cores' and core = core, OF assms(1,7,8)])
  have w1: "w_alloc ?w1 = []" using assms(1) by (simp add: sent_def)
  have answer: "outcome cJSON_parse says_workflow (next_answer ?w1) code' workflow"
    using assms(12) by (simp add: sent_def next_answer_def)
  show "run_state (mcl_deployment_get_workflow cJSON_parse cores'' (Some (?d (Some token))) (Some workflow_id) flt') ?w1 =
      (Some (code', Some (?d (Some token')), workflow),
       sent (authorized token' (plain_message MCL_HTTP_GET
         (instances_url hostname @ ''/'' @ workflow_id @ single_query flt'))) ?w1)"
    using run_get_workflow [OF w1 p url assms(6) answer]
    by (simp add: mcl_deployment_get_workflow_def run_with_deployment [where cores = cores'' and core = core, OF w1 assms(9,10)])
qed (rule refl)

text \<open>The document of a workflow, the document of the list of it, and a parser that reads both.\<close>

definition workflow_document :: json where
  "workflow_document = Json CObject [(Some ''createdAt'', str ''t''), (Some ''id'', str ''1''), (Some ''deviceId'', Json CNull []),
     (Some ''currentState'', sample_state_json), (Some ''history'', Json CArray [(None, sample_state_json)]),
     (Some ''data'', Json CObject [])]"

definition listed_workflow :: deployment_workflow_t where
  "listed_workflow = \<lparr>wf_id = Some ''1'', wf_device_id = None, wf_created_at = Some ''t'',
     wf_current_state = Some sample_state, wf_history = Some [sample_state], wf_model = None,
     wf_data = Some (Json CObject [])\<rparr>"

definition workflows_document :: json where
  "workflows_document = Json CObject [(Some ''content'', Json CArray [(None, workflow_document)]),
     (Some ''page'', Json CObject [])]"

definition read_documents :: "string \<Rightarrow> json option" where
  "read_documents s = (if s = ''list'' then Some workflows_document else if s = ''one'' then Some workflow_document else None)"

lemma document_says:
  "says_workflow workflow_document listed_workflow" "says_workflows workflows_document [listed_workflow]"
proof -
  show one: "says_workflow workflow_document listed_workflow"
    using sample_says by (simp add: says_workflow_def says_rest_def says_text_def says_object_def says_json_def
        says_optional_def says_list_def is_array_def lacks_def workflow_document_def listed_workflow_def
        get_item_simps lower_code_def str_def)
  then show "says_workflows workflows_document [listed_workflow]"
    by (simp add: says_workflows_def says_list_def is_array_def workflows_document_def get_item_simps lower_code_def)
qed

text \<open>A server that answers with the list, then with the workflow.\<close>

definition answer_text :: "string \<Rightarrow> mcl_http_response_t result" where
  "answer_text s = Ok \<lparr>rs_header = [], rs_payload = Some s, rs_payload_size = length s, rs_status_code = 200\<rparr>"

definition workflow_world :: net_world where
  "workflow_world = quiet_world\<lparr>w_answers := [answer_text ''list'', answer_text ''one'']\<rparr>"

lemma answers_say:
  "outcome read_documents says_workflow (answer_text ''one'') MCL_OK (Some listed_workflow)"
  "outcome read_documents says_workflows (answer_text ''list'') MCL_OK (Some [listed_workflow])"
  using document_says
  by (simp_all add: answer_text_def outcome_def json_util_parse_def read_documents_def)

lemma workflow_world_facts:
  "w_alloc workflow_world = []" "next_answer workflow_world = answer_text ''list''"
  "next_answer (workflow_world\<lparr>w_answers := tl (w_answers workflow_world)\<rparr>) = answer_text ''one''"
  by (simp_all add: workflow_world_def quiet_world_def next_answer_def)

theorem workflow_requests_exact_witness:
  "\<exists>d d1 d2 w1 w2. run_state (deploy [0 \<mapsto> token_core ''old''] 0) workflow_world = (Some (MCL_OK, Some d), workflow_world) \<and>
     run_state (mcl_deployment_list_workflows read_documents [0 \<mapsto> token_core ''new''] (Some d)
       (Some sample_filter)) workflow_world = (Some (MCL_OK, Some d1, Some [listed_workflow]), w1) \<and>
     run_state (mcl_deployment_get_workflow read_documents [0 \<mapsto> token_core ''newer''] (Some d1) (Some ''1'') None) w1 =
       (Some (MCL_OK, Some d2, Some listed_workflow), w2) \<and>
     map rq_uri (w_sent w2) =
       [Some ''h/api/deploymentworkflow/v3/instances?history=true&currentState=RUN&modelKey=k'',
        Some ''h/api/deploymentworkflow/v3/instances/1'']"
proof -
  have c: "[0 \<mapsto> token_core t] 0 = Some (token_core t)" for t by simp
  have ok: "cstring ''h''" "cstring ''1''" "filter_ok (Some sample_filter)"
    by (simp_all add: cstring_simps MCL_NULL_CHAR_def filter_ok_def sample_filter_def)
  have answers: "outcome read_documents says_workflows (next_answer workflow_world) MCL_OK (Some [listed_workflow])"
    "outcome read_documents says_workflow (next_answer (workflow_world\<lparr>w_answers := tl (w_answers workflow_world)\<rparr>))
       MCL_OK (Some listed_workflow)"
    unfolding workflow_world_facts(2,3) by (rule answers_say)+
  from workflow_requests_exact [where core = 0 and cores = "[0 \<mapsto> token_core ''old'']" and cores' = "[0 \<mapsto> token_core ''new'']"
      and cores'' = "[0 \<mapsto> token_core ''newer'']" and flt' = None, OF workflow_world_facts(1) c token_core_facts(1) ok(1,3,2)
      c token_core_facts(2) c token_core_facts(2) answers]
  show ?thesis
    by (fastforce simp: workflow_world_def quiet_world_def authorized_def plain_message_def instances_url_def list_query_def
        single_query_def query_of_def list_parameters_def flag_parameters_def parameter_def sample_filter_def)
qed

text \<open>C36. A complete state is reported in one PATCH request to the address of the workflow: the body is the
  printed document with state, progress, message and details, an empty object without details, and its
  size is the length of the text. The caller gets what the document of the answer says. A state without
  a name or without a message is refused and nothing is sent.\<close>

theorem workflow_update_exact:
  assumes "w_alloc w = []" and "cores core = Some c" and "has_token c token" and "cstring hostname" and "cstring workflow_id"
    and "outcome cJSON_parse says_workflow (next_answer w) code workflow"
  shows "run_state (mcl_deployment_update_workflow cJSON_parse cores (Some (deployment_of core hostname old))
      (Some workflow_id) (Some s) flt) w =
    (case (ws_state s, ws_message s) of
       (Some state, Some message) \<Rightarrow>
         (Some (code, Some (deployment_of core hostname (Some token)), workflow),
          sent (authorized token (state_message
            (instances_url hostname @ ''/'' @ workflow_id @ single_query flt) s state message)) w)
     | _ \<Rightarrow> (Some (MCL_INVALID_PARAMETER, Some (deployment_of core hostname (Some token)), None), w))"
proof -
  let ?p = "\<lparr>pr_access_token = Some token, pr_workflow_instances_url = Some (instances_url hostname)\<rparr>"
  have p: "pr_access_token ?p = Some token" "pr_workflow_instances_url ?p = Some (instances_url hostname)" by simp_all
  note url = cstring_instances_url [OF assms(4)]
  show ?thesis
  proof (cases "deployment_workflow_state_validate s = MCL_OK")
    case True
    then obtain state message where s: "ws_state s = Some state" "ws_message s = Some message"
      by (auto simp: deployment_workflow_state_validate_def split: if_splits)
    show ?thesis
      using run_update_workflow [OF assms(1) p url assms(5) s assms(6)] s
      by (simp add: mcl_deployment_update_workflow_def run_with_deployment [where cores = cores and core = core, OF assms(1-3)])
  next
    case False
    then have "deployment_workflow_state_validate s = MCL_INVALID_PARAMETER" "ws_state s = None \<or> ws_message s = None"
      by (auto simp: deployment_workflow_state_validate_def split: if_splits)
    then show ?thesis
      using run_update_refused [OF assms(1) p(2) url assms(5)]
      by (auto simp: mcl_deployment_update_workflow_def run_with_deployment [where cores = cores and core = core, OF assms(1-3)] split: option.split)
  qed
qed

theorem workflow_update_exact_witness:
  "\<exists>d w. run_state (mcl_deployment_update_workflow read_documents [0 \<mapsto> token_core ''t'']
       (Some (deployment_of 0 ''h'' None)) (Some ''1'') (Some (sample_state\<lparr>ws_details := None\<rparr>)) None)
       (quiet_world\<lparr>w_answers := [answer_text ''one'']\<rparr>) =
       (Some (MCL_OK, Some d, Some listed_workflow), w) \<and>
     map rq_payload (w_sent w) = [Some (map Some (cstr
       ''{\"state\":\"RUN\",\"progress\":1,\"message\":\"m\",\"details\":{}}''))]"
proof -
  have c: "[0 \<mapsto> token_core t] 0 = Some (token_core t)" for t by simp
  have ok: "cstring ''h''" "cstring ''1''" by (simp_all add: cstring_simps MCL_NULL_CHAR_def)
  have body: "json_print (state_json (sample_state\<lparr>ws_details := None\<rparr>) ''RUN'' ''m'') =
      ''{\"state\":\"RUN\",\"progress\":1,\"message\":\"m\",\"details\":{}}''" by code_simp
  let ?w = "quiet_world\<lparr>w_answers := [answer_text ''one'']\<rparr>"
  have w: "w_alloc ?w = []" "next_answer ?w = answer_text ''one''" by (simp_all add: quiet_world_def next_answer_def)
  have said: "outcome read_documents says_workflow (next_answer ?w) MCL_OK (Some listed_workflow)"
    unfolding w(2) by (rule answers_say)
  show ?thesis
    using workflow_update_exact [where cores = "[0 \<mapsto> token_core ''t'']" and core = 0 and s = "sample_state\<lparr>ws_details := None\<rparr>"
        and flt = None and old = None, OF w(1) c token_core_facts(2) ok said] body
    by (simp add: sample_state_def quiet_world_def authorized_def state_message_def plain_message_def Let_def)
qed

end
