(* ===== verification/MclTlsSocket.thy ===== *)
theory MclTlsSocket
  imports MclHttp
begin

text \<open>
  The TLS socket of the basic HTTP client: \<open>mcl_tls_socket.h\<close> as \<open>tls_socket_mbedtls.c\<close> implements
  it. mbedTLS is not code of this library: the world scripts what its calls return, what the server
  sends and how many bytes each read and write takes, and records what was written. An exhausted
  script succeeds: a call returns 0, a write takes everything, a read gives all there is.
\<close>

section \<open>mbedTLS\<close>

text \<open>What a call returns: a number of bytes (0 is success) or a code that the source names.\<close>

datatype mbedtls_code =
    Bytes nat | MBEDTLS_ERR_SSL_WANT_READ | MBEDTLS_ERR_SSL_WANT_WRITE
  | MBEDTLS_ERR_NET_UNKNOWN_HOST | MBEDTLS_ERR_NET_CONNECT_FAILED
  | MBEDTLS_ERR_SSL_ALLOC_FAILED | MBEDTLS_ERR_SSL_BAD_INPUT_DATA
  | MBEDTLS_ERR_X509_CERT_VERIFY_FAILED | MBEDTLS_ERR_X509_ALLOC_FAILED
  | MBEDTLS_ERR_X509_FEATURE_UNAVAILABLE | MBEDTLS_ERR_X509_UNKNOWN_OID
  | MBEDTLS_ERR_X509_FATAL_ERROR | MBEDTLS_ERR_X509_FILE_IO_ERROR | MBEDTLS_ERR_OTHER

text \<open>
  \<open>t_stale\<close> is what the stack holds in the upper half of an uninitialised \<open>mcl_size_t\<close> each time one is read into,
  \<open>t_callback\<close> what the payload callback of the user gives, call by call.
\<close>

record tls_world = mem_world +
  t_calls :: "mbedtls_code list"
  t_writes :: "mbedtls_code list"
  t_reads :: "mbedtls_code list"
  t_input :: string
  t_output :: string
  t_peers :: "(string \<times> string) list"
  t_stale :: "nat \<Rightarrow> 32 word"
  t_callback :: "string list"

definition mbedtls_call :: "('z tls_world_ext, mbedtls_code) io" where
  "mbedtls_call = State (\<lambda>w. case t_calls w of
      [] \<Rightarrow> (Bytes 0, w)
    | c # cs \<Rightarrow> (c, w\<lparr>t_calls := cs\<rparr>))"

definition want :: "mbedtls_code \<Rightarrow> bool" where
  "want c \<longleftrightarrow> c = MBEDTLS_ERR_SSL_WANT_READ \<or> c = MBEDTLS_ERR_SSL_WANT_WRITE"

text \<open>A call that is repeated as long as the connection is not ready.\<close>

definition mbedtls_retry :: "('z tls_world_ext, mbedtls_code) io" where
  "mbedtls_retry = State (\<lambda>w. case dropWhile want (t_calls w) of
      [] \<Rightarrow> (Bytes 0, w\<lparr>t_calls := []\<rparr>)
    | c # cs \<Rightarrow> (c, w\<lparr>t_calls := cs\<rparr>))"

section \<open>Certificates\<close>

text \<open>The certificates handed to mbedTLS, each a text or the name of a file.\<close>

record mcl_tls_ca_chain_t =
  certificate_chain :: "(string \<times> bool) list"

definition mcl_tls_ca_chain_init :: "('z, mcl_error \<times> mcl_tls_ca_chain_t option) io" where
  "mcl_tls_ca_chain_init = do {
     a \<leftarrow> mcl_malloc;
     State_Monad.return
       (if a then (MCL_OK, Some \<lparr>certificate_chain = []\<rparr>) else (MCL_OUT_OF_MEMORY, None))
   }"

definition mcl_tls_ca_chain_add_certificate ::
  "mcl_tls_ca_chain_t \<Rightarrow> string \<Rightarrow> bool \<Rightarrow> ('z tls_world_ext, mcl_error \<times> mcl_tls_ca_chain_t) io" where
  "mcl_tls_ca_chain_add_certificate chain certificate is_file = do {
     mbedtls_code \<leftarrow> mbedtls_call;
     State_Monad.return
       (case mbedtls_code of
          Bytes n \<Rightarrow> if n = 0 then MCL_OK else MCL_IMPROPER_CERTIFICATE
        | MBEDTLS_ERR_X509_ALLOC_FAILED \<Rightarrow> MCL_OUT_OF_MEMORY
        | _ \<Rightarrow> MCL_IMPROPER_CERTIFICATE,
        chain\<lparr>certificate_chain := certificate_chain chain @ [(certificate, is_file)]\<rparr>)
   }"

section \<open>Sockets\<close>

record mcl_tls_socket_t =
  ts_chain :: "mcl_tls_ca_chain_t option"
  ts_timeout :: nat

datatype tls_socket_parameter =
    MCL_TLS_SOCKET_PARAMETER_CERTIFICATE_CHAIN mcl_tls_ca_chain_t
  | MCL_TLS_SOCKET_PARAMETER_TIMEOUT nat
  | MCL_TLS_SOCKET_PARAMETER_END

text \<open>The two calls are \<open>mbedtls_ssl_config_defaults\<close> and \<open>mbedtls_ctr_drbg_seed\<close>.\<close>

definition mcl_tls_socket_init :: "('z tls_world_ext, mcl_error \<times> mcl_tls_socket_t option) io" where
  "mcl_tls_socket_init = do {
     a \<leftarrow> mcl_malloc;
     if \<not> a then State_Monad.return (MCL_OUT_OF_MEMORY, None)
     else do {
       defaults \<leftarrow> mbedtls_call;
       if defaults \<noteq> Bytes 0 then State_Monad.return (MCL_FAIL, None)
       else do {
         seed \<leftarrow> mbedtls_call;
         State_Monad.return
           (if seed \<noteq> Bytes 0 then (MCL_FAIL, None) else (MCL_OK, Some \<lparr>ts_chain = None, ts_timeout = 0\<rparr>))
       }
     }
   }"

text \<open>The timeout is read as an \<open>int\<close> and stored as an \<open>mcl_size_t\<close>.\<close>

definition mcl_tls_socket_set_parameter ::
  "mcl_tls_socket_t option \<Rightarrow> tls_socket_parameter \<Rightarrow> mcl_error \<times> mcl_tls_socket_t option" where
  "mcl_tls_socket_set_parameter tls_socket_handle parameter =
     (case tls_socket_handle of
        None \<Rightarrow> (MCL_TRIGGERED_WITH_NULL, None)
      | Some s \<Rightarrow> (case parameter of
          MCL_TLS_SOCKET_PARAMETER_CERTIFICATE_CHAIN chain \<Rightarrow> (MCL_OK, Some (s\<lparr>ts_chain := Some chain\<rparr>))
        | MCL_TLS_SOCKET_PARAMETER_TIMEOUT value \<Rightarrow>
            (MCL_OK, Some (s\<lparr>ts_timeout := nat (sint (word_of_nat value :: 32 word) mod 2 ^ 64)\<rparr>))
        | MCL_TLS_SOCKET_PARAMETER_END \<Rightarrow> (MCL_INVALID_PARAMETER, Some s)))"

definition mcl_tls_socket_open :: "mcl_tls_socket_t option \<Rightarrow> mcl_error" where
  "mcl_tls_socket_open tls_socket_handle =
     (case tls_socket_handle of None \<Rightarrow> MCL_TRIGGERED_WITH_NULL | Some _ \<Rightarrow> MCL_OK)"

definition PORT_STRING_BUFFER_SIZE :: nat where "PORT_STRING_BUFFER_SIZE = 6"

definition net_connect_error :: "mbedtls_code \<Rightarrow> mcl_error" where
  "net_connect_error mbedtls_code =
     (case mbedtls_code of
        MBEDTLS_ERR_NET_UNKNOWN_HOST \<Rightarrow> MCL_COULD_NOT_RESOLVE_HOST
      | MBEDTLS_ERR_NET_CONNECT_FAILED \<Rightarrow> MCL_COULD_NOT_CONNECT
      | _ \<Rightarrow> MCL_FAIL)"

definition set_hostname_error :: "mbedtls_code \<Rightarrow> mcl_error" where
  "set_hostname_error mbedtls_code =
     (case mbedtls_code of
        MBEDTLS_ERR_SSL_ALLOC_FAILED \<Rightarrow> MCL_OUT_OF_MEMORY
      | MBEDTLS_ERR_SSL_BAD_INPUT_DATA \<Rightarrow> MCL_INVALID_PARAMETER
      | _ \<Rightarrow> MCL_FAIL)"

definition handshake_error :: "mbedtls_code \<Rightarrow> mcl_error" where
  "handshake_error mbedtls_code =
     (case mbedtls_code of
        MBEDTLS_ERR_X509_CERT_VERIFY_FAILED \<Rightarrow> MCL_SERVER_CERTIFICATE_NOT_VERIFIED
      | MBEDTLS_ERR_X509_ALLOC_FAILED \<Rightarrow> MCL_OUT_OF_MEMORY
      | MBEDTLS_ERR_X509_FEATURE_UNAVAILABLE \<Rightarrow> MCL_SSL_HANDSHAKE_FAIL
      | MBEDTLS_ERR_X509_UNKNOWN_OID \<Rightarrow> MCL_SSL_HANDSHAKE_FAIL
      | MBEDTLS_ERR_X509_FATAL_ERROR \<Rightarrow> MCL_SSL_HANDSHAKE_FAIL
      | MBEDTLS_ERR_X509_FILE_IO_ERROR \<Rightarrow> MCL_SSL_HANDSHAKE_FAIL
      | _ \<Rightarrow> MCL_SERVER_CERTIFICATE_NOT_VERIFIED)"

text \<open>
  The connection: the network, \<open>mbedtls_ssl_setup\<close>, the host name and the handshake. The argument
  \<open>port\<close> is the printed number.
\<close>

definition record_peer :: "string \<Rightarrow> string \<Rightarrow> ('z tls_world_ext, unit) io" where
  "record_peer host port = State (\<lambda>w. ((), w\<lparr>t_peers := t_peers w @ [(host, port)]\<rparr>))"

definition mcl_tls_socket_connect ::
  "mcl_tls_socket_t option \<Rightarrow> string \<Rightarrow> string \<Rightarrow> ('z tls_world_ext, mcl_error) io" where
  "mcl_tls_socket_connect tls_socket_handle host port =
     (case tls_socket_handle of
        None \<Rightarrow> State_Monad.return MCL_TRIGGERED_WITH_NULL
      | Some _ \<Rightarrow> (case snprintf_text PORT_STRING_BUFFER_SIZE port of
          Err code \<Rightarrow> State_Monad.return code
        | Ok port_string \<Rightarrow> do {
            record_peer host port_string;
            c \<leftarrow> mbedtls_call;
            if c \<noteq> Bytes 0 then State_Monad.return (net_connect_error c)
            else do {
              setup \<leftarrow> mbedtls_call;
              if setup \<noteq> Bytes 0 then State_Monad.return MCL_OUT_OF_MEMORY
              else do {
                name \<leftarrow> mbedtls_call;
                if name \<noteq> Bytes 0 then State_Monad.return (set_hostname_error name)
                else do {
                  h \<leftarrow> mbedtls_retry;
                  State_Monad.return (if h \<noteq> Bytes 0 then handshake_error h else MCL_OK)
                }
              }
            }
          }))"

text \<open>
  Sending gives the code and the size, which a failure leaves as it was; receiving gives the code
  and the bytes written to the buffer, at most \<open>max_size\<close> of them. No bytes is the end of the connection.
\<close>

definition mcl_tls_socket_send :: "string \<Rightarrow> ('z tls_world_ext, mcl_error \<times> nat) io" where
  "mcl_tls_socket_send buffer = State (\<lambda>w.
     if buffer = [] then ((MCL_INVALID_PARAMETER, 0), w)
     else (case dropWhile want (t_writes w) of
         [] \<Rightarrow> ((MCL_OK, length buffer), w\<lparr>t_writes := [], t_output := t_output w @ buffer\<rparr>)
       | c # cs \<Rightarrow> (case c of
           Bytes n \<Rightarrow> ((MCL_OK, min n (length buffer)),
             w\<lparr>t_writes := cs, t_output := t_output w @ take n buffer\<rparr>)
         | _ \<Rightarrow> ((MCL_FAIL, length buffer), w\<lparr>t_writes := cs\<rparr>))))"

definition receive_bytes :: "nat \<Rightarrow> mbedtls_code list \<Rightarrow> 'z tls_world_scheme \<Rightarrow> (mcl_error \<times> string) \<times> 'z tls_world_scheme" where
  "receive_bytes n reads w =
     (let bytes = take n (t_input w)
      in ((if bytes = [] then MCL_FAIL else MCL_OK, bytes), w\<lparr>t_reads := reads, t_input := drop n (t_input w)\<rparr>))"

definition mcl_tls_socket_receive :: "nat \<Rightarrow> ('z tls_world_ext, mcl_error \<times> string) io" where
  "mcl_tls_socket_receive max_size = State (\<lambda>w.
     if max_size = 0 then ((MCL_INVALID_PARAMETER, []), w)
     else (case dropWhile want (t_reads w) of
         [] \<Rightarrow> receive_bytes max_size [] w
       | c # cs \<Rightarrow> (case c of
           Bytes n \<Rightarrow> receive_bytes (min n max_size) cs w
         | _ \<Rightarrow> ((MCL_FAIL, []), w\<lparr>t_reads := cs\<rparr>))))"

section \<open>Running\<close>

text \<open>No write fails, and no read either: the pieces may be of any size.\<close>

definition writes_ok :: "mbedtls_code list \<Rightarrow> bool" where
  "writes_ok cs \<longleftrightarrow> (\<forall>c \<in> set cs. want c \<or> (\<exists>n. c = Bytes n))"

definition reads_ok :: "mbedtls_code list \<Rightarrow> bool" where
  "reads_ok cs \<longleftrightarrow> (\<forall>c \<in> set cs. want c \<or> (\<exists>n. c = Bytes (Suc n)))"

lemma want_simps [simp]: "\<not> want (Bytes n)" "want MBEDTLS_ERR_SSL_WANT_READ" "want MBEDTLS_ERR_SSL_WANT_WRITE"
  by (simp_all add: want_def)

lemma dropWhile_Cons:
  assumes "dropWhile P xs = y # ys"
  shows "\<not> P y" and "y \<in> set xs" and "set ys \<subseteq> set xs" and "length ys < length xs"
proof -
  show "\<not> P y" using assms by (metis hd_dropWhile list.discI list.sel(1))
  have "set (dropWhile P xs) \<subseteq> set xs" by (metis set_dropWhileD subsetI)
  then show "y \<in> set xs" and "set ys \<subseteq> set xs" using assms by auto
  show "length ys < length xs" using length_dropWhile_le [of P xs] assms by simp
qed

lemma writes_ok_nil [simp]: "writes_ok []" "reads_ok []"
  by (simp_all add: writes_ok_def reads_ok_def)

text \<open>What a send leaves, in every case and when writes do not fail.\<close>

lemma run_send:
  assumes "buffer \<noteq> []"
  shows "\<exists>code n cs. run_state (mcl_tls_socket_send buffer) w =
    ((code, min n (length buffer)), w\<lparr>t_writes := cs, t_output := t_output w @ (if code = MCL_OK then take n buffer else [])\<rparr>) \<and>
    (length cs < length (t_writes w) \<or> length buffer \<le> n \<and> cs = []) \<and> set cs \<subseteq> set (t_writes w) \<and>
    (writes_ok (t_writes w) \<longrightarrow> code = MCL_OK)"
proof (cases "dropWhile want (t_writes w)")
  case Nil
  then show ?thesis using assms
    by (intro exI [of _ MCL_OK] exI [of _ "length buffer"] exI [of _ "[]"]) (simp add: mcl_tls_socket_send_def del: dropWhile_eq_Nil_conv)
next
  case (Cons c cs)
  note c = dropWhile_Cons [OF Cons]
  show ?thesis
  proof (cases "\<exists>n. c = Bytes n")
    case True
    then obtain n where "c = Bytes n" by blast
    then show ?thesis using assms Cons c
      by (intro exI [of _ MCL_OK] exI [of _ n] exI [of _ cs]) (simp add: mcl_tls_socket_send_def)
  next
    case False
    then have "\<not> writes_ok (t_writes w)" using c(1,2) by (auto simp: writes_ok_def)
    with False show ?thesis using assms Cons c
      by (intro exI [of _ MCL_FAIL] exI [of _ "length buffer"] exI [of _ cs])
        (cases c; simp add: mcl_tls_socket_send_def)
  qed
qed

lemma run_receive:
  assumes "0 < max_size"
  shows "\<exists>code bytes reads. run_state (mcl_tls_socket_receive max_size) w =
    ((code, bytes), w\<lparr>t_reads := reads, t_input := drop (length bytes) (t_input w)\<rparr>) \<and>
    bytes = take (length bytes) (t_input w) \<and> length bytes \<le> max_size \<and> (code = MCL_OK \<longleftrightarrow> bytes \<noteq> []) \<and>
    set reads \<subseteq> set (t_reads w) \<and> (reads_ok (t_reads w) \<and> t_input w \<noteq> [] \<longrightarrow> code = MCL_OK)"
proof -
  have drop: "drop (min (length (t_input w)) n) (t_input w) = drop n (t_input w)"
    "take (min (length (t_input w)) n) (t_input w) = take n (t_input w)" for n
    by (cases "length (t_input w) \<le> n"; simp)+
  show ?thesis
  proof (cases "dropWhile want (t_reads w)")
    case Nil
    then show ?thesis using assms drop [of max_size]
      by (intro exI [of _ "if take max_size (t_input w) = [] then MCL_FAIL else MCL_OK"]
          exI [of _ "take max_size (t_input w)"] exI [of _ "[]"])
        (simp add: mcl_tls_socket_receive_def receive_bytes_def Let_def min.commute del: dropWhile_eq_Nil_conv)
  next
    case (Cons c cs)
    note c = dropWhile_Cons [OF Cons]
    show ?thesis
    proof (cases "\<exists>n. c = Bytes n")
      case True
      then obtain n where n: "c = Bytes n" by blast
      have "n = 0 \<longrightarrow> \<not> reads_ok (t_reads w)" using c(1,2) n by (auto simp: reads_ok_def intro!: bexI [of _ "Bytes 0"])
      moreover have "min max_size n = 0 \<longleftrightarrow> n = 0" and "min (length (t_input w)) (min max_size n) \<le> max_size"
        using assms by (auto simp: min_def)
      ultimately show ?thesis using n assms Cons c drop [of "min n max_size"]
        by (intro exI [of _ "if take (min n max_size) (t_input w) = [] then MCL_FAIL else MCL_OK"]
            exI [of _ "take (min n max_size) (t_input w)"] exI [of _ cs])
          (simp add: mcl_tls_socket_receive_def receive_bytes_def Let_def min.commute)
    next
      case False
      then have "\<not> reads_ok (t_reads w)" using c(1,2) by (auto simp: reads_ok_def)
      with False show ?thesis using assms Cons c
        by (intro exI [of _ MCL_FAIL] exI [of _ "[]"] exI [of _ cs])
          (cases c; simp add: mcl_tls_socket_receive_def)
    qed
  qed
qed

end
