(* ===== verification/MclHttpClient.thy ===== *)
theory MclHttpClient
  imports MclHttp MclMemory
begin

text \<open>
  What both HTTP clients take, \<open>src/mcl_core/include/mcl_core/mcl_http_client.h\<close>: the configuration; and
  the bytes they read from the payload of a request.
\<close>

record mcl_http_client_configuration_t =
  hcc_certificate :: "string option"
  hcc_certificate_is_file :: bool
  hcc_proxy_hostname :: "string option"
  hcc_proxy_username :: "string option"
  hcc_proxy_password :: "string option"
  hcc_proxy_domain :: "string option"
  hcc_user_agent :: "string option"
  hcc_http_request_timeout :: nat
  hcc_port :: nat
  hcc_proxy_port :: nat
  hcc_proxy_type :: nat

text \<open>The first \<open>n\<close> cells of a block, all of which must be written.\<close>

definition read_cells :: "'a block \<Rightarrow> nat \<Rightarrow> 'a list option" where
  "read_cells b n =
     (if n \<le> length b \<and> (\<forall>c \<in> set (take n b). c \<noteq> None) then Some (map the (take n b)) else None)"

text \<open>The C string in a copy of the first bytes of a buffer.\<close>

definition c_text :: "string \<Rightarrow> string" where
  "c_text bytes = takeWhile (\<lambda>c. c \<noteq> MCL_NULL_CHAR) bytes"

definition crlf :: string where "crlf = [CHR 0x0D, CHR 0x0A]"

lemma read_cells_some: "n \<le> length s \<Longrightarrow> read_cells (map Some s) n = Some (take n s)"
  by (auto simp: read_cells_def take_map dest: in_set_takeD)

end
