(* ===== verification/MclBasicSend.thy ===== *)
theory MclBasicSend
  imports MclTlsSocket MclHttpClient MclNetwork MclTime MclJson
begin

text \<open>
  The basic HTTP client, \<open>src/mcl_core/src/http_client/basic/http_client_basic.c\<close>, over the TLS
  socket: here the client object and how a request is written. \<open>None\<close> is undefined
  behaviour: an access outside a buffer, to unwritten memory or to a socket that was never made.
  A loop that asks the world runs with one turn more than it can take: a turn of a receiving loop
  that goes on takes at least one byte of the input, a turn of the sending loop an entry of its
  script, a turn of the callback loop an answer of the callback.
\<close>

section \<open>Statement sequences\<close>

text \<open>\<open>if (MCL_OK == code) { code = ...; }\<close> over statements that may be undefined.\<close>

fun all_ok :: "('w, mcl_error option) state list \<Rightarrow> ('w, mcl_error option) state" where
  "all_ok [] = State_Monad.return (Some MCL_OK)"
| "all_ok (m # ms) = do { code \<leftarrow> m; if code = Some MCL_OK then all_ok ms else State_Monad.return code }"

section \<open>Constants\<close>

definition https_prefix :: string where "https_prefix = ''https://''"
definition get_string :: string where "get_string = ''GET ''"
definition put_string :: string where "put_string = ''PUT ''"
definition post_string :: string where "post_string = ''POST ''"
definition http_string :: string where "http_string = '' HTTP/1.1'' @ crlf"
definition content_length_header :: string where "content_length_header = ''Content-Length''"
definition transfer_encoding_header :: string where "transfer_encoding_header = ''Transfer-Encoding: chunked''"

definition TLS_DEFAULT_PORT :: nat where "TLS_DEFAULT_PORT = 443"
definition HTTP_CALLBACK_BUFFER_SIZE :: nat where "HTTP_CALLBACK_BUFFER_SIZE = 1024"
definition HTTP_PARSE_BUFFER_SIZE :: nat where "HTTP_PARSE_BUFFER_SIZE = 2048"
definition CRLF_SIZE :: nat where "CRLF_SIZE = length crlf"
definition HTTPS_PREFIX_SIZE :: nat where "HTTPS_PREFIX_SIZE = length https_prefix"

text \<open>\<open>sizeof\<close> of the printed macros \<open>SIZE_MAX\<close>, which is \<open>(18446744073709551615UL)\<close>, and \<open>1024\<close>.\<close>

definition CONTENT_LENGTH_BUFFER_SIZE :: nat where
  "CONTENT_LENGTH_BUFFER_SIZE = length ''(18446744073709551615UL)'' + 1"
definition CHUNK_LENGTH_IN_HEX_BUFFER_SIZE :: nat where
  "CHUNK_LENGTH_IN_HEX_BUFFER_SIZE = length ''1024'' + 1 + CRLF_SIZE"

section \<open>The client\<close>

record mcl_http_client_t =
  hc_chain :: mcl_tls_ca_chain_t
  hc_user_agent :: "string option"
  hc_port :: nat
  hc_timeout :: nat

definition basic_http_client_initialize ::
  "mcl_http_client_configuration_t option \<Rightarrow> ('z tls_world_ext, mcl_error \<times> mcl_http_client_t option) io" where
  "basic_http_client_initialize configuration =
     (case configuration of
        None \<Rightarrow> State_Monad.return (MCL_TRIGGERED_WITH_NULL, None)
      | Some c \<Rightarrow>
          if hcc_proxy_hostname c \<noteq> None then State_Monad.return (MCL_INVALID_PARAMETER, None)
          else do {
            a \<leftarrow> mcl_malloc;
            if \<not> a then State_Monad.return (MCL_OUT_OF_MEMORY, None)
            else do {
              (code, chain) \<leftarrow> mcl_tls_ca_chain_init;
              case chain of
                None \<Rightarrow> State_Monad.return (code, None)
              | Some ca \<Rightarrow> do {
                  (code, ca) \<leftarrow> (case hcc_certificate c of
                      None \<Rightarrow> State_Monad.return (code, ca)
                    | Some certificate \<Rightarrow>
                        mcl_tls_ca_chain_add_certificate ca certificate (hcc_certificate_is_file c));
                  State_Monad.return
                    (code, if code = MCL_OK then Some \<lparr>hc_chain = ca, hc_user_agent = hcc_user_agent c,
                       hc_port = hcc_port c, hc_timeout = hcc_http_request_timeout c\<rparr> else None)
                }
            }
          })"

definition basic_http_client_add_certificate ::
  "mcl_http_client_t option \<Rightarrow> string option \<Rightarrow> bool \<Rightarrow>
   ('z tls_world_ext, mcl_error \<times> mcl_http_client_t option) io" where
  "basic_http_client_add_certificate http_client certificate is_file =
     on_pointer http_client (\<lambda>client. case certificate of
        None \<Rightarrow> State_Monad.return (MCL_TRIGGERED_WITH_NULL, client)
      | Some text \<Rightarrow> do {
          (code, chain) \<leftarrow> mcl_tls_ca_chain_add_certificate (hc_chain client) text is_file;
          State_Monad.return (code, client\<lparr>hc_chain := chain\<rparr>)
        })"

section \<open>Sending\<close>

fun send_loop :: "nat \<Rightarrow> string \<Rightarrow> ('z tls_world_ext, mcl_error option) io" where
  "send_loop 0 buffer = State_Monad.return None"
| "send_loop (Suc turns) buffer =
     (if buffer = [] then State_Monad.return (Some MCL_OK)
      else do {
        (code, sent) \<leftarrow> mcl_tls_socket_send buffer;
        if code = MCL_OK then send_loop turns (drop sent buffer) else State_Monad.return (Some code)
      })"

definition send_buffer :: "string \<Rightarrow> ('z tls_world_ext, mcl_error option) io" where
  "send_buffer buffer = State (\<lambda>w. run_state (send_loop (length (t_writes w) + 2) buffer) w)"

text \<open>A text formatted into a buffer of \<open>len\<close> bytes and sent when it fits.\<close>

definition send_formatted :: "nat \<Rightarrow> string \<Rightarrow> ('z tls_world_ext, mcl_error option) io" where
  "send_formatted len s =
     (case snprintf_text len s of Err code \<Rightarrow> State_Monad.return (Some code) | Ok t \<Rightarrow> send_buffer t)"

definition send_header :: "string \<Rightarrow> string option \<Rightarrow> ('z tls_world_ext, mcl_error option) io" where
  "send_header header_name header_value = all_ok
     [send_buffer header_name, send_buffer '': '',
      send_buffer (case header_value of None \<Rightarrow> [] | Some v \<Rightarrow> v), send_buffer crlf]"

definition send_header_list :: "string list \<Rightarrow> ('z tls_world_ext, mcl_error option) io" where
  "send_header_list header_list =
     all_ok (concat (map (\<lambda>header. [send_buffer header, send_buffer crlf]) header_list))"

text \<open>The request line and the host; \<open>uri\<close> has been seen to start with the prefix.\<close>

definition start_http ::
  "mcl_tls_socket_t option \<Rightarrow> mcl_http_client_t \<Rightarrow> E_MCL_HTTP_METHOD \<Rightarrow> string \<Rightarrow>
   ('z tls_world_ext, mcl_error option) io" where
  "start_http tls_socket http_client http_method uri = do {
     let rest = drop HTTPS_PREFIX_SIZE uri;
     let hostname = takeWhile (\<lambda>c. c \<noteq> CHR ''/'') rest;
     a \<leftarrow> mcl_malloc;
     if \<not> a then State_Monad.return (Some MCL_OUT_OF_MEMORY)
     else all_ok
       [do {
          code \<leftarrow> mcl_tls_socket_connect tls_socket hostname (print_nat (hc_port http_client));
          State_Monad.return (Some code)
        },
        (case http_method of
           MCL_HTTP_GET \<Rightarrow> send_buffer get_string
         | MCL_HTTP_PUT \<Rightarrow> send_buffer put_string
         | MCL_HTTP_POST \<Rightarrow> send_buffer post_string
         | _ \<Rightarrow> State_Monad.return (Some MCL_FAIL)),
        send_buffer (drop (length hostname) rest),
        send_buffer http_string,
        send_buffer ''Host: '',
        send_buffer hostname,
        (if hc_port http_client = TLS_DEFAULT_PORT then State_Monad.return (Some MCL_OK)
         else (case snprintf_text PORT_STRING_BUFFER_SIZE (print_nat (hc_port http_client)) of
             Err code \<Rightarrow> State_Monad.return (Some code)
           | Ok port_string \<Rightarrow> all_ok [send_buffer '':'', send_buffer port_string])),
        send_buffer crlf]
   }"

text \<open>Upper case hexadecimal, the conversion \<open>%X\<close>.\<close>

definition hex_digit_upper :: "nat \<Rightarrow> char" where
  "hex_digit_upper n = ''0123456789ABCDEF'' ! n"

fun print_hex :: "nat \<Rightarrow> string" where
  "print_hex n = (if n < 16 then [hex_digit_upper n] else print_hex (n div 16) @ [hex_digit_upper (n mod 16)])"

declare print_hex.simps [simp del]

text \<open>
  The callback of the user: the bytes it gives, whose number is what it returns. It writes at most as
  many as the buffer holds; a longer answer stands for a larger return value.
\<close>

definition payload_callback :: "('z tls_world_ext, string) io" where
  "payload_callback = State (\<lambda>w. case t_callback w of
      [] \<Rightarrow> ([], w)
    | s # ss \<Rightarrow> (s, w\<lparr>t_callback := ss\<rparr>))"

text \<open>The last turn, for an empty answer, also checks that no less was given than announced.\<close>

fun send_with_callback_loop :: "nat \<Rightarrow> bool \<Rightarrow> nat \<Rightarrow> ('z tls_world_ext, mcl_error option) io" where
  "send_with_callback_loop 0 using_transfer_encoding remaining_size = State_Monad.return None"
| "send_with_callback_loop (Suc turns) using_transfer_encoding remaining_size = do {
     data \<leftarrow> payload_callback;
     let size = length data;
     if HTTP_CALLBACK_BUFFER_SIZE < size then State_Monad.return (Some MCL_FAIL)
     else if \<not> using_transfer_encoding \<and> remaining_size < size then State_Monad.return (Some MCL_FAIL)
     else do {
       let remaining_size = (if using_transfer_encoding then remaining_size else remaining_size - size);
       code \<leftarrow> all_ok
         [if using_transfer_encoding then send_formatted CHUNK_LENGTH_IN_HEX_BUFFER_SIZE (print_hex size @ crlf)
          else State_Monad.return (Some MCL_OK),
          if size \<noteq> 0 then send_buffer data else State_Monad.return (Some MCL_OK),
          if using_transfer_encoding then send_buffer crlf else State_Monad.return (Some MCL_OK)];
       if code = Some MCL_OK \<and> size \<noteq> 0
       then send_with_callback_loop turns using_transfer_encoding remaining_size
       else if code = Some MCL_OK \<and> remaining_size \<noteq> 0 then State_Monad.return (Some MCL_FAIL)
       else State_Monad.return code
     }
   }"

definition send_with_callback :: "nat \<Rightarrow> ('z tls_world_ext, mcl_error option) io" where
  "send_with_callback payload_size = State (\<lambda>w.
     run_state (send_with_callback_loop (length (t_callback w) + 1) (payload_size = 0) payload_size) w)"

end
