(* ===== verification/MclBasicReceive.thy ===== *)
theory MclBasicReceive
  imports MclBasicSend
begin

text \<open>
  How the basic HTTP client reads a response: lines into a buffer, the status, the header lines with
  the two that say how the body is sent, and the body by its length or in chunks.
\<close>

section \<open>Receiving\<close>

definition input_turns :: "(nat \<Rightarrow> ('z tls_world_ext, 'a) io) \<Rightarrow> ('z tls_world_ext, 'a) io" where
  "input_turns f = State (\<lambda>w. run_state (f (length (t_input w) + 1)) w)"

fun receive_to_buffer_loop ::
  "nat \<Rightarrow> char block \<Rightarrow> nat \<Rightarrow> nat \<Rightarrow> ('z tls_world_ext, (mcl_error \<times> char block) option) io" where
  "receive_to_buffer_loop 0 buffer position remaining = State_Monad.return None"
| "receive_to_buffer_loop (Suc turns) buffer position remaining =
     (if remaining = 0 then State_Monad.return (Some (MCL_OK, buffer))
      else do {
        (code, bytes) \<leftarrow> mcl_tls_socket_receive remaining;
        if code \<noteq> MCL_OK then State_Monad.return (Some (code, buffer))
        else (case string_util_memcpy buffer position bytes (length bytes) of
            None \<Rightarrow> State_Monad.return None
          | Some b \<Rightarrow> receive_to_buffer_loop turns b (position + length bytes) (remaining - length bytes))
      })"

text \<open>\<open>count\<close> bytes into the buffer from a position on.\<close>

definition receive_to_buffer ::
  "char block \<Rightarrow> nat \<Rightarrow> nat \<Rightarrow> ('z tls_world_ext, (mcl_error \<times> char block) option) io" where
  "receive_to_buffer buffer position count =
     input_turns (\<lambda>turns. receive_to_buffer_loop turns buffer position count)"

text \<open>
  A line with its line feed: \<open>received\<close> are the characters so far. The line must leave room for the
  terminator in a buffer of \<open>requested_size\<close> bytes.
\<close>

fun receive_until_lf_loop ::
  "nat \<Rightarrow> nat \<Rightarrow> char block \<Rightarrow> nat \<Rightarrow> ('z tls_world_ext, (mcl_error \<times> nat \<times> char block) option) io" where
  "receive_until_lf_loop 0 requested_size buffer received = State_Monad.return None"
| "receive_until_lf_loop (Suc turns) requested_size buffer received = do {
     (code, bytes) \<leftarrow> mcl_tls_socket_receive 1;
     if code \<noteq> MCL_OK then State_Monad.return (Some (code, received, buffer))
     else (case store buffer received (hd bytes) of
         None \<Rightarrow> State_Monad.return None
       | Some b \<Rightarrow>
           if hd bytes = CHR 0x0A
           then State_Monad.return (map_option (\<lambda>b. (MCL_OK, received + 1, b)) (store b (received + 1) MCL_NULL_CHAR))
           else if requested_size - 1 = received + 1 then State_Monad.return (Some (MCL_FAIL, received + 1, b))
           else receive_until_lf_loop turns requested_size b (received + 1))
   }"

definition receive_until_lf ::
  "char block \<Rightarrow> nat \<Rightarrow> ('z tls_world_ext, (mcl_error \<times> nat \<times> char block) option) io" where
  "receive_until_lf buffer requested_size =
     input_turns (\<lambda>turns. receive_until_lf_loop turns requested_size buffer 0)"

section \<open>Numbers\<close>

text \<open>
  The conversions \<open>%u\<close>, \<open>%lu\<close> and \<open>%x\<close> of \<open>sscanf\<close>, which read like \<open>strtoul\<close>: white space, a sign, a
  prefix \<open>0x\<close> for hexadecimal numbers, digits. A number above the range of an \<open>unsigned long\<close> gives
  its maximum, a minus negates modulo the range.
\<close>

definition hex_value :: "char \<Rightarrow> nat" where
  "hex_value c =
     (let n = of_char c in if n \<le> 57 then n - 48 else if n \<le> 70 then n - 55 else n - 87)"

definition is_hex_digit :: "char \<Rightarrow> bool" where
  "is_hex_digit c \<longleftrightarrow> is_digit c \<or> (let n = of_char c :: nat in (65 \<le> n \<and> n \<le> 70) \<or> (97 \<le> n \<and> n \<le> 102))"

definition strtoul_value :: "bool \<Rightarrow> nat \<Rightarrow> nat" where
  "strtoul_value neg n =
     (if 2 ^ 64 \<le> n then 2 ^ 64 - 1 else if neg then (2 ^ 64 - n) mod 2 ^ 64 else n)"

definition scan_decimal :: "string \<Rightarrow> nat option" where
  "scan_decimal s =
     (let (neg, r) = strtol_sign (dropWhile is_space s); ds = takeWhile is_digit r
      in if ds = [] then None else Some (strtoul_value neg (digits_value ds)))"

definition hex_prefix :: "string \<Rightarrow> string" where
  "hex_prefix r =
     (case r of z # x # d # cs \<Rightarrow>
        if z = CHR ''0'' \<and> (x = CHR ''x'' \<or> x = CHR ''X'') \<and> is_hex_digit d then d # cs else r
      | _ \<Rightarrow> r)"

definition hex_digits_value :: "string \<Rightarrow> nat" where
  "hex_digits_value ds = foldl (\<lambda>n c. n * 16 + hex_value c) 0 ds"

definition scan_hex :: "string \<Rightarrow> nat option" where
  "scan_hex s =
     (let (neg, r) = strtol_sign (dropWhile is_space s); ds = takeWhile is_hex_digit (hex_prefix r)
      in if ds = [] then None else Some (strtoul_value neg (hex_digits_value ds)))"

text \<open>A literal part of the format, then white space and a number.\<close>

definition scan_after :: "string \<Rightarrow> string \<Rightarrow> nat option" where
  "scan_after literal s =
     (if take (length literal) s = literal then scan_decimal (drop (length literal) s) else None)"

section \<open>Bodies\<close>

definition get_content_length_response ::
  "nat \<Rightarrow> ('z tls_world_ext, char block result option) io" where
  "get_content_length_response body_size = do {
     a \<leftarrow> mcl_memory_malloc body_size;
     if \<not> a then State_Monad.return (Some (Err MCL_OUT_OF_MEMORY))
     else do {
       r \<leftarrow> receive_to_buffer (fresh_block body_size) 0 body_size;
       State_Monad.return
         (map_option (\<lambda>(code, b). if code = MCL_OK then Ok b else Err code) r)
     }
   }"

text \<open>
  A chunk size is read by \<open>%x\<close> into the lower half of an uninitialised \<open>mcl_size_t\<close>: the upper half
  is what the stack holds.
\<close>

definition stale_half :: "('z tls_world_ext, nat) io" where
  "stale_half = State (\<lambda>w. (unat (t_stale w 0), w\<lparr>t_stale := \<lambda>i. t_stale w (Suc i)\<rparr>))"

definition CHUNK_STRING_SIZE :: nat where
  "CHUNK_STRING_SIZE = CONTENT_LENGTH_BUFFER_SIZE + CRLF_SIZE"

text \<open>The size line of a chunk, with the buffer it was read into.\<close>

definition get_chunk_size :: "('z tls_world_ext, (nat \<times> char block) result option) io" where
  "get_chunk_size = do {
     line \<leftarrow> receive_until_lf (fresh_block CHUNK_STRING_SIZE) CHUNK_STRING_SIZE;
     case line of
       None \<Rightarrow> State_Monad.return None
     | Some (code, received, chunk_string) \<Rightarrow>
         if code \<noteq> MCL_OK then State_Monad.return (Some (Err code))
         else (case block_string chunk_string of
             None \<Rightarrow> State_Monad.return None
           | Some s \<Rightarrow> (case scan_hex s of
               None \<Rightarrow> State_Monad.return (Some (Err MCL_FAIL))
             | Some v \<Rightarrow> do {
                 upper \<leftarrow> stale_half;
                 State_Monad.return (Some (Ok (upper * 2 ^ 32 + v mod 2 ^ 32, chunk_string)))
               }))
   }"

text \<open>The bytes of a chunk behind the body so far, and the line end after them.\<close>

definition get_chunk ::
  "char block option \<Rightarrow> nat \<Rightarrow> nat \<Rightarrow> char block \<Rightarrow> ('z tls_world_ext, char block result option) io" where
  "get_chunk response_body body_size chunk_size chunk_string = do {
     a \<leftarrow> (case response_body of
         None \<Rightarrow> mcl_memory_malloc chunk_size
       | Some _ \<Rightarrow> mcl_memory_realloc ((body_size + chunk_size) mod 2 ^ 64));
     if \<not> a then State_Monad.return (Some (Err MCL_OUT_OF_MEMORY))
     else do {
       r \<leftarrow> receive_to_buffer
         (case response_body of
            None \<Rightarrow> fresh_block chunk_size
          | Some b \<Rightarrow> resized b ((body_size + chunk_size) mod 2 ^ 64)) body_size chunk_size;
       case r of
         None \<Rightarrow> State_Monad.return None
       | Some (code, body) \<Rightarrow>
           if code \<noteq> MCL_OK then State_Monad.return (Some (Err code))
           else do {
             r \<leftarrow> receive_to_buffer chunk_string 0 CRLF_SIZE;
             State_Monad.return (map_option (\<lambda>(code, b). if code = MCL_OK then Ok body else Err code) r)
           }
     }
   }"

fun get_chunked_response_loop ::
  "nat \<Rightarrow> char block option \<Rightarrow> nat \<Rightarrow> ('z tls_world_ext, (char block option \<times> nat) result option) io" where
  "get_chunked_response_loop 0 response_body body_size = State_Monad.return None"
| "get_chunked_response_loop (Suc turns) response_body body_size = do {
     line \<leftarrow> get_chunk_size;
     case line of
       None \<Rightarrow> State_Monad.return None
     | Some (Err code) \<Rightarrow> State_Monad.return (Some (Err code))
     | Some (Ok (chunk_size, chunk_string)) \<Rightarrow>
         if chunk_size = 0 then do {
           r \<leftarrow> receive_to_buffer chunk_string 0 CRLF_SIZE;
           State_Monad.return (map_option (\<lambda>(code, b).
             if code = MCL_OK then Ok (response_body, body_size) else Err code) r)
         }
         else do {
           r \<leftarrow> get_chunk response_body body_size chunk_size chunk_string;
           case r of
             None \<Rightarrow> State_Monad.return None
           | Some (Err code) \<Rightarrow> State_Monad.return (Some (Err code))
           | Some (Ok body) \<Rightarrow> get_chunked_response_loop turns (Some body) ((body_size + chunk_size) mod 2 ^ 64)
         }
   }"

definition get_chunked_response ::
  "('z tls_world_ext, (char block option \<times> nat) result option) io" where
  "get_chunked_response = input_turns (\<lambda>turns. get_chunked_response_loop turns None 0)"

section \<open>Responses\<close>

text \<open>What the header lines say of the body; the first of the two lines counts.\<close>

record body_framing =
  found_content_length :: bool
  using_transfer_encoding :: bool
  framing_size :: nat

definition no_framing :: body_framing where
  "no_framing = \<lparr>found_content_length = False, using_transfer_encoding = False, framing_size = 0\<rparr>"

definition parse_framing :: "string \<Rightarrow> body_framing \<Rightarrow> body_framing option" where
  "parse_framing line f =
     (if found_content_length f \<or> using_transfer_encoding f then Some f
      else (case scan_after (content_length_header @ '':'') line of
          Some n \<Rightarrow> Some (f\<lparr>found_content_length := True, framing_size := n\<rparr>)
        | None \<Rightarrow> map_option (\<lambda>r. if r \<noteq> None then f\<lparr>using_transfer_encoding := True\<rparr> else f)
            (string_util_find_case_insensitive line transfer_encoding_header)))"

fun get_headers ::
  "nat \<Rightarrow> string list \<Rightarrow> body_framing \<Rightarrow>
   ('z tls_world_ext, (mcl_error \<times> string list \<times> body_framing) option) io" where
  "get_headers 0 header_list f = State_Monad.return None"
| "get_headers (Suc turns) header_list f = do {
     line \<leftarrow> receive_until_lf (fresh_block HTTP_PARSE_BUFFER_SIZE) HTTP_PARSE_BUFFER_SIZE;
     case line of
       None \<Rightarrow> State_Monad.return None
     | Some (code, received, parse_buffer) \<Rightarrow>
         if received \<le> CRLF_SIZE then State_Monad.return (Some (code, header_list, f))
         else (case read_cells parse_buffer (received - CRLF_SIZE) of
             None \<Rightarrow> State_Monad.return None
           | Some header \<Rightarrow> do {
               a \<leftarrow> mcl_malloc;
               let code = (if a then code else MCL_OUT_OF_MEMORY);
               if code \<noteq> MCL_OK then State_Monad.return (Some (code, header_list, f))
               else do {
                 n \<leftarrow> mcl_malloc;
                 if \<not> n then State_Monad.return (Some (MCL_OUT_OF_MEMORY, header_list, f))
                 else (case Option.bind (block_string parse_buffer) (\<lambda>s. parse_framing s f) of
                     None \<Rightarrow> State_Monad.return None
                   | Some f' \<Rightarrow> get_headers turns (header_list @ [c_text header]) f')
               }
             })
   }"

definition get_body ::
  "body_framing \<Rightarrow> ('z tls_world_ext, (char block option \<times> nat) result option) io" where
  "get_body f =
     (if using_transfer_encoding f then get_chunked_response
      else if found_content_length f then
        (if framing_size f = 0 then State_Monad.return (Some (Ok (None, 0)))
         else do {
           r \<leftarrow> get_content_length_response (framing_size f);
           State_Monad.return (map_option (map_sum id (\<lambda>b. (Some b, framing_size f))) r)
         })
      else State_Monad.return (Some (Err MCL_FAIL)))"

text \<open>The cells of a body that was received, as the payload of the response.\<close>

definition payload_text :: "char block option \<Rightarrow> nat \<Rightarrow> string option option" where
  "payload_text body n =
     (case body of None \<Rightarrow> Some None | Some b \<Rightarrow> map_option Some (read_cells b n))"

definition get_response :: "('z tls_world_ext, mcl_http_response_t result option) io" where
  "get_response = do {
     line \<leftarrow> receive_until_lf (fresh_block HTTP_PARSE_BUFFER_SIZE) HTTP_PARSE_BUFFER_SIZE;
     case line of
       None \<Rightarrow> State_Monad.return None
     | Some (code, received, parse_buffer) \<Rightarrow>
         if code \<noteq> MCL_OK then State_Monad.return (Some (Err code))
         else (case block_string parse_buffer of
             None \<Rightarrow> State_Monad.return None
           | Some s \<Rightarrow> (case scan_after ''HTTP/1.1'' s of
               None \<Rightarrow> State_Monad.return (Some (Err MCL_FAIL))
             | Some status \<Rightarrow> do {
                 l \<leftarrow> mcl_malloc;
                 if \<not> l then State_Monad.return (Some (Err MCL_OUT_OF_MEMORY))
                 else do {
                   h \<leftarrow> input_turns (\<lambda>turns. get_headers turns [] no_framing);
                   case h of
                     None \<Rightarrow> State_Monad.return None
                   | Some (code, header_list, f) \<Rightarrow>
                       if code \<noteq> MCL_OK then State_Monad.return (Some (Err code))
                       else do {
                         body \<leftarrow> get_body f;
                         case body of
                           None \<Rightarrow> State_Monad.return None
                         | Some (Err code) \<Rightarrow> State_Monad.return (Some (Err code))
                         | Some (Ok (response_body, body_size)) \<Rightarrow>
                             (case payload_text response_body body_size of
                                None \<Rightarrow> State_Monad.return None
                              | Some payload \<Rightarrow> do {
                                  (code, response) \<leftarrow> mcl_http_response_initialize (Some header_list) payload
                                    body_size (status mod 2 ^ 32);
                                  State_Monad.return
                                    (Some (case response of None \<Rightarrow> Err code | Some r \<Rightarrow> Ok r))
                                })
                       }
                 }
               }))
   }"

end
