(* ===== verification/MclBasicClient.thy ===== *)
theory MclBasicClient
  imports MclBasicReceive
begin

text \<open>
  \<open>mcl_http_client_send\<close> of the basic HTTP client as a whole, and what it means that a request is
  written and a response read over a connection that takes and gives bytes in pieces of any size.
\<close>

section \<open>A request and its response\<close>

text \<open>The checks before a socket is made.\<close>

definition validate_request :: "mcl_http_request_t \<Rightarrow> mcl_error option" where
  "validate_request request =
     (if rq_method request \<noteq> MCL_HTTP_GET \<and> rq_payload request = None \<and> rq_stream_callback request = None
      then Some MCL_INVALID_PARAMETER
      else if rq_payload request \<noteq> None \<and> rq_payload_size request = 0 then Some MCL_INVALID_PARAMETER
      else map_option (\<lambda>code. if code \<noteq> MCL_OK then MCL_OPERATION_NOT_SUPPORTED else MCL_OK)
        (mcl_string_util_strncmp (map_option cstr (rq_uri request)) (Some (cstr https_prefix)) HTTPS_PREFIX_SIZE))"

definition send_framing :: "mcl_http_request_t \<Rightarrow> ('z tls_world_ext, mcl_error option) io" where
  "send_framing request =
     (if rq_method request = MCL_HTTP_GET then State_Monad.return (Some MCL_OK)
      else if rq_payload_size request \<noteq> 0 then
        (case snprintf_text CONTENT_LENGTH_BUFFER_SIZE (print_nat (rq_payload_size request)) of
           Err code \<Rightarrow> State_Monad.return (Some code)
         | Ok content_length \<Rightarrow> send_header content_length_header (Some content_length))
      else all_ok [send_buffer transfer_encoding_header, send_buffer crlf])"

definition send_payload :: "mcl_http_request_t \<Rightarrow> ('z tls_world_ext, mcl_error option) io" where
  "send_payload request =
     (if rq_method request = MCL_HTTP_GET then State_Monad.return (Some MCL_OK)
      else (case rq_payload request of
          None \<Rightarrow> send_with_callback (rq_payload_size request)
        | Some b \<Rightarrow> (case read_cells b (rq_payload_size request) of
            None \<Rightarrow> State_Monad.return None
          | Some payload \<Rightarrow> send_buffer payload)))"

definition write_request ::
  "mcl_tls_socket_t option \<Rightarrow> mcl_http_client_t \<Rightarrow> mcl_http_request_t \<Rightarrow> string \<Rightarrow>
   ('z tls_world_ext, mcl_error option) io" where
  "write_request tls_socket client request uri = all_ok
     [start_http tls_socket client (rq_method request) uri,
      send_header_list (rq_header request),
      send_header ''User-Agent'' (hc_user_agent client),
      send_framing request,
      send_buffer crlf,
      send_payload request]"

text \<open>The socket with its two parameters; both are set before it is opened.\<close>

definition prepared_socket ::
  "mcl_http_client_t \<Rightarrow> ('z tls_world_ext, mcl_error \<times> mcl_tls_socket_t option) io" where
  "prepared_socket client = do {
     (code, s) \<leftarrow> mcl_tls_socket_init;
     State_Monad.return
       (if code \<noteq> MCL_OK then (code, s) else ok_seq
         [\<lambda>s. mcl_tls_socket_set_parameter s (MCL_TLS_SOCKET_PARAMETER_TIMEOUT (hc_timeout client)),
          \<lambda>s. mcl_tls_socket_set_parameter s (MCL_TLS_SOCKET_PARAMETER_CERTIFICATE_CHAIN (hc_chain client)),
          \<lambda>s. (mcl_tls_socket_open s, s)] s)
   }"

text \<open>
  A request that fails the checks leaves through \<open>mcl_tls_socket_destroy\<close> of a handle that nothing
  has initialised.
\<close>

definition basic_http_client_send ::
  "mcl_http_client_t option \<Rightarrow> mcl_http_request_t option \<Rightarrow>
   ('z tls_world_ext, mcl_http_response_t result option) io" where
  "basic_http_client_send http_client http_request =
     (case (http_client, http_request) of
        (Some client, Some request) \<Rightarrow>
          if validate_request request \<noteq> Some MCL_OK then State_Monad.return None
          else (case rq_uri request of
              None \<Rightarrow> State_Monad.return None
            | Some uri \<Rightarrow> do {
                (code, tls_socket) \<leftarrow> prepared_socket client;
                if code \<noteq> MCL_OK then State_Monad.return (Some (Err code))
                else do {
                  r \<leftarrow> write_request tls_socket client request uri;
                  if r = Some MCL_OK then get_response
                  else State_Monad.return (map_option Err r)
                }
              })
      | _ \<Rightarrow> State_Monad.return (Some (Err MCL_TRIGGERED_WITH_NULL)))"

end
