(* ===== verification/MclBasicSendProps.thy ===== *)
theory MclBasicSendProps
  imports MclBasicClient
begin

text \<open>
  What the basic HTTP client writes: the text of a request, byte by byte, however the connection takes
  it, and the requests that it cannot write.
\<close>

section \<open>Printed numbers\<close>

lemma print_nat_nonempty [simp]: "print_nat n \<noteq> []"
  by (subst print_nat.simps) simp

lemma print_nat_length: "n < 10 ^ k \<Longrightarrow> 0 < k \<Longrightarrow> length (print_nat n) \<le> k"
proof (induction n arbitrary: k rule: print_nat.induct)
  case (1 n)
  show ?case
  proof (cases "n < 10")
    case False
    then obtain j where k: "k = Suc j" "0 < j" using 1(2,3) by (cases k; cases "k - 1") auto
    then have "n div 10 < 10 ^ j" using 1(2) by (simp add: less_mult_imp_div_less mult.commute)
    then show ?thesis using 1(1) [of j] False k by (subst print_nat.simps) simp
  qed (use 1(3) in \<open>subst print_nat.simps, simp\<close>)
qed

lemma print_hex_nonempty [simp]: "print_hex n \<noteq> []"
  by (subst print_hex.simps) simp

lemma print_hex_length: "n < 16 ^ k \<Longrightarrow> 0 < k \<Longrightarrow> length (print_hex n) \<le> k"
proof (induction n arbitrary: k rule: print_hex.induct)
  case (1 n)
  show ?case
  proof (cases "n < 16")
    case False
    then obtain j where k: "k = Suc j" "0 < j" using 1(2,3) by (cases k; cases "k - 1") auto
    then have "n div 16 < 16 ^ j" using 1(2) by (simp add: less_mult_imp_div_less mult.commute)
    then show ?thesis using 1(1) [of j] False k by (subst print_hex.simps) simp
  qed (use 1(3) in \<open>subst print_hex.simps, simp\<close>)
qed

section \<open>The sending loop\<close>

definition written :: "string \<Rightarrow> mbedtls_code list \<Rightarrow> 'z tls_world_scheme \<Rightarrow> 'z tls_world_scheme" where
  "written out cs w = w\<lparr>t_writes := cs, t_output := t_output w @ out\<rparr>"

lemma send_loop_run:
  assumes "length (t_writes w) + 2 \<le> turns"
  shows "\<exists>code out cs. run_state (send_loop turns buffer) w = (Some code, written out cs w) \<and>
    (\<exists>rest. buffer = out @ rest) \<and> set cs \<subseteq> set (t_writes w) \<and>
    (code = MCL_OK \<longrightarrow> out = buffer) \<and> (writes_ok (t_writes w) \<longrightarrow> code = MCL_OK)"
  using assms
proof (induction turns arbitrary: buffer w)
  case 0
  then show ?case by simp
next
  case (Suc turns)
  show ?case
  proof (cases "buffer = []")
    case True
    then show ?thesis
      by (intro exI [of _ MCL_OK] exI [of _ "[]"] exI [of _ "t_writes w"]) (simp add: written_def)
  next
    case False
    from run_send [OF this, of w] obtain code n cs where
      run: "run_state (mcl_tls_socket_send buffer) w = ((code, min n (length buffer)),
        w\<lparr>t_writes := cs, t_output := t_output w @ (if code = MCL_OK then take n buffer else [])\<rparr>)"
      and dec: "length cs < length (t_writes w) \<or> length buffer \<le> n \<and> cs = []"
      and sub: "set cs \<subseteq> set (t_writes w)" and ok: "writes_ok (t_writes w) \<longrightarrow> code = MCL_OK" by blast
    show ?thesis
    proof (cases "code = MCL_OK")
      case False
      then show ?thesis using \<open>buffer \<noteq> []\<close> run ok sub
        by (intro exI [of _ code] exI [of _ "[]"] exI [of _ cs]) (simp add: written_def run_bind)
    next
      case True
      let ?w = "written (take n buffer) cs w"
      have step: "run_state (send_loop (Suc turns) buffer) w = run_state (send_loop turns (drop n buffer)) ?w"
        using \<open>buffer \<noteq> []\<close> run True by (cases "n \<le> length buffer") (simp_all add: written_def run_bind min_def)
      have "\<exists>code out cs'. run_state (send_loop turns (drop n buffer)) ?w = (Some code, written out cs' ?w) \<and>
        (\<exists>rest. drop n buffer = out @ rest) \<and> set cs' \<subseteq> set cs \<and>
        (code = MCL_OK \<longrightarrow> out = drop n buffer) \<and> (writes_ok cs \<longrightarrow> code = MCL_OK)"
      proof (cases "length cs < length (t_writes w)")
        case True
        then show ?thesis using Suc.IH [of ?w "drop n buffer"] Suc.prems by (simp add: written_def)
      next
        case False
        then have "drop n buffer = []" and "cs = []" and "0 < turns" using dec Suc.prems by auto
        then show ?thesis by (intro exI [of _ MCL_OK] exI [of _ "[]"] exI [of _ "[]"])
            (cases turns; simp add: written_def)
      qed
      then obtain code out cs' rest where
        "run_state (send_loop turns (drop n buffer)) ?w = (Some code, written out cs' ?w)"
        "drop n buffer = out @ rest" "set cs' \<subseteq> set cs" "code = MCL_OK \<longrightarrow> out = drop n buffer"
        "writes_ok cs \<longrightarrow> code = MCL_OK" by blast
      moreover have "writes_ok (t_writes w) \<longrightarrow> writes_ok cs" using sub by (auto simp: writes_ok_def)
      moreover have "buffer = (take n buffer @ out) @ rest"
        using append_take_drop_id [of n buffer] \<open>drop n buffer = out @ rest\<close> by simp
      ultimately show ?thesis using step sub
        by (intro exI [of _ code] exI [of _ "take n buffer @ out"] exI [of _ cs'])
          (auto simp: written_def)
    qed
  qed
qed

lemma send_buffer_run:
  "\<exists>code out cs. run_state (send_buffer buffer) w = (Some code, written out cs w) \<and>
    (\<exists>rest. buffer = out @ rest) \<and> set cs \<subseteq> set (t_writes w) \<and>
    (code = MCL_OK \<longrightarrow> out = buffer) \<and> (writes_ok (t_writes w) \<longrightarrow> code = MCL_OK)"
  using send_loop_run [of w "length (t_writes w) + 2" buffer] by (simp add: send_buffer_def)

section \<open>Statements that write\<close>

text \<open>
  On a working connection a statement writes the text \<open>out\<close>, connects to \<open>peers\<close> and takes answers of
  the callback, from \<open>answers\<close> to \<open>answers'\<close>.
\<close>

definition ready :: "'z tls_world_scheme \<Rightarrow> bool" where
  "ready w \<longleftrightarrow> w_alloc w = [] \<and> t_calls w = [] \<and> writes_ok (t_writes w)"

definition wrote ::
  "string \<Rightarrow> (string \<times> string) list \<Rightarrow> string list \<Rightarrow> 'z tls_world_scheme \<Rightarrow> 'z tls_world_scheme \<Rightarrow> bool" where
  "wrote out peers answers' w w' \<longleftrightarrow> (\<exists>cs. writes_ok cs \<and> w' = w\<lparr>t_writes := cs, t_output := t_output w @ out,
     t_peers := t_peers w @ peers, t_callback := answers'\<rparr>)"

definition writes ::
  "string list \<Rightarrow> ('z tls_world_ext, mcl_error option) io \<Rightarrow> string \<Rightarrow> (string \<times> string) list \<Rightarrow> string list \<Rightarrow> bool" where
  "writes answers m out peers answers' \<longleftrightarrow>
     (\<forall>w. ready w \<and> t_callback w = answers \<longrightarrow>
       (\<exists>w'. run_state m w = (Some MCL_OK, w') \<and> wrote out peers answers' w w'))"

named_theorems writing \<open>what statements write\<close>

lemma wrote_trans:
  "wrote a p ans w w' \<Longrightarrow> wrote b q ans' w' w'' \<Longrightarrow> wrote (a @ b) (p @ q) ans' w w''"
  by (auto simp: wrote_def)

lemma wrote_ready: "wrote a p ans w w' \<Longrightarrow> ready w \<Longrightarrow> ready w' \<and> t_callback w' = ans"
  by (auto simp: wrote_def ready_def)

lemma writes_return [writing]: "writes ans (State_Monad.return (Some MCL_OK)) [] [] ans"
  unfolding writes_def
proof (intro allI impI)
  fix w :: "'a tls_world_scheme" assume "ready w \<and> t_callback w = ans"
  then have "wrote [] [] ans w w"
    unfolding wrote_def by (intro exI [of _ "t_writes w"]) (auto simp: ready_def)
  then show "\<exists>w'. run_state (State_Monad.return (Some MCL_OK)) w = (Some MCL_OK, w') \<and> wrote [] [] ans w w'" by simp
qed

lemma writes_send [writing]: "writes ans (send_buffer s) s [] ans"
  unfolding writes_def
proof (intro allI impI)
  fix w :: "'a tls_world_scheme" assume w: "ready w \<and> t_callback w = ans"
  obtain code out cs where run: "run_state (send_buffer s) w = (Some code, written out cs w)"
    "set cs \<subseteq> set (t_writes w)" "code = MCL_OK \<longrightarrow> out = s" "writes_ok (t_writes w) \<longrightarrow> code = MCL_OK"
    using send_buffer_run [of s w] by blast
  then have "code = MCL_OK" and "out = s" and "writes_ok cs"
    using w by (auto simp: ready_def writes_ok_def)
  then have "wrote s [] ans w (written out cs w)"
    using w unfolding wrote_def by (intro exI [of _ cs]) (auto simp: written_def)
  with run(1) \<open>code = MCL_OK\<close>
  show "\<exists>w'. run_state (send_buffer s) w = (Some MCL_OK, w') \<and> wrote s [] ans w w'" by blast
qed

lemma writes_all_ok:
  "writes ans m a p mid \<Longrightarrow> writes mid (all_ok ms) b q left \<Longrightarrow> writes ans (all_ok (m # ms)) (a @ b) (p @ q) left"
  unfolding writes_def
proof (intro allI impI)
  fix w :: "'a tls_world_scheme"
  assume m: "\<forall>w. ready w \<and> t_callback w = ans \<longrightarrow> (\<exists>w'. run_state m w = (Some MCL_OK, w') \<and> wrote a p mid w w')"
    and ms: "\<forall>w. ready w \<and> t_callback w = mid \<longrightarrow> (\<exists>w'. run_state (all_ok ms) w = (Some MCL_OK, w') \<and> wrote b q left w w')"
    and w: "ready w \<and> t_callback w = ans"
  from m w obtain w1 where w1: "run_state m w = (Some MCL_OK, w1)" "wrote a p mid w w1" by blast
  with wrote_ready w ms obtain w2 where w2: "run_state (all_ok ms) w1 = (Some MCL_OK, w2)" "wrote b q left w1 w2" by blast
  have "run_state (all_ok (m # ms)) w = (Some MCL_OK, w2)" using w1(1) w2(1) by (simp add: run_bind)
  with wrote_trans [OF w1(2) w2(2)]
  show "\<exists>w'. run_state (all_ok (m # ms)) w = (Some MCL_OK, w') \<and> wrote (a @ b) (p @ q) left w w'" by blast
qed

lemma writes_nil [writing]: "writes ans (all_ok []) [] [] ans"
  using writes_return by simp

lemma writes_eq: "writes ans m out p ans' \<Longrightarrow> out = out' \<Longrightarrow> p = p' \<Longrightarrow> writes ans m out' p' ans'"
  by simp

text \<open>A sequence of statements that each write a text and do nothing else.\<close>

lemma writes_texts:
  assumes "list_all2 (\<lambda>m s. writes ans m s [] ans) ms texts"
  shows "writes ans (all_ok ms) (concat texts) [] ans"
  using assms
proof (induction ms texts)
  case Nil
  then show ?case using writes_nil by simp
next
  case (Cons m ms s texts)
  then show ?case using writes_all_ok [of ans m s "[]" ans ms "concat texts" "[]" ans] by simp
qed

lemma writes_formatted:
  "s \<noteq> [] \<Longrightarrow> length s < len \<Longrightarrow> writes ans (send_formatted len s) s [] ans"
  using writes_send by (simp add: send_formatted_def snprintf_text_fits)

lemma writes_header [writing]:
  "writes ans (send_header name (Some v)) (name @ '': '' @ v @ crlf) [] ans"
  unfolding send_header_def
  by (rule writes_eq [OF writes_texts [of ans _ "[name, '': '', v, crlf]"]]) (simp_all add: writes_send)

lemma writes_header_list [writing]:
  "writes ans (send_header_list hs) (concat (map (\<lambda>h. h @ crlf) hs)) [] ans"
proof -
  have "list_all2 (\<lambda>m s. writes ans m s [] ans) (concat (map (\<lambda>h. [send_buffer h, send_buffer crlf]) hs))
    (concat (map (\<lambda>h. [h, crlf]) hs))"
    by (induction hs) (simp_all add: writes_send)
  moreover have "concat (concat (map (\<lambda>h. [h, crlf]) hs)) = concat (map (\<lambda>h. h @ crlf) hs)" by (induction hs) simp_all
  ultimately show ?thesis using writes_texts unfolding send_header_list_def by metis
qed

lemma writes_then:
  assumes "writes ans m a p mid" and "writes mid (k (Some MCL_OK)) b q left"
  shows "writes ans (do { code \<leftarrow> m; k code }) (a @ b) (p @ q) left"
  unfolding writes_def
proof (intro allI impI)
  fix w :: "'a tls_world_scheme" assume w: "ready w \<and> t_callback w = ans"
  from assms(1) w obtain w1 where w1: "run_state m w = (Some MCL_OK, w1)" "wrote a p mid w w1"
    unfolding writes_def by blast
  with wrote_ready w assms(2) obtain w2 where w2: "run_state (k (Some MCL_OK)) w1 = (Some MCL_OK, w2)" "wrote b q left w1 w2"
    unfolding writes_def by blast
  from w1 w2 wrote_trans [OF w1(2) w2(2)]
  show "\<exists>w'. run_state (do { code \<leftarrow> m; k code }) w = (Some MCL_OK, w') \<and> wrote (a @ b) (p @ q) left w w'"
    by (simp add: run_bind)
qed

lemma writes_callback:
  assumes "writes (tl ans) (k (case ans of [] \<Rightarrow> [] | s # _ \<Rightarrow> s)) out p left"
  shows "writes ans (do { d \<leftarrow> payload_callback; k d }) out p left"
  unfolding writes_def
proof (intro allI impI)
  fix w :: "'a tls_world_scheme" assume w: "ready w \<and> t_callback w = ans"
  define w1 where "w1 = w\<lparr>t_callback := tl ans\<rparr>"
  have "ready w1 \<and> t_callback w1 = tl ans" using w by (simp add: w1_def ready_def)
  with assms obtain w' where
    run: "run_state (k (case ans of [] \<Rightarrow> [] | s # _ \<Rightarrow> s)) w1 = (Some MCL_OK, w')" "wrote out p left w1 w'"
    unfolding writes_def by blast
  have "run_state payload_callback w = ((case ans of [] \<Rightarrow> [] | s # _ \<Rightarrow> s), w1)"
    using w by (cases ans) (auto simp: payload_callback_def w1_def)
  moreover have "wrote out p left w w'" using run(2) by (auto simp: wrote_def w1_def)
  ultimately show "\<exists>w'. run_state (do { d \<leftarrow> payload_callback; k d }) w = (Some MCL_OK, w') \<and> wrote out p left w w'"
    using run(1) by (simp add: run_bind)
qed

section \<open>Streamed bodies\<close>

declare send_with_callback_loop.simps [simp del]

definition chunk :: "string \<Rightarrow> string" where
  "chunk s = print_hex (length s) @ crlf @ s @ crlf"

text \<open>
  What a callback gives before it says that there is no more: pieces that are not empty and fit into
  the buffer; \<open>rest\<close> are the answers it has left then.
\<close>

definition gives :: "string list \<Rightarrow> string list \<Rightarrow> string list \<Rightarrow> bool" where
  "gives answers pieces rest \<longleftrightarrow>
     (\<forall>s \<in> set pieces. s \<noteq> [] \<and> length s \<le> HTTP_CALLBACK_BUFFER_SIZE) \<and>
     (answers = pieces @ [] # rest \<or> answers = pieces \<and> rest = [])"

lemma gives_Nil: "gives answers [] rest \<Longrightarrow> tl answers = rest \<and> (case answers of [] \<Rightarrow> [] | s # _ \<Rightarrow> s) = []"
  by (auto simp: gives_def)

lemma gives_Cons: "gives answers (s # ps) rest \<Longrightarrow> s \<noteq> [] \<and> length s \<le> HTTP_CALLBACK_BUFFER_SIZE \<and>
    (\<exists>ans. answers = s # ans \<and> gives ans ps rest)"
  by (auto simp: gives_def)

lemma writes_chunk_line:
  assumes "length s \<le> HTTP_CALLBACK_BUFFER_SIZE"
  shows "writes ans (send_formatted CHUNK_LENGTH_IN_HEX_BUFFER_SIZE (print_hex (length s) @ crlf))
    (print_hex (length s) @ crlf) [] ans"
proof (rule writes_formatted)
  have "length (print_hex (length s)) \<le> 3"
    using assms by (intro print_hex_length) (simp_all add: HTTP_CALLBACK_BUFFER_SIZE_def)
  then show "length (print_hex (length s) @ crlf) < CHUNK_LENGTH_IN_HEX_BUFFER_SIZE"
    by (simp add: CHUNK_LENGTH_IN_HEX_BUFFER_SIZE_def CRLF_SIZE_def)
qed simp

lemma writes_chunk:
  assumes "length s \<le> HTTP_CALLBACK_BUFFER_SIZE"
  shows "writes ans (all_ok
    [send_formatted CHUNK_LENGTH_IN_HEX_BUFFER_SIZE (print_hex (length s) @ crlf),
     if s \<noteq> [] then send_buffer s else State_Monad.return (Some MCL_OK), send_buffer crlf]) (chunk s) [] ans"
  by (rule writes_eq [OF writes_texts [of ans _ "[print_hex (length s) @ crlf, s, crlf]"]])
    (use assms in \<open>auto simp: writes_chunk_line writes_send writes_return chunk_def\<close>)

lemma writes_chunks:
  assumes "gives answers pieces rest" and "length pieces < turns"
  shows "writes answers (send_with_callback_loop turns True 0 :: ('z tls_world_ext, mcl_error option) io) (concat (map chunk pieces) @ chunk []) [] rest"
  using assms
proof (induction pieces arbitrary: answers turns)
  case Nil
  then obtain t where t: "turns = Suc t" by (cases turns) auto
  have "writes rest (do { code \<leftarrow> all_ok
     [send_formatted CHUNK_LENGTH_IN_HEX_BUFFER_SIZE (print_hex 0 @ crlf),
      State_Monad.return (Some MCL_OK), send_buffer crlf]; State_Monad.return code } :: ('z tls_world_ext, mcl_error option) io) (chunk [] @ []) ([] @ []) rest"
    by (rule writes_then [where mid = rest])
      (use writes_chunk [of "[]" rest] writes_return [of rest] in \<open>simp_all del: all_ok.simps\<close>)
  then show ?case unfolding t send_with_callback_loop.simps using gives_Nil [OF Nil(1)]
    by (intro writes_callback) (simp add: Let_def del: all_ok.simps cong: if_cong)
next
  case (Cons s ps)
  then obtain t ans where t: "turns = Suc t" "length ps < t" and ans: "answers = s # ans" "gives ans ps rest"
    and s: "s \<noteq> []" "length s \<le> HTTP_CALLBACK_BUFFER_SIZE"
    using gives_Cons [OF Cons.prems(1)] by (cases turns) auto
  have "writes ans (do { code \<leftarrow> all_ok
     [send_formatted CHUNK_LENGTH_IN_HEX_BUFFER_SIZE (print_hex (length s) @ crlf), send_buffer s, send_buffer crlf];
     if code = Some MCL_OK then send_with_callback_loop t True 0 else State_Monad.return code } :: ('z tls_world_ext, mcl_error option) io)
     (chunk s @ concat (map chunk ps) @ chunk []) ([] @ []) rest"
    by (rule writes_then [where mid = ans]) (use writes_chunk [OF s(2), of ans] s Cons.IH [OF ans(2) t(2)] in \<open>simp_all del: all_ok.simps\<close>)
  then show ?case unfolding t send_with_callback_loop.simps using s ans(1)
    by (intro writes_callback) (simp add: Let_def del: all_ok.simps cong: if_cong)
qed

lemma writes_counted:
  assumes "gives answers pieces rest" and "length pieces < turns" and "length (concat pieces) = remaining"
  shows "writes answers (send_with_callback_loop turns False remaining :: ('z tls_world_ext, mcl_error option) io)
    (concat pieces) [] rest"
  using assms
proof (induction pieces arbitrary: answers turns remaining)
  case Nil
  then obtain t where t: "turns = Suc t" by (cases turns) auto
  show ?case unfolding t send_with_callback_loop.simps using gives_Nil [OF Nil(1)] Nil(3) writes_return [of rest]
    by (intro writes_callback) (simp add: Let_def cong: if_cong)
next
  case (Cons s ps)
  then obtain t ans where t: "turns = Suc t" "length ps < t" and ans: "answers = s # ans" "gives ans ps rest"
    and s: "s \<noteq> []" "length s \<le> HTTP_CALLBACK_BUFFER_SIZE"
    using gives_Cons [OF Cons.prems(1)] by (cases turns) auto
  have r: "length s \<le> remaining" "length (concat ps) = remaining - length s" using Cons.prems(3) by simp_all
  have "writes ans (all_ok [State_Monad.return (Some MCL_OK), send_buffer s, State_Monad.return (Some MCL_OK)]) s [] ans"
    by (rule writes_eq [OF writes_texts [of ans _ "[[], s, []]"]]) (simp_all add: writes_send writes_return)
  then have "writes ans (do { code \<leftarrow> all_ok
     [State_Monad.return (Some MCL_OK), send_buffer s, State_Monad.return (Some MCL_OK)];
     if code = Some MCL_OK then send_with_callback_loop t False (remaining - length s)
     else if code = Some MCL_OK \<and> remaining - length s \<noteq> 0 then State_Monad.return (Some MCL_FAIL)
     else State_Monad.return code } :: ('z tls_world_ext, mcl_error option) io) (s @ concat ps) ([] @ []) rest"
    by (rule writes_then [where mid = ans]) (use Cons.IH [OF ans(2) t(2) r(2)] in simp)
  then show ?case unfolding t send_with_callback_loop.simps using s r(1) ans(1)
    by (intro writes_callback) (simp add: Let_def del: all_ok.simps cong: if_cong)
qed

section \<open>The request line\<close>

lemma writes_malloc:
  assumes "writes ans (k True) out p ans'"
  shows "writes ans (do { a \<leftarrow> mcl_malloc; k a }) out p ans'"
  using assms by (simp add: writes_def ready_def)

lemma writes_connect:
  assumes "port \<noteq> []" and "length port < PORT_STRING_BUFFER_SIZE"
  shows "writes ans (do { code \<leftarrow> mcl_tls_socket_connect (Some tls_socket) host port; State_Monad.return (Some code) })
    [] [(host, port)] ans"
  unfolding writes_def
proof (intro allI impI)
  fix w :: "'a tls_world_scheme" assume w: "ready w \<and> t_callback w = ans"
  define w' where "w' = w\<lparr>t_peers := t_peers w @ [(host, port)]\<rparr>"
  have "run_state mbedtls_call w' = (Bytes 0, w')" and "run_state mbedtls_retry w' = (Bytes 0, w')"
    using w by (simp_all add: mbedtls_call_def mbedtls_retry_def w'_def ready_def)
  moreover have "run_state (record_peer host port) w = ((), w')" by (simp add: record_peer_def w'_def)
  ultimately have "run_state (do { code \<leftarrow> mcl_tls_socket_connect (Some tls_socket) host port; State_Monad.return (Some code) }) w
      = (Some MCL_OK, w')"
    using assms by (simp add: mcl_tls_socket_connect_def snprintf_text_fits run_bind)
  moreover have "wrote [] [(host, port)] ans w w'"
    unfolding wrote_def using w by (intro exI [of _ "t_writes w"]) (auto simp: w'_def ready_def)
  ultimately show "\<exists>w'. run_state (do { code \<leftarrow> mcl_tls_socket_connect (Some tls_socket) host port; State_Monad.return (Some code) }) w
      = (Some MCL_OK, w') \<and> wrote [] [(host, port)] ans w w'" by blast
qed

definition method_text :: "E_MCL_HTTP_METHOD \<Rightarrow> string" where
  "method_text m = (case m of MCL_HTTP_PUT \<Rightarrow> ''PUT '' | MCL_HTTP_POST \<Rightarrow> ''POST '' | _ \<Rightarrow> ''GET '')"

definition host_text :: "mcl_http_client_t \<Rightarrow> string \<Rightarrow> string" where
  "host_text client host =
     host @ (if hc_port client = 443 then [] else '':'' @ print_nat (hc_port client))"

definition supported_method :: "E_MCL_HTTP_METHOD \<Rightarrow> bool" where
  "supported_method m \<longleftrightarrow> m = MCL_HTTP_GET \<or> m = MCL_HTTP_PUT \<or> m = MCL_HTTP_POST"

text \<open>An address: the host, then nothing or a target that starts with a slash.\<close>

definition address :: "string \<Rightarrow> string \<Rightarrow> string \<Rightarrow> bool" where
  "address uri host target \<longleftrightarrow> uri = https_prefix @ host @ target \<and> CHR ''/'' \<notin> set host \<and>
     (target = [] \<or> hd target = CHR ''/'') \<and> cstring uri"

lemma address_host:
  assumes "address uri host target"
  shows "takeWhile (\<lambda>c. c \<noteq> CHR ''/'') (host @ target) = host"
    and "drop HTTPS_PREFIX_SIZE uri = host @ target"
proof -
  show "drop HTTPS_PREFIX_SIZE uri = host @ target"
    using assms by (simp add: address_def HTTPS_PREFIX_SIZE_def)
  have "takeWhile (\<lambda>c. c \<noteq> CHR ''/'') host = host" using assms by (auto simp: address_def takeWhile_eq_all_conv)
  moreover have "takeWhile (\<lambda>c. c \<noteq> CHR ''/'') target = []" using assms by (cases target) (auto simp: address_def)
  ultimately show "takeWhile (\<lambda>c. c \<noteq> CHR ''/'') (host @ target) = host"
    using assms by (subst takeWhile_append2) (auto simp: address_def)
qed

lemma writes_port:
  assumes "hc_port client < 2 ^ 16"
  shows "writes ans (if hc_port client = TLS_DEFAULT_PORT then State_Monad.return (Some MCL_OK)
      else (case snprintf_text PORT_STRING_BUFFER_SIZE (print_nat (hc_port client)) of
          Err code \<Rightarrow> State_Monad.return (Some code)
        | Ok port_string \<Rightarrow> all_ok [send_buffer '':'', send_buffer port_string]))
    (if hc_port client = 443 then [] else '':'' @ print_nat (hc_port client)) [] ans"
proof (cases "hc_port client = 443")
  case True
  then show ?thesis using writes_return by (simp add: TLS_DEFAULT_PORT_def)
next
  case False
  have "length (print_nat (hc_port client)) \<le> 5" using assms by (intro print_nat_length) simp_all
  then have "snprintf_text PORT_STRING_BUFFER_SIZE (print_nat (hc_port client)) = Ok (print_nat (hc_port client))"
    by (intro snprintf_text_fits) (simp_all add: PORT_STRING_BUFFER_SIZE_def)
  moreover have "writes ans (all_ok [send_buffer '':'', send_buffer (print_nat (hc_port client))])
      ('':'' @ print_nat (hc_port client)) [] ans"
    by (rule writes_eq [OF writes_texts [of ans _ "['':'', print_nat (hc_port client)]"]]) (simp_all add: writes_send)
  ultimately show ?thesis using False by (simp add: TLS_DEFAULT_PORT_def del: all_ok.simps)
qed

lemma writes_start_http:
  assumes "supported_method m" and "address uri host target" and "hc_port client < 2 ^ 16"
  shows "writes ans (start_http (Some tls_socket) client m uri)
    (method_text m @ target @ '' HTTP/1.1'' @ crlf @ ''Host: '' @ host_text client host @ crlf)
    [(host, print_nat (hc_port client))] ans"
proof -
  have "length (print_nat (hc_port client)) \<le> 5" using assms(3) by (intro print_nat_length) simp_all
  then have "writes ans (do { code \<leftarrow> mcl_tls_socket_connect (Some tls_socket) host (print_nat (hc_port client));
      State_Monad.return (Some code) }) [] [(host, print_nat (hc_port client))] ans"
    by (intro writes_connect) (simp_all add: PORT_STRING_BUFFER_SIZE_def)
  note connected = this
  have m: "(case m of MCL_HTTP_GET \<Rightarrow> send_buffer get_string | MCL_HTTP_PUT \<Rightarrow> send_buffer put_string
      | MCL_HTTP_POST \<Rightarrow> send_buffer post_string | _ \<Rightarrow> State_Monad.return (Some MCL_FAIL)) = send_buffer (method_text m)"
    using assms(1) by (auto simp: supported_method_def method_text_def get_string_def put_string_def post_string_def)
  have "writes ans (all_ok
    [send_buffer (method_text m), send_buffer target, send_buffer http_string, send_buffer ''Host: '', send_buffer host,
     if hc_port client = TLS_DEFAULT_PORT then State_Monad.return (Some MCL_OK)
      else (case snprintf_text PORT_STRING_BUFFER_SIZE (print_nat (hc_port client)) of
          Err code \<Rightarrow> State_Monad.return (Some code)
        | Ok port_string \<Rightarrow> all_ok [send_buffer '':'', send_buffer port_string]),
     send_buffer crlf])
    (concat [method_text m, target, http_string, ''Host: '', host,
      if hc_port client = 443 then [] else '':'' @ print_nat (hc_port client), crlf]) [] ans"
    using writes_port [OF assms(3), of ans] by (intro writes_texts) (simp add: writes_send del: all_ok.simps)
  from writes_all_ok [OF connected this] show ?thesis
    unfolding start_http_def Let_def address_host [OF assms(2)] m
    by (intro writes_malloc) (simp add: host_text_def http_string_def del: all_ok.simps)
qed

section \<open>Whole requests\<close>

text \<open>
  The header that announces the body, the body as it is written, and the answers of the callback
  that are left, given those it has.
\<close>

inductive request_body ::
  "mcl_http_request_t \<Rightarrow> string list \<Rightarrow> string \<Rightarrow> string \<Rightarrow> string list \<Rightarrow> bool" where
  no_body: "rq_method rq = MCL_HTTP_GET \<Longrightarrow> rq_payload rq = None \<or> rq_payload_size rq \<noteq> 0 \<Longrightarrow>
    request_body rq answers [] [] answers"
| buffered: "rq_method rq \<noteq> MCL_HTTP_GET \<Longrightarrow> rq_payload rq = Some b \<Longrightarrow>
    0 < rq_payload_size rq \<Longrightarrow> rq_payload_size rq < 2 ^ 64 \<Longrightarrow> read_cells b (rq_payload_size rq) = Some bytes \<Longrightarrow>
    request_body rq answers (''Content-Length: '' @ print_nat (rq_payload_size rq) @ crlf) bytes answers"
| counted: "rq_method rq \<noteq> MCL_HTTP_GET \<Longrightarrow> rq_payload rq = None \<Longrightarrow> rq_stream_callback rq \<noteq> None \<Longrightarrow>
    0 < rq_payload_size rq \<Longrightarrow> rq_payload_size rq < 2 ^ 64 \<Longrightarrow> gives answers pieces rest \<Longrightarrow>
    length (concat pieces) = rq_payload_size rq \<Longrightarrow>
    request_body rq answers (''Content-Length: '' @ print_nat (rq_payload_size rq) @ crlf) (concat pieces) rest"
| chunked: "rq_method rq \<noteq> MCL_HTTP_GET \<Longrightarrow> rq_payload rq = None \<Longrightarrow> rq_stream_callback rq \<noteq> None \<Longrightarrow>
    rq_payload_size rq = 0 \<Longrightarrow> gives answers pieces rest \<Longrightarrow>
    request_body rq answers (''Transfer-Encoding: chunked'' @ crlf) (concat (map chunk pieces) @ chunk []) rest"

definition request_text ::
  "mcl_http_client_t \<Rightarrow> mcl_http_request_t \<Rightarrow> string \<Rightarrow> string \<Rightarrow> string \<Rightarrow> string \<Rightarrow> string \<Rightarrow> string" where
  "request_text client request host target agent framing body =
     method_text (rq_method request) @ target @ '' HTTP/1.1'' @ crlf @
     ''Host: '' @ host_text client host @ crlf @
     concat (map (\<lambda>h. h @ crlf) (rq_header request)) @
     ''User-Agent: '' @ agent @ crlf @ framing @ crlf @ body"

lemma writes_framing:
  assumes "request_body rq answers framing body rest"
  shows "writes ans (send_framing rq) framing [] ans"
  using assms
proof cases
  case no_body
  then show ?thesis using writes_return by (simp add: send_framing_def)
next
  case chunked
  have "writes ans (all_ok [send_buffer transfer_encoding_header, send_buffer crlf]) framing [] ans"
    by (rule writes_eq [OF writes_texts [of ans _ "[transfer_encoding_header, crlf]"]])
      (use chunked in \<open>simp_all add: writes_send transfer_encoding_header_def\<close>)
  then show ?thesis using chunked by (simp add: send_framing_def del: all_ok.simps)
qed (use writes_header [of ans content_length_header] print_nat_length [of "rq_payload_size rq" 20] in
    \<open>simp_all add: send_framing_def snprintf_text_fits CONTENT_LENGTH_BUFFER_SIZE_def content_length_header_def\<close>)

lemma send_with_callback_turns:
  assumes "writes answers (send_with_callback_loop (length answers + 1) (n = 0) n ::
    ('z tls_world_ext, mcl_error option) io) out [] rest"
  shows "writes answers (send_with_callback n :: ('z tls_world_ext, mcl_error option) io) out [] rest"
  using assms by (auto simp: writes_def send_with_callback_def)

lemma gives_length: "gives answers pieces rest \<Longrightarrow> length pieces < length answers + 1"
  by (auto simp: gives_def)

lemma writes_payload:
  assumes "request_body rq answers framing body rest"
  shows "writes answers (send_payload rq :: ('z tls_world_ext, mcl_error option) io) body [] rest"
  using assms
proof cases
  case no_body
  then show ?thesis using writes_return by (simp add: send_payload_def)
next
  case (buffered b)
  then show ?thesis using writes_send by (simp add: send_payload_def)
next
  case (counted pieces)
  then have "writes answers (send_with_callback_loop (length answers + 1) False (rq_payload_size rq) ::
      ('z tls_world_ext, mcl_error option) io) body [] rest"
    using writes_counted [of answers pieces rest] gives_length by blast
  then show ?thesis using send_with_callback_turns [where n = "rq_payload_size rq"] counted
    by (simp add: send_payload_def)
next
  case (chunked pieces)
  then have "writes answers (send_with_callback_loop (length answers + 1) True 0 ::
      ('z tls_world_ext, mcl_error option) io) body [] rest"
    using writes_chunks [of answers pieces rest] gives_length by blast
  then show ?thesis using send_with_callback_turns [where n = 0] chunked
    by (simp add: send_payload_def)
qed

lemma writes_request:
  assumes "supported_method (rq_method request)" and "address uri host target" and "hc_port client < 2 ^ 16"
    and "hc_user_agent client = Some agent" and "request_body request answers framing body rest"
  shows "writes answers (write_request (Some tls_socket) client request uri)
    (request_text client request host target agent framing body) [(host, print_nat (hc_port client))] rest"
proof -
  note parts = writes_all_ok [OF writes_start_http [OF assms(1-3)] writes_all_ok [OF writes_header_list
      writes_all_ok [OF writes_header writes_all_ok [OF writes_framing [OF assms(5)] writes_all_ok [OF writes_send
      writes_all_ok [OF writes_payload [OF assms(5)] writes_nil]]]]]]
  show ?thesis unfolding write_request_def assms(4)
    by (rule writes_eq [OF parts]) (simp_all add: request_text_def)
qed

lemma request_valid:
  assumes "request_body rq answers framing body rest" and "rq_uri rq = Some uri" and "address uri host target"
  shows "validate_request rq = Some MCL_OK"
proof -
  have "cstring https_prefix" by (simp add: cstring_def https_prefix_def MCL_NULL_CHAR_def)
  then have "mcl_string_util_strncmp (Some (cstr uri)) (Some (cstr https_prefix)) HTTPS_PREFIX_SIZE = Some MCL_OK"
    using assms(3) strncmp_eq_cstr [of "https_prefix @ host @ target" https_prefix "[]" "[]" "length https_prefix"]
    by (auto simp: address_def mcl_string_util_strncmp_def string_util_strncmp_def cstr_def HTTPS_PREFIX_SIZE_def)
  moreover from assms(1) have "\<not> (rq_method rq \<noteq> MCL_HTTP_GET \<and> rq_payload rq = None \<and> rq_stream_callback rq = None)"
    and "\<not> (rq_payload rq \<noteq> None \<and> rq_payload_size rq = 0)"
    by (cases; auto)+
  ultimately show ?thesis using assms(2) by (simp add: validate_request_def)
qed

lemma prepared_socket_ready:
  "ready w \<Longrightarrow> \<exists>s. run_state (prepared_socket client) w = ((MCL_OK, Some s), w)"
  by (simp add: prepared_socket_def mcl_tls_socket_init_def mbedtls_call_def ready_def run_bind
      mcl_tls_socket_set_parameter_def mcl_tls_socket_open_def)

text \<open>On a working connection the client writes the request and then reads the response.\<close>

lemma basic_request_run:
  assumes "ready w" and "rq_uri request = Some uri" and "address uri host target"
    and "supported_method (rq_method request)" and "hc_port client < 2 ^ 16"
    and "hc_user_agent client = Some agent" and "request_body request (t_callback w) framing body rest"
  shows "\<exists>cs. run_state (basic_http_client_send (Some client) (Some request)) w =
    run_state get_response (w\<lparr>t_writes := cs,
      t_output := t_output w @ request_text client request host target agent framing body,
      t_peers := t_peers w @ [(host, print_nat (hc_port client))], t_callback := rest\<rparr>)"
proof -
  obtain s where s: "run_state (prepared_socket client) w = ((MCL_OK, Some s), w)"
    using prepared_socket_ready [OF assms(1)] by blast
  obtain w' where w': "run_state (write_request (Some s) client request uri) w = (Some MCL_OK, w')"
    "wrote (request_text client request host target agent framing body) [(host, print_nat (hc_port client))] rest w w'"
    using writes_request [OF assms(4,3,5,6,7), of s] assms(1) unfolding writes_def by blast
  then show ?thesis using s request_valid [OF assms(7,2,3)] assms(2)
    by (auto simp: basic_http_client_send_def wrote_def run_bind)
qed

section \<open>Connections that fail\<close>

text \<open>What leaves a part of the world alone.\<close>

definition keeps :: "('z tls_world_scheme \<Rightarrow> 'b) \<Rightarrow> ('z tls_world_ext, 'a) io \<Rightarrow> bool" where
  "keeps part m \<longleftrightarrow> (\<forall>w. part (snd (run_state m w)) = part w)"

named_theorems keeping \<open>what leaves a part of the world alone\<close>

lemma kept_return [keeping]: "keeps part (State_Monad.return x)"
  by (simp add: keeps_def)

lemma kept_bind [keeping]: "keeps part m \<Longrightarrow> (\<And>x. keeps part (f x)) \<Longrightarrow> keeps part (State_Monad.bind m f)"
  by (auto simp: keeps_def run_bind split: prod.split) (metis snd_conv)

lemma kept_if [keeping]: "keeps part m \<Longrightarrow> keeps part n \<Longrightarrow> keeps part (if b then m else n)"
  by simp

lemma keeps_option [keeping]:
  "keeps part m \<Longrightarrow> (\<And>x. keeps part (f x)) \<Longrightarrow> keeps part (case p of None \<Rightarrow> m | Some x \<Rightarrow> f x)"
  by (cases p) simp_all

lemma keeps_sum [keeping]:
  "(\<And>x. keeps part (f x)) \<Longrightarrow> (\<And>x. keeps part (g x)) \<Longrightarrow> keeps part (case p of Inl x \<Rightarrow> f x | Inr x \<Rightarrow> g x)"
  by (cases p) simp_all

lemma keeps_prod [keeping]: "(\<And>x y. keeps part (f x y)) \<Longrightarrow> keeps part (case p of (x, y) \<Rightarrow> f x y)"
  by (cases p) simp

lemma kept_part: "keeps part m \<Longrightarrow> run_state m w = (x, w') \<Longrightarrow> part w' = part w"
  unfolding keeps_def by (metis snd_conv)

abbreviation silent :: "('z tls_world_ext, 'a) io \<Rightarrow> bool" where "silent \<equiv> keeps t_output"

lemma silent_malloc [keeping]: "silent mcl_malloc"
  by (auto simp: keeps_def mcl_malloc_def split: list.split)

lemma silent_mbedtls [keeping]: "silent mbedtls_call" "silent mbedtls_retry" "silent (record_peer h p)"
  by (auto simp: keeps_def mbedtls_call_def mbedtls_retry_def record_peer_def split: list.split)

lemma silent_connect [keeping]: "silent (mcl_tls_socket_connect s host port)"
  unfolding mcl_tls_socket_connect_def by (intro keeping)

text \<open>What neither writes nor asks the callback.\<close>

abbreviation quiet :: "('z tls_world_ext, 'a) io \<Rightarrow> bool" where "quiet \<equiv> keeps (\<lambda>w. (t_output w, t_callback w))"

lemma quiet_calls [keeping]: "quiet mcl_malloc" "quiet mbedtls_call" "quiet mbedtls_retry" "quiet (record_peer h p)"
  by (auto simp: keeps_def mcl_malloc_def mbedtls_call_def mbedtls_retry_def record_peer_def split: list.split)

lemma quiet_connect: "quiet (mcl_tls_socket_connect s host port)"
  unfolding mcl_tls_socket_connect_def by (intro keeping)

lemma quiet_prepared: "quiet (prepared_socket client)"
  unfolding prepared_socket_def mcl_tls_socket_init_def by (intro keeping)

lemma silent_prepared: "silent (prepared_socket client)"
  unfolding prepared_socket_def mcl_tls_socket_init_def by (intro keeping)

text \<open>
  In every world in which the callback has these answers, a statement writes a beginning of its text;
  when it succeeds it writes all of it and leaves those answers of the callback.
\<close>

definition sends :: "string list \<Rightarrow> ('z tls_world_ext, mcl_error option) io \<Rightarrow> string \<Rightarrow> string list \<Rightarrow> bool" where
  "sends ans m s ans' \<longleftrightarrow> (\<forall>w. t_callback w = ans \<longrightarrow>
     (\<exists>code out w'. run_state m w = (Some code, w') \<and> t_output w' = t_output w @ out \<and>
     (\<exists>rest. s = out @ rest) \<and> (code = MCL_OK \<longrightarrow> out = s \<and> t_callback w' = ans')))"

lemma sendsI:
  assumes "\<And>w. t_callback w = ans \<Longrightarrow> \<exists>code out w'. run_state m w = (Some code, w') \<and> t_output w' = t_output w @ out \<and>
     (\<exists>rest. s = out @ rest) \<and> (code = MCL_OK \<longrightarrow> out = s \<and> t_callback w' = ans')"
  shows "sends ans m s ans'"
  using assms by (auto simp: sends_def)

lemma sendsE:
  assumes "sends ans m s ans'" and "t_callback w = ans"
  obtains code out rest w' where "run_state m w = (Some code, w')" "t_output w' = t_output w @ out"
    "s = out @ rest" "code = MCL_OK \<longrightarrow> out = s \<and> t_callback w' = ans'"
  using assms unfolding sends_def by metis

lemma sends_send_buffer: "sends ans (send_buffer s) s ans"
proof (rule sendsI)
  fix w :: "'a tls_world_scheme"
  assume "t_callback w = ans"
  then show "\<exists>code out w'. run_state (send_buffer s) w = (Some code, w') \<and> t_output w' = t_output w @ out \<and>
     (\<exists>rest. s = out @ rest) \<and> (code = MCL_OK \<longrightarrow> out = s \<and> t_callback w' = ans)"
    using send_buffer_run [of s w] by (fastforce simp: written_def)
qed

lemma sends_return: "sends ans (State_Monad.return (Some code)) [] ans"
  by (rule sendsI) simp

lemma sends_nothing: "code \<noteq> MCL_OK \<Longrightarrow> sends ans (State_Monad.return (Some code)) s ans'"
  by (rule sendsI) simp

text \<open>A statement, and after its success another one.\<close>

lemma sends_then:
  assumes "sends ans m s mid" and "sends mid (k (Some MCL_OK)) t ans'"
    and "\<And>code. code \<noteq> MCL_OK \<Longrightarrow> k (Some code) = State_Monad.return (Some code)"
  shows "sends ans (do { code \<leftarrow> m; k code }) (s @ t) ans'"
proof (rule sendsI)
  fix w :: "'a tls_world_scheme"
  assume w: "t_callback w = ans"
  obtain code out rest w' where m: "run_state m w = (Some code, w')" "t_output w' = t_output w @ out"
    "s = out @ rest" "code = MCL_OK \<longrightarrow> out = s \<and> t_callback w' = mid" using assms(1) w by (rule sendsE)
  show "\<exists>code out w'. run_state (do { code \<leftarrow> m; k code }) w = (Some code, w') \<and> t_output w' = t_output w @ out \<and>
     (\<exists>rest. s @ t = out @ rest) \<and> (code = MCL_OK \<longrightarrow> out = s @ t \<and> t_callback w' = ans')"
  proof (cases "code = MCL_OK")
    case True
    then have "out = s" "t_callback w' = mid" using m(4) by simp_all
    then obtain code2 out2 rest2 w2 where ms: "run_state (k (Some MCL_OK)) w' = (Some code2, w2)"
      "t_output w2 = t_output w' @ out2" "t = out2 @ rest2" "code2 = MCL_OK \<longrightarrow> out2 = t \<and> t_callback w2 = ans'"
      using sendsE [OF assms(2)] by metis
    have "code2 = MCL_OK \<longrightarrow> s @ out2 = s @ t \<and> t_callback w2 = ans'" using ms(4) by simp
    then show ?thesis using True m(1,2) ms(1,2,3) \<open>out = s\<close>
      by (intro exI [of _ code2] exI [of _ "s @ out2"] exI [of _ w2] conjI exI [of _ rest2]) (simp_all add: run_bind)
  next
    case False
    with m assms(3) show ?thesis
      by (intro exI [of _ code] exI [of _ out] exI [of _ w']) (simp add: run_bind)
  qed
qed

lemma sends_all_ok:
  "sends ans m s mid \<Longrightarrow> sends mid (all_ok ms) t ans' \<Longrightarrow> sends ans (all_ok (m # ms)) (s @ t) ans'"
  unfolding all_ok.simps by (rule sends_then) simp_all

lemma sends_nil: "sends ans (all_ok []) [] ans"
  using sends_return by simp

lemma sends_texts: "list_all2 (\<lambda>m s. sends ans m s ans) ms texts \<Longrightarrow> sends ans (all_ok ms) (concat texts) ans"
proof (induction ms texts rule: list_all2_induct)
  case Nil
  show ?case unfolding concat.simps by (rule sends_nil)
next
  case (Cons m ms s texts)
  show ?case unfolding concat.simps by (rule sends_all_ok) (rule Cons)+
qed

lemma sends_eq: "sends ans m s ans' \<Longrightarrow> s = t \<Longrightarrow> sends ans m t ans'"
  by simp

lemma sends_formatted: "s \<noteq> [] \<Longrightarrow> length s < len \<Longrightarrow> sends ans (send_formatted len s) s ans"
  using sends_send_buffer by (simp add: send_formatted_def snprintf_text_fits)

lemma sends_header: "sends ans (send_header name (Some v)) (name @ '': '' @ v @ crlf) ans"
  unfolding send_header_def
  by (rule sends_eq [OF sends_texts [of ans _ "[name, '': '', v, crlf]"]]) (simp_all add: sends_send_buffer)

lemma sends_header_list: "sends ans (send_header_list hs) (concat (map (\<lambda>h. h @ crlf) hs)) ans"
proof -
  have "list_all2 (\<lambda>m s. sends ans m s ans) (concat (map (\<lambda>h. [send_buffer h, send_buffer crlf]) hs))
    (concat (map (\<lambda>h. [h, crlf]) hs))"
    by (induction hs) (simp_all add: sends_send_buffer)
  moreover have "concat (concat (map (\<lambda>h. [h, crlf]) hs)) = concat (map (\<lambda>h. h @ crlf) hs)" by (induction hs) simp_all
  ultimately show ?thesis using sends_texts unfolding send_header_list_def by metis
qed

lemma sends_quiet_bind:
  assumes "quiet m" and "\<And>x. sends ans (f x) s ans'"
  shows "sends ans (State_Monad.bind m f) s ans'"
proof (rule sendsI)
  fix w :: "'a tls_world_scheme"
  assume w: "t_callback w = ans"
  obtain x w1 where x: "run_state m w = (x, w1)" by fastforce
  then have w1: "t_output w1 = t_output w" "t_callback w1 = ans" using kept_part [OF assms(1) x] w by simp_all
  obtain code out rest w' where "run_state (f x) w1 = (Some code, w')" "t_output w' = t_output w1 @ out"
    "s = out @ rest" "code = MCL_OK \<longrightarrow> out = s \<and> t_callback w' = ans'" using assms(2) w1(2) by (rule sendsE)
  with x w1 show "\<exists>code out w'. run_state (State_Monad.bind m f) w = (Some code, w') \<and> t_output w' = t_output w @ out \<and>
     (\<exists>rest. s = out @ rest) \<and> (code = MCL_OK \<longrightarrow> out = s \<and> t_callback w' = ans')" by (simp add: run_bind)
qed

lemma sends_if: "(b \<Longrightarrow> sends ans m s ans') \<Longrightarrow> (\<not> b \<Longrightarrow> sends ans n s ans') \<Longrightarrow> sends ans (if b then m else n) s ans'"
  by simp

lemma sends_start_http:
  assumes "supported_method m" and "address uri host target" and "hc_port client < 2 ^ 16"
  shows "sends ans (start_http s client m uri)
    (method_text m @ target @ '' HTTP/1.1'' @ crlf @ ''Host: '' @ host_text client host @ crlf) ans"
proof -
  have m: "(case m of MCL_HTTP_GET \<Rightarrow> send_buffer get_string | MCL_HTTP_PUT \<Rightarrow> send_buffer put_string
      | MCL_HTTP_POST \<Rightarrow> send_buffer post_string | _ \<Rightarrow> State_Monad.return (Some MCL_FAIL)) = send_buffer (method_text m)"
    using assms(1) by (auto simp: supported_method_def method_text_def get_string_def put_string_def post_string_def)
  have "length (print_nat (hc_port client)) \<le> 5" using assms(3) by (intro print_nat_length) simp_all
  then have p: "snprintf_text PORT_STRING_BUFFER_SIZE (print_nat (hc_port client)) = Ok (print_nat (hc_port client))"
    by (intro snprintf_text_fits) (simp_all add: PORT_STRING_BUFFER_SIZE_def)
  have port: "sends ans (if hc_port client = TLS_DEFAULT_PORT then State_Monad.return (Some MCL_OK)
      else all_ok [send_buffer '':'', send_buffer (print_nat (hc_port client))])
    (if hc_port client = 443 then [] else '':'' @ print_nat (hc_port client)) ans"
  proof (cases "hc_port client = 443")
    case False
    have "sends ans (all_ok [send_buffer '':'', send_buffer (print_nat (hc_port client))])
        ('':'' @ print_nat (hc_port client)) ans"
      by (rule sends_eq [OF sends_texts [of ans _ "['':'', print_nat (hc_port client)]"]]) (simp_all add: sends_send_buffer)
    with False show ?thesis unfolding TLS_DEFAULT_PORT_def by (simp del: all_ok.simps)
  qed (simp add: TLS_DEFAULT_PORT_def sends_return)
  have connect: "sends ans (do { code \<leftarrow> mcl_tls_socket_connect s host (print_nat (hc_port client));
      State_Monad.return (Some code) }) [] ans"
    by (intro sends_quiet_bind quiet_connect sends_return)
  let ?body = "all_ok
    [do { code \<leftarrow> mcl_tls_socket_connect s host (print_nat (hc_port client)); State_Monad.return (Some code) },
     send_buffer (method_text m), send_buffer target, send_buffer http_string, send_buffer ''Host: '', send_buffer host,
     if hc_port client = TLS_DEFAULT_PORT then State_Monad.return (Some MCL_OK)
      else all_ok [send_buffer '':'', send_buffer (print_nat (hc_port client))],
     send_buffer crlf]"
  let ?text = "concat [[], method_text m, target, http_string, ''Host: '', host,
      if hc_port client = 443 then [] else '':'' @ print_nat (hc_port client), crlf]"
  have body: "sends ans ?body ?text ans"
    using port connect by (intro sends_texts) (simp add: sends_send_buffer del: all_ok.simps)
  have "sends ans (do { a \<leftarrow> mcl_malloc; if \<not> a then State_Monad.return (Some MCL_OUT_OF_MEMORY) else ?body }) ?text ans"
    by (rule sends_quiet_bind [OF quiet_calls(1)], rule sends_if) (rule sends_nothing, simp, rule body)
  moreover have d: "drop (length host) (host @ target) = target" by simp
  ultimately show ?thesis
    unfolding start_http_def Let_def address_host [OF assms(2)] d m p sum.case
    by (simp add: host_text_def http_string_def split del: if_split del: all_ok.simps)
qed

lemma sends_framing:
  assumes "request_body rq answers framing body rest"
  shows "sends ans (send_framing rq) framing ans"
  using assms
proof cases
  case no_body
  then show ?thesis by (simp add: send_framing_def sends_return)
next
  case chunked
  have "sends ans (all_ok [send_buffer transfer_encoding_header, send_buffer crlf]) framing ans"
    by (rule sends_eq [OF sends_texts [of ans _ "[transfer_encoding_header, crlf]"]])
      (use chunked in \<open>simp_all add: sends_send_buffer transfer_encoding_header_def\<close>)
  then show ?thesis using chunked by (simp add: send_framing_def del: all_ok.simps)
qed (use sends_header [of ans content_length_header] print_nat_length [of "rq_payload_size rq" 20] in
    \<open>simp_all add: send_framing_def snprintf_text_fits CONTENT_LENGTH_BUFFER_SIZE_def content_length_header_def\<close>)

text \<open>The answers of the callback, piece by piece.\<close>

lemma sends_callback:
  fixes f :: "string \<Rightarrow> ('z tls_world_ext, mcl_error option) io"
  assumes "sends (tl answers) (f (case answers of [] \<Rightarrow> [] | s # _ \<Rightarrow> s)) out ans'"
  shows "sends answers (State_Monad.bind payload_callback f) out ans'"
proof (rule sendsI)
  fix w :: "'z tls_world_scheme"
  assume w: "t_callback w = answers"
  define w1 where "w1 = w\<lparr>t_callback := tl answers\<rparr>"
  have "run_state payload_callback w = (case answers of [] \<Rightarrow> [] | s # _ \<Rightarrow> s, w1)"
    using w by (cases answers) (auto simp: payload_callback_def w1_def)
  moreover have "t_callback w1 = tl answers" "t_output w1 = t_output w" by (simp_all add: w1_def)
  moreover obtain code out' rest w' where "run_state (f (case answers of [] \<Rightarrow> [] | s # _ \<Rightarrow> s)) w1 = (Some code, w')"
    "t_output w' = t_output w1 @ out'" "out = out' @ rest" "code = MCL_OK \<longrightarrow> out' = out \<and> t_callback w' = ans'"
    using sendsE [OF assms \<open>t_callback w1 = tl answers\<close>] by metis
  ultimately show "\<exists>code out' w'. run_state (State_Monad.bind payload_callback f) w = (Some code, w') \<and>
      t_output w' = t_output w @ out' \<and> (\<exists>rest. out = out' @ rest) \<and> (code = MCL_OK \<longrightarrow> out' = out \<and> t_callback w' = ans')"
    by auto
qed

lemma sends_chunk:
  assumes "length s \<le> HTTP_CALLBACK_BUFFER_SIZE"
  shows "sends ans (all_ok
    [send_formatted CHUNK_LENGTH_IN_HEX_BUFFER_SIZE (print_hex (length s) @ crlf),
     if s \<noteq> [] then send_buffer s else State_Monad.return (Some MCL_OK), send_buffer crlf]) (chunk s) ans"
proof -
  have "length (print_hex (length s)) \<le> 3"
    using assms by (intro print_hex_length) (simp_all add: HTTP_CALLBACK_BUFFER_SIZE_def)
  then have line: "sends ans (send_formatted CHUNK_LENGTH_IN_HEX_BUFFER_SIZE (print_hex (length s) @ crlf))
      (print_hex (length s) @ crlf) ans"
    by (intro sends_formatted) (simp_all add: CHUNK_LENGTH_IN_HEX_BUFFER_SIZE_def CRLF_SIZE_def)
  show ?thesis
    by (rule sends_eq [OF sends_texts [of ans _ "[print_hex (length s) @ crlf, s, crlf]"]])
      (use line in \<open>auto simp: sends_send_buffer sends_return chunk_def\<close>)
qed

lemma sends_chunks:
  assumes "gives answers pieces rest" and "length pieces < turns"
  shows "sends answers (send_with_callback_loop turns True 0 :: ('z tls_world_ext, mcl_error option) io) (concat (map chunk pieces) @ chunk []) rest"
  using assms
proof (induction pieces arbitrary: answers turns)
  case Nil
  then obtain t where t: "turns = Suc t" by (cases turns) auto
  have "sends rest (do { code \<leftarrow> all_ok
     [send_formatted CHUNK_LENGTH_IN_HEX_BUFFER_SIZE (print_hex 0 @ crlf),
      State_Monad.return (Some MCL_OK), send_buffer crlf]; State_Monad.return code } :: ('z tls_world_ext, mcl_error option) io) (chunk [] @ []) rest"
    by (rule sends_then [where mid = rest])
      (use sends_chunk [of "[]" rest] sends_return [of rest] in \<open>simp_all del: all_ok.simps\<close>)
  then show ?case unfolding t send_with_callback_loop.simps using gives_Nil [OF Nil(1)]
    by (intro sends_callback) (simp add: Let_def del: all_ok.simps cong: if_cong)
next
  case (Cons s ps)
  then obtain t ans where t: "turns = Suc t" "length ps < t" and ans: "answers = s # ans" "gives ans ps rest"
    and s: "s \<noteq> []" "length s \<le> HTTP_CALLBACK_BUFFER_SIZE"
    using gives_Cons [OF Cons.prems(1)] by (cases turns) auto
  have "sends ans (do { code \<leftarrow> all_ok
     [send_formatted CHUNK_LENGTH_IN_HEX_BUFFER_SIZE (print_hex (length s) @ crlf), send_buffer s, send_buffer crlf];
     if code = Some MCL_OK then send_with_callback_loop t True 0 else State_Monad.return code } :: ('z tls_world_ext, mcl_error option) io)
     (chunk s @ concat (map chunk ps) @ chunk []) rest"
    by (rule sends_then [where mid = ans]) (use sends_chunk [OF s(2), of ans] s Cons.IH [OF ans(2) t(2)] in \<open>simp_all del: all_ok.simps\<close>)
  then show ?case unfolding t send_with_callback_loop.simps using s ans(1)
    by (intro sends_callback) (simp add: Let_def del: all_ok.simps cong: if_cong)
qed

lemma sends_counted:
  assumes "gives answers pieces rest" and "length pieces < turns" and "length (concat pieces) = remaining"
  shows "sends answers (send_with_callback_loop turns False remaining :: ('z tls_world_ext, mcl_error option) io) (concat pieces) rest"
  using assms
proof (induction pieces arbitrary: answers turns remaining)
  case Nil
  then obtain t where t: "turns = Suc t" by (cases turns) auto
  show ?case unfolding t send_with_callback_loop.simps using gives_Nil [OF Nil(1)] Nil(3) sends_return [of rest]
    by (intro sends_callback) (simp add: Let_def cong: if_cong)
next
  case (Cons s ps)
  then obtain t ans where t: "turns = Suc t" "length ps < t" and ans: "answers = s # ans" "gives ans ps rest"
    and s: "s \<noteq> []" "length s \<le> HTTP_CALLBACK_BUFFER_SIZE"
    using gives_Cons [OF Cons.prems(1)] by (cases turns) auto
  have r: "length s \<le> remaining" "length (concat ps) = remaining - length s" using Cons.prems(3) by simp_all
  have "sends ans (all_ok [State_Monad.return (Some MCL_OK), send_buffer s, State_Monad.return (Some MCL_OK)]) s ans"
    by (rule sends_eq [OF sends_texts [of ans _ "[[], s, []]"]]) (simp_all add: sends_send_buffer sends_return)
  then have "sends ans (do { code \<leftarrow> all_ok
     [State_Monad.return (Some MCL_OK), send_buffer s, State_Monad.return (Some MCL_OK)];
     if code = Some MCL_OK then send_with_callback_loop t False (remaining - length s)
     else if code = Some MCL_OK \<and> remaining - length s \<noteq> 0 then State_Monad.return (Some MCL_FAIL)
     else State_Monad.return code } :: ('z tls_world_ext, mcl_error option) io) (s @ concat ps) rest"
    by (rule sends_then [where mid = ans]) (use Cons.IH [OF ans(2) t(2) r(2)] in simp_all)
  then show ?case unfolding t send_with_callback_loop.simps using s r(1) ans(1)
    by (intro sends_callback) (simp add: Let_def del: all_ok.simps cong: if_cong)
qed

lemma sends_callback_turns:
  "sends answers (send_with_callback_loop (length answers + 1) (n = 0) n :: ('z tls_world_ext, mcl_error option) io) out rest \<Longrightarrow>
   sends answers (send_with_callback n :: ('z tls_world_ext, mcl_error option) io) out rest"
  by (auto simp: sends_def send_with_callback_def)

lemma sends_payload:
  assumes "request_body rq answers framing body rest"
  shows "sends answers (send_payload rq :: ('z tls_world_ext, mcl_error option) io) body rest"
  using assms
proof cases
  case no_body
  then show ?thesis by (simp add: send_payload_def sends_return)
next
  case (buffered b)
  then show ?thesis by (simp add: send_payload_def sends_send_buffer)
next
  case (counted pieces)
  from sends_counted [OF counted(8) gives_length [OF counted(8)] counted(9)]
  show ?thesis using sends_callback_turns [where n = "rq_payload_size rq"] counted by (simp add: send_payload_def)
next
  case (chunked pieces)
  from sends_chunks [OF chunked(7) gives_length [OF chunked(7)]]
  show ?thesis using sends_callback_turns [where n = 0] chunked by (simp add: send_payload_def)
qed

lemma sends_request:
  assumes "supported_method (rq_method request)" and "address uri host target" and "hc_port client < 2 ^ 16"
    and "hc_user_agent client = Some agent" and "request_body request answers framing body rest"
  shows "sends answers (write_request s client request uri) (request_text client request host target agent framing body) rest"
proof -
  note parts = sends_all_ok [OF sends_start_http [OF assms(1-3)] sends_all_ok [OF sends_header_list
      sends_all_ok [OF sends_header sends_all_ok [OF sends_framing [OF assms(5)] sends_all_ok [OF sends_send_buffer
      sends_all_ok [OF sends_payload [OF assms(5)] sends_nil]]]]]]
  show ?thesis unfolding write_request_def assms(4)
    by (rule sends_eq [OF parts]) (simp add: request_text_def)
qed

end
