(* ===== verification/MclBasicReceiveProps.thy ===== *)
theory MclBasicReceiveProps
  imports MclBasicSendProps
begin

text \<open>
  What the basic HTTP client reads: that no server, and no way in which its bytes arrive, makes it
  access memory it must not or run on, and that a well formed response is read as it was written.
\<close>

section \<open>Reading the input\<close>

definition took :: "nat \<Rightarrow> mbedtls_code list \<Rightarrow> 'z tls_world_scheme \<Rightarrow> 'z tls_world_scheme" where
  "took n reads w = w\<lparr>t_reads := reads, t_input := drop n (t_input w)\<rparr>"

lemma took_simps [simp]:
  "t_input (took n reads w) = drop n (t_input w)" "t_reads (took n reads w) = reads"
  "w_alloc (took n reads w) = w_alloc w" "t_stale (took n reads w) = t_stale w"
  "took n r (took m r' w) = took (n + m) r w"
  by (simp_all add: took_def add.commute)

declare receive_to_buffer_loop.simps [simp del] receive_until_lf_loop.simps [simp del]
  get_chunked_response_loop.simps [simp del] get_headers.simps [simp del]

lemma run_input_turns: "run_state (input_turns f) w = run_state (f (length (t_input w) + 1)) w"
  by (simp add: input_turns_def)

lemma reads_ok_subset: "reads_ok cs \<Longrightarrow> set ds \<subseteq> set cs \<Longrightarrow> reads_ok ds"
  by (auto simp: reads_ok_def)

text \<open>A copy into a block.\<close>

lemma memcpy_at:
  "p + length s \<le> length b \<Longrightarrow> string_util_memcpy b p s (length s) =
    Some (take p b @ map Some s @ drop (p + length s) b)"
  by (simp add: string_util_memcpy_def)

lemma receive_to_buffer_run:
  assumes "length (t_input w) < turns" and "p + n \<le> length b"
  shows "\<exists>code b' k reads. run_state (receive_to_buffer_loop turns b p n) w = (Some (code, b'), took k reads w) \<and>
    length b' = length b \<and> set reads \<subseteq> set (t_reads w) \<and>
    (code = MCL_OK \<longrightarrow> k = n \<and> n \<le> length (t_input w) \<and>
       b' = take p b @ map Some (take n (t_input w)) @ drop (p + n) b) \<and>
    (reads_ok (t_reads w) \<and> n \<le> length (t_input w) \<longrightarrow> code = MCL_OK)"
  using assms
proof (induction turns arbitrary: w b p n)
  case 0
  then show ?case by simp
next
  case (Suc turns)
  show ?case
  proof (cases "n = 0")
    case True
    then show ?thesis
      by (intro exI [of _ MCL_OK] exI [of _ b] exI [of _ 0] exI [of _ "t_reads w"])
        (simp add: receive_to_buffer_loop.simps took_def)
  next
    case False
    then obtain code s reads where
      run: "run_state (mcl_tls_socket_receive n) w = ((code, s), took (length s) reads w)"
      and s: "s = take (length s) (t_input w)" "length s \<le> n" "code = MCL_OK \<longleftrightarrow> s \<noteq> []"
        "set reads \<subseteq> set (t_reads w)" "reads_ok (t_reads w) \<and> t_input w \<noteq> [] \<longrightarrow> code = MCL_OK"
      using run_receive [of n w] unfolding took_def by auto
    show ?thesis
    proof (cases "code = MCL_OK")
      case False
      then have "reads_ok (t_reads w) \<and> n \<le> length (t_input w) \<longrightarrow> code = MCL_OK"
        using s(5) \<open>n \<noteq> 0\<close> by auto
      then show ?thesis using \<open>n \<noteq> 0\<close> run False s(4)
        by (intro exI [of _ code] exI [of _ b] exI [of _ "length s"] exI [of _ reads])
          (simp add: receive_to_buffer_loop.simps)
    next
      case True
      define l where "l = length s"
      define b1 where "b1 = take p b @ map Some s @ drop (p + l) b"
      have l: "0 < l" "l \<le> n" "l \<le> length (t_input w)" "s = take l (t_input w)"
      proof -
        show "0 < l" and "l \<le> n" using s(2,3) True by (simp_all add: l_def)
        show "s = take l (t_input w)" unfolding l_def by (rule s(1))
        then show "l \<le> length (t_input w)" by (metis l_def length_take min.cobounded1)
      qed
      have b1: "length b1 = length b" using Suc.prems(2) l(2) by (simp add: b1_def l_def)
      let ?w = "took l reads w"
      have step: "run_state (receive_to_buffer_loop (Suc turns) b p n) w =
          run_state (receive_to_buffer_loop turns b1 (p + l) (n - l)) ?w"
        using run True \<open>n \<noteq> 0\<close> memcpy_at [of p s b] Suc.prems(2) l(2)
        by (simp add: receive_to_buffer_loop.simps l_def b1_def)
      have "length (t_input ?w) < turns" and "p + l + (n - l) \<le> length b1" using Suc.prems l b1 by auto
      from Suc.IH [OF this] obtain code' b' k reads' where
        rest: "run_state (receive_to_buffer_loop turns b1 (p + l) (n - l)) ?w = (Some (code', b'), took k reads' ?w)"
        "length b' = length b1" "set reads' \<subseteq> set reads"
        "code' = MCL_OK \<longrightarrow> k = n - l \<and> n - l \<le> length (t_input ?w) \<and>
          b' = take (p + l) b1 @ map Some (take (n - l) (t_input ?w)) @ drop (p + l + (n - l)) b1"
        "reads_ok reads \<and> n - l \<le> length (t_input ?w) \<longrightarrow> code' = MCL_OK" by auto
      have "take (p + l) b1 = take p b @ map Some s" and "drop (p + l + (n - l)) b1 = drop (p + n) b"
        using Suc.prems(2) l(1-3) by (simp_all add: b1_def l_def drop_map add.commute)
      moreover have "take n (t_input w) = s @ take (n - l) (drop l (t_input w))"
        using l(2,4) by (metis append_take_drop_id le_add_diff_inverse take_add)
      ultimately have "code' = MCL_OK \<longrightarrow> b' = take p b @ map Some (take n (t_input w)) @ drop (p + n) b"
        using rest(4) by simp
      then show ?thesis using step rest l(1-3) b1 s(4) reads_ok_subset [of "t_reads w" reads]
        by (intro exI [of _ code'] exI [of _ b'] exI [of _ "k + l"] exI [of _ reads']) auto
    qed
  qed
qed

section \<open>Reading lines\<close>

abbreviation LF :: char where "LF \<equiv> CHR 0x0A"

lemma run_receive_byte:
  obtains (failed) code reads where "run_state (mcl_tls_socket_receive 1) w = ((code, []), took 0 reads w)"
      "code \<noteq> MCL_OK" "set reads \<subseteq> set (t_reads w)" "\<not> reads_ok (t_reads w) \<or> t_input w = []"
  | (byte) c cs reads where "run_state (mcl_tls_socket_receive 1) w = ((MCL_OK, [c]), took 1 reads w)"
      "t_input w = c # cs" "set reads \<subseteq> set (t_reads w)"
proof -
  from run_receive [of 1 w] obtain code s reads where
    run: "run_state (mcl_tls_socket_receive 1) w = ((code, s), took (length s) reads w)"
    and s: "s = take (length s) (t_input w)" "length s \<le> 1" "code = MCL_OK \<longleftrightarrow> s \<noteq> []"
      "set reads \<subseteq> set (t_reads w)" "reads_ok (t_reads w) \<and> t_input w \<noteq> [] \<longrightarrow> code = MCL_OK"
    unfolding took_def by auto
  show thesis
  proof (cases "code = MCL_OK")
    case True
    then have "length s = 1" using s(2,3) by (cases s) auto
    with s(1) obtain c cs where "t_input w = c # cs" and "s = [c]" by (cases "t_input w") auto
    with run True s(4) \<open>length s = 1\<close> show thesis by (intro byte) simp_all
  next
    case False
    with s(3) have "s = []" by simp
    with run False s(4,5) show thesis by (intro failed) auto
  qed
qed

lemma receive_until_lf_run:
  assumes "length (t_input w) < turns" and "take (length cs) b = map Some cs"
    and "length cs + 1 < requested" and "requested \<le> length b"
  shows "\<exists>code line b' reads. run_state (receive_until_lf_loop turns requested b (length cs)) w =
      (Some (code, length cs + length line, b'), took (length line) reads w) \<and>
    (\<exists>rest. t_input w = line @ rest) \<and> length cs + length line < requested \<and> length b' = length b \<and>
    take (length cs + length line) b' = map Some (cs @ line) \<and> set reads \<subseteq> set (t_reads w) \<and>
    (code = MCL_OK \<longrightarrow> (\<exists>t r. line = t @ [LF] \<and> LF \<notin> set t \<and>
       b' = map Some (cs @ line) @ Some MCL_NULL_CHAR # r)) \<and>
    (\<forall>t rest. reads_ok (t_reads w) \<and> t_input w = t @ LF # rest \<and> LF \<notin> set t \<and>
       length cs + length t + 1 < requested \<longrightarrow> code = MCL_OK)"
  using assms
proof (induction turns arbitrary: w b cs)
  case 0
  then show ?case by simp
next
  case (Suc turns)
  show ?case
  proof (cases w rule: run_receive_byte)
    case (failed code reads)
    then show ?thesis using Suc.prems
      by (intro exI [of _ code] exI [of _ "[]"] exI [of _ b] exI [of _ reads])
        (auto simp: receive_until_lf_loop.simps)
  next
    case (byte c rest reads)
    define b1 where "b1 = b[length cs := Some c]"
    have len: "length cs < length b" "Suc (length cs) < length b" using Suc.prems(3,4) by simp_all
    then have b1: "length b1 = length b" "take (length (cs @ [c])) b1 = map Some (cs @ [c])"
      using Suc.prems(2) by (simp_all add: b1_def take_Suc_conv_app_nth)
    show ?thesis
    proof (cases "c = LF")
      case True
      define b2 where "b2 = b1[Suc (length cs) := Some MCL_NULL_CHAR]"
      have "b2 = take (Suc (length cs)) b1 @ Some MCL_NULL_CHAR # drop (Suc (Suc (length cs))) b1"
        using len b1(1) by (simp add: b2_def upd_conv_take_nth_drop)
      then have b2: "b2 = map Some (cs @ [c]) @ Some MCL_NULL_CHAR # drop (Suc (Suc (length cs))) b1" "length b2 = length b"
        using b1 len(2) by (simp, simp add: b2_def)
      moreover have "run_state (receive_until_lf_loop (Suc turns) requested b (length cs)) w =
          (Some (MCL_OK, length cs + 1, b2), took 1 reads w)"
        using byte(1) True len b1(1) by (simp add: receive_until_lf_loop.simps b1_def b2_def)
      moreover have "take (length cs + 1) b2 = map Some (cs @ [c])" using b2(1) by simp
      ultimately show ?thesis using byte(2,3) True Suc.prems(3)
        by (intro exI [of _ MCL_OK] exI [of _ "[c]"] exI [of _ b2] exI [of _ reads]) auto
    next
      case False
      show ?thesis
      proof (cases "requested - 1 = length cs + 1")
        case True
        have "run_state (receive_until_lf_loop (Suc turns) requested b (length cs)) w =
            (Some (MCL_FAIL, length cs + 1, b1), took 1 reads w)"
          using byte(1) True False len by (simp add: receive_until_lf_loop.simps b1_def)
        moreover have "\<not> (t_input w = t @ LF # r \<and> length cs + length t + 1 < requested)" for t r
          using byte(2) False True by (cases t) auto
        ultimately show ?thesis using byte(2,3) b1 Suc.prems(3)
          by (intro exI [of _ MCL_FAIL] exI [of _ "[c]"] exI [of _ b1] exI [of _ reads]) auto
      next
        case more: False
        have step: "run_state (receive_until_lf_loop (Suc turns) requested b (length cs)) w =
            run_state (receive_until_lf_loop turns requested b1 (length (cs @ [c]))) (took 1 reads w)"
          using byte(1) more False len by (simp add: receive_until_lf_loop.simps b1_def)
        let ?w1 = "took 1 reads w"
        have p: "length (t_input ?w1) < turns" "length (cs @ [c]) + 1 < requested" "requested \<le> length b1"
          using Suc.prems more b1(1) byte(2) by auto
        from Suc.IH [OF p(1) b1(2) p(2,3)] obtain code line b' reads' where
          rest: "run_state (receive_until_lf_loop turns requested b1 (length (cs @ [c]))) ?w1 =
            (Some (code, length (cs @ [c]) + length line, b'), took (length line) reads' ?w1)"
          "\<exists>r. t_input ?w1 = line @ r" "length (cs @ [c]) + length line < requested" "length b' = length b1"
          "take (length (cs @ [c]) + length line) b' = map Some ((cs @ [c]) @ line)" "set reads' \<subseteq> set (t_reads ?w1)"
          "code = MCL_OK \<longrightarrow> (\<exists>t r. line = t @ [LF] \<and> LF \<notin> set t \<and>
            b' = map Some ((cs @ [c]) @ line) @ Some MCL_NULL_CHAR # r)"
          "\<forall>t r. reads_ok (t_reads ?w1) \<and> t_input ?w1 = t @ LF # r \<and> LF \<notin> set t \<and>
            length (cs @ [c]) + length t + 1 < requested \<longrightarrow> code = MCL_OK"
          by blast
        have "code = MCL_OK" if "reads_ok (t_reads w)" "t_input w = t @ LF # r" "LF \<notin> set t"
          "length cs + length t + 1 < requested" for t r
          using that rest(8) byte(2,3) False reads_ok_subset [of "t_reads w" reads] by (cases t) auto
        moreover have "code = MCL_OK \<longrightarrow> (\<exists>t r. c # line = t @ [LF] \<and> LF \<notin> set t \<and>
            b' = map Some (cs @ c # line) @ Some MCL_NULL_CHAR # r)"
        proof
          assume "code = MCL_OK"
          with rest(7) obtain t r where "line = t @ [LF]" "LF \<notin> set t"
            "b' = map Some ((cs @ [c]) @ line) @ Some MCL_NULL_CHAR # r" by blast
          then show "\<exists>t r. c # line = t @ [LF] \<and> LF \<notin> set t \<and>
              b' = map Some (cs @ c # line) @ Some MCL_NULL_CHAR # r"
            using False by (intro exI [of _ "c # t"] exI [of _ r]) simp
        qed
        ultimately show ?thesis using step rest(1-6) byte(2,3) b1(1)
          by (intro exI [of _ code] exI [of _ "c # line"] exI [of _ b'] exI [of _ reads']) auto
      qed
    qed
  qed
qed

lemma block_string_c_text: "block_string (map Some s @ Some MCL_NULL_CHAR # r) = Some (c_text s)"
  by (induction s) (auto simp: c_text_def)

lemma read_cells_written: "take n b = map Some s \<Longrightarrow> n \<le> length b \<Longrightarrow> k \<le> n \<Longrightarrow> read_cells b k = Some (take k s)"
proof -
  assume b: "take n b = map Some s" "n \<le> length b" and k: "k \<le> n"
  have "take k b = map Some (take k s)" using b(1) k by (metis min.absorb1 take_map take_take)
  with b(2) k show ?thesis by (simp add: read_cells_def comp_def)
qed

text \<open>A line of the input into a fresh buffer: all of it, or an error after some bytes.\<close>

lemma run_receive_line:
  assumes "1 < room"
  obtains (line) t rest b reads where
      "run_state (receive_until_lf (fresh_block room) room) w = (Some (MCL_OK, length t + 1, b), took (length t + 1) reads w)"
      "t_input w = t @ LF # rest" "LF \<notin> set t" "length t + 1 < room" "length b = room"
      "block_string b = Some (c_text (t @ [LF]))"
      "\<And>k. k \<le> length t + 1 \<Longrightarrow> read_cells b k = Some (take k (t @ [LF]))" "set reads \<subseteq> set (t_reads w)"
  | (failed) code n b reads where
      "run_state (receive_until_lf (fresh_block room) room) w = (Some (code, n, b), took n reads w)" "code \<noteq> MCL_OK"
      "\<And>k. k \<le> n \<Longrightarrow> \<exists>s. read_cells b k = Some s" "n \<le> length (t_input w)"
      "\<And>t rest. reads_ok (t_reads w) \<Longrightarrow> t_input w = t @ LF # rest \<Longrightarrow> LF \<notin> set t \<Longrightarrow> room \<le> length t + 1"
proof -
  let ?turns = "length (t_input w) + 1"
  have p: "length (t_input w) < ?turns" "take (length []) (fresh_block room) = map Some []"
    "length ([] :: string) + 1 < room" "room \<le> length (fresh_block room :: char block)" using assms by simp_all
  from receive_until_lf_run [OF p] obtain code line b reads where
    loop: "run_state (receive_until_lf_loop ?turns room (fresh_block room) (length ([] :: string))) w =
      (Some (code, length ([] :: string) + length line, b), took (length line) reads w)"
    and f': "\<exists>rest. t_input w = line @ rest" "length ([] :: string) + length line < room"
      "length b = length (fresh_block room :: char block)"
      "take (length ([] :: string) + length line) b = map Some ([] @ line)" "set reads \<subseteq> set (t_reads w)"
      "code = MCL_OK \<longrightarrow> (\<exists>t r. line = t @ [LF] \<and> LF \<notin> set t \<and> b = map Some ([] @ line) @ Some MCL_NULL_CHAR # r)"
      "\<forall>t rest. reads_ok (t_reads w) \<and> t_input w = t @ LF # rest \<and> LF \<notin> set t \<and>
        length ([] :: string) + length t + 1 < room \<longrightarrow> code = MCL_OK" by blast
  note f = f' [simplified]
  have run: "run_state (receive_until_lf (fresh_block room) room) w = (Some (code, length line, b), took (length line) reads w)"
    using loop by (simp add: receive_until_lf_def run_input_turns)
  have cells: "read_cells b k = Some (take k line)" if "k \<le> length line" for k
    using read_cells_written [OF f(4)] f(2,3) that by simp
  show thesis
  proof (cases "code = MCL_OK")
    case True
    then obtain t r where t: "line = t @ [LF]" "LF \<notin> set t" "b = map Some line @ Some MCL_NULL_CHAR # r" using f(6) by blast
    moreover obtain rest where "t_input w = t @ LF # rest" using f(1) t(1) by auto
    moreover have "block_string b = Some (c_text (t @ [LF]))" using t(1,3) block_string_c_text [of line r] by simp
    ultimately show thesis using run True f(2,3,5) cells by (intro line) auto
  next
    case False
    have "room \<le> length t + 1" if "reads_ok (t_reads w)" "t_input w = t @ LF # rest" "LF \<notin> set t" for t rest
        using f(7) False that by (metis Suc_eq_plus1 not_le_imp_less)
    with run False cells f(1) show thesis by (intro failed) auto
  qed
qed

lemma first_line_unique:
  "t @ LF # r = t' @ LF # r' \<Longrightarrow> LF \<notin> set t \<Longrightarrow> LF \<notin> set t' \<Longrightarrow> t = t' \<and> r = r'"
proof -
  assume e: "t @ LF # r = t' @ LF # r'" and t: "LF \<notin> set t" "LF \<notin> set t'"
  have "takeWhile (\<lambda>c. c \<noteq> LF) (s @ LF # q) = s" if "LF \<notin> set s" for s q
    using that by (subst takeWhile_append2) auto
  with e t have "t = t'" by metis
  with e show ?thesis by simp
qed

text \<open>A line that arrives whole and fits.\<close>

lemma run_receive_line_ok:
  assumes "reads_ok (t_reads w)" and "t_input w = t @ LF # rest" and "LF \<notin> set t" and "length t + 1 < room"
  obtains b reads where
    "run_state (receive_until_lf (fresh_block room) room) w = (Some (MCL_OK, length t + 1, b), took (length t + 1) reads w)"
    "length b = room" "block_string b = Some (c_text (t @ [LF]))"
    "\<And>k. k \<le> length t + 1 \<Longrightarrow> read_cells b k = Some (take k (t @ [LF]))" "reads_ok reads"
proof -
  have "1 < room" using assms(4) by simp
  then show thesis
  proof (cases rule: run_receive_line [where w = w])
    case (line t' rest' b reads)
    with first_line_unique [of t rest t' rest'] assms(2,3) have "t' = t" by simp
    moreover have "reads_ok reads" using assms(1) line(8) by (rule reads_ok_subset)
    ultimately show thesis using line by (intro that [of b reads]) auto
  next
    case (failed code n b reads)
    then show thesis using assms by fastforce
  qed
qed

text \<open>A number of bytes into a block.\<close>

lemma run_receive_block:
  assumes "p + n \<le> length b"
  obtains (received) reads where "run_state (receive_to_buffer b p n) w =
      (Some (MCL_OK, take p b @ map Some (take n (t_input w)) @ drop (p + n) b), took n reads w)"
      "n \<le> length (t_input w)" "set reads \<subseteq> set (t_reads w)"
  | (failed) code b' k reads where "run_state (receive_to_buffer b p n) w = (Some (code, b'), took k reads w)"
      "code \<noteq> MCL_OK" "\<not> reads_ok (t_reads w) \<or> length (t_input w) < n"
proof -
  obtain code b' k reads where "run_state (receive_to_buffer b p n) w = (Some (code, b'), took k reads w)"
    "set reads \<subseteq> set (t_reads w)"
    "code = MCL_OK \<longrightarrow> k = n \<and> n \<le> length (t_input w) \<and> b' = take p b @ map Some (take n (t_input w)) @ drop (p + n) b"
    "reads_ok (t_reads w) \<and> n \<le> length (t_input w) \<longrightarrow> code = MCL_OK"
    using receive_to_buffer_run [of w "length (t_input w) + 1" p n b] assms
    by (auto simp: receive_to_buffer_def run_input_turns)
  then show thesis using received failed by (cases "code = MCL_OK") (auto simp: not_le)
qed

section \<open>Every response is read safely\<close>

definition whole :: "char block option \<Rightarrow> nat \<Rightarrow> bool" where
  "whole body n \<longleftrightarrow> body = None \<and> n = 0 \<or> (\<exists>t. body = Some (map Some t) \<and> n = length t)"

text \<open>The block that a chunk of \<open>n\<close> bytes is read into.\<close>

lemma chunk_block:
  assumes "whole body m" and "m + n < 2 ^ 64"
  obtains t where "length t = m" and "body = None \<longrightarrow> t = []"
    and "(case body of None \<Rightarrow> fresh_block n | Some b \<Rightarrow> resized b ((m + n) mod 2 ^ 64)) = map Some t @ fresh_block n"
  using assms by (cases body) (auto simp: whole_def resized_def fresh_block_def)

text \<open>Where chunk sizes are read into, the stack holds zeros: as if the size had been initialised.\<close>

lemma run_stale_half:
  assumes "t_stale w = (\<lambda>_. 0)"
  shows "run_state stale_half w = (0, w)"
proof -
  have "(\<lambda>i. t_stale w (Suc i)) = t_stale w" using assms by simp
  then have "w\<lparr>t_stale := \<lambda>i. t_stale w (Suc i)\<rparr> = w" by simp
  then show ?thesis using assms by (simp add: stale_half_def)
qed

lemma scan_size: "v mod 2 ^ 32 < (2 :: nat) ^ 32"
  by simp

lemma w_alloc_tl: "\<exists>a as. run_state mcl_malloc w = (a, w\<lparr>w_alloc := as\<rparr>)"
  by (cases "w_alloc w") (auto simp: mcl_malloc_def intro: exI [of _ "[]"])

lemma took_malloc [simp]:
  "t_input (w\<lparr>w_alloc := as\<rparr>) = t_input w" "t_stale (w\<lparr>w_alloc := as\<rparr>) = t_stale w"
  "t_reads (w\<lparr>w_alloc := as\<rparr>) = t_reads w"
  by simp_all

text \<open>The three parts of a turn of the chunk loop.\<close>

lemma run_get_chunk_size:
  assumes "t_stale w = (\<lambda>_. 0)"
  obtains (size) n b k reads where
      "run_state get_chunk_size w = (Some (Ok (n, b)), took k reads w)" "n < 2 ^ 32" "length b = CHUNK_STRING_SIZE"
      "0 < k" "k \<le> length (t_input w)"
  | (failed) code w' where "run_state get_chunk_size w = (Some (Err code), w')"
proof -
  have "1 < CHUNK_STRING_SIZE" by (simp add: CHUNK_STRING_SIZE_def CONTENT_LENGTH_BUFFER_SIZE_def)
  then show thesis
  proof (cases rule: run_receive_line [where w = w])
    case (failed code n b reads)
    then show thesis by (intro that(2)) (simp add: get_chunk_size_def)
  next
    case (line t rest b reads)
    show thesis
    proof (cases "scan_hex (c_text (t @ [LF]))")
      case None
      with line show thesis by (intro that(2)) (simp add: get_chunk_size_def)
    next
      case (Some v)
      have "run_state stale_half (took (length t + 1) reads w) = (0, took (length t + 1) reads w)"
        using assms by (intro run_stale_half) simp
      with Some line have "run_state get_chunk_size w = (Some (Ok (v mod 2 ^ 32, b)), took (length t + 1) reads w)"
        by (simp add: get_chunk_size_def)
      with line show thesis by (intro that(1) [of "v mod 2 ^ 32"]) auto
    qed
  qed
qed

text \<open>The memory for a chunk, of a size that is not zero.\<close>

lemma chunk_memory:
  assumes "n \<noteq> 0" and "(m + n) mod 2 ^ 64 \<noteq> 0"
  shows "(case body of None \<Rightarrow> mcl_memory_malloc n | Some _ \<Rightarrow> mcl_memory_realloc ((m + n) mod 2 ^ 64)) = mcl_malloc"
  using assms by (simp split: option.split)

lemma run_get_chunk:
  assumes "whole body m" and "m + n < 2 ^ 64" and "CRLF_SIZE \<le> length b" and "n \<noteq> 0"
  obtains (chunk) t w' where "run_state (get_chunk body m n b) w = (Some (Ok (map Some t)), w')" "length t = m + n"
      "t_input w' = drop (n + CRLF_SIZE) (t_input w)" "n \<le> length (t_input w)" "t_stale w' = t_stale w"
  | (failed) code w' where "run_state (get_chunk body m n b) w = (Some (Err code), w')"
proof -
  have memory: "(case body of None \<Rightarrow> mcl_memory_malloc n | Some _ \<Rightarrow> mcl_memory_realloc ((m + n) mod 2 ^ 64)) = mcl_malloc"
    using assms(2,4) by (intro chunk_memory) simp_all
  obtain a as where a: "run_state mcl_malloc w = (a, w\<lparr>w_alloc := as\<rparr>)" using w_alloc_tl by blast
  let ?w = "w\<lparr>w_alloc := as\<rparr>"
  obtain tx where tx: "length tx = m" "body = None \<longrightarrow> tx = []"
    "(case body of None \<Rightarrow> fresh_block n | Some b \<Rightarrow> resized b ((m + n) mod 2 ^ 64)) = map Some tx @ fresh_block n"
    using chunk_block [OF assms(1,2)] by blast
  have room: "m + n \<le> length (map Some tx @ fresh_block n :: char block)" using tx(1) by simp
  show thesis
  proof (cases a)
    case False
    with a show thesis by (intro that(2)) (simp add: get_chunk_def memory)
  next
    case True
    from room show thesis
    proof (cases rule: run_receive_block [where w = ?w])
      case (failed code b' k reads)
      with True a tx(3) show thesis by (intro that(2)) (simp add: get_chunk_def memory)
    next
      case (received reads)
      let ?w1 = "took n reads ?w"
      define t where "t = tx @ take n (t_input w)"
      have t: "take m (map Some tx @ fresh_block n) @ map Some (take n (t_input ?w)) @
          drop (m + n) (map Some tx @ fresh_block n) = map Some t" using tx(1) by (simp add: t_def)
      from assms(3) have "0 + CRLF_SIZE \<le> length b" by simp
      then show thesis
      proof (cases rule: run_receive_block [where w = ?w1])
        case (failed code b' k reads')
        with True a tx(3) \<open>run_state _ ?w = _\<close> show thesis by (intro that(2)) (simp add: get_chunk_def memory)
      next
        case (received reads')
        with True a tx(3) \<open>run_state _ ?w = _\<close> t
        have "run_state (get_chunk body m n b) w = (Some (Ok (map Some t)), took CRLF_SIZE reads' ?w1)"
          by (simp add: get_chunk_def memory)
        moreover have "length t = m + n" using \<open>n \<le> length (t_input ?w)\<close> tx(1) by (simp add: t_def)
        ultimately show thesis using \<open>n \<le> length (t_input ?w)\<close>
          by (intro that(1) [of t "took CRLF_SIZE reads' ?w1"]) (simp_all add: add.commute)
      qed
    qed
  qed
qed

lemma chunked_safe:
  assumes "length (t_input w) < turns" and "t_stale w = (\<lambda>_. 0)" and "whole body m"
    and "m + length (t_input w) < 2 ^ 63"
  shows "\<exists>r w'. run_state (get_chunked_response_loop turns body m) w = (Some r, w') \<and>
    (\<forall>b n. r = Ok (b, n) \<longrightarrow> whole b n)"
  using assms
proof (induction turns arbitrary: w body m)
  case 0
  then show ?case by simp
next
  case (Suc turns)
  from Suc.prems(2) show ?case
  proof (cases rule: run_get_chunk_size)
    case (failed code w')
    then show ?thesis by (simp add: get_chunked_response_loop.simps)
  next
    case (size n b k reads)
    let ?w1 = "took k reads w"
    have room: "CRLF_SIZE \<le> length b" using size(3) by (simp add: CHUNK_STRING_SIZE_def)
    show ?thesis
    proof (cases "n = 0")
      case True
      from room have "0 + CRLF_SIZE \<le> length b" by simp
      then show ?thesis
        by (cases rule: run_receive_block [where w = ?w1])
          (use size(1) True Suc.prems(3) in \<open>simp_all add: get_chunked_response_loop.simps\<close>)
    next
      case False
      have "m + n < 2 ^ 64" using Suc.prems(4) size(2) by simp
      from Suc.prems(3) this room False show ?thesis
      proof (cases rule: run_get_chunk [where w = ?w1])
        case (failed code w')
        with size(1) False show ?thesis by (simp add: get_chunked_response_loop.simps)
      next
        case (chunk t w')
        have "length (t_input w') < turns" and "m + n + length (t_input w') < 2 ^ 63"
          using chunk(3,4) size(4,5) Suc.prems(1,4) by auto
        moreover have "whole (Some (map Some t)) (m + n)" using chunk(2) by (auto simp: whole_def)
        moreover have "t_stale w' = (\<lambda>_. 0)" using chunk(5) Suc.prems(2) by simp
        ultimately have "\<exists>r w''. run_state (get_chunked_response_loop turns (Some (map Some t)) (m + n)) w' = (Some r, w'') \<and>
            (\<forall>b n. r = Ok (b, n) \<longrightarrow> whole b n)" by (intro Suc.IH)
        moreover have "(m + n) mod 2 ^ 64 = m + n" using \<open>m + n < 2 ^ 64\<close> by simp
        ultimately show ?thesis using size(1) chunk(1) False by (simp add: get_chunked_response_loop.simps)
      qed
    qed
  qed
qed

lemma parse_framing_total: "\<exists>f'. parse_framing line f = Some f'"
proof -
  obtain r where "string_util_find_case_insensitive line transfer_encoding_header = Some r"
    using find_with_sound [of same_letter] unfolding string_util_find_case_insensitive_def by blast
  then show ?thesis by (auto simp: parse_framing_def split: option.splits)
qed

lemma headers_safe:
  assumes "length (t_input w) < turns" and "t_stale w = (\<lambda>_. 0)"
  shows "\<exists>code hs f' w'. run_state (get_headers turns header_list f) w = (Some (code, hs, f'), w') \<and>
    t_stale w' = (\<lambda>_. 0) \<and> length (t_input w') \<le> length (t_input w)"
  using assms
proof (induction turns arbitrary: w header_list f)
  case 0
  then show ?case by simp
next
  case (Suc turns)
  have "1 < HTTP_PARSE_BUFFER_SIZE" by (simp add: HTTP_PARSE_BUFFER_SIZE_def)
  then show ?case
  proof (cases rule: run_receive_line [where w = w])
    case (failed code n b reads)
    show ?thesis
    proof (cases "n \<le> CRLF_SIZE")
      case True
      with failed(1) Suc.prems(2) show ?thesis by (simp add: get_headers.simps)
    next
      case False
      obtain s where s: "read_cells b (n - CRLF_SIZE) = Some s" using failed(3) [of "n - CRLF_SIZE"] by auto
      obtain a as where "run_state mcl_malloc (took n reads w) = (a, took n reads w\<lparr>w_alloc := as\<rparr>)" using w_alloc_tl by blast
      with failed(1,2) s False Suc.prems(2) show ?thesis by (cases a) (simp_all add: get_headers.simps)
    qed
  next
    case (line t rest b reads)
    let ?w1 = "took (length t + 1) reads w"
    show ?thesis
    proof (cases "length t + 1 \<le> CRLF_SIZE")
      case True
      with line(1) Suc.prems(2) show ?thesis by (simp add: get_headers.simps)
    next
      case False
      obtain s where s: "read_cells b (length t + 1 - CRLF_SIZE) = Some s" using line(7) by auto
      obtain f' where f': "parse_framing (c_text (t @ [LF])) f = Some f'" using parse_framing_total by blast
      obtain a as where a: "run_state mcl_malloc ?w1 = (a, ?w1\<lparr>w_alloc := as\<rparr>)" using w_alloc_tl by blast
      obtain l as' where l: "run_state mcl_malloc (?w1\<lparr>w_alloc := as\<rparr>) = (l, ?w1\<lparr>w_alloc := as'\<rparr>)"
        using w_alloc_tl [of "?w1\<lparr>w_alloc := as\<rparr>"] by auto
      let ?w2 = "?w1\<lparr>w_alloc := as'\<rparr>"
      have "length (t_input ?w2) < turns" "t_stale ?w2 = (\<lambda>_. 0)" using line(2) Suc.prems by auto
      from Suc.IH [OF this, of "header_list @ [c_text s]" f'] line(1,6) s f' a l False Suc.prems(2)
      show ?thesis by (cases a; cases l) (auto simp: get_headers.simps)
    qed
  qed
qed

lemma body_safe:
  assumes "t_stale w = (\<lambda>_. 0)" and "length (t_input w) < 2 ^ 63"
  shows "\<exists>r w'. run_state (get_body f) w = (Some r, w') \<and> (\<forall>b n. r = Ok (b, n) \<longrightarrow> whole b n)"
proof (cases "using_transfer_encoding f")
  case True
  have "whole None 0" by (simp add: whole_def)
  with chunked_safe [of w "length (t_input w) + 1" None 0] assms True show ?thesis
    by (simp add: get_body_def get_chunked_response_def run_input_turns)
next
  case False
  let ?n = "framing_size f"
  show ?thesis
  proof (cases "found_content_length f \<and> ?n \<noteq> 0")
    case True
    obtain a as where a: "run_state mcl_malloc w = (a, w\<lparr>w_alloc := as\<rparr>)" using w_alloc_tl by blast
    have "0 + ?n \<le> length (fresh_block ?n :: char block)" by simp
    then show ?thesis
    proof (cases rule: run_receive_block [where w = "w\<lparr>w_alloc := as\<rparr>"])
      case (received reads)
      have "whole (Some (map Some (take ?n (t_input w)))) ?n"
        using received(2) by (auto simp: whole_def)
      with received(1) a True False show ?thesis
        by (cases a) (simp_all add: get_body_def get_content_length_response_def)
    next
      case (failed code b' k reads)
      with a True False show ?thesis
        by (cases a) (simp_all add: get_body_def get_content_length_response_def)
    qed
  next
    case no_bytes: False
    with False show ?thesis by (auto simp: get_body_def whole_def)
  qed
qed

lemma whole_payload: "whole b n \<Longrightarrow> \<exists>p. payload_text b n = Some p \<and> (case p of None \<Rightarrow> n = 0 | Some t \<Rightarrow> length t = n)"
  by (auto simp: whole_def payload_text_def read_cells_def comp_def)

text \<open>
  Whatever arrives, in pieces of any size and with errors anywhere, reading a response ends with a
  response or a code; the payload of a response has the announced size.
\<close>

lemma response_safe:
  assumes "t_stale w = (\<lambda>_. 0)" and "length (t_input w) < 2 ^ 63"
  shows "\<exists>r w'. run_state get_response w = (Some r, w') \<and>
    (\<forall>response. r = Ok response \<longrightarrow>
      (case rs_payload response of None \<Rightarrow> rs_payload_size response = 0
       | Some payload \<Rightarrow> length payload = rs_payload_size response))"
proof -
  have "1 < HTTP_PARSE_BUFFER_SIZE" by (simp add: HTTP_PARSE_BUFFER_SIZE_def)
  then show ?thesis
  proof (cases rule: run_receive_line [where w = w])
    case (failed code n b reads)
    then show ?thesis by (simp add: get_response_def)
  next
    case (line t rest b reads)
    let ?w1 = "took (length t + 1) reads w"
    obtain l as where l: "run_state mcl_malloc ?w1 = (l, ?w1\<lparr>w_alloc := as\<rparr>)" using w_alloc_tl by blast
    let ?w2 = "?w1\<lparr>w_alloc := as\<rparr>"
    have w2: "t_stale ?w2 = (\<lambda>_. 0)" "length (t_input ?w2) < 2 ^ 63" using assms by auto
    obtain code hs f w3 where h: "run_state (get_headers (length (t_input ?w2) + 1) [] no_framing) ?w2 = (Some (code, hs, f), w3)"
      "t_stale w3 = (\<lambda>_. 0)" "length (t_input w3) \<le> length (t_input ?w2)"
      using headers_safe [of ?w2 "length (t_input ?w2) + 1" "[]" no_framing] w2(1) by auto
    obtain r w4 where body: "run_state (get_body f) w3 = (Some r, w4)" "\<forall>b n. r = Ok (b, n) \<longrightarrow> whole b n"
      using body_safe [OF h(2), of f] h(3) w2(2) by auto
    show ?thesis
    proof (cases "scan_after ''HTTP/1.1'' (c_text (t @ [LF])) = None \<or> \<not> l \<or> code \<noteq> MCL_OK")
      case True
      then show ?thesis using line(1,6) l h(1)
        by (cases "scan_after ''HTTP/1.1'' (c_text (t @ [LF]))"; cases l)
          (simp_all add: get_response_def run_input_turns)
    next
      case False
      then obtain status where ok: "scan_after ''HTTP/1.1'' (c_text (t @ [LF])) = Some status" "l" "code = MCL_OK" by auto
      show ?thesis
      proof (cases r)
        case (Inl e)
        with ok line(1,6) l h(1) body(1) show ?thesis by (simp add: get_response_def run_input_turns)
      next
        case (Inr x)
        obtain rb n where x: "x = (rb, n)" by (cases x)
        with Inr body(2) whole_payload obtain p where p: "payload_text rb n = Some p"
          "case p of None \<Rightarrow> n = 0 | Some t \<Rightarrow> length t = n" by blast
        obtain a as where a: "run_state mcl_malloc w4 = (a, w4\<lparr>w_alloc := as\<rparr>)" using w_alloc_tl by blast
        with ok Inr x p line(1,6) l h(1) body(1) show ?thesis
          by (cases a; cases p) (simp_all add: get_response_def run_input_turns mcl_http_response_initialize_def)
      qed
    qed
  qed
qed

end
