(* ===== verification/MclBasicRoundTrip.thy ===== *)
theory MclBasicRoundTrip
  imports MclBasicReceiveProps
begin

text \<open>
  Responses that a server writes as the protocol says are read back as they were meant: the status,
  the header lines and the body, by its length or in chunks. With this and the text of a request, an
  exchange over a working connection is described from end to end.
\<close>

section \<open>Numbers that were printed\<close>

lemma digit_char: "n < 10 \<Longrightarrow> (of_char (hex_digit n) :: nat) = 48 + n"
proof -
  have "list_all (\<lambda>n. (of_char (hex_digit n) :: nat) = 48 + n) [0..<10]" by code_simp
  then show "n < 10 \<Longrightarrow> (of_char (hex_digit n) :: nat) = 48 + n" by (simp add: list_all_iff)
qed

lemma hex_char: "n < 16 \<Longrightarrow> is_hex_digit (hex_digit_upper n) \<and> hex_value (hex_digit_upper n) = n"
proof -
  have "list_all (\<lambda>n. is_hex_digit (hex_digit_upper n) \<and> hex_value (hex_digit_upper n) = n) [0..<16]" by code_simp
  then show "n < 16 \<Longrightarrow> is_hex_digit (hex_digit_upper n) \<and> hex_value (hex_digit_upper n) = n" by (simp add: list_all_iff)
qed

lemma print_nat_digits: "(\<forall>c \<in> set (print_nat n). is_digit c) \<and> digits_value (print_nat n) = n"
proof (induction n rule: print_nat.induct)
  case (1 n)
  have d: "is_digit (hex_digit (n mod 10))" "(of_char (hex_digit (n mod 10)) :: nat) = 48 + n mod 10"
    using digit_char [of "n mod 10"] by (simp_all add: is_digit_def)
  show ?case
  proof (cases "n < 10")
    case True
    then show ?thesis using d by (subst (1 2) print_nat.simps) (simp add: digits_value_def)
  next
    case False
    then show ?thesis using 1 d by (subst (1 2) print_nat.simps) (auto simp: digits_value_def)
  qed
qed

lemma print_hex_digits: "(\<forall>c \<in> set (print_hex n). is_hex_digit c) \<and> hex_digits_value (print_hex n) = n"
proof (induction n rule: print_hex.induct)
  case (1 n)
  note d = hex_char [of "n mod 16"]
  show ?case
  proof (cases "n < 16")
    case True
    then show ?thesis using d by (subst (1 2) print_hex.simps) (simp add: hex_digits_value_def)
  next
    case False
    then show ?thesis using 1 d by (subst (1 2) print_hex.simps) (auto simp: hex_digits_value_def)
  qed
qed

lemma hex_digit_no_sign:
  "is_hex_digit c \<Longrightarrow> \<not> is_space c \<and> c \<noteq> CHR ''-'' \<and> c \<noteq> CHR ''+'' \<and> c \<noteq> CHR ''x'' \<and> c \<noteq> CHR ''X'' \<and> c \<noteq> LF \<and> c \<noteq> MCL_NULL_CHAR"
  by (auto simp: is_hex_digit_def is_digit_def is_space_def MCL_NULL_CHAR_def Let_def)

lemma digit_hex: "is_digit c \<Longrightarrow> is_hex_digit c"
  by (simp add: is_hex_digit_def)

lemma hex_prefix_none: "\<forall>c \<in> set r. c \<noteq> CHR ''x'' \<and> c \<noteq> CHR ''X'' \<Longrightarrow> hex_prefix r = r"
  by (cases r; cases "tl r"; cases "tl (tl r)") (auto simp: hex_prefix_def)

lemma takeWhile_stop: "\<forall>c \<in> set s. P c \<Longrightarrow> r = [] \<or> \<not> P (hd r) \<Longrightarrow> takeWhile P (s @ r) = s"
  by (cases r) (simp_all add: takeWhile_append takeWhile_eq_all_conv)

lemma scan_printed:
  assumes "n < 2 ^ 64" and "r = [] \<or> \<not> is_digit (hd r)"
  shows "scan_decimal ('' '' @ print_nat n @ r) = Some n"
proof -
  obtain d ds where p: "print_nat n = d # ds" by (cases "print_nat n") auto
  then have d: "is_digit d" using print_nat_digits [of n] by auto
  then have "\<not> is_space d" using hex_digit_no_sign [OF digit_hex] by blast
  moreover have "is_space (CHR '' '')" by (simp add: is_space_def)
  ultimately have "dropWhile is_space ('' '' @ print_nat n @ r) = print_nat n @ r" using p by simp
  moreover have "strtol_sign (print_nat n @ r) = (False, print_nat n @ r)"
    using p d hex_digit_no_sign [OF digit_hex] by (simp add: strtol_sign_def)
  moreover have "takeWhile is_digit (print_nat n @ r) = print_nat n"
    using print_nat_digits [of n] assms(2) by (intro takeWhile_stop) auto
  ultimately show ?thesis using print_nat_digits [of n] assms(1)
    by (simp add: scan_decimal_def strtoul_value_def Let_def)
qed

lemma scan_printed_hex:
  assumes "n < 2 ^ 64"
  shows "scan_hex (print_hex n @ crlf) = Some n"
proof -
  obtain d ds where p: "print_hex n = d # ds" by (cases "print_hex n") auto
  have all: "\<forall>c \<in> set (print_hex n). is_hex_digit c" using print_hex_digits by blast
  with p have d: "is_hex_digit d" by auto
  have x: "\<forall>c \<in> set (print_hex n @ crlf). c \<noteq> CHR ''x'' \<and> c \<noteq> CHR ''X''"
    using all hex_digit_no_sign by (auto simp: crlf_def)
  have "dropWhile is_space (print_hex n @ crlf) = print_hex n @ crlf"
    using p d hex_digit_no_sign by simp
  moreover have "strtol_sign (print_hex n @ crlf) = (False, print_hex n @ crlf)"
    using p d hex_digit_no_sign by (simp add: strtol_sign_def)
  moreover have "hex_prefix (print_hex n @ crlf) = print_hex n @ crlf"
    using x by (intro hex_prefix_none) blast
  moreover have "takeWhile is_hex_digit (print_hex n @ crlf) = print_hex n"
    using all by (intro takeWhile_stop) (auto simp: crlf_def is_hex_digit_def is_digit_def)
  ultimately show ?thesis using print_hex_digits [of n] assms
    by (simp add: scan_hex_def strtoul_value_def Let_def)
qed

section \<open>Header lines\<close>

text \<open>A line that fits into the buffer with its end.\<close>

definition sendable_line :: "string \<Rightarrow> bool" where
  "sendable_line h \<longleftrightarrow> cstring h \<and> LF \<notin> set h \<and> length h + 2 < HTTP_PARSE_BUFFER_SIZE"

fun framing_of :: "string list \<Rightarrow> body_framing \<Rightarrow> body_framing option" where
  "framing_of [] f = Some f"
| "framing_of (h # hs) f = Option.bind (parse_framing (h @ crlf) f) (framing_of hs)"

lemma c_text_line: "sendable_line h \<Longrightarrow> c_text ((h @ [CHR 0x0D]) @ [LF]) = h @ crlf"
  by (auto simp: c_text_def sendable_line_def cstring_def crlf_def MCL_NULL_CHAR_def takeWhile_eq_all_conv)

lemma run_sendable_line:
  assumes "reads_ok (t_reads w)" and "sendable_line h" and "t_input w = h @ crlf @ rest"
  obtains b reads where
    "run_state (receive_until_lf (fresh_block HTTP_PARSE_BUFFER_SIZE) HTTP_PARSE_BUFFER_SIZE) w =
      (Some (MCL_OK, length h + 2, b), took (length h + 2) reads w)"
    "block_string b = Some (h @ crlf)" "read_cells b (length h + 2 - CRLF_SIZE) = Some h" "reads_ok reads"
    "drop (length h + 2) (t_input w) = rest"
proof -
  have "t_input w = (h @ [CHR 0x0D]) @ LF # rest" and "LF \<notin> set (h @ [CHR 0x0D])"
    and "length (h @ [CHR 0x0D]) + 1 < HTTP_PARSE_BUFFER_SIZE"
    using assms(2,3) by (simp_all add: sendable_line_def crlf_def)
  from run_receive_line_ok [OF assms(1) this] obtain b reads where
    r: "run_state (receive_until_lf (fresh_block HTTP_PARSE_BUFFER_SIZE) HTTP_PARSE_BUFFER_SIZE) w =
      (Some (MCL_OK, length (h @ [CHR 0x0D]) + 1, b), took (length (h @ [CHR 0x0D]) + 1) reads w)"
    "block_string b = Some (c_text ((h @ [CHR 0x0D]) @ [LF]))"
    "\<And>k. k \<le> length (h @ [CHR 0x0D]) + 1 \<Longrightarrow> read_cells b k = Some (take k ((h @ [CHR 0x0D]) @ [LF]))" "reads_ok reads"
    by metis
  have two: "CRLF_SIZE = 2" by (simp add: CRLF_SIZE_def crlf_def)
  show thesis
  proof (rule that [of b reads])
    show "run_state (receive_until_lf (fresh_block HTTP_PARSE_BUFFER_SIZE) HTTP_PARSE_BUFFER_SIZE) w =
      (Some (MCL_OK, length h + 2, b), took (length h + 2) reads w)" using r(1) by simp
    show "block_string b = Some (h @ crlf)" using r(2) c_text_line [OF assms(2)] by simp
    show "read_cells b (length h + 2 - CRLF_SIZE) = Some h" using r(3) [of "length h"] by (simp add: two)
    show "drop (length h + 2) (t_input w) = rest" using assms(3) by (simp add: crlf_def)
  qed (rule r(4))
qed

lemma get_headers_read:
  assumes "reads_ok (t_reads w)" and "w_alloc w = []" and "length hs < turns"
    and "t_input w = concat (map (\<lambda>h. h @ crlf) hs) @ crlf @ rest"
    and "\<forall>h \<in> set hs. sendable_line h \<and> h \<noteq> []" and "framing_of hs f = Some f'"
  shows "\<exists>k reads. run_state (get_headers turns hl f) w = (Some (MCL_OK, hl @ hs, f'), took k reads w) \<and>
    reads_ok reads \<and> drop k (t_input w) = rest"
  using assms
proof (induction hs arbitrary: w turns hl f)
  case Nil
  then obtain n where n: "turns = Suc n" by (cases turns) auto
  have "sendable_line []" by (simp add: sendable_line_def cstring_def HTTP_PARSE_BUFFER_SIZE_def)
  moreover have "t_input w = [] @ crlf @ rest" using Nil by simp
  ultimately obtain b reads where
    line: "run_state (receive_until_lf (fresh_block HTTP_PARSE_BUFFER_SIZE) HTTP_PARSE_BUFFER_SIZE) w =
      (Some (MCL_OK, length ([] :: string) + 2, b), took (length ([] :: string) + 2) reads w)"
    "reads_ok reads" "drop (length ([] :: string) + 2) (t_input w) = rest"
    by (rule run_sendable_line [OF Nil(1)])
  then show ?case using n Nil(6)
    by (intro exI [of _ "length ([] :: string) + 2"] exI [of _ reads]) (simp add: get_headers.simps CRLF_SIZE_def crlf_def)
next
  case (Cons h hs)
  then obtain n where n: "turns = Suc n" "length hs < n" by (cases turns) auto
  obtain f1 where f1: "parse_framing (h @ crlf) f = Some f1" "framing_of hs f1 = Some f'"
    using Cons.prems(6) by (auto simp: bind_Some_iff)
  have inp: "t_input w = h @ crlf @ concat (map (\<lambda>h. h @ crlf) hs) @ crlf @ rest" using Cons.prems(4) by simp
  have h: "sendable_line h" "h \<noteq> []" "\<forall>h \<in> set hs. sendable_line h \<and> h \<noteq> []" using Cons.prems(5) by auto
  obtain b reads where
    line: "run_state (receive_until_lf (fresh_block HTTP_PARSE_BUFFER_SIZE) HTTP_PARSE_BUFFER_SIZE) w =
      (Some (MCL_OK, length h + 2, b), took (length h + 2) reads w)"
    "block_string b = Some (h @ crlf)" "read_cells b (length h + 2 - CRLF_SIZE) = Some h" "reads_ok reads"
    "drop (length h + 2) (t_input w) = concat (map (\<lambda>h. h @ crlf) hs) @ crlf @ rest"
    by (rule run_sendable_line [OF Cons.prems(1) h(1) inp])
  let ?w1 = "took (length h + 2) reads w"
  have "reads_ok (t_reads ?w1)" "w_alloc ?w1 = []"
    "t_input ?w1 = concat (map (\<lambda>h. h @ crlf) hs) @ crlf @ rest" using line(4,5) Cons.prems(2) by simp_all
  from Cons.IH [OF this(1,2) n(2) this(3) h(3) f1(2), of "hl @ [h]"] obtain k reads' where
    rest: "run_state (get_headers n (hl @ [h]) f1) ?w1 = (Some (MCL_OK, (hl @ [h]) @ hs, f'), took k reads' ?w1)"
    "reads_ok reads'" "drop k (t_input ?w1) = rest" by blast
  have "c_text h = h" using h(1) by (auto simp: c_text_def sendable_line_def cstring_def takeWhile_eq_all_conv)
  moreover have "\<not> length h + 2 \<le> CRLF_SIZE" using h(2) by (simp add: CRLF_SIZE_def crlf_def)
  moreover have "run_state mcl_malloc ?w1 = (True, ?w1)" using Cons.prems(2) by simp
  ultimately show ?case using n(1) line(1-3) f1(1) rest
    by (intro exI [of _ "k + (length h + 2)"] exI [of _ reads']) (simp add: get_headers.simps Let_def)
qed

section \<open>Bodies\<close>

lemma run_receive_block_ok:
  assumes "reads_ok (t_reads w)" and "t_input w = bytes @ rest" and "p + length bytes \<le> length b"
  obtains reads where "run_state (receive_to_buffer b p (length bytes)) w =
      (Some (MCL_OK, take p b @ map Some bytes @ drop (p + length bytes) b), took (length bytes) reads w)"
    "reads_ok reads"
  using assms(3)
proof (cases rule: run_receive_block [where w = w])
  case (received reads)
  then show thesis using assms(1,2) reads_ok_subset by (intro that [of reads]) auto
next
  case (failed code b' k reads)
  then show thesis using assms(1,2) by simp
qed

lemma run_chunk_size:
  assumes "reads_ok (t_reads w)" and "t_stale w = (\<lambda>_. 0)" and "n < 2 ^ 32" and "t_input w = print_hex n @ crlf @ rest"
  obtains b reads where "run_state get_chunk_size w = (Some (Ok (n, b)), took (length (print_hex n) + 2) reads w)"
    "length b = CHUNK_STRING_SIZE" "reads_ok reads"
proof -
  let ?t = "print_hex n @ [CHR 0x0D]"
  have d: "\<forall>c \<in> set (print_hex n). is_hex_digit c" using print_hex_digits by blast
  then have lf: "LF \<notin> set ?t" and str: "c_text (?t @ [LF]) = print_hex n @ crlf"
    using hex_digit_no_sign by (auto simp: c_text_def crlf_def MCL_NULL_CHAR_def takeWhile_eq_all_conv)
  have "length (print_hex n) \<le> 8" using assms(3) by (intro print_hex_length) simp_all
  then have "length ?t + 1 < CHUNK_STRING_SIZE"
    by (simp add: CHUNK_STRING_SIZE_def CONTENT_LENGTH_BUFFER_SIZE_def CRLF_SIZE_def crlf_def)
  moreover have "t_input w = ?t @ LF # rest" using assms(4) by (simp add: crlf_def)
  ultimately obtain b reads where
    r: "run_state (receive_until_lf (fresh_block CHUNK_STRING_SIZE) CHUNK_STRING_SIZE) w =
      (Some (MCL_OK, length ?t + 1, b), took (length ?t + 1) reads w)"
      "length b = CHUNK_STRING_SIZE" "block_string b = Some (c_text (?t @ [LF]))" "reads_ok reads"
    using run_receive_line_ok [OF assms(1) _ lf] by metis
  have "scan_hex (c_text (?t @ [LF])) = Some n" unfolding str using assms(3) by (intro scan_printed_hex) simp
  moreover have "run_state stale_half (took (length ?t + 1) reads w) = (0, took (length ?t + 1) reads w)"
    using assms(2) by (intro run_stale_half) simp
  ultimately have "run_state get_chunk_size w = (Some (Ok (n, b)), took (length (print_hex n) + 2) reads w)"
    using r(1,3) assms(3) by (simp add: get_chunk_size_def)
  from this r(2,4) show thesis by (rule that)
qed

definition body_is :: "char block option \<Rightarrow> string \<Rightarrow> bool" where
  "body_is body t \<longleftrightarrow> (if t = [] then body = None else body = Some (map Some t))"

lemma run_chunk_data:
  assumes "reads_ok (t_reads w)" and "w_alloc w = []" and "body_is body t" and "s \<noteq> []"
    and "length t + length s < 2 ^ 64" and "CRLF_SIZE \<le> length b" and "t_input w = s @ crlf @ rest"
  obtains reads where "run_state (get_chunk body (length t) (length s) b) w =
      (Some (Ok (map Some (t @ s))), took (length s + CRLF_SIZE) reads w)" "reads_ok reads"
proof -
  let ?block = "case body of None \<Rightarrow> fresh_block (length s) | Some b \<Rightarrow> resized b ((length t + length s) mod 2 ^ 64)"
  have block: "?block = map Some t @ fresh_block (length s)"
    using assms(3,5) by (auto simp: body_is_def resized_def split: if_splits)
  then have "length t + length s \<le> length ?block" by simp
  then obtain reads where r: "run_state (receive_to_buffer ?block (length t) (length s)) w =
      (Some (MCL_OK, take (length t) ?block @ map Some s @ drop (length t + length s) ?block), took (length s) reads w)"
      "reads_ok reads" by (rule run_receive_block_ok [OF assms(1,7)])
  let ?w1 = "took (length s) reads w"
  have cr: "length crlf = CRLF_SIZE" "0 + length crlf \<le> length b" using assms(6) by (simp_all add: CRLF_SIZE_def)
  have "t_input ?w1 = crlf @ rest" "reads_ok (t_reads ?w1)" using assms(7) r(2) by simp_all
  from run_receive_block_ok [OF this(2,1) cr(2)] obtain reads' where
    r': "run_state (receive_to_buffer b 0 (length crlf)) ?w1 =
      (Some (MCL_OK, take 0 b @ map Some crlf @ drop (0 + length crlf) b), took (length crlf) reads' ?w1)" "reads_ok reads'"
    by metis
  have memory: "(case body of None \<Rightarrow> mcl_memory_malloc (length s)
      | Some _ \<Rightarrow> mcl_memory_realloc ((length t + length s) mod 2 ^ 64)) = mcl_malloc"
    using assms(4,5) by (intro chunk_memory) simp_all
  have "run_state mcl_malloc w = (True, w)" using assms(2) by simp
  with r(1) r'(1) have "run_state (get_chunk body (length t) (length s) b) w =
      (Some (Ok (map Some (t @ s))), took (length s + CRLF_SIZE) reads' w)"
    unfolding cr(1) by (simp add: get_chunk_def memory block add.commute)
  from this r'(2) show thesis by (rule that)
qed

lemma chunks_read:
  assumes "reads_ok (t_reads w)" and "w_alloc w = []" and "t_stale w = (\<lambda>_. 0)" and "body_is body t"
    and "\<forall>s \<in> set pieces. s \<noteq> [] \<and> length s < 2 ^ 32" and "length t + length (concat pieces) < 2 ^ 64"
    and "length pieces < turns" and "t_input w = concat (map chunk pieces) @ chunk [] @ rest"
  shows "\<exists>body' k reads. run_state (get_chunked_response_loop turns body (length t)) w =
      (Some (Ok (body', length t + length (concat pieces))), took k reads w) \<and>
    body_is body' (t @ concat pieces) \<and> reads_ok reads \<and> drop k (t_input w) = rest"
  using assms
proof (induction pieces arbitrary: w body t turns)
  case Nil
  obtain n where n: "turns = Suc n" using Nil(7) by (cases turns) auto
  have "t_input w = print_hex 0 @ crlf @ crlf @ rest" using Nil(8) by (simp add: chunk_def)
  then obtain b reads where size: "run_state get_chunk_size w = (Some (Ok (0, b)), took (length (print_hex 0) + 2) reads w)"
    "length b = CHUNK_STRING_SIZE" "reads_ok reads" using run_chunk_size [OF Nil(1,3), of 0] by auto
  let ?w1 = "took (length (print_hex 0) + 2) reads w"
  have "reads_ok (t_reads ?w1)" "t_input ?w1 = crlf @ rest" "0 + length crlf \<le> length b"
    using Nil(8) size(2,3) by (simp_all add: chunk_def CHUNK_STRING_SIZE_def CRLF_SIZE_def crlf_def)
  then obtain reads' where "run_state (receive_to_buffer b 0 (length crlf)) ?w1 =
      (Some (MCL_OK, take 0 b @ map Some crlf @ drop (0 + length crlf) b), took (length crlf) reads' ?w1)" "reads_ok reads'"
    by (rule run_receive_block_ok)
  with size(1) Nil(4,8) show ?case unfolding n
    by (intro exI [of _ body] exI [of _ "length crlf + (length (print_hex 0) + 2)"] exI [of _ reads'])
      (simp add: get_chunked_response_loop.simps CRLF_SIZE_def chunk_def crlf_def)
next
  case (Cons s ps)
  obtain n where n: "turns = Suc n" "length ps < n" using Cons.prems(7) by (cases turns) auto
  have s: "s \<noteq> []" "length s < 2 ^ 32" using Cons.prems(5) by auto
  let ?rest = "concat (map chunk ps) @ chunk [] @ rest"
  have "t_input w = print_hex (length s) @ crlf @ s @ crlf @ ?rest" using Cons.prems(8) by (simp add: chunk_def [of s])
  note input = this
  obtain b reads where size: "run_state get_chunk_size w = (Some (Ok (length s, b)), took (length (print_hex (length s)) + 2) reads w)"
    "length b = CHUNK_STRING_SIZE" "reads_ok reads"
    by (rule run_chunk_size [OF Cons.prems(1,3) s(2) input])
  let ?w1 = "took (length (print_hex (length s)) + 2) reads w"
  have w1: "reads_ok (t_reads ?w1)" "w_alloc ?w1 = []" "t_input ?w1 = s @ crlf @ ?rest"
    using Cons.prems(2) size(3) input by (simp_all add: crlf_def)
  have room: "length t + length s < 2 ^ 64" "CRLF_SIZE \<le> length b"
    using Cons.prems(6) size(2) by (simp_all add: CHUNK_STRING_SIZE_def)
  obtain reads' where data: "run_state (get_chunk body (length t) (length s) b) ?w1 =
      (Some (Ok (map Some (t @ s))), took (length s + CRLF_SIZE) reads' ?w1)" "reads_ok reads'"
    by (rule run_chunk_data [OF w1(1,2) Cons.prems(4) s(1) room w1(3)])
  let ?w2 = "took (length s + CRLF_SIZE) reads' ?w1"
  have "reads_ok (t_reads ?w2)" "w_alloc ?w2 = []" "t_stale ?w2 = (\<lambda>_. 0)" "body_is (Some (map Some (t @ s))) (t @ s)"
    "\<forall>s \<in> set ps. s \<noteq> [] \<and> length s < 2 ^ 32" "length (t @ s) + length (concat ps) < 2 ^ 64"
    using data(2) w1(2) Cons.prems(3,5,6) s(1) by (simp_all add: body_is_def)
  moreover have "t_input ?w2 = concat (map chunk ps) @ chunk [] @ rest"
    unfolding took_simps(1) [of _ reads'] w1(3) by (simp add: CRLF_SIZE_def)
  ultimately have "\<exists>body' k reads. run_state (get_chunked_response_loop n (Some (map Some (t @ s))) (length (t @ s))) ?w2 =
      (Some (Ok (body', length (t @ s) + length (concat ps))), took k reads ?w2) \<and>
    body_is body' ((t @ s) @ concat ps) \<and> reads_ok reads \<and> drop k (t_input ?w2) = rest"
    using n(2) by (intro Cons.IH)
  then obtain body' k reads'' where
    more: "run_state (get_chunked_response_loop n (Some (map Some (t @ s))) (length (t @ s))) ?w2 =
      (Some (Ok (body', length (t @ s) + length (concat ps))), took k reads'' ?w2)"
      "body_is body' ((t @ s) @ concat ps)" "reads_ok reads''" "drop k (t_input ?w2) = rest" by blast
  have "(length t + length s) mod 2 ^ 64 = length (t @ s)" using room(1) by simp
  with size(1) data(1) more s(1) show ?case unfolding n(1)
    by (intro exI [of _ body'] exI [of _ "k + (length s + CRLF_SIZE + (length (print_hex (length s)) + 2))"] exI [of _ reads''])
      (simp add: get_chunked_response_loop.simps add.assoc)
qed

section \<open>Whole responses\<close>

text \<open>A header line that says nothing of the body.\<close>

definition neutral :: "string \<Rightarrow> bool" where
  "neutral h \<longleftrightarrow> parse_framing (h @ crlf) no_framing = Some no_framing"

text \<open>The header lines, the bytes behind them and the content they carry.\<close>

inductive response_body :: "string list \<Rightarrow> string \<Rightarrow> string \<Rightarrow> bool" where
  counted: "\<forall>h \<in> set before. neutral h \<Longrightarrow> length content < 2 ^ 64 \<Longrightarrow>
    response_body (before @ (''Content-Length: '' @ print_nat (length content)) # after) content content"
| chunked: "\<forall>h \<in> set before. neutral h \<Longrightarrow> \<forall>s \<in> set pieces. s \<noteq> [] \<and> length s < 2 ^ 32 \<Longrightarrow>
    length (concat pieces) < 2 ^ 64 \<Longrightarrow>
    response_body (before @ ''Transfer-Encoding: chunked'' # after)
      (concat (map chunk pieces) @ chunk []) (concat pieces)"

definition response_text :: "nat \<Rightarrow> string \<Rightarrow> string list \<Rightarrow> string \<Rightarrow> string" where
  "response_text status reason headers body =
     ''HTTP/1.1 '' @ print_nat status @ reason @ crlf @ concat (map (\<lambda>h. h @ crlf) headers) @ crlf @ body"

definition response_with :: "nat \<Rightarrow> string list \<Rightarrow> string \<Rightarrow> mcl_http_response_t" where
  "response_with status headers content =
     \<lparr>rs_header = headers, rs_payload = (if content = [] then None else Some content),
      rs_payload_size = length content, rs_status_code = status\<rparr>"

lemma framing_of_append: "framing_of (xs @ ys) f = Option.bind (framing_of xs f) (framing_of ys)"
  by (induction xs arbitrary: f) (auto split: bind_splits)

lemma framing_of_neutral: "\<forall>h \<in> set hs. neutral h \<Longrightarrow> framing_of hs no_framing = Some no_framing"
  by (induction hs) (simp_all add: neutral_def)

lemma framing_of_known: "found_content_length f \<or> using_transfer_encoding f \<Longrightarrow> framing_of hs f = Some f"
  by (induction hs) (auto simp: parse_framing_def)

lemma parse_content_length:
  "n < 2 ^ 64 \<Longrightarrow> parse_framing ((''Content-Length: '' @ print_nat n) @ crlf) no_framing =
     Some (no_framing\<lparr>found_content_length := True, framing_size := n\<rparr>)"
  using scan_printed [of n crlf]
  by (simp add: parse_framing_def no_framing_def scan_after_def content_length_header_def crlf_def is_digit_def)

lemma parse_transfer_encoding:
  "parse_framing (''Transfer-Encoding: chunked'' @ crlf) no_framing = Some (no_framing\<lparr>using_transfer_encoding := True\<rparr>)"
proof -
  have "string_util_find_case_insensitive (transfer_encoding_header @ crlf) transfer_encoding_header = Some (Some 0)"
    unfolding string_util_find_case_insensitive_def
    by (intro find_with_complete occurs_start) (simp_all add: same_letter_def transfer_encoding_header_def)
  then show ?thesis
    by (simp add: parse_framing_def no_framing_def scan_after_def content_length_header_def transfer_encoding_header_def)
qed

lemma payload_of_cells: "read_cells (map Some t) (length t) = Some t"
  by (simp add: read_cells_def comp_def)

lemma payload_of_body: "body_is body t \<Longrightarrow> payload_text body (length t) = Some (if t = [] then None else Some t)"
  by (simp add: body_is_def payload_text_def payload_of_cells split: if_splits)

lemma body_read:
  assumes "response_body headers body content" and "framing_of headers no_framing = Some f"
    and "reads_ok (t_reads w)" and "w_alloc w = []" and "t_stale w = (\<lambda>_. 0)" and "t_input w = body @ rest"
  shows "\<exists>b k reads. run_state (get_body f) w = (Some (Ok (b, length content)), took k reads w) \<and>
    body_is b content \<and> drop k (t_input w) = rest"
  using assms(1)
proof cases
  case (counted before after)
  have f: "f = no_framing\<lparr>found_content_length := True, framing_size := length content\<rparr>"
    using assms(2) counted parse_content_length framing_of_known
    by (auto simp: framing_of_append framing_of_neutral)
  show ?thesis
  proof (cases "content = []")
    case True
    with f counted(2) assms(6) show ?thesis
      by (intro exI [of _ None] exI [of _ 0] exI [of _ "t_reads w"])
        (simp add: get_body_def no_framing_def body_is_def took_def)
  next
    case False
    have "0 + length content \<le> length (fresh_block (length content) :: char block)" by simp
    from run_receive_block_ok [OF assms(3) _ this] assms(6) counted(2) obtain reads where
      "run_state (receive_to_buffer (fresh_block (length content)) 0 (length content)) w =
        (Some (MCL_OK, take 0 (fresh_block (length content)) @ map Some content @ drop (0 + length content) (fresh_block (length content))),
         took (length content) reads w)" by metis
    with False f counted(2) assms(4,6) show ?thesis
      by (intro exI [of _ "Some (map Some content)"] exI [of _ "length content"] exI [of _ reads])
        (simp add: get_body_def get_content_length_response_def no_framing_def body_is_def)
  qed
next
  case (chunked before pieces after)
  have f: "f = no_framing\<lparr>using_transfer_encoding := True\<rparr>"
    using assms(2) chunked(1,4) parse_transfer_encoding framing_of_known
    by (auto simp: framing_of_append framing_of_neutral)
  have n: "length pieces < length (t_input w) + 1"
  proof -
    have "length pieces \<le> length (concat (map chunk pieces))"
      by (induction pieces) (simp_all add: chunk_def crlf_def)
    then show ?thesis using assms(6) chunked(2) by simp
  qed
  have "body_is None []" by (simp add: body_is_def)
  from chunks_read [OF assms(3-5) this chunked(5) _ n] chunked(2,3,6) assms(6) show ?thesis
    by (fastforce simp: get_body_def f no_framing_def get_chunked_response_def run_input_turns)
qed

lemma response_read:
  assumes "reads_ok (t_reads w)" and "w_alloc w = []" and "t_stale w = (\<lambda>_. 0)" and "status < 2 ^ 32"
    and "reason = [] \<or> \<not> is_digit (hd reason)" and "sendable_line (''HTTP/1.1 '' @ print_nat status @ reason)"
    and "\<forall>h \<in> set headers. sendable_line h \<and> h \<noteq> []" and "response_body headers body content"
    and "t_input w = response_text status reason headers body @ rest"
  shows "\<exists>k reads. run_state get_response w = (Some (Ok (response_with status headers content)), took k reads w) \<and>
    drop k (t_input w) = rest"
proof -
  let ?line = "''HTTP/1.1 '' @ print_nat status @ reason"
  let ?rest = "concat (map (\<lambda>h. h @ crlf) headers) @ crlf @ body @ rest"
  have "t_input w = ?line @ crlf @ ?rest" using assms(9) by (simp add: response_text_def)
  then obtain b reads where line:
    "run_state (receive_until_lf (fresh_block HTTP_PARSE_BUFFER_SIZE) HTTP_PARSE_BUFFER_SIZE) w =
      (Some (MCL_OK, length ?line + 2, b), took (length ?line + 2) reads w)"
    "block_string b = Some (?line @ crlf)" "reads_ok reads" "drop (length ?line + 2) (t_input w) = ?rest"
    using run_sendable_line [OF assms(1,6)] by metis
  have "scan_after ''HTTP/1.1'' (?line @ crlf) = Some status"
    using scan_printed [of status "reason @ crlf"] assms(4,5)
    by (cases reason) (auto simp: scan_after_def crlf_def is_digit_def)
  note status = this
  let ?w1 = "took (length ?line + 2) reads w"
  have w1: "reads_ok (t_reads ?w1)" "w_alloc ?w1 = []" "t_stale ?w1 = (\<lambda>_. 0)" "t_input ?w1 = ?rest"
    using line(3,4) assms(2,3) by simp_all
  obtain f where f: "framing_of headers no_framing = Some f"
  proof -
    have "\<exists>f. framing_of hs g = Some f" for hs g
      using parse_framing_total by (induction hs arbitrary: g) (auto, metis bind.bind_lunit)
    then show thesis using that by blast
  qed
  have "length headers \<le> length (concat (map (\<lambda>h. h @ crlf) headers))"
    by (induction headers) (simp_all add: crlf_def)
  then have n: "length headers < length (t_input ?w1) + 1" using w1(4) by simp
  from get_headers_read [OF w1(1,2) n w1(4) assms(7) f, of "[]"] obtain k reads' where
    h: "run_state (get_headers (length (t_input ?w1) + 1) [] no_framing) ?w1 = (Some (MCL_OK, headers, f), took k reads' ?w1)"
    "reads_ok reads'" "drop k (t_input ?w1) = body @ rest" by auto
  let ?w2 = "took k reads' ?w1"
  have "reads_ok (t_reads ?w2)" "w_alloc ?w2 = []" "t_stale ?w2 = (\<lambda>_. 0)" "t_input ?w2 = body @ rest"
    using h(2,3) w1(2,3) by simp_all
  from body_read [OF assms(8) f this] obtain rb k' reads'' where
    body: "run_state (get_body f) ?w2 = (Some (Ok (rb, length content)), took k' reads'' ?w2)" "body_is rb content"
      "drop k' (t_input ?w2) = rest" by blast
  let ?w3 = "took k' reads'' ?w2"
  have malloc: "run_state mcl_malloc ?w1 = (True, ?w1)" "run_state mcl_malloc ?w3 = (True, ?w3)"
    using assms(2) by simp_all
  have "run_state get_response w = (Some (Ok (response_with status headers content)), ?w3)"
    unfolding get_response_def
    using line(1,2) status malloc h(1) body(1) payload_of_body [OF body(2)] assms(4)
    by (simp add: run_input_turns mcl_http_response_initialize_def response_with_def)
  moreover have "drop (k' + (k + (length ?line + 2))) (t_input w) = rest" using body(3) by simp
  ultimately show ?thesis
    by (intro exI [of _ "k' + (k + (length ?line + 2))"] exI [of _ reads'']) (simp add: add.assoc)
qed

end
