(* ===== verification/MclBasicProps.thy ===== *)
theory MclBasicProps
  imports MclBasicRoundTrip
begin

text \<open>
  The properties of the basic HTTP client: an exchange from end to end, safety against every server
  and every failure, and what it does not do.
\<close>

section \<open>Every call returns\<close>

definition returns :: "('z tls_world_ext, mcl_error option) io \<Rightarrow> bool" where
  "returns m \<longleftrightarrow> (\<forall>w. \<exists>code w'. run_state m w = (Some code, w'))"

named_theorems returning \<open>what always gives a code\<close>

lemma returns_return [returning]: "returns (State_Monad.return (Some code))"
  by (simp add: returns_def)

lemma returns_send [returning]: "returns (send_buffer s)"
  unfolding returns_def using send_buffer_run by blast

lemma returns_bind [returning]: "(\<And>x. returns (f x)) \<Longrightarrow> returns (State_Monad.bind m f)"
  unfolding returns_def by (auto simp: run_bind split: prod.split)

lemma returns_all_ok [returning]: "list_all returns ms \<Longrightarrow> returns (all_ok ms)"
proof (induction ms)
  case Nil
  show ?case by (simp add: returns_def)
next
  case (Cons m ms)
  show ?case unfolding returns_def
  proof
    fix w
    obtain code w1 where m: "run_state m w = (Some code, w1)" using Cons.prems unfolding list.pred_inject returns_def by blast
    then show "\<exists>code w'. run_state (all_ok (m # ms)) w = (Some code, w')"
      using Cons by (cases "code = MCL_OK") (auto simp: run_bind returns_def)
  qed
qed

lemma returns_if [returning]: "returns m \<Longrightarrow> returns n \<Longrightarrow> returns (if b then m else n)"
  by simp

lemma returns_sum [returning]:
  "(\<And>x. returns (f x)) \<Longrightarrow> (\<And>x. returns (g x)) \<Longrightarrow> returns (case p of Inl x \<Rightarrow> f x | Inr x \<Rightarrow> g x)"
  by (cases p) simp_all

lemma returns_formatted [returning]: "returns (send_formatted len s)"
  unfolding send_formatted_def by (intro returning)

lemma returns_header [returning]: "returns (send_header name v)"
  unfolding send_header_def by (rule returns_all_ok) (simp add: returns_send)

lemma returns_header_list [returning]: "returns (send_header_list hs)"
  unfolding send_header_list_def by (rule returns_all_ok) (induction hs; simp add: returns_send)

lemma returns_start_http: "returns (start_http s client m uri)"
proof -
  have verb: "returns (case m of MCL_HTTP_GET \<Rightarrow> send_buffer get_string | MCL_HTTP_PUT \<Rightarrow> send_buffer put_string
      | MCL_HTTP_POST \<Rightarrow> send_buffer post_string | _ \<Rightarrow> State_Monad.return (Some MCL_FAIL))"
    by (cases m) (simp_all add: returns_send returns_return)
  have port: "returns (all_ok [send_buffer '':'', send_buffer p])" for p
    by (rule returns_all_ok) (simp add: returns_send)
  show ?thesis unfolding start_http_def Let_def
    by (intro returning, unfold list.pred_inject, intro conjI returning verb port) simp
qed

lemma returns_framing: "returns (send_framing rq)"
  unfolding send_framing_def by (intro returning) (simp add: returns_send)

text \<open>What sending leaves alone: everything but the output and the script of the writes.\<close>

lemma kept_send:
  assumes "\<And>out cs w. part (written out cs w) = part w"
  shows "keeps part (send_buffer s)"
  unfolding keeps_def using send_buffer_run assms by (metis snd_conv)

lemma keeps_all_ok: "list_all (keeps part) ms \<Longrightarrow> keeps part (all_ok ms)"
  by (induction ms) (simp_all add: keeping)

lemma keeps_formatted:
  assumes "\<And>out cs w. part (written out cs w) = part w"
  shows "keeps part (send_formatted len s)"
  unfolding send_formatted_def using kept_send [OF assms] by (intro keeping)

lemma callback_loop_returns:
  assumes "length (t_callback w) < turns"
  shows "\<exists>code w'. run_state (send_with_callback_loop turns chunked n) w = (Some code, w')"
  using assms
proof (induction turns arbitrary: w n)
  case 0
  then show ?case by simp
next
  case (Suc turns)
  obtain d w1 where d: "run_state payload_callback w = (d, w1)"
    "length (t_callback w1) < turns \<or> d = []" using Suc.prems
    by (cases "t_callback w") (auto simp: payload_callback_def)
  let ?send = "all_ok
     [if chunked then send_formatted CHUNK_LENGTH_IN_HEX_BUFFER_SIZE (print_hex (length d) @ crlf)
      else State_Monad.return (Some MCL_OK),
      if length d \<noteq> 0 then send_buffer d else State_Monad.return (Some MCL_OK),
      if chunked then send_buffer crlf else State_Monad.return (Some MCL_OK)]"
  have "returns ?send" by (rule returns_all_ok) (simp add: returning)
  then obtain code w2 where send: "run_state ?send w1 = (Some code, w2)" unfolding returns_def by blast
  have "keeps t_callback ?send"
    by (rule keeps_all_ok) (simp add: keeping kept_send keeps_formatted written_def)
  then have cb: "t_callback w2 = t_callback w1" using send by (rule kept_part)
  show ?case
  proof (cases "d \<noteq> [] \<and> code = MCL_OK")
    case True
    then obtain code' w' where "run_state (send_with_callback_loop turns chunked (if chunked then n else n - length d)) w2 = (Some code', w')"
      using Suc.IH [of w2 "if chunked then n else n - length d"] d(2) cb by auto
    then show ?thesis using True d(1) send
      by (simp add: send_with_callback_loop.simps Let_def run_bind del: all_ok.simps cong: if_cong)
  next
    case False
    then show ?thesis using d(1) send
      by (auto simp: send_with_callback_loop.simps Let_def run_bind simp del: all_ok.simps cong: if_cong)
  qed
qed

lemma returns_payload:
  assumes "\<forall>b. rq_method request \<noteq> MCL_HTTP_GET \<and> rq_payload request = Some b \<longrightarrow> read_cells b (rq_payload_size request) \<noteq> None"
  shows "returns (send_payload request)"
proof -
  have "returns (send_with_callback n)" for n
    by (simp add: returns_def send_with_callback_def callback_loop_returns)
  then show ?thesis using assms
    by (cases "rq_payload request") (auto simp: send_payload_def returning)
qed

definition arriving :: "'z tls_world_scheme \<Rightarrow> string \<times> (nat \<Rightarrow> 32 word)" where
  "arriving w = (t_input w, t_stale w)"

lemma keeps_calls [keeping]:
  "keeps arriving mcl_malloc" "keeps arriving mbedtls_call" "keeps arriving mbedtls_retry"
  "keeps arriving (record_peer h p)" "keeps arriving payload_callback"
  by (auto simp: keeps_def arriving_def mcl_malloc_def mbedtls_call_def mbedtls_retry_def record_peer_def
      payload_callback_def split: list.split)

lemma keeps_sending [keeping]: "keeps arriving (send_buffer s)" "keeps arriving (send_formatted len s)"
  by (simp_all add: kept_send keeps_formatted written_def arriving_def)

lemma keeps_callback_loop [keeping]: "keeps arriving (send_with_callback_loop turns chunked n)"
proof (induction turns arbitrary: n)
  case 0
  show ?case unfolding send_with_callback_loop.simps by (rule keeping)
next
  case (Suc turns)
  have "keeps arriving (all_ok
     [if chunked then send_formatted CHUNK_LENGTH_IN_HEX_BUFFER_SIZE (print_hex (length d) @ crlf)
      else State_Monad.return (Some MCL_OK),
      if length d \<noteq> 0 then send_buffer d else State_Monad.return (Some MCL_OK),
      if chunked then send_buffer crlf else State_Monad.return (Some MCL_OK)])" for d
    by (rule keeps_all_ok) (simp add: keeping)
  then show ?case unfolding send_with_callback_loop.simps Let_def by (intro keeping Suc)
qed

lemma keeps_request: "keeps arriving (write_request s client request uri)"
proof -
  have texts: "keeps arriving (all_ok (map send_buffer ss))" for ss
    by (rule keeps_all_ok) (simp add: list_all_iff keeping)
  have header: "keeps arriving (send_header name v)" for name v
    unfolding send_header_def by (rule keeps_all_ok) (simp add: keeping)
  have list: "keeps arriving (send_header_list hs)" for hs
    unfolding send_header_list_def by (rule keeps_all_ok) (induction hs; simp add: keeping)
  have connect: "keeps arriving (mcl_tls_socket_connect s host port)" for host port
    unfolding mcl_tls_socket_connect_def by (intro keeping)
  have verb: "keeps arriving (case m of MCL_HTTP_GET \<Rightarrow> send_buffer get_string | MCL_HTTP_PUT \<Rightarrow> send_buffer put_string
      | MCL_HTTP_POST \<Rightarrow> send_buffer post_string | _ \<Rightarrow> State_Monad.return (Some MCL_FAIL))" for m
    by (cases m) (simp_all add: keeping)
  have start: "keeps arriving (start_http s client m uri)" for m
    unfolding start_http_def Let_def
    by (intro keeping keeps_all_ok, unfold list.pred_inject, intro conjI keeping verb connect)
      (use texts [of "['':'', _]"] in simp_all)
  have framing: "keeps arriving (send_framing rq)" for rq
    unfolding send_framing_def using texts [of "[transfer_encoding_header, crlf]"] by (intro keeping header) simp
  have callback: "keeps arriving (send_with_callback n)" for n
    by (simp add: keeps_def send_with_callback_def keeps_callback_loop [unfolded keeps_def, rule_format])
  have payload: "keeps arriving (send_payload rq)" for rq
    unfolding send_payload_def by (intro keeping callback)
  show ?thesis unfolding write_request_def
    by (rule keeps_all_ok) (simp add: start list header framing payload keeping)
qed

lemma keeps_prepared: "keeps arriving (prepared_socket client)"
  unfolding prepared_socket_def mcl_tls_socket_init_def by (intro keeping)

lemma returns_request:
  assumes "\<forall>b. rq_method request \<noteq> MCL_HTTP_GET \<and> rq_payload request = Some b \<longrightarrow> read_cells b (rq_payload_size request) \<noteq> None"
  shows "returns (write_request s client request uri)"
  unfolding write_request_def
  by (rule returns_all_ok)
    (simp add: returns_start_http returns_header_list returns_header returns_framing returns_send returns_payload [OF assms])

section \<open>Reading writes nothing\<close>

lemma silent_receive [keeping]: "silent (mcl_tls_socket_receive n)"
  by (auto simp: keeps_def mcl_tls_socket_receive_def receive_bytes_def Let_def split: list.split mbedtls_code.split)

lemma silent_turns [keeping]: "(\<And>n. silent (f n)) \<Longrightarrow> silent (input_turns f)"
  by (simp add: keeps_def input_turns_def)

lemma silent_to_buffer [keeping]: "silent (receive_to_buffer b p n)"
proof -
  have "silent (receive_to_buffer_loop turns b p n)" for turns
    by (induction turns arbitrary: b p n) (unfold receive_to_buffer_loop.simps, intro keeping, intro keeping | assumption)+
  then show ?thesis unfolding receive_to_buffer_def by (intro keeping)
qed

lemma silent_until_lf [keeping]: "silent (receive_until_lf b n)"
proof -
  have "silent (receive_until_lf_loop turns n b k)" for turns k
    by (induction turns arbitrary: b k) (unfold receive_until_lf_loop.simps, intro keeping, intro keeping | assumption)+
  then show ?thesis unfolding receive_until_lf_def by (intro keeping)
qed

lemma silent_stale [keeping]: "silent stale_half"
  by (simp add: keeps_def stale_half_def)

lemma silent_memory [keeping]: "silent (mcl_memory_malloc n)" "silent (mcl_memory_realloc n)"
  unfolding mcl_memory_malloc_def mcl_memory_realloc_def by (intro keeping)+

lemma silent_chunked [keeping]: "silent get_chunked_response"
proof -
  have line: "silent get_chunk_size" unfolding get_chunk_size_def by (intro keeping)
  have data: "silent (get_chunk body m n b)" for body m n b unfolding get_chunk_def by (intro keeping)
  have "silent (get_chunked_response_loop turns body m)" for turns body m
    by (induction turns arbitrary: body m)
      (unfold get_chunked_response_loop.simps, intro keeping, (intro keeping line data | assumption)+)
  then show ?thesis unfolding get_chunked_response_def by (intro keeping)
qed

lemma silent_headers [keeping]: "silent (get_headers turns hl f)"
  by (induction turns arbitrary: hl f) (unfold get_headers.simps Let_def, intro keeping, (intro keeping | assumption)+)

lemma silent_response: "silent get_response"
  unfolding get_response_def get_body_def get_content_length_response_def mcl_http_response_initialize_def
  by (intro keeping)

section \<open>Properties\<close>

text \<open>C13. An exchange of the basic client from end to end. On a connection that takes and gives bytes in
  pieces of any size, for every request the client supports and every well formed response of the
  server: it connects to the host of the address and the port of its configuration; it writes the
  request line, the host, every header line in order, the agent, the header that announces the body,
  an empty line and the body, and nothing else, the body being the buffer of the caller, or what the
  callback gave, as it is when its size was announced and in chunks with their sizes and a last
  empty chunk otherwise; and it returns the status, all the header lines in order and the content of
  the response, sent with its length or in chunks, and reads not a byte more. (Nothing else fails, and
  the stack holds zeros in the upper halves that the chunk sizes are read beside: the code does not
  initialise them.)\<close>

theorem basic_exchange_exact:
  assumes "ready w" and "reads_ok (t_reads w)" and "t_stale w = (\<lambda>_. 0)"
    and "rq_uri request = Some uri" and "address uri host target" and "supported_method (rq_method request)"
    and "hc_port client < 2 ^ 16" and "hc_user_agent client = Some agent"
    and "request_body request (t_callback w) framing sent_body answers"
    and "status < 2 ^ 32" and "reason = [] \<or> \<not> is_digit (hd reason)"
    and "sendable_line (''HTTP/1.1 '' @ print_nat status @ reason)"
    and "\<forall>h \<in> set headers. sendable_line h \<and> h \<noteq> []" and "response_body headers received_body content"
    and "t_input w = response_text status reason headers received_body @ rest"
  shows "\<exists>w'. run_state (basic_http_client_send (Some client) (Some request)) w =
      (Some (Ok (response_with status headers content)), w') \<and>
    t_output w' = t_output w @ request_text client request host target agent framing sent_body \<and>
    t_peers w' = t_peers w @ [(host, print_nat (hc_port client))] \<and>
    t_callback w' = answers \<and> t_input w' = rest"
proof -
  obtain w1 where run: "run_state (basic_http_client_send (Some client) (Some request)) w = run_state get_response w1"
    and w1: "t_output w1 = t_output w @ request_text client request host target agent framing sent_body"
      "t_peers w1 = t_peers w @ [(host, print_nat (hc_port client))]" "t_callback w1 = answers"
      "t_reads w1 = t_reads w" "w_alloc w1 = w_alloc w" "t_stale w1 = t_stale w" "t_input w1 = t_input w"
    using basic_request_run [OF assms(1,4-9)] by fastforce
  have "w_alloc w = []" using assms(1) by (simp add: ready_def)
  then obtain k reads where "run_state get_response w1 = (Some (Ok (response_with status headers content)), took k reads w1)"
    "drop k (t_input w1) = rest"
    using response_read [of w1 status reason headers received_body content rest] w1 assms(2,3,10-15) by auto
  with run w1 show ?thesis by (simp add: took_def)
qed

text \<open>C14. For a request that passes the checks and whose payload is there in full, and while the stack
  holds zeros in the upper halves that chunk sizes are read beside, no server and no failure makes the
  basic client access memory it must not, or run on: for all bytes that arrive (less than \<open>2 ^ 63\<close>), in
  pieces of any size and with errors anywhere, for every outcome of allocations, TLS calls, writes and
  the callback, the call comes to an end with a response or an error code, and no access on the way is
  outside a buffer or of unwritten memory. The payload of a response has exactly the announced number
  of bytes. (The code does not initialise those halves; without the zeros a chunk can be written behind
  its block, see \<open>wrapped_chunk_overflows\<close>. A request that fails the checks leaves through an
  uninitialised handle.)\<close>

theorem basic_client_safe:
  assumes "validate_request request = Some MCL_OK"
    and "\<forall>b. rq_method request \<noteq> MCL_HTTP_GET \<and> rq_payload request = Some b \<longrightarrow> read_cells b (rq_payload_size request) \<noteq> None"
    and "t_stale w = (\<lambda>_. 0)" and "length (t_input w) < 2 ^ 63"
  shows "\<exists>r w'. run_state (basic_http_client_send (Some client) (Some request)) w = (Some r, w') \<and>
    (\<forall>response. r = Ok response \<longrightarrow>
      (case rs_payload response of None \<Rightarrow> rs_payload_size response = 0
       | Some payload \<Rightarrow> length payload = rs_payload_size response))"
proof -
  obtain uri where uri: "rq_uri request = Some uri"
    using assms(1) by (cases "rq_uri request") (auto simp: validate_request_def mcl_string_util_strncmp_def split: if_splits)
  obtain code s w1 where s: "run_state (prepared_socket client) w = ((code, s), w1)" by (metis prod.exhaust)
  have "arriving w1 = arriving w" using keeps_prepared s by (rule kept_part)
  obtain code' w2 where sent: "run_state (write_request s client request uri) w1 = (Some code', w2)"
    using returns_request [OF assms(2)] unfolding returns_def by blast
  have "arriving w2 = arriving w1" using keeps_request sent by (rule kept_part)
  with \<open>arriving w1 = arriving w\<close> assms(3,4) have "t_stale w2 = (\<lambda>_. 0)" "length (t_input w2) < 2 ^ 63"
    by (simp_all add: arriving_def)
  from response_safe [OF this] show ?thesis
    using s sent uri assms(1) by (cases "code = MCL_OK"; cases "code' = MCL_OK")
      (simp_all add: basic_http_client_send_def run_bind)
qed

text \<open>C38. Whatever fails, the server gets a beginning of the request and nothing else: for every request
  the client supports (without a body, with a buffer, or with a stream whose callback gives the
  announced bytes), in every world and even when the call goes wrong on the way, what the basic client
  has written at its end is a beginning of the request text, and it is the whole text whenever there is
  a response.\<close>

theorem basic_send_prefix:
  assumes "rq_uri request = Some uri" and "address uri host target" and "supported_method (rq_method request)"
    and "hc_port client < 2 ^ 16" and "hc_user_agent client = Some agent"
    and "request_body request (t_callback w) framing body rest"
    and "run_state (basic_http_client_send (Some client) (Some request)) w = (r, w')"
  shows "\<exists>out unsent. t_output w' = t_output w @ out \<and>
    request_text client request host target agent framing body = out @ unsent \<and>
    (\<forall>response. r = Some (Ok response) \<longrightarrow> unsent = [])"
proof -
  let ?text = "request_text client request host target agent framing body"
  obtain code s w1 where s: "run_state (prepared_socket client) w = ((code, s), w1)" by (metis prod.exhaust)
  have w1: "t_output w1 = t_output w" "t_callback w1 = t_callback w"
    using kept_part [OF quiet_prepared s] by simp_all
  note sends = sends_request [OF assms(3,2,4-6), of s]
  obtain code' out unsent w2 where sent: "run_state (write_request s client request uri) w1 = (Some code', w2)"
    "t_output w2 = t_output w1 @ out" "?text = out @ unsent" "code' = MCL_OK \<longrightarrow> out = ?text"
    using sendsE [OF sends w1(2)] by metis
  obtain a w3 where a: "run_state get_response w2 = (a, w3)" by fastforce
  have w3: "t_output w3 = t_output w2" using silent_response a by (rule kept_part)
  note valid = request_valid [OF assms(6,1,2)]
  have outcome: "(r, w') = (if code \<noteq> MCL_OK then (Some (Err code), w1)
      else if code' \<noteq> MCL_OK then (Some (Err code'), w2) else (a, w3))"
    using assms(1,7) s sent(1) a valid
    by (cases "code = MCL_OK"; cases "code' = MCL_OK") (simp_all add: basic_http_client_send_def run_bind)
  show ?thesis
  proof (cases "code = MCL_OK")
    case True
    have "code' = MCL_OK \<longrightarrow> unsent = []" using sent(3,4) by (metis append_self_conv)
    moreover have "t_output w' = t_output w @ out" "\<forall>response. r = Some (Ok response) \<longrightarrow> code' = MCL_OK"
      using outcome sent(2) w1(1) w3 True by (auto split: if_splits)
    ultimately show ?thesis using sent(3) by blast
  next
    case False
    then show ?thesis using outcome w1(1) by (intro exI [of _ "[]"] exI [of _ ?text]) simp
  qed
qed

text \<open>C39. The basic client sends GET, PUT and POST only. Every other method, among them the PATCH with
  which a deployment reports its state, ends with an error code in every world, after connecting
  and before a byte is written, when the request passes the checks made before (an https address, and
  a payload or a stream). A request that fails the checks, as a HEAD or a DELETE without a body does,
  is not sent either, but leaves through a handle that nothing has initialised.\<close>

theorem unsupported_method_refused:
  assumes "validate_request request = Some MCL_OK" and "\<not> supported_method (rq_method request)"
  shows "\<exists>code w'. run_state (basic_http_client_send (Some client) (Some request)) w = (Some (Err code), w') \<and>
    code \<noteq> MCL_OK \<and> t_output w' = t_output w"
proof -
  obtain uri where uri: "rq_uri request = Some uri"
    using assms(1) by (cases "rq_uri request") (auto simp: validate_request_def mcl_string_util_strncmp_def split: if_splits)
  obtain code s w1 where s: "run_state (prepared_socket client) w = ((code, s), w1)" by (metis prod.exhaust)
  have w1: "t_output w1 = t_output w" using silent_prepared s by (rule kept_part)
  have verb: "(case rq_method request of MCL_HTTP_GET \<Rightarrow> send_buffer get_string | MCL_HTTP_PUT \<Rightarrow> send_buffer put_string
      | MCL_HTTP_POST \<Rightarrow> send_buffer post_string | _ \<Rightarrow> State_Monad.return (Some MCL_FAIL)) = State_Monad.return (Some MCL_FAIL)"
    using assms(2) by (cases "rq_method request") (simp_all add: supported_method_def)
  let ?host = "takeWhile (\<lambda>c. c \<noteq> CHR ''/'') (drop HTTPS_PREFIX_SIZE uri)"
  obtain a w2 where a: "run_state mcl_malloc w1 = (a, w2)" by (metis prod.exhaust)
  obtain c w3 where c: "run_state (mcl_tls_socket_connect s ?host (print_nat (hc_port client))) w2 = (c, w3)" by (metis prod.exhaust)
  have "t_output w2 = t_output w1" "t_output w3 = t_output w2"
    using kept_part [OF silent_malloc a] kept_part [OF silent_connect c] by simp_all
  moreover have "run_state (start_http s client (rq_method request) uri) w1 =
      (if a then (Some (if c = MCL_OK then MCL_FAIL else c), w3) else (Some MCL_OUT_OF_MEMORY, w2))"
    using a c by (simp add: start_http_def verb Let_def run_bind)
  then have "run_state (write_request s client request uri) w1 =
      (if a then (Some (if c = MCL_OK then MCL_FAIL else c), w3) else (Some MCL_OUT_OF_MEMORY, w2))"
    by (auto simp: write_request_def run_bind)
  ultimately show ?thesis using s w1 assms(1) uri
    by (cases "code = MCL_OK"; cases a) (auto simp: basic_http_client_send_def run_bind)
qed

section \<open>Defects\<close>

text \<open>
  The size of a chunk is read into the lower half of a variable of which the code never writes the
  upper half. When that holds something, the sum with the size of the body so far can wrap, the block is
  made smaller than the body, and the first byte of the chunk is written behind it.
\<close>

theorem wrapped_chunk_overflows:
  assumes "length b = m" and "n < 2 ^ 64" and "2 ^ 64 < m + n" and "m < 2 ^ 64"
    and "w_alloc w = []" and "reads_ok (t_reads w)" and "t_input w \<noteq> []"
  shows "fst (run_state (get_chunk (Some b) m n chunk_string) w) = None"
proof -
  have n: "0 < n" using assms(3,4) by (cases n) auto
  have "(m + n) mod 2 ^ 64 = m + n - 2 ^ 64" using assms(2-4) by (simp add: le_mod_geq)
  then have "mcl_memory_realloc ((m + n) mod 2 ^ 64) = mcl_malloc" using assms(3) by (intro memory_of_some_size) simp
  then have memory: "(case Some b of None \<Rightarrow> mcl_memory_malloc n | Some _ \<Rightarrow> mcl_memory_realloc ((m + n) mod 2 ^ 64)) = mcl_malloc"
    by (simp only: option.case)
  have small: "(m + n) mod 2 ^ 64 \<le> m"
  proof -
    have "(m + n) mod 2 ^ 64 = (m + n - 2 ^ 64) mod 2 ^ 64" using assms(3) by (simp add: le_mod_geq less_imp_le)
    also have "\<dots> \<le> m + n - 2 ^ 64" by (rule mod_less_eq_dividend)
    finally show ?thesis using assms(2) by simp
  qed
  let ?block = "resized b ((m + n) mod 2 ^ 64)"
  have len: "length ?block \<le> m" using small assms(1) by (simp add: resized_def min_def)
  obtain code s reads where r: "run_state (mcl_tls_socket_receive n) w = ((code, s), took (length s) reads w)"
    "s = take (length s) (t_input w)" "code = MCL_OK" "s \<noteq> []"
    using run_receive [OF n, of w] assms(6,7) unfolding took_def by auto
  have "string_util_memcpy ?block m s (length s) = None"
    using len r(4) by (cases s) (simp_all add: string_util_memcpy_def)
  then show ?thesis using n r(1,3) assms(5) unfolding get_chunk_def memory
    by (simp add: receive_to_buffer_def run_input_turns receive_to_buffer_loop.simps run_bind)
qed

section \<open>Examples\<close>

definition example_client :: mcl_http_client_t where
  "example_client = \<lparr>hc_chain = \<lparr>certificate_chain = []\<rparr>, hc_user_agent = Some ''agent'', hc_port = 8443, hc_timeout = 300\<rparr>"

definition example_request :: "E_MCL_HTTP_METHOD \<Rightarrow> char block option \<Rightarrow> nat \<Rightarrow> mcl_http_request_t" where
  "example_request m payload n = \<lparr>rq_header = [''Accept: x''], rq_payload = payload, rq_payload_size = n, rq_method = m,
     rq_uri = Some ''https://h/x'', rq_stream_callback = (if payload = None then Some 0 else None), rq_stream_data = None\<rparr>"

text \<open>The server answers in a few pieces and the connection takes a few bytes at a time.\<close>

definition example_world :: "mbedtls_code list \<Rightarrow> tls_world" where
  "example_world script = \<lparr>w_alloc = [], w_random = [], t_calls = [], t_writes = script,
     t_reads = [Bytes 1, MBEDTLS_ERR_SSL_WANT_READ, Bytes 5],
     t_input = ''HTTP/1.1 200 OK'' @ crlf @ ''Server: s'' @ crlf @ ''Content-Length: 2'' @ crlf @ crlf @ ''hi'',
     t_output = [], t_peers = [], t_stale = (\<lambda>_. 0), t_callback = [''abc'', ''de'']\<rparr>"

lemma example_address: "address ''https://h/x'' ''h'' ''/x''"
  by (simp add: address_def https_prefix_def cstring_def MCL_NULL_CHAR_def)

lemma print_200: "print_nat 200 = ''200''" "print_nat 2 = ''2''" "print_nat (Suc (Suc 0)) = ''2''" "print_nat 8443 = ''8443''"
  by (simp_all add: print_nat.simps hex_digit_def)

lemma example_response:
  "t_input (example_world script) =
    response_text 200 '' OK'' [''Server: s'', ''Content-Length: 2''] ''hi'' @ []"
  by (simp add: example_world_def response_text_def print_200)

lemma neutral_server: "neutral ''Server: s''"
proof -
  have "string_util_find_case_insensitive (''Server: s'' @ crlf) transfer_encoding_header = Some None" by code_simp
  then show ?thesis by (simp add: neutral_def parse_framing_def no_framing_def scan_after_def content_length_header_def)
qed

lemma example_body: "response_body [''Server: s'', ''Content-Length: 2''] ''hi'' ''hi''"
  using counted [of "[''Server: s'']" "''hi''" "[]"] neutral_server by (simp add: print_200)

theorem basic_exchange_exact_witness:
  "\<exists>w'. run_state (basic_http_client_send (Some example_client) (Some (example_request MCL_HTTP_POST None 0)))
      (example_world [Bytes 1, MBEDTLS_ERR_SSL_WANT_WRITE, Bytes 2]) =
      (Some (Ok (response_with 200 [''Server: s'', ''Content-Length: 2''] ''hi'')), w') \<and>
    t_output w' = ''POST /x HTTP/1.1'' @ crlf @ ''Host: h:8443'' @ crlf @ ''Accept: x'' @ crlf @ ''User-Agent: agent'' @ crlf @
      ''Transfer-Encoding: chunked'' @ crlf @ crlf @ ''3'' @ crlf @ ''abc'' @ crlf @ ''2'' @ crlf @ ''de'' @ crlf @ ''0'' @ crlf @ crlf \<and>
    t_peers w' = [(''h'', ''8443'')] \<and> t_callback w' = [] \<and> t_input w' = []"
proof -
  let ?w = "example_world [Bytes 1, MBEDTLS_ERR_SSL_WANT_WRITE, Bytes 2]"
  let ?body = "concat (map chunk [''abc'', ''de'']) @ chunk []"
  have gives: "gives (t_callback ?w) [''abc'', ''de''] []"
    by (simp add: gives_def example_world_def HTTP_CALLBACK_BUFFER_SIZE_def)
  have request: "request_body (example_request MCL_HTTP_POST None 0) (t_callback ?w) (''Transfer-Encoding: chunked'' @ crlf) ?body []"
    by (rule request_body.chunked [OF _ _ _ _ gives]) (simp_all add: example_request_def)
  have "ready ?w" "reads_ok (t_reads ?w)" "t_stale ?w = (\<lambda>_. 0)"
    by (simp_all add: ready_def writes_ok_def reads_ok_def example_world_def)
  moreover have "rq_uri (example_request MCL_HTTP_POST None 0) = Some ''https://h/x''"
    "supported_method (rq_method (example_request MCL_HTTP_POST None 0))"
    by (simp_all add: example_request_def supported_method_def)
  moreover have "hc_port example_client < 2 ^ 16" "hc_user_agent example_client = Some ''agent''"
    by (simp_all add: example_client_def)
  moreover have "sendable_line (''HTTP/1.1 '' @ print_nat 200 @ '' OK'')"
    "\<forall>h \<in> set [''Server: s'', ''Content-Length: 2'']. sendable_line h \<and> h \<noteq> []"
    by (simp_all add: sendable_line_def cstring_def MCL_NULL_CHAR_def HTTP_PARSE_BUFFER_SIZE_def print_200)
  moreover have "'' OK'' = [] \<or> \<not> is_digit (hd '' OK'')" by (simp add: is_digit_def)
  ultimately have "\<exists>w'. run_state (basic_http_client_send (Some example_client) (Some (example_request MCL_HTTP_POST None 0))) ?w =
      (Some (Ok (response_with 200 [''Server: s'', ''Content-Length: 2''] ''hi'')), w') \<and>
    t_output w' = t_output ?w @ request_text example_client (example_request MCL_HTTP_POST None 0) ''h'' ''/x'' ''agent''
      (''Transfer-Encoding: chunked'' @ crlf) ?body \<and>
    t_peers w' = t_peers ?w @ [(''h'', print_nat (hc_port example_client))] \<and> t_callback w' = [] \<and> t_input w' = []"
    by (intro basic_exchange_exact [OF _ _ _ _ example_address _ _ _ request _ _ _ _ example_body example_response]) simp_all
  moreover have "request_text example_client (example_request MCL_HTTP_POST None 0) ''h'' ''/x'' ''agent''
      (''Transfer-Encoding: chunked'' @ crlf) ?body =
    ''POST /x HTTP/1.1'' @ crlf @ ''Host: h:8443'' @ crlf @ ''Accept: x'' @ crlf @ ''User-Agent: agent'' @ crlf @
      ''Transfer-Encoding: chunked'' @ crlf @ crlf @ ''3'' @ crlf @ ''abc'' @ crlf @ ''2'' @ crlf @ ''de'' @ crlf @ ''0'' @ crlf @ crlf"
    by (simp add: request_text_def example_client_def example_request_def method_text_def host_text_def print_200
        chunk_def print_hex.simps hex_digit_upper_def)
  ultimately show ?thesis by (simp add: example_world_def example_client_def print_200)
qed

text \<open>A PUT of two bytes over a connection that breaks after three bytes.\<close>

definition put_request :: mcl_http_request_t where
  "put_request = example_request MCL_HTTP_PUT (Some (map Some ''hi'')) 2"

lemma put_cells: "read_cells (map Some ''hi'') 2 = Some ''hi''"
  "read_cells [Some CHR ''h'', Some CHR ''i''] 2 = Some ''hi''"
  by (simp_all add: read_cells_def comp_def)

lemma put_body: "request_body put_request answers (''Content-Length: '' @ print_nat 2 @ crlf) ''hi'' answers"
  using buffered [of put_request "map Some ''hi''" "''hi''" answers] put_cells
  by (simp add: put_request_def example_request_def)

theorem basic_client_safe_witness:
  "\<exists>r w'. run_state (basic_http_client_send (Some example_client) (Some put_request))
      (example_world [Bytes 3, MBEDTLS_ERR_OTHER]) = (Some r, w')"
proof -
  have "validate_request put_request = Some MCL_OK"
    by (rule request_valid [OF put_body _ example_address]) (simp add: put_request_def example_request_def)
  then have "\<exists>r w'. run_state (basic_http_client_send (Some example_client) (Some put_request))
      (example_world [Bytes 3, MBEDTLS_ERR_OTHER]) = (Some r, w') \<and>
    (\<forall>response. r = Ok response \<longrightarrow>
      (case rs_payload response of None \<Rightarrow> rs_payload_size response = 0
       | Some payload \<Rightarrow> length payload = rs_payload_size response))"
    by (rule basic_client_safe) (simp_all add: put_request_def example_request_def put_cells example_world_def crlf_def)
  then show ?thesis by blast
qed

text \<open>A stream over the same connection.\<close>

theorem basic_send_prefix_witness:
  "\<exists>r w' out unsent. run_state (basic_http_client_send (Some example_client) (Some (example_request MCL_HTTP_POST None 0)))
      (example_world [Bytes 3, MBEDTLS_ERR_OTHER]) = (r, w') \<and> t_output w' = out \<and>
    request_text example_client (example_request MCL_HTTP_POST None 0) ''h'' ''/x'' ''agent''
      (''Transfer-Encoding: chunked'' @ crlf) (concat (map chunk [''abc'', ''de'']) @ chunk []) = out @ unsent"
proof -
  let ?w = "example_world [Bytes 3, MBEDTLS_ERR_OTHER]" and ?rq = "example_request MCL_HTTP_POST None 0"
  have gives: "gives (t_callback ?w) [''abc'', ''de''] []"
    by (simp add: gives_def example_world_def HTTP_CALLBACK_BUFFER_SIZE_def)
  have body: "request_body ?rq (t_callback ?w) (''Transfer-Encoding: chunked'' @ crlf)
      (concat (map chunk [''abc'', ''de'']) @ chunk []) []"
    by (rule request_body.chunked [OF _ _ _ _ gives]) (simp_all add: example_request_def)
  obtain r w' where run: "run_state (basic_http_client_send (Some example_client) (Some ?rq)) ?w = (r, w')" by fastforce
  have "rq_uri ?rq = Some ''https://h/x''" "supported_method (rq_method ?rq)" "hc_port example_client < 2 ^ 16"
    "hc_user_agent example_client = Some ''agent''"
    by (simp_all add: example_request_def supported_method_def example_client_def)
  from basic_send_prefix [OF this(1) example_address this(2-4) body run] run show ?thesis
    by (auto simp: example_world_def)
qed

theorem unsupported_method_refused_witness:
  "\<exists>code w'. run_state (basic_http_client_send (Some example_client) (Some (example_request MCL_HTTP_PATCH None 0))) (example_world []) =
      (Some (Err code), w') \<and> code \<noteq> MCL_OK \<and> t_output w' = []"
proof -
  have "gives [] [] []" by (simp add: gives_def)
  then have "request_body (example_request MCL_HTTP_PATCH None 0) [] (''Transfer-Encoding: chunked'' @ crlf) (concat (map chunk []) @ chunk []) []"
    by (intro request_body.chunked) (simp_all add: example_request_def)
  then have "validate_request (example_request MCL_HTTP_PATCH None 0) = Some MCL_OK"
    by (rule request_valid [OF _ _ example_address]) (simp add: example_request_def)
  from unsupported_method_refused [OF this, of example_client "example_world []"] show ?thesis
    by (simp add: supported_method_def example_request_def example_world_def)
qed

end
