(* ===== verification/MclCurl.thy ===== *)
theory MclCurl
  imports MclHttpClient
begin

text \<open>
  The HTTP client over libcurl, \<open>src/mcl_core/src/http_client/curl/http_client_libcurl.c\<close>: libcurl as
  far as the client uses it, the callbacks it hands to libcurl, and the options it sets for a request.
  libcurl is not code of this library. Its easy handle is the sequence of the options set on it, of
  which the last one of a kind counts; the world scripts what happens in the coming transfers. \<open>None\<close>
  is undefined behaviour.
\<close>

section \<open>libcurl\<close>

datatype CURLcode =
    CURLE_OK | CURLE_COULDNT_RESOLVE_PROXY | CURLE_COULDNT_RESOLVE_HOST | CURLE_COULDNT_CONNECT
  | CURLE_OUT_OF_MEMORY | CURLE_SSL_CONNECT_ERROR | CURLE_PEER_FAILED_VERIFICATION
  | CURLE_SEND_ERROR | CURLE_RECV_ERROR | CURLE_SSL_CERTPROBLEM | CURLE_OPERATION_TIMEDOUT
  | CURLE_READ_ERROR | CURLE_WRITE_ERROR | CURLE_OTHER

datatype curl_constant = CURL_SSLVERSION_TLSv1_2 | CURLHEADER_UNIFIED | CURLHEADER_SEPARATE | CURLAUTH_ANY

datatype curl_read_function = Stream_Callback nat | Request_Payload_Callback_For_Put

datatype curl_read_data = Stream_Data "nat option" | User_Context

text \<open>
  The options the client sets. A list of headers is an address, \<open>None\<close> a \<open>NULL\<close>; the certificates, the
  response and the context of the read callback are the ones of the client and of the running call.
\<close>

datatype curl_option =
    CURLOPT_PORT nat | CURLOPT_TIMEOUT nat | CURLOPT_CONNECTTIMEOUT nat | CURLOPT_SSL_CIPHER_LIST string
  | CURLOPT_SSLVERSION curl_constant | CURLOPT_SSL_VERIFYHOST int | CURLOPT_SSL_VERIFYPEER int
  | CURLOPT_HEADER int | CURLOPT_HEADERFUNCTION | CURLOPT_WRITEFUNCTION | CURLOPT_HEADEROPT curl_constant
  | CURLOPT_FORBID_REUSE int | CURLOPT_USERAGENT "string option" | CURLOPT_PROXY string | CURLOPT_PROXYPORT nat
  | CURLOPT_PROXYTYPE nat | CURLOPT_PROXYAUTH curl_constant | CURLOPT_PROXYUSERNAME string
  | CURLOPT_PROXYPASSWORD "string option" | CURLOPT_CAINFO string | CURLOPT_SSL_CTX_DATA
  | CURLOPT_SSL_CTX_FUNCTION | CURLOPT_URL "string option" | CURLOPT_HTTPGET int | CURLOPT_POST int
  | CURLOPT_UPLOAD int | CURLOPT_CUSTOMREQUEST "string option" | CURLOPT_POSTFIELDSIZE int
  | CURLOPT_INFILESIZE int | CURLOPT_INFILESIZE_LARGE int | CURLOPT_READFUNCTION curl_read_function
  | CURLOPT_READDATA curl_read_data | CURLOPT_POSTFIELDS "char block option"
  | CURLOPT_HTTPHEADER "nat option" | CURLOPT_PROXYHEADER "nat option" | CURLOPT_HEADERDATA | CURLOPT_WRITEDATA

type_synonym CURL = "curl_option list"

definition latest :: "(curl_option \<Rightarrow> 'a option) \<Rightarrow> CURL \<Rightarrow> 'a option" where
  "latest f curl = fold (\<lambda>option v. case f option of None \<Rightarrow> v | Some x \<Rightarrow> Some x) curl None"

text \<open>
  What happens in a transfer: libcurl asks for up to so many bytes of the payload, receives a header
  line with its line end, or a piece of the body; then the code it ends with and the status.
\<close>

datatype curl_event = Ask_Payload nat | Header_Line string | Body_Data string

record transfer =
  tr_events :: "curl_event list"
  tr_code :: CURLcode
  tr_status :: nat

text \<open>What a transfer was told to send, and what it took of the payload.\<close>

record curl_request =
  cq_options :: CURL
  cq_header :: "string list"
  cq_body :: string

text \<open>
  The lists of headers by address, \<open>None\<close> once released; the transfers to come and those that were
  made; what the callbacks of the user give, call by call; and whether libcurl is initialised.
\<close>

record curl_world = mem_world +
  c_slists :: "string list option list"
  c_transfers :: "transfer list"
  c_requests :: "curl_request list"
  c_callback :: "string list"
  c_global_initialized :: bool
  c_global_inits :: nat

text \<open>
  \<open>curl_slist_append\<close> gives \<open>NULL\<close> without memory, and leaves the list it was given as it is.
\<close>

definition curl_slist_append :: "nat option \<Rightarrow> string \<Rightarrow> ('z curl_world_ext, nat option) io" where
  "curl_slist_append slist s = do {
     a \<leftarrow> mcl_malloc;
     if \<not> a then State_Monad.return None
     else State (\<lambda>w. case slist of
         None \<Rightarrow> (Some (length (c_slists w)), w\<lparr>c_slists := c_slists w @ [Some [s]]\<rparr>)
       | Some l \<Rightarrow> (Some l, w\<lparr>c_slists := (c_slists w)[l := map_option (\<lambda>hs. hs @ [s]) (c_slists w ! l)]\<rparr>))
   }"

definition curl_slist_free_all :: "nat option \<Rightarrow> ('z curl_world_ext, unit) io" where
  "curl_slist_free_all slist = State (\<lambda>w.
     ((), case slist of None \<Rightarrow> w | Some l \<Rightarrow> w\<lparr>c_slists := (c_slists w)[l := None]\<rparr>))"

text \<open>The headers libcurl finds at an address: a list that was released is not there any more.\<close>

definition slist_headers :: "nat option \<Rightarrow> string list option list \<Rightarrow> string list option" where
  "slist_headers slist slists =
     (case slist of None \<Rightarrow> Some [] | Some l \<Rightarrow> if l < length slists then slists ! l else None)"

section \<open>Callbacks\<close>

text \<open>A product of two \<open>mcl_size_t\<close>, and a difference.\<close>

definition size_times :: "nat \<Rightarrow> nat \<Rightarrow> nat" where "size_times m n = m * n mod 2 ^ 64"
definition size_minus :: "nat \<Rightarrow> nat \<Rightarrow> nat" where "size_minus m n = (2 ^ 64 + m - n) mod 2 ^ 64"

definition CRLF_LENGTH :: nat where "CRLF_LENGTH = 2"

definition is_empty_line :: "string \<Rightarrow> bool option" where
  "is_empty_line line = do {
     c \<leftarrow> read line 0;
     if c \<noteq> CHR 0x0D then Some False
     else do { d \<leftarrow> read line 1; Some (d = CHR 0x0A) }
   }"

text \<open>What is returned, and the list of header lines.\<close>

definition response_header_callback ::
  "string \<Rightarrow> nat \<Rightarrow> nat \<Rightarrow> string list \<Rightarrow> ('z, (nat \<times> string list) option) io" where
  "response_header_callback received_data bytes count header_list =
     (let received_data_size = size_times bytes count;
          n = size_minus received_data_size CRLF_LENGTH in
      case (if received_data_size = CRLF_LENGTH then is_empty_line received_data else Some False) of
        None \<Rightarrow> State_Monad.return None
      | Some True \<Rightarrow> State_Monad.return (Some (received_data_size, header_list))
      | Some False \<Rightarrow> do {
          let capacity = size_minus received_data_size 1;
          a \<leftarrow> mcl_memory_malloc capacity;
          if \<not> a then State_Monad.return (Some (0, header_list))
          else if \<not> (n \<le> length received_data \<and> n < capacity) then State_Monad.return None
          else do {
            node \<leftarrow> mcl_malloc;
            State_Monad.return (Some
              (if node then (received_data_size, header_list @ [c_text (take n received_data)]) else (0, header_list)))
          }
        })"

record libcurl_payload_t =
  lp_data :: "char block option"
  lp_size :: nat

text \<open>A failed \<open>MCL_RESIZE\<close> overwrites the pointer with \<open>NULL\<close>.\<close>

definition response_payload_callback ::
  "string \<Rightarrow> nat \<Rightarrow> nat \<Rightarrow> libcurl_payload_t \<Rightarrow> ('z, (nat \<times> libcurl_payload_t) option) io" where
  "response_payload_callback received_data bytes count payload =
     (let received_data_size = size_times bytes count;
          total = (lp_size payload + received_data_size) mod 2 ^ 64 in do {
        a \<leftarrow> (case lp_data payload of
            None \<Rightarrow> mcl_memory_malloc received_data_size
          | Some _ \<Rightarrow> mcl_memory_realloc total);
        if \<not> a then State_Monad.return (Some (0, payload\<lparr>lp_data := None\<rparr>))
        else State_Monad.return (
          let block = (case lp_data payload of
                None \<Rightarrow> fresh_block received_data_size
              | Some data \<Rightarrow> resized data total) in
          map_option (\<lambda>data. (received_data_size, payload\<lparr>lp_data := Some data, lp_size := total\<rparr>))
            (string_util_memcpy block (lp_size payload) received_data received_data_size))
      })"

record default_callback_user_context_t =
  uc_http_request :: mcl_http_request_t
  uc_callback_offset :: nat

text \<open>The bytes copied, as many as are returned.\<close>

definition request_payload_callback_for_put ::
  "nat \<Rightarrow> nat \<Rightarrow> default_callback_user_context_t \<Rightarrow> (string \<times> default_callback_user_context_t) option" where
  "request_payload_callback_for_put bytes count context_data =
     (let buffer_size = size_times bytes count;
          offset = uc_callback_offset context_data;
          remaining_size = size_minus (rq_payload_size (uc_http_request context_data)) offset;
          payload_size = (if remaining_size < buffer_size then remaining_size else buffer_size);
          moved = context_data\<lparr>uc_callback_offset := (offset + payload_size) mod 2 ^ 64\<rparr> in
      if payload_size = 0 then Some ([], moved)
      else do {
        payload \<leftarrow> rq_payload (uc_http_request context_data);
        data \<leftarrow> read_cells (drop offset payload) payload_size;
        Some (data, moved)
      })"

end
