(* ===== verification/MclCurlClient.thy ===== *)
theory MclCurlClient
  imports MclCurl
begin

text \<open>
  The HTTP client over libcurl: the options of a request, the transfer as libcurl runs it with the
  callbacks, \<open>mcl_http_client_send\<close>, and how a client is made and given certificates.
\<close>

section \<open>The options of a request\<close>

definition CURL_2GB_LIMIT :: nat where "CURL_2GB_LIMIT = 0x80000000"

definition set_in_file_size :: "nat \<Rightarrow> CURL \<Rightarrow> CURL" where
  "set_in_file_size payload_size curl = curl @
     [if payload_size < CURL_2GB_LIMIT then CURLOPT_INFILESIZE (int payload_size)
      else CURLOPT_INFILESIZE_LARGE (int payload_size)]"

text \<open>The options, the context of the read callback when it is written, and the new list of headers.\<close>

definition set_payload_options ::
  "CURL \<Rightarrow> mcl_http_request_t \<Rightarrow> default_callback_user_context_t option \<Rightarrow> nat option \<Rightarrow>
   ('z curl_world_ext, CURL \<times> default_callback_user_context_t option \<times> nat option) io" where
  "set_payload_options curl http_request user_context header_list =
     (case rq_stream_callback http_request of
        None \<Rightarrow> State_Monad.return
          (set_in_file_size (rq_payload_size http_request)
             (curl @ [CURLOPT_READFUNCTION Request_Payload_Callback_For_Put, CURLOPT_READDATA User_Context]),
           Some \<lparr>uc_http_request = http_request, uc_callback_offset = 0\<rparr>, None)
      | Some callback \<Rightarrow> do {
          let curl = curl @ [CURLOPT_READFUNCTION (Stream_Callback callback),
            CURLOPT_READDATA (Stream_Data (rq_stream_data http_request))];
          if rq_payload_size http_request = 0 then do {
            new_header_list \<leftarrow> curl_slist_append header_list (http_header_names HTTP_HEADER_TRANSFER_ENCODING_CHUNKED);
            State_Monad.return (curl, user_context, new_header_list)
          }
          else State_Monad.return (set_in_file_size (rq_payload_size http_request) curl, user_context, None)
        })"

definition reset_request_options :: "mcl_http_request_t \<Rightarrow> CURL" where
  "reset_request_options http_request =
     [CURLOPT_URL (rq_uri http_request),
      CURLOPT_HTTPGET 0, CURLOPT_POST 0, CURLOPT_UPLOAD 0, CURLOPT_CUSTOMREQUEST None,
      CURLOPT_POSTFIELDSIZE (- 1), CURLOPT_INFILESIZE (- 1), CURLOPT_READDATA (Stream_Data None),
      CURLOPT_POSTFIELDS None]"

text \<open>The \<open>switch\<close> over the method; \<open>None\<close> for a method it does not know.\<close>

definition set_method_options ::
  "CURL \<Rightarrow> mcl_http_request_t \<Rightarrow>
   ('z curl_world_ext, CURL \<times> default_callback_user_context_t option \<times> nat option) io option" where
  "set_method_options curl http_request =
     (case rq_method http_request of
        MCL_HTTP_GET \<Rightarrow> Some (State_Monad.return (curl @ [CURLOPT_HTTPGET 1], None, None))
      | MCL_HTTP_POST \<Rightarrow> Some (case rq_stream_callback http_request of
            None \<Rightarrow> State_Monad.return (curl @ [CURLOPT_POST 1, CURLOPT_POSTFIELDS (rq_payload http_request),
              CURLOPT_POSTFIELDSIZE (int (rq_payload_size http_request))], None, None)
          | Some callback \<Rightarrow> do {
              request_header_list \<leftarrow> curl_slist_append None (http_header_names HTTP_HEADER_TRANSFER_ENCODING_CHUNKED);
              State_Monad.return (curl @ [CURLOPT_POST 1, CURLOPT_READFUNCTION (Stream_Callback callback),
                CURLOPT_READDATA (Stream_Data (rq_stream_data http_request))], None, request_header_list)
            })
      | MCL_HTTP_PUT \<Rightarrow> Some (set_payload_options (curl @ [CURLOPT_UPLOAD 1]) http_request None None)
      | MCL_HTTP_PATCH \<Rightarrow> Some (set_payload_options
          (curl @ [CURLOPT_CUSTOMREQUEST (Some ''PATCH''), CURLOPT_UPLOAD 1]) http_request None None)
      | _ \<Rightarrow> None)"

fun append_request_headers :: "string list \<Rightarrow> nat option \<Rightarrow> ('z curl_world_ext, nat option) io" where
  "append_request_headers [] request_header_list = State_Monad.return request_header_list"
| "append_request_headers (line # lines) request_header_list = do {
     request_header_list \<leftarrow> curl_slist_append request_header_list line;
     append_request_headers lines request_header_list
   }"

definition set_request_options ::
  "CURL \<Rightarrow> mcl_http_request_t \<Rightarrow>
   ('z curl_world_ext, CURL \<times> default_callback_user_context_t option \<times> nat option) io" where
  "set_request_options curl http_request =
     (case set_method_options (curl @ reset_request_options http_request) http_request of
        None \<Rightarrow> State_Monad.return (curl @ reset_request_options http_request, None, None)
      | Some m \<Rightarrow> do {
          (curl, user_context, request_header_list) \<leftarrow> m;
          request_header_list \<leftarrow> append_request_headers (rq_header http_request) request_header_list;
          request_header_list \<leftarrow> curl_slist_append request_header_list ''Expect:'';
          State_Monad.return
            (curl @ [CURLOPT_HEADEROPT CURLHEADER_SEPARATE, CURLOPT_HTTPHEADER request_header_list,
               CURLOPT_PROXYHEADER None], user_context, request_header_list)
        })"

section \<open>A transfer\<close>

definition http_header_option :: "curl_option \<Rightarrow> nat option option" where
  "http_header_option p = (case p of CURLOPT_HTTPHEADER l \<Rightarrow> Some l | _ \<Rightarrow> None)"
definition upload_option :: "curl_option \<Rightarrow> int option" where
  "upload_option p = (case p of CURLOPT_UPLOAD n \<Rightarrow> Some n | _ \<Rightarrow> None)"
definition post_option :: "curl_option \<Rightarrow> int option" where
  "post_option p = (case p of CURLOPT_POST n \<Rightarrow> Some n | _ \<Rightarrow> None)"
definition post_fields_option :: "curl_option \<Rightarrow> char block option option" where
  "post_fields_option p = (case p of CURLOPT_POSTFIELDS b \<Rightarrow> Some b | _ \<Rightarrow> None)"
definition post_field_size_option :: "curl_option \<Rightarrow> int option" where
  "post_field_size_option p = (case p of CURLOPT_POSTFIELDSIZE n \<Rightarrow> Some n | _ \<Rightarrow> None)"
definition read_function_option :: "curl_option \<Rightarrow> curl_read_function option" where
  "read_function_option p = (case p of CURLOPT_READFUNCTION f \<Rightarrow> Some f | _ \<Rightarrow> None)"
definition read_data_option :: "curl_option \<Rightarrow> curl_read_data option" where
  "read_data_option p = (case p of CURLOPT_READDATA d \<Rightarrow> Some d | _ \<Rightarrow> None)"

text \<open>
  What a transfer has at a time: the list behind \<open>CURLOPT_HEADERDATA\<close>, the payload behind
  \<open>CURLOPT_WRITEDATA\<close>, the context of the read callback, and the bytes taken of the request's payload.
\<close>

record exchange =
  ex_header :: "string list"
  ex_payload :: libcurl_payload_t
  ex_context :: "default_callback_user_context_t option"
  ex_body :: string

text \<open>The callback of the user gives no more than it is asked for.\<close>

definition stream_callback :: "nat \<Rightarrow> ('z curl_world_ext, string) io" where
  "stream_callback n = State (\<lambda>w. case c_callback w of
      [] \<Rightarrow> ([], w)
    | s # ss \<Rightarrow> (take n s, w\<lparr>c_callback := ss\<rparr>))"

text \<open>
  libcurl takes a payload only for an upload or a post: from the post fields where they are set, and
  otherwise from the read function, which gets the pointer it was set with.
\<close>

definition ask_payload :: "CURL \<Rightarrow> nat \<Rightarrow> exchange \<Rightarrow> ('z curl_world_ext, exchange option) io" where
  "ask_payload curl n ex =
     (if latest upload_option curl \<noteq> Some 1 \<and> latest post_option curl \<noteq> Some 1
      then State_Monad.return (Some ex)
      else case latest post_fields_option curl of
        Some (Some post_fields) \<Rightarrow> State_Monad.return (case latest post_field_size_option curl of
            None \<Rightarrow> None
          | Some post_size \<Rightarrow> map_option (\<lambda>data. ex\<lparr>ex_body := ex_body ex @ data\<rparr>)
              (read_cells (drop (length (ex_body ex)) post_fields) (min n (nat post_size - length (ex_body ex)))))
      | _ \<Rightarrow> (case (latest read_function_option curl, latest read_data_option curl) of
            (Some (Stream_Callback callback), _) \<Rightarrow> do {
              data \<leftarrow> stream_callback n;
              State_Monad.return (Some (ex\<lparr>ex_body := ex_body ex @ data\<rparr>))
            }
          | (Some Request_Payload_Callback_For_Put, Some User_Context) \<Rightarrow> State_Monad.return (do {
              user_context \<leftarrow> ex_context ex;
              (data, user_context) \<leftarrow> request_payload_callback_for_put 1 n user_context;
              Some (ex\<lparr>ex_body := ex_body ex @ data, ex_context := Some user_context\<rparr>)
            })
          | _ \<Rightarrow> State_Monad.return None))"

text \<open>A callback that does not return the number of bytes it was given ends the transfer.\<close>

definition curl_event_step ::
  "CURL \<Rightarrow> curl_event \<Rightarrow> exchange \<Rightarrow> ('z curl_world_ext, (bool \<times> exchange) option) io" where
  "curl_event_step curl event ex =
     (case event of
        Ask_Payload n \<Rightarrow> do {
          r \<leftarrow> ask_payload curl n ex;
          State_Monad.return (map_option (Pair True) r)
        }
      | Header_Line line \<Rightarrow> do {
          r \<leftarrow> response_header_callback line 1 (length line) (ex_header ex);
          State_Monad.return (map_option (\<lambda>(n, header). (n = length line, ex\<lparr>ex_header := header\<rparr>)) r)
        }
      | Body_Data data \<Rightarrow> do {
          r \<leftarrow> response_payload_callback data 1 (length data) (ex_payload ex);
          State_Monad.return (map_option (\<lambda>(n, payload). (n = length data, ex\<lparr>ex_payload := payload\<rparr>)) r)
        })"

fun curl_events ::
  "CURL \<Rightarrow> curl_event list \<Rightarrow> exchange \<Rightarrow> ('z curl_world_ext, (bool \<times> exchange) option) io" where
  "curl_events curl [] ex = State_Monad.return (Some (True, ex))"
| "curl_events curl (event # events) ex = do {
     r \<leftarrow> curl_event_step curl event ex;
     case r of
       None \<Rightarrow> State_Monad.return None
     | Some (False, ex) \<Rightarrow> State_Monad.return (Some (False, ex))
     | Some (True, ex) \<Rightarrow> curl_events curl events ex
   }"

definition next_transfer :: "('z curl_world_ext, transfer) io" where
  "next_transfer = State (\<lambda>w. case c_transfers w of
      [] \<Rightarrow> (\<lparr>tr_events = [], tr_code = CURLE_COULDNT_CONNECT, tr_status = 0\<rparr>, w)
    | t # ts \<Rightarrow> (t, w\<lparr>c_transfers := ts\<rparr>))"

definition record_request :: "curl_request \<Rightarrow> ('z curl_world_ext, unit) io" where
  "record_request q = State (\<lambda>w. ((), w\<lparr>c_requests := c_requests w @ [q]\<rparr>))"

definition curl_easy_perform ::
  "CURL \<Rightarrow> exchange \<Rightarrow> ('z curl_world_ext, (CURLcode \<times> nat \<times> exchange) option) io" where
  "curl_easy_perform curl ex = do {
     header \<leftarrow> State (\<lambda>w. (case latest http_header_option curl of
         None \<Rightarrow> Some [] | Some l \<Rightarrow> slist_headers l (c_slists w), w));
     case header of
       None \<Rightarrow> State_Monad.return None
     | Some header \<Rightarrow> do {
         t \<leftarrow> next_transfer;
         r \<leftarrow> curl_events curl (tr_events t) ex;
         case r of
           None \<Rightarrow> State_Monad.return None
         | Some (completed, ex) \<Rightarrow> do {
             _ \<leftarrow> record_request \<lparr>cq_options = curl, cq_header = header, cq_body = ex_body ex\<rparr>;
             State_Monad.return (Some (if completed then tr_code t else CURLE_WRITE_ERROR, tr_status t, ex))
           }
       }
   }"

section \<open>Sending\<close>

definition convert_to_mcl_return_code :: "CURLcode \<Rightarrow> mcl_error" where
  "convert_to_mcl_return_code curl_code =
     (case curl_code of
        CURLE_OK \<Rightarrow> MCL_OK
      | CURLE_COULDNT_RESOLVE_PROXY \<Rightarrow> MCL_COULD_NOT_RESOLVE_PROXY
      | CURLE_COULDNT_RESOLVE_HOST \<Rightarrow> MCL_COULD_NOT_RESOLVE_HOST
      | CURLE_COULDNT_CONNECT \<Rightarrow> MCL_COULD_NOT_CONNECT
      | CURLE_OUT_OF_MEMORY \<Rightarrow> MCL_OUT_OF_MEMORY
      | CURLE_SSL_CONNECT_ERROR \<Rightarrow> MCL_SSL_HANDSHAKE_FAIL
      | CURLE_PEER_FAILED_VERIFICATION \<Rightarrow> MCL_SERVER_CERTIFICATE_NOT_VERIFIED
      | CURLE_SEND_ERROR \<Rightarrow> MCL_NETWORK_SEND_FAIL
      | CURLE_RECV_ERROR \<Rightarrow> MCL_NETWORK_RECEIVE_FAIL
      | CURLE_SSL_CERTPROBLEM \<Rightarrow> MCL_IMPROPER_CERTIFICATE
      | CURLE_OPERATION_TIMEDOUT \<Rightarrow> MCL_REQUEST_TIMEOUT
      | _ \<Rightarrow> MCL_FAIL)"

record curl_http_client_t =
  cc_curl :: CURL
  cc_certificates :: "(string \<times> bool) list"

text \<open>The cells of the payload; those that nobody has written would be read as they are.\<close>

definition response_of ::
  "CURLcode \<Rightarrow> nat \<Rightarrow> exchange \<Rightarrow> ('z curl_world_ext, mcl_http_response_t result option) io" where
  "response_of curl_code response_code ex =
     (if convert_to_mcl_return_code curl_code \<noteq> MCL_OK
      then State_Monad.return (Some (Err (convert_to_mcl_return_code curl_code)))
      else (case (case lp_data (ex_payload ex) of
                None \<Rightarrow> Some None
              | Some data \<Rightarrow> map_option Some (read_cells data (lp_size (ex_payload ex)))) of
          None \<Rightarrow> State_Monad.return None
        | Some payload \<Rightarrow> do {
            (code, response) \<leftarrow> mcl_http_response_initialize (Some (ex_header ex)) payload
              (lp_size (ex_payload ex)) response_code;
            State_Monad.return (Some (case response of None \<Rightarrow> Err code | Some r \<Rightarrow> Ok r))
          }))"

text \<open>The first allocation is the list of the header lines, the second the payload.\<close>

definition curl_http_client_send ::
  "curl_http_client_t \<Rightarrow> mcl_http_request_t \<Rightarrow>
   ('z curl_world_ext, (mcl_http_response_t result \<times> curl_http_client_t) option) io" where
  "curl_http_client_send http_client http_request = do {
     (curl, user_context, request_header_list) \<leftarrow> set_request_options (cc_curl http_client) http_request;
     l \<leftarrow> mcl_malloc;
     p \<leftarrow> (if l then mcl_malloc else State_Monad.return False);
     let curl = curl @ (if l then [CURLOPT_HEADERDATA] else []) @ (if p then [CURLOPT_WRITEDATA] else []);
     r \<leftarrow> (if p then curl_easy_perform curl \<lparr>ex_header = [], ex_payload = \<lparr>lp_data = None, lp_size = 0\<rparr>,
              ex_context = user_context, ex_body = []\<rparr>
           else State_Monad.return None);
     _ \<leftarrow> curl_slist_free_all request_header_list;
     if \<not> p then State_Monad.return (Some (Err MCL_OUT_OF_MEMORY, http_client\<lparr>cc_curl := curl\<rparr>))
     else (case r of
         None \<Rightarrow> State_Monad.return None
       | Some (curl_code, response_code, ex) \<Rightarrow> do {
           response \<leftarrow> response_of curl_code response_code ex;
           State_Monad.return (map_option (\<lambda>r. (r, http_client\<lparr>cc_curl := curl\<rparr>)) response)
         })
   }"

end
