(* ===== verification/MclCurlSend.thy ===== *)
theory MclCurlSend
  imports MclCurlClient "HOL-Library.Sublist"
begin

text \<open>
  Lemmas on the client over libcurl: the option that counts, the list of headers under failing
  allocations, the options a request leaves behind, and how libcurl takes a payload.
\<close>

section \<open>Options\<close>

named_theorems curl_options

lemma latest_Nil [simp]: "latest f [] = None"
  by (simp add: latest_def)

lemma latest_append [simp]:
  "latest f (xs @ ys) = (case latest f ys of None \<Rightarrow> latest f xs | Some v \<Rightarrow> Some v)"
proof -
  let ?F = "fold (\<lambda>p v. case f p of None \<Rightarrow> v | Some x \<Rightarrow> Some x)"
  have "?F ys a = (case ?F ys None of None \<Rightarrow> a | Some v \<Rightarrow> Some v)" for a
    by (induction ys rule: rev_induct) (simp_all split: option.split)
  from this [of "?F xs None"] show ?thesis unfolding latest_def by simp
qed

lemma latest_single: "latest f [x] = f x"
  by (simp add: latest_def split: option.split)

lemma latest_Cons [simp]: "latest f (x # xs) = (case latest f xs of None \<Rightarrow> f x | Some v \<Rightarrow> Some v)"
  using latest_append [of f "[x]" xs] unfolding latest_single by simp

lemmas [curl_options] = http_header_option_def post_fields_option_def post_field_size_option_def
  read_function_option_def read_data_option_def upload_option_def post_option_def

section \<open>Lists of headers\<close>

text \<open>What the making of a list leaves alone: everything but the allocations and the lists.\<close>

definition listing :: "'z curl_world_scheme \<Rightarrow> 'z curl_world_scheme \<Rightarrow> bool" where
  "listing w w' \<longleftrightarrow> w' = w\<lparr>w_alloc := w_alloc w', c_slists := c_slists w'\<rparr>"

lemma listing_refl [simp]: "listing w w"
  by (simp add: listing_def)

lemma listing_trans: "listing w w1 \<Longrightarrow> listing w1 w2 \<Longrightarrow> listing w w2"
  by (cases w; cases w1; cases w2) (simp add: listing_def)

text \<open>
  The headers at an address after the headers \<open>hs\<close> were appended: a tail of them, all of them where no
  allocation failed, and then there is a list.
\<close>

definition listed ::
  "'z curl_world_scheme \<Rightarrow> 'z curl_world_scheme \<Rightarrow> nat option \<Rightarrow> string list \<Rightarrow> bool" where
  "listed w w' l hs \<longleftrightarrow> listing w w' \<and>
     (\<exists>kept. slist_headers l (c_slists w') = Some kept \<and> suffix kept hs \<and>
        (w_alloc w = [] \<longrightarrow> w_alloc w' = [] \<and> kept = hs \<and> (hs \<noteq> [] \<longrightarrow> l \<noteq> None)))"

lemma listed_start: "listed w w None []"
  by (simp add: listed_def slist_headers_def)

lemma malloc_cases:
  obtains a as where "run_state mcl_malloc w = (a, w\<lparr>w_alloc := as\<rparr>)" "w_alloc w = [] \<longrightarrow> a \<and> as = []"
  by (cases "w_alloc w") (force simp: run_malloc)+

lemma run_slist_append:
  assumes "listed w w1 l hs"
  obtains l' w2 where "run_state (curl_slist_append l s) w1 = (l', w2)" "listed w w2 l' (hs @ [s])"
proof -
  obtain kept where kept: "listing w w1" "slist_headers l (c_slists w1) = Some kept" "suffix kept hs"
      "w_alloc w = [] \<longrightarrow> w_alloc w1 = [] \<and> kept = hs"
    using assms by (auto simp: listed_def)
  obtain a as where a: "run_state mcl_malloc w1 = (a, w1\<lparr>w_alloc := as\<rparr>)" "w_alloc w1 = [] \<longrightarrow> a \<and> as = []"
    by (rule malloc_cases)
  have step: "listing w1 (w1\<lparr>w_alloc := as, c_slists := ls\<rparr>)" "listing w1 (w1\<lparr>w_alloc := as\<rparr>)" for ls
    by (simp_all add: listing_def)
  show thesis
  proof (cases a)
    case False
    then show thesis using a kept listing_trans [OF kept(1) step(2)]
      by (intro that [of None "w1\<lparr>w_alloc := as\<rparr>"]) (auto simp: curl_slist_append_def listed_def slist_headers_def)
  next
    case True
    have more: "suffix (kept @ [s]) (hs @ [s])" using kept(3) by (auto simp: suffix_def)
    show thesis
    proof (cases l)
      case None
      then have "kept = []" using kept(2) by (simp add: slist_headers_def)
      then show thesis using True a kept more None listing_trans [OF kept(1) step(1)]
        by (intro that [of "Some (length (c_slists w1))" "w1\<lparr>w_alloc := as, c_slists := c_slists w1 @ [Some [s]]\<rparr>"])
          (auto simp: curl_slist_append_def listed_def slist_headers_def)
    next
      case (Some k)
      then have k: "k < length (c_slists w1)" "c_slists w1 ! k = Some kept"
        using kept(2) by (auto simp: slist_headers_def split: if_splits)
      then show thesis using True a kept more Some listing_trans [OF kept(1) step(1)]
        by (intro that [of l "w1\<lparr>w_alloc := as, c_slists := (c_slists w1)[k := Some (kept @ [s])]\<rparr>"])
          (auto simp: curl_slist_append_def listed_def slist_headers_def)
    qed
  qed
qed

lemma run_append_headers:
  assumes "listed w w1 l hs"
  obtains l' w2 where "run_state (append_request_headers lines l) w1 = (l', w2)" "listed w w2 l' (hs @ lines)"
  using assms
proof (induction lines arbitrary: l w1 hs thesis)
  case Nil
  then show ?case by simp
next
  case (Cons line lines)
  obtain l' w2 where a: "run_state (curl_slist_append l line) w1 = (l', w2)" "listed w w2 l' (hs @ [line])"
    using Cons.prems(2) by (rule run_slist_append)
  obtain l'' w3 where "run_state (append_request_headers lines l') w2 = (l'', w3)" "listed w w3 l'' ((hs @ [line]) @ lines)"
    using Cons.IH [OF _ a(2)] by blast
  with a(1) show ?case by (intro Cons.prems(1)) simp_all
qed

section \<open>What a request leaves on the handle\<close>

definition curl_method :: "E_MCL_HTTP_METHOD \<Rightarrow> bool" where
  "curl_method m \<longleftrightarrow> m \<in> {MCL_HTTP_GET, MCL_HTTP_POST, MCL_HTTP_PUT, MCL_HTTP_PATCH}"

definition chunked_request :: "mcl_http_request_t \<Rightarrow> bool" where
  "chunked_request rq \<longleftrightarrow> rq_stream_callback rq \<noteq> None \<and>
     (rq_method rq = MCL_HTTP_POST \<or> rq_method rq \<in> {MCL_HTTP_PUT, MCL_HTTP_PATCH} \<and> rq_payload_size rq = 0)"

definition request_header :: "mcl_http_request_t \<Rightarrow> string list" where
  "request_header rq =
     (if chunked_request rq then [''Transfer-Encoding: chunked''] else []) @ rq_header rq @ [''Expect:'']"

definition payload_options :: "mcl_http_request_t \<Rightarrow> CURL" where
  "payload_options rq =
     (case rq_stream_callback rq of
        None \<Rightarrow> set_in_file_size (rq_payload_size rq)
          [CURLOPT_READFUNCTION Request_Payload_Callback_For_Put, CURLOPT_READDATA User_Context]
      | Some callback \<Rightarrow>
          (if rq_payload_size rq = 0 then id else set_in_file_size (rq_payload_size rq))
          [CURLOPT_READFUNCTION (Stream_Callback callback), CURLOPT_READDATA (Stream_Data (rq_stream_data rq))])"

definition method_options :: "mcl_http_request_t \<Rightarrow> CURL" where
  "method_options rq =
     (if rq_method rq = MCL_HTTP_GET then [CURLOPT_HTTPGET 1]
      else if rq_method rq = MCL_HTTP_POST then CURLOPT_POST 1 #
        (case rq_stream_callback rq of
           None \<Rightarrow> [CURLOPT_POSTFIELDS (rq_payload rq), CURLOPT_POSTFIELDSIZE (int (rq_payload_size rq))]
         | Some callback \<Rightarrow> [CURLOPT_READFUNCTION (Stream_Callback callback), CURLOPT_READDATA (Stream_Data (rq_stream_data rq))])
      else (if rq_method rq = MCL_HTTP_PATCH then [CURLOPT_CUSTOMREQUEST (Some ''PATCH'')] else []) @
        CURLOPT_UPLOAD 1 # payload_options rq)"

definition method_context :: "mcl_http_request_t \<Rightarrow> default_callback_user_context_t option" where
  "method_context rq =
     (if rq_method rq \<in> {MCL_HTTP_PUT, MCL_HTTP_PATCH} \<and> rq_stream_callback rq = None
      then Some \<lparr>uc_http_request = rq, uc_callback_offset = 0\<rparr> else None)"

lemma header_chunked [simp]: "http_header_names HTTP_HEADER_TRANSFER_ENCODING_CHUNKED = ''Transfer-Encoding: chunked''"
  by (simp add: http_header_names_def http_header_table_def header_index_def)

lemma set_in_file_size_append: "set_in_file_size n (xs @ ys) = xs @ set_in_file_size n ys"
  by (simp add: set_in_file_size_def)

lemma run_payload_options:
  obtains l w' where "run_state (set_payload_options curl rq None None) w =
      ((curl @ payload_options rq,
        if rq_stream_callback rq = None then Some \<lparr>uc_http_request = rq, uc_callback_offset = 0\<rparr> else None, l), w')"
    "listed w w' l (if rq_stream_callback rq \<noteq> None \<and> rq_payload_size rq = 0 then [''Transfer-Encoding: chunked''] else [])"
proof (cases "rq_stream_callback rq \<noteq> None \<and> rq_payload_size rq = 0")
  case True
  obtain l w' where "run_state (curl_slist_append None ''Transfer-Encoding: chunked'') w = (l, w')"
      "listed w w' l ([] @ [''Transfer-Encoding: chunked''])"
    using listed_start by (rule run_slist_append)
  with True show thesis
    by (intro that [of l w']) (auto simp: set_payload_options_def payload_options_def)
next
  case False
  then show thesis
    by (intro that [of None w])
      (auto simp: set_payload_options_def payload_options_def listed_start simp flip: set_in_file_size_append
        split: option.split)
qed

lemma run_method_options:
  assumes "curl_method (rq_method rq)"
  obtains m l w' where "set_method_options curl rq = Some m"
    "run_state m w = ((curl @ method_options rq, method_context rq, l), w')"
    "listed w w' l (if chunked_request rq then [''Transfer-Encoding: chunked''] else [])"
proof (cases "rq_method rq \<in> {MCL_HTTP_PUT, MCL_HTTP_PATCH}")
  case True
  let ?first = "(if rq_method rq = MCL_HTTP_PATCH then [CURLOPT_CUSTOMREQUEST (Some ''PATCH'')] else []) @ [CURLOPT_UPLOAD 1]"
  obtain l w' where r: "run_state (set_payload_options (curl @ ?first) rq None None) w =
      (((curl @ ?first) @ payload_options rq,
        if rq_stream_callback rq = None then Some \<lparr>uc_http_request = rq, uc_callback_offset = 0\<rparr> else None, l), w')"
    "listed w w' l (if rq_stream_callback rq \<noteq> None \<and> rq_payload_size rq = 0 then [''Transfer-Encoding: chunked''] else [])"
    by (rule run_payload_options)
  have "chunked_request rq \<longleftrightarrow> rq_stream_callback rq \<noteq> None \<and> rq_payload_size rq = 0"
    using True by (auto simp: chunked_request_def)
  moreover have "set_method_options curl rq = Some (set_payload_options (curl @ ?first) rq None None)"
    using True by (auto simp: set_method_options_def)
  ultimately show thesis using r True
    by (intro that [OF _ r(1) [THEN trans]]) (auto simp: method_options_def method_context_def)
next
  case False
  show thesis
  proof (cases "chunked_request rq")
    case True
    then obtain callback where c: "rq_stream_callback rq = Some callback" "rq_method rq = MCL_HTTP_POST"
      using False by (auto simp: chunked_request_def)
    obtain l w' where "run_state (curl_slist_append None ''Transfer-Encoding: chunked'') w = (l, w')"
        "listed w w' l ([] @ [''Transfer-Encoding: chunked''])"
      using listed_start by (rule run_slist_append)
    with True c show thesis
      by (intro that [of _ l w', OF _ run_bind_eq [THEN trans]])
        (auto simp: set_method_options_def method_options_def method_context_def)
  next
    case notchunked: False
    with False assms show thesis
      by (intro that [of "State_Monad.return (curl @ method_options rq, method_context rq, None)" None w])
        (auto simp: curl_method_def chunked_request_def set_method_options_def method_options_def method_context_def
          listed_start)
  qed
qed

text \<open>All options of a request, of which the address of the list is the only one that is not its own.\<close>

definition request_options :: "mcl_http_request_t \<Rightarrow> nat option \<Rightarrow> CURL" where
  "request_options rq l = reset_request_options rq @ method_options rq @
     [CURLOPT_HEADEROPT CURLHEADER_SEPARATE, CURLOPT_HTTPHEADER l, CURLOPT_PROXYHEADER None]"

lemma run_request_options:
  assumes "curl_method (rq_method rq)"
  obtains l w' where "run_state (set_request_options curl rq) w = ((curl @ request_options rq l, method_context rq, l), w')"
    "listed w w' l (request_header rq)"
proof -
  let ?chunked = "if chunked_request rq then [''Transfer-Encoding: chunked''] else []"
  obtain m l0 w0 where m: "set_method_options (curl @ reset_request_options rq) rq = Some m"
    "run_state m w = (((curl @ reset_request_options rq) @ method_options rq, method_context rq, l0), w0)" "listed w w0 l0 ?chunked"
    using assms by (rule run_method_options)
  obtain l1 w1 where hs: "run_state (append_request_headers (rq_header rq) l0) w0 = (l1, w1)"
      "listed w w1 l1 (?chunked @ rq_header rq)"
    using m(3) by (rule run_append_headers)
  obtain l w' where e: "run_state (curl_slist_append l1 ''Expect:'') w1 = (l, w')"
      "listed w w' l ((?chunked @ rq_header rq) @ [''Expect:''])"
    using hs(2) by (rule run_slist_append)
  show thesis using m(1,2) hs(1) e
    by (intro that [of l w']) (simp_all add: set_request_options_def request_options_def request_header_def)
qed

section \<open>How libcurl takes a payload\<close>

text \<open>The payload a request owns: the whole block is written.\<close>

definition own_payload :: "mcl_http_request_t \<Rightarrow> string \<Rightarrow> bool" where
  "own_payload rq p \<longleftrightarrow> rq_method rq \<noteq> MCL_HTTP_GET \<and> rq_stream_callback rq = None \<longrightarrow>
     rq_payload_size rq < 2 ^ 64 \<and> (\<exists>b. rq_payload rq = Some b \<and> read_cells b (rq_payload_size rq) = Some p)"

text \<open>The options of a request behind whatever was set before it and before the transfer.\<close>

definition full_options :: "CURL \<Rightarrow> mcl_http_request_t \<Rightarrow> nat option \<Rightarrow> CURL" where
  "full_options curl rq l = curl @ request_options rq l @ [CURLOPT_HEADERDATA, CURLOPT_WRITEDATA]"

text \<open>The context holds as many bytes as were taken.\<close>

definition taking :: "mcl_http_request_t \<Rightarrow> string \<Rightarrow> exchange \<Rightarrow> bool" where
  "taking rq p ex \<longleftrightarrow> (rq_method rq \<noteq> MCL_HTTP_GET \<and> rq_stream_callback rq = None \<longrightarrow>
     (\<exists>k \<le> length p. ex_body ex = take k p \<and> ex_context ex =
        (if rq_method rq = MCL_HTTP_POST then None else Some \<lparr>uc_http_request = rq, uc_callback_offset = k\<rparr>)))"

lemma read_cells_length: "read_cells b n = Some p \<Longrightarrow> length p = n"
  by (auto simp: read_cells_def split: if_splits)

lemma read_cells_part:
  assumes "read_cells b m = Some p" and "k + n \<le> m"
  shows "read_cells (drop k b) n = Some (take n (drop k p))"
proof -
  from assms(1) have m: "m \<le> length b" "p = map the (take m b)" "\<forall>c \<in> set (take m b). c \<noteq> None"
    by (auto simp: read_cells_def split: if_splits)
  have part: "take n (drop k b) = take n (drop k (take m b))" using assms(2) by (simp add: drop_take min_def)
  have "set (take n (drop k b)) \<subseteq> set (take m b)" unfolding part by (meson order.trans set_drop_subset set_take_subset)
  with m assms(2) show ?thesis by (auto simp: read_cells_def part take_map drop_map)
qed

lemma size_times_one [simp]: "n < 2 ^ 64 \<Longrightarrow> size_times 1 n = n" "n < 2 ^ 64 \<Longrightarrow> size_times (Suc 0) n = n"
  by (simp_all add: size_times_def)

lemma size_minus_less: "n \<le> m \<Longrightarrow> m < 2 ^ 64 \<Longrightarrow> size_minus m n = m - n"
proof -
  assume "n \<le> m" "m < 2 ^ 64"
  then have "2 ^ 64 + m - n = (m - n) + 2 ^ 64" "m - n < 2 ^ 64" by simp_all
  then show ?thesis unfolding size_minus_def by (simp only: mod_add_self2 mod_less)
qed

lemma put_callback_takes:
  assumes "rq_payload rq = Some b" and "read_cells b (rq_payload_size rq) = Some p" and "rq_payload_size rq < 2 ^ 64"
    and "k \<le> length p" and "n < 2 ^ 64"
  shows "request_payload_callback_for_put 1 n \<lparr>uc_http_request = rq, uc_callback_offset = k\<rparr> =
    Some (take n (drop k p), \<lparr>uc_http_request = rq, uc_callback_offset = min (k + n) (length p)\<rparr>)"
proof -
  have m: "rq_payload_size rq = length p" using assms(2) by (simp add: read_cells_length)
  have rest: "size_minus (length p) k = length p - k" using assms(3,4) m by (intro size_minus_less) simp_all
  define N where "N = min (length p - k) n"
  have N: "(if length p - k < n then length p - k else n) = N" by (simp add: N_def min_def)
  have "read_cells (drop k b) N = Some (take N (drop k p))"
    using assms(2,4) m by (intro read_cells_part [of b "length p"]) (auto simp: N_def)
  also have same: "take N (drop k p) = take n (drop k p)" by (simp add: N_def min_def)
  finally have cells: "read_cells (drop k b) N = Some (take n (drop k p))" .
  have moved: "(k + N) mod 2 ^ 64 = min (k + n) (length p)" using assms(3,4) m by (auto simp: N_def min_def)
  have "take n (drop k p) = []" if "N = 0" using same that by simp
  moreover have "request_payload_callback_for_put 1 n \<lparr>uc_http_request = rq, uc_callback_offset = k\<rparr> =
      (if N = 0 then Some ([], \<lparr>uc_http_request = rq, uc_callback_offset = min (k + n) (length p)\<rparr>)
       else map_option (\<lambda>data. (data, \<lparr>uc_http_request = rq, uc_callback_offset = min (k + n) (length p)\<rparr>))
         (read_cells (drop k b) N))"
    unfolding request_payload_callback_for_put_def Let_def default_callback_user_context_t.select_convs
      default_callback_user_context_t.update_convs m rest size_times_one(1) [OF assms(5)] N moved assms(1)
    by (cases "read_cells (drop k b) N") simp_all
  ultimately show ?thesis using cells by simp
qed

text \<open>What a request leaves on the handle, whatever was there before.\<close>

lemmas request_options_defs = full_options_def request_options_def reset_request_options_def method_options_def
  payload_options_def set_in_file_size_def curl_options

lemma latest_of_get:
  assumes "rq_method rq = MCL_HTTP_GET"
  shows "latest upload_option (full_options c rq l) = Some 0" "latest post_option (full_options c rq l) = Some 0"
  using assms by (simp_all add: request_options_defs)

lemma latest_of_post:
  assumes "rq_method rq = MCL_HTTP_POST" and "rq_stream_callback rq = None"
  shows "latest post_option (full_options c rq l) = Some 1"
    "latest post_fields_option (full_options c rq l) = Some (rq_payload rq)"
    "latest post_field_size_option (full_options c rq l) = Some (int (rq_payload_size rq))"
  using assms by (simp_all add: request_options_defs)

lemma latest_of_upload:
  assumes "rq_method rq \<in> {MCL_HTTP_PUT, MCL_HTTP_PATCH}" and "rq_stream_callback rq = None"
  shows "latest upload_option (full_options c rq l) = Some 1"
    "latest post_fields_option (full_options c rq l) = Some None"
    "latest read_function_option (full_options c rq l) = Some Request_Payload_Callback_For_Put"
    "latest read_data_option (full_options c rq l) = Some User_Context"
  using assms by (auto simp: request_options_defs)

lemma latest_of_stream:
  assumes "rq_method rq \<in> {MCL_HTTP_POST, MCL_HTTP_PUT, MCL_HTTP_PATCH}" and "rq_stream_callback rq = Some callback"
  shows "latest upload_option (full_options c rq l) = Some 1 \<or> latest post_option (full_options c rq l) = Some 1"
    "latest post_fields_option (full_options c rq l) = Some None"
    "latest read_function_option (full_options c rq l) = Some (Stream_Callback callback)"
  using assms by (auto simp: request_options_defs)

lemma latest_header [simp]: "latest http_header_option (full_options c rq l) = Some l"
  by (simp add: full_options_def request_options_def curl_options)

lemma ask_nothing:
  assumes "rq_method rq = MCL_HTTP_GET"
  shows "run_state (ask_payload (full_options c rq l) n ex) w = (Some ex, w)"
  using latest_of_get [OF assms] by (simp add: ask_payload_def)

lemma ask_stream:
  assumes "rq_method rq \<in> {MCL_HTTP_POST, MCL_HTTP_PUT, MCL_HTTP_PATCH}" and "rq_stream_callback rq = Some callback"
  shows "run_state (ask_payload (full_options c rq l) n ex) w =
    (Some (ex\<lparr>ex_body := ex_body ex @ (case c_callback w of [] \<Rightarrow> [] | s # _ \<Rightarrow> take n s)\<rparr>),
     w\<lparr>c_callback := tl (c_callback w)\<rparr>)"
  using latest_of_stream [OF assms, of c l]
  by (auto simp: ask_payload_def stream_callback_def run_bind split: list.split)

text \<open>A payload the request owns is taken in order, and never beyond its end.\<close>

lemma ask_own:
  assumes "curl_method (rq_method rq)" and "rq_method rq \<noteq> MCL_HTTP_GET" and "rq_stream_callback rq = None"
    and "own_payload rq p" and "taking rq p ex" and "n < 2 ^ 64"
  obtains ex' where "run_state (ask_payload (full_options c rq l) n ex) w = (Some ex', w)"
    "taking rq p ex'" "ex_body ex' = take (length (ex_body ex) + n) p"
    "ex_header ex' = ex_header ex" "ex_payload ex' = ex_payload ex"
proof -
  obtain b where b: "rq_payload rq = Some b" "read_cells b (rq_payload_size rq) = Some p" "rq_payload_size rq < 2 ^ 64"
    using assms(2-4) by (auto simp: own_payload_def)
  obtain k where k: "k \<le> length p" "ex_body ex = take k p" "ex_context ex =
      (if rq_method rq = MCL_HTTP_POST then None else Some \<lparr>uc_http_request = rq, uc_callback_offset = k\<rparr>)"
    using assms(2,3,5) by (auto simp: taking_def)
  have m: "length p = rq_payload_size rq" using b(2) by (rule read_cells_length)
  have len: "length (ex_body ex) = k" using k(1,2) by simp
  have more: "take (k + n) p = take k p @ take n (drop k p)" by (rule take_add)
  have bound: "take (min (k + n) (length p)) p = take (k + n) p" by (simp add: min_def)
  show thesis
  proof (cases "rq_method rq = MCL_HTTP_POST")
    case True
    have "read_cells (drop k b) (min n (length p - k)) = Some (take (min n (length p - k)) (drop k p))"
      using b(2) m k(1) by (intro read_cells_part [of b "length p"]) auto
    also have "take (min n (length p - k)) (drop k p) = take n (drop k p)" by (simp add: min_def)
    finally show thesis using True latest_of_post [OF True assms(3), of c l] b(1) m k len more bound
      by (intro that [of "ex\<lparr>ex_body := take (k + n) p\<rparr>"])
        (auto simp: ask_payload_def taking_def intro!: exI [of _ "min (k + n) (length p)"])
  next
    case False
    then have up: "rq_method rq \<in> {MCL_HTTP_PUT, MCL_HTTP_PATCH}" using assms(1,2) by (auto simp: curl_method_def)
    let ?uc = "\<lparr>uc_http_request = rq, uc_callback_offset = min (k + n) (length p)\<rparr>"
    show thesis using False latest_of_upload [OF up assms(3), of c l] k len more bound
        put_callback_takes [OF b k(1) assms(6)]
      by (intro that [of "ex\<lparr>ex_body := take (k + n) p, ex_context := Some ?uc\<rparr>"])
        (auto simp: ask_payload_def taking_def intro!: exI [of _ "min (k + n) (length p)"])
  qed
qed

end
