(* ===== verification/MclCurlSetup.thy ===== *)
theory MclCurlSetup
  imports MclCurlClient MclNetwork
begin

text \<open>
  How a client over libcurl is made: its first options, the certificates, the proxy; and
  \<open>_ssl_context_callback\<close>, which hands the certificates to OpenSSL when a connection is made.
\<close>

section \<open>Certificates\<close>

text \<open>The item, its text and the node of the list are allocated.\<close>

definition curl_http_client_add_certificate ::
  "curl_http_client_t option \<Rightarrow> string option \<Rightarrow> bool \<Rightarrow>
   ('z curl_world_ext, mcl_error \<times> curl_http_client_t option) io" where
  "curl_http_client_add_certificate http_client certificate is_file = on_pointer http_client (\<lambda>client.
     (case certificate of
        None \<Rightarrow> State_Monad.return (MCL_TRIGGERED_WITH_NULL, client)
      | Some content \<Rightarrow> do {
          item \<leftarrow> mcl_malloc;
          copy \<leftarrow> (if item then mcl_malloc else State_Monad.return False);
          node \<leftarrow> (if copy then mcl_malloc else State_Monad.return False);
          if \<not> node then State_Monad.return (MCL_OUT_OF_MEMORY, client)
          else do {
            let certificates = cc_certificates client @ [(content, is_file)];
            State_Monad.return (MCL_OK, client\<lparr>cc_certificates := certificates, cc_curl := cc_curl client @
              (if length certificates = 1 \<and> is_file then [CURLOPT_CAINFO content]
               else [CURLOPT_SSL_CTX_DATA, CURLOPT_SSL_CTX_FUNCTION])\<rparr>)
          }
        }))"

text \<open>
  OpenSSL: what the PEM reader finds in a certificate, none when it cannot be opened, an empty reading
  when it gives no information; and what the store answers.
\<close>

datatype x509_info = INFO_NULL | INFO_X509 string | INFO_CRL string | INFO_OTHER
datatype bio_reading = BIO_NULL | PEM_NULL | PEM_INFO "x509_info list"
datatype store_answer = STORE_ADDED | STORE_ALREADY_IN | STORE_REFUSED

record openssl =
  ossl_read :: "string \<Rightarrow> bool \<Rightarrow> bio_reading"
  ossl_add_cert :: "x509_info list \<Rightarrow> string \<Rightarrow> store_answer"
  ossl_add_crl :: "x509_info list \<Rightarrow> string \<Rightarrow> bool"

text \<open>The loop over what was read from one certificate.\<close>

fun add_infos :: "openssl \<Rightarrow> x509_info list \<Rightarrow> x509_info list \<Rightarrow> CURLcode \<times> x509_info list" where
  "add_infos ssl [] cert_store = (CURLE_OK, cert_store)"
| "add_infos ssl (temp_info # infos) cert_store =
     (case temp_info of
        INFO_NULL \<Rightarrow> (CURLE_SSL_CERTPROBLEM, cert_store)
      | INFO_OTHER \<Rightarrow> add_infos ssl infos cert_store
      | INFO_X509 x \<Rightarrow> (case ossl_add_cert ssl cert_store x of
            STORE_ADDED \<Rightarrow> add_infos ssl infos (cert_store @ [INFO_X509 x])
          | STORE_ALREADY_IN \<Rightarrow> add_infos ssl infos cert_store
          | STORE_REFUSED \<Rightarrow> (CURLE_SSL_CERTPROBLEM, cert_store))
      | INFO_CRL x \<Rightarrow>
          if ossl_add_crl ssl cert_store x then add_infos ssl infos (cert_store @ [INFO_CRL x])
          else (CURLE_SSL_CERTPROBLEM, cert_store))"

fun add_certificates ::
  "openssl \<Rightarrow> (string \<times> bool) list \<Rightarrow> x509_info list \<Rightarrow> CURLcode \<times> x509_info list" where
  "add_certificates ssl [] cert_store = (CURLE_OK, cert_store)"
| "add_certificates ssl ((content, is_file) # certificates) cert_store =
     (case ossl_read ssl content is_file of
        BIO_NULL \<Rightarrow> (if is_file then CURLE_READ_ERROR else CURLE_OUT_OF_MEMORY, cert_store)
      | PEM_NULL \<Rightarrow> (CURLE_SSL_CERTPROBLEM, cert_store)
      | PEM_INFO infos \<Rightarrow> (case add_infos ssl infos cert_store of (curl_code, cert_store) \<Rightarrow>
          if curl_code = CURLE_OK then add_certificates ssl certificates cert_store else (curl_code, cert_store)))"

definition ssl_context_callback ::
  "openssl \<Rightarrow> (string \<times> bool) list \<Rightarrow> x509_info list \<Rightarrow> CURLcode \<times> x509_info list" where
  "ssl_context_callback ssl certificates cert_store =
     (if length certificates = 0 then (CURLE_OK, cert_store) else add_certificates ssl certificates cert_store)"

section \<open>Initialisation\<close>

definition DOMAIN_SEPERATOR :: char where "DOMAIN_SEPERATOR = CHR 0x5C"

definition SUPPORTED_CIPHERS_LIST :: string where
  "SUPPORTED_CIPHERS_LIST =
     ''AES128-SHA256:AES256-SHA256:AES128-GCM-SHA256:AES256-GCM-SHA384:'' @
     ''ECDHE-RSA-AES128-SHA256:ECDHE-RSA-AES256-SHA384:ECDHE-RSA-AES128-GCM-SHA256:ECDHE-RSA-AES256-GCM-SHA384:''"

definition initial_options :: "mcl_http_client_configuration_t \<Rightarrow> CURL" where
  "initial_options c =
     [CURLOPT_PORT (hcc_port c),
      CURLOPT_TIMEOUT (hcc_http_request_timeout c), CURLOPT_CONNECTTIMEOUT (hcc_http_request_timeout c),
      CURLOPT_SSL_CIPHER_LIST SUPPORTED_CIPHERS_LIST, CURLOPT_SSLVERSION CURL_SSLVERSION_TLSv1_2,
      CURLOPT_SSL_VERIFYHOST 2, CURLOPT_SSL_VERIFYPEER 1,
      CURLOPT_HEADER 0, CURLOPT_HEADERFUNCTION, CURLOPT_WRITEFUNCTION,
      CURLOPT_HEADEROPT CURLHEADER_UNIFIED, CURLOPT_FORBID_REUSE 1,
      CURLOPT_USERAGENT (hcc_user_agent c)]"

text \<open>The name of the user at the proxy, with its domain, as the bytes of the block it is built in.\<close>

definition proxy_entire_username :: "string \<Rightarrow> string \<Rightarrow> char block option" where
  "proxy_entire_username domain username = do {
     let proxy_domain_length = length domain;
     let proxy_username_length = length username;
     let block = fresh_block (proxy_domain_length + proxy_username_length + 1 + 1);
     block \<leftarrow> string_util_memcpy block 0 (cstr domain) proxy_domain_length;
     block \<leftarrow> store block proxy_domain_length DOMAIN_SEPERATOR;
     string_util_memcpy block (proxy_domain_length + 1) (cstr username) (proxy_username_length + 1)
   }"

text \<open>The code, and the options of the proxy; \<open>None\<close> is a write outside the block of the name.\<close>

definition proxy_options ::
  "mcl_http_client_configuration_t \<Rightarrow> ('z curl_world_ext, (mcl_error \<times> CURL) option) io" where
  "proxy_options c =
     (case hcc_proxy_hostname c of
        None \<Rightarrow> State_Monad.return (Some (MCL_OK, []))
      | Some hostname \<Rightarrow> do {
          let proxy = [CURLOPT_PROXY hostname, CURLOPT_PROXYPORT (hcc_proxy_port c),
            CURLOPT_PROXYTYPE (hcc_proxy_type c), CURLOPT_PROXYAUTH CURLAUTH_ANY];
          case hcc_proxy_username c of
            None \<Rightarrow> State_Monad.return (Some (MCL_OK, proxy))
          | Some username \<Rightarrow> (case hcc_proxy_domain c of
              None \<Rightarrow> State_Monad.return (Some (MCL_OK,
                proxy @ [CURLOPT_PROXYUSERNAME username, CURLOPT_PROXYPASSWORD (hcc_proxy_password c)]))
            | Some domain \<Rightarrow> do {
                a \<leftarrow> mcl_malloc;
                if \<not> a then State_Monad.return
                  (Some (MCL_OUT_OF_MEMORY, proxy @ [CURLOPT_PROXYPASSWORD (hcc_proxy_password c)]))
                else State_Monad.return (do {
                  block \<leftarrow> proxy_entire_username domain username;
                  name \<leftarrow> block_string block;
                  Some (MCL_OK, proxy @ [CURLOPT_PROXYUSERNAME name, CURLOPT_PROXYPASSWORD (hcc_proxy_password c)])
                })
              })
        })"

text \<open>libcurl is initialised by the first client; what that returns is not looked at.\<close>

definition curl_global_init_once :: "('z curl_world_ext, unit) io" where
  "curl_global_init_once = State (\<lambda>w. ((),
     if c_global_initialized w then w
     else w\<lparr>c_global_initialized := True, c_global_inits := c_global_inits w + 1\<rparr>))"

text \<open>
  The first allocation is the client, the second the list of the certificates; the third stands for
  \<open>curl_easy_init\<close>. A client that is not complete is destroyed again.
\<close>

definition curl_http_client_initialize ::
  "mcl_http_client_configuration_t option \<Rightarrow>
   ('z curl_world_ext, (mcl_error \<times> curl_http_client_t option) option) io" where
  "curl_http_client_initialize configuration =
     (case configuration of
        None \<Rightarrow> State_Monad.return (Some (MCL_TRIGGERED_WITH_NULL, None))
      | Some c \<Rightarrow> do {
          a \<leftarrow> mcl_malloc;
          l \<leftarrow> (if a then mcl_malloc else State_Monad.return False);
          if \<not> l then State_Monad.return (Some (MCL_OUT_OF_MEMORY, None))
          else do {
            _ \<leftarrow> curl_global_init_once;
            curl \<leftarrow> mcl_malloc;
            if \<not> curl then State_Monad.return (Some (MCL_FAIL, None))
            else do {
              let client = \<lparr>cc_curl = initial_options c, cc_certificates = []\<rparr>;
              (code, client) \<leftarrow> (if hcc_certificate c = None then State_Monad.return (MCL_OK, Some client)
                else curl_http_client_add_certificate (Some client) (hcc_certificate c) (hcc_certificate_is_file c));
              if code \<noteq> MCL_OK then State_Monad.return (Some (code, None))
              else do {
                proxy \<leftarrow> proxy_options c;
                State_Monad.return (map_option (\<lambda>(code, options).
                  if code \<noteq> MCL_OK then (code, None)
                  else (MCL_OK, map_option (\<lambda>k. k\<lparr>cc_curl := cc_curl k @ options\<rparr>) client)) proxy)
              }
            }
          }
        })"

end
