(* ===== verification/MclCurlExchange.thy ===== *)
theory MclCurlExchange
  imports MclCurlSend MclCurlSetup
begin

text \<open>
  A transfer of the client over libcurl as a whole: when the callbacks are never led outside a block,
  and what header lines, payload and body come to when nothing fails.
\<close>

section \<open>Transfers as libcurl makes them\<close>

text \<open>
  A header line is not empty; an empty piece of a body comes only before any other, for an empty body;
  and what is asked for or received fits the address space.
\<close>

fun documented :: "bool \<Rightarrow> curl_event list \<Rightarrow> bool" where
  "documented started [] = True"
| "documented started (Ask_Payload n # events) = (n < 2 ^ 64 \<and> documented started events)"
| "documented started (Header_Line line # events) =
     (line \<noteq> [] \<and> length line < 2 ^ 63 \<and> documented started events)"
| "documented started (Body_Data data # events) =
     ((data = [] \<longrightarrow> \<not> started) \<and> documented (started \<or> data \<noteq> []) events)"

fun header_lines :: "curl_event list \<Rightarrow> string list" where
  "header_lines [] = []"
| "header_lines (Header_Line line # events) = line # header_lines events"
| "header_lines (_ # events) = header_lines events"

fun body_text_of :: "curl_event list \<Rightarrow> string" where
  "body_text_of [] = []"
| "body_text_of (Body_Data data # events) = data @ body_text_of events"
| "body_text_of (_ # events) = body_text_of events"

fun asks :: "curl_event list \<Rightarrow> nat list" where
  "asks [] = []"
| "asks (Ask_Payload n # events) = n # asks events"
| "asks (_ # events) = asks events"

definition proper_transfer :: "transfer \<Rightarrow> bool" where
  "proper_transfer t \<longleftrightarrow> documented False (tr_events t) \<and> length (body_text_of (tr_events t)) < 2 ^ 63"

section \<open>The callbacks\<close>

text \<open>The payload of a response holds exactly what came so far.\<close>

definition holds :: "string \<Rightarrow> libcurl_payload_t \<Rightarrow> bool" where
  "holds s payload \<longleftrightarrow> payload = \<lparr>lp_data = (if s = [] then None else Some (map Some s)), lp_size = length s\<rparr>"

lemma empty_line: "(if length line = CRLF_LENGTH then is_empty_line line else Some False) = Some (line = crlf)"
proof (cases "length line = 2")
  case True
  then obtain c d where "line = [c, d]" by (auto simp: length_Suc_conv numeral_2_eq_2)
  then show ?thesis by (simp add: CRLF_LENGTH_def is_empty_line_def read_def crlf_def)
next
  case False
  then show ?thesis by (auto simp: CRLF_LENGTH_def crlf_def)
qed

lemma run_header_callback:
  assumes "line \<noteq> []" and "length line < 2 ^ 63"
  obtains n hs as where "run_state (response_header_callback line 1 (length line) header) w = (Some (n, hs), w\<lparr>w_alloc := as\<rparr>)"
    "w_alloc w = [] \<and> 2 \<le> length line \<longrightarrow> as = [] \<and> n = length line \<and>
       hs = header @ (if line = crlf then [] else [c_text (take (length line - CRLF_LENGTH) line)])"
proof -
  have size: "size_times 1 (length line) = length line" using assms(2) by simp
  have e: "(if length line = CRLF_LENGTH then is_empty_line line else Some False) = Some (line = crlf)"
    by (rule empty_line)
  have defn: "response_header_callback line 1 (length line) header =
      (if line = crlf then State_Monad.return (Some (length line, header))
       else do {
         a \<leftarrow> mcl_memory_malloc (size_minus (length line) 1);
         if \<not> a then State_Monad.return (Some (0, header))
         else if \<not> (size_minus (length line) CRLF_LENGTH \<le> length line \<and>
             size_minus (length line) CRLF_LENGTH < size_minus (length line) 1) then State_Monad.return None
         else do {
           node \<leftarrow> mcl_malloc;
           State_Monad.return (Some (if node then (length line,
             header @ [c_text (take (size_minus (length line) CRLF_LENGTH) line)]) else (0, header)))
         }
       })"
    unfolding response_header_callback_def Let_def size e by simp
  have one: "size_minus (length line) 1 = length line - 1"
    using assms by (intro size_minus_less) (auto simp: Suc_le_eq)
  show thesis
  proof (cases "line = crlf \<or> length line = 1")
    case True
    then have "run_state (response_header_callback line 1 (length line) header) w =
        (Some (if line = crlf then length line else 0, header), w\<lparr>w_alloc := w_alloc w\<rparr>)"
      unfolding defn one by auto
    then show thesis by (rule that) (use True in \<open>auto simp: crlf_def\<close>)
  next
    case False
    then have two: "2 \<le> length line" using assms(1) by (cases line) (auto simp: Suc_le_eq)
    then have n: "size_minus (length line) CRLF_LENGTH = length line - 2"
      unfolding CRLF_LENGTH_def using assms(2) by (intro size_minus_less) simp_all
    have memory: "mcl_memory_malloc (length line - 1) = mcl_malloc" using two by (intro memory_of_some_size) simp
    obtain a as where a: "run_state mcl_malloc w = (a, w\<lparr>w_alloc := as\<rparr>)" "w_alloc w = [] \<longrightarrow> a \<and> as = []"
      by (rule malloc_cases)
    obtain b bs where b: "run_state mcl_malloc (w\<lparr>w_alloc := as\<rparr>) = (b, w\<lparr>w_alloc := bs\<rparr>)" "as = [] \<longrightarrow> b \<and> bs = []"
      using malloc_cases [of "w\<lparr>w_alloc := as\<rparr>"] by (metis (no_types, lifting) mem_world.select_convs(1)
        mem_world.surjective mem_world.update_convs(1))
    have less: "length line - 2 < length line - 1" using two by simp
    have "run_state (response_header_callback line 1 (length line) header) w =
        (Some (if a \<and> b then (length line, header @ [c_text (take (length line - 2) line)]) else (0, header)),
         w\<lparr>w_alloc := if a then bs else as\<rparr>)"
      unfolding defn one n memory using False two less a(1) b(1) by (cases a) auto
    then show thesis using a b two False
      by (intro that [of "if a \<and> b then length line else 0"
            "if a \<and> b then header @ [c_text (take (length line - 2) line)] else header" "if a then bs else as"])
        (auto simp: CRLF_LENGTH_def)
  qed
qed

lemma run_payload_callback:
  assumes "holds s payload" and "length s + length data < 2 ^ 64" and "data = [] \<longrightarrow> s = []"
  obtains n p as where "run_state (response_payload_callback data 1 (length data) payload) w = (Some (n, p), w\<lparr>w_alloc := as\<rparr>)"
    "n = length data \<longrightarrow> holds (s @ data) p" "w_alloc w = [] \<longrightarrow> as = [] \<and> n = length data"
proof -
  have bytes: "size_times 1 (length data) = length data" using assms(2) by simp
  have p: "payload = \<lparr>lp_data = (if s = [] then None else Some (map Some s)), lp_size = length s\<rparr>"
    using assms(1) by (simp add: holds_def)
  have total: "(length s + length data) mod 2 ^ 64 = length s + length data" using assms(2) by simp
  show thesis
  proof (cases "data = []")
    case True
    with assms(3) p have "run_state (response_payload_callback data 1 (length data) payload) w = (Some (0, payload), w\<lparr>w_alloc := w_alloc w\<rparr>)"
      unfolding response_payload_callback_def Let_def bytes by simp
    with True assms(1,3) show thesis by (intro that) auto
  next
    case False
    let ?block = "case lp_data payload of None \<Rightarrow> fresh_block (length data) | Some b \<Rightarrow> resized b (length s + length data)"
    have block: "string_util_memcpy ?block (length s) data (length data) = Some (map Some (s @ data))"
      by (auto simp: p string_util_memcpy_def resized_def fresh_block_def)
    have memory: "(case lp_data payload of None \<Rightarrow> mcl_memory_malloc (length data)
        | Some _ \<Rightarrow> mcl_memory_realloc (length s + length data)) = mcl_malloc"
      using False by (simp split: option.split)
    obtain a as where a: "run_state mcl_malloc w = (a, w\<lparr>w_alloc := as\<rparr>)" "w_alloc w = [] \<longrightarrow> a \<and> as = []"
      by (rule malloc_cases)
    have sz: "lp_size payload = length s" by (simp add: p)
    have "run_state (response_payload_callback data 1 (length data) payload) w =
        (Some (if a then (length data, payload\<lparr>lp_data := Some (map Some (s @ data)), lp_size := length s + length data\<rparr>)
           else (0, payload\<lparr>lp_data := None\<rparr>)), w\<lparr>w_alloc := as\<rparr>)"
      unfolding response_payload_callback_def Let_def bytes sz total memory block using a(1) by simp
    then show thesis using False a(2)
      by (intro that [of "if a then length data else 0"
            "if a then payload\<lparr>lp_data := Some (map Some (s @ data)), lp_size := length s + length data\<rparr> else payload\<lparr>lp_data := None\<rparr>" as])
        (auto simp: holds_def)
  qed
qed

section \<open>Events\<close>

text \<open>What a number of asks takes of the callback of the user, and of a payload behind what was taken.\<close>

fun stream_text :: "nat list \<Rightarrow> string list \<Rightarrow> string" where
  "stream_text [] given = []"
| "stream_text (n # ns) [] = []"
| "stream_text (n # ns) (s # given) = take n s @ stream_text ns given"

definition taken :: "mcl_http_request_t \<Rightarrow> string \<Rightarrow> string list \<Rightarrow> nat list \<Rightarrow> string \<Rightarrow> string" where
  "taken rq p given ns body =
     (if rq_method rq = MCL_HTTP_GET then body
      else if rq_stream_callback rq = None then take (length body + sum_list ns) p
      else body @ stream_text ns given)"

definition given_later :: "mcl_http_request_t \<Rightarrow> string list \<Rightarrow> nat list \<Rightarrow> string list" where
  "given_later rq given ns =
     (if rq_method rq \<noteq> MCL_HTTP_GET \<and> rq_stream_callback rq \<noteq> None then drop (length ns) given else given)"

lemma stream_text_append:
  "stream_text (ns @ ms) given = stream_text ns given @ stream_text ms (drop (length ns) given)"
proof (induction ns given rule: stream_text.induct)
  case (2 n ns)
  have "stream_text ms [] = []" by (cases ms) simp_all
  then show ?case by simp
qed simp_all

lemma take_again: "take (min (length p) n + m) p = take (n + m) p"
  by (simp add: min_def)

lemma taken_append:
  "taken rq p (given_later rq given ns) ms (taken rq p given ns body) = taken rq p given (ns @ ms) body"
  by (simp add: taken_def given_later_def stream_text_append take_again add.assoc [symmetric])

lemma given_later_append: "given_later rq (given_later rq given ns) ms = given_later rq given (ns @ ms)"
  by (simp add: given_later_def add.commute)

lemma taken_nothing: "taking rq p ex \<Longrightarrow> taken rq p given [] (ex_body ex) = ex_body ex"
  by (auto simp: taken_def taking_def)

text \<open>One ask, whatever the payload is.\<close>

lemma run_ask:
  assumes "curl_method (rq_method rq)" and "own_payload rq p" and "taking rq p ex" and "n < 2 ^ 64"
  obtains ex' where "run_state (ask_payload (full_options c rq l) n ex) w =
      (Some ex', w\<lparr>c_callback := given_later rq (c_callback w) [n]\<rparr>)"
    "taking rq p ex'" "ex_body ex' = taken rq p (c_callback w) [n] (ex_body ex)"
    "ex_header ex' = ex_header ex" "ex_payload ex' = ex_payload ex"
proof (cases "rq_method rq = MCL_HTTP_GET")
  case True
  with ask_nothing [OF True, of c l n ex w] assms(3) show thesis
    by (intro that [of ex]) (simp_all add: given_later_def taken_def)
next
  case False
  show thesis
  proof (cases "rq_stream_callback rq")
    case None
    obtain ex' where "run_state (ask_payload (full_options c rq l) n ex) w = (Some ex', w)"
        "taking rq p ex'" "ex_body ex' = take (length (ex_body ex) + n) p"
        "ex_header ex' = ex_header ex" "ex_payload ex' = ex_payload ex"
      using assms(1) False None assms(2-4) by (rule ask_own)
    with False None show thesis by (intro that [of ex']) (simp_all add: given_later_def taken_def)
  next
    case (Some callback)
    have "rq_method rq \<in> {MCL_HTTP_POST, MCL_HTTP_PUT, MCL_HTTP_PATCH}"
      using assms(1) False by (auto simp: curl_method_def)
    note asked = ask_stream [OF this Some, of c l n ex w]
    have "(case c_callback w of [] \<Rightarrow> [] | s # _ \<Rightarrow> take n s) = stream_text [n] (c_callback w)"
      by (cases "c_callback w") simp_all
    with asked False Some show thesis
      by (intro that [of "ex\<lparr>ex_body := ex_body ex @ stream_text [n] (c_callback w)\<rparr>"])
        (simp_all add: given_later_def taken_def taking_def drop_Suc)
  qed
qed

text \<open>The line of a header in the response: without its last two bytes, and not the empty line.\<close>

definition line_texts :: "string list \<Rightarrow> string list" where
  "line_texts lines = map (\<lambda>line. c_text (take (length line - CRLF_LENGTH) line)) (filter (\<lambda>line. line \<noteq> crlf) lines)"

lemma events_of_Cons:
  "header_lines (e # es) = header_lines [e] @ header_lines es" "body_text_of (e # es) = body_text_of [e] @ body_text_of es"
  "asks (e # es) = asks [e] @ asks es"
  by (cases e; simp)+

lemma run_curl_event:
  assumes "curl_method (rq_method rq)" and "own_payload rq p" and "taking rq p ex" and "holds s (ex_payload ex)"
    and "documented (s \<noteq> []) [e]" and "length s + length (body_text_of [e]) < 2 ^ 63"
  obtains go ex' as where "run_state (curl_event_step (full_options c rq l) e ex) w =
      (Some (go, ex'), w\<lparr>w_alloc := as, c_callback := given_later rq (c_callback w) (asks [e])\<rparr>)"
    "taking rq p ex'" "ex_body ex' = taken rq p (c_callback w) (asks [e]) (ex_body ex)"
    "go \<longrightarrow> holds (s @ body_text_of [e]) (ex_payload ex')"
    "w_alloc w = [] \<and> (\<forall>line \<in> set (header_lines [e]). 2 \<le> length line) \<longrightarrow>
       as = [] \<and> go \<and> ex_header ex' = ex_header ex @ line_texts (header_lines [e])"
proof (cases e)
  case (Ask_Payload n)
  with assms(5) have "n < 2 ^ 64" by simp
  with assms(1-3) obtain ex' where "run_state (ask_payload (full_options c rq l) n ex) w =
      (Some ex', w\<lparr>c_callback := given_later rq (c_callback w) [n]\<rparr>)"
    "taking rq p ex'" "ex_body ex' = taken rq p (c_callback w) [n] (ex_body ex)"
    "ex_header ex' = ex_header ex" "ex_payload ex' = ex_payload ex"
    by (rule run_ask)
  with Ask_Payload assms(4) show thesis
    by (intro that [of True ex' "w_alloc w"]) (simp_all add: curl_event_step_def line_texts_def)
next
  case (Header_Line line)
  with assms(5) have "line \<noteq> []" "length line < 2 ^ 63" by simp_all
  then obtain n hs as where r: "run_state (response_header_callback line 1 (length line) (ex_header ex)) w =
      (Some (n, hs), w\<lparr>w_alloc := as\<rparr>)"
    "w_alloc w = [] \<and> 2 \<le> length line \<longrightarrow> as = [] \<and> n = length line \<and>
       hs = ex_header ex @ (if line = crlf then [] else [c_text (take (length line - CRLF_LENGTH) line)])"
    by (rule run_header_callback)
  have "taking rq p (ex\<lparr>ex_header := hs\<rparr>)" using assms(3) by (simp add: taking_def)
  with r Header_Line assms(4) taken_nothing [OF assms(3)] show thesis
    by (intro that [of "n = length line" "ex\<lparr>ex_header := hs\<rparr>" as])
      (auto simp: curl_event_step_def line_texts_def given_later_def simp del: One_nat_def)
next
  case (Body_Data data)
  with assms(5,6) have d: "length s + length data < 2 ^ 64" "data = [] \<longrightarrow> s = []" by auto
  obtain n q as where r: "run_state (response_payload_callback data 1 (length data) (ex_payload ex)) w =
      (Some (n, q), w\<lparr>w_alloc := as\<rparr>)"
    "n = length data \<longrightarrow> holds (s @ data) q" "w_alloc w = [] \<longrightarrow> as = [] \<and> n = length data"
    using assms(4) d by (rule run_payload_callback)
  have "taking rq p (ex\<lparr>ex_payload := q\<rparr>)" using assms(3) by (simp add: taking_def)
  with r Body_Data taken_nothing [OF assms(3)] show thesis
    by (intro that [of "n = length data" "ex\<lparr>ex_payload := q\<rparr>" as])
      (auto simp: curl_event_step_def line_texts_def given_later_def simp del: One_nat_def)
qed

lemma documented_Cons: "documented b (e # es) \<longleftrightarrow> documented b [e] \<and> documented (b \<or> body_text_of [e] \<noteq> []) es"
  by (cases e) auto

text \<open>
  The events of a transfer never lead a callback outside its blocks. When nothing fails, all of them
  happen, and header lines, payload and what was sent are what came and what was asked for.
\<close>

lemma run_curl_events:
  assumes "curl_method (rq_method rq)" and "own_payload rq p"
  shows "taking rq p ex \<Longrightarrow> holds s (ex_payload ex) \<Longrightarrow> documented (s \<noteq> []) es \<Longrightarrow>
      length s + length (body_text_of es) < 2 ^ 63 \<Longrightarrow>
    \<exists>go ex' as given. run_state (curl_events (full_options c rq l) es ex) w =
        (Some (go, ex'), w\<lparr>w_alloc := as, c_callback := given\<rparr>) \<and>
      (go \<longrightarrow> holds (s @ body_text_of es) (ex_payload ex') \<and> ex_body ex' = taken rq p (c_callback w) (asks es) (ex_body ex)) \<and>
      (w_alloc w = [] \<and> (\<forall>line \<in> set (header_lines es). 2 \<le> length line) \<longrightarrow>
         as = [] \<and> go \<and> given = given_later rq (c_callback w) (asks es) \<and>
         ex_header ex' = ex_header ex @ line_texts (header_lines es))"
proof (induction es arbitrary: ex s w)
  case Nil
  from Nil(1,2) show ?case
    by (intro exI [of _ True] exI [of _ ex] exI [of _ "w_alloc w"] exI [of _ "c_callback w"])
      (simp add: line_texts_def taken_nothing given_later_def)
next
  case (Cons e es)
  have parts: "documented (s \<noteq> []) [e]" "documented (s @ body_text_of [e] \<noteq> []) es"
    "length s + length (body_text_of [e]) < 2 ^ 63" "length (s @ body_text_of [e]) + length (body_text_of es) < 2 ^ 63"
    using Cons.prems(3,4) documented_Cons [of "s \<noteq> []" e es] by (auto simp: events_of_Cons(2) [of e es])
  obtain go ex1 as where e: "run_state (curl_event_step (full_options c rq l) e ex) w =
      (Some (go, ex1), w\<lparr>w_alloc := as, c_callback := given_later rq (c_callback w) (asks [e])\<rparr>)"
    "taking rq p ex1" "ex_body ex1 = taken rq p (c_callback w) (asks [e]) (ex_body ex)"
    "go \<longrightarrow> holds (s @ body_text_of [e]) (ex_payload ex1)"
    "w_alloc w = [] \<and> (\<forall>line \<in> set (header_lines [e]). 2 \<le> length line) \<longrightarrow>
       as = [] \<and> go \<and> ex_header ex1 = ex_header ex @ line_texts (header_lines [e])"
    using assms Cons.prems(1,2) parts(1,3) by (rule run_curl_event)
  let ?w1 = "w\<lparr>w_alloc := as, c_callback := given_later rq (c_callback w) (asks [e])\<rparr>"
  show ?case
  proof (cases go)
    case False
    with e(1,5) show ?thesis
      by (intro exI [of _ False] exI [of _ ex1] exI [of _ as] exI [of _ "given_later rq (c_callback w) (asks [e])"])
        (auto simp: events_of_Cons(1) [of e es])
  next
    case True
    have "holds (s @ body_text_of [e]) (ex_payload ex1)" using e(4) True by simp
    from Cons.IH [OF e(2) this parts(2,4), of ?w1] obtain go' ex' as' given where es:
      "run_state (curl_events (full_options c rq l) es ex1) ?w1 = (Some (go', ex'), ?w1\<lparr>w_alloc := as', c_callback := given\<rparr>)"
      "go' \<longrightarrow> holds ((s @ body_text_of [e]) @ body_text_of es) (ex_payload ex') \<and>
         ex_body ex' = taken rq p (c_callback ?w1) (asks es) (ex_body ex1)"
      "w_alloc ?w1 = [] \<and> (\<forall>line \<in> set (header_lines es). 2 \<le> length line) \<longrightarrow>
         as' = [] \<and> go' \<and> given = given_later rq (c_callback ?w1) (asks es) \<and>
         ex_header ex' = ex_header ex1 @ line_texts (header_lines es)"
      by blast
    have run: "run_state (curl_events (full_options c rq l) (e # es) ex) w = (Some (go', ex'), w\<lparr>w_alloc := as', c_callback := given\<rparr>)"
      using e(1) True es(1) by simp
    have body: "go' \<longrightarrow> holds (s @ body_text_of (e # es)) (ex_payload ex') \<and>
        ex_body ex' = taken rq p (c_callback w) (asks (e # es)) (ex_body ex)"
      using es(2) by (simp add: e(3) taken_append events_of_Cons [of e es])
    have all: "w_alloc w = [] \<and> (\<forall>line \<in> set (header_lines (e # es)). 2 \<le> length line) \<longrightarrow>
         as' = [] \<and> go' \<and> given = given_later rq (c_callback w) (asks (e # es)) \<and>
         ex_header ex' = ex_header ex @ line_texts (header_lines (e # es))"
      using e(5) es(3) by (auto simp: events_of_Cons [of e es] given_later_append line_texts_def)
    show ?thesis using run body all by blast
  qed
qed

end
