(* ===== verification/MclCurlProps.thy ===== *)
theory MclCurlProps
  imports MclCurlExchange
begin

text \<open>
  Properties of the client over libcurl: an exchange from end to end, that no sequence of requests
  leads it outside its memory, what a list of headers loses when memory runs out, and what becomes of
  a method it does not know.
\<close>

section \<open>One request\<close>

text \<open>The transfer that comes next.\<close>

definition coming :: "'z curl_world_scheme \<Rightarrow> transfer" where
  "coming w = (case c_transfers w of
     [] \<Rightarrow> \<lparr>tr_events = [], tr_code = CURLE_COULDNT_CONNECT, tr_status = 0\<rparr> | t # _ \<Rightarrow> t)"

definition whole_lines :: "transfer \<Rightarrow> bool" where
  "whole_lines t \<longleftrightarrow> (\<forall>line \<in> set (header_lines (tr_events t)). 2 \<le> length line)"

lemma run_next_transfer: "run_state next_transfer w = (coming w, w\<lparr>c_transfers := tl (c_transfers w)\<rparr>)"
  by (simp add: next_transfer_def coming_def split: list.split)

definition proper_world :: "'z curl_world_scheme \<Rightarrow> bool" where
  "proper_world w \<longleftrightarrow> (\<forall>t \<in> set (c_transfers w). proper_transfer t)"

lemma coming_proper: "proper_world w \<Longrightarrow> proper_transfer (coming w)"
  by (auto simp: proper_world_def proper_transfer_def coming_def split: list.split)

definition fresh_exchange :: "mcl_http_request_t \<Rightarrow> exchange" where
  "fresh_exchange rq = \<lparr>ex_header = [], ex_payload = \<lparr>lp_data = None, lp_size = 0\<rparr>, ex_context = method_context rq, ex_body = []\<rparr>"

lemma fresh_exchange:
  assumes "curl_method (rq_method rq)"
  shows "taking rq p (fresh_exchange rq)" "holds [] (ex_payload (fresh_exchange rq))"
  using assms by (auto simp: fresh_exchange_def taking_def method_context_def curl_method_def holds_def)

lemma code_converts: "convert_to_mcl_return_code code = MCL_OK \<longleftrightarrow> code = CURLE_OK"
  by (cases code) (simp_all add: convert_to_mcl_return_code_def)

lemma run_perform:
  assumes "curl_method (rq_method rq)" and "own_payload rq p" and "slist_headers l (c_slists w) = Some kept"
    and "proper_transfer (coming w)"
  shows "\<exists>completed ex as given. run_state (curl_easy_perform (full_options c rq l) (fresh_exchange rq)) w =
      (Some (if completed then tr_code (coming w) else CURLE_WRITE_ERROR, tr_status (coming w), ex),
       w\<lparr>w_alloc := as, c_callback := given, c_transfers := tl (c_transfers w),
         c_requests := c_requests w @ [\<lparr>cq_options = full_options c rq l, cq_header = kept, cq_body = ex_body ex\<rparr>]\<rparr>) \<and>
    (completed \<longrightarrow> holds (body_text_of (tr_events (coming w))) (ex_payload ex) \<and>
       ex_body ex = taken rq p (c_callback w) (asks (tr_events (coming w))) []) \<and>
    (w_alloc w = [] \<and> whole_lines (coming w) \<longrightarrow>
       as = [] \<and> completed \<and> ex_header ex = line_texts (header_lines (tr_events (coming w))))"
proof -
  let ?es = "tr_events (coming w)" and ?w1 = "w\<lparr>c_transfers := tl (c_transfers w)\<rparr>"
  have es: "documented ([] \<noteq> ([] :: string)) ?es" "length ([] :: string) + length (body_text_of ?es) < 2 ^ 63"
    using assms(4) by (simp_all add: proper_transfer_def)
  from run_curl_events [OF assms(1,2) fresh_exchange [OF assms(1)] es, of c l ?w1, folded whole_lines_def] obtain go ex as given where r:
    "run_state (curl_events (full_options c rq l) ?es (fresh_exchange rq)) ?w1 = (Some (go, ex), ?w1\<lparr>w_alloc := as, c_callback := given\<rparr>)"
    "go \<longrightarrow> holds (body_text_of ?es) (ex_payload ex) \<and> ex_body ex = taken rq p (c_callback w) (asks ?es) []"
    "w_alloc w = [] \<and> whole_lines (coming w) \<longrightarrow>
       as = [] \<and> go \<and> ex_header ex = line_texts (header_lines ?es)"
    by (simp add: fresh_exchange_def) blast
  have "run_state (curl_easy_perform (full_options c rq l) (fresh_exchange rq)) w =
      (Some (if go then tr_code (coming w) else CURLE_WRITE_ERROR, tr_status (coming w), ex),
       w\<lparr>w_alloc := as, c_callback := given, c_transfers := tl (c_transfers w),
         c_requests := c_requests w @ [\<lparr>cq_options = full_options c rq l, cq_header = kept, cq_body = ex_body ex\<rparr>]\<rparr>)"
    using assms(3) r(1) by (simp add: curl_easy_perform_def run_bind run_next_transfer record_request_def)
  with r(2,3) show ?thesis by blast
qed

text \<open>The response of a transfer that was completed.\<close>

definition response_to :: "transfer \<Rightarrow> string list \<Rightarrow> mcl_http_response_t" where
  "response_to t header = (let body = body_text_of (tr_events t) in
     \<lparr>rs_header = header, rs_payload = (if body = [] then None else Some body), rs_payload_size = length body,
      rs_status_code = tr_status t\<rparr>)"

lemma run_response_of:
  assumes "code = CURLE_OK \<longrightarrow> holds (body_text_of (tr_events t)) (ex_payload ex)"
  obtains r as where "run_state (response_of code (tr_status t) ex) w = (Some r, w\<lparr>w_alloc := as\<rparr>)"
    "\<forall>resp. r = Ok resp \<longrightarrow> code = CURLE_OK \<and> resp = response_to t (ex_header ex)"
    "w_alloc w = [] \<longrightarrow> as = [] \<and> r = (if code = CURLE_OK then Ok (response_to t (ex_header ex)) else Err (convert_to_mcl_return_code code))"
proof (cases "code = CURLE_OK")
  case False
  then show thesis
    by (intro that [of "Err (convert_to_mcl_return_code code)" "w_alloc w"]) (simp_all add: response_of_def code_converts)
next
  case True
  let ?body = "body_text_of (tr_events t)"
  have payload: "(case lp_data (ex_payload ex) of None \<Rightarrow> Some None
      | Some data \<Rightarrow> map_option Some (read_cells data (length ?body))) = Some (if ?body = [] then None else Some ?body)"
    "lp_size (ex_payload ex) = length ?body"
    using assms True by (simp_all add: holds_def read_cells_some)
  obtain a as where a: "run_state mcl_malloc w = (a, w\<lparr>w_alloc := as\<rparr>)" "w_alloc w = [] \<longrightarrow> a \<and> as = []"
    by (rule malloc_cases)
  have "run_state (response_of code (tr_status t) ex) w =
      (Some (if a then Ok (response_to t (ex_header ex)) else Err MCL_OUT_OF_MEMORY), w\<lparr>w_alloc := as\<rparr>)"
    unfolding response_of_def payload using True a(1)
    by (simp add: code_converts mcl_http_response_initialize_def response_to_def Let_def)
  then show thesis by (rule that) (use True a(2) in auto)
qed

section \<open>Sending\<close>

text \<open>The list of a request is released when its transfer is over.\<close>

definition released :: "nat option \<Rightarrow> 'z curl_world_scheme \<Rightarrow> 'z curl_world_scheme" where
  "released l w = (case l of None \<Rightarrow> w | Some k \<Rightarrow> w\<lparr>c_slists := (c_slists w)[k := None]\<rparr>)"

lemma run_slist_free [simp]: "run_state (curl_slist_free_all l) w = ((), released l w)"
  by (simp add: curl_slist_free_all_def released_def)

lemma released_parts [simp]:
  "c_transfers (released l w) = c_transfers w" "c_requests (released l w) = c_requests w"
  "w_alloc (released l w) = w_alloc w" "c_callback (released l w) = c_callback w"
  by (simp_all add: released_def split: option.split)

text \<open>
  A call of the client, whatever fails: the requests it made have a tail of the headers, and a response
  is complete; and what it is when nothing fails.
\<close>

definition sent_with :: "mcl_http_request_t \<Rightarrow> curl_request list \<Rightarrow> bool" where
  "sent_with rq qs \<longleftrightarrow> length qs \<le> 1 \<and> (\<forall>q \<in> set qs. suffix (cq_header q) (request_header rq))"

text \<open>What a call that made its request did.\<close>

definition made_request ::
  "mcl_http_request_t \<Rightarrow> string \<Rightarrow> 'z curl_world_scheme \<Rightarrow> mcl_http_response_t result \<Rightarrow> curl_http_client_t \<Rightarrow>
   'z curl_world_scheme \<Rightarrow> bool" where
  "made_request rq p w r k' w' \<longleftrightarrow> (\<exists>header.
     suffix header (request_header rq) \<and>
     c_requests w' = c_requests w @ [\<lparr>cq_options = cc_curl k', cq_header = header,
       cq_body = taken rq p (c_callback w) (asks (tr_events (coming w))) []\<rparr>] \<and>
     (\<forall>resp. r = Ok resp \<longrightarrow> tr_code (coming w) = CURLE_OK \<and> (\<exists>lines. resp = response_to (coming w) lines)) \<and>
     (w_alloc w = [] \<longrightarrow> header = request_header rq))"

lemma run_curl_send:
  assumes "curl_method (rq_method rq)" and "own_payload rq p" and "proper_world w"
  shows "\<exists>r k' w'. run_state (curl_http_client_send k rq) w = (Some (r, k'), w') \<and>
    set (c_transfers w') \<subseteq> set (c_transfers w) \<and>
    (\<exists>qs. c_requests w' = c_requests w @ qs \<and> sent_with rq qs) \<and>
    (\<forall>resp. r = Ok resp \<longrightarrow> made_request rq p w r k' w') \<and>
    (w_alloc w = [] \<and> whole_lines (coming w) \<longrightarrow>
       w_alloc w' = [] \<and> made_request rq p w r k' w' \<and>
       r = (if tr_code (coming w) = CURLE_OK
            then Ok (response_to (coming w) (line_texts (header_lines (tr_events (coming w)))))
            else Err (convert_to_mcl_return_code (tr_code (coming w)))) \<and>
       (\<exists>l. k' = k\<lparr>cc_curl := full_options (cc_curl k) rq (Some l)\<rparr> \<and> l < length (c_slists w') \<and> c_slists w' ! l = None))"
proof -
  obtain l w1 where o: "run_state (set_request_options (cc_curl k) rq) w =
      ((cc_curl k @ request_options rq l, method_context rq, l), w1)" "listed w w1 l (request_header rq)"
    using assms(1) by (rule run_request_options)
  from o(2) obtain kept where kept: "w1 = w\<lparr>w_alloc := w_alloc w1, c_slists := c_slists w1\<rparr>"
    "slist_headers l (c_slists w1) = Some kept" "suffix kept (request_header rq)"
    "w_alloc w = [] \<longrightarrow> w_alloc w1 = [] \<and> kept = request_header rq \<and> l \<noteq> None"
    by (auto simp: listed_def listing_def request_header_def)
  have same: "c_transfers w1 = c_transfers w" "c_requests w1 = c_requests w" "c_callback w1 = c_callback w"
    by (subst kept(1), simp)+
  obtain a as where a: "run_state mcl_malloc w1 = (a, w1\<lparr>w_alloc := as\<rparr>)" "w_alloc w1 = [] \<longrightarrow> a \<and> as = []"
    by (rule malloc_cases)
  obtain b bs where b: "run_state (if a then mcl_malloc else State_Monad.return False) (w1\<lparr>w_alloc := as\<rparr>) =
      (b, w1\<lparr>w_alloc := bs\<rparr>)" "b \<longrightarrow> a" "a \<and> as = [] \<longrightarrow> b \<and> bs = []"
  proof (cases a)
    case False
    then show thesis by (intro that [of False as]) simp_all
  next
    case True
    obtain b bs where "run_state mcl_malloc (w1\<lparr>w_alloc := as\<rparr>) = (b, w1\<lparr>w_alloc := as, w_alloc := bs\<rparr>)"
        "w_alloc (w1\<lparr>w_alloc := as\<rparr>) = [] \<longrightarrow> b \<and> bs = []"
      by (rule malloc_cases)
    with True show thesis by (intro that [of b bs]) simp_all
  qed
  let ?w3 = "w1\<lparr>w_alloc := bs\<rparr>"
  show ?thesis
  proof (cases b)
    case False
    let ?k = "k\<lparr>cc_curl := (cc_curl k @ request_options rq l) @ (if a then [CURLOPT_HEADERDATA] else [])\<rparr>"
    have "run_state (curl_http_client_send k rq) w = (Some (Err MCL_OUT_OF_MEMORY, ?k), released l ?w3)"
      using o(1) a(1) b(1) False by (simp add: curl_http_client_send_def Let_def)
    moreover have "w_alloc w \<noteq> []" using a(2) b(3) kept(4) False by auto
    moreover have "\<exists>qs. c_requests (released l ?w3) = c_requests w @ qs \<and> sent_with rq qs"
      using same by (intro exI [of _ "[]"]) (simp add: sent_with_def)
    ultimately show ?thesis using same
      by (intro exI [of _ "Err MCL_OUT_OF_MEMORY"] exI [of _ ?k] exI [of _ "released l ?w3"]) simp
  next
    case True
    have up: "coming ?w3 = coming w" "c_transfers ?w3 = c_transfers w" "c_requests ?w3 = c_requests w"
        "c_callback ?w3 = c_callback w" "c_slists ?w3 = c_slists w1"
      using same by (simp_all add: coming_def)
    let ?curl = "full_options (cc_curl k) rq l" and ?t = "coming w"
    have sl: "slist_headers l (c_slists ?w3) = Some kept" and pr: "proper_transfer (coming ?w3)"
      using kept(2) coming_proper [OF assms(3)] by (simp_all add: up(1))
    from run_perform [OF assms(1,2) sl pr, of "cc_curl k"] obtain completed ex as' given where p:
      "run_state (curl_easy_perform ?curl (fresh_exchange rq)) ?w3 =
        (Some (if completed then tr_code ?t else CURLE_WRITE_ERROR, tr_status ?t, ex),
         ?w3\<lparr>w_alloc := as', c_callback := given, c_transfers := tl (c_transfers w),
           c_requests := c_requests w @ [\<lparr>cq_options = ?curl, cq_header = kept, cq_body = ex_body ex\<rparr>]\<rparr>)"
      "completed \<longrightarrow> holds (body_text_of (tr_events ?t)) (ex_payload ex) \<and>
         ex_body ex = taken rq p (c_callback w) (asks (tr_events ?t)) []"
      "bs = [] \<and> whole_lines ?t \<longrightarrow> as' = [] \<and> completed \<and> ex_header ex = line_texts (header_lines (tr_events ?t))"
      unfolding up by auto
    let ?w4 = "?w3\<lparr>w_alloc := as', c_callback := given, c_transfers := tl (c_transfers w),
           c_requests := c_requests w @ [\<lparr>cq_options = ?curl, cq_header = kept, cq_body = ex_body ex\<rparr>]\<rparr>"
    let ?code = "if completed then tr_code ?t else CURLE_WRITE_ERROR"
    have "?code = CURLE_OK \<longrightarrow> holds (body_text_of (tr_events ?t)) (ex_payload ex)" using p(2) by simp
    then obtain r as'' where r: "run_state (response_of ?code (tr_status ?t) ex) (released l ?w4) = (Some r, (released l ?w4)\<lparr>w_alloc := as''\<rparr>)"
      "\<forall>resp. r = Ok resp \<longrightarrow> ?code = CURLE_OK \<and> resp = response_to ?t (ex_header ex)"
      "w_alloc (released l ?w4) = [] \<longrightarrow> as'' = [] \<and>
         r = (if ?code = CURLE_OK then Ok (response_to ?t (ex_header ex)) else Err (convert_to_mcl_return_code ?code))"
      by (rule run_response_of)
    let ?w' = "(released l ?w4)\<lparr>w_alloc := as''\<rparr>" and ?k = "k\<lparr>cc_curl := ?curl\<rparr>"
    have fresh: "\<lparr>ex_header = [], ex_payload = \<lparr>lp_data = None, lp_size = 0\<rparr>, ex_context = method_context rq, ex_body = []\<rparr> = fresh_exchange rq"
      by (simp add: fresh_exchange_def)
    have full: "(cc_curl k @ request_options rq l) @ [CURLOPT_HEADERDATA] @ [CURLOPT_WRITEDATA] = ?curl"
      by (simp add: full_options_def)
    have a': "a" using b(2) True by simp
    have run: "run_state (curl_http_client_send k rq) w = (Some (r, ?k), ?w')"
      using o(1) a(1) b(1) a' True p(1) r(1) full
      by (simp add: curl_http_client_send_def Let_def fresh)
    have ok: "completed" if "r = Ok resp" for resp using r(2) that by (auto split: if_splits)
    have made: "made_request rq p w r ?k ?w'" if "completed"
      using that p(2) r(2) kept(3,4) by (auto simp: made_request_def)
    have requests: "\<exists>qs. c_requests ?w' = c_requests w @ qs \<and> sent_with rq qs"
      using kept(3) by (simp add: sent_with_def)
    have transfers: "set (c_transfers ?w') \<subseteq> set (c_transfers w)"
      by (cases "c_transfers w") auto
    have exact: "w_alloc ?w' = [] \<and> made_request rq p w r ?k ?w' \<and>
       r = (if tr_code ?t = CURLE_OK then Ok (response_to ?t (line_texts (header_lines (tr_events ?t))))
            else Err (convert_to_mcl_return_code (tr_code ?t))) \<and>
       (\<exists>l'. ?k = k\<lparr>cc_curl := full_options (cc_curl k) rq (Some l')\<rparr> \<and> l' < length (c_slists ?w') \<and> c_slists ?w' ! l' = None)"
      if quiet: "w_alloc w = []" "whole_lines ?t"
    proof -
      have bs: "bs = []" using a(2) b(3) kept(4) quiet(1) by simp
      then have ended: "as' = []" "completed" "ex_header ex = line_texts (header_lines (tr_events ?t))"
        using p(3) quiet(2) by simp_all
      obtain l' where l': "l = Some l'" using kept(4) quiet(1) by auto
      then have "l' < length (c_slists w1)" using kept(2) by (auto simp: slist_headers_def split: if_splits)
      with l' have "l' < length (c_slists ?w') \<and> c_slists ?w' ! l' = None" by (simp add: released_def)
      with r(3) ended made [OF ended(2)] l' show ?thesis by (intro conjI exI [of _ l']) simp_all
    qed
    show ?thesis using run transfers requests made ok exact by blast
  qed
qed

section \<open>Many requests\<close>

fun curl_sends ::
  "curl_http_client_t \<Rightarrow> mcl_http_request_t list \<Rightarrow>
   ('z curl_world_ext, (mcl_http_response_t result list \<times> curl_http_client_t) option) io" where
  "curl_sends k [] = State_Monad.return (Some ([], k))"
| "curl_sends k (rq # rqs) = do {
     r \<leftarrow> curl_http_client_send k rq;
     case r of
       None \<Rightarrow> State_Monad.return None
     | Some (response, k) \<Rightarrow> do {
         rs \<leftarrow> curl_sends k rqs;
         State_Monad.return (map_option (\<lambda>(responses, k). (response # responses, k)) rs)
       }
   }"

text \<open>A response whose payload is as long as it says.\<close>

definition sized_response :: "mcl_http_response_t result \<Rightarrow> bool" where
  "sized_response r = (case r of
     Err _ \<Rightarrow> True
   | Ok resp \<Rightarrow> rs_payload_size resp = (case rs_payload resp of None \<Rightarrow> 0 | Some s \<Rightarrow> length s))"

lemma response_to_sized: "sized_response (Ok (response_to t lines))"
  by (simp add: sized_response_def response_to_def Let_def)

lemma run_curl_sends:
  assumes "\<forall>rq \<in> set rqs. curl_method (rq_method rq) \<and> (\<exists>p. own_payload rq p)" and "proper_world w"
  shows "\<exists>rs k' w' qs. run_state (curl_sends k rqs) w = (Some (rs, k'), w') \<and> length rs = length rqs \<and>
    list_all sized_response rs \<and> c_requests w' = c_requests w @ qs \<and>
    (\<forall>q \<in> set qs. \<exists>rq \<in> set rqs. suffix (cq_header q) (request_header rq))"
  using assms
proof (induction rqs arbitrary: k w)
  case Nil
  then show ?case by simp
next
  case (Cons rq rqs)
  then obtain p where rq: "curl_method (rq_method rq)" "own_payload rq p" by auto
  from run_curl_send [OF rq Cons.prems(2), of k] obtain r k1 w1 qs where s:
    "run_state (curl_http_client_send k rq) w = (Some (r, k1), w1)" "set (c_transfers w1) \<subseteq> set (c_transfers w)"
    "c_requests w1 = c_requests w @ qs" "sent_with rq qs" "\<forall>resp. r = Ok resp \<longrightarrow> made_request rq p w r k1 w1"
    by blast
  have "proper_world w1" using Cons.prems(2) s(2) by (auto simp: proper_world_def)
  moreover have "\<forall>rq \<in> set rqs. curl_method (rq_method rq) \<and> (\<exists>p. own_payload rq p)" using Cons.prems(1) by simp
  ultimately obtain rs k' w' qs' where more: "run_state (curl_sends k1 rqs) w1 = (Some (rs, k'), w')"
    "length rs = length rqs" "list_all sized_response rs" "c_requests w' = c_requests w1 @ qs'"
    "\<forall>q \<in> set qs'. \<exists>rq \<in> set rqs. suffix (cq_header q) (request_header rq)"
    using Cons.IH [of w1 k1] by blast
  have "sized_response r"
    using s(5) response_to_sized by (cases r) (auto simp: sized_response_def made_request_def)
  moreover have "\<forall>q \<in> set (qs @ qs'). \<exists>rq' \<in> set (rq # rqs). suffix (cq_header q) (request_header rq')"
    using s(4) more(5) by (auto simp: sent_with_def)
  moreover have "run_state (curl_sends k (rq # rqs)) w = (Some (r # rs, k'), w')" using s(1) more(1) by simp
  ultimately show ?case using more(2-4) s(3)
    by (intro exI [of _ "r # rs"] exI [of _ k'] exI [of _ w'] exI [of _ "qs @ qs'"] conjI) (simp_all del: curl_sends.simps)
qed

section \<open>What libcurl is told\<close>

definition url_option :: "curl_option \<Rightarrow> string option option" where
  "url_option p = (case p of CURLOPT_URL u \<Rightarrow> Some u | _ \<Rightarrow> None)"
definition custom_request_option :: "curl_option \<Rightarrow> string option option" where
  "custom_request_option p = (case p of CURLOPT_CUSTOMREQUEST s \<Rightarrow> Some s | _ \<Rightarrow> None)"
definition in_file_size_option :: "curl_option \<Rightarrow> int option" where
  "in_file_size_option p =
     (case p of CURLOPT_INFILESIZE n \<Rightarrow> Some n | CURLOPT_INFILESIZE_LARGE n \<Rightarrow> Some n | _ \<Rightarrow> None)"

text \<open>The address, the method and the announced size, \<open>- 1\<close> for none, whatever was set before.\<close>

definition told :: "mcl_http_request_t \<Rightarrow> CURL \<Rightarrow> bool" where
  "told rq curl \<longleftrightarrow>
     latest url_option curl = Some (rq_uri rq) \<and>
     latest upload_option curl = Some (if rq_method rq \<in> {MCL_HTTP_PUT, MCL_HTTP_PATCH} then 1 else 0) \<and>
     latest post_option curl = Some (if rq_method rq = MCL_HTTP_POST then 1 else 0) \<and>
     latest custom_request_option curl = Some (if rq_method rq = MCL_HTTP_PATCH then Some ''PATCH'' else None) \<and>
     latest in_file_size_option curl =
       Some (if rq_method rq \<in> {MCL_HTTP_PUT, MCL_HTTP_PATCH} \<and> \<not> chunked_request rq then int (rq_payload_size rq) else - 1) \<and>
     latest post_field_size_option curl =
       Some (if rq_method rq = MCL_HTTP_POST \<and> \<not> chunked_request rq then int (rq_payload_size rq) else - 1)"

lemma full_options_told:
  assumes "curl_method (rq_method rq)"
  shows "told rq (full_options c rq l)"
proof -
  note defs = told_def request_options_defs url_option_def custom_request_option_def in_file_size_option_def chunked_request_def
  consider "rq_method rq = MCL_HTTP_GET" | "rq_method rq = MCL_HTTP_POST" | "rq_method rq = MCL_HTTP_PUT"
    | "rq_method rq = MCL_HTTP_PATCH" using assms by (auto simp: curl_method_def)
  then show ?thesis by cases (cases "rq_stream_callback rq"; simp add: defs)+
qed

section \<open>Properties\<close>

text \<open>C15. An exchange over libcurl. For the methods GET, POST, PUT and PATCH, and when no allocation
  fails, one transfer is made, whatever the client sent before. libcurl is told the address, the
  method and the size of the payload, with the headers of the request in their order behind the one
  that announces chunks, where the payload has no size, and before the one that keeps libcurl from
  waiting. It gets the payload in order, in pieces as it asks for them: from the block of the
  request, never beyond its end, or from the callback of the user. A transfer that libcurl completes
  gives the response with the status, the header lines without their line ends and without the empty
  line, and the pieces of the body put together; the code of any other transfer is converted.\<close>

theorem curl_exchange_exact:
  assumes "curl_method (rq_method rq)" and "own_payload rq p" and "w_alloc w = []" and "proper_world w"
    and "whole_lines (coming w)"
  shows "\<exists>r k' w' q. run_state (curl_http_client_send k rq) w = (Some (r, k'), w') \<and>
    r = (if tr_code (coming w) = CURLE_OK
         then Ok (response_to (coming w) (line_texts (header_lines (tr_events (coming w)))))
         else Err (convert_to_mcl_return_code (tr_code (coming w)))) \<and>
    c_requests w' = c_requests w @ [q] \<and> told rq (cq_options q) \<and> cq_header q = request_header rq \<and>
    cq_body q = taken rq p (c_callback w) (asks (tr_events (coming w))) []"
proof -
  from run_curl_send [OF assms(1,2,4), of k] assms(3,5) obtain r k' w' l where s:
    "run_state (curl_http_client_send k rq) w = (Some (r, k'), w')" "made_request rq p w r k' w'"
    "r = (if tr_code (coming w) = CURLE_OK
       then Ok (response_to (coming w) (line_texts (header_lines (tr_events (coming w)))))
       else Err (convert_to_mcl_return_code (tr_code (coming w))))"
    "k' = k\<lparr>cc_curl := full_options (cc_curl k) rq (Some l)\<rparr>"
    by blast
  let ?q = "\<lparr>cq_options = cc_curl k', cq_header = request_header rq,
    cq_body = taken rq p (c_callback w) (asks (tr_events (coming w))) []\<rparr>"
  have "c_requests w' = c_requests w @ [?q]" using s(2) assms(3) by (auto simp: made_request_def)
  moreover have "told rq (cq_options ?q)" using s(4) full_options_told [OF assms(1)] by simp
  ultimately show ?thesis using s(1,3)
    by (intro exI [of _ r] exI [of _ k'] exI [of _ w'] exI [of _ ?q] conjI) simp_all
qed

text \<open>C16. No sequence of requests with the methods GET, POST, PUT and PATCH, whose payloads are written
  blocks of their sizes or come from a callback, leads a client over libcurl outside its memory, for
  all transfers that call back as libcurl documents and whatever allocations fail: every call returns,
  libcurl never reads a list of headers that was released, the callbacks stay in their blocks, and
  a payload is exactly as long as its response says. The headers a transfer sends are the last ones
  of a request: a failed allocation can lose the ones before it, but never changes or reorders any.\<close>

theorem curl_sends_safe:
  assumes "\<forall>rq \<in> set rqs. curl_method (rq_method rq) \<and> (\<exists>p. own_payload rq p)" and "proper_world w"
  shows "\<exists>rs k' w' qs. run_state (curl_sends k rqs) w = (Some (rs, k'), w') \<and> length rs = length rqs \<and>
    list_all sized_response rs \<and> c_requests w' = c_requests w @ qs \<and>
    (\<forall>q \<in> set qs. \<exists>rq \<in> set rqs. suffix (cq_header q) (request_header rq))"
  using assms by (rule run_curl_sends)

lemma set_options_unknown:
  "\<not> curl_method (rq_method rq) \<Longrightarrow>
     run_state (set_request_options curl rq) w = ((curl @ reset_request_options rq, None, None), w)"
  by (cases "rq_method rq") (simp_all add: curl_method_def set_request_options_def set_method_options_def)

text \<open>C40. A method that is none of GET, POST, PUT and PATCH is not refused: the transfer is made all the
  same, with the options that were set last. After a request whose list of headers was released,
  libcurl is thereby led to the released list.\<close>

theorem unknown_method_reads_released_list:
  assumes "curl_method (rq_method rq)" and "own_payload rq p" and "w_alloc w = []" and "proper_world w"
    and "whole_lines (coming w)" and "run_state (curl_http_client_send k rq) w = (Some (r, k'), w')"
    and "\<not> curl_method (rq_method other)"
  shows "fst (run_state (curl_http_client_send k' other) w') = None"
proof -
  from run_curl_send [OF assms(1,2,4), of k] assms(3,5,6) obtain l where s:
    "k' = k\<lparr>cc_curl := full_options (cc_curl k) rq (Some l)\<rparr>" "c_slists w' ! l = None" "w_alloc w' = []"
    by auto
  have "latest http_header_option (cc_curl k' @ reset_request_options other @ [CURLOPT_HEADERDATA, CURLOPT_WRITEDATA]) = Some (Some l)"
    using s(1) by (simp add: reset_request_options_def curl_options full_options_def request_options_def)
  then show ?thesis using s(2,3) assms(7)
    by (simp add: curl_http_client_send_def set_options_unknown Let_def curl_easy_perform_def slist_headers_def run_bind)
qed

section \<open>Examples\<close>

text \<open>A request that owns its payload, one of any other method, and a transfer that brings a response in pieces.\<close>

definition sample_put :: mcl_http_request_t where
  "sample_put = \<lparr>rq_header = [''Accept: x''], rq_payload = Some (map Some ''hello''), rq_payload_size = 5,
     rq_method = MCL_HTTP_PUT, rq_uri = Some ''https://h/x'', rq_stream_callback = None, rq_stream_data = None\<rparr>"

definition sample_bare :: "E_MCL_HTTP_METHOD \<Rightarrow> mcl_http_request_t" where
  "sample_bare m = \<lparr>rq_header = [''Authorization: t''], rq_payload = None, rq_payload_size = 0,
     rq_method = m, rq_uri = Some ''https://h/x'', rq_stream_callback = None, rq_stream_data = None\<rparr>"

definition sample_transfer :: transfer where
  "sample_transfer = \<lparr>tr_events = [Ask_Payload 2, Ask_Payload 10, Header_Line (''HTTP/1.1 200 OK'' @ crlf),
     Header_Line (''A: b'' @ crlf), Header_Line crlf, Body_Data ''h'', Body_Data ''i''], tr_code = CURLE_OK, tr_status = 200\<rparr>"

definition sample_curl_world :: "bool list \<Rightarrow> curl_world" where
  "sample_curl_world allocations = \<lparr>w_alloc = allocations, w_random = [], c_slists = [],
     c_transfers = [sample_transfer, sample_transfer], c_requests = [], c_callback = [],
     c_global_initialized = False, c_global_inits = 0\<rparr>"

definition new_curl_client :: curl_http_client_t where
  "new_curl_client = \<lparr>cc_curl = [], cc_certificates = []\<rparr>"

lemma sample_put_valid: "curl_method (rq_method sample_put)" "own_payload sample_put ''hello''"
  by (simp_all add: sample_put_def curl_method_def own_payload_def read_cells_def comp_def)

lemma sample_bare_valid: "curl_method (rq_method (sample_bare MCL_HTTP_GET))" "own_payload (sample_bare MCL_HTTP_GET) p"
  by (simp_all add: sample_bare_def curl_method_def own_payload_def)

lemma sample_world_valid:
  "w_alloc (sample_curl_world a) = a" "proper_world (sample_curl_world a)" "coming (sample_curl_world a) = sample_transfer"
  "whole_lines sample_transfer" "c_requests (sample_curl_world a) = []"
  by (simp_all add: sample_curl_world_def proper_world_def proper_transfer_def coming_def whole_lines_def
      sample_transfer_def crlf_def)

lemma sample_lines: "line_texts (header_lines (tr_events sample_transfer)) = [''HTTP/1.1 200 OK'', ''A: b'']"
  by (simp add: sample_transfer_def line_texts_def crlf_def CRLF_LENGTH_def c_text_def MCL_NULL_CHAR_def)

theorem curl_exchange_exact_witness:
  "\<exists>r k' w' q. run_state (curl_http_client_send new_curl_client sample_put) (sample_curl_world []) = (Some (r, k'), w') \<and>
     r = Ok \<lparr>rs_header = [''HTTP/1.1 200 OK'', ''A: b''], rs_payload = Some ''hi'', rs_payload_size = 2, rs_status_code = 200\<rparr> \<and>
     c_requests w' = [q] \<and> cq_header q = [''Accept: x'', ''Expect:''] \<and> cq_body q = ''hello''"
proof -
  have "response_to sample_transfer [''HTTP/1.1 200 OK'', ''A: b''] =
      \<lparr>rs_header = [''HTTP/1.1 200 OK'', ''A: b''], rs_payload = Some ''hi'', rs_payload_size = 2, rs_status_code = 200\<rparr>"
    by (simp add: response_to_def sample_transfer_def)
  moreover have "request_header sample_put = [''Accept: x'', ''Expect:'']"
    by (simp add: request_header_def chunked_request_def sample_put_def)
  moreover have "taken sample_put ''hello'' given (asks (tr_events sample_transfer)) [] = ''hello''" for given
    by (simp add: taken_def sample_put_def sample_transfer_def)
  moreover have "tr_code sample_transfer = CURLE_OK" by (simp add: sample_transfer_def)
  ultimately show ?thesis
    using curl_exchange_exact [OF sample_put_valid sample_world_valid(1,2), of new_curl_client]
    by (auto simp: sample_world_valid sample_lines)
qed

theorem curl_sends_safe_witness:
  "\<exists>rs k' w' qs. run_state (curl_sends new_curl_client [sample_put, sample_bare MCL_HTTP_GET])
       (sample_curl_world [True, False, True, False]) = (Some (rs, k'), w') \<and> length rs = 2 \<and>
     list_all sized_response rs \<and> c_requests w' = qs \<and>
     (\<forall>q \<in> set qs. suffix (cq_header q) [''Accept: x'', ''Expect:''] \<or> suffix (cq_header q) [''Authorization: t'', ''Expect:''])"
proof -
  have "request_header sample_put = [''Accept: x'', ''Expect:'']"
    "request_header (sample_bare MCL_HTTP_GET) = [''Authorization: t'', ''Expect:'']"
    by (simp_all add: request_header_def chunked_request_def sample_put_def sample_bare_def)
  moreover have "\<forall>rq \<in> set [sample_put, sample_bare MCL_HTTP_GET]. curl_method (rq_method rq) \<and> (\<exists>p. own_payload rq p)"
    using sample_put_valid sample_bare_valid by auto
  ultimately show ?thesis
    using curl_sends_safe [of "[sample_put, sample_bare MCL_HTTP_GET]" "sample_curl_world [True, False, True, False]" new_curl_client]
    by (auto simp: sample_world_valid simp del: curl_sends.simps)
qed

theorem unknown_method_reads_released_list_witness:
  "\<exists>r k' w'. run_state (curl_http_client_send new_curl_client sample_put) (sample_curl_world []) = (Some (r, k'), w') \<and>
     fst (run_state (curl_http_client_send k' (sample_bare MCL_HTTP_DELETE)) w') = None"
proof -
  have "\<not> curl_method (rq_method (sample_bare MCL_HTTP_DELETE))" by (simp add: sample_bare_def curl_method_def)
  moreover obtain r k' w' where s: "run_state (curl_http_client_send new_curl_client sample_put) (sample_curl_world []) = (Some (r, k'), w')"
    using run_curl_send [OF sample_put_valid sample_world_valid(2), of new_curl_client "[]"] by blast
  moreover have "whole_lines (coming (sample_curl_world []))" by (simp add: sample_world_valid)
  ultimately show ?thesis
    using unknown_method_reads_released_list [OF sample_put_valid sample_world_valid(1,2) _ s] by blast
qed

text \<open>
  Memory that runs out while the list of headers is made is not reported: here the request is sent,
  and answered, without the header with which it authorises itself.
\<close>

theorem headers_lost:
  "\<exists>r k' w' q. run_state (curl_http_client_send new_curl_client (sample_bare MCL_HTTP_GET)) (sample_curl_world [False]) =
     (Some (Ok r, k'), w') \<and> rs_status_code r = 200 \<and> c_requests w' = [q] \<and> cq_header q = [''Expect:'']"
proof -
  let ?w = "(sample_curl_world [False])\<lparr>w_alloc := [], c_slists := [Some [''Expect:'']]\<rparr>"
  let ?rq = "sample_bare MCL_HTTP_GET"
  have m: "rq_method ?rq = MCL_HTTP_GET" by (simp add: sample_bare_def)
  have o: "run_state (set_request_options [] ?rq) (sample_curl_world [False]) = (([] @ request_options ?rq (Some 0), None, Some 0), ?w)"
    by (simp add: set_request_options_def set_method_options_def m curl_slist_append_def run_malloc run_bind
        sample_curl_world_def request_options_def method_options_def)
      (simp add: sample_bare_def curl_slist_append_def run_malloc run_bind)
  have t: "coming ?w = sample_transfer" "c_callback ?w = []" "w_alloc ?w = []" "c_requests ?w = []"
    by (simp_all add: coming_def sample_curl_world_def)
  have "slist_headers (Some 0) (c_slists ?w) = Some [''Expect:'']" "proper_transfer (coming ?w)"
    using sample_world_valid(2,3) [of "[]"] coming_proper [of "sample_curl_world []"] by (simp_all add: slist_headers_def t)
  from run_perform [OF sample_bare_valid(1,2) this, of "[]" "[]"] sample_world_valid(4) obtain ex given where p:
    "run_state (curl_easy_perform (full_options [] ?rq (Some 0)) (fresh_exchange ?rq)) ?w =
      (Some (CURLE_OK, 200, ex), ?w\<lparr>w_alloc := [], c_callback := given, c_transfers := tl (c_transfers ?w),
        c_requests := [\<lparr>cq_options = full_options [] ?rq (Some 0), cq_header = [''Expect:''], cq_body = ex_body ex\<rparr>]\<rparr>)"
    "holds (body_text_of (tr_events sample_transfer)) (ex_payload ex)"
    unfolding t by (auto simp: sample_transfer_def)
  let ?w1 = "released (Some 0) (?w\<lparr>w_alloc := [], c_callback := given, c_transfers := tl (c_transfers ?w),
        c_requests := [\<lparr>cq_options = full_options [] ?rq (Some 0), cq_header = [''Expect:''], cq_body = ex_body ex\<rparr>]\<rparr>)"
  have "CURLE_OK = CURLE_OK \<longrightarrow> holds (body_text_of (tr_events sample_transfer)) (ex_payload ex)" using p(2) by simp
  then obtain r as where r: "run_state (response_of CURLE_OK (tr_status sample_transfer) ex) ?w1 = (Some r, ?w1\<lparr>w_alloc := as\<rparr>)"
    "w_alloc ?w1 = [] \<longrightarrow> as = [] \<and> r = (if CURLE_OK = CURLE_OK then Ok (response_to sample_transfer (ex_header ex))
       else Err (convert_to_mcl_return_code CURLE_OK))"
    by (rule run_response_of)
  then have r': "run_state (response_of CURLE_OK 200 ex) ?w1 = (Some (Ok (response_to sample_transfer (ex_header ex))), ?w1\<lparr>w_alloc := []\<rparr>)"
    by (simp add: sample_transfer_def)
  have fresh: "\<lparr>ex_header = [], ex_payload = \<lparr>lp_data = None, lp_size = 0\<rparr>, ex_context = None, ex_body = []\<rparr> = fresh_exchange ?rq"
    by (simp add: fresh_exchange_def method_context_def m)
  have full: "([] @ request_options ?rq (Some 0)) @ [CURLOPT_HEADERDATA] @ [CURLOPT_WRITEDATA] = full_options [] ?rq (Some 0)"
    by (simp add: full_options_def)
  have "run_state (curl_http_client_send new_curl_client ?rq) (sample_curl_world [False]) =
      (Some (Ok (response_to sample_transfer (ex_header ex)), new_curl_client\<lparr>cc_curl := full_options [] ?rq (Some 0)\<rparr>),
       ?w1\<lparr>w_alloc := []\<rparr>)"
    using o p(1) r' full fresh by (simp add: curl_http_client_send_def Let_def new_curl_client_def)
  moreover have "rs_status_code (response_to sample_transfer (ex_header ex)) = 200"
    by (simp add: response_to_def Let_def sample_transfer_def)
  ultimately show ?thesis by fastforce
qed

end
