(* ===== verification/MclCurlTrust.thy ===== *)
theory MclCurlTrust
  imports MclCurlProps
begin

text \<open>
  What the client over libcurl makes of the server: that every request of every client is made with the
  checks of the server's certificate its initialisation turned on, and which certificates OpenSSL is
  given for them.
\<close>

section \<open>What no request changes\<close>

text \<open>The options that make libcurl check the server, set once and never again.\<close>

definition verification_option :: "curl_option \<Rightarrow> bool" where
  "verification_option p = (case p of
     CURLOPT_SSL_VERIFYHOST _ \<Rightarrow> True | CURLOPT_SSL_VERIFYPEER _ \<Rightarrow> True | CURLOPT_SSLVERSION _ \<Rightarrow> True
   | CURLOPT_SSL_CIPHER_LIST _ \<Rightarrow> True | _ \<Rightarrow> False)"

definition checks_server :: "CURL \<Rightarrow> bool" where
  "checks_server curl \<longleftrightarrow> filter verification_option curl =
     [CURLOPT_SSL_CIPHER_LIST SUPPORTED_CIPHERS_LIST, CURLOPT_SSLVERSION CURL_SSLVERSION_TLSv1_2,
      CURLOPT_SSL_VERIFYHOST 2, CURLOPT_SSL_VERIFYPEER 1]"

definition plain :: "CURL \<Rightarrow> bool" where
  "plain curl \<longleftrightarrow> list_all (\<lambda>p. \<not> verification_option p) curl"

lemma plain_keeps [simp]: "plain opts \<Longrightarrow> checks_server (curl @ opts) = checks_server curl"
  by (simp add: checks_server_def plain_def filter_empty_conv list_all_iff)

lemma plain_parts [simp]:
  "plain []" "plain (xs @ ys) \<longleftrightarrow> plain xs \<and> plain ys" "plain (p # xs) \<longleftrightarrow> \<not> verification_option p \<and> plain xs"
  by (simp_all add: plain_def)

text \<open>A computation that makes no request.\<close>

definition no_request :: "('z curl_world_ext, 'a) io \<Rightarrow> bool" where
  "no_request m \<longleftrightarrow> (\<forall>w. c_requests (snd (run_state m w)) = c_requests w)"

named_theorems no_requests

lemma no_requestD: "no_request m \<Longrightarrow> run_state m w = (x, w') \<Longrightarrow> c_requests w' = c_requests w"
  unfolding no_request_def by (metis snd_conv)

lemma no_request_return [no_requests]: "no_request (State_Monad.return x)"
  by (simp add: no_request_def)

lemma no_request_bind [no_requests]:
  "no_request m \<Longrightarrow> (\<And>x. no_request (f x)) \<Longrightarrow> no_request (State_Monad.bind m f)"
  unfolding no_request_def by (auto simp: run_bind split: prod.split dest: no_requestD [unfolded no_request_def])

lemma no_request_if [no_requests]: "no_request m \<Longrightarrow> no_request n \<Longrightarrow> no_request (if b then m else n)"
  by simp

lemma no_request_option [no_requests]:
  "no_request m \<Longrightarrow> (\<And>x. no_request (f x)) \<Longrightarrow> no_request (case p of None \<Rightarrow> m | Some x \<Rightarrow> f x)"
  by (cases p) simp_all

lemma no_request_prod [no_requests]: "(\<And>x y. no_request (f x y)) \<Longrightarrow> no_request (case p of (x, y) \<Rightarrow> f x y)"
  by (cases p) simp

lemma no_request_bool [no_requests]: "no_request m \<Longrightarrow> no_request n \<Longrightarrow> no_request (case b of True \<Rightarrow> m | False \<Rightarrow> n)"
  by (cases b) simp_all

lemma no_request_malloc [no_requests]: "no_request mcl_malloc"
  by (simp add: no_request_def run_malloc split: list.split)

lemma no_request_memory [no_requests]: "no_request (mcl_memory_malloc n)" "no_request (mcl_memory_realloc n)"
  unfolding mcl_memory_malloc_def mcl_memory_realloc_def by (intro no_requests)+

lemma no_request_slist [no_requests]: "no_request (curl_slist_append l s)" "no_request (curl_slist_free_all l)"
proof -
  show "no_request (curl_slist_append l s)" unfolding curl_slist_append_def
    by (intro no_requests) (simp add: no_request_def split: option.split)
  show "no_request (curl_slist_free_all l)" by (simp add: no_request_def)
qed

lemma no_request_header [no_requests]: "no_request (append_request_headers lines l)"
  by (induction lines arbitrary: l) (simp_all add: no_requests)

lemma no_request_callbacks [no_requests]:
  "no_request (response_header_callback line m n hs)" "no_request (response_payload_callback data m n payload)"
  unfolding response_header_callback_def response_payload_callback_def Let_def by (intro no_requests)+

lemma no_request_ask [no_requests]: "no_request (ask_payload curl n ex)"
proof -
  have "no_request (stream_callback n)" by (simp add: no_request_def stream_callback_def split: list.split)
  then show ?thesis unfolding ask_payload_def
    by (auto intro!: no_requests split: option.split curl_read_function.split curl_read_data.split)
qed

lemma no_request_events [no_requests]: "no_request (curl_events curl es ex)"
proof (induction es arbitrary: ex)
  case (Cons e es)
  have "no_request (curl_event_step curl e ex)"
    unfolding curl_event_step_def by (cases e) (auto intro!: no_requests)
  then show ?case using Cons by (auto intro!: no_requests)
qed (simp add: no_requests)

lemma no_request_response [no_requests]: "no_request (response_of code status ex)"
  unfolding response_of_def mcl_http_response_initialize_def by (intro no_requests)

text \<open>The options of any request, of a method libcurl is told or not.\<close>

lemma plain_reset: "plain (reset_request_options rq)"
  by (simp add: reset_request_options_def verification_option_def)

lemma plain_request: "plain (request_options rq l)"
  by (auto simp: request_options_def plain_reset method_options_def payload_options_def set_in_file_size_def
      verification_option_def split: option.split)

lemma unknown_method: "\<not> curl_method (rq_method rq) \<Longrightarrow> set_method_options c rq = None"
  by (cases "rq_method rq") (simp_all add: curl_method_def set_method_options_def)

lemma run_any_request_options:
  obtains opts ctx l w' where "run_state (set_request_options curl rq) w = ((curl @ opts, ctx, l), w')" "plain opts"
proof (cases "curl_method (rq_method rq)")
  case True
  obtain l w' where "run_state (set_request_options curl rq) w = ((curl @ request_options rq l, method_context rq, l), w')"
    using True by (rule run_request_options)
  then show thesis using plain_request by (rule that)
next
  case False
  then show thesis using plain_reset
    by (intro that [of "reset_request_options rq" None None w]) (simp_all add: set_request_options_def unknown_method)
qed

lemma listing_requests: "listing w w' \<Longrightarrow> c_requests w' = c_requests w"
  unfolding listing_def by (drule arg_cong [where f = c_requests]) simp

lemma no_request_options: "no_request (set_request_options curl rq)"
proof (cases "curl_method (rq_method rq)")
  case True
  show ?thesis unfolding no_request_def
  proof
    fix w
    obtain l w' where "run_state (set_request_options curl rq) w = ((curl @ request_options rq l, method_context rq, l), w')"
        "listed w w' l (request_header rq)"
      using True by (rule run_request_options)
    then show "c_requests (snd (run_state (set_request_options curl rq) w)) = c_requests w"
      by (simp add: listed_def listing_requests)
  qed
next
  case False
  then show ?thesis by (simp add: no_request_def set_request_options_def unknown_method)
qed

text \<open>A transfer makes one request, with the options of the handle.\<close>

lemma perform_requests:
  "\<exists>qs. c_requests (snd (run_state (curl_easy_perform curl ex) w)) = c_requests w @ qs \<and> (\<forall>q \<in> set qs. cq_options q = curl)"
proof -
  have events: "c_requests w' = c_requests u" if "run_state (curl_events curl es x) u = (r, w')" for es x u r w'
    using no_request_events that by (rule no_requestD)
  show ?thesis
    by (auto simp: curl_easy_perform_def run_bind run_next_transfer record_request_def split: option.split prod.split dest: events)
qed

lemma run_any_send:
  assumes "run_state (curl_http_client_send k rq) w = (Some (r, k'), w')"
  obtains opts qs where "cc_curl k' = cc_curl k @ opts" "plain opts" "c_requests w' = c_requests w @ qs"
    "\<forall>q \<in> set qs. cq_options q = cc_curl k'"
proof -
  obtain opts ctx l w1 where o: "run_state (set_request_options (cc_curl k) rq) w = ((cc_curl k @ opts, ctx, l), w1)" "plain opts"
    by (rule run_any_request_options)
  have w1: "c_requests w1 = c_requests w" using no_request_options o(1) by (rule no_requestD)
  obtain a w2 where a: "run_state mcl_malloc w1 = (a, w2)" by fastforce
  have w2: "c_requests w2 = c_requests w1" using no_request_malloc a by (rule no_requestD)
  obtain b w3 where b: "run_state (if a then mcl_malloc else State_Monad.return False) w2 = (b, w3)" by fastforce
  have "no_request (if a then mcl_malloc else State_Monad.return False)" by (intro no_requests)
  from this b have w3: "c_requests w3 = c_requests w2" by (rule no_requestD)
  let ?more = "(if a then [CURLOPT_HEADERDATA] else []) @ (if b then [CURLOPT_WRITEDATA] else [])"
  let ?curl = "(cc_curl k @ opts) @ ?more"
  let ?ex = "\<lparr>ex_header = [], ex_payload = \<lparr>lp_data = None, lp_size = 0\<rparr>, ex_context = ctx, ex_body = []\<rparr>"
  have k': "cc_curl k' = cc_curl k @ opts @ ?more" "plain (opts @ ?more)"
    if "k' = k\<lparr>cc_curl := ?curl\<rparr>" using that o(2) by (simp_all add: verification_option_def)
  show thesis
  proof (cases b)
    case False
    then have "k' = k\<lparr>cc_curl := ?curl\<rparr>" "w' = released l w3"
      using assms o(1) a b by (auto simp: curl_http_client_send_def Let_def)
    then show thesis using k' w1 w2 w3 by (intro that [of "opts @ ?more" "[]"]) simp_all
  next
    case True
    obtain p w4 where p: "run_state (curl_easy_perform ?curl ?ex) w3 = (p, w4)" by fastforce
    obtain qs where qs: "c_requests w4 = c_requests w3 @ qs" "\<forall>q \<in> set qs. cq_options q = ?curl"
      using perform_requests [of ?curl ?ex w3] p by auto
    obtain code status ex where some: "p = Some (code, status, ex)"
      using assms o(1) a b p True by (cases p) (auto simp: curl_http_client_send_def Let_def)
    obtain r' w5 where r: "run_state (response_of code status ex) (released l w4) = (r', w5)" by fastforce
    have "c_requests w5 = c_requests (released l w4)" using no_request_response r by (rule no_requestD)
    moreover have "k' = k\<lparr>cc_curl := ?curl\<rparr>" "w' = w5"
      using assms o(1) a b p True some r by (auto simp: curl_http_client_send_def Let_def)
    ultimately show thesis using k' w1 w2 w3 qs by (intro that [of "opts @ ?more" qs]) simp_all
  qed
qed

section \<open>A client and its calls\<close>

lemma run_add_certificate:
  assumes "run_state (curl_http_client_add_certificate (Some k) certificate is_file) w = ((code, Some k'), w')"
  obtains opts where "cc_curl k' = cc_curl k @ opts" "plain opts" "c_requests w' = c_requests w"
proof -
  have "no_request (curl_http_client_add_certificate (Some k) certificate is_file)"
    unfolding curl_http_client_add_certificate_def on_pointer_def Let_def
    by (cases certificate) (auto intro!: no_requests)
  then have "c_requests w' = c_requests w" using assms by (rule no_requestD)
  moreover have "\<exists>opts. cc_curl k' = cc_curl k @ opts \<and> plain opts"
  proof (cases certificate)
    case None
    then have "k' = k" using assms by (simp add: curl_http_client_add_certificate_def)
    then show ?thesis by (intro exI [of _ "[]"]) simp
  next
    case (Some content)
    obtain a1 w1 where 1: "run_state mcl_malloc w = (a1, w1)" by fastforce
    obtain a2 w2 where 2: "run_state (if a1 then mcl_malloc else State_Monad.return False) w1 = (a2, w2)" by fastforce
    obtain a3 w3 where 3: "run_state (if a2 then mcl_malloc else State_Monad.return False) w2 = (a3, w3)" by fastforce
    let ?opts = "if \<not> a3 then [] else if length (cc_certificates k @ [(content, is_file)]) = 1 \<and> is_file
      then [CURLOPT_CAINFO content] else [CURLOPT_SSL_CTX_DATA, CURLOPT_SSL_CTX_FUNCTION]"
    have "cc_curl k' = cc_curl k @ ?opts"
      using assms Some 1 2 3 by (auto simp: curl_http_client_add_certificate_def Let_def)
    moreover have "plain ?opts" by (simp add: verification_option_def)
    ultimately show ?thesis by blast
  qed
  ultimately show thesis using that by blast
qed

text \<open>What calls on a client lead to: certificates that are added and requests that are sent.\<close>

inductive client_reaches ::
  "curl_http_client_t \<Rightarrow> 'z curl_world_scheme \<Rightarrow> curl_http_client_t \<Rightarrow> 'z curl_world_scheme \<Rightarrow> bool"
  for k w where
  start: "client_reaches k w k w"
| certificate: "client_reaches k w k1 w1 \<Longrightarrow>
    run_state (curl_http_client_add_certificate (Some k1) certificate is_file) w1 = ((code, Some k2), w2) \<Longrightarrow>
    client_reaches k w k2 w2"
| request: "client_reaches k w k1 w1 \<Longrightarrow> run_state (curl_http_client_send k1 rq) w1 = (Some (r, k2), w2) \<Longrightarrow>
    client_reaches k w k2 w2"

lemma reached_checks:
  assumes "client_reaches k w k' w'" and "checks_server (cc_curl k)"
  shows "checks_server (cc_curl k') \<and>
    (\<exists>qs. c_requests w' = c_requests w @ qs \<and> (\<forall>q \<in> set qs. checks_server (cq_options q)))"
  using assms(1)
proof (induction rule: client_reaches.induct)
  case start
  show ?case using assms(2) by (intro conjI exI [of _ "[]"]) simp_all
next
  case (certificate k1 w1 c f code k2 w2)
  obtain opts where "cc_curl k2 = cc_curl k1 @ opts" "plain opts" "c_requests w2 = c_requests w1"
    using certificate.hyps(2) by (rule run_add_certificate)
  with certificate.IH show ?case by simp
next
  case (request k1 w1 rq r k2 w2)
  obtain opts qs where "cc_curl k2 = cc_curl k1 @ opts" "plain opts" "c_requests w2 = c_requests w1 @ qs"
      "\<forall>q \<in> set qs. cq_options q = cc_curl k2"
    using request.hyps(2) by (rule run_any_send)
  with request.IH show ?case by fastforce
qed

section \<open>Initialisation\<close>

text \<open>The name of the user at the proxy fills its block.\<close>

lemma proxy_username_exact:
  assumes "cstring domain" and "cstring username"
  shows "proxy_entire_username domain username = Some (map Some (cstr (domain @ DOMAIN_SEPERATOR # username)))"
    "block_string (map Some (cstr (domain @ DOMAIN_SEPERATOR # username))) = Some (domain @ DOMAIN_SEPERATOR # username)"
proof -
  have "cstring (domain @ DOMAIN_SEPERATOR # username)"
    using assms by (simp add: cstring_def DOMAIN_SEPERATOR_def MCL_NULL_CHAR_def)
  then show "block_string (map Some (cstr (domain @ DOMAIN_SEPERATOR # username))) = Some (domain @ DOMAIN_SEPERATOR # username)"
    by (rule block_string_exact)
  have block: "fresh_block (length domain + length username + 1 + 1) =
      fresh_block (length domain) @ None # fresh_block (length username + 1)"
    using replicate_add [of "length domain" "Suc (length username + 1)" None] by (simp add: fresh_block_def)
  show "proxy_entire_username domain username = Some (map Some (cstr (domain @ DOMAIN_SEPERATOR # username)))"
    unfolding proxy_entire_username_def Let_def block
    by (simp add: string_util_memcpy_def store_def cstr_def list_update_append)
qed

definition proxy_strings :: "mcl_http_client_configuration_t \<Rightarrow> bool" where
  "proxy_strings c \<longleftrightarrow> (\<forall>s. hcc_proxy_domain c = Some s \<or> hcc_proxy_username c = Some s \<longrightarrow> cstring s)"

lemma run_proxy_options:
  assumes "proxy_strings c"
  obtains code opts w' where "run_state (proxy_options c) w = (Some (code, opts), w')" "plain opts" "c_requests w' = c_requests w"
proof -
  obtain a w1 where a: "run_state mcl_malloc w = (a, w1)" by fastforce
  have w1: "c_requests w1 = c_requests w" using no_request_malloc a by (rule no_requestD)
  show thesis
  proof (cases "hcc_proxy_hostname c")
    case None
    then show thesis by (intro that [of MCL_OK "[]" w]) (simp_all add: proxy_options_def)
  next
    case host: (Some host)
    let ?proxy = "[CURLOPT_PROXY host, CURLOPT_PROXYPORT (hcc_proxy_port c), CURLOPT_PROXYTYPE (hcc_proxy_type c),
      CURLOPT_PROXYAUTH CURLAUTH_ANY]"
    show thesis
    proof (cases "hcc_proxy_username c")
      case None
      with host show thesis
        by (intro that [of MCL_OK ?proxy w]) (simp_all add: proxy_options_def verification_option_def)
    next
      case user: (Some user)
      show thesis
      proof (cases "hcc_proxy_domain c")
        case None
        with host user show thesis
          by (intro that [of MCL_OK "?proxy @ [CURLOPT_PROXYUSERNAME user, CURLOPT_PROXYPASSWORD (hcc_proxy_password c)]" w])
            (simp_all add: proxy_options_def verification_option_def)
      next
        case (Some domain)
        let ?code = "if a then MCL_OK else MCL_OUT_OF_MEMORY"
        let ?opts = "?proxy @ (if a then [CURLOPT_PROXYUSERNAME (domain @ DOMAIN_SEPERATOR # user)] else []) @
          [CURLOPT_PROXYPASSWORD (hcc_proxy_password c)]"
        have "cstring domain" "cstring user" using assms Some user by (auto simp: proxy_strings_def)
        then have "run_state (proxy_options c) w = (Some (?code, ?opts), w1)"
          using host user Some a by (simp add: proxy_options_def proxy_username_exact Let_def)
        then show thesis by (rule that) (use w1 in \<open>simp_all add: verification_option_def\<close>)
      qed
    qed
  qed
qed

lemma initial_checks: "checks_server (initial_options c)"
  by (simp add: checks_server_def initial_options_def verification_option_def)

text \<open>Initialisation returns whatever fails, and a client it makes checks the server.\<close>

lemma run_curl_initialize:
  assumes "proxy_strings c"
  shows "\<exists>code client w'. run_state (curl_http_client_initialize (Some c)) w = (Some (code, client), w') \<and>
    (client \<noteq> None \<longleftrightarrow> code = MCL_OK) \<and> c_requests w' = c_requests w \<and>
    (\<forall>k. client = Some k \<longrightarrow> checks_server (cc_curl k))"
proof -
  obtain a w1 where a: "run_state mcl_malloc w = (a, w1)" by fastforce
  have w1: "c_requests w1 = c_requests w" using no_request_malloc a by (rule no_requestD)
  obtain l w2 where l: "run_state (if a then mcl_malloc else State_Monad.return False) w1 = (l, w2)" by fastforce
  have "no_request (if a then mcl_malloc else State_Monad.return False)" by (intro no_requests)
  from this l have w2: "c_requests w2 = c_requests w1" by (rule no_requestD)
  show ?thesis
  proof (cases l)
    case False
    then show ?thesis using a l w1 w2 by (simp add: curl_http_client_initialize_def)
  next
    case True
    obtain w3 where g: "run_state curl_global_init_once w2 = ((), w3)" "c_requests w3 = c_requests w2"
      by (auto simp: curl_global_init_once_def)
    obtain h w4 where h: "run_state mcl_malloc w3 = (h, w4)" by fastforce
    have w4: "c_requests w4 = c_requests w3" using no_request_malloc h by (rule no_requestD)
    let ?k = "\<lparr>cc_curl = initial_options c, cc_certificates = []\<rparr>"
    obtain code k w5 where s: "run_state (if hcc_certificate c = None then State_Monad.return (MCL_OK, Some ?k)
        else curl_http_client_add_certificate (Some ?k) (hcc_certificate c) (hcc_certificate_is_file c)) w4 = ((code, Some k), w5)"
      "checks_server (cc_curl k)" "c_requests w5 = c_requests w4"
    proof (cases "hcc_certificate c = None")
      case True
      then show thesis using initial_checks by (intro that [of MCL_OK ?k w4]) simp_all
    next
      case False
      obtain code k w5 where s: "run_state (curl_http_client_add_certificate (Some ?k) (hcc_certificate c) (hcc_certificate_is_file c)) w4 =
          ((code, Some k), w5)"
        by (cases "run_state (curl_http_client_add_certificate (Some ?k) (hcc_certificate c) (hcc_certificate_is_file c)) w4")
          (auto simp: curl_http_client_add_certificate_def split: prod.splits)
      from s obtain opts where "cc_curl k = cc_curl ?k @ opts" "plain opts" "c_requests w5 = c_requests w4"
        by (rule run_add_certificate)
      with s initial_checks show thesis by (intro that [of code k w5]) (simp_all add: False)
    qed
    obtain code' opts w6 where p: "run_state (proxy_options c) w5 = (Some (code', opts), w6)" "plain opts" "c_requests w6 = c_requests w5"
      using assms by (rule run_proxy_options)
    have "run_state (curl_http_client_initialize (Some c)) w =
        (if \<not> h then (Some (MCL_FAIL, None), w4) else if code \<noteq> MCL_OK then (Some (code, None), w5)
         else if code' \<noteq> MCL_OK then (Some (code', None), w6)
         else (Some (MCL_OK, Some (k\<lparr>cc_curl := cc_curl k @ opts\<rparr>)), w6))"
      using a l True g(1) h s(1) p(1) by (simp add: curl_http_client_initialize_def Let_def)
    then show ?thesis using w1 w2 g(2) w4 s(2,3) p(2,3) by (cases h; cases "code = MCL_OK"; cases "code' = MCL_OK") simp_all
  qed
qed

text \<open>C17. A client over libcurl never stops checking the server. Whatever is done with a client after its
  initialisation, certificates added and requests of any method sent, in any order and with any
  failure, every transfer it makes has the certificate of the server and its host name verified, TLS
  1.2 at least and only the supported ciphers: these options are set once and never changed.\<close>

theorem curl_always_checks_server:
  assumes "run_state (curl_http_client_initialize (Some c)) w = (Some (MCL_OK, Some k), w1)" and "proxy_strings c"
    and "client_reaches k w1 k' w'"
  shows "\<exists>qs. c_requests w' = c_requests w @ qs \<and> (\<forall>q \<in> set qs. checks_server (cq_options q))"
proof -
  have "c_requests w1 = c_requests w" "checks_server (cc_curl k)"
    using run_curl_initialize [OF assms(2), of w] assms(1) by auto
  with reached_checks [OF assms(3)] show ?thesis by simp
qed

definition sample_curl_configuration :: mcl_http_client_configuration_t where
  "sample_curl_configuration = \<lparr>hcc_certificate = None, hcc_certificate_is_file = False, hcc_proxy_hostname = None,
     hcc_proxy_username = None, hcc_proxy_password = None, hcc_proxy_domain = None, hcc_user_agent = Some ''agent'',
     hcc_http_request_timeout = 300, hcc_port = 443, hcc_proxy_port = 0, hcc_proxy_type = 0\<rparr>"

theorem curl_always_checks_server_witness:
  "\<exists>k w1 k' w' q. run_state (curl_http_client_initialize (Some sample_curl_configuration)) (sample_curl_world []) =
       (Some (MCL_OK, Some k), w1) \<and> client_reaches k w1 k' w' \<and> c_requests w' = [q] \<and> checks_server (cq_options q)"
proof -
  let ?w1 = "(sample_curl_world [])\<lparr>c_global_initialized := True, c_global_inits := 1\<rparr>"
  let ?k = "\<lparr>cc_curl = initial_options sample_curl_configuration, cc_certificates = []\<rparr>"
  have initialised: "run_state (curl_http_client_initialize (Some sample_curl_configuration)) (sample_curl_world []) =
      (Some (MCL_OK, Some ?k), ?w1)"
    by (simp add: curl_http_client_initialize_def run_bind sample_curl_world_def curl_global_init_once_def
        sample_curl_configuration_def proxy_options_def Let_def)
  have "proper_world ?w1" "w_alloc ?w1 = []" "coming ?w1 = sample_transfer" "c_requests ?w1 = []"
    using sample_world_valid(1-3,5) [of "[]"] by (simp_all add: proper_world_def coming_def)
  with run_curl_send [OF sample_put_valid, of ?w1 ?k] sample_world_valid(4) obtain r k' w' where sent:
    "run_state (curl_http_client_send ?k sample_put) ?w1 = (Some (r, k'), w')" "made_request sample_put ''hello'' ?w1 r k' w'"
    by auto
  have reached: "client_reaches ?k ?w1 k' w'" using client_reaches.start sent(1) by (rule client_reaches.request)
  obtain q where q: "c_requests w' = [q]"
    using sent(2) \<open>c_requests ?w1 = []\<close> by (auto simp: made_request_def)
  have "proxy_strings sample_curl_configuration" by (simp add: proxy_strings_def sample_curl_configuration_def)
  from curl_always_checks_server [OF initialised this reached] q have "checks_server (cq_options q)"
    using sample_world_valid(5) [of "[]"] by simp
  with initialised reached q show ?thesis by blast
qed

section \<open>Certificates\<close>

text \<open>
  When OpenSSL was given the certificates without an error, every one of them could be read, and every
  certificate in it is in the store, or was when it was added.
\<close>

lemma add_infos_all:
  "add_infos ssl infos st = (CURLE_OK, st') \<Longrightarrow> set st \<subseteq> set st' \<and> INFO_NULL \<notin> set infos \<and>
    (\<forall>x. INFO_X509 x \<in> set infos \<longrightarrow> INFO_X509 x \<in> set st' \<or> (\<exists>st1. ossl_add_cert ssl st1 x = STORE_ALREADY_IN)) \<and>
    (\<forall>x. INFO_CRL x \<in> set infos \<longrightarrow> INFO_CRL x \<in> set st')"
proof (induction infos arbitrary: st)
  case (Cons info infos)
  show ?case
  proof (cases info)
    case (INFO_X509 x)
    with Cons.prems Cons.IH show ?thesis by (cases "ossl_add_cert ssl st x") fastforce+
  next
    case (INFO_CRL x)
    with Cons.prems have "add_infos ssl infos (st @ [INFO_CRL x]) = (CURLE_OK, st')" by (simp split: if_splits)
    from Cons.IH [OF this] INFO_CRL show ?thesis by auto
  qed (use Cons.prems Cons.IH in auto)
qed simp

theorem certificates_all_or_error:
  assumes "ssl_context_callback ssl certificates st = (CURLE_OK, st')" and "(content, is_file) \<in> set certificates"
  shows "\<exists>infos. ossl_read ssl content is_file = PEM_INFO infos \<and> INFO_NULL \<notin> set infos \<and>
    (\<forall>x. INFO_X509 x \<in> set infos \<longrightarrow> INFO_X509 x \<in> set st' \<or> (\<exists>st1. ossl_add_cert ssl st1 x = STORE_ALREADY_IN)) \<and>
    (\<forall>x. INFO_CRL x \<in> set infos \<longrightarrow> INFO_CRL x \<in> set st')"
proof -
  have more: "set st \<subseteq> set st'" if "add_certificates ssl cs st = (CURLE_OK, st')" for cs st
    using that
  proof (induction cs arbitrary: st)
    case (Cons c cs)
    then show ?case using add_infos_all
      by (cases c) (fastforce split: bio_reading.splits prod.splits if_splits)
  qed simp
  have "add_certificates ssl certificates st = (CURLE_OK, st')"
    using assms by (auto simp: ssl_context_callback_def split: if_splits)
  then show ?thesis using assms(2)
  proof (induction certificates arbitrary: st)
    case (Cons c cs)
    obtain content1 is_file1 where c: "c = (content1, is_file1)" by (cases c)
    obtain infos st1 where s: "ossl_read ssl content1 is_file1 = PEM_INFO infos" "add_infos ssl infos st = (CURLE_OK, st1)"
        "add_certificates ssl cs st1 = (CURLE_OK, st')"
      using Cons.prems(1) by (auto simp: c split: bio_reading.splits prod.splits if_splits)
    show ?case
    proof (cases "(content, is_file) = c")
      case True
      then show ?thesis using add_infos_all [OF s(2)] more [OF s(3)] s(1) c by blast
    next
      case False
      then show ?thesis using Cons.IH [OF s(3)] Cons.prems(2) by simp
    qed
  qed simp
qed

end
