(* ===== verification/Spec2Isabelle.thy ===== *)
theory Spec2Isabelle
  imports MclListRefine MclBase64 MclTime MclJson MclItemSize MclItemParse MclMultipartProps MclStoreUpload MclMapping
    MclCoreSafe MclDataLakeProps MclDeploymentProps
    MclBasicProps MclCurlTrust
begin

text \<open>
  MindConnect Library: a C client with which a device registers at MindSphere (\<open>mcl_core\<close>), keeps its
  credentials and access tokens, uploads what it has collected (\<open>mcl_connectivity\<close>), stores objects in
  the data lake (\<open>mcl_data_lake\<close>) and follows deployment workflows (\<open>mcl_deployment\<close>). This library models the C code of these parts and proves what makes
  it correct, or where it is not.

  \<^bold>\<open>Parts and how they interact.\<close> A program configures the core (\<open>core_configuration.c\<close>) and
  initialises it (\<open>core.c\<close>); the core processor (\<open>core_processor.c\<close>) registers the device at the
  server over HTTP, rotates its key, and asks for access tokens with a self-issued token (\<open>jwt.c\<close>) that
  the security handler signs (\<open>security_handler.c\<close>, \<open>hmac.c\<close>, the OpenSSL backend). With the token the
  connectivity processor (\<open>connectivity_processor.c\<close>) uploads items (timeseries, events, files, custom
  data, data source configurations) one by one or collected in a store (\<open>store.c\<close>), each as a tuple of a
  multipart message (\<open>multipart.c\<close>) whose documents \<open>json.c\<close> builds; it creates mappings and reads
  configurations back; the handle (\<open>connectivity.c\<close>) ties it to a core and its last token. The data lake
  library asks with the same token for addresses of objects and uploads to them; the deployment library
  lists workflows, reads one and reports the state of the device. Below them are the linked list, strings, base64, time, random identifiers, the
  JSON utilities and HTTP messages.

  \<^bold>\<open>Theories.\<close> Each models the file of the same purpose; operations keep their C names.
    \<^item> \<^verbatim>\<open>MclPrelude\<close>: error codes, results, blocks of memory cells, bounded loops.
    \<^item> \<^verbatim>\<open>MclList\<close>, \<^verbatim>\<open>MclCursor\<close>, \<^verbatim>\<open>MclListRefine\<close> (\<open>list.c\<close>): nodes in a heap, the locale of lists with
      a cursor, and the refinement of a sequence with a cursor by the heap.
    \<^item> \<^verbatim>\<open>MclString\<close> (\<open>string_util.c\<close>), \<^verbatim>\<open>MclBase64\<close> (\<open>base64.c\<close>, with a locale for an alphabet that both
      tables interpret), \<^verbatim>\<open>MclTime\<close> (\<open>time_util.c\<close>), \<^verbatim>\<open>MclRandom\<close> (\<open>random.c\<close>), \<^verbatim>\<open>MclJson\<close>
      (\<open>json_util.c\<close> over the tree and the printer of cJSON).
    \<^item> \<^verbatim>\<open>MclWorld\<close>, \<^verbatim>\<open>MclFrame\<close>, \<^verbatim>\<open>MclNetwork\<close>: the state monad of everything with effects. A world scripts
      the outcomes of allocations, random bytes, answers of the server, key pairs and callbacks, and
      records what was sent and saved; the collection \<open>frame\<close> says what a statement leaves alone.
    \<^item> \<^verbatim>\<open>MclItems\<close> (the item files), \<^verbatim>\<open>MclItemJson\<close> (\<open>json.c\<close>) with \<^verbatim>\<open>MclItemSpec\<close> (the documents),
      \<^verbatim>\<open>MclItemSize\<close> (their estimated size) and \<^verbatim>\<open>MclItemParse\<close> (reading them back).
    \<^item> \<^verbatim>\<open>MclMultipart\<close>, \<^verbatim>\<open>MclMultipartProps\<close> (\<open>multipart.c\<close>), \<^verbatim>\<open>MclHttp\<close> (\<open>http_request.c\<close>,
      \<open>http_response.c\<close>, \<open>http_definitions.c\<close>), \<^verbatim>\<open>MclStore\<close> (\<open>store.c\<close> and the traversals of a store).
    \<^item> \<^verbatim>\<open>MclExchange\<close>, \<^verbatim>\<open>MclExchangeProps\<close>, \<^verbatim>\<open>MclUpload\<close>, \<^verbatim>\<open>MclStoreUpload\<close>, \<^verbatim>\<open>MclMapping\<close>
      (\<open>connectivity_processor.c\<close>): the exchange of an item or a store, mappings, configurations.
    \<^item> \<^verbatim>\<open>MclHmac\<close> (\<open>hmac.c\<close>), \<^verbatim>\<open>MclSecurity\<close> (\<open>security_handler.c\<close>, \<open>security_libcrypto.c\<close>), \<^verbatim>\<open>MclJwt\<close>,
      \<^verbatim>\<open>MclJwtProps\<close> (\<open>jwt.c\<close>), \<^verbatim>\<open>MclCoreConfiguration\<close>, \<^verbatim>\<open>MclCoreProcessor\<close>, \<^verbatim>\<open>MclCore\<close>: the core;
      \<^verbatim>\<open>MclCoreProps\<close> (onboarding and rotation), \<^verbatim>\<open>MclCoreSafe\<close> (histories of calls).
    \<^item> \<^verbatim>\<open>MclConnectivity\<close> (\<open>connectivity.c\<close>, \<open>connectivity_configuration.c\<close>): the handle over a memory of
      cores, from the configuration to the request; \<^verbatim>\<open>MclDataLake\<close> and \<^verbatim>\<open>MclDataLakeProps\<close>
      (\<open>src/mcl_data_lake/src\<close>): objects, the two documents, the requests, configuration and handle.
    \<^item> \<^verbatim>\<open>MclDeployment\<close> (the workflow files of \<open>src/mcl_deployment/src\<close>, filter and configuration),
      \<^verbatim>\<open>MclDeploymentJson\<close> (\<open>deployment_json.c\<close>) with \<^verbatim>\<open>MclDeploymentDocs\<close> (what documents say, and that
      they are read), \<^verbatim>\<open>MclDeploymentProcessor\<close> (\<open>deployment_processor.c\<close>, \<open>deployment.c\<close>) with
      \<^verbatim>\<open>MclDeploymentProps\<close> (addresses, requests, the report of a state).
    \<^item> \<^verbatim>\<open>MclTlsSocket\<close> (\<open>tls_socket_mbedtls.c\<close>) and, over it, the basic HTTP client
      (\<open>http_client_basic.c\<close>): \<^verbatim>\<open>MclBasicSend\<close>, \<^verbatim>\<open>MclBasicReceive\<close>, \<^verbatim>\<open>MclBasicClient\<close>, with
      \<^verbatim>\<open>MclBasicSendProps\<close> (the text of a request), \<^verbatim>\<open>MclBasicReceiveProps\<close> (safety),
      \<^verbatim>\<open>MclBasicRoundTrip\<close> (responses) and \<^verbatim>\<open>MclBasicProps\<close>.
    \<^item> The HTTP client over libcurl (\<open>http_client_libcurl.c\<close>): \<^verbatim>\<open>MclCurl\<close> (libcurl as far as it is used, the
      callbacks), \<^verbatim>\<open>MclCurlClient\<close> (options, transfers, sending), \<^verbatim>\<open>MclCurlSetup\<close> (initialisation, proxy,
      certificates), with the lemmas of \<^verbatim>\<open>MclCurlSend\<close> and \<^verbatim>\<open>MclCurlExchange\<close> and the properties in
      \<^verbatim>\<open>MclCurlProps\<close> and \<^verbatim>\<open>MclCurlTrust\<close>. \<^verbatim>\<open>MclHttpClient\<close> is what both clients take, \<^verbatim>\<open>MclMemory\<close> the
      memory functions (\<open>memory.c\<close>). A call of a client gives a response or a code, which is what an entry
      of the script of answers in \<^verbatim>\<open>MclNetwork\<close> is for the parts above.

  \<^bold>\<open>How states correspond.\<close> A structure is a record with the fields of the C structure; a pointer that
  may be \<open>NULL\<close> is an option; a field that was never written is \<open>None\<close> inside its cell; a double
  is a whole number, or its whole part and its printed text. A function that
  returns a code and fills an output gives a result (\<open>Err\<close> or \<open>Ok\<close>), or the pair of the code and the
  object where it is left partly changed. An access outside a block, to released or unwritten memory or
  through \<open>NULL\<close> is \<open>None\<close> of the whole operation; a theorem that gives \<open>Some\<close> is memory safety. Buffers
  are lists of cells. Sizes are words where the code's arithmetic can wrap (\<open>json_get_item_size\<close>, the
  store), naturals elsewhere, with \<open>mod 2 ^ 32\<close> where a length is cast.

  \<^bold>\<open>What the lemmas show.\<close> The list refines a sequence and frees every node; the searches are sound and
  miss matches; base64 is RFC 4648 and round trips; HMAC is RFC 2104; the token decodes to its documents and carries
  the signature under the secret or the key; documents are built, estimated and read back; a multipart tuple is the exact text and
  stays in its buffer; an exchange ends, loses items only with an accepted request and empties a store of
  uploadable items while the server accepts; an
  onboarding takes over all of an answer or nothing; a history of calls on a core in
  which no answer has a \<open>null\<close> for a credential does not go wrong; a handle
  sends with the last token of its core; every data lake object gets the address of its path; workflows are asked for at the right
  address and read as the document says them; the basic client writes exactly the request and reads exactly
  the response however the connection cuts them, and, as long as the stack holds zeros where it
  reads chunk sizes into, no server makes it leave its buffers for a request that passes its checks; the client over
  libcurl hands over every header and payload and puts the response together, stays in its memory for any
  sequence of requests of the methods it knows and with payloads that are there, and never stops checking the server. The
  theorems of kind error pin down defects of the code.

  \<^bold>\<open>Fuel.\<close> Loops over a store run with the number of its items plus one (\<open>fill_body\<close>, the loop over the
  requests): each turn that goes on takes an item, so the fuel is enough, and \<open>store_exchange_returns\<close>
  proves that the result is there. Traversals of a list stop at its end. The loops of the basic client run
  with one turn more than the bytes that are to come, the entries of the script of writes, or the
  answers of the callback: a turn that goes on takes one, and \<open>basic_client_safe\<close> proves that it is enough.

  \<^bold>\<open>Arguments of the model.\<close> The parser of cJSON, the hash and the RSA functions of OpenSSL, what calls of
  mbedTLS return, the transfers libcurl makes (with the options set on it recorded, and its documented
  treatment of what callbacks return), the contents of
  files and what the user's callbacks return are not code of this library; they are arguments or scripts,
  and what is relied on (a hash has 32 bytes, the answer of the server is a document the parser reads so, libcurl calls back as
  documented) is a hypothesis of the theorem and named in its text.

  \<^bold>\<open>Not modelled.\<close> The socket of mbed OS (C++), the mbedTLS backend (almost only calls of mbedTLS), the parser of
  cJSON (third-party), logging, the file wrappers (calls of the C library), examples and tests. Functions that only release memory are not modelled, except those of the
  list.
\<close>

end
